(* ===== verification/Settlement_Prelude.thy ===== *)
theory Settlement_Prelude
  imports Complex_Main "HOL-Library.Sublist"
begin

text \<open>
  The prelude of the development. It holds what every component shares:
  \<^item> the error values of the Go code and the sequencing of fallible steps;
  \<^item> the JSON values that audit payloads and request digests are made of;
  \<^item> database tables as lists of rows, with the four statement forms the code issues
    (a single-row query, a conditional update, a conditional delete, an insert that is
    refused by a unique key), and the laws of tables whose rows carry a key;
  \<^item> transactions: a command either fails and leaves the store as it was, or commits.
\<close>

section \<open>Collections of rules\<close>

named_theorems res_inv \<open>inversion of a successful or failed result\<close>
named_theorems row_simps \<open>selectors of updated rows\<close>
named_theorems frame_simps \<open>what a command leaves unchanged\<close>

section \<open>Errors and results\<close>

text \<open>
  The sentinel errors of package service, in the order the code declares them, and the ways
  a statement of the database layer can fail that the code tells apart. Messages are
  dropped: callers only test the sentinel with \<open>errors.Is\<close>. \<open>NilDereference\<close> is a
  run-time panic: the deferred rollback runs and the request ends without a result.
\<close>

datatype go_err =
    ErrNotFound | ErrConflict | ErrInvalid | ErrForbidden | ErrDependency
  | ErrImportBlocked | ErrNativeFinancialDisabled | ErrNativeFinancialConsumed
  | ErrCreditSyncNotSubscribed | ErrCreditSyncAuthorization | ErrLicensePaused
  | ErrPublisherMissing | ErrPublish | ErrTransport | ErrTimeParse
  | SqlNoRows | SqlDuplicate | SqlForeignKey | SqlNullScan | NilDereference

type_synonym 'a res = "go_err + 'a"

text \<open>One fallible step followed by the rest of the function: \<open>if err != nil { return err }\<close>.\<close>

definition andThen :: "'e + 'a \<Rightarrow> ('a \<Rightarrow> 'e + 'b) \<Rightarrow> 'e + 'b" where
  "andThen m k = (case m of Inl e \<Rightarrow> Inl e | Inr x \<Rightarrow> k x)"

definition isOk :: "'e + 'a \<Rightarrow> bool" where
  "isOk m = (case m of Inl _ \<Rightarrow> False | Inr _ \<Rightarrow> True)"

lemma andThen_Inr [simp]: "andThen (Inr x) k = k x"
  by (simp add: andThen_def)

lemma andThen_Inl [simp]: "andThen (Inl e) k = Inl e"
  by (simp add: andThen_def)

lemma isOk_simps [simp]: "isOk (Inr x)" "\<not> isOk (Inl e)"
  by (simp_all add: isOk_def)

lemma andThen_eq_Inr [res_inv]:
  "andThen m k = Inr y \<longleftrightarrow> (\<exists>x. m = Inr x \<and> k x = Inr y)"
  by (cases m) auto

lemma andThen_eq_Inl [res_inv]:
  "andThen m k = Inl e \<longleftrightarrow> m = Inl e \<or> (\<exists>x. m = Inr x \<and> k x = Inl e)"
  by (cases m) auto

lemma guard_eq_Inr [res_inv]:
  "(if c then Inl e else m) = Inr y \<longleftrightarrow> \<not> c \<and> m = Inr y"
  by auto

lemma branch_eq_Inr: "(if c then Inr x else m) = Inr y \<longleftrightarrow> (if c then x = y else m = Inr y)"
  by simp

lemma case_option_eq_Inr:
  "(case x of None \<Rightarrow> Inl e | Some y \<Rightarrow> k y) = Inr z \<longleftrightarrow> (\<exists>y. x = Some y \<and> k y = Inr z)"
  by (cases x) auto

lemma andThen_cong [fundef_cong]:
  "m = m' \<Longrightarrow> (\<And>x. m' = Inr x \<Longrightarrow> k x = k' x) \<Longrightarrow> andThen m k = andThen m' k'"
  by (cases m') auto

lemma andThen_assoc: "andThen (andThen m k) h = andThen m (\<lambda>x. andThen (k x) h)"
  by (cases m) auto

text \<open>Two results that agree in whether they failed, and in a part of the value.\<close>

definition resMap :: "('a \<Rightarrow> 'b) \<Rightarrow> 'e + 'a \<Rightarrow> 'e + 'b" where
  "resMap f m = andThen m (\<lambda>x. Inr (f x))"

lemma resMap_simps [simp]: "resMap f (Inr x) = Inr (f x)" "resMap f (Inl e) = Inl e"
  by (simp_all add: resMap_def)

section \<open>JSON values\<close>

text \<open>
  The values that \<open>json.Marshal\<close> is applied to: audit and command payloads
  (\<open>map[string]any\<close>) and the request structs whose digest binds an idempotency key.
  An object is an association list in the order the source writes its fields.
\<close>

datatype json =
    JStr string | JInt int | JBool bool | JNull
  | JArr "json list" | JObj "(string \<times> json) list"

type_synonym payload = "(string \<times> json) list"

definition jget :: "payload \<Rightarrow> string \<Rightarrow> json option" where
  "jget m k = map_of m k"

definition jset :: "string \<Rightarrow> json \<Rightarrow> payload \<Rightarrow> payload" where
  "jset k v m = (k, v) # filter (\<lambda>kv. fst kv \<noteq> k) m"

lemma jget_filter_neq: "jget (filter (\<lambda>kv. fst kv \<noteq> k) m) k' = (if k' = k then None else jget m k')"
  by (induction m) (auto simp: jget_def)

lemma jget_jset [simp]: "jget (jset k v m) k' = (if k' = k then Some v else jget m k')"
  using jget_filter_neq [of k m k'] by (auto simp: jset_def jget_def)

section \<open>Tables\<close>

text \<open>\<open>QueryRowContext(...).Scan\<close>: the first matching row, or the caller's error for no row.\<close>

definition query_row :: "'e \<Rightarrow> ('r \<Rightarrow> bool) \<Rightarrow> 'r list \<Rightarrow> 'e + 'r" where
  "query_row e P t = (case find P t of None \<Rightarrow> Inl e | Some r \<Rightarrow> Inr r)"

definition exists_row :: "('r \<Rightarrow> bool) \<Rightarrow> 'r list \<Rightarrow> bool" where
  "exists_row P t = list_ex P t"

definition update_rows :: "('r \<Rightarrow> bool) \<Rightarrow> ('r \<Rightarrow> 'r) \<Rightarrow> 'r list \<Rightarrow> 'r list" where
  "update_rows P f t = map (\<lambda>r. if P r then f r else r) t"

definition affected :: "('r \<Rightarrow> bool) \<Rightarrow> 'r list \<Rightarrow> nat" where
  "affected P t = length (filter P t)"

definition delete_rows :: "('r \<Rightarrow> bool) \<Rightarrow> 'r list \<Rightarrow> 'r list" where
  "delete_rows P t = filter (\<lambda>r. \<not> P r) t"

text \<open>\<open>clash r r'\<close> says that the new row \<open>r\<close> repeats a unique key of the stored row \<open>r'\<close>.\<close>

definition insert_row :: "('r \<Rightarrow> 'r \<Rightarrow> bool) \<Rightarrow> 'r \<Rightarrow> 'r list \<Rightarrow> 'r list res" where
  "insert_row clash r t = (if list_ex (clash r) t then Inl SqlDuplicate else Inr (t @ [r]))"

definition sum_rows :: "('r \<Rightarrow> bool) \<Rightarrow> ('r \<Rightarrow> int) \<Rightarrow> 'r list \<Rightarrow> int" where
  "sum_rows P g t = (\<Sum>r\<leftarrow>filter P t. g r)"

text \<open>
  \<open>ORDER BY\<close>: the rows in the order of a strict comparison, and the first of them
  (\<open>LIMIT 1\<close>), where \<open>before a b\<close> says that \<open>a\<close> comes before \<open>b\<close>.
\<close>

fun best :: "('r \<Rightarrow> 'r \<Rightarrow> bool) \<Rightarrow> 'r list \<Rightarrow> 'r option" where
  "best before [] = None"
| "best before (r # rs) = (case best before rs of None \<Rightarrow> Some r
                           | Some m \<Rightarrow> if before m r then Some m else Some r)"

fun insertBy :: "('r \<Rightarrow> 'r \<Rightarrow> bool) \<Rightarrow> 'r \<Rightarrow> 'r list \<Rightarrow> 'r list" where
  "insertBy before r [] = [r]"
| "insertBy before r (x # xs) = (if before r x then r # x # xs else x # insertBy before r xs)"

definition orderBy :: "('r \<Rightarrow> 'r \<Rightarrow> bool) \<Rightarrow> 'r list \<Rightarrow> 'r list" where
  "orderBy before rs = foldr (insertBy before) rs []"

subsection \<open>Laws of the statements\<close>

lemma find_SomeD: "find P t = Some r \<Longrightarrow> r \<in> set t \<and> P r"
  by (auto simp: find_Some_iff)

lemma find_snoc:
  "find P (t @ [r]) = (case find P t of None \<Rightarrow> if P r then Some r else None | Some x \<Rightarrow> Some x)"
  by (induction t) auto

lemma best_in: "best before rs = Some r \<Longrightarrow> r \<in> set rs"
  by (induction rs arbitrary: r) (auto split: option.splits if_splits)

lemma best_None [simp]: "best before rs = None \<longleftrightarrow> rs = []"
  by (cases rs) (auto split: option.splits)

lemma set_insertBy [simp]: "set (insertBy before r rs) = insert r (set rs)"
  by (induction rs) auto

lemma set_orderBy [simp]: "set (orderBy before rs) = set rs"
  by (induction rs) (auto simp: orderBy_def)

lemma length_insertBy [simp]: "length (insertBy before r rs) = Suc (length rs)"
  by (induction rs) auto

lemma length_orderBy [simp]: "length (orderBy before rs) = length rs"
  by (induction rs) (auto simp: orderBy_def)

lemma query_row_Inr [res_inv]: "query_row e P t = Inr r \<longleftrightarrow> find P t = Some r"
  by (simp add: query_row_def split: option.splits)

lemma query_row_Inl [res_inv]:
  "query_row e P t = Inl e' \<longleftrightarrow> e' = e \<and> (\<forall>r \<in> set t. \<not> P r)"
  by (auto simp: query_row_def find_None_iff split: option.splits dest: find_SomeD)

lemma query_rowD: "query_row e P t = Inr r \<Longrightarrow> r \<in> set t \<and> P r"
  by (auto simp: query_row_Inr dest: find_SomeD)

lemma exists_row_iff [simp]: "exists_row P t \<longleftrightarrow> (\<exists>r \<in> set t. P r)"
  by (simp add: exists_row_def list_ex_iff)

lemma insert_row_Inr [res_inv]:
  "insert_row clash r t = Inr t' \<longleftrightarrow> t' = t @ [r] \<and> (\<forall>x \<in> set t. \<not> clash r x)"
  by (auto simp: insert_row_def list_ex_iff)

lemma insert_row_Inl [res_inv]:
  "insert_row clash r t = Inl e \<longleftrightarrow> e = SqlDuplicate \<and> (\<exists>x \<in> set t. clash r x)"
  by (auto simp: insert_row_def list_ex_iff)

lemma update_rows_Nil [simp]: "update_rows P f [] = []"
  by (simp add: update_rows_def)

lemma update_rows_append [simp]: "update_rows P f (t @ u) = update_rows P f t @ update_rows P f u"
  by (simp add: update_rows_def)

lemma set_update_rows:
  "set (update_rows P f t) = f ` {r \<in> set t. P r} \<union> {r \<in> set t. \<not> P r}"
  by (auto simp: update_rows_def)

lemma in_update_rowsE:
  assumes "r \<in> set (update_rows P f t)"
  obtains r' where "r' \<in> set t" "r = (if P r' then f r' else r')"
  using assms by (auto simp: update_rows_def)

lemma in_update_rowsI: "r \<in> set t \<Longrightarrow> (if P r then f r else r) \<in> set (update_rows P f t)"
  by (auto simp: update_rows_def)

lemma map_update_rows_key: "(\<And>r. P r \<Longrightarrow> k (f r) = k r) \<Longrightarrow> map k (update_rows P f t) = map k t"
  by (simp add: update_rows_def)

lemma update_rows_none: "(\<And>r. r \<in> set t \<Longrightarrow> \<not> P r) \<Longrightarrow> update_rows P f t = t"
  by (simp add: update_rows_def map_idI)

lemma sum_rows_append [simp]: "sum_rows P g (t @ u) = sum_rows P g t + sum_rows P g u"
  by (simp add: sum_rows_def)

lemma sum_rows_simps [simp]:
  "sum_rows P g [] = 0"
  "sum_rows P g (r # t) = (if P r then g r else 0) + sum_rows P g t"
  by (simp_all add: sum_rows_def)

lemma sum_rows_nonneg: "(\<And>r. r \<in> set t \<Longrightarrow> P r \<Longrightarrow> 0 \<le> g r) \<Longrightarrow> 0 \<le> sum_rows P g t"
  by (induction t) auto

lemma sum_rows_cong:
  "(\<And>r. r \<in> set t \<Longrightarrow> P r = Q r) \<Longrightarrow> (\<And>r. r \<in> set t \<Longrightarrow> Q r \<Longrightarrow> g r = h r) \<Longrightarrow>
   sum_rows P g t = sum_rows Q h t"
  by (induction t) auto

lemma sum_rows_zero: "(\<And>r. r \<in> set t \<Longrightarrow> \<not> P r) \<Longrightarrow> sum_rows P g t = 0"
  by (induction t) auto

lemma sum_rows_mono_filter:
  "(\<And>r. r \<in> set t \<Longrightarrow> P r \<Longrightarrow> Q r) \<Longrightarrow> (\<And>r. r \<in> set t \<Longrightarrow> Q r \<Longrightarrow> 0 \<le> g r) \<Longrightarrow>
   sum_rows P g t \<le> sum_rows Q g t"
  by (induction t) fastforce+

text \<open>An update whose rows keep their contribution does not change the sum.\<close>

lemma sum_rows_update_same:
  assumes "\<And>r. r \<in> set t \<Longrightarrow> Q r \<Longrightarrow> P (f r) = P r \<and> (P r \<longrightarrow> g (f r) = g r)"
  shows "sum_rows P g (update_rows Q f t) = sum_rows P g t"
  using assms by (induction t) (auto simp: update_rows_def)

subsection \<open>Tables with a key\<close>

text \<open>
  The contract of a table whose rows carry a primary key. The statement forms above are the
  operations; what a client may rely on is stated once here and used through the
  interpretations on the row types of the store.
\<close>

definition keyed :: "('r \<Rightarrow> 'k) \<Rightarrow> 'r list \<Rightarrow> bool" where
  "keyed key t = distinct (map key t)"

locale keyed_table =
  fixes key :: "'r \<Rightarrow> 'k" and clash :: "'r \<Rightarrow> 'r \<Rightarrow> bool"
  assumes clash_key: "key r = key r' \<Longrightarrow> clash r r'"
begin

lemma insert_keyed: "keyed key t \<Longrightarrow> insert_row clash r t = Inr t' \<Longrightarrow> keyed key t'"
  using clash_key by (fastforce simp: keyed_def insert_row_Inr)

lemma update_keyed:
  "keyed key t \<Longrightarrow> (\<And>r. P r \<Longrightarrow> key (f r) = key r) \<Longrightarrow> keyed key (update_rows P f t)"
  by (simp add: keyed_def map_update_rows_key)

lemma delete_keyed: "keyed key t \<Longrightarrow> keyed key (delete_rows P t)"
  by (simp add: keyed_def delete_rows_def distinct_map_filter)

lemma row_unique: "keyed key t \<Longrightarrow> r \<in> set t \<Longrightarrow> r' \<in> set t \<Longrightarrow> key r = key r' \<Longrightarrow> r = r'"
  by (auto simp: keyed_def distinct_map inj_on_def)

text \<open>The row just written is the row that is read back, and no other row is touched.\<close>

lemma find_update_key:
  assumes "keyed key t" "r \<in> set t" "\<And>x. key x = key r \<Longrightarrow> key (f x) = key x"
  shows "find (\<lambda>x. key x = key r) (update_rows (\<lambda>x. key x = key r) f t) = Some (f r)"
  using assms
proof (induction t)
  case (Cons a t)
  then show ?case
    by (cases "key a = key r") (auto simp: keyed_def update_rows_def image_iff)
qed simp

lemma find_insert_key:
  "insert_row clash r t = Inr t' \<Longrightarrow> find (\<lambda>x. key x = key r) t' = Some r"
proof -
  assume "insert_row clash r t = Inr t'"
  then have t': "t' = t @ [r]" and none: "\<forall>x \<in> set t. \<not> clash r x"
    by (auto simp: insert_row_Inr)
  from none have "\<forall>x \<in> set t. key x \<noteq> key r"
    using clash_key by metis
  then have "find (\<lambda>x. key x = key r) (t @ [r]) = Some r"
    by (induction t) auto
  then show ?thesis by (simp add: t')
qed

text \<open>A statement that selects a present row by a condition that implies its key.\<close>

lemma update_by_key:
  assumes "keyed key t" "r \<in> set t" "P r" "\<And>x. P x \<Longrightarrow> key x = key r"
  shows "update_rows P f t = update_rows (\<lambda>x. key x = key r) f t"
proof -
  have "P x \<longleftrightarrow> key x = key r" if "x \<in> set t" for x
    using assms that row_unique by metis
  then show ?thesis by (simp add: update_rows_def)
qed

lemma find_by_key:
  assumes "keyed key t" "r \<in> set t" "P r" "\<And>x. P x \<Longrightarrow> key x = key r"
  shows "find P t = Some r"
proof -
  obtain r' where r': "find P t = Some r'"
    using assms(2,3) by (cases "find P t") (auto simp: find_None_iff)
  then have "r' \<in> set t" "P r'" by (auto dest: find_SomeD)
  with assms have "r' = r" using row_unique by metis
  with r' show ?thesis by simp
qed

text \<open>A sum over the table changes by exactly what the one updated row contributes.\<close>

lemma sum_update_key:
  assumes "keyed key t" "r \<in> set t"
  shows "sum_rows P g (update_rows (\<lambda>x. key x = key r) f t) =
         sum_rows P g t - (if P r then g r else 0) + (if P (f r) then g (f r) else 0)"
  using assms
proof (induction t)
  case (Cons a t)
  show ?case
  proof (cases "a = r")
    case True
    with Cons.prems have "\<And>x. x \<in> set t \<Longrightarrow> key x \<noteq> key r"
      by (auto simp: keyed_def) (metis imageI)
    then have "update_rows (\<lambda>x. key x = key r) f t = t"
      by (rule update_rows_none)
    with True show ?thesis by (simp add: update_rows_def)
  next
    case False
    with Cons.prems have "r \<in> set t" "key a \<noteq> key r"
      by (auto simp: keyed_def)
    with Cons show ?thesis by (simp add: update_rows_def keyed_def)
  qed
qed simp

lemma sum_update_by_key:
  assumes "keyed key t" "r \<in> set t" "Q r" "\<And>x. Q x \<Longrightarrow> key x = key r"
  shows "sum_rows P g (update_rows Q f t) =
         sum_rows P g t - (if P r then g r else 0) + (if P (f r) then g (f r) else 0)"
proof -
  have "update_rows Q f t = update_rows (\<lambda>x. key x = key r) f t"
    by (rule update_by_key [of t r Q f]) (fact assms)+
  then show ?thesis using sum_update_key [OF assms(1,2)] by simp
qed

text \<open>The rows after a statement that rewrites one row.\<close>

lemma in_update_by_key:
  assumes "keyed key t" "r \<in> set t" "P r" "\<And>x. P x \<Longrightarrow> key x = key r"
    and "y \<in> set (update_rows P f t)"
  shows "y = f r \<or> (y \<in> set t \<and> key y \<noteq> key r)"
proof -
  from assms(5) obtain x where x: "x \<in> set t" "y = (if P x then f x else x)"
    by (rule in_update_rowsE)
  show ?thesis
  proof (cases "key x = key r")
    case True
    with assms(1,2) x(1) have "x = r" using row_unique by metis
    with x assms(3) show ?thesis by simp
  next
    case False
    with assms(4) x show ?thesis by auto
  qed
qed

text \<open>Leaving one key out of a sum.\<close>

lemma sum_except:
  assumes "keyed key t" "r \<in> set t"
  shows "sum_rows (\<lambda>x. P x \<and> key x \<noteq> key r) g t = sum_rows P g t - (if P r then g r else 0)"
  using assms
proof (induction t)
  case (Cons a t)
  show ?case
  proof (cases "a = r")
    case True
    with Cons.prems have "\<And>x. x \<in> set t \<Longrightarrow> key x \<noteq> key r"
      by (auto simp: keyed_def) (metis imageI)
    then have "sum_rows (\<lambda>x. P x \<and> key x \<noteq> key r) g t = sum_rows P g t"
      by (intro sum_rows_cong) auto
    with True show ?thesis by simp
  next
    case False
    with Cons.prems have "r \<in> set t" "key a \<noteq> key r"
      by (auto simp: keyed_def)
    with Cons show ?thesis by (simp add: keyed_def)
  qed
qed simp

text \<open>Adding an amount to the summand of one key.\<close>

lemma sum_point:
  assumes "keyed key t" "r \<in> set t"
  shows "sum_rows P (\<lambda>x. g x + (if key x = key r then v else 0)) t =
         sum_rows P g t + (if P r then v else 0)"
  using assms
proof (induction t)
  case (Cons a t)
  show ?case
  proof (cases "a = r")
    case True
    with Cons.prems have "\<And>x. x \<in> set t \<Longrightarrow> key x \<noteq> key r"
      by (auto simp: keyed_def) (metis imageI)
    then have "sum_rows P (\<lambda>x. g x + (if key x = key r then v else 0)) t = sum_rows P g t"
      by (intro sum_rows_cong) auto
    with True show ?thesis by simp
  next
    case False
    with Cons.prems have "r \<in> set t" "key a \<noteq> key r"
      by (auto simp: keyed_def)
    with Cons show ?thesis by (simp add: keyed_def)
  qed
qed simp

end

section \<open>Transactions and runs of commands\<close>

text \<open>
  A command is a function from the store to an error or a new store. Every handler of the
  service opens one transaction and rolls it back on each error return, so a failed command
  leaves the store as it was.
\<close>

definition commit :: "('s \<Rightarrow> 'e + ('a \<times> 's)) \<Rightarrow> 's \<Rightarrow> 's" where
  "commit c s = (case c s of Inl _ \<Rightarrow> s | Inr (_, s') \<Rightarrow> s')"

fun run_commands :: "('c \<Rightarrow> 's \<Rightarrow> 'e + ('a \<times> 's)) \<Rightarrow> 'c list \<Rightarrow> 's \<Rightarrow> 's" where
  "run_commands exec [] s = s"
| "run_commands exec (c # cs) s = run_commands exec cs (commit (exec c) s)"

text \<open>
  The contract between the commands of a component and an invariant of its store; \<open>wf\<close>
  says which requests are well formed.
\<close>

locale tx_commands =
  fixes exec :: "'c \<Rightarrow> 's \<Rightarrow> 'e + ('a \<times> 's)" and wf :: "'c \<Rightarrow> bool" and inv :: "'s \<Rightarrow> bool"
  assumes exec_inv: "inv s \<Longrightarrow> wf c \<Longrightarrow> exec c s = Inr (a, s') \<Longrightarrow> inv s'"
begin

lemma commit_inv: "inv s \<Longrightarrow> wf c \<Longrightarrow> inv (commit (exec c) s)"
  by (auto simp: commit_def split: sum.splits dest: exec_inv)

lemma run_inv: "inv s \<Longrightarrow> (\<And>c. c \<in> set cs \<Longrightarrow> wf c) \<Longrightarrow> inv (run_commands exec cs s)"
  by (induction cs arbitrary: s) (auto intro: commit_inv)

lemma run_append: "run_commands exec (cs @ ds) s = run_commands exec ds (run_commands exec cs s)"
  by (induction cs arbitrary: s) auto

end

end
