(* ===== verification/GoText.thy ===== *)
theory GoText
  imports Settlement_Prelude
begin

text \<open>
  Go strings as byte lists, and the parts of packages strings, unicode/utf8 and strconv that
  the service validates its input with: trimming of Unicode white space, the number of runes,
  upper case, decimal digits, and \<open>strconv.ParseUint(s, 10, 64)\<close>.
\<close>

section \<open>Bytes and UTF-8\<close>

definition byte :: "char \<Rightarrow> nat" where
  "byte c = of_char c"

definition inRange :: "nat \<Rightarrow> nat \<Rightarrow> char \<Rightarrow> bool" where
  "inRange lo hi c \<longleftrightarrow> lo \<le> byte c \<and> byte c \<le> hi"

definition cont :: "char \<Rightarrow> bool" where
  "cont c = inRange 0x80 0xBF c"

text \<open>
  The length of the well-formed UTF-8 sequence at the head of a string, and 0 where the head
  byte does not start one; then Go decodes the single byte as \<open>RuneError\<close>.
\<close>

fun seqLen :: "string \<Rightarrow> nat" where
  "seqLen [] = 0"
| "seqLen (a # s) =
    (if byte a < 0x80 then 1
     else case s of
       [] \<Rightarrow> 0
     | b # s2 \<Rightarrow>
        if inRange 0xC2 0xDF a \<and> cont b then 2
        else case s2 of
          [] \<Rightarrow> 0
        | c # s3 \<Rightarrow>
           if cont c \<and> (byte a = 0xE0 \<and> inRange 0xA0 0xBF b
                       \<or> (inRange 0xE1 0xEC a \<or> inRange 0xEE 0xEF a) \<and> cont b
                       \<or> byte a = 0xED \<and> inRange 0x80 0x9F b) then 3
           else case s3 of
             [] \<Rightarrow> 0
           | d # _ \<Rightarrow>
              if cont c \<and> cont d \<and> (byte a = 0xF0 \<and> inRange 0x90 0xBF b
                       \<or> inRange 0xF1 0xF3 a \<and> cont b
                       \<or> byte a = 0xF4 \<and> inRange 0x80 0x8F b) then 4
              else 0)"

definition runeLen :: "string \<Rightarrow> nat" where
  "runeLen s = (if seqLen s = 0 then 1 else seqLen s)"

lemma runeLen_pos [simp]: "0 < runeLen s"
  by (simp add: runeLen_def)

lemma seqLen_le: "seqLen s \<le> length s"
  by (cases s rule: seqLen.cases) (auto split: list.splits)

lemma runeLen_le: "s \<noteq> [] \<Longrightarrow> runeLen s \<le> length s"
  using seqLen_le [of s] by (cases s) (auto simp: runeLen_def)

text \<open>\<open>len([]rune(s))\<close>.\<close>

function runeCount :: "string \<Rightarrow> nat" where
  "runeCount s = (if s = [] then 0 else Suc (runeCount (drop (runeLen s) s)))"
  by pat_completeness auto
termination
  by (relation "measure length") auto

declare runeCount.simps [simp del]

lemma runeCount_Nil [simp]: "runeCount [] = 0"
  by (simp add: runeCount.simps)

lemma runeCount_le_length: "runeCount s \<le> length s"
proof (induction s rule: runeCount.induct)
  case (1 s)
  show ?case
  proof (cases "s = []")
    case False
    have "runeCount (drop (runeLen s) s) \<le> length s - runeLen s"
      using "1.IH" False by simp
    moreover have "runeCount s = Suc (runeCount (drop (runeLen s) s))"
      using False by (simp add: runeCount.simps [of s])
    ultimately show ?thesis
      using runeLen_pos [of s] runeLen_le [OF False] by linarith
  qed simp
qed

text \<open>\<open>utf8.ValidString\<close>.\<close>

function validUtf8 :: "string \<Rightarrow> bool" where
  "validUtf8 s =
     (if s = [] then True else if seqLen s = 0 then False else validUtf8 (drop (runeLen s) s))"
  by pat_completeness auto
termination
  by (relation "measure length") auto

declare validUtf8.simps [simp del]

text \<open>
  Some rune of the string is a control character (\<open>unicode.IsControl\<close>): the C0 block,
  DEL, or the C1 block, which UTF-8 writes as the byte C2 and one of 80 to 9F.
\<close>

function hasControl :: "string \<Rightarrow> bool" where
  "hasControl s =
     (case s of [] \<Rightarrow> False
      | a # t \<Rightarrow> byte a < 0x20 \<or> byte a = 0x7F
               \<or> (byte a = 0xC2 \<and> t \<noteq> [] \<and> inRange 0x80 0x9F (hd t))
               \<or> hasControl (drop (runeLen s) s))"
  by pat_completeness auto
termination
  by (relation "measure length") auto

declare hasControl.simps [simp del]

section \<open>White space\<close>

definition asciiSpace :: "char \<Rightarrow> bool" where
  "asciiSpace c \<longleftrightarrow> (9 \<le> byte c \<and> byte c \<le> 13) \<or> byte c = 32"

text \<open>The UTF-8 encodings of the other code points with the property White_Space.\<close>

definition wideSpaces :: "string list" where
  "wideSpaces =
    [[CHR 0xC2, CHR 0x85], [CHR 0xC2, CHR 0xA0], [CHR 0xE1, CHR 0x9A, CHR 0x80],
     [CHR 0xE2, CHR 0x80, CHR 0x80], [CHR 0xE2, CHR 0x80, CHR 0x81], [CHR 0xE2, CHR 0x80, CHR 0x82],
     [CHR 0xE2, CHR 0x80, CHR 0x83], [CHR 0xE2, CHR 0x80, CHR 0x84], [CHR 0xE2, CHR 0x80, CHR 0x85],
     [CHR 0xE2, CHR 0x80, CHR 0x86], [CHR 0xE2, CHR 0x80, CHR 0x87], [CHR 0xE2, CHR 0x80, CHR 0x88],
     [CHR 0xE2, CHR 0x80, CHR 0x89], [CHR 0xE2, CHR 0x80, CHR 0x8A], [CHR 0xE2, CHR 0x80, CHR 0xA8],
     [CHR 0xE2, CHR 0x80, CHR 0xA9], [CHR 0xE2, CHR 0x80, CHR 0xAF], [CHR 0xE2, CHR 0x81, CHR 0x9F],
     [CHR 0xE3, CHR 0x80, CHR 0x80]]"

text \<open>How many leading bytes are one white-space character of the list \<open>ws\<close> (0 for none).\<close>

definition spaceLen :: "string list \<Rightarrow> string \<Rightarrow> nat" where
  "spaceLen ws s =
     (case s of [] \<Rightarrow> 0
      | c # _ \<Rightarrow> if asciiSpace c then 1
                else if byte c < 0x80 then 0
                else case find (\<lambda>w. take (length w) s = w) ws of None \<Rightarrow> 0 | Some w \<Rightarrow> length w)"

function trimLeft :: "string list \<Rightarrow> string \<Rightarrow> string" where
  "trimLeft ws s = (if s = [] \<or> spaceLen ws s = 0 then s else trimLeft ws (drop (spaceLen ws s) s))"
  by pat_completeness auto
termination
  by (relation "measure (\<lambda>(_, s). length s)") auto

declare trimLeft.simps [simp del]

lemma trimLeft_Nil [simp]: "trimLeft ws [] = []"
  by (simp add: trimLeft.simps)

lemma trimLeft_stop: "spaceLen ws (trimLeft ws s) = 0"
proof (induction ws s rule: trimLeft.induct)
  case (1 ws s)
  show ?case
  proof (cases "s = [] \<or> spaceLen ws s = 0")
    case True
    then show ?thesis by (auto simp: trimLeft.simps [of ws s] spaceLen_def)
  next
    case False
    with "1.IH" show ?thesis by (simp add: trimLeft.simps [of ws s])
  qed
qed

lemma trimLeft_idem [simp]: "trimLeft ws (trimLeft ws s) = trimLeft ws s"
  using trimLeft_stop [of ws s] by (simp add: trimLeft.simps [of ws "trimLeft ws s"])

lemma trimLeft_suffix: "suffix (trimLeft ws s) s"
proof (induction ws s rule: trimLeft.induct)
  case (1 ws s)
  show ?case
  proof (cases "s = [] \<or> spaceLen ws s = 0")
    case True
    then show ?thesis by (simp add: trimLeft.simps [of ws s])
  next
    case False
    with "1.IH" have "suffix (trimLeft ws (drop (spaceLen ws s) s)) (drop (spaceLen ws s) s)"
      by simp
    then show ?thesis
      using False suffix_drop [of "spaceLen ws s" s]
      by (simp add: trimLeft.simps [of ws s] suffix_order.trans)
  qed
qed

text \<open>
  \<open>strings.TrimSpace\<close>. A trailing white-space rune is recognised by its encoding read
  backwards: \<open>DecodeLastRune\<close> of a string that ends in a complete encoding gives that rune.
\<close>

definition trimSpace :: "string \<Rightarrow> string" where
  "trimSpace s = rev (trimLeft (map rev wideSpaces) (rev (trimLeft wideSpaces s)))"

text \<open>A string with no white-space byte pattern at either end is left alone.\<close>

lemma trimLeft_id: "spaceLen ws s = 0 \<Longrightarrow> trimLeft ws s = s"
  by (simp add: trimLeft.simps)

lemma spaceLen_ascii: "byte c < 0x80 \<Longrightarrow> \<not> asciiSpace c \<Longrightarrow> spaceLen ws (c # s) = 0"
  by (simp add: spaceLen_def)

definition plain :: "char \<Rightarrow> bool" where
  "plain c \<longleftrightarrow> byte c < 0x80 \<and> \<not> asciiSpace c"

lemma spaceLen_plain: "list_all plain s \<Longrightarrow> spaceLen ws s = 0"
  by (cases s) (auto simp: plain_def spaceLen_ascii, simp add: spaceLen_def)

lemma trimSpace_plain [simp]: "list_all plain s \<Longrightarrow> trimSpace s = s"
  by (simp add: trimSpace_def trimLeft_id spaceLen_plain list_all_rev)

section \<open>Length limits, upper case, required fields\<close>

definition textTooLong :: "string \<Rightarrow> nat \<Rightarrow> bool" where
  "textTooLong value m \<longleftrightarrow> runeCount (trimSpace value) > m"

text \<open>
  \<open>strings.ToUpper\<close> on ASCII letters and on the two non-ASCII letters whose upper case is
  ASCII (dotless i and long s). Other non-ASCII letters are kept: no caller compares them.
\<close>

definition upperByte :: "char \<Rightarrow> char" where
  "upperByte c = (if 97 \<le> byte c \<and> byte c \<le> 122 then char_of (byte c - 32) else c)"

fun toUpper :: "string \<Rightarrow> string" where
  "toUpper [] = []"
| "toUpper [a] = [upperByte a]"
| "toUpper (a # b # s) =
    (if byte a = 0xC4 \<and> byte b = 0xB1 then CHR ''I'' # toUpper s
     else if byte a = 0xC5 \<and> byte b = 0xBF then CHR ''S'' # toUpper s
     else upperByte a # toUpper (b # s))"

definition required :: "string \<Rightarrow> string res" where
  "required value = (let v = trimSpace value in if v = '''' then Inl ErrInvalid else Inr v)"

lemma required_Inr [res_inv]: "required v = Inr w \<longleftrightarrow> w = trimSpace v \<and> w \<noteq> []"
  by (auto simp: required_def Let_def)

lemma required_Inl [res_inv]: "required v = Inl e \<longleftrightarrow> e = ErrInvalid \<and> trimSpace v = []"
  by (auto simp: required_def Let_def)

definition hasPrefix :: "string \<Rightarrow> string \<Rightarrow> bool" where
  "hasPrefix s p \<longleftrightarrow> take (length p) s = p"

text \<open>The order of strings, byte by byte.\<close>

fun strLess :: "string \<Rightarrow> string \<Rightarrow> bool" where
  "strLess [] [] = False"
| "strLess [] (_ # _) = True"
| "strLess (_ # _) [] = False"
| "strLess (a # s) (b # t) = (byte a < byte b \<or> (a = b \<and> strLess s t))"

section \<open>Decimal digits\<close>

definition isDigit :: "char \<Rightarrow> bool" where
  "isDigit c \<longleftrightarrow> 48 \<le> byte c \<and> byte c \<le> 57"

definition digitVal :: "char \<Rightarrow> nat" where
  "digitVal c = byte c - 48"

definition digitChar :: "nat \<Rightarrow> char" where
  "digitChar d = char_of (48 + d)"

definition natOfDigits :: "string \<Rightarrow> nat" where
  "natOfDigits s = foldl (\<lambda>n c. 10 * n + digitVal c) 0 s"

lemma byte_digitChar: "d < 10 \<Longrightarrow> byte (digitChar d) = 48 + d"
  by (simp add: byte_def digitChar_def)

lemma digitVal_digitChar [simp]: "d < 10 \<Longrightarrow> digitVal (digitChar d) = d"
  by (simp add: digitVal_def byte_digitChar)

lemma isDigit_digitChar [simp]: "d < 10 \<Longrightarrow> isDigit (digitChar d)"
  by (simp add: isDigit_def byte_digitChar)

lemma plain_digit: "isDigit c \<Longrightarrow> plain c"
  by (auto simp: isDigit_def plain_def asciiSpace_def)

lemma digitVal_less: "isDigit c \<Longrightarrow> digitVal c < 10"
  by (auto simp: isDigit_def digitVal_def)

lemma natOfDigits_Nil [simp]: "natOfDigits [] = 0"
  by (simp add: natOfDigits_def)

lemma natOfDigits_snoc [simp]: "natOfDigits (s @ [c]) = 10 * natOfDigits s + digitVal c"
  by (simp add: natOfDigits_def)

lemma natOfDigits_append: "natOfDigits (s @ t) = natOfDigits s * 10 ^ length t + natOfDigits t"
proof (induction t rule: rev_induct)
  case (snoc c t)
  then show ?case
    by (simp add: append_assoc [symmetric] del: append_assoc)
qed simp

lemma natOfDigits_bound: "list_all isDigit s \<Longrightarrow> natOfDigits s < 10 ^ length s"
proof (induction s rule: rev_induct)
  case (snoc c s)
  then have "natOfDigits s + 1 \<le> 10 ^ length s" and "digitVal c < 10"
    by (auto intro: digitVal_less)
  then show ?case by simp
qed simp

function showNat :: "nat \<Rightarrow> string" where
  "showNat n = (if n < 10 then [digitChar n] else showNat (n div 10) @ [digitChar (n mod 10)])"
  by pat_completeness auto
termination
  by (relation "measure id") auto

declare showNat.simps [simp del]

lemma natOfDigits_showNat [simp]: "natOfDigits (showNat n) = n"
proof (induction n rule: showNat.induct)
  case (1 n)
  show ?case
  proof (cases "n < 10")
    case True
    then show ?thesis by (simp add: showNat.simps [of n] natOfDigits_def)
  next
    case False
    with "1.IH" show ?thesis by (simp add: showNat.simps [of n])
  qed
qed

lemma showNat_digits [simp]: "list_all isDigit (showNat n)"
proof (induction n rule: showNat.induct)
  case (1 n)
  then show ?case by (cases "n < 10") (simp_all add: showNat.simps [of n])
qed

lemma showNat_not_Nil [simp]: "showNat n \<noteq> []"
  by (simp add: showNat.simps [of n])

lemma showNat_inj: "showNat m = showNat n \<longleftrightarrow> m = n"
  using natOfDigits_showNat by metis

text \<open>The low \<open>k\<close> digits, padded with zeros.\<close>

fun padNat :: "nat \<Rightarrow> nat \<Rightarrow> string" where
  "padNat 0 n = []"
| "padNat (Suc k) n = padNat k (n div 10) @ [digitChar (n mod 10)]"

lemma padNat_length [simp]: "length (padNat k n) = k"
  by (induction k arbitrary: n) auto

lemma padNat_digits [simp]: "list_all isDigit (padNat k n)"
  by (induction k arbitrary: n) auto

lemma natOfDigits_padNat [simp]: "natOfDigits (padNat k n) = n mod 10 ^ k"
proof (induction k arbitrary: n)
  case (Suc k)
  have "n mod (10 * 10 ^ k) = 10 * (n div 10 mod 10 ^ k) + n mod 10"
    using mod_mult2_eq [of n 10 "10 ^ k"] by linarith
  with Suc show ?case by simp
qed simp

lemma padNat_2: "padNat 2 n = [digitChar (n div 10 mod 10), digitChar (n mod 10)]"
  by (simp add: numeral_2_eq_2)

section \<open>strconv.ParseUint with base 10 and 64 bits\<close>

definition parseUint64 :: "string \<Rightarrow> nat option" where
  "parseUint64 s =
     (if s \<noteq> [] \<and> list_all isDigit s \<and> natOfDigits s < 2 ^ 64 then Some (natOfDigits s) else None)"

lemma parseUint64_bound: "parseUint64 s = Some n \<Longrightarrow> n < 2 ^ 64"
  by (auto simp: parseUint64_def split: if_splits)

lemma parseUint64_showNat: "n < 2 ^ 64 \<Longrightarrow> parseUint64 (showNat n) = Some n"
  by (simp add: parseUint64_def)

text \<open>The equations that evaluate the text functions on closed strings, for witnesses.\<close>

lemmas text_eval =
  trimSpace_def trimLeft.simps spaceLen_def asciiSpace_def byte_def inRange_def cont_def
  isDigit_def natOfDigits_def digitVal_def showNat.simps digitChar_def char_of_def padNat_2
  runeCount.simps runeLen_def required_def textTooLong_def upperByte_def hasPrefix_def

end
