(* ===== verification/Money.thy ===== *)
theory Money
  imports GoText
begin

text \<open>
  Amounts. The code keeps every amount as decimal text, computes with \<open>big.Rat\<close> and
  writes \<open>FloatString(2)\<close> back to DECIMAL(18,2) columns. This theory models that text
  level (decimal.go and the amount parsers of service.go) and proves that, on the texts the
  parsers accept and the columns return, it is exact integer arithmetic on cents: \<open>money c\<close>
  is the text of \<open>c\<close> cents, and reading, comparing, adding and writing such texts are the
  integer operations. The other theories compute with cents on the strength of these laws.
\<close>

section \<open>Decimal text and rationals\<close>

text \<open>\<open>moneyPattern\<close> (k = 2) and \<open>sixDecimalPattern\<close> (k = 6).\<close>

definition matchDecimal :: "nat \<Rightarrow> string \<Rightarrow> bool" where
  "matchDecimal k s =
     (takeWhile isDigit s \<noteq> [] \<and>
      (case dropWhile isDigit s of
         [] \<Rightarrow> True
       | c # fp \<Rightarrow> c = CHR ''.'' \<and> list_all isDigit fp \<and> 1 \<le> length fp \<and> length fp \<le> k))"

text \<open>\<open>new(big.Rat).SetString\<close> on decimal notation; None is the \<open>ok\<close> result being false.\<close>

definition ratOfUnsigned :: "string \<Rightarrow> rat option" where
  "ratOfUnsigned s =
     (let ip = takeWhile isDigit s in
      case dropWhile isDigit s of
        [] \<Rightarrow> if ip = [] then None else Some (of_nat (natOfDigits ip))
      | c # fp \<Rightarrow>
         if c = CHR ''.'' \<and> list_all isDigit fp \<and> ip @ fp \<noteq> []
         then Some (of_nat (natOfDigits (ip @ fp)) / 10 ^ length fp) else None)"

definition ratSetString :: "string \<Rightarrow> rat option" where
  "ratSetString s =
     (if s \<noteq> [] \<and> hd s = CHR ''-'' then map_option uminus (ratOfUnsigned (tl s))
      else ratOfUnsigned s)"

text \<open>Rounding to the nearest integer, halves away from zero, for a non-negative number.\<close>

definition roundHalfUp :: "rat \<Rightarrow> int" where
  "roundHalfUp r = \<lfloor>r + 1 / 2\<rfloor>"

text \<open>\<open>Rat.FloatString(prec)\<close>.\<close>

definition floatString :: "nat \<Rightarrow> rat \<Rightarrow> string" where
  "floatString prec r =
     (let n = nat (roundHalfUp (\<bar>r\<bar> * 10 ^ prec)) in
      (if r < 0 then ''-'' else []) @ showNat (n div 10 ^ prec) @
      (if prec = 0 then [] else CHR ''.'' # padNat prec (n mod 10 ^ prec)))"

section \<open>The parsers\<close>

definition amount :: "string \<Rightarrow> string res" where
  "amount value =
     (let v = trimSpace value in
      if \<not> matchDecimal 2 v then Inl ErrInvalid
      else case ratSetString v of
        None \<Rightarrow> Inl ErrInvalid
      | Some r \<Rightarrow> if r \<le> 0 then Inl ErrInvalid else Inr (floatString 2 r))"

definition nonNegativeAmount :: "string \<Rightarrow> string res" where
  "nonNegativeAmount value =
     (let v = trimSpace value in
      if \<not> matchDecimal 2 v then Inl ErrInvalid
      else case ratSetString v of
        None \<Rightarrow> Inl ErrInvalid
      | Some r \<Rightarrow> if r < 0 then Inl ErrInvalid else Inr (floatString 2 r))"

definition decimal :: "string \<Rightarrow> bool \<Rightarrow> string res" where
  "decimal value positive =
     (let v = trimSpace value in
      if \<not> matchDecimal 6 v then Inl ErrInvalid
      else case ratSetString v of
        None \<Rightarrow> Inl ErrInvalid
      | Some r \<Rightarrow> if r < 0 \<or> (positive \<and> r = 0) then Inl ErrInvalid
                  else Inr (floatString 6 r))"

text \<open>
  \<open>add\<close> and \<open>decimalGreater\<close> drop the \<open>ok\<close> flag of \<open>SetString\<close> and use
  the resulting pointer; a text that does not parse is a nil dereference, the value None here.
\<close>

fun add :: "string list \<Rightarrow> rat option" where
  "add [] = Some 0"
| "add (v # vs) =
     (case ratSetString v of None \<Rightarrow> None
      | Some r \<Rightarrow> (case add vs of None \<Rightarrow> None | Some t \<Rightarrow> Some (r + t)))"

definition decimalGreater :: "string \<Rightarrow> string \<Rightarrow> bool option" where
  "decimalGreater left right =
     (case ratSetString left of None \<Rightarrow> None
      | Some a \<Rightarrow> (case ratSetString right of None \<Rightarrow> None | Some b \<Rightarrow> Some (a > b)))"

section \<open>Cents\<close>

text \<open>A DECIMAL(18,2) column holds a whole number of cents; the driver returns its text.\<close>

definition money :: "int \<Rightarrow> string" where
  "money c = floatString 2 (of_int c / 100)"

definition cents :: "string \<Rightarrow> int" where
  "cents s = (case ratSetString s of None \<Rightarrow> 0 | Some r \<Rightarrow> roundHalfUp (r * 100))"

text \<open>The parsed amount, as the column will hold it.\<close>

definition amountCents :: "string \<Rightarrow> int res" where
  "amountCents s = andThen (amount s) (\<lambda>a. Inr (cents a))"

definition nonNegativeCents :: "string \<Rightarrow> int res" where
  "nonNegativeCents s = andThen (nonNegativeAmount s) (\<lambda>a. Inr (cents a))"

section \<open>Text arithmetic is cent arithmetic\<close>

lemma roundHalfUp_int [simp]: "roundHalfUp (of_int n) = n"
  by (simp add: roundHalfUp_def floor_unique)

lemma dot_not_digit [simp]: "\<not> isDigit CHR ''.''" "\<not> isDigit CHR ''-''"
  by (simp_all add: isDigit_def byte_def)

lemma plain_dot [simp]: "plain CHR ''.''" "plain CHR ''-''"
  by (simp_all add: plain_def byte_def asciiSpace_def)

lemma takeWhile_digits:
  "list_all isDigit ip \<Longrightarrow> \<not> isDigit c \<Longrightarrow> takeWhile isDigit (ip @ c # fp) = ip"
  by (induction ip) auto

lemma dropWhile_digits:
  "list_all isDigit ip \<Longrightarrow> \<not> isDigit c \<Longrightarrow> dropWhile isDigit (ip @ c # fp) = c # fp"
  by (induction ip) auto

lemma list_all_plain_digits: "list_all isDigit s \<Longrightarrow> list_all plain s"
  by (auto simp: list_all_iff plain_digit)

text \<open>The shape of a formatted number with two decimals.\<close>

lemma money_nonneg:
  assumes "0 \<le> c"
  shows "money c = showNat (nat c div 100) @ CHR ''.'' # padNat 2 (nat c mod 100)"
proof -
  have "\<bar>of_int c / 100 :: rat\<bar> * 10 ^ 2 = of_int c"
    using assms by simp
  then have "nat (roundHalfUp (\<bar>of_int c / 100\<bar> * 10 ^ 2)) = nat c"
    by (simp only: roundHalfUp_int)
  then show ?thesis
    using assms by (simp add: money_def floatString_def Let_def)
qed

lemma money_neg:
  assumes "c < 0"
  shows "money c = CHR ''-'' # money (- c)"
  using assms by (simp add: money_def floatString_def Let_def)

lemma matchDecimal_digits:
  "list_all isDigit ip \<Longrightarrow> ip \<noteq> [] \<Longrightarrow> list_all isDigit fp \<Longrightarrow> fp \<noteq> [] \<Longrightarrow>
   matchDecimal k (ip @ CHR ''.'' # fp) \<longleftrightarrow> length fp \<le> k"
  by (auto simp: matchDecimal_def takeWhile_digits dropWhile_digits Suc_le_eq)

lemma ratOfUnsigned_digits:
  "list_all isDigit ip \<Longrightarrow> ip \<noteq> [] \<Longrightarrow> list_all isDigit fp \<Longrightarrow>
   ratOfUnsigned (ip @ CHR ''.'' # fp) = Some (of_nat (natOfDigits (ip @ fp)) / 10 ^ length fp)"
  by (simp add: ratOfUnsigned_def takeWhile_digits dropWhile_digits)

lemma showNat_hd: "hd (showNat n @ s) \<noteq> CHR ''-''"
proof -
  have "isDigit (hd (showNat n))"
    using showNat_digits [of n] showNat_not_Nil [of n] by (cases "showNat n") auto
  then show ?thesis by (cases "showNat n") auto
qed

lemma ratOfUnsigned_money: "0 \<le> c \<Longrightarrow> ratOfUnsigned (money c) = Some (of_int c / 100)"
proof -
  assume c: "0 \<le> c"
  have "nat c div 100 * 100 + nat c mod 100 mod 100 = nat c"
    by simp
  then have "natOfDigits (showNat (nat c div 100) @ padNat 2 (nat c mod 100)) = nat c"
    by (simp add: natOfDigits_append del: mod_mod_trivial)
  then show ?thesis
    using c by (simp add: money_nonneg ratOfUnsigned_digits)
qed

lemma ratSetString_money [simp]: "ratSetString (money c) = Some (of_int c / 100)"
proof (cases "0 \<le> c")
  case True
  then show ?thesis
    using ratOfUnsigned_money [OF True] showNat_hd by (simp add: ratSetString_def money_nonneg)
next
  case False
  then show ?thesis
    using ratOfUnsigned_money [of "- c"] by (simp add: ratSetString_def money_neg)
qed

lemma cents_money [simp]: "cents (money c) = c"
  by (simp add: cents_def)

lemma money_inj: "money c = money d \<longleftrightarrow> c = d"
  using cents_money by metis

lemma matchDecimal_money: "0 \<le> c \<Longrightarrow> matchDecimal 2 (money c)"
proof -
  assume "0 \<le> c"
  moreover have "padNat 2 (nat c mod 100) \<noteq> []"
    using padNat_length [of 2 "nat c mod 100"] by fastforce
  ultimately show ?thesis by (simp add: money_nonneg matchDecimal_digits)
qed

lemma trimSpace_money [simp]: "trimSpace (money c) = money c"
proof -
  have "list_all plain (money d)" if "0 \<le> d" for d
    using that by (simp add: money_nonneg list_all_plain_digits del: padNat.simps)
  then have "list_all plain (money c)"
    by (cases "0 \<le> c") (simp_all add: money_neg)
  then show ?thesis by simp
qed

text \<open>A text that matches the money pattern denotes a non-negative whole number of cents.\<close>

lemma matchDecimal_cents:
  assumes "matchDecimal 2 s"
  shows "\<exists>n::nat. ratSetString s = Some (of_nat n / 100)"
proof -
  let ?ip = "takeWhile isDigit s"
  have ip: "?ip \<noteq> []" using assms by (simp add: matchDecimal_def)
  have "isDigit (hd s)" using ip by (cases s) (auto split: if_splits)
  then have unsigned: "ratSetString s = ratOfUnsigned s"
    by (auto simp: ratSetString_def)
  show ?thesis
  proof (cases "dropWhile isDigit s")
    case Nil
    with ip unsigned have "ratSetString s = Some (of_nat (100 * natOfDigits ?ip) / 100)"
      by (simp add: ratOfUnsigned_def)
    then show ?thesis by blast
  next
    case (Cons c fp)
    with assms have fp: "c = CHR ''.''" "list_all isDigit fp" "length fp = 1 \<or> length fp = 2"
      by (auto simp: matchDecimal_def)
    have val: "ratSetString s = Some (of_nat (natOfDigits (?ip @ fp)) / 10 ^ length fp)"
      using Cons ip fp unsigned by (simp add: ratOfUnsigned_def)
    from fp(3) show ?thesis
    proof
      assume "length fp = 1"
      with val have "ratSetString s = Some (of_nat (10 * natOfDigits (?ip @ fp)) / 100)"
        by simp
      then show ?thesis by blast
    next
      assume "length fp = 2"
      with val have "ratSetString s = Some (of_nat (natOfDigits (?ip @ fp)) / 100)"
        by simp
      then show ?thesis by blast
    qed
  qed
qed

text \<open>What the parsers return is always the canonical text of a number of cents.\<close>

lemma amount_Inr:
  "amount s = Inr a \<longleftrightarrow>
   (\<exists>c. matchDecimal 2 (trimSpace s) \<and> ratSetString (trimSpace s) = Some (of_int c / 100) \<and>
        0 < c \<and> a = money c)"
proof
  assume a: "amount s = Inr a"
  then have m: "matchDecimal 2 (trimSpace s)"
    by (auto simp: amount_def Let_def split: if_splits)
  then obtain n :: nat where r: "ratSetString (trimSpace s) = Some (of_int (int n) / 100)"
    using matchDecimal_cents by fastforce
  with a m show "\<exists>c. matchDecimal 2 (trimSpace s) \<and>
      ratSetString (trimSpace s) = Some (of_int c / 100) \<and> 0 < c \<and> a = money c"
    by (intro exI [of _ "int n"]) (auto simp: amount_def Let_def money_def split: if_splits)
qed (auto simp: amount_def Let_def money_def)

lemma nonNegativeAmount_Inr:
  "nonNegativeAmount s = Inr a \<longleftrightarrow>
   (\<exists>c. matchDecimal 2 (trimSpace s) \<and> ratSetString (trimSpace s) = Some (of_int c / 100) \<and>
        0 \<le> c \<and> a = money c)"
proof
  assume a: "nonNegativeAmount s = Inr a"
  then have m: "matchDecimal 2 (trimSpace s)"
    by (auto simp: nonNegativeAmount_def Let_def split: if_splits)
  then obtain n :: nat where r: "ratSetString (trimSpace s) = Some (of_int (int n) / 100)"
    using matchDecimal_cents by fastforce
  with a m show "\<exists>c. matchDecimal 2 (trimSpace s) \<and>
      ratSetString (trimSpace s) = Some (of_int c / 100) \<and> 0 \<le> c \<and> a = money c"
    by (intro exI [of _ "int n"]) (auto simp: nonNegativeAmount_def Let_def money_def split: if_splits)
qed (auto simp: nonNegativeAmount_def Let_def money_def)

lemma amount_Inl: "amount s = Inl e \<Longrightarrow> e = ErrInvalid"
  by (auto simp: amount_def Let_def split: if_splits option.splits)

lemma amountCents_Inr [res_inv]: "amountCents s = Inr c \<longleftrightarrow> amount s = Inr (money c) \<and> 0 < c"
  by (auto simp: amountCents_def andThen_eq_Inr amount_Inr money_inj)

lemma amountCents_pos: "amountCents s = Inr c \<Longrightarrow> 0 < c"
  by (simp add: amountCents_Inr)

lemma amountCents_Inl: "amountCents s = Inl e \<Longrightarrow> e = ErrInvalid"
  by (auto simp: amountCents_def andThen_eq_Inl dest: amount_Inl)

lemma nonNegativeCents_nonneg: "nonNegativeCents s = Inr c \<Longrightarrow> 0 \<le> c"
  by (auto simp: nonNegativeCents_def andThen_eq_Inr nonNegativeAmount_Inr)

lemma amountCents_money [simp]: "amountCents (money c) = (if 0 < c then Inr c else Inl ErrInvalid)"
proof (cases "0 < c")
  case True
  then have "amount (money c) = Inr (money c)"
    by (auto simp: amount_Inr matchDecimal_money)
  with True show ?thesis by (simp add: amountCents_Inr)
next
  case False
  then have "amount (money c) \<noteq> Inr a" for a
    by (auto simp: amount_Inr)
  then have "amount (money c) = Inl ErrInvalid"
    by (cases "amount (money c)") (auto dest: amount_Inl)
  with False show ?thesis by (simp add: amountCents_def)
qed

text \<open>The operations on column texts, as integer operations on cents.\<close>

lemma decimalGreater_money [simp]: "decimalGreater (money c) (money d) = Some (c > d)"
  by (simp add: decimalGreater_def divide_less_cancel)

lemma add_money: "add (map money cs) = Some (of_int (sum_list cs) / 100)"
  by (induction cs) (auto simp: add_divide_distrib)

lemma floatString_money [simp]: "floatString 2 (of_int c / 100) = money c"
  by (simp add: money_def)

text \<open>C39: on the texts of amounts, the parser is a projection onto canonical two-decimal text:
  whatever it accepts denotes a positive number of cents, its output is that number's canonical
  text, and parsing the output again changes nothing.\<close>

theorem amount_canonical:
  assumes "amount s = Inr a"
  shows "0 < cents a \<and> a = money (cents a) \<and> amount a = Inr a \<and>
         ratSetString (trimSpace s) = Some (of_int (cents a) / 100)"
proof -
  from assms obtain c where c: "ratSetString (trimSpace s) = Some (of_int c / 100)" "0 < c" "a = money c"
    by (auto simp: amount_Inr)
  moreover have "amount (money c) = Inr (money c)"
    using c(2) by (auto simp: amount_Inr matchDecimal_money)
  ultimately show ?thesis by simp
qed

theorem amount_canonical_witness:
  "amount '' 0120.5 '' = Inr ''120.50'' \<and> 0 < cents ''120.50'' \<and> amount ''120.50'' = Inr ''120.50''"
proof -
  have trim: "trimSpace '' 0120.5 '' = ''0120.5''"
    by (simp add: text_eval)
  have "ratSetString ''0120.5'' = Some (of_int 12050 / 100)"
    by (simp add: ratSetString_def ratOfUnsigned_def text_eval)
  moreover have "matchDecimal 2 ''0120.5''"
    by (simp add: matchDecimal_def text_eval)
  moreover have "money 12050 = ''120.50''"
    by (simp add: money_nonneg text_eval bit_0)
  ultimately have "amount '' 0120.5 '' = Inr ''120.50''"
    by (auto simp: amount_Inr trim intro!: exI [of _ 12050])
  then show ?thesis using amount_canonical [of "'' 0120.5 ''" "''120.50''"] by simp
qed

end
