(* ===== verification/BusinessDate.thy ===== *)
theory BusinessDate
  imports GoText
begin

text \<open>
  Calendar days: \<open>time.Parse("2006-01-02", s)\<close>, package businessclock, which turns an
  instant into the Beijing calendar day, and the validation of business dates in
  business_date.go. A calendar day is a year, a month and a day. Instants are Unix seconds from
  1970 on; the business zone is UTC+8, the offset Asia/Shanghai has had since 1992 and the one
  the code falls back to.
\<close>

type_synonym date = "nat \<times> nat \<times> nat"

section \<open>The calendar\<close>

definition leap :: "nat \<Rightarrow> bool" where
  "leap y \<longleftrightarrow> y mod 4 = 0 \<and> (y mod 100 \<noteq> 0 \<or> y mod 400 = 0)"

definition daysIn :: "nat \<Rightarrow> nat \<Rightarrow> nat" where
  "daysIn y m = (if m = 2 then (if leap y then 29 else 28)
                 else if m = 4 \<or> m = 6 \<or> m = 9 \<or> m = 11 then 30 else 31)"

definition yearDays :: "nat \<Rightarrow> nat" where
  "yearDays y = (if leap y then 366 else 365)"

fun validDate :: "date \<Rightarrow> bool" where
  "validDate (y, m, d) \<longleftrightarrow> 1 \<le> m \<and> m \<le> 12 \<and> 1 \<le> d \<and> d \<le> daysIn y m"

fun dateLess :: "date \<Rightarrow> date \<Rightarrow> bool" where
  "dateLess (y, m, d) (y', m', d') \<longleftrightarrow> y < y' \<or> (y = y' \<and> (m < m' \<or> (m = m' \<and> d < d')))"

definition daysBeforeMonth :: "nat \<Rightarrow> nat \<Rightarrow> nat" where
  "daysBeforeMonth y m = (\<Sum>k\<leftarrow>[1..<m]. daysIn y k)"

definition daysBeforeYear :: "nat \<Rightarrow> nat" where
  "daysBeforeYear y = (\<Sum>k\<leftarrow>[1970..<y]. yearDays k)"

text \<open>Days since 1970-01-01, for dates from 1970 on.\<close>

fun dayNumber :: "date \<Rightarrow> nat" where
  "dayNumber (y, m, d) = daysBeforeYear y + daysBeforeMonth y m + (d - 1)"

text \<open>The calendar day with a given number: first the year, then the month.\<close>

function yearLoop :: "nat \<Rightarrow> nat \<Rightarrow> nat \<times> nat" where
  "yearLoop y n = (if n < yearDays y then (y, n) else yearLoop (Suc y) (n - yearDays y))"
  by pat_completeness auto
termination
  by (relation "measure snd") (auto simp: yearDays_def split: if_splits)

declare yearLoop.simps [simp del]

function monthLoop :: "nat \<Rightarrow> nat \<Rightarrow> nat \<Rightarrow> nat \<times> nat" where
  "monthLoop y m n = (if n < daysIn y m then (m, n) else monthLoop y (Suc m) (n - daysIn y m))"
  by pat_completeness auto
termination
  by (relation "measure (\<lambda>(y, m, n). n)") (auto simp: daysIn_def split: if_splits)

declare monthLoop.simps [simp del]

definition civilOfDay :: "nat \<Rightarrow> date" where
  "civilOfDay n =
     (let (y, r) = yearLoop 1970 n; (m, d) = monthLoop y 1 r in (y, m, Suc d))"

lemma daysIn_pos [simp]: "0 < daysIn y m"
  by (simp add: daysIn_def)

lemma yearDays_pos [simp]: "0 < yearDays y"
  by (simp add: yearDays_def)

lemma upt_12: "[1..<Suc 12] = [1,2,3,4,5,6,7,8,9,10,11,12]"
  by (simp add: upt_rec)

lemma yearDays_months: "daysBeforeMonth y 13 = yearDays y"
proof -
  have "daysBeforeMonth y (Suc 12) = yearDays y"
    unfolding daysBeforeMonth_def upt_12 by (simp add: daysIn_def yearDays_def)
  then show ?thesis by simp
qed

lemma daysBeforeYear_Suc: "1970 \<le> y \<Longrightarrow> daysBeforeYear (Suc y) = daysBeforeYear y + yearDays y"
  by (simp add: daysBeforeYear_def)

lemma daysBeforeMonth_Suc: "1 \<le> m \<Longrightarrow> daysBeforeMonth y (Suc m) = daysBeforeMonth y m + daysIn y m"
  by (simp add: daysBeforeMonth_def)

lemma yearLoop_correct:
  "1970 \<le> y \<Longrightarrow> yearLoop y n = (y', r) \<Longrightarrow>
   y \<le> y' \<and> r < yearDays y' \<and> daysBeforeYear y' + r = daysBeforeYear y + n"
proof (induction y n rule: yearLoop.induct)
  case (1 y n)
  show ?case
  proof (cases "n < yearDays y")
    case True
    with 1(3) show ?thesis by (simp add: yearLoop.simps [of y n])
  next
    case False
    with 1(3) have "yearLoop (Suc y) (n - yearDays y) = (y', r)"
      by (simp add: yearLoop.simps [of y n])
    with "1.IH" [OF False] 1(2) False show ?thesis
      by (simp add: daysBeforeYear_Suc)
  qed
qed

lemma monthLoop_correct:
  "1 \<le> m \<Longrightarrow> monthLoop y m n = (m', r) \<Longrightarrow>
   m \<le> m' \<and> r < daysIn y m' \<and> daysBeforeMonth y m' + r = daysBeforeMonth y m + n"
proof (induction y m n rule: monthLoop.induct)
  case (1 y m n)
  show ?case
  proof (cases "n < daysIn y m")
    case True
    with 1(3) show ?thesis by (simp add: monthLoop.simps [of y m n])
  next
    case False
    with 1(3) have "monthLoop y (Suc m) (n - daysIn y m) = (m', r)"
      by (simp add: monthLoop.simps [of y m n])
    with "1.IH" [OF False] 1(2) False show ?thesis
      by (simp add: daysBeforeMonth_Suc)
  qed
qed

lemma daysBeforeMonth_mono: "m \<le> m' \<Longrightarrow> daysBeforeMonth y m \<le> daysBeforeMonth y m'"
proof (induction m' rule: nat_induct_at_least [of m])
  case (Suc n)
  then show ?case
    by (cases "1 \<le> n") (auto simp: daysBeforeMonth_Suc, auto simp: daysBeforeMonth_def)
qed simp_all

lemma civilOfDay_correct:
  assumes "civilOfDay n = (y, m, d)"
  shows "1970 \<le> y" "validDate (y, m, d)" "dayNumber (y, m, d) = n"
proof -
  obtain y' r where yl: "yearLoop 1970 n = (y', r)" by (cases "yearLoop 1970 n")
  obtain m' d' where ml: "monthLoop y' 1 r = (m', d')" by (cases "monthLoop y' 1 r")
  from assms yl ml have eq: "y = y'" "m = m'" "d = Suc d'"
    by (simp_all add: civilOfDay_def)
  from yearLoop_correct [OF _ yl] have yr: "1970 \<le> y'" "r < yearDays y'" "daysBeforeYear y' + r = n"
    by (simp_all add: daysBeforeYear_def)
  from monthLoop_correct [OF _ ml] have mr: "1 \<le> m'" "d' < daysIn y' m'" "daysBeforeMonth y' m' + d' = r"
    by (simp_all add: daysBeforeMonth_def)
  have "m' \<le> 12"
  proof (rule ccontr)
    assume "\<not> m' \<le> 12"
    then have "yearDays y' \<le> daysBeforeMonth y' m'"
      using daysBeforeMonth_mono [of 13 m' y'] by (simp add: yearDays_months)
    with mr yr show False by simp
  qed
  with yr mr eq show "1970 \<le> y" "validDate (y, m, d)" "dayNumber (y, m, d) = n"
    by simp_all
qed

text \<open>Numbers order dates: a valid earlier date has a smaller number.\<close>

lemma daysBeforeYear_mono:
  assumes "y \<le> y'" "1970 \<le> y"
  shows "daysBeforeYear y \<le> daysBeforeYear y'"
  using assms
proof (induction y' rule: nat_induct_at_least [of y])
  case (Suc n)
  then show ?case by (simp add: daysBeforeYear_Suc)
qed simp_all

lemma dayInYear_less:
  assumes "validDate (y, m, d)"
  shows "daysBeforeMonth y m + (d - 1) < yearDays y"
proof -
  have "daysBeforeMonth y (Suc m) \<le> daysBeforeMonth y 13"
    using assms by (intro daysBeforeMonth_mono) simp
  with assms show ?thesis by (auto simp: daysBeforeMonth_Suc yearDays_months)
qed

lemma dateLess_dayNumber:
  assumes "validDate a" "validDate b" "1970 \<le> fst a" "dateLess a b"
  shows "dayNumber a < dayNumber b"
proof -
  obtain y m d where a: "a = (y, m, d)" by (cases a)
  obtain y' m' d' where b: "b = (y', m', d')" by (cases b)
  consider (year) "y < y'" | (month) "y = y'" "m < m'" | (day) "y = y'" "m = m'" "d < d'"
    using assms(4) a b by auto
  then show ?thesis
  proof cases
    case year
    then have "daysBeforeYear (Suc y) \<le> daysBeforeYear y'"
      using assms a by (intro daysBeforeYear_mono) auto
    moreover have "daysBeforeMonth y m + (d - 1) < yearDays y"
      using dayInYear_less [of y m d] assms(1) a by simp
    ultimately have "daysBeforeYear y + daysBeforeMonth y m + (d - 1) < daysBeforeYear y'"
      using assms(3) a by (simp add: daysBeforeYear_Suc)
    then show ?thesis using a b by (simp add: trans_less_add1)
  next
    case month
    then have "daysBeforeMonth y (Suc m) \<le> daysBeforeMonth y m'"
      by (intro daysBeforeMonth_mono) simp
    then have "daysBeforeMonth y m + (d - 1) < daysBeforeMonth y m'"
      using assms(1) a by (auto simp: daysBeforeMonth_Suc)
    then show ?thesis using a b month by simp
  next
    case day
    then show ?thesis using assms a b by auto
  qed
qed

lemma dateLess_linear: "dateLess a b \<or> a = b \<or> dateLess b a"
  by (cases a; cases b) auto

lemma dateLess_iff_dayNumber:
  assumes "validDate a" "validDate b" "1970 \<le> fst a" "1970 \<le> fst b"
  shows "dateLess a b \<longleftrightarrow> dayNumber a < dayNumber b"
  using assms dateLess_dayNumber [of a b] dateLess_dayNumber [of b a] dateLess_linear [of a b]
  by (metis less_asym less_irrefl)

lemma dayNumber_inj:
  assumes "validDate a" "validDate b" "1970 \<le> fst a" "1970 \<le> fst b" "dayNumber a = dayNumber b"
  shows "a = b"
  using assms dateLess_iff_dayNumber [of a b] dateLess_iff_dayNumber [of b a] dateLess_linear [of a b]
  by simp

section \<open>Parsing\<close>

text \<open>\<open>time.Parse("2006-01-02", s)\<close>: four, two and two digits, and the day exists.\<close>

definition parseDate :: "string \<Rightarrow> date option" where
  "parseDate s =
     (let ys = take 4 s; ms = take 2 (drop 5 s); ds = take 2 (drop 8 s);
          t = (natOfDigits ys, natOfDigits ms, natOfDigits ds)
      in if length s = 10 \<and> list_all isDigit ys \<and> s ! 4 = CHR ''-'' \<and> list_all isDigit ms \<and>
            s ! 7 = CHR ''-'' \<and> list_all isDigit ds \<and> validDate t then Some t else None)"

text \<open>\<open>Format("2006-01-02")\<close> for years of four digits.\<close>

fun showDate :: "date \<Rightarrow> string" where
  "showDate (y, m, d) = padNat 4 y @ CHR ''-'' # padNat 2 m @ CHR ''-'' # padNat 2 d"

lemma parseDate_valid: "parseDate s = Some t \<Longrightarrow> validDate t"
  by (auto simp: parseDate_def Let_def split: if_splits)

lemma daysIn_le: "daysIn y m \<le> 31"
  by (simp add: daysIn_def)

lemma parse_showDate:
  assumes "validDate (y, m, d)" "y < 10000"
  shows "parseDate (showDate (y, m, d)) = Some (y, m, d)"
proof -
  let ?s = "showDate (y, m, d)"
  have len: "length ?s = 10" by simp
  have parts: "take 4 ?s = padNat 4 y" "take 2 (drop 5 ?s) = padNat 2 m"
      "take 2 (drop 8 ?s) = padNat 2 d" "?s ! 4 = CHR ''-''" "?s ! 7 = CHR ''-''"
    by (simp_all add: nth_append numeral_eq_Suc del: padNat.simps)
  have "m mod 10 ^ 2 = m" "d mod 10 ^ 2 = d" "y mod 10 ^ 4 = y"
    using assms daysIn_le [of y m] by simp_all
  with len parts assms show ?thesis
    unfolding parseDate_def Let_def by (simp del: showDate.simps padNat.simps)
qed

section \<open>The business clock\<close>

text \<open>Unix seconds of an instant to the Beijing calendar day.\<close>

definition todayAt :: "nat \<Rightarrow> date" where
  "todayAt now = civilOfDay ((now + 8 * 3600) div 86400)"

definition monthStartAt :: "nat \<Rightarrow> date" where
  "monthStartAt now = (let (y, m, _) = todayAt now in (y, m, 1))"

text \<open>
  \<open>monthStartAt(now).AddDate(0, 1, -1)\<close>: the date (year, month + 1, 0), which
  \<open>time.Date\<close> normalises to the day before the first of the next month.
\<close>

definition monthEndAt :: "nat \<Rightarrow> date" where
  "monthEndAt now =
     (let (y, m, _) = monthStartAt now;
          first = (if m = 12 then (Suc y, 1, 1) else (y, Suc m, 1))
      in civilOfDay (dayNumber first - 1))"

definition DateString :: "nat \<Rightarrow> string" where
  "DateString t = showDate (todayAt t)"

definition validateBusinessDateOn :: "string \<Rightarrow> date \<Rightarrow> string res" where
  "validateBusinessDateOn value today =
     (let normalized = trimSpace value in
      case parseDate normalized of
        None \<Rightarrow> Inl ErrInvalid
      | Some day \<Rightarrow> if dateLess today day then Inl ErrInvalid else Inr normalized)"

lemma validateBusinessDateOn_Inr [res_inv]:
  "validateBusinessDateOn v today = Inr w \<longleftrightarrow>
   w = trimSpace v \<and> (\<exists>day. parseDate w = Some day \<and> \<not> dateLess today day)"
  by (auto simp: validateBusinessDateOn_def Let_def split: option.splits)

text \<open>The business day of an instant is the Beijing calendar day: it is a valid date, and the
  instant lies in the 86400 seconds that start at that day's midnight in UTC+8.\<close>

theorem todayAt_correct:
  "validDate (todayAt now) \<and>
   dayNumber (todayAt now) * 86400 \<le> now + 28800 \<and> now + 28800 < Suc (dayNumber (todayAt now)) * 86400"
proof -
  obtain y m d where t: "todayAt now = (y, m, d)" by (cases "todayAt now")
  then have c: "civilOfDay ((now + 28800) div 86400) = (y, m, d)" by (simp add: todayAt_def)
  have "dayNumber (y, m, d) = (now + 28800) div 86400" "validDate (y, m, d)"
    using civilOfDay_correct [OF c] by simp_all
  moreover have "(now + 28800) div 86400 * 86400 \<le> now + 28800"
    "now + 28800 < Suc ((now + 28800) div 86400) * 86400"
    using div_mult_mod_eq [of "now + 28800" 86400] mod_less_divisor [of 86400 "now + 28800"]
    by simp_all
  ultimately show ?thesis by (simp only: t)
qed

text \<open>C40: the month end the dashboards use is the last day of the current Beijing month.\<close>

theorem monthEndAt_last_day:
  "\<exists>y m d. todayAt now = (y, m, d) \<and> monthEndAt now = (y, m, daysIn y m)"
proof -
  obtain y m d where t: "todayAt now = (y, m, d)" by (cases "todayAt now")
  then have v: "1970 \<le> y" "1 \<le> m" "m \<le> 12"
    using civilOfDay_correct [of _ y m d] by (auto simp: todayAt_def)
  let ?first = "if m = 12 then (Suc y, 1, 1) else (y, Suc m, 1)"
  have pos: "1 \<le> daysIn y m" by (simp add: daysIn_def)
  have "dayNumber ?first = daysBeforeYear y + daysBeforeMonth y (Suc m)"
    using v yearDays_months [of y] by (auto simp: daysBeforeYear_Suc daysBeforeMonth_def simp del: upt_Suc)
  then have n: "dayNumber ?first - 1 = dayNumber (y, m, daysIn y m)"
    using v pos by (simp add: daysBeforeMonth_Suc)
  obtain y' m' d' where c: "civilOfDay (dayNumber ?first - 1) = (y', m', d')"
    by (cases "civilOfDay (dayNumber ?first - 1)")
  have "(y', m', d') = (y, m, daysIn y m)"
    using civilOfDay_correct [OF c] n v pos by (intro dayNumber_inj) auto
  with c t show ?thesis by (simp add: monthEndAt_def monthStartAt_def Let_def)
qed

end
