(* ===== verification/Store.thy ===== *)
theory Store
  imports Money BusinessDate
begin

text \<open>
  The database of the settlement service: one record per table, with the columns the modelled
  statements read or write, and the store that holds the tables. Identifiers and free text are
  strings, DECIMAL(18,2) columns are integers counting cents, status columns are datatypes with
  the values the code writes. Columns that no modelled statement reads (most
  \<open>created_at\<close> and \<open>updated_at\<close> stamps) are left out. String comparison in SQL is
  equality of the stored bytes; a statement that fails for a reason outside the data (a lost
  connection) is an error return like any other and is not distinguished.
\<close>

section \<open>Principals, service configuration, request environment\<close>

record DataScope =
  sc_role :: string
  sc_type :: string
  sc_id :: string
  sc_environment :: string

text \<open>\<open>Permissions\<close> lists the permissions mapped to true.\<close>

record Principal =
  p_tenant :: string
  p_user :: string
  p_permissions :: "string list"
  p_roles :: "string list"
  p_scopes :: "DataScope list"
  p_catalog :: string

record Service =
  NativeFinancialEnabled :: bool
  CreditSyncSubscribed :: "bool option"
  ContractImportEnabled :: bool
  InvoiceIssuanceMode :: string
  TaxProviderCode :: string
  HasCreditPublisher :: bool
  HasERPProvider :: bool
  catalogRoleGrants :: "string \<Rightarrow> string list"
  planCoverageGapEnv :: "rat option"
  planCoverageDropEnv :: "rat option"

record RequestMeta =
  LoginIP :: string
  ClientIP :: string
  IPSource :: string

text \<open>
  What one call of a handler observes: the database clock in milliseconds, the Beijing business
  day, the identifiers its calls of \<open>newID\<close> return in order, the digest of
  a marshalled value, and the request's addresses.
\<close>

record env =
  e_now :: int
  e_today :: date
  e_ids :: "nat \<Rightarrow> string"
  e_sha256 :: "json \<Rightarrow> string"
  e_meta :: RequestMeta

section \<open>Contracts and plans\<close>

datatype financial_status = EFFECTIVE | SUPERSEDED | VOIDED
datatype migration_state = RELEASED | HOLD
datatype basis_type = CONTRACT | LOCAL_FINANCIAL

text \<open>The columns of a baseline that the service itself registers.\<close>

record local_document =
  ld_customer :: string
  ld_id :: string
  ld_no :: string
  ld_version :: int
  ld_evidence_type :: string
  ld_evidence_reference :: string
  ld_evidence_note :: string
  ld_created_by :: string
  ld_void_reason :: string
  ld_voided_by :: string

record contract_snapshot =
  cs_id :: string
  cs_tenant :: string
  cs_source :: string
  cs_event :: string
  cs_contract :: "string option"
  cs_contract_no :: string
  cs_version :: int
  cs_customer :: string
  cs_customer_name :: string
  cs_project :: string
  cs_project_name :: string
  cs_currency :: string
  cs_amount :: int
  cs_status :: financial_status
  cs_effective_at :: string
  cs_migration :: migration_state
  cs_import_version :: nat
  cs_basis :: basis_type
  cs_namespace :: string
  cs_local :: "local_document option"

record contract_stream =
  st_tenant :: string
  st_source :: string
  st_contract :: string
  st_version :: int

datatype generation_source = CONTRACT_EVENT | MANUAL_PLAN | LOCAL_BASELINE
datatype confirmation_status = PENDING_CONFIRMATION | CONFIRMED | PLAN_VOIDED

record receivable_plan =
  rp_id :: string
  rp_tenant :: string
  rp_snapshot :: string
  rp_installment :: int
  rp_due :: string
  rp_amount :: int
  rp_source :: generation_source
  rp_status :: confirmation_status
  rp_reason :: string
  rp_version :: int

datatype collection_status = UNPAID | PARTIALLY_SETTLED | SETTLED
datatype invoice_status = NOT_INVOICED | PARTIALLY_INVOICED | FULLY_INVOICED

record receivable =
  rv_id :: string
  rv_tenant :: string
  rv_no :: string
  rv_snapshot :: string
  rv_plan :: string
  rv_due :: string
  rv_original :: int
  rv_invoiced :: int
  rv_received :: int
  rv_writeoff :: int
  rv_open :: int
  rv_currency :: string
  rv_recognition :: string
  rv_collection :: collection_status
  rv_invoice :: invoice_status
  rv_version :: int

section \<open>Receipts and allocations\<close>

datatype receipt_status = AVAILABLE | PARTIALLY_ALLOCATED | FULLY_ALLOCATED

record receipt =
  rc_id :: string
  rc_tenant :: string
  rc_no :: string
  rc_customer :: string
  rc_customer_name :: string
  rc_amount :: int
  rc_unallocated :: int
  rc_currency :: string
  rc_date :: string
  rc_method :: string
  rc_bank_ref :: string
  rc_status :: receipt_status
  rc_idem :: string
  rc_version :: int

datatype allocation_status = AL_CONFIRMED | PARTIALLY_REVERSED | REVERSED

record allocation =
  al_id :: string
  al_tenant :: string
  al_no :: string
  al_receipt :: string
  al_receivable :: string
  al_amount :: int
  al_currency :: string
  al_status :: allocation_status
  al_mode :: string
  al_confidence :: int
  al_by :: string
  al_idem :: string

record allocation_reversal =
  rr_id :: string
  rr_tenant :: string
  rr_no :: string
  rr_allocation :: string
  rr_amount :: int
  rr_reason_code :: string
  rr_reason_detail :: string
  rr_by :: string
  rr_idem :: string

datatype difference_kind = OVERPAYMENT | SHORTPAYMENT | UNKNOWN
datatype difference_status = HELD | REVIEW_PENDING | APPROVED | REFUND_PENDING | REFUND_CONFIRMED
datatype resolution = NoResolution | ResRefundPending | ResCarryForward | ResMatched

record receipt_difference =
  df_id :: string
  df_tenant :: string
  df_receipt :: string
  df_kind :: difference_kind
  df_amount :: int
  df_reason :: string
  df_status :: difference_status
  df_resolution :: resolution
  df_resolution_reason :: string
  df_requested_by :: string
  df_resolved_by :: string
  df_approved_by :: string
  df_version :: int
  df_refund_reference :: string
  df_refund_completed :: int
  df_refund_by :: string
  df_refund_reason :: string

datatype voucher_status = NOT_CONFIGURED | VOUCHER_FAILED | SENT

record voucher =
  vo_id :: string
  vo_tenant :: string
  vo_writeoff :: string
  vo_payload :: payload
  vo_status :: voucher_status
  vo_external :: string
  vo_attempts :: nat
  vo_version :: int

section \<open>Events: inbox, outbox, audit, idempotency, credit synchronisation\<close>

datatype inbox_status = ACCEPTED | COMPLETED | INBOX_HELD

record inbox_event =
  ix_id :: string
  ix_tenant :: string
  ix_source :: string
  ix_event :: string
  ix_type :: string
  ix_aggregate :: string
  ix_version :: int
  ix_payload :: json
  ix_status :: inbox_status

datatype outbox_status = OB_PENDING | OB_PROCESSING | OB_DELIVERED | OB_RETRY_WAIT | OB_DEAD_LETTER | OB_CANCELLED

record outbox_event =
  ob_id :: string
  ob_tenant :: string
  ob_event :: string
  ob_destination :: string
  ob_type :: string
  ob_aggregate_type :: string
  ob_aggregate :: string
  ob_payload :: payload
  ob_status :: outbox_status
  ob_attempts :: int
  ob_available_at :: int
  ob_locked_by :: "string option"
  ob_locked_until :: "int option"
  ob_created_at :: int
  ob_delivered_at :: "int option"
  ob_dead_at :: "int option"
  ob_error_code :: string
  ob_error_summary :: string

record audit_event =
  au_id :: string
  au_tenant :: string
  au_actor :: string
  au_action :: string
  au_resource_type :: string
  au_resource :: string
  au_result :: string
  au_request :: string
  au_detail :: payload

record idempotency_record =
  im_tenant :: string
  im_command :: string
  im_key :: string
  im_hash :: string
  im_resource :: string

datatype credit_status = CS_PENDING | CS_PROCESSING | CS_RETRY_WAIT | CS_DELIVERED | CS_CANCELLED | CS_HOLD | CS_SUPPRESSED

record credit_sync =
  cy_id :: string
  cy_tenant :: string
  cy_event :: string
  cy_type :: string
  cy_original :: string
  cy_allocation :: string
  cy_receivable :: string
  cy_status :: credit_status
  cy_payload :: payload
  cy_attempts :: nat
  cy_locked_at :: "int option"
  cy_created_at :: int
  cy_updated_at :: int

section \<open>Imported contracts, responsibilities, revision holds\<close>

datatype import_state = PREPARED | READY | IMPORT_RELEASED

record expected_fact =
  xf_system :: string
  xf_type :: string
  xf_external :: string

record contract_import =
  ci_tenant :: string
  ci_snapshot :: string
  ci_item :: string
  ci_expected :: "expected_fact list"
  ci_owner :: string
  ci_event :: string
  ci_state :: import_state
  ci_reconciliation :: string
  ci_release :: nat
  ci_revision :: nat
  ci_digest :: string
  ci_mode :: string
  ci_decision :: string
  ci_reason :: string
  ci_approver :: string

record import_reconciliation =
  ic_id :: string
  ic_tenant :: string
  ic_snapshot :: string
  ic_version :: nat
  ic_hash :: string
  ic_statement :: json
  ic_by :: string

record import_fact_row =
  fr_tenant :: string
  fr_snapshot :: string
  fr_system :: string
  fr_type :: string
  fr_external :: string
  fr_hash :: string
  fr_target :: string

record responsibility =
  rs_tenant :: string
  rs_contract :: string
  rs_owner :: string
  rs_active :: bool
  rs_version :: nat

record responsibility_inbox_row =
  ri_tenant :: string
  ri_event :: string
  ri_hash :: string

record project_reference =
  pr_tenant :: string
  pr_project :: string
  pr_contract :: string
  pr_active :: bool
  pr_customer :: string
  pr_name :: string
  pr_version :: nat

record project_assignment =
  pa_tenant :: string
  pa_project :: string
  pa_user :: string
  pa_version :: nat
  pa_active :: bool
  pa_note :: string
  pa_updated_by :: string

datatype hold_reason = PLAN_DIFF_IMPLEMENTED_FACTS | TERM_TOTAL_MISMATCH
datatype hold_status = PENDING_REVIEW | RESOLVED

record revision_hold =
  rh_id :: string
  rh_tenant :: string
  rh_source :: string
  rh_contract :: string
  rh_contract_no :: string
  rh_snapshot :: string
  rh_event :: string
  rh_from :: int
  rh_to :: int
  rh_reason :: hold_reason
  rh_diff :: json
  rh_status :: hold_status
  rh_resolution :: string
  rh_resolved_by :: string
  rh_created :: int

record financial_customer =
  fc_id :: string
  fc_tenant :: string
  fc_name :: string
  fc_active :: bool

section \<open>Invoices\<close>

datatype ia_status = RESERVED | INVOICED | RELEASED_RESERVATION

record invoice_allocation =
  ia_id :: string
  ia_tenant :: string
  ia_request :: string
  ia_receivable :: string
  ia_reserved :: int
  ia_invoiced :: int
  ia_released :: int
  ia_status :: ia_status

datatype request_status =
    IR_SUBMITTED | IR_SPECIAL_REVIEW | IR_ISSUE_PENDING | IR_ISSUE_UNKNOWN | IR_ISSUE_FAILED
  | IR_ISSUED | IR_REJECTED | IR_CANCELLED

record invoice_request =
  ir_id :: string
  ir_tenant :: string
  ir_no :: string
  ir_snapshot :: string
  ir_buyer :: json
  ir_type :: string
  ir_excl :: int
  ir_tax :: int
  ir_incl :: int
  ir_status :: request_status
  ir_idem :: string
  ir_submitted_by :: string
  ir_approved_by :: string
  ir_rejection :: string
  ir_version :: int

text \<open>An invoice line as a request or a tax result states it: every field is text.\<close>

record InvoiceItemInput =
  it_name :: string
  it_class :: string
  it_spec :: string
  it_unit :: string
  it_quantity :: string
  it_price :: string
  it_excl :: string
  it_rate :: string
  it_tax :: string
  it_incl :: string

text \<open>A stored line of a request: DECIMAL(18,6) columns are rationals, DECIMAL(18,2) columns cents.\<close>

record invoice_item =
  ii_id :: string
  ii_tenant :: string
  ii_request :: string
  ii_line :: nat
  ii_name :: string
  ii_class :: string
  ii_spec :: string
  ii_unit :: string
  ii_quantity :: rat
  ii_price :: rat
  ii_excl :: int
  ii_rate :: rat
  ii_tax :: int
  ii_incl :: int

datatype issue_channel = MANUAL | TAX_ADAPTER
datatype attempt_status =
    AT_PENDING | AT_ACCEPTED | AT_PROCESSING | AT_UNKNOWN | AT_ISSUED | AT_ISSUE_FAILED
  | AT_ABANDONED | AT_CANCELLED

record issue_attempt =
  at_id :: string
  at_tenant :: string
  at_request :: string
  at_no :: int
  at_channel :: issue_channel
  at_provider :: string
  at_external_request :: string
  at_external_invoice :: string
  at_idem :: string
  at_command :: "string option"
  at_operation :: "string option"
  at_invoice :: "string option"
  at_status :: attempt_status
  at_sequence :: nat
  at_last_event :: string
  at_requested_at :: int
  at_accepted_at :: "int option"
  at_next_reconcile :: "int option"
  at_reconciles :: nat
  at_failure_code :: string
  at_failure_message :: string

datatype tax_invoice_status = ISSUED | RED_FLUSHED

record tax_invoice =
  ti_id :: string
  ti_tenant :: string
  ti_request :: string
  ti_code :: string
  ti_no :: string
  ti_type :: string
  ti_currency :: string
  ti_excl :: int
  ti_tax :: int
  ti_incl :: int
  ti_date :: string
  ti_buyer :: json
  ti_seller :: json
  ti_status :: tax_invoice_status
  ti_channel :: issue_channel
  ti_provider :: string
  ti_external :: "string option"
  ti_hash :: "string option"

text \<open>A line of an issued invoice, with the texts the provider returned.\<close>

record tax_invoice_item =
  tx_id :: string
  tx_tenant :: string
  tx_invoice :: string
  tx_line :: nat
  tx_item :: InvoiceItemInput

datatype red_flush_status =
    RF_SUBMITTED | RF_ISSUE_PENDING | RF_PROCESSING | RF_ISSUE_UNKNOWN | RF_ISSUE_FAILED
  | RF_RED_FLUSHED | RF_REJECTED

record red_flush_request =
  rf_id :: string
  rf_tenant :: string
  rf_invoice :: string
  rf_reason_code :: string
  rf_reason_detail :: string
  rf_idem :: string
  rf_status :: red_flush_status
  rf_requested_by :: string
  rf_reviewed_by :: string
  rf_review_reason :: string
  rf_version :: int

record red_flush_attempt =
  ra_id :: string
  ra_tenant :: string
  ra_request :: string
  ra_invoice :: string
  ra_no :: int
  ra_provider :: string
  ra_external_request :: string
  ra_operation :: "string option"
  ra_command :: "string option"
  ra_red_invoice :: "string option"
  ra_status :: attempt_status
  ra_sequence :: nat
  ra_last_event :: string
  ra_accepted_at :: "int option"
  ra_next_reconcile :: "int option"
  ra_reconciles :: nat
  ra_failure_code :: string
  ra_failure_message :: string

record red_flush_relation =
  rl_id :: string
  rl_tenant :: string
  rl_request :: string
  rl_original :: string
  rl_red :: string
  rl_reason_code :: string
  rl_reason_detail :: string
  rl_by :: string

record invoice_reversal =
  vr_id :: string
  vr_tenant :: string
  vr_request :: string
  vr_allocation :: string
  vr_amount :: int

datatype tax_operation = INVOICE_ISSUE | RED_FLUSH
datatype tax_result_status = SUCCEEDED | RESULT_UNKNOWN | RESULT_REJECTED
datatype tax_processing =
    TP_PROCESSING | TP_APPLIED | TP_IGNORED_STALE | TP_IGNORED_TERMINAL | TP_PROVIDER_CONFLICT | TP_UNKNOWN

record tax_result =
  tr_id :: string
  tr_tenant :: string
  tr_provider :: string
  tr_event :: string
  tr_type :: string
  tr_operation :: tax_operation
  tr_aggregate :: string
  tr_external_request :: string
  tr_external_operation :: "string option"
  tr_sequence :: nat
  tr_result :: tax_result_status
  tr_hash :: string
  tr_status :: tax_processing

datatype review_status = SR_PENDING | SR_APPROVED | SR_REJECTED

record special_review =
  sr_tenant :: string
  sr_request :: string
  sr_reason :: string
  sr_threshold :: string
  sr_settings :: int
  sr_required :: bool
  sr_status :: review_status
  sr_by :: string
  sr_review_reason :: string

record SettlementSettings =
  FieldPolicies :: "(string \<times> bool) list option"
  ERPStatus :: string
  AgingDays :: "int list"
  TaxRates :: "string list"
  ReminderLeadDays :: int
  RepeatDays :: int
  EscalationDays :: int
  SpecialInvoiceThreshold :: string
  SettingsVersion :: int

record settings_row =
  sg_tenant :: string
  sg_settings :: SettlementSettings
  sg_version :: int

text \<open>The tables around tax invoices.\<close>

record tax_db =
  invoice_requests :: "invoice_request list"
  invoice_items :: "invoice_item list"
  special_reviews :: "special_review list"
  issue_attempts :: "issue_attempt list"
  tax_invoices :: "tax_invoice list"
  tax_invoice_items :: "tax_invoice_item list"
  red_flush_requests :: "red_flush_request list"
  red_flush_attempts :: "red_flush_attempt list"
  red_flush_relations :: "red_flush_relation list"
  invoice_reversals :: "invoice_reversal list"
  tax_results :: "tax_result list"
  settings :: "settings_row list"

section \<open>Dunning\<close>

datatype case_status = CASE_ACTIVE | CASE_CLOSED
datatype action_status = ACTION_PENDING | ACTION_SENT | ACTION_COMPLETED | ACTION_CANCELLED

record dunning_case =
  dc_id :: string
  dc_tenant :: string
  dc_receivable :: "string option"
  dc_plan :: "string option"
  dc_policy :: string
  dc_policy_version :: int
  dc_level :: int
  dc_status :: case_status
  dc_next :: int
  dc_last :: "int option"
  dc_closed_reason :: string
  dc_updated :: int

record dunning_policy =
  dp_id :: string
  dp_tenant :: string
  dp_name :: string
  dp_version :: int
  dp_from :: int
  dp_to :: int
  dp_action :: string
  dp_recipient :: string
  dp_channel :: string
  dp_repeat :: int
  dp_priority :: string
  dp_enabled :: bool

record dunning_action =
  da_id :: string
  da_tenant :: string
  da_case :: string
  da_action :: string
  da_recipient :: string
  da_channel :: string
  da_priority :: string
  da_event :: string
  da_status :: action_status
  da_version :: int
  da_result :: string
  da_completed_by :: string
  da_created :: int

record local_notification =
  ln_id :: string
  ln_tenant :: string
  ln_recipient :: string
  ln_event :: string
  ln_priority :: string
  ln_title :: string
  ln_content :: string
  ln_reference_type :: string
  ln_reference :: string

record handover_freeze =
  hf_tenant :: string
  hf_user :: string
  hf_frozen :: bool

record reminder_cursor =
  rk_tenant :: string
  rk_plan :: string
  rk_phase :: string
  rk_owner :: string
  rk_next :: int

text \<open>The tables around the contracts: what arrives for them and what is sent because of them.\<close>

record side_db =
  responsibility_inbox :: "responsibility_inbox_row list"
  import_reconciliations :: "import_reconciliation list"
  dunning_policies :: "dunning_policy list"
  dunning_actions :: "dunning_action list"
  local_notifications :: "local_notification list"
  handover_freezes :: "handover_freeze list"
  reminder_cursors :: "reminder_cursor list"

section \<open>The store\<close>

record db =
  snapshots :: "contract_snapshot list"
  streams :: "contract_stream list"
  plans :: "receivable_plan list"
  receivables :: "receivable list"
  receipts :: "receipt list"
  allocations :: "allocation list"
  reversals :: "allocation_reversal list"
  differences :: "receipt_difference list"
  vouchers :: "voucher list"
  inbox :: "inbox_event list"
  outbox_events :: "outbox_event list"
  audits :: "audit_event list"
  idempotency :: "idempotency_record list"
  credit_syncs :: "credit_sync list"
  contract_imports :: "contract_import list"
  import_facts :: "import_fact_row list"
  responsibilities :: "responsibility list"
  project_references :: "project_reference list"
  project_assignments :: "project_assignment list"
  revision_holds :: "revision_hold list"
  customers :: "financial_customer list"
  invoice_allocations :: "invoice_allocation list"
  dunning_cases :: "dunning_case list"
  taxes :: tax_db
  sides :: side_db

definition empty_db :: db where
  "empty_db = \<lparr>snapshots = [], streams = [], plans = [], receivables = [], receipts = [],
     allocations = [], reversals = [], differences = [], vouchers = [], inbox = [],
     outbox_events = [], audits = [], idempotency = [], credit_syncs = [], contract_imports = [],
     import_facts = [], responsibilities = [], project_references = [], project_assignments = [],
     revision_holds = [], customers = [], invoice_allocations = [], dunning_cases = [],
     taxes = \<lparr>invoice_requests = [], invoice_items = [], special_reviews = [], issue_attempts = [],
       tax_invoices = [], tax_invoice_items = [], red_flush_requests = [], red_flush_attempts = [],
       red_flush_relations = [], invoice_reversals = [], tax_results = [], settings = []\<rparr>,
     sides = \<lparr>responsibility_inbox = [], import_reconciliations = [], dunning_policies = [], dunning_actions = [],
       local_notifications = [], handover_freezes = [], reminder_cursors = []\<rparr>\<rparr>"

section \<open>Unique keys\<close>

text \<open>
  For each table, when a new row repeats a unique key of a stored row (the PRIMARY KEY and
  UNIQUE KEY clauses of the migrations).
\<close>

text \<open>A NULL in a unique key never clashes.\<close>

definition sameValue :: "'a option \<Rightarrow> 'a option \<Rightarrow> bool" where
  "sameValue x y \<longleftrightarrow> x = y \<and> x \<noteq> None"

definition snapshot_clash :: "contract_snapshot \<Rightarrow> contract_snapshot \<Rightarrow> bool" where
  "snapshot_clash a b \<longleftrightarrow>
     cs_id a = cs_id b \<or>
     (cs_tenant a = cs_tenant b \<and> cs_source a = cs_source b \<and>
      (cs_contract a = cs_contract b \<and> cs_contract a \<noteq> None \<and> cs_version a = cs_version b \<or>
       cs_event a = cs_event b)) \<or>
     (cs_tenant a = cs_tenant b \<and>
      (sameValue (map_option (\<lambda>l. (ld_id l, ld_version l)) (cs_local a)) (map_option (\<lambda>l. (ld_id l, ld_version l)) (cs_local b)) \<or>
       sameValue (map_option ld_no (cs_local a)) (map_option ld_no (cs_local b))))"

definition stream_clash :: "contract_stream \<Rightarrow> contract_stream \<Rightarrow> bool" where
  "stream_clash a b \<longleftrightarrow>
     st_tenant a = st_tenant b \<and> st_source a = st_source b \<and> st_contract a = st_contract b"

definition plan_clash :: "receivable_plan \<Rightarrow> receivable_plan \<Rightarrow> bool" where
  "plan_clash a b \<longleftrightarrow>
     rp_id a = rp_id b \<or>
     (rp_tenant a = rp_tenant b \<and> rp_snapshot a = rp_snapshot b \<and> rp_installment a = rp_installment b)"

definition receivable_clash :: "receivable \<Rightarrow> receivable \<Rightarrow> bool" where
  "receivable_clash a b \<longleftrightarrow>
     rv_id a = rv_id b \<or> (rv_tenant a = rv_tenant b \<and> (rv_no a = rv_no b \<or> rv_plan a = rv_plan b))"

definition receipt_clash :: "receipt \<Rightarrow> receipt \<Rightarrow> bool" where
  "receipt_clash a b \<longleftrightarrow>
     rc_id a = rc_id b \<or>
     (rc_tenant a = rc_tenant b \<and>
      (rc_no a = rc_no b \<or> rc_bank_ref a = rc_bank_ref b \<or> rc_idem a = rc_idem b))"

definition allocation_clash :: "allocation \<Rightarrow> allocation \<Rightarrow> bool" where
  "allocation_clash a b \<longleftrightarrow>
     al_id a = al_id b \<or> (al_tenant a = al_tenant b \<and> (al_no a = al_no b \<or> al_idem a = al_idem b))"

definition reversal_clash :: "allocation_reversal \<Rightarrow> allocation_reversal \<Rightarrow> bool" where
  "reversal_clash a b \<longleftrightarrow>
     rr_id a = rr_id b \<or> (rr_tenant a = rr_tenant b \<and> (rr_no a = rr_no b \<or> rr_idem a = rr_idem b))"

definition difference_clash :: "receipt_difference \<Rightarrow> receipt_difference \<Rightarrow> bool" where
  "difference_clash a b \<longleftrightarrow> df_id a = df_id b"

definition voucher_clash :: "voucher \<Rightarrow> voucher \<Rightarrow> bool" where
  "voucher_clash a b \<longleftrightarrow>
     vo_id a = vo_id b \<or> (vo_tenant a = vo_tenant b \<and> vo_writeoff a = vo_writeoff b)"

definition inbox_clash :: "inbox_event \<Rightarrow> inbox_event \<Rightarrow> bool" where
  "inbox_clash a b \<longleftrightarrow>
     ix_id a = ix_id b \<or>
     (ix_tenant a = ix_tenant b \<and> ix_source a = ix_source b \<and> ix_event a = ix_event b)"

definition outbox_clash :: "outbox_event \<Rightarrow> outbox_event \<Rightarrow> bool" where
  "outbox_clash a b \<longleftrightarrow>
     ob_id a = ob_id b \<or>
     (ob_tenant a = ob_tenant b \<and> ob_destination a = ob_destination b \<and> ob_event a = ob_event b)"

definition audit_clash :: "audit_event \<Rightarrow> audit_event \<Rightarrow> bool" where
  "audit_clash a b \<longleftrightarrow> au_id a = au_id b"

definition idempotency_clash :: "idempotency_record \<Rightarrow> idempotency_record \<Rightarrow> bool" where
  "idempotency_clash a b \<longleftrightarrow>
     im_tenant a = im_tenant b \<and> im_command a = im_command b \<and> im_key a = im_key b"

definition credit_clash :: "credit_sync \<Rightarrow> credit_sync \<Rightarrow> bool" where
  "credit_clash a b \<longleftrightarrow>
     cy_id a = cy_id b \<or> (cy_tenant a = cy_tenant b \<and> cy_event a = cy_event b)"

definition import_clash :: "contract_import \<Rightarrow> contract_import \<Rightarrow> bool" where
  "import_clash a b \<longleftrightarrow>
     ci_tenant a = ci_tenant b \<and> (ci_snapshot a = ci_snapshot b \<or> ci_item a = ci_item b)"

definition import_fact_clash :: "import_fact_row \<Rightarrow> import_fact_row \<Rightarrow> bool" where
  "import_fact_clash a b \<longleftrightarrow>
     fr_tenant a = fr_tenant b \<and> fr_snapshot a = fr_snapshot b \<and> fr_system a = fr_system b \<and>
     fr_type a = fr_type b \<and> fr_external a = fr_external b"

definition hold_clash :: "revision_hold \<Rightarrow> revision_hold \<Rightarrow> bool" where
  "hold_clash a b \<longleftrightarrow>
     rh_id a = rh_id b \<or>
     (rh_tenant a = rh_tenant b \<and> rh_source a = rh_source b \<and> rh_event a = rh_event b \<and>
      rh_reason a = rh_reason b)"

definition invoice_allocation_clash :: "invoice_allocation \<Rightarrow> invoice_allocation \<Rightarrow> bool" where
  "invoice_allocation_clash a b \<longleftrightarrow>
     ia_id a = ia_id b \<or>
     (ia_tenant a = ia_tenant b \<and> ia_request a = ia_request b \<and> ia_receivable a = ia_receivable b)"

definition request_clash :: "invoice_request \<Rightarrow> invoice_request \<Rightarrow> bool" where
  "request_clash a b \<longleftrightarrow>
     ir_id a = ir_id b \<or> (ir_tenant a = ir_tenant b \<and> (ir_no a = ir_no b \<or> ir_idem a = ir_idem b))"

definition item_clash :: "invoice_item \<Rightarrow> invoice_item \<Rightarrow> bool" where
  "item_clash a b \<longleftrightarrow>
     ii_id a = ii_id b \<or>
     (ii_tenant a = ii_tenant b \<and> ii_request a = ii_request b \<and> ii_line a = ii_line b)"

definition review_clash :: "special_review \<Rightarrow> special_review \<Rightarrow> bool" where
  "review_clash a b \<longleftrightarrow> sr_tenant a = sr_tenant b \<and> sr_request a = sr_request b"

definition attempt_clash :: "issue_attempt \<Rightarrow> issue_attempt \<Rightarrow> bool" where
  "attempt_clash a b \<longleftrightarrow>
     at_id a = at_id b \<or>
     (at_tenant a = at_tenant b \<and>
      (at_external_request a = at_external_request b \<or> at_idem a = at_idem b \<or>
       at_request a = at_request b \<and> at_no a = at_no b \<or>
       at_provider a = at_provider b \<and> sameValue (at_operation a) (at_operation b)))"

definition tax_invoice_clash :: "tax_invoice \<Rightarrow> tax_invoice \<Rightarrow> bool" where
  "tax_invoice_clash a b \<longleftrightarrow>
     ti_id a = ti_id b \<or>
     (ti_tenant a = ti_tenant b \<and>
      (ti_code a = ti_code b \<and> ti_no a = ti_no b \<or>
       ti_provider a = ti_provider b \<and> sameValue (ti_external a) (ti_external b)))"

definition tax_item_clash :: "tax_invoice_item \<Rightarrow> tax_invoice_item \<Rightarrow> bool" where
  "tax_item_clash a b \<longleftrightarrow>
     tx_id a = tx_id b \<or> (tx_tenant a = tx_tenant b \<and> tx_invoice a = tx_invoice b \<and> tx_line a = tx_line b)"

definition red_flush_clash :: "red_flush_request \<Rightarrow> red_flush_request \<Rightarrow> bool" where
  "red_flush_clash a b \<longleftrightarrow> rf_id a = rf_id b \<or> (rf_tenant a = rf_tenant b \<and> rf_idem a = rf_idem b)"

definition red_attempt_clash :: "red_flush_attempt \<Rightarrow> red_flush_attempt \<Rightarrow> bool" where
  "red_attempt_clash a b \<longleftrightarrow>
     ra_id a = ra_id b \<or>
     (ra_tenant a = ra_tenant b \<and>
      (ra_request a = ra_request b \<and> ra_no a = ra_no b \<or> ra_external_request a = ra_external_request b \<or>
       ra_provider a = ra_provider b \<and> sameValue (ra_operation a) (ra_operation b)))"

definition relation_clash :: "red_flush_relation \<Rightarrow> red_flush_relation \<Rightarrow> bool" where
  "relation_clash a b \<longleftrightarrow>
     rl_id a = rl_id b \<or> (rl_tenant a = rl_tenant b \<and> (rl_red a = rl_red b \<or> rl_request a = rl_request b))"

definition invoice_reversal_clash :: "invoice_reversal \<Rightarrow> invoice_reversal \<Rightarrow> bool" where
  "invoice_reversal_clash a b \<longleftrightarrow>
     vr_id a = vr_id b \<or> (vr_tenant a = vr_tenant b \<and> vr_allocation a = vr_allocation b)"

definition tax_result_clash :: "tax_result \<Rightarrow> tax_result \<Rightarrow> bool" where
  "tax_result_clash a b \<longleftrightarrow>
     tr_id a = tr_id b \<or>
     (tr_tenant a = tr_tenant b \<and> tr_provider a = tr_provider b \<and> tr_event a = tr_event b)"

definition settings_clash :: "settings_row \<Rightarrow> settings_row \<Rightarrow> bool" where
  "settings_clash a b \<longleftrightarrow> sg_tenant a = sg_tenant b"

definition responsibility_clash :: "responsibility \<Rightarrow> responsibility \<Rightarrow> bool" where
  "responsibility_clash a b \<longleftrightarrow> rs_tenant a = rs_tenant b \<and> rs_contract a = rs_contract b"

definition responsibility_inbox_clash :: "responsibility_inbox_row \<Rightarrow> responsibility_inbox_row \<Rightarrow> bool" where
  "responsibility_inbox_clash a b \<longleftrightarrow> ri_tenant a = ri_tenant b \<and> ri_event a = ri_event b"

definition reconciliation_clash :: "import_reconciliation \<Rightarrow> import_reconciliation \<Rightarrow> bool" where
  "reconciliation_clash a b \<longleftrightarrow> ic_id a = ic_id b"

text \<open>The receivable and the plan of an active case are unique among active cases (generated columns).\<close>

definition activeOnly :: "case_status \<Rightarrow> 'a option \<Rightarrow> 'a option" where
  "activeOnly st x = (if st = CASE_ACTIVE then x else None)"

definition case_clash :: "dunning_case \<Rightarrow> dunning_case \<Rightarrow> bool" where
  "case_clash a b \<longleftrightarrow>
     dc_id a = dc_id b \<or>
     (dc_tenant a = dc_tenant b \<and>
      ((sameValue (dc_receivable a) (dc_receivable b) \<or> sameValue (dc_plan a) (dc_plan b)) \<and>
         dc_policy a = dc_policy b \<and> dc_policy_version a = dc_policy_version b \<or>
       sameValue (activeOnly (dc_status a) (dc_receivable a)) (activeOnly (dc_status b) (dc_receivable b)) \<or>
       sameValue (activeOnly (dc_status a) (dc_plan a)) (activeOnly (dc_status b) (dc_plan b))))"

definition policy_clash :: "dunning_policy \<Rightarrow> dunning_policy \<Rightarrow> bool" where
  "policy_clash a b \<longleftrightarrow>
     dp_id a = dp_id b \<or> (dp_tenant a = dp_tenant b \<and> dp_name a = dp_name b \<and> dp_version a = dp_version b)"

definition action_clash :: "dunning_action \<Rightarrow> dunning_action \<Rightarrow> bool" where
  "action_clash a b \<longleftrightarrow> da_id a = da_id b \<or> (da_tenant a = da_tenant b \<and> da_event a = da_event b)"

definition notification_clash :: "local_notification \<Rightarrow> local_notification \<Rightarrow> bool" where
  "notification_clash a b \<longleftrightarrow>
     ln_id a = ln_id b \<or>
     (ln_tenant a = ln_tenant b \<and> ln_recipient a = ln_recipient b \<and> ln_event a = ln_event b)"

text \<open>Every table's clash relation covers its primary key, so the laws of keyed tables apply.\<close>

interpretation snapshot_t: keyed_table cs_id snapshot_clash
  by unfold_locales (simp add: snapshot_clash_def)

interpretation plan_t: keyed_table rp_id plan_clash
  by unfold_locales (simp add: plan_clash_def)

interpretation receivable_t: keyed_table rv_id receivable_clash
  by unfold_locales (simp add: receivable_clash_def)

interpretation receipt_t: keyed_table rc_id receipt_clash
  by unfold_locales (simp add: receipt_clash_def)

interpretation allocation_t: keyed_table al_id allocation_clash
  by unfold_locales (simp add: allocation_clash_def)

interpretation reversal_t: keyed_table rr_id reversal_clash
  by unfold_locales (simp add: reversal_clash_def)

interpretation difference_t: keyed_table df_id difference_clash
  by unfold_locales (simp add: difference_clash_def)

interpretation voucher_t: keyed_table vo_id voucher_clash
  by unfold_locales (simp add: voucher_clash_def)

interpretation inbox_t: keyed_table ix_id inbox_clash
  by unfold_locales (simp add: inbox_clash_def)

interpretation outbox_t: keyed_table ob_id outbox_clash
  by unfold_locales (simp add: outbox_clash_def)

interpretation credit_t: keyed_table cy_id credit_clash
  by unfold_locales (simp add: credit_clash_def)

interpretation hold_t: keyed_table rh_id hold_clash
  by unfold_locales (simp add: hold_clash_def)

interpretation invoice_allocation_t: keyed_table ia_id invoice_allocation_clash
  by unfold_locales (simp add: invoice_allocation_clash_def)

interpretation reserved_t: keyed_table "\<lambda>a. (ia_tenant a, ia_request a, ia_receivable a)" invoice_allocation_clash
  by unfold_locales (simp add: invoice_allocation_clash_def)

interpretation request_t: keyed_table ir_id request_clash
  by unfold_locales (simp add: request_clash_def)

interpretation attempt_t: keyed_table at_id attempt_clash
  by unfold_locales (simp add: attempt_clash_def)

interpretation tax_invoice_t: keyed_table ti_id tax_invoice_clash
  by unfold_locales (simp add: tax_invoice_clash_def)

interpretation red_flush_t: keyed_table rf_id red_flush_clash
  by unfold_locales (simp add: red_flush_clash_def)

interpretation red_attempt_t: keyed_table ra_id red_attempt_clash
  by unfold_locales (simp add: red_attempt_clash_def)

interpretation invoice_reversal_t: keyed_table vr_id invoice_reversal_clash
  by unfold_locales (simp add: invoice_reversal_clash_def)

interpretation reversed_once_t: keyed_table "\<lambda>r. (vr_tenant r, vr_allocation r)" invoice_reversal_clash
  by unfold_locales (simp add: invoice_reversal_clash_def)

interpretation tax_result_t: keyed_table "\<lambda>r. (tr_tenant r, tr_provider r, tr_event r)" tax_result_clash
  by unfold_locales (simp add: tax_result_clash_def)

interpretation settings_t: keyed_table sg_tenant settings_clash
  by unfold_locales (simp add: settings_clash_def)

interpretation idempotency_t: keyed_table "\<lambda>r. (im_tenant r, im_command r, im_key r)" idempotency_clash
  by unfold_locales (simp add: idempotency_clash_def)

interpretation case_t: keyed_table dc_id case_clash
  by unfold_locales (simp add: case_clash_def)

interpretation action_t: keyed_table da_id action_clash
  by unfold_locales (simp add: action_clash_def)

interpretation policy_t: keyed_table dp_id policy_clash
  by unfold_locales (simp add: policy_clash_def)

interpretation responsibility_t: keyed_table "\<lambda>r. (rs_tenant r, rs_contract r)" responsibility_clash
  by unfold_locales (simp add: responsibility_clash_def)

interpretation responsibility_inbox_t: keyed_table "\<lambda>r. (ri_tenant r, ri_event r)" responsibility_inbox_clash
  by unfold_locales (simp add: responsibility_inbox_clash_def)

interpretation stream_t: keyed_table "\<lambda>r. (st_tenant r, st_source r, st_contract r)" stream_clash
  by unfold_locales (simp add: stream_clash_def)

end
