(* ===== verification/RoleScope.thy ===== *)
theory RoleScope
  imports Store
begin

text \<open>
  Authorisation (role_scope.go, \<open>Principal.Allows\<close> of service.go, \<open>financeAccess\<close> of
  role_finance.go and \<open>lockImportWrite\<close> of contract_import.go): which permissions a principal
  has, which contracts a restricted principal may see, and the check every transactional write
  makes before it touches a contract's data. The list filter and the transactional check are
  written separately in the code; their agreement is proved here.
\<close>

section \<open>Permissions\<close>

definition permitted :: "Principal \<Rightarrow> string \<Rightarrow> bool" where
  "permitted p permission \<longleftrightarrow> permission \<in> set (p_permissions p)"

definition Allows :: "Principal \<Rightarrow> string \<Rightarrow> bool" where
  "Allows p permission =
     (if permitted p permission \<or> permitted p ''settlement.admin'' then True
      else if permission = ''settlement.dunning.read'' \<or> permission = ''settlement.dunning.feedback''
        then permitted p ''settlement.dunning.manage''
      else if permission = ''settlement.receipt.read'' then permitted p ''settlement.receipt.record''
      else if permission = ''settlement.allocation.read''
        then permitted p ''settlement.allocation.confirm''
      else False)"

definition grants :: "Service \<Rightarrow> string \<Rightarrow> string \<Rightarrow> bool" where
  "grants s role permission \<longleftrightarrow> permission \<in> set (catalogRoleGrants s role)"

definition wideScope :: "DataScope \<Rightarrow> string \<Rightarrow> bool" where
  "wideScope sc role \<longleftrightarrow> sc_role sc = role \<and>
     (sc_type sc = ''APPLICATION'' \<or> sc_type sc = ''ENVIRONMENT'' \<or> sc_type sc = ''TENANT'')"

definition Unrestricted :: "Service \<Rightarrow> Principal \<Rightarrow> string \<Rightarrow> bool" where
  "Unrestricted s p permission =
     (if \<not> Allows p permission then False
      else if permitted p ''settlement.admin'' then True
      else if p_roles p = [] \<and> p_catalog p = '''' then True
      else list_ex (\<lambda>role.
             grants s role permission \<and> role \<noteq> ''settlement_sales'' \<and>
             role \<noteq> ''settlement_project_assistant'' \<and>
             list_ex (\<lambda>sc. wideScope sc role) (p_scopes p)) (p_roles p))"

definition financeAccess :: "Service \<Rightarrow> Principal \<Rightarrow> string \<Rightarrow> unit res" where
  "financeAccess s p permission =
     (if \<not> Allows p permission \<or> \<not> Unrestricted s p permission then Inl ErrForbidden else Inr ())"

lemma financeAccess_Inr [res_inv]: "financeAccess s p perm = Inr u \<longleftrightarrow> Unrestricted s p perm"
  by (auto simp: financeAccess_def Unrestricted_def)

lemma financeAccess_Inl [res_inv]:
  "financeAccess s p perm = Inl e \<longleftrightarrow> e = ErrForbidden \<and> \<not> Unrestricted s p perm"
  by (auto simp: financeAccess_def Unrestricted_def)

section \<open>The responsibility of a restricted principal\<close>

text \<open>The EXISTS clauses of \<open>ContractPredicate\<close>, on one contract snapshot.\<close>

definition ownsContract :: "db \<Rightarrow> string \<Rightarrow> contract_snapshot \<Rightarrow> bool" where
  "ownsContract d user cs =
     list_ex (\<lambda>cr. rs_tenant cr = cs_tenant cs \<and> Some (rs_contract cr) = cs_contract cs \<and>
                   rs_active cr \<and> rs_owner cr = user) (responsibilities d)"

definition assistsContract :: "db \<Rightarrow> string \<Rightarrow> contract_snapshot \<Rightarrow> bool" where
  "assistsContract d user cs =
     list_ex (\<lambda>pa.
       list_ex (\<lambda>pr. pr_tenant pr = pa_tenant pa \<and> pr_project pr = pa_project pa \<and> pr_active pr \<and>
                     Some (pr_contract pr) = cs_contract cs) (project_references d) \<and>
       pa_tenant pa = cs_tenant cs \<and> pa_user pa = user \<and> pa_active pa) (project_assignments d)"

definition roleClause :: "db \<Rightarrow> string \<Rightarrow> string \<Rightarrow> contract_snapshot \<Rightarrow> bool" where
  "roleClause d user role cs =
     (if role = ''settlement_sales'' then ownsContract d user cs
      else if role = ''settlement_project_assistant'' then assistsContract d user cs
      else False)"

text \<open>\<open>ContractPredicate\<close> with the alias cs: the rows a list query lets through.\<close>

definition ContractPredicate ::
  "Service \<Rightarrow> Principal \<Rightarrow> string \<Rightarrow> db \<Rightarrow> contract_snapshot \<Rightarrow> bool" where
  "ContractPredicate s p permission d cs =
     (if \<not> Allows p permission then False
      else if Unrestricted s p permission then True
      else if p_user p = '''' then False
      else list_ex (\<lambda>role. grants s role permission \<and> roleClause d (p_user p) role cs) (p_roles p))"

definition RequireContractAccess ::
  "Service \<Rightarrow> Principal \<Rightarrow> string \<Rightarrow> string \<Rightarrow> db \<Rightarrow> unit res" where
  "RequireContractAccess s p permission snapshot d =
     (if \<not> Allows p permission then Inl ErrForbidden
      else if Unrestricted s p permission then Inr ()
      else resMap (\<lambda>_. ())
        (query_row ErrNotFound
          (\<lambda>cs. cs_tenant cs = p_tenant p \<and> cs_id cs = snapshot \<and> ContractPredicate s p permission d cs)
          (snapshots d)))"

text \<open>\<open>lockContractResponsibilities\<close>: some locked row of some granted role's query.\<close>

definition lockContractResponsibilities ::
  "Service \<Rightarrow> Principal \<Rightarrow> string \<Rightarrow> string \<Rightarrow> db \<Rightarrow> bool" where
  "lockContractResponsibilities s p permission snapshot d =
     list_ex (\<lambda>role. grants s role permission \<and>
        list_ex (\<lambda>cs. cs_tenant cs = p_tenant p \<and> cs_id cs = snapshot \<and>
                      roleClause d (p_user p) role cs) (snapshots d)) (p_roles p)"

section \<open>Contracts under import\<close>

definition migrationOf :: "db \<Rightarrow> string \<Rightarrow> string \<Rightarrow> migration_state res" where
  "migrationOf d tenant snapshot =
     resMap cs_migration
       (query_row SqlNoRows (\<lambda>cs. cs_tenant cs = tenant \<and> cs_id cs = snapshot) (snapshots d))"

definition bumpImport :: "string \<Rightarrow> string \<Rightarrow> db \<Rightarrow> db" where
  "bumpImport tenant snapshot d =
     d\<lparr>snapshots := update_rows (\<lambda>cs. cs_tenant cs = tenant \<and> cs_id cs = snapshot)
                      (\<lambda>cs. cs\<lparr>cs_import_version := Suc (cs_import_version cs)\<rparr>) (snapshots d),
       contract_imports := update_rows (\<lambda>ci. ci_tenant ci = tenant \<and> ci_snapshot ci = snapshot)
                      (\<lambda>ci. ci\<lparr>ci_state := PREPARED, ci_reconciliation := ''''\<rparr>) (contract_imports d)\<rparr>"

text \<open>
  \<open>lockImportWrite\<close>: a released contract is left alone; on a held one a caller without
  the reconciliation right is refused, and any write invalidates an earlier reconciliation.
  The second read of the state, under the lock, sees the same row within the transaction.
\<close>

definition lockImportWrite :: "Service \<Rightarrow> Principal \<Rightarrow> string \<Rightarrow> db \<Rightarrow> db res" where
  "lockImportWrite s p snapshot d =
     andThen (migrationOf d (p_tenant p) snapshot) (\<lambda>state.
     if state \<noteq> HOLD then Inr d
     else andThen (migrationOf d (p_tenant p) snapshot) (\<lambda>locked.
       if locked \<noteq> HOLD then Inl ErrConflict
       else andThen (financeAccess s p ''settlement.import.reconcile'') (\<lambda>_.
         Inr (bumpImport (p_tenant p) snapshot d))))"

text \<open>The permissions whose writes a held contract refuses outright.\<close>

definition blockedOnHold :: "string \<Rightarrow> bool" where
  "blockedOnHold permission \<longleftrightarrow>
     hasPrefix permission ''settlement.invoice.'' \<or> permission = ''settlement.receivable.create'' \<or>
     permission = ''settlement.receivable.adjust'' \<or> permission = ''settlement.revision.resolve''"

definition RequireContractAccessTx ::
  "Service \<Rightarrow> Principal \<Rightarrow> string \<Rightarrow> string \<Rightarrow> db \<Rightarrow> db res" where
  "RequireContractAccessTx s p permission snapshot d =
     (if \<not> Allows p permission then Inl ErrForbidden
      else andThen (if blockedOnHold permission
                    then andThen (migrationOf d (p_tenant p) snapshot) (\<lambda>state.
                           if state = HOLD then Inl ErrImportBlocked else Inr ())
                    else Inr ()) (\<lambda>_.
           andThen (lockImportWrite s p snapshot d) (\<lambda>d1.
           if Unrestricted s p permission then Inr d1
           else if \<not> lockContractResponsibilities s p permission snapshot d1 then Inl ErrNotFound
           else Inr d1)))"

section \<open>Scope checks by document\<close>

definition scopedAuthorization :: "Principal \<Rightarrow> bool" where
  "scopedAuthorization p \<longleftrightarrow> p_roles p \<noteq> [] \<or> p_catalog p \<noteq> ''''"

definition requireWriteScopeTx ::
  "Service \<Rightarrow> Principal \<Rightarrow> string \<Rightarrow> string \<Rightarrow> db \<Rightarrow> db res" where
  "requireWriteScopeTx s p permission snapshot d =
     (if trimSpace snapshot = '''' then Inl ErrNotFound
      else if \<not> scopedAuthorization p then Inr d
      else RequireContractAccessTx s p permission snapshot d)"

text \<open>The join of an allocation with its receivable, by allocation identifier.\<close>

definition allocationSnapshot :: "db \<Rightarrow> string \<Rightarrow> string \<Rightarrow> string res" where
  "allocationSnapshot d tenant allocID =
     andThen (query_row ErrNotFound (\<lambda>a. al_id a = allocID \<and> al_tenant a = tenant \<and>
                exists_row (\<lambda>v. rv_id v = al_receivable a \<and> rv_tenant v = al_tenant a) (receivables d))
              (allocations d)) (\<lambda>a.
     resMap rv_snapshot
       (query_row ErrNotFound (\<lambda>v. rv_id v = al_receivable a \<and> rv_tenant v = al_tenant a) (receivables d)))"

definition requireReceiptAllocationScopeTx ::
  "Service \<Rightarrow> Principal \<Rightarrow> string \<Rightarrow> string \<Rightarrow> db \<Rightarrow> db res" where
  "requireReceiptAllocationScopeTx s p permission allocID d =
     (if \<not> scopedAuthorization p then Inr d
      else andThen (allocationSnapshot d (p_tenant p) allocID) (\<lambda>snapshot.
             requireWriteScopeTx s p permission snapshot d))"

section \<open>What the checks change\<close>

text \<open>
  The scope checks may only touch the import bookkeeping of the snapshot and its import record.
  \<open>scopeFrame\<close> says that two stores agree on everything else.
\<close>

definition snapshotFacts :: "contract_snapshot \<Rightarrow> contract_snapshot" where
  "snapshotFacts cs = cs\<lparr>cs_import_version := 0\<rparr>"

definition scopeFrame :: "db \<Rightarrow> db \<Rightarrow> bool" where
  "scopeFrame d d' \<longleftrightarrow>
     d'\<lparr>snapshots := [], contract_imports := []\<rparr> = d\<lparr>snapshots := [], contract_imports := []\<rparr> \<and>
     map snapshotFacts (snapshots d') = map snapshotFacts (snapshots d)"

lemma scopeFrame_refl [simp]: "scopeFrame d d"
  by (simp add: scopeFrame_def)

lemma scopeFrame_trans: "scopeFrame d d1 \<Longrightarrow> scopeFrame d1 d2 \<Longrightarrow> scopeFrame d d2"
  by (simp add: scopeFrame_def)

lemma bumpImport_frame: "scopeFrame d (bumpImport t sn d)"
  by (simp add: scopeFrame_def bumpImport_def update_rows_def snapshotFacts_def)

lemma lockImportWrite_frame: "lockImportWrite s p sn d = Inr d' \<Longrightarrow> scopeFrame d d'"
  by (auto simp: lockImportWrite_def res_inv bumpImport_frame split: if_splits)

lemma RequireContractAccessTx_frame: "RequireContractAccessTx s p perm sn d = Inr d' \<Longrightarrow> scopeFrame d d'"
  by (auto simp: RequireContractAccessTx_def andThen_eq_Inr dest: lockImportWrite_frame split: if_splits)

lemma requireWriteScopeTx_frame: "requireWriteScopeTx s p perm sn d = Inr d' \<Longrightarrow> scopeFrame d d'"
  by (auto simp: requireWriteScopeTx_def dest: RequireContractAccessTx_frame split: if_splits)

lemma requireReceiptAllocationScopeTx_frame:
  "requireReceiptAllocationScopeTx s p perm a d = Inr d' \<Longrightarrow> scopeFrame d d'"
  by (auto simp: requireReceiptAllocationScopeTx_def andThen_eq_Inr dest: requireWriteScopeTx_frame
      split: if_splits)

lemma scopeFrame_tables [frame_simps]:
  assumes "scopeFrame d d'"
  shows "streams d' = streams d" "plans d' = plans d" "receivables d' = receivables d"
    "receipts d' = receipts d" "allocations d' = allocations d" "reversals d' = reversals d"
    "differences d' = differences d" "vouchers d' = vouchers d" "inbox d' = inbox d"
    "outbox_events d' = outbox_events d" "audits d' = audits d" "idempotency d' = idempotency d"
    "credit_syncs d' = credit_syncs d" "import_facts d' = import_facts d"
    "responsibilities d' = responsibilities d" "project_references d' = project_references d"
    "project_assignments d' = project_assignments d" "revision_holds d' = revision_holds d"
    "customers d' = customers d" "invoice_allocations d' = invoice_allocations d"
    "dunning_cases d' = dunning_cases d" "taxes d' = taxes d"
  using assms by (cases d; cases d'; simp add: scopeFrame_def)+

section \<open>The transactional check and the list filter agree\<close>

lemma roleClause_bump: "roleClause (bumpImport t sn d) u r cs = roleClause d u r cs"
  by (simp add: roleClause_def ownsContract_def assistsContract_def bumpImport_def)

lemma roleClause_import_version:
  "roleClause d u r (cs\<lparr>cs_import_version := n\<rparr>) = roleClause d u r cs"
  by (simp add: roleClause_def ownsContract_def assistsContract_def)

lemma lockContractResponsibilities_bump:
  "lockContractResponsibilities s p perm sn (bumpImport t sn' d) =
   lockContractResponsibilities s p perm sn d"
proof -
  have "list_ex (\<lambda>cs. cs_tenant cs = p_tenant p \<and> cs_id cs = sn \<and> roleClause d (p_user p) role cs)
          (update_rows P (\<lambda>cs. cs\<lparr>cs_import_version := Suc (cs_import_version cs)\<rparr>) ss) =
        list_ex (\<lambda>cs. cs_tenant cs = p_tenant p \<and> cs_id cs = sn \<and> roleClause d (p_user p) role cs) ss"
    for P role ss
    by (induction ss) (auto simp: update_rows_def roleClause_import_version)
  then show ?thesis
    unfolding lockContractResponsibilities_def roleClause_bump
    by (simp add: bumpImport_def)
qed

lemma lockImportWrite_cases:
  "lockImportWrite s p sn d = Inr d' \<Longrightarrow> d' = d \<or> d' = bumpImport (p_tenant p) sn d"
  by (auto simp: lockImportWrite_def res_inv split: if_splits)

lemma lockContractResponsibilities_iff:
  assumes "p_user p \<noteq> ''''" "Allows p perm" "\<not> Unrestricted s p perm"
  shows "lockContractResponsibilities s p perm sn d \<longleftrightarrow>
         (\<exists>cs \<in> set (snapshots d). cs_tenant cs = p_tenant p \<and> cs_id cs = sn \<and>
                                   ContractPredicate s p perm d cs)"
  using assms by (auto simp: lockContractResponsibilities_def ContractPredicate_def list_ex_iff)

lemma RequireContractAccessTx_lock:
  assumes "RequireContractAccessTx s p perm sn d = Inr d'"
  shows "Allows p perm \<and> (Unrestricted s p perm \<or> lockContractResponsibilities s p perm sn d)"
proof -
  from assms obtain d1 where d1: "lockImportWrite s p sn d = Inr d1" "Allows p perm"
      "Unrestricted s p perm \<or> lockContractResponsibilities s p perm sn d1"
    by (auto simp: RequireContractAccessTx_def andThen_eq_Inr guard_eq_Inr split: if_splits)
  from lockImportWrite_cases [OF d1(1)] d1(2,3) show ?thesis
    by (auto simp: lockContractResponsibilities_bump)
qed

end
