(* ===== verification/Events.thy ===== *)
theory Events
  imports RoleScope
begin

text \<open>
  What every command writes besides its own tables: the idempotency record that binds a key to
  the digest of a request (idempotency.go), the outbox event with its audit row
  (outbox_helper.go, request_meta.go) and the stand-alone audit action (audit_action.go).
\<close>

section \<open>Idempotency records\<close>

definition idem_is :: "string \<Rightarrow> string \<Rightarrow> string \<Rightarrow> idempotency_record \<Rightarrow> bool" where
  "idem_is tenant command key r \<longleftrightarrow> im_tenant r = tenant \<and> im_command r = command \<and> im_key r = key"

text \<open>
  The result is the resource bound to the key, whether this is a replay, and the new store.
\<close>

definition claimIdempotency ::
  "env \<Rightarrow> string \<Rightarrow> string \<Rightarrow> string \<Rightarrow> string \<Rightarrow> json \<Rightarrow> db \<Rightarrow> (string \<times> bool \<times> db) res" where
  "claimIdempotency e tenant command key resourceID request d =
     (let digest = e_sha256 e request;
          row = \<lparr>im_tenant = tenant, im_command = command, im_key = key, im_hash = digest,
                 im_resource = resourceID\<rparr>
      in case insert_row idempotency_clash row (idempotency d) of
           Inr t \<Rightarrow> Inr (resourceID, False, d\<lparr>idempotency := t\<rparr>)
         | Inl err \<Rightarrow>
             if err \<noteq> SqlDuplicate then Inl err
             else andThen (query_row SqlNoRows (idem_is tenant command key) (idempotency d)) (\<lambda>r.
                  if im_hash r \<noteq> digest then Inl ErrConflict else Inr (im_resource r, True, d)))"

text \<open>What a store binds a key to: the digest of the first request and its resource.\<close>

definition boundTo :: "db \<Rightarrow> string \<times> string \<times> string \<Rightarrow> (string \<times> string) option" where
  "boundTo d k = map_option (\<lambda>r. (im_hash r, im_resource r))
     (find (\<lambda>r. (im_tenant r, im_command r, im_key r) = k) (idempotency d))"

definition claimDigest ::
  "string \<times> string \<times> string \<Rightarrow> env \<times> json \<Rightarrow> string \<Rightarrow> db \<Rightarrow> (string \<times> bool \<times> db) res" where
  "claimDigest k q v d =
     claimIdempotency (fst q) (fst k) (fst (snd k)) (snd (snd k)) v (snd q) d"

text \<open>
  The contract of an idempotency ledger: a fresh key is bound, the same request finds its
  binding, another request is refused. Clients get that a binding never changes and that a
  retry returns the first result whatever was claimed in between.
\<close>

locale idempotency_ledger =
  fixes claim :: "'k \<Rightarrow> 'q \<Rightarrow> 'v \<Rightarrow> 's \<Rightarrow> 'e + ('v \<times> bool \<times> 's)"
    and dig :: "'q \<Rightarrow> 'h"
    and bound :: "'s \<Rightarrow> 'k \<Rightarrow> ('h \<times> 'v) option"
    and conflict :: 'e
  assumes claim_fresh: "bound s k = None \<Longrightarrow>
      \<exists>s'. claim k q v s = Inr (v, False, s') \<and> bound s' = (bound s)(k \<mapsto> (dig q, v))"
    and claim_same: "bound s k = Some (dig q, w) \<Longrightarrow> claim k q v s = Inr (w, True, s)"
    and claim_other: "bound s k = Some (h, w) \<Longrightarrow> h \<noteq> dig q \<Longrightarrow> claim k q v s = Inl conflict"
begin

lemma claim_cases:
  "(\<exists>s'. bound s k = None \<and> claim k q v s = Inr (v, False, s') \<and> bound s' = (bound s)(k \<mapsto> (dig q, v)))
   \<or> (\<exists>w. bound s k = Some (dig q, w) \<and> claim k q v s = Inr (w, True, s))
   \<or> (\<exists>h w. bound s k = Some (h, w) \<and> h \<noteq> dig q \<and> claim k q v s = Inl conflict)"
  by (cases "bound s k") (use claim_fresh claim_same claim_other in fastforce)+

lemma claim_binds: "claim k q v s = Inr (w, r, s') \<Longrightarrow> bound s' k = Some (dig q, w)"
  using claim_cases [of s k q v] by auto

lemma claim_keeps: "bound s k' = Some b \<Longrightarrow> claim k q v s = Inr (w, r, s') \<Longrightarrow> bound s' k' = Some b"
  using claim_cases [of s k q v] by auto

text \<open>A history of later claims, each of which either succeeded or was refused.\<close>

fun claims :: "('k \<times> 'q \<times> 'v) list \<Rightarrow> 's \<Rightarrow> 's" where
  "claims [] s = s"
| "claims ((k, q, v) # cs) s =
     claims cs (case claim k q v s of Inl _ \<Rightarrow> s | Inr (_, _, s') \<Rightarrow> s')"

lemma claims_keep: "bound s k = Some b \<Longrightarrow> bound (claims cs s) k = Some b"
proof (induction cs arbitrary: s)
  case (Cons c cs)
  obtain k' q v where c: "c = (k', q, v)" by (cases c)
  show ?case
  proof (cases "claim k' q v s")
    case (Inl e)
    with Cons c show ?thesis by simp
  next
    case (Inr x)
    obtain w r s' where x: "x = (w, r, s')" by (cases x)
    with Inr Cons.prems have "bound s' k = Some b"
      by (auto intro: claim_keeps)
    with Cons.IH Inr c x show ?thesis by simp
  qed
qed simp

lemma replay_returns_first:
  assumes "claim k q v s = Inr (w, r, s')" "dig q' = dig q"
  shows "claim k q' v' (claims cs s') = Inr (w, True, claims cs s')"
proof -
  have "bound (claims cs s') k = Some (dig q', w)"
    using claims_keep [OF claim_binds [OF assms(1)]] assms(2) by simp
  then show ?thesis by (rule claim_same)
qed

lemma other_request_refused:
  assumes "claim k q v s = Inr (w, r, s')" "dig q' \<noteq> dig q"
  shows "claim k q' v' (claims cs s') = Inl conflict"
proof -
  have "bound (claims cs s') k = Some (dig q, w)"
    using claims_keep [OF claim_binds [OF assms(1)]] by simp
  then show ?thesis using assms(2) by (metis claim_other)
qed

end

lemma idem_is_key: "idem_is t c k = (\<lambda>r. (im_tenant r, im_command r, im_key r) = (t, c, k))"
  by (auto simp: idem_is_def)

lemma claimIdempotency_fresh:
  assumes "boundTo d (t, c, k) = None"
  shows "claimIdempotency e t c k v q d = Inr (v, False, d\<lparr>idempotency := idempotency d @
           [\<lparr>im_tenant = t, im_command = c, im_key = k, im_hash = e_sha256 e q, im_resource = v\<rparr>]\<rparr>)"
  using assms
  by (auto simp: claimIdempotency_def Let_def boundTo_def insert_row_def idempotency_clash_def
      find_None_iff list_ex_iff)

lemma claimIdempotency_bound:
  assumes "boundTo d (t, c, k) = Some (h, w)"
  shows "claimIdempotency e t c k v q d =
         (if h \<noteq> e_sha256 e q then Inl ErrConflict else Inr (w, True, d))"
proof -
  from assms obtain r where f: "find (\<lambda>r. (im_tenant r, im_command r, im_key r) = (t, c, k)) (idempotency d) = Some r"
      and r: "im_hash r = h" "im_resource r = w"
    by (auto simp: boundTo_def)
  from f have "r \<in> set (idempotency d)" "im_tenant r = t" "im_command r = c" "im_key r = k"
    by (auto dest: find_SomeD)
  then have "list_ex (idempotency_clash \<lparr>im_tenant = t, im_command = c, im_key = k,
      im_hash = e_sha256 e q, im_resource = v\<rparr>) (idempotency d)"
    by (auto simp: list_ex_iff idempotency_clash_def)
  then show ?thesis
    using f r by (simp add: claimIdempotency_def Let_def insert_row_def query_row_def idem_is_key)
qed

interpretation idem: idempotency_ledger claimDigest "\<lambda>(e, q). e_sha256 e q" boundTo ErrConflict
proof unfold_locales
  fix s k and q :: "env \<times> json" and v :: string
  assume n: "boundTo s k = None"
  let ?row = "\<lparr>im_tenant = fst k, im_command = fst (snd k), im_key = snd (snd k),
                im_hash = e_sha256 (fst q) (snd q), im_resource = v\<rparr>"
  have "boundTo (s\<lparr>idempotency := idempotency s @ [?row]\<rparr>) =
        (boundTo s)(k \<mapsto> (e_sha256 (fst q) (snd q), v))"
    using n by (auto simp: boundTo_def fun_eq_iff find_snoc split: option.splits)
  then show "\<exists>s'. claimDigest k q v s = Inr (v, False, s') \<and>
             boundTo s' = (boundTo s)(k \<mapsto> (case q of (e, q) \<Rightarrow> e_sha256 e q, v))"
    using n by (simp add: claimDigest_def claimIdempotency_fresh split: prod.splits)
next
  fix s k and q :: "env \<times> json" and w v :: string
  assume "boundTo s k = Some (case q of (e, q) \<Rightarrow> e_sha256 e q, w)"
  then show "claimDigest k q v s = Inr (w, True, s)"
    by (cases k; cases q) (simp add: claimDigest_def claimIdempotency_bound)
next
  fix s k and q :: "env \<times> json" and h w v :: string
  assume "boundTo s k = Some (h, w)" "h \<noteq> (case q of (e, q) \<Rightarrow> e_sha256 e q)"
  then show "claimDigest k q v s = Inl ErrConflict"
    by (cases k; cases q) (simp add: claimDigest_def claimIdempotency_bound)
qed

definition idemFrame :: "db \<Rightarrow> db \<Rightarrow> bool" where
  "idemFrame d d' \<longleftrightarrow> d'\<lparr>idempotency := []\<rparr> = d\<lparr>idempotency := []\<rparr>"

lemma claimIdempotency_frame:
  "claimIdempotency e t c k v q d = Inr (w, r, d') \<Longrightarrow> idemFrame d d'"
  by (cases "boundTo d (t, c, k)")
     (auto simp: claimIdempotency_fresh claimIdempotency_bound idemFrame_def split: if_splits)

lemma claimIdempotency_replay_same:
  "claimIdempotency e t c k v q d = Inr (w, True, d') \<Longrightarrow> d' = d"
  by (cases "boundTo d (t, c, k)")
     (auto simp: claimIdempotency_fresh claimIdempotency_bound split: if_splits)

lemma claimIdempotency_new:
  "claimIdempotency e t c k v q d = Inr (w, False, d') \<Longrightarrow> w = v"
  by (cases "boundTo d (t, c, k)")
     (auto simp: claimIdempotency_fresh claimIdempotency_bound split: if_splits)

section \<open>Outbox and audit\<close>

definition putIfAbsent :: "string \<Rightarrow> string \<Rightarrow> payload \<Rightarrow> payload" where
  "putIfAbsent k v m = (if jget m k = None \<and> v \<noteq> '''' then jset k (JStr v) m else m)"

definition enrichAuditIP :: "payload \<Rightarrow> RequestMeta \<Rightarrow> payload" where
  "enrichAuditIP m meta =
     putIfAbsent ''ip_source'' (IPSource meta)
       (putIfAbsent ''client_ip'' (ClientIP meta) (putIfAbsent ''login_ip'' (LoginIP meta) m))"

definition stringOr :: "payload \<Rightarrow> string \<Rightarrow> string \<Rightarrow> string" where
  "stringOr m k fallback =
     (case jget m k of Some (JStr v) \<Rightarrow> if v \<noteq> '''' then v else fallback | _ \<Rightarrow> fallback)"

text \<open>The payload as it is marshalled: a tax command gets its envelope, an audit its addresses.\<close>

definition outboxPayload ::
  "env \<Rightarrow> string \<Rightarrow> string \<Rightarrow> string \<Rightarrow> string \<Rightarrow> payload \<Rightarrow> payload" where
  "outboxPayload e eventID tenant destination eventType body =
     (let b1 = (if destination = ''TAX_INVOICE_COMMAND''
                then jset ''occurred_at'' (JInt (e_now e)) (jset ''tenant_id'' (JStr tenant)
                      (jset ''schema_version'' (JInt 1) (jset ''event_type'' (JStr eventType)
                        (jset ''event_id'' (JStr eventID) body)))) else body)
      in if destination = ''PLATFORM_AUDIT'' then enrichAuditIP b1 (e_meta e) else b1)"

text \<open>
  \<open>outbox\<close>. Its identifiers are the \<open>i\<close>-th and the next result of \<open>newID\<close>
  within the call of the handler.
\<close>

definition outbox ::
  "env \<Rightarrow> nat \<Rightarrow> string \<Rightarrow> string \<Rightarrow> string \<Rightarrow> string \<Rightarrow> string \<Rightarrow> payload \<Rightarrow> db \<Rightarrow> db res" where
  "outbox e i tenant destination eventType aggregateType aggregateID body d =
     (let eid = e_ids e i;
          b = outboxPayload e eid tenant destination eventType body
      in andThen (insert_row outbox_clash
             \<lparr>ob_id = eid, ob_tenant = tenant, ob_event = eid, ob_destination = destination,
              ob_type = eventType, ob_aggregate_type = aggregateType, ob_aggregate = aggregateID,
              ob_payload = b, ob_status = OB_PENDING, ob_attempts = 0, ob_available_at = e_now e,
              ob_locked_by = None, ob_locked_until = None, ob_created_at = e_now e,
              ob_delivered_at = None, ob_dead_at = None, ob_error_code = '''', ob_error_summary = ''''\<rparr>
             (outbox_events d)) (\<lambda>ob.
         if destination = ''PLATFORM_AUDIT''
         then andThen (insert_row audit_clash
                \<lparr>au_id = e_ids e (Suc i), au_tenant = tenant, au_actor = stringOr b ''actor_id'' ''SYSTEM'',
                 au_action = eventType, au_resource_type = aggregateType, au_resource = aggregateID,
                 au_result = stringOr b ''result'' ''SUCCESS'', au_request = eid, au_detail = b\<rparr>
                (audits d)) (\<lambda>au. Inr (d\<lparr>outbox_events := ob, audits := au\<rparr>))
         else Inr (d\<lparr>outbox_events := ob\<rparr>)))"

definition eventFrame :: "db \<Rightarrow> db \<Rightarrow> bool" where
  "eventFrame d d' \<longleftrightarrow>
     d'\<lparr>outbox_events := [], audits := []\<rparr> = d\<lparr>outbox_events := [], audits := []\<rparr>"

lemma outbox_frame: "outbox e i t ds et aty aid b d = Inr d' \<Longrightarrow> eventFrame d d'"
  by (auto simp: outbox_def Let_def andThen_eq_Inr eventFrame_def split: if_splits)

text \<open>An event with fresh identifiers is always recorded.\<close>

definition eventIds :: "db \<Rightarrow> string set" where
  "eventIds d = ob_id ` set (outbox_events d) \<union> ob_event ` set (outbox_events d) \<union> au_id ` set (audits d)"

lemma outbox_total:
  assumes "e_ids e i \<notin> eventIds d" "e_ids e (Suc i) \<notin> eventIds d"
  shows "\<exists>d'. outbox e i t ds et aty aid b d = Inr d' \<and> eventIds d' \<subseteq> eventIds d \<union> {e_ids e i, e_ids e (Suc i)} \<and>
    eventFrame d d'"
proof -
  have "\<not> list_ex (outbox_clash a) (outbox_events d)" if "ob_id a = e_ids e i" "ob_event a = e_ids e i" for a
    using that assms(1) by (auto simp: list_ex_iff outbox_clash_def eventIds_def)
  moreover have "\<not> list_ex (audit_clash a) (audits d)" if "au_id a = e_ids e (Suc i)" for a
    using that assms(2) by (auto simp: list_ex_iff audit_clash_def eventIds_def)
  ultimately show ?thesis
    by (auto simp: outbox_def Let_def insert_row_def eventIds_def eventFrame_def)
qed

lemma eventFrame_tables [frame_simps]:
  assumes "eventFrame d d'"
  shows "snapshots d' = snapshots d" "streams d' = streams d" "plans d' = plans d"
    "receivables d' = receivables d" "receipts d' = receipts d" "allocations d' = allocations d"
    "reversals d' = reversals d" "differences d' = differences d" "vouchers d' = vouchers d"
    "inbox d' = inbox d" "idempotency d' = idempotency d" "credit_syncs d' = credit_syncs d"
    "contract_imports d' = contract_imports d" "import_facts d' = import_facts d"
    "responsibilities d' = responsibilities d" "project_references d' = project_references d"
    "project_assignments d' = project_assignments d" "revision_holds d' = revision_holds d"
    "customers d' = customers d" "invoice_allocations d' = invoice_allocations d"
    "dunning_cases d' = dunning_cases d" "taxes d' = taxes d"
  using assms by (cases d; cases d'; simp add: eventFrame_def)+

lemma idemFrame_tables [frame_simps]:
  assumes "idemFrame d d'"
  shows "snapshots d' = snapshots d" "streams d' = streams d" "plans d' = plans d"
    "receivables d' = receivables d" "receipts d' = receipts d" "allocations d' = allocations d"
    "reversals d' = reversals d" "differences d' = differences d" "vouchers d' = vouchers d"
    "inbox d' = inbox d" "outbox_events d' = outbox_events d" "audits d' = audits d"
    "credit_syncs d' = credit_syncs d" "contract_imports d' = contract_imports d"
    "import_facts d' = import_facts d" "responsibilities d' = responsibilities d"
    "project_references d' = project_references d"
    "project_assignments d' = project_assignments d" "revision_holds d' = revision_holds d"
    "customers d' = customers d" "invoice_allocations d' = invoice_allocations d"
    "dunning_cases d' = dunning_cases d" "taxes d' = taxes d"
  using assms by (cases d; cases d'; simp add: idemFrame_def)+

definition AuditAction ::
  "env \<Rightarrow> Principal \<Rightarrow> string \<Rightarrow> string \<Rightarrow> string \<Rightarrow> payload \<Rightarrow> db \<Rightarrow> (unit \<times> db) res" where
  "AuditAction e p eventType resourceType resourceID detail d =
     resMap (\<lambda>d'. ((), d'))
       (outbox e 0 (p_tenant p) ''PLATFORM_AUDIT'' eventType resourceType resourceID
          (jset ''result'' (JStr ''SUCCESS'') (jset ''actor_id'' (JStr (p_user p)) detail)) d)"

end
