(* ===== verification/ImportFacts.thy ===== *)
theory ImportFacts
  imports Events
begin

text \<open>
  Source facts of imported contracts (contract_import.go): the identity rules, the binding of a
  source fact to the business record it produced, the derived idempotency key, and the guard
  that keeps ordinary commands away from receipts of a contract still under import.
\<close>

section \<open>Identities and import commands\<close>

definition validImportFactIdentity :: "string \<Rightarrow> nat \<Rightarrow> bool" where
  "validImportFactIdentity value maximum \<longleftrightarrow>
     \<not> (value = '''' \<or> length value > maximum \<or> trimSpace value \<noteq> value \<or> \<not> validUtf8 value) \<and>
     \<not> hasControl value"

text \<open>The contract of an event, as its JSON states it.\<close>

record PaymentTerm =
  pt_no :: int
  pt_due :: string
  pt_amount :: string

record ContractBody =
  ct_owner :: string
  ct_id :: string
  ct_no :: string
  ct_version :: int
  ct_customer :: string
  ct_customer_name :: string
  ct_project :: string
  ct_project_name :: string
  ct_currency :: string
  ct_amount :: string
  ct_terms :: "PaymentTerm list"

text \<open>An import command. The contract is None where it cannot be decoded; the occurrence is None where it is the zero time.\<close>

record ContractImportCommand =
  cc_expected :: "expected_fact list option"
  cc_event :: string
  cc_type :: string
  cc_schema :: int
  cc_phase :: string
  cc_tenant :: string
  cc_item :: string
  cc_revision :: nat
  cc_digest :: string
  cc_release :: nat
  cc_mode :: string
  cc_occurred :: "string option"
  cc_contract :: "ContractBody option"
  cc_reconciliation :: string
  cc_snapshot_version :: nat
  cc_owner_version :: nat

definition isLowerHex :: "char \<Rightarrow> bool" where
  "isLowerHex c \<longleftrightarrow> isDigit c \<or> (97 \<le> byte c \<and> byte c \<le> 102)"

text \<open>The loop over the expected facts, with the keys already seen.\<close>

fun checkExpected :: "(string \<times> string \<times> string) list \<Rightarrow> expected_fact list \<Rightarrow> unit res" where
  "checkExpected seen [] = Inr ()"
| "checkExpected seen (f # fs) =
     (if xf_type f \<noteq> ''RECEIPT'' \<and> xf_type f \<noteq> ''ALLOCATION'' then Inl ErrImportBlocked
      else if \<not> validImportFactIdentity (xf_system f) 64 \<or> \<not> validImportFactIdentity (xf_external f) 128
        then Inl ErrInvalid
      else let key = (xf_system f, xf_type f, xf_external f) in
        if key \<in> set seen then Inl ErrInvalid else checkExpected (key # seen) fs)"

definition validateImportCommand :: "string \<Rightarrow> string \<Rightarrow> ContractImportCommand \<Rightarrow> unit res" where
  "validateImportCommand tenant phase c =
     (if tenant = '''' \<or> cc_tenant c \<noteq> tenant \<or> cc_type c \<noteq> ''contract.import_financial.v1'' \<or>
         cc_schema c \<noteq> 1 \<or> cc_phase c \<noteq> phase then Inl ErrInvalid
      else if cc_revision c = 0 \<or> cc_release c = 0 \<or> cc_occurred c = None \<or>
         \<not> (length (cc_digest c) = 64 \<and> list_all isLowerHex (cc_digest c)) then Inl ErrInvalid
      else if cc_mode c \<noteq> ''CONTINUE_LIVE'' \<and> cc_mode c \<noteq> ''HISTORICAL_CLOSED'' then Inl ErrInvalid
      else if list_ex (\<lambda>v. v = '''' \<or> trimSpace v \<noteq> v \<or> length v > 128) [cc_event c, cc_item c]
        then Inl ErrInvalid
      else if phase = ''PREPARE'' then
        (case cc_expected c of
           None \<Rightarrow> Inl ErrInvalid
         | Some fs \<Rightarrow> if length fs > 100000 then Inl ErrInvalid else checkExpected [] fs)
      else Inr ())"

text \<open>The accepted list of expected facts has no duplicate identity.\<close>

lemma checkExpected_Inr:
  "checkExpected seen fs = Inr u \<Longrightarrow>
   distinct (map (\<lambda>f. (xf_system f, xf_type f, xf_external f)) fs) \<and>
   set (map (\<lambda>f. (xf_system f, xf_type f, xf_external f)) fs) \<inter> set seen = {}"
proof (induction fs arbitrary: seen)
  case (Cons f fs)
  let ?k = "(xf_system f, xf_type f, xf_external f)"
  from Cons.prems have k: "?k \<notin> set seen" and r: "checkExpected (?k # seen) fs = Inr u"
    by (auto simp: Let_def split: if_splits)
  from Cons.IH [OF r] k show ?case by auto
qed simp

section \<open>Binding a source fact\<close>

record ImportFact =
  if_snapshot :: string
  if_system :: string
  if_type :: string
  if_external :: string
  if_original_receipt :: string
  if_original_installment :: int
  if_original_allocation :: string

definition fact_is :: "string \<Rightarrow> ImportFact \<Rightarrow> string \<Rightarrow> import_fact_row \<Rightarrow> bool" where
  "fact_is tenant f kind r \<longleftrightarrow>
     fr_tenant r = tenant \<and> fr_snapshot r = if_snapshot f \<and> fr_system r = if_system f \<and>
     fr_type r = kind \<and> fr_external r = if_external f"

definition declaredFact :: "ImportFact \<Rightarrow> expected_fact list \<Rightarrow> bool" where
  "declaredFact f manifest =
     list_ex (\<lambda>x. xf_system x = if_system f \<and> xf_type x = if_type f \<and> xf_external x = if_external f)
       manifest"

definition claimImportFact ::
  "Service \<Rightarrow> env \<Rightarrow> Principal \<Rightarrow> ImportFact option \<Rightarrow> string \<Rightarrow> string \<Rightarrow> json \<Rightarrow> db \<Rightarrow>
   (string \<times> bool \<times> db) res" where
  "claimImportFact s e p factO kind rid body d =
     (case factO of
        None \<Rightarrow> Inr (rid, False, d)
      | Some f \<Rightarrow>
         if if_type f \<noteq> kind \<or> if_snapshot f = '''' \<or> \<not> validImportFactIdentity (if_system f) 64 \<or>
            \<not> validImportFactIdentity (if_external f) 128 then Inl ErrInvalid
         else if kind = ''ALLOCATION'' \<and> (if_original_receipt f = '''' \<or> if_original_installment f < 1 \<or>
            if_original_allocation f = '''') then Inl ErrInvalid
         else andThen (financeAccess s p ''settlement.import.reconcile'') (\<lambda>_.
         let hash = e_sha256 e body in
         case find (fact_is (p_tenant p) f kind) (import_facts d) of
           Some r \<Rightarrow> if fr_hash r \<noteq> hash then Inl ErrConflict else Inr (fr_target r, True, d)
         | None \<Rightarrow>
             andThen (lockImportWrite s p (if_snapshot f) d) (\<lambda>d1.
             andThen (migrationOf d1 (p_tenant p) (if_snapshot f)) (\<lambda>state.
             if state \<noteq> HOLD then Inl ErrConflict
             else andThen (query_row SqlNoRows
                    (\<lambda>ci. ci_tenant ci = p_tenant p \<and> ci_snapshot ci = if_snapshot f)
                    (contract_imports d1)) (\<lambda>ci.
             if \<not> declaredFact f (ci_expected ci) then Inl ErrImportBlocked
             else case insert_row import_fact_clash
                    \<lparr>fr_tenant = p_tenant p, fr_snapshot = if_snapshot f, fr_system = if_system f,
                     fr_type = kind, fr_external = if_external f, fr_hash = hash, fr_target = rid\<rparr>
                    (import_facts d1) of
                  Inr t \<Rightarrow> Inr (rid, False, d1\<lparr>import_facts := t\<rparr>)
                | Inl err \<Rightarrow>
                   if err \<noteq> SqlDuplicate then Inl err
                   else andThen (query_row SqlNoRows (fact_is (p_tenant p) f kind) (import_facts d1)) (\<lambda>r.
                        if fr_hash r \<noteq> hash then Inl ErrConflict else Inr (fr_target r, True, d1)))))))"

definition importFactKey :: "env \<Rightarrow> ImportFact option \<Rightarrow> string \<Rightarrow> string" where
  "importFactKey e factO fallback =
     (case factO of None \<Rightarrow> fallback
      | Some f \<Rightarrow> ''IMPORT-'' @ e_sha256 e (JArr [JStr (if_snapshot f), JStr (if_system f),
                                                 JStr (if_type f), JStr (if_external f)]))"

definition rejectImportedReceiptMutation :: "string \<Rightarrow> string \<Rightarrow> db \<Rightarrow> unit res" where
  "rejectImportedReceiptMutation tenant rcpt d =
     (if exists_row (\<lambda>f. fr_tenant f = tenant \<and> fr_type f = ''RECEIPT'' \<and> fr_target f = rcpt \<and>
           exists_row (\<lambda>cs. cs_id cs = fr_snapshot f \<and> cs_tenant cs = fr_tenant f \<and>
                            cs_migration cs = HOLD) (snapshots d)) (import_facts d)
      then Inl ErrImportBlocked else Inr ())"

section \<open>What a claim changes\<close>

definition factFrame :: "db \<Rightarrow> db \<Rightarrow> bool" where
  "factFrame d d' \<longleftrightarrow>
     d'\<lparr>snapshots := [], contract_imports := [], import_facts := []\<rparr> =
     d\<lparr>snapshots := [], contract_imports := [], import_facts := []\<rparr> \<and>
     map snapshotFacts (snapshots d') = map snapshotFacts (snapshots d)"

lemma factFrame_refl [simp]: "factFrame d d"
  by (simp add: factFrame_def)

lemma scopeFrame_factFrame: "scopeFrame d d' \<Longrightarrow> factFrame d d'"
  by (cases d; cases d') (simp add: scopeFrame_def factFrame_def)

lemma factFrame_facts: "factFrame d (d1\<lparr>import_facts := t\<rparr>) \<longleftrightarrow> factFrame d d1"
  by (simp add: factFrame_def)

lemma factFrame_tables [frame_simps]:
  assumes "factFrame d d'"
  shows "streams d' = streams d" "plans d' = plans d" "receivables d' = receivables d"
    "receipts d' = receipts d" "allocations d' = allocations d" "reversals d' = reversals d"
    "differences d' = differences d" "vouchers d' = vouchers d" "inbox d' = inbox d"
    "outbox_events d' = outbox_events d" "audits d' = audits d" "idempotency d' = idempotency d"
    "credit_syncs d' = credit_syncs d" "responsibilities d' = responsibilities d"
    "project_references d' = project_references d"
    "project_assignments d' = project_assignments d" "revision_holds d' = revision_holds d"
    "customers d' = customers d" "invoice_allocations d' = invoice_allocations d"
    "dunning_cases d' = dunning_cases d" "taxes d' = taxes d"
  using assms by (cases d; cases d'; simp add: factFrame_def)+

lemma claimImportFact_frame:
  assumes "claimImportFact s e p f k rid b d = Inr (w, r, d')"
  shows "factFrame d d'"
proof (cases f)
  case None
  with assms show ?thesis by (simp add: claimImportFact_def)
next
  case (Some f')
  show ?thesis
  proof (cases "find (fact_is (p_tenant p) f' k) (import_facts d)")
    case (Some r)
    with assms \<open>f = Some f'\<close> show ?thesis
      by (auto simp: claimImportFact_def Let_def andThen_eq_Inr split: if_splits)
  next
    case None
    with assms Some obtain d1 where l: "lockImportWrite s p (if_snapshot f') d = Inr d1"
        and "d' = d1 \<or> (\<exists>t. d' = d1\<lparr>import_facts := t\<rparr>)"
      by (auto simp: claimImportFact_def Let_def andThen_eq_Inr split: if_splits sum.splits)
    then show ?thesis
      using scopeFrame_factFrame [OF lockImportWrite_frame [OF l]] by (auto simp: factFrame_facts)
  qed
qed

text \<open>A source fact that is found again returns the record it was bound to and changes nothing.\<close>

lemma claimImportFact_replay_same:
  assumes "claimImportFact s e p (Some f) k rid b d = Inr (w, True, d')"
    and "find (fact_is (p_tenant p) f k) (import_facts d) = Some r"
  shows "d' = d \<and> w = fr_target r \<and> fr_hash r = e_sha256 e b"
  using assms by (auto simp: claimImportFact_def Let_def andThen_eq_Inr split: if_splits)

end
