(* ===== verification/CreditSync.thy ===== *)
theory CreditSync
  imports ImportFacts
begin

text \<open>
  Credit facts for the CRM (credit_sync.go, credit_sync_worker.go, financial_subscription.go and
  \<open>enqueueCreditReversal\<close> of invoice_totals.go). An event that settles a receivable is stored
  with the ledger transaction and delivered later, at once by the service or by the worker. The
  outcome of one call of the publisher is a parameter.
\<close>

section \<open>Who produces credit facts\<close>

definition creditEventCompleted :: string where
  "creditEventCompleted = ''customer.credit.payment.completed.v1''"

definition creditEventReversed :: string where
  "creditEventReversed = ''customer.credit.payment.reversed.v1''"

definition creditSubscribed :: "Service \<Rightarrow> bool" where
  "creditSubscribed s = (case CreditSyncSubscribed s of None \<Rightarrow> True | Some b \<Rightarrow> b)"

definition creditEligibleSnapshot :: "Service \<Rightarrow> string \<Rightarrow> string \<Rightarrow> string \<Rightarrow> db \<Rightarrow> bool res" where
  "creditEligibleSnapshot s tenant snapshot customer d =
     (if \<not> creditSubscribed s then Inr False
      else if parseUint64 (trimSpace customer) = None then Inr False
      else if CreditSyncSubscribed s = None then Inr True
      else andThen (query_row SqlNoRows (\<lambda>cs. cs_tenant cs = tenant \<and> cs_id cs = snapshot) (snapshots d))
        (\<lambda>cs. Inr (cs_basis cs = CONTRACT \<and> cs_source cs = ''contract_management'' \<and>
                   (case cs_contract cs of None \<Rightarrow> False | Some c \<Rightarrow> trimSpace c \<noteq> '''') \<and>
                   (cs_namespace cs = ''crm'' \<or> cs_namespace cs = ''legacy''))))"

section \<open>Storing an event\<close>

text \<open>The receivable belongs to a contract that is still under import.\<close>

definition receivableHeld :: "db \<Rightarrow> string \<Rightarrow> string \<Rightarrow> bool" where
  "receivableHeld d tenant receivableID =
     exists_row (\<lambda>v. rv_tenant v = tenant \<and> rv_id v = receivableID \<and>
       exists_row (\<lambda>cs. cs_id cs = rv_snapshot v \<and> cs_tenant cs = rv_tenant v \<and> cs_migration cs = HOLD)
         (snapshots d)) (receivables d)"

definition insertCreditSyncEvent ::
  "env \<Rightarrow> nat \<Rightarrow> string \<Rightarrow> string \<Rightarrow> string \<Rightarrow> string \<Rightarrow> string \<Rightarrow> string \<Rightarrow> payload \<Rightarrow> db \<Rightarrow> db res" where
  "insertCreditSyncEvent e i tenant eventID allocID receivableID eventType originalEventID body d =
     andThen (insert_row credit_clash
        \<lparr>cy_id = e_ids e i, cy_tenant = tenant, cy_event = eventID, cy_type = eventType,
         cy_original = originalEventID, cy_allocation = allocID, cy_receivable = receivableID,
         cy_status = (if receivableHeld d tenant receivableID then CS_HOLD else CS_PENDING),
         cy_payload = body, cy_attempts = 0, cy_locked_at = None,
         cy_created_at = e_now e, cy_updated_at = e_now e\<rparr> (credit_syncs d))
       (\<lambda>t. Inr (d\<lparr>credit_syncs := t\<rparr>))"

definition insertCreditSync ::
  "env \<Rightarrow> nat \<Rightarrow> string \<Rightarrow> string \<Rightarrow> string \<Rightarrow> string \<Rightarrow> payload \<Rightarrow> db \<Rightarrow> db res" where
  "insertCreditSync e i tenant eventID allocID receivableID body d =
     insertCreditSyncEvent e i tenant eventID allocID receivableID creditEventCompleted '''' body d"

section \<open>Withdrawing a settlement\<close>

text \<open>\<open>ORDER BY created_at DESC, id DESC LIMIT 1\<close>.\<close>

definition newer :: "credit_sync \<Rightarrow> credit_sync \<Rightarrow> bool" where
  "newer a b \<longleftrightarrow> cy_created_at b < cy_created_at a \<or>
     (cy_created_at a = cy_created_at b \<and> strLess (cy_id b) (cy_id a))"

definition latest :: "credit_sync list \<Rightarrow> credit_sync option" where
  "latest = best newer"

definition compensated :: "db \<Rightarrow> credit_sync \<Rightarrow> bool" where
  "compensated d c = exists_row (\<lambda>r. cy_tenant r = cy_tenant c \<and> cy_type r = creditEventReversed \<and>
                                    cy_original r = cy_event c) (credit_syncs d)"

definition openCompletion :: "db \<Rightarrow> string \<Rightarrow> string \<Rightarrow> credit_sync \<Rightarrow> bool" where
  "openCompletion d tenant receivableID c \<longleftrightarrow>
     cy_tenant c = tenant \<and> cy_receivable c = receivableID \<and> cy_type c = creditEventCompleted \<and>
     cy_status c \<noteq> CS_CANCELLED \<and> \<not> compensated d c"

definition jstr :: "payload \<Rightarrow> string \<Rightarrow> json" where
  "jstr m k = (case jget m k of Some (JStr v) \<Rightarrow> JStr v | _ \<Rightarrow> JStr [])"

definition jint :: "payload \<Rightarrow> string \<Rightarrow> json" where
  "jint m k = (case jget m k of Some (JInt v) \<Rightarrow> JInt v | _ \<Rightarrow> JInt 0)"

definition reversalPayload :: "string \<Rightarrow> string \<Rightarrow> credit_sync \<Rightarrow> payload" where
  "reversalPayload reversalEventID tenant c =
     [(''event_id'', JStr reversalEventID), (''event_type'', JStr creditEventReversed),
      (''tenant_id'', JStr tenant), (''payment_id'', JStr reversalEventID),
      (''reversal_of_payment_id'', JStr (cy_allocation c)),
      (''customer_id'', jint (cy_payload c) ''customer_id''),
      (''contract_no'', jstr (cy_payload c) ''contract_no''),
      (''period_no'', jstr (cy_payload c) ''period_no''),
      (''due_date'', jstr (cy_payload c) ''due_date''),
      (''paid_date'', jstr (cy_payload c) ''paid_date''),
      (''due_amount'', jstr (cy_payload c) ''due_amount''), (''paid_amount'', JStr ''0.00''),
      (''source_system'', JStr ''settlement'')]"

text \<open>The result is the identifier of a new reversal event, or the empty string.\<close>

definition enqueueCreditReversal ::
  "env \<Rightarrow> nat \<Rightarrow> string \<Rightarrow> string \<Rightarrow> string \<Rightarrow> bool \<Rightarrow> db \<Rightarrow> (string \<times> db) res" where
  "enqueueCreditReversal e i tenant allocID receivableID subscribed d =
     (case latest (filter (openCompletion d tenant receivableID) (credit_syncs d)) of
        None \<Rightarrow> Inr ('''', d)
      | Some c \<Rightarrow>
         if cy_type c = creditEventReversed \<or> cy_status c = CS_CANCELLED then Inr ('''', d)
         else if cy_status c = CS_PENDING \<or> cy_status c = CS_RETRY_WAIT then
           Inr ('''', d\<lparr>credit_syncs := update_rows
             (\<lambda>r. cy_tenant r = tenant \<and> cy_event r = cy_event c \<and>
                  (cy_status r = CS_PENDING \<or> cy_status r = CS_RETRY_WAIT))
             (\<lambda>r. r\<lparr>cy_status := CS_CANCELLED, cy_updated_at := e_now e\<rparr>) (credit_syncs d)\<rparr>)
         else if \<not> subscribed then Inr ('''', d)
         else andThen (insertCreditSyncEvent e (Suc i) tenant (e_ids e i) allocID receivableID
                 creditEventReversed (cy_event c) (reversalPayload (e_ids e i) tenant c) d)
               (\<lambda>d'. Inr (e_ids e i, d')))"

section \<open>Delivery\<close>

datatype publish_outcome = Published | LicensePaused | AuthorizationDenied | PublishFailed

definition credit_ready :: "db \<Rightarrow> credit_sync \<Rightarrow> bool" where
  "credit_ready d r \<longleftrightarrow>
     (cy_status r = CS_PENDING \<or> cy_status r = CS_RETRY_WAIT) \<and>
     \<not> receivableHeld d (cy_tenant r) (cy_receivable r)"

definition set_credit :: "string \<Rightarrow> (credit_sync \<Rightarrow> bool) \<Rightarrow> (credit_sync \<Rightarrow> credit_sync) \<Rightarrow> db \<Rightarrow> db" where
  "set_credit rowID P f d =
     d\<lparr>credit_syncs := update_rows (\<lambda>r. cy_id r = rowID \<and> P r) f (credit_syncs d)\<rparr>"

text \<open>
  \<open>RetryCreditSync\<close>: the claim commits before the call of the publisher, so the store may
  change although the call returns an error; the result is the pair of both.
\<close>

definition RetryCreditSync ::
  "Service \<Rightarrow> env \<Rightarrow> publish_outcome \<Rightarrow> string \<Rightarrow> string \<Rightarrow> db \<Rightarrow> unit res \<times> db" where
  "RetryCreditSync s e outcome tenant eventID d =
     (if \<not> creditSubscribed s then (Inl ErrCreditSyncNotSubscribed, d)
      else if \<not> HasCreditPublisher s then (Inl ErrPublisherMissing, d)
      else case find (\<lambda>r. cy_tenant r = tenant \<and> cy_event r = eventID \<and> credit_ready d r) (credit_syncs d) of
        None \<Rightarrow> (Inl ErrNotFound, d)
      | Some r \<Rightarrow>
         let d1 = set_credit (cy_id r) (\<lambda>_. True)
                    (\<lambda>c. c\<lparr>cy_status := CS_PROCESSING, cy_locked_at := Some (e_now e),
                           cy_updated_at := e_now e\<rparr>) d;
             failed = set_credit (cy_id r) (\<lambda>c. cy_status c = CS_PROCESSING)
                    (\<lambda>c. c\<lparr>cy_status := CS_RETRY_WAIT, cy_attempts := Suc (cy_attempts c),
                           cy_updated_at := e_now e\<rparr>) d1
         in case outcome of
              LicensePaused \<Rightarrow> (Inl ErrLicensePaused, d1)
            | AuthorizationDenied \<Rightarrow> (Inl ErrCreditSyncAuthorization, failed)
            | PublishFailed \<Rightarrow> (Inl ErrPublish, failed)
            | Published \<Rightarrow> (Inr (), set_credit (cy_id r) (\<lambda>c. cy_status c = CS_PROCESSING)
                    (\<lambda>c. c\<lparr>cy_status := CS_DELIVERED, cy_updated_at := e_now e\<rparr>) d1))"

subsection \<open>The worker\<close>

text \<open>\<open>claim\<close>: due rows in the order of their last change, at most \<open>batch\<close> of them.\<close>

definition credit_claimable :: "db \<Rightarrow> int \<Rightarrow> int \<Rightarrow> credit_sync \<Rightarrow> bool" where
  "credit_claimable d now lease r \<longleftrightarrow>
     (cy_status r = CS_PENDING \<or> cy_status r = CS_RETRY_WAIT \<or>
      (cy_status r = CS_PROCESSING \<and> (case cy_locked_at r of None \<Rightarrow> False | Some l \<Rightarrow> l < now - lease))) \<and>
     \<not> receivableHeld d (cy_tenant r) (cy_receivable r)"

definition olderFirst :: "credit_sync \<Rightarrow> credit_sync \<Rightarrow> bool" where
  "olderFirst a b \<longleftrightarrow> cy_updated_at a < cy_updated_at b \<or>
     (cy_updated_at a = cy_updated_at b \<and> strLess (cy_id a) (cy_id b))"

definition orderOlder :: "credit_sync list \<Rightarrow> credit_sync list" where
  "orderOlder = orderBy olderFirst"

definition credit_claim_batch :: "int \<Rightarrow> int \<Rightarrow> nat \<Rightarrow> db \<Rightarrow> credit_sync list" where
  "credit_claim_batch now lease batch d =
     take batch (orderOlder (filter (credit_claimable d now lease) (credit_syncs d)))"

definition markProcessing :: "int \<Rightarrow> string list \<Rightarrow> credit_sync list \<Rightarrow> credit_sync list" where
  "markProcessing now ids = update_rows (\<lambda>r. cy_id r \<in> set ids)
     (\<lambda>r. r\<lparr>cy_status := CS_PROCESSING, cy_locked_at := Some now,
            cy_attempts := Suc (cy_attempts r), cy_updated_at := now\<rparr>)"

text \<open>
  \<open>lic k\<close> is the result of the \<open>k\<close>-th licence check of the round; a failed check inside
  the claim rolls the claim back.
\<close>

definition CreditClaim ::
  "(nat \<Rightarrow> bool) \<Rightarrow> int \<Rightarrow> int \<Rightarrow> nat \<Rightarrow> db \<Rightarrow> (credit_sync list \<times> db) res" where
  "CreditClaim lic now lease batch d =
     (let events = credit_claim_batch now lease batch d in
      if \<not> lic 1 then Inl ErrLicensePaused
      else if \<not> list_all (\<lambda>k. lic (2 + k)) [0..<length events] then Inl ErrLicensePaused
      else if \<not> lic (2 + length events) then Inl ErrLicensePaused
      else Inr (events, d\<lparr>credit_syncs := markProcessing now (map cy_id events) (credit_syncs d)\<rparr>))"

fun CreditDeliver ::
  "(nat \<Rightarrow> bool) \<Rightarrow> (string \<Rightarrow> publish_outcome) \<Rightarrow> env \<Rightarrow> nat \<Rightarrow> credit_sync list \<Rightarrow> db \<Rightarrow> unit res \<times> db" where
  "CreditDeliver lic pub e k [] d = (Inr (), d)"
| "CreditDeliver lic pub e k (ev # evs) d =
     (if \<not> lic k then (Inl ErrLicensePaused, d)
      else case pub (cy_event ev) of
        LicensePaused \<Rightarrow> (Inl ErrLicensePaused, d)
      | Published \<Rightarrow>
          CreditDeliver lic pub e (Suc k) evs
            (set_credit (cy_id ev) (\<lambda>c. cy_status c = CS_PROCESSING)
              (\<lambda>c. c\<lparr>cy_status := CS_DELIVERED, cy_locked_at := None, cy_updated_at := e_now e\<rparr>) d)
      | _ \<Rightarrow>
          CreditDeliver lic pub e (Suc k) evs
            (set_credit (cy_id ev) (\<lambda>c. cy_status c = CS_PROCESSING)
              (\<lambda>c. c\<lparr>cy_status := CS_RETRY_WAIT, cy_locked_at := None, cy_updated_at := e_now e\<rparr>) d))"

record CreditSyncWorker =
  w_disabled :: bool
  w_has_publisher :: bool
  w_batch :: int
  w_lease :: int

definition CreditRunOnce ::
  "CreditSyncWorker \<Rightarrow> (nat \<Rightarrow> bool) \<Rightarrow> (string \<Rightarrow> publish_outcome) \<Rightarrow> env \<Rightarrow> db \<Rightarrow> unit res \<times> db" where
  "CreditRunOnce w lic pub e d =
     (if w_disabled w then (Inr (), d)
      else if \<not> w_has_publisher w then (Inl ErrPublisherMissing, d)
      else if \<not> lic 0 then (Inl ErrLicensePaused, d)
      else let batch = (if w_batch w \<le> 0 then 50 else nat (w_batch w));
               lease = (if w_lease w \<le> 0 then 120000 else w_lease w)
           in case CreditClaim lic (e_now e) lease batch d of
                Inl err \<Rightarrow> (Inl err, d)
              | Inr (events, d1) \<Rightarrow> CreditDeliver lic pub e (3 + length events) events d1)"

section \<open>Lemmas\<close>

lemma latest_in: "latest rs = Some r \<Longrightarrow> r \<in> set rs"
  by (simp add: latest_def best_in)

lemma latest_None [simp]: "latest rs = None \<longleftrightarrow> rs = []"
  by (simp add: latest_def)

definition creditFrame :: "db \<Rightarrow> db \<Rightarrow> bool" where
  "creditFrame d d' \<longleftrightarrow> d'\<lparr>credit_syncs := []\<rparr> = d\<lparr>credit_syncs := []\<rparr>"

lemma creditFrame_simps [simp]:
  "creditFrame d d" "creditFrame d (d1\<lparr>credit_syncs := t\<rparr>) \<longleftrightarrow> creditFrame d d1"
  by (simp_all add: creditFrame_def)

lemma creditFrame_set [simp]: "creditFrame d (set_credit i P f d1) \<longleftrightarrow> creditFrame d d1"
  by (simp add: set_credit_def)

lemma creditFrame_tables [frame_simps]:
  assumes "creditFrame d d'"
  shows "snapshots d' = snapshots d" "streams d' = streams d" "plans d' = plans d"
    "receivables d' = receivables d" "receipts d' = receipts d" "allocations d' = allocations d"
    "reversals d' = reversals d" "differences d' = differences d" "vouchers d' = vouchers d"
    "inbox d' = inbox d" "outbox_events d' = outbox_events d" "audits d' = audits d"
    "idempotency d' = idempotency d" "contract_imports d' = contract_imports d"
    "import_facts d' = import_facts d" "responsibilities d' = responsibilities d"
    "project_references d' = project_references d"
    "project_assignments d' = project_assignments d" "revision_holds d' = revision_holds d"
    "customers d' = customers d" "invoice_allocations d' = invoice_allocations d"
    "dunning_cases d' = dunning_cases d" "taxes d' = taxes d"
  using assms by (cases d; cases d'; simp add: creditFrame_def)+

lemma insertCreditSyncEvent_frame:
  "insertCreditSyncEvent e i t ev al rv ty og b d = Inr d' \<Longrightarrow> creditFrame d d'"
  by (auto simp: insertCreditSyncEvent_def andThen_eq_Inr)

lemma insertCreditSync_frame: "insertCreditSync e i t ev al rv b d = Inr d' \<Longrightarrow> creditFrame d d'"
  by (simp add: insertCreditSync_def insertCreditSyncEvent_frame)

lemma enqueueCreditReversal_frame:
  "enqueueCreditReversal e i t al rv sub d = Inr (ev, d') \<Longrightarrow> creditFrame d d'"
  by (auto simp: enqueueCreditReversal_def andThen_eq_Inr dest: insertCreditSyncEvent_frame
      split: option.splits if_splits)

lemma RetryCreditSync_frame: "creditFrame d (snd (RetryCreditSync s e out t ev d))"
  by (auto simp: RetryCreditSync_def Let_def split: option.splits publish_outcome.splits)

lemma CreditDeliver_frame: "creditFrame d d1 \<Longrightarrow> creditFrame d (snd (CreditDeliver lic pub e k evs d1))"
  by (induction lic pub e k evs d1 rule: CreditDeliver.induct) (auto split: publish_outcome.splits)

lemma CreditRunOnce_frame: "creditFrame d (snd (CreditRunOnce w lic pub e d))"
  by (auto simp: CreditRunOnce_def CreditClaim_def Let_def intro!: CreditDeliver_frame split: sum.splits if_splits)

end
