(* ===== verification/Ledger.thy ===== *)
theory Ledger
  imports CreditSync
begin

text \<open>
  Receipts and their allocation to receivables: \<open>CreateReceipt\<close> and \<open>ConfirmAllocation\<close>
  (service.go), \<open>ReverseAllocation\<close> (reversal.go). Each command is one transaction; the credit
  event a settlement produces is retried once after the commit.
\<close>

section \<open>Inputs\<close>

record ReceiptInput =
  ri_fact :: "ImportFact option"
  ri_customer :: string
  ri_customer_name :: string
  ri_amount :: string
  ri_currency :: string
  ri_date :: string
  ri_method :: string
  ri_bank :: string

record AllocationInput =
  ai_fact :: "ImportFact option"
  ai_receipt :: string
  ai_receivable :: string
  ai_amount :: string
  ai_mode :: string
  ai_confidence :: int

record ReversalInput =
  vi_amount :: string
  vi_reason_code :: string
  vi_reason_detail :: string

definition jsonFact :: "ImportFact option \<Rightarrow> json" where
  "jsonFact f = (case f of None \<Rightarrow> JNull
     | Some x \<Rightarrow> JArr [JStr (if_snapshot x), JStr (if_system x), JStr (if_type x), JStr (if_external x),
                       JStr (if_original_receipt x), JInt (if_original_installment x),
                       JStr (if_original_allocation x)])"

definition jsonReceipt :: "ReceiptInput \<Rightarrow> json" where
  "jsonReceipt i = JArr [jsonFact (ri_fact i), JStr (ri_customer i), JStr (ri_customer_name i),
     JStr (ri_amount i), JStr (ri_currency i), JStr (ri_date i), JStr (ri_method i), JStr (ri_bank i)]"

definition jsonAllocation :: "AllocationInput \<Rightarrow> json" where
  "jsonAllocation i = JArr [jsonFact (ai_fact i), JStr (ai_receipt i), JStr (ai_receivable i),
     JStr (ai_amount i), JStr (ai_mode i), JInt (ai_confidence i)]"

section \<open>Recording a receipt\<close>

definition nativeCustomerPrefix :: string where
  "nativeCustomerPrefix = ''settlement_local:''"

definition isUpperHex :: "char \<Rightarrow> bool" where
  "isUpperHex c \<longleftrightarrow> isDigit c \<or> (65 \<le> byte c \<and> byte c \<le> 70)"

definition nativeCustomerPattern :: "string \<Rightarrow> bool" where
  "nativeCustomerPattern s \<longleftrightarrow> hasPrefix s nativeCustomerPrefix \<and>
     length s = length nativeCustomerPrefix + 32 \<and>
     list_all isUpperHex (drop (length nativeCustomerPrefix) s)"

definition validateNativeReceiptCustomer ::
  "Service \<Rightarrow> Principal \<Rightarrow> ReceiptInput \<Rightarrow> db \<Rightarrow> ReceiptInput res" where
  "validateNativeReceiptCustomer s p i d =
     (if \<not> hasPrefix (ri_customer i) nativeCustomerPrefix then Inr i
      else if \<not> NativeFinancialEnabled s then Inl ErrNativeFinancialDisabled
      else if \<not> Unrestricted s p ''settlement.receipt.record'' then Inl ErrForbidden
      else if \<not> nativeCustomerPattern (ri_customer i) \<or> ri_fact i \<noteq> None then Inl ErrInvalid
      else andThen (query_row ErrNotFound
             (\<lambda>c. fc_tenant c = p_tenant p \<and>
                  fc_id c = drop (length nativeCustomerPrefix) (ri_customer i) \<and> fc_active c)
             (customers d)) (\<lambda>c. Inr (i\<lparr>ri_customer_name := fc_name c\<rparr>)))"

definition paymentMethods :: "string list" where
  "paymentMethods = [''TRANSFER'', ''BANK_ACCEPTANCE'', ''CHEQUE'', ''CASH'']"

text \<open>The checks before the transaction: the normalised input and the amount.\<close>

definition checkReceiptInput ::
  "env \<Rightarrow> string \<Rightarrow> ReceiptInput \<Rightarrow> (int \<times> ReceiptInput) res" where
  "checkReceiptInput e key i =
     andThen (amountCents (ri_amount i)) (\<lambda>a.
     andThen (required key) (\<lambda>_.
     andThen (required (ri_customer i)) (\<lambda>customer.
     andThen (required (ri_customer_name i)) (\<lambda>name.
     andThen (required (ri_bank i)) (\<lambda>bank.
     if textTooLong customer 128 \<or> textTooLong name 255 \<or> textTooLong bank 128 then Inl ErrInvalid
     else let currency = toUpper (trimSpace (ri_currency i));
              payMethod = toUpper (trimSpace (ri_method i))
          in if length currency \<noteq> 3 then Inl ErrInvalid
             else if payMethod \<notin> set paymentMethods then Inl ErrInvalid
             else andThen (validateBusinessDateOn (ri_date i) (e_today e)) (\<lambda>date.
                  Inr (a, i\<lparr>ri_customer := customer, ri_customer_name := name, ri_bank := bank,
                             ri_currency := currency, ri_method := payMethod, ri_date := date\<rparr>)))))))"

definition receiptRequest :: "int \<Rightarrow> ReceiptInput \<Rightarrow> json" where
  "receiptRequest a i = JArr [JStr (ri_customer i), JStr (money a), JStr (ri_currency i),
     JStr (ri_date i), JStr (ri_method i), JStr (ri_bank i)]"

text \<open>
  How the request is claimed: an imported receipt through its source fact, a manual one through
  the idempotency record. A replay returns before the commit, so it leaves the store alone.
\<close>

definition claimReceipt ::
  "Service \<Rightarrow> env \<Rightarrow> Principal \<Rightarrow> string \<Rightarrow> string \<Rightarrow> int \<Rightarrow> ReceiptInput \<Rightarrow> db \<Rightarrow>
   (string \<times> bool \<times> db) res" where
  "claimReceipt s e p key rid a i d =
     andThen (claimImportFact s e p (ri_fact i) ''RECEIPT'' rid (jsonReceipt i) d) (\<lambda>(existing, replay, d1).
     if replay then Inr (existing, True, d)
     else case ri_fact i of
       Some f \<Rightarrow>
         if \<not> Allows p ''settlement.receipt.record'' then Inl ErrForbidden
         else andThen (query_row SqlNoRows (\<lambda>cs. cs_tenant cs = p_tenant p \<and> cs_id cs = if_snapshot f)
                (snapshots d1)) (\<lambda>cs.
              if cs_customer cs \<noteq> ri_customer i \<or> cs_currency cs \<noteq> ri_currency i then Inl ErrInvalid
              else Inr (rid, False, d1))
     | None \<Rightarrow>
         andThen (claimIdempotency e (p_tenant p) ''CREATE_RECEIPT'' key rid (receiptRequest a i) d1)
           (\<lambda>(existing, replay, d2). Inr (existing, replay, if replay then d else d2)))"

definition newReceipt :: "Principal \<Rightarrow> string \<Rightarrow> string \<Rightarrow> int \<Rightarrow> ReceiptInput \<Rightarrow> receipt" where
  "newReceipt p key rid a i =
     \<lparr>rc_id = rid, rc_tenant = p_tenant p, rc_no = ''RC-'' @ take 12 rid, rc_customer = ri_customer i,
      rc_customer_name = ri_customer_name i, rc_amount = a, rc_unallocated = a,
      rc_currency = ri_currency i, rc_date = ri_date i, rc_method = ri_method i,
      rc_bank_ref = ri_bank i, rc_status = AVAILABLE, rc_idem = key, rc_version = 1\<rparr>"

text \<open>
  The insert: on a duplicate the receipt with the same idempotency key is returned and the
  transaction is committed.
\<close>

definition storeReceipt ::
  "env \<Rightarrow> Principal \<Rightarrow> string \<Rightarrow> string \<Rightarrow> int \<Rightarrow> ReceiptInput \<Rightarrow> db \<Rightarrow> (string \<times> db) res" where
  "storeReceipt e p key rid a i d =
     (case insert_row receipt_clash (newReceipt p key rid a i) (receipts d) of
        Inl err \<Rightarrow>
          if err \<noteq> SqlDuplicate then Inl err
          else (case find (\<lambda>r. rc_tenant r = p_tenant p \<and> rc_idem r = key) (receipts d) of
                  Some r \<Rightarrow> Inr (rc_id r, d)
                | None \<Rightarrow> Inl ErrConflict)
      | Inr t \<Rightarrow>
          andThen (outbox e 1 (p_tenant p) ''PLATFORM_AUDIT'' ''SETTLEMENT_RECEIPT_RECORDED'' ''receipt'' rid
             [(''actor_id'', JStr (p_user p)), (''source_type'', JStr ''MANUAL''),
              (''result'', JStr ''SUCCESS''), (''risk_level'', JStr ''HIGH'')]
             (d\<lparr>receipts := t\<rparr>)) (\<lambda>d2. Inr (rid, d2)))"

definition CreateReceipt ::
  "Service \<Rightarrow> env \<Rightarrow> Principal \<Rightarrow> string \<Rightarrow> ReceiptInput \<Rightarrow> db \<Rightarrow> (string \<times> db) res" where
  "CreateReceipt s e p key0 i0 d =
     (let key = importFactKey e (ri_fact i0) key0; rid = e_ids e 0 in
      andThen (checkReceiptInput e key i0) (\<lambda>(a, i1).
      andThen (validateNativeReceiptCustomer s p i1 d) (\<lambda>i.
      if ri_fact i \<noteq> None \<and> \<not> Allows p ''settlement.receipt.record'' then Inl ErrForbidden
      else andThen (claimReceipt s e p key rid a i d) (\<lambda>(existing, replay, d1).
      if replay then Inr (existing, d1)
      else storeReceipt e p key rid a i d1))))"

section \<open>Confirming an allocation\<close>

definition creditDate :: "string \<Rightarrow> string" where
  "creditDate value =
     (let v = trimSpace value in if length v = 10 then v @ ''T00:00:00Z'' else v)"

definition checkAllocationInput :: "string \<Rightarrow> AllocationInput \<Rightarrow> (int \<times> AllocationInput) res" where
  "checkAllocationInput key i =
     andThen (amountCents (ai_amount i)) (\<lambda>a.
     andThen (required key) (\<lambda>_.
     let mode = toUpper (trimSpace (ai_mode i)) in
     if mode \<noteq> ''MANUAL'' \<and> mode \<noteq> ''SUGGESTED'' then Inl ErrInvalid
     else if ai_confidence i < 0 \<or> ai_confidence i > 100 \<or> (mode = ''SUGGESTED'' \<and> ai_confidence i = 0)
       then Inl ErrInvalid
     else Inr (a, i\<lparr>ai_mode := mode\<rparr>)))"

text \<open>The relation an imported allocation must have to its source receipt and installment.\<close>

definition checkImportedAllocation ::
  "Principal \<Rightarrow> string \<Rightarrow> ImportFact \<Rightarrow> AllocationInput \<Rightarrow> db \<Rightarrow> unit res" where
  "checkImportedAllocation p snapshot f i d =
     andThen (query_row ErrInvalid
        (\<lambda>r. fr_tenant r = p_tenant p \<and> fr_snapshot r = snapshot \<and> fr_system r = if_system f \<and>
             fr_type r = ''RECEIPT'' \<and> fr_external r = if_original_receipt f) (import_facts d)) (\<lambda>r.
     andThen (query_row SqlNoRows
        (\<lambda>v. rv_tenant v = p_tenant p \<and> rv_id v = ai_receivable i) (receivables d)) (\<lambda>v.
     andThen (query_row SqlNoRows (\<lambda>rp. rp_id rp = rv_plan v \<and> rp_tenant rp = rv_tenant v) (plans d)) (\<lambda>rp.
     if fr_target r \<noteq> ai_receipt i \<or> rp_installment rp \<noteq> if_original_installment f
     then Inl ErrInvalid else Inr ())))"

definition openReceipt :: "string \<Rightarrow> string \<Rightarrow> receipt \<Rightarrow> bool" where
  "openReceipt tenant rid r \<longleftrightarrow>
     rc_id r = rid \<and> rc_tenant r = tenant \<and> (rc_status r = AVAILABLE \<or> rc_status r = PARTIALLY_ALLOCATED)"

text \<open>The receivable joined with its snapshot and plan, when it can still be paid.\<close>

definition openReceivable :: "db \<Rightarrow> string \<Rightarrow> string \<Rightarrow> (receivable \<times> contract_snapshot \<times> receivable_plan) res" where
  "openReceivable d tenant vid =
     andThen (query_row ErrConflict (\<lambda>v. rv_id v = vid \<and> rv_tenant v = tenant \<and>
         rv_recognition v = ''CONFIRMED'' \<and> (rv_collection v = UNPAID \<or> rv_collection v = PARTIALLY_SETTLED))
        (receivables d)) (\<lambda>v.
     andThen (query_row ErrConflict (\<lambda>cs. cs_id cs = rv_snapshot v \<and> cs_tenant cs = rv_tenant v)
        (snapshots d)) (\<lambda>cs.
     andThen (query_row ErrConflict (\<lambda>rp. rp_id rp = rv_plan v \<and> rp_tenant rp = rv_tenant v)
        (plans d)) (\<lambda>rp. Inr (v, cs, rp))))"

definition rec_is :: "string \<Rightarrow> string \<Rightarrow> receipt \<Rightarrow> bool" where
  "rec_is tenant rid r \<longleftrightarrow> rc_id r = rid \<and> rc_tenant r = tenant"

definition rcv_is :: "string \<Rightarrow> string \<Rightarrow> receivable \<Rightarrow> bool" where
  "rcv_is tenant vid v \<longleftrightarrow> rv_id v = vid \<and> rv_tenant v = tenant"

text \<open>The rows that the two updates of an allocation of \<open>a\<close> cents write.\<close>

definition receiptAllocated :: "int \<Rightarrow> receipt \<Rightarrow> receipt" where
  "receiptAllocated remaining x =
     x\<lparr>rc_unallocated := remaining,
       rc_status := (if remaining = 0 then FULLY_ALLOCATED else PARTIALLY_ALLOCATED),
       rc_version := rc_version x + 1\<rparr>"

definition receivableAllocated :: "int \<Rightarrow> int \<Rightarrow> receivable \<Rightarrow> receivable" where
  "receivableAllocated openAfter a x =
     x\<lparr>rv_open := openAfter, rv_collection := (if openAfter = 0 then SETTLED else PARTIALLY_SETTLED),
       rv_received := rv_received x + a, rv_version := rv_version x + 1\<rparr>"

text \<open>The three statements that post an allocation.\<close>

definition postAllocation :: "allocation \<Rightarrow> receipt \<Rightarrow> receivable \<Rightarrow> db \<Rightarrow> db res" where
  "postAllocation al r v d =
     (case insert_row allocation_clash al (allocations d) of
        Inl err \<Rightarrow> if err = SqlDuplicate then Inl ErrConflict else Inl err
      | Inr t \<Rightarrow>
         Inr (d\<lparr>allocations := t,
                receipts := update_rows (rec_is (al_tenant al) (al_receipt al))
                  (receiptAllocated (rc_unallocated r - al_amount al)) (receipts d),
                receivables := update_rows (rcv_is (al_tenant al) (al_receivable al))
                  (receivableAllocated (rv_open v - al_amount al) (al_amount al)) (receivables d)\<rparr>))"

definition completionPayload ::
  "string \<Rightarrow> string \<Rightarrow> allocation \<Rightarrow> nat \<Rightarrow> receipt \<Rightarrow> receivable \<Rightarrow> contract_snapshot \<Rightarrow> receivable_plan \<Rightarrow> payload" where
  "completionPayload eventID tenant al customerID r v cs rp =
     [(''event_id'', JStr eventID), (''event_type'', JStr creditEventCompleted),
      (''tenant_id'', JStr tenant), (''payment_id'', JStr (al_id al)), (''receipt_id'', JStr (al_receipt al)),
      (''allocation_id'', JStr (al_id al)), (''customer_id'', JInt (int customerID)),
      (''contract_no'', JStr (cs_contract_no cs)), (''period_no'', JStr (showNat (nat (rp_installment rp)))),
      (''due_date'', JStr (creditDate (rv_due v))), (''paid_date'', JStr (creditDate (rc_date r))),
      (''due_amount'', JStr (money (rv_original v))), (''paid_amount'', JStr (money (rv_original v))),
      (''source_system'', JStr ''settlement'')]"

text \<open>The credit event of a settlement: its identifier, or the empty string for none.\<close>

definition settlementCredit ::
  "Service \<Rightarrow> env \<Rightarrow> nat \<Rightarrow> string \<Rightarrow> string \<Rightarrow> allocation \<Rightarrow> receipt \<Rightarrow> receivable \<Rightarrow>
   contract_snapshot \<Rightarrow> receivable_plan \<Rightarrow> db \<Rightarrow> (string \<times> db) res" where
  "settlementCredit s e k tenant snapshot al r v cs rp d =
     (if rv_open v \<noteq> al_amount al then Inr ('''', d)
      else andThen (creditEligibleSnapshot s tenant snapshot (cs_customer cs) d) (\<lambda>eligible.
        if \<not> eligible then Inr ('''', d)
        else case parseUint64 (trimSpace (cs_customer cs)) of
          None \<Rightarrow> Inr ('''', d)
        | Some customerID \<Rightarrow>
            andThen (insertCreditSync e (Suc k) tenant (e_ids e k) (al_id al) (al_receivable al)
               (completionPayload (e_ids e k) tenant al customerID r v cs rp) d)
              (\<lambda>d'. Inr (e_ids e k, d'))))"

definition showCollection :: "collection_status \<Rightarrow> string" where
  "showCollection c = (case c of UNPAID \<Rightarrow> ''UNPAID'' | PARTIALLY_SETTLED \<Rightarrow> ''PARTIALLY_SETTLED''
                       | SETTLED \<Rightarrow> ''SETTLED'')"

definition showReceiptStatus :: "receipt_status \<Rightarrow> string" where
  "showReceiptStatus c = (case c of AVAILABLE \<Rightarrow> ''AVAILABLE'' | PARTIALLY_ALLOCATED \<Rightarrow> ''PARTIALLY_ALLOCATED''
                          | FULLY_ALLOCATED \<Rightarrow> ''FULLY_ALLOCATED'')"

definition newAllocation ::
  "Principal \<Rightarrow> string \<Rightarrow> string \<Rightarrow> int \<Rightarrow> AllocationInput \<Rightarrow> string \<Rightarrow> allocation" where
  "newAllocation p key aid a i currency =
     \<lparr>al_id = aid, al_tenant = p_tenant p, al_no = ''AL-'' @ take 12 aid, al_receipt = ai_receipt i,
      al_receivable = ai_receivable i, al_amount = a, al_currency = currency, al_status = AL_CONFIRMED,
      al_mode = ai_mode i, al_confidence = ai_confidence i, al_by = p_user p, al_idem = key\<rparr>"

text \<open>
  From the locked receipt and receivable to the audit entry; the result carries the allocation's
  identifier and that of the credit event.
\<close>

definition allocateLocked ::
  "Service \<Rightarrow> env \<Rightarrow> Principal \<Rightarrow> string \<Rightarrow> string \<Rightarrow> string \<Rightarrow> int \<Rightarrow> AllocationInput \<Rightarrow> db \<Rightarrow>
   ((string \<times> string) \<times> db) res" where
  "allocateLocked s e p key aid snapshot a i d =
     andThen (query_row ErrConflict (openReceipt (p_tenant p) (ai_receipt i)) (receipts d)) (\<lambda>r.
     andThen (openReceivable d (p_tenant p) (ai_receivable i)) (\<lambda>(v, cs, rp).
     if rc_currency r \<noteq> rv_currency v then Inl ErrInvalid
     else if rc_customer r \<noteq> cs_customer cs then Inl ErrInvalid
     else if a > rc_unallocated r \<or> a > rv_open v then Inl ErrConflict
     else let al = newAllocation p key aid a i (rc_currency r) in
       andThen (postAllocation al r v d) (\<lambda>d1.
       andThen (settlementCredit s e 1 (p_tenant p) snapshot al r v cs rp d1) (\<lambda>(creditEventID, d2).
       let receiptStatus = (if rc_unallocated r - a = 0 then FULLY_ALLOCATED else PARTIALLY_ALLOCATED);
           receivableStatus = (if rv_open v - a = 0 then SETTLED else PARTIALLY_SETTLED)
       in andThen (outbox e 3 (p_tenant p) ''PLATFORM_AUDIT'' ''SETTLEMENT_ALLOCATION_CONFIRMED''
             ''receipt_allocation'' aid
             [(''actor_id'', JStr (p_user p)), (''receipt_id'', JStr (ai_receipt i)),
              (''receivable_id'', JStr (ai_receivable i)), (''match_mode'', JStr (ai_mode i)),
              (''match_confidence'', JInt (ai_confidence i)),
              (''receivable_status'', JStr (showCollection receivableStatus)),
              (''receipt_status'', JStr (showReceiptStatus receiptStatus)),
              (''receivable_settled'', JBool (receivableStatus = SETTLED)),
              (''result'', JStr ''SUCCESS''), (''risk_level'', JStr ''HIGH'')] d2)
            (\<lambda>d3. Inr ((aid, creditEventID), d3))))))"

text \<open>After the claim: the import lock, the state of the contract, and the imported relations.\<close>

definition allocateClaimed ::
  "Service \<Rightarrow> env \<Rightarrow> Principal \<Rightarrow> string \<Rightarrow> string \<Rightarrow> string \<Rightarrow> int \<Rightarrow> AllocationInput \<Rightarrow> db \<Rightarrow>
   ((string \<times> string) \<times> db) res" where
  "allocateClaimed s e p key aid snapshot a i d1 =
     andThen (lockImportWrite s p snapshot d1) (\<lambda>d2.
     andThen (migrationOf d2 (p_tenant p) snapshot) (\<lambda>migration.
     if migration = HOLD \<and> (case ai_fact i of
          None \<Rightarrow> True
        | Some f \<Rightarrow> if_snapshot f \<noteq> snapshot \<or> \<not> Allows p ''settlement.allocation.confirm'')
     then Inl ErrForbidden
     else andThen (case ai_fact i of
                     Some f \<Rightarrow> checkImportedAllocation p snapshot f i d2
                   | None \<Rightarrow> rejectImportedReceiptMutation (p_tenant p) (ai_receipt i) d2) (\<lambda>_.
     allocateLocked s e p key aid snapshot a i d2)))"

definition ConfirmAllocationTx ::
  "Service \<Rightarrow> env \<Rightarrow> Principal \<Rightarrow> string \<Rightarrow> AllocationInput \<Rightarrow> db \<Rightarrow> ((string \<times> string) \<times> db) res" where
  "ConfirmAllocationTx s e p key0 i0 d =
     (let key = importFactKey e (ai_fact i0) key0; aid = e_ids e 0 in
      andThen (checkAllocationInput key i0) (\<lambda>(a, i).
      if ai_fact i \<noteq> None \<and> \<not> Allows p ''settlement.allocation.confirm'' then Inl ErrForbidden
      else andThen (query_row SqlNoRows (\<lambda>v. rv_tenant v = p_tenant p \<and> rv_id v = ai_receivable i)
             (receivables d)) (\<lambda>v0.
      let snapshot = rv_snapshot v0 in
      if (case ai_fact i of None \<Rightarrow> False | Some f \<Rightarrow> if_snapshot f \<noteq> snapshot) then Inl ErrInvalid
      else andThen (claimImportFact s e p (ai_fact i) ''ALLOCATION'' aid (jsonAllocation i) d)
        (\<lambda>(existing, replay, d1).
      if replay then Inr ((existing, ''''), d)
      else allocateClaimed s e p key aid snapshot a i d1))))"

text \<open>The whole handler: after the commit the credit event is offered to the publisher once.\<close>

definition ConfirmAllocation ::
  "Service \<Rightarrow> env \<Rightarrow> publish_outcome \<Rightarrow> Principal \<Rightarrow> string \<Rightarrow> AllocationInput \<Rightarrow> db \<Rightarrow> (string \<times> db) res" where
  "ConfirmAllocation s e out p key i d =
     andThen (ConfirmAllocationTx s e p key i d) (\<lambda>((aid, creditEventID), d1).
       Inr (aid, if creditEventID \<noteq> '''' \<and> HasCreditPublisher s
                 then snd (RetryCreditSync s e out (p_tenant p) creditEventID d1) else d1))"

section \<open>Reversing an allocation\<close>

definition reversedOf :: "db \<Rightarrow> string \<Rightarrow> int" where
  "reversedOf d allocID = sum_rows (\<lambda>r. rr_allocation r = allocID) rr_amount (reversals d)"

definition liveAllocation :: "string \<Rightarrow> string \<Rightarrow> allocation \<Rightarrow> bool" where
  "liveAllocation tenant aid a \<longleftrightarrow>
     al_id a = aid \<and> al_tenant a = tenant \<and> (al_status a = AL_CONFIRMED \<or> al_status a = PARTIALLY_REVERSED)"

text \<open>The rows that the updates of a reversal write.\<close>

definition allocationReversed :: "bool \<Rightarrow> allocation \<Rightarrow> allocation" where
  "allocationReversed full x = x\<lparr>al_status := (if full then REVERSED else PARTIALLY_REVERSED)\<rparr>"

definition receiptReversed :: "int \<Rightarrow> int \<Rightarrow> receipt \<Rightarrow> receipt" where
  "receiptReversed receiptAfter receiptAmount x =
     x\<lparr>rc_unallocated := receiptAfter,
       rc_status := (if receiptAfter = receiptAmount then AVAILABLE else PARTIALLY_ALLOCATED),
       rc_version := rc_version x + 1\<rparr>"

definition receivableReversed :: "int \<Rightarrow> int \<Rightarrow> receivable \<Rightarrow> receivable" where
  "receivableReversed receivedAfter openAfter x =
     x\<lparr>rv_received := receivedAfter, rv_open := openAfter,
       rv_collection := (if receivedAfter = 0 then UNPAID else PARTIALLY_SETTLED),
       rv_version := rv_version x + 1\<rparr>"

definition alloc_is :: "string \<Rightarrow> string \<Rightarrow> allocation \<Rightarrow> bool" where
  "alloc_is tenant aid x \<longleftrightarrow> al_id x = aid \<and> al_tenant x = tenant"

text \<open>The statements that post a reversal of allocation \<open>al\<close>, with the open amount before.\<close>

definition postReversal :: "allocation_reversal \<Rightarrow> allocation \<Rightarrow> db \<Rightarrow> (int \<times> db) res" where
  "postReversal rr al d =
     (let tenant = rr_tenant rr; value = rr_amount rr; remaining = al_amount al - reversedOf d (al_id al) in
      case insert_row reversal_clash rr (reversals d) of
        Inl err \<Rightarrow> if err = SqlDuplicate then Inl ErrConflict else Inl err
      | Inr t \<Rightarrow>
         andThen (query_row ErrConflict (rec_is tenant (al_receipt al)) (receipts d)) (\<lambda>r.
         andThen (query_row ErrConflict (rcv_is tenant (al_receivable al)) (receivables d)) (\<lambda>v.
         if rv_received v - value < 0 then Inl ErrConflict
         else Inr (rv_open v,
           d\<lparr>reversals := t,
             allocations := update_rows (alloc_is tenant (al_id al)) (allocationReversed (remaining = value))
               (allocations d),
             receipts := update_rows (rec_is tenant (al_receipt al))
               (receiptReversed (rc_unallocated r + value) (rc_amount r)) (receipts d),
             receivables := update_rows (rcv_is tenant (al_receivable al))
               (receivableReversed (rv_received v - value) (rv_open v + value)) (receivables d)\<rparr>))))"

text \<open>What these row updates leave alone, and what they set.\<close>

lemma receiptAllocated_sel [simp]:
  "rc_id (receiptAllocated n x) = rc_id x" "rc_tenant (receiptAllocated n x) = rc_tenant x"
  "rc_currency (receiptAllocated n x) = rc_currency x" "rc_amount (receiptAllocated n x) = rc_amount x"
  "rc_customer (receiptAllocated n x) = rc_customer x" "rc_unallocated (receiptAllocated n x) = n"
  by (simp_all add: receiptAllocated_def)

lemma receivableAllocated_sel [simp]:
  "rv_id (receivableAllocated n a x) = rv_id x" "rv_tenant (receivableAllocated n a x) = rv_tenant x"
  "rv_currency (receivableAllocated n a x) = rv_currency x"
  "rv_original (receivableAllocated n a x) = rv_original x"
  "rv_writeoff (receivableAllocated n a x) = rv_writeoff x" "rv_open (receivableAllocated n a x) = n"
  "rv_received (receivableAllocated n a x) = rv_received x + a"
  "rv_collection (receivableAllocated n a x) = (if n = 0 then SETTLED else PARTIALLY_SETTLED)"
  by (simp_all add: receivableAllocated_def)

lemma allocationReversed_sel [simp]:
  "al_id (allocationReversed b x) = al_id x" "al_tenant (allocationReversed b x) = al_tenant x"
  "al_receipt (allocationReversed b x) = al_receipt x"
  "al_receivable (allocationReversed b x) = al_receivable x"
  "al_amount (allocationReversed b x) = al_amount x" "al_currency (allocationReversed b x) = al_currency x"
  "al_status (allocationReversed b x) = (if b then REVERSED else PARTIALLY_REVERSED)"
  by (simp_all add: allocationReversed_def)

lemma receiptReversed_sel [simp]:
  "rc_id (receiptReversed n m x) = rc_id x" "rc_tenant (receiptReversed n m x) = rc_tenant x"
  "rc_currency (receiptReversed n m x) = rc_currency x" "rc_amount (receiptReversed n m x) = rc_amount x"
  "rc_customer (receiptReversed n m x) = rc_customer x" "rc_unallocated (receiptReversed n m x) = n"
  by (simp_all add: receiptReversed_def)

lemma receivableReversed_sel [simp]:
  "rv_id (receivableReversed n m x) = rv_id x" "rv_tenant (receivableReversed n m x) = rv_tenant x"
  "rv_currency (receivableReversed n m x) = rv_currency x"
  "rv_original (receivableReversed n m x) = rv_original x"
  "rv_writeoff (receivableReversed n m x) = rv_writeoff x" "rv_open (receivableReversed n m x) = m"
  "rv_received (receivableReversed n m x) = n"
  "rv_collection (receivableReversed n m x) = (if n = 0 then UNPAID else PARTIALLY_SETTLED)"
  by (simp_all add: receivableReversed_def)

definition reversalRequest :: "string \<Rightarrow> int \<Rightarrow> ReversalInput \<Rightarrow> json" where
  "reversalRequest allocID value i =
     JArr [JStr allocID, JStr (money value), JStr (vi_reason_code i), JStr (vi_reason_detail i)]"

definition newReversal ::
  "Principal \<Rightarrow> string \<Rightarrow> string \<Rightarrow> string \<Rightarrow> int \<Rightarrow> ReversalInput \<Rightarrow> allocation_reversal" where
  "newReversal p key rid allocID value i =
     \<lparr>rr_id = rid, rr_tenant = p_tenant p, rr_no = ''RV-'' @ take 12 rid, rr_allocation = allocID,
      rr_amount = value, rr_reason_code = vi_reason_code i, rr_reason_detail = vi_reason_detail i,
      rr_by = p_user p, rr_idem = key\<rparr>"

text \<open>Only a reversal that leaves the settled state has a settlement fact to withdraw.\<close>

definition withdrawSettlement ::
  "Service \<Rightarrow> env \<Rightarrow> string \<Rightarrow> string \<Rightarrow> string \<Rightarrow> int \<Rightarrow> db \<Rightarrow> (string \<times> db) res" where
  "withdrawSettlement s e tenant allocID receivableID openBefore d =
     (if openBefore = 0 then enqueueCreditReversal e 1 tenant allocID receivableID (creditSubscribed s) d
      else Inr ('''', d))"

lemma withdrawSettlement_frame: "withdrawSettlement s e t a v n d = Inr (ev, d') \<Longrightarrow> creditFrame d d'"
  by (auto simp: withdrawSettlement_def dest: enqueueCreditReversal_frame split: if_splits)

text \<open>From the locked allocation to the audit entry.\<close>

definition reverseLocked ::
  "Service \<Rightarrow> env \<Rightarrow> Principal \<Rightarrow> string \<Rightarrow> string \<Rightarrow> string \<Rightarrow> int \<Rightarrow> ReversalInput \<Rightarrow> db \<Rightarrow>
   ((string \<times> string) \<times> db) res" where
  "reverseLocked s e p key rid allocID value i d1 =
     andThen (query_row ErrConflict (liveAllocation (p_tenant p) allocID) (allocations d1)) (\<lambda>al.
     andThen (requireReceiptAllocationScopeTx s p ''settlement.allocation.reverse'' allocID d1) (\<lambda>d2.
     andThen (rejectImportedReceiptMutation (p_tenant p) (al_receipt al) d2) (\<lambda>_.
     if al_by al = p_user p then Inl ErrInvalid
     else if value > al_amount al - reversedOf d1 (al_id al) then Inl ErrConflict
     else andThen (postReversal (newReversal p key rid allocID value i) al d2) (\<lambda>(openBefore, d3).
     andThen (withdrawSettlement s e (p_tenant p) allocID (al_receivable al) openBefore d3)
       (\<lambda>(reversalEventID, d4).
     andThen (outbox e 3 (p_tenant p) ''PLATFORM_AUDIT'' ''SETTLEMENT_ALLOCATION_REVERSED''
                ''receipt_allocation'' allocID
                [(''actor_id'', JStr (p_user p)), (''reversal_id'', JStr rid),
                 (''reason_code'', JStr (vi_reason_code i)), (''result'', JStr ''SUCCESS''),
                 (''risk_level'', JStr ''HIGH'')] d4)
       (\<lambda>d5. Inr ((rid, reversalEventID), d5)))))))"

definition ReverseAllocationTx ::
  "Service \<Rightarrow> env \<Rightarrow> Principal \<Rightarrow> string \<Rightarrow> string \<Rightarrow> ReversalInput \<Rightarrow> db \<Rightarrow> ((string \<times> string) \<times> db) res" where
  "ReverseAllocationTx s e p key allocID i d =
     (if textTooLong (vi_reason_code i) 64 \<or> textTooLong (vi_reason_detail i) 500 then Inl ErrInvalid
      else andThen (amountCents (vi_amount i)) (\<lambda>value.
      andThen (required key) (\<lambda>_.
      let rid = e_ids e 0 in
      andThen (claimIdempotency e (p_tenant p) ''REVERSE_RECEIPT_ALLOCATION'' key rid
                 (reversalRequest allocID value i) d) (\<lambda>(existing, replay, d1).
      if replay then Inr ((existing, ''''), d)
      else reverseLocked s e p key rid allocID value i d1))))"

definition ReverseAllocation ::
  "Service \<Rightarrow> env \<Rightarrow> publish_outcome \<Rightarrow> Principal \<Rightarrow> string \<Rightarrow> string \<Rightarrow> ReversalInput \<Rightarrow> db \<Rightarrow> (string \<times> db) res" where
  "ReverseAllocation s e out p key allocID i d =
     andThen (ReverseAllocationTx s e p key allocID i d) (\<lambda>((rid, eventID), d1).
       Inr (rid, if eventID \<noteq> '''' \<and> HasCreditPublisher s
                 then snd (RetryCreditSync s e out (p_tenant p) eventID d1) else d1))"

end
