(* ===== verification/Finance.thy ===== *)
theory Finance
  imports Ledger
begin

text \<open>
  Finance operations on receipts (role_finance.go, refund_confirmation.go): receipt differences
  that hold back part of a receipt until they are reviewed, the confirmation of an external
  refund, and accounting vouchers with their delivery to the ERP. The ERP's answer is a parameter.
\<close>

section \<open>Receipt differences\<close>

record ReceiptDifferenceInput =
  di_key :: string
  di_receipt :: string
  di_kind :: string
  di_amount :: string
  di_reason :: string

record DifferenceResolutionInput =
  dr_version :: int
  dr_resolution :: string
  dr_reason :: string

definition kindOf :: "string \<Rightarrow> difference_kind option" where
  "kindOf k = (if k = ''OVERPAYMENT'' then Some OVERPAYMENT
               else if k = ''SHORTPAYMENT'' then Some SHORTPAYMENT
               else if k = ''UNKNOWN'' then Some UNKNOWN else None)"

definition resolutionOf :: "string \<Rightarrow> resolution option" where
  "resolutionOf k = (if k = ''REFUND_PENDING'' then Some ResRefundPending
               else if k = ''CARRY_FORWARD'' then Some ResCarryForward
               else if k = ''MATCHED'' then Some ResMatched else None)"

definition showResolution :: "resolution \<Rightarrow> string" where
  "showResolution r = (case r of NoResolution \<Rightarrow> '''' | ResRefundPending \<Rightarrow> ''REFUND_PENDING''
                       | ResCarryForward \<Rightarrow> ''CARRY_FORWARD'' | ResMatched \<Rightarrow> ''MATCHED'')"

definition differenceRequest :: "ReceiptDifferenceInput \<Rightarrow> json" where
  "differenceRequest i = JArr [JStr (di_receipt i), JStr (di_kind i), JStr (di_amount i), JStr (di_reason i)]"

definition newDifference ::
  "Principal \<Rightarrow> string \<Rightarrow> string \<Rightarrow> difference_kind \<Rightarrow> int \<Rightarrow> string \<Rightarrow> receipt_difference" where
  "newDifference p did rcpt kind value reason =
     \<lparr>df_id = did, df_tenant = p_tenant p, df_receipt = rcpt, df_kind = kind, df_amount = value,
      df_reason = reason, df_status = HELD, df_resolution = NoResolution, df_resolution_reason = '''',
      df_requested_by = p_user p, df_resolved_by = '''', df_approved_by = '''', df_version = 1,
      df_refund_reference = '''', df_refund_completed = 0, df_refund_by = '''', df_refund_reason = ''''\<rparr>"

text \<open>The balance update: a difference other than a short payment takes its amount off the receipt.\<close>

definition holdAmount :: "string \<Rightarrow> string \<Rightarrow> difference_kind \<Rightarrow> int \<Rightarrow> receipt \<Rightarrow> db \<Rightarrow> db res" where
  "holdAmount tenant rcpt kind value r d =
     (if kind = SHORTPAYMENT then Inr d
      else if value > rc_unallocated r then Inl ErrConflict
      else Inr (d\<lparr>receipts := update_rows (rec_is tenant rcpt)
             (\<lambda>x. x\<lparr>rc_unallocated := rc_unallocated x - value, rc_version := rc_version x + 1\<rparr>)
             (receipts d)\<rparr>))"

definition CreateReceiptDifference ::
  "Service \<Rightarrow> env \<Rightarrow> Principal \<Rightarrow> ReceiptDifferenceInput \<Rightarrow> db \<Rightarrow> (string \<times> db) res" where
  "CreateReceiptDifference s e p i0 d =
     andThen (financeAccess s p ''settlement.difference.manage'') (\<lambda>_.
     if trimSpace (di_key i0) = '''' \<or> length (di_key i0) > 128 then Inl ErrInvalid
     else andThen (amountCents (di_amount i0)) (\<lambda>value.
     let i = i0\<lparr>di_reason := trimSpace (di_reason i0)\<rparr> in
     if di_reason i = '''' \<or> length (di_reason i) > 500 then Inl ErrInvalid
     else case kindOf (di_kind i) of
       None \<Rightarrow> Inl ErrInvalid
     | Some kind \<Rightarrow>
         andThen (rejectImportedReceiptMutation (p_tenant p) (di_receipt i) d) (\<lambda>_.
         let did = e_ids e 0 in
         andThen (claimIdempotency e (p_tenant p) ''CREATE_RECEIPT_DIFFERENCE'' (di_key i) did
                    (differenceRequest i) d) (\<lambda>(existing, replay, d1).
         if replay then Inr (existing, d)
         else andThen (query_row ErrNotFound (rec_is (p_tenant p) (di_receipt i)) (receipts d1)) (\<lambda>r.
         andThen (holdAmount (p_tenant p) (di_receipt i) kind value r d1) (\<lambda>d2.
         andThen (insert_row difference_clash
                    (newDifference p did (di_receipt i) kind value (di_reason i)) (differences d2)) (\<lambda>t.
         andThen (outbox e 1 (p_tenant p) ''PLATFORM_AUDIT'' ''SETTLEMENT_DIFFERENCE_HELD''
                    ''receipt_difference'' did [(''actor_id'', JStr (p_user p))]
                    (d2\<lparr>differences := t\<rparr>)) (\<lambda>d3. Inr (did, d3)))))))))"

definition resolvable :: "string \<Rightarrow> string \<Rightarrow> int \<Rightarrow> resolution \<Rightarrow> receipt_difference \<Rightarrow> bool" where
  "resolvable tenant did version res f \<longleftrightarrow>
     df_tenant f = tenant \<and> df_id f = did \<and> df_status f = HELD \<and> df_version f = version \<and>
     (df_kind f \<noteq> SHORTPAYMENT \<or> res = ResMatched)"

definition differenceResolved :: "string \<Rightarrow> resolution \<Rightarrow> string \<Rightarrow> receipt_difference \<Rightarrow> receipt_difference" where
  "differenceResolved user res reason f =
     f\<lparr>df_resolution := res, df_resolution_reason := reason, df_resolved_by := user,
       df_status := REVIEW_PENDING, df_version := df_version f + 1\<rparr>"

definition ResolveReceiptDifference ::
  "Service \<Rightarrow> env \<Rightarrow> Principal \<Rightarrow> string \<Rightarrow> DifferenceResolutionInput \<Rightarrow> db \<Rightarrow> (unit \<times> db) res" where
  "ResolveReceiptDifference s e p did i d =
     andThen (financeAccess s p ''settlement.difference.manage'') (\<lambda>_.
     case resolutionOf (dr_resolution i) of
       None \<Rightarrow> Inl ErrInvalid
     | Some res \<Rightarrow>
         if trimSpace (dr_reason i) = '''' \<or> length (dr_reason i) > 500 then Inl ErrInvalid
         else let P = resolvable (p_tenant p) did (dr_version i) res in
           if affected P (differences d) \<noteq> 1 then Inl ErrConflict
           else andThen (outbox e 0 (p_tenant p) ''PLATFORM_AUDIT'' ''SETTLEMENT_DIFFERENCE_RESOLVED''
                  ''receipt_difference'' did
                  [(''actor_id'', JStr (p_user p)), (''reason'', JStr (dr_reason i))]
                  (d\<lparr>differences := update_rows P (differenceResolved (p_user p) res (dr_reason i))
                        (differences d)\<rparr>))
                (\<lambda>d'. Inr ((), d')))"

definition reviewable :: "string \<Rightarrow> string \<Rightarrow> int \<Rightarrow> receipt_difference \<Rightarrow> bool" where
  "reviewable tenant did version f \<longleftrightarrow>
     df_tenant f = tenant \<and> df_id f = did \<and> df_status f = REVIEW_PENDING \<and> df_version f = version"

definition dif_is :: "string \<Rightarrow> string \<Rightarrow> receipt_difference \<Rightarrow> bool" where
  "dif_is tenant did f \<longleftrightarrow> df_tenant f = tenant \<and> df_id f = did"

text \<open>The two updates of an approval: the held amount flows back unless it is to be refunded.\<close>

definition approveDifference :: "string \<Rightarrow> string \<Rightarrow> receipt_difference \<Rightarrow> db \<Rightarrow> db" where
  "approveDifference tenant approver f d =
     d\<lparr>receipts := (if df_resolution f \<noteq> ResRefundPending \<and> df_kind f \<noteq> SHORTPAYMENT
                    then update_rows (rec_is tenant (df_receipt f))
                      (\<lambda>x. x\<lparr>rc_unallocated := rc_unallocated x + df_amount f,
                             rc_version := rc_version x + 1\<rparr>) (receipts d)
                    else receipts d),
       differences := update_rows (dif_is tenant (df_id f))
         (\<lambda>x. x\<lparr>df_status := (if df_resolution f = ResRefundPending then REFUND_PENDING else APPROVED),
                df_approved_by := approver, df_version := df_version x + 1\<rparr>) (differences d)\<rparr>"

definition ApproveReceiptDifference ::
  "Service \<Rightarrow> env \<Rightarrow> Principal \<Rightarrow> string \<Rightarrow> int \<Rightarrow> db \<Rightarrow> (unit \<times> db) res" where
  "ApproveReceiptDifference s e p did version d =
     andThen (financeAccess s p ''settlement.difference.approve'') (\<lambda>_.
     andThen (query_row ErrConflict (reviewable (p_tenant p) did version) (differences d)) (\<lambda>f.
     if df_requested_by f = p_user p \<or> df_resolved_by f = p_user p then Inl ErrForbidden
     else andThen (outbox e 0 (p_tenant p) ''PLATFORM_AUDIT'' ''SETTLEMENT_DIFFERENCE_APPROVED''
            ''receipt_difference'' did
            [(''actor_id'', JStr (p_user p)), (''resolution'', JStr (showResolution (df_resolution f)))]
            (approveDifference (p_tenant p) (p_user p) f d)) (\<lambda>d'. Inr ((), d'))))"

section \<open>Confirming an external refund\<close>

record ConfirmRefundRequest =
  cr_version :: int
  cr_reference :: string
  cr_completed :: string
  cr_reason :: string

subsection \<open>RFC 3339 timestamps\<close>

text \<open>
  \<open>time.Parse(time.RFC3339, s)\<close>: the hour may have one digit, a fraction may follow the
  seconds after a point or a comma, and an offset may be written as 24 hours or 60 minutes. The
  result is in nanoseconds since 1970.
\<close>

definition takeDigits :: "nat \<Rightarrow> string \<Rightarrow> (nat \<times> string) option" where
  "takeDigits n s = (if length s \<ge> n \<and> list_all isDigit (take n s)
                     then Some (natOfDigits (take n s), drop n s) else None)"

definition takeChar :: "char \<Rightarrow> string \<Rightarrow> string option" where
  "takeChar c s = (case s of [] \<Rightarrow> None | x # xs \<Rightarrow> if x = c then Some xs else None)"

definition takeHour :: "string \<Rightarrow> (nat \<times> string) option" where
  "takeHour s = (case takeDigits 2 s of Some r \<Rightarrow> Some r | None \<Rightarrow> takeDigits 1 s)"

definition takeFraction :: "string \<Rightarrow> nat \<times> string" where
  "takeFraction s =
     (case s of
        c # x # rest \<Rightarrow>
          if (c = CHR ''.'' \<or> c = CHR '','') \<and> isDigit x
          then let ds = takeWhile isDigit (x # rest); nine = take 9 ds
               in (natOfDigits nine * 10 ^ (9 - length nine), dropWhile isDigit (x # rest))
          else (0, s)
      | _ \<Rightarrow> (0, s))"

definition takeZone :: "string \<Rightarrow> int option" where
  "takeZone s =
     (if s = ''Z'' then Some 0
      else if length s = 6 \<and> (s ! 0 = CHR ''+'' \<or> s ! 0 = CHR ''-'') \<and> s ! 3 = CHR '':'' \<and>
              list_all isDigit (take 2 (drop 1 s)) \<and> list_all isDigit (drop 4 s)
      then let h = natOfDigits (take 2 (drop 1 s)); m = natOfDigits (drop 4 s);
               off = int (h * 3600 + m * 60)
           in if h > 24 \<or> m > 60 then None else Some (if s ! 0 = CHR ''-'' then - off else off)
      else None)"

text \<open>
  Days since 1970 of a date in the 400-year cycle from 1970, moved back for earlier years.
\<close>

definition dayNumberInt :: "date \<Rightarrow> int" where
  "dayNumberInt t = (case t of (y, m, d) \<Rightarrow>
     if 1970 \<le> y then int (dayNumber t) else int (dayNumber (y + 2000, m, d)) - 730485)"

definition clock :: "string \<Rightarrow> (nat \<times> string) option" where
  "clock s =
     Option.bind (takeHour s) (\<lambda>(h, s1). Option.bind (takeChar CHR '':'' s1) (\<lambda>s2.
     Option.bind (takeDigits 2 s2) (\<lambda>(m, s3). Option.bind (takeChar CHR '':'' s3) (\<lambda>s4.
     Option.bind (takeDigits 2 s4) (\<lambda>(sec, s5).
     if h < 24 \<and> m < 60 \<and> sec < 60 then Some (h * 3600 + m * 60 + sec, s5) else None)))))"

definition parseRFC3339 :: "string \<Rightarrow> int option" where
  "parseRFC3339 s =
     Option.bind (parseDate (take 10 s)) (\<lambda>t. Option.bind (takeChar CHR ''T'' (drop 10 s)) (\<lambda>s1.
     Option.bind (clock s1) (\<lambda>(secs, s2).
     let (frac, s3) = takeFraction s2 in
     Option.bind (takeZone s3) (\<lambda>off.
     Some ((dayNumberInt t * 86400 + int secs - off) * 1000000000 + int frac)))))"

text \<open>\<open>businessclock.DateString\<close> of an instant, also before 1970.\<close>

definition businessDayOf :: "int \<Rightarrow> string" where
  "businessDayOf ns =
     (let secs = ns div 1000000000 in
      if 0 \<le> secs then DateString (nat secs)
      else case civilOfDay (nat ((secs + 28800) div 86400 + 730485)) of (y, m, d) \<Rightarrow> showDate (y - 2000, m, d))"

definition normalizeRefundConfirmation ::
  "ConfirmRefundRequest \<Rightarrow> int \<Rightarrow> (ConfirmRefundRequest \<times> int) res" where
  "normalizeRefundConfirmation i0 now =
     (let i = i0\<lparr>cr_reference := trimSpace (cr_reference i0), cr_reason := trimSpace (cr_reason i0)\<rparr> in
      case parseRFC3339 (cr_completed i) of
        None \<Rightarrow> Inl ErrInvalid
      | Some completed \<Rightarrow>
          if cr_version i < 1 \<or> cr_reference i = '''' \<or> length (cr_reference i) > 128 \<or>
             cr_reason i = '''' \<or> length (cr_reason i) > 500 \<or> completed > now * 1000000
          then Inl ErrInvalid else Inr (i, completed))"

definition validateRefundReceiptBusinessDayOn :: "int \<Rightarrow> date \<Rightarrow> unit res" where
  "validateRefundReceiptBusinessDayOn completed receiptDate =
     (if strLess (businessDayOf completed) (showDate receiptDate) then Inl ErrInvalid else Inr ())"

definition lockApprovedRefund :: "string \<Rightarrow> string \<Rightarrow> int \<Rightarrow> int \<Rightarrow> db \<Rightarrow> unit res" where
  "lockApprovedRefund tenant did version completed d =
     andThen (query_row ErrNotFound (dif_is tenant did) (differences d)) (\<lambda>f.
     if df_version f \<noteq> version \<or> df_status f \<noteq> REFUND_PENDING \<or> df_resolution f \<noteq> ResRefundPending \<or>
        trimSpace (df_approved_by f) = '''' \<or> df_approved_by f = df_requested_by f \<or>
        df_approved_by f = df_resolved_by f then Inl ErrConflict
     else andThen (query_row ErrNotFound (rec_is tenant (df_receipt f)) (receipts d)) (\<lambda>r.
     case parseDate (rc_date r) of
       None \<Rightarrow> Inl ErrTimeParse
     | Some t \<Rightarrow> validateRefundReceiptBusinessDayOn completed t))"

definition refundable :: "string \<Rightarrow> string \<Rightarrow> int \<Rightarrow> receipt_difference \<Rightarrow> bool" where
  "refundable tenant did version f \<longleftrightarrow>
     df_tenant f = tenant \<and> df_id f = did \<and> df_version f = version \<and> df_status f = REFUND_PENDING"

definition refundConfirmed :: "string \<Rightarrow> ConfirmRefundRequest \<Rightarrow> int \<Rightarrow> receipt_difference \<Rightarrow> receipt_difference" where
  "refundConfirmed user i completed f =
     f\<lparr>df_status := REFUND_CONFIRMED, df_refund_reference := cr_reference i,
       df_refund_completed := completed div 1000000, df_refund_by := user,
       df_refund_reason := cr_reason i, df_version := df_version f + 1\<rparr>"

definition ConfirmReceiptRefund ::
  "Service \<Rightarrow> env \<Rightarrow> Principal \<Rightarrow> string \<Rightarrow> ConfirmRefundRequest \<Rightarrow> db \<Rightarrow> (unit \<times> db) res" where
  "ConfirmReceiptRefund s e p did i0 d =
     andThen (financeAccess s p ''settlement.difference.manage'') (\<lambda>_.
     andThen (normalizeRefundConfirmation i0 (e_now e)) (\<lambda>(i, completed).
     andThen (lockApprovedRefund (p_tenant p) did (cr_version i) completed d) (\<lambda>_.
     let P = refundable (p_tenant p) did (cr_version i) in
     if affected P (differences d) \<noteq> 1 then Inl ErrConflict
     else andThen (outbox e 0 (p_tenant p) ''PLATFORM_AUDIT'' ''SETTLEMENT_REFUND_CONFIRMED''
            ''receipt_difference'' did
            [(''actor_id'', JStr (p_user p)), (''reference'', JStr (cr_reference i)),
             (''completed_at'', JInt completed), (''reason'', JStr (cr_reason i))]
            (d\<lparr>differences := update_rows P (refundConfirmed (p_user p) i completed) (differences d)\<rparr>)) (\<lambda>d'. Inr ((), d')))))"

section \<open>Accounting vouchers\<close>

definition voucherPayload :: "allocation \<Rightarrow> payload" where
  "voucherPayload a =
     [(''receipt_id'', JStr (al_receipt a)), (''receivable_id'', JStr (al_receivable a)),
      (''amount'', JStr (money (al_amount a))), (''currency'', JStr (al_currency a)),
      (''writeoff_id'', JStr (al_id a))]"

definition CreateAccountingVoucher ::
  "Service \<Rightarrow> env \<Rightarrow> Principal \<Rightarrow> string \<Rightarrow> db \<Rightarrow> (string \<times> db) res" where
  "CreateAccountingVoucher s e p writeoffID d =
     andThen (financeAccess s p ''settlement.voucher.manage'') (\<lambda>_.
     andThen (query_row ErrConflict
        (\<lambda>a. al_tenant a = p_tenant p \<and> al_id a = writeoffID \<and> al_status a = AL_CONFIRMED)
        (allocations d)) (\<lambda>a.
     case find (\<lambda>v. vo_tenant v = p_tenant p \<and> vo_writeoff v = writeoffID) (vouchers d) of
       Some v \<Rightarrow> Inr (vo_id v, d)
     | None \<Rightarrow>
         let vid = e_ids e 0 in
         andThen (insert_row voucher_clash
            \<lparr>vo_id = vid, vo_tenant = p_tenant p, vo_writeoff = writeoffID, vo_payload = voucherPayload a,
             vo_status = NOT_CONFIGURED, vo_external = '''', vo_attempts = 0, vo_version = 1\<rparr>
            (vouchers d)) (\<lambda>t.
         andThen (outbox e 1 (p_tenant p) ''PLATFORM_AUDIT'' ''SETTLEMENT_VOUCHER_CREATED''
            ''accounting_voucher'' vid [(''actor_id'', JStr (p_user p))] (d\<lparr>vouchers := t\<rparr>))
           (\<lambda>d'. Inr (vid, d')))))"

text \<open>One call of the provider: the external number it returned, if any.\<close>

type_synonym erp_provider = "(string \<Rightarrow> payload \<Rightarrow> string res) option"

definition sendVoucher :: "erp_provider \<Rightarrow> string \<Rightarrow> payload \<Rightarrow> voucher_status \<times> string" where
  "sendVoucher erp vid body =
     (case erp of
        None \<Rightarrow> (NOT_CONFIGURED, '''')
      | Some send \<Rightarrow>
          (case send vid body of
             Inl _ \<Rightarrow> (VOUCHER_FAILED, '''')
           | Inr external \<Rightarrow> if external \<noteq> '''' \<and> length external \<le> 128 then (SENT, external)
                             else (VOUCHER_FAILED, '''')))"

definition showVoucherStatus :: "voucher_status \<Rightarrow> string" where
  "showVoucherStatus v = (case v of NOT_CONFIGURED \<Rightarrow> ''NOT_CONFIGURED'' | VOUCHER_FAILED \<Rightarrow> ''FAILED''
                          | SENT \<Rightarrow> ''SENT'')"

definition vou_is :: "string \<Rightarrow> string \<Rightarrow> voucher \<Rightarrow> bool" where
  "vou_is tenant vid v \<longleftrightarrow> vo_tenant v = tenant \<and> vo_id v = vid"

definition RetryAccountingVoucher ::
  "Service \<Rightarrow> env \<Rightarrow> erp_provider \<Rightarrow> Principal \<Rightarrow> string \<Rightarrow> db \<Rightarrow> (voucher_status \<times> db) res" where
  "RetryAccountingVoucher s e erp p vid d =
     andThen (financeAccess s p ''settlement.voucher.manage'') (\<lambda>_.
     andThen (query_row ErrNotFound (vou_is (p_tenant p) vid) (vouchers d)) (\<lambda>v.
     if vo_status v = SENT then Inr (SENT, d)
     else let (status, external) = sendVoucher erp vid (vo_payload v) in
       andThen (outbox e 0 (p_tenant p) ''PLATFORM_AUDIT''
          (''SETTLEMENT_VOUCHER_'' @ showVoucherStatus status) ''accounting_voucher'' vid
          [(''actor_id'', JStr (p_user p))]
          (d\<lparr>vouchers := update_rows (vou_is (p_tenant p) vid)
              (\<lambda>x. x\<lparr>vo_status := status, vo_external := external, vo_attempts := Suc (vo_attempts x),
                     vo_version := vo_version x + 1\<rparr>) (vouchers d)\<rparr>)) (\<lambda>d'. Inr (status, d'))))"

end
