(* ===== verification/LedgerInvariant.thy ===== *)
theory LedgerInvariant
  imports Finance
begin

text \<open>
  The receipt ledger balances. The invariant ties the stored balances of receipts and
  receivables to the allocations, reversals and held differences behind them; every command of
  the ledger keeps it. The column checks of migrations/000004 are among its consequences.
\<close>

section \<open>The invariant\<close>

definition netOf :: "db \<Rightarrow> allocation \<Rightarrow> int" where
  "netOf d a = al_amount a - reversedOf d (al_id a)"

definition matchedReceipt :: "db \<Rightarrow> string \<Rightarrow> int" where
  "matchedReceipt d rid = sum_rows (\<lambda>a. al_receipt a = rid) (netOf d) (allocations d)"

definition matchedReceivable :: "db \<Rightarrow> string \<Rightarrow> int" where
  "matchedReceivable d vid = sum_rows (\<lambda>a. al_receivable a = vid) (netOf d) (allocations d)"

definition holding :: "receipt_difference \<Rightarrow> bool" where
  "holding f \<longleftrightarrow> df_kind f \<noteq> SHORTPAYMENT \<and> df_status f \<noteq> APPROVED"

definition heldOf :: "db \<Rightarrow> string \<Rightarrow> int" where
  "heldOf d rid = sum_rows (\<lambda>f. df_receipt f = rid \<and> holding f) df_amount (differences d)"

definition statusFor :: "int \<Rightarrow> int \<Rightarrow> allocation_status" where
  "statusFor full reversed =
     (if reversed = 0 then AL_CONFIRMED else if reversed = full then REVERSED else PARTIALLY_REVERSED)"

definition collectionFor :: "int \<Rightarrow> int \<Rightarrow> collection_status" where
  "collectionFor opn received =
     (if opn = 0 then SETTLED else if received = 0 then UNPAID else PARTIALLY_SETTLED)"

definition ledger_keys :: "db \<Rightarrow> bool" where
  "ledger_keys d \<longleftrightarrow> keyed rc_id (receipts d) \<and> keyed rv_id (receivables d) \<and>
     keyed al_id (allocations d) \<and> keyed rr_id (reversals d) \<and> keyed df_id (differences d)"

definition receipt_of :: "db \<Rightarrow> allocation \<Rightarrow> bool" where
  "receipt_of d a \<longleftrightarrow> (\<exists>r \<in> set (receipts d).
     rc_id r = al_receipt a \<and> rc_tenant r = al_tenant a \<and> rc_currency r = al_currency a)"

definition receivable_of :: "db \<Rightarrow> allocation \<Rightarrow> bool" where
  "receivable_of d a \<longleftrightarrow> (\<exists>v \<in> set (receivables d).
     rv_id v = al_receivable a \<and> rv_tenant v = al_tenant a \<and> rv_currency v = al_currency a)"

definition allocation_of :: "db \<Rightarrow> allocation_reversal \<Rightarrow> bool" where
  "allocation_of d x \<longleftrightarrow> (\<exists>a \<in> set (allocations d). al_id a = rr_allocation x \<and> al_tenant a = rr_tenant x)"

definition difference_of :: "db \<Rightarrow> receipt_difference \<Rightarrow> bool" where
  "difference_of d f \<longleftrightarrow> (\<exists>r \<in> set (receipts d). rc_id r = df_receipt f \<and> rc_tenant r = df_tenant f)"

definition ledger_refs :: "db \<Rightarrow> bool" where
  "ledger_refs d \<longleftrightarrow>
     (\<forall>a \<in> set (allocations d). receipt_of d a \<and> receivable_of d a) \<and>
     (\<forall>x \<in> set (reversals d). 0 < rr_amount x \<and> allocation_of d x) \<and>
     (\<forall>f \<in> set (differences d). 0 < df_amount f \<and> difference_of d f)"

definition allocation_ok :: "db \<Rightarrow> allocation \<Rightarrow> bool" where
  "allocation_ok d a \<longleftrightarrow>
     0 < al_amount a \<and> 0 \<le> reversedOf d (al_id a) \<and> reversedOf d (al_id a) \<le> al_amount a \<and>
     al_status a = statusFor (al_amount a) (reversedOf d (al_id a))"

definition receipt_ok :: "db \<Rightarrow> receipt \<Rightarrow> bool" where
  "receipt_ok d r \<longleftrightarrow>
     0 < rc_amount r \<and> 0 \<le> rc_unallocated r \<and>
     rc_amount r = rc_unallocated r + matchedReceipt d (rc_id r) + heldOf d (rc_id r)"

definition receivable_ok :: "db \<Rightarrow> receivable \<Rightarrow> bool" where
  "receivable_ok d v \<longleftrightarrow>
     0 < rv_original v \<and> 0 \<le> rv_open v \<and> 0 \<le> rv_writeoff v \<and>
     rv_received v = matchedReceivable d (rv_id v) \<and>
     rv_original v = rv_open v + rv_received v + rv_writeoff v \<and>
     rv_collection v = collectionFor (rv_open v) (rv_received v)"

definition ledger_inv :: "db \<Rightarrow> bool" where
  "ledger_inv d \<longleftrightarrow> ledger_keys d \<and> ledger_refs d \<and>
     (\<forall>a \<in> set (allocations d). allocation_ok d a) \<and>
     (\<forall>r \<in> set (receipts d). receipt_ok d r) \<and>
     (\<forall>v \<in> set (receivables d). receivable_ok d v)"

lemmas ledger_defs = ledger_inv_def ledger_keys_def ledger_refs_def receipt_of_def receivable_of_def
  allocation_of_def difference_of_def allocation_ok_def receipt_ok_def receivable_ok_def
  matchedReceipt_def matchedReceivable_def heldOf_def netOf_def [abs_def] reversedOf_def

lemma ledger_inv_empty: "ledger_inv empty_db"
  by (simp add: ledger_defs empty_db_def keyed_def)

lemma ledger_invD:
  assumes "ledger_inv d"
  shows "keyed rc_id (receipts d)" "keyed rv_id (receivables d)" "keyed al_id (allocations d)"
    "keyed rr_id (reversals d)" "keyed df_id (differences d)"
    "a \<in> set (allocations d) \<Longrightarrow> receipt_of d a" "a \<in> set (allocations d) \<Longrightarrow> receivable_of d a"
    "a \<in> set (allocations d) \<Longrightarrow> allocation_ok d a"
    "x \<in> set (reversals d) \<Longrightarrow> allocation_of d x" "x \<in> set (reversals d) \<Longrightarrow> 0 < rr_amount x"
    "f \<in> set (differences d) \<Longrightarrow> difference_of d f" "f \<in> set (differences d) \<Longrightarrow> 0 < df_amount f"
    "r \<in> set (receipts d) \<Longrightarrow> receipt_ok d r" "v \<in> set (receivables d) \<Longrightarrow> receivable_ok d v"
  using assms by (simp_all add: ledger_inv_def ledger_keys_def ledger_refs_def)

text \<open>The tables the invariant speaks about.\<close>

definition ledgerTables ::
  "db \<Rightarrow> receipt list \<times> receivable list \<times> allocation list \<times> allocation_reversal list \<times> receipt_difference list" where
  "ledgerTables d = (receipts d, receivables d, allocations d, reversals d, differences d)"

lemma ledger_inv_cong: "ledgerTables d' = ledgerTables d \<Longrightarrow> ledger_inv d' = ledger_inv d"
  by (simp add: ledgerTables_def ledger_defs)

lemma ledgerTables_frames:
  "scopeFrame d d' \<Longrightarrow> ledgerTables d' = ledgerTables d"
  "idemFrame d d' \<Longrightarrow> ledgerTables d' = ledgerTables d"
  "eventFrame d d' \<Longrightarrow> ledgerTables d' = ledgerTables d"
  "factFrame d d' \<Longrightarrow> ledgerTables d' = ledgerTables d"
  "creditFrame d d' \<Longrightarrow> ledgerTables d' = ledgerTables d"
  by (simp_all add: ledgerTables_def frame_simps)

text \<open>The contracts with their plans and the invoice tables, which no ledger command writes.\<close>

definition contractTables ::
  "db \<Rightarrow> receivable_plan list \<times> contract_snapshot list \<times> invoice_allocation list \<times> tax_db" where
  "contractTables d = (plans d, map snapshotFacts (snapshots d), invoice_allocations d, taxes d)"

lemma contractTables_frames:
  "scopeFrame d d' \<Longrightarrow> contractTables d' = contractTables d"
  "idemFrame d d' \<Longrightarrow> contractTables d' = contractTables d"
  "eventFrame d d' \<Longrightarrow> contractTables d' = contractTables d"
  "factFrame d d' \<Longrightarrow> contractTables d' = contractTables d"
  "creditFrame d d' \<Longrightarrow> contractTables d' = contractTables d"
  by (simp_all add: contractTables_def frame_simps) (simp_all add: scopeFrame_def factFrame_def)

section \<open>Posting\<close>

lemma matched_bounds:
  assumes "ledger_inv d"
  shows "0 \<le> matchedReceipt d rid" "0 \<le> matchedReceivable d vid" "0 \<le> heldOf d rid"
proof -
  have "0 \<le> netOf d a" if "a \<in> set (allocations d)" for a
    using ledger_invD(8) [OF assms that] by (simp add: allocation_ok_def netOf_def)
  then show "0 \<le> matchedReceipt d rid" "0 \<le> matchedReceivable d vid"
    unfolding matchedReceipt_def matchedReceivable_def by (auto intro!: sum_rows_nonneg)
  have "0 \<le> df_amount f" if "f \<in> set (differences d)" for f
    using ledger_invD(12) [OF assms that] by simp
  then show "0 \<le> heldOf d rid"
    unfolding heldOf_def by (auto intro!: sum_rows_nonneg)
qed

text \<open>Records that nothing refers to yet have no amounts booked on them.\<close>

lemma unreferenced_receipt:
  assumes "ledger_inv d" "\<forall>x \<in> set (receipts d). rc_id x \<noteq> rid"
  shows "matchedReceipt d rid = 0" "heldOf d rid = 0"
proof -
  show "matchedReceipt d rid = 0"
    unfolding matchedReceipt_def using assms(2) ledger_invD(6) [OF assms(1)]
    by (intro sum_rows_zero) (fastforce simp: receipt_of_def)
  show "heldOf d rid = 0"
    unfolding heldOf_def using assms(2) ledger_invD(11) [OF assms(1)]
    by (intro sum_rows_zero) (fastforce simp: difference_of_def)
qed

lemma unreferenced_receivable:
  assumes "ledger_inv d" "\<forall>x \<in> set (receivables d). rv_id x \<noteq> vid"
  shows "matchedReceivable d vid = 0"
  unfolding matchedReceivable_def using assms(2) ledger_invD(7) [OF assms(1)]
  by (intro sum_rows_zero) (fastforce simp: receivable_of_def)

lemma unreferenced_allocation:
  assumes "ledger_inv d" "\<forall>x \<in> set (allocations d). al_id x \<noteq> aid"
  shows "reversedOf d aid = 0"
  unfolding reversedOf_def using assms(2) ledger_invD(9) [OF assms(1)]
  by (intro sum_rows_zero) (fastforce simp: allocation_of_def)

subsection \<open>A new receipt\<close>

lemma insert_receipt_inv:
  assumes inv: "ledger_inv d" and ins: "insert_row receipt_clash r (receipts d) = Inr t"
    and r: "rc_unallocated r = rc_amount r" "0 < rc_amount r"
  shows "ledger_inv (d\<lparr>receipts := t\<rparr>)"
proof -
  from ins have t: "t = receipts d @ [r]" and fresh: "\<forall>x \<in> set (receipts d). rc_id x \<noteq> rc_id r"
    by (auto simp: insert_row_Inr receipt_clash_def)
  have "keyed rc_id t" by (rule receipt_t.insert_keyed [OF ledger_invD(1) [OF inv] ins])
  then show ?thesis
    using inv r unreferenced_receipt [OF inv fresh] unfolding t by (auto simp: ledger_defs)
qed

subsection \<open>Moving an amount between a receipt and a receivable\<close>

text \<open>
  What an update statement does to the one row it selects, for receipts and receivables: the
  identity of the row stays, the balance moves.
\<close>

lemma receipt_of_update:
  assumes "\<And>x. rc_id (f x) = rc_id x \<and> rc_tenant (f x) = rc_tenant x \<and> rc_currency (f x) = rc_currency x"
    and "receipts d' = update_rows P f (receipts d)"
  shows "receipt_of d a \<Longrightarrow> receipt_of d' a" "difference_of d x \<Longrightarrow> difference_of d' x"
proof -
  have "\<exists>r' \<in> set (receipts d'). rc_id r' = rc_id r \<and> rc_tenant r' = rc_tenant r \<and> rc_currency r' = rc_currency r"
    if "r \<in> set (receipts d)" for r
    using in_update_rowsI [OF that, of P f] assms by (metis (full_types))
  then show "receipt_of d a \<Longrightarrow> receipt_of d' a" "difference_of d x \<Longrightarrow> difference_of d' x"
    unfolding receipt_of_def difference_of_def by metis+
qed

lemma receivable_of_update:
  assumes "\<And>x. rv_id (g x) = rv_id x \<and> rv_tenant (g x) = rv_tenant x \<and> rv_currency (g x) = rv_currency x"
    and "receivables d' = update_rows Q g (receivables d)"
  shows "receivable_of d a \<Longrightarrow> receivable_of d' a"
proof -
  have "\<exists>r' \<in> set (receivables d'). rv_id r' = rv_id r \<and> rv_tenant r' = rv_tenant r \<and> rv_currency r' = rv_currency r"
    if "r \<in> set (receivables d)" for r
    using in_update_rowsI [OF that, of Q g] assms by (metis (full_types))
  then show "receivable_of d a \<Longrightarrow> receivable_of d' a"
    unfolding receivable_of_def by metis
qed

lemma receipts_moved:
  assumes inv: "ledger_inv d" and r: "r \<in> set (receipts d)" "P r" "\<And>x. P x \<Longrightarrow> rc_id x = rc_id r"
    and t: "receipts d' = update_rows P f (receipts d)"
    and f: "\<And>x. rc_id (f x) = rc_id x" "rc_amount (f r) = rc_amount r"
           "rc_unallocated (f r) = rc_unallocated r - n" "n \<le> rc_unallocated r"
    and m: "\<And>i. matchedReceipt d' i + heldOf d' i =
                 matchedReceipt d i + heldOf d i + (if i = rc_id r then n else 0)"
    and x: "x \<in> set (receipts d')"
  shows "receipt_ok d' x"
proof -
  have "x \<in> set (update_rows P f (receipts d))" using x t by simp
  from receipt_t.in_update_by_key [OF ledger_invD(1) [OF inv] r this]
  consider "x = f r" | "x \<in> set (receipts d)" "rc_id x \<noteq> rc_id r" by blast
  then show ?thesis
  proof cases
    case 1
    with ledger_invD(13) [OF inv r(1)] f m [of "rc_id r"] show ?thesis
      by (simp add: receipt_ok_def)
  next
    case 2
    with ledger_invD(13) [OF inv 2(1)] m [of "rc_id x"] show ?thesis
      by (simp add: receipt_ok_def)
  qed
qed

lemma receivables_moved:
  assumes inv: "ledger_inv d" and v: "v \<in> set (receivables d)" "Q v" "\<And>x. Q x \<Longrightarrow> rv_id x = rv_id v"
    and t: "receivables d' = update_rows Q g (receivables d)"
    and g: "\<And>x. rv_id (g x) = rv_id x" "rv_original (g v) = rv_original v" "rv_writeoff (g v) = rv_writeoff v"
           "rv_open (g v) = rv_open v - n" "n \<le> rv_open v" "rv_received (g v) = rv_received v + n"
           "rv_collection (g v) = collectionFor (rv_open (g v)) (rv_received (g v))"
    and m: "\<And>i. matchedReceivable d' i = matchedReceivable d i + (if i = rv_id v then n else 0)"
    and x: "x \<in> set (receivables d')"
  shows "receivable_ok d' x"
proof -
  have "x \<in> set (update_rows Q g (receivables d))" using x t by simp
  from receivable_t.in_update_by_key [OF ledger_invD(2) [OF inv] v this]
  consider "x = g v" | "x \<in> set (receivables d)" "rv_id x \<noteq> rv_id v" by blast
  then show ?thesis
  proof cases
    case 1
    with ledger_invD(14) [OF inv v(1)] g m [of "rv_id v"] show ?thesis
      by (simp add: receivable_ok_def)
  next
    case 2
    with ledger_invD(14) [OF inv 2(1)] m [of "rv_id x"] show ?thesis
      by (simp add: receivable_ok_def)
  qed
qed

subsection \<open>An allocation\<close>

lemma postAllocation_Inr:
  assumes "postAllocation al r v d = Inr d'"
  shows "d' = d\<lparr>allocations := allocations d @ [al],
      receipts := update_rows (rec_is (al_tenant al) (al_receipt al))
        (receiptAllocated (rc_unallocated r - al_amount al)) (receipts d),
      receivables := update_rows (rcv_is (al_tenant al) (al_receivable al))
        (receivableAllocated (rv_open v - al_amount al) (al_amount al)) (receivables d)\<rparr>"
    and "\<forall>x \<in> set (allocations d). al_id x \<noteq> al_id al"
  using assms by (auto simp: postAllocation_def insert_row_Inr allocation_clash_def
      split: sum.splits if_splits)

lemma appended_allocation:
  assumes inv: "ledger_inv d" and fresh: "\<forall>x \<in> set (allocations d). al_id x \<noteq> al_id al"
    and t: "allocations d' = allocations d @ [al]" "reversals d' = reversals d" "differences d' = differences d"
  shows "matchedReceipt d' i + heldOf d' i =
           matchedReceipt d i + heldOf d i + (if i = al_receipt al then al_amount al else 0)"
    and "matchedReceivable d' j = matchedReceivable d j + (if j = al_receivable al then al_amount al else 0)"
    and "reversedOf d' k = reversedOf d k" "reversedOf d (al_id al) = 0"
proof -
  show r: "reversedOf d (al_id al) = 0" by (rule unreferenced_allocation [OF inv fresh])
  show "reversedOf d' k = reversedOf d k" using t by (simp add: reversedOf_def)
  have n: "netOf d' = netOf d" using t by (simp add: netOf_def [abs_def] reversedOf_def)
  have "netOf d al = al_amount al" using r by (simp add: netOf_def)
  with n t show "matchedReceipt d' i + heldOf d' i =
           matchedReceipt d i + heldOf d i + (if i = al_receipt al then al_amount al else 0)"
    and "matchedReceivable d' j = matchedReceivable d j + (if j = al_receivable al then al_amount al else 0)"
    by (simp_all add: matchedReceipt_def matchedReceivable_def heldOf_def)
qed

lemma postAllocation_inv:
  assumes inv: "ledger_inv d" and post: "postAllocation al r v d = Inr d'"
    and r: "r \<in> set (receipts d)" "rec_is (al_tenant al) (al_receipt al) r" "rc_currency r = al_currency al"
    and v: "v \<in> set (receivables d)" "rcv_is (al_tenant al) (al_receivable al) v" "rv_currency v = al_currency al"
    and a: "0 < al_amount al" "al_amount al \<le> rc_unallocated r" "al_amount al \<le> rv_open v"
      "al_status al = AL_CONFIRMED"
  shows "ledger_inv d'"
proof -
  note d' = postAllocation_Inr(1) [OF post] and fresh = postAllocation_Inr(2) [OF post]
  have t: "allocations d' = allocations d @ [al]" "reversals d' = reversals d" "differences d' = differences d"
    and tr: "receipts d' = update_rows (rec_is (al_tenant al) (al_receipt al))
        (receiptAllocated (rc_unallocated r - al_amount al)) (receipts d)"
    and tv: "receivables d' = update_rows (rcv_is (al_tenant al) (al_receivable al))
        (receivableAllocated (rv_open v - al_amount al) (al_amount al)) (receivables d)"
    by (simp_all add: d')
  note new = appended_allocation [OF inv fresh t]
  have received: "0 \<le> rv_received v"
    using matched_bounds(2) [OF inv] ledger_invD(14) [OF inv v(1)] by (simp add: receivable_ok_def)
  have "receipt_ok d' x" if "x \<in> set (receipts d')" for x
    by (rule receipts_moved [where n = "al_amount al", OF inv r(1,2) _ tr _ _ _ a(2) _ that])
       (use new(1) r(2) in \<open>auto simp: rec_is_def\<close>)
  moreover have "receivable_ok d' x" if "x \<in> set (receivables d')" for x
    by (rule receivables_moved [where n = "al_amount al", OF inv v(1,2) _ tv _ _ _ _ a(3) _ _ _ that])
       (use new(2) v(2) a(1) received in \<open>auto simp: rcv_is_def collectionFor_def\<close>)
  moreover have "allocation_ok d' x" if "x \<in> set (allocations d')" for x
    using that ledger_invD(8) [OF inv, of x] new(3,4) a
    by (auto simp: t allocation_ok_def statusFor_def)
  moreover have "receipt_of d' x \<and> receivable_of d' x" if "x \<in> set (allocations d')" for x
  proof -
    have "receipt_of d x \<and> receivable_of d x"
      using that ledger_invD(6,7) [OF inv, of x] r v
      by (auto simp: t receipt_of_def receivable_of_def rec_is_def rcv_is_def)
    then show ?thesis
      using receipt_of_update(1) [OF _ tr] receivable_of_update [OF _ tv] by simp
  qed
  moreover have "ledger_keys d'"
    using ledger_invD(1-5) [OF inv] fresh
    by (auto simp: ledger_keys_def t tr tv keyed_def intro!: receipt_t.update_keyed [unfolded keyed_def]
        receivable_t.update_keyed [unfolded keyed_def])
  moreover have "0 < df_amount x \<and> difference_of d' x" if "x \<in> set (differences d')" for x
    using that ledger_invD(11,12) [OF inv, of x] receipt_of_update(2) [OF _ tr, of x] by (auto simp: t)
  moreover have "0 < rr_amount x \<and> allocation_of d' x" if "x \<in> set (reversals d')" for x
    using that ledger_invD(9,10) [OF inv, of x] by (auto simp: t allocation_of_def)
  ultimately show ?thesis
    by (simp add: ledger_inv_def ledger_refs_def)
qed

subsection \<open>A reversal\<close>

lemma postReversal_Inr:
  assumes "postReversal rr al d = Inr (opened, d')"
  shows "\<exists>r v. find (rec_is (rr_tenant rr) (al_receipt al)) (receipts d) = Some r \<and>
    find (rcv_is (rr_tenant rr) (al_receivable al)) (receivables d) = Some v \<and>
    opened = rv_open v \<and> rr_amount rr \<le> rv_received v \<and> (\<forall>x \<in> set (reversals d). rr_id rr \<noteq> rr_id x) \<and>
    d' = d\<lparr>reversals := reversals d @ [rr],
      allocations := update_rows (alloc_is (rr_tenant rr) (al_id al))
        (allocationReversed (al_amount al - reversedOf d (al_id al) = rr_amount rr)) (allocations d),
      receipts := update_rows (rec_is (rr_tenant rr) (al_receipt al))
        (receiptReversed (rc_unallocated r + rr_amount rr) (rc_amount r)) (receipts d),
      receivables := update_rows (rcv_is (rr_tenant rr) (al_receivable al))
        (receivableReversed (rv_received v - rr_amount rr) (rv_open v + rr_amount rr)) (receivables d)\<rparr>"
  using assms by (auto simp: postReversal_def Let_def insert_row_Inr andThen_eq_Inr query_row_Inr
      reversal_clash_def split: sum.splits if_splits)

lemma appended_reversal:
  assumes inv: "ledger_inv d" and al: "al \<in> set (allocations d)" "rr_allocation rr = al_id al"
    and t: "allocations d' = update_rows A (allocationReversed b) (allocations d)"
      "reversals d' = reversals d @ [rr]" "differences d' = differences d"
  shows "reversedOf d' k = reversedOf d k + (if k = al_id al then rr_amount rr else 0)"
    and "matchedReceipt d' i + heldOf d' i =
         matchedReceipt d i + heldOf d i + (if i = al_receipt al then - rr_amount rr else 0)"
    and "matchedReceivable d' j = matchedReceivable d j + (if j = al_receivable al then - rr_amount rr else 0)"
proof -
  show r: "reversedOf d' k = reversedOf d k + (if k = al_id al then rr_amount rr else 0)" for k
    using t al(2) by (simp add: reversedOf_def)
  have n: "netOf d' = (\<lambda>x. netOf d x + (if al_id x = al_id al then - rr_amount rr else 0))"
    by (auto simp: netOf_def [abs_def] r)
  note point = allocation_t.sum_point [OF ledger_invD(3) [OF inv] al(1)]
  have "sum_rows P (netOf d') (allocations d') = sum_rows P (netOf d) (allocations d) + (if P al then - rr_amount rr else 0)"
    if "\<And>x. P (allocationReversed b x) = P x" for P
  proof -
    have "sum_rows P (netOf d') (allocations d') = sum_rows P (netOf d') (allocations d)"
      unfolding t(1) by (rule sum_rows_update_same) (simp add: that netOf_def)
    then show ?thesis by (simp add: n point)
  qed
  from this [of "\<lambda>a. al_receipt a = i"] this [of "\<lambda>a. al_receivable a = j"] t(3)
  show "matchedReceipt d' i + heldOf d' i =
         matchedReceipt d i + heldOf d i + (if i = al_receipt al then - rr_amount rr else 0)"
    and "matchedReceivable d' j = matchedReceivable d j + (if j = al_receivable al then - rr_amount rr else 0)"
    by (auto simp: matchedReceipt_def matchedReceivable_def heldOf_def)
qed

lemma alloc_is_key: "alloc_is t i x \<Longrightarrow> al_id x = i"
  by (simp add: alloc_is_def)

lemma alloc_is_self: "al_tenant x = t \<Longrightarrow> alloc_is t (al_id x) x"
  by (simp add: alloc_is_def)

lemma allocation_of_update:
  assumes "allocations d' = update_rows A (allocationReversed b) (allocations d)" "allocation_of d x"
  shows "allocation_of d' x"
proof -
  from assms(2) obtain a where a: "a \<in> set (allocations d)" "al_id a = rr_allocation x" "al_tenant a = rr_tenant x"
    by (auto simp: allocation_of_def)
  with in_update_rowsI [OF a(1), of A "allocationReversed b"] assms(1) show ?thesis
    unfolding allocation_of_def by (metis allocationReversed_sel(1,2))
qed

lemma reversed_allocations_ok:
  assumes inv: "ledger_inv d" and al: "al \<in> set (allocations d)" "al_tenant al = tenant"
    and v: "0 < n" "n \<le> al_amount al - reversedOf d (al_id al)"
    and t: "allocations d' = update_rows (alloc_is tenant (al_id al))
        (allocationReversed (al_amount al - reversedOf d (al_id al) = n)) (allocations d)"
    and rv: "\<And>k. reversedOf d' k = reversedOf d k + (if k = al_id al then n else 0)"
    and x: "x \<in> set (allocations d')"
  shows "allocation_ok d' x"
proof -
  let ?h = "allocationReversed (al_amount al - reversedOf d (al_id al) = n)"
  have "x \<in> set (update_rows (alloc_is tenant (al_id al)) ?h (allocations d))"
    using x t by simp
  from allocation_t.in_update_by_key [OF ledger_invD(3) [OF inv] al(1) alloc_is_self [OF al(2)]
    _ this] alloc_is_key
  consider "x = ?h al" | "x \<in> set (allocations d)" "al_id x \<noteq> al_id al" by blast
  then show ?thesis
  proof cases
    case 1
    with ledger_invD(8) [OF inv al(1)] v show ?thesis
      by (auto simp: allocation_ok_def statusFor_def rv)
  next
    case 2
    with ledger_invD(8) [OF inv 2(1)] show ?thesis by (simp add: allocation_ok_def rv)
  qed
qed

lemma postReversal_inv:
  assumes inv: "ledger_inv d" and post: "postReversal rr al d = Inr (opened, d')"
    and al: "al \<in> set (allocations d)" "rr_allocation rr = al_id al" "al_tenant al = rr_tenant rr"
    and val: "0 < rr_amount rr" "rr_amount rr \<le> al_amount al - reversedOf d (al_id al)"
  shows "ledger_inv d'"
proof -
  from postReversal_Inr [OF post] obtain r v
    where fr: "find (rec_is (rr_tenant rr) (al_receipt al)) (receipts d) = Some r"
    and fv: "find (rcv_is (rr_tenant rr) (al_receivable al)) (receivables d) = Some v"
    and fresh: "\<forall>x \<in> set (reversals d). rr_id rr \<noteq> rr_id x"
    and t: "reversals d' = reversals d @ [rr]" "differences d' = differences d"
    "allocations d' = update_rows (alloc_is (rr_tenant rr) (al_id al))
        (allocationReversed (al_amount al - reversedOf d (al_id al) = rr_amount rr)) (allocations d)"
    and tr: "receipts d' = update_rows (rec_is (rr_tenant rr) (al_receipt al))
        (receiptReversed (rc_unallocated r + rr_amount rr) (rc_amount r)) (receipts d)"
    and tv: "receivables d' = update_rows (rcv_is (rr_tenant rr) (al_receivable al))
        (receivableReversed (rv_received v - rr_amount rr) (rv_open v + rr_amount rr)) (receivables d)"
    by auto
  note r = find_SomeD [OF fr] and v = find_SomeD [OF fv] and new = appended_reversal [OF inv al(1,2) t(3,1,2)]
  have bal: "0 \<le> rc_unallocated r" "0 \<le> rv_open v"
    using ledger_invD(13) [OF inv] ledger_invD(14) [OF inv] r v
    by (auto simp: receipt_ok_def receivable_ok_def)
  have "receipt_ok d' x" if "x \<in> set (receipts d')" for x
    by (rule receipts_moved [where n = "- rr_amount rr", OF inv _ _ _ tr _ _ _ _ _ that, of r])
       (use new(2) r bal val in \<open>auto simp: rec_is_def\<close>)
  moreover have "receivable_ok d' x" if "x \<in> set (receivables d')" for x
    by (rule receivables_moved [where n = "- rr_amount rr", OF inv _ _ _ tv _ _ _ _ _ _ _ _ that, of v])
       (use new(3) v bal val in \<open>auto simp: rcv_is_def collectionFor_def\<close>)
  moreover have "allocation_ok d' x" if "x \<in> set (allocations d')" for x
    by (rule reversed_allocations_ok [OF inv al(1,3) val t(3) _ that]) (use new(1) in simp)
  moreover have "receipt_of d' x \<and> receivable_of d' x" if "x \<in> set (allocations d')" for x
  proof -
    from that obtain x' where x': "x' \<in> set (allocations d)"
      "al_receipt x = al_receipt x'" "al_receivable x = al_receivable x'" "al_tenant x = al_tenant x'"
      "al_currency x = al_currency x'"
      unfolding t by (elim in_update_rowsE) (auto split: if_splits)
    then have "receipt_of d x \<and> receivable_of d x"
      using ledger_invD(6,7) [OF inv x'(1)] by (simp add: receipt_of_def receivable_of_def)
    then show ?thesis
      using receipt_of_update(1) [OF _ tr] receivable_of_update [OF _ tv] by simp
  qed
  moreover have "ledger_keys d'"
    using ledger_invD(1-5) [OF inv] fresh
    by (auto simp: ledger_keys_def t tr tv keyed_def intro!: receipt_t.update_keyed [unfolded keyed_def]
        receivable_t.update_keyed [unfolded keyed_def] allocation_t.update_keyed [unfolded keyed_def])
  moreover have "0 < df_amount x \<and> difference_of d' x" if "x \<in> set (differences d')" for x
    using that ledger_invD(11,12) [OF inv, of x] receipt_of_update(2) [OF _ tr, of x] by (auto simp: t)
  moreover have "0 < rr_amount x \<and> allocation_of d' x" if "x \<in> set (reversals d')" for x
  proof -
    have "0 < rr_amount x \<and> allocation_of d x"
      using that ledger_invD(9,10) [OF inv, of x] al val by (auto simp: t allocation_of_def)
    then show ?thesis using allocation_of_update [OF t(3)] by simp
  qed
  ultimately show ?thesis
    by (simp add: ledger_inv_def ledger_refs_def)
qed

subsection \<open>Differences\<close>

definition sameBookings :: "db \<Rightarrow> db \<Rightarrow> bool" where
  "sameBookings d d' \<longleftrightarrow> receivables d' = receivables d \<and> allocations d' = allocations d \<and>
     reversals d' = reversals d"

lemma sameBookings_amounts:
  assumes "sameBookings d d'"
  shows "matchedReceipt d' i = matchedReceipt d i" "matchedReceivable d' i = matchedReceivable d i"
    "allocation_ok d' a = allocation_ok d a" "receivable_ok d' v = receivable_ok d v"
    "receivable_of d' a = receivable_of d a" "allocation_of d' x = allocation_of d x"
  using assms by (simp_all add: sameBookings_def ledger_defs)

lemma held_step_inv:
  assumes inv: "ledger_inv d" and r: "r \<in> set (receipts d)" "P r" "\<And>x. P x \<Longrightarrow> rc_id x = rc_id r"
    and same: "sameBookings d d'" and t: "receipts d' = update_rows P f (receipts d)"
    and f: "\<And>x. rc_id (f x) = rc_id x \<and> rc_tenant (f x) = rc_tenant x \<and> rc_currency (f x) = rc_currency x"
      "rc_amount (f r) = rc_amount r" "rc_unallocated (f r) = rc_unallocated r - n" "n \<le> rc_unallocated r"
    and h: "\<And>i. heldOf d' i = heldOf d i + (if i = rc_id r then n else 0)"
    and df: "keyed df_id (differences d')"
      "\<And>x. x \<in> set (differences d') \<Longrightarrow> 0 < df_amount x \<and> difference_of d x"
  shows "ledger_inv d'"
proof -
  note am = sameBookings_amounts [OF same]
  have "receipt_ok d' x" if "x \<in> set (receipts d')" for x
    by (rule receipts_moved [where n = n, OF inv r t _ f(2-4) _ that]) (use f(1) h am(1) in auto)
  moreover have "difference_of d' x" if "x \<in> set (differences d')" for x
    using df(2) [OF that] receipt_of_update(2) [OF f(1) t] by simp
  moreover have "receipt_of d' a" if "a \<in> set (allocations d)" for a
    using ledger_invD(6) [OF inv that] receipt_of_update(1) [OF f(1) t] by simp
  moreover have "keyed rc_id (receipts d')"
    unfolding t by (rule receipt_t.update_keyed [OF ledger_invD(1) [OF inv]]) (use f(1) in simp)
  ultimately show ?thesis
    using ledger_invD [OF inv] df same am
    by (simp add: ledger_inv_def ledger_keys_def ledger_refs_def sameBookings_def)
qed

lemma differences_step_inv:
  assumes inv: "ledger_inv d" and same: "sameBookings d d'" "receipts d' = receipts d"
    and h: "\<And>i. heldOf d' i = heldOf d i"
    and df: "keyed df_id (differences d')"
      "\<And>x. x \<in> set (differences d') \<Longrightarrow> 0 < df_amount x \<and> difference_of d x"
  shows "ledger_inv d'"
proof -
  have "receipt_of d' a = receipt_of d a" "difference_of d' x = difference_of d x" for a x
    using same by (simp_all add: receipt_of_def difference_of_def)
  moreover have "receipt_ok d' r = receipt_ok d r" for r
    using sameBookings_amounts [OF same(1)] h by (simp add: receipt_ok_def)
  ultimately show ?thesis
    using ledger_invD [OF inv] df same sameBookings_amounts [OF same(1)]
    by (simp add: ledger_inv_def ledger_keys_def ledger_refs_def sameBookings_def)
qed

lemma holdDifference_inv:
  assumes inv: "ledger_inv d" and hold: "holdAmount tenant rid kind n r d = Inr d1"
    and ins: "insert_row difference_clash f (differences d1) = Inr t"
    and r: "r \<in> set (receipts d)" "rec_is tenant rid r" and n: "0 < n"
    and f: "df_receipt f = rid" "df_tenant f = tenant" "df_kind f = kind" "df_amount f = n" "df_status f = HELD"
  shows "ledger_inv (d1\<lparr>differences := t\<rparr>)"
proof -
  let ?d = "d1\<lparr>differences := t\<rparr>"
  from hold have d1: "differences d1 = differences d" "sameBookings d ?d"
    by (auto simp: holdAmount_def sameBookings_def split: if_splits)
  with ins have t: "differences ?d = differences d @ [f]" by (simp add: insert_row_Inr)
  have k: "keyed df_id (differences ?d)"
    using difference_t.insert_keyed [OF ledger_invD(5) [OF inv]] ins d1 by simp
  have ok: "0 < df_amount x \<and> difference_of d x" if "x \<in> set (differences ?d)" for x
    using that ledger_invD(11,12) [OF inv, of x] r n f unfolding t
    by (auto simp: difference_of_def rec_is_def)
  have held: "heldOf ?d i = heldOf d i + (if i = rid \<and> kind \<noteq> SHORTPAYMENT then n else 0)" for i
    using t f by (auto simp: heldOf_def holding_def)
  show ?thesis
  proof (cases "kind = SHORTPAYMENT")
    case True
    then show ?thesis
      using hold by (intro differences_step_inv [OF inv d1(2) _ _ k ok]) (auto simp: held holdAmount_def)
  next
    case False
    with hold have tr: "receipts ?d = update_rows (rec_is tenant rid)
        (\<lambda>x. x\<lparr>rc_unallocated := rc_unallocated x - n, rc_version := rc_version x + 1\<rparr>) (receipts d)"
      and le: "n \<le> rc_unallocated r"
      by (auto simp: holdAmount_def split: if_splits)
    show ?thesis
      by (rule held_step_inv [where n = n, OF inv r _ d1(2) tr _ _ _ le _ k ok])
         (use held False r(2) in \<open>auto simp: rec_is_def\<close>)
  qed
qed

lemma difference_key: "dif_is t i x \<Longrightarrow> df_id x = i"
  by (simp add: dif_is_def)

lemma approveDifference_inv:
  assumes inv: "ledger_inv d" and f: "f \<in> set (differences d)" "df_status f = REVIEW_PENDING"
  shows "ledger_inv (approveDifference (df_tenant f) approver f d)"
proof -
  let ?d = "approveDifference (df_tenant f) approver f d"
  let ?g = "\<lambda>x. x\<lparr>df_status := (if df_resolution f = ResRefundPending then REFUND_PENDING else APPROVED),
                df_approved_by := approver, df_version := df_version x + 1\<rparr>"
  have t: "differences ?d = update_rows (dif_is (df_tenant f) (df_id f)) ?g (differences d)"
    and same: "sameBookings d ?d"
    by (simp_all add: approveDifference_def sameBookings_def)
  have k: "keyed df_id (differences ?d)"
    unfolding t by (rule difference_t.update_keyed [OF ledger_invD(5) [OF inv]]) simp
  have ok: "0 < df_amount x \<and> difference_of d x" if "x \<in> set (differences ?d)" for x
    using that ledger_invD(11,12) [OF inv] unfolding t
    by (elim in_update_rowsE) (auto simp: difference_of_def split: if_splits)
  have self: "dif_is (df_tenant f) (df_id f) f" by (simp add: dif_is_def)
  have "heldOf ?d i = heldOf d i - (if df_receipt f = i \<and> holding f then df_amount f else 0) +
      (if df_receipt (?g f) = i \<and> holding (?g f) then df_amount (?g f) else 0)" for i
    unfolding heldOf_def t
    by (rule difference_t.sum_update_by_key [of _ _ "dif_is (df_tenant f) (df_id f)",
          OF ledger_invD(5) [OF inv] f(1) self]) (rule difference_key)
  then have held: "heldOf ?d i = heldOf d i +
      (if i = df_receipt f then if df_resolution f \<noteq> ResRefundPending \<and> df_kind f \<noteq> SHORTPAYMENT
                                then - df_amount f else 0 else 0)" for i
    using f(2) by (auto simp: holding_def)
  show ?thesis
  proof (cases "df_resolution f \<noteq> ResRefundPending \<and> df_kind f \<noteq> SHORTPAYMENT")
    case False
    then have "receipts ?d = receipts d" by (auto simp: approveDifference_def)
    then show ?thesis
      by (rule differences_step_inv [OF inv same _ _ k ok]) (use held False in auto)
  next
    case True
    from ledger_invD(11) [OF inv f(1)] obtain r where r: "r \<in> set (receipts d)"
      "rec_is (df_tenant f) (df_receipt f) r" by (auto simp: difference_of_def rec_is_def)
    from True have tr: "receipts ?d = update_rows (rec_is (df_tenant f) (df_receipt f))
       (\<lambda>x. x\<lparr>rc_unallocated := rc_unallocated x + df_amount f, rc_version := rc_version x + 1\<rparr>) (receipts d)"
      by (simp add: approveDifference_def)
    have pos: "- df_amount f \<le> rc_unallocated r"
      using ledger_invD(12) [OF inv f(1)] ledger_invD(13) [OF inv r(1)] by (simp add: receipt_ok_def)
    show ?thesis
      by (rule held_step_inv [where n = "- df_amount f", OF inv r _ same tr _ _ _ pos _ k ok])
         (use held True r(2) in \<open>auto simp: rec_is_def\<close>)
  qed
qed

text \<open>The other decisions on a difference change neither its amount nor whether it holds it.\<close>

lemma update_difference_inv:
  assumes inv: "ledger_inv d"
    and g: "\<And>x. df_id (g x) = df_id x \<and> df_tenant (g x) = df_tenant x \<and> df_receipt (g x) = df_receipt x \<and>
                 df_amount (g x) = df_amount x"
    and h: "\<And>x. P x \<Longrightarrow> holding (g x) = holding x"
  shows "ledger_inv (d\<lparr>differences := update_rows P g (differences d)\<rparr>)"
proof (rule differences_step_inv [OF inv])
  show "heldOf (d\<lparr>differences := update_rows P g (differences d)\<rparr>) i = heldOf d i" for i
    by (simp add: heldOf_def) (rule sum_rows_update_same, use g h in simp)
  show "keyed df_id (differences (d\<lparr>differences := update_rows P g (differences d)\<rparr>))"
    using g by (simp add: difference_t.update_keyed [OF ledger_invD(5) [OF inv]])
  show "0 < df_amount x \<and> difference_of d x"
    if "x \<in> set (differences (d\<lparr>differences := update_rows P g (differences d)\<rparr>))" for x
    using that ledger_invD(11,12) [OF inv] g
    by simp (elim in_update_rowsE, auto simp: difference_of_def split: if_splits)
qed (simp_all add: sameBookings_def)

section \<open>Commands\<close>

text \<open>
  Each command is reduced to the posting it makes: the claims, scope checks, events and audit
  entries around it leave the ledger's tables alone.
\<close>

lemma allocateLocked_Inr:
  assumes "allocateLocked s e p key aid sn a i d = Inr (w, d')"
  shows "\<exists>r v d1. fst w = aid \<and> r \<in> set (receipts d) \<and> openReceipt (p_tenant p) (ai_receipt i) r \<and>
      v \<in> set (receivables d) \<and> rcv_is (p_tenant p) (ai_receivable i) v \<and> rc_currency r = rv_currency v \<and>
      a \<le> rc_unallocated r \<and> a \<le> rv_open v \<and>
      (\<exists>cs \<in> set (snapshots d). cs_id cs = rv_snapshot v \<and> cs_tenant cs = rv_tenant v \<and>
                               rc_customer r = cs_customer cs) \<and>
      postAllocation (newAllocation p key aid a i (rc_currency r)) r v d = Inr d1 \<and>
      ledgerTables d' = ledgerTables d1 \<and> idempotency d' = idempotency d \<and> contractTables d' = contractTables d"
proof -
  from assms obtain r v cs rp d1 ev d2 where
    r: "find (openReceipt (p_tenant p) (ai_receipt i)) (receipts d) = Some r"
    and v: "openReceivable d (p_tenant p) (ai_receivable i) = Inr (v, cs, rp)"
    and g: "rc_currency r = rv_currency v" "rc_customer r = cs_customer cs" "a \<le> rc_unallocated r" "a \<le> rv_open v"
    and post: "postAllocation (newAllocation p key aid a i (rc_currency r)) r v d = Inr d1"
    and cr: "settlementCredit s e 1 (p_tenant p) sn (newAllocation p key aid a i (rc_currency r)) r v cs rp d1 = Inr (ev, d2)"
    and ob: "eventFrame d2 d'" and w: "fst w = aid"
    unfolding allocateLocked_def Let_def
    by (auto simp only: andThen_eq_Inr query_row_Inr guard_eq_Inr prod.case fst_conv sum.inject prod.inject not_less de_Morgan_disj not_not
        split_paired_Ex split: prod.splits dest!: outbox_frame)
  from v have v': "v \<in> set (receivables d)" "rcv_is (p_tenant p) (ai_receivable i) v"
    "cs \<in> set (snapshots d)" "cs_id cs = rv_snapshot v" "cs_tenant cs = rv_tenant v"
    by (auto simp: openReceivable_def andThen_eq_Inr query_row_Inr rcv_is_def dest!: find_SomeD)
  from cr have "d2 = d1 \<or> creditFrame d1 d2"
    by (auto simp: settlementCredit_def andThen_eq_Inr dest: insertCreditSync_frame split: if_splits option.splits)
  with ob have "ledgerTables d' = ledgerTables d1" "idempotency d' = idempotency d1"
    "contractTables d' = contractTables d1"
    using ledgerTables_frames(3,5) contractTables_frames(3,5) eventFrame_tables(11) creditFrame_tables(13) by metis+
  moreover have "idempotency d1 = idempotency d" "contractTables d1 = contractTables d"
    using postAllocation_Inr(1) [OF post] by (simp_all add: contractTables_def)
  ultimately show ?thesis using w g v' post find_SomeD [OF r] by metis
qed

lemma checkAllocationInput_Inr:
  "checkAllocationInput key i0 = Inr (a, i) \<Longrightarrow>
   0 < a \<and> amountCents (ai_amount i0) = Inr a \<and> ai_fact i = ai_fact i0 \<and> ai_receipt i = ai_receipt i0 \<and> ai_receivable i = ai_receivable i0"
  by (auto simp: checkAllocationInput_def Let_def andThen_eq_Inr amountCents_pos split: if_splits)

lemma allocateClaimed_Inr:
  assumes "allocateClaimed s e p key aid sn a i d = Inr (w, d')"
  shows "\<exists>d2. scopeFrame d d2 \<and> allocateLocked s e p key aid sn a i d2 = Inr (w, d')"
  using assms unfolding allocateClaimed_def
  by (auto simp only: andThen_eq_Inr guard_eq_Inr dest: lockImportWrite_frame)

lemma ConfirmAllocationTx_Inr:
  assumes "ConfirmAllocationTx s e p key0 i0 d = Inr (w, d')"
  shows "(d' = d \<and> snd w = '''' \<and> ai_fact i0 \<noteq> None) \<or>
    (\<exists>a i sn d2. checkAllocationInput (importFactKey e (ai_fact i0) key0) i0 = Inr (a, i) \<and>
      factFrame d d2 \<and>
      allocateLocked s e p (importFactKey e (ai_fact i0) key0) (e_ids e 0) sn a i d2 = Inr (w, d'))"
proof -
  let ?key = "importFactKey e (ai_fact i0) key0"
  from assms obtain a i sn x b d1 where c: "checkAllocationInput ?key i0 = Inr (a, i)"
    and cl: "claimImportFact s e p (ai_fact i) ''ALLOCATION'' (e_ids e 0) (jsonAllocation i) d = Inr (x, b, d1)"
    and rest: "if b then ((x, ''''), d) = (w, d') else allocateClaimed s e p ?key (e_ids e 0) sn a i d1 = Inr (w, d')"
    unfolding ConfirmAllocationTx_def Let_def
    by (simp only: andThen_eq_Inr guard_eq_Inr branch_eq_Inr query_row_Inr prod.case split_paired_Ex) blast
  show ?thesis
  proof (cases b)
    case True
    with cl have "ai_fact i \<noteq> None" by (cases "ai_fact i") (simp_all add: claimImportFact_def)
    with checkAllocationInput_Inr [OF c] rest True show ?thesis by auto
  next
    case False
    with rest obtain d2 where d2: "scopeFrame d1 d2" "allocateLocked s e p ?key (e_ids e 0) sn a i d2 = Inr (w, d')"
      using allocateClaimed_Inr by fastforce
    have "factFrame d d2"
      using claimImportFact_frame [OF cl] scopeFrame_factFrame [OF d2(1)] by (simp add: factFrame_def)
    with c d2(2) show ?thesis by blast
  qed
qed

lemma allocateLocked_inv:
  assumes "ledger_inv d" "0 < a" "allocateLocked s e p key aid sn a i d = Inr (w, d')"
  shows "ledger_inv d'"
proof -
  from allocateLocked_Inr [OF assms(3)] obtain r v d1 where
    *: "r \<in> set (receipts d)" "openReceipt (p_tenant p) (ai_receipt i) r" "v \<in> set (receivables d)"
      "rcv_is (p_tenant p) (ai_receivable i) v" "rc_currency r = rv_currency v" "a \<le> rc_unallocated r"
      "a \<le> rv_open v" "postAllocation (newAllocation p key aid a i (rc_currency r)) r v d = Inr d1"
    and eq: "ledgerTables d' = ledgerTables d1" by blast
  from * have "ledger_inv d1"
    by (intro postAllocation_inv [OF assms(1) *(8)])
       (use assms(2) in \<open>auto simp: newAllocation_def openReceipt_def rec_is_def\<close>)
  then show ?thesis using ledger_inv_cong [OF eq] by simp
qed

lemma ConfirmAllocation_inv:
  assumes inv: "ledger_inv d" and ok: "ConfirmAllocation s e out p key i d = Inr (w, d')"
  shows "ledger_inv d'"
proof -
  from ok obtain aid ev d1 where tx: "ConfirmAllocationTx s e p key i d = Inr ((aid, ev), d1)"
    and d': "d' = d1 \<or> d' = snd (RetryCreditSync s e out (p_tenant p) ev d1)"
    by (auto simp: ConfirmAllocation_def andThen_eq_Inr split: if_splits)
  have "ledger_inv d1"
    using ConfirmAllocationTx_Inr [OF tx]
  proof (elim disjE exE conjE)
    fix a i' sn d2
    assume "checkAllocationInput (importFactKey e (ai_fact i) key) i = Inr (a, i')" and fr: "factFrame d d2"
      and al: "allocateLocked s e p (importFactKey e (ai_fact i) key) (e_ids e 0) sn a i' d2 = Inr ((aid, ev), d1)"
    then show ?thesis
      using checkAllocationInput_Inr allocateLocked_inv [OF _ _ al] inv
        ledger_inv_cong [OF ledgerTables_frames(4) [OF fr]] by blast
  qed (use inv in simp)
  then show ?thesis
    using d' ledger_inv_cong [OF ledgerTables_frames(5) [OF RetryCreditSync_frame]] by metis
qed

lemma claimReceipt_frame:
  assumes "claimReceipt s e p key rid a i d = Inr (w, r, d')"
  shows "ledgerTables d' = ledgerTables d"
proof -
  from assms obtain x b d1 where c: "claimImportFact s e p (ri_fact i) ''RECEIPT'' rid (jsonReceipt i) d = Inr (x, b, d1)"
    and "d' = d \<or> d' = d1 \<or> idemFrame d1 d'"
    by (auto simp: claimReceipt_def andThen_eq_Inr dest!: claimIdempotency_frame split: if_splits option.splits)
  then show ?thesis
    using ledgerTables_frames(2,4) claimImportFact_frame [OF c] by metis
qed

lemma checkReceiptInput_pos: "checkReceiptInput e key i0 = Inr (a, i) \<Longrightarrow> 0 < a"
  by (auto simp: checkReceiptInput_def Let_def andThen_eq_Inr amountCents_pos split: if_splits)

lemma storeReceipt_Inr:
  "storeReceipt e p key rid a i d = Inr (w, d') \<Longrightarrow>
   d' = d \<or> (\<exists>t. insert_row receipt_clash (newReceipt p key rid a i) (receipts d) = Inr t \<and>
                 eventFrame (d\<lparr>receipts := t\<rparr>) d')"
  by (auto simp: storeReceipt_def andThen_eq_Inr dest!: outbox_frame split: sum.splits if_splits option.splits)

lemma CreateReceipt_Inr:
  assumes "CreateReceipt s e p key0 i0 d = Inr (w, d')"
  shows "\<exists>a i1 i ex b d1. checkReceiptInput e (importFactKey e (ri_fact i0) key0) i0 = Inr (a, i1) \<and>
     validateNativeReceiptCustomer s p i1 d = Inr i \<and>
     claimReceipt s e p (importFactKey e (ri_fact i0) key0) (e_ids e 0) a i d = Inr (ex, b, d1) \<and>
     (if b then (ex, d1) = (w, d')
      else storeReceipt e p (importFactKey e (ri_fact i0) key0) (e_ids e 0) a i d1 = Inr (w, d'))"
  using assms unfolding CreateReceipt_def Let_def
  by (simp only: andThen_eq_Inr guard_eq_Inr branch_eq_Inr prod.case split_paired_Ex) blast

lemma CreateReceipt_inv:
  assumes inv: "ledger_inv d" and ok: "CreateReceipt s e p key0 i0 d = Inr (w, d')"
  shows "ledger_inv d'"
proof -
  let ?key = "importFactKey e (ri_fact i0) key0"
  from CreateReceipt_Inr [OF ok] obtain a i1 i ex b d1 where ck: "checkReceiptInput e ?key i0 = Inr (a, i1)"
    and cl: "claimReceipt s e p ?key (e_ids e 0) a i d = Inr (ex, b, d1)"
    and st: "if b then (ex, d1) = (w, d') else storeReceipt e p ?key (e_ids e 0) a i d1 = Inr (w, d')" by blast
  from st have d': "d' = d1 \<or> (\<exists>t. insert_row receipt_clash (newReceipt p ?key (e_ids e 0) a i) (receipts d1) = Inr t \<and>
                 eventFrame (d1\<lparr>receipts := t\<rparr>) d')"
    using storeReceipt_Inr [of e p ?key "e_ids e 0" a i d1 w d'] by (auto split: if_splits)
  have i1: "ledger_inv d1" using ledger_inv_cong [OF claimReceipt_frame [OF cl]] inv by simp
  show ?thesis
    using d'
  proof (elim disjE exE conjE)
    fix t
    assume t: "insert_row receipt_clash (newReceipt p ?key (e_ids e 0) a i) (receipts d1) = Inr t"
      and fr: "eventFrame (d1\<lparr>receipts := t\<rparr>) d'"
    have "ledger_inv (d1\<lparr>receipts := t\<rparr>)"
      by (rule insert_receipt_inv [OF i1 t]) (use checkReceiptInput_pos [OF ck] in \<open>simp_all add: newReceipt_def\<close>)
    then show ?thesis using ledger_inv_cong [OF ledgerTables_frames(3) [OF fr]] by simp
  qed (use i1 in simp)
qed

lemma reverseLocked_Inr:
  assumes "reverseLocked s e p key rid aid val i d = Inr (w, d')"
  shows "\<exists>al d2 opened d3. al \<in> set (allocations d) \<and> liveAllocation (p_tenant p) aid al \<and>
      al_by al \<noteq> p_user p \<and> val \<le> al_amount al - reversedOf d aid \<and> ledgerTables d2 = ledgerTables d \<and>
      postReversal (newReversal p key rid aid val i) al d2 = Inr (opened, d3) \<and>
      ledgerTables d' = ledgerTables d3 \<and> idempotency d' = idempotency d \<and> contractTables d' = contractTables d"
proof -
  from assms obtain al d2 opened d3 ev d4 where
    al: "find (liveAllocation (p_tenant p) aid) (allocations d) = Some al"
    and sc: "requireReceiptAllocationScopeTx s p ''settlement.allocation.reverse'' aid d = Inr d2"
    and g: "al_by al \<noteq> p_user p" "val \<le> al_amount al - reversedOf d (al_id al)"
    and post: "postReversal (newReversal p key rid aid val i) al d2 = Inr (opened, d3)"
    and ev: "withdrawSettlement s e (p_tenant p) aid (al_receivable al) opened d3 = Inr (ev, d4)"
    and ob: "eventFrame d4 d'"
    unfolding reverseLocked_def
    by (auto simp only: andThen_eq_Inr query_row_Inr guard_eq_Inr prod.case fst_conv sum.inject prod.inject
        not_less split_paired_Ex dest!: outbox_frame) blast
  have t2: "ledgerTables d2 = ledgerTables d"
    by (rule ledgerTables_frames(1) [OF requireReceiptAllocationScopeTx_frame [OF sc]])
  have t4: "ledgerTables d' = ledgerTables d3"
    using ledgerTables_frames(5) [OF withdrawSettlement_frame [OF ev]] ledgerTables_frames(3) [OF ob] by simp
  have "idempotency d3 = idempotency d2" using postReversal_Inr [OF post] by auto
  then have idem: "idempotency d' = idempotency d"
    using requireReceiptAllocationScopeTx_frame [OF sc] withdrawSettlement_frame [OF ev] ob
    by (simp add: frame_simps)
  have "contractTables d3 = contractTables d2" using postReversal_Inr [OF post] by (auto simp: contractTables_def)
  then have con: "contractTables d' = contractTables d"
    using contractTables_frames(1) [OF requireReceiptAllocationScopeTx_frame [OF sc]]
      contractTables_frames(5) [OF withdrawSettlement_frame [OF ev]] contractTables_frames(3) [OF ob] by simp
  have live: "liveAllocation (p_tenant p) aid al" "al \<in> set (allocations d)"
    using find_SomeD [OF al] by simp_all
  then have "val \<le> al_amount al - reversedOf d aid"
    using g(2) by (simp add: liveAllocation_def)
  with live g t2 post t4 idem con show ?thesis by blast
qed

lemma ReverseAllocationTx_Inr:
  assumes "ReverseAllocationTx s e p key aid i d = Inr (w, d')"
  shows "(d' = d \<and> snd w = '''' \<and> boundTo d (p_tenant p, ''REVERSE_RECEIPT_ALLOCATION'', key) \<noteq> None) \<or>
    (\<exists>val d1. amountCents (vi_amount i) = Inr val \<and> idemFrame d d1 \<and>
       reverseLocked s e p key (e_ids e 0) aid val i d1 = Inr (w, d'))"
proof -
  from assms obtain val x b d1 where v: "amountCents (vi_amount i) = Inr val"
    and cl: "claimIdempotency e (p_tenant p) ''REVERSE_RECEIPT_ALLOCATION'' key (e_ids e 0)
               (reversalRequest aid val i) d = Inr (x, b, d1)"
    and rest: "if b then d' = d \<and> snd w = '''' else reverseLocked s e p key (e_ids e 0) aid val i d1 = Inr (w, d')"
    by (auto simp: ReverseAllocationTx_def Let_def andThen_eq_Inr split: if_splits)
  have "b \<Longrightarrow> boundTo d (p_tenant p, ''REVERSE_RECEIPT_ALLOCATION'', key) \<noteq> None"
    using cl by (cases "boundTo d (p_tenant p, ''REVERSE_RECEIPT_ALLOCATION'', key)") (auto simp: claimIdempotency_fresh)
  with v rest claimIdempotency_frame [OF cl] show ?thesis by (auto split: if_splits)
qed

lemma reverseLocked_inv:
  assumes inv: "ledger_inv d" and pos: "0 < val" and ok: "reverseLocked s e p key rid aid val i d = Inr (w, d')"
  shows "ledger_inv d'"
proof -
  from reverseLocked_Inr [OF ok] obtain al d2 opened d3 where
    *: "al \<in> set (allocations d)" "liveAllocation (p_tenant p) aid al" "val \<le> al_amount al - reversedOf d aid"
      "postReversal (newReversal p key rid aid val i) al d2 = Inr (opened, d3)"
    and eq: "ledgerTables d2 = ledgerTables d" "ledgerTables d' = ledgerTables d3" by blast
  have "ledger_inv d2" using inv ledger_inv_cong [OF eq(1)] by simp
  then have "ledger_inv d3"
    by (rule postReversal_inv [OF _ *(4)])
       (use *(1-3) pos eq(1) in \<open>auto simp: newReversal_def liveAllocation_def ledgerTables_def reversedOf_def\<close>)
  then show ?thesis using ledger_inv_cong [OF eq(2)] by simp
qed

lemma ReverseAllocation_inv:
  assumes inv: "ledger_inv d" and ok: "ReverseAllocation s e out p key aid i d = Inr (w, d')"
  shows "ledger_inv d'"
proof -
  from ok obtain rid ev d1 where tx: "ReverseAllocationTx s e p key aid i d = Inr ((rid, ev), d1)"
    and d': "d' = d1 \<or> d' = snd (RetryCreditSync s e out (p_tenant p) ev d1)"
    by (auto simp: ReverseAllocation_def andThen_eq_Inr split: if_splits)
  have "ledger_inv d1"
    using ReverseAllocationTx_Inr [OF tx]
  proof (elim disjE exE conjE)
    fix val d2
    assume "amountCents (vi_amount i) = Inr val" "idemFrame d d2"
      and rl: "reverseLocked s e p key (e_ids e 0) aid val i d2 = Inr ((rid, ev), d1)"
    then show ?thesis
      using reverseLocked_inv [OF _ _ rl] inv ledger_inv_cong [OF ledgerTables_frames(2)] amountCents_pos by blast
  qed (use inv in simp)
  then show ?thesis
    using d' ledger_inv_cong [OF ledgerTables_frames(5) [OF RetryCreditSync_frame]] by metis
qed

lemma CreateReceiptDifference_Inr:
  assumes "CreateReceiptDifference s e p i d = Inr (w, d')" "d' \<noteq> d"
  shows "\<exists>val kind d1 r d2 t. amountCents (di_amount i) = Inr val \<and> idemFrame d d1 \<and>
       find (rec_is (p_tenant p) (di_receipt i)) (receipts d1) = Some r \<and>
       holdAmount (p_tenant p) (di_receipt i) kind val r d1 = Inr d2 \<and>
       insert_row difference_clash (newDifference p (e_ids e 0) (di_receipt i) kind val (trimSpace (di_reason i)))
         (differences d2) = Inr t \<and> eventFrame (d2\<lparr>differences := t\<rparr>) d'"
  using assms
  by (auto simp: CreateReceiptDifference_def Let_def andThen_eq_Inr query_row_Inr
      dest!: outbox_frame claimIdempotency_frame split: if_splits option.splits) blast

lemma CreateReceiptDifference_inv:
  assumes inv: "ledger_inv d" and ok: "CreateReceiptDifference s e p i d = Inr (w, d')"
  shows "ledger_inv d'"
proof (cases "d' = d")
  case False
  from CreateReceiptDifference_Inr [OF ok False] obtain val kind d1 r d2 t
    where v: "amountCents (di_amount i) = Inr val" and fr1: "idemFrame d d1"
      and r: "find (rec_is (p_tenant p) (di_receipt i)) (receipts d1) = Some r"
      and h: "holdAmount (p_tenant p) (di_receipt i) kind val r d1 = Inr d2"
      and t: "insert_row difference_clash
        (newDifference p (e_ids e 0) (di_receipt i) kind val (trimSpace (di_reason i))) (differences d2) = Inr t"
      and fr: "eventFrame (d2\<lparr>differences := t\<rparr>) d'" by blast
  have i1: "ledger_inv d1"
    using ledger_inv_cong [OF ledgerTables_frames(2) [OF fr1]] inv by simp
  have "ledger_inv (d2\<lparr>differences := t\<rparr>)"
    by (rule holdDifference_inv [OF i1 h t])
       (use find_SomeD [OF r] amountCents_pos [OF v] in \<open>simp_all add: newDifference_def\<close>)
  then show ?thesis using ledger_inv_cong [OF ledgerTables_frames(3) [OF fr]] by simp
qed (use inv in simp)

lemma ResolveReceiptDifference_inv:
  assumes inv: "ledger_inv d" and ok: "ResolveReceiptDifference s e p did i d = Inr (w, d')"
  shows "ledger_inv d'"
proof -
  from ok obtain res where "eventFrame (d\<lparr>differences := update_rows (resolvable (p_tenant p) did (dr_version i) res)
      (differenceResolved (p_user p) res (dr_reason i)) (differences d)\<rparr>) d'"
      (is "eventFrame ?d d'")
    by (auto simp: ResolveReceiptDifference_def Let_def andThen_eq_Inr dest!: outbox_frame
        split: if_splits option.splits)
  moreover have "ledger_inv ?d"
    by (rule update_difference_inv [OF inv]) (auto simp: resolvable_def holding_def differenceResolved_def)
  ultimately show ?thesis using ledger_inv_cong [OF ledgerTables_frames(3)] by simp
qed

lemma ApproveReceiptDifference_Inr:
  assumes "ApproveReceiptDifference s e p did version d = Inr (w, d')"
  shows "\<exists>f. f \<in> set (differences d) \<and> reviewable (p_tenant p) did version f \<and>
     df_requested_by f \<noteq> p_user p \<and> df_resolved_by f \<noteq> p_user p \<and>
     eventFrame (approveDifference (p_tenant p) (p_user p) f d) d'"
  using assms by (auto simp: ApproveReceiptDifference_def andThen_eq_Inr query_row_Inr
      dest!: outbox_frame find_SomeD split: if_splits)

lemma ApproveReceiptDifference_inv:
  assumes inv: "ledger_inv d" and ok: "ApproveReceiptDifference s e p did version d = Inr (w, d')"
  shows "ledger_inv d'"
proof -
  from ApproveReceiptDifference_Inr [OF ok] obtain f where f: "f \<in> set (differences d)"
    "reviewable (p_tenant p) did version f" and fr: "eventFrame (approveDifference (p_tenant p) (p_user p) f d) d'"
    by blast
  from f(2) have "df_status f = REVIEW_PENDING" "p_tenant p = df_tenant f" by (simp_all add: reviewable_def)
  then show ?thesis
    using approveDifference_inv [OF inv f(1)] ledger_inv_cong [OF ledgerTables_frames(3) [OF fr]] by simp
qed

lemma ConfirmReceiptRefund_inv:
  assumes inv: "ledger_inv d" and ok: "ConfirmReceiptRefund s e p did i d = Inr (w, d')"
  shows "ledger_inv d'"
proof -
  from ok obtain i' c where "eventFrame (d\<lparr>differences := update_rows (refundable (p_tenant p) did (cr_version i'))
      (refundConfirmed (p_user p) i' c) (differences d)\<rparr>) d'"
      (is "eventFrame ?d d'")
    by (auto simp: ConfirmReceiptRefund_def Let_def andThen_eq_Inr dest!: outbox_frame
        split: if_splits option.splits)
  moreover have "ledger_inv ?d"
    by (rule update_difference_inv [OF inv]) (auto simp: refundable_def holding_def refundConfirmed_def)
  ultimately show ?thesis using ledger_inv_cong [OF ledgerTables_frames(3)] by simp
qed

lemma vouchers_inv: "ledger_inv (d\<lparr>vouchers := t\<rparr>) = ledger_inv d"
  by (rule ledger_inv_cong) (simp add: ledgerTables_def)

lemma CreateAccountingVoucher_inv:
  assumes inv: "ledger_inv d" and ok: "CreateAccountingVoucher s e p wid d = Inr (w, d')"
  shows "ledger_inv d'"
proof -
  from ok have "d' = d \<or> (\<exists>t. eventFrame (d\<lparr>vouchers := t\<rparr>) d')"
    by (auto simp: CreateAccountingVoucher_def Let_def andThen_eq_Inr dest!: outbox_frame
        split: if_splits option.splits)
  then show ?thesis
    using inv vouchers_inv ledger_inv_cong [OF ledgerTables_frames(3)] by metis
qed

lemma RetryAccountingVoucher_inv:
  assumes inv: "ledger_inv d" and ok: "RetryAccountingVoucher s e erp p vid d = Inr (w, d')"
  shows "ledger_inv d'"
proof -
  from ok have "d' = d \<or> (\<exists>t. eventFrame (d\<lparr>vouchers := t\<rparr>) d')"
    by (auto simp: RetryAccountingVoucher_def Let_def andThen_eq_Inr dest!: outbox_frame
        split: if_splits prod.splits)
  then show ?thesis
    using inv vouchers_inv ledger_inv_cong [OF ledgerTables_frames(3)] by metis
qed

section \<open>Runs of ledger commands\<close>

datatype ledger_command =
    RecordReceipt string ReceiptInput
  | Allocate publish_outcome string AllocationInput
  | Reverse publish_outcome string string ReversalInput
  | HoldDifference ReceiptDifferenceInput
  | ResolveDifference string DifferenceResolutionInput
  | ApproveDifference string int
  | ConfirmRefund string ConfirmRefundRequest
  | CreateVoucher string
  | RetryVoucher erp_provider string

type_synonym 'c request = "Service \<times> env \<times> Principal \<times> 'c"

fun ledgerExec :: "ledger_command request \<Rightarrow> db \<Rightarrow> (unit \<times> db) res" where
  "ledgerExec (s, e, p, RecordReceipt key i) d = resMap (\<lambda>(_, d'). ((), d')) (CreateReceipt s e p key i d)"
| "ledgerExec (s, e, p, Allocate out key i) d =
     resMap (\<lambda>(_, d'). ((), d')) (ConfirmAllocation s e out p key i d)"
| "ledgerExec (s, e, p, Reverse out key aid i) d =
     resMap (\<lambda>(_, d'). ((), d')) (ReverseAllocation s e out p key aid i d)"
| "ledgerExec (s, e, p, HoldDifference i) d =
     resMap (\<lambda>(_, d'). ((), d')) (CreateReceiptDifference s e p i d)"
| "ledgerExec (s, e, p, ResolveDifference did i) d = ResolveReceiptDifference s e p did i d"
| "ledgerExec (s, e, p, ApproveDifference did version) d = ApproveReceiptDifference s e p did version d"
| "ledgerExec (s, e, p, ConfirmRefund did i) d = ConfirmReceiptRefund s e p did i d"
| "ledgerExec (s, e, p, CreateVoucher wid) d =
     resMap (\<lambda>(_, d'). ((), d')) (CreateAccountingVoucher s e p wid d)"
| "ledgerExec (s, e, p, RetryVoucher erp vid) d =
     resMap (\<lambda>(_, d'). ((), d')) (RetryAccountingVoucher s e erp p vid d)"

lemmas ledger_command_inv = CreateReceipt_inv ConfirmAllocation_inv ReverseAllocation_inv
  CreateReceiptDifference_inv ResolveReceiptDifference_inv ApproveReceiptDifference_inv
  ConfirmReceiptRefund_inv CreateAccountingVoucher_inv RetryAccountingVoucher_inv

lemma resMap_drop_Inr [res_inv]:
  "resMap (\<lambda>(_, d'). ((), d')) m = Inr (u, d') \<longleftrightarrow> (\<exists>w. m = Inr (w, d'))"
  by (cases m) auto

interpretation ledger: tx_commands ledgerExec "\<lambda>_. True" ledger_inv
proof
  fix d c u d'
  assume "ledger_inv d" "ledgerExec c d = Inr (u, d')"
  then show "ledger_inv d'"
    by (cases "(c, d)" rule: ledgerExec.cases) (auto simp: resMap_drop_Inr dest: ledger_command_inv)
qed

end
