(* ===== verification/Samples.thy ===== *)
theory Samples
  imports LedgerInvariant
begin

text \<open>
  Concrete stores and requests on which the properties are evaluated: one tenant, a contract of
  customer 42 with one confirmed receivable of 100.00, a receipt of 150.00, a bookkeeper and a
  controller. The digest of the sample environments is a plain rendering of the request.
\<close>

fun jsonText :: "json \<Rightarrow> string" where
  "jsonText (JStr s) = CHR ''s'' # s @ ''|''"
| "jsonText (JInt n) = CHR ''i'' # replicate (nat n) CHR ''1''"
| "jsonText (JBool b) = (if b then ''t'' else ''f'')"
| "jsonText JNull = ''n''"
| "jsonText (JArr xs) = CHR ''a'' # concat (map jsonText xs)"
| "jsonText (JObj kvs) = CHR ''o'' # concat (map (\<lambda>kv. fst kv @ jsonText (snd kv)) kvs)"

definition sampleEnv :: "string list \<Rightarrow> env" where
  "sampleEnv ids = \<lparr>e_now = 1710460800000, e_today = (2024, 3, 15), e_ids = (\<lambda>k. ids ! k),
     e_sha256 = jsonText, e_meta = \<lparr>LoginIP = '''', ClientIP = '''', IPSource = ''''\<rparr>\<rparr>"

definition sampleService :: Service where
  "sampleService = \<lparr>NativeFinancialEnabled = False, CreditSyncSubscribed = Some False,
     ContractImportEnabled = False, InvoiceIssuanceMode = ''MANUAL'', TaxProviderCode = '''',
     HasCreditPublisher = False, HasERPProvider = False, catalogRoleGrants = (\<lambda>_. []), planCoverageGapEnv = None,
     planCoverageDropEnv = None\<rparr>"

definition sampleUser :: "string \<Rightarrow> Principal" where
  "sampleUser u = \<lparr>p_tenant = ''T'', p_user = u, p_permissions = [''settlement.admin''], p_roles = [],
     p_scopes = [], p_catalog = ''''\<rparr>"

definition sampleSnapshot :: contract_snapshot where
  "sampleSnapshot = \<lparr>cs_id = ''S'', cs_tenant = ''T'', cs_source = ''contract_management'', cs_event = ''E'',
     cs_contract = Some ''C'', cs_contract_no = ''CN-1'', cs_version = 1, cs_customer = ''42'',
     cs_customer_name = ''Acme'', cs_project = '''', cs_project_name = '''', cs_currency = ''CNY'',
     cs_amount = 10000, cs_status = EFFECTIVE, cs_effective_at = '''', cs_migration = RELEASED,
     cs_import_version = 0, cs_basis = CONTRACT, cs_namespace = ''crm'', cs_local = None\<rparr>"

definition samplePlan :: receivable_plan where
  "samplePlan = \<lparr>rp_id = ''P'', rp_tenant = ''T'', rp_snapshot = ''S'', rp_installment = 1,
     rp_due = ''2024-06-30'', rp_amount = 10000, rp_source = CONTRACT_EVENT, rp_status = CONFIRMED,
     rp_reason = '''', rp_version = 1\<rparr>"

definition sampleReceivable :: receivable where
  "sampleReceivable = \<lparr>rv_id = ''V'', rv_tenant = ''T'', rv_no = ''AR-1'', rv_snapshot = ''S'', rv_plan = ''P'',
     rv_due = ''2024-06-30'', rv_original = 10000, rv_invoiced = 0, rv_received = 0, rv_writeoff = 0,
     rv_open = 10000, rv_currency = ''CNY'', rv_recognition = ''CONFIRMED'', rv_collection = UNPAID,
     rv_invoice = NOT_INVOICED, rv_version = 1\<rparr>"

definition sampleReceipt :: receipt where
  "sampleReceipt = \<lparr>rc_id = ''R'', rc_tenant = ''T'', rc_no = ''RC-1'', rc_customer = ''42'',
     rc_customer_name = ''Acme'', rc_amount = 15000, rc_unallocated = 15000, rc_currency = ''CNY'',
     rc_date = ''2024-03-01'', rc_method = ''TRANSFER'', rc_bank_ref = ''B-1'', rc_status = AVAILABLE,
     rc_idem = ''k-0'', rc_version = 1\<rparr>"

definition sampleStore :: db where
  "sampleStore = empty_db\<lparr>snapshots := [sampleSnapshot], plans := [samplePlan],
     receivables := [sampleReceivable], receipts := [sampleReceipt]\<rparr>"

definition sampleAllocation :: "int \<Rightarrow> AllocationInput" where
  "sampleAllocation n = \<lparr>ai_fact = None, ai_receipt = ''R'', ai_receivable = ''V'', ai_amount = money n,
     ai_mode = ''MANUAL'', ai_confidence = 0\<rparr>"

definition sampleReversal :: "int \<Rightarrow> ReversalInput" where
  "sampleReversal n = \<lparr>vi_amount = money n, vi_reason_code = ''ERR'', vi_reason_detail = ''''\<rparr>"

lemmas sample_defs = sampleEnv_def sampleService_def sampleUser_def sampleSnapshot_def samplePlan_def
  sampleReceivable_def sampleReceipt_def sampleStore_def sampleAllocation_def sampleReversal_def empty_db_def

text \<open>The statement forms, unfolded for evaluation.\<close>

lemmas run_defs = query_row_def insert_row_def update_rows_def affected_def sum_rows_def delete_rows_def
  Let_def resMap_def

lemma sampleStore_inv: "ledger_inv sampleStore"
  by (simp add: ledger_defs sample_defs keyed_def collectionFor_def)

lemmas allocation_eval = ConfirmAllocation_def ConfirmAllocationTx_def checkAllocationInput_def
  claimImportFact_def importFactKey_def allocateClaimed_def allocateLocked_def lockImportWrite_def
  migrationOf_def rejectImportedReceiptMutation_def openReceipt_def openReceivable_def
  newAllocation_def postAllocation_def allocation_clash_def settlementCredit_def
  creditEligibleSnapshot_def creditSubscribed_def rec_is_def rcv_is_def receiptAllocated_def
  receivableAllocated_def outbox_def outbox_clash_def audit_clash_def outboxPayload_def enrichAuditIP_def
  putIfAbsent_def stringOr_def jget_def showCollection_def showReceiptStatus_def

lemma sample_texts [simp]:
  "trimSpace ''k-0'' = ''k-0''" "trimSpace ''k-1'' = ''k-1''" "trimSpace ''k-2'' = ''k-2''" "trimSpace ''MANUAL'' = ''MANUAL''"
  "toUpper ''MANUAL'' = ''MANUAL''" "\<not> textTooLong ''ERR'' 64" "\<not> textTooLong '''' 500"
  by (simp_all add: plain_def byte_def asciiSpace_def upperByte_def textTooLong_def runeCount.simps runeLen_def inRange_def)

declare toUpper.simps [simp del]

lemma sample_allocate:
  "\<exists>d. ConfirmAllocation sampleService (sampleEnv [''A'', ''o1'', ''o2'', ''o3'', ''o4'', ''o5'']) Published
      (sampleUser ''bob'') ''k-1'' (sampleAllocation 6000) sampleStore = Inr (''A'', d)"
  by (simp add: allocation_eval sample_defs run_defs required_def)

lemmas reversal_eval = ReverseAllocation_def ReverseAllocationTx_def claimIdempotency_def
  idempotency_clash_def reverseLocked_def liveAllocation_def requireReceiptAllocationScopeTx_def
  scopedAuthorization_def newReversal_def postReversal_def reversal_clash_def reversedOf_def
  allocationReversed_def receiptReversed_def receivableReversed_def alloc_is_def withdrawSettlement_def

lemma sample_reverse:
  assumes "n = 2500 \<or> n = 6000"
  shows "\<exists>d1 d2. ConfirmAllocation sampleService (sampleEnv [''A'', ''o1'', ''o2'', ''o3'', ''o4'', ''o5'']) Published
      (sampleUser ''bob'') ''k-1'' (sampleAllocation 6000) sampleStore = Inr (''A'', d1) \<and>
    ReverseAllocation sampleService (sampleEnv [''X'', ''q1'', ''q2'', ''q3'', ''q4'', ''q5'']) Published
      (sampleUser ''eve'') ''k-2'' ''A'' (sampleReversal n) d1 = Inr (''X'', d2) \<and>
    idempotency d1 = [] \<and> map (\<lambda>a. (al_receipt a, al_receivable a)) (allocations d1) = [(''R'', ''V'')]"
  using assms
  by (elim disjE) (simp_all add: allocation_eval reversal_eval sample_defs run_defs required_def)

definition sampleReceiptInput :: "int \<Rightarrow> ReceiptInput" where
  "sampleReceiptInput n = \<lparr>ri_fact = None, ri_customer = ''42'', ri_customer_name = ''Acme'', ri_amount = money n,
     ri_currency = ''CNY'', ri_date = ''2024-03-01'', ri_method = ''CASH'', ri_bank = ''B-2''\<rparr>"

lemma sample_date: "validateBusinessDateOn ''2024-03-01'' (2024, 3, 15) = Inr ''2024-03-01''"
  by (simp add: validateBusinessDateOn_def parseDate_def text_eval showDate.simps daysIn_def)

lemma sample_receipt_texts [simp]:
  "trimSpace ''42'' = ''42''" "trimSpace ''Acme'' = ''Acme''" "trimSpace ''B-2'' = ''B-2''"
  "trimSpace ''CNY'' = ''CNY''" "trimSpace ''CASH'' = ''CASH''" "toUpper ''CNY'' = ''CNY''" "toUpper ''CASH'' = ''CASH''"
  by (simp_all add: plain_def byte_def asciiSpace_def upperByte_def toUpper.simps)

lemma sample_short [simp]: "\<not> textTooLong ''42'' 128" "\<not> textTooLong ''Acme'' 255" "\<not> textTooLong ''B-2'' 128"
  by (simp_all add: textTooLong_def runeCount.simps runeLen_def inRange_def byte_def)

lemma sample_checkReceipt:
  "0 < n \<Longrightarrow> key = ''k-1'' \<or> key = ''k-0'' \<Longrightarrow> checkReceiptInput (sampleEnv ids) key (sampleReceiptInput n) = Inr (n, sampleReceiptInput n)"
  by (auto simp: checkReceiptInput_def sampleReceiptInput_def sampleEnv_def required_def Let_def paymentMethods_def
      sample_date)

end
