(* ===== verification/LedgerSpec.thy ===== *)
theory LedgerSpec
  imports Samples
begin

text \<open>
  The abstract ledger and the commands that refine it. Abstractly a ledger has a free balance
  per receipt, an amount due per receivable and a matched amount per pair of them; the only
  operation is the transfer of an amount, and a reversal is a transfer of the negated amount.
\<close>

section \<open>The abstract ledger\<close>

record balances =
  free :: "string \<Rightarrow> int"
  due :: "string \<Rightarrow> int"
  matched :: "string \<times> string \<Rightarrow> int"

definition transfer :: "string \<Rightarrow> string \<Rightarrow> int \<Rightarrow> balances \<Rightarrow> balances" where
  "transfer rid vid n b =
     b\<lparr>free := (free b)(rid := free b rid - n), due := (due b)(vid := due b vid - n),
       matched := (matched b)((rid, vid) := matched b (rid, vid) + n)\<rparr>"

lemma transfer_undo: "transfer rid vid (- n) (transfer rid vid n b) = b"
  by (simp add: transfer_def)

definition freeOf :: "db \<Rightarrow> string \<Rightarrow> int" where
  "freeOf d rid = (case find (\<lambda>r. rc_id r = rid) (receipts d) of None \<Rightarrow> 0 | Some r \<Rightarrow> rc_unallocated r)"

definition dueOf :: "db \<Rightarrow> string \<Rightarrow> int" where
  "dueOf d vid = (case find (\<lambda>v. rv_id v = vid) (receivables d) of None \<Rightarrow> 0 | Some v \<Rightarrow> rv_open v)"

definition pairOf :: "db \<Rightarrow> string \<times> string \<Rightarrow> int" where
  "pairOf d rv = sum_rows (\<lambda>a. al_receipt a = fst rv \<and> al_receivable a = snd rv) (netOf d) (allocations d)"

definition absLedger :: "db \<Rightarrow> balances" where
  "absLedger d = \<lparr>free = freeOf d, due = dueOf d, matched = pairOf d\<rparr>"

lemma absLedger_cong: "ledgerTables d' = ledgerTables d \<Longrightarrow> absLedger d' = absLedger d"
  by (simp add: ledgerTables_def absLedger_def freeOf_def [abs_def] dueOf_def [abs_def] pairOf_def [abs_def]
      netOf_def [abs_def] reversedOf_def)

lemma freeOf_in: "ledger_inv d \<Longrightarrow> r \<in> set (receipts d) \<Longrightarrow> freeOf d (rc_id r) = rc_unallocated r"
  using receipt_t.find_by_key [OF ledger_invD(1), of d r "\<lambda>x. rc_id x = rc_id r"] by (simp add: freeOf_def)

lemma dueOf_in: "ledger_inv d \<Longrightarrow> v \<in> set (receivables d) \<Longrightarrow> dueOf d (rv_id v) = rv_open v"
  using receivable_t.find_by_key [OF ledger_invD(2), of d v "\<lambda>x. rv_id x = rv_id v"] by (simp add: dueOf_def)

text \<open>Reading one balance after an update that rewrites one row.\<close>

lemma find_update_other:
  assumes "\<And>x. key (f x) = key x" "\<And>x. P x \<Longrightarrow> key x = k" "k' \<noteq> k"
  shows "find (\<lambda>x. key x = k') (update_rows P f t) = find (\<lambda>x. key x = k') t"
  using assms by (induction t) (auto simp: update_rows_def)

lemma freeOf_update:
  assumes "ledger_inv d" "r \<in> set (receipts d)" "rec_is tenant (rc_id r) r"
    and "receipts d' = update_rows (rec_is tenant (rc_id r)) f (receipts d)" "\<And>x. rc_id (f x) = rc_id x"
  shows "freeOf d' = (freeOf d)(rc_id r := rc_unallocated (f r))"
proof
  fix i
  have u: "receipts d' = update_rows (\<lambda>x. rc_id x = rc_id r) f (receipts d)"
    unfolding assms(4) using ledger_invD(1) [OF assms(1)] assms(2,3)
    by (rule receipt_t.update_by_key) (simp add: rec_is_def)
  show "freeOf d' i = ((freeOf d)(rc_id r := rc_unallocated (f r))) i"
  proof (cases "i = rc_id r")
    case True
    then show ?thesis
      using receipt_t.find_update_key [OF ledger_invD(1) [OF assms(1)] assms(2), of f] u assms(5)
      by (simp add: freeOf_def)
  next
    case False
    with find_update_other [of rc_id f "\<lambda>x. rc_id x = rc_id r" "rc_id r" i] u assms(5)
    show ?thesis by (simp add: freeOf_def)
  qed
qed

lemma dueOf_update:
  assumes "ledger_inv d" "v \<in> set (receivables d)" "rcv_is tenant (rv_id v) v"
    and "receivables d' = update_rows (rcv_is tenant (rv_id v)) f (receivables d)" "\<And>x. rv_id (f x) = rv_id x"
  shows "dueOf d' = (dueOf d)(rv_id v := rv_open (f v))"
proof
  fix i
  have u: "receivables d' = update_rows (\<lambda>x. rv_id x = rv_id v) f (receivables d)"
    unfolding assms(4) using ledger_invD(2) [OF assms(1)] assms(2,3)
    by (rule receivable_t.update_by_key) (simp add: rcv_is_def)
  show "dueOf d' i = ((dueOf d)(rv_id v := rv_open (f v))) i"
  proof (cases "i = rv_id v")
    case True
    then show ?thesis
      using receivable_t.find_update_key [OF ledger_invD(2) [OF assms(1)] assms(2), of f] u assms(5)
      by (simp add: dueOf_def)
  next
    case False
    with find_update_other [of rv_id f "\<lambda>x. rv_id x = rv_id v" "rv_id v" i] u assms(5)
    show ?thesis by (simp add: dueOf_def)
  qed
qed

section \<open>Postings are transfers\<close>

lemma postAllocation_transfer:
  assumes inv: "ledger_inv d" and post: "postAllocation al r v d = Inr d'"
    and r: "r \<in> set (receipts d)" "rec_is (al_tenant al) (al_receipt al) r"
    and v: "v \<in> set (receivables d)" "rcv_is (al_tenant al) (al_receivable al) v"
  shows "absLedger d' = transfer (al_receipt al) (al_receivable al) (al_amount al) (absLedger d)"
proof -
  note d' = postAllocation_Inr(1) [OF post] and fresh = postAllocation_Inr(2) [OF post]
  have ids: "al_receipt al = rc_id r" "al_receivable al = rv_id v"
    using r(2) v(2) by (simp_all add: rec_is_def rcv_is_def)
  have f: "freeOf d' = (freeOf d)(rc_id r := rc_unallocated r - al_amount al)"
    using freeOf_update [OF inv r(1), of "al_tenant al" d'] r(2) by (simp add: d' ids)
  have g: "dueOf d' = (dueOf d)(rv_id v := rv_open v - al_amount al)"
    using dueOf_update [OF inv v(1), of "al_tenant al" d'] v(2) by (simp add: d' ids)
  have n: "netOf d' = netOf d" "netOf d al = al_amount al"
    using unreferenced_allocation [OF inv fresh] by (simp_all add: d' netOf_def [abs_def] reversedOf_def)
  have "pairOf d' x = pairOf d x + (if x = (rc_id r, rv_id v) then al_amount al else 0)" for x
    using n by (cases x) (auto simp: pairOf_def d' ids)
  then have "pairOf d' = (pairOf d)((rc_id r, rv_id v) := pairOf d (rc_id r, rv_id v) + al_amount al)"
    by auto
  with f g show ?thesis
    by (simp add: absLedger_def transfer_def ids freeOf_in [OF inv r(1)] dueOf_in [OF inv v(1)])
qed

lemma postReversal_transfer:
  assumes inv: "ledger_inv d" and post: "postReversal rr al d = Inr (opened, d')"
    and al: "al \<in> set (allocations d)" "rr_allocation rr = al_id al" "al_tenant al = rr_tenant rr"
  shows "absLedger d' = transfer (al_receipt al) (al_receivable al) (- rr_amount rr) (absLedger d)"
proof -
  from postReversal_Inr [OF post] obtain r v
    where fr: "find (rec_is (rr_tenant rr) (al_receipt al)) (receipts d) = Some r"
    and fv: "find (rcv_is (rr_tenant rr) (al_receivable al)) (receivables d) = Some v"
    and t: "reversals d' = reversals d @ [rr]"
    "allocations d' = update_rows (alloc_is (rr_tenant rr) (al_id al))
        (allocationReversed (al_amount al - reversedOf d (al_id al) = rr_amount rr)) (allocations d)"
    "receipts d' = update_rows (rec_is (rr_tenant rr) (al_receipt al))
        (receiptReversed (rc_unallocated r + rr_amount rr) (rc_amount r)) (receipts d)"
    "receivables d' = update_rows (rcv_is (rr_tenant rr) (al_receivable al))
        (receivableReversed (rv_received v - rr_amount rr) (rv_open v + rr_amount rr)) (receivables d)"
    by auto
  note r = find_SomeD [OF fr] and v = find_SomeD [OF fv]
  have ids: "al_receipt al = rc_id r" "al_receivable al = rv_id v"
    using r v by (simp_all add: rec_is_def rcv_is_def)
  have f: "freeOf d' = (freeOf d)(rc_id r := rc_unallocated r + rr_amount rr)"
    using freeOf_update [OF inv, of r "rr_tenant rr" d'] r by (simp add: t ids)
  have g: "dueOf d' = (dueOf d)(rv_id v := rv_open v + rr_amount rr)"
    using dueOf_update [OF inv, of v "rr_tenant rr" d'] v by (simp add: t ids)
  have n: "netOf d' = (\<lambda>x. netOf d x + (if al_id x = al_id al then - rr_amount rr else 0))"
    using al(2) by (auto simp: netOf_def [abs_def] reversedOf_def t)
  have p: "pairOf d' x = pairOf d x + (if x = (rc_id r, rv_id v) then - rr_amount rr else 0)" for x
  proof -
    have "pairOf d' x = sum_rows (\<lambda>a. al_receipt a = fst x \<and> al_receivable a = snd x) (netOf d') (allocations d)"
      unfolding pairOf_def t(2) by (rule sum_rows_update_same) (simp add: netOf_def)
    then show ?thesis
      unfolding n pairOf_def using allocation_t.sum_point [OF ledger_invD(3) [OF inv] al(1)] ids
      by (cases x) auto
  qed
  have "pairOf d' = (pairOf d)((rc_id r, rv_id v) := pairOf d (rc_id r, rv_id v) - rr_amount rr)"
    by (auto simp: p)
  with f g show ?thesis
    using freeOf_in [OF inv, of r] dueOf_in [OF inv, of v] r v
    by (simp add: absLedger_def transfer_def ids)
qed

section \<open>Commands refine transfers\<close>

lemma credit_retry_ledger:
  "ledgerTables (snd (RetryCreditSync s e out t ev d)) = ledgerTables d"
  by (rule ledgerTables_frames(5) [OF RetryCreditSync_frame])

lemma allocateLocked_transfer:
  assumes inv: "ledger_inv d" and ok: "allocateLocked s e p key aid sn a i d = Inr (w, d')"
  shows "fst w = aid \<and> a \<le> freeOf d (ai_receipt i) \<and> a \<le> dueOf d (ai_receivable i) \<and>
     absLedger d' = transfer (ai_receipt i) (ai_receivable i) a (absLedger d) \<and>
     (\<exists>r \<in> set (receipts d). \<exists>v \<in> set (receivables d). \<exists>cs \<in> set (snapshots d).
        rec_is (p_tenant p) (ai_receipt i) r \<and> rcv_is (p_tenant p) (ai_receivable i) v \<and>
        cs_id cs = rv_snapshot v \<and> cs_tenant cs = p_tenant p \<and>
        rc_currency r = rv_currency v \<and> rc_customer r = cs_customer cs \<and>
        allocations d' = allocations d @ [newAllocation p key aid a i (rc_currency r)])"
proof -
  from allocateLocked_Inr [OF ok] obtain r v d1 cs where
    *: "r \<in> set (receipts d)" "openReceipt (p_tenant p) (ai_receipt i) r" "v \<in> set (receivables d)"
      "rcv_is (p_tenant p) (ai_receivable i) v" "a \<le> rc_unallocated r" "a \<le> rv_open v"
      "postAllocation (newAllocation p key aid a i (rc_currency r)) r v d = Inr d1" "fst w = aid"
    and cs: "cs \<in> set (snapshots d)" "cs_id cs = rv_snapshot v" "cs_tenant cs = rv_tenant v"
      "rc_currency r = rv_currency v" "rc_customer r = cs_customer cs"
    and eq: "ledgerTables d' = ledgerTables d1" by blast
  have ids: "rec_is (p_tenant p) (ai_receipt i) r" "rc_id r = ai_receipt i" "rv_id v = ai_receivable i"
    "rv_tenant v = p_tenant p"
    using *(2,4) by (auto simp: openReceipt_def rec_is_def rcv_is_def)
  have "absLedger d1 = transfer (ai_receipt i) (ai_receivable i) a (absLedger d)"
    using postAllocation_transfer [OF inv *(7,1) _ *(3)] *(4) ids by (simp add: newAllocation_def)
  moreover have "allocations d' = allocations d @ [newAllocation p key aid a i (rc_currency r)]"
    using postAllocation_Inr(1) [OF *(7)] eq by (simp add: ledgerTables_def)
  moreover have "cs_tenant cs = p_tenant p" using cs(3) ids(4) by simp
  moreover have "a \<le> freeOf d (ai_receipt i)" "a \<le> dueOf d (ai_receivable i)"
    using freeOf_in [OF inv *(1)] dueOf_in [OF inv *(3)] ids *(5,6) by simp_all
  ultimately show ?thesis
    using *(1,3,4,8) cs ids(1) absLedger_cong [OF eq] by metis
qed

lemma ConfirmAllocation_transfer:
  assumes inv: "ledger_inv d" and ok: "ConfirmAllocation s e out p key i d = Inr (w, d')"
  shows "(d' = d \<and> ai_fact i \<noteq> None) \<or>
    (\<exists>a al. amountCents (ai_amount i) = Inr a \<and> 0 < a \<and>
      a \<le> freeOf d (ai_receipt i) \<and> a \<le> dueOf d (ai_receivable i) \<and>
      absLedger d' = transfer (ai_receipt i) (ai_receivable i) a (absLedger d) \<and>
      allocations d' = allocations d @ [al] \<and> al_id al = w \<and> al_amount al = a \<and> al_by al = p_user p \<and>
      al_receipt al = ai_receipt i \<and> al_receivable al = ai_receivable i)"
proof -
  from ok obtain aid ev d1 where tx: "ConfirmAllocationTx s e p key i d = Inr ((aid, ev), d1)" and w: "w = aid"
    and d': "d' = (if ev \<noteq> '''' \<and> HasCreditPublisher s then snd (RetryCreditSync s e out (p_tenant p) ev d1) else d1)"
    by (auto simp: ConfirmAllocation_def andThen_eq_Inr)
  have eq: "ledgerTables d' = ledgerTables d1" using d' credit_retry_ledger by simp
  from ConfirmAllocationTx_Inr [OF tx] show ?thesis
  proof (elim disjE exE conjE)
    fix a i' sn d2
    assume c: "checkAllocationInput (importFactKey e (ai_fact i) key) i = Inr (a, i')" and fr: "factFrame d d2"
      and al: "allocateLocked s e p (importFactKey e (ai_fact i) key) (e_ids e 0) sn a i' d2 = Inr ((aid, ev), d1)"
    note t2 = ledgerTables_frames(4) [OF fr]
    have inv2: "ledger_inv d2" using inv ledger_inv_cong [OF t2] by simp
    have i': "ai_receipt i' = ai_receipt i" "ai_receivable i' = ai_receivable i" "0 < a" "amountCents (ai_amount i) = Inr a"
      using checkAllocationInput_Inr [OF c] by simp_all
    have b: "freeOf d2 = freeOf d" "dueOf d2 = dueOf d" "allocations d2 = allocations d"
      using absLedger_cong [OF t2] t2 by (simp_all add: absLedger_def ledgerTables_def)
    from allocateLocked_transfer [OF inv2 al] obtain cur where
      "aid = e_ids e 0" "a \<le> freeOf d (ai_receipt i)" "a \<le> dueOf d (ai_receivable i)"
      "absLedger d1 = transfer (ai_receipt i) (ai_receivable i) a (absLedger d2)"
      "allocations d1 = allocations d @ [newAllocation p (importFactKey e (ai_fact i) key) (e_ids e 0) a i' cur]"
      by (auto simp: i' b)
    then show ?thesis
      using i' w eq absLedger_cong [OF eq] absLedger_cong [OF t2]
      by (auto simp: ledgerTables_def newAllocation_def)
  qed (use d' in auto)
qed

lemma ReverseAllocation_transfer:
  assumes inv: "ledger_inv d" and ok: "ReverseAllocation s e out p key aid i d = Inr (w, d')"
  shows "(d' = d \<and> boundTo d (p_tenant p, ''REVERSE_RECEIPT_ALLOCATION'', key) \<noteq> None) \<or>
    (\<exists>val al. amountCents (vi_amount i) = Inr val \<and> al \<in> set (allocations d) \<and> al_id al = aid \<and>
      al_tenant al = p_tenant p \<and> al_by al \<noteq> p_user p \<and> val \<le> netOf d al \<and>
      absLedger d' = transfer (al_receipt al) (al_receivable al) (- val) (absLedger d))"
proof -
  from ok obtain rid ev d1 where tx: "ReverseAllocationTx s e p key aid i d = Inr ((rid, ev), d1)"
    and d': "d' = (if ev \<noteq> '''' \<and> HasCreditPublisher s then snd (RetryCreditSync s e out (p_tenant p) ev d1) else d1)"
    by (auto simp: ReverseAllocation_def andThen_eq_Inr)
  have eq: "ledgerTables d' = ledgerTables d1" using d' credit_retry_ledger by simp
  from ReverseAllocationTx_Inr [OF tx] show ?thesis
  proof (elim disjE exE conjE)
    fix val d0
    assume v: "amountCents (vi_amount i) = Inr val" and fr: "idemFrame d d0"
      and rl: "reverseLocked s e p key (e_ids e 0) aid val i d0 = Inr ((rid, ev), d1)"
    note t0 = ledgerTables_frames(2) [OF fr]
    from reverseLocked_Inr [OF rl] obtain al d2 opened d3 where
      *: "al \<in> set (allocations d0)" "liveAllocation (p_tenant p) aid al" "al_by al \<noteq> p_user p"
        "val \<le> al_amount al - reversedOf d0 aid"
        "postReversal (newReversal p key (e_ids e 0) aid val i) al d2 = Inr (opened, d3)"
      and eq2: "ledgerTables d2 = ledgerTables d0" "ledgerTables d1 = ledgerTables d3" by blast
    have inv2: "ledger_inv d2" using inv ledger_inv_cong t0 eq2(1) by metis
    have "absLedger d3 = transfer (al_receipt al) (al_receivable al) (- val) (absLedger d2)"
      using postReversal_transfer [OF inv2 *(5)] *(1,2) eq2(1)
      by (simp add: newReversal_def liveAllocation_def ledgerTables_def)
    then have "absLedger d' = transfer (al_receipt al) (al_receivable al) (- val) (absLedger d)"
      using absLedger_cong eq eq2 t0 by metis
    moreover have "val \<le> netOf d al" "al \<in> set (allocations d)" "al_id al = aid" "al_tenant al = p_tenant p"
      using * t0 by (simp_all add: netOf_def liveAllocation_def ledgerTables_def reversedOf_def)
    ultimately show ?thesis using v *(3) by blast
  qed (use d' in auto)
qed

section \<open>Properties\<close>

text \<open>C4: whatever sequence of ledger commands is run, each accepted or refused, every receipt's
  amount is its free balance plus what is matched and what is held back, every receivable's
  original amount is what is open, received and written off, no balance is negative, and a
  receivable is marked settled exactly when nothing is open: the column checks of the financial
  integrity migration never fire.\<close>

theorem ledger_always_balances:
  fixes cs :: "ledger_command request list"
  assumes "ledger_inv d"
  defines "d' \<equiv> run_commands ledgerExec cs d"
  shows "(\<forall>r \<in> set (receipts d'). 0 < rc_amount r \<and> 0 \<le> rc_unallocated r \<and> rc_unallocated r \<le> rc_amount r \<and>
            rc_amount r = rc_unallocated r + matchedReceipt d' (rc_id r) + heldOf d' (rc_id r)) \<and>
         (\<forall>v \<in> set (receivables d'). 0 < rv_original v \<and> 0 \<le> rv_open v \<and> 0 \<le> rv_received v \<and> 0 \<le> rv_writeoff v \<and>
            rv_received v = matchedReceivable d' (rv_id v) \<and>
            rv_original v = rv_open v + rv_received v + rv_writeoff v \<and>
            (rv_collection v = SETTLED \<longleftrightarrow> rv_open v = 0))"
proof -
  have inv: "ledger_inv d'" unfolding d'_def by (rule ledger.run_inv [OF assms(1)]) simp
  have "0 < rc_amount r \<and> 0 \<le> rc_unallocated r \<and> rc_unallocated r \<le> rc_amount r \<and>
            rc_amount r = rc_unallocated r + matchedReceipt d' (rc_id r) + heldOf d' (rc_id r)"
    if "r \<in> set (receipts d')" for r
    using ledger_invD(13) [OF inv that] matched_bounds [OF inv] by (auto simp: receipt_ok_def)
  moreover have "0 < rv_original v \<and> 0 \<le> rv_open v \<and> 0 \<le> rv_received v \<and> 0 \<le> rv_writeoff v \<and>
            rv_received v = matchedReceivable d' (rv_id v) \<and>
            rv_original v = rv_open v + rv_received v + rv_writeoff v \<and>
            (rv_collection v = SETTLED \<longleftrightarrow> rv_open v = 0)" if "v \<in> set (receivables d')" for v
    using ledger_invD(14) [OF inv that] matched_bounds(2) [OF inv]
    by (auto simp: receivable_ok_def collectionFor_def)
  ultimately show ?thesis by blast
qed

theorem ledger_always_balances_witness:
  "\<exists>r. receipts (run_commands ledgerExec
       [(sampleService, sampleEnv [''A'', ''o1'', ''o2'', ''o3'', ''o4''], sampleUser ''bob'',
         Allocate Published ''k-1'' (sampleAllocation 6000))] sampleStore) = [r] \<and>
     rc_amount r = 15000 \<and> rc_unallocated r = 9000"
proof -
  let ?cs = "[(sampleService, sampleEnv [''A'', ''o1'', ''o2'', ''o3'', ''o4''], sampleUser ''bob'',
         Allocate Published ''k-1'' (sampleAllocation 6000))]"
  let ?d = "run_commands ledgerExec ?cs sampleStore"
  have one: "map (\<lambda>r. (rc_id r, rc_amount r)) (receipts ?d) = [(''R'', 15000)]"
    and "map (\<lambda>a. (al_id a, al_receipt a, al_amount a)) (allocations ?d) = [(''A'', ''R'', 6000)]"
    "reversals ?d = []" "differences ?d = []"
    by (simp_all add: commit_def allocation_eval sample_defs run_defs required_def)
  then have "matchedReceipt ?d ''R'' = 6000" "heldOf ?d ''R'' = 0"
    by (auto simp: matchedReceipt_def netOf_def reversedOf_def heldOf_def map_eq_Cons_conv)
  moreover from one obtain r where "receipts ?d = [r]" "rc_id r = ''R''" "rc_amount r = 15000" by auto
  ultimately show ?thesis
    using ledger_always_balances [OF sampleStore_inv, of ?cs] by fastforce
qed

text \<open>C12: a confirmed allocation is exactly a transfer of its amount from the receipt's free
  balance and the receivable's open amount to their matched amount, never more than either has;
  the only other successful outcome is the replay of an imported fact, which changes nothing.\<close>

theorem allocation_refines_transfer:
  assumes "ledger_inv d" "ConfirmAllocation s e out p key i d = Inr (w, d')"
  shows "(d' = d \<and> ai_fact i \<noteq> None) \<or>
    (\<exists>a. amountCents (ai_amount i) = Inr a \<and> 0 < a \<and>
      a \<le> free (absLedger d) (ai_receipt i) \<and> a \<le> due (absLedger d) (ai_receivable i) \<and>
      absLedger d' = transfer (ai_receipt i) (ai_receivable i) a (absLedger d))"
  using ConfirmAllocation_transfer [OF assms] by (auto simp: absLedger_def)

theorem allocation_refines_transfer_witness:
  "\<exists>d'. ConfirmAllocation sampleService (sampleEnv [''A'', ''o1'', ''o2'', ''o3'', ''o4'', ''o5'']) Published
      (sampleUser ''bob'') ''k-1'' (sampleAllocation 6000) sampleStore = Inr (''A'', d') \<and>
      absLedger d' = transfer ''R'' ''V'' 6000 (absLedger sampleStore)"
proof -
  obtain d' where ok: "ConfirmAllocation sampleService (sampleEnv [''A'', ''o1'', ''o2'', ''o3'', ''o4'', ''o5''])
      Published (sampleUser ''bob'') ''k-1'' (sampleAllocation 6000) sampleStore = Inr (''A'', d')"
    using sample_allocate by blast
  from allocation_refines_transfer [OF sampleStore_inv ok] ok show ?thesis
    by (auto simp: sampleAllocation_def)
qed

text \<open>C13: a reversal is exactly the transfer back of its amount, at most what is still matched by
  the allocation, and it is never made by the user who confirmed the allocation; a replay of a
  known key changes nothing.\<close>

theorem reversal_refines_transfer:
  assumes "ledger_inv d" "ReverseAllocation s e out p key aid i d = Inr (w, d')"
  shows "(d' = d \<and> boundTo d (p_tenant p, ''REVERSE_RECEIPT_ALLOCATION'', key) \<noteq> None) \<or>
    (\<exists>val al. amountCents (vi_amount i) = Inr val \<and> al \<in> set (allocations d) \<and> al_id al = aid \<and>
      al_tenant al = p_tenant p \<and> al_by al \<noteq> p_user p \<and> val \<le> netOf d al \<and>
      absLedger d' = transfer (al_receipt al) (al_receivable al) (- val) (absLedger d))"
  by (rule ReverseAllocation_transfer [OF assms])

theorem reversal_refines_transfer_witness:
  "\<exists>d1 d2. ConfirmAllocation sampleService (sampleEnv [''A'', ''o1'', ''o2'', ''o3'', ''o4'', ''o5'']) Published
      (sampleUser ''bob'') ''k-1'' (sampleAllocation 6000) sampleStore = Inr (''A'', d1) \<and>
    ReverseAllocation sampleService (sampleEnv [''X'', ''q1'', ''q2'', ''q3'', ''q4'', ''q5'']) Published
      (sampleUser ''eve'') ''k-2'' ''A'' (sampleReversal 2500) d1 = Inr (''X'', d2) \<and>
    absLedger d2 = transfer ''R'' ''V'' (- 2500) (absLedger d1)"
proof -
  obtain d1 d2 where ok: "ConfirmAllocation sampleService (sampleEnv [''A'', ''o1'', ''o2'', ''o3'', ''o4'', ''o5''])
      Published (sampleUser ''bob'') ''k-1'' (sampleAllocation 6000) sampleStore = Inr (''A'', d1)"
    and rv: "ReverseAllocation sampleService (sampleEnv [''X'', ''q1'', ''q2'', ''q3'', ''q4'', ''q5'']) Published
      (sampleUser ''eve'') ''k-2'' ''A'' (sampleReversal 2500) d1 = Inr (''X'', d2)"
    and al: "idempotency d1 = []" "map (\<lambda>a. (al_receipt a, al_receivable a)) (allocations d1) = [(''R'', ''V'')]"
    using sample_reverse [OF disjI1 [OF refl]] by (elim exE conjE) (rule that)
  from al(2) have ids: "\<forall>a \<in> set (allocations d1). al_receipt a = ''R'' \<and> al_receivable a = ''V''"
    by (auto simp: map_eq_Cons_conv)
  have "amountCents (vi_amount (sampleReversal 2500)) = Inr 2500" by (simp add: sampleReversal_def)
  with reversal_refines_transfer [OF ConfirmAllocation_inv [OF sampleStore_inv ok] rv] al(1) ids
  have "absLedger d2 = transfer ''R'' ''V'' (- 2500) (absLedger d1)"
    by (auto simp: boundTo_def)
  with ok rv show ?thesis by blast
qed

text \<open>C32: confirming an allocation and then reversing all of it under a fresh key restores every
  balance of the ledger, and only a second person can do it.\<close>

theorem reversal_undoes_allocation:
  assumes inv: "ledger_inv d" and manual: "ai_fact i = None"
    and a: "ConfirmAllocation s e out p key i d = Inr (aid, d1)"
    and r: "ReverseAllocation s' e' out' p' key' aid ri d1 = Inr (w, d2)"
    and fresh: "boundTo d1 (p_tenant p', ''REVERSE_RECEIPT_ALLOCATION'', key') = None"
    and same: "vi_amount ri = ai_amount i"
  shows "absLedger d2 = absLedger d \<and> p_user p' \<noteq> p_user p"
proof -
  from ConfirmAllocation_transfer [OF inv a] manual obtain n al where
    n: "amountCents (ai_amount i) = Inr n"
    and t1: "absLedger d1 = transfer (ai_receipt i) (ai_receivable i) n (absLedger d)"
    and al: "allocations d1 = allocations d @ [al]" "al_id al = aid" "al_by al = p_user p"
      "al_receipt al = ai_receipt i" "al_receivable al = ai_receivable i" by blast
  have inv1: "ledger_inv d1" by (rule ConfirmAllocation_inv [OF inv a])
  from ReverseAllocation_transfer [OF inv1 r] fresh obtain m al' where
    m: "amountCents (vi_amount ri) = Inr m" "al' \<in> set (allocations d1)" "al_id al' = aid" "al_by al' \<noteq> p_user p'"
    and t2: "absLedger d2 = transfer (al_receipt al') (al_receivable al') (- m) (absLedger d1)" by blast
  have "al' = al"
    using allocation_t.row_unique [OF ledger_invD(3) [OF inv1] m(2), of al] al m(3) by simp
  with m n same t1 t2 al show ?thesis by (simp add: transfer_undo)
qed

theorem reversal_undoes_allocation_witness:
  "\<exists>d1 d2. ConfirmAllocation sampleService (sampleEnv [''A'', ''o1'', ''o2'', ''o3'', ''o4'', ''o5'']) Published
      (sampleUser ''bob'') ''k-1'' (sampleAllocation 6000) sampleStore = Inr (''A'', d1) \<and>
    ReverseAllocation sampleService (sampleEnv [''X'', ''q1'', ''q2'', ''q3'', ''q4'', ''q5'']) Published
      (sampleUser ''eve'') ''k-2'' ''A'' (sampleReversal 6000) d1 = Inr (''X'', d2) \<and>
    absLedger d2 = absLedger sampleStore"
proof -
  obtain d1 d2 where ok: "ConfirmAllocation sampleService (sampleEnv [''A'', ''o1'', ''o2'', ''o3'', ''o4'', ''o5''])
      Published (sampleUser ''bob'') ''k-1'' (sampleAllocation 6000) sampleStore = Inr (''A'', d1)"
    and rv: "ReverseAllocation sampleService (sampleEnv [''X'', ''q1'', ''q2'', ''q3'', ''q4'', ''q5'']) Published
      (sampleUser ''eve'') ''k-2'' ''A'' (sampleReversal 6000) d1 = Inr (''X'', d2)"
    and al: "idempotency d1 = []"
    using sample_reverse [OF disjI2 [OF refl]] by blast
  have "absLedger d2 = absLedger sampleStore"
    using reversal_undoes_allocation [OF sampleStore_inv _ ok rv] al
    by (simp add: boundTo_def sampleReversal_def sampleAllocation_def)
  with ok rv show ?thesis by blast
qed

end
