(* ===== verification/Replay.thy ===== *)
theory Replay
  imports LedgerSpec
begin

text \<open>
  Idempotent commands. A key that was claimed stays bound to its request and its result through
  every later ledger command, so a retry of a recorded receipt or reversal returns the first
  result and changes nothing, and the key is refused for another request.
\<close>

section \<open>Bindings persist\<close>

definition keepsClaims :: "db \<Rightarrow> db \<Rightarrow> bool" where
  "keepsClaims d d' \<longleftrightarrow> prefix (idempotency d) (idempotency d')"

lemma keepsClaims_refl [simp]: "keepsClaims d d"
  by (simp add: keepsClaims_def)

lemma keepsClaims_trans: "keepsClaims d d1 \<Longrightarrow> keepsClaims d1 d2 \<Longrightarrow> keepsClaims d d2"
  by (simp add: keepsClaims_def)

lemma keepsClaims_same: "idempotency d' = idempotency d \<Longrightarrow> keepsClaims d d'"
  by (simp add: keepsClaims_def)

lemma keepsClaims_frames:
  "scopeFrame d d' \<Longrightarrow> keepsClaims d d'" "eventFrame d d' \<Longrightarrow> keepsClaims d d'"
  "factFrame d d' \<Longrightarrow> keepsClaims d d'" "creditFrame d d' \<Longrightarrow> keepsClaims d d'"
  by (simp_all add: keepsClaims_same frame_simps)

lemma find_prefix: "prefix t t' \<Longrightarrow> find P t = Some r \<Longrightarrow> find P t' = Some r"
  by (auto simp: prefix_def find_Some_iff nth_append)

lemma keepsClaims_bound: "keepsClaims d d' \<Longrightarrow> boundTo d k = Some b \<Longrightarrow> boundTo d' k = Some b"
  by (auto simp: keepsClaims_def boundTo_def dest: find_prefix)

lemma claimIdempotency_keeps: "claimIdempotency e t c k v q d = Inr (w, r, d') \<Longrightarrow> keepsClaims d d'"
  by (cases "boundTo d (t, c, k)")
     (auto simp: claimIdempotency_fresh claimIdempotency_bound keepsClaims_def split: if_splits)

lemma RetryCreditSync_keeps: "keepsClaims d (snd (RetryCreditSync s e out t ev d))"
  by (rule keepsClaims_frames(4) [OF RetryCreditSync_frame])

lemma allocateLocked_keeps: "allocateLocked s e p key aid sn a i d = Inr (w, d') \<Longrightarrow> keepsClaims d d'"
  by (drule allocateLocked_Inr) (auto intro: keepsClaims_same)

lemma reverseLocked_keeps: "reverseLocked s e p key rid aid val i d = Inr (w, d') \<Longrightarrow> keepsClaims d d'"
  by (drule reverseLocked_Inr) (auto intro: keepsClaims_same)

lemma eventFrame_keeps: "eventFrame d1 d' \<Longrightarrow> idempotency d1 = idempotency d \<Longrightarrow> keepsClaims d d'"
  by (simp add: keepsClaims_same frame_simps)

lemma ConfirmAllocation_keeps:
  assumes "ConfirmAllocation s e out p key i d = Inr (w, d')"
  shows "keepsClaims d d'"
proof -
  from assms obtain aid ev d1 where tx: "ConfirmAllocationTx s e p key i d = Inr ((aid, ev), d1)"
    and d': "d' = d1 \<or> d' = snd (RetryCreditSync s e out (p_tenant p) ev d1)"
    by (auto simp: ConfirmAllocation_def andThen_eq_Inr split: if_splits)
  have "keepsClaims d d1"
    using ConfirmAllocationTx_Inr [OF tx]
    by (auto dest!: allocateLocked_keeps keepsClaims_frames(3) intro: keepsClaims_trans)
  with d' RetryCreditSync_keeps show ?thesis using keepsClaims_trans by metis
qed

lemma claimReceipt_keeps:
  assumes "claimReceipt s e p key rid a i d = Inr (w, r, d')"
  shows "keepsClaims d d'"
proof -
  from assms obtain x b d1 where c: "claimImportFact s e p (ri_fact i) ''RECEIPT'' rid (jsonReceipt i) d = Inr (x, b, d1)"
    and or: "d' = d \<or> d' = d1 \<or> keepsClaims d1 d'"
    by (auto simp: claimReceipt_def andThen_eq_Inr dest!: claimIdempotency_keeps split: if_splits option.splits)
  then show ?thesis
    using keepsClaims_frames(3) [OF claimImportFact_frame [OF c]] by (auto intro: keepsClaims_trans)
qed

lemma CreateReceipt_keeps:
  assumes "CreateReceipt s e p key i d = Inr (w, d')"
  shows "keepsClaims d d'"
proof -
  let ?key = "importFactKey e (ri_fact i) key"
  from CreateReceipt_Inr [OF assms] obtain a i1 x b d1 where
    cl: "claimReceipt s e p ?key (e_ids e 0) a i1 d = Inr (x, b, d1)"
    and st: "if b then (x, d1) = (w, d') else storeReceipt e p ?key (e_ids e 0) a i1 d1 = Inr (w, d')" by blast
  have "keepsClaims d1 d'"
    using st storeReceipt_Inr [of e p ?key "e_ids e 0" a i1 d1 w d']
    by (auto split: if_splits dest: eventFrame_keeps)
  with claimReceipt_keeps [OF cl] show ?thesis by (rule keepsClaims_trans)
qed

lemma ReverseAllocation_keeps:
  assumes "ReverseAllocation s e out p key aid i d = Inr (w, d')"
  shows "keepsClaims d d'"
proof -
  from assms obtain rid ev d1 where tx: "ReverseAllocationTx s e p key aid i d = Inr ((rid, ev), d1)"
    and d': "d' = d1 \<or> d' = snd (RetryCreditSync s e out (p_tenant p) ev d1)"
    by (auto simp: ReverseAllocation_def andThen_eq_Inr split: if_splits)
  have "keepsClaims d d1"
    using tx by (auto simp: ReverseAllocationTx_def Let_def andThen_eq_Inr split: if_splits
        dest!: claimIdempotency_keeps reverseLocked_keeps intro: keepsClaims_trans)
  with d' RetryCreditSync_keeps show ?thesis using keepsClaims_trans by metis
qed

lemma differences_keep: "eventFrame (d\<lparr>differences := t\<rparr>) d' \<Longrightarrow> keepsClaims d d'"
  by (erule eventFrame_keeps) simp

lemma vouchers_keep: "eventFrame (d\<lparr>vouchers := t\<rparr>) d' \<Longrightarrow> keepsClaims d d'"
  by (erule eventFrame_keeps) simp

lemma CreateReceiptDifference_keeps:
  assumes "CreateReceiptDifference s e p i d = Inr (w, d')"
  shows "keepsClaims d d'"
proof -
  have hold: "holdAmount t r k n rc d1 = Inr d2 \<Longrightarrow> keepsClaims d1 d2" for t r k n rc d1 d2
    by (auto simp: holdAmount_def keepsClaims_def split: if_splits)
  show ?thesis
    using assms
    by (auto simp: CreateReceiptDifference_def Let_def andThen_eq_Inr split: if_splits option.splits
        dest!: outbox_frame differences_keep hold claimIdempotency_keeps intro: keepsClaims_trans)
qed

lemma ledgerExec_keeps:
  assumes "ledgerExec c d = Inr (u, d')"
  shows "keepsClaims d d'"
proof (cases "(c, d)" rule: ledgerExec.cases)
  case (5 s e p did i d0)
  with assms show ?thesis
    by (auto simp: ResolveReceiptDifference_def Let_def andThen_eq_Inr split: if_splits option.splits
        dest!: outbox_frame differences_keep)
next
  case (6 s e p did version d0)
  with assms show ?thesis
    by (auto simp: approveDifference_def dest!: ApproveReceiptDifference_Inr elim!: eventFrame_keeps)
next
  case (7 s e p did i d0)
  with assms show ?thesis
    by (auto simp: ConfirmReceiptRefund_def Let_def andThen_eq_Inr split: if_splits dest!: outbox_frame differences_keep)
next
  case (8 s e p wid d0)
  with assms show ?thesis
    by (auto simp: resMap_drop_Inr CreateAccountingVoucher_def Let_def andThen_eq_Inr split: if_splits option.splits
        dest!: outbox_frame vouchers_keep)
next
  case (9 s e p erp vid d0)
  with assms show ?thesis
    by (auto simp: resMap_drop_Inr RetryAccountingVoucher_def Let_def andThen_eq_Inr split: if_splits prod.splits
        dest!: outbox_frame vouchers_keep)
qed (use assms in \<open>auto simp: resMap_drop_Inr dest: CreateReceipt_keeps ConfirmAllocation_keeps
       ReverseAllocation_keeps CreateReceiptDifference_keeps\<close>)

interpretation claims: tx_commands ledgerExec "\<lambda>_. True" "\<lambda>d. boundTo d k = Some b" for k b
  by unfold_locales (blast intro: keepsClaims_bound ledgerExec_keeps)

section \<open>Retries\<close>

lemma claimReceipt_manual:
  assumes "ri_fact i = None"
  shows "claimReceipt s e p key rid a i d =
    andThen (claimIdempotency e (p_tenant p) ''CREATE_RECEIPT'' key rid (receiptRequest a i) d)
      (\<lambda>(existing, replay, d2). Inr (existing, replay, if replay then d else d2))"
  using assms by (simp add: claimReceipt_def claimImportFact_def)

lemma checkReceiptInput_fact: "checkReceiptInput e key i0 = Inr (a, i) \<Longrightarrow> ri_fact i = ri_fact i0"
  by (auto simp: checkReceiptInput_def Let_def andThen_eq_Inr split: if_splits)

lemma validateNative_keeps:
  "validateNativeReceiptCustomer s p i0 d = Inr i \<Longrightarrow>
   ri_fact i = ri_fact i0 \<and> receiptRequest a i = receiptRequest a i0"
  by (auto simp: validateNativeReceiptCustomer_def andThen_eq_Inr receiptRequest_def split: if_splits)

lemma storeReceipt_id:
  assumes "storeReceipt e p key rid a i d = Inr (w, d')"
    and "\<forall>r \<in> set (receipts d). \<not> (rc_tenant r = p_tenant p \<and> rc_idem r = key)"
  shows "w = rid"
  using assms by (auto simp: storeReceipt_def andThen_eq_Inr find_Some_iff split: sum.splits if_splits option.splits)

lemma CreateReceipt_binds:
  assumes ok: "CreateReceipt s e p key i0 d = Inr (w, d1)" and manual: "ri_fact i0 = None"
    and fresh: "\<forall>r \<in> set (receipts d). \<not> (rc_tenant r = p_tenant p \<and> rc_idem r = key)"
    and ck: "checkReceiptInput e key i0 = Inr (a, i)"
  shows "boundTo d1 (p_tenant p, ''CREATE_RECEIPT'', key) = Some (e_sha256 e (receiptRequest a i), w)"
proof -
  have key: "importFactKey e (ri_fact i0) key = key" using manual by (simp add: importFactKey_def)
  from CreateReceipt_Inr [OF ok] ck obtain i2 ex b d2 where
    v: "validateNativeReceiptCustomer s p i d = Inr i2"
    and cl: "claimReceipt s e p key (e_ids e 0) a i2 d = Inr (ex, b, d2)"
    and st: "if b then (ex, d2) = (w, d1) else storeReceipt e p key (e_ids e 0) a i2 d2 = Inr (w, d1)"
    unfolding key by auto
  have i2: "ri_fact i2 = None" "receiptRequest a i2 = receiptRequest a i"
    using validateNative_keeps [OF v] checkReceiptInput_fact [OF ck] manual by simp_all
  from cl obtain d3 where c: "claimIdempotency e (p_tenant p) ''CREATE_RECEIPT'' key (e_ids e 0)
       (receiptRequest a i) d = Inr (ex, b, d3)" and d2: "d2 = (if b then d else d3)"
    by (auto simp: claimReceipt_manual [OF i2(1)] i2(2) andThen_eq_Inr)
  have bound: "boundTo d2 (p_tenant p, ''CREATE_RECEIPT'', key) = Some (e_sha256 e (receiptRequest a i), ex)"
    using idem.claim_binds [of "(p_tenant p, ''CREATE_RECEIPT'', key)" "(e, receiptRequest a i)" "e_ids e 0" d ex b d3]
      c d2 claimIdempotency_replay_same [of e "p_tenant p" "''CREATE_RECEIPT''" key "e_ids e 0" "receiptRequest a i" d ex d3]
    by (cases b) (auto simp: claimDigest_def)
  show ?thesis
  proof (cases b)
    case True
    with st bound show ?thesis by simp
  next
    case False
    with c have ex: "ex = e_ids e 0" by (auto dest: claimIdempotency_new)
    have "receipts d2 = receipts d"
      using claimReceipt_frame [OF cl] by (simp add: ledgerTables_def)
    with st False fresh have w: "w = e_ids e 0" using storeReceipt_id by (auto split: if_splits)
    from st False have "keepsClaims d2 d1"
      using storeReceipt_Inr [of e p key "e_ids e 0" a i2 d2 w d1] by (auto dest: eventFrame_keeps)
    with bound ex w show ?thesis by (simp add: keepsClaims_bound)
  qed
qed

text \<open>C34: recording a receipt is idempotent. After a receipt was recorded under a key no receipt
  had used, and after any further ledger commands, a retry that validates to the same request
  returns the first identifier and leaves the store as it is; a request with another digest
  under that key is a conflict.\<close>

theorem receipt_retry:
  assumes first: "CreateReceipt s e p key i0 d = Inr (w, d1)" "ri_fact i0 = None"
    and fresh: "\<forall>r \<in> set (receipts d). \<not> (rc_tenant r = p_tenant p \<and> rc_idem r = key)"
    and ck: "checkReceiptInput e key i0 = Inr (a, i)"
    and env: "e_sha256 e' = e_sha256 e"
    and retry: "checkReceiptInput e' key i0' = Inr (a', i')" "ri_fact i0' = None"
      "validateNativeReceiptCustomer s p i' (run_commands ledgerExec cs d1) = Inr i''"
  defines "d2 \<equiv> run_commands ledgerExec cs d1"
  shows "CreateReceipt s e' p key i0' d2 =
    (if e_sha256 e (receiptRequest a' i') = e_sha256 e (receiptRequest a i) then Inr (w, d2) else Inl ErrConflict)"
proof -
  have key: "importFactKey e' (ri_fact i0') key = key" using retry(2) by (simp add: importFactKey_def)
  have b: "boundTo d2 (p_tenant p, ''CREATE_RECEIPT'', key) = Some (e_sha256 e (receiptRequest a i), w)"
    unfolding d2_def by (rule claims.run_inv [OF CreateReceipt_binds [OF first fresh ck]]) simp
  have i'': "ri_fact i'' = None" "receiptRequest a' i'' = receiptRequest a' i'"
    using validateNative_keeps [OF retry(3)] checkReceiptInput_fact [OF retry(1)] retry(2) by simp_all
  have "claimReceipt s e' p key (e_ids e' 0) a' i'' d2 =
      (if e_sha256 e (receiptRequest a' i') = e_sha256 e (receiptRequest a i) then Inr (w, True, d2) else Inl ErrConflict)"
    by (simp add: claimReceipt_manual [OF i''(1)] claimIdempotency_bound [OF b] i''(2) env)
  moreover have "validateNativeReceiptCustomer s p i' d2 = Inr i''" using retry(3) by (simp add: d2_def)
  ultimately show ?thesis
    using retry(1,2) i'' by (simp add: CreateReceipt_def importFactKey_def)
qed

theorem receipt_retry_witness:
  "\<exists>d1. CreateReceipt sampleService (sampleEnv [''N'', ''o1'', ''o2'']) (sampleUser ''bob'') ''k-1''
        (sampleReceiptInput 700) sampleStore = Inr (''N'', d1) \<and>
    (let d2 = run_commands ledgerExec [(sampleService, sampleEnv [''A'', ''o1'', ''o2'', ''o3'', ''o4''],
        sampleUser ''bob'', Allocate Published ''k-1'' (sampleAllocation 6000))] d1
     in CreateReceipt sampleService (sampleEnv [''M'', ''q1'', ''q2'']) (sampleUser ''bob'') ''k-1''
          (sampleReceiptInput 700) d2 = Inr (''N'', d2))"
proof -
  let ?cs = "[(sampleService, sampleEnv [''A'', ''o1'', ''o2'', ''o3'', ''o4''], sampleUser ''bob'',
       Allocate Published ''k-1'' (sampleAllocation 6000))]"
  have v: "validateNativeReceiptCustomer s p (sampleReceiptInput 700) d = Inr (sampleReceiptInput 700)" for s p d
    by (simp add: validateNativeReceiptCustomer_def sampleReceiptInput_def hasPrefix_def nativeCustomerPrefix_def)
  have ck: "checkReceiptInput (sampleEnv ids) ''k-1'' (sampleReceiptInput 700) = Inr (700, sampleReceiptInput 700)" for ids
    by (rule sample_checkReceipt) simp_all
  have m: "ri_fact (sampleReceiptInput 700) = None" by (simp add: sampleReceiptInput_def)
  have fresh: "\<forall>r \<in> set (receipts sampleStore). \<not> (rc_tenant r = p_tenant (sampleUser ''bob'') \<and> rc_idem r = ''k-1'')"
    by (simp add: sample_defs)
  have "\<exists>d1. CreateReceipt sampleService (sampleEnv [''N'', ''o1'', ''o2'']) (sampleUser ''bob'') ''k-1''
        (sampleReceiptInput 700) sampleStore = Inr (''N'', d1)"
    by (simp add: CreateReceipt_def importFactKey_def ck v m claimReceipt_manual claimIdempotency_def
        idempotency_clash_def storeReceipt_def newReceipt_def receipt_clash_def run_defs,
        simp add: outbox_def outbox_clash_def audit_clash_def outboxPayload_def enrichAuditIP_def putIfAbsent_def
        stringOr_def jget_def sample_defs sampleReceiptInput_def insert_row_def Let_def receipt_clash_def)
  then obtain d1 where ok: "CreateReceipt sampleService (sampleEnv [''N'', ''o1'', ''o2'']) (sampleUser ''bob'') ''k-1''
        (sampleReceiptInput 700) sampleStore = Inr (''N'', d1)" by blast
  show ?thesis
    using receipt_retry [where cs = ?cs and e' = "sampleEnv [''M'', ''q1'', ''q2'']",
        OF ok m fresh ck _ ck m v] ok
    by (auto simp: sampleEnv_def Let_def)
qed

text \<open>C35: a receipt row that carries the idempotency key while no idempotency record does (a row
  from before keys were bound to requests) breaks the retry contract: the first call returns that
  row but binds the key to an identifier that was never stored, and the second call returns that
  dangling identifier.\<close>

theorem legacy_receipt_retry_dangles:
  assumes r: "find (\<lambda>r. rc_tenant r = p_tenant p \<and> rc_idem r = key) (receipts d) = Some r"
    and unbound: "boundTo d (p_tenant p, ''CREATE_RECEIPT'', key) = None"
    and ck: "\<forall>x \<in> {e, e'}. checkReceiptInput x key i0 = Inr (a, i)"
    and env: "e_sha256 e' = e_sha256 e" and manual: "ri_fact i0 = None"
    and native: "\<not> hasPrefix (ri_customer i) nativeCustomerPrefix"
  shows "\<exists>d1. CreateReceipt s e p key i0 d = Inr (rc_id r, d1) \<and> receipts d1 = receipts d \<and>
     CreateReceipt s e' p key i0 d1 = Inr (e_ids e 0, d1)"
proof -
  have ck1: "checkReceiptInput e key i0 = Inr (a, i)" and ck2: "checkReceiptInput e' key i0 = Inr (a, i)"
    using ck by auto
  have i: "ri_fact i = None" using checkReceiptInput_fact [OF ck1] manual by simp
  have v: "validateNativeReceiptCustomer s p i x = Inr i" for x
    using native by (simp add: validateNativeReceiptCustomer_def)
  let ?d = "d\<lparr>idempotency := idempotency d @ [\<lparr>im_tenant = p_tenant p, im_command = ''CREATE_RECEIPT'', im_key = key,
     im_hash = e_sha256 e (receiptRequest a i), im_resource = e_ids e 0\<rparr>]\<rparr>"
  have clash: "insert_row receipt_clash (newReceipt p key (e_ids e 0) a i) (receipts d) = Inl SqlDuplicate"
    using find_SomeD [OF r] by (auto simp: insert_row_Inl receipt_clash_def newReceipt_def intro!: bexI [of _ r])
  have "CreateReceipt s e p key i0 d = Inr (rc_id r, ?d)"
    using clash r by (simp add: CreateReceipt_def importFactKey_def manual ck1 v i claimReceipt_manual
        claimIdempotency_fresh [OF unbound] storeReceipt_def)
  moreover have "boundTo ?d (p_tenant p, ''CREATE_RECEIPT'', key) = Some (e_sha256 e (receiptRequest a i), e_ids e 0)"
    using unbound by (simp add: boundTo_def find_snoc split: option.splits)
  then have "CreateReceipt s e' p key i0 ?d = Inr (e_ids e 0, ?d)"
    by (simp add: CreateReceipt_def importFactKey_def manual ck2 v i claimReceipt_manual claimIdempotency_bound env)
  ultimately show ?thesis by auto
qed

theorem legacy_receipt_retry_dangles_witness:
  "\<exists>d1. CreateReceipt sampleService (sampleEnv [''N'', ''o1'', ''o2'']) (sampleUser ''bob'') ''k-0''
        (sampleReceiptInput 700) sampleStore = Inr (''R'', d1) \<and>
     CreateReceipt sampleService (sampleEnv [''M'', ''q1'', ''q2'']) (sampleUser ''bob'') ''k-0''
        (sampleReceiptInput 700) d1 = Inr (''N'', d1) \<and>
     (\<forall>r \<in> set (receipts d1). rc_id r \<noteq> ''N'')"
proof -
  have ck: "\<forall>x \<in> {sampleEnv [''N'', ''o1'', ''o2''], sampleEnv [''M'', ''q1'', ''q2'']}.
     checkReceiptInput x ''k-0'' (sampleReceiptInput 700) = Inr (700, sampleReceiptInput 700)"
    using sample_checkReceipt [of 700 "''k-0''"] by simp
  have r: "find (\<lambda>r. rc_tenant r = p_tenant (sampleUser ''bob'') \<and> rc_idem r = ''k-0'') (receipts sampleStore) = Some sampleReceipt"
    by (simp add: sample_defs)
  have "\<exists>d1. CreateReceipt sampleService (sampleEnv [''N'', ''o1'', ''o2'']) (sampleUser ''bob'') ''k-0''
        (sampleReceiptInput 700) sampleStore = Inr (rc_id sampleReceipt, d1) \<and> receipts d1 = receipts sampleStore \<and>
     CreateReceipt sampleService (sampleEnv [''M'', ''q1'', ''q2'']) (sampleUser ''bob'') ''k-0''
        (sampleReceiptInput 700) d1 = Inr (e_ids (sampleEnv [''N'', ''o1'', ''o2'']) 0, d1)"
    by (rule legacy_receipt_retry_dangles [OF r _ ck])
       (simp_all add: boundTo_def sample_defs sampleReceiptInput_def hasPrefix_def nativeCustomerPrefix_def)
  then show ?thesis by (auto simp: sample_defs)
qed

end
