(* ===== verification/FinanceProps.thy ===== *)
theory FinanceProps
  imports Replay
begin

text \<open>
  Properties of receipt differences, refunds and vouchers: who may decide, what each decision
  does to the balances, and what an approved difference leaves behind.
\<close>

section \<open>Sample store\<close>

text \<open>
  A receipt of 150.00, of which 100.00 settle a receivable and 50.00 are held by a difference
  under review; and the same with an approved refund of the difference.
\<close>

definition sampleDifference :: "difference_status \<Rightarrow> resolution \<Rightarrow> receipt_difference" where
  "sampleDifference st res = \<lparr>df_id = ''F'', df_tenant = ''T'', df_receipt = ''R'', df_kind = OVERPAYMENT,
     df_amount = 5000, df_reason = ''over'', df_status = st, df_resolution = res,
     df_resolution_reason = ''r'', df_requested_by = ''ann'', df_resolved_by = ''bob'',
     df_approved_by = (if st = REFUND_PENDING then ''eve'' else ''''), df_version = 2,
     df_refund_reference = '''', df_refund_completed = 0, df_refund_by = '''', df_refund_reason = ''''\<rparr>"

definition sampleHeld :: "difference_status \<Rightarrow> resolution \<Rightarrow> db" where
  "sampleHeld st res = sampleStore\<lparr>
     receipts := [sampleReceipt\<lparr>rc_unallocated := 0, rc_status := FULLY_ALLOCATED, rc_date := ''1970-01-02''\<rparr>],
     receivables := [sampleReceivable\<lparr>rv_open := 0, rv_received := 10000, rv_collection := SETTLED\<rparr>],
     allocations := [\<lparr>al_id = ''A'', al_tenant = ''T'', al_no = ''AL-A'', al_receipt = ''R'', al_receivable = ''V'',
       al_amount = 10000, al_currency = ''CNY'', al_status = AL_CONFIRMED, al_mode = ''MANUAL'',
       al_confidence = 0, al_by = ''bob'', al_idem = ''k-9''\<rparr>],
     differences := [sampleDifference st res]\<rparr>"

lemma sampleHeld_inv: "st \<noteq> APPROVED \<Longrightarrow> ledger_inv (sampleHeld st res)"
  by (simp add: ledger_defs sampleHeld_def sampleDifference_def sample_defs keyed_def collectionFor_def
      statusFor_def holding_def)

lemmas audit_eval = outbox_def outbox_clash_def audit_clash_def outboxPayload_def enrichAuditIP_def
  putIfAbsent_def stringOr_def jget_def

lemma sample_unrestricted: "Unrestricted sampleService (sampleUser u) perm"
  by (simp add: Unrestricted_def Allows_def permitted_def sampleUser_def)

lemma sample_approve:
  "\<exists>d'. ApproveReceiptDifference sampleService (sampleEnv [''o1'', ''o2'']) (sampleUser ''eve'') ''F'' 2
     (sampleHeld REVIEW_PENDING ResCarryForward) = Inr ((), d')"
  by (simp add: ApproveReceiptDifference_def financeAccess_def sample_unrestricted Allows_def permitted_def,
      simp add: reviewable_def approveDifference_def sampleHeld_def sampleDifference_def sample_defs run_defs audit_eval)

section \<open>Differences\<close>

lemma approveDifference_receipts:
  "receipts (approveDifference t u f d) =
   (if df_resolution f \<noteq> ResRefundPending \<and> df_kind f \<noteq> SHORTPAYMENT
    then update_rows (rec_is t (df_receipt f))
      (\<lambda>x. x\<lparr>rc_unallocated := rc_unallocated x + df_amount f, rc_version := rc_version x + 1\<rparr>) (receipts d)
    else receipts d)"
  by (simp add: approveDifference_def)

lemma approve_free:
  assumes inv: "ledger_inv d" and f: "f \<in> set (differences d)"
    and d': "receipts d' = receipts (approveDifference (df_tenant f) u f d)"
  shows "freeOf d' = (freeOf d)(df_receipt f := freeOf d (df_receipt f) +
     (if df_resolution f \<noteq> ResRefundPending \<and> df_kind f \<noteq> SHORTPAYMENT then df_amount f else 0))"
proof -
  from ledger_invD(11) [OF inv f] obtain r where r: "r \<in> set (receipts d)" "rc_id r = df_receipt f"
    "rc_tenant r = df_tenant f" by (auto simp: difference_of_def)
  show ?thesis
  proof (cases "df_resolution f \<noteq> ResRefundPending \<and> df_kind f \<noteq> SHORTPAYMENT")
    case True
    then have "receipts d' = update_rows (rec_is (df_tenant f) (rc_id r))
      (\<lambda>x. x\<lparr>rc_unallocated := rc_unallocated x + df_amount f, rc_version := rc_version x + 1\<rparr>) (receipts d)"
      by (simp add: d' approveDifference_receipts r(2))
    from freeOf_update [OF inv r(1) _ this] r True freeOf_in [OF inv r(1)] show ?thesis
      by (simp add: rec_is_def)
  next
    case False
    then have "receipts d' = receipts d" by (auto simp: d' approveDifference_receipts)
    then have "freeOf d' = freeOf d" by (simp add: freeOf_def [abs_def])
    with False show ?thesis by auto
  qed
qed

text \<open>C36: approving a difference takes a third person, different from the one who raised it and
  the one who proposed its resolution; the held amount returns to the receipt exactly when the
  resolution is not a refund and the difference held money back, and no other receipt's free
  balance, no receivable and no allocation changes.\<close>

theorem difference_approval:
  assumes inv: "ledger_inv d" and ok: "ApproveReceiptDifference s e p did version d = Inr (u, d')"
  shows "\<exists>f \<in> set (differences d). df_id f = did \<and> df_tenant f = p_tenant p \<and> df_status f = REVIEW_PENDING \<and>
     p_user p \<noteq> df_requested_by f \<and> p_user p \<noteq> df_resolved_by f \<and>
     freeOf d' = (freeOf d)(df_receipt f := freeOf d (df_receipt f) +
       (if df_resolution f \<noteq> ResRefundPending \<and> df_kind f \<noteq> SHORTPAYMENT then df_amount f else 0)) \<and>
     receivables d' = receivables d \<and> allocations d' = allocations d \<and> reversals d' = reversals d"
proof -
  from ApproveReceiptDifference_Inr [OF ok] obtain f where f: "f \<in> set (differences d)"
    "reviewable (p_tenant p) did version f" "df_requested_by f \<noteq> p_user p" "df_resolved_by f \<noteq> p_user p"
    and fr: "eventFrame (approveDifference (p_tenant p) (p_user p) f d) d'" by blast
  have t: "df_tenant f = p_tenant p" "df_id f = did" "df_status f = REVIEW_PENDING"
    using f(2) by (simp_all add: reviewable_def)
  have "receipts d' = receipts (approveDifference (df_tenant f) (p_user p) f d)"
    using fr t(1) by (simp add: frame_simps)
  note fm = approve_free [OF inv f(1) this]
  have "receivables d' = receivables d" "allocations d' = allocations d" "reversals d' = reversals d"
    using fr by (simp_all add: frame_simps approveDifference_def)
  then show ?thesis
    using f(3,4) t fm by (intro bexI [OF _ f(1)]) simp
qed

theorem difference_approval_witness:
  "\<exists>d'. ApproveReceiptDifference sampleService (sampleEnv [''o1'', ''o2'']) (sampleUser ''eve'') ''F'' 2
     (sampleHeld REVIEW_PENDING ResCarryForward) = Inr ((), d') \<and> freeOf d' ''R'' = 5000"
proof -
  obtain d' where ok: "ApproveReceiptDifference sampleService (sampleEnv [''o1'', ''o2'']) (sampleUser ''eve'') ''F'' 2
     (sampleHeld REVIEW_PENDING ResCarryForward) = Inr ((), d')" using sample_approve by blast
  have "freeOf d' ''R'' = 5000"
    using difference_approval [OF sampleHeld_inv ok]
    by (auto simp: sampleHeld_def sampleDifference_def sample_defs freeOf_def)
  with ok show ?thesis by blast
qed

text \<open>An allocation from a receipt that is fully allocated is refused; only an imported relation that was taken before is answered again, without a change.\<close>

lemma fully_allocated_refused:
  assumes inv: "ledger_inv d" and r: "r \<in> set (receipts d)" "rc_status r = FULLY_ALLOCATED" and i: "ai_receipt i = rc_id r"
    and ok: "ConfirmAllocation s e out p key i d = Inr (aid, d')"
  shows "ai_fact i \<noteq> None \<and> d' = d"
proof -
  from ok obtain ev d1 where tx: "ConfirmAllocationTx s e p key i d = Inr ((aid, ev), d1)"
    and d': "d' = (if ev \<noteq> '''' \<and> HasCreditPublisher s then snd (RetryCreditSync s e out (p_tenant p) ev d1) else d1)"
    by (auto simp: ConfirmAllocation_def andThen_eq_Inr)
  from ConfirmAllocationTx_Inr [OF tx] show ?thesis
  proof (elim disjE exE conjE)
    fix a i' sn d2
    assume c: "checkAllocationInput (importFactKey e (ai_fact i) key) i = Inr (a, i')" and fr: "factFrame d d2"
      and al: "allocateLocked s e p (importFactKey e (ai_fact i) key) (e_ids e 0) sn a i' d2 = Inr ((aid, ev), d1)"
    from allocateLocked_Inr [OF al] obtain x where x: "x \<in> set (receipts d)" "openReceipt (p_tenant p) (ai_receipt i') x"
      using fr by (auto simp: frame_simps)
    then have "rc_id x = rc_id r" "rc_status x \<noteq> FULLY_ALLOCATED"
      using checkAllocationInput_Inr [OF c] i by (auto simp: openReceipt_def)
    with receipt_t.row_unique [OF ledger_invD(1) [OF inv] x(1) r(1)] r(2) show ?thesis by simp
  qed (use d' in simp)
qed

text \<open>C37: money released by an approval can be unreachable. When a difference that held money back is approved without a refund and its receipt
  was fully allocated, the receipt has a positive free balance afterwards, larger by the amount of the difference, and is still marked
  fully allocated. So no allocation from it succeeds, whoever asks: it fails, or it is the answer to an imported relation that was taken
  before and changes nothing.\<close>

theorem released_amount_stays_blocked:
  assumes inv: "ledger_inv d" and ok: "ApproveReceiptDifference s e p did version d = Inr (u, d')"
    and f: "f \<in> set (differences d)" "df_id f = did" "df_kind f \<noteq> SHORTPAYMENT" "df_resolution f \<noteq> ResRefundPending"
    and r: "r \<in> set (receipts d)" "rc_id r = df_receipt f" "rc_status r = FULLY_ALLOCATED"
    and i: "ai_receipt i = rc_id r"
  shows "(\<exists>r' \<in> set (receipts d'). rc_id r' = rc_id r \<and> rc_status r' = FULLY_ALLOCATED \<and>
      rc_unallocated r' = rc_unallocated r + df_amount f \<and> 0 < rc_unallocated r') \<and>
    (case ConfirmAllocation s' e' out p' key i d' of Inl _ \<Rightarrow> True | Inr (_, d'') \<Rightarrow> ai_fact i \<noteq> None \<and> d'' = d')"
proof -
  from ApproveReceiptDifference_Inr [OF ok] obtain f' where f': "f' \<in> set (differences d)" "reviewable (p_tenant p) did version f'"
    and fr: "eventFrame (approveDifference (p_tenant p) (p_user p) f' d) d'" by blast
  have "f' = f" using difference_t.row_unique [OF ledger_invD(5) [OF inv] f'(1) f(1)] f'(2) f(2) by (simp add: reviewable_def)
  with f' have t: "df_tenant f = p_tenant p" by (simp add: reviewable_def)
  let ?g = "\<lambda>x. x\<lparr>rc_unallocated := rc_unallocated x + df_amount f, rc_version := rc_version x + 1\<rparr>"
  have "receipts d' = update_rows (rec_is (p_tenant p) (df_receipt f)) ?g (receipts d)"
    using fr f(3,4) \<open>f' = f\<close> by (simp add: frame_simps approveDifference_receipts)
  moreover have "rec_is (p_tenant p) (df_receipt f) r"
  proof -
    from ledger_invD(11) [OF inv f(1)] obtain x where x: "x \<in> set (receipts d)" "rc_id x = df_receipt f" "rc_tenant x = df_tenant f"
      by (auto simp: difference_of_def)
    with receipt_t.row_unique [OF ledger_invD(1) [OF inv] x(1) r(1)] r(2) t show ?thesis by (simp add: rec_is_def)
  qed
  ultimately have m: "?g r \<in> set (receipts d')" using in_update_rowsI [of r "receipts d" "rec_is (p_tenant p) (df_receipt f)" ?g] r(1) by simp
  have pos: "0 \<le> rc_unallocated r" "0 < df_amount f"
    using ledger_invD(13) [OF inv r(1)] ledger_invD(12) [OF inv f(1)] by (simp_all add: receipt_ok_def)
  have "ai_fact i \<noteq> None \<and> d'' = d'" if "ConfirmAllocation s' e' out p' key i d' = Inr (aid, d'')" for aid d''
    by (rule fully_allocated_refused [OF ApproveReceiptDifference_inv [OF inv ok] m _ _ that]) (simp_all add: r(3) i)
  then show ?thesis using m pos r(3) by (intro conjI bexI [OF _ m]) (auto split: sum.splits)
qed

theorem released_amount_stays_blocked_witness:
  "\<exists>d'. ApproveReceiptDifference sampleService (sampleEnv [''o1'', ''o2'']) (sampleUser ''eve'') ''F'' 2
     (sampleHeld REVIEW_PENDING ResCarryForward) = Inr ((), d') \<and>
     (\<exists>r' \<in> set (receipts d'). rc_id r' = ''R'' \<and> rc_status r' = FULLY_ALLOCATED \<and> rc_unallocated r' = 5000) \<and>
     \<not> isOk (ConfirmAllocation sampleService (sampleEnv [''B'', ''q1'', ''q2'']) Published (sampleUser ''bob'') ''k-1''
        (sampleAllocation 5000) d')"
proof -
  obtain d' where ok: "ApproveReceiptDifference sampleService (sampleEnv [''o1'', ''o2'']) (sampleUser ''eve'') ''F'' 2
     (sampleHeld REVIEW_PENDING ResCarryForward) = Inr ((), d')" using sample_approve by blast
  let ?r = "sampleReceipt\<lparr>rc_unallocated := 0, rc_status := FULLY_ALLOCATED, rc_date := ''1970-01-02''\<rparr>"
  let ?f = "sampleDifference REVIEW_PENDING ResCarryForward"
  have "(\<exists>r' \<in> set (receipts d'). rc_id r' = rc_id ?r \<and> rc_status r' = FULLY_ALLOCATED \<and>
      rc_unallocated r' = rc_unallocated ?r + df_amount ?f \<and> 0 < rc_unallocated r') \<and>
    (case ConfirmAllocation sampleService (sampleEnv [''B'', ''q1'', ''q2'']) Published (sampleUser ''bob'') ''k-1'' (sampleAllocation 5000) d' of
      Inl _ \<Rightarrow> True | Inr (_, d'') \<Rightarrow> ai_fact (sampleAllocation 5000) \<noteq> None \<and> d'' = d')"
    by (rule released_amount_stays_blocked [OF sampleHeld_inv ok])
       (simp_all add: sampleHeld_def sampleAllocation_def sampleReceipt_def sampleDifference_def)
  then have "\<exists>r' \<in> set (receipts d'). rc_id r' = ''R'' \<and> rc_status r' = FULLY_ALLOCATED \<and> rc_unallocated r' = 5000"
    "\<not> isOk (ConfirmAllocation sampleService (sampleEnv [''B'', ''q1'', ''q2'']) Published (sampleUser ''bob'') ''k-1'' (sampleAllocation 5000) d')"
    by (auto simp: sampleReceipt_def sampleDifference_def sampleAllocation_def isOk_def split: sum.splits)
  with ok show ?thesis by blast
qed

section \<open>Refunds\<close>

lemma sample_refund_time: "parseRFC3339 ''1970-01-03T09:30:00Z'' = Some 207000000000000"
  by (simp add: parseRFC3339_def parseDate_def clock_def takeHour_def takeDigits_def takeChar_def takeFraction_def
      takeZone_def dayNumberInt_def daysBeforeYear_def daysBeforeMonth_def daysIn_def text_eval)

text \<open>C38: an external refund is only recorded for a difference whose refund a third person had
  approved, at the version the caller saw, and with a completion instant that is not in the
  future and whose Beijing day is not before the receipt's day; recording it changes no balance
  and takes the difference out of the pending state.\<close>

theorem refund_confirmation:
  assumes inv: "ledger_inv d" and ok: "ConfirmReceiptRefund s e p did i d = Inr (u, d')"
  shows "absLedger d' = absLedger d \<and> (\<forall>rid. heldOf d' rid = heldOf d rid) \<and>
    (\<exists>f r completed day. f \<in> set (differences d) \<and> r \<in> set (receipts d) \<and> df_id f = did \<and> df_status f = REFUND_PENDING \<and>
      df_resolution f = ResRefundPending \<and> df_version f = cr_version i \<and>
      df_approved_by f \<noteq> df_requested_by f \<and> df_approved_by f \<noteq> df_resolved_by f \<and>
      rc_id r = df_receipt f \<and> parseRFC3339 (cr_completed i) = Some completed \<and> completed \<le> e_now e * 1000000 \<and>
      parseDate (rc_date r) = Some day \<and> \<not> strLess (businessDayOf completed) (showDate day) \<and>
      (\<exists>f' \<in> set (differences d'). df_id f' = did \<and> df_status f' = REFUND_CONFIRMED \<and> df_amount f' = df_amount f))"
proof -
  from ok obtain i' completed where n: "normalizeRefundConfirmation i (e_now e) = Inr (i', completed)"
    and lk: "lockApprovedRefund (p_tenant p) did (cr_version i') completed d = Inr ()"
    and fr: "eventFrame (d\<lparr>differences := update_rows (refundable (p_tenant p) did (cr_version i'))
        (refundConfirmed (p_user p) i' completed) (differences d)\<rparr>) d'"
    by (auto simp: ConfirmReceiptRefund_def Let_def andThen_eq_Inr dest!: outbox_frame split: if_splits)
  from n have v: "cr_version i' = cr_version i" "parseRFC3339 (cr_completed i) = Some completed"
    "completed \<le> e_now e * 1000000"
    by (auto simp: normalizeRefundConfirmation_def Let_def split: option.splits if_splits)
  from lk obtain f r day where f: "find (dif_is (p_tenant p) did) (differences d) = Some f"
    and g: "df_version f = cr_version i" "df_status f = REFUND_PENDING" "df_resolution f = ResRefundPending"
      "df_approved_by f \<noteq> df_requested_by f" "df_approved_by f \<noteq> df_resolved_by f"
    and r: "find (rec_is (p_tenant p) (df_receipt f)) (receipts d) = Some r"
    and day: "parseDate (rc_date r) = Some day" "\<not> strLess (businessDayOf completed) (showDate day)"
    unfolding lockApprovedRefund_def validateRefundReceiptBusinessDayOn_def v(1)
    by (simp only: andThen_eq_Inr query_row_Inr guard_eq_Inr case_option_eq_Inr) blast
  have t: "receipts d' = receipts d" "receivables d' = receivables d" "allocations d' = allocations d"
    "reversals d' = reversals d" and td: "differences d' = update_rows (refundable (p_tenant p) did (cr_version i'))
        (refundConfirmed (p_user p) i' completed) (differences d)"
    using fr by (simp_all add: frame_simps)
  have "absLedger d' = absLedger d"
    using t by (simp add: absLedger_def freeOf_def [abs_def] dueOf_def [abs_def] pairOf_def [abs_def]
        netOf_def [abs_def] reversedOf_def)
  moreover have "heldOf d' rid = heldOf d rid" for rid
    unfolding heldOf_def td
    by (rule sum_rows_update_same) (auto simp: refundConfirmed_def holding_def refundable_def)
  moreover have "refundConfirmed (p_user p) i' completed f \<in> set (differences d')"
    using in_update_rowsI [of f "differences d" "refundable (p_tenant p) did (cr_version i')"
        "refundConfirmed (p_user p) i' completed"] find_SomeD [OF f] g(1,2) v(1)
    by (simp add: td refundable_def dif_is_def)
  ultimately show ?thesis
    using find_SomeD [OF f] find_SomeD [OF r] g v(2,3) day
    by (intro conjI allI exI [of _ f] exI [of _ r] exI [of _ completed] exI [of _ day]
          bexI [of _ "refundConfirmed (p_user p) i' completed f"])
       (auto simp: dif_is_def rec_is_def refundConfirmed_def)
qed

lemma padNat_4:
  "padNat 4 n = [digitChar (n div 1000 mod 10), digitChar (n div 100 mod 10), digitChar (n div 10 mod 10), digitChar (n mod 10)]"
proof -
  have "padNat (Suc (Suc (Suc (Suc 0)))) n = [digitChar (n div 1000 mod 10), digitChar (n div 100 mod 10),
      digitChar (n div 10 mod 10), digitChar (n mod 10)]"
    by (simp add: div_mult2_eq [symmetric])
  moreover have "(4::nat) = Suc (Suc (Suc (Suc 0)))" by simp
  ultimately show ?thesis by metis
qed

lemma sample_refund_civil: "civilOfDay 2 = (1970, Suc 0, 3)"
  by (simp add: civilOfDay_def yearLoop.simps [of 1970 2] monthLoop.simps [of 1970 "Suc 0" 2] yearDays_def daysIn_def)

lemma sample_show: "showDate (1970, Suc 0, 3) = ''1970-01-03''" "showDate (1970, Suc 0, 2) = ''1970-01-02''"
  by (simp_all add: padNat_4 padNat_2 digitChar_def char_of_def bit_0)

lemma sample_refund_day: "businessDayOf 207000000000000 = ''1970-01-03''" "parseDate ''1970-01-02'' = Some (1970, Suc 0, 2)"
   apply (simp add: businessDayOf_def DateString_def todayAt_def sample_refund_civil sample_show del: showDate.simps)
  apply (simp add: parseDate_def daysIn_def text_eval)
  done

definition sampleRefund :: ConfirmRefundRequest where
  "sampleRefund = \<lparr>cr_version = 2, cr_reference = ''B-2'', cr_completed = ''1970-01-03T09:30:00Z'', cr_reason = ''ERR''\<rparr>"

lemma sample_refund_texts [simp]: "trimSpace ''ERR'' = ''ERR''" "trimSpace ''eve'' = ''eve''"
  "strLess ''1970-01-03'' (showDate (1970, Suc 0, 2)) = False"
  by (simp_all add: plain_def byte_def asciiSpace_def sample_show del: showDate.simps)

lemma sample_refund:
  "\<exists>d'. ConfirmReceiptRefund sampleService (sampleEnv [''o1'', ''o2'']) (sampleUser ''dan'') ''F'' sampleRefund
     (sampleHeld REFUND_PENDING ResRefundPending) = Inr ((), d')"
  by (simp add: ConfirmReceiptRefund_def financeAccess_def sample_unrestricted Allows_def permitted_def,
      simp add: normalizeRefundConfirmation_def sampleRefund_def sample_refund_time lockApprovedRefund_def
        validateRefundReceiptBusinessDayOn_def sample_refund_day refundable_def dif_is_def rec_is_def
        sampleHeld_def sampleDifference_def sample_defs run_defs audit_eval refundConfirmed_def del: showDate.simps)

theorem refund_confirmation_witness:
  "\<exists>d'. ConfirmReceiptRefund sampleService (sampleEnv [''o1'', ''o2'']) (sampleUser ''dan'') ''F'' sampleRefund
     (sampleHeld REFUND_PENDING ResRefundPending) = Inr ((), d') \<and> heldOf d' ''R'' = 5000"
proof -
  obtain d' where ok: "ConfirmReceiptRefund sampleService (sampleEnv [''o1'', ''o2'']) (sampleUser ''dan'') ''F'' sampleRefund
     (sampleHeld REFUND_PENDING ResRefundPending) = Inr ((), d')" using sample_refund by blast
  have "heldOf d' ''R'' = heldOf (sampleHeld REFUND_PENDING ResRefundPending) ''R''"
    using refund_confirmation [OF sampleHeld_inv ok] by blast
  also have "\<dots> = 5000"
    by (simp add: heldOf_def holding_def sampleHeld_def sampleDifference_def)
  finally show ?thesis using ok by blast
qed

section \<open>Vouchers\<close>

text \<open>Delivering a voucher to the ERP is final once it succeeded: a sent voucher is never sent
  again and keeps its external number; a voucher becomes sent exactly when the provider returned
  a usable number, which is then the one stored.\<close>

theorem voucher_delivery:
  assumes k: "keyed vo_id (vouchers d)" and v: "v \<in> set (vouchers d)" "vo_id v = vid" "vo_tenant v = p_tenant p"
    and ok: "RetryAccountingVoucher s e erp p vid d = Inr (st, d')"
  shows "if vo_status v = SENT then st = SENT \<and> d' = d
    else (\<exists>v' \<in> set (vouchers d'). vo_id v' = vid \<and> vo_status v' = st \<and> vo_attempts v' = Suc (vo_attempts v) \<and>
      (st = SENT \<longleftrightarrow> (\<exists>send external. erp = Some send \<and> send vid (vo_payload v) = Inr external \<and>
                        external \<noteq> '''' \<and> length external \<le> 128 \<and> vo_external v' = external)))"
proof -
  have fv: "find (vou_is (p_tenant p) vid) (vouchers d) = Some v"
    by (rule voucher_t.find_by_key [OF k v(1)]) (use v in \<open>auto simp: vou_is_def\<close>)
  show ?thesis
  proof (cases "vo_status v = SENT")
    case True
    with ok fv show ?thesis by (auto simp: RetryAccountingVoucher_def andThen_eq_Inr query_row_Inr)
  next
    case False
    obtain st' ext where sv: "sendVoucher erp vid (vo_payload v) = (st', ext)" by force
    let ?g = "\<lambda>x. x\<lparr>vo_status := st', vo_external := ext, vo_attempts := Suc (vo_attempts x), vo_version := vo_version x + 1\<rparr>"
    from ok fv False sv have st: "st = st'"
      and fr: "eventFrame (d\<lparr>vouchers := update_rows (vou_is (p_tenant p) vid) ?g (vouchers d)\<rparr>) d'"
      by (auto simp: RetryAccountingVoucher_def andThen_eq_Inr query_row_Inr dest!: outbox_frame)
    have "?g v \<in> set (vouchers d')"
      using in_update_rowsI [OF v(1), of "vou_is (p_tenant p) vid" ?g] v fr by (simp add: frame_simps vou_is_def)
    moreover have "st' = SENT \<longleftrightarrow> (\<exists>send external. erp = Some send \<and> send vid (vo_payload v) = Inr external \<and>
                        external \<noteq> '''' \<and> length external \<le> 128 \<and> ext = external)"
      using sv by (auto simp: sendVoucher_def split: option.splits sum.splits if_splits)
    ultimately show ?thesis using False st v by (auto intro!: bexI [of _ "?g v"])
  qed
qed

definition sampleVoucher :: voucher where
  "sampleVoucher = \<lparr>vo_id = ''O'', vo_tenant = ''T'', vo_writeoff = ''A'', vo_payload = [], vo_status = NOT_CONFIGURED,
     vo_external = '''', vo_attempts = 0, vo_version = 1\<rparr>"

theorem voucher_delivery_witness:
  "\<exists>d'. RetryAccountingVoucher sampleService (sampleEnv [''o1'', ''o2'']) (Some (\<lambda>_ _. Inr ''ERP-7'')) (sampleUser ''ann'')
      ''O'' (sampleStore\<lparr>vouchers := [sampleVoucher]\<rparr>) = Inr (SENT, d') \<and>
    (\<exists>v' \<in> set (vouchers d'). vo_external v' = ''ERP-7'')"
proof -
  let ?d = "sampleStore\<lparr>vouchers := [sampleVoucher]\<rparr>"
  have "\<exists>d'. RetryAccountingVoucher sampleService (sampleEnv [''o1'', ''o2'']) (Some (\<lambda>_ _. Inr ''ERP-7''))
      (sampleUser ''ann'') ''O'' ?d = Inr (SENT, d')"
    by (simp add: RetryAccountingVoucher_def financeAccess_def sample_unrestricted Allows_def permitted_def,
        simp add: vou_is_def sampleVoucher_def sendVoucher_def sample_defs run_defs audit_eval)
  then obtain d' where ok: "RetryAccountingVoucher sampleService (sampleEnv [''o1'', ''o2'']) (Some (\<lambda>_ _. Inr ''ERP-7''))
      (sampleUser ''ann'') ''O'' ?d = Inr (SENT, d')" by blast
  have "\<exists>v' \<in> set (vouchers d'). vo_external v' = ''ERP-7''"
    using voucher_delivery [OF _ _ _ _ ok, of sampleVoucher]
    by (auto simp: keyed_def sampleVoucher_def sampleUser_def)
  with ok show ?thesis by blast
qed

end
