(* ===== verification/Plans.thy ===== *)
theory Plans
  imports CreditSync
begin

text \<open>
  Receivable plans: the coverage guard that compares the planned total with the contract amount
  (plan_coverage.go), manual plans and adjustments (manual_plan.go), and the confirmation that
  turns a plan into a receivable (\<open>ConfirmPlan\<close> of service.go).
\<close>

section \<open>The coverage guard\<close>

record planCoverage =
  pc_snapshot :: string
  pc_contract_no :: string
  pc_contract_amount :: string
  pc_plan_total :: string
  pc_gap :: string
  pc_gap_percent :: string
  pc_drop_percent :: string
  pc_exceeds :: bool
  pc_triggered :: "string list"
  pc_event_plans :: nat

text \<open>
  A threshold from the environment: \<open>raw\<close> is the number \<open>big.Rat\<close> reads from the
  variable, None when it is unset or not a number.
\<close>

definition planCoveragePercentLimit :: "rat option \<Rightarrow> rat \<Rightarrow> rat" where
  "planCoveragePercentLimit raw fallback =
     (case raw of None \<Rightarrow> fallback | Some v \<Rightarrow> if 0 \<le> v \<and> v \<le> 100 then v else fallback)"

definition planCoverageThresholds :: "Service \<Rightarrow> rat \<times> rat" where
  "planCoverageThresholds s =
     (planCoveragePercentLimit (planCoverageGapEnv s) 5, planCoveragePercentLimit (planCoverageDropEnv s) 50)"

text \<open>The drop of a single instalment in percent, when the new amount is below the old one.\<close>

definition dropOf :: "string \<Rightarrow> rat \<Rightarrow> rat option" where
  "dropOf previous nxt =
     (let trimmed = trimSpace previous in
      if trimmed = '''' then None
      else case ratSetString trimmed of
        None \<Rightarrow> None
      | Some before \<Rightarrow> if 0 < before \<and> nxt < before then Some ((before - nxt) * 100 / before) else None)"

definition evaluatePlanCoverage ::
  "Service \<Rightarrow> string \<Rightarrow> string \<Rightarrow> string \<Rightarrow> string \<Rightarrow> nat \<Rightarrow> planCoverage res" where
  "evaluatePlanCoverage s contractAmount existingTotal planned previous contractEventPlans =
     (case ratSetString (trimSpace contractAmount) of
        None \<Rightarrow> Inl ErrInvalid
      | Some contract \<Rightarrow>
     (case ratSetString (trimSpace existingTotal) of
        None \<Rightarrow> Inl ErrInvalid
      | Some existing \<Rightarrow>
     (case ratSetString (trimSpace planned) of
        None \<Rightarrow> Inl ErrInvalid
      | Some nxt \<Rightarrow>
         let tot = existing + nxt;
             gap = contract - tot;
             gapPercent = (if 0 < contract then \<bar>gap\<bar> * 100 / contract else 0);
             (gapLimit, dropLimit) = planCoverageThresholds s;
             triggered = (if gapPercent > gapLimit then [''COVERAGE_GAP''] else []) @
               (case dropOf previous nxt of
                  None \<Rightarrow> []
                | Some drp \<Rightarrow> if drp > dropLimit then [''SINGLE_INSTALLMENT_DROP''] else [])
         in Inr \<lparr>pc_snapshot = '''', pc_contract_no = '''', pc_contract_amount = floatString 2 contract,
                 pc_plan_total = floatString 2 tot, pc_gap = floatString 2 gap,
                 pc_gap_percent = floatString 2 gapPercent,
                 pc_drop_percent = (case dropOf previous nxt of None \<Rightarrow> '''' | Some drp \<Rightarrow> floatString 2 drp),
                 pc_exceeds = (triggered \<noteq> []), pc_triggered = triggered,
                 pc_event_plans = contractEventPlans\<rparr>)))"

definition planOf :: "string \<Rightarrow> string \<Rightarrow> receivable_plan \<Rightarrow> bool" where
  "planOf tenant snapshot rp \<longleftrightarrow> rp_tenant rp = tenant \<and> rp_snapshot rp = snapshot"

definition effectiveSnapshot :: "string \<Rightarrow> string \<Rightarrow> contract_snapshot \<Rightarrow> bool" where
  "effectiveSnapshot tenant snapshot cs \<longleftrightarrow>
     cs_tenant cs = tenant \<and> cs_id cs = snapshot \<and> cs_status cs = EFFECTIVE"

definition eventPlans :: "string \<Rightarrow> string \<Rightarrow> db \<Rightarrow> nat" where
  "eventPlans tenant snapshot d =
     affected (\<lambda>rp. planOf tenant snapshot rp \<and> rp_source rp = CONTRACT_EVENT) (plans d)"

definition inspectPlanCoverage ::
  "Service \<Rightarrow> string \<Rightarrow> string \<Rightarrow> string \<Rightarrow> string \<Rightarrow> string \<Rightarrow> db \<Rightarrow> planCoverage res" where
  "inspectPlanCoverage s tenant snapshot excluded planned previous d =
     andThen (query_row ErrNotFound (effectiveSnapshot tenant snapshot) (snapshots d)) (\<lambda>cs.
     let existing = sum_rows (\<lambda>rp. planOf tenant snapshot rp \<and> rp_id rp \<noteq> excluded) rp_amount (plans d) in
     andThen (evaluatePlanCoverage s (money (cs_amount cs)) (money existing) planned previous
                (eventPlans tenant snapshot d)) (\<lambda>c.
     Inr (c\<lparr>pc_snapshot := snapshot, pc_contract_no := cs_contract_no cs\<rparr>)))"

definition requirePlanCoverage ::
  "Service \<Rightarrow> Principal \<Rightarrow> string \<Rightarrow> string \<Rightarrow> string \<Rightarrow> string \<Rightarrow> db \<Rightarrow> planCoverage res" where
  "requirePlanCoverage s p snapshot excluded planned previous d =
     andThen (inspectPlanCoverage s (p_tenant p) snapshot excluded planned previous d) (\<lambda>c.
     if decimalGreater (pc_plan_total c) (pc_contract_amount c) \<noteq> Some False then Inl ErrConflict
     else if \<not> pc_exceeds c then Inr c
     else if \<not> Allows p ''settlement.finance.override'' then Inl ErrConflict
     else Inr c)"

definition auditPlanCoverageDeviation ::
  "Service \<Rightarrow> env \<Rightarrow> nat \<Rightarrow> Principal \<Rightarrow> planCoverage \<Rightarrow> string \<Rightarrow> string \<Rightarrow> db \<Rightarrow> db res" where
  "auditPlanCoverageDeviation s e k p c reason operation d =
     (case ratSetString (pc_gap c) of
        None \<Rightarrow> Inr d
      | Some gap \<Rightarrow>
          if gap = 0 then Inr d
          else outbox e k (p_tenant p) ''PLATFORM_AUDIT'' ''SETTLEMENT_PLAN_COVERAGE_DEVIATION''
            ''contract_snapshot'' (pc_snapshot c)
            [(''actor_id'', JStr (p_user p)), (''operation'', JStr operation),
             (''contract_no'', JStr (pc_contract_no c)), (''contract_amount'', JStr (pc_contract_amount c)),
             (''plan_total'', JStr (pc_plan_total c)), (''gap'', JStr (pc_gap c)),
             (''gap_percent'', JStr (pc_gap_percent c)), (''drop_percent'', JStr (pc_drop_percent c)),
             (''gap_threshold_percent'', JStr (floatString 2 (fst (planCoverageThresholds s)))),
             (''drop_threshold_percent'', JStr (floatString 2 (snd (planCoverageThresholds s)))),
             (''triggered'', JArr (map JStr (pc_triggered c))),
             (''contract_event_plan'', JBool (pc_event_plans c > 0)), (''reason'', JStr reason),
             (''result'', JStr ''SUCCESS''),
             (''risk_level'', JStr (if pc_exceeds c then ''HIGH'' else ''MEDIUM''))] d)"

text \<open>The read-only view of one contract.\<close>

definition PlanCoverage :: "Service \<Rightarrow> Principal \<Rightarrow> string \<Rightarrow> db \<Rightarrow> planCoverage res" where
  "PlanCoverage s p snapshot d =
     (if \<not> Allows p ''settlement.receivable.read'' then Inl ErrForbidden
      else if trimSpace snapshot = '''' then Inl ErrInvalid
      else andThen (RequireContractAccess s p ''settlement.receivable.read'' snapshot d) (\<lambda>_.
      andThen (query_row ErrNotFound (effectiveSnapshot (p_tenant p) snapshot) (snapshots d)) (\<lambda>cs.
      let tot = sum_rows (planOf (p_tenant p) snapshot) rp_amount (plans d) in
      andThen (evaluatePlanCoverage s (money (cs_amount cs)) (money tot) ''0'' ''''
                 (eventPlans (p_tenant p) snapshot d)) (\<lambda>c.
      Inr (c\<lparr>pc_snapshot := snapshot, pc_contract_no := cs_contract_no cs\<rparr>)))))"

section \<open>Manual plans\<close>

record ManualPlanInput =
  mp_snapshot :: string
  mp_installment :: int
  mp_due :: string
  mp_amount :: string
  mp_reason :: string

record PlanConfirmationInput =
  pi_version :: int
  pi_due :: string
  pi_amount :: string
  pi_reason :: string

definition manualPlanRequest :: "ManualPlanInput \<Rightarrow> json" where
  "manualPlanRequest i = JArr [JStr (mp_snapshot i), JInt (mp_installment i), JStr (mp_due i),
     JStr (mp_amount i), JStr (mp_reason i)]"

definition newManualPlan :: "Principal \<Rightarrow> string \<Rightarrow> int \<Rightarrow> ManualPlanInput \<Rightarrow> receivable_plan" where
  "newManualPlan p pid planned i =
     \<lparr>rp_id = pid, rp_tenant = p_tenant p, rp_snapshot = mp_snapshot i, rp_installment = mp_installment i,
      rp_due = mp_due i, rp_amount = planned, rp_source = MANUAL_PLAN, rp_status = PENDING_CONFIRMATION,
      rp_reason = mp_reason i, rp_version = 1\<rparr>"

definition insertPlan :: "receivable_plan \<Rightarrow> db \<Rightarrow> db res" where
  "insertPlan rp d =
     (case insert_row plan_clash rp (plans d) of
        Inl err \<Rightarrow> if err = SqlDuplicate then Inl ErrConflict else Inl err
      | Inr t \<Rightarrow> Inr (d\<lparr>plans := t\<rparr>))"

definition CreateManualPlan ::
  "Service \<Rightarrow> env \<Rightarrow> Principal \<Rightarrow> string \<Rightarrow> ManualPlanInput \<Rightarrow> db \<Rightarrow> (string \<times> db) res" where
  "CreateManualPlan s e p key i0 d =
     (if \<not> Allows p ''settlement.receivable.create'' then Inl ErrForbidden
      else if trimSpace key = '''' \<or> length key > 128 \<or> mp_installment i0 < 1 \<or> trimSpace (mp_reason i0) = '''' \<or>
         textTooLong (mp_reason i0) 500 then Inl ErrInvalid
      else if parseDate (mp_due i0) = None then Inl ErrInvalid
      else andThen (amountCents (mp_amount i0)) (\<lambda>planned.
      let i = i0\<lparr>mp_amount := money planned\<rparr> in
      andThen (RequireContractAccessTx s p ''settlement.receivable.create'' (mp_snapshot i) d) (\<lambda>d1.
      let pid = e_ids e 0 in
      andThen (claimIdempotency e (p_tenant p) ''CREATE_MANUAL_PLAN'' key pid (manualPlanRequest i) d1)
        (\<lambda>(existing, replay, d2).
      if replay then Inr (existing, d)
      else andThen (requirePlanCoverage s p (mp_snapshot i) '''' (money planned) '''' d2) (\<lambda>coverage.
      andThen (insertPlan (newManualPlan p pid planned i) d2) (\<lambda>d3.
      andThen (outbox e 1 (p_tenant p) ''PLATFORM_AUDIT'' ''SETTLEMENT_MANUAL_PLAN_CREATED'' ''receivable_plan'' pid
         [(''actor_id'', JStr (p_user p)), (''reason'', JStr (mp_reason i)), (''amount'', JStr (money planned)),
          (''result'', JStr ''SUCCESS''), (''risk_level'', JStr ''HIGH'')] d3) (\<lambda>d4.
      andThen (auditPlanCoverageDeviation s e 3 p coverage (mp_reason i) ''CREATE_MANUAL_PLAN'' d4)
        (\<lambda>d5. Inr (pid, d5)))))))))"

section \<open>Confirming a plan\<close>

definition pendingPlan :: "string \<Rightarrow> string \<Rightarrow> int \<Rightarrow> receivable_plan \<Rightarrow> bool" where
  "pendingPlan tenant pid version rp \<longleftrightarrow>
     rp_id rp = pid \<and> rp_tenant rp = tenant \<and> rp_status rp = PENDING_CONFIRMATION \<and> rp_version rp = version"

text \<open>The locked plan joined with its contract.\<close>

definition lockPendingPlan ::
  "string \<Rightarrow> string \<Rightarrow> int \<Rightarrow> db \<Rightarrow> (receivable_plan \<times> contract_snapshot) res" where
  "lockPendingPlan tenant pid version d =
     andThen (query_row ErrConflict (pendingPlan tenant pid version) (plans d)) (\<lambda>rp.
     andThen (query_row ErrConflict (\<lambda>cs. cs_id cs = rp_snapshot rp \<and> cs_tenant cs = rp_tenant rp) (snapshots d))
       (\<lambda>cs. Inr (rp, cs)))"

text \<open>The confirmed day, amount and reason; the changed values need a reason.\<close>

definition confirmedValues :: "PlanConfirmationInput \<Rightarrow> receivable_plan \<Rightarrow> (string \<times> int \<times> string) res" where
  "confirmedValues i rp =
     (let due = (if trimSpace (pi_due i) = '''' then rp_due rp else trimSpace (pi_due i)) in
      if parseDate due = None then Inl ErrInvalid
      else andThen (if trimSpace (pi_amount i) = '''' then Inr (rp_amount rp) else amountCents (trimSpace (pi_amount i)))
        (\<lambda>confirmed.
        let reason = trimSpace (pi_reason i) in
        if length reason > 500 then Inl ErrInvalid
        else if (due \<noteq> rp_due rp \<or> confirmed \<noteq> rp_amount rp) \<and> reason = '''' then Inl ErrInvalid
        else Inr (due, confirmed, reason)))"

definition newReceivable ::
  "env \<Rightarrow> Principal \<Rightarrow> receivable_plan \<Rightarrow> string \<Rightarrow> int \<Rightarrow> string \<Rightarrow> receivable" where
  "newReceivable e p rp due confirmed currency =
     \<lparr>rv_id = e_ids e 0, rv_tenant = p_tenant p, rv_no = ''AR-'' @ take 12 (e_ids e 1),
      rv_snapshot = rp_snapshot rp, rv_plan = rp_id rp, rv_due = due, rv_original = confirmed,
      rv_invoiced = 0, rv_received = 0, rv_writeoff = 0, rv_open = confirmed, rv_currency = currency,
      rv_recognition = ''CONFIRMED'', rv_collection = UNPAID, rv_invoice = NOT_INVOICED, rv_version = 1\<rparr>"

definition planConfirmed :: "string \<Rightarrow> int \<Rightarrow> string \<Rightarrow> receivable_plan \<Rightarrow> receivable_plan" where
  "planConfirmed due confirmed reason rp =
     rp\<lparr>rp_due := due, rp_amount := confirmed, rp_status := CONFIRMED, rp_reason := reason,
        rp_version := rp_version rp + 1\<rparr>"

text \<open>The two statements: the plan is confirmed and its receivable inserted.\<close>

definition postReceivable :: "Principal \<Rightarrow> receivable_plan \<Rightarrow> string \<Rightarrow> receivable \<Rightarrow> db \<Rightarrow> db res" where
  "postReceivable p rp reason v d =
     andThen (insert_row receivable_clash v (receivables d)) (\<lambda>t.
     Inr (d\<lparr>plans := update_rows (\<lambda>x. rp_id x = rp_id rp \<and> rp_tenant x = p_tenant p \<and> rp_version x = rp_version rp)
              (planConfirmed (rv_due v) (rv_original v) reason) (plans d),
            receivables := t\<rparr>))"

definition ConfirmPlan ::
  "Service \<Rightarrow> env \<Rightarrow> Principal \<Rightarrow> string \<Rightarrow> PlanConfirmationInput \<Rightarrow> db \<Rightarrow> (unit \<times> db) res" where
  "ConfirmPlan s e p pid i d =
     (if \<not> Allows p ''settlement.receivable.confirm'' then Inl ErrForbidden
      else if pi_version i < 1 then Inl ErrInvalid
      else andThen (lockPendingPlan (p_tenant p) pid (pi_version i) d) (\<lambda>(rp, cs).
      andThen (RequireContractAccessTx s p ''settlement.receivable.confirm'' (rp_snapshot rp) d) (\<lambda>d1.
      andThen (confirmedValues i rp) (\<lambda>(due, confirmed, reason).
      andThen (migrationOf d1 (p_tenant p) (rp_snapshot rp)) (\<lambda>migration.
      if migration = HOLD \<and> (confirmed \<noteq> rp_amount rp \<or> due \<noteq> rp_due rp) then Inl ErrImportBlocked
      else andThen (requirePlanCoverage s p (rp_snapshot rp) pid (money confirmed) (money (rp_amount rp)) d1)
        (\<lambda>coverage.
      andThen (postReceivable p rp reason (newReceivable e p rp due confirmed (cs_currency cs)) d1) (\<lambda>d2.
      andThen (outbox e 2 (p_tenant p) ''PLATFORM_AUDIT'' ''SETTLEMENT_RECEIVABLE_PLAN_CONFIRMED'' ''receivable_plan'' pid
         [(''actor_id'', JStr (p_user p)), (''result'', JStr ''SUCCESS''), (''risk_level'', JStr ''HIGH''),
          (''old_due_date'', JStr (rp_due rp)), (''new_due_date'', JStr due),
          (''old_planned_amount'', JStr (money (rp_amount rp))), (''new_planned_amount'', JStr (money confirmed)),
          (''reason'', JStr reason)] d2) (\<lambda>d3.
      andThen (auditPlanCoverageDeviation s e 4 p coverage reason ''CONFIRM_PLAN'' d3)
        (\<lambda>d4. Inr ((), d4))))))))))"

section \<open>Adjusting a confirmed plan\<close>

definition confirmedPlan :: "string \<Rightarrow> string \<Rightarrow> int \<Rightarrow> receivable_plan \<Rightarrow> bool" where
  "confirmedPlan tenant pid version rp \<longleftrightarrow>
     rp_tenant rp = tenant \<and> rp_id rp = pid \<and> rp_version rp = version \<and> rp_status rp = CONFIRMED"

definition lockConfirmedPlan ::
  "string \<Rightarrow> string \<Rightarrow> int \<Rightarrow> db \<Rightarrow> (receivable_plan \<times> receivable) res" where
  "lockConfirmedPlan tenant pid version d =
     andThen (query_row ErrConflict (confirmedPlan tenant pid version) (plans d)) (\<lambda>rp.
     andThen (query_row ErrConflict (\<lambda>v. rv_plan v = rp_id rp \<and> rv_tenant v = rp_tenant rp) (receivables d))
       (\<lambda>v. Inr (rp, v)))"

text \<open>The invoiced amount together with what open invoice requests still reserve.\<close>

definition reservedOf :: "db \<Rightarrow> string \<Rightarrow> string \<Rightarrow> int" where
  "reservedOf d tenant vid =
     sum_rows (\<lambda>a. ia_tenant a = tenant \<and> ia_receivable a = vid \<and> ia_status a = RESERVED)
       (\<lambda>a. ia_reserved a - ia_invoiced a - ia_released a) (invoice_allocations d)"

definition collectionAfter :: "int \<Rightarrow> receivable \<Rightarrow> collection_status" where
  "collectionAfter planned v =
     (if planned = rv_received v + rv_writeoff v then SETTLED
      else if rv_received v > 0 then PARTIALLY_SETTLED else UNPAID)"

definition receivableAdjusted :: "string \<Rightarrow> int \<Rightarrow> receivable \<Rightarrow> receivable" where
  "receivableAdjusted due planned v =
     v\<lparr>rv_due := due, rv_original := planned, rv_open := planned - rv_received v - rv_writeoff v,
       rv_collection := collectionAfter planned v, rv_version := rv_version v + 1\<rparr>"

definition planAdjusted :: "string \<Rightarrow> int \<Rightarrow> string \<Rightarrow> receivable_plan \<Rightarrow> receivable_plan" where
  "planAdjusted due planned reason rp =
     rp\<lparr>rp_due := due, rp_amount := planned, rp_reason := reason, rp_version := rp_version rp + 1\<rparr>"

definition postAdjustment :: "Principal \<Rightarrow> receivable_plan \<Rightarrow> receivable \<Rightarrow> string \<Rightarrow> int \<Rightarrow> string \<Rightarrow> db \<Rightarrow> db" where
  "postAdjustment p rp v due planned reason d =
     d\<lparr>plans := update_rows (\<lambda>x. rp_tenant x = p_tenant p \<and> rp_id x = rp_id rp \<and> rp_version x = rp_version rp)
         (planAdjusted due planned reason) (plans d),
       receivables := update_rows (\<lambda>x. rv_tenant x = p_tenant p \<and> rv_id x = rv_id v)
         (receivableAdjusted due planned) (receivables d)\<rparr>"

definition AdjustPlan ::
  "Service \<Rightarrow> env \<Rightarrow> Principal \<Rightarrow> string \<Rightarrow> PlanConfirmationInput \<Rightarrow> db \<Rightarrow> (unit \<times> db) res" where
  "AdjustPlan s e p pid i d =
     (if \<not> Allows p ''settlement.receivable.adjust'' then Inl ErrForbidden
      else if pi_version i < 1 \<or> trimSpace (pi_reason i) = '''' \<or> textTooLong (pi_reason i) 500 then Inl ErrInvalid
      else if parseDate (pi_due i) = None then Inl ErrInvalid
      else andThen (amountCents (pi_amount i)) (\<lambda>planned.
      andThen (lockConfirmedPlan (p_tenant p) pid (pi_version i) d) (\<lambda>(rp, v).
      andThen (RequireContractAccessTx s p ''settlement.receivable.adjust'' (rp_snapshot rp) d) (\<lambda>d1.
      if rv_received v + rv_writeoff v > planned then Inl ErrConflict
      else if rv_invoiced v + reservedOf d1 (p_tenant p) (rv_id v) > planned then Inl ErrConflict
      else andThen (requirePlanCoverage s p (rp_snapshot rp) pid (money planned) (money (rp_amount rp)) d1)
        (\<lambda>coverage.
      andThen (outbox e 0 (p_tenant p) ''PLATFORM_AUDIT'' ''SETTLEMENT_PLAN_ADJUSTED'' ''receivable_plan'' pid
         [(''actor_id'', JStr (p_user p)), (''old_due_date'', JStr (rp_due rp)), (''due_date'', JStr (pi_due i)),
          (''old_amount'', JStr (money (rp_amount rp))), (''amount'', JStr (money planned)),
          (''reason'', JStr (pi_reason i)), (''result'', JStr ''SUCCESS''), (''risk_level'', JStr ''HIGH'')]
         (postAdjustment p rp v (pi_due i) planned (pi_reason i) d1)) (\<lambda>d2.
      andThen (auditPlanCoverageDeviation s e 2 p coverage (pi_reason i) ''ADJUST_PLAN'' d2)
        (\<lambda>d3. Inr ((), d3))))))))"

section \<open>Mapping notes\<close>

definition notable :: "db \<Rightarrow> Principal \<Rightarrow> string \<Rightarrow> nat \<Rightarrow> project_assignment \<Rightarrow> bool" where
  "notable d p project version pa \<longleftrightarrow>
     exists_row (\<lambda>pr. pr_tenant pr = pa_tenant pa \<and> pr_project pr = pa_project pa \<and> pr_active pr)
       (project_references d) \<and>
     pa_tenant pa = p_tenant p \<and> pa_project pa = project \<and> pa_user pa = p_user p \<and> pa_active pa \<and>
     pa_version pa = version"

definition UpdateProjectMappingNote ::
  "env \<Rightarrow> Principal \<Rightarrow> string \<Rightarrow> nat \<Rightarrow> string \<Rightarrow> db \<Rightarrow> (unit \<times> db) res" where
  "UpdateProjectMappingNote e p project version note d =
     (if \<not> Allows p ''settlement.mapping.manage'' then Inl ErrForbidden
      else if project = '''' \<or> version = 0 \<or> textTooLong note 500 then Inl ErrInvalid
      else if affected (notable d p project version) (project_assignments d) \<noteq> 1 then Inl ErrConflict
      else andThen (outbox e 0 (p_tenant p) ''PLATFORM_AUDIT'' ''SETTLEMENT_PROJECT_MAPPING_NOTED'' ''project'' project
         [(''actor_id'', JStr (p_user p)), (''note'', JStr note), (''result'', JStr ''SUCCESS''),
          (''risk_level'', JStr ''LOW'')]
         (d\<lparr>project_assignments := update_rows (notable d p project version)
             (\<lambda>pa. pa\<lparr>pa_note := note, pa_version := Suc (pa_version pa), pa_updated_by := p_user p\<rparr>)
             (project_assignments d)\<rparr>)) (\<lambda>d'. Inr ((), d')))"

end
