(* ===== verification/PlanProps.thy ===== *)
theory PlanProps
  imports Plans FinanceProps
begin

text \<open>
  Plans never exceed the contract. The invariant says that the plans of an effective contract sum
  to at most its amount and that every receivable is a confirmed plan with the same amount; the
  plan commands keep it, together with the balance of the ledger.
\<close>

section \<open>The coverage guard in cents\<close>

lemma floatString_sum:
  "floatString 2 (of_int a / 100 + of_int b / 100) = money (a + b)"
  "floatString 2 (of_int a / 100 - of_int b / 100) = money (a - b)"
  "floatString 2 (of_int a / 100 - (of_int b / 100 + of_int c / 100)) = money (a - (b + c))"
  by (simp_all add: money_def add_divide_distrib diff_divide_distrib)

lemma evaluatePlanCoverage_money:
  assumes "evaluatePlanCoverage s (money c) (money x) (money n) prev k = Inr cov"
  shows "pc_contract_amount cov = money c \<and> pc_plan_total cov = money (x + n) \<and> pc_gap cov = money (c - (x + n)) \<and>
     (\<not> pc_exceeds cov \<longrightarrow> 0 < c \<longrightarrow>
        \<bar>of_int (c - (x + n))\<bar> * 100 \<le> of_int c * fst (planCoverageThresholds s))"
proof -
  obtain g l where gl: "planCoverageThresholds s = (g, l)" by force
  let ?gap = "of_int c / 100 - (of_int x / 100 + of_int n / 100) :: rat"
  have gap: "?gap = of_int (c - (x + n)) / 100" by (simp add: diff_divide_distrib add_divide_distrib)
  have "\<bar>of_int (c - (x + n))\<bar> * 100 \<le> of_int c * g" if "0 < c" "\<bar>?gap\<bar> * 100 / (of_int c / 100) \<le> g"
  proof -
    have "\<bar>?gap\<bar> * 100 / (of_int c / 100) = \<bar>of_int (c - (x + n))\<bar> * 100 / of_int c"
      by (simp add: gap)
    with that show ?thesis by (simp add: pos_divide_le_eq mult.commute)
  qed
  then show ?thesis
    using assms by (auto simp: evaluatePlanCoverage_def gl floatString_sum Let_def split: if_splits)
qed

lemma requirePlanCoverage_Inr:
  assumes "requirePlanCoverage s p sn excluded (money n) prev d = Inr cov"
  shows "\<exists>cs \<in> set (snapshots d). effectiveSnapshot (p_tenant p) sn cs \<and>
     sum_rows (\<lambda>rp. planOf (p_tenant p) sn rp \<and> rp_id rp \<noteq> excluded) rp_amount (plans d) + n \<le> cs_amount cs \<and>
     pc_gap cov = money (cs_amount cs -
       (sum_rows (\<lambda>rp. planOf (p_tenant p) sn rp \<and> rp_id rp \<noteq> excluded) rp_amount (plans d) + n)) \<and>
     (\<not> Allows p ''settlement.finance.override'' \<longrightarrow> 0 < cs_amount cs \<longrightarrow>
        of_int (cs_amount cs - (sum_rows (\<lambda>rp. planOf (p_tenant p) sn rp \<and> rp_id rp \<noteq> excluded) rp_amount (plans d) + n)) * 100
          \<le> of_int (cs_amount cs) * fst (planCoverageThresholds s))"
proof -
  let ?x = "sum_rows (\<lambda>rp. planOf (p_tenant p) sn rp \<and> rp_id rp \<noteq> excluded) rp_amount (plans d)"
  from assms obtain c where i: "inspectPlanCoverage s (p_tenant p) sn excluded (money n) prev d = Inr c"
    and g: "decimalGreater (pc_plan_total c) (pc_contract_amount c) = Some False" and eq: "cov = c"
    and ov: "\<not> Allows p ''settlement.finance.override'' \<longrightarrow> \<not> pc_exceeds c"
    by (auto simp: requirePlanCoverage_def andThen_eq_Inr split: if_splits)
  from i obtain cs c' where cs: "find (effectiveSnapshot (p_tenant p) sn) (snapshots d) = Some cs"
    and ev: "evaluatePlanCoverage s (money (cs_amount cs)) (money ?x) (money n) prev (eventPlans (p_tenant p) sn d) = Inr c'"
    and c: "c = c'\<lparr>pc_snapshot := sn, pc_contract_no := cs_contract_no cs\<rparr>"
    by (auto simp: inspectPlanCoverage_def Let_def andThen_eq_Inr query_row_Inr)
  from evaluatePlanCoverage_money [OF ev] g have "?x + n \<le> cs_amount cs" by (auto simp: c)
  with evaluatePlanCoverage_money [OF ev] find_SomeD [OF cs] ov eq c show ?thesis
    by (intro bexI [of _ cs]) auto
qed

section \<open>The invariant\<close>

definition planTotal :: "db \<Rightarrow> contract_snapshot \<Rightarrow> int" where
  "planTotal d cs = sum_rows (planOf (cs_tenant cs) (cs_id cs)) rp_amount (plans d)"

definition planned :: "db \<Rightarrow> receivable \<Rightarrow> bool" where
  "planned d v \<longleftrightarrow> (\<exists>rp \<in> set (plans d). rp_id rp = rv_plan v \<and> rp_tenant rp = rv_tenant v \<and>
     rp_snapshot rp = rv_snapshot v \<and> rp_status rp = CONFIRMED \<and> rp_amount rp = rv_original v)"

definition within_contract :: "db \<Rightarrow> contract_snapshot \<Rightarrow> bool" where
  "within_contract d cs \<longleftrightarrow> (cs_status cs = EFFECTIVE \<longrightarrow> planTotal d cs \<le> cs_amount cs)"

definition plan_inv :: "db \<Rightarrow> bool" where
  "plan_inv d \<longleftrightarrow> keyed rp_id (plans d) \<and> keyed cs_id (snapshots d) \<and> keyed rv_plan (receivables d) \<and>
     (\<forall>rp \<in> set (plans d). 0 < rp_amount rp \<and> rp_id rp \<noteq> '''') \<and>
     (\<forall>cs \<in> set (snapshots d). within_contract d cs) \<and>
     (\<forall>v \<in> set (receivables d). planned d v)"

text \<open>What the invariants of plans and of invoices read of a receivable.\<close>

definition receivableFacts :: "receivable \<Rightarrow> string \<times> string \<times> string \<times> int \<times> string \<times> int" where
  "receivableFacts v = (rv_plan v, rv_tenant v, rv_snapshot v, rv_original v, rv_id v, rv_invoiced v)"

definition planTables ::
  "db \<Rightarrow> (receivable_plan list \<times> contract_snapshot list \<times> invoice_allocation list \<times> tax_db) \<times>
    (string \<times> string \<times> string \<times> int \<times> string \<times> int) list" where
  "planTables d = (contractTables d, map receivableFacts (receivables d))"

lemma ball_snapshotFacts:
  assumes "\<And>cs. Q (snapshotFacts cs) = Q cs"
  shows "(\<forall>cs \<in> set (snapshots d). Q cs) \<longleftrightarrow> (\<forall>cs \<in> set (map snapshotFacts (snapshots d)). Q cs)"
  using assms by simp

lemma snapshotFacts_sel [simp]:
  "cs_id (snapshotFacts cs) = cs_id cs" "cs_tenant (snapshotFacts cs) = cs_tenant cs"
  "cs_status (snapshotFacts cs) = cs_status cs" "cs_amount (snapshotFacts cs) = cs_amount cs"
  "cs_customer (snapshotFacts cs) = cs_customer cs" "cs_currency (snapshotFacts cs) = cs_currency cs"
  "cs_migration (snapshotFacts cs) = cs_migration cs"
  by (simp_all add: snapshotFacts_def)

lemma planned_facts:
  assumes "plans d' = plans d" "receivableFacts v' = receivableFacts v"
  shows "planned d' v' = planned d v"
  using assms by (simp add: planned_def receivableFacts_def)

lemma ball_facts:
  assumes "\<And>x y. f x = f y \<Longrightarrow> P x = Q y" "map f xs = map f ys"
  shows "(\<forall>x \<in> set xs. P x) = (\<forall>y \<in> set ys. Q y)"
proof -
  from assms(2) have len: "length xs = length ys" by (rule map_eq_imp_length_eq)
  from assms(2) have "f (xs ! i) = f (ys ! i)" if "i < length ys" for i
    using that len by (metis nth_map)
  with assms(1) have "P (xs ! i) = Q (ys ! i)" if "i < length ys" for i using that by blast
  with len show ?thesis by (simp add: all_set_conv_all_nth)
qed

lemma plan_inv_cong:
  assumes "planTables d' = planTables d"
  shows "plan_inv d' = plan_inv d"
proof -
  have t: "plans d' = plans d" "map snapshotFacts (snapshots d') = map snapshotFacts (snapshots d)"
      "map receivableFacts (receivables d') = map receivableFacts (receivables d)"
    using assms by (simp_all add: planTables_def contractTables_def)
  have "map cs_id (snapshots d') = map cs_id (map snapshotFacts (snapshots d'))"
    and "map cs_id (snapshots d) = map cs_id (map snapshotFacts (snapshots d))" by simp_all
  then have k: "keyed cs_id (snapshots d') = keyed cs_id (snapshots d)"
    unfolding keyed_def using t(2) by metis
  have w: "within_contract d' = within_contract d"
    using t(1) by (simp add: within_contract_def [abs_def] planTotal_def)
  have "within_contract d (snapshotFacts cs) = within_contract d cs" for cs
    by (simp add: within_contract_def planTotal_def)
  then have "(\<forall>cs \<in> set (snapshots d'). within_contract d' cs) = (\<forall>cs \<in> set (snapshots d). within_contract d cs)"
    unfolding w using ball_snapshotFacts [of "within_contract d" d] ball_snapshotFacts [of "within_contract d" d'] t(2) by metis
  moreover have "(\<forall>v \<in> set (receivables d'). planned d' v) = (\<forall>v \<in> set (receivables d). planned d v)"
    using planned_facts [OF t(1)] t(3) by (rule ball_facts)
  moreover have "keyed rv_plan (receivables d') = keyed rv_plan (receivables d)"
    unfolding keyed_def using arg_cong [OF t(3), of "map fst"] by (simp add: receivableFacts_def comp_def)
  ultimately show ?thesis using k t(1) by (simp add: plan_inv_def)
qed

lemma planTables_frames:
  "scopeFrame d d' \<Longrightarrow> planTables d' = planTables d"
  "idemFrame d d' \<Longrightarrow> planTables d' = planTables d"
  "eventFrame d d' \<Longrightarrow> planTables d' = planTables d"
  "factFrame d d' \<Longrightarrow> planTables d' = planTables d"
  "creditFrame d d' \<Longrightarrow> planTables d' = planTables d"
  by (simp_all add: planTables_def contractTables_frames frame_simps)

section \<open>Statements\<close>

lemma planned_plan:
  assumes "plan_inv d" "planned d v" "rp \<in> set (plans d)" "rv_plan v = rp_id rp"
  shows "rp_tenant rp = rv_tenant v \<and> rp_snapshot rp = rv_snapshot v \<and> rp_status rp = CONFIRMED \<and>
         rp_amount rp = rv_original v"
proof -
  from assms(2) obtain x where x: "x \<in> set (plans d)" "rp_id x = rv_plan v" "rp_tenant x = rv_tenant v"
    "rp_snapshot x = rv_snapshot v" "rp_status x = CONFIRMED" "rp_amount x = rv_original v"
    by (auto simp: planned_def)
  have "x = rp"
    by (rule plan_t.row_unique [of "plans d"]) (use assms x in \<open>simp_all add: plan_inv_def\<close>)
  with x show ?thesis by simp
qed

lemma insertPlan_inv:
  assumes inv: "plan_inv d" and ins: "insertPlan rp d = Inr d'"
    and rp: "0 < rp_amount rp" "rp_id rp \<noteq> ''''"
    and cs: "cs \<in> set (snapshots d)" "effectiveSnapshot (rp_tenant rp) (rp_snapshot rp) cs"
    and le: "sum_rows (\<lambda>x. planOf (rp_tenant rp) (rp_snapshot rp) x \<and> rp_id x \<noteq> '''') rp_amount (plans d) + rp_amount rp
             \<le> cs_amount cs"
  shows "plan_inv d'"
proof -
  from ins have i: "insert_row plan_clash rp (plans d) = Inr (plans d')" and d': "d' = d\<lparr>plans := plans d'\<rparr>"
    by (auto simp: insertPlan_def split: sum.splits if_splits)
  then have t: "plans d' = plans d @ [rp]" by (simp add: insert_row_Inr)
  have same: "snapshots d' = snapshots d" "receivables d' = receivables d" by (subst d', simp)+
  have k: "keyed rp_id (plans d')" using plan_t.insert_keyed [OF _ i] inv by (simp add: plan_inv_def)
  have "sum_rows (\<lambda>x. planOf (rp_tenant rp) (rp_snapshot rp) x \<and> rp_id x \<noteq> '''') rp_amount (plans d) = planTotal d cs"
    unfolding planTotal_def using inv cs(2)
    by (intro sum_rows_cong) (auto simp: plan_inv_def effectiveSnapshot_def)
  with le have le': "planTotal d cs + rp_amount rp \<le> cs_amount cs" by simp
  have "within_contract d' x" if x: "x \<in> set (snapshots d)" for x
  proof (cases "planOf (cs_tenant x) (cs_id x) rp")
    case True
    then have "cs_id x = cs_id cs" using cs(2) by (simp add: planOf_def effectiveSnapshot_def)
    then have "x = cs" using snapshot_t.row_unique x cs(1) inv by (auto simp: plan_inv_def)
    then show ?thesis using le' True by (simp add: within_contract_def planTotal_def t)
  next
    case False
    with x inv show ?thesis by (simp add: within_contract_def planTotal_def t plan_inv_def)
  qed
  then show ?thesis
    using inv k rp same by (auto simp: plan_inv_def planned_def t)
qed

text \<open>One plan gets a new amount that fits into its contract.\<close>

lemma plan_amount_update:
  assumes inv: "plan_inv d" and rp: "rp \<in> set (plans d)" "P rp" "\<And>x. P x \<Longrightarrow> rp_id x = rp_id rp"
    and g: "\<And>x. rp_id (g x) = rp_id x \<and> rp_tenant (g x) = rp_tenant x \<and> rp_snapshot (g x) = rp_snapshot x"
      "rp_amount (g rp) = n" "0 < n"
    and cs: "cs \<in> set (snapshots d)" "effectiveSnapshot (rp_tenant rp) (rp_snapshot rp) cs"
    and le: "sum_rows (\<lambda>x. planOf (rp_tenant rp) (rp_snapshot rp) x \<and> rp_id x \<noteq> rp_id rp) rp_amount (plans d) + n
             \<le> cs_amount cs"
    and d': "plans d' = update_rows P g (plans d)" "snapshots d' = snapshots d"
    and rv: "\<And>v. v \<in> set (receivables d') \<Longrightarrow> planned d' v" "keyed rv_plan (receivables d')"
  shows "plan_inv d'"
proof -
  note k = inv [unfolded plan_inv_def, THEN conjunct1]
  have tot: "planTotal d' x = planTotal d x + (if planOf (cs_tenant x) (cs_id x) rp then n - rp_amount rp else 0)" for x
  proof -
    have "planTotal d' x = planTotal d x - (if planOf (cs_tenant x) (cs_id x) rp then rp_amount rp else 0) +
        (if planOf (cs_tenant x) (cs_id x) (g rp) then rp_amount (g rp) else 0)"
      unfolding planTotal_def d'(1) by (intro plan_t.sum_update_by_key k rp)
    then show ?thesis using g(1) [of rp] g(2) by (simp add: planOf_def)
  qed
  have "sum_rows (\<lambda>x. planOf (rp_tenant rp) (rp_snapshot rp) x \<and> rp_id x \<noteq> rp_id rp) rp_amount (plans d) =
      planTotal d cs - rp_amount rp"
    unfolding planTotal_def plan_t.sum_except [OF k rp(1)]
    using cs(2) by (simp add: effectiveSnapshot_def) (simp add: planOf_def)
  with le have le': "planTotal d cs - rp_amount rp + n \<le> cs_amount cs" by simp
  have "within_contract d' x" if x: "x \<in> set (snapshots d)" for x
  proof (cases "planOf (cs_tenant x) (cs_id x) rp")
    case True
    then have "cs_id x = cs_id cs" using cs(2) by (simp add: planOf_def effectiveSnapshot_def)
    then have "x = cs" using snapshot_t.row_unique x cs(1) inv by (auto simp: plan_inv_def)
    then show ?thesis using le' True tot by (simp add: within_contract_def)
  next
    case False
    with x inv tot show ?thesis by (simp add: within_contract_def plan_inv_def)
  qed
  moreover have "0 < rp_amount x \<and> rp_id x \<noteq> ''''" if "x \<in> set (plans d')" for x
    using plan_t.in_update_by_key [OF k rp that [unfolded d'(1)]] inv g rp(1) by (auto simp: plan_inv_def)
  moreover have "keyed rp_id (plans d')"
    unfolding d'(1) by (rule plan_t.update_keyed [OF k]) (use g(1) in simp)
  ultimately show ?thesis using inv rv d'(2) by (simp add: plan_inv_def)
qed

lemma planned_update:
  assumes inv: "plan_inv d" and rp: "rp \<in> set (plans d)" "P rp" "\<And>x. P x \<Longrightarrow> rp_id x = rp_id rp"
    and d': "plans d' = update_rows P g (plans d)" and v: "planned d v" "rv_plan v \<noteq> rp_id rp"
  shows "planned d' v"
proof -
  from v(1) obtain x where x: "x \<in> set (plans d)" "rp_id x = rv_plan v" "rp_tenant x = rv_tenant v"
    "rp_snapshot x = rv_snapshot v" "rp_status x = CONFIRMED" "rp_amount x = rv_original v"
    by (auto simp: planned_def)
  with v(2) rp(3) have "\<not> P x" by auto
  with in_update_rowsI [OF x(1), of P g] x d' show ?thesis by (auto simp: planned_def intro!: bexI [of _ x])
qed

lemma planned_self:
  assumes "rp \<in> set (plans d)" "P rp" "plans d' = update_rows P g (plans d)"
    "rp_id (g rp) = rv_plan v" "rp_tenant (g rp) = rv_tenant v" "rp_snapshot (g rp) = rv_snapshot v"
    "rp_status (g rp) = CONFIRMED" "rp_amount (g rp) = rv_original v"
  shows "planned d' v"
  using in_update_rowsI [OF assms(1), of P g] assms by (auto simp: planned_def intro!: bexI [of _ "g rp"])

lemma postReceivable_inv:
  assumes inv: "plan_inv d" and post: "postReceivable p rp reason v d = Inr d'"
    and rp: "rp \<in> set (plans d)" "rp_tenant rp = p_tenant p" and n: "0 < rv_original v"
    and v: "rv_plan v = rp_id rp" "rv_tenant v = p_tenant p" "rv_snapshot v = rp_snapshot rp"
    and cs: "cs \<in> set (snapshots d)" "effectiveSnapshot (p_tenant p) (rp_snapshot rp) cs"
    and le: "sum_rows (\<lambda>x. planOf (p_tenant p) (rp_snapshot rp) x \<and> rp_id x \<noteq> rp_id rp) rp_amount (plans d) + rv_original v
             \<le> cs_amount cs"
  shows "plan_inv d'"
proof -
  let ?P = "\<lambda>x. rp_id x = rp_id rp \<and> rp_tenant x = p_tenant p \<and> rp_version x = rp_version rp"
  let ?g = "planConfirmed (rv_due v) (rv_original v) reason"
  from post have t: "plans d' = update_rows ?P ?g (plans d)" "snapshots d' = snapshots d"
      "receivables d' = receivables d @ [v]" and nc: "\<forall>x \<in> set (receivables d). \<not> receivable_clash v x"
    by (auto simp: postReceivable_def andThen_eq_Inr insert_row_Inr)
  have other: "rv_plan x \<noteq> rp_id rp" if x: "x \<in> set (receivables d)" for x
  proof
    assume eq: "rv_plan x = rp_id rp"
    from x inv have "planned d x" by (simp add: plan_inv_def)
    then have "rv_tenant x = p_tenant p" using planned_plan [OF inv _ rp(1)] eq rp(2) by simp
    with nc x eq v show False by (auto simp: receivable_clash_def)
  qed
  then have k: "keyed rv_plan (receivables d')" using inv v(1) by (fastforce simp: t plan_inv_def keyed_def)
  have "planned d' x" if "x \<in> set (receivables d')" for x
  proof (cases "x = v")
    case True
    then show ?thesis
      by (simp only:) (rule planned_self [OF rp(1) _ t(1)], use rp v in \<open>simp_all add: planConfirmed_def\<close>)
  next
    case False
    with that t(3) have x: "x \<in> set (receivables d)" by simp
    with inv have p: "planned d x" by (simp add: plan_inv_def)
    show ?thesis by (intro planned_update [OF inv rp(1) _ _ t(1) p]) (use rp other x in auto)
  qed
  then show ?thesis
    by (intro plan_amount_update [OF inv rp(1), of ?P ?g "rv_original v" cs])
       (use rp cs le n t k in \<open>auto simp: planConfirmed_def\<close>)
qed

lemma postAdjustment_inv:
  assumes inv: "plan_inv d" and rp: "rp \<in> set (plans d)" "rp_tenant rp = p_tenant p" "rp_status rp = CONFIRMED"
    and v: "v \<in> set (receivables d)" "rv_plan v = rp_id rp" "rv_tenant v = p_tenant p" and n: "0 < n"
    and kv: "keyed rv_id (receivables d)"
    and cs: "cs \<in> set (snapshots d)" "effectiveSnapshot (p_tenant p) (rp_snapshot rp) cs"
    and le: "sum_rows (\<lambda>x. planOf (p_tenant p) (rp_snapshot rp) x \<and> rp_id x \<noteq> rp_id rp) rp_amount (plans d) + n
             \<le> cs_amount cs"
  shows "plan_inv (postAdjustment p rp v day n reason d)"
proof -
  let ?d = "postAdjustment p rp v day n reason d"
  let ?P = "\<lambda>x. rp_tenant x = p_tenant p \<and> rp_id x = rp_id rp \<and> rp_version x = rp_version rp"
  let ?g = "planAdjusted day n reason"
  have t: "plans ?d = update_rows ?P ?g (plans d)" "snapshots ?d = snapshots d"
    "receivables ?d = update_rows (\<lambda>x. rv_tenant x = p_tenant p \<and> rv_id x = rv_id v) (receivableAdjusted day n) (receivables d)"
    by (simp_all add: postAdjustment_def)
  have plans1: "keyed rv_plan (receivables d)" using inv by (simp add: plan_inv_def)
  have uniq: "rv_id x = rv_id v" if "x \<in> set (receivables d)" "rv_plan x = rp_id rp" for x
    using inj_onD [of rv_plan "set (receivables d)" x v] plans1 that v(1,2) by (simp add: keyed_def distinct_map)
  have k: "keyed rv_plan (receivables ?d)"
    using plans1 unfolding keyed_def t(3) by (subst map_update_rows_key) (simp_all add: receivableAdjusted_def)
  have "planned ?d x" if "x \<in> set (receivables ?d)" for x
  proof -
    from that have "x \<in> set (update_rows (\<lambda>x. rv_tenant x = p_tenant p \<and> rv_id x = rv_id v) (receivableAdjusted day n) (receivables d))"
      by (simp add: t)
    from receivable_t.in_update_by_key [OF kv v(1) _ _ this] v(3)
    consider "x = receivableAdjusted day n v" | "x \<in> set (receivables d)" "rv_id x \<noteq> rv_id v" by auto
    then show ?thesis
    proof cases
      case 1
      have "rp_snapshot rp = rv_snapshot v"
        using planned_plan [OF inv _ rp(1), of v] inv v(1,2) by (simp add: plan_inv_def)
      with 1 show ?thesis
        by (intro planned_self [OF rp(1) _ t(1)]) (use rp v in \<open>simp_all add: planAdjusted_def receivableAdjusted_def\<close>)
    next
      case 2
      with inv have p: "planned d x" by (simp add: plan_inv_def)
      show ?thesis by (intro planned_update [OF inv rp(1) _ _ t(1) p]) (use rp uniq 2 in auto)
    qed
  qed
  then show ?thesis
    by (intro plan_amount_update [OF inv rp(1), of ?P ?g n cs])
       (use rp cs le n t k in \<open>auto simp: planAdjusted_def\<close>)
qed

section \<open>Commands\<close>

text \<open>What the plan commands keep: the plans within their contracts and the balanced ledger.\<close>

definition book_inv :: "db \<Rightarrow> bool" where
  "book_inv d \<longleftrightarrow> ledger_inv d \<and> plan_inv d"

lemma book_inv_cong:
  assumes "ledgerTables d' = ledgerTables d" "planTables d' = planTables d"
  shows "book_inv d' = book_inv d"
  unfolding book_inv_def ledger_inv_cong [OF assms(1)] plan_inv_cong [OF assms(2)] by (rule refl)

lemma book_inv_frames:
  "scopeFrame d d' \<Longrightarrow> book_inv d' = book_inv d" "idemFrame d d' \<Longrightarrow> book_inv d' = book_inv d"
  "eventFrame d d' \<Longrightarrow> book_inv d' = book_inv d" "factFrame d d' \<Longrightarrow> book_inv d' = book_inv d"
  "creditFrame d d' \<Longrightarrow> book_inv d' = book_inv d"
  by (rule book_inv_cong, erule ledgerTables_frames, erule planTables_frames)+

lemma auditDeviation_frame:
  "auditPlanCoverageDeviation s e k p c r op d = Inr d' \<Longrightarrow> eventFrame d d'"
  unfolding auditPlanCoverageDeviation_def
  by (simp only: guard_eq_Inr branch_eq_Inr case_option_eq_Inr split: option.splits if_splits)
     (auto dest: outbox_frame simp: eventFrame_def)

lemma insert_receivable_inv:
  assumes inv: "ledger_inv d" and ins: "insert_row receivable_clash v (receivables d) = Inr t"
    and v: "0 < rv_original v" "rv_open v = rv_original v" "rv_received v = 0" "rv_writeoff v = 0"
      "rv_collection v = UNPAID"
  shows "ledger_inv (d\<lparr>receivables := t\<rparr>)"
proof -
  from ins have t: "t = receivables d @ [v]" and fresh: "\<forall>x \<in> set (receivables d). rv_id x \<noteq> rv_id v"
    by (auto simp: insert_row_Inr receivable_clash_def)
  have "keyed rv_id t" by (rule receivable_t.insert_keyed [OF ledger_invD(2) [OF inv] ins])
  then show ?thesis
    using inv v unreferenced_receivable [OF inv fresh] unfolding t by (auto simp: ledger_defs collectionFor_def)
qed

lemma ledger_inv_plans: "ledger_inv (d\<lparr>plans := t\<rparr>) = ledger_inv d"
  by (rule ledger_inv_cong) (simp add: ledgerTables_def)

lemma postReceivable_ledger:
  assumes inv: "ledger_inv d" and post: "postReceivable p rp reason v d = Inr d'"
    and v: "0 < rv_original v" "rv_open v = rv_original v" "rv_received v = 0" "rv_writeoff v = 0"
      "rv_collection v = UNPAID"
  shows "ledger_inv d'"
proof -
  from post obtain t pl where i: "insert_row receivable_clash v (receivables d) = Inr t"
    and d': "d' = d\<lparr>plans := pl, receivables := t\<rparr>"
    by (auto simp: postReceivable_def andThen_eq_Inr)
  then have "ledgerTables d' = ledgerTables (d\<lparr>receivables := t\<rparr>)" by (simp add: ledgerTables_def)
  from ledger_inv_cong [OF this] insert_receivable_inv [OF inv i v] show ?thesis by blast
qed

lemma adjust_receivable_inv:
  assumes inv: "ledger_inv d" and v: "v \<in> set (receivables d)" "rv_tenant v = tenant"
    and n: "0 < n" "rv_received v + rv_writeoff v \<le> n"
  shows "ledger_inv (d\<lparr>receivables := update_rows (\<lambda>x. rv_tenant x = tenant \<and> rv_id x = rv_id v)
           (receivableAdjusted day n) (receivables d)\<rparr>)"
    (is "ledger_inv ?d")
proof -
  let ?P = "\<lambda>x. rv_tenant x = tenant \<and> rv_id x = rv_id v"
  have t: "receivables ?d = update_rows ?P (receivableAdjusted day n) (receivables d)" by simp
  have sums: "matchedReceipt ?d = matchedReceipt d" "matchedReceivable ?d = matchedReceivable d" "heldOf ?d = heldOf d"
    "reversedOf ?d = reversedOf d"
    by (simp_all add: ledger_defs fun_eq_iff)
  have "receivable_ok ?d x" if x: "x \<in> set (receivables ?d)" for x
  proof -
    from x have "x \<in> set (update_rows ?P (receivableAdjusted day n) (receivables d))" by simp
    from receivable_t.in_update_by_key [OF ledger_invD(2) [OF inv] v(1) _ _ this] v(2)
    consider "x = receivableAdjusted day n v" | "x \<in> set (receivables d)" by auto
    then show ?thesis
    proof cases
      case 1
      with ledger_invD(14) [OF inv v(1)] matched_bounds(2) [OF inv] n show ?thesis
        by (auto simp: receivable_ok_def receivableAdjusted_def sums collectionFor_def collectionAfter_def order_le_less)
    next
      case 2
      with ledger_invD(14) [OF inv 2] show ?thesis by (simp add: receivable_ok_def sums)
    qed
  qed
  moreover have "receivable_of ?d a" if "receivable_of d a" for a
    by (rule receivable_of_update [OF _ t that]) (simp add: receivableAdjusted_def)
  moreover have "keyed rv_id (receivables ?d)"
    unfolding t by (rule receivable_t.update_keyed [OF ledger_invD(2) [OF inv]]) (simp add: receivableAdjusted_def)
  moreover have "receipt_ok ?d = receipt_ok d" "allocation_ok ?d = allocation_ok d" "receipt_of ?d = receipt_of d"
    "allocation_of ?d = allocation_of d" "difference_of ?d = difference_of d"
    by (simp_all add: fun_eq_iff receipt_ok_def allocation_ok_def receipt_of_def allocation_of_def difference_of_def sums)
  ultimately show ?thesis using inv by (simp add: ledger_inv_def ledger_keys_def ledger_refs_def)
qed

subsection \<open>The ledger leaves the plans alone\<close>

lemma map_facts_update: "(\<And>v. receivableFacts (f v) = receivableFacts v) \<Longrightarrow>
    map receivableFacts (update_rows P f t) = map receivableFacts t"
  by (rule map_update_rows_key)

lemma allocateLocked_plans:
  assumes "allocateLocked s e p key aid sn a i d = Inr (w, d')"
  shows "planTables d' = planTables d"
proof -
  from allocateLocked_Inr [OF assms] obtain r v d1
    where post: "postAllocation (newAllocation p key aid a i (rc_currency r)) r v d = Inr d1"
      and t: "ledgerTables d' = ledgerTables d1" "contractTables d' = contractTables d" by blast
  from t(1) have "receivables d' = receivables d1" by (simp add: ledgerTables_def)
  then have "map receivableFacts (receivables d') = map receivableFacts (receivables d)"
    unfolding postAllocation_Inr(1) [OF post]
    by (simp add: map_facts_update receivableAllocated_def receivableFacts_def)
  with t(2) show ?thesis by (simp add: planTables_def)
qed

lemma reverseLocked_plans:
  assumes "reverseLocked s e p key rid aid val i d = Inr (w, d')"
  shows "planTables d' = planTables d"
proof -
  from reverseLocked_Inr [OF assms] obtain al d2 opened d3
    where post: "postReversal (newReversal p key rid aid val i) al d2 = Inr (opened, d3)"
      and t: "ledgerTables d2 = ledgerTables d" "ledgerTables d' = ledgerTables d3" "contractTables d' = contractTables d"
    by blast
  from t(1,2) have "receivables d' = receivables d3" "receivables d2 = receivables d" by (simp_all add: ledgerTables_def)
  moreover have "map receivableFacts (receivables d3) = map receivableFacts (receivables d2)"
    using postReversal_Inr [OF post]
    by (auto simp: receivableReversed_def receivableFacts_def intro!: map_facts_update)
  ultimately show ?thesis using t(3) by (simp add: planTables_def)
qed

lemma ConfirmAllocation_plans:
  assumes "ConfirmAllocation s e out p key i d = Inr (w, d')"
  shows "planTables d' = planTables d"
proof -
  from assms obtain aid ev d1 where tx: "ConfirmAllocationTx s e p key i d = Inr ((aid, ev), d1)"
    and d': "d' = d1 \<or> d' = snd (RetryCreditSync s e out (p_tenant p) ev d1)"
    by (auto simp: ConfirmAllocation_def andThen_eq_Inr split: if_splits)
  have "planTables d1 = planTables d"
    using ConfirmAllocationTx_Inr [OF tx] allocateLocked_plans planTables_frames(4) by metis
  with d' planTables_frames(5) [OF RetryCreditSync_frame] show ?thesis by metis
qed

lemma ReverseAllocation_plans:
  assumes "ReverseAllocation s e out p key aid i d = Inr (w, d')"
  shows "planTables d' = planTables d"
proof -
  from assms obtain rid ev d1 where tx: "ReverseAllocationTx s e p key aid i d = Inr ((rid, ev), d1)"
    and d': "d' = d1 \<or> d' = snd (RetryCreditSync s e out (p_tenant p) ev d1)"
    by (auto simp: ReverseAllocation_def andThen_eq_Inr split: if_splits)
  have "planTables d1 = planTables d"
    using ReverseAllocationTx_Inr [OF tx] reverseLocked_plans planTables_frames(2) by metis
  with d' planTables_frames(5) [OF RetryCreditSync_frame] show ?thesis by metis
qed

lemma planTables_writes:
  "planTables (d\<lparr>receipts := t1\<rparr>) = planTables d" "planTables (d\<lparr>differences := t2\<rparr>) = planTables d"
  "planTables (d\<lparr>vouchers := t3\<rparr>) = planTables d" "planTables (d\<lparr>differences := t2, receipts := t1\<rparr>) = planTables d"
  "planTables (d\<lparr>receipts := t1, differences := t2\<rparr>) = planTables d"
  by (simp_all add: planTables_def contractTables_def)

lemma eventFrame_plans: "eventFrame d1 d' \<Longrightarrow> planTables d1 = planTables d \<Longrightarrow> planTables d' = planTables d"
  using planTables_frames(3) by metis

lemma claimReceipt_plans:
  assumes "claimReceipt s e p key rid a i d = Inr (w, r, d')"
  shows "planTables d' = planTables d"
proof -
  from assms obtain x b d1 where c: "claimImportFact s e p (ri_fact i) ''RECEIPT'' rid (jsonReceipt i) d = Inr (x, b, d1)"
    and or: "d' = d \<or> d' = d1 \<or> idemFrame d1 d'"
    by (auto simp: claimReceipt_def andThen_eq_Inr dest!: claimIdempotency_frame split: if_splits option.splits)
  from or planTables_frames(4) [OF claimImportFact_frame [OF c]] planTables_frames(2) [of d1 d'] show ?thesis by auto
qed

lemma CreateReceipt_plans:
  assumes "CreateReceipt s e p key i d = Inr (w, d')"
  shows "planTables d' = planTables d"
proof -
  let ?key = "importFactKey e (ri_fact i) key"
  from CreateReceipt_Inr [OF assms] obtain a i1 x b d1 where
    cl: "claimReceipt s e p ?key (e_ids e 0) a i1 d = Inr (x, b, d1)"
    and st: "if b then (x, d1) = (w, d') else storeReceipt e p ?key (e_ids e 0) a i1 d1 = Inr (w, d')" by blast
  have "planTables d1 = planTables d"
    by (rule claimReceipt_plans [OF cl])
  moreover have "planTables d' = planTables d1"
    using st storeReceipt_Inr [of e p ?key "e_ids e 0" a i1 d1 w d']
    by (auto split: if_splits elim!: eventFrame_plans simp: planTables_writes)
  ultimately show ?thesis by simp
qed

lemma CreateReceiptDifference_plans:
  assumes "CreateReceiptDifference s e p i d = Inr (w, d')"
  shows "planTables d' = planTables d"
proof (cases "d' = d")
  case False
  from CreateReceiptDifference_Inr [OF assms False] obtain val kind d1 r d2 t
    where fr1: "idemFrame d d1" and h: "holdAmount (p_tenant p) (di_receipt i) kind val r d1 = Inr d2"
      and fr: "eventFrame (d2\<lparr>differences := t\<rparr>) d'" by blast
  have "planTables d2 = planTables d1"
    using h by (auto simp: holdAmount_def planTables_writes split: if_splits)
  with planTables_frames(2) [OF fr1] planTables_frames(3) [OF fr] show ?thesis by (simp add: planTables_writes)
qed simp

lemma ledgerExec_plans:
  assumes "ledgerExec c d = Inr (u, d')"
  shows "planTables d' = planTables d"
proof (cases "(c, d)" rule: ledgerExec.cases)
  case (5 s e p did i d0)
  with assms show ?thesis
    by (auto simp: ResolveReceiptDifference_def Let_def andThen_eq_Inr planTables_writes split: if_splits option.splits
        dest!: outbox_frame elim!: eventFrame_plans)
next
  case (6 s e p did version d0)
  with assms show ?thesis
    by (auto simp: approveDifference_def planTables_writes dest!: ApproveReceiptDifference_Inr elim!: eventFrame_plans)
next
  case (7 s e p did i d0)
  with assms show ?thesis
    by (auto simp: ConfirmReceiptRefund_def Let_def andThen_eq_Inr planTables_writes split: if_splits
        dest!: outbox_frame elim!: eventFrame_plans)
next
  case (8 s e p wid d0)
  with assms show ?thesis
    by (auto simp: resMap_drop_Inr CreateAccountingVoucher_def Let_def andThen_eq_Inr planTables_writes
        split: if_splits option.splits dest!: outbox_frame elim!: eventFrame_plans)
next
  case (9 s e p erp vid d0)
  with assms show ?thesis
    by (auto simp: resMap_drop_Inr RetryAccountingVoucher_def Let_def andThen_eq_Inr planTables_writes
        split: if_splits prod.splits dest!: outbox_frame elim!: eventFrame_plans)
qed (use assms in \<open>auto simp: resMap_drop_Inr dest: CreateReceipt_plans ConfirmAllocation_plans
       ReverseAllocation_plans CreateReceiptDifference_plans\<close>)

lemma ledgerExec_book: "ledgerExec c d = Inr (u, d') \<Longrightarrow> book_inv d \<Longrightarrow> book_inv d'"
  using ledger.exec_inv plan_inv_cong [OF ledgerExec_plans] unfolding book_inv_def by blast

subsection \<open>The plan commands\<close>

lemma newManualPlan_amount [simp]: "newManualPlan p pid n (i\<lparr>mp_amount := x\<rparr>) = newManualPlan p pid n i"
  by (simp add: newManualPlan_def)

lemma CreateManualPlan_Inr:
  assumes "CreateManualPlan s e p key i d = Inr (w, d')"
  shows "(d' = d \<and> boundTo d (p_tenant p, ''CREATE_MANUAL_PLAN'', key) \<noteq> None) \<or>
    (\<exists>n d1 d2 cov d3 d4. amountCents (mp_amount i) = Inr n \<and> scopeFrame d d1 \<and> idemFrame d1 d2 \<and>
       requirePlanCoverage s p (mp_snapshot i) '''' (money n) '''' d2 = Inr cov \<and>
       insertPlan (newManualPlan p (e_ids e 0) n i) d2 = Inr d3 \<and> eventFrame d3 d4 \<and> eventFrame d4 d' \<and> w = e_ids e 0)"
proof -
  from assms obtain n d1 x b d2 where n: "amountCents (mp_amount i) = Inr n"
    and sc: "RequireContractAccessTx s p ''settlement.receivable.create'' (mp_snapshot i) d = Inr d1"
    and cl: "claimIdempotency e (p_tenant p) ''CREATE_MANUAL_PLAN'' key (e_ids e 0)
        (manualPlanRequest (i\<lparr>mp_amount := money n\<rparr>)) d1 = Inr (x, b, d2)"
    and rest: "(b \<and> d' = d) \<or> (\<exists>cov d3 d4.
       requirePlanCoverage s p (mp_snapshot i) '''' (money n) '''' d2 = Inr cov \<and>
       insertPlan (newManualPlan p (e_ids e 0) n i) d2 = Inr d3 \<and> eventFrame d3 d4 \<and> eventFrame d4 d' \<and> w = e_ids e 0)"
    unfolding CreateManualPlan_def Let_def
    by (auto simp: andThen_eq_Inr split: if_splits dest!: outbox_frame auditDeviation_frame) blast+
  have "b \<Longrightarrow> boundTo d1 (p_tenant p, ''CREATE_MANUAL_PLAN'', key) \<noteq> None"
    using cl by (cases "boundTo d1 (p_tenant p, ''CREATE_MANUAL_PLAN'', key)") (auto simp: claimIdempotency_fresh)
  moreover have "boundTo d1 = boundTo d"
    using RequireContractAccessTx_frame [OF sc] by (simp add: boundTo_def frame_simps fun_eq_iff)
  ultimately show ?thesis
    using n rest RequireContractAccessTx_frame [OF sc] claimIdempotency_frame [OF cl] by metis
qed

lemma CreateManualPlan_inv:
  assumes inv: "book_inv d" and ok: "CreateManualPlan s e p key i d = Inr (w, d')" and id: "e_ids e 0 \<noteq> ''''"
  shows "book_inv d'"
  using CreateManualPlan_Inr [OF ok]
proof (elim disjE exE conjE)
  fix n d1 d2 cov d3 d4
  assume n: "amountCents (mp_amount i) = Inr n" and fr: "scopeFrame d d1" "idemFrame d1 d2" "eventFrame d3 d4" "eventFrame d4 d'"
    and cov: "requirePlanCoverage s p (mp_snapshot i) '''' (money n) '''' d2 = Inr cov"
    and ins: "insertPlan (newManualPlan p (e_ids e 0) n i) d2 = Inr d3"
  have inv2: "book_inv d2" using inv book_inv_frames(1) [OF fr(1)] book_inv_frames(2) [OF fr(2)] by blast
  from requirePlanCoverage_Inr [OF cov] obtain cs where cs: "cs \<in> set (snapshots d2)"
    "effectiveSnapshot (p_tenant p) (mp_snapshot i) cs"
    "sum_rows (\<lambda>rp. planOf (p_tenant p) (mp_snapshot i) rp \<and> rp_id rp \<noteq> '''') rp_amount (plans d2) + n \<le> cs_amount cs"
    by blast
  have "plan_inv d3"
    by (rule insertPlan_inv [OF _ ins _ _ cs(1)])
       (use inv2 cs id amountCents_pos [OF n] in \<open>simp_all add: newManualPlan_def book_inv_def\<close>)
  moreover have t3: "ledgerTables d3 = ledgerTables d2"
    using ins by (auto simp: insertPlan_def ledgerTables_def split: sum.splits if_splits)
  from ledger_inv_cong [OF t3] calculation have "book_inv d3" using inv2 unfolding book_inv_def by blast
  then show ?thesis using book_inv_frames(3) [OF fr(3)] book_inv_frames(3) [OF fr(4)] by blast
qed (use inv in simp)

lemma ConfirmPlan_Inr:
  assumes "ConfirmPlan s e p pid i d = Inr (w, d')"
  shows "\<exists>rp cur d1 day n reason m cov d2 d3.
     rp \<in> set (plans d) \<and> pendingPlan (p_tenant p) pid (pi_version i) rp \<and> scopeFrame d d1 \<and>
     confirmedValues i rp = Inr (day, n, reason) \<and> migrationOf d1 (p_tenant p) (rp_snapshot rp) = Inr m \<and>
     (m = HOLD \<longrightarrow> n = rp_amount rp \<and> day = rp_due rp) \<and>
     requirePlanCoverage s p (rp_snapshot rp) pid (money n) (money (rp_amount rp)) d1 = Inr cov \<and>
     postReceivable p rp reason (newReceivable e p rp day n cur) d1 = Inr d2 \<and>
     eventFrame d2 d3 \<and> eventFrame d3 d'"
proof -
  from assms obtain rp cs d1 day n reason m cov d2 d3 where
    l: "lockPendingPlan (p_tenant p) pid (pi_version i) d = Inr (rp, cs)"
    and r: "RequireContractAccessTx s p ''settlement.receivable.confirm'' (rp_snapshot rp) d = Inr d1"
      "confirmedValues i rp = Inr (day, n, reason)" "migrationOf d1 (p_tenant p) (rp_snapshot rp) = Inr m"
      "m = HOLD \<longrightarrow> n = rp_amount rp \<and> day = rp_due rp"
      "requirePlanCoverage s p (rp_snapshot rp) pid (money n) (money (rp_amount rp)) d1 = Inr cov"
      "postReceivable p rp reason (newReceivable e p rp day n (cs_currency cs)) d1 = Inr d2"
      "eventFrame d2 d3" "eventFrame d3 d'"
    unfolding ConfirmPlan_def
    by (auto simp: andThen_eq_Inr split: if_splits dest!: outbox_frame auditDeviation_frame)
  from l have "find (pendingPlan (p_tenant p) pid (pi_version i)) (plans d) = Some rp"
    by (auto simp: lockPendingPlan_def andThen_eq_Inr query_row_Inr)
  from find_SomeD [OF this] r RequireContractAccessTx_frame [OF r(1)] show ?thesis by blast
qed

lemma confirmedValues_pos: "confirmedValues i rp = Inr (day, n, reason) \<Longrightarrow> 0 < rp_amount rp \<Longrightarrow> 0 < n"
  by (auto simp: confirmedValues_def Let_def andThen_eq_Inr split: if_splits dest: amountCents_pos)

lemma ConfirmPlan_inv:
  assumes inv: "book_inv d" and ok: "ConfirmPlan s e p pid i d = Inr (w, d')"
  shows "book_inv d'"
proof -
  from ConfirmPlan_Inr [OF ok] obtain rp cur d1 day n reason cov d2 d3 where
    rp: "rp \<in> set (plans d)" "pendingPlan (p_tenant p) pid (pi_version i) rp" and fr: "scopeFrame d d1" "eventFrame d2 d3" "eventFrame d3 d'"
    and val: "confirmedValues i rp = Inr (day, n, reason)"
    and cov: "requirePlanCoverage s p (rp_snapshot rp) pid (money n) (money (rp_amount rp)) d1 = Inr cov"
    and post: "postReceivable p rp reason (newReceivable e p rp day n cur) d1 = Inr d2" by blast
  have inv1: "book_inv d1" using inv book_inv_frames(1) [OF fr(1)] by blast
  have rp1: "rp \<in> set (plans d1)" "rp_tenant rp = p_tenant p" "rp_id rp = pid"
    using rp scopeFrame_tables(2) [OF fr(1)] by (simp_all add: pendingPlan_def)
  have "0 < rp_amount rp" using inv rp(1) by (simp add: book_inv_def plan_inv_def)
  with val have n: "0 < n" by (rule confirmedValues_pos)
  from requirePlanCoverage_Inr [OF cov] obtain c where c: "c \<in> set (snapshots d1)"
    "effectiveSnapshot (p_tenant p) (rp_snapshot rp) c"
    "sum_rows (\<lambda>x. planOf (p_tenant p) (rp_snapshot rp) x \<and> rp_id x \<noteq> pid) rp_amount (plans d1) + n \<le> cs_amount c"
    by blast
  have "plan_inv d2"
    by (rule postReceivable_inv [OF _ post rp1(1,2) _ _ _ _ c(1,2)])
       (use inv1 rp1 n c(3) in \<open>simp_all add: book_inv_def newReceivable_def\<close>)
  moreover have "ledger_inv d2"
    by (rule postReceivable_ledger [OF _ post]) (use inv1 n in \<open>simp_all add: book_inv_def newReceivable_def\<close>)
  ultimately show ?thesis
    using book_inv_frames(3) [OF fr(2)] book_inv_frames(3) [OF fr(3)] unfolding book_inv_def by blast
qed

lemma AdjustPlan_Inr:
  assumes "AdjustPlan s e p pid i d = Inr (w, d')"
  shows "\<exists>n rp v d1 cov d2. amountCents (pi_amount i) = Inr n \<and> rp \<in> set (plans d) \<and>
     confirmedPlan (p_tenant p) pid (pi_version i) rp \<and> v \<in> set (receivables d) \<and> rv_plan v = rp_id rp \<and>
     rv_tenant v = rp_tenant rp \<and> scopeFrame d d1 \<and> rv_received v + rv_writeoff v \<le> n \<and>
     rv_invoiced v + reservedOf d1 (p_tenant p) (rv_id v) \<le> n \<and>
     requirePlanCoverage s p (rp_snapshot rp) pid (money n) (money (rp_amount rp)) d1 = Inr cov \<and>
     eventFrame (postAdjustment p rp v (pi_due i) n (pi_reason i) d1) d2 \<and> eventFrame d2 d'"
proof -
  from assms obtain n rp v d1 cov d2 where
    l: "lockConfirmedPlan (p_tenant p) pid (pi_version i) d = Inr (rp, v)"
    and r: "amountCents (pi_amount i) = Inr n"
      "RequireContractAccessTx s p ''settlement.receivable.adjust'' (rp_snapshot rp) d = Inr d1"
      "rv_received v + rv_writeoff v \<le> n" "rv_invoiced v + reservedOf d1 (p_tenant p) (rv_id v) \<le> n"
      "requirePlanCoverage s p (rp_snapshot rp) pid (money n) (money (rp_amount rp)) d1 = Inr cov"
      "eventFrame (postAdjustment p rp v (pi_due i) n (pi_reason i) d1) d2" "eventFrame d2 d'"
    unfolding AdjustPlan_def
    by (auto simp: andThen_eq_Inr not_less split: if_splits dest!: outbox_frame auditDeviation_frame)
  from l have f: "find (confirmedPlan (p_tenant p) pid (pi_version i)) (plans d) = Some rp"
    "find (\<lambda>v. rv_plan v = rp_id rp \<and> rv_tenant v = rp_tenant rp) (receivables d) = Some v"
    by (auto simp: lockConfirmedPlan_def andThen_eq_Inr query_row_Inr)
  from find_SomeD [OF f(1)] find_SomeD [OF f(2)] r RequireContractAccessTx_frame [OF r(2)] show ?thesis by blast
qed

lemma postAdjustment_ledger:
  assumes "ledger_inv d" "v \<in> set (receivables d)" "rv_tenant v = p_tenant p" "0 < n" "rv_received v + rv_writeoff v \<le> n"
  shows "ledger_inv (postAdjustment p rp v day n reason d)"
  using adjust_receivable_inv [OF assms] ledger_inv_cong
  by (rule rev_iffD2) (simp add: postAdjustment_def ledgerTables_def)

lemma AdjustPlan_inv:
  assumes inv: "book_inv d" and ok: "AdjustPlan s e p pid i d = Inr (w, d')"
  shows "book_inv d'"
proof -
  from AdjustPlan_Inr [OF ok] obtain n rp v d1 cov d2 where n: "amountCents (pi_amount i) = Inr n"
    and rp: "rp \<in> set (plans d)" "confirmedPlan (p_tenant p) pid (pi_version i) rp"
    and v: "v \<in> set (receivables d)" "rv_plan v = rp_id rp" "rv_tenant v = rp_tenant rp" "rv_received v + rv_writeoff v \<le> n"
    and cov: "requirePlanCoverage s p (rp_snapshot rp) pid (money n) (money (rp_amount rp)) d1 = Inr cov"
    and fr: "scopeFrame d d1" "eventFrame (postAdjustment p rp v (pi_due i) n (pi_reason i) d1) d2" "eventFrame d2 d'"
    by metis
  let ?d = "postAdjustment p rp v (pi_due i) n (pi_reason i) d1"
  have inv1: "book_inv d1" using inv book_inv_frames(1) [OF fr(1)] by blast
  have rp1: "rp \<in> set (plans d1)" "rp_tenant rp = p_tenant p" "rp_id rp = pid" "rp_status rp = CONFIRMED"
    and v1: "v \<in> set (receivables d1)"
    using rp v(1) scopeFrame_tables(2,3) [OF fr(1)] by (simp_all add: confirmedPlan_def)
  from requirePlanCoverage_Inr [OF cov] obtain c where c: "c \<in> set (snapshots d1)"
    "effectiveSnapshot (p_tenant p) (rp_snapshot rp) c"
    "sum_rows (\<lambda>x. planOf (p_tenant p) (rp_snapshot rp) x \<and> rp_id x \<noteq> pid) rp_amount (plans d1) + n \<le> cs_amount c"
    by blast
  have "plan_inv ?d"
    by (rule postAdjustment_inv [OF _ rp1(1,2,4) v1 _ _ _ _ c(1,2)])
       (use inv1 rp1 v c(3) amountCents_pos [OF n] in \<open>simp_all add: book_inv_def ledger_inv_def ledger_keys_def\<close>)
  moreover have "ledger_inv ?d"
    by (rule postAdjustment_ledger) (use inv1 rp1 v v1 amountCents_pos [OF n] in \<open>simp_all add: book_inv_def\<close>)
  ultimately show ?thesis
    using book_inv_frames(3) [OF fr(2)] book_inv_frames(3) [OF fr(3)] unfolding book_inv_def by blast
qed

section \<open>Runs of the books\<close>

datatype book_command =
    LedgerCommand ledger_command
  | AddManualPlan string ManualPlanInput
  | ConfirmPlanOf string PlanConfirmationInput
  | AdjustPlanOf string PlanConfirmationInput
  | NoteProject string nat string

fun bookExec :: "book_command request \<Rightarrow> db \<Rightarrow> (unit \<times> db) res" where
  "bookExec (s, e, p, LedgerCommand c) d = ledgerExec (s, e, p, c) d"
| "bookExec (s, e, p, AddManualPlan key i) d = resMap (\<lambda>(_, d'). ((), d')) (CreateManualPlan s e p key i d)"
| "bookExec (s, e, p, ConfirmPlanOf pid i) d = ConfirmPlan s e p pid i d"
| "bookExec (s, e, p, AdjustPlanOf pid i) d = AdjustPlan s e p pid i d"
| "bookExec (s, e, p, NoteProject project version note) d = UpdateProjectMappingNote e p project version note d"

text \<open>The identifier of the new row is not empty.\<close>

definition issuesIds :: "'c request \<Rightarrow> bool" where
  "issuesIds c \<longleftrightarrow> (case c of (s, e, p, _) \<Rightarrow> e_ids e 0 \<noteq> '''')"

lemma UpdateProjectMappingNote_inv:
  assumes inv: "book_inv d" and ok: "UpdateProjectMappingNote e p project version note d = Inr (w, d')"
  shows "book_inv d'"
proof -
  from ok obtain t where fr: "eventFrame (d\<lparr>project_assignments := t\<rparr>) d'"
    by (auto simp: UpdateProjectMappingNote_def andThen_eq_Inr dest!: outbox_frame split: if_splits)
  have "book_inv (d\<lparr>project_assignments := t\<rparr>) = book_inv d"
    by (rule book_inv_cong) (simp_all add: ledgerTables_def planTables_def contractTables_def)
  then show ?thesis using inv book_inv_frames(3) [OF fr] by blast
qed

interpretation book: tx_commands bookExec issuesIds book_inv
proof
  fix d c u d'
  assume "book_inv d" "issuesIds c" "bookExec c d = Inr (u, d')"
  then show "book_inv d'"
    by (cases "(c, d)" rule: bookExec.cases)
       (auto simp: issuesIds_def resMap_drop_Inr dest: ledgerExec_book CreateManualPlan_inv ConfirmPlan_inv AdjustPlan_inv
          UpdateProjectMappingNote_inv)
qed

subsection \<open>What a contract is billed\<close>

definition billed :: "db \<Rightarrow> contract_snapshot \<Rightarrow> int" where
  "billed d cs = sum_rows (\<lambda>v. rv_tenant v = cs_tenant cs \<and> rv_snapshot v = cs_id cs) rv_original (receivables d)"

lemma sum_rows_set: "distinct t \<Longrightarrow> sum_rows P g t = sum g {r \<in> set t. P r}"
  by (simp add: sum_rows_def sum_list_distinct_conv_sum_set Collect_conj_eq)

lemma keyed_distinct: "keyed k t \<Longrightarrow> distinct t"
  by (simp add: keyed_def distinct_map)

lemma billed_le_planTotal:
  assumes inv: "plan_inv d"
  shows "billed d cs \<le> planTotal d cs"
proof -
  let ?V = "{v \<in> set (receivables d). rv_tenant v = cs_tenant cs \<and> rv_snapshot v = cs_id cs}"
  let ?P = "{rp \<in> set (plans d). planOf (cs_tenant cs) (cs_id cs) rp}"
  have "\<forall>v \<in> ?V. \<exists>rp \<in> ?P. rp_id rp = rv_plan v \<and> rp_amount rp = rv_original v"
    using inv by (auto simp: plan_inv_def planned_def planOf_def) (metis (no_types, lifting))
  then obtain h where h: "\<And>v. v \<in> ?V \<Longrightarrow> h v \<in> ?P \<and> rp_id (h v) = rv_plan v \<and> rp_amount (h v) = rv_original v"
    by (metis (mono_tags, lifting))
  have "inj_on rv_plan (set (receivables d))" using inv by (simp add: plan_inv_def keyed_def distinct_map)
  then have inj: "inj_on h ?V"
    by (intro inj_onI) (metis (no_types, lifting) CollectD h inj_onD)
  have "billed d cs = sum rv_original ?V" unfolding billed_def
    using inv by (intro sum_rows_set) (auto simp: plan_inv_def dest: keyed_distinct)
  also have "\<dots> = sum (\<lambda>v. rp_amount (h v)) ?V" by (rule sum.cong) (use h in auto)
  also have "\<dots> = sum rp_amount (h ` ?V)" using sum.reindex [OF inj, of rp_amount] by (simp add: comp_def)
  also have "\<dots> \<le> sum rp_amount ?P"
    by (rule sum_mono2) (use h inv in \<open>auto simp: plan_inv_def less_imp_le\<close>)
  also have "\<dots> = planTotal d cs" unfolding planTotal_def
    using inv by (intro sum_rows_set [symmetric]) (auto simp: plan_inv_def dest: keyed_distinct)
  finally show ?thesis .
qed

section \<open>Properties\<close>

text \<open>A contract of 100.00 with one plan of 60.00 that waits for confirmation.\<close>

definition sampleDraft :: db where
  "sampleDraft = empty_db\<lparr>snapshots := [sampleSnapshot],
     plans := [samplePlan\<lparr>rp_amount := 6000, rp_status := PENDING_CONFIRMATION\<rparr>]\<rparr>"

definition sampleConfirm :: PlanConfirmationInput where
  "sampleConfirm = \<lparr>pi_version = 1, pi_due = '''', pi_amount = money 8000, pi_reason = ''x''\<rparr>"

lemma sampleDraft_inv: "book_inv sampleDraft"
  by (simp add: book_inv_def sampleDraft_def ledger_defs sample_defs keyed_def plan_inv_def within_contract_def
      planTotal_def sum_rows_def planOf_def)

lemma sample_date_june: "parseDate ''2024-06-30'' = Some (2024, 6, 30)"
  by (simp add: parseDate_def text_eval showDate.simps daysIn_def)

lemma sample_reason [simp]: "trimSpace ''x'' = ''x''"
  by (simp add: plain_def byte_def asciiSpace_def)

lemma money_not_empty [simp]: "money n \<noteq> ''''"
  by (cases "0 \<le> n") (simp_all add: money_nonneg money_neg)

lemma sampleUser_access [simp]: "Allows (sampleUser u) perm" "Unrestricted sampleService (sampleUser u) perm"
  "p_tenant (sampleUser u) = ''T''" "p_user (sampleUser u) = u"
  by (simp_all add: Allows_def Unrestricted_def sampleUser_def permitted_def)

lemma sampleDraft_rows [simp]: "snapshots sampleDraft = [sampleSnapshot]"
  "plans sampleDraft = [samplePlan\<lparr>rp_amount := 6000, rp_status := PENDING_CONFIRMATION\<rparr>]" "receivables sampleDraft = []"
  by (simp_all add: sampleDraft_def empty_db_def)

lemma sample_access: "perm = ''settlement.receivable.confirm'' \<Longrightarrow> RequireContractAccessTx sampleService (sampleUser u) perm ''S'' sampleDraft = Inr sampleDraft"
  by (simp add: RequireContractAccessTx_def lockContractResponsibilities_def lockImportWrite_def migrationOf_def
     blockedOnHold_def query_row_def) (simp add: sampleSnapshot_def)

lemma sample_values: "confirmedValues sampleConfirm (samplePlan\<lparr>rp_amount := 6000, rp_status := PENDING_CONFIRMATION\<rparr>) = Inr (''2024-06-30'', 8000, ''x'')"
  by (simp add: confirmedValues_def sampleConfirm_def samplePlan_def sample_date_june)

lemma sample_lock: "lockPendingPlan ''T'' ''P'' 1 sampleDraft =
    Inr (samplePlan\<lparr>rp_amount := 6000, rp_status := PENDING_CONFIRMATION\<rparr>, sampleSnapshot)"
  by (simp add: lockPendingPlan_def query_row_def pendingPlan_def samplePlan_def sampleSnapshot_def)

lemma sample_coverage:
  "\<exists>cov. requirePlanCoverage sampleService (sampleUser u) ''S'' ''P'' (money 8000) (money 6000) sampleDraft = Inr cov \<and>
     ratSetString (pc_gap cov) = Some 20"
proof -
  have g: "floatString 2 (20::rat) = money 2000" "floatString 2 (80::rat) = money 8000" by (simp_all add: money_def)
  have m: "decimalGreater (money 8000) (money 10000) = Some False" by simp
  show ?thesis
    by (simp add: requirePlanCoverage_def inspectPlanCoverage_def query_row_def effectiveSnapshot_def sum_rows_def
        evaluatePlanCoverage_def Let_def planCoverageThresholds_def planCoveragePercentLimit_def sampleService_def
        samplePlan_def sampleSnapshot_def dropOf_def g m)
qed

text \<open>When every check passes and the identifiers are fresh, the confirmation goes through.\<close>

lemma audit_total:
  assumes "e_ids e k \<notin> eventIds d" "e_ids e (Suc k) \<notin> eventIds d"
  shows "\<exists>d'. auditPlanCoverageDeviation s e k p c r op d = Inr d'"
proof -
  have "\<exists>d'. outbox e k t ds et aty aid b d = Inr d'" for t ds et aty aid b
    using outbox_total [OF assms] by blast
  then show ?thesis
    unfolding auditPlanCoverageDeviation_def by (cases "ratSetString (pc_gap c)") simp_all
qed

lemma ConfirmPlan_total:
  assumes "Allows p ''settlement.receivable.confirm''" "1 \<le> pi_version i"
    and "lockPendingPlan (p_tenant p) pid (pi_version i) d = Inr (rp, cs)"
    and "RequireContractAccessTx s p ''settlement.receivable.confirm'' (rp_snapshot rp) d = Inr d1"
    and "confirmedValues i rp = Inr (day, n, reason)"
    and "migrationOf d1 (p_tenant p) (rp_snapshot rp) = Inr m" "m \<noteq> HOLD \<or> n = rp_amount rp \<and> day = rp_due rp"
    and "requirePlanCoverage s p (rp_snapshot rp) pid (money n) (money (rp_amount rp)) d1 = Inr cov"
    and "postReceivable p rp reason (newReceivable e p rp day n (cs_currency cs)) d1 = Inr d2"
    and ids: "e_ids e 2 \<notin> eventIds d2" "e_ids e 3 \<notin> eventIds d2" "e_ids e 4 \<notin> eventIds d2" "e_ids e 5 \<notin> eventIds d2"
      "distinct [e_ids e 2, e_ids e 3, e_ids e 4, e_ids e 5]"
  shows "\<exists>d'. ConfirmPlan s e p pid i d = Inr ((), d')"
proof -
  have "\<exists>d4. andThen (outbox e 2 t ds et aty aid b d2)
      (\<lambda>d3. andThen (auditPlanCoverageDeviation s e 4 p cov reason op d3) (\<lambda>d4. Inr ((), d4))) = Inr ((), d4)"
    for t ds et aty aid b op
  proof -
    obtain d3 where d3: "outbox e 2 t ds et aty aid b d2 = Inr d3" "eventIds d3 \<subseteq> eventIds d2 \<union> {e_ids e 2, e_ids e 3}"
      using outbox_total [of e 2 d2 t ds et aty aid b] ids(1,2) by (auto simp: numeral_3_eq_3 numeral_2_eq_2)
    have "e_ids e 4 \<notin> eventIds d3" "e_ids e (Suc 4) \<notin> eventIds d3"
      using d3(2) ids by auto
    from audit_total [OF this, of s p cov reason op] obtain d4
      where "auditPlanCoverageDeviation s e 4 p cov reason op d3 = Inr d4" by blast
    with d3(1) show ?thesis by simp
  qed
  with assms(1-9) show ?thesis by (auto simp: ConfirmPlan_def)
qed

lemma sample_confirm:
  "\<exists>d. ConfirmPlan sampleService (sampleEnv [''V'', ''N'', ''o2'', ''o3'', ''o4'', ''o5'']) (sampleUser ''bob'') ''P''
        sampleConfirm sampleDraft = Inr ((), d)"
proof -
  let ?e = "sampleEnv [''V'', ''N'', ''o2'', ''o3'', ''o4'', ''o5'']"
  let ?rp = "samplePlan\<lparr>rp_amount := 6000, rp_status := PENDING_CONFIRMATION\<rparr>"
  from sample_coverage [of "''bob''"] obtain cov where cov:
    "requirePlanCoverage sampleService (sampleUser ''bob'') ''S'' ''P'' (money 8000) (money 6000) sampleDraft = Inr cov"
    by blast
  have m: "migrationOf sampleDraft ''T'' ''S'' = Inr RELEASED"
    by (simp add: migrationOf_def query_row_def) (simp add: sampleSnapshot_def)
  obtain d2 where post: "postReceivable (sampleUser ''bob'') ?rp ''x'' (newReceivable ?e (sampleUser ''bob'') ?rp
        ''2024-06-30'' 8000 (cs_currency sampleSnapshot)) sampleDraft = Inr d2" and ev: "eventIds d2 = {}"
    by (simp add: postReceivable_def insert_row_def) (simp add: eventIds_def sampleDraft_def empty_db_def)
  have v: "pi_version sampleConfirm = 1" "rp_snapshot samplePlan = ''S''" by (simp_all add: sampleConfirm_def samplePlan_def)
  show ?thesis
    by (rule ConfirmPlan_total [of _ _ _ _ ?rp, where ?d1.0 = sampleDraft and m = RELEASED and cov = cov and ?d2.0 = d2, OF _ _ _ _ sample_values _ _ _ post])
       (simp_all add: v sample_lock sample_access cov m ev, simp add: sampleEnv_def)
qed

text \<open>C5: whatever sequence of receipts, allocations, reversals, differences, vouchers, manual
  plans, confirmations and adjustments runs, an effective contract is never billed more than its
  plans, its plans never exceed the contract amount, and every receivable is a confirmed plan of
  the same amount.\<close>

theorem contract_never_overbilled:
  assumes "book_inv d" "\<forall>c \<in> set cmds. issuesIds c" and d': "d' = run_commands bookExec cmds d"
    and cs: "cs \<in> set (snapshots d')" "cs_status cs = EFFECTIVE"
  shows "billed d' cs \<le> planTotal d' cs \<and> planTotal d' cs \<le> cs_amount cs \<and>
    (\<forall>v \<in> set (receivables d'). planned d' v)"
proof -
  have inv: "plan_inv d'" unfolding d' using book.run_inv [OF assms(1)] assms(2) by (simp add: book_inv_def)
  then show ?thesis
    using billed_le_planTotal [OF inv, of cs] cs by (simp add: plan_inv_def within_contract_def)
qed

definition sampleConfirmRun :: "book_command request list" where
  "sampleConfirmRun = [(sampleService, sampleEnv [''V'', ''N'', ''o2'', ''o3'', ''o4'', ''o5''],
     sampleUser ''bob'', ConfirmPlanOf ''P'' sampleConfirm)]"

lemma ConfirmPlan_snapshots:
  assumes "ConfirmPlan s e p pid i d = Inr (w, d')"
  shows "map snapshotFacts (snapshots d') = map snapshotFacts (snapshots d)"
proof -
  from ConfirmPlan_Inr [OF assms] obtain rp reason v d1 d2 d3 where fr: "scopeFrame d d1" "eventFrame d2 d3" "eventFrame d3 d'"
    and post: "postReceivable p rp reason v d1 = Inr d2" by metis
  from post have "snapshots d2 = snapshots d1" by (auto simp: postReceivable_def andThen_eq_Inr)
  then show ?thesis using contractTables_frames(1) [OF fr(1)] contractTables_frames(3) [OF fr(2)]
      contractTables_frames(3) [OF fr(3)] by (simp add: contractTables_def)
qed

theorem contract_never_overbilled_witness:
  "\<exists>cs \<in> set (snapshots (run_commands bookExec sampleConfirmRun sampleDraft)). cs_amount cs = 10000 \<and>
     planTotal (run_commands bookExec sampleConfirmRun sampleDraft) cs \<le> cs_amount cs"
proof -
  from sample_confirm obtain d where ok: "ConfirmPlan sampleService (sampleEnv [''V'', ''N'', ''o2'', ''o3'', ''o4'', ''o5''])
    (sampleUser ''bob'') ''P'' sampleConfirm sampleDraft = Inr ((), d)" by blast
  then have run: "run_commands bookExec sampleConfirmRun sampleDraft = d" by (simp add: sampleConfirmRun_def commit_def)
  from ConfirmPlan_snapshots [OF ok] obtain x where x: "snapshots d = [x]" "snapshotFacts x = snapshotFacts sampleSnapshot"
    by auto
  from arg_cong [OF x(2), of cs_status] arg_cong [OF x(2), of cs_amount]
  have "cs_status x = EFFECTIVE" "cs_amount x = 10000" by (simp_all, simp_all add: sampleSnapshot_def)
  moreover from this(1) have "billed d x \<le> planTotal d x \<and> planTotal d x \<le> cs_amount x \<and> (\<forall>v \<in> set (receivables d). planned d v)"
    by (intro contract_never_overbilled [OF sampleDraft_inv _ run [symmetric]])
       (simp_all add: x(1), simp add: sampleConfirmRun_def issuesIds_def sampleEnv_def)
  ultimately show ?thesis by (simp add: run x(1))
qed

lemma lockPendingPlan_confirmed:
  assumes "\<And>x. x \<in> set (plans d) \<Longrightarrow> rp_id x = pid \<Longrightarrow> rp_tenant x = t \<Longrightarrow> rp_status x = CONFIRMED"
  shows "lockPendingPlan t pid version d = Inl ErrConflict"
proof -
  have "find (pendingPlan t pid version) (plans d) = None"
    using assms by (auto simp: find_None_iff pendingPlan_def)
  then show ?thesis by (simp add: lockPendingPlan_def query_row_def)
qed

lemma confirmed_reason:
  assumes "confirmedValues i rp = Inr (day, n, reason)" "day \<noteq> rp_due rp \<or> n \<noteq> rp_amount rp"
  shows "reason \<noteq> ''''"
  using assms by (auto simp: confirmedValues_def Let_def andThen_eq_Inr split: if_splits)

lemma find_map_facts: "find P (map f t) = map_option f (find (\<lambda>x. P (f x)) t)"
  by (induction t) auto

lemma migrationOf_facts:
  assumes "map snapshotFacts (snapshots d') = map snapshotFacts (snapshots d)"
  shows "migrationOf d' t sn = migrationOf d t sn"
proof -
  let ?Q = "\<lambda>cs. cs_tenant cs = t \<and> cs_id cs = sn"
  have m: "migrationOf x t sn = (case find ?Q (map snapshotFacts (snapshots x)) of None \<Rightarrow> Inl SqlNoRows | Some cs \<Rightarrow> Inr (cs_migration cs))" for x
    unfolding find_map_facts by (cases "find ?Q (snapshots x)") (simp_all add: migrationOf_def query_row_def)
  show ?thesis unfolding m using assms by simp
qed

lemma snapshot_of_facts:
  assumes "map snapshotFacts (snapshots d') = map snapshotFacts (snapshots d)" "cs \<in> set (snapshots d')"
  shows "\<exists>c \<in> set (snapshots d). snapshotFacts c = snapshotFacts cs"
  using assms by (metis (no_types, lifting) image_iff set_map)

lemma confirmed_by_update:
  assumes k: "keyed rp_id t" and rp: "rp \<in> set t" "pendingPlan tenant pid ver rp"
    and x: "x \<in> set (update_rows (\<lambda>x. rp_id x = rp_id rp \<and> rp_tenant x = tenant \<and> rp_version x = rp_version rp)
      (planConfirmed day n reason) t)" "rp_id x = pid"
  shows "rp_status x = CONFIRMED"
proof -
  have "rp_id rp = pid" "rp_tenant rp = tenant" using rp(2) by (simp_all add: pendingPlan_def)
  with plan_t.in_update_by_key [OF k rp(1) _ _ x(1)] x(2) have "x = planConfirmed day n reason rp" by auto
  then show ?thesis by (simp add: planConfirmed_def)
qed

text \<open>C33: confirming a plan. Success means the plan waited for confirmation at the stated
  version; exactly one receivable is added, open in full for the confirmed amount; a changed day
  or amount carries a reason and its contract is not held for import; the total with the other
  plans stays within the contract amount, and without the override permission it falls short of
  it by at most the configured percentage. The plan is then confirmed, so no second confirmation,
  of any version, by anyone, can add another receivable: it is a conflict.\<close>

theorem plan_confirmed_once:
  assumes inv: "book_inv d" and ok: "ConfirmPlan s e p pid i d = Inr (w, d')"
    and again: "Allows q ''settlement.receivable.confirm''" "p_tenant q = p_tenant p" "1 \<le> pi_version i'"
  shows "(\<exists>rp v cs m. rp \<in> set (plans d) \<and> pendingPlan (p_tenant p) pid (pi_version i) rp \<and>
      receivables d' = receivables d @ [v] \<and> rv_plan v = pid \<and> rv_snapshot v = rp_snapshot rp \<and>
      rv_open v = rv_original v \<and> rv_received v = 0 \<and> rv_collection v = UNPAID \<and>
      migrationOf d (p_tenant p) (rp_snapshot rp) = Inr m \<and>
      (rv_original v \<noteq> rp_amount rp \<or> rv_due v \<noteq> rp_due rp \<longrightarrow> trimSpace (pi_reason i) \<noteq> '''' \<and> m \<noteq> HOLD) \<and>
      cs \<in> set (snapshots d) \<and> effectiveSnapshot (p_tenant p) (rp_snapshot rp) cs \<and>
      planTotal d cs - rp_amount rp + rv_original v \<le> cs_amount cs \<and>
      (\<not> Allows p ''settlement.finance.override'' \<longrightarrow>
         of_int (cs_amount cs - (planTotal d cs - rp_amount rp + rv_original v)) * 100
           \<le> of_int (cs_amount cs) * fst (planCoverageThresholds s))) \<and>
    ConfirmPlan s' e' q pid i' d' = Inl ErrConflict"
proof -
  from ConfirmPlan_Inr [OF ok] obtain rp cur d1 day n reason m cov d2 d3 where
    rp: "rp \<in> set (plans d)" "pendingPlan (p_tenant p) pid (pi_version i) rp"
    and fr: "scopeFrame d d1" "eventFrame d2 d3" "eventFrame d3 d'"
    and val: "confirmedValues i rp = Inr (day, n, reason)" and m: "migrationOf d1 (p_tenant p) (rp_snapshot rp) = Inr m"
      "m = HOLD \<longrightarrow> n = rp_amount rp \<and> day = rp_due rp"
    and cov: "requirePlanCoverage s p (rp_snapshot rp) pid (money n) (money (rp_amount rp)) d1 = Inr cov"
    and post: "postReceivable p rp reason (newReceivable e p rp day n cur) d1 = Inr d2" by blast
  let ?v = "newReceivable e p rp day n cur"
  note facts = scopeFrame_tables(2,3) [OF fr(1)]
  have sn: "map snapshotFacts (snapshots d1) = map snapshotFacts (snapshots d)" using fr(1) by (simp add: scopeFrame_def)
  have d': "receivables d' = receivables d2" "plans d' = plans d2" using fr(2,3) by (simp_all add: frame_simps)
  from post have rv: "receivables d2 = receivables d @ [?v]"
    and pl: "plans d2 = update_rows (\<lambda>x. rp_id x = rp_id rp \<and> rp_tenant x = p_tenant p \<and> rp_version x = rp_version rp)
      (planConfirmed day n reason) (plans d)"
    by (auto simp: postReceivable_def andThen_eq_Inr insert_row_Inr newReceivable_def facts)
  have pinv: "plan_inv d" and k: "keyed rp_id (plans d)" and pos: "0 < n"
    using inv rp(1) confirmedValues_pos [OF val] by (simp_all add: book_inv_def plan_inv_def)
  from requirePlanCoverage_Inr [OF cov] obtain c where c: "c \<in> set (snapshots d1)"
    "effectiveSnapshot (p_tenant p) (rp_snapshot rp) c"
    and le: "sum_rows (\<lambda>x. planOf (p_tenant p) (rp_snapshot rp) x \<and> rp_id x \<noteq> pid) rp_amount (plans d1) + n \<le> cs_amount c"
      "\<not> Allows p ''settlement.finance.override'' \<longrightarrow> 0 < cs_amount c \<longrightarrow>
        of_int (cs_amount c - (sum_rows (\<lambda>x. planOf (p_tenant p) (rp_snapshot rp) x \<and> rp_id x \<noteq> pid) rp_amount (plans d1) + n)) * 100
          \<le> of_int (cs_amount c) * fst (planCoverageThresholds s)"
    by (elim bexE conjE) (rule that; assumption)
  from snapshot_of_facts [OF sn c(1)] obtain cs where cs: "cs \<in> set (snapshots d)" "snapshotFacts cs = snapshotFacts c" by blast
  from arg_cong [OF cs(2), of cs_id] arg_cong [OF cs(2), of cs_tenant] arg_cong [OF cs(2), of cs_status] arg_cong [OF cs(2), of cs_amount]
  have eff: "effectiveSnapshot (p_tenant p) (rp_snapshot rp) cs" and am: "cs_amount cs = cs_amount c"
    using c(2) by (simp_all add: effectiveSnapshot_def)
  have tot: "sum_rows (\<lambda>x. planOf (p_tenant p) (rp_snapshot rp) x \<and> rp_id x \<noteq> pid) rp_amount (plans d1) = planTotal d cs - rp_amount rp"
    using plan_t.sum_except [OF k rp(1), of "planOf (p_tenant p) (rp_snapshot rp)" rp_amount] rp(2) eff
    by (simp add: facts planTotal_def effectiveSnapshot_def pendingPlan_def) (simp add: planOf_def)
  have nonneg: "0 \<le> sum_rows (\<lambda>x. planOf (p_tenant p) (rp_snapshot rp) x \<and> rp_id x \<noteq> pid) rp_amount (plans d1)"
    using pinv by (intro sum_rows_nonneg) (auto simp: facts plan_inv_def less_imp_le)
  then have "0 < cs_amount c" using le(1) pos by simp
  have "rp_status x = CONFIRMED" if "x \<in> set (plans d')" "rp_id x = pid" "rp_tenant x = p_tenant q" for x
    using confirmed_by_update [OF k rp] that again(2) unfolding d' pl by simp
  from lockPendingPlan_confirmed [OF this] again
  have "ConfirmPlan s' e' q pid i' d' = Inl ErrConflict" by (simp add: ConfirmPlan_def)
  moreover have "reason = trimSpace (pi_reason i)"
    using val by (auto simp: confirmedValues_def Let_def andThen_eq_Inr split: if_splits)
  ultimately show ?thesis
    using rp rv d' m cs(1) eff am le tot \<open>0 < cs_amount c\<close> migrationOf_facts [OF sn] confirmed_reason [OF val]
    by (intro conjI exI [of _ rp] exI [of _ ?v] exI [of _ cs] exI [of _ m]) (auto simp: newReceivable_def pendingPlan_def)
qed

theorem plan_confirmed_once_witness:
  "\<exists>d. ConfirmPlan sampleService (sampleEnv [''V'', ''N'', ''o2'', ''o3'', ''o4'', ''o5'']) (sampleUser ''bob'') ''P''
        sampleConfirm sampleDraft = Inr ((), d) \<and> length (receivables d) = 1 \<and>
     ConfirmPlan sampleService (sampleEnv []) (sampleUser ''eve'') ''P'' (sampleConfirm\<lparr>pi_version := 2\<rparr>) d = Inl ErrConflict"
proof -
  from sample_confirm obtain d where ok: "ConfirmPlan sampleService (sampleEnv [''V'', ''N'', ''o2'', ''o3'', ''o4'', ''o5''])
    (sampleUser ''bob'') ''P'' sampleConfirm sampleDraft = Inr ((), d)" by blast
  have "length (receivables d) = 1 \<and>
     ConfirmPlan sampleService (sampleEnv []) (sampleUser ''eve'') ''P'' (sampleConfirm\<lparr>pi_version := 2\<rparr>) d = Inl ErrConflict"
    using plan_confirmed_once [OF sampleDraft_inv ok, of "sampleUser ''eve''" "sampleConfirm\<lparr>pi_version := 2\<rparr>"
      sampleService "sampleEnv []"] by auto
  with ok show ?thesis by blast
qed

end
