(* ===== verification/InvoiceRules.thy ===== *)
theory InvoiceRules
  imports Plans Ledger
begin

text \<open>
  The rules an invoice request is checked against: the controlled fields of invoice parties,
  types, numbers and dates (invoice_input_validation.go), the arithmetic of invoice lines
  (invoice_items.go), the tenant's settings with the tax rates and the threshold of the special
  review (role_settings.go, tax_rules.go), and the balance that can still be invoiced
  (invoice_reservation.go).
\<close>

section \<open>Types, parties, numbers, dates\<close>

definition invoiceTypeValues :: "string list" where
  "invoiceTypeValues = [''ELECTRONIC_NORMAL'', ''ELECTRONIC_SPECIAL'', ''PAPER_NORMAL'', ''PAPER_SPECIAL'',
     ''VAT_NORMAL'', ''VAT_SPECIAL'']"

definition invoiceTypeLimit :: nat where
  "invoiceTypeLimit = 32"

definition normalizeInvoiceType :: "string \<Rightarrow> string res" where
  "normalizeInvoiceType value =
     (let normalized = toUpper (trimSpace value) in
      if normalized = '''' then Inl ErrInvalid
      else if length normalized > invoiceTypeLimit then Inl ErrInvalid
      else if normalized \<notin> set invoiceTypeValues then Inl ErrInvalid
      else Inr normalized)"

definition isUpper :: "char \<Rightarrow> bool" where
  "isUpper c \<longleftrightarrow> 65 \<le> byte c \<and> byte c \<le> 90"

text \<open>\<open>^[A-Z][A-Z0-9_]*$\<close>.\<close>

definition invoiceTypeStoredPattern :: "string \<Rightarrow> bool" where
  "invoiceTypeStoredPattern s \<longleftrightarrow>
     s \<noteq> [] \<and> isUpper (hd s) \<and> list_all (\<lambda>c. isUpper c \<or> isDigit c \<or> c = CHR ''_'') (tl s)"

definition validateStoredInvoiceType :: "string \<Rightarrow> string res" where
  "validateStoredInvoiceType value =
     (let normalized = toUpper (trimSpace value) in
      if normalized = '''' then Inl ErrInvalid
      else if length normalized > invoiceTypeLimit \<or> \<not> invoiceTypeStoredPattern normalized then Inl ErrInvalid
      else Inr normalized)"

definition buyerProfileFields :: "(string \<times> nat) list" where
  "buyerProfileFields = [(''customer_id'', 128), (''name'', 255), (''tax_no'', 64), (''address'', 255),
     (''phone'', 64), (''bank_name'', 255), (''bank_account'', 64)]"

definition sellerProfileFields :: "(string \<times> nat) list" where
  "sellerProfileFields = [(''name'', 255), (''tax_no'', 64), (''address'', 255),
     (''phone'', 64), (''bank_name'', 255), (''bank_account'', 64)]"

text \<open>One entry of a profile; then the loop over the map, whose errors are all the same.\<close>

definition normalizeProfileField :: "(string \<times> nat) list \<Rightarrow> string \<times> json \<Rightarrow> (string \<times> json) res" where
  "normalizeProfileField allowed kv =
     (case map_of allowed (fst kv) of
        None \<Rightarrow> Inl ErrInvalid
      | Some limit \<Rightarrow>
         (case snd kv of
            JStr raw \<Rightarrow>
              let text = trimSpace raw in
              if textTooLong text limit then Inl ErrInvalid
              else if hasControl text then Inl ErrInvalid
              else Inr (fst kv, JStr text)
          | _ \<Rightarrow> Inl ErrInvalid))"

fun normalizeInvoiceProfile :: "payload \<Rightarrow> (string \<times> nat) list \<Rightarrow> payload res" where
  "normalizeInvoiceProfile [] allowed = Inr []"
| "normalizeInvoiceProfile (kv # profile) allowed =
     andThen (normalizeProfileField allowed kv) (\<lambda>kv'.
     andThen (normalizeInvoiceProfile profile allowed) (\<lambda>rest. Inr (kv' # rest)))"

definition requireBuyerProfileCustomer :: "payload \<Rightarrow> string \<Rightarrow> unit res" where
  "requireBuyerProfileCustomer profile snapshotCustomer =
     (case jget profile ''customer_id'' of
        Some (JStr customerID) \<Rightarrow>
          if customerID = '''' then Inr ()
          else if customerID \<noteq> trimSpace snapshotCustomer then Inl ErrInvalid else Inr ()
      | _ \<Rightarrow> Inr ())"

definition documentChar :: "char \<Rightarrow> bool" where
  "documentChar c \<longleftrightarrow> isUpper c \<or> (97 \<le> byte c \<and> byte c \<le> 122) \<or> isDigit c \<or> c = CHR ''-''"

definition validateInvoiceDocumentNumber :: "string \<Rightarrow> unit res" where
  "validateInvoiceDocumentNumber value =
     (if value = '''' then Inl ErrInvalid
      else if runeCount value > 32 then Inl ErrInvalid
      else if \<not> list_all documentChar value then Inl ErrInvalid
      else Inr ())"

definition validateInvoiceIssueDateOn :: "string \<Rightarrow> date \<Rightarrow> string res" where
  "validateInvoiceIssueDateOn value today =
     (let normalized = trimSpace value in
      case parseDate normalized of
        None \<Rightarrow> Inl ErrInvalid
      | Some day \<Rightarrow> if dateLess today day then Inl ErrInvalid else Inr normalized)"

section \<open>Invoice lines\<close>

text \<open>
  \<open>x, _ := new(big.Rat).SetString(s)\<close>, used on texts that \<open>decimal\<close> or
  \<open>FloatString\<close> produced; those always parse.
\<close>

definition ratOf :: "string \<Rightarrow> rat" where
  "ratOf s = (case ratSetString s of None \<Rightarrow> 0 | Some r \<Rightarrow> r)"

definition normalizeInvoiceItem :: "InvoiceItemInput \<Rightarrow> InvoiceItemInput res" where
  "normalizeInvoiceItem item =
     andThen (decimal (it_quantity item) True) (\<lambda>q.
     andThen (decimal (it_price item) False) (\<lambda>price.
     andThen (amount (it_excl item)) (\<lambda>ae.
     andThen (decimal (it_rate item) False) (\<lambda>tr.
     andThen (nonNegativeAmount (it_tax item)) (\<lambda>ta.
     andThen (amount (it_incl item)) (\<lambda>ai.
     let expectedExcl = floatString 2 (ratOf q * ratOf price);
         expectedTax = floatString 2 (ratOf expectedExcl * ratOf tr);
         expectedIncl = floatString 2 (ratOf expectedExcl + ratOf expectedTax)
     in if ae \<noteq> expectedExcl \<or> ta \<noteq> expectedTax \<or> ai \<noteq> expectedIncl then Inl ErrInvalid
        else Inr (item\<lparr>it_quantity := q, it_price := price, it_excl := ae, it_rate := tr, it_tax := ta,
                       it_incl := ai\<rparr>)))))))"

text \<open>The normalised lines with the three totals, in cents.\<close>

fun normalizeInvoiceItems :: "InvoiceItemInput list \<Rightarrow> (InvoiceItemInput list \<times> int \<times> int \<times> int) res" where
  "normalizeInvoiceItems [] = Inr ([], 0, 0, 0)"
| "normalizeInvoiceItems (item # items) =
     andThen (normalizeInvoiceItem item) (\<lambda>x.
     andThen (normalizeInvoiceItems items) (\<lambda>(xs, excl, tax, incl).
     Inr (x # xs, cents (it_excl x) + excl, cents (it_tax x) + tax, cents (it_incl x) + incl)))"

section \<open>Settings\<close>

definition defaultSettlementSettings :: SettlementSettings where
  "defaultSettlementSettings = \<lparr>FieldPolicies = Some [(''tax_number_visible'', True)], ERPStatus = '''', AgingDays = [30, 60, 90, 180],
     TaxRates = [''0'', ''0.01'', ''0.03'', ''0.06'', ''0.09'', ''0.13''], ReminderLeadDays = 3, RepeatDays = 7,
     EscalationDays = 30, SpecialInvoiceThreshold = '''', SettingsVersion = 0\<rparr>"

fun increasingDays :: "int \<Rightarrow> int list \<Rightarrow> bool" where
  "increasingDays previous [] = True"
| "increasingDays previous (day # days) = (previous < day \<and> day \<le> 36500 \<and> increasingDays day days)"

definition validTaxRate :: "string \<Rightarrow> bool" where
  "validTaxRate rate =
     (case ratSetString rate of None \<Rightarrow> False | Some r \<Rightarrow> matchDecimal 6 rate \<and> 0 \<le> r \<and> r \<le> 1)"

definition validateSettlementSettings :: "SettlementSettings \<Rightarrow> unit res" where
  "validateSettlementSettings i =
     (if SettingsVersion i < 0 then Inl ErrInvalid
      else if length (AgingDays i) \<noteq> 4 \<or> TaxRates i = [] \<or> length (TaxRates i) > 20 \<or>
         ReminderLeadDays i < 0 \<or> ReminderLeadDays i > 365 \<or> RepeatDays i < 1 \<or> RepeatDays i > 365 \<or>
         EscalationDays i < 1 \<or> EscalationDays i > 3650 then Inl ErrInvalid
      else if list_ex (\<lambda>kv. fst kv \<noteq> ''tax_number_visible'')
                (case FieldPolicies i of None \<Rightarrow> [] | Some m \<Rightarrow> m) then Inl ErrInvalid
      else if \<not> increasingDays 0 (AgingDays i) then Inl ErrInvalid
      else if \<not> list_all validTaxRate (TaxRates i) then Inl ErrInvalid
      else if SpecialInvoiceThreshold i \<noteq> ''''
        then andThen (amount (SpecialInvoiceThreshold i)) (\<lambda>_. Inr ())
      else Inr ())"

text \<open>
  Unmarshalling the stored object over the defaults replaces every field it contains; a stored
  map adds its entries to the default map, and a stored null leaves no map.
\<close>

definition overDefaults :: "SettlementSettings \<Rightarrow> int \<Rightarrow> SettlementSettings" where
  "overDefaults stored version =
     stored\<lparr>FieldPolicies := map_option (\<lambda>m. m @ filter (\<lambda>kv. map_of m (fst kv) = None)
              [(''tax_number_visible'', True)]) (FieldPolicies stored),
            SettingsVersion := version\<rparr>"

definition loadSettlementSettings :: "string \<Rightarrow> db \<Rightarrow> SettlementSettings res" where
  "loadSettlementSettings tenant d =
     (case find (\<lambda>r. sg_tenant r = tenant) (settings (taxes d)) of
        None \<Rightarrow> Inr defaultSettlementSettings
      | Some r \<Rightarrow>
          let i = overDefaults (sg_settings r) (sg_version r)
          in andThen (validateSettlementSettings i) (\<lambda>_. Inr i))"

definition erpStatus :: "Service \<Rightarrow> string" where
  "erpStatus s = (if HasERPProvider s then ''CONFIGURED'' else ''NOT_CONFIGURED'')"

definition GetSettlementSettings :: "Service \<Rightarrow> Principal \<Rightarrow> db \<Rightarrow> SettlementSettings res" where
  "GetSettlementSettings s p d =
     (if \<not> Allows p ''settlement.settings.manage'' then Inl ErrForbidden
      else andThen (loadSettlementSettings (p_tenant p) d) (\<lambda>i. Inr (i\<lparr>ERPStatus := erpStatus s\<rparr>)))"

definition set_settings :: "settings_row list \<Rightarrow> db \<Rightarrow> db" where
  "set_settings t d = d\<lparr>taxes := (taxes d)\<lparr>settings := t\<rparr>\<rparr>"

text \<open>The optimistic write: version 0 inserts the first row, any other version must be current.\<close>

definition storeSettings :: "Principal \<Rightarrow> SettlementSettings \<Rightarrow> db \<Rightarrow> db res" where
  "storeSettings p i d =
     (if SettingsVersion i = 0
      then (case insert_row settings_clash
                   \<lparr>sg_tenant = p_tenant p, sg_settings = i, sg_version = 1\<rparr> (settings (taxes d)) of
              Inl err \<Rightarrow> if err = SqlDuplicate then Inl ErrConflict else Inl err
            | Inr t \<Rightarrow> Inr (set_settings t d))
      else let current = (\<lambda>r. sg_tenant r = p_tenant p \<and> sg_version r = SettingsVersion i) in
           if affected current (settings (taxes d)) \<noteq> 1 then Inl ErrConflict
           else Inr (set_settings (update_rows current
                  (\<lambda>r. r\<lparr>sg_settings := i, sg_version := sg_version r + 1\<rparr>) (settings (taxes d))) d))"

definition PutSettlementSettings ::
  "Service \<Rightarrow> env \<Rightarrow> Principal \<Rightarrow> SettlementSettings \<Rightarrow> db \<Rightarrow> (SettlementSettings \<times> db) res" where
  "PutSettlementSettings s e p i d =
     (if \<not> Allows p ''settlement.settings.manage'' then Inl ErrForbidden
      else andThen (validateSettlementSettings i) (\<lambda>_.
      andThen (storeSettings p (i\<lparr>ERPStatus := ''''\<rparr>) d) (\<lambda>d1.
      andThen (outbox e 0 (p_tenant p) ''PLATFORM_AUDIT'' ''SETTLEMENT_SETTINGS_CHANGED'' ''settings'' (p_tenant p)
         [(''actor_id'', JStr (p_user p)), (''version'', JInt (SettingsVersion i + 1))] d1) (\<lambda>d2.
      Inr (i\<lparr>SettingsVersion := SettingsVersion i + 1, ERPStatus := erpStatus s\<rparr>, d2)))))"

text \<open>\<open>decimalGreater\<close> dereferences what \<open>SetString\<close> returned, so an unreadable text panics.\<close>

definition specialInvoiceRequired :: "string \<Rightarrow> string \<Rightarrow> string \<Rightarrow> bool res" where
  "specialInvoiceRequired tot threshold reason =
     (if trimSpace reason \<noteq> '''' then Inr True
      else if threshold = '''' then Inr False
      else case decimalGreater tot threshold of None \<Rightarrow> Inl NilDereference | Some g \<Rightarrow> Inr g)"

definition TaxNumberVisible :: "string \<Rightarrow> db \<Rightarrow> bool res" where
  "TaxNumberVisible tenant d =
     andThen (loadSettlementSettings tenant d) (\<lambda>i.
     Inr (case FieldPolicies i of None \<Rightarrow> True
          | Some m \<Rightarrow> (case map_of m ''tax_number_visible'' of None \<Rightarrow> True | Some v \<Rightarrow> v)))"

definition agingDaysOf :: "string \<Rightarrow> db \<Rightarrow> int list res" where
  "agingDaysOf tenant d = andThen (loadSettlementSettings tenant d) (\<lambda>i. Inr (AgingDays i))"

definition configuredRate :: "string list \<Rightarrow> string \<Rightarrow> bool" where
  "configuredRate rates rate =
     (case ratSetString rate of None \<Rightarrow> False
      | Some v \<Rightarrow> list_ex (\<lambda>r. ratSetString r = Some v) rates)"

definition validateConfiguredTaxRates :: "InvoiceItemInput list \<Rightarrow> string list \<Rightarrow> unit res" where
  "validateConfiguredTaxRates items rates =
     (if list_all (\<lambda>item. configuredRate rates (it_rate item)) items then Inr () else Inl ErrInvalid)"

section \<open>The balance that can be invoiced\<close>

definition invoiceAvailableForUpdate :: "string \<Rightarrow> string \<Rightarrow> string \<Rightarrow> db \<Rightarrow> int res" where
  "invoiceAvailableForUpdate tenant snapshot vid d =
     andThen (query_row ErrNotFound (\<lambda>v. rv_tenant v = tenant \<and> rv_id v = vid \<and> rv_snapshot v = snapshot \<and>
         rv_recognition v = ''CONFIRMED'') (receivables d)) (\<lambda>v.
     let rows = map (\<lambda>a. ia_reserved a - ia_invoiced a - ia_released a)
           (filter (\<lambda>a. ia_tenant a = tenant \<and> ia_receivable a = vid \<and> ia_status a = RESERVED)
              (invoice_allocations d));
         available = rv_original v - rv_invoiced v - sum_list rows
     in if list_ex (\<lambda>r. r < 0) rows then Inl ErrConflict
        else if available < 0 then Inl ErrConflict
        else Inr available)"

section \<open>Lemmas\<close>

lemma invoiceAvailable_Inr:
  "invoiceAvailableForUpdate t sn vid d = Inr n \<Longrightarrow>
   \<exists>v \<in> set (receivables d). rv_tenant v = t \<and> rv_id v = vid \<and> n = rv_original v - rv_invoiced v - reservedOf d t vid \<and> 0 \<le> n"
  by (auto simp: invoiceAvailableForUpdate_def andThen_eq_Inr query_row_Inr Let_def reservedOf_def sum_rows_def
      split: if_splits dest!: find_SomeD)

text \<open>What the line check accepts adds up: every total includes its tax.\<close>

lemma normalizeInvoiceItem_Inr:
  assumes "normalizeInvoiceItem item = Inr x"
  shows "cents (it_incl x) = cents (it_excl x) + cents (it_tax x) \<and> 0 < cents (it_incl x) \<and>
    0 < cents (it_excl x) \<and> 0 \<le> cents (it_tax x)"
proof -
  from assms obtain q price ae tr ta ai where
      a: "amount (it_excl item) = Inr ae" and t: "nonNegativeAmount (it_tax item) = Inr ta"
      and i: "amount (it_incl item) = Inr ai"
      and e: "ai = floatString 2 (ratOf ae + ratOf ta)"
      and x: "it_excl x = ae" "it_tax x = ta" "it_incl x = ai"
    by (auto simp: normalizeInvoiceItem_def andThen_eq_Inr Let_def split: if_splits)
  from a obtain ca where ca: "ae = money ca" "0 < ca" by (auto simp: amount_Inr)
  from t obtain ct where ct: "ta = money ct" "0 \<le> ct" by (auto simp: nonNegativeAmount_Inr)
  have "ratOf ae + ratOf ta = of_int (ca + ct) / 100"
    by (simp add: ca ct ratOf_def add_divide_distrib)
  then have "ai = money (ca + ct)" by (simp only: e floatString_money)
  with ca ct x show ?thesis by simp
qed

lemma normalizeInvoiceItems_total:
  "normalizeInvoiceItems items = Inr (xs, excl, tax, incl) \<Longrightarrow>
   incl = excl + tax \<and> incl = (\<Sum>x\<leftarrow>xs. cents (it_incl x)) \<and> excl = (\<Sum>x\<leftarrow>xs. cents (it_excl x)) \<and>
   tax = (\<Sum>x\<leftarrow>xs. cents (it_tax x)) \<and> length xs = length items"
proof (induction items arbitrary: xs excl tax incl)
  case (Cons item items)
  then obtain x ys e t i where x: "normalizeInvoiceItem item = Inr x"
      and r: "normalizeInvoiceItems items = Inr (ys, e, t, i)"
      and eq: "xs = x # ys" "excl = cents (it_excl x) + e" "tax = cents (it_tax x) + t" "incl = cents (it_incl x) + i"
    by (auto simp: andThen_eq_Inr)
  with Cons.IH [OF r] normalizeInvoiceItem_Inr [OF x] show ?case by simp
qed simp

end
