(* ===== verification/Invoicing.thy ===== *)
theory Invoicing
  imports InvoiceRules
begin

text \<open>
  Invoice requests from submission to issue or withdrawal: invoice_request.go,
  invoice_approval.go, invoice_issue.go, invoice_manual.go, invoice_totals.go, invoice_cancel.go,
  invoice_recovery.go, and the red flush requests of invoice_redflush_request.go and
  invoice_redflush_review.go. What the tax provider reports back is in TaxCallback.
\<close>

section \<open>Writing the invoice tables\<close>

definition set_requests :: "invoice_request list \<Rightarrow> db \<Rightarrow> db" where
  "set_requests t d = d\<lparr>taxes := (taxes d)\<lparr>invoice_requests := t\<rparr>\<rparr>"

definition set_attempts :: "issue_attempt list \<Rightarrow> db \<Rightarrow> db" where
  "set_attempts t d = d\<lparr>taxes := (taxes d)\<lparr>issue_attempts := t\<rparr>\<rparr>"

definition set_tax_invoices :: "tax_invoice list \<Rightarrow> db \<Rightarrow> db" where
  "set_tax_invoices t d = d\<lparr>taxes := (taxes d)\<lparr>tax_invoices := t\<rparr>\<rparr>"

definition set_reviews :: "special_review list \<Rightarrow> db \<Rightarrow> db" where
  "set_reviews t d = d\<lparr>taxes := (taxes d)\<lparr>special_reviews := t\<rparr>\<rparr>"

definition set_red_requests :: "red_flush_request list \<Rightarrow> db \<Rightarrow> db" where
  "set_red_requests t d = d\<lparr>taxes := (taxes d)\<lparr>red_flush_requests := t\<rparr>\<rparr>"

definition set_red_attempts :: "red_flush_attempt list \<Rightarrow> db \<Rightarrow> db" where
  "set_red_attempts t d = d\<lparr>taxes := (taxes d)\<lparr>red_flush_attempts := t\<rparr>\<rparr>"

definition req_is :: "string \<Rightarrow> string \<Rightarrow> invoice_request \<Rightarrow> bool" where
  "req_is tenant rid r \<longleftrightarrow> ir_id r = rid \<and> ir_tenant r = tenant"

definition att_is :: "string \<Rightarrow> string \<Rightarrow> issue_attempt \<Rightarrow> bool" where
  "att_is tenant aid a \<longleftrightarrow> at_id a = aid \<and> at_tenant a = tenant"

definition updateRequest ::
  "string \<Rightarrow> string \<Rightarrow> (invoice_request \<Rightarrow> bool) \<Rightarrow> (invoice_request \<Rightarrow> invoice_request) \<Rightarrow> db \<Rightarrow> db" where
  "updateRequest tenant rid P f d =
     set_requests (update_rows (\<lambda>r. req_is tenant rid r \<and> P r) (\<lambda>r. (f r)\<lparr>ir_version := ir_version r + 1\<rparr>)
       (invoice_requests (taxes d))) d"

definition updateAttempt ::
  "string \<Rightarrow> string \<Rightarrow> (issue_attempt \<Rightarrow> bool) \<Rightarrow> (issue_attempt \<Rightarrow> issue_attempt) \<Rightarrow> db \<Rightarrow> db" where
  "updateAttempt tenant aid P f d =
     set_attempts (update_rows (\<lambda>a. att_is tenant aid a \<and> P a) f (issue_attempts (taxes d))) d"

section \<open>Submitting a request\<close>

record InvoiceAllocationInput =
  na_receivable :: string
  na_reserved :: string

record InvoiceRequestInput =
  qi_special :: string
  qi_snapshot :: string
  qi_buyer :: payload
  qi_type :: string
  qi_items :: "InvoiceItemInput list"
  qi_allocations :: "InvoiceAllocationInput list"

definition itemTextTooLong :: "InvoiceItemInput \<Rightarrow> bool" where
  "itemTextTooLong item \<longleftrightarrow> textTooLong (it_name item) 255 \<or> textTooLong (it_class item) 64 \<or>
     textTooLong (it_spec item) 128 \<or> textTooLong (it_unit item) 32"

text \<open>The requested reservations: receivable and cents.\<close>

fun normalizeReservations :: "InvoiceAllocationInput list \<Rightarrow> (string \<times> int) list res" where
  "normalizeReservations [] = Inr []"
| "normalizeReservations (a # as) =
     andThen (amountCents (na_reserved a)) (\<lambda>reserved.
     andThen (normalizeReservations as) (\<lambda>rest. Inr ((na_receivable a, reserved) # rest)))"

text \<open>The checks before the transaction.\<close>

record CheckedRequest =
  kr_buyer :: payload
  kr_type :: string
  kr_items :: "InvoiceItemInput list"
  kr_excl :: int
  kr_tax :: int
  kr_incl :: int
  kr_reservations :: "(string \<times> int) list"

definition checkInvoiceRequest :: "string \<Rightarrow> InvoiceRequestInput \<Rightarrow> CheckedRequest res" where
  "checkInvoiceRequest key i =
     andThen (required key) (\<lambda>_.
     if qi_items i = [] \<or> qi_allocations i = [] then Inl ErrInvalid
     else if list_ex itemTextTooLong (qi_items i) then Inl ErrInvalid
     else if textTooLong (qi_special i) 500 then Inl ErrInvalid
     else andThen (normalizeInvoiceProfile (qi_buyer i) buyerProfileFields) (\<lambda>buyer.
     andThen (normalizeInvoiceType (qi_type i)) (\<lambda>kind.
     andThen (normalizeInvoiceItems (qi_items i)) (\<lambda>(normalized, excl, tax, incl).
     andThen (normalizeReservations (qi_allocations i)) (\<lambda>reservations.
     if (\<Sum>x\<leftarrow>reservations. snd x) \<noteq> incl then Inl ErrInvalid
     else Inr \<lparr>kr_buyer = buyer, kr_type = kind, kr_items = normalized, kr_excl = excl, kr_tax = tax,
               kr_incl = incl, kr_reservations = reservations\<rparr>)))))"

definition jsonItem :: "InvoiceItemInput \<Rightarrow> json" where
  "jsonItem x = JArr [JStr (it_name x), JStr (it_class x), JStr (it_spec x), JStr (it_unit x),
     JStr (it_quantity x), JStr (it_price x), JStr (it_excl x), JStr (it_rate x), JStr (it_tax x), JStr (it_incl x)]"

definition invoiceRequestDigest :: "InvoiceRequestInput \<Rightarrow> CheckedRequest \<Rightarrow> json" where
  "invoiceRequestDigest i k = JArr [JStr (qi_snapshot i), JObj (kr_buyer k), JStr (kr_type k),
     JArr (map jsonItem (kr_items k)),
     JArr (map (\<lambda>(v, n). JArr [JStr v, JStr (money n)]) (kr_reservations k)), JStr (qi_special i)]"

text \<open>Every reservation against the balance that is available before any of them is written.\<close>

fun checkReservations :: "string \<Rightarrow> string \<Rightarrow> (string \<times> int) list \<Rightarrow> db \<Rightarrow> unit res" where
  "checkReservations tenant snapshot [] d = Inr ()"
| "checkReservations tenant snapshot ((vid, reserved) # rest) d =
     andThen (invoiceAvailableForUpdate tenant snapshot vid d) (\<lambda>available.
     if reserved > available then Inl ErrConflict else checkReservations tenant snapshot rest d)"

definition newRequest ::
  "Principal \<Rightarrow> string \<Rightarrow> string \<Rightarrow> InvoiceRequestInput \<Rightarrow> CheckedRequest \<Rightarrow> invoice_request" where
  "newRequest p key rid i k =
     \<lparr>ir_id = rid, ir_tenant = p_tenant p, ir_no = ''IR-'' @ take 12 rid, ir_snapshot = qi_snapshot i,
      ir_buyer = JObj (kr_buyer k), ir_type = kr_type k, ir_excl = kr_excl k, ir_tax = kr_tax k,
      ir_incl = kr_incl k, ir_status = IR_SUBMITTED, ir_idem = key, ir_submitted_by = p_user p,
      ir_approved_by = '''', ir_rejection = '''', ir_version = 1\<rparr>"

fun insertItems :: "env \<Rightarrow> nat \<Rightarrow> string \<Rightarrow> string \<Rightarrow> nat \<Rightarrow> InvoiceItemInput list \<Rightarrow> db \<Rightarrow> db res" where
  "insertItems e n tenant rid line [] d = Inr d"
| "insertItems e n tenant rid line (x # xs) d =
     andThen (insert_row item_clash
       \<lparr>ii_id = e_ids e n, ii_tenant = tenant, ii_request = rid, ii_line = line, ii_name = it_name x,
        ii_class = it_class x, ii_spec = it_spec x, ii_unit = it_unit x, ii_quantity = ratOf (it_quantity x),
        ii_price = ratOf (it_price x), ii_excl = cents (it_excl x), ii_rate = ratOf (it_rate x),
        ii_tax = cents (it_tax x), ii_incl = cents (it_incl x)\<rparr> (invoice_items (taxes d))) (\<lambda>t.
     insertItems e (Suc n) tenant rid (Suc line) xs (d\<lparr>taxes := (taxes d)\<lparr>invoice_items := t\<rparr>\<rparr>))"

definition newReservation :: "string \<Rightarrow> string \<Rightarrow> string \<Rightarrow> string \<Rightarrow> int \<Rightarrow> invoice_allocation" where
  "newReservation aid tenant rid vid reserved =
     \<lparr>ia_id = aid, ia_tenant = tenant, ia_request = rid, ia_receivable = vid, ia_reserved = reserved,
      ia_invoiced = 0, ia_released = 0, ia_status = RESERVED\<rparr>"

fun insertReservations :: "env \<Rightarrow> nat \<Rightarrow> string \<Rightarrow> string \<Rightarrow> (string \<times> int) list \<Rightarrow> db \<Rightarrow> db res" where
  "insertReservations e n tenant rid [] d = Inr d"
| "insertReservations e n tenant rid ((vid, reserved) # rest) d =
     andThen (insert_row invoice_allocation_clash (newReservation (e_ids e n) tenant rid vid reserved)
        (invoice_allocations d)) (\<lambda>t.
     insertReservations e (Suc n) tenant rid rest (d\<lparr>invoice_allocations := t\<rparr>))"

text \<open>The special review row: what the rule was when the request was made.\<close>

definition freezeReview ::
  "Principal \<Rightarrow> string \<Rightarrow> InvoiceRequestInput \<Rightarrow> CheckedRequest \<Rightarrow> db \<Rightarrow> db res" where
  "freezeReview p rid i k d =
     andThen (loadSettlementSettings (p_tenant p) d) (\<lambda>st.
     andThen (validateConfiguredTaxRates (kr_items k) (TaxRates st)) (\<lambda>_.
     andThen (specialInvoiceRequired (money (kr_incl k)) (SpecialInvoiceThreshold st) (qi_special i)) (\<lambda>needed.
     andThen (insert_row review_clash
       \<lparr>sr_tenant = p_tenant p, sr_request = rid, sr_reason = qi_special i,
        sr_threshold = SpecialInvoiceThreshold st, sr_settings = SettingsVersion st, sr_required = needed,
        sr_status = SR_PENDING, sr_by = '''', sr_review_reason = ''''\<rparr> (special_reviews (taxes d))) (\<lambda>t.
     Inr (set_reviews t d)))))"

text \<open>What is written once the balances are checked.\<close>

definition postRequest ::
  "env \<Rightarrow> Principal \<Rightarrow> string \<Rightarrow> InvoiceRequestInput \<Rightarrow> CheckedRequest \<Rightarrow> db \<Rightarrow> db res" where
  "postRequest e p rid i k d =
     (let n = length (kr_items k); m = length (kr_reservations k) in
      andThen (insertItems e 1 (p_tenant p) rid 1 (kr_items k) d) (\<lambda>d1.
      andThen (insertReservations e (1 + n) (p_tenant p) rid (kr_reservations k) d1) (\<lambda>d2.
      andThen (freezeReview p rid i k d2) (\<lambda>d3.
      outbox e (1 + n + m) (p_tenant p) ''PLATFORM_AUDIT'' ''SETTLEMENT_INVOICE_REQUEST_SUBMITTED'' ''invoice_request'' rid
        [(''actor_id'', JStr (p_user p)), (''request_id'', JStr rid), (''result'', JStr ''SUCCESS''),
         (''risk_level'', JStr ''MEDIUM'')] d3))))"

definition CreateInvoiceRequest ::
  "Service \<Rightarrow> env \<Rightarrow> Principal \<Rightarrow> string \<Rightarrow> InvoiceRequestInput \<Rightarrow> db \<Rightarrow> (string \<times> db) res" where
  "CreateInvoiceRequest s e p key i d =
     andThen (checkInvoiceRequest key i) (\<lambda>k.
     if \<not> Allows p ''settlement.invoice.request'' then Inl ErrForbidden
     else andThen (RequireContractAccessTx s p ''settlement.invoice.request'' (qi_snapshot i) d) (\<lambda>d1.
     let rid = e_ids e 0 in
     andThen (claimIdempotency e (p_tenant p) ''CREATE_INVOICE_REQUEST'' key rid (invoiceRequestDigest i k) d1)
       (\<lambda>(existing, replay, d2).
     if replay then Inr (existing, d)
     else andThen (query_row ErrInvalid (effectiveSnapshot (p_tenant p) (qi_snapshot i)) (snapshots d2)) (\<lambda>cs.
     andThen (requireBuyerProfileCustomer (kr_buyer k) (cs_customer cs)) (\<lambda>_.
     andThen (checkReservations (p_tenant p) (qi_snapshot i) (kr_reservations k) d2) (\<lambda>_.
     case insert_row request_clash (newRequest p key rid i k) (invoice_requests (taxes d2)) of
       Inl err \<Rightarrow>
         (case find (\<lambda>r. ir_tenant r = p_tenant p \<and> ir_idem r = key) (invoice_requests (taxes d2)) of
            Some r \<Rightarrow> if err = SqlDuplicate then Inr (ir_id r, d) else Inl err
          | None \<Rightarrow> Inl err)
     | Inr t \<Rightarrow> resMap (Pair rid) (postRequest e p rid i k (set_requests t d2))))))))"

section \<open>Scope by document\<close>

definition requireInvoiceRequestScopeTx ::
  "Service \<Rightarrow> Principal \<Rightarrow> string \<Rightarrow> string \<Rightarrow> db \<Rightarrow> db res" where
  "requireInvoiceRequestScopeTx s p permission rid d =
     (if \<not> scopedAuthorization p then Inr d
      else andThen (query_row ErrNotFound (req_is (p_tenant p) rid) (invoice_requests (taxes d))) (\<lambda>r.
           requireWriteScopeTx s p permission (ir_snapshot r) d))"

text \<open>The join of a tax invoice with its request.\<close>

definition invoiceRequestOf :: "db \<Rightarrow> string \<Rightarrow> string \<Rightarrow> (tax_invoice \<times> invoice_request) res" where
  "invoiceRequestOf d tenant invoiceID =
     andThen (query_row ErrNotFound (\<lambda>t. ti_id t = invoiceID \<and> ti_tenant t = tenant) (tax_invoices (taxes d))) (\<lambda>t.
     andThen (query_row ErrNotFound (\<lambda>r. ir_id r = ti_request t \<and> ir_tenant r = ti_tenant t)
        (invoice_requests (taxes d))) (\<lambda>r. Inr (t, r)))"

definition requireTaxInvoiceScopeTx ::
  "Service \<Rightarrow> Principal \<Rightarrow> string \<Rightarrow> string \<Rightarrow> db \<Rightarrow> db res" where
  "requireTaxInvoiceScopeTx s p permission invoiceID d =
     (if \<not> scopedAuthorization p then Inr d
      else andThen (invoiceRequestOf d (p_tenant p) invoiceID) (\<lambda>(t, r).
           requireWriteScopeTx s p permission (ir_snapshot r) d))"

section \<open>The command to the tax provider\<close>

definition taxProviderCode :: "Service \<Rightarrow> string" where
  "taxProviderCode s =
     (if trimSpace (TaxProviderCode s) \<noteq> '''' then trimSpace (TaxProviderCode s) else ''default'')"

definition invoiceIssuanceMode :: "Service \<Rightarrow> string" where
  "invoiceIssuanceMode s = (if InvoiceIssuanceMode s = ''tax_adapter'' then ''tax_adapter'' else ''manual'')"

text \<open>A stored line as the driver returns its columns.\<close>

definition itemText :: "invoice_item \<Rightarrow> InvoiceItemInput" where
  "itemText x = \<lparr>it_name = ii_name x, it_class = ii_class x, it_spec = ii_spec x, it_unit = ii_unit x,
     it_quantity = floatString 6 (ii_quantity x), it_price = floatString 6 (ii_price x),
     it_excl = money (ii_excl x), it_rate = floatString 6 (ii_rate x), it_tax = money (ii_tax x),
     it_incl = money (ii_incl x)\<rparr>"

definition requestLines :: "db \<Rightarrow> string \<Rightarrow> string \<Rightarrow> invoice_item list" where
  "requestLines d tenant rid =
     orderBy (\<lambda>a b. ii_line a < ii_line b)
       (filter (\<lambda>x. ii_tenant x = tenant \<and> ii_request x = rid) (invoice_items (taxes d)))"

definition commandItem :: "invoice_item \<Rightarrow> json" where
  "commandItem x = JObj [(''line_no'', JInt (int (ii_line x))), (''item_name'', JStr (it_name (itemText x))),
     (''tax_classification_code'', JStr (it_class (itemText x))), (''specification'', JStr (it_spec (itemText x))),
     (''unit'', JStr (it_unit (itemText x))), (''quantity'', JStr (it_quantity (itemText x))),
     (''unit_price_excl_tax'', JStr (it_price (itemText x))), (''amount_excl_tax'', JStr (it_excl (itemText x))),
     (''tax_rate'', JStr (it_rate (itemText x))), (''tax_amount'', JStr (it_tax (itemText x))),
     (''amount_incl_tax'', JStr (it_incl (itemText x)))]"

text \<open>The buyer that leaves the system is checked again: only an object of known fields, or nothing.\<close>

definition outboundBuyer :: "json \<Rightarrow> payload res" where
  "outboundBuyer j =
     (case j of JNull \<Rightarrow> Inr []
      | JObj m \<Rightarrow> normalizeInvoiceProfile m buyerProfileFields
      | _ \<Rightarrow> Inl ErrInvalid)"

definition invoiceIssueCommand ::
  "string \<Rightarrow> string \<Rightarrow> string \<Rightarrow> string \<Rightarrow> db \<Rightarrow> payload res" where
  "invoiceIssueCommand tenant rid attempt provider d =
     andThen (query_row SqlNoRows (req_is tenant rid) (invoice_requests (taxes d))) (\<lambda>r.
     andThen (query_row SqlNoRows (\<lambda>cs. cs_id cs = ir_snapshot r \<and> cs_tenant cs = ir_tenant r) (snapshots d)) (\<lambda>cs.
     andThen (outboundBuyer (ir_buyer r)) (\<lambda>buyer.
     andThen (validateStoredInvoiceType (ir_type r)) (\<lambda>kind.
     Inr [(''operation_type'', JStr ''INVOICE_ISSUE''), (''provider_code'', JStr provider),
          (''external_request_id'', JStr attempt), (''attempt_id'', JStr attempt),
          (''invoice_request_id'', JStr rid), (''request_no'', JStr (ir_no r)), (''invoice_type'', JStr kind),
          (''currency'', JStr (cs_currency cs)), (''buyer_profile'', JObj buyer),
          (''amount_excl_tax'', JStr (money (ir_excl r))), (''tax_amount'', JStr (money (ir_tax r))),
          (''amount_incl_tax'', JStr (money (ir_incl r))),
          (''items'', JArr (map commandItem (requestLines d tenant rid)))]))))"

text \<open>The newest command event of an aggregate, by creation time and identifier.\<close>

definition newerEvent :: "outbox_event \<Rightarrow> outbox_event \<Rightarrow> bool" where
  "newerEvent a b \<longleftrightarrow> ob_created_at b < ob_created_at a \<or>
     (ob_created_at a = ob_created_at b \<and> strLess (ob_id b) (ob_id a))"

definition latestCommand :: "db \<Rightarrow> string \<Rightarrow> string \<Rightarrow> string \<Rightarrow> string option" where
  "latestCommand d tenant eventType aggregate =
     map_option ob_event (best newerEvent (filter (\<lambda>x. ob_tenant x = tenant \<and>
       ob_destination x = ''TAX_INVOICE_COMMAND'' \<and> ob_type x = eventType \<and> ob_aggregate x = aggregate)
       (outbox_events d)))"

section \<open>Approval\<close>

definition submittedRequest :: "string \<Rightarrow> string \<Rightarrow> int \<Rightarrow> request_status \<Rightarrow> invoice_request \<Rightarrow> bool" where
  "submittedRequest tenant rid version st r \<longleftrightarrow> req_is tenant rid r \<and> ir_status r = st \<and> ir_version r = version"

definition attemptOf :: "string \<Rightarrow> string \<Rightarrow> issue_attempt \<Rightarrow> bool" where
  "attemptOf tenant rid a \<longleftrightarrow> at_request a = rid \<and> at_tenant a = tenant"

text \<open>Results of the given processing states for some attempt of the request.\<close>

definition resultsOf :: "db \<Rightarrow> string \<Rightarrow> string \<Rightarrow> tax_processing list \<Rightarrow> nat" where
  "resultsOf d tenant rid states =
     affected (\<lambda>ti. tr_operation ti = INVOICE_ISSUE \<and> tr_status ti \<in> set states \<and>
       exists_row (\<lambda>a. at_id a = tr_aggregate ti \<and> at_tenant a = tr_tenant ti \<and> attemptOf tenant rid a)
         (issue_attempts (taxes d))) (tax_results (taxes d))"

definition nextAttemptNo :: "db \<Rightarrow> string \<Rightarrow> string \<Rightarrow> int" where
  "nextAttemptNo d tenant rid =
     fold (\<lambda>a m. max (at_no a) m) (filter (attemptOf tenant rid) (issue_attempts (taxes d))) 0 + 1"

definition newAttempt :: "env \<Rightarrow> string \<Rightarrow> string \<Rightarrow> string \<Rightarrow> int \<Rightarrow> issue_channel \<Rightarrow> string \<Rightarrow> issue_attempt" where
  "newAttempt e aid tenant rid no channel provider =
     \<lparr>at_id = aid, at_tenant = tenant, at_request = rid, at_no = no, at_channel = channel,
      at_provider = provider, at_external_request = aid, at_external_invoice = '''', at_idem = aid,
      at_command = None, at_operation = None, at_invoice = None, at_status = AT_PENDING, at_sequence = 0,
      at_last_event = '''', at_requested_at = e_now e, at_accepted_at = None, at_next_reconcile = None, at_reconciles = 0,
      at_failure_code = '''', at_failure_message = ''''\<rparr>"

text \<open>The command is queued and its event recorded on the attempt.\<close>

definition queueIssueCommand ::
  "Service \<Rightarrow> env \<Rightarrow> nat \<Rightarrow> string \<Rightarrow> string \<Rightarrow> string \<Rightarrow> db \<Rightarrow> db res" where
  "queueIssueCommand s e n tenant rid attempt d =
     andThen (invoiceIssueCommand tenant rid attempt (taxProviderCode s) d) (\<lambda>command.
     andThen (outbox e n tenant ''TAX_INVOICE_COMMAND'' ''SETTLEMENT_INVOICE_ISSUE_REQUESTED'' ''invoice_request'' rid
        command d) (\<lambda>d1.
     Inr (updateAttempt tenant attempt (\<lambda>_. True)
       (\<lambda>a. a\<lparr>at_command := latestCommand d1 tenant ''SETTLEMENT_INVOICE_ISSUE_REQUESTED'' rid\<rparr>) d1)))"

text \<open>
  \<open>createApprovedInvoiceAttempt\<close>; \<open>n\<close> is the first free identifier of the handler's call.
  The outbox event of a tax command uses one identifier and audit events use two.
\<close>

definition createApprovedInvoiceAttempt ::
  "Service \<Rightarrow> env \<Rightarrow> nat \<Rightarrow> Principal \<Rightarrow> string \<Rightarrow> int \<Rightarrow> db \<Rightarrow> (string \<times> db) res" where
  "createApprovedInvoiceAttempt s e n p rid version d =
     (if resultsOf d (p_tenant p) rid [TP_PROVIDER_CONFLICT] \<noteq> 0 then Inl ErrConflict
      else let attempt = e_ids e n;
               adapter = (invoiceIssuanceMode s = ''tax_adapter'');
               d1 = updateRequest (p_tenant p) rid (\<lambda>r. ir_version r = version)
                      (\<lambda>r. r\<lparr>ir_status := IR_ISSUE_PENDING, ir_approved_by := p_user p\<rparr>) d
      in andThen (insert_row attempt_clash
           (newAttempt e attempt (p_tenant p) rid (nextAttemptNo d1 (p_tenant p) rid)
              (if adapter then TAX_ADAPTER else MANUAL) (if adapter then taxProviderCode s else ''''))
           (issue_attempts (taxes d1))) (\<lambda>t.
         andThen (if adapter then queueIssueCommand s e (Suc n) (p_tenant p) rid attempt (set_attempts t d1)
                  else Inr (set_attempts t d1)) (\<lambda>d2.
         andThen (outbox e (if adapter then Suc (Suc n) else Suc n) (p_tenant p) ''PLATFORM_AUDIT''
            ''SETTLEMENT_INVOICE_APPROVED'' ''invoice_request'' rid
            [(''actor_id'', JStr (p_user p)), (''result'', JStr ''SUCCESS''), (''risk_level'', JStr ''HIGH'')] d2)
           (\<lambda>d3. Inr (attempt, d3)))))"

definition ApproveInvoiceRequest ::
  "Service \<Rightarrow> env \<Rightarrow> Principal \<Rightarrow> string \<Rightarrow> int \<Rightarrow> db \<Rightarrow> (string \<times> db) res" where
  "ApproveInvoiceRequest s e p rid version d =
     andThen (query_row ErrConflict (submittedRequest (p_tenant p) rid version IR_SUBMITTED)
        (invoice_requests (taxes d))) (\<lambda>r.
     if ir_submitted_by r = p_user p then Inl ErrInvalid
     else andThen (requireInvoiceRequestScopeTx s p ''settlement.invoice.approve'' rid d) (\<lambda>d1.
     let special = (case find (\<lambda>v. sr_tenant v = p_tenant p \<and> sr_request v = rid) (special_reviews (taxes d1)) of
                      None \<Rightarrow> False | Some v \<Rightarrow> sr_required v)
     in if special
        then andThen (outbox e 0 (p_tenant p) ''PLATFORM_AUDIT'' ''SETTLEMENT_SPECIAL_REVIEW_PENDING'' ''invoice_request'' rid
               [(''actor_id'', JStr (p_user p))]
               (updateRequest (p_tenant p) rid (\<lambda>x. ir_version x = version)
                  (\<lambda>x. x\<lparr>ir_status := IR_SPECIAL_REVIEW, ir_approved_by := p_user p\<rparr>) d1)) (\<lambda>d2. Inr ('''', d2))
        else createApprovedInvoiceAttempt s e 0 p rid version d1))"

text \<open>A request's reservations are released.\<close>

definition releaseReservations :: "(invoice_allocation \<Rightarrow> int) \<Rightarrow> string \<Rightarrow> string \<Rightarrow> db \<Rightarrow> db" where
  "releaseReservations g tenant rid d =
     d\<lparr>invoice_allocations := update_rows
         (\<lambda>a. ia_tenant a = tenant \<and> ia_request a = rid \<and> ia_status a = RESERVED)
         (\<lambda>a. a\<lparr>ia_released := g a, ia_status := RELEASED_RESERVATION\<rparr>) (invoice_allocations d)\<rparr>"

definition RejectInvoiceRequest ::
  "Service \<Rightarrow> env \<Rightarrow> Principal \<Rightarrow> string \<Rightarrow> int \<Rightarrow> string \<Rightarrow> db \<Rightarrow> (unit \<times> db) res" where
  "RejectInvoiceRequest s e p rid version reason0 d =
     andThen (required reason0) (\<lambda>reason.
     if length reason > 500 then Inl ErrInvalid
     else andThen (query_row ErrConflict (submittedRequest (p_tenant p) rid version IR_SUBMITTED)
        (invoice_requests (taxes d))) (\<lambda>r.
     if ir_submitted_by r = p_user p then Inl ErrInvalid
     else andThen (requireInvoiceRequestScopeTx s p ''settlement.invoice.approve'' rid d) (\<lambda>d1.
     andThen (outbox e 0 (p_tenant p) ''PLATFORM_AUDIT'' ''SETTLEMENT_INVOICE_REJECTED'' ''invoice_request'' rid
        [(''actor_id'', JStr (p_user p)), (''reason'', JStr reason), (''result'', JStr ''SUCCESS''),
         (''risk_level'', JStr ''HIGH'')]
        (releaseReservations ia_reserved (p_tenant p) rid
          (updateRequest (p_tenant p) rid (\<lambda>x. ir_version x = version)
             (\<lambda>x. x\<lparr>ir_status := IR_REJECTED, ir_approved_by := p_user p, ir_rejection := reason\<rparr>) d1))) (\<lambda>d2.
     Inr ((), d2)))))"

definition ReviewSpecialInvoice ::
  "Service \<Rightarrow> env \<Rightarrow> Principal \<Rightarrow> string \<Rightarrow> int \<Rightarrow> bool \<Rightarrow> string \<Rightarrow> db \<Rightarrow> (string \<times> db) res" where
  "ReviewSpecialInvoice s e p rid version approve reason d =
     (if \<not> Allows p ''settlement.invoice.special_approve'' then Inl ErrForbidden
      else if \<not> approve \<and> (length reason > 500 \<or> reason = '''') then Inl ErrInvalid
      else andThen (query_row ErrConflict (submittedRequest (p_tenant p) rid version IR_SPECIAL_REVIEW)
        (invoice_requests (taxes d))) (\<lambda>r.
      if ir_submitted_by r = p_user p then Inl ErrForbidden
      else andThen (RequireContractAccessTx s p ''settlement.invoice.special_approve'' (ir_snapshot r) d) (\<lambda>d1.
      andThen (outbox e 0 (p_tenant p) ''PLATFORM_AUDIT''
         (''SETTLEMENT_SPECIAL_REVIEW_'' @ (if approve then ''APPROVED'' else ''REJECTED'')) ''invoice_request'' rid
         [(''actor_id'', JStr (p_user p)), (''reason'', JStr reason)]
         (set_reviews (update_rows (\<lambda>v. sr_tenant v = p_tenant p \<and> sr_request v = rid \<and> sr_required v)
            (\<lambda>v. v\<lparr>sr_status := (if approve then SR_APPROVED else SR_REJECTED), sr_by := p_user p,
                   sr_review_reason := reason\<rparr>) (special_reviews (taxes d1))) d1)) (\<lambda>d2.
      if approve then createApprovedInvoiceAttempt s e 2 p rid version d2
      else Inr ('''', releaseReservations ia_reserved (p_tenant p) rid
             (updateRequest (p_tenant p) rid (\<lambda>_. True)
                (\<lambda>x. x\<lparr>ir_status := IR_REJECTED, ir_rejection := reason\<rparr>) d2))))))"

section \<open>Invoiced totals\<close>

definition invoicedStatus :: "int \<Rightarrow> int \<Rightarrow> invoice_status" where
  "invoicedStatus nxt original = (if nxt \<ge> original then FULLY_INVOICED else PARTIALLY_INVOICED)"

definition setInvoiced :: "string \<Rightarrow> string \<Rightarrow> int \<Rightarrow> invoice_status \<Rightarrow> db \<Rightarrow> db" where
  "setInvoiced tenant vid nxt st d =
     d\<lparr>receivables := update_rows (rcv_is tenant vid)
         (\<lambda>v. v\<lparr>rv_invoiced := nxt, rv_invoice := st, rv_version := rv_version v + 1\<rparr>) (receivables d)\<rparr>"

definition incrementInvoiced :: "string \<Rightarrow> string \<Rightarrow> int \<Rightarrow> db \<Rightarrow> db res" where
  "incrementInvoiced tenant vid value d =
     andThen (query_row SqlNoRows (rcv_is tenant vid) (receivables d)) (\<lambda>v.
     let nxt = rv_invoiced v + value in
     Inr (setInvoiced tenant vid nxt (invoicedStatus nxt (rv_original v)) d))"

definition decrementInvoiced :: "string \<Rightarrow> string \<Rightarrow> int \<Rightarrow> db \<Rightarrow> db res" where
  "decrementInvoiced tenant vid value d =
     andThen (query_row SqlNoRows (rcv_is tenant vid) (receivables d)) (\<lambda>v.
     let nxt = (if rv_invoiced v - value < 0 then 0 else rv_invoiced v - value);
         st = (if nxt = 0 then NOT_INVOICED else invoicedStatus nxt (rv_original v))
     in Inr (setInvoiced tenant vid nxt st d))"

text \<open>
  The reserved allocations of a request become invoiced, one after the other, from the list
  read before. The manual path and the callback differ only in the condition \<open>P\<close> of the update.
\<close>

definition reservedRows :: "db \<Rightarrow> string \<Rightarrow> string \<Rightarrow> (string \<times> int) list" where
  "reservedRows d tenant rid =
     map (\<lambda>a. (ia_receivable a, ia_reserved a))
       (filter (\<lambda>a. ia_tenant a = tenant \<and> ia_request a = rid \<and> ia_status a = RESERVED) (invoice_allocations d))"

definition markInvoiced :: "(invoice_allocation \<Rightarrow> bool) \<Rightarrow> string \<Rightarrow> string \<Rightarrow> string \<Rightarrow> db \<Rightarrow> db" where
  "markInvoiced P tenant rid vid d =
     d\<lparr>invoice_allocations := update_rows
         (\<lambda>a. ia_tenant a = tenant \<and> ia_request a = rid \<and> ia_receivable a = vid \<and> P a)
         (\<lambda>a. a\<lparr>ia_invoiced := ia_reserved a, ia_status := INVOICED\<rparr>) (invoice_allocations d)\<rparr>"

fun invoiceReserved ::
  "(invoice_allocation \<Rightarrow> bool) \<Rightarrow> string \<Rightarrow> string \<Rightarrow> (string \<times> int) list \<Rightarrow> db \<Rightarrow> db res" where
  "invoiceReserved P tenant rid [] d = Inr d"
| "invoiceReserved P tenant rid ((vid, value) # rest) d =
     andThen (incrementInvoiced tenant vid value (markInvoiced P tenant rid vid d)) (\<lambda>d1.
     invoiceReserved P tenant rid rest d1)"

section \<open>Manual registration of an issued invoice\<close>

record ManualInvoiceInput =
  mi_code :: string
  mi_no :: string
  mi_date :: string
  mi_seller :: payload

text \<open>The request that waits for manual issue, with its contract.\<close>

definition pendingManual :: "db \<Rightarrow> string \<Rightarrow> string \<Rightarrow> (invoice_request \<times> contract_snapshot) res" where
  "pendingManual d tenant rid =
     andThen (query_row ErrConflict (\<lambda>r. req_is tenant rid r \<and> ir_status r = IR_ISSUE_PENDING \<and>
        exists_row (\<lambda>a. at_request a = ir_id r \<and> at_tenant a = ir_tenant r \<and> at_channel a = MANUAL \<and>
          at_status a = AT_PENDING) (issue_attempts (taxes d))) (invoice_requests (taxes d))) (\<lambda>r.
     andThen (query_row ErrConflict (\<lambda>cs. cs_id cs = ir_snapshot r \<and> cs_tenant cs = ir_tenant r) (snapshots d))
       (\<lambda>cs. Inr (r, cs)))"

definition checkManualInvoice :: "env \<Rightarrow> ManualInvoiceInput \<Rightarrow> (string \<times> string \<times> string \<times> payload) res" where
  "checkManualInvoice e i =
     andThen (required (mi_code i)) (\<lambda>code.
     andThen (required (mi_no i)) (\<lambda>no.
     andThen (validateInvoiceDocumentNumber code) (\<lambda>_.
     andThen (validateInvoiceDocumentNumber no) (\<lambda>_.
     andThen (validateInvoiceIssueDateOn (mi_date i) (e_today e)) (\<lambda>issueDate.
     andThen (normalizeInvoiceProfile (mi_seller i) sellerProfileFields) (\<lambda>seller.
     Inr (code, no, issueDate, seller)))))))"

definition manualInvoice ::
  "string \<Rightarrow> invoice_request \<Rightarrow> string \<Rightarrow> string \<times> string \<times> string \<times> payload \<Rightarrow> tax_invoice" where
  "manualInvoice tid r currency k =
     (case k of (code, no, issueDate, seller) \<Rightarrow>
       \<lparr>ti_id = tid, ti_tenant = ir_tenant r, ti_request = ir_id r, ti_code = code, ti_no = no,
        ti_type = ir_type r, ti_currency = currency, ti_excl = ir_excl r, ti_tax = ir_tax r,
        ti_incl = ir_incl r, ti_date = issueDate, ti_buyer = ir_buyer r, ti_seller = JObj seller,
        ti_status = ISSUED, ti_channel = MANUAL, ti_provider = '''', ti_external = None, ti_hash = None\<rparr>)"

definition manualAttempt :: "string \<Rightarrow> string \<Rightarrow> issue_attempt \<Rightarrow> bool" where
  "manualAttempt tenant rid a \<longleftrightarrow> attemptOf tenant rid a \<and> at_channel a = MANUAL \<and> at_status a = AT_PENDING"

text \<open>The statements that close the request, once the invoice row is accepted.\<close>

definition closeManual :: "string \<Rightarrow> string \<Rightarrow> string \<Rightarrow> tax_invoice list \<Rightarrow> db \<Rightarrow> db res" where
  "closeManual tenant rid tid t d =
     (let d1 = updateRequest tenant rid (\<lambda>_. True) (\<lambda>r. r\<lparr>ir_status := IR_ISSUED\<rparr>) (set_tax_invoices t d);
          d2 = set_attempts (update_rows (manualAttempt tenant rid)
                 (\<lambda>a. a\<lparr>at_status := AT_ISSUED, at_external_invoice := tid\<rparr>) (issue_attempts (taxes d1))) d1
      in invoiceReserved (\<lambda>_. True) tenant rid (reservedRows d2 tenant rid) d2)"

definition RegisterManualInvoice ::
  "Service \<Rightarrow> env \<Rightarrow> Principal \<Rightarrow> string \<Rightarrow> ManualInvoiceInput \<Rightarrow> db \<Rightarrow> (string \<times> db) res" where
  "RegisterManualInvoice s e p rid i d =
     andThen (checkManualInvoice e i) (\<lambda>k.
     andThen (pendingManual d (p_tenant p) rid) (\<lambda>(r, cs).
     andThen (requireInvoiceRequestScopeTx s p ''settlement.invoice.issue'' rid d) (\<lambda>d1.
     let currency = toUpper (trimSpace (cs_currency cs)); tid = e_ids e 0 in
     if length currency \<noteq> 3 then Inl ErrInvalid
     else andThen (insert_row tax_invoice_clash (manualInvoice tid r currency k) (tax_invoices (taxes d1))) (\<lambda>t.
     andThen (closeManual (p_tenant p) rid tid t d1) (\<lambda>d2.
     andThen (outbox e 1 (p_tenant p) ''PLATFORM_AUDIT'' ''SETTLEMENT_INVOICE_ISSUED'' ''tax_invoice'' tid
        [(''actor_id'', JStr (p_user p)), (''invoice_request_id'', JStr rid), (''result'', JStr ''SUCCESS''),
         (''risk_level'', JStr ''HIGH'')] d2) (\<lambda>d3. Inr (tid, d3)))))))"

section \<open>Cancelling a request the provider never accepted\<close>

definition newerAttempt :: "issue_attempt \<Rightarrow> issue_attempt \<Rightarrow> bool" where
  "newerAttempt a b \<longleftrightarrow> at_no b < at_no a \<or>
     (at_no a = at_no b \<and> (at_requested_at b < at_requested_at a \<or>
        (at_requested_at a = at_requested_at b \<and> strLess (at_id b) (at_id a))))"

definition latestAttempt :: "db \<Rightarrow> string \<Rightarrow> string \<Rightarrow> issue_attempt option" where
  "latestAttempt d tenant rid = best newerAttempt (filter (attemptOf tenant rid) (issue_attempts (taxes d)))"

definition commandOf :: "issue_attempt \<Rightarrow> string" where
  "commandOf a = (case at_command a of None \<Rightarrow> '''' | Some c \<Rightarrow> c)"

definition cancellableAttemptStatus :: "attempt_status \<Rightarrow> bool" where
  "cancellableAttemptStatus st \<longleftrightarrow> st = AT_PENDING \<or> st = AT_ISSUE_FAILED"

definition cancellableRequestStatus :: "request_status \<Rightarrow> bool" where
  "cancellableRequestStatus st \<longleftrightarrow> st = IR_ISSUE_PENDING \<or> st = IR_ISSUE_FAILED"

definition commandIsDead :: "db \<Rightarrow> string \<Rightarrow> string \<Rightarrow> unit res" where
  "commandIsDead d tenant event =
     (if event = '''' then Inr ()
      else case best newerEvent (filter (\<lambda>x. ob_tenant x = tenant \<and> ob_event x = event) (outbox_events d)) of
        None \<Rightarrow> Inl ErrConflict
      | Some x \<Rightarrow> if ob_destination x \<noteq> ''TAX_INVOICE_COMMAND'' \<or> ob_status x \<noteq> OB_DEAD_LETTER
                  then Inl ErrConflict else Inr ())"

definition attemptNeverAccepted :: "db \<Rightarrow> string \<Rightarrow> string \<Rightarrow> string \<Rightarrow> unit res" where
  "attemptNeverAccepted d tenant attempt command =
     (if attempt = '''' then Inr ()
      else andThen (query_row ErrConflict (att_is tenant attempt) (issue_attempts (taxes d))) (\<lambda>a.
        if commandOf a \<noteq> command then Inl ErrConflict
        else if at_accepted_at a \<noteq> None then Inl ErrConflict
        else if \<not> cancellableAttemptStatus (at_status a) then Inl ErrConflict
        else Inr ()))"

definition abandonAttempt :: "string \<Rightarrow> string \<Rightarrow> db \<Rightarrow> db res" where
  "abandonAttempt tenant attempt d =
     (if attempt = '''' then Inr d
      else if affected (\<lambda>a. att_is tenant attempt a \<and> cancellableAttemptStatus (at_status a))
                (issue_attempts (taxes d)) \<noteq> 1 then Inl ErrConflict
      else Inr (updateAttempt tenant attempt (\<lambda>a. cancellableAttemptStatus (at_status a))
             (\<lambda>a. a\<lparr>at_status := AT_ABANDONED\<rparr>) d))"

definition showRequestStatus :: "request_status \<Rightarrow> string" where
  "showRequestStatus st = (case st of IR_SUBMITTED \<Rightarrow> ''SUBMITTED'' | IR_SPECIAL_REVIEW \<Rightarrow> ''SPECIAL_REVIEW''
     | IR_ISSUE_PENDING \<Rightarrow> ''ISSUE_PENDING'' | IR_ISSUE_UNKNOWN \<Rightarrow> ''ISSUE_UNKNOWN''
     | IR_ISSUE_FAILED \<Rightarrow> ''ISSUE_FAILED'' | IR_ISSUED \<Rightarrow> ''ISSUED'' | IR_REJECTED \<Rightarrow> ''REJECTED''
     | IR_CANCELLED \<Rightarrow> ''CANCELLED'')"

definition reviewDigest :: "Principal \<Rightarrow> string \<Rightarrow> int \<Rightarrow> string \<Rightarrow> json" where
  "reviewDigest p rid version reason = JObj [(''actor_id'', JStr (p_user p)), (''id'', JStr rid),
     (''reason'', JStr reason), (''version'', JInt version)]"

text \<open>The request after the locks: its status, its version, who submitted it.\<close>

definition requestForWithdrawal ::
  "Principal \<Rightarrow> string \<Rightarrow> int \<Rightarrow> (request_status \<Rightarrow> bool) \<Rightarrow> db \<Rightarrow> invoice_request res" where
  "requestForWithdrawal p rid version ok d =
     andThen (query_row ErrNotFound (req_is (p_tenant p) rid) (invoice_requests (taxes d))) (\<lambda>r.
     if \<not> ok (ir_status r) \<or> ir_version r \<noteq> version then Inl ErrConflict
     else if ir_submitted_by r = p_user p then Inl ErrInvalid
     else Inr r)"

definition invoicesOf :: "db \<Rightarrow> string \<Rightarrow> string \<Rightarrow> nat" where
  "invoicesOf d tenant rid = affected (\<lambda>t. ti_request t = rid \<and> ti_tenant t = tenant) (tax_invoices (taxes d))"

definition cancelRequest :: "string \<Rightarrow> string \<Rightarrow> int \<Rightarrow> string \<Rightarrow> db \<Rightarrow> db res" where
  "cancelRequest tenant rid version reason d =
     (if affected (\<lambda>r. req_is tenant rid r \<and> ir_version r = version \<and> cancellableRequestStatus (ir_status r))
           (invoice_requests (taxes d)) \<noteq> 1 then Inl ErrConflict
      else Inr (updateRequest tenant rid (\<lambda>r. ir_version r = version \<and> cancellableRequestStatus (ir_status r))
             (\<lambda>r. r\<lparr>ir_status := IR_CANCELLED, ir_rejection := reason\<rparr>) d))"

definition CancelInvoiceRequest ::
  "Service \<Rightarrow> env \<Rightarrow> Principal \<Rightarrow> string \<Rightarrow> string \<Rightarrow> int \<Rightarrow> string \<Rightarrow> db \<Rightarrow> (unit \<times> db) res" where
  "CancelInvoiceRequest s e p key0 rid0 version reason0 d =
     (if \<not> Allows p ''settlement.invoice.issue'' \<or> trimSpace (p_tenant p) = '''' \<or> trimSpace (p_user p) = ''''
      then Inl ErrForbidden
      else let rid = trimSpace rid0; key = trimSpace key0; reason = trimSpace reason0 in
      if rid = '''' \<or> key = '''' \<or> length key > 128 \<or> version < 1 \<or> runeCount reason < 5 \<or> runeCount reason > 1000
      then Inl ErrInvalid
      else andThen (claimIdempotency e (p_tenant p) ''CANCEL_INVOICE_REQUEST'' key rid (reviewDigest p rid version reason) d)
        (\<lambda>(existing, replay, d1).
      if replay then Inr ((), d1)
      else let (attempt, command) = (case latestAttempt d1 (p_tenant p) rid of
                  None \<Rightarrow> ('''', '''') | Some a \<Rightarrow> (at_id a, commandOf a))
      in andThen (commandIsDead d1 (p_tenant p) command) (\<lambda>_.
      andThen (attemptNeverAccepted d1 (p_tenant p) attempt command) (\<lambda>_.
      andThen (requestForWithdrawal p rid version cancellableRequestStatus d1) (\<lambda>r.
      andThen (requireInvoiceRequestScopeTx s p ''settlement.invoice.issue'' rid d1) (\<lambda>d2.
      if invoicesOf d2 (p_tenant p) rid \<noteq> 0 then Inl ErrConflict
      else if resultsOf d2 (p_tenant p) rid [TP_UNKNOWN, TP_PROVIDER_CONFLICT] \<noteq> 0 then Inl ErrConflict
      else andThen (abandonAttempt (p_tenant p) attempt d2) (\<lambda>d3.
      andThen (cancelRequest (p_tenant p) rid version reason d3) (\<lambda>d4.
      andThen (outbox e 0 (p_tenant p) ''PLATFORM_AUDIT'' ''SETTLEMENT_INVOICE_CANCELLED'' ''invoice_request'' rid
         [(''actor_id'', JStr (p_user p)), (''attempt_id'', JStr attempt), (''command_event_id'', JStr command),
          (''reason'', JStr reason), (''previous_status'', JStr (showRequestStatus (ir_status r))),
          (''previous_version'', JInt version), (''result'', JStr ''SUCCESS''), (''risk_level'', JStr ''HIGH'')]
         (releaseReservations (\<lambda>a. ia_reserved a - ia_invoiced a) (p_tenant p) rid d4)) (\<lambda>d5.
      Inr ((), d5))))))))))"

section \<open>Returning a failed request to review\<close>

definition recoverableInvoiceFailure :: "issue_attempt \<Rightarrow> bool" where
  "recoverableInvoiceFailure a \<longleftrightarrow> at_status a = AT_ISSUE_FAILED \<and> at_channel a = TAX_ADAPTER \<and>
     at_sequence a > 0 \<and> trimSpace (at_last_event a) \<noteq> ''''"

definition conflictsOf :: "db \<Rightarrow> string \<Rightarrow> string \<Rightarrow> nat" where
  "conflictsOf d tenant attempt =
     affected (\<lambda>t. tr_tenant t = tenant \<and> tr_operation t = INVOICE_ISSUE \<and> tr_aggregate t = attempt \<and>
       tr_status t = TP_PROVIDER_CONFLICT) (tax_results (taxes d))"

definition RecoverFailedInvoice ::
  "Service \<Rightarrow> env \<Rightarrow> Principal \<Rightarrow> string \<Rightarrow> string \<Rightarrow> int \<Rightarrow> string \<Rightarrow> db \<Rightarrow> (unit \<times> db) res" where
  "RecoverFailedInvoice s e p key0 rid version reason0 d =
     (let reason = trimSpace reason0; key = trimSpace key0 in
      if key = '''' \<or> length key > 128 \<or> p_user p = '''' \<or> p_tenant p = '''' \<or> version < 1 \<or>
         runeCount reason < 5 \<or> runeCount reason > 1000 then Inl ErrInvalid
      else andThen (claimIdempotency e (p_tenant p) ''RECOVER_FAILED_INVOICE'' key rid (reviewDigest p rid version reason) d)
        (\<lambda>(existing, replay, d1).
      if replay then Inr ((), d1)
      else andThen (requestForWithdrawal p rid version (\<lambda>st. st = IR_ISSUE_FAILED) d1) (\<lambda>r.
      case latestAttempt d1 (p_tenant p) rid of
        None \<Rightarrow> Inl ErrConflict
      | Some a \<Rightarrow>
          if \<not> recoverableInvoiceFailure a \<or> invoiceIssuanceMode s \<noteq> ''tax_adapter'' \<or>
             at_provider a \<noteq> taxProviderCode s then Inl ErrConflict
          else if invoicesOf d1 (p_tenant p) rid \<noteq> 0 then Inl ErrConflict
          else if conflictsOf d1 (p_tenant p) (at_id a) \<noteq> 0 then Inl ErrConflict
          else andThen (outbox e 0 (p_tenant p) ''PLATFORM_AUDIT'' ''SETTLEMENT_INVOICE_FAILURE_REVIEWED'' ''invoice_request'' rid
             [(''actor_id'', JStr (p_user p)), (''failed_attempt_id'', JStr (at_id a)), (''reason'', JStr reason),
              (''previous_version'', JInt version), (''result'', JStr ''SUCCESS''), (''risk_level'', JStr ''HIGH'')]
             (updateRequest (p_tenant p) rid (\<lambda>x. ir_version x = version \<and> ir_status x = IR_ISSUE_FAILED)
                (\<lambda>x. x\<lparr>ir_status := IR_SUBMITTED, ir_approved_by := ''''\<rparr>) d1)) (\<lambda>d2. Inr ((), d2)))))"

section \<open>Red flush requests\<close>

record InvoiceRedFlushInput =
  fi_reason_code :: string
  fi_reason_detail :: string

definition redFlushReasons :: "string list" where
  "redFlushReasons = [''INVOICE_ERROR'', ''CONTRACT_CHANGE'', ''RETURN_OR_DISCOUNT'', ''OTHER'']"

definition activeRedFlush :: "string \<Rightarrow> string \<Rightarrow> red_flush_request \<Rightarrow> bool" where
  "activeRedFlush tenant invoiceID f \<longleftrightarrow> rf_tenant f = tenant \<and> rf_invoice f = invoiceID \<and>
     rf_status f \<in> {RF_SUBMITTED, RF_ISSUE_PENDING, RF_PROCESSING, RF_ISSUE_UNKNOWN}"

definition newRedFlush ::
  "Principal \<Rightarrow> string \<Rightarrow> string \<Rightarrow> string \<Rightarrow> string \<Rightarrow> string \<Rightarrow> red_flush_request" where
  "newRedFlush p key fid invoiceID code detail =
     \<lparr>rf_id = fid, rf_tenant = p_tenant p, rf_invoice = invoiceID, rf_reason_code = code,
      rf_reason_detail = detail, rf_idem = key, rf_status = RF_SUBMITTED, rf_requested_by = p_user p,
      rf_reviewed_by = '''', rf_review_reason = '''', rf_version = 1\<rparr>"

definition RequestInvoiceRedFlush ::
  "Service \<Rightarrow> env \<Rightarrow> Principal \<Rightarrow> string \<Rightarrow> string \<Rightarrow> InvoiceRedFlushInput \<Rightarrow> db \<Rightarrow> (string \<times> db) res" where
  "RequestInvoiceRedFlush s e p key0 invoiceID i d =
     andThen (required key0) (\<lambda>key.
     andThen (required (fi_reason_detail i)) (\<lambda>reason.
     if length reason > 500 then Inl ErrInvalid
     else let code = trimSpace (fi_reason_code i); fid = e_ids e 0 in
     if code \<notin> set redFlushReasons then Inl ErrInvalid
     else andThen (claimIdempotency e (p_tenant p) ''REQUEST_INVOICE_RED_FLUSH'' key fid
        (JArr [JStr invoiceID, JStr code, JStr reason]) d) (\<lambda>(existing, replay, d1).
     if replay then Inr (existing, d)
     else andThen (invoiceRequestOf d1 (p_tenant p) invoiceID) (\<lambda>(ti, r).
     andThen (requireWriteScopeTx s p ''settlement.invoice.issue'' (ir_snapshot r) d1) (\<lambda>d2.
     if ti_status ti \<noteq> ISSUED then Inl ErrConflict
     else if affected (activeRedFlush (p_tenant p) invoiceID) (red_flush_requests (taxes d2)) > 0 then Inl ErrConflict
     else case insert_row red_flush_clash (newRedFlush p key fid invoiceID code reason) (red_flush_requests (taxes d2)) of
       Inl err \<Rightarrow> if err = SqlDuplicate then Inl ErrConflict else Inl err
     | Inr t \<Rightarrow>
         andThen (outbox e 1 (p_tenant p) ''PLATFORM_AUDIT'' ''SETTLEMENT_INVOICE_RED_FLUSH_SUBMITTED''
            ''invoice_red_flush_request'' fid
            [(''actor_id'', JStr (p_user p)), (''invoice_id'', JStr invoiceID), (''reason_code'', JStr code),
             (''result'', JStr ''SUCCESS''), (''risk_level'', JStr ''HIGH'')] (set_red_requests t d2)) (\<lambda>d3.
         Inr (fid, d3)))))))"

record InvoiceRedFlushReviewInput =
  fv_version :: int
  fv_reason :: string

definition red_is :: "string \<Rightarrow> string \<Rightarrow> red_flush_request \<Rightarrow> bool" where
  "red_is tenant fid f \<longleftrightarrow> rf_id f = fid \<and> rf_tenant f = tenant"

definition reviewRedFlush ::
  "Principal \<Rightarrow> string \<Rightarrow> int \<Rightarrow> red_flush_status \<Rightarrow> string \<Rightarrow> db \<Rightarrow> db" where
  "reviewRedFlush p fid version st reason d =
     set_red_requests (update_rows (\<lambda>f. red_is (p_tenant p) fid f \<and> rf_status f = RF_SUBMITTED \<and> rf_version f = version)
       (\<lambda>f. f\<lparr>rf_status := st, rf_reviewed_by := p_user p, rf_review_reason := reason,
             rf_version := rf_version f + 1\<rparr>) (red_flush_requests (taxes d))) d"

definition newRedAttempt :: "string \<Rightarrow> string \<Rightarrow> red_flush_request \<Rightarrow> string \<Rightarrow> red_flush_attempt" where
  "newRedAttempt aid tenant f provider =
     \<lparr>ra_id = aid, ra_tenant = tenant, ra_request = rf_id f, ra_invoice = rf_invoice f, ra_no = 1,
      ra_provider = provider, ra_external_request = aid, ra_operation = None, ra_command = None,
      ra_red_invoice = None, ra_status = AT_PENDING, ra_sequence = 0, ra_last_event = '''',
      ra_accepted_at = None, ra_next_reconcile = None, ra_reconciles = 0, ra_failure_code = '''', ra_failure_message = ''''\<rparr>"

definition redFlushCommand :: "Service \<Rightarrow> string \<Rightarrow> red_flush_request \<Rightarrow> tax_invoice \<Rightarrow> payload" where
  "redFlushCommand s attempt f ti =
     [(''operation_type'', JStr ''RED_FLUSH''), (''provider_code'', JStr (taxProviderCode s)),
      (''external_request_id'', JStr attempt), (''red_flush_attempt_id'', JStr attempt),
      (''red_flush_request_id'', JStr (rf_id f)), (''original_invoice_id'', JStr (rf_invoice f)),
      (''original_provider_code'', JStr (ti_provider ti)),
      (''original_external_invoice_id'', JStr (case ti_external ti of None \<Rightarrow> '''' | Some x \<Rightarrow> x)),
      (''invoice_code'', JStr (ti_code ti)), (''invoice_no'', JStr (ti_no ti)), (''invoice_type'', JStr (ti_type ti)),
      (''currency'', JStr (ti_currency ti)), (''amount_excl_tax'', JStr (money (ti_excl ti))),
      (''tax_amount'', JStr (money (ti_tax ti))), (''amount_incl_tax'', JStr (money (ti_incl ti))),
      (''reason_code'', JStr (rf_reason_code f)), (''reason_detail'', JStr (rf_reason_detail f))]"

text \<open>Approval: the request moves on, an attempt is opened and the command is queued.\<close>

definition approveRedFlush ::
  "Service \<Rightarrow> env \<Rightarrow> Principal \<Rightarrow> red_flush_request \<Rightarrow> int \<Rightarrow> db \<Rightarrow> db res" where
  "approveRedFlush s e p f version d =
     (if invoiceIssuanceMode s \<noteq> ''tax_adapter'' then Inl ErrConflict
      else let d1 = reviewRedFlush p (rf_id f) version RF_ISSUE_PENDING '''' d; attempt = e_ids e 0 in
      andThen (insert_row red_attempt_clash (newRedAttempt attempt (p_tenant p) f (taxProviderCode s))
         (red_flush_attempts (taxes d1))) (\<lambda>t.
      let d2 = set_red_attempts t d1 in
      andThen (query_row SqlNoRows (\<lambda>x. ti_id x = rf_invoice f \<and> ti_tenant x = p_tenant p) (tax_invoices (taxes d2))) (\<lambda>ti.
      andThen (outbox e 1 (p_tenant p) ''TAX_INVOICE_COMMAND'' ''SETTLEMENT_INVOICE_RED_FLUSH_REQUESTED'' ''tax_invoice''
         (rf_invoice f) (redFlushCommand s attempt f ti) d2) (\<lambda>d3.
      outbox e 2 (p_tenant p) ''PLATFORM_AUDIT'' ''SETTLEMENT_INVOICE_RED_FLUSH_APPROVED'' ''invoice_red_flush_request'' (rf_id f)
         [(''actor_id'', JStr (p_user p)), (''invoice_id'', JStr (rf_invoice f)), (''result'', JStr ''SUCCESS''),
          (''risk_level'', JStr ''HIGH'')]
         (set_red_attempts (update_rows (\<lambda>a. ra_id a = attempt \<and> ra_tenant a = p_tenant p)
            (\<lambda>a. a\<lparr>ra_command := latestCommand d3 (p_tenant p) ''SETTLEMENT_INVOICE_RED_FLUSH_REQUESTED'' (rf_invoice f)\<rparr>)
            (red_flush_attempts (taxes d3))) d3)))))"

definition ReviewInvoiceRedFlush ::
  "Service \<Rightarrow> env \<Rightarrow> Principal \<Rightarrow> string \<Rightarrow> bool \<Rightarrow> InvoiceRedFlushReviewInput \<Rightarrow> db \<Rightarrow> (unit \<times> db) res" where
  "ReviewInvoiceRedFlush s e p fid approve i d =
     (if fv_version i < 1 then Inl ErrInvalid
      else let reason = trimSpace (fv_reason i) in
      if \<not> approve \<and> reason = '''' then Inl ErrInvalid
      else if length reason > 500 then Inl ErrInvalid
      else andThen (query_row ErrNotFound (red_is (p_tenant p) fid) (red_flush_requests (taxes d))) (\<lambda>f.
      if approve \<and> rf_status f = RF_ISSUE_PENDING \<and> rf_reviewed_by f = p_user p then Inr ((), d)
      else if \<not> approve \<and> rf_status f = RF_REJECTED \<and> rf_reviewed_by f = p_user p \<and> rf_review_reason f = reason
        then Inr ((), d)
      else if rf_status f \<noteq> RF_SUBMITTED \<or> rf_version f \<noteq> fv_version i then Inl ErrConflict
      else if rf_requested_by f = p_user p then Inl ErrConflict
      else andThen (requireTaxInvoiceScopeTx s p ''settlement.invoice.approve'' (rf_invoice f) d) (\<lambda>d1.
      andThen (if approve then approveRedFlush s e p f (fv_version i) d1
               else outbox e 0 (p_tenant p) ''PLATFORM_AUDIT'' ''SETTLEMENT_INVOICE_RED_FLUSH_REJECTED'' ''invoice_red_flush_request'' fid
                 [(''actor_id'', JStr (p_user p)), (''invoice_id'', JStr (rf_invoice f)), (''reason'', JStr reason),
                  (''result'', JStr ''SUCCESS''), (''risk_level'', JStr ''HIGH'')]
                 (reviewRedFlush p fid (fv_version i) RF_REJECTED reason d1)) (\<lambda>d2. Inr ((), d2)))))"

end
