(* ===== verification/TaxCallback.thy ===== *)
theory TaxCallback
  imports Invoicing
begin

text \<open>
  Results of the tax provider (tax_callback.go): the inbox that makes a result take effect at most
  once, the result of an issue attempt, the late result after a cancellation, and the result of a
  red flush with the reversal of the invoiced amounts.
\<close>

section \<open>Events\<close>

record TaxInvoiceResult =
  xr_external :: string
  xr_code :: string
  xr_no :: string
  xr_type :: string
  xr_currency :: string
  xr_excl :: string
  xr_tax :: string
  xr_incl :: string
  xr_date :: string
  xr_seller :: "payload option"
  xr_items :: "InvoiceItemInput list"

text \<open>\<open>ev_occurred\<close> is None for the zero time.\<close>

record TaxCallbackEvent =
  ev_id :: string
  ev_type :: string
  ev_tenant :: string
  ev_provider :: string
  ev_occurred :: "int option"
  ev_sequence :: nat
  ev_attempt :: string
  ev_red_attempt :: string
  ev_red_request :: string
  ev_external_request :: string
  ev_operation :: string
  ev_failure_code :: string
  ev_failure_message :: string
  ev_invoice :: "TaxInvoiceResult option"

definition TaxInvoiceIssuedEvent :: string where
  "TaxInvoiceIssuedEvent = ''tax.invoice.issued.v1''"

definition TaxInvoiceIssueFailedEvent :: string where
  "TaxInvoiceIssueFailedEvent = ''tax.invoice.issue_failed.v1''"

definition TaxInvoiceIssueUnknownEvent :: string where
  "TaxInvoiceIssueUnknownEvent = ''tax.invoice.issue_unknown.v1''"

definition TaxInvoiceRedFlushedEvent :: string where
  "TaxInvoiceRedFlushedEvent = ''tax.invoice.red_flushed.v1''"

definition TaxInvoiceRedFlushFailedEvent :: string where
  "TaxInvoiceRedFlushFailedEvent = ''tax.invoice.red_flush_failed.v1''"

definition TaxInvoiceRedFlushUnknownEvent :: string where
  "TaxInvoiceRedFlushUnknownEvent = ''tax.invoice.red_flush_unknown.v1''"

lemmas tax_event_defs = TaxInvoiceIssuedEvent_def TaxInvoiceIssueFailedEvent_def TaxInvoiceIssueUnknownEvent_def
  TaxInvoiceRedFlushedEvent_def TaxInvoiceRedFlushFailedEvent_def TaxInvoiceRedFlushUnknownEvent_def

definition validateTaxInvoiceResult :: "TaxInvoiceResult option \<Rightarrow> unit res" where
  "validateTaxInvoiceResult r =
     (case r of None \<Rightarrow> Inl ErrInvalid
      | Some x \<Rightarrow>
          if list_ex (\<lambda>v. trimSpace v = '''') [xr_external x, xr_code x, xr_no x, xr_type x, xr_currency x,
               xr_excl x, xr_tax x, xr_incl x, xr_date x] then Inl ErrInvalid
          else if length (xr_code x) > 64 \<or> length (xr_no x) > 64 \<or> length (xr_external x) > 128 then Inl ErrInvalid
          else if parseDate (xr_date x) = None then Inl ErrInvalid
          else if length (xr_currency x) \<noteq> 3 \<or> xr_items x = [] then Inl ErrInvalid
          else Inr ())"

definition nullable :: "string \<Rightarrow> string option" where
  "nullable value = (if trimSpace value \<noteq> '''' then Some (trimSpace value) else None)"

definition coalesce :: "'a option \<Rightarrow> 'a option \<Rightarrow> 'a option" where
  "coalesce x y = (case x of None \<Rightarrow> y | Some v \<Rightarrow> Some v)"

definition negateDecimal :: "string \<Rightarrow> string" where
  "negateDecimal value = (case ratSetString value of None \<Rightarrow> ''0.00'' | Some r \<Rightarrow> floatString 2 (- r))"

definition sameMoney :: "string \<Rightarrow> string \<Rightarrow> bool" where
  "sameMoney left right =
     (case ratSetString (trimSpace left) of None \<Rightarrow> False
      | Some l \<Rightarrow> (case ratSetString (trimSpace right) of None \<Rightarrow> False | Some r \<Rightarrow> l = r))"

text \<open>\<open>strings.EqualFold\<close> on ASCII text; currencies are three bytes.\<close>

definition lowerByte :: "char \<Rightarrow> char" where
  "lowerByte c = (if isUpper c then char_of (byte c + 32) else c)"

definition equalFold :: "string \<Rightarrow> string \<Rightarrow> bool" where
  "equalFold s t \<longleftrightarrow> map lowerByte s = map lowerByte t"

definition jsonOptional :: "payload option \<Rightarrow> json" where
  "jsonOptional m = (case m of None \<Rightarrow> JNull | Some kvs \<Rightarrow> JObj kvs)"

definition jsonResult :: "TaxInvoiceResult \<Rightarrow> json" where
  "jsonResult x = JArr [JStr (xr_external x), JStr (xr_code x), JStr (xr_no x), JStr (xr_type x),
     JStr (xr_currency x), JStr (xr_excl x), JStr (xr_tax x), JStr (xr_incl x), JStr (xr_date x),
     jsonOptional (xr_seller x), JArr (map jsonItem (xr_items x))]"

definition invoiceResultHash :: "env \<Rightarrow> TaxInvoiceResult \<Rightarrow> string" where
  "invoiceResultHash e x = e_sha256 e (jsonResult x)"

definition jsonEvent :: "TaxCallbackEvent \<Rightarrow> json" where
  "jsonEvent v = JArr [JStr (ev_id v), JStr (ev_type v), JStr (ev_tenant v), JStr (ev_provider v),
     (case ev_occurred v of None \<Rightarrow> JNull | Some t \<Rightarrow> JInt t), JInt (int (ev_sequence v)), JStr (ev_attempt v),
     JStr (ev_red_attempt v), JStr (ev_red_request v), JStr (ev_external_request v), JStr (ev_operation v),
     JStr (ev_failure_code v), JStr (ev_failure_message v),
     (case ev_invoice v of None \<Rightarrow> JNull | Some x \<Rightarrow> jsonResult x)]"

section \<open>The lines and totals of a result\<close>

definition sameItem :: "InvoiceItemInput \<Rightarrow> InvoiceItemInput \<Rightarrow> bool" where
  "sameItem a b \<longleftrightarrow> it_name a = it_name b \<and> it_class a = it_class b \<and> it_spec a = it_spec b \<and>
     it_unit a = it_unit b \<and> sameMoney (it_quantity a) (it_quantity b) \<and> sameMoney (it_price a) (it_price b) \<and>
     sameMoney (it_excl a) (it_excl b) \<and> sameMoney (it_rate a) (it_rate b) \<and> sameMoney (it_tax a) (it_tax b) \<and>
     sameMoney (it_incl a) (it_incl b)"

definition validateInvoiceResultItems :: "string \<Rightarrow> string \<Rightarrow> InvoiceItemInput list \<Rightarrow> db \<Rightarrow> unit res" where
  "validateInvoiceResultItems tenant rid actual d =
     (let expected = map itemText (requestLines d tenant rid) in
      if length expected \<noteq> length actual then Inl ErrConflict
      else if \<not> list_all2 sameItem expected actual then Inl ErrConflict
      else Inr ())"

definition sameTotals :: "TaxInvoiceResult \<Rightarrow> string \<Rightarrow> string \<Rightarrow> int \<Rightarrow> int \<Rightarrow> int \<Rightarrow> bool" where
  "sameTotals x kind currency excl tax incl \<longleftrightarrow>
     xr_type x = kind \<and> equalFold (xr_currency x) currency \<and> sameMoney (xr_excl x) (money excl) \<and>
     sameMoney (xr_tax x) (money tax) \<and> sameMoney (xr_incl x) (money incl)"

fun insertTaxItems ::
  "(InvoiceItemInput \<Rightarrow> InvoiceItemInput) \<Rightarrow> env \<Rightarrow> nat \<Rightarrow> string \<Rightarrow> string \<Rightarrow> nat \<Rightarrow> InvoiceItemInput list \<Rightarrow> db \<Rightarrow> db res"
where
  "insertTaxItems f e n tenant tid line [] d = Inr d"
| "insertTaxItems f e n tenant tid line (x # xs) d =
     andThen (insert_row tax_item_clash
       \<lparr>tx_id = e_ids e n, tx_tenant = tenant, tx_invoice = tid, tx_line = line, tx_item = f x\<rparr>
       (tax_invoice_items (taxes d))) (\<lambda>t.
     insertTaxItems f e (Suc n) tenant tid (Suc line) xs (d\<lparr>taxes := (taxes d)\<lparr>tax_invoice_items := t\<rparr>\<rparr>))"

section \<open>The result of an issue attempt\<close>

text \<open>
  The row of an attempt with a newer result. The provider's operation identifier is unique per
  tenant and provider, so recording one that another attempt carries fails.
\<close>

definition operationTaken :: "TaxCallbackEvent \<Rightarrow> issue_attempt list \<Rightarrow> issue_attempt \<Rightarrow> bool" where
  "operationTaken v attempts a =
     exists_row (\<lambda>b. at_id b \<noteq> at_id a \<and> at_tenant b = at_tenant a \<and> at_provider b = at_provider a \<and>
       sameValue (at_operation b) (coalesce (at_operation a) (nullable (ev_operation v)))) attempts"

definition recordResult ::
  "string \<Rightarrow> TaxCallbackEvent \<Rightarrow> (issue_attempt \<Rightarrow> issue_attempt) \<Rightarrow> db \<Rightarrow> db res" where
  "recordResult tenant v f d =
     (if exists_row (\<lambda>a. att_is tenant (ev_attempt v) a \<and> operationTaken v (issue_attempts (taxes d)) a)
           (issue_attempts (taxes d)) then Inl SqlDuplicate
      else Inr (updateAttempt tenant (ev_attempt v) (\<lambda>_. True)
        (\<lambda>a. (f a)\<lparr>at_sequence := ev_sequence v, at_last_event := ev_id v,
                   at_operation := coalesce (at_operation a) (nullable (ev_operation v))\<rparr>) d))"

definition openRequest :: "invoice_request \<Rightarrow> bool" where
  "openRequest r \<longleftrightarrow> ir_status r = IR_ISSUE_PENDING \<or> ir_status r = IR_ISSUE_UNKNOWN"

text \<open>The attempt of the event joined with its request and contract.\<close>

definition attemptFacts ::
  "db \<Rightarrow> string \<Rightarrow> string \<Rightarrow> (issue_attempt \<times> invoice_request \<times> contract_snapshot) res" where
  "attemptFacts d tenant aid =
     andThen (query_row ErrNotFound (\<lambda>a. att_is tenant aid a \<and> at_channel a = TAX_ADAPTER) (issue_attempts (taxes d))) (\<lambda>a.
     andThen (query_row ErrNotFound (\<lambda>r. ir_id r = at_request a \<and> ir_tenant r = at_tenant a) (invoice_requests (taxes d))) (\<lambda>r.
     andThen (query_row ErrNotFound (\<lambda>cs. cs_id cs = ir_snapshot r \<and> cs_tenant cs = ir_tenant r) (snapshots d)) (\<lambda>cs.
     Inr (a, r, cs))))"

definition lateCallbackMessage :: string where
  "lateCallbackMessage =
    [CHR 0xE7, CHR 0xBB, CHR 0x93, CHR 0xE7, CHR 0xAE, CHR 0x97, CHR 0xE5, CHR 0xB7, CHR 0xB2, CHR 0xE4,
     CHR 0xBD, CHR 0x9C, CHR 0xE5, CHR 0xBA, CHR 0x9F, CHR 0xE5, CHR 0x90, CHR 0x8E, CHR 0xE6, CHR 0x94,
     CHR 0xB6, CHR 0xE5, CHR 0x88, CHR 0xB0, CHR 0xE7, CHR 0xA8, CHR 0x8E, CHR 0xE6, CHR 0x8E, CHR 0xA7,
     CHR 0xE5, CHR 0x9B, CHR 0x9E, CHR 0xE6, CHR 0x89, CHR 0xA7, CHR 0xEF, CHR 0xBC, CHR 0x8C, CHR 0xE7,
     CHR 0xA8, CHR 0x8E, CHR 0xE6, CHR 0x8E, CHR 0xA7, CHR 0xE5, CHR 0x8F, CHR 0xAF, CHR 0xE8, CHR 0x83,
     CHR 0xBD, CHR 0xE5, CHR 0xB7, CHR 0xB2, CHR 0xE5, CHR 0xBC, CHR 0x80, CHR 0xE7, CHR 0xA5, CHR 0xA8,
     CHR 0xEF, CHR 0xBC, CHR 0x8C, CHR 0xE9, CHR 0x9C, CHR 0x80, CHR 0xE4, CHR 0xBA, CHR 0xBA, CHR 0xE5,
     CHR 0xB7, CHR 0xA5, CHR 0xE5, CHR 0xAF, CHR 0xB9, CHR 0xE8, CHR 0xB4, CHR 0xA6, CHR 0xE6, CHR 0x88,
     CHR 0x96, CHR 0xE7, CHR 0xBA, CHR 0xA2, CHR 0xE5, CHR 0x86, CHR 0xB2]"

definition showAttemptStatus :: "attempt_status \<Rightarrow> string" where
  "showAttemptStatus st = (case st of AT_PENDING \<Rightarrow> ''PENDING'' | AT_ACCEPTED \<Rightarrow> ''ACCEPTED''
     | AT_PROCESSING \<Rightarrow> ''PROCESSING'' | AT_UNKNOWN \<Rightarrow> ''UNKNOWN'' | AT_ISSUED \<Rightarrow> ''ISSUED''
     | AT_ISSUE_FAILED \<Rightarrow> ''ISSUE_FAILED'' | AT_ABANDONED \<Rightarrow> ''ABANDONED'' | AT_CANCELLED \<Rightarrow> ''CANCELLED'')"

definition lateConflictPayload :: "TaxCallbackEvent \<Rightarrow> issue_attempt \<Rightarrow> invoice_request \<Rightarrow> payload" where
  "lateConflictPayload v a r =
     (let inv = (\<lambda>f. case ev_invoice v of None \<Rightarrow> '''' | Some x \<Rightarrow> f x) in
      [(''actor_id'', JStr ''TAX_ADAPTER''), (''invoice_request_id'', JStr (ir_id r)),
       (''attempt_id'', JStr (ev_attempt v)), (''attempt_status'', JStr (showAttemptStatus (at_status a))),
       (''request_status'', JStr (showRequestStatus (ir_status r))), (''callback_event_id'', JStr (ev_id v)),
       (''callback_event_type'', JStr (ev_type v)), (''external_request_id'', JStr (ev_external_request v)),
       (''external_invoice_id'', JStr (inv xr_external)), (''invoice_code'', JStr (inv xr_code)),
       (''invoice_no'', JStr (inv xr_no)), (''processing_status'', JStr ''PROVIDER_CONFLICT''),
       (''reason'', JStr (''settlement invoice request was cancelled before the tax provider result arrived; '' @
          ''provider state requires manual reconciliation'')),
       (''result'', JStr ''FAILURE''), (''risk_level'', JStr ''HIGH'')])"

definition recordLateIssueCallbackAfterCancel ::
  "env \<Rightarrow> string \<Rightarrow> issue_attempt \<Rightarrow> invoice_request \<Rightarrow> TaxCallbackEvent \<Rightarrow> db \<Rightarrow> (tax_processing \<times> db) res" where
  "recordLateIssueCallbackAfterCancel e tenant a r v d =
     (if ev_type v \<noteq> TaxInvoiceIssuedEvent \<and> ev_type v \<noteq> TaxInvoiceIssueUnknownEvent then Inr (TP_IGNORED_TERMINAL, d)
      else andThen (recordResult tenant v (\<lambda>x. x\<lparr>at_failure_code := ''PROVIDER_CONFLICT_AFTER_CANCEL'',
               at_failure_message := lateCallbackMessage\<rparr>) d) (\<lambda>d1.
           andThen (outbox e 1 tenant ''PLATFORM_AUDIT'' ''SETTLEMENT_TAX_PROVIDER_CONFLICT'' ''invoice_request'' (ir_id r)
              (lateConflictPayload v a r) d1) (\<lambda>d2. Inr (TP_PROVIDER_CONFLICT, d2))))"

definition adapterInvoice ::
  "env \<Rightarrow> string \<Rightarrow> invoice_request \<Rightarrow> string \<Rightarrow> TaxCallbackEvent \<Rightarrow> TaxInvoiceResult \<Rightarrow> tax_invoice" where
  "adapterInvoice e tid r currency v x =
     \<lparr>ti_id = tid, ti_tenant = ir_tenant r, ti_request = ir_id r, ti_code = trimSpace (xr_code x),
      ti_no = trimSpace (xr_no x), ti_type = ir_type r, ti_currency = toUpper currency, ti_excl = ir_excl r,
      ti_tax = ir_tax r, ti_incl = ir_incl r, ti_date = xr_date x, ti_buyer = ir_buyer r,
      ti_seller = jsonOptional (xr_seller x), ti_status = ISSUED, ti_channel = TAX_ADAPTER,
      ti_provider = ev_provider v, ti_external = Some (xr_external x), ti_hash = Some (invoiceResultHash e x)\<rparr>"

definition finalizeInvoiceAllocations :: "string \<Rightarrow> string \<Rightarrow> db \<Rightarrow> db res" where
  "finalizeInvoiceAllocations tenant rid d =
     invoiceReserved (\<lambda>a. ia_status a = RESERVED) tenant rid (reservedRows d tenant rid) d"

text \<open>A success: the invoice and its lines are stored, attempt and request are closed, the balance moves.\<close>

definition issueInvoice ::
  "env \<Rightarrow> string \<Rightarrow> invoice_request \<Rightarrow> contract_snapshot \<Rightarrow> TaxCallbackEvent \<Rightarrow> TaxInvoiceResult \<Rightarrow> db \<Rightarrow> db res" where
  "issueInvoice e tenant r cs v x d =
     (let tid = e_ids e 1; n = length (xr_items x) in
      if \<not> sameTotals x (ir_type r) (cs_currency cs) (ir_excl r) (ir_tax r) (ir_incl r) then Inl ErrConflict
      else andThen (validateInvoiceResultItems tenant (ir_id r) (xr_items x) d) (\<lambda>_.
      andThen (insert_row tax_invoice_clash (adapterInvoice e tid r (cs_currency cs) v x) (tax_invoices (taxes d))) (\<lambda>t.
      andThen (insertTaxItems (\<lambda>y. y) e 2 tenant tid 1 (xr_items x) (set_tax_invoices t d)) (\<lambda>d1.
      andThen (recordResult tenant v (\<lambda>a. a\<lparr>at_status := AT_ISSUED, at_external_invoice := xr_external x,
         at_invoice := Some tid, at_failure_code := '''', at_failure_message := '''', at_next_reconcile := None\<rparr>) d1) (\<lambda>d2.
      andThen (finalizeInvoiceAllocations tenant (ir_id r)
         (updateRequest tenant (ir_id r) openRequest (\<lambda>q. q\<lparr>ir_status := IR_ISSUED\<rparr>) d2)) (\<lambda>d3.
      outbox e (2 + n) tenant ''PLATFORM_AUDIT'' ''SETTLEMENT_INVOICE_ISSUED'' ''tax_invoice'' tid
         [(''actor_id'', JStr ''TAX_ADAPTER''), (''invoice_request_id'', JStr (ir_id r)),
          (''attempt_id'', JStr (ev_attempt v)), (''result'', JStr ''SUCCESS''), (''risk_level'', JStr ''HIGH'')] d3))))))"

definition liveAttempt :: "attempt_status \<Rightarrow> bool" where
  "liveAttempt st \<longleftrightarrow> st = AT_PENDING \<or> st = AT_ACCEPTED \<or> st = AT_PROCESSING \<or> st = AT_UNKNOWN"

text \<open>The effect of a result on an attempt that still waits for one.\<close>

definition applyIssueResult ::
  "env \<Rightarrow> string \<Rightarrow> invoice_request \<Rightarrow> contract_snapshot \<Rightarrow> TaxCallbackEvent \<Rightarrow> db \<Rightarrow> (tax_processing \<times> db) res" where
  "applyIssueResult e tenant r cs v d =
     (if ev_type v = TaxInvoiceIssueUnknownEvent then
       andThen (recordResult tenant v (\<lambda>x. x\<lparr>at_status := AT_UNKNOWN, at_failure_code := ev_failure_code v,
          at_failure_message := ev_failure_message v, at_next_reconcile := Some (e_now e + 60000)\<rparr>) d) (\<lambda>d1.
       Inr (TP_APPLIED, updateRequest tenant (ir_id r) openRequest (\<lambda>q. q\<lparr>ir_status := IR_ISSUE_UNKNOWN\<rparr>) d1))
     else if ev_type v = TaxInvoiceIssueFailedEvent then
       (if trimSpace (ev_failure_code v) = '''' then Inl ErrInvalid
        else andThen (recordResult tenant v (\<lambda>x. x\<lparr>at_status := AT_ISSUE_FAILED, at_failure_code := ev_failure_code v,
          at_failure_message := ev_failure_message v, at_next_reconcile := None\<rparr>) d) (\<lambda>d1.
        Inr (TP_APPLIED, updateRequest tenant (ir_id r) openRequest (\<lambda>q. q\<lparr>ir_status := IR_ISSUE_FAILED\<rparr>) d1)))
     else case ev_invoice v of
       None \<Rightarrow> Inl NilDereference
     | Some x \<Rightarrow> andThen (issueInvoice e tenant r cs v x d) (\<lambda>d1. Inr (TP_APPLIED, d1)))"

definition applyInvoiceIssueCallback ::
  "env \<Rightarrow> string \<Rightarrow> TaxCallbackEvent \<Rightarrow> db \<Rightarrow> (tax_processing \<times> db) res" where
  "applyInvoiceIssueCallback e tenant v d =
     andThen (attemptFacts d tenant (ev_attempt v)) (\<lambda>(a, r, cs).
     if ev_external_request v \<noteq> at_external_request a then Inl ErrConflict
     else if ev_provider v \<noteq> at_provider a then Inl ErrConflict
     else if ev_sequence v \<le> at_sequence a then Inr (TP_IGNORED_STALE, d)
     else if at_status a = AT_ISSUED \<or> ir_status r = IR_ISSUED then Inr (TP_IGNORED_TERMINAL, d)
     else if at_status a = AT_ISSUE_FAILED \<or> ir_status r = IR_ISSUE_FAILED
       then Inr (if ev_type v = TaxInvoiceIssuedEvent then TP_PROVIDER_CONFLICT else TP_IGNORED_TERMINAL, d)
     else if at_status a = AT_ABANDONED \<or> at_status a = AT_CANCELLED \<or> ir_status r = IR_CANCELLED
       then recordLateIssueCallbackAfterCancel e tenant a r v d
     else if \<not> liveAttempt (at_status a) then Inl ErrConflict
     else applyIssueResult e tenant r cs v d)"

section \<open>The result of a red flush\<close>

definition ratt_is :: "string \<Rightarrow> string \<Rightarrow> red_flush_attempt \<Rightarrow> bool" where
  "ratt_is tenant aid a \<longleftrightarrow> ra_id a = aid \<and> ra_tenant a = tenant"

definition redOperationTaken :: "TaxCallbackEvent \<Rightarrow> red_flush_attempt list \<Rightarrow> red_flush_attempt \<Rightarrow> bool" where
  "redOperationTaken v attempts a =
     exists_row (\<lambda>b. ra_id b \<noteq> ra_id a \<and> ra_tenant b = ra_tenant a \<and> ra_provider b = ra_provider a \<and>
       sameValue (ra_operation b) (coalesce (ra_operation a) (nullable (ev_operation v)))) attempts"

definition recordRedResult ::
  "string \<Rightarrow> TaxCallbackEvent \<Rightarrow> (red_flush_attempt \<Rightarrow> red_flush_attempt) \<Rightarrow> db \<Rightarrow> db res" where
  "recordRedResult tenant v f d =
     (if exists_row (\<lambda>a. ratt_is tenant (ev_red_attempt v) a \<and> redOperationTaken v (red_flush_attempts (taxes d)) a)
           (red_flush_attempts (taxes d)) then Inl SqlDuplicate
      else Inr (set_red_attempts (update_rows (ratt_is tenant (ev_red_attempt v))
        (\<lambda>a. (f a)\<lparr>ra_sequence := ev_sequence v, ra_last_event := ev_id v,
                   ra_operation := coalesce (ra_operation a) (nullable (ev_operation v))\<rparr>)
        (red_flush_attempts (taxes d))) d))"

definition updateRedRequest ::
  "string \<Rightarrow> string \<Rightarrow> (red_flush_request \<Rightarrow> red_flush_request) \<Rightarrow> db \<Rightarrow> db" where
  "updateRedRequest tenant fid f d =
     set_red_requests (update_rows (red_is tenant fid) (\<lambda>q. (f q)\<lparr>rf_version := rf_version q + 1\<rparr>)
       (red_flush_requests (taxes d))) d"

definition redFacts ::
  "db \<Rightarrow> string \<Rightarrow> string \<Rightarrow> (red_flush_attempt \<times> red_flush_request \<times> tax_invoice) res" where
  "redFacts d tenant aid =
     andThen (query_row ErrNotFound (ratt_is tenant aid) (red_flush_attempts (taxes d))) (\<lambda>a.
     andThen (query_row ErrNotFound (\<lambda>f. rf_id f = ra_request a \<and> rf_tenant f = ra_tenant a) (red_flush_requests (taxes d))) (\<lambda>f.
     andThen (query_row ErrNotFound (\<lambda>t. ti_id t = ra_invoice a \<and> ti_tenant t = ra_tenant a) (tax_invoices (taxes d))) (\<lambda>t.
     Inr (a, f, t))))"

definition redInvoice ::
  "env \<Rightarrow> string \<Rightarrow> tax_invoice \<Rightarrow> TaxCallbackEvent \<Rightarrow> TaxInvoiceResult \<Rightarrow> tax_invoice" where
  "redInvoice e tid t v x =
     \<lparr>ti_id = tid, ti_tenant = ti_tenant t, ti_request = ti_request t, ti_code = xr_code x, ti_no = xr_no x,
      ti_type = ti_type t, ti_currency = toUpper (ti_currency t), ti_excl = - ti_excl t, ti_tax = - ti_tax t,
      ti_incl = - ti_incl t, ti_date = xr_date x, ti_buyer = ti_buyer t,
      ti_seller = (case xr_seller x of None \<Rightarrow> ti_seller t | Some m \<Rightarrow> JObj m), ti_status = ISSUED,
      ti_channel = TAX_ADAPTER, ti_provider = ev_provider v, ti_external = Some (xr_external x),
      ti_hash = Some (invoiceResultHash e x)\<rparr>"

definition negateItem :: "InvoiceItemInput \<Rightarrow> InvoiceItemInput" where
  "negateItem y = y\<lparr>it_excl := negateDecimal (it_excl y), it_tax := negateDecimal (it_tax y),
     it_incl := negateDecimal (it_incl y)\<rparr>"

text \<open>The invoiced allocations of the request: identifier, receivable, amount.\<close>

definition invoicedRows :: "db \<Rightarrow> string \<Rightarrow> string \<Rightarrow> (string \<times> string \<times> int) list" where
  "invoicedRows d tenant rid =
     map (\<lambda>a. (ia_id a, ia_receivable a, ia_invoiced a))
       (filter (\<lambda>a. ia_tenant a = tenant \<and> ia_request a = rid \<and> ia_status a = INVOICED) (invoice_allocations d))"

text \<open>
  The loop over those allocations; one that another red flush has already reversed is skipped.
  The result also says which identifier is next.
\<close>

fun reverseRows ::
  "env \<Rightarrow> nat \<Rightarrow> string \<Rightarrow> string \<Rightarrow> (string \<times> string \<times> int) list \<Rightarrow> db \<Rightarrow> (nat \<times> db) res" where
  "reverseRows e n tenant fid [] d = Inr (n, d)"
| "reverseRows e n tenant fid ((aid, vid, value) # rest) d =
     (if exists_row (\<lambda>r. vr_tenant r = tenant \<and> vr_allocation r = aid \<and> vr_request r \<noteq> fid) (invoice_reversals (taxes d))
      then reverseRows e n tenant fid rest d
      else andThen (insert_row invoice_reversal_clash
             \<lparr>vr_id = e_ids e n, vr_tenant = tenant, vr_request = fid, vr_allocation = aid, vr_amount = value\<rparr>
             (invoice_reversals (taxes d))) (\<lambda>t.
           andThen (decrementInvoiced tenant vid value (d\<lparr>taxes := (taxes d)\<lparr>invoice_reversals := t\<rparr>\<rparr>)) (\<lambda>d1.
           reverseRows e (Suc n) tenant fid rest d1)))"

definition reverseInvoiceAllocations ::
  "env \<Rightarrow> nat \<Rightarrow> string \<Rightarrow> string \<Rightarrow> string \<Rightarrow> db \<Rightarrow> (nat \<times> db) res" where
  "reverseInvoiceAllocations e n tenant fid rid d = reverseRows e n tenant fid (invoicedRows d tenant rid) d"

definition newRelation ::
  "string \<Rightarrow> string \<Rightarrow> string \<Rightarrow> red_flush_request \<Rightarrow> string \<Rightarrow> string \<Rightarrow> red_flush_relation" where
  "newRelation lid tenant fid f original red =
     \<lparr>rl_id = lid, rl_tenant = tenant, rl_request = fid, rl_original = original, rl_red = red,
      rl_reason_code = rf_reason_code f, rl_reason_detail = rf_reason_detail f, rl_by = ''TAX_ADAPTER''\<rparr>"

definition set_relations :: "red_flush_relation list \<Rightarrow> db \<Rightarrow> db" where
  "set_relations t d = d\<lparr>taxes := (taxes d)\<lparr>red_flush_relations := t\<rparr>\<rparr>"

text \<open>The rows of the red invoice: its head, its lines and its relation to the original.\<close>

definition storeRedInvoice ::
  "env \<Rightarrow> string \<Rightarrow> string \<Rightarrow> red_flush_request \<Rightarrow> tax_invoice \<Rightarrow> TaxCallbackEvent \<Rightarrow> TaxInvoiceResult \<Rightarrow> db \<Rightarrow> db res" where
  "storeRedInvoice e tenant fid f t v x d =
     (let tid = e_ids e 1; n = length (xr_items x) in
      andThen (insert_row tax_invoice_clash (redInvoice e tid t v x) (tax_invoices (taxes d))) (\<lambda>ts.
      andThen (insertTaxItems negateItem e 2 tenant tid 1 (xr_items x) (set_tax_invoices ts d)) (\<lambda>d1.
      andThen (insert_row relation_clash (newRelation (e_ids e (2 + n)) tenant fid f (ti_id t) tid)
         (red_flush_relations (taxes d1))) (\<lambda>ls.
      Inr (set_tax_invoices (update_rows (\<lambda>y. ti_id y = ti_id t \<and> ti_tenant y = tenant \<and> ti_status y = ISSUED)
               (\<lambda>y. y\<lparr>ti_status := RED_FLUSHED\<rparr>) (tax_invoices (taxes d1))) (set_relations ls d1))))))"

definition flushInvoice ::
  "env \<Rightarrow> string \<Rightarrow> string \<Rightarrow> red_flush_request \<Rightarrow> tax_invoice \<Rightarrow> TaxCallbackEvent \<Rightarrow> TaxInvoiceResult \<Rightarrow> db \<Rightarrow> db res" where
  "flushInvoice e tenant fid f t v x d =
     (if \<not> sameTotals x (ti_type t) (ti_currency t) (ti_excl t) (ti_tax t) (ti_incl t) then Inl ErrConflict
      else andThen (validateInvoiceResultItems tenant (ti_request t) (xr_items x) d) (\<lambda>_.
      andThen (storeRedInvoice e tenant fid f t v x d) (\<lambda>d1.
      andThen (recordRedResult tenant v (\<lambda>a. a\<lparr>ra_status := AT_ISSUED, ra_red_invoice := Some (e_ids e 1),
         ra_next_reconcile := None\<rparr>) (updateRedRequest tenant fid (\<lambda>q. q\<lparr>rf_status := RF_RED_FLUSHED\<rparr>) d1)) (\<lambda>d2.
      andThen (reverseInvoiceAllocations e (3 + length (xr_items x)) tenant fid (ti_request t) d2) (\<lambda>(n, d3).
      outbox e n tenant ''PLATFORM_AUDIT'' ''SETTLEMENT_INVOICE_RED_FLUSHED'' ''tax_invoice'' (ti_id t)
         [(''actor_id'', JStr ''TAX_ADAPTER''), (''red_invoice_id'', JStr (e_ids e 1)),
          (''red_flush_request_id'', JStr fid), (''result'', JStr ''SUCCESS''), (''risk_level'', JStr ''HIGH'')] d3)))))"

text \<open>A red flush that still waits for its result.\<close>

definition openRedFlush :: "red_flush_request \<Rightarrow> red_flush_attempt \<Rightarrow> bool" where
  "openRedFlush f a \<longleftrightarrow> (rf_status f = RF_ISSUE_PENDING \<or> rf_status f = RF_ISSUE_UNKNOWN) \<and>
     (ra_status a = AT_PENDING \<or> ra_status a = AT_UNKNOWN \<or> ra_status a = AT_ACCEPTED)"

definition applyRedResult ::
  "env \<Rightarrow> string \<Rightarrow> string \<Rightarrow> red_flush_request \<Rightarrow> tax_invoice \<Rightarrow> TaxCallbackEvent \<Rightarrow> db \<Rightarrow> (tax_processing \<times> db) res" where
  "applyRedResult e tenant fid f t v d =
     (if ev_type v = TaxInvoiceRedFlushUnknownEvent then
       andThen (recordRedResult tenant v (\<lambda>x. x\<lparr>ra_status := AT_UNKNOWN, ra_failure_code := ev_failure_code v,
          ra_failure_message := ev_failure_message v, ra_next_reconcile := Some (e_now e + 60000)\<rparr>) d) (\<lambda>d1.
       Inr (TP_APPLIED, updateRedRequest tenant fid (\<lambda>q. q\<lparr>rf_status := RF_ISSUE_UNKNOWN\<rparr>) d1))
     else if ev_type v = TaxInvoiceRedFlushFailedEvent then
       (if trimSpace (ev_failure_code v) = '''' then Inl ErrInvalid
        else andThen (recordRedResult tenant v (\<lambda>x. x\<lparr>ra_status := AT_ISSUE_FAILED, ra_failure_code := ev_failure_code v,
          ra_failure_message := ev_failure_message v, ra_next_reconcile := None\<rparr>) d) (\<lambda>d1.
        Inr (TP_APPLIED, updateRedRequest tenant fid (\<lambda>q. q\<lparr>rf_status := RF_ISSUE_FAILED,
          rf_review_reason := trimSpace (ev_failure_code v @ '': '' @ ev_failure_message v)\<rparr>) d1)))
     else case ev_invoice v of
       None \<Rightarrow> Inl NilDereference
     | Some x \<Rightarrow> andThen (flushInvoice e tenant fid f t v x d) (\<lambda>d1. Inr (TP_APPLIED, d1)))"

definition redRequestOf :: "TaxCallbackEvent \<Rightarrow> red_flush_attempt \<Rightarrow> string" where
  "redRequestOf v a = (if ev_red_request v = '''' then ra_request a else ev_red_request v)"

definition applyRedFlushCallback ::
  "env \<Rightarrow> string \<Rightarrow> TaxCallbackEvent \<Rightarrow> db \<Rightarrow> (tax_processing \<times> db) res" where
  "applyRedFlushCallback e tenant v d =
     andThen (redFacts d tenant (ev_red_attempt v)) (\<lambda>(a, f, t).
     if ev_external_request v \<noteq> ra_external_request a \<or> ev_provider v \<noteq> ra_provider a then Inl ErrConflict
     else if ev_sequence v \<le> ra_sequence a then Inr (TP_IGNORED_STALE, d)
     else if rf_status f = RF_RED_FLUSHED \<or> ti_status t \<noteq> ISSUED then Inr (TP_IGNORED_TERMINAL, d)
     else if rf_status f = RF_ISSUE_FAILED
       then Inr (if ev_type v = TaxInvoiceRedFlushedEvent then TP_PROVIDER_CONFLICT else TP_IGNORED_TERMINAL, d)
     else if \<not> openRedFlush f a then Inl ErrConflict
     else applyRedResult e tenant (redRequestOf v a) f t v d)"

section \<open>The inbox\<close>

definition issueEvent :: "TaxCallbackEvent \<Rightarrow> bool" where
  "issueEvent v \<longleftrightarrow> ev_type v \<in> {TaxInvoiceIssuedEvent, TaxInvoiceIssueFailedEvent, TaxInvoiceIssueUnknownEvent}"

definition redFlushEvent :: "TaxCallbackEvent \<Rightarrow> bool" where
  "redFlushEvent v \<longleftrightarrow>
     ev_type v \<in> {TaxInvoiceRedFlushedEvent, TaxInvoiceRedFlushFailedEvent, TaxInvoiceRedFlushUnknownEvent}"

definition aggregateOf :: "TaxCallbackEvent \<Rightarrow> string" where
  "aggregateOf v = trimSpace (if redFlushEvent v then ev_red_attempt v else ev_attempt v)"

definition checkTaxCallback :: "env \<Rightarrow> string \<Rightarrow> TaxCallbackEvent \<Rightarrow> unit res" where
  "checkTaxCallback e tenant v =
     (if tenant = '''' \<or> ev_tenant v \<noteq> tenant \<or> ev_provider v = '''' \<or> length (ev_provider v) > 64 \<or>
         ev_id v = '''' \<or> length (ev_id v) > 128 \<or> ev_sequence v = 0 \<or>
         (case ev_occurred v of None \<Rightarrow> True | Some t \<Rightarrow> t > e_now e + 300000) then Inl ErrInvalid
      else if \<not> issueEvent v \<and> \<not> redFlushEvent v then Inl ErrInvalid
      else if aggregateOf v = '''' \<or> length (aggregateOf v) > 32 then Inl ErrInvalid
      else if length (ev_external_request v) > 128 \<or> length (ev_failure_code v) > 64 \<or>
         length (ev_failure_message v) > 500 then Inl ErrInvalid
      else if ev_type v = TaxInvoiceIssuedEvent \<or> ev_type v = TaxInvoiceRedFlushedEvent
        then validateTaxInvoiceResult (ev_invoice v)
      else Inr ())"

definition resultStatusOf :: "TaxCallbackEvent \<Rightarrow> tax_result_status" where
  "resultStatusOf v =
     (if ev_type v = TaxInvoiceIssueUnknownEvent \<or> ev_type v = TaxInvoiceRedFlushUnknownEvent then RESULT_UNKNOWN
      else if ev_type v = TaxInvoiceIssueFailedEvent \<or> ev_type v = TaxInvoiceRedFlushFailedEvent then RESULT_REJECTED
      else SUCCEEDED)"

definition newResult :: "env \<Rightarrow> string \<Rightarrow> TaxCallbackEvent \<Rightarrow> tax_result" where
  "newResult e tenant v =
     \<lparr>tr_id = e_ids e 0, tr_tenant = tenant, tr_provider = ev_provider v, tr_event = ev_id v, tr_type = ev_type v,
      tr_operation = (if redFlushEvent v then RED_FLUSH else INVOICE_ISSUE), tr_aggregate = aggregateOf v,
      tr_external_request = ev_external_request v, tr_external_operation = nullable (ev_operation v),
      tr_sequence = ev_sequence v, tr_result = resultStatusOf v, tr_hash = e_sha256 e (jsonEvent v),
      tr_status = TP_PROCESSING\<rparr>"

definition set_results :: "tax_result list \<Rightarrow> db \<Rightarrow> db" where
  "set_results t d = d\<lparr>taxes := (taxes d)\<lparr>tax_results := t\<rparr>\<rparr>"

definition ApplyTaxCallback ::
  "env \<Rightarrow> string \<Rightarrow> TaxCallbackEvent \<Rightarrow> db \<Rightarrow> (tax_processing \<times> db) res" where
  "ApplyTaxCallback e trusted v0 d =
     (let tenant = trimSpace trusted; v = v0\<lparr>ev_provider := trimSpace (ev_provider v0)\<rparr> in
      andThen (checkTaxCallback e tenant v) (\<lambda>_.
      case insert_row tax_result_clash (newResult e tenant v) (tax_results (taxes d)) of
        Inl err \<Rightarrow>
          if err \<noteq> SqlDuplicate then Inl err
          else andThen (query_row SqlNoRows (\<lambda>r. tr_tenant r = tenant \<and> tr_provider r = ev_provider v \<and>
                 tr_event r = ev_id v) (tax_results (taxes d))) (\<lambda>r.
               if tr_hash r \<noteq> e_sha256 e (jsonEvent v) then Inl ErrConflict else Inr (tr_status r, d))
      | Inr t \<Rightarrow>
          andThen (if issueEvent v then applyInvoiceIssueCallback e tenant v (set_results t d)
                   else applyRedFlushCallback e tenant v (set_results t d)) (\<lambda>(st, d1).
          Inr (st, set_results (update_rows (\<lambda>r. tr_id r = e_ids e 0) (\<lambda>r. r\<lparr>tr_status := st\<rparr>)
                  (tax_results (taxes d1))) d1))))"

end
