(* ===== verification/InvoiceInvariant.thy ===== *)
theory InvoiceInvariant
  imports PlanProps TaxCallback
begin

text \<open>
  Invoicing stays within what is receivable. The invariant ties the invoiced amount of a
  receivable to the invoice allocations behind it and bounds it, together with the open
  reservations, by the amount of the receivable; every command of plans, ledger, invoices and tax
  results keeps it.
\<close>

section \<open>The invariant\<close>

definition reversedAllocation :: "db \<Rightarrow> invoice_allocation \<Rightarrow> bool" where
  "reversedAllocation d a \<longleftrightarrow>
     (\<exists>r \<in> set (invoice_reversals (taxes d)). vr_tenant r = ia_tenant a \<and> vr_allocation r = ia_id a)"

definition liveInvoiced :: "db \<Rightarrow> string \<Rightarrow> string \<Rightarrow> invoice_allocation \<Rightarrow> bool" where
  "liveInvoiced d t vid a \<longleftrightarrow> ia_tenant a = t \<and> ia_receivable a = vid \<and> ia_status a = INVOICED \<and> \<not> reversedAllocation d a"

definition netInvoiced :: "db \<Rightarrow> string \<Rightarrow> string \<Rightarrow> int" where
  "netInvoiced d t vid = sum_rows (liveInvoiced d t vid) ia_invoiced (invoice_allocations d)"

definition allocation_shape :: "invoice_allocation \<Rightarrow> bool" where
  "allocation_shape a \<longleftrightarrow> 0 < ia_reserved a \<and>
     (case ia_status a of
        RESERVED \<Rightarrow> ia_invoiced a = 0 \<and> ia_released a = 0
      | INVOICED \<Rightarrow> ia_invoiced a = ia_reserved a \<and> ia_released a = 0
      | RELEASED_RESERVATION \<Rightarrow> ia_invoiced a = 0 \<and> ia_released a = ia_reserved a)"

definition allocated_to :: "db \<Rightarrow> invoice_allocation \<Rightarrow> bool" where
  "allocated_to d a \<longleftrightarrow> (\<exists>v \<in> set (receivables d). rv_id v = ia_receivable a \<and> rv_tenant v = ia_tenant a)"

definition reversal_of :: "db \<Rightarrow> invoice_reversal \<Rightarrow> bool" where
  "reversal_of d r \<longleftrightarrow> (\<exists>a \<in> set (invoice_allocations d).
     ia_id a = vr_allocation r \<and> ia_tenant a = vr_tenant r \<and> ia_status a = INVOICED)"

definition invoice_ok :: "db \<Rightarrow> receivable \<Rightarrow> bool" where
  "invoice_ok d v \<longleftrightarrow> rv_invoiced v = netInvoiced d (rv_tenant v) (rv_id v) \<and>
     rv_invoiced v + reservedOf d (rv_tenant v) (rv_id v) \<le> rv_original v"

definition requestKey :: "invoice_allocation \<Rightarrow> string \<times> string \<times> string" where
  "requestKey a = (ia_tenant a, ia_request a, ia_receivable a)"

definition invoice_inv :: "db \<Rightarrow> bool" where
  "invoice_inv d \<longleftrightarrow> keyed ia_id (invoice_allocations d) \<and> keyed requestKey (invoice_allocations d) \<and>
     (\<forall>a \<in> set (invoice_allocations d). allocation_shape a \<and> allocated_to d a) \<and>
     (\<forall>r \<in> set (invoice_reversals (taxes d)). reversal_of d r) \<and>
     (\<forall>v \<in> set (receivables d). invoice_ok d v)"

interpretation reserved_k: keyed_table requestKey invoice_allocation_clash
  by unfold_locales (simp add: invoice_allocation_clash_def requestKey_def)

lemma invoice_invD:
  assumes "invoice_inv d"
  shows "keyed ia_id (invoice_allocations d)" "keyed requestKey (invoice_allocations d)"
    "a \<in> set (invoice_allocations d) \<Longrightarrow> allocation_shape a" "a \<in> set (invoice_allocations d) \<Longrightarrow> allocated_to d a"
    "r \<in> set (invoice_reversals (taxes d)) \<Longrightarrow> reversal_of d r" "v \<in> set (receivables d) \<Longrightarrow> invoice_ok d v"
  using assms by (simp_all add: invoice_inv_def)

text \<open>The whole invariant, and what it reads.\<close>

definition settle_inv :: "db \<Rightarrow> bool" where
  "settle_inv d \<longleftrightarrow> book_inv d \<and> invoice_inv d"

definition bookTables ::
  "db \<Rightarrow> (receipt list \<times> receivable list \<times> allocation list \<times> allocation_reversal list \<times> receipt_difference list) \<times>
    receivable_plan list \<times> contract_snapshot list \<times> invoice_allocation list \<times> invoice_reversal list" where
  "bookTables d = (ledgerTables d, plans d, map snapshotFacts (snapshots d), invoice_allocations d,
     invoice_reversals (taxes d))"

lemma invoice_inv_cong:
  assumes "map receivableFacts (receivables d') = map receivableFacts (receivables d)"
    and "invoice_allocations d' = invoice_allocations d"
    and "invoice_reversals (taxes d') = invoice_reversals (taxes d)"
  shows "invoice_inv d' = invoice_inv d"
proof -
  have s: "reversedAllocation d' = reversedAllocation d" "reversal_of d' = reversal_of d"
    using assms(2,3) by (simp_all add: fun_eq_iff reversedAllocation_def reversal_of_def)
  have n: "netInvoiced d' = netInvoiced d" "reservedOf d' = reservedOf d"
    using assms(2) by (simp_all add: fun_eq_iff netInvoiced_def liveInvoiced_def [abs_def] s reservedOf_def)
  have "allocated_to d' a = allocated_to d a" for a
  proof -
    have "(\<forall>v \<in> set (receivables d'). \<not> (rv_id v = ia_receivable a \<and> rv_tenant v = ia_tenant a)) =
          (\<forall>v \<in> set (receivables d). \<not> (rv_id v = ia_receivable a \<and> rv_tenant v = ia_tenant a))"
      by (rule ball_facts [OF _ assms(1)]) (simp add: receivableFacts_def)
    then show ?thesis by (auto simp: allocated_to_def)
  qed
  moreover have "(\<forall>v \<in> set (receivables d'). invoice_ok d' v) = (\<forall>v \<in> set (receivables d). invoice_ok d v)"
    by (rule ball_facts [OF _ assms(1)]) (simp add: receivableFacts_def invoice_ok_def n)
  ultimately show ?thesis using assms(2,3) s by (simp add: invoice_inv_def)
qed

lemma plan_inv_cong2:
  assumes "plans d' = plans d" "map snapshotFacts (snapshots d') = map snapshotFacts (snapshots d)"
    and "map (\<lambda>v. (rv_plan v, rv_tenant v, rv_snapshot v, rv_original v)) (receivables d') =
         map (\<lambda>v. (rv_plan v, rv_tenant v, rv_snapshot v, rv_original v)) (receivables d)"
  shows "plan_inv d' = plan_inv d"
proof -
  let ?d = "d'\<lparr>receivables := receivables d, invoice_allocations := invoice_allocations d, taxes := taxes d\<rparr>"
  have "planTables ?d = planTables d" using assms(1,2) by (simp add: planTables_def contractTables_def)
  then have e: "plan_inv ?d = plan_inv d" by (rule plan_inv_cong)
  have "(\<forall>v \<in> set (receivables d'). planned d' v) = (\<forall>v \<in> set (receivables d). planned ?d v)"
    by (rule ball_facts [OF _ assms(3)]) (simp add: planned_def)
  moreover have "keyed rv_plan (receivables d') = keyed rv_plan (receivables d)"
    unfolding keyed_def using arg_cong [OF assms(3), of "map fst"] by (simp add: comp_def)
  moreover have "within_contract d' = within_contract ?d"
    by (simp add: fun_eq_iff within_contract_def planTotal_def)
  ultimately have "plan_inv d' = plan_inv ?d" by (simp add: plan_inv_def)
  with e show ?thesis by blast
qed

lemma settle_inv_cong:
  assumes "bookTables d' = bookTables d"
  shows "settle_inv d' = settle_inv d"
proof -
  have t: "ledgerTables d' = ledgerTables d" "plans d' = plans d" "receivables d' = receivables d"
      "map snapshotFacts (snapshots d') = map snapshotFacts (snapshots d)"
      "invoice_allocations d' = invoice_allocations d" "invoice_reversals (taxes d') = invoice_reversals (taxes d)"
    using assms by (simp_all add: bookTables_def ledgerTables_def)
  have "invoice_inv d' = invoice_inv d" by (rule invoice_inv_cong) (simp_all add: t)
  moreover have "plan_inv d' = plan_inv d" by (rule plan_inv_cong2) (simp_all add: t)
  ultimately show ?thesis unfolding settle_inv_def book_inv_def ledger_inv_cong [OF t(1)] by simp
qed

text \<open>Writes to the other invoice tables.\<close>

definition taxFrame :: "db \<Rightarrow> db \<Rightarrow> bool" where
  "taxFrame d d' \<longleftrightarrow> d'\<lparr>taxes := taxes d\<rparr> = d \<and> invoice_reversals (taxes d') = invoice_reversals (taxes d)"

lemma taxFrame_refl [simp]: "taxFrame d d"
  by (simp add: taxFrame_def)

lemma taxFrame_tables [frame_simps]:
  assumes "taxFrame d d'"
  shows "snapshots d' = snapshots d" "plans d' = plans d" "receivables d' = receivables d" "receipts d' = receipts d"
    "allocations d' = allocations d" "reversals d' = reversals d" "differences d' = differences d"
    "invoice_allocations d' = invoice_allocations d" "outbox_events d' = outbox_events d" "audits d' = audits d"
    "idempotency d' = idempotency d" "invoice_reversals (taxes d') = invoice_reversals (taxes d)"
  using assms by (cases d; cases d'; simp add: taxFrame_def)+

lemma bookTables_frames:
  "scopeFrame d d' \<Longrightarrow> bookTables d' = bookTables d" "idemFrame d d' \<Longrightarrow> bookTables d' = bookTables d"
  "eventFrame d d' \<Longrightarrow> bookTables d' = bookTables d" "taxFrame d d' \<Longrightarrow> bookTables d' = bookTables d"
  by (simp_all add: bookTables_def ledgerTables_def frame_simps) (simp add: scopeFrame_def)

lemma taxFrame_writes [simp]:
  "taxFrame d (set_requests t1 d) " "taxFrame d (set_attempts t2 d)" "taxFrame d (set_tax_invoices t3 d)"
  "taxFrame d (set_reviews t4 d)" "taxFrame d (set_red_requests t5 d)" "taxFrame d (set_red_attempts t6 d)"
  "taxFrame d (set_results t7 d)" "taxFrame d (set_relations t8 d)" "taxFrame d (set_settings t9 d)"
  "taxFrame d (updateRequest t r P f d)" "taxFrame d (updateAttempt t a Q g d)"
  "taxFrame d (reviewRedFlush p fid version st reason d)" "taxFrame d (updateRedRequest t r h d)"
  by (simp_all add: taxFrame_def set_requests_def set_attempts_def set_tax_invoices_def set_reviews_def
      set_red_requests_def set_red_attempts_def set_results_def set_relations_def set_settings_def
      updateRequest_def updateAttempt_def reviewRedFlush_def updateRedRequest_def)

lemma bookTables_writes [simp]:
  "bookTables (set_requests t1 d) = bookTables d" "bookTables (set_attempts t2 d) = bookTables d"
  "bookTables (set_tax_invoices t3 d) = bookTables d" "bookTables (set_reviews t4 d) = bookTables d"
  "bookTables (set_red_requests t5 d) = bookTables d" "bookTables (set_red_attempts t6 d) = bookTables d"
  "bookTables (set_results t7 d) = bookTables d" "bookTables (set_relations t8 d) = bookTables d"
  "bookTables (set_settings t9 d) = bookTables d"
  "bookTables (updateRequest t r P f d) = bookTables d" "bookTables (updateAttempt t a Q g d) = bookTables d"
  "bookTables (reviewRedFlush p fid version st reason d) = bookTables d"
  "bookTables (updateRedRequest t r h d) = bookTables d"
  by (rule bookTables_frames(4), simp)+

section \<open>Statements\<close>

subsection \<open>The invoiced amount of a receivable\<close>

definition ledgerFacts where
  "ledgerFacts v = (rv_id v, rv_tenant v, rv_currency v, rv_original v, rv_open v, rv_received v, rv_writeoff v, rv_collection v)"

lemma ledger_inv_receivables:
  assumes inv: "ledger_inv d" and f: "map ledgerFacts t = map ledgerFacts (receivables d)"
  shows "ledger_inv (d\<lparr>receivables := t\<rparr>)"
proof -
  let ?d = "d\<lparr>receivables := t\<rparr>"
  have sums: "matchedReceipt ?d = matchedReceipt d" "matchedReceivable ?d = matchedReceivable d" "heldOf ?d = heldOf d"
    "reversedOf ?d = reversedOf d"
    by (simp_all add: ledger_defs fun_eq_iff)
  have "(\<forall>v \<in> set t. receivable_ok ?d v) = (\<forall>v \<in> set (receivables d). receivable_ok d v)"
    by (rule ball_facts [OF _ f]) (simp add: ledgerFacts_def receivable_ok_def sums)
  moreover have "receivable_of ?d a = receivable_of d a" for a
  proof -
    have "(\<forall>v \<in> set t. \<not> (rv_id v = al_receivable a \<and> rv_tenant v = al_tenant a \<and> rv_currency v = al_currency a)) =
      (\<forall>v \<in> set (receivables d). \<not> (rv_id v = al_receivable a \<and> rv_tenant v = al_tenant a \<and> rv_currency v = al_currency a))"
      by (rule ball_facts [OF _ f]) (simp add: ledgerFacts_def)
    then show ?thesis by (auto simp: receivable_of_def)
  qed
  moreover have "keyed rv_id t = keyed rv_id (receivables d)"
    unfolding keyed_def using arg_cong [OF f, of "map fst"] by (simp add: ledgerFacts_def comp_def)
  moreover have "receipt_ok ?d = receipt_ok d" "allocation_ok ?d = allocation_ok d" "receipt_of ?d = receipt_of d"
    "allocation_of ?d = allocation_of d" "difference_of ?d = difference_of d"
    by (simp_all add: fun_eq_iff receipt_ok_def allocation_ok_def receipt_of_def allocation_of_def difference_of_def sums)
  ultimately show ?thesis using inv by (simp add: ledger_inv_def ledger_keys_def ledger_refs_def)
qed

lemma setInvoiced_book:
  assumes "book_inv d"
  shows "book_inv (setInvoiced t vid n st d)"
proof -
  let ?t = "update_rows (rcv_is t vid) (\<lambda>v. v\<lparr>rv_invoiced := n, rv_invoice := st, rv_version := rv_version v + 1\<rparr>) (receivables d)"
  have "plan_inv (setInvoiced t vid n st d) = plan_inv d"
    by (rule plan_inv_cong2) (simp_all add: setInvoiced_def map_update_rows_key)
  moreover have "ledger_inv (d\<lparr>receivables := ?t\<rparr>)"
    by (rule ledger_inv_receivables) (use assms in \<open>simp_all add: book_inv_def map_update_rows_key ledgerFacts_def\<close>)
  ultimately show ?thesis using assms by (simp add: book_inv_def setInvoiced_def)
qed

lemma receivable_row:
  assumes "settle_inv d" "query_row e (rcv_is t vid) (receivables d) = Inr v"
  shows "v \<in> set (receivables d)" "rv_id v = vid" "rv_tenant v = t" "rcv_is t vid v"
  using assms find_SomeD [of "rcv_is t vid" "receivables d" v] by (auto simp: query_row_Inr rcv_is_def)

lemma book_keyed: "settle_inv d \<Longrightarrow> keyed rv_id (receivables d)"
  by (simp add: settle_inv_def book_inv_def ledger_invD)

text \<open>The receivables after a write of one invoiced amount.\<close>

lemma setInvoiced_rows:
  assumes "settle_inv d" "v \<in> set (receivables d)" "rcv_is t vid v" "x \<in> set (receivables (setInvoiced t vid n st d))"
  shows "(rv_id x = rv_id v \<and> rv_tenant x = rv_tenant v \<and> rv_original x = rv_original v \<and> rv_invoiced x = n) \<or>
         (x \<in> set (receivables d) \<and> rv_id x \<noteq> rv_id v)"
  using receivable_t.in_update_by_key [OF book_keyed [OF assms(1)] assms(2), of "rcv_is t vid" x
      "\<lambda>v. v\<lparr>rv_invoiced := n, rv_invoice := st, rv_version := rv_version v + 1\<rparr>"] assms(3,4)
  by (auto simp: setInvoiced_def rcv_is_def)

lemma setInvoiced_allocated:
  assumes "allocated_to d a"
  shows "allocated_to (setInvoiced t vid n st d) a"
proof -
  let ?f = "\<lambda>v. v\<lparr>rv_invoiced := n, rv_invoice := st, rv_version := rv_version v + 1\<rparr>"
  from assms obtain v where v: "v \<in> set (receivables d)" "rv_id v = ia_receivable a" "rv_tenant v = ia_tenant a"
    by (auto simp: allocated_to_def)
  have "(if rcv_is t vid v then ?f v else v) \<in> set (receivables (setInvoiced t vid n st d))"
    unfolding setInvoiced_def using in_update_rowsI [OF v(1), of "rcv_is t vid" ?f] by simp
  moreover have "rv_id (if rcv_is t vid v then ?f v else v) = rv_id v" "rv_tenant (if rcv_is t vid v then ?f v else v) = rv_tenant v"
    by simp_all
  ultimately show ?thesis unfolding allocated_to_def using v(2,3) by metis
qed

lemma setInvoiced_same [simp]:
  "invoice_allocations (setInvoiced t vid n st d) = invoice_allocations d"
  "taxes (setInvoiced t vid n st d) = taxes d"
  by (simp_all add: setInvoiced_def)

lemma setInvoiced_sums [simp]:
  "netInvoiced (setInvoiced t vid n st d) = netInvoiced d" "reservedOf (setInvoiced t vid n st d) = reservedOf d"
  "reversal_of (setInvoiced t vid n st d) = reversal_of d"
  by (simp_all add: fun_eq_iff netInvoiced_def liveInvoiced_def [abs_def] reversedAllocation_def reservedOf_def reversal_of_def)

text \<open>
  The one shape of every invoicing step: some receivable gets a new invoiced amount while the sums
  over the allocations move accordingly, and no other receivable is concerned.
\<close>

lemma invoice_step:
  assumes inv: "settle_inv d" and v: "v \<in> set (receivables d)" "rcv_is t vid v"
    and d1: "receivables d1 = receivables d" "book_inv d1"
    and keys: "keyed ia_id (invoice_allocations d1)" "keyed requestKey (invoice_allocations d1)"
    and shape: "\<And>a. a \<in> set (invoice_allocations d1) \<Longrightarrow> allocation_shape a \<and> allocated_to d a"
    and rev: "\<And>r. r \<in> set (invoice_reversals (taxes d1)) \<Longrightarrow> reversal_of d1 r"
    and here: "n = netInvoiced d1 t vid" "n + reservedOf d1 t vid \<le> rv_original v"
    and other: "\<And>x. x \<in> set (receivables d) \<Longrightarrow> rv_id x \<noteq> vid \<Longrightarrow>
      netInvoiced d1 (rv_tenant x) (rv_id x) = netInvoiced d (rv_tenant x) (rv_id x) \<and>
      reservedOf d1 (rv_tenant x) (rv_id x) = reservedOf d (rv_tenant x) (rv_id x)"
  shows "settle_inv (setInvoiced t vid n st d1)"
proof -
  let ?d = "setInvoiced t vid n st d1"
  have "invoice_ok ?d x" if x: "x \<in> set (receivables ?d)" for x
  proof -
    from x have "x \<in> set (receivables (setInvoiced t vid n st d))" by (simp add: setInvoiced_def d1)
    from setInvoiced_rows [OF inv v this] show ?thesis
    proof
      assume "rv_id x = rv_id v \<and> rv_tenant x = rv_tenant v \<and> rv_original x = rv_original v \<and> rv_invoiced x = n"
      with here v(2) show ?thesis by (simp add: invoice_ok_def rcv_is_def)
    next
      assume o: "x \<in> set (receivables d) \<and> rv_id x \<noteq> rv_id v"
      then have "invoice_ok d x" using inv by (simp add: settle_inv_def invoice_inv_def)
      with other o v(2) show ?thesis by (simp add: invoice_ok_def rcv_is_def)
    qed
  qed
  moreover have "allocated_to ?d a" if "a \<in> set (invoice_allocations d1)" for a
  proof -
    have "allocated_to d1 a" using shape [OF that] d1(1) by (simp add: allocated_to_def)
    then show ?thesis by (rule setInvoiced_allocated)
  qed
  ultimately show ?thesis
    using keys shape rev setInvoiced_book [OF d1(2)]
    by (simp add: settle_inv_def invoice_inv_def)
qed

subsection \<open>A reservation becomes an invoiced amount\<close>

definition invoicedAllocation :: "invoice_allocation \<Rightarrow> invoice_allocation" where
  "invoicedAllocation a = a\<lparr>ia_invoiced := ia_reserved a, ia_status := INVOICED\<rparr>"

text \<open>The reserved allocation of a request on a receivable that the marking statement selects.\<close>

definition reservedFor :: "(invoice_allocation \<Rightarrow> bool) \<Rightarrow> string \<Rightarrow> string \<Rightarrow> db \<Rightarrow> string \<times> int \<Rightarrow> invoice_allocation \<Rightarrow> bool" where
  "reservedFor P t rid d x a \<longleftrightarrow> a \<in> set (invoice_allocations d) \<and> requestKey a = (t, rid, fst x) \<and>
     ia_status a = RESERVED \<and> ia_reserved a = snd x \<and> P a"

lemma markInvoiced_rows:
  "invoice_allocations (markInvoiced P t rid vid d) =
     update_rows (\<lambda>a. ia_tenant a = t \<and> ia_request a = rid \<and> ia_receivable a = vid \<and> P a) invoicedAllocation (invoice_allocations d)"
  "taxes (markInvoiced P t rid vid d) = taxes d" "receivables (markInvoiced P t rid vid d) = receivables d"
  by (simp_all add: markInvoiced_def invoicedAllocation_def [abs_def])

lemma not_reversed:
  assumes inv: "invoice_inv d" and a: "a \<in> set (invoice_allocations d)" "ia_status a \<noteq> INVOICED"
  shows "\<not> reversedAllocation d a"
proof
  assume "reversedAllocation d a"
  then obtain r where r: "r \<in> set (invoice_reversals (taxes d))" "vr_tenant r = ia_tenant a" "vr_allocation r = ia_id a"
    by (auto simp: reversedAllocation_def)
  from invoice_invD(5) [OF inv r(1)] obtain b where b: "b \<in> set (invoice_allocations d)" "ia_id b = ia_id a" "ia_status b = INVOICED"
    by (auto simp: reversal_of_def r)
  from invoice_allocation_t.row_unique [OF invoice_invD(1) [OF inv] b(1) a(1) b(2)] b(3) a(2) show False by simp
qed

lemma mark_sums:
  assumes inv: "invoice_inv d" and a: "reservedFor P t rid d (vid, n) a"
  shows "netInvoiced (markInvoiced P t rid vid d) t' vid' = netInvoiced d t' vid' + (if t' = t \<and> vid' = vid then n else 0)"
    "reservedOf (markInvoiced P t rid vid d) t' vid' = reservedOf d t' vid' - (if t' = t \<and> vid' = vid then n else 0)"
proof -
  let ?Q = "\<lambda>a. ia_tenant a = t \<and> ia_request a = rid \<and> ia_receivable a = vid \<and> P a"
  have mem: "a \<in> set (invoice_allocations d)" "?Q a" "\<And>x. ?Q x \<Longrightarrow> requestKey x = requestKey a"
    and st: "ia_status a = RESERVED" "ia_reserved a = n" "ia_tenant a = t" "ia_receivable a = vid"
    using a by (auto simp: reservedFor_def requestKey_def)
  have sh: "ia_invoiced a = 0" "ia_released a = 0"
    using invoice_invD(3) [OF inv mem(1)] st(1) by (simp_all add: allocation_shape_def)
  have step: "sum_rows R g (update_rows ?Q invoicedAllocation (invoice_allocations d)) = sum_rows R g (invoice_allocations d) -
      (if R a then g a else 0) + (if R (invoicedAllocation a) then g (invoicedAllocation a) else 0)" for R g
    by (rule reserved_k.sum_update_by_key [where Q = ?Q, OF invoice_invD(2) [OF inv] mem(1,2)]) (rule mem(3))
  have live: "liveInvoiced (markInvoiced P t rid vid d) = liveInvoiced d"
    by (simp add: fun_eq_iff liveInvoiced_def reversedAllocation_def markInvoiced_rows)
  have nr: "\<not> reversedAllocation d (invoicedAllocation a)"
    using not_reversed [OF inv mem(1)] st(1) by (simp add: reversedAllocation_def invoicedAllocation_def)
  show "netInvoiced (markInvoiced P t rid vid d) t' vid' = netInvoiced d t' vid' + (if t' = t \<and> vid' = vid then n else 0)"
    unfolding netInvoiced_def live markInvoiced_rows step using st nr by (simp add: liveInvoiced_def invoicedAllocation_def)
  show "reservedOf (markInvoiced P t rid vid d) t' vid' = reservedOf d t' vid' - (if t' = t \<and> vid' = vid then n else 0)"
    unfolding reservedOf_def markInvoiced_rows step using st sh by (simp add: invoicedAllocation_def)
qed

lemma mark_invariants:
  assumes inv: "invoice_inv d" and a: "reservedFor P t rid d (vid, n) a"
  shows "keyed ia_id (invoice_allocations (markInvoiced P t rid vid d))"
    "keyed requestKey (invoice_allocations (markInvoiced P t rid vid d))"
    "x \<in> set (invoice_allocations (markInvoiced P t rid vid d)) \<Longrightarrow> allocation_shape x \<and> allocated_to d x"
    "r \<in> set (invoice_reversals (taxes d)) \<Longrightarrow> reversal_of (markInvoiced P t rid vid d) r"
    "x \<in> set (invoice_allocations (markInvoiced P t rid vid d)) \<Longrightarrow> x = invoicedAllocation a \<or> x \<in> set (invoice_allocations d)"
proof -
  let ?Q = "\<lambda>a. ia_tenant a = t \<and> ia_request a = rid \<and> ia_receivable a = vid \<and> P a"
  have mem: "a \<in> set (invoice_allocations d)" "?Q a" "\<And>x. ?Q x \<Longrightarrow> requestKey x = requestKey a"
    and st: "ia_status a = RESERVED"
    using a by (auto simp: reservedFor_def requestKey_def)
  note in_rows = reserved_k.in_update_by_key [where P = ?Q and f = invoicedAllocation, OF invoice_invD(2) [OF inv] mem(1,2)]
  show "keyed ia_id (invoice_allocations (markInvoiced P t rid vid d))"
    unfolding markInvoiced_rows by (rule invoice_allocation_t.update_keyed [OF invoice_invD(1) [OF inv]]) (simp add: invoicedAllocation_def)
  show "keyed requestKey (invoice_allocations (markInvoiced P t rid vid d))"
    unfolding markInvoiced_rows
    by (rule reserved_k.update_keyed [OF invoice_invD(2) [OF inv]]) (simp add: invoicedAllocation_def requestKey_def)
  show rows: "x = invoicedAllocation a \<or> x \<in> set (invoice_allocations d)"
    if "x \<in> set (invoice_allocations (markInvoiced P t rid vid d))" for x
    using in_rows [OF mem(3)] that unfolding markInvoiced_rows by blast
  have "allocation_shape (invoicedAllocation a) \<and> allocated_to d (invoicedAllocation a)"
    using invoice_invD(3,4) [OF inv mem(1)] st by (simp add: allocation_shape_def allocated_to_def invoicedAllocation_def)
  with rows show "allocation_shape x \<and> allocated_to d x" if "x \<in> set (invoice_allocations (markInvoiced P t rid vid d))"
    using invoice_invD(3,4) [OF inv] that by blast
  show "reversal_of (markInvoiced P t rid vid d) r" if r: "r \<in> set (invoice_reversals (taxes d))"
  proof -
    from invoice_invD(5) [OF inv r] obtain b where b: "b \<in> set (invoice_allocations d)" "ia_id b = vr_allocation r"
      "ia_tenant b = vr_tenant r" "ia_status b = INVOICED" by (auto simp: reversal_of_def)
    have "(if ?Q b then invoicedAllocation b else b) \<in> set (invoice_allocations (markInvoiced P t rid vid d))"
      unfolding markInvoiced_rows by (rule in_update_rowsI [OF b(1)])
    then show ?thesis
      using b by (auto simp: reversal_of_def invoicedAllocation_def split: if_splits intro: bexI [rotated])
  qed
qed

lemma invoice_one:
  assumes inv: "settle_inv d" and a: "reservedFor P t rid d (vid, n) a"
    and inc: "incrementInvoiced t vid n (markInvoiced P t rid vid d) = Inr d'"
  shows "settle_inv d'"
proof -
  let ?d = "markInvoiced P t rid vid d"
  have iinv: "invoice_inv d" using inv by (simp add: settle_inv_def)
  from inc obtain v where q: "query_row SqlNoRows (rcv_is t vid) (receivables d) = Inr v"
    and d': "d' = setInvoiced t vid (rv_invoiced v + n) (invoicedStatus (rv_invoiced v + n) (rv_original v)) ?d"
    by (auto simp: incrementInvoiced_def andThen_eq_Inr Let_def markInvoiced_rows)
  note v = receivable_row [OF inv q]
  from invoice_invD(6) [OF iinv v(1)] have ok: "rv_invoiced v = netInvoiced d t vid" "rv_invoiced v + reservedOf d t vid \<le> rv_original v"
    using v(2,3) by (simp_all add: invoice_ok_def)
  have pt: "plan_inv ?d = plan_inv d" by (rule plan_inv_cong2) (simp_all add: markInvoiced_def)
  have lt: "ledger_inv ?d = ledger_inv d" by (rule ledger_inv_cong) (simp add: markInvoiced_def ledgerTables_def)
  show ?thesis unfolding d'
  proof (rule invoice_step [OF inv v(1,4)])
    show "book_inv ?d" using inv pt lt by (simp add: settle_inv_def book_inv_def)
    show "rv_invoiced v + n = netInvoiced ?d t vid" using ok(1) by (simp add: mark_sums [OF iinv a])
    show "rv_invoiced v + n + reservedOf ?d t vid \<le> rv_original v" using ok(2) by (simp add: mark_sums [OF iinv a])
    show "netInvoiced ?d (rv_tenant x) (rv_id x) = netInvoiced d (rv_tenant x) (rv_id x) \<and>
        reservedOf ?d (rv_tenant x) (rv_id x) = reservedOf d (rv_tenant x) (rv_id x)" if "rv_id x \<noteq> vid" for x
      using that by (simp add: mark_sums [OF iinv a])
  qed (use mark_invariants [OF iinv a] in \<open>simp_all add: markInvoiced_rows\<close>)
qed

lemma reservedFor_kept:
  assumes a: "reservedFor P t rid d x a" and other: "fst x \<noteq> vid"
    and inc: "incrementInvoiced t vid n (markInvoiced P t rid vid d) = Inr d1"
  shows "reservedFor P t rid d1 x a"
proof -
  have "a \<in> set (update_rows (\<lambda>a. ia_tenant a = t \<and> ia_request a = rid \<and> ia_receivable a = vid \<and> P a) invoicedAllocation (invoice_allocations d))"
    using in_update_rowsI [of a "invoice_allocations d" "\<lambda>a. ia_tenant a = t \<and> ia_request a = rid \<and> ia_receivable a = vid \<and> P a" invoicedAllocation] a other
    by (auto simp: reservedFor_def requestKey_def)
  moreover have "invoice_allocations d1 = invoice_allocations (markInvoiced P t rid vid d)"
    using inc by (auto simp: incrementInvoiced_def andThen_eq_Inr Let_def)
  ultimately show ?thesis using a by (simp add: reservedFor_def markInvoiced_rows)
qed

lemma increment_same:
  assumes "incrementInvoiced t vid n d = Inr d'"
  shows "taxes d' = taxes d" "invoice_allocations d' = invoice_allocations d"
    "netInvoiced d' = netInvoiced d" "reservedOf d' = reservedOf d"
  using assms by (auto simp: incrementInvoiced_def andThen_eq_Inr Let_def)

definition movedTo :: "(string \<times> int) list \<Rightarrow> string \<Rightarrow> int" where
  "movedTo l vid = (\<Sum>x\<leftarrow>l. if fst x = vid then snd x else 0)"

lemma invoiceReserved_inv:
  assumes "settle_inv d" "distinct (map fst l)" "\<forall>x \<in> set l. \<exists>a. reservedFor P t rid d x a"
    and "invoiceReserved P t rid l d = Inr d'"
  shows "settle_inv d' \<and> taxes d' = taxes d \<and>
    netInvoiced d' t vid = netInvoiced d t vid + movedTo l vid \<and> reservedOf d' t vid = reservedOf d t vid - movedTo l vid"
  using assms
proof (induction l arbitrary: d)
  case (Cons x l)
  obtain w n where x: "x = (w, n)" by (cases x)
  from Cons.prems(4) x obtain d1 where inc: "incrementInvoiced t w n (markInvoiced P t rid w d) = Inr d1"
    and rest: "invoiceReserved P t rid l d1 = Inr d'" by (auto simp: andThen_eq_Inr)
  from Cons.prems(3) x obtain a where a: "reservedFor P t rid d (w, n) a" by auto
  have iinv: "invoice_inv d" using Cons.prems(1) by (simp add: settle_inv_def)
  have "\<forall>y \<in> set l. \<exists>b. reservedFor P t rid d1 y b"
  proof
    fix y assume y: "y \<in> set l"
    with Cons.prems(2) x have "fst y \<noteq> w" by auto
    moreover from Cons.prems(3) y obtain b where "reservedFor P t rid d y b" by auto
    ultimately show "\<exists>b. reservedFor P t rid d1 y b" using reservedFor_kept [OF _ _ inc] by blast
  qed
  from Cons.IH [OF invoice_one [OF Cons.prems(1) a inc] _ this rest] Cons.prems(2) show ?case
    using mark_sums [OF iinv a, of t vid] increment_same [OF inc]
    by (simp add: movedTo_def x markInvoiced_rows)
qed (simp add: movedTo_def)

lemma reservedRows_ok:
  assumes "invoice_inv d" "\<And>a. ia_status a = RESERVED \<Longrightarrow> P a"
  shows "distinct (map fst (reservedRows d t rid))" "\<forall>x \<in> set (reservedRows d t rid). \<exists>a. reservedFor P t rid d x a"
proof -
  let ?F = "filter (\<lambda>a. ia_tenant a = t \<and> ia_request a = rid \<and> ia_status a = RESERVED) (invoice_allocations d)"
  have k: "distinct (map requestKey ?F)"
    using invoice_invD(2) [OF assms(1)] unfolding keyed_def by (rule distinct_map_filter)
  have "map requestKey ?F = map (\<lambda>v. (t, rid, v)) (map ia_receivable ?F)"
    by (simp add: requestKey_def)
  from k [unfolded this] have "distinct (map ia_receivable ?F)" by (rule distinct_map [THEN iffD1, THEN conjunct1])
  then show "distinct (map fst (reservedRows d t rid))" by (simp add: reservedRows_def comp_def)
  show "\<forall>x \<in> set (reservedRows d t rid). \<exists>a. reservedFor P t rid d x a"
    using assms(2) by (auto simp: reservedRows_def reservedFor_def requestKey_def)
qed

subsection \<open>New reservations\<close>

lemma reservation_sums:
  assumes inv: "invoice_inv d" and ins: "insert_row invoice_allocation_clash (newReservation aid t rid vid n) (invoice_allocations d) = Inr u"
  shows "netInvoiced (d\<lparr>invoice_allocations := u\<rparr>) t' vid' = netInvoiced d t' vid'"
    "reservedOf (d\<lparr>invoice_allocations := u\<rparr>) t' vid' = reservedOf d t' vid' + (if t' = t \<and> vid' = vid then n else 0)"
proof -
  have u: "u = invoice_allocations d @ [newReservation aid t rid vid n]" using ins by (simp add: insert_row_Inr)
  show "netInvoiced (d\<lparr>invoice_allocations := u\<rparr>) t' vid' = netInvoiced d t' vid'"
    by (simp add: netInvoiced_def u liveInvoiced_def [abs_def] reversedAllocation_def newReservation_def)
  show "reservedOf (d\<lparr>invoice_allocations := u\<rparr>) t' vid' = reservedOf d t' vid' + (if t' = t \<and> vid' = vid then n else 0)"
    by (simp add: reservedOf_def u newReservation_def)
qed

lemma insert_reservation_inv:
  assumes inv: "settle_inv d" and ins: "insert_row invoice_allocation_clash (newReservation aid t rid vid n) (invoice_allocations d) = Inr u"
    and v: "v \<in> set (receivables d)" "rv_id v = vid" "rv_tenant v = t" "rv_invoiced v + reservedOf d t vid + n \<le> rv_original v"
    and n: "0 < n"
  shows "settle_inv (d\<lparr>invoice_allocations := u\<rparr>)"
proof -
  let ?d = "d\<lparr>invoice_allocations := u\<rparr>"
  have iinv: "invoice_inv d" using inv by (simp add: settle_inv_def)
  have u: "u = invoice_allocations d @ [newReservation aid t rid vid n]" using ins by (simp add: insert_row_Inr)
  have "invoice_ok ?d x" if x: "x \<in> set (receivables d)" for x
  proof (cases "rv_id x = vid")
    case True
    then have "x = v" using receivable_t.row_unique [OF book_keyed [OF inv] x v(1)] v(2) by simp
    with invoice_invD(6) [OF iinv x] v show ?thesis by (simp add: invoice_ok_def reservation_sums [OF iinv ins])
  next
    case False
    with invoice_invD(6) [OF iinv x] show ?thesis by (simp add: invoice_ok_def reservation_sums [OF iinv ins])
  qed
  moreover have "allocation_shape (newReservation aid t rid vid n)" "allocated_to ?d (newReservation aid t rid vid n)"
    using n v(1-3) by (auto simp: allocation_shape_def allocated_to_def newReservation_def)
  moreover have "reversal_of ?d r" if "reversal_of d r" for r
    using that by (auto simp: reversal_of_def u)
  moreover have "allocated_to ?d = allocated_to d" by (simp add: fun_eq_iff allocated_to_def)
  moreover have "plan_inv ?d = plan_inv d" by (rule plan_inv_cong2) simp_all
  moreover have "ledger_inv ?d = ledger_inv d" by (rule ledger_inv_cong) (simp add: ledgerTables_def)
  moreover have "keyed ia_id u" "keyed requestKey u"
    using invoice_allocation_t.insert_keyed [OF invoice_invD(1) [OF iinv] ins]
      reserved_k.insert_keyed [OF invoice_invD(2) [OF iinv] ins] by simp_all
  ultimately show ?thesis
    using inv by (auto simp: settle_inv_def book_inv_def invoice_inv_def u)
qed

text \<open>The unique key of request and receivable keeps one request from reserving the same balance twice.\<close>

lemma insertReservations_distinct:
  "insertReservations e n t rid l d = Inr d' \<Longrightarrow>
   distinct (map fst l) \<and> (\<forall>a \<in> set (invoice_allocations d). ia_tenant a = t \<longrightarrow> ia_request a = rid \<longrightarrow> ia_receivable a \<notin> fst ` set l)"
proof (induction l arbitrary: n d)
  case (Cons x l)
  obtain vid m where x: "x = (vid, m)" by (cases x)
  from Cons.prems x obtain u where ins: "insert_row invoice_allocation_clash (newReservation (e_ids e n) t rid vid m) (invoice_allocations d) = Inr u"
    and rest: "insertReservations e (Suc n) t rid l (d\<lparr>invoice_allocations := u\<rparr>) = Inr d'" by (auto simp: andThen_eq_Inr)
  from Cons.IH [OF rest] ins x show ?case
    by (auto simp: insert_row_Inr newReservation_def invoice_allocation_clash_def)
qed simp

lemma insertReservations_inv:
  assumes "settle_inv d" "insertReservations e n t rid l d = Inr d'"
    and "\<forall>(vid, m) \<in> set l. 0 < m \<and> (\<exists>v \<in> set (receivables d). rv_id v = vid \<and> rv_tenant v = t \<and>
           rv_invoiced v + reservedOf d t vid + m \<le> rv_original v)"
  shows "settle_inv d'"
  using assms
proof (induction l arbitrary: n d)
  case (Cons x l)
  obtain vid m where x: "x = (vid, m)" by (cases x)
  from Cons.prems(2) x obtain u where ins: "insert_row invoice_allocation_clash (newReservation (e_ids e n) t rid vid m) (invoice_allocations d) = Inr u"
    and rest: "insertReservations e (Suc n) t rid l (d\<lparr>invoice_allocations := u\<rparr>) = Inr d'" by (auto simp: andThen_eq_Inr)
  have iinv: "invoice_inv d" using Cons.prems(1) by (simp add: settle_inv_def)
  from Cons.prems(3) x obtain v where v: "v \<in> set (receivables d)" "rv_id v = vid" "rv_tenant v = t"
    "rv_invoiced v + reservedOf d t vid + m \<le> rv_original v" and m: "0 < m" by auto
  note inv1 = insert_reservation_inv [OF Cons.prems(1) ins v m]
  from insertReservations_distinct [OF Cons.prems(2)] x have "fst y \<noteq> vid" if "y \<in> set l" for y using that by auto
  then have "\<forall>(vid', m') \<in> set l. 0 < m' \<and> (\<exists>v \<in> set (receivables (d\<lparr>invoice_allocations := u\<rparr>)). rv_id v = vid' \<and> rv_tenant v = t \<and>
       rv_invoiced v + reservedOf (d\<lparr>invoice_allocations := u\<rparr>) t vid' + m' \<le> rv_original v)"
    using Cons.prems(3) by (fastforce simp: reservation_sums [OF iinv ins])
  from Cons.IH [OF inv1 rest this] show ?case .
qed simp

subsection \<open>Released reservations\<close>

lemma reserved_shape:
  assumes "invoice_inv d" "a \<in> set (invoice_allocations d)" "ia_status a = RESERVED"
  shows "ia_invoiced a = 0 \<and> ia_released a = 0 \<and> 0 < ia_reserved a"
  using invoice_invD(3) [OF assms(1,2)] assms(3) by (simp add: allocation_shape_def)

lemma sum_rows_drop:
  assumes "\<And>a. Q a \<Longrightarrow> \<not> R (f a)"
  shows "sum_rows R g (update_rows Q f l) = sum_rows R g l - sum_rows (\<lambda>a. R a \<and> Q a) g l"
  using assms by (induction l) (auto simp: update_rows_def)

lemma movedTo_reserved:
  "movedTo (reservedRows d t rid) vid =
   sum_rows (\<lambda>a. ia_tenant a = t \<and> ia_request a = rid \<and> ia_status a = RESERVED \<and> ia_receivable a = vid) ia_reserved (invoice_allocations d)"
proof -
  have "movedTo (map (\<lambda>a. (ia_receivable a, ia_reserved a)) (filter (\<lambda>a. ia_tenant a = t \<and> ia_request a = rid \<and> ia_status a = RESERVED) l)) vid =
    sum_rows (\<lambda>a. ia_tenant a = t \<and> ia_request a = rid \<and> ia_status a = RESERVED \<and> ia_receivable a = vid) ia_reserved l" for l
    by (induction l) (auto simp: movedTo_def)
  then show ?thesis by (simp add: reservedRows_def)
qed

lemma release_inv:
  assumes inv: "settle_inv d"
    and g: "\<And>a. a \<in> set (invoice_allocations d) \<Longrightarrow> ia_status a = RESERVED \<Longrightarrow> g a = ia_reserved a"
    and d': "d' = releaseReservations g t rid d"
  shows "settle_inv d'" "netInvoiced d' t' vid = netInvoiced d t' vid"
    "reservedOf d' t vid = reservedOf d t vid - movedTo (reservedRows d t rid) vid"
proof -
  let ?Q = "\<lambda>a. ia_tenant a = t \<and> ia_request a = rid \<and> ia_status a = RESERVED"
  let ?f = "\<lambda>a. a\<lparr>ia_released := g a, ia_status := RELEASED_RESERVATION\<rparr>"
  have iinv: "invoice_inv d" using inv by (simp add: settle_inv_def)
  have t: "invoice_allocations d' = update_rows ?Q ?f (invoice_allocations d)" "taxes d' = taxes d" "receivables d' = receivables d"
    by (simp_all add: d' releaseReservations_def)
  have live: "liveInvoiced d' = liveInvoiced d" by (simp add: fun_eq_iff liveInvoiced_def reversedAllocation_def t)
  show net: "netInvoiced d' t' vid = netInvoiced d t' vid" for t' vid
    unfolding netInvoiced_def live t(1) by (rule sum_rows_update_same) (auto simp: liveInvoiced_def)
  have drop: "reservedOf d' t' vid = reservedOf d t' vid -
      sum_rows (\<lambda>a. (ia_tenant a = t' \<and> ia_receivable a = vid \<and> ia_status a = RESERVED) \<and> ?Q a)
        (\<lambda>a. ia_reserved a - ia_invoiced a - ia_released a) (invoice_allocations d)" for t' vid
    unfolding reservedOf_def t(1) by (rule sum_rows_drop) simp
  have "0 \<le> sum_rows (\<lambda>a. (ia_tenant a = t' \<and> ia_receivable a = vid \<and> ia_status a = RESERVED) \<and> ?Q a)
        (\<lambda>a. ia_reserved a - ia_invoiced a - ia_released a) (invoice_allocations d)" for t' vid
    using invoice_invD(3) [OF iinv] by (intro sum_rows_nonneg) (fastforce simp: allocation_shape_def)
  with drop have le: "reservedOf d' t' vid \<le> reservedOf d t' vid" for t' vid by simp
  have "sum_rows (\<lambda>a. (ia_tenant a = t \<and> ia_receivable a = vid \<and> ia_status a = RESERVED) \<and> ?Q a)
        (\<lambda>a. ia_reserved a - ia_invoiced a - ia_released a) (invoice_allocations d) = movedTo (reservedRows d t rid) vid"
    unfolding movedTo_reserved by (intro sum_rows_cong) (auto dest: reserved_shape [OF iinv])
  with drop show "reservedOf d' t vid = reservedOf d t vid - movedTo (reservedRows d t rid) vid" by simp
  have "invoice_ok d' v" if "v \<in> set (receivables d)" for v
    using invoice_invD(6) [OF iinv that] le [of "rv_tenant v" "rv_id v"] by (simp add: invoice_ok_def net)
  moreover have "allocation_shape a \<and> allocated_to d' a" if a: "a \<in> set (invoice_allocations d')" for a
  proof -
    from a obtain b where b: "b \<in> set (invoice_allocations d)" "a = (if ?Q b then ?f b else b)"
      unfolding t(1) by (rule in_update_rowsE)
    with invoice_invD(3,4) [OF iinv b(1)] g [OF b(1)] show ?thesis
      by (auto simp: allocation_shape_def allocated_to_def t(3))
  qed
  moreover have "reversal_of d' r" if r: "r \<in> set (invoice_reversals (taxes d))" for r
  proof -
    from invoice_invD(5) [OF iinv r] obtain b where b: "b \<in> set (invoice_allocations d)" "ia_id b = vr_allocation r"
      "ia_tenant b = vr_tenant r" "ia_status b = INVOICED" by (auto simp: reversal_of_def)
    from in_update_rowsI [OF b(1), of ?Q ?f] b(4) have "b \<in> set (invoice_allocations d')" by (simp add: t(1))
    with b show ?thesis by (auto simp: reversal_of_def)
  qed
  moreover have "keyed ia_id (invoice_allocations d')" "keyed requestKey (invoice_allocations d')"
    unfolding t(1) by (rule invoice_allocation_t.update_keyed [OF invoice_invD(1) [OF iinv]], simp)
       (rule reserved_k.update_keyed [OF invoice_invD(2) [OF iinv]], simp add: requestKey_def)
  moreover have "plan_inv d' = plan_inv d" by (rule plan_inv_cong2) (simp_all add: d' releaseReservations_def)
  moreover have "ledger_inv d' = ledger_inv d" by (rule ledger_inv_cong) (simp add: d' releaseReservations_def ledgerTables_def)
  ultimately show "settle_inv d'" using inv by (simp add: settle_inv_def book_inv_def invoice_inv_def t(2,3))
qed

subsection \<open>Reversal by a red flush\<close>

definition addReversal :: "invoice_reversal \<Rightarrow> db \<Rightarrow> db" where
  "addReversal r d = d\<lparr>taxes := (taxes d)\<lparr>invoice_reversals := invoice_reversals (taxes d) @ [r]\<rparr>\<rparr>"

lemma addReversal_same [simp]:
  "invoice_allocations (addReversal r d) = invoice_allocations d" "receivables (addReversal r d) = receivables d"
  "reservedOf (addReversal r d) = reservedOf d" "allocated_to (addReversal r d) = allocated_to d"
  by (simp_all add: addReversal_def fun_eq_iff reservedOf_def allocated_to_def)

lemma reversal_sums:
  assumes inv: "invoice_inv d" and a: "a \<in> set (invoice_allocations d)" "ia_status a = INVOICED"
    and r: "vr_tenant r = ia_tenant a" "vr_allocation r = ia_id a"
    and fresh: "\<forall>x \<in> set (invoice_reversals (taxes d)). \<not> invoice_reversal_clash r x"
  shows "netInvoiced (addReversal r d) t vid =
    netInvoiced d t vid - (if t = ia_tenant a \<and> vid = ia_receivable a then ia_invoiced a else 0)"
proof -
  have nr: "\<not> reversedAllocation d a" using fresh r by (auto simp: reversedAllocation_def invoice_reversal_clash_def)
  have "netInvoiced (addReversal r d) t vid = sum_rows (\<lambda>x. liveInvoiced d t vid x \<and> ia_id x \<noteq> ia_id a) ia_invoiced (invoice_allocations d)"
    unfolding netInvoiced_def addReversal_same
  proof (rule sum_rows_cong)
    fix x assume x: "x \<in> set (invoice_allocations d)"
    have "ia_id x = ia_id a \<Longrightarrow> x = a" using invoice_allocation_t.row_unique [OF invoice_invD(1) [OF inv] x a(1)] by simp
    then show "liveInvoiced (addReversal r d) t vid x = (liveInvoiced d t vid x \<and> ia_id x \<noteq> ia_id a)"
      using r by (auto simp: liveInvoiced_def reversedAllocation_def addReversal_def)
  qed simp
  also have "\<dots> = netInvoiced d t vid - (if liveInvoiced d t vid a then ia_invoiced a else 0)"
    unfolding netInvoiced_def by (rule invoice_allocation_t.sum_except [OF invoice_invD(1) [OF inv] a(1)])
  finally show ?thesis using a(2) nr by (auto simp: liveInvoiced_def)
qed

lemma netInvoiced_nonneg:
  assumes "invoice_inv d"
  shows "0 \<le> netInvoiced d t vid"
  unfolding netInvoiced_def
  using invoice_invD(3) [OF assms] by (intro sum_rows_nonneg) (fastforce simp: liveInvoiced_def allocation_shape_def)

lemma reverse_one:
  assumes inv: "settle_inv d" and a: "a \<in> set (invoice_allocations d)" "ia_status a = INVOICED" "ia_tenant a = t"
    and r: "vr_tenant r = t" "vr_allocation r = ia_id a"
    and fresh: "\<forall>x \<in> set (invoice_reversals (taxes d)). \<not> invoice_reversal_clash r x"
    and dec: "decrementInvoiced t (ia_receivable a) (ia_invoiced a) (addReversal r d) = Inr d'"
  shows "settle_inv d'"
proof -
  let ?d = "addReversal r d" and ?vid = "ia_receivable a"
  have iinv: "invoice_inv d" using inv by (simp add: settle_inv_def)
  have r': "vr_tenant r = ia_tenant a" using r a(3) by simp
  note sums = reversal_sums [OF iinv a(1,2) r' r(2) fresh]
  obtain v where q: "query_row SqlNoRows (rcv_is t ?vid) (receivables d) = Inr v"
    and d': "\<exists>st. d' = setInvoiced t ?vid (max 0 (rv_invoiced v - ia_invoiced a)) st ?d"
    using dec by (auto simp: decrementInvoiced_def andThen_eq_Inr Let_def split: if_splits) fastforce+
  note v = receivable_row [OF inv q]
  from invoice_invD(6) [OF iinv v(1)] v(2,3) have ok: "rv_invoiced v = netInvoiced d t ?vid" "rv_invoiced v + reservedOf d t ?vid \<le> rv_original v"
    by (simp_all add: invoice_ok_def)
  have net: "netInvoiced ?d t ?vid = rv_invoiced v - ia_invoiced a" using sums [of t ?vid] ok(1) a(3) by simp
  have pos: "0 < ia_invoiced a" using invoice_invD(3) [OF iinv a(1)] a(2) by (simp add: allocation_shape_def)
  have "0 \<le> netInvoiced ?d t ?vid"
    unfolding netInvoiced_def using invoice_invD(3) [OF iinv]
    by (intro sum_rows_nonneg) (fastforce simp: liveInvoiced_def allocation_shape_def)
  with net have mx: "max 0 (rv_invoiced v - ia_invoiced a) = netInvoiced ?d t ?vid" by simp
  have rev: "reversal_of ?d x" if "x \<in> set (invoice_reversals (taxes ?d))" for x
    using that a r invoice_invD(5) [OF iinv] by (auto simp: addReversal_def reversal_of_def)
  have pt: "plan_inv ?d = plan_inv d" by (rule plan_inv_cong2) (simp_all add: addReversal_def)
  have lt: "ledger_inv ?d = ledger_inv d" by (rule ledger_inv_cong) (simp add: addReversal_def ledgerTables_def)
  from d' obtain st where d': "d' = setInvoiced t ?vid (netInvoiced ?d t ?vid) st ?d" unfolding mx by blast
  show ?thesis unfolding d'
  proof (rule invoice_step [OF inv v(1,4)])
    show "book_inv ?d" using inv pt lt by (simp add: settle_inv_def book_inv_def)
    show "netInvoiced ?d t ?vid + reservedOf ?d t ?vid \<le> rv_original v" using ok(2) net pos by simp
    show "netInvoiced ?d (rv_tenant x) (rv_id x) = netInvoiced d (rv_tenant x) (rv_id x) \<and>
        reservedOf ?d (rv_tenant x) (rv_id x) = reservedOf d (rv_tenant x) (rv_id x)" if "rv_id x \<noteq> ?vid" for x
      using that by (simp add: sums)
  qed (use iinv rev in \<open>simp_all add: invoice_inv_def\<close>)
qed

lemma decrement_same:
  assumes "decrementInvoiced t vid n d = Inr d'"
  shows "taxes d' = taxes d" "invoice_allocations d' = invoice_allocations d"
  using assms by (auto simp: decrementInvoiced_def andThen_eq_Inr Let_def)

lemma reverseRows_inv:
  assumes "settle_inv d" "reverseRows e n t fid l d = Inr (k, d')"
    and "\<forall>(aid, vid, m) \<in> set l. \<exists>a \<in> set (invoice_allocations d). ia_id a = aid \<and> ia_receivable a = vid \<and> ia_invoiced a = m \<and>
           ia_status a = INVOICED \<and> ia_tenant a = t"
  shows "settle_inv d'"
  using assms
proof (induction l arbitrary: n d)
  case (Cons x l)
  obtain aid vid m where x: "x = (aid, vid, m)" by (cases x)
  show ?case
  proof (cases "\<exists>r \<in> set (invoice_reversals (taxes d)). vr_tenant r = t \<and> vr_allocation r = aid \<and> vr_request r \<noteq> fid")
    case True
    with Cons.prems(2) x have "reverseRows e n t fid l d = Inr (k, d')" by simp
    from Cons.IH [OF Cons.prems(1) this] Cons.prems(3) show ?thesis by simp
  next
    case False
    let ?r = "\<lparr>vr_id = e_ids e n, vr_tenant = t, vr_request = fid, vr_allocation = aid, vr_amount = m\<rparr>"
    from False Cons.prems(2) x obtain d1 where fresh: "\<forall>y \<in> set (invoice_reversals (taxes d)). \<not> invoice_reversal_clash ?r y"
      and dec: "decrementInvoiced t vid m (addReversal ?r d) = Inr d1"
      and rest: "reverseRows e (Suc n) t fid l d1 = Inr (k, d')"
      by (auto simp: andThen_eq_Inr insert_row_Inr addReversal_def split: if_splits)
    from Cons.prems(3) x obtain a where a: "a \<in> set (invoice_allocations d)" "ia_id a = aid" "ia_receivable a = vid"
      "ia_invoiced a = m" "ia_status a = INVOICED" "ia_tenant a = t" by auto
    have "settle_inv d1"
      by (rule reverse_one [OF Cons.prems(1) a(1,5,6) _ _ fresh]) (use dec a in simp_all)
    from Cons.IH [OF this rest] Cons.prems(3) decrement_same [OF dec] show ?thesis by simp
  qed
qed simp

lemma reverseInvoiceAllocations_inv:
  assumes "settle_inv d" "reverseInvoiceAllocations e n t fid rid d = Inr (k, d')"
  shows "settle_inv d'"
  by (rule reverseRows_inv [OF assms(1) assms(2) [unfolded reverseInvoiceAllocations_def]])
     (auto simp: invoicedRows_def)

section \<open>The other books\<close>

lemma invoice_inv_planTables: "planTables d' = planTables d \<Longrightarrow> invoice_inv d' = invoice_inv d"
  by (rule invoice_inv_cong) (simp_all add: planTables_def contractTables_def)

lemmas invoice_inv_frames = planTables_frames [THEN invoice_inv_planTables]

lemma insert_receivable_invoice:
  assumes inv: "invoice_inv d" and ins: "insert_row receivable_clash v (receivables d) = Inr t"
    and v: "rv_invoiced v = 0" "0 \<le> rv_original v"
  shows "invoice_inv (d\<lparr>plans := pl, receivables := t\<rparr>)"
proof -
  let ?d = "d\<lparr>plans := pl, receivables := t\<rparr>"
  have t: "t = receivables d @ [v]" and fresh: "\<forall>x \<in> set (receivables d). rv_id x \<noteq> rv_id v"
    using ins by (auto simp: insert_row_Inr receivable_clash_def)
  have sums: "netInvoiced ?d = netInvoiced d" "reservedOf ?d = reservedOf d" "reversal_of ?d = reversal_of d"
    by (simp_all add: fun_eq_iff netInvoiced_def liveInvoiced_def [abs_def] reversedAllocation_def reservedOf_def reversal_of_def)
  have none: "ia_receivable a \<noteq> rv_id v" if "a \<in> set (invoice_allocations d)" for a
    using invoice_invD(4) [OF inv that] fresh by (auto simp: allocated_to_def)
  have "netInvoiced d (rv_tenant v) (rv_id v) = 0" "reservedOf d (rv_tenant v) (rv_id v) = 0"
    unfolding netInvoiced_def reservedOf_def using none by (auto intro!: sum_rows_zero simp: liveInvoiced_def)
  with v have "invoice_ok ?d v" by (simp add: invoice_ok_def sums)
  moreover have "invoice_ok ?d x" if "x \<in> set (receivables d)" for x
    using invoice_invD(6) [OF inv that] by (simp add: invoice_ok_def sums)
  moreover have "allocated_to ?d a" if "allocated_to d a" for a using that by (auto simp: allocated_to_def t)
  ultimately show ?thesis using inv unfolding invoice_inv_def sums by (auto simp: t)
qed

lemma adjust_receivable_invoice:
  assumes inv: "invoice_inv d" and k: "keyed rv_id (receivables d)"
    and v: "v \<in> set (receivables d)" "rv_tenant v = tenant" "rv_invoiced v + reservedOf d tenant (rv_id v) \<le> n"
    and d': "receivables d' = update_rows (\<lambda>x. rv_tenant x = tenant \<and> rv_id x = rv_id v) (receivableAdjusted day n) (receivables d)"
      "invoice_allocations d' = invoice_allocations d" "taxes d' = taxes d"
  shows "invoice_inv d'"
proof -
  have sums: "netInvoiced d' = netInvoiced d" "reservedOf d' = reservedOf d" "reversal_of d' = reversal_of d"
    using d'(2,3) by (simp_all add: fun_eq_iff netInvoiced_def liveInvoiced_def [abs_def] reversedAllocation_def reservedOf_def reversal_of_def)
  let ?Q = "\<lambda>x. rv_tenant x = tenant \<and> rv_id x = rv_id v"
  have "invoice_ok d' x" if x: "x \<in> set (receivables d')" for x
  proof -
    from receivable_t.in_update_by_key [OF k v(1) _ _ x [unfolded d'(1)]] v(2)
    consider "x = receivableAdjusted day n v" | "x \<in> set (receivables d)" by auto
    then show ?thesis
    proof cases
      case 1
      with invoice_invD(6) [OF inv v(1)] v(2,3) show ?thesis by (simp add: invoice_ok_def sums receivableAdjusted_def)
    next
      case 2
      with invoice_invD(6) [OF inv 2] show ?thesis by (simp add: invoice_ok_def sums)
    qed
  qed
  moreover have "allocated_to d' a" if "allocated_to d a" for a
  proof -
    from that obtain x where x: "x \<in> set (receivables d)" "rv_id x = ia_receivable a" "rv_tenant x = ia_tenant a"
      by (auto simp: allocated_to_def)
    from in_update_rowsI [OF x(1), of ?Q "receivableAdjusted day n"]
    have "(if ?Q x then receivableAdjusted day n x else x) \<in> set (receivables d')" by (simp add: d'(1))
    moreover have "rv_id (if ?Q x then receivableAdjusted day n x else x) = rv_id x"
      "rv_tenant (if ?Q x then receivableAdjusted day n x else x) = rv_tenant x"
      by (simp_all add: receivableAdjusted_def)
    ultimately show ?thesis unfolding allocated_to_def using x(2,3) by metis
  qed
  ultimately show ?thesis using inv d'(2,3) by (simp add: invoice_inv_def sums)
qed

lemma ledgerExec_settle: "ledgerExec c d = Inr (u, d') \<Longrightarrow> settle_inv d \<Longrightarrow> settle_inv d'"
  unfolding settle_inv_def using ledgerExec_book invoice_inv_planTables [OF ledgerExec_plans] by blast

lemma CreateManualPlan_settle:
  assumes inv: "settle_inv d" and ok: "CreateManualPlan s e p key i d = Inr (w, d')" and id: "e_ids e 0 \<noteq> ''''"
  shows "settle_inv d'"
proof -
  have "invoice_inv d'"
    using CreateManualPlan_Inr [OF ok]
  proof (elim disjE exE conjE)
    fix n d1 d2 cov d3 d4
    assume fr: "scopeFrame d d1" "idemFrame d1 d2" "eventFrame d3 d4" "eventFrame d4 d'"
      and ins: "insertPlan (newManualPlan p (e_ids e 0) n i) d2 = Inr d3"
    have "invoice_inv d3 = invoice_inv d2"
      by (rule invoice_inv_cong) (use ins in \<open>auto simp: insertPlan_def split: sum.splits if_splits\<close>)
    then show ?thesis
      using inv invoice_inv_frames(1) [OF fr(1)] invoice_inv_frames(2) [OF fr(2)] invoice_inv_frames(3) [OF fr(3)]
        invoice_inv_frames(3) [OF fr(4)] unfolding settle_inv_def by blast
  qed (use inv in \<open>simp add: settle_inv_def\<close>)
  with CreateManualPlan_inv [OF _ ok id] inv show ?thesis by (simp add: settle_inv_def)
qed

lemma ConfirmPlan_settle:
  assumes inv: "settle_inv d" and ok: "ConfirmPlan s e p pid i d = Inr (w, d')"
  shows "settle_inv d'"
proof -
  have b: "book_inv d" using inv by (simp add: settle_inv_def)
  from ConfirmPlan_Inr [OF ok] obtain rp cur d1 day n reason d2 d3 where
    rp: "rp \<in> set (plans d)" and fr: "scopeFrame d d1" "eventFrame d2 d3" "eventFrame d3 d'"
    and val: "confirmedValues i rp = Inr (day, n, reason)"
    and post: "postReceivable p rp reason (newReceivable e p rp day n cur) d1 = Inr d2" by blast
  have "0 < n" using confirmedValues_pos [OF val] b rp by (simp add: book_inv_def plan_inv_def)
  moreover have "invoice_inv d1" using inv invoice_inv_frames(1) [OF fr(1)] by (simp add: settle_inv_def)
  ultimately have "invoice_inv d2"
    using post by (auto simp: postReceivable_def andThen_eq_Inr newReceivable_def intro!: insert_receivable_invoice)
  then have "invoice_inv d'" using invoice_inv_frames(3) [OF fr(2)] invoice_inv_frames(3) [OF fr(3)] by blast
  with ConfirmPlan_inv [OF b ok] show ?thesis by (simp add: settle_inv_def)
qed

lemma AdjustPlan_settle:
  assumes inv: "settle_inv d" and ok: "AdjustPlan s e p pid i d = Inr (w, d')"
  shows "settle_inv d'"
proof -
  have b: "book_inv d" using inv by (simp add: settle_inv_def)
  from AdjustPlan_Inr [OF ok] obtain n rp v d1 d2 where rp: "confirmedPlan (p_tenant p) pid (pi_version i) rp"
    and v: "v \<in> set (receivables d)" "rv_tenant v = rp_tenant rp" "rv_invoiced v + reservedOf d1 (p_tenant p) (rv_id v) \<le> n"
    and fr: "scopeFrame d d1" "eventFrame (postAdjustment p rp v (pi_due i) n (pi_reason i) d1) d2" "eventFrame d2 d'"
    by (elim exE conjE) (rule that; assumption)
  let ?d = "postAdjustment p rp v (pi_due i) n (pi_reason i) d1"
  have "invoice_inv d1" using inv invoice_inv_frames(1) [OF fr(1)] by (simp add: settle_inv_def)
  moreover have "keyed rv_id (receivables d1)" "v \<in> set (receivables d1)"
    using book_keyed [OF inv] v(1) scopeFrame_tables(3) [OF fr(1)] by simp_all
  ultimately have "invoice_inv ?d"
    by (rule adjust_receivable_invoice [where tenant = "p_tenant p" and n = n and day = "pi_due i" and v = v])
       (use rp v in \<open>simp_all add: confirmedPlan_def postAdjustment_def\<close>)
  then have "invoice_inv d'" using invoice_inv_frames(3) [OF fr(2)] invoice_inv_frames(3) [OF fr(3)] by blast
  with AdjustPlan_inv [OF b ok] show ?thesis by (simp add: settle_inv_def)
qed

lemma UpdateProjectMappingNote_settle:
  assumes inv: "settle_inv d" and ok: "UpdateProjectMappingNote e p project version note d = Inr (w, d')"
  shows "settle_inv d'"
proof -
  from ok obtain t where fr: "eventFrame (d\<lparr>project_assignments := t\<rparr>) d'"
    by (auto simp: UpdateProjectMappingNote_def andThen_eq_Inr dest!: outbox_frame split: if_splits)
  have "bookTables (d\<lparr>project_assignments := t\<rparr>) = bookTables d" by (simp add: bookTables_def ledgerTables_def)
  with bookTables_frames(3) [OF fr] have "bookTables d' = bookTables d" by simp
  from settle_inv_cong [OF this] inv show ?thesis by simp
qed

lemma bookExec_settle:
  assumes "settle_inv d" "issuesIds c" "bookExec c d = Inr (u, d')"
  shows "settle_inv d'"
  using assms by (cases "(c, d)" rule: bookExec.cases)
    (auto simp: issuesIds_def resMap_drop_Inr dest: ledgerExec_settle CreateManualPlan_settle ConfirmPlan_settle
      AdjustPlan_settle UpdateProjectMappingNote_settle)

end
