(* ===== verification/InvoiceRuns.thy ===== *)
theory InvoiceRuns
  imports InvoiceInvariant
begin

text \<open>
  Every command of invoicing and every tax result keeps the books: the inversions of the commands,
  the preservation of the invariant, and the runs that interleave them with plans and ledger.
\<close>

section \<open>Frames of the steps\<close>

lemma insertItems_frame: "insertItems e n t rid line xs d = Inr d' \<Longrightarrow> bookTables d' = bookTables d"
proof (induction xs arbitrary: n line d)
  case (Cons x xs)
  then obtain u where "insertItems e (Suc n) t rid (Suc line) xs (d\<lparr>taxes := (taxes d)\<lparr>invoice_items := u\<rparr>\<rparr>) = Inr d'"
    by (auto simp: andThen_eq_Inr)
  from Cons.IH [OF this] show ?case by (simp add: bookTables_def ledgerTables_def)
qed simp

lemma insertTaxItems_frame: "insertTaxItems f e n t tid line xs d = Inr d' \<Longrightarrow> bookTables d' = bookTables d"
proof (induction xs arbitrary: n line d)
  case (Cons x xs)
  then obtain u where "insertTaxItems f e (Suc n) t tid (Suc line) xs (d\<lparr>taxes := (taxes d)\<lparr>tax_invoice_items := u\<rparr>\<rparr>) = Inr d'"
    by (auto simp: andThen_eq_Inr)
  from Cons.IH [OF this] show ?case by (simp add: bookTables_def ledgerTables_def)
qed simp

lemma requireInvoiceRequestScopeTx_frame:
  "requireInvoiceRequestScopeTx s p perm rid d = Inr d' \<Longrightarrow> scopeFrame d d'"
  by (auto simp: requireInvoiceRequestScopeTx_def andThen_eq_Inr dest: requireWriteScopeTx_frame split: if_splits)

lemma requireTaxInvoiceScopeTx_frame:
  "requireTaxInvoiceScopeTx s p perm rid d = Inr d' \<Longrightarrow> scopeFrame d d'"
  by (auto simp: requireTaxInvoiceScopeTx_def andThen_eq_Inr dest: requireWriteScopeTx_frame split: if_splits)

lemma outbox_books: "outbox e i t ds et aty aid b d = Inr d' \<Longrightarrow> bookTables d' = bookTables d"
  by (rule bookTables_frames(3)) (rule outbox_frame)

lemma scope_books:
  "requireInvoiceRequestScopeTx s p perm rid d = Inr d' \<Longrightarrow> bookTables d' = bookTables d"
  "requireTaxInvoiceScopeTx s p perm iid d = Inr d' \<Longrightarrow> bookTables d' = bookTables d"
  "requireWriteScopeTx s p perm sn d = Inr d' \<Longrightarrow> bookTables d' = bookTables d"
  "RequireContractAccessTx s p perm sn d = Inr d' \<Longrightarrow> bookTables d' = bookTables d"
  by (rule bookTables_frames(1), erule requireInvoiceRequestScopeTx_frame requireTaxInvoiceScopeTx_frame
      requireWriteScopeTx_frame RequireContractAccessTx_frame)+

lemma idem_books: "claimIdempotency e t c k v q d = Inr (w, r, d') \<Longrightarrow> bookTables d' = bookTables d"
  by (rule bookTables_frames(2)) (rule claimIdempotency_frame)

lemmas books = outbox_books scope_books idem_books insertItems_frame insertTaxItems_frame

lemma freezeReview_books: "freezeReview p rid i k d = Inr d' \<Longrightarrow> bookTables d' = bookTables d"
  by (auto simp: freezeReview_def andThen_eq_Inr)

lemma queueIssueCommand_books: "queueIssueCommand s e n t rid a d = Inr d' \<Longrightarrow> bookTables d' = bookTables d"
  by (auto simp: queueIssueCommand_def andThen_eq_Inr dest: books)

lemma createApprovedInvoiceAttempt_books:
  "createApprovedInvoiceAttempt s e n p rid version d = Inr (w, d') \<Longrightarrow> bookTables d' = bookTables d"
  by (auto simp: createApprovedInvoiceAttempt_def andThen_eq_Inr Let_def dest!: books queueIssueCommand_books split: if_splits)

lemma recordResult_books: "recordResult t v f d = Inr d' \<Longrightarrow> bookTables d' = bookTables d"
  by (auto simp: recordResult_def split: if_splits)

lemma recordRedResult_books: "recordRedResult t v f d = Inr d' \<Longrightarrow> bookTables d' = bookTables d"
  by (auto simp: recordRedResult_def split: if_splits)

section \<open>Commands that leave the amounts alone\<close>

lemma ApproveInvoiceRequest_books:
  "ApproveInvoiceRequest s e p rid version d = Inr (w, d') \<Longrightarrow> bookTables d' = bookTables d"
  by (auto simp: ApproveInvoiceRequest_def andThen_eq_Inr Let_def dest!: books createApprovedInvoiceAttempt_books split: if_splits)

lemma RecoverFailedInvoice_books:
  "RecoverFailedInvoice s e p key rid version reason d = Inr (w, d') \<Longrightarrow> bookTables d' = bookTables d"
  by (auto simp: RecoverFailedInvoice_def andThen_eq_Inr Let_def dest!: books split: if_splits option.splits)

lemma RequestInvoiceRedFlush_books:
  "RequestInvoiceRedFlush s e p key iid i d = Inr (w, d') \<Longrightarrow> bookTables d' = bookTables d"
  by (auto simp: RequestInvoiceRedFlush_def andThen_eq_Inr Let_def dest!: books split: if_splits sum.splits)

lemma approveRedFlush_books: "approveRedFlush s e p f version d = Inr d' \<Longrightarrow> bookTables d' = bookTables d"
  by (auto simp: approveRedFlush_def andThen_eq_Inr Let_def dest!: books split: if_splits)

lemma ReviewInvoiceRedFlush_books:
  "ReviewInvoiceRedFlush s e p fid approve i d = Inr (w, d') \<Longrightarrow> bookTables d' = bookTables d"
  by (auto simp: ReviewInvoiceRedFlush_def andThen_eq_Inr Let_def dest!: books approveRedFlush_books split: if_splits)

lemma PutSettlementSettings_books:
  "PutSettlementSettings s e p i d = Inr (w, d') \<Longrightarrow> bookTables d' = bookTables d"
  by (auto simp: PutSettlementSettings_def storeSettings_def andThen_eq_Inr Let_def dest!: books split: if_splits sum.splits)

section \<open>Commands that move amounts\<close>

lemma settle_books: "settle_inv d \<Longrightarrow> bookTables d' = bookTables d \<Longrightarrow> settle_inv d'"
  using settle_inv_cong by blast

text \<open>A submission: what was checked before the reservations were written.\<close>

lemma checkReservations_Inr:
  "checkReservations t sn l d = Inr u \<Longrightarrow> (vid, m) \<in> set l \<Longrightarrow>
   \<exists>v \<in> set (receivables d). rv_id v = vid \<and> rv_tenant v = t \<and> rv_invoiced v + reservedOf d t vid + m \<le> rv_original v"
proof (induction l)
  case (Cons x l)
  obtain w k where x: "x = (w, k)" by (cases x)
  from Cons.prems(1) x obtain n where n: "invoiceAvailableForUpdate t sn w d = Inr n" "k \<le> n" "checkReservations t sn l d = Inr u"
    by (auto simp: andThen_eq_Inr not_less split: if_splits)
  show ?case
  proof (cases "(vid, m) \<in> set l")
    case True
    with Cons.IH n(3) show ?thesis by blast
  next
    case False
    with Cons.prems(2) x have "w = vid" "k = m" by auto
    with invoiceAvailable_Inr [OF n(1)] n(2) show ?thesis by fastforce
  qed
qed simp

lemma normalizeReservations_pos: "normalizeReservations as = Inr l \<Longrightarrow> (vid, m) \<in> set l \<Longrightarrow> 0 < m"
  by (induction as arbitrary: l) (auto simp: andThen_eq_Inr dest: amountCents_pos)

lemma checkInvoiceRequest_Inr:
  assumes "checkInvoiceRequest key i = Inr k"
  shows "normalizeReservations (qi_allocations i) = Inr (kr_reservations k)" "kr_incl k = (\<Sum>x\<leftarrow>kr_reservations k. snd x)"
    "normalizeInvoiceItems (qi_items i) = Inr (kr_items k, kr_excl k, kr_tax k, kr_incl k)"
    "normalizeInvoiceType (qi_type i) = Inr (kr_type k)"
  using assms by (auto simp: checkInvoiceRequest_def andThen_eq_Inr split: if_splits prod.splits)

lemma CreateInvoiceRequest_Inr:
  assumes "CreateInvoiceRequest s e p key i d = Inr (w, d')"
  shows "d' = d \<or> (\<exists>k d1 d2 t d3 d4.
     checkInvoiceRequest key i = Inr k \<and> scopeFrame d d1 \<and> idemFrame d1 d2 \<and>
     checkReservations (p_tenant p) (qi_snapshot i) (kr_reservations k) d2 = Inr () \<and>
     insert_row request_clash (newRequest p key (e_ids e 0) i k) (invoice_requests (taxes d2)) = Inr t \<and>
     insertItems e 1 (p_tenant p) (e_ids e 0) 1 (kr_items k) (set_requests t d2) = Inr d3 \<and>
     insertReservations e (1 + length (kr_items k)) (p_tenant p) (e_ids e 0) (kr_reservations k) d3 = Inr d4 \<and>
     bookTables d' = bookTables d4 \<and> w = e_ids e 0)"
proof -
  from assms obtain k d1 x b d2 where k: "checkInvoiceRequest key i = Inr k"
    and sc: "RequireContractAccessTx s p ''settlement.invoice.request'' (qi_snapshot i) d = Inr d1"
    and cl: "claimIdempotency e (p_tenant p) ''CREATE_INVOICE_REQUEST'' key (e_ids e 0) (invoiceRequestDigest i k) d1 = Inr (x, b, d2)"
    and rest: "d' = d \<or> (\<exists>t. checkReservations (p_tenant p) (qi_snapshot i) (kr_reservations k) d2 = Inr () \<and>
      insert_row request_clash (newRequest p key (e_ids e 0) i k) (invoice_requests (taxes d2)) = Inr t \<and>
      postRequest e p (e_ids e 0) i k (set_requests t d2) = Inr d' \<and> w = e_ids e 0)"
    by (auto simp: CreateInvoiceRequest_def Let_def andThen_eq_Inr resMap_def split: if_splits sum.splits option.splits)
  from rest show ?thesis
  proof (elim disjE exE conjE)
    fix t
    assume c: "checkReservations (p_tenant p) (qi_snapshot i) (kr_reservations k) d2 = Inr ()"
      and t: "insert_row request_clash (newRequest p key (e_ids e 0) i k) (invoice_requests (taxes d2)) = Inr t"
      and p: "postRequest e p (e_ids e 0) i k (set_requests t d2) = Inr d'" and w: "w = e_ids e 0"
    from p obtain d3 d4 where "insertItems e 1 (p_tenant p) (e_ids e 0) 1 (kr_items k) (set_requests t d2) = Inr d3"
      "insertReservations e (1 + length (kr_items k)) (p_tenant p) (e_ids e 0) (kr_reservations k) d3 = Inr d4"
      "bookTables d' = bookTables d4"
      by (auto simp: postRequest_def Let_def andThen_eq_Inr dest!: outbox_books freezeReview_books)
    with k c t w RequireContractAccessTx_frame [OF sc] claimIdempotency_frame [OF cl] show ?thesis by blast
  qed simp
qed

lemma checked_reservations_books:
  assumes "bookTables d' = bookTables d" "checkReservations t sn l d = Inr u" "normalizeReservations as = Inr l"
  shows "\<forall>(vid, m) \<in> set l. 0 < m \<and> (\<exists>v \<in> set (receivables d'). rv_id v = vid \<and> rv_tenant v = t \<and>
    rv_invoiced v + reservedOf d' t vid + m \<le> rv_original v)"
proof -
  have "receivables d' = receivables d" "reservedOf d' = reservedOf d"
    using assms(1) by (simp_all add: bookTables_def ledgerTables_def fun_eq_iff reservedOf_def)
  then show ?thesis using checkReservations_Inr [OF assms(2)] normalizeReservations_pos [OF assms(3)] by auto
qed

lemma CreateInvoiceRequest_settle:
  assumes inv: "settle_inv d" and ok: "CreateInvoiceRequest s e p key i d = Inr (w, d')"
  shows "settle_inv d'"
  using CreateInvoiceRequest_Inr [OF ok]
proof (elim disjE exE conjE)
  fix k d1 d2 t d3 d4
  assume k: "checkInvoiceRequest key i = Inr k" and fr: "scopeFrame d d1" "idemFrame d1 d2"
    and c: "checkReservations (p_tenant p) (qi_snapshot i) (kr_reservations k) d2 = Inr ()"
    and it: "insertItems e 1 (p_tenant p) (e_ids e 0) 1 (kr_items k) (set_requests t d2) = Inr d3"
    and ins: "insertReservations e (1 + length (kr_items k)) (p_tenant p) (e_ids e 0) (kr_reservations k) d3 = Inr d4"
    and bt: "bookTables d' = bookTables d4"
  have b: "bookTables d3 = bookTables d2" using insertItems_frame [OF it] by simp
  moreover have "bookTables d2 = bookTables d" using bookTables_frames(1) [OF fr(1)] bookTables_frames(2) [OF fr(2)] by simp
  ultimately have "settle_inv d3" using settle_books [OF inv] by simp
  from insertReservations_inv [OF this ins checked_reservations_books [OF b c checkInvoiceRequest_Inr(1) [OF k]]]
  show ?thesis using bt by (rule settle_books)
qed (use inv in simp)

lemma release_settle:
  assumes "settle_inv d" "bookTables d1 = bookTables d" "bookTables d' = bookTables (releaseReservations g t rid d1)"
    and "g = ia_reserved \<or> g = (\<lambda>a. ia_reserved a - ia_invoiced a)"
  shows "settle_inv d'"
proof -
  have inv: "settle_inv d1" using settle_books [OF assms(1,2)] .
  have "g a = ia_reserved a" if "a \<in> set (invoice_allocations d1)" "ia_status a = RESERVED" for a
    using assms(4) reserved_shape [OF _ that] inv by (auto simp: settle_inv_def)
  from release_inv(1) [OF inv this refl] show ?thesis using assms(3) by (rule settle_books)
qed

lemma RejectInvoiceRequest_Inr:
  assumes "RejectInvoiceRequest s e p rid version reason d = Inr (w, d')"
  shows "\<exists>r d1 reason'. find (submittedRequest (p_tenant p) rid version IR_SUBMITTED) (invoice_requests (taxes d)) = Some r \<and>
    ir_submitted_by r \<noteq> p_user p \<and> scopeFrame d d1 \<and> reason' \<noteq> '''' \<and>
    eventFrame (releaseReservations ia_reserved (p_tenant p) rid (updateRequest (p_tenant p) rid (\<lambda>x. ir_version x = version)
             (\<lambda>x. x\<lparr>ir_status := IR_REJECTED, ir_approved_by := p_user p, ir_rejection := reason'\<rparr>) d1)) d'"
  using assms by (auto simp: RejectInvoiceRequest_def andThen_eq_Inr query_row_Inr required_Inr split: if_splits
      dest!: outbox_frame requireInvoiceRequestScopeTx_frame)

lemma RejectInvoiceRequest_settle:
  assumes inv: "settle_inv d" and ok: "RejectInvoiceRequest s e p rid version reason d = Inr (w, d')"
  shows "settle_inv d'"
proof -
  from RejectInvoiceRequest_Inr [OF ok] obtain d1 f where fr: "scopeFrame d d1"
    "eventFrame (releaseReservations ia_reserved (p_tenant p) rid (updateRequest (p_tenant p) rid (\<lambda>x. ir_version x = version) f d1)) d'"
    by blast
  show ?thesis
    by (rule release_settle [OF inv _ bookTables_frames(3) [OF fr(2)]]) (use bookTables_frames(1) [OF fr(1)] in simp_all)
qed

lemma ReviewSpecialInvoice_Inr:
  assumes "ReviewSpecialInvoice s e p rid version approve reason d = Inr (w, d')"
  shows "\<exists>r d1 rv d2. find (submittedRequest (p_tenant p) rid version IR_SPECIAL_REVIEW) (invoice_requests (taxes d)) = Some r \<and>
    ir_submitted_by r \<noteq> p_user p \<and> scopeFrame d d1 \<and> eventFrame (set_reviews rv d1) d2 \<and>
    (if approve then createApprovedInvoiceAttempt s e 2 p rid version d2 = Inr (w, d')
     else d' = releaseReservations ia_reserved (p_tenant p) rid (updateRequest (p_tenant p) rid (\<lambda>_. True)
                (\<lambda>x. x\<lparr>ir_status := IR_REJECTED, ir_rejection := reason\<rparr>) d2))"
  using assms by (auto simp: ReviewSpecialInvoice_def andThen_eq_Inr query_row_Inr split: if_splits
      dest!: outbox_frame RequireContractAccessTx_frame)

lemma ReviewSpecialInvoice_settle:
  assumes inv: "settle_inv d" and ok: "ReviewSpecialInvoice s e p rid version approve reason d = Inr (w, d')"
  shows "settle_inv d'"
proof -
  from ReviewSpecialInvoice_Inr [OF ok] obtain d1 rv d2 where fr: "scopeFrame d d1" "eventFrame (set_reviews rv d1) d2"
    and rest: "if approve then createApprovedInvoiceAttempt s e 2 p rid version d2 = Inr (w, d')
     else d' = releaseReservations ia_reserved (p_tenant p) rid (updateRequest (p_tenant p) rid (\<lambda>_. True)
                (\<lambda>x. x\<lparr>ir_status := IR_REJECTED, ir_rejection := reason\<rparr>) d2)" by blast
  have b: "bookTables d2 = bookTables d" using bookTables_frames(1) [OF fr(1)] bookTables_frames(3) [OF fr(2)] by simp
  show ?thesis
  proof (cases approve)
    case True
    with rest createApprovedInvoiceAttempt_books b have "bookTables d' = bookTables d" by metis
    with inv show ?thesis by (rule settle_books)
  next
    case False
    with rest show ?thesis
      by (intro release_settle [OF inv, of "updateRequest (p_tenant p) rid (\<lambda>_. True)
                (\<lambda>x. x\<lparr>ir_status := IR_REJECTED, ir_rejection := reason\<rparr>) d2" d' ia_reserved "p_tenant p" rid]) (simp_all add: b)
  qed
qed

subsection \<open>Cancelling\<close>

text \<open>A cancellation that is not a replay, step by step.\<close>

definition withdrawn :: "Principal \<Rightarrow> string \<Rightarrow> int \<Rightarrow> string \<Rightarrow> db \<Rightarrow> db \<Rightarrow> bool" where
  "withdrawn p rid version reason d1 d' \<longleftrightarrow> (\<exists>attempt command r d2 d3 d4.
      (attempt, command) = (case latestAttempt d1 (p_tenant p) rid of None \<Rightarrow> ('''', '''') | Some a \<Rightarrow> (at_id a, commandOf a)) \<and>
      commandIsDead d1 (p_tenant p) command = Inr () \<and> attemptNeverAccepted d1 (p_tenant p) attempt command = Inr () \<and>
      requestForWithdrawal p rid version cancellableRequestStatus d1 = Inr r \<and> scopeFrame d1 d2 \<and>
      invoicesOf d2 (p_tenant p) rid = 0 \<and> resultsOf d2 (p_tenant p) rid [TP_UNKNOWN, TP_PROVIDER_CONFLICT] = 0 \<and>
      abandonAttempt (p_tenant p) attempt d2 = Inr d3 \<and> cancelRequest (p_tenant p) rid version reason d3 = Inr d4 \<and>
      eventFrame (releaseReservations (\<lambda>a. ia_reserved a - ia_invoiced a) (p_tenant p) rid d4) d')"

lemma CancelInvoiceRequest_Inr:
  assumes ok: "CancelInvoiceRequest s e p key rid0 version reason d = Inr (w, d')" and rid: "rid = trimSpace rid0"
  shows "(d' = d \<and> boundTo d (p_tenant p, ''CANCEL_INVOICE_REQUEST'', trimSpace key) \<noteq> None) \<or>
    (\<exists>d1. idemFrame d d1 \<and> boundTo d (p_tenant p, ''CANCEL_INVOICE_REQUEST'', trimSpace key) = None \<and>
      withdrawn p rid version (trimSpace reason) d1 d')"
proof -
  let ?k = "(p_tenant p, ''CANCEL_INVOICE_REQUEST'', trimSpace key)"
  from ok obtain x b d1 where cl: "claimIdempotency e (p_tenant p) ''CANCEL_INVOICE_REQUEST'' (trimSpace key) rid
      (reviewDigest p rid version (trimSpace reason)) d = Inr (x, b, d1)"
    and rest: "b \<and> d' = d1 \<or> \<not> b \<and> withdrawn p rid version (trimSpace reason) d1 d'"
    unfolding CancelInvoiceRequest_def Let_def rid withdrawn_def
    by (auto simp: andThen_eq_Inr split: if_splits prod.splits dest!: outbox_frame requireInvoiceRequestScopeTx_frame)
  have bound: "b \<longleftrightarrow> boundTo d ?k \<noteq> None"
    using cl by (cases "boundTo d ?k") (auto simp: claimIdempotency_fresh claimIdempotency_bound split: if_splits)
  from rest show ?thesis
  proof (elim disjE conjE)
    assume b: "b" "d' = d1"
    from cl b(1) have "d1 = d" by (auto dest: claimIdempotency_replay_same)
    with b bound show ?thesis by simp
  next
    assume "\<not> b" "withdrawn p rid version (trimSpace reason) d1 d'"
    moreover have "boundTo d ?k = None" using bound calculation(1) by blast
    ultimately show ?thesis using claimIdempotency_frame [OF cl] by blast
  qed
qed

lemma abandon_books: "abandonAttempt t a d = Inr d' \<Longrightarrow> bookTables d' = bookTables d"
  by (auto simp: abandonAttempt_def split: if_splits)

lemma cancelRequest_books: "cancelRequest t rid version reason d = Inr d' \<Longrightarrow> bookTables d' = bookTables d"
  by (auto simp: cancelRequest_def split: if_splits)

lemma withdrawn_books:
  assumes "withdrawn p rid version reason d d'"
  obtains d4 where "bookTables d4 = bookTables d"
    "bookTables d' = bookTables (releaseReservations (\<lambda>a. ia_reserved a - ia_invoiced a) (p_tenant p) rid d4)"
proof -
  from assms obtain attempt d2 d3 d4 where "scopeFrame d d2" "abandonAttempt (p_tenant p) attempt d2 = Inr d3"
    "cancelRequest (p_tenant p) rid version reason d3 = Inr d4"
    and fr: "eventFrame (releaseReservations (\<lambda>a. ia_reserved a - ia_invoiced a) (p_tenant p) rid d4) d'"
    unfolding withdrawn_def by blast
  then have "bookTables d4 = bookTables d"
    using bookTables_frames(1) abandon_books cancelRequest_books by simp
  then show ?thesis using bookTables_frames(3) [OF fr] by (rule that)
qed

lemma CancelInvoiceRequest_settle:
  assumes inv: "settle_inv d" and ok: "CancelInvoiceRequest s e p key rid version reason d = Inr (w, d')"
  shows "settle_inv d'"
  using CancelInvoiceRequest_Inr [OF ok refl]
proof (elim disjE exE conjE)
  fix d1 assume fr: "idemFrame d d1" and "withdrawn p (trimSpace rid) version (trimSpace reason) d1 d'"
  from withdrawn_books [OF this(2)] obtain d4 where b: "bookTables d4 = bookTables d1"
    "bookTables d' = bookTables (releaseReservations (\<lambda>a. ia_reserved a - ia_invoiced a) (p_tenant p) (trimSpace rid) d4)" .
  have "bookTables d4 = bookTables d" using b(1) bookTables_frames(2) [OF fr] by simp
  then show ?thesis by (rule release_settle [OF inv _ b(2)]) simp
qed (use inv in simp)

subsection \<open>Issuing\<close>

lemma finalize_settle:
  assumes "settle_inv d" "\<And>a. ia_status a = RESERVED \<Longrightarrow> P a"
    and "invoiceReserved P t rid (reservedRows d t rid) d = Inr d'"
  shows "settle_inv d' \<and> taxes d' = taxes d \<and>
    netInvoiced d' t vid = netInvoiced d t vid + movedTo (reservedRows d t rid) vid \<and>
    reservedOf d' t vid = reservedOf d t vid - movedTo (reservedRows d t rid) vid"
proof -
  have "invoice_inv d" using assms(1) by (simp add: settle_inv_def)
  from reservedRows_ok [where P = P, OF this assms(2)] show ?thesis by (intro invoiceReserved_inv [OF assms(1) _ _ assms(3)])
qed

lemma RegisterManualInvoice_Inr:
  assumes "RegisterManualInvoice s e p rid i d = Inr (w, d')"
  shows "\<exists>k r cs d1 t d2. checkManualInvoice e i = Inr k \<and> pendingManual d (p_tenant p) rid = Inr (r, cs) \<and> scopeFrame d d1 \<and>
    insert_row tax_invoice_clash (manualInvoice (e_ids e 0) r (toUpper (trimSpace (cs_currency cs))) k) (tax_invoices (taxes d1)) = Inr t \<and>
    closeManual (p_tenant p) rid (e_ids e 0) t d1 = Inr d2 \<and> eventFrame d2 d' \<and> w = e_ids e 0"
  using assms by (auto simp: RegisterManualInvoice_def andThen_eq_Inr Let_def split: if_splits prod.splits
      dest!: outbox_frame requireInvoiceRequestScopeTx_frame)

text \<open>The store in which the manual path starts to move the reservations.\<close>

definition manualClosed :: "string \<Rightarrow> string \<Rightarrow> string \<Rightarrow> tax_invoice list \<Rightarrow> db \<Rightarrow> db" where
  "manualClosed t rid tid ts d =
     (let d1 = updateRequest t rid (\<lambda>_. True) (\<lambda>r. r\<lparr>ir_status := IR_ISSUED\<rparr>) (set_tax_invoices ts d)
      in set_attempts (update_rows (manualAttempt t rid)
           (\<lambda>a. a\<lparr>at_status := AT_ISSUED, at_external_invoice := tid\<rparr>) (issue_attempts (taxes d1))) d1)"

lemma closeManual_eq: "closeManual t rid tid ts d =
    invoiceReserved (\<lambda>_. True) t rid (reservedRows (manualClosed t rid tid ts d) t rid) (manualClosed t rid tid ts d)"
  by (simp add: closeManual_def manualClosed_def Let_def)

lemma manualClosed_books [simp]: "bookTables (manualClosed t rid tid ts d) = bookTables d"
  by (simp add: manualClosed_def Let_def)

lemma RegisterManualInvoice_settle:
  assumes inv: "settle_inv d" and ok: "RegisterManualInvoice s e p rid i d = Inr (w, d')"
  shows "settle_inv d'"
proof -
  from RegisterManualInvoice_Inr [OF ok] obtain d1 t d2 where fr: "scopeFrame d d1" "eventFrame d2 d'"
    and cl: "closeManual (p_tenant p) rid (e_ids e 0) t d1 = Inr d2" by blast
  have "settle_inv (manualClosed (p_tenant p) rid (e_ids e 0) t d1)"
    by (rule settle_books [OF inv]) (use bookTables_frames(1) [OF fr(1)] in simp)
  from finalize_settle [OF this _ cl [unfolded closeManual_eq]] have "settle_inv d2" by blast
  then show ?thesis using bookTables_frames(3) [OF fr(2)] by (rule settle_books)
qed

subsection \<open>Tax results\<close>

lemma issueInvoice_Inr:
  assumes "issueInvoice e t r cs v x d = Inr d'"
  shows "\<exists>ts d1 d2 d3. sameTotals x (ir_type r) (cs_currency cs) (ir_excl r) (ir_tax r) (ir_incl r) \<and>
     insert_row tax_invoice_clash (adapterInvoice e (e_ids e 1) r (cs_currency cs) v x) (tax_invoices (taxes d)) = Inr ts \<and>
     insertTaxItems (\<lambda>y. y) e 2 t (e_ids e 1) 1 (xr_items x) (set_tax_invoices ts d) = Inr d1 \<and>
     recordResult t v (\<lambda>a. a\<lparr>at_status := AT_ISSUED, at_external_invoice := xr_external x,
         at_invoice := Some (e_ids e 1), at_failure_code := '''', at_failure_message := '''', at_next_reconcile := None\<rparr>) d1 = Inr d2 \<and>
     finalizeInvoiceAllocations t (ir_id r) (updateRequest t (ir_id r) openRequest (\<lambda>q. q\<lparr>ir_status := IR_ISSUED\<rparr>) d2) = Inr d3 \<and>
     eventFrame d3 d'"
  using assms by (auto simp: issueInvoice_def andThen_eq_Inr Let_def split: if_splits dest!: outbox_frame)

lemma issueInvoice_settle:
  assumes inv: "settle_inv d" and ok: "issueInvoice e t r cs v x d = Inr d'"
  shows "settle_inv d'"
proof -
  from issueInvoice_Inr [OF ok] obtain ts d1 f d2 d3 where
    st: "insertTaxItems (\<lambda>y. y) e 2 t (e_ids e 1) 1 (xr_items x) (set_tax_invoices ts d) = Inr d1" "recordResult t v f d1 = Inr d2"
    and fin: "finalizeInvoiceAllocations t (ir_id r) (updateRequest t (ir_id r) openRequest (\<lambda>q. q\<lparr>ir_status := IR_ISSUED\<rparr>) d2) = Inr d3"
    and fr: "eventFrame d3 d'" by blast
  have "settle_inv (updateRequest t (ir_id r) openRequest (\<lambda>q. q\<lparr>ir_status := IR_ISSUED\<rparr>) d2)"
    by (rule settle_books [OF inv]) (use insertTaxItems_frame [OF st(1)] recordResult_books [OF st(2)] in simp)
  from finalize_settle [OF this _ fin [unfolded finalizeInvoiceAllocations_def]] have "settle_inv d3" by blast
  then show ?thesis using bookTables_frames(3) [OF fr] by (rule settle_books)
qed

lemma recordLate_books:
  "recordLateIssueCallbackAfterCancel e t a r v d = Inr (w, d') \<Longrightarrow> bookTables d' = bookTables d"
  by (auto simp: recordLateIssueCallbackAfterCancel_def andThen_eq_Inr split: if_splits dest!: outbox_books recordResult_books)

text \<open>The status an unsuccessful result leaves on the attempt and on the request.\<close>

definition missed :: "attempt_status \<Rightarrow> request_status \<Rightarrow> bool" where
  "missed st q \<longleftrightarrow> st = AT_UNKNOWN \<and> q = IR_ISSUE_UNKNOWN \<or> st = AT_ISSUE_FAILED \<and> q = IR_ISSUE_FAILED"

definition sameAttempt :: "(issue_attempt \<Rightarrow> issue_attempt) \<Rightarrow> attempt_status \<Rightarrow> bool" where
  "sameAttempt f st \<longleftrightarrow> (\<forall>a. at_status (f a) = st \<and> (at_id (f a), at_tenant (f a), at_request (f a), at_no (f a)) =
     (at_id a, at_tenant a, at_request a, at_no a))"

lemma applyIssueResult_Inr:
  assumes "applyIssueResult e t r cs v d = Inr (w, d')"
  shows "w = TP_APPLIED \<and> ((\<exists>x. ev_invoice v = Some x \<and> issueInvoice e t r cs v x d = Inr d') \<or>
    (\<exists>f st q d1. recordResult t v f d = Inr d1 \<and> sameAttempt f st \<and> missed st q \<and>
       d' = updateRequest t (ir_id r) openRequest (\<lambda>x. x\<lparr>ir_status := q\<rparr>) d1))"
proof (cases "ev_type v = TaxInvoiceIssueUnknownEvent \<or> ev_type v = TaxInvoiceIssueFailedEvent")
  case True
  have m: "missed AT_UNKNOWN IR_ISSUE_UNKNOWN" "missed AT_ISSUE_FAILED IR_ISSUE_FAILED" by (simp_all add: missed_def)
  have s: "sameAttempt (\<lambda>x. x\<lparr>at_status := st, at_failure_code := c, at_failure_message := g, at_next_reconcile := n\<rparr>) st"
    for st c g n by (simp add: sameAttempt_def)
  have n: "TaxInvoiceIssueFailedEvent \<noteq> TaxInvoiceIssueUnknownEvent" by (simp add: tax_event_defs)
  from True show ?thesis
  proof
    assume "ev_type v = TaxInvoiceIssueUnknownEvent"
    with assms obtain d1 where "w = TP_APPLIED" "recordResult t v (\<lambda>x. x\<lparr>at_status := AT_UNKNOWN, at_failure_code := ev_failure_code v,
          at_failure_message := ev_failure_message v, at_next_reconcile := Some (e_now e + 60000)\<rparr>) d = Inr d1"
        "d' = updateRequest t (ir_id r) openRequest (\<lambda>q. q\<lparr>ir_status := IR_ISSUE_UNKNOWN\<rparr>) d1"
      by (auto simp: applyIssueResult_def andThen_eq_Inr)
    with m(1) s show ?thesis by blast
  next
    assume "ev_type v = TaxInvoiceIssueFailedEvent"
    with assms n obtain d1 where "w = TP_APPLIED" "recordResult t v (\<lambda>x. x\<lparr>at_status := AT_ISSUE_FAILED,
          at_failure_code := ev_failure_code v, at_failure_message := ev_failure_message v, at_next_reconcile := None\<rparr>) d = Inr d1"
        "d' = updateRequest t (ir_id r) openRequest (\<lambda>q. q\<lparr>ir_status := IR_ISSUE_FAILED\<rparr>) d1"
      by (auto simp: applyIssueResult_def andThen_eq_Inr split: if_split_asm)
    with m(2) s show ?thesis by blast
  qed
next
  case False
  then show ?thesis using assms by (auto simp: applyIssueResult_def andThen_eq_Inr split: option.split_asm)
qed

lemma applyInvoiceIssueCallback_Inr:
  assumes "applyInvoiceIssueCallback e t v d = Inr (w, d')"
  obtains a r cs where "attemptFacts d t (ev_attempt v) = Inr (a, r, cs)"
    and "d' = d \<or> at_sequence a < ev_sequence v \<and> (ir_status r \<noteq> IR_ISSUED \<and> at_status a \<noteq> AT_ISSUED) \<and>
       (recordLateIssueCallbackAfterCancel e t a r v d = Inr (w, d') \<or>
        liveAttempt (at_status a) \<and> ir_status r \<noteq> IR_ISSUE_FAILED \<and> ir_status r \<noteq> IR_CANCELLED \<and>
        applyIssueResult e t r cs v d = Inr (w, d'))"
proof -
  from assms obtain a r cs where f: "attemptFacts d t (ev_attempt v) = Inr (a, r, cs)"
    by (auto simp: applyInvoiceIssueCallback_def andThen_eq_Inr)
  with assms have "d' = d \<or> at_sequence a < ev_sequence v \<and> (ir_status r \<noteq> IR_ISSUED \<and> at_status a \<noteq> AT_ISSUED) \<and>
       (recordLateIssueCallbackAfterCancel e t a r v d = Inr (w, d') \<or>
        liveAttempt (at_status a) \<and> ir_status r \<noteq> IR_ISSUE_FAILED \<and> ir_status r \<noteq> IR_CANCELLED \<and>
        applyIssueResult e t r cs v d = Inr (w, d'))"
    by (auto simp: applyInvoiceIssueCallback_def not_le split: if_split_asm)
  with f show ?thesis by (rule that)
qed

lemma applyIssueResult_settle:
  assumes inv: "settle_inv d" and ok: "applyIssueResult e t r cs v d = Inr (w, d')"
  shows "settle_inv d'"
  using applyIssueResult_Inr [OF ok]
proof (elim conjE disjE exE)
  fix f st q d1
  assume "recordResult t v f d = Inr d1" "d' = updateRequest t (ir_id r) openRequest (\<lambda>x. x\<lparr>ir_status := q\<rparr>) d1"
  then have "bookTables d' = bookTables d" using recordResult_books by simp
  then show ?thesis by (rule settle_books [OF inv])
qed (rule issueInvoice_settle [OF inv])

lemma applyInvoiceIssueCallback_settle:
  assumes inv: "settle_inv d" and ok: "applyInvoiceIssueCallback e t v d = Inr (w, d')"
  shows "settle_inv d'"
proof (rule applyInvoiceIssueCallback_Inr [OF ok], elim disjE conjE)
  fix a r assume "recordLateIssueCallbackAfterCancel e t a r v d = Inr (w, d')"
  from recordLate_books [OF this] show ?thesis by (rule settle_books [OF inv])
qed (use inv applyIssueResult_settle in blast)+

lemma storeRedInvoice_books: "storeRedInvoice e t fid f ti v x d = Inr d' \<Longrightarrow> bookTables d' = bookTables d"
  by (auto simp: storeRedInvoice_def andThen_eq_Inr Let_def dest!: insertTaxItems_frame)

lemma flushInvoice_settle:
  assumes inv: "settle_inv d" and ok: "flushInvoice e t fid f ti v x d = Inr d'"
  shows "settle_inv d'"
proof -
  from ok obtain d1 g d2 n d3 where st: "storeRedInvoice e t fid f ti v x d = Inr d1"
    "recordRedResult t v g (updateRedRequest t fid (\<lambda>q. q\<lparr>rf_status := RF_RED_FLUSHED\<rparr>) d1) = Inr d2"
    and rev: "reverseInvoiceAllocations e (3 + length (xr_items x)) t fid (ti_request ti) d2 = Inr (n, d3)"
    and fr: "eventFrame d3 d'"
    by (auto simp: flushInvoice_def andThen_eq_Inr split: if_splits dest!: outbox_frame)
  have "settle_inv d2"
    by (rule settle_books [OF inv]) (use storeRedInvoice_books [OF st(1)] recordRedResult_books [OF st(2)] in simp)
  from reverseInvoiceAllocations_inv [OF this rev] show ?thesis using bookTables_frames(3) [OF fr] by (rule settle_books)
qed

lemma applyRedResult_Inr:
  assumes "applyRedResult e t fid f ti v d = Inr (w, d')"
  shows "w = TP_APPLIED \<and> ((\<exists>x. ev_invoice v = Some x \<and> flushInvoice e t fid f ti v x d = Inr d') \<or>
    (\<exists>g q d1. recordRedResult t v g d = Inr d1 \<and> d' = updateRedRequest t fid q d1))"
  using assms unfolding applyRedResult_def
  by (auto simp: andThen_eq_Inr split: if_split_asm option.split_asm)

lemma applyRedFlushCallback_Inr:
  assumes "applyRedFlushCallback e t v d = Inr (w, d')"
  obtains a f ti where "redFacts d t (ev_red_attempt v) = Inr (a, f, ti)"
    and "d' = d \<or> ra_sequence a < ev_sequence v \<and> ti_status ti = ISSUED \<and> openRedFlush f a \<and>
      applyRedResult e t (redRequestOf v a) f ti v d = Inr (w, d')"
proof -
  from assms obtain a f ti where r: "redFacts d t (ev_red_attempt v) = Inr (a, f, ti)"
    by (auto simp: applyRedFlushCallback_def andThen_eq_Inr)
  with assms have "d' = d \<or> ra_sequence a < ev_sequence v \<and> ti_status ti = ISSUED \<and> openRedFlush f a \<and>
      applyRedResult e t (redRequestOf v a) f ti v d = Inr (w, d')"
    by (auto simp: applyRedFlushCallback_def not_le split: if_split_asm)
  with r show ?thesis by (rule that)
qed

lemma updateRedRequest_books [simp]: "bookTables (updateRedRequest t fid q d) = bookTables d"
  by (simp add: updateRedRequest_def)

lemma applyRedFlushCallback_settle:
  assumes inv: "settle_inv d" and ok: "applyRedFlushCallback e t v d = Inr (w, d')"
  shows "settle_inv d'"
proof (rule applyRedFlushCallback_Inr [OF ok], elim disjE conjE)
  fix a f ti assume "applyRedResult e t (redRequestOf v a) f ti v d = Inr (w, d')"
  from applyRedResult_Inr [OF this] show ?thesis
  proof (elim conjE disjE exE)
    fix g q d1 assume "recordRedResult t v g d = Inr d1" "d' = updateRedRequest t (redRequestOf v a) q d1"
    then have "bookTables d' = bookTables d" using recordRedResult_books by simp
    then show ?thesis by (rule settle_books [OF inv])
  qed (rule flushInvoice_settle [OF inv])
qed (use inv in simp)

lemma ApplyTaxCallback_Inr:
  assumes ok: "ApplyTaxCallback e trusted v0 d = Inr (w, d')"
    and v: "v = v0\<lparr>ev_provider := trimSpace (ev_provider v0)\<rparr>" and t: "t = trimSpace trusted"
  shows "checkTaxCallback e t v = Inr () \<and>
    ((d' = d \<and> (\<exists>r \<in> set (tax_results (taxes d)). (tr_tenant r, tr_provider r, tr_event r) = (t, ev_provider v, ev_id v) \<and>
        tr_hash r = e_sha256 e (jsonEvent v) \<and> tr_status r = w)) \<or>
     (\<exists>ts d1. insert_row tax_result_clash (newResult e t v) (tax_results (taxes d)) = Inr ts \<and>
        (if issueEvent v then applyInvoiceIssueCallback e t v (set_results ts d)
         else applyRedFlushCallback e t v (set_results ts d)) = Inr (w, d1) \<and>
        d' = set_results (update_rows (\<lambda>r. tr_id r = e_ids e 0) (\<lambda>r. r\<lparr>tr_status := w\<rparr>) (tax_results (taxes d1))) d1))"
  using ok unfolding ApplyTaxCallback_def Let_def v [symmetric] t [symmetric]
  by (auto simp: andThen_eq_Inr query_row_Inr split: sum.splits if_splits dest!: find_SomeD)

lemma ApplyTaxCallback_settle:
  assumes inv: "settle_inv d" and ok: "ApplyTaxCallback e trusted v d = Inr (w, d')"
  shows "settle_inv d'"
proof -
  have r: "settle_inv (set_results ts d)" for ts by (rule settle_books [OF inv]) simp
  from ApplyTaxCallback_Inr [OF ok refl refl] show ?thesis
    using inv applyInvoiceIssueCallback_settle [OF r] applyRedFlushCallback_settle [OF r]
    by (auto split: if_splits intro: settle_books [OF _ bookTables_writes(7)])
qed

section \<open>Runs of the whole service\<close>

text \<open>
  The commands of plans and ledger, the commands of invoicing, the settings and the results of
  the tax provider, in any order.
\<close>

datatype settle_command =
    BookCommand book_command
  | RequestInvoice string InvoiceRequestInput
  | ApproveInvoice string int
  | RejectInvoice string int string
  | ReviewSpecial string int bool string
  | ManualInvoice string ManualInvoiceInput
  | CancelInvoice string string int string
  | RecoverInvoice string string int string
  | RequestRedFlush string string InvoiceRedFlushInput
  | ReviewRedFlush string bool InvoiceRedFlushReviewInput
  | PutSettings SettlementSettings
  | TaxResult string TaxCallbackEvent

definition unitOf :: "('a \<times> db) res \<Rightarrow> (unit \<times> db) res" where
  "unitOf m = resMap (\<lambda>(_, d'). ((), d')) m"

fun settleExec :: "settle_command request \<Rightarrow> db \<Rightarrow> (unit \<times> db) res" where
  "settleExec (s, e, p, BookCommand c) d = bookExec (s, e, p, c) d"
| "settleExec (s, e, p, RequestInvoice key i) d = unitOf (CreateInvoiceRequest s e p key i d)"
| "settleExec (s, e, p, ApproveInvoice rid version) d = unitOf (ApproveInvoiceRequest s e p rid version d)"
| "settleExec (s, e, p, RejectInvoice rid version reason) d = RejectInvoiceRequest s e p rid version reason d"
| "settleExec (s, e, p, ReviewSpecial rid version approve reason) d =
     unitOf (ReviewSpecialInvoice s e p rid version approve reason d)"
| "settleExec (s, e, p, ManualInvoice rid i) d = unitOf (RegisterManualInvoice s e p rid i d)"
| "settleExec (s, e, p, CancelInvoice key rid version reason) d = CancelInvoiceRequest s e p key rid version reason d"
| "settleExec (s, e, p, RecoverInvoice key rid version reason) d = RecoverFailedInvoice s e p key rid version reason d"
| "settleExec (s, e, p, RequestRedFlush key iid i) d = unitOf (RequestInvoiceRedFlush s e p key iid i d)"
| "settleExec (s, e, p, ReviewRedFlush fid approve i) d = ReviewInvoiceRedFlush s e p fid approve i d"
| "settleExec (s, e, p, PutSettings i) d = unitOf (PutSettlementSettings s e p i d)"
| "settleExec (s, e, p, TaxResult trusted v) d = unitOf (ApplyTaxCallback e trusted v d)"

lemma unitOf_Inr [res_inv]: "unitOf m = Inr (u, d') \<longleftrightarrow> (\<exists>w. m = Inr (w, d'))"
  by (simp add: unitOf_def resMap_drop_Inr)

lemmas invoice_command_settle = CreateInvoiceRequest_settle RejectInvoiceRequest_settle ReviewSpecialInvoice_settle
  RegisterManualInvoice_settle CancelInvoiceRequest_settle ApplyTaxCallback_settle

lemmas invoice_command_books = ApproveInvoiceRequest_books RecoverFailedInvoice_books RequestInvoiceRedFlush_books
  ReviewInvoiceRedFlush_books PutSettlementSettings_books

interpretation settle: tx_commands settleExec issuesIds settle_inv
proof
  fix d c u d'
  assume inv: "settle_inv d" and wf: "issuesIds c" and ok: "settleExec c d = Inr (u, d')"
  have book: "bookExec (s, e, p, b) d = Inr ((), d') \<Longrightarrow> e_ids e 0 \<noteq> '''' \<Longrightarrow> settle_inv d'" for s e p b
    using bookExec_settle [OF inv, of "(s, e, p, b)"] by (simp add: issuesIds_def)
  from inv ok show "settle_inv d'"
    by (cases "(c, d)" rule: settleExec.cases)
       (use wf in \<open>auto simp: unitOf_Inr issuesIds_def dest: book invoice_command_settle
          invoice_command_books settle_books\<close>)
qed

end
