(* ===== verification/OutboxWorker.thy ===== *)
theory OutboxWorker
  imports TaxCallback
begin

text \<open>
  The delivery of outbox events (internal/outbox): leasing a batch, writing back what became of it,
  the gate for stale import notifications, what is sent and which receipts count, and one pass of
  the worker over its destinations. The commercial licence, the token endpoint and the receiving
  service are parameters.
\<close>

section \<open>Events and their store\<close>

datatype delivery_error =
    ErrLeaseLost | ErrLicensePaused | ErrAuditDestinationRequired | HttpStatusError int | DeliveryText string

definition errorText :: "delivery_error \<Rightarrow> string" where
  "errorText x = (case x of ErrLeaseLost \<Rightarrow> ''outbox lease lost''
     | ErrLicensePaused \<Rightarrow> ''commercial license paused business delivery''
     | ErrAuditDestinationRequired \<Rightarrow> ''audit destination is required but its machine credentials are incomplete''
     | HttpStatusError n \<Rightarrow> ''HTTP '' @ (if n < 0 then ''-'' @ showNat (nat (- n)) else showNat (nat n))
     | DeliveryText s \<Rightarrow> s)"

record Event =
  oe_id :: string
  oe_tenant :: string
  oe_event :: string
  oe_destination :: string
  oe_type :: string
  oe_aggregate_type :: string
  oe_aggregate :: string
  oe_payload :: payload
  oe_attempt :: int
  oe_created :: int

text \<open>The worker's name and the length of its lease in milliseconds.\<close>

record OutboxStore =
  WorkerID :: string
  Lease :: int

definition eventOf :: "outbox_event \<Rightarrow> Event" where
  "eventOf x = \<lparr>oe_id = ob_id x, oe_tenant = ob_tenant x, oe_event = ob_event x, oe_destination = ob_destination x,
     oe_type = ob_type x, oe_aggregate_type = ob_aggregate_type x, oe_aggregate = ob_aggregate x,
     oe_payload = ob_payload x, oe_attempt = ob_attempts x, oe_created = ob_created_at x\<rparr>"

text \<open>A comparison with a missing lock time is not true.\<close>

definition lockExpired :: "int \<Rightarrow> outbox_event \<Rightarrow> bool" where
  "lockExpired now x = (case ob_locked_until x of None \<Rightarrow> False | Some u \<Rightarrow> u < now)"

definition acquirable :: "int \<Rightarrow> string \<Rightarrow> outbox_event \<Rightarrow> bool" where
  "acquirable now destination x \<longleftrightarrow> ob_destination x = destination \<and>
     (((ob_status x = OB_PENDING \<or> ob_status x = OB_RETRY_WAIT) \<and> ob_available_at x \<le> now) \<or>
      (ob_status x = OB_PROCESSING \<and> lockExpired now x))"

definition olderEvent :: "outbox_event \<Rightarrow> outbox_event \<Rightarrow> bool" where
  "olderEvent a b \<longleftrightarrow> ob_created_at a < ob_created_at b \<or>
     (ob_created_at a = ob_created_at b \<and> strLess (ob_id a) (ob_id b))"

definition updateEvents :: "(outbox_event \<Rightarrow> bool) \<Rightarrow> (outbox_event \<Rightarrow> outbox_event) \<Rightarrow> db \<Rightarrow> db" where
  "updateEvents P f d = d\<lparr>outbox_events := update_rows P f (outbox_events d)\<rparr>"

definition lockable :: "int \<Rightarrow> string \<Rightarrow> outbox_event \<Rightarrow> bool" where
  "lockable now eid x \<longleftrightarrow> ob_id x = eid \<and> (ob_locked_by x = None \<or> lockExpired now x)"

fun lockEvents :: "OutboxStore \<Rightarrow> int \<Rightarrow> Event list \<Rightarrow> db \<Rightarrow> delivery_error + db" where
  "lockEvents st now [] d = Inr d"
| "lockEvents st now (e # es) d =
     (if affected (lockable now (oe_id e)) (outbox_events d) \<noteq> 1 then Inl ErrLeaseLost
      else lockEvents st now es (updateEvents (lockable now (oe_id e))
        (\<lambda>x. x\<lparr>ob_status := OB_PROCESSING, ob_locked_by := Some (WorkerID st),
              ob_locked_until := Some (now + Lease st)\<rparr>) d))"

definition batchOf :: "int \<Rightarrow> string \<Rightarrow> nat \<Rightarrow> db \<Rightarrow> Event list" where
  "batchOf now destination limit d =
     map eventOf (take limit (orderBy olderEvent (filter (acquirable now destination) (outbox_events d))))"

definition Acquire ::
  "OutboxStore \<Rightarrow> int \<Rightarrow> string \<Rightarrow> nat \<Rightarrow> db \<Rightarrow> delivery_error + (Event list \<times> db)" where
  "Acquire st now destination limit d =
     andThen (lockEvents st now (batchOf now destination limit d) d) (\<lambda>d1.
     Inr (batchOf now destination limit d, d1))"

text \<open>The rows a worker may still write: it holds their lease.\<close>

definition held :: "OutboxStore \<Rightarrow> string \<Rightarrow> outbox_event \<Rightarrow> bool" where
  "held st eid x \<longleftrightarrow> ob_id x = eid \<and> ob_status x = OB_PROCESSING \<and> ob_locked_by x = Some (WorkerID st)"

definition countPending :: "db \<Rightarrow> string \<Rightarrow> int" where
  "countPending d destination = int (affected (\<lambda>x. ob_destination x = destination \<and>
     (ob_status x = OB_PENDING \<or> ob_status x = OB_RETRY_WAIT \<or> ob_status x = OB_PROCESSING)) (outbox_events d))"

definition PendingByDestination :: "db \<Rightarrow> (string \<times> int) list" where
  "PendingByDestination d =
     filter (\<lambda>x. 0 < snd x) (map (\<lambda>n. (n, countPending d n)) (remdups (map ob_destination (outbox_events d))))"

section \<open>What became of a batch\<close>

text \<open>A field of a JSON object that is decoded into a Go string.\<close>

definition stringField :: "payload \<Rightarrow> string \<Rightarrow> string option" where
  "stringField m k = (case jget m k of None \<Rightarrow> Some '''' | Some JNull \<Rightarrow> Some '''' | Some (JStr s) \<Rightarrow> Some s | _ \<Rightarrow> None)"

definition acceptIssue :: "int \<Rightarrow> string \<Rightarrow> string \<Rightarrow> db \<Rightarrow> db" where
  "acceptIssue now tenant aid d =
     updateAttempt tenant aid (\<lambda>a. at_status a = AT_PENDING)
       (\<lambda>a. a\<lparr>at_status := AT_ACCEPTED, at_accepted_at := coalesce (at_accepted_at a) (Some now),
             at_next_reconcile := Some (now + 60000)\<rparr>) d"

definition acceptRedFlush :: "int \<Rightarrow> string \<Rightarrow> string \<Rightarrow> db \<Rightarrow> db" where
  "acceptRedFlush now tenant aid d =
     set_red_attempts (update_rows (\<lambda>a. ra_id a = aid \<and> ra_tenant a = tenant \<and> ra_status a = AT_PENDING)
       (\<lambda>a. a\<lparr>ra_status := AT_ACCEPTED, ra_accepted_at := coalesce (ra_accepted_at a) (Some now),
             ra_next_reconcile := Some (now + 60000)\<rparr>) (red_flush_attempts (taxes d))) d"

text \<open>One event and its transaction.\<close>

definition deliveredOne :: "OutboxStore \<Rightarrow> int \<Rightarrow> Event \<Rightarrow> db \<Rightarrow> delivery_error + db" where
  "deliveredOne st now e d =
     (if affected (held st (oe_id e)) (outbox_events d) \<noteq> 1 then Inl ErrLeaseLost
      else let d1 = updateEvents (held st (oe_id e))
             (\<lambda>x. x\<lparr>ob_status := OB_DELIVERED, ob_delivered_at := Some now, ob_locked_by := None,
                   ob_locked_until := None, ob_error_code := '''', ob_error_summary := ''''\<rparr>) d
      in if oe_destination e \<noteq> ''TAX_INVOICE_COMMAND'' then Inr d1
         else case (stringField (oe_payload e) ''attempt_id'', stringField (oe_payload e) ''red_flush_attempt_id'') of
           (Some issue, Some red) \<Rightarrow>
             if issue \<noteq> '''' then Inr (acceptIssue now (oe_tenant e) issue d1)
             else if red \<noteq> '''' then Inr (acceptRedFlush now (oe_tenant e) red d1)
             else Inl (DeliveryText ''tax command is missing attempt id'')
         | _ \<Rightarrow> Inl (DeliveryText ''invalid tax command payload''))"

text \<open>The loop: an error keeps what the events before it committed.\<close>

fun Delivered :: "OutboxStore \<Rightarrow> int \<Rightarrow> Event list \<Rightarrow> db \<Rightarrow> delivery_error option \<times> db" where
  "Delivered st now [] d = (None, d)"
| "Delivered st now (e # es) d =
     (case deliveredOne st now e d of Inl err \<Rightarrow> (Some err, d) | Inr d1 \<Rightarrow> Delivered st now es d1)"

definition minutes :: "int \<Rightarrow> int" where
  "minutes n = n * 60000"

definition backoffValues :: "int list" where
  "backoffValues = [minutes 1, minutes 5, minutes 15, minutes 60, minutes 180, minutes 360]"

definition backoff :: "int \<Rightarrow> int" where
  "backoff attempt =
     (if attempt < 1 then backoffValues ! 0
      else if attempt > int (length backoffValues) then backoffValues ! (length backoffValues - 1)
      else backoffValues ! (nat (attempt - 1)))"

definition safeText :: "string \<Rightarrow> nat \<Rightarrow> string" where
  "safeText value limit = take limit (map (\<lambda>c. if byte c = 10 \<or> byte c = 13 then CHR '' '' else c) value)"

definition failedOne ::
  "OutboxStore \<Rightarrow> int \<Rightarrow> string \<Rightarrow> string \<Rightarrow> bool \<Rightarrow> Event \<Rightarrow> db \<Rightarrow> delivery_error + db" where
  "failedOne st now code summary permanent e d =
     (let attempt = oe_attempt e + 1; dead = (permanent \<or> attempt \<ge> 7) in
      if affected (held st (oe_id e)) (outbox_events d) \<noteq> 1 then Inl ErrLeaseLost
      else Inr (updateEvents (held st (oe_id e))
        (\<lambda>x. x\<lparr>ob_status := (if dead then OB_DEAD_LETTER else OB_RETRY_WAIT), ob_attempts := attempt,
              ob_available_at := (if dead then now else now + backoff attempt), ob_locked_by := None,
              ob_locked_until := None, ob_error_code := safeText code 128, ob_error_summary := safeText summary 500,
              ob_dead_at := (if dead then Some now else None)\<rparr>) d))"

fun Failed ::
  "OutboxStore \<Rightarrow> int \<Rightarrow> Event list \<Rightarrow> string \<Rightarrow> string \<Rightarrow> bool \<Rightarrow> db \<Rightarrow> delivery_error option \<times> db" where
  "Failed st now [] code summary permanent d = (None, d)"
| "Failed st now (e # es) code summary permanent d =
     (case failedOne st now code summary permanent e d of
        Inl err \<Rightarrow> (Some err, d) | Inr d1 \<Rightarrow> Failed st now es code summary permanent d1)"

section \<open>The gate for stale import notifications\<close>

text \<open>The state and the release version behind a reminder, from the row it refers to.\<close>

definition releaseOf :: "db \<Rightarrow> string \<Rightarrow> string \<Rightarrow> (migration_state \<times> nat) option" where
  "releaseOf d tenant sn =
     (case find (\<lambda>cs. cs_id cs = sn \<and> cs_tenant cs = tenant) (snapshots d) of None \<Rightarrow> None
      | Some cs \<Rightarrow> Some (cs_migration cs,
          (case find (\<lambda>ci. ci_snapshot ci = cs_id cs \<and> ci_tenant ci = cs_tenant cs) (contract_imports d) of
             None \<Rightarrow> 0 | Some ci \<Rightarrow> ci_release ci)))"

definition referenceState :: "db \<Rightarrow> string \<Rightarrow> bool \<Rightarrow> string \<Rightarrow> (migration_state \<times> nat) option" where
  "referenceState d tenant plan ref =
     (if plan
      then (case find (\<lambda>r. rp_tenant r = tenant \<and> rp_id r = ref) (plans d) of None \<Rightarrow> None
            | Some r \<Rightarrow> releaseOf d (rp_tenant r) (rp_snapshot r))
      else (case find (\<lambda>r. rv_tenant r = tenant \<and> rv_id r = ref) (receivables d) of None \<Rightarrow> None
            | Some r \<Rightarrow> releaseOf d (rv_tenant r) (rv_snapshot r)))"

definition versionField :: "payload \<Rightarrow> nat option" where
  "versionField m = (case jget m ''import_release_version'' of None \<Rightarrow> Some 0 | Some JNull \<Rightarrow> Some 0
     | Some (JInt n) \<Rightarrow> if 0 \<le> n \<and> n < 2 ^ 64 then Some (nat n) else None | _ \<Rightarrow> None)"

definition gated :: "Event \<Rightarrow> bool" where
  "gated e \<longleftrightarrow> oe_destination e = ''PLATFORM_NOTIFICATION'' \<and>
     (oe_type e = ''SETTLEMENT_OWNER_REMINDER'' \<or> oe_type e = ''SETTLEMENT_RECEIVABLE_OVERDUE'')"

text \<open>Whether a reminder may still be sent.\<close>

definition stillReleased :: "db \<Rightarrow> Event \<Rightarrow> delivery_error + bool" where
  "stillReleased d e =
     (case (stringField (oe_payload e) ''reference_type'', stringField (oe_payload e) ''reference_id'', versionField (oe_payload e)) of
        (Some kind, Some ref, Some version) \<Rightarrow>
          if kind \<noteq> ''RECEIVABLE_PLAN'' \<and> kind \<noteq> ''RECEIVABLE'' then Inl (DeliveryText ''invalid dunning notification reference'')
          else (case referenceState d (oe_tenant e) (kind = ''RECEIVABLE_PLAN'') ref of
                  None \<Rightarrow> Inl (DeliveryText ''sql: no rows in result set'')
                | Some (state, release) \<Rightarrow> Inr (state = RELEASED \<and> release = version))
      | _ \<Rightarrow> Inl (DeliveryText ''json: cannot unmarshal''))"

definition staleSummary :: string where
  "staleSummary =
    [CHR 0xE5, CHR 0x8E, CHR 0x86, CHR 0xE5, CHR 0x8F, CHR 0xB2, CHR 0xE6, CHR 0x9A, CHR 0x82, CHR 0xE5,
     CHR 0xAD, CHR 0x98, CHR 0xE6, CHR 0x88, CHR 0x96, CHR 0xE6, CHR 0x94, CHR 0xBE, CHR 0xE8, CHR 0xA1,
     CHR 0x8C, CHR 0xE7, CHR 0x89, CHR 0x88, CHR 0xE6, CHR 0x9C, CHR 0xAC, CHR 0xE5, CHR 0x8F, CHR 0x98,
     CHR 0xE5, CHR 0x8C, CHR 0x96, CHR 0xEF, CHR 0xBC, CHR 0x8C, CHR 0xE6, CHR 0x97, CHR 0xA7, CHR 0xE5,
     CHR 0x8A, CHR 0xA8, CHR 0xE4, CHR 0xBD, CHR 0x9C, CHR 0xE7, CHR 0xA6, CHR 0x81, CHR 0xE6, CHR 0xAD,
     CHR 0xA2, CHR 0xE5, CHR 0x8F, CHR 0x91, CHR 0xE9, CHR 0x80, CHR 0x81]"

definition cancelStale :: "OutboxStore \<Rightarrow> Event \<Rightarrow> db \<Rightarrow> db" where
  "cancelStale st e d =
     updateEvents (held st (oe_id e))
       (\<lambda>x. x\<lparr>ob_status := OB_CANCELLED, ob_error_code := ''IMPORT_HOLD_OR_STALE_RELEASE'',
             ob_error_summary := staleSummary, ob_locked_by := None, ob_locked_until := None\<rparr>) d"

text \<open>The statements run outside a transaction, so an error keeps the earlier cancellations.\<close>

fun filterImportNotifications ::
  "OutboxStore \<Rightarrow> Event list \<Rightarrow> db \<Rightarrow> (delivery_error + Event list) \<times> db" where
  "filterImportNotifications st [] d = (Inr [], d)"
| "filterImportNotifications st (e # es) d =
     (if \<not> gated e
      then (case filterImportNotifications st es d of (r, d1) \<Rightarrow> (andThen r (\<lambda>l. Inr (e # l)), d1))
      else case stillReleased d e of
        Inl err \<Rightarrow> (Inl err, d)
      | Inr True \<Rightarrow> (case filterImportNotifications st es d of (r, d1) \<Rightarrow> (andThen r (\<lambda>l. Inr (e # l)), d1))
      | Inr False \<Rightarrow> filterImportNotifications st es (cancelStale st e d))"

section \<open>Destinations\<close>

record Destination =
  ds_name :: string
  ds_endpoint :: string
  ds_scope :: string
  ds_client :: string
  ds_secret :: string
  ds_token_endpoint :: string
  ds_application :: string
  ds_environment :: string

record PlatformDestinationInput =
  PlatformBaseURL :: string
  EnvironmentCode :: string
  ApplicationCode :: string
  NotificationClientID :: string
  NotificationClientSecret :: string
  AuditClientID :: string
  AuditClientSecret :: string
  AuditRequired :: bool

text \<open>What is assembled, what is left out for want of credentials and why, and the warnings of the start.\<close>

record PlatformDestinationPlan =
  plan_destinations :: "Destination list"
  plan_degraded :: "(string \<times> string) list"
  plan_warnings :: "string list"

definition trimSlashes :: "string \<Rightarrow> string" where
  "trimSlashes s = rev (dropWhile (\<lambda>c. c = CHR ''/'') (rev s))"

definition codeOr :: "string \<Rightarrow> string \<Rightarrow> string" where
  "codeOr value fallback = (if trimSpace value = '''' then fallback else trimSpace value)"

definition platformDestination ::
  "PlatformDestinationInput \<Rightarrow> string \<Rightarrow> string \<Rightarrow> string \<Rightarrow> string \<Rightarrow> string \<Rightarrow> Destination" where
  "platformDestination i name path scope client secret =
     \<lparr>ds_name = name, ds_endpoint = trimSlashes (trimSpace (PlatformBaseURL i)) @ path, ds_scope = scope,
      ds_client = trimSpace client, ds_secret = secret, ds_token_endpoint = '''',
      ds_application = codeOr (ApplicationCode i) ''settlement'', ds_environment = codeOr (EnvironmentCode i) ''dev''\<rparr>"

definition hasCredentials :: "string \<Rightarrow> string \<Rightarrow> bool" where
  "hasCredentials client secret \<longleftrightarrow> trimSpace client \<noteq> '''' \<and> trimSpace secret \<noteq> ''''"

definition notificationGap :: "string \<times> string" where
  "notificationGap = (''PLATFORM_NOTIFICATION'',
     ''SETTLEMENT_NOTIFICATION_CLIENT_ID/SETTLEMENT_NOTIFICATION_CLIENT_SECRET are incomplete; '' @
     ''notification outbox events remain pending locally'')"

definition notificationWarning :: string where
  "notificationWarning = ''settlement notification destination is not configured; local outbox events for '' @
     ''PLATFORM_NOTIFICATION will accumulate until credentials are provided''"

definition auditGap :: "string \<times> string" where
  "auditGap = (''PLATFORM_AUDIT'',
     ''SETTLEMENT_AUDIT_CLIENT_ID/SETTLEMENT_AUDIT_CLIENT_SECRET are incomplete while audit is not required; '' @
     ''audit outbox events remain pending locally'')"

definition auditWarning :: string where
  "auditWarning = ''settlement audit destination is not configured and audit is not required; local outbox events for '' @
     ''PLATFORM_AUDIT will accumulate until credentials are provided''"

definition PlanPlatformDestinations ::
  "PlatformDestinationInput \<Rightarrow> PlatformDestinationPlan \<times> delivery_error option" where
  "PlanPlatformDestinations i =
     (let notification = hasCredentials (NotificationClientID i) (NotificationClientSecret i);
          p = (if notification
               then \<lparr>plan_destinations = [platformDestination i ''PLATFORM_NOTIFICATION'' ''/api/v1/notifications/events/batch''
                       ''notification.ingest'' (NotificationClientID i) (NotificationClientSecret i)],
                     plan_degraded = [], plan_warnings = []\<rparr>
               else \<lparr>plan_destinations = [], plan_degraded = [notificationGap], plan_warnings = [notificationWarning]\<rparr>)
      in if hasCredentials (AuditClientID i) (AuditClientSecret i)
         then (p\<lparr>plan_destinations := plan_destinations p @ [platformDestination i ''PLATFORM_AUDIT'' ''/api/v1/audit/events/batch''
                  ''audit.ingest'' (AuditClientID i) (AuditClientSecret i)]\<rparr>, None)
         else if AuditRequired i then (p, Some ErrAuditDestinationRequired)
         else (p\<lparr>plan_degraded := plan_degraded p @ [auditGap], plan_warnings := plan_warnings p @ [auditWarning]\<rparr>, None))"

definition UnconfiguredPending :: "(string \<times> int) list \<Rightarrow> Destination list \<Rightarrow> (string \<times> int) list" where
  "UnconfiguredPending pending destinations =
     filter (\<lambda>x. 0 < snd x \<and> fst x \<notin> set (map ds_name destinations)) pending"

section \<open>What is sent and which receipts count\<close>

definition toLower :: "string \<Rightarrow> string" where
  "toLower s = map lowerByte s"

definition putIfNotEmpty :: "string \<Rightarrow> string \<Rightarrow> payload \<Rightarrow> payload" where
  "putIfNotEmpty k v m = (if v \<noteq> '''' then jset k (JStr v) m else m)"

definition auditPayload :: "Destination \<Rightarrow> Event \<Rightarrow> payload" where
  "auditPayload dst e =
     (let detail = oe_payload e; rid = JStr (toLower (oe_event e)) in
      putIfNotEmpty ''ip_source'' (stringOr detail ''ip_source'' '''')
      (putIfNotEmpty ''client_ip'' (stringOr detail ''client_ip'' '''')
      (putIfNotEmpty ''login_ip'' (stringOr detail ''login_ip'' '''')
      [(''event_id'', JStr (oe_event e)), (''application_code'', JStr (ds_application dst)),
       (''environment_code'', JStr (ds_environment dst)), (''actor_type'', JStr ''USER''),
       (''actor_id'', JStr (stringOr detail ''actor_id'' '''')), (''occurred_at'', JInt (oe_created e)),
       (''action'', JStr (oe_type e)), (''resource_type'', JStr (oe_aggregate_type e)),
       (''resource_id'', JStr (oe_aggregate e)), (''request_id'', rid), (''trace_id'', rid), (''correlation_id'', rid),
       (''result'', JStr (stringOr detail ''result'' ''SUCCESS'')),
       (''reason_code'', JStr (stringOr detail ''reason_code'' '''')),
       (''risk_level'', JStr (stringOr detail ''risk_level'' ''MEDIUM'')), (''classification'', JStr ''INTERNAL''),
       (''summary'', JStr (oe_type e)), (''metadata'', JObj detail)])))"

definition commandPayload :: "Event \<Rightarrow> payload" where
  "commandPayload e =
     (let m = jset ''occurred_at'' (JInt (oe_created e)) (jset ''tenant_id'' (JStr (oe_tenant e))
                (jset ''event_type'' (JStr (oe_type e)) (jset ''event_id'' (JStr (oe_event e)) (oe_payload e))))
      in if jget m ''schema_version'' = None then jset ''schema_version'' (JInt 1) m else m)"

definition payloadFor :: "Destination \<Rightarrow> Event \<Rightarrow> payload" where
  "payloadFor dst e =
     (if ds_name dst = ''TAX_INVOICE_COMMAND'' then commandPayload e
      else if ds_name dst \<noteq> ''PLATFORM_AUDIT'' then oe_payload e
      else auditPayload dst e)"

text \<open>A receipt: event, status and the duplicate mark; None where it cannot be decoded.\<close>

definition boolField :: "payload \<Rightarrow> string \<Rightarrow> bool option" where
  "boolField m k = (case jget m k of None \<Rightarrow> Some False | Some JNull \<Rightarrow> Some False | Some (JBool b) \<Rightarrow> Some b | _ \<Rightarrow> None)"

definition receiptOf :: "json \<Rightarrow> (string \<times> string \<times> bool) option" where
  "receiptOf j =
     (case j of JObj m \<Rightarrow>
        (case (stringField m ''event_id'', stringField m ''status'', boolField m ''duplicate'') of
           (Some eid, Some status, Some dup) \<Rightarrow> if eid = '''' then None else Some (eid, status, dup)
         | _ \<Rightarrow> None)
      | _ \<Rightarrow> None)"

definition terminalReceipt :: "string \<Rightarrow> bool \<Rightarrow> bool" where
  "terminalReceipt status dup \<longleftrightarrow>
     toUpper status = ''ACCEPTED'' \<or> toUpper status = ''DUPLICATE'' \<or> toUpper status = ''PROCESSED'' \<or> dup"

fun acceptedIds :: "json list \<Rightarrow> delivery_error + string list" where
  "acceptedIds [] = Inr []"
| "acceptedIds (j # js) =
     (case receiptOf j of
        None \<Rightarrow> Inl (DeliveryText ''malformed delivery receipt'')
      | Some (eid, status, dup) \<Rightarrow>
          if \<not> terminalReceipt status dup then Inl (DeliveryText ''delivery receipt is not terminal success'')
          else andThen (acceptedIds js) (\<lambda>seen. Inr (eid # seen)))"

definition arrayOf :: "json \<Rightarrow> json list option" where
  "arrayOf j = (case j of JArr xs \<Rightarrow> Some xs | JNull \<Rightarrow> Some [] | _ \<Rightarrow> None)"

definition receiptsIn :: "string \<Rightarrow> json option \<Rightarrow> json list option" where
  "receiptsIn destination body =
     (case body of None \<Rightarrow> None
      | Some j \<Rightarrow>
          if destination = ''PLATFORM_NOTIFICATION''
          then (case j of JNull \<Rightarrow> Some []
                | JObj m \<Rightarrow> (case jget m ''receipts'' of None \<Rightarrow> Some [] | Some x \<Rightarrow> arrayOf x)
                | _ \<Rightarrow> None)
          else arrayOf j)"

definition validateReceipts :: "json option \<Rightarrow> string \<Rightarrow> Event list \<Rightarrow> delivery_error option" where
  "validateReceipts body destination events =
     (case body of Some (JObj m) \<Rightarrow>
        if stringField m ''code'' \<noteq> Some ''OK'' then Some (DeliveryText ''invalid delivery receipt envelope'')
        else (case receiptsIn destination (jget m ''data'') of
                None \<Rightarrow> Some (DeliveryText (if destination = ''PLATFORM_NOTIFICATION'' then ''invalid notification receipts''
                  else ''invalid delivery receipts''))
              | Some raw \<Rightarrow>
                 (case acceptedIds raw of Inl err \<Rightarrow> Some err
                  | Inr seen \<Rightarrow> if list_all (\<lambda>e. oe_event e \<in> set seen) events then None
                               else Some (DeliveryText ''delivery receipt is incomplete'')))
      | _ \<Rightarrow> Some (DeliveryText ''invalid delivery receipt envelope''))"

section \<open>One pass of the worker\<close>

text \<open>\<open>strings.Fields\<close>.\<close>

function splitFields :: "string \<Rightarrow> string \<Rightarrow> string list" where
  "splitFields acc s =
     (if s = [] then (if acc = [] then [] else [acc])
      else if spaceLen wideSpaces s = 0 then splitFields (acc @ [hd s]) (tl s)
      else (if acc = [] then [] else [acc]) @ splitFields [] (drop (spaceLen wideSpaces s) s))"
  by pat_completeness auto
termination
  by (relation "measure (\<lambda>(_, s). length s)") auto

declare splitFields.simps [simp del]

definition containsScope :: "string \<Rightarrow> string \<Rightarrow> bool" where
  "containsScope raw expected \<longleftrightarrow> expected \<in> set (splitFields [] raw)"

text \<open>
  What the outside does during a pass: the clock, whether the stop signal has arrived when the
  \<open>i\<close>-th destination is reached, the answers of the licence check for that destination,
  and the replies of the token endpoint and of the receiving service. A reply carries its status
  and, where the body is JSON, the decoded body.
\<close>

datatype http_reply = TransportFailed string | Reply int "json option"

record delivery_env =
  de_now :: int
  de_stop :: "nat \<Rightarrow> bool"
  de_license :: "nat \<Rightarrow> nat \<Rightarrow> bool"
  de_token :: "Destination \<Rightarrow> http_reply"
  de_http :: "Destination \<Rightarrow> payload list \<Rightarrow> http_reply"

type_synonym tokens = "(string \<times> string \<times> int) list"

definition intField :: "payload \<Rightarrow> string \<Rightarrow> int option" where
  "intField m k = (case jget m k of None \<Rightarrow> Some 0 | Some JNull \<Rightarrow> Some 0 | Some (JInt n) \<Rightarrow> Some n | _ \<Rightarrow> None)"

text \<open>The token of a reply and when it expires.\<close>

definition tokenIn :: "int \<Rightarrow> Destination \<Rightarrow> http_reply \<Rightarrow> delivery_error + (string \<times> int)" where
  "tokenIn now dst reply =
     (case reply of TransportFailed s \<Rightarrow> Inl (DeliveryText s)
      | Reply n body \<Rightarrow>
          if n \<noteq> 200 then Inl (HttpStatusError n)
          else (case body of
              Some (JObj m) \<Rightarrow>
                (case (stringField m ''access_token'', stringField m ''token_type'', intField m ''expires_in'', stringField m ''scope'') of
                   (Some value, Some kind, Some expires, Some scope) \<Rightarrow>
                     if value = '''' \<or> \<not> equalFold kind ''Bearer'' \<or> expires \<le> 0 \<or> \<not> containsScope scope (ds_scope dst)
                     then Inl (DeliveryText ''invalid OAuth token response'')
                     else Inr (value, now + expires * 1000)
                 | _ \<Rightarrow> Inl (DeliveryText ''json: cannot unmarshal''))
            | Some JNull \<Rightarrow> Inl (DeliveryText ''invalid OAuth token response'')
            | _ \<Rightarrow> Inl (DeliveryText ''json: cannot unmarshal'')))"

definition accessToken :: "delivery_env \<Rightarrow> Destination \<Rightarrow> tokens \<Rightarrow> (delivery_error + string) \<times> tokens" where
  "accessToken w dst tk =
     (case map_of tk (ds_name dst) of
        Some (value, expires) \<Rightarrow>
          if value \<noteq> '''' \<and> expires - de_now w > 30000 then (Inr value, tk)
          else (case tokenIn (de_now w) dst (de_token w dst) of Inl err \<Rightarrow> (Inl err, tk)
                | Inr (v, x) \<Rightarrow> (Inr v, (ds_name dst, v, x) # tk))
      | None \<Rightarrow> (case tokenIn (de_now w) dst (de_token w dst) of Inl err \<Rightarrow> (Inl err, tk)
                | Inr (v, x) \<Rightarrow> (Inr v, (ds_name dst, v, x) # tk)))"

text \<open>Audit and notification are not stopped by the licence.\<close>

definition business :: "Destination \<Rightarrow> bool" where
  "business dst \<longleftrightarrow> ds_name dst \<noteq> ''PLATFORM_AUDIT'' \<and> ds_name dst \<noteq> ''PLATFORM_NOTIFICATION''"

definition deliver ::
  "delivery_env \<Rightarrow> nat \<Rightarrow> Destination \<Rightarrow> Event list \<Rightarrow> tokens \<Rightarrow> delivery_error option \<times> tokens" where
  "deliver w i dst events tk =
     (if business dst \<and> \<not> de_license w i 1 then (Some ErrLicensePaused, tk)
      else case accessToken w dst tk of
        (Inl err, tk1) \<Rightarrow> (Some err, tk1)
      | (Inr token, tk1) \<Rightarrow>
          if business dst \<and> \<not> de_license w i 2 then (Some ErrLicensePaused, tk1)
          else (case de_http w dst (map (payloadFor dst) events) of
                  TransportFailed s \<Rightarrow> (Some (DeliveryText s), tk1)
                | Reply n body \<Rightarrow>
                    if n < 200 \<or> n \<ge> 300 then (Some (HttpStatusError n), tk1)
                    else (validateReceipts body (ds_name dst) events, tk1)))"

definition permanentFailure :: "delivery_error \<Rightarrow> bool" where
  "permanentFailure err \<longleftrightarrow> err = HttpStatusError 400 \<or> err = HttpStatusError 413 \<or> err = HttpStatusError 422"

definition deliverBatch ::
  "delivery_env \<Rightarrow> OutboxStore \<Rightarrow> nat \<Rightarrow> Destination \<Rightarrow> Event list \<Rightarrow> tokens \<Rightarrow> db \<Rightarrow> delivery_error option \<times> tokens \<times> db" where
  "deliverBatch w st i dst events tk d =
     (case filterImportNotifications st events d of
        (Inl err, d1) \<Rightarrow> (Some err, tk, d1)
      | (Inr [], d1) \<Rightarrow> (None, tk, d1)
      | (Inr filtered, d1) \<Rightarrow>
          (case deliver w i dst filtered tk of
             (None, tk1) \<Rightarrow> (case Delivered st (de_now w) filtered d1 of (r, d2) \<Rightarrow> (r, tk1, d2))
           | (Some err, tk1) \<Rightarrow>
               if err = ErrLicensePaused then (None, tk1, d1)
               else (None, tk1, snd (Failed st (de_now w) filtered ''DELIVERY_FAILED'' (errorText err) (permanentFailure err) d1))))"

definition batchSize :: "int \<Rightarrow> nat" where
  "batchSize n = (if n < 1 \<or> n > 100 then 50 else nat n)"

fun runFrom ::
  "delivery_env \<Rightarrow> OutboxStore \<Rightarrow> nat \<Rightarrow> nat \<Rightarrow> Destination list \<Rightarrow> tokens \<Rightarrow> db \<Rightarrow> delivery_error option \<times> tokens \<times> db" where
  "runFrom w st limit i [] tk d = (None, tk, d)"
| "runFrom w st limit i (dst # rest) tk d =
     (if de_stop w i then (None, tk, d)
      else if business dst \<and> \<not> de_license w i 0 then runFrom w st limit (Suc i) rest tk d
      else case Acquire st (de_now w) (ds_name dst) limit d of
        Inl err \<Rightarrow> (Some err, tk, d)
      | Inr ([], d1) \<Rightarrow> runFrom w st limit (Suc i) rest tk d1
      | Inr (events, d1) \<Rightarrow>
          (case deliverBatch w st i dst events tk d1 of
             (Some err, tk1, d2) \<Rightarrow> (Some err, tk1, d2)
           | (None, tk1, d2) \<Rightarrow> runFrom w st limit (Suc i) rest tk1 d2))"

definition RunOnce ::
  "delivery_env \<Rightarrow> OutboxStore \<Rightarrow> int \<Rightarrow> Destination list \<Rightarrow> tokens \<Rightarrow> db \<Rightarrow> delivery_error option \<times> tokens \<times> db" where
  "RunOnce w st n destinations tk d = runFrom w st (batchSize n) 0 destinations tk d"

end
