(* ===== verification/TaxDeadLetter.thy ===== *)
theory TaxDeadLetter
  imports OutboxWorker
begin

text \<open>
  Bringing dead letters back: the administrator's retry of any outbox event (outbox_action.go) and
  the guarded retry of a tax command (tax_deadletter.go).
\<close>

section \<open>The administrator's retry\<close>

definition event_is :: "string \<Rightarrow> string \<Rightarrow> outbox_event \<Rightarrow> bool" where
  "event_is tenant eid x \<longleftrightarrow> ob_tenant x = tenant \<and> ob_id x = eid"

text \<open>The row is back where a new event starts.\<close>

definition requeued :: "int \<Rightarrow> outbox_event \<Rightarrow> outbox_event" where
  "requeued now x = x\<lparr>ob_status := OB_PENDING, ob_attempts := 0, ob_available_at := now, ob_locked_by := None,
     ob_locked_until := None, ob_error_code := '''', ob_error_summary := '''', ob_dead_at := None\<rparr>"

definition RetryOutboxEvent :: "env \<Rightarrow> Principal \<Rightarrow> string \<Rightarrow> db \<Rightarrow> (unit \<times> db) res" where
  "RetryOutboxEvent e p eid d =
     (if \<not> Allows p ''settlement.admin'' \<or> trimSpace eid = '''' then Inl ErrForbidden
      else andThen (query_row ErrNotFound (event_is (p_tenant p) eid) (outbox_events d)) (\<lambda>x.
      if ob_status x \<noteq> OB_DEAD_LETTER then Inl ErrConflict
      else andThen (outbox e 0 (p_tenant p) ''PLATFORM_AUDIT'' ''SETTLEMENT_OUTBOX_MANUAL_RETRY'' ''outbox_event'' eid
         [(''actor_id'', JStr (p_user p)), (''result'', JStr ''SUCCESS''), (''risk_level'', JStr ''MEDIUM'')]
         (updateEvents (\<lambda>y. event_is (p_tenant p) eid y \<and> ob_status y = OB_DEAD_LETTER) (requeued (e_now e)) d)) (\<lambda>d1.
      Inr ((), d1))))"

section \<open>The guarded retry of a tax command\<close>

datatype tax_command = IssueCommand | RedFlushCommand

definition taxCommandOperation :: "string \<Rightarrow> tax_command option" where
  "taxCommandOperation eventType =
     (if trimSpace eventType = ''SETTLEMENT_INVOICE_ISSUE_REQUESTED'' then Some IssueCommand
      else if trimSpace eventType = ''SETTLEMENT_INVOICE_RED_FLUSH_REQUESTED'' then Some RedFlushCommand
      else None)"

definition showOperation :: "tax_command \<Rightarrow> string" where
  "showOperation k = (case k of IssueCommand \<Rightarrow> ''INVOICE_ISSUE'' | RedFlushCommand \<Rightarrow> ''RED_FLUSH'')"

definition requireRetryableIssueCommandTx ::
  "Service \<Rightarrow> Principal \<Rightarrow> string \<Rightarrow> string \<Rightarrow> db \<Rightarrow> db res" where
  "requireRetryableIssueCommandTx s p event attempt d =
     andThen (query_row ErrConflict (att_is (p_tenant p) attempt) (issue_attempts (taxes d))) (\<lambda>a.
     andThen (query_row ErrConflict (\<lambda>r. ir_id r = at_request a \<and> ir_tenant r = at_tenant a) (invoice_requests (taxes d))) (\<lambda>r.
     if at_status a \<noteq> AT_PENDING \<or> at_accepted_at a \<noteq> None \<or> ir_status r \<noteq> IR_ISSUE_PENDING then Inl ErrConflict
     else if commandOf a \<noteq> event then Inl ErrConflict
     else if exists_row (\<lambda>b. attemptOf (p_tenant p) (at_request a) b \<and> at_no b > at_no a) (issue_attempts (taxes d))
       then Inl ErrConflict
     else requireInvoiceRequestScopeTx s p ''settlement.invoice.issue'' (at_request a) d))"

definition redCommandOf :: "red_flush_attempt \<Rightarrow> string" where
  "redCommandOf a = (case ra_command a of None \<Rightarrow> '''' | Some c \<Rightarrow> c)"

definition requireRetryableRedFlushCommandTx ::
  "Service \<Rightarrow> Principal \<Rightarrow> string \<Rightarrow> string \<Rightarrow> db \<Rightarrow> db res" where
  "requireRetryableRedFlushCommandTx s p event attempt d =
     (case redFacts d (p_tenant p) attempt of
        Inl err \<Rightarrow> Inl ErrConflict
      | Inr (a, f, t) \<Rightarrow>
          if ra_status a \<noteq> AT_PENDING \<or> ra_accepted_at a \<noteq> None \<or> rf_status f \<noteq> RF_ISSUE_PENDING \<or> ti_status t \<noteq> ISSUED
          then Inl ErrConflict
          else if redCommandOf a \<noteq> event then Inl ErrConflict
          else if exists_row (\<lambda>b. ra_tenant b = p_tenant p \<and> ra_request b = ra_request a \<and> ra_no b > ra_no a)
                    (red_flush_attempts (taxes d)) then Inl ErrConflict
          else requireTaxInvoiceScopeTx s p ''settlement.invoice.issue'' (ra_invoice a) d)"

text \<open>The checks on the command: its kind, what it belongs to, and the attempt it names.\<close>

definition checkTaxCommand ::
  "Service \<Rightarrow> Principal \<Rightarrow> outbox_event \<Rightarrow> db \<Rightarrow> (tax_command \<times> string \<times> db) res" where
  "checkTaxCommand s p x d =
     (case (stringField (ob_payload x) ''attempt_id'', stringField (ob_payload x) ''red_flush_attempt_id'') of
        (Some issue, Some red) \<Rightarrow>
          (case taxCommandOperation (ob_type x) of
             None \<Rightarrow> Inl ErrConflict
           | Some IssueCommand \<Rightarrow>
               if ob_aggregate_type x \<noteq> ''invoice_request'' \<or> trimSpace issue = '''' then Inl ErrConflict
               else andThen (requireRetryableIssueCommandTx s p (ob_event x) issue d) (\<lambda>d1. Inr (IssueCommand, issue, d1))
           | Some RedFlushCommand \<Rightarrow>
               if ob_aggregate_type x \<noteq> ''tax_invoice'' \<or> trimSpace red = '''' then Inl ErrConflict
               else andThen (requireRetryableRedFlushCommandTx s p (ob_event x) red d) (\<lambda>d1. Inr (RedFlushCommand, red, d1)))
      | _ \<Rightarrow> Inl ErrConflict)"

definition deadCommand :: "string \<Rightarrow> string \<Rightarrow> outbox_event \<Rightarrow> bool" where
  "deadCommand tenant eid x \<longleftrightarrow> event_is tenant eid x \<and> ob_destination x = ''TAX_INVOICE_COMMAND'' \<and>
     ob_status x = OB_DEAD_LETTER"

definition RetryTaxCommandDeadLetter ::
  "Service \<Rightarrow> env \<Rightarrow> Principal \<Rightarrow> string \<Rightarrow> string \<Rightarrow> string \<Rightarrow> db \<Rightarrow> (unit \<times> db) res" where
  "RetryTaxCommandDeadLetter s e p key0 eid0 reason0 d =
     (if \<not> Allows p ''settlement.invoice.issue'' \<or> trimSpace (p_tenant p) = '''' \<or> trimSpace (p_user p) = ''''
      then Inl ErrForbidden
      else let eid = trimSpace eid0; key = trimSpace key0; reason = trimSpace reason0 in
      if eid = '''' \<or> key = '''' \<or> length key > 128 \<or> runeCount reason < 5 \<or> runeCount reason > 1000 then Inl ErrInvalid
      else andThen (claimIdempotency e (p_tenant p) ''RETRY_TAX_COMMAND_DEAD_LETTER'' key eid
         (JObj [(''actor_id'', JStr (p_user p)), (''id'', JStr eid), (''reason'', JStr reason)]) d) (\<lambda>(existing, replay, d1).
      if replay then Inr ((), d1)
      else andThen (query_row ErrNotFound (event_is (p_tenant p) eid) (outbox_events d1)) (\<lambda>x.
      if ob_destination x \<noteq> ''TAX_INVOICE_COMMAND'' \<or> ob_status x \<noteq> OB_DEAD_LETTER then Inl ErrConflict
      else andThen (checkTaxCommand s p x d1) (\<lambda>(operation, attempt, d2).
      if affected (deadCommand (p_tenant p) eid) (outbox_events d2) \<noteq> 1 then Inl ErrConflict
      else andThen (outbox e 0 (p_tenant p) ''PLATFORM_AUDIT'' ''SETTLEMENT_TAX_COMMAND_DEAD_LETTER_RETRIED'' ''outbox_event'' eid
         [(''actor_id'', JStr (p_user p)), (''operation_type'', JStr (showOperation operation)), (''attempt_id'', JStr attempt),
          (''command_event_id'', JStr (ob_event x)), (''reason'', JStr reason), (''previous_error_code'', JStr (ob_error_code x)),
          (''previous_error_summary'', JStr (ob_error_summary x)), (''result'', JStr ''SUCCESS''), (''risk_level'', JStr ''HIGH'')]
         (updateEvents (deadCommand (p_tenant p) eid) (requeued (e_now e)) d2)) (\<lambda>d3.
      Inr ((), d3))))))"

end
