(* ===== verification/IssueOnce.thy ===== *)
theory IssueOnce
  imports InvoiceRuns TaxDeadLetter
begin

text \<open>
  At most one invoice is issued for a request. The invariant speaks of the requests, the issue
  attempts, the tax invoices and the red-flush relations: an attempt that still waits for a result
  belongs to an open request and is its newest, an invoice belongs to an issued request, and two
  invoices of one request are told apart by a red-flush relation. Every command of the service,
  every tax result and every pass of the outbox worker keeps it.
\<close>

section \<open>The invariant\<close>

definition requestOf :: "invoice_request \<Rightarrow> issue_attempt \<Rightarrow> bool" where
  "requestOf r a \<longleftrightarrow> ir_id r = at_request a \<and> ir_tenant r = at_tenant a"

definition siblings :: "issue_attempt \<Rightarrow> issue_attempt \<Rightarrow> bool" where
  "siblings a b \<longleftrightarrow> at_request b = at_request a \<and> at_tenant b = at_tenant a"

definition waiting :: "issue_attempt \<Rightarrow> bool" where
  "waiting a \<longleftrightarrow> liveAttempt (at_status a)"

text \<open>An invoice that is not the red counterpart of another.\<close>

definition blue :: "red_flush_relation list \<Rightarrow> tax_invoice \<Rightarrow> bool" where
  "blue ls t \<longleftrightarrow> (\<forall>l \<in> set ls. rl_red l \<noteq> ti_id t \<or> rl_tenant l \<noteq> ti_tenant t)"

definition sameRequest :: "tax_invoice \<Rightarrow> tax_invoice \<Rightarrow> bool" where
  "sameRequest t u \<longleftrightarrow> ti_request t = ti_request u \<and> ti_tenant t = ti_tenant u"

definition newest_open :: "invoice_request list \<Rightarrow> issue_attempt list \<Rightarrow> issue_attempt \<Rightarrow> bool" where
  "newest_open rs as a \<longleftrightarrow> (\<exists>r \<in> set rs. requestOf r a \<and> openRequest r) \<and>
     (\<forall>b \<in> set as. siblings a b \<longrightarrow> at_id b \<noteq> at_id a \<longrightarrow> at_no b < at_no a)"

definition issued_for :: "invoice_request list \<Rightarrow> tax_invoice \<Rightarrow> bool" where
  "issued_for rs t \<longleftrightarrow> (\<exists>r \<in> set rs. ir_id r = ti_request t \<and> ir_tenant r = ti_tenant t \<and> ir_status r = IR_ISSUED)"

definition issue_ok ::
  "invoice_request list \<Rightarrow> issue_attempt list \<Rightarrow> tax_invoice list \<Rightarrow> red_flush_relation list \<Rightarrow> bool" where
  "issue_ok rs as ts ls \<longleftrightarrow> keyed ir_id rs \<and> keyed at_id as \<and> keyed ti_id ts \<and> (\<forall>a \<in> set as. at_id a \<noteq> '''') \<and>
     (\<forall>a \<in> set as. waiting a \<longrightarrow> newest_open rs as a) \<and> (\<forall>t \<in> set ts. issued_for rs t) \<and>
     (\<forall>t \<in> set ts. \<forall>u \<in> set ts. blue ls t \<longrightarrow> blue ls u \<longrightarrow> sameRequest t u \<longrightarrow> t = u)"

definition issueTables :: "db \<Rightarrow> invoice_request list \<times> issue_attempt list \<times> tax_invoice list \<times> red_flush_relation list" where
  "issueTables d = (invoice_requests (taxes d), issue_attempts (taxes d), tax_invoices (taxes d), red_flush_relations (taxes d))"

definition issue_inv :: "db \<Rightarrow> bool" where
  "issue_inv d \<longleftrightarrow> (case issueTables d of (rs, as, ts, ls) \<Rightarrow> issue_ok rs as ts ls)"

lemma issue_inv_cong: "issueTables d' = issueTables d \<Longrightarrow> issue_inv d' = issue_inv d"
  by (simp add: issue_inv_def)

lemma issue_okD:
  assumes "issue_ok rs as ts ls"
  shows "keyed ir_id rs" "keyed at_id as" "keyed ti_id ts" "a \<in> set as \<Longrightarrow> waiting a \<Longrightarrow> newest_open rs as a"
    "t \<in> set ts \<Longrightarrow> issued_for rs t" "t \<in> set ts \<Longrightarrow> u \<in> set ts \<Longrightarrow> blue ls t \<Longrightarrow> blue ls u \<Longrightarrow> sameRequest t u \<Longrightarrow> t = u"
    "a \<in> set as \<Longrightarrow> at_id a \<noteq> ''''"
  using assms by (simp_all add: issue_ok_def)

section \<open>Statements that keep it\<close>

subsection \<open>Requests\<close>

lemma insert_request_ok:
  assumes ok: "issue_ok rs as ts ls" and ins: "insert_row request_clash r rs = Inr rs'"
  shows "issue_ok rs' as ts ls"
proof -
  have s: "set rs \<subseteq> set rs'" using ins by (auto simp: insert_row_Inr)
  have "keyed ir_id rs'" using request_t.insert_keyed [OF issue_okD(1) [OF ok] ins] .
  then show ?thesis using ok s unfolding issue_ok_def newest_open_def issued_for_def by blast
qed

text \<open>
  A request may change its status when it was not issued, or stays issued; leaving the open states
  takes that no attempt waits for it.
\<close>

lemma update_requests_ok:
  assumes ok: "issue_ok rs as ts ls"
    and f: "\<And>r. ir_id (f r) = ir_id r" "\<And>r. ir_tenant (f r) = ir_tenant r"
    and issued: "\<And>r. r \<in> set rs \<Longrightarrow> P r \<Longrightarrow> ir_status r = IR_ISSUED \<Longrightarrow> ir_status (f r) = IR_ISSUED"
    and opened: "\<And>r a. r \<in> set rs \<Longrightarrow> P r \<Longrightarrow> openRequest r \<Longrightarrow> a \<in> set as \<Longrightarrow> requestOf r a \<Longrightarrow> waiting a \<Longrightarrow> openRequest (f r)"
  shows "issue_ok (update_rows P f rs) as ts ls"
proof -
  have "newest_open (update_rows P f rs) as a" if a: "a \<in> set as" "waiting a" for a
  proof -
    from issue_okD(4) [OF ok a] obtain r where r: "r \<in> set rs" "requestOf r a" "openRequest r"
      and b: "\<forall>b \<in> set as. siblings a b \<longrightarrow> at_id b \<noteq> at_id a \<longrightarrow> at_no b < at_no a"
      by (auto simp: newest_open_def)
    let ?r = "if P r then f r else r"
    have "openRequest ?r" using opened [OF r(1) _ r(3) a(1) r(2) a(2)] r(3) by simp
    moreover have "requestOf ?r a" using r(2) f by (simp add: requestOf_def)
    ultimately show ?thesis using in_update_rowsI [OF r(1), of P f] b unfolding newest_open_def by blast
  qed
  moreover have "issued_for (update_rows P f rs) t" if t: "t \<in> set ts" for t
  proof -
    from issue_okD(5) [OF ok t] obtain r where r: "r \<in> set rs" "ir_id r = ti_request t" "ir_tenant r = ti_tenant t"
      "ir_status r = IR_ISSUED" by (auto simp: issued_for_def)
    let ?r = "if P r then f r else r"
    have "ir_id ?r = ti_request t \<and> ir_tenant ?r = ti_tenant t \<and> ir_status ?r = IR_ISSUED"
      using r f issued [OF r(1)] by simp
    then show ?thesis using in_update_rowsI [OF r(1), of P f] unfolding issued_for_def by blast
  qed
  moreover have "keyed ir_id (update_rows P f rs)"
    by (rule request_t.update_keyed [OF issue_okD(1) [OF ok]]) (rule f)
  ultimately show ?thesis using ok unfolding issue_ok_def by blast
qed

subsection \<open>Attempts\<close>

definition attemptFactsOf :: "issue_attempt \<Rightarrow> string \<times> string \<times> string \<times> int" where
  "attemptFactsOf a = (at_id a, at_tenant a, at_request a, at_no a)"

text \<open>An attempt keeps its place and does not start to wait again.\<close>

definition settles :: "issue_attempt \<Rightarrow> issue_attempt \<Rightarrow> bool" where
  "settles a b \<longleftrightarrow> attemptFactsOf b = attemptFactsOf a \<and> (waiting b \<longrightarrow> waiting a)"

lemma settles_refl [simp]: "settles a a"
  by (simp add: settles_def)

lemma settles_trans: "settles a b \<Longrightarrow> settles b c \<Longrightarrow> settles a c"
  by (simp add: settles_def)

lemma settles_update:
  "(\<And>a. a \<in> set as \<Longrightarrow> P a \<Longrightarrow> settles a (f a)) \<Longrightarrow> list_all2 settles as (update_rows P f as)"
  by (induction as) (auto simp: update_rows_def)

lemma settles_list_refl [simp]: "list_all2 settles as as"
  by (simp add: list_all2_refl)

lemma settles_list_trans: "list_all2 settles as bs \<Longrightarrow> list_all2 settles bs cs \<Longrightarrow> list_all2 settles as cs"
  by (rule list_all2_trans [OF settles_trans])

lemma settles_facts: "list_all2 settles as bs \<Longrightarrow> map attemptFactsOf bs = map attemptFactsOf as"
  by (induction rule: list_all2_induct) (simp_all add: settles_def)

lemma settles_in:
  assumes "list_all2 settles as bs" "b \<in> set bs"
  shows "\<exists>a \<in> set as. settles a b"
  using assms by (induction rule: list_all2_induct) auto

lemma ids_nonempty: "issue_ok rs as ts ls \<Longrightarrow> '''' \<notin> set (map at_id as)"
  by (auto simp: issue_ok_def)

lemma update_attempts_ok:
  assumes ok: "issue_ok rs as ts ls" and s: "list_all2 settles as bs"
  shows "issue_ok rs bs ts ls"
proof -
  have "map at_id bs = map at_id as"
    using arg_cong [OF settles_facts [OF s], of "map fst"] by (simp add: attemptFactsOf_def comp_def)
  then have "keyed at_id bs" "\<forall>b \<in> set bs. at_id b \<noteq> ''''"
    using issue_okD(2) [OF ok] ids_nonempty [OF ok] by (auto simp: keyed_def) (metis image_eqI image_iff list.set_map)
  moreover have "newest_open rs bs b" if b: "b \<in> set bs" "waiting b" for b
  proof -
    from settles_in [OF s b(1)] obtain a where a: "a \<in> set as" "settles a b" by blast
    then have eq: "at_id b = at_id a" "at_tenant b = at_tenant a" "at_request b = at_request a" "at_no b = at_no a"
      and "waiting a" using b(2) by (auto simp: settles_def attemptFactsOf_def)
    with issue_okD(4) [OF ok a(1)] have n: "newest_open rs as a" by simp
    have "at_no c < at_no b" if c: "c \<in> set bs" "siblings b c" "at_id c \<noteq> at_id b" for c
    proof -
      from settles_in [OF s c(1)] obtain c' where "c' \<in> set as" "settles c' c" by blast
      with n c eq show ?thesis by (auto simp: newest_open_def siblings_def settles_def attemptFactsOf_def)
    qed
    with n eq show ?thesis by (auto simp: newest_open_def requestOf_def)
  qed
  ultimately show ?thesis using ok unfolding issue_ok_def by blast
qed

lemma insert_attempt_ok:
  assumes ok: "issue_ok rs as ts ls" and ins: "insert_row attempt_clash a as = Inr as'"
    and id: "at_id a \<noteq> ''''" and r: "r \<in> set rs" "requestOf r a" "openRequest r"
    and idle: "\<And>b. b \<in> set as \<Longrightarrow> siblings a b \<Longrightarrow> \<not> waiting b \<and> at_no b < at_no a"
  shows "issue_ok rs as' ts ls"
proof -
  have as': "as' = as @ [a]" using ins by (simp add: insert_row_Inr)
  have "newest_open rs as' b" if b: "b \<in> set as'" "waiting b" for b
  proof (cases "b = a")
    case True
    with r idle show ?thesis by (auto simp: newest_open_def as')
  next
    case False
    with b as' have b': "b \<in> set as" by simp
    from issue_okD(4) [OF ok b' b(2)] have "newest_open rs as b" .
    moreover have "\<not> siblings a b" using idle [OF b'] b(2) by blast
    ultimately show ?thesis by (auto simp: newest_open_def as' siblings_def)
  qed
  moreover have "keyed at_id as'" by (rule attempt_t.insert_keyed [OF issue_okD(2) [OF ok] ins])
  moreover have "\<forall>b \<in> set as'. at_id b \<noteq> ''''" using id issue_okD(7) [OF ok] by (simp add: as')
  ultimately show ?thesis using ok unfolding issue_ok_def by blast
qed

subsection \<open>Invoices\<close>

lemma add_relation_ok: "issue_ok rs as ts ls \<Longrightarrow> set ls \<subseteq> set ls' \<Longrightarrow> issue_ok rs as ts ls'"
  unfolding issue_ok_def blue_def by (meson subsetD)

lemma insert_invoice_ok:
  assumes ok: "issue_ok rs as ts ls" and ins: "insert_row tax_invoice_clash t ts = Inr ts'" and r: "issued_for rs t"
    and one: "\<not> blue ls t \<or> (\<forall>u \<in> set ts. \<not> sameRequest t u)"
  shows "issue_ok rs as ts' ls"
proof -
  have ts': "ts' = ts @ [t]" using ins by (simp add: insert_row_Inr)
  have "keyed ti_id ts'" by (rule tax_invoice_t.insert_keyed [OF issue_okD(3) [OF ok] ins])
  moreover have "u = v" if "u \<in> set ts'" "v \<in> set ts'" "blue ls u" "blue ls v" "sameRequest u v" for u v
    using that one issue_okD(6) [OF ok, of u v] by (auto simp: ts' sameRequest_def)
  moreover have "\<forall>u \<in> set ts'. issued_for rs u" using r issue_okD(5) [OF ok] by (simp add: ts')
  ultimately show ?thesis using ok unfolding issue_ok_def by blast
qed

lemma update_invoices_ok:
  assumes ok: "issue_ok rs as ts ls"
    and f: "\<And>t. (ti_id (f t), ti_tenant (f t), ti_request (f t)) = (ti_id t, ti_tenant t, ti_request t)"
  shows "issue_ok rs as (update_rows P f ts) ls"
proof -
  let ?g = "\<lambda>t. if P t then f t else t"
  have g: "ti_id (?g t) = ti_id t" "ti_tenant (?g t) = ti_tenant t" "ti_request (?g t) = ti_request t" for t
    using f [of t] by simp_all
  have u: "update_rows P f ts = map ?g ts" by (simp add: update_rows_def)
  have "keyed ti_id (map ?g ts)" using issue_okD(3) [OF ok] by (simp add: keyed_def comp_def g)
  moreover have "\<forall>t \<in> set (map ?g ts). issued_for rs t" 
  proof
    fix u assume "u \<in> set (map ?g ts)"
    then obtain t where t: "t \<in> set ts" "u = ?g t" by auto
    from issue_okD(5) [OF ok t(1)] show "issued_for rs u" unfolding issued_for_def t(2) g .
  qed
  moreover have "x = y" if xy: "x \<in> set (map ?g ts)" "y \<in> set (map ?g ts)" "blue ls x" "blue ls y" "sameRequest x y" for x y
  proof -
    from xy(1,2) obtain t s where ts: "t \<in> set ts" "s \<in> set ts" "x = ?g t" "y = ?g s" by auto
    have "t = s" by (rule issue_okD(6) [OF ok ts(1,2)]) (use xy(3-) in \<open>simp_all only: blue_def sameRequest_def g ts(3,4)\<close>)
    then show ?thesis by (simp add: ts)
  qed
  ultimately show ?thesis unfolding u using ok unfolding issue_ok_def by blast
qed

section \<open>Commands\<close>

subsection \<open>What leaves the tables alone\<close>

lemma frame_taxes:
  "scopeFrame d d' \<Longrightarrow> taxes d' = taxes d" "idemFrame d d' \<Longrightarrow> taxes d' = taxes d" "eventFrame d d' \<Longrightarrow> taxes d' = taxes d"
  using contractTables_frames(1-3) [of d d'] by (simp_all add: contractTables_def)

lemma issueTables_taxes: "taxes d' = taxes d \<Longrightarrow> issueTables d' = issueTables d"
  by (simp add: issueTables_def)

lemmas issue_frames = frame_taxes [THEN issueTables_taxes]

lemma bookExec_taxes:
  assumes "bookExec c d = Inr (u, d')"
  shows "taxes d' = taxes d"
  using assms
proof (cases "(c, d)" rule: bookExec.cases)
  case (1 s e p c d)
  with assms show ?thesis
    using ledgerExec_plans [of "(s, e, p, c)" d u d'] by (simp add: planTables_def contractTables_def)
next
  case (2 s e p key i d)
  with assms obtain w where "CreateManualPlan s e p key i d = Inr (w, d')" by (auto simp: resMap_drop_Inr)
  moreover have ins: "insertPlan rp d2 = Inr d3 \<Longrightarrow> taxes d3 = taxes d2" for rp d2 d3
    by (auto simp: insertPlan_def split: if_splits sum.splits)
  ultimately show ?thesis using CreateManualPlan_Inr [of s e p key i d w d'] 2 by (auto dest!: frame_taxes ins)
next
  case (3 s e p pid i d)
  with assms have "ConfirmPlan s e p pid i d = Inr (u, d')" by simp
  from ConfirmPlan_Inr [OF this] 3 show ?thesis
    by (auto simp: postReceivable_def andThen_eq_Inr dest!: frame_taxes)
next
  case (4 s e p pid i d)
  with assms have "AdjustPlan s e p pid i d = Inr (u, d')" by simp
  from AdjustPlan_Inr [OF this] 4 show ?thesis
    by (auto simp: postAdjustment_def dest!: frame_taxes)
next
  case (5 s e p project version txt1 d)
  with assms show ?thesis
    by (auto simp: UpdateProjectMappingNote_def andThen_eq_Inr dest!: outbox_frame frame_taxes split: if_splits)
qed

lemma issueTables_writes [simp]:
  "issueTables (set_requests t1 d) = (t1, snd (issueTables d))"
  "issueTables (set_reviews t4 d) = issueTables d" "issueTables (set_red_requests t5 d) = issueTables d"
  "issueTables (set_red_attempts t6 d) = issueTables d" "issueTables (set_results t7 d) = issueTables d"
  "issueTables (set_settings t9 d) = issueTables d" "issueTables (reviewRedFlush p fid version st reason d) = issueTables d"
  "issueTables (updateRedRequest t r h d) = issueTables d" "issueTables (releaseReservations g t r d) = issueTables d"
  "issueTables (updateEvents P f d) = issueTables d" "issueTables (d\<lparr>invoice_allocations := ia\<rparr>) = issueTables d"
  "issueTables (d\<lparr>taxes := (taxes d)\<lparr>invoice_items := ii\<rparr>\<rparr>) = issueTables d"
  "issueTables (d\<lparr>taxes := (taxes d)\<lparr>tax_invoice_items := tx\<rparr>\<rparr>) = issueTables d"
  "issueTables (d\<lparr>taxes := (taxes d)\<lparr>invoice_reversals := vr\<rparr>\<rparr>) = issueTables d"
  "issueTables (d\<lparr>receivables := rv\<rparr>) = issueTables d"
  by (simp_all add: issueTables_def set_requests_def set_reviews_def set_red_requests_def set_red_attempts_def
      set_results_def set_settings_def reviewRedFlush_def updateRedRequest_def releaseReservations_def updateEvents_def)

lemma outbox_issue: "outbox e i t ds et aty aid b d = Inr d' \<Longrightarrow> issueTables d' = issueTables d"
  by (rule issue_frames(3)) (rule outbox_frame)

lemma scope_issue:
  "requireInvoiceRequestScopeTx s p perm rid d = Inr d' \<Longrightarrow> issueTables d' = issueTables d"
  "requireTaxInvoiceScopeTx s p perm iid d = Inr d' \<Longrightarrow> issueTables d' = issueTables d"
  "requireWriteScopeTx s p perm sn d = Inr d' \<Longrightarrow> issueTables d' = issueTables d"
  "RequireContractAccessTx s p perm sn d = Inr d' \<Longrightarrow> issueTables d' = issueTables d"
  by (rule issue_frames(1), erule requireInvoiceRequestScopeTx_frame requireTaxInvoiceScopeTx_frame
      requireWriteScopeTx_frame RequireContractAccessTx_frame)+

lemma idem_issue: "claimIdempotency e t c k v q d = Inr (w, r, d') \<Longrightarrow> issueTables d' = issueTables d"
  by (rule issue_frames(2)) (rule claimIdempotency_frame)

lemma insertItems_issue: "insertItems e n t rid line xs d = Inr d' \<Longrightarrow> issueTables d' = issueTables d"
proof (induction xs arbitrary: n line d)
  case (Cons x xs)
  then obtain u where "insertItems e (Suc n) t rid (Suc line) xs (d\<lparr>taxes := (taxes d)\<lparr>invoice_items := u\<rparr>\<rparr>) = Inr d'"
    by (auto simp: andThen_eq_Inr)
  from Cons.IH [OF this] show ?case by simp
qed simp

lemma insertTaxItems_issue: "insertTaxItems f e n t tid line xs d = Inr d' \<Longrightarrow> issueTables d' = issueTables d"
proof (induction xs arbitrary: n line d)
  case (Cons x xs)
  then obtain u where "insertTaxItems f e (Suc n) t tid (Suc line) xs (d\<lparr>taxes := (taxes d)\<lparr>tax_invoice_items := u\<rparr>\<rparr>) = Inr d'"
    by (auto simp: andThen_eq_Inr)
  from Cons.IH [OF this] show ?case by simp
qed simp

lemma insertReservations_issue: "insertReservations e n t rid l d = Inr d' \<Longrightarrow> issueTables d' = issueTables d"
proof (induction l arbitrary: n d)
  case (Cons x l)
  obtain vid m where x: "x = (vid, m)" by (cases x)
  with Cons.prems obtain u where "insertReservations e (Suc n) t rid l (d\<lparr>invoice_allocations := u\<rparr>) = Inr d'"
    by (auto simp: andThen_eq_Inr)
  from Cons.IH [OF this] show ?case by simp
qed simp

lemma invoiceReserved_issue: "invoiceReserved P t rid l d = Inr d' \<Longrightarrow> issueTables d' = issueTables d"
proof (induction l arbitrary: d)
  case (Cons x l)
  obtain vid m where x: "x = (vid, m)" by (cases x)
  with Cons.prems obtain d1 where d1: "incrementInvoiced t vid m (markInvoiced P t rid vid d) = Inr d1"
    "invoiceReserved P t rid l d1 = Inr d'" by (auto simp: andThen_eq_Inr)
  from d1(1) have "issueTables d1 = issueTables d"
    by (auto simp: incrementInvoiced_def andThen_eq_Inr Let_def setInvoiced_def markInvoiced_def)
  with Cons.IH [OF d1(2)] show ?case by simp
qed simp

lemma reverseRows_issue: "reverseRows e n t fid l d = Inr (k, d') \<Longrightarrow> issueTables d' = issueTables d"
proof (induction l arbitrary: n d)
  case (Cons x l)
  obtain aid vid m where x: "x = (aid, vid, m)" by (cases x)
  show ?case
  proof (cases "\<exists>r \<in> set (invoice_reversals (taxes d)). vr_tenant r = t \<and> vr_allocation r = aid \<and> vr_request r \<noteq> fid")
    case True
    with Cons x show ?thesis by simp
  next
    case False
    with Cons.prems x obtain u d1 n' where d1: "decrementInvoiced t vid m (d\<lparr>taxes := (taxes d)\<lparr>invoice_reversals := u\<rparr>\<rparr>) = Inr d1"
      "reverseRows e n' t fid l d1 = Inr (k, d')" by (auto simp: andThen_eq_Inr)
    from d1(1) have "issueTables d1 = issueTables d"
      by (auto simp: decrementInvoiced_def andThen_eq_Inr Let_def setInvoiced_def)
    with Cons.IH [OF d1(2)] show ?thesis by simp
  qed
qed simp

lemmas issue_steps = outbox_issue scope_issue idem_issue insertItems_issue insertTaxItems_issue insertReservations_issue
  invoiceReserved_issue

lemma freezeReview_issue: "freezeReview p rid i k d = Inr d' \<Longrightarrow> issueTables d' = issueTables d"
  by (auto simp: freezeReview_def andThen_eq_Inr)

lemma red_commands_issue:
  "RequestInvoiceRedFlush s e p key iid i d = Inr (w, d') \<Longrightarrow> issueTables d' = issueTables d"
  "approveRedFlush s e p f version d = Inr d' \<Longrightarrow> issueTables d' = issueTables d"
  "PutSettlementSettings s e p j d = Inr (w3, d') \<Longrightarrow> issueTables d' = issueTables d"
  by (auto simp: RequestInvoiceRedFlush_def approveRedFlush_def PutSettlementSettings_def storeSettings_def
      andThen_eq_Inr Let_def dest!: issue_steps split: if_splits sum.splits)

lemma ReviewInvoiceRedFlush_issue:
  "ReviewInvoiceRedFlush s e p fid approve i d = Inr (w, d') \<Longrightarrow> issueTables d' = issueTables d"
  by (auto simp: ReviewInvoiceRedFlush_def andThen_eq_Inr Let_def dest!: issue_steps red_commands_issue(2) split: if_splits)

subsection \<open>Submission and review\<close>

lemma issue_inv_eq:
  "issue_inv d = issue_ok (invoice_requests (taxes d)) (issue_attempts (taxes d)) (tax_invoices (taxes d)) (red_flush_relations (taxes d))"
  by (simp add: issue_inv_def issueTables_def)

lemma issueTables_sel:
  assumes "issueTables d' = issueTables d"
  shows "invoice_requests (taxes d') = invoice_requests (taxes d)" "issue_attempts (taxes d') = issue_attempts (taxes d)"
    "tax_invoices (taxes d') = tax_invoices (taxes d)" "red_flush_relations (taxes d') = red_flush_relations (taxes d)"
  using assms by (simp_all add: issueTables_def)

lemma CreateInvoiceRequest_issue:
  assumes inv: "issue_inv d" and ok: "CreateInvoiceRequest s e p key i d = Inr (w, d')"
  shows "issue_inv d'"
proof -
  from ok obtain k d1 x b d2 where sc: "RequireContractAccessTx s p ''settlement.invoice.request'' (qi_snapshot i) d = Inr d1"
    and cl: "claimIdempotency e (p_tenant p) ''CREATE_INVOICE_REQUEST'' key (e_ids e 0) (invoiceRequestDigest i k) d1 = Inr (x, b, d2)"
    and rest: "d' = d \<or> (\<exists>t. insert_row request_clash (newRequest p key (e_ids e 0) i k) (invoice_requests (taxes d2)) = Inr t \<and>
      postRequest e p (e_ids e 0) i k (set_requests t d2) = Inr d')"
    by (auto simp: CreateInvoiceRequest_def Let_def andThen_eq_Inr resMap_def split: if_splits sum.splits option.splits)
  have d2: "issueTables d2 = issueTables d" using scope_issue(4) [OF sc] idem_issue [OF cl] by simp
  from rest show ?thesis
  proof (elim disjE exE conjE)
    fix t
    assume t: "insert_row request_clash (newRequest p key (e_ids e 0) i k) (invoice_requests (taxes d2)) = Inr t"
      and p: "postRequest e p (e_ids e 0) i k (set_requests t d2) = Inr d'"
    from p have "issueTables d' = issueTables (set_requests t d2)"
      by (auto simp: postRequest_def Let_def andThen_eq_Inr dest!: issue_steps freezeReview_issue)
    then have "issueTables d' = (t, snd (issueTables d))" using d2 by simp
    moreover have "issue_ok t (issue_attempts (taxes d)) (tax_invoices (taxes d)) (red_flush_relations (taxes d))"
      using insert_request_ok inv t issueTables_sel(1) [OF d2] unfolding issue_inv_eq by metis
    ultimately show ?thesis by (simp add: issue_inv_def issueTables_def)
  qed (use inv in simp)
qed

text \<open>A change of the status of one request that has no waiting attempt.\<close>

lemma updateRequest_issue:
  assumes inv: "issue_inv d" and f: "\<And>r. ir_id (f r) = ir_id r" "\<And>r. ir_tenant (f r) = ir_tenant r"
    and P: "\<And>r. r \<in> set (invoice_requests (taxes d)) \<Longrightarrow> req_is t rid r \<Longrightarrow> P r \<Longrightarrow> ir_status r \<noteq> IR_ISSUED \<and>
      (openRequest r \<longrightarrow> openRequest (f r) \<or> (\<forall>a \<in> set (issue_attempts (taxes d)). requestOf r a \<longrightarrow> \<not> waiting a))"
  shows "issue_inv (updateRequest t rid P f d)"
proof -
  have "issue_ok (update_rows (\<lambda>r. req_is t rid r \<and> P r) (\<lambda>r. (f r)\<lparr>ir_version := ir_version r + 1\<rparr>) (invoice_requests (taxes d)))
      (issue_attempts (taxes d)) (tax_invoices (taxes d)) (red_flush_relations (taxes d))"
    by (rule update_requests_ok [OF inv [unfolded issue_inv_eq]]) (use f P in \<open>auto simp: openRequest_def\<close>)
  then show ?thesis by (simp add: issue_inv_eq updateRequest_def set_requests_def)
qed

lemma request_unique:
  assumes "issue_inv d" "r \<in> set (invoice_requests (taxes d))" "req_is t rid r" "x \<in> set (invoice_requests (taxes d))" "req_is t rid x"
  shows "x = r"
  by (rule request_t.row_unique [OF issue_okD(1) [OF assms(1) [unfolded issue_inv_eq]]]) (use assms in \<open>simp_all add: req_is_def\<close>)

text \<open>The status of the one request the statement is about settles what it may do.\<close>

lemma reviewed_issue:
  assumes inv: "issue_inv d" and r: "find (submittedRequest t rid version st) (invoice_requests (taxes d)) = Some r"
    and st: "st = IR_SUBMITTED \<or> st = IR_SPECIAL_REVIEW" and f: "\<And>r. ir_id (f r) = ir_id r" "\<And>r. ir_tenant (f r) = ir_tenant r"
  shows "issue_inv (updateRequest t rid P f d)"
proof (rule updateRequest_issue [OF inv f])
  fix x assume x: "x \<in> set (invoice_requests (taxes d))" "req_is t rid x"
  from find_SomeD [OF r] have "r \<in> set (invoice_requests (taxes d))" "req_is t rid r" "ir_status r = st"
    by (simp_all add: submittedRequest_def)
  with request_unique [OF inv _ _ x] st have "ir_status x = IR_SUBMITTED \<or> ir_status x = IR_SPECIAL_REVIEW" by metis
  then show "ir_status x \<noteq> IR_ISSUED \<and>
      (openRequest x \<longrightarrow> openRequest (f x) \<or> (\<forall>a \<in> set (issue_attempts (taxes d)). requestOf x a \<longrightarrow> \<not> waiting a))"
    by (auto simp: openRequest_def)
qed

lemma issue_inv_frame: "issue_inv d \<Longrightarrow> issueTables d' = issueTables d \<Longrightarrow> issue_inv d'"
  using issue_inv_cong by blast

lemma RejectInvoiceRequest_issue:
  assumes inv: "issue_inv d" and ok: "RejectInvoiceRequest s e p rid version reason d = Inr (w, d')"
  shows "issue_inv d'"
proof -
  from RejectInvoiceRequest_Inr [OF ok] obtain r d1 reason' where
    r: "find (submittedRequest (p_tenant p) rid version IR_SUBMITTED) (invoice_requests (taxes d)) = Some r" and sc: "scopeFrame d d1"
    and fr: "eventFrame (releaseReservations ia_reserved (p_tenant p) rid (updateRequest (p_tenant p) rid (\<lambda>x. ir_version x = version)
             (\<lambda>x. x\<lparr>ir_status := IR_REJECTED, ir_approved_by := p_user p, ir_rejection := reason'\<rparr>) d1)) d'" by blast
  note t = frame_taxes(1) [OF sc]
  have "issue_inv (updateRequest (p_tenant p) rid (\<lambda>x. ir_version x = version)
             (\<lambda>x. x\<lparr>ir_status := IR_REJECTED, ir_approved_by := p_user p, ir_rejection := reason'\<rparr>) d1)"
    by (rule reviewed_issue [where st = IR_SUBMITTED and version = version and r = r])
       (use r inv in \<open>simp_all add: t issue_inv_eq\<close>)
  then show ?thesis by (rule issue_inv_frame) (use issue_frames(3) [OF fr] in simp)
qed

text \<open>The number of a new attempt is beyond every number of its request.\<close>

lemma fold_max_ge: "(n::int) \<le> fold (\<lambda>a m. max (g a) m) l n" "x \<in> set l \<Longrightarrow> g x \<le> fold (\<lambda>a m. max (g a) m) l n"
proof (induction l arbitrary: n)
  case (Cons a l)
  { case 1 show ?case using Cons.IH(1) [of "max (g a) n"] by simp
  next
    case 2 then show ?case using Cons.IH(1) [of "max (g a) n"] Cons.IH(2) [of "max (g a) n"] by auto }
qed simp_all

lemma nextAttemptNo_beyond:
  "a \<in> set (issue_attempts (taxes d)) \<Longrightarrow> attemptOf t rid a \<Longrightarrow> at_no a < nextAttemptNo d t rid"
  using fold_max_ge(2) [of a "filter (attemptOf t rid) (issue_attempts (taxes d))" at_no 0] by (simp add: nextAttemptNo_def)

lemma updateAttempt_issue:
  assumes inv: "issue_inv d" and s: "\<And>a. a \<in> set (issue_attempts (taxes d)) \<Longrightarrow> att_is t aid a \<Longrightarrow> P a \<Longrightarrow> settles a (f a)"
  shows "issue_inv (updateAttempt t aid P f d)"
proof -
  have "list_all2 settles (issue_attempts (taxes d)) (update_rows (\<lambda>a. att_is t aid a \<and> P a) f (issue_attempts (taxes d)))"
    by (rule settles_update) (use s in blast)
  from update_attempts_ok [OF inv [unfolded issue_inv_eq] this] show ?thesis
    by (simp add: issue_inv_eq updateAttempt_def set_attempts_def)
qed

lemma insertAttempt_issue:
  assumes inv: "issue_inv d" and ins: "insert_row attempt_clash a (issue_attempts (taxes d)) = Inr t"
    and id: "at_id a \<noteq> ''''" and r: "r \<in> set (invoice_requests (taxes d))" "requestOf r a" "openRequest r"
    and idle: "\<And>b. b \<in> set (issue_attempts (taxes d)) \<Longrightarrow> siblings a b \<Longrightarrow> \<not> waiting b \<and> at_no b < at_no a"
  shows "issue_inv (set_attempts t d)"
  using insert_attempt_ok [OF inv [unfolded issue_inv_eq] ins id r idle] by (simp add: issue_inv_eq set_attempts_def)

lemma queueIssueCommand_issue:
  assumes "issue_inv d" "queueIssueCommand s e n t rid a d = Inr d'"
  shows "issue_inv d'"
proof -
  from assms(2) obtain c d1 where o1: "outbox e n t ''TAX_INVOICE_COMMAND'' ''SETTLEMENT_INVOICE_ISSUE_REQUESTED'' ''invoice_request'' rid c d = Inr d1"
    and d': "d' = updateAttempt t a (\<lambda>_. True) (\<lambda>x. x\<lparr>at_command := latestCommand d1 t ''SETTLEMENT_INVOICE_ISSUE_REQUESTED'' rid\<rparr>) d1"
    by (auto simp: queueIssueCommand_def andThen_eq_Inr)
  have "issue_inv d1" using assms(1) outbox_issue [OF o1] by (rule issue_inv_frame)
  then show ?thesis unfolding d' by (rule updateAttempt_issue) (simp add: settles_def attemptFactsOf_def waiting_def)
qed

lemma no_waiting:
  assumes inv: "issue_inv d" and r: "r \<in> set (invoice_requests (taxes d))" "req_is t rid r" "\<not> openRequest r"
    and a: "a \<in> set (issue_attempts (taxes d))" "attemptOf t rid a"
  shows "\<not> waiting a"
proof
  assume "waiting a"
  from issue_okD(4) [OF inv [unfolded issue_inv_eq] a(1) this] obtain x where "x \<in> set (invoice_requests (taxes d))" "requestOf x a" "openRequest x"
    by (auto simp: newest_open_def)
  moreover from this(2) a(2) have "req_is t rid x" by (simp add: requestOf_def attemptOf_def req_is_def)
  ultimately show False using request_unique [OF inv r(1,2)] r(3) by metis
qed

lemma createApprovedInvoiceAttempt_issue:
  assumes inv: "issue_inv d" and r: "find (submittedRequest (p_tenant p) rid version st) (invoice_requests (taxes d)) = Some r"
    and st: "st = IR_SUBMITTED \<or> st = IR_SPECIAL_REVIEW"
    and ids: "e_ids e n \<noteq> ''''" and ok: "createApprovedInvoiceAttempt s e n p rid version d = Inr (w, d')"
  shows "issue_inv d'"
proof -
  let ?t = "p_tenant p"
  let ?f = "\<lambda>r. r\<lparr>ir_status := IR_ISSUE_PENDING, ir_approved_by := p_user p\<rparr>"
  let ?d = "updateRequest ?t rid (\<lambda>r. ir_version r = version) ?f d"
  let ?adapter = "invoiceIssuanceMode s = ''tax_adapter''"
  let ?a = "newAttempt e (e_ids e n) ?t rid (nextAttemptNo ?d ?t rid)
     (if ?adapter then TAX_ADAPTER else MANUAL) (if ?adapter then taxProviderCode s else '''')"
  from ok obtain ts where ins: "insert_row attempt_clash ?a (issue_attempts (taxes ?d)) = Inr ts"
    and q: "\<exists>d2. (if ?adapter then queueIssueCommand s e (Suc n) ?t rid (e_ids e n) (set_attempts ts ?d) else Inr (set_attempts ts ?d)) = Inr d2 \<and>
       eventFrame d2 d'"
    unfolding createApprovedInvoiceAttempt_def Let_def guard_eq_Inr andThen_eq_Inr by (blast dest: outbox_frame)
  then obtain d2 where q: "(if ?adapter then queueIssueCommand s e (Suc n) ?t rid (e_ids e n) (set_attempts ts ?d)
      else Inr (set_attempts ts ?d)) = Inr d2" and ev: "eventFrame d2 d'" by blast
  have inv1: "issue_inv ?d" by (rule reviewed_issue [OF inv r st]) simp_all
  from find_SomeD [OF r] have rr: "r \<in> set (invoice_requests (taxes d))" "req_is ?t rid r" "ir_version r = version" "\<not> openRequest r"
    using st by (auto simp: submittedRequest_def openRequest_def)
  have atts: "issue_attempts (taxes ?d) = issue_attempts (taxes d)" by (simp add: updateRequest_def set_requests_def)
  have ida: "at_id ?a \<noteq> ''''" by (simp add: newAttempt_def ids)
  let ?r = "(?f r)\<lparr>ir_version := ir_version r + 1\<rparr>"
  have "?r \<in> set (invoice_requests (taxes ?d))"
    using in_update_rowsI [OF rr(1), of "\<lambda>x. req_is ?t rid x \<and> ir_version x = version" "\<lambda>x. (?f x)\<lparr>ir_version := ir_version x + 1\<rparr>"] rr
    by (simp add: updateRequest_def set_requests_def)
  moreover have "requestOf ?r ?a" "openRequest ?r" using rr(2) by (simp_all add: requestOf_def req_is_def openRequest_def newAttempt_def)
  moreover have "\<not> waiting b \<and> at_no b < at_no ?a" if "b \<in> set (issue_attempts (taxes ?d))" "siblings ?a b" for b
    using that nextAttemptNo_beyond [of b ?d ?t rid] no_waiting [OF inv rr(1,2,4), of b]
    by (simp add: siblings_def attemptOf_def atts newAttempt_def)
  ultimately have "issue_inv (set_attempts ts ?d)" by (rule insertAttempt_issue [OF inv1 ins ida])
  then have "issue_inv d2" using q queueIssueCommand_issue by (cases ?adapter) auto
  then show ?thesis using issue_frames(3) [OF ev] by (rule issue_inv_frame)
qed

lemma ApproveInvoiceRequest_issue:
  assumes inv: "issue_inv d" and ids: "\<And>k. e_ids e k \<noteq> ''''" and ok: "ApproveInvoiceRequest s e p rid version d = Inr (w, d')"
  shows "issue_inv d'"
proof -
  let ?f = "\<lambda>x. x\<lparr>ir_status := IR_SPECIAL_REVIEW, ir_approved_by := p_user p\<rparr>"
  from ok obtain r d1 where r: "find (submittedRequest (p_tenant p) rid version IR_SUBMITTED) (invoice_requests (taxes d)) = Some r"
    and sc: "scopeFrame d d1" and rest: "eventFrame (updateRequest (p_tenant p) rid (\<lambda>x. ir_version x = version) ?f d1) d' \<or>
      createApprovedInvoiceAttempt s e 0 p rid version d1 = Inr (w, d')"
    by (auto simp: ApproveInvoiceRequest_def andThen_eq_Inr query_row_Inr Let_def split: if_splits
        dest!: outbox_frame requireInvoiceRequestScopeTx_frame)
  have inv1: "issue_inv d1" using inv issue_frames(1) [OF sc] by (rule issue_inv_frame)
  have r1: "find (submittedRequest (p_tenant p) rid version IR_SUBMITTED) (invoice_requests (taxes d1)) = Some r"
    using r frame_taxes(1) [OF sc] by simp
  from rest show ?thesis
  proof
    assume fr: "eventFrame (updateRequest (p_tenant p) rid (\<lambda>x. ir_version x = version) ?f d1) d'"
    have "issue_inv (updateRequest (p_tenant p) rid (\<lambda>x. ir_version x = version) ?f d1)"
      by (rule reviewed_issue [OF inv1 r1]) simp_all
    then show ?thesis using issue_frames(3) [OF fr] by (rule issue_inv_frame)
  qed (rule createApprovedInvoiceAttempt_issue [OF inv1 r1 _ ids], simp)
qed

lemma ReviewSpecialInvoice_issue:
  assumes inv: "issue_inv d" and ids: "\<And>k. e_ids e k \<noteq> ''''" and ok: "ReviewSpecialInvoice s e p rid version approve reason d = Inr (w, d')"
  shows "issue_inv d'"
proof -
  let ?f = "\<lambda>x. x\<lparr>ir_status := IR_REJECTED, ir_rejection := reason\<rparr>"
  from ReviewSpecialInvoice_Inr [OF ok] obtain r d1 rv d2 where
    r: "find (submittedRequest (p_tenant p) rid version IR_SPECIAL_REVIEW) (invoice_requests (taxes d)) = Some r"
    and fr: "scopeFrame d d1" "eventFrame (set_reviews rv d1) d2"
    and rest: "if approve then createApprovedInvoiceAttempt s e 2 p rid version d2 = Inr (w, d')
     else d' = releaseReservations ia_reserved (p_tenant p) rid (updateRequest (p_tenant p) rid (\<lambda>_. True) ?f d2)" by blast
  have t: "issueTables d2 = issueTables d" using issue_frames(1) [OF fr(1)] issue_frames(3) [OF fr(2)] by simp
  have inv2: "issue_inv d2" using inv t by (rule issue_inv_frame)
  have r2: "find (submittedRequest (p_tenant p) rid version IR_SPECIAL_REVIEW) (invoice_requests (taxes d2)) = Some r"
    using r issueTables_sel(1) [OF t] by simp
  show ?thesis
  proof (cases approve)
    case True
    with rest show ?thesis by (intro createApprovedInvoiceAttempt_issue [OF inv2 r2 _ ids]) simp_all
  next
    case False
    have "issue_inv (updateRequest (p_tenant p) rid (\<lambda>_. True) ?f d2)" by (rule reviewed_issue [OF inv2 r2]) simp_all
    then show ?thesis by (rule issue_inv_frame) (use False rest in simp)
  qed
qed

lemma RecoverFailedInvoice_issue:
  assumes inv: "issue_inv d" and ok: "RecoverFailedInvoice s e p key rid version reason d = Inr (w, d')"
  shows "issue_inv d'"
proof -
  let ?f = "\<lambda>x. x\<lparr>ir_status := IR_SUBMITTED, ir_approved_by := ''''\<rparr>"
  from ok obtain d1 where t: "issueTables d1 = issueTables d" and rest: "d' = d1 \<or>
      eventFrame (updateRequest (p_tenant p) rid (\<lambda>x. ir_version x = version \<and> ir_status x = IR_ISSUE_FAILED) ?f d1) d'"
    by (auto simp: RecoverFailedInvoice_def andThen_eq_Inr Let_def split: if_splits option.splits dest!: outbox_frame idem_issue)
  have inv1: "issue_inv d1" using inv t by (rule issue_inv_frame)
  have "issue_inv (updateRequest (p_tenant p) rid (\<lambda>x. ir_version x = version \<and> ir_status x = IR_ISSUE_FAILED) ?f d1)"
    by (rule updateRequest_issue [OF inv1]) (simp_all add: openRequest_def)
  with rest inv1 show ?thesis by (auto intro: issue_inv_frame [OF _ issue_frames(3)])
qed

subsection \<open>Closing a request\<close>

lemma waiting_unique:
  assumes "issue_ok rs as ts ls" "a \<in> set as" "b \<in> set as" "waiting a" "waiting b" "siblings a b"
  shows "b = a"
proof (rule ccontr)
  assume "b \<noteq> a"
  then have "at_id b \<noteq> at_id a" using attempt_t.row_unique [OF issue_okD(2) [OF assms(1)]] assms(2,3) by blast
  moreover have "siblings b a" using assms(6) by (simp add: siblings_def)
  ultimately show False
    using issue_okD(4) [OF assms(1,2,4)] issue_okD(4) [OF assms(1,3,5)] assms(2,3,6) unfolding newest_open_def by force
qed

text \<open>
  The attempt that waits for the request gets its result and the request leaves the open states.
\<close>

lemma close_request_ok:
  assumes ok: "issue_ok rs as ts ls" and r: "r \<in> set rs" "openRequest r" and m: "m \<in> set as" "waiting m" "requestOf r m"
    and s: "list_all2 settles as bs" and fin: "\<And>b. b \<in> set bs \<Longrightarrow> at_id b = at_id m \<Longrightarrow> \<not> waiting b"
    and P: "\<And>x. x \<in> set rs \<Longrightarrow> P x \<Longrightarrow> ir_id x = ir_id r"
    and f: "\<And>r. ir_id (f r) = ir_id r" "\<And>r. ir_tenant (f r) = ir_tenant r"
  shows "issue_ok (update_rows P f rs) bs ts ls"
proof (rule update_requests_ok [OF update_attempts_ok [OF ok s] f])
  have one: "x = r" if "x \<in> set rs" "P x" for x
    using request_t.row_unique [OF issue_okD(1) [OF ok] that(1) r(1) P [OF that]] .
  show "ir_status (f x) = IR_ISSUED" if "x \<in> set rs" "P x" "ir_status x = IR_ISSUED" for x
    using one [OF that(1,2)] that(3) r(2) by (simp add: openRequest_def)
  fix x b assume x: "x \<in> set rs" "P x" and b: "b \<in> set bs" "requestOf x b" "waiting b"
  from settles_in [OF s b(1)] obtain a where a: "a \<in> set as" "settles a b" by blast
  then have "waiting a" "at_id b = at_id a" "siblings m a"
    using b(2,3) one [OF x] m(3) by (auto simp: settles_def attemptFactsOf_def siblings_def requestOf_def)
  with waiting_unique [OF ok m(1) a(1) m(2)] fin [OF b(1)] b(3) show "openRequest (f x)" by blast
qed

lemma not_issued_no_invoice:
  assumes ok: "issue_ok rs as ts ls" and r: "r \<in> set rs" "ir_status r \<noteq> IR_ISSUED"
    and t: "ti_request t = ir_id r" "ti_tenant t = ir_tenant r" and u: "u \<in> set ts"
  shows "\<not> sameRequest t u"
proof
  assume "sameRequest t u"
  from issue_okD(5) [OF ok u] obtain x where "x \<in> set rs" "ir_id x = ti_request u" "ir_status x = IR_ISSUED"
    unfolding issued_for_def by blast
  moreover from this \<open>sameRequest t u\<close> t have "ir_id x = ir_id r" by (simp add: sameRequest_def)
  ultimately have "x = r" using request_t.row_unique [OF issue_okD(1) [OF ok] _ r(1)] by blast
  with \<open>ir_status x = IR_ISSUED\<close> r(2) show False by simp
qed

lemma updated_attempt:
  fixes as :: "issue_attempt list"
  assumes "keyed at_id as" "m \<in> set as" "P m" "b \<in> set (update_rows P f as)" "at_id b = at_id m" "\<And>a. at_id (f a) = at_id a"
  shows "b = f m"
proof -
  from assms(4) obtain a where a: "a \<in> set as" "b = (if P a then f a else a)" by (rule in_update_rowsE)
  then have "at_id a = at_id m" using assms(5,6) by (cases "P a") simp_all
  from attempt_t.row_unique [OF assms(1) a(1) assms(2) this] a assms(3) show ?thesis by simp
qed

text \<open>The invoice is stored and the request becomes issued.\<close>

lemma issue_request_ok:
  assumes ok: "issue_ok rs as ts ls" and r: "r \<in> set rs" "openRequest r" and m: "m \<in> set as" "waiting m" "requestOf r m"
    and s: "list_all2 settles as bs" and fin: "\<And>b. b \<in> set bs \<Longrightarrow> at_id b = at_id m \<Longrightarrow> \<not> waiting b"
    and P: "\<And>x. x \<in> set rs \<Longrightarrow> P x \<Longrightarrow> ir_id x = ir_id r" "P r"
    and f: "\<And>r. ir_id (f r) = ir_id r" "\<And>r. ir_tenant (f r) = ir_tenant r" "ir_status (f r) = IR_ISSUED"
    and ins: "insert_row tax_invoice_clash t ts = Inr ts'" and t: "ti_request t = ir_id r" "ti_tenant t = ir_tenant r"
  shows "issue_ok (update_rows P f rs) bs ts' ls"
proof (rule insert_invoice_ok [OF close_request_ok [OF ok r m s fin P(1) f(1,2)] ins])
  show "issued_for (update_rows P f rs) t"
    using in_update_rowsI [OF r(1), of P f] P(2) f t unfolding issued_for_def by (intro bexI [of _ "f r"]) simp_all
  have "ir_status r \<noteq> IR_ISSUED" using r(2) by (auto simp: openRequest_def)
  then show "\<not> blue ls t \<or> (\<forall>u \<in> set ts. \<not> sameRequest t u)" using not_issued_no_invoice [OF ok r(1) _ t] by blast
qed

lemma RegisterManualInvoice_issue:
  assumes inv: "issue_inv d" and ok: "RegisterManualInvoice s e p rid i d = Inr (w, d')"
  shows "issue_inv d'"
proof -
  from RegisterManualInvoice_Inr [OF ok] obtain k r cs d1 ts d2 where pm: "pendingManual d (p_tenant p) rid = Inr (r, cs)"
    and fr: "scopeFrame d d1" "eventFrame d2 d'"
    and ins: "insert_row tax_invoice_clash (manualInvoice (e_ids e 0) r (toUpper (trimSpace (cs_currency cs))) k) (tax_invoices (taxes d1)) = Inr ts"
    and cl: "closeManual (p_tenant p) rid (e_ids e 0) ts d1 = Inr d2" by blast
  let ?t = "p_tenant p"
  from pm obtain m where r: "r \<in> set (invoice_requests (taxes d))" "req_is ?t rid r" "ir_status r = IR_ISSUE_PENDING"
    and m: "m \<in> set (issue_attempts (taxes d))" "requestOf r m" "at_channel m = MANUAL" "at_status m = AT_PENDING"
    by (auto simp: pendingManual_def andThen_eq_Inr query_row_Inr requestOf_def dest!: find_SomeD)
  let ?g = "\<lambda>a. a\<lparr>at_status := AT_ISSUED, at_external_invoice := e_ids e 0\<rparr>"
  have man: "manualAttempt ?t rid m" using m r(2) by (simp add: manualAttempt_def attemptOf_def requestOf_def req_is_def)
  have s: "list_all2 settles (issue_attempts (taxes d)) (update_rows (manualAttempt ?t rid) ?g (issue_attempts (taxes d)))"
    by (rule settles_update) (simp add: settles_def attemptFactsOf_def waiting_def liveAttempt_def)
  have fin: "\<not> waiting b" if "b \<in> set (update_rows (manualAttempt ?t rid) ?g (issue_attempts (taxes d)))" "at_id b = at_id m" for b
    using updated_attempt [where P = "manualAttempt ?t rid" and f = ?g, OF issue_okD(2) [OF inv [unfolded issue_inv_eq]] m(1) man that(1)] that(2)
    by (simp add: waiting_def liveAttempt_def)
  have "issue_ok (update_rows (\<lambda>x. req_is ?t rid x \<and> True) (\<lambda>x. (x\<lparr>ir_status := IR_ISSUED\<rparr>)\<lparr>ir_version := ir_version x + 1\<rparr>) (invoice_requests (taxes d)))
      (update_rows (manualAttempt ?t rid) ?g (issue_attempts (taxes d))) ts (red_flush_relations (taxes d))"
    by (rule issue_request_ok [OF inv [unfolded issue_inv_eq] r(1) _ m(1) _ m(2) s fin _ _ _ _ _
          ins [unfolded frame_taxes(1) [OF fr(1)]]])
       (use r m in \<open>auto simp: openRequest_def waiting_def liveAttempt_def req_is_def manualInvoice_def split: prod.splits\<close>)
  then have "issue_inv (manualClosed ?t rid (e_ids e 0) ts d1)"
    by (simp add: issue_inv_eq manualClosed_def Let_def updateRequest_def set_requests_def set_attempts_def set_tax_invoices_def
        frame_taxes(1) [OF fr(1)])
  moreover have "issueTables d' = issueTables (manualClosed ?t rid (e_ids e 0) ts d1)"
    using invoiceReserved_issue [OF cl [unfolded closeManual_eq]] issue_frames(3) [OF fr(2)] by simp
  ultimately show ?thesis by (rule issue_inv_frame)
qed

subsection \<open>Cancelling\<close>

lemma best_newest: "best newerAttempt l = Some m \<Longrightarrow> x \<in> set l \<Longrightarrow> at_no x \<le> at_no m"
proof (induction l arbitrary: m)
  case (Cons a l)
  show ?case
  proof (cases "best newerAttempt l")
    case None
    with Cons.prems show ?thesis by simp
  next
    case (Some k)
    then have m: "m = (if newerAttempt k a then k else a)" using Cons.prems(1) by (simp split: if_splits)
    have "at_no k \<le> at_no m" "at_no a \<le> at_no m" unfolding m by (auto simp: newerAttempt_def)
    moreover have "x = a \<or> at_no x \<le> at_no k" using Cons.IH [OF Some] Cons.prems(2) by auto
    ultimately show ?thesis by auto
  qed
qed simp

lemma latestAttempt_newest:
  "latestAttempt d t rid = Some m \<Longrightarrow> x \<in> set (issue_attempts (taxes d)) \<Longrightarrow> attemptOf t rid x \<Longrightarrow> at_no x \<le> at_no m"
  "latestAttempt d t rid = Some m \<Longrightarrow> m \<in> set (issue_attempts (taxes d)) \<and> attemptOf t rid m"
  using best_newest [of "filter (attemptOf t rid) (issue_attempts (taxes d))" m x]
    best_in [of newerAttempt "filter (attemptOf t rid) (issue_attempts (taxes d))" m]
  by (simp_all add: latestAttempt_def)

lemma waiting_is_latest:
  assumes inv: "issue_inv d" and l: "latestAttempt d t rid = Some m"
    and a: "a \<in> set (issue_attempts (taxes d))" "attemptOf t rid a" "waiting a"
  shows "a = m"
proof (rule ccontr)
  assume "a \<noteq> m"
  note m = latestAttempt_newest(2) [OF l]
  have "at_id m \<noteq> at_id a"
    using attempt_t.row_unique [OF issue_okD(2) [OF inv [unfolded issue_inv_eq]] a(1)] m \<open>a \<noteq> m\<close> by metis
  moreover have "siblings a m" using a(2) m by (simp add: siblings_def attemptOf_def)
  ultimately have "at_no m < at_no a"
    using issue_okD(4) [OF inv [unfolded issue_inv_eq] a(1,3)] m unfolding newest_open_def by blast
  with latestAttempt_newest(1) [OF l a(1,2)] show False by simp
qed

lemma latestAttempt_None: "latestAttempt d t rid = None \<Longrightarrow> a \<in> set (issue_attempts (taxes d)) \<Longrightarrow> \<not> attemptOf t rid a"
  by (auto simp: latestAttempt_def filter_empty_conv)

text \<open>After the newest attempt is abandoned, no attempt of the request waits.\<close>

lemma abandoned_none_waiting:
  assumes inv: "issue_inv d" and ac: "(attempt, command) = (case latestAttempt d t rid of None \<Rightarrow> ('''', '''') | Some a \<Rightarrow> (at_id a, commandOf a))"
    and never: "attemptNeverAccepted d t attempt command = Inr ()" and ab: "abandonAttempt t attempt d = Inr d'"
  shows "issue_inv d' \<and> invoice_requests (taxes d') = invoice_requests (taxes d) \<and>
    (\<forall>a \<in> set (issue_attempts (taxes d')). attemptOf t rid a \<longrightarrow> \<not> waiting a)"
proof (cases "latestAttempt d t rid")
  case None
  then have "attempt = ''''" using ac by simp
  then have "d' = d" using ab by (simp add: abandonAttempt_def)
  with inv latestAttempt_None [OF None] show ?thesis by blast
next
  case (Some m)
  then have at: "attempt = at_id m" using ac by simp
  note m = latestAttempt_newest(2) [OF Some]
  note k = issue_okD(2) [OF inv [unfolded issue_inv_eq]]
  have ne: "attempt \<noteq> ''''" using issue_okD(7) [OF inv [unfolded issue_inv_eq], of m] m at by simp
  with never obtain x where x: "find (att_is t attempt) (issue_attempts (taxes d)) = Some x" "cancellableAttemptStatus (at_status x)"
    by (auto simp: attemptNeverAccepted_def andThen_eq_Inr query_row_Inr split: if_splits)
  have "x = m" by (rule attempt_t.row_unique [OF k]) (use find_SomeD [OF x(1)] m at in \<open>simp_all add: att_is_def\<close>)
  with x(2) have c: "cancellableAttemptStatus (at_status m)" by simp
  let ?P = "\<lambda>a. att_is t attempt a \<and> cancellableAttemptStatus (at_status a)"
  let ?g = "\<lambda>a. a\<lparr>at_status := AT_ABANDONED\<rparr>"
  have d': "d' = updateAttempt t attempt (\<lambda>a. cancellableAttemptStatus (at_status a)) ?g d"
    using ab ne by (simp add: abandonAttempt_def split: if_splits)
  have "issue_inv d'" unfolding d'
    by (rule updateAttempt_issue [OF inv]) (simp add: settles_def attemptFactsOf_def waiting_def liveAttempt_def)
  moreover have "\<not> waiting b" if b: "b \<in> set (issue_attempts (taxes d'))" "attemptOf t rid b" for b
  proof
    assume w: "waiting b"
    have bs: "b \<in> set (update_rows ?P ?g (issue_attempts (taxes d)))" using b(1) by (simp add: d' updateAttempt_def set_attempts_def)
    then obtain a where a: "a \<in> set (issue_attempts (taxes d))" "b = (if ?P a then ?g a else a)" by (rule in_update_rowsE)
    have ba: "b = a" using a(2) w by (cases "?P a") (simp_all add: waiting_def liveAttempt_def)
    have "a = m" by (rule waiting_is_latest [OF inv Some a(1)]) (use b(2) w ba in simp_all)
    moreover have "?P m" using m at c by (simp add: att_is_def attemptOf_def)
    ultimately have "b = ?g m" using a(2) by simp
    with w show False by (simp add: waiting_def liveAttempt_def)
  qed
  ultimately show ?thesis by (simp add: d' updateAttempt_def set_attempts_def)
qed

lemma withdrawn_issue:
  assumes inv: "issue_inv d" and w: "withdrawn p rid version reason d d'"
  shows "issue_inv d'"
proof -
  let ?t = "p_tenant p"
  from w obtain attempt command d2 d3 d4 where
    ac: "(attempt, command) = (case latestAttempt d ?t rid of None \<Rightarrow> ('''', '''') | Some a \<Rightarrow> (at_id a, commandOf a))"
    and never: "attemptNeverAccepted d ?t attempt command = Inr ()" and sc: "scopeFrame d d2"
    and ab: "abandonAttempt ?t attempt d2 = Inr d3" and ca: "cancelRequest ?t rid version reason d3 = Inr d4"
    and fr: "eventFrame (releaseReservations (\<lambda>a. ia_reserved a - ia_invoiced a) ?t rid d4) d'"
    unfolding withdrawn_def by blast
  have t: "taxes d2 = taxes d" by (rule frame_taxes(1) [OF sc])
  have "latestAttempt d2 ?t rid = latestAttempt d ?t rid" "attemptNeverAccepted d2 ?t attempt command = attemptNeverAccepted d ?t attempt command"
    by (simp_all add: latestAttempt_def attemptNeverAccepted_def t)
  then have d3: "issue_inv d3" "\<forall>a \<in> set (issue_attempts (taxes d3)). attemptOf ?t rid a \<longrightarrow> \<not> waiting a"
    using abandoned_none_waiting [OF issue_inv_frame [OF inv issueTables_taxes [OF t]], of attempt command ?t rid d3] ac never ab
    by simp_all
  let ?P = "\<lambda>r. ir_version r = version \<and> cancellableRequestStatus (ir_status r)"
  have d4: "d4 = updateRequest ?t rid ?P (\<lambda>r. r\<lparr>ir_status := IR_CANCELLED, ir_rejection := reason\<rparr>) d3"
    using ca by (simp add: cancelRequest_def split: if_splits)
  have "issue_inv d4" unfolding d4
  proof (rule updateRequest_issue [OF d3(1)])
    fix x assume x: "req_is ?t rid x" "?P x"
    then have "\<forall>a \<in> set (issue_attempts (taxes d3)). requestOf x a \<longrightarrow> \<not> waiting a"
      using d3(2) by (auto simp: requestOf_def attemptOf_def req_is_def)
    with x show "ir_status x \<noteq> IR_ISSUED \<and> (openRequest x \<longrightarrow> openRequest (x\<lparr>ir_status := IR_CANCELLED, ir_rejection := reason\<rparr>) \<or>
        (\<forall>a \<in> set (issue_attempts (taxes d3)). requestOf x a \<longrightarrow> \<not> waiting a))"
      by (auto simp: cancellableRequestStatus_def)
  qed simp_all
  then show ?thesis by (rule issue_inv_frame) (use issue_frames(3) [OF fr] in simp)
qed

lemma CancelInvoiceRequest_issue:
  assumes inv: "issue_inv d" and ok: "CancelInvoiceRequest s e p key rid version reason d = Inr (w, d')"
  shows "issue_inv d'"
  using CancelInvoiceRequest_Inr [OF ok refl]
proof (elim disjE exE conjE)
  fix d1 assume fr: "idemFrame d d1" and w: "withdrawn p (trimSpace rid) version (trimSpace reason) d1 d'"
  show ?thesis by (rule withdrawn_issue [OF issue_inv_frame [OF inv issue_frames(2) [OF fr]] w])
qed (use inv in simp)

subsection \<open>Tax results\<close>

definition recorded :: "TaxCallbackEvent \<Rightarrow> (issue_attempt \<Rightarrow> issue_attempt) \<Rightarrow> issue_attempt \<Rightarrow> issue_attempt" where
  "recorded v f a = (f a)\<lparr>at_sequence := ev_sequence v, at_last_event := ev_id v,
     at_operation := coalesce (at_operation a) (nullable (ev_operation v))\<rparr>"

lemma recordResult_eq:
  assumes "recordResult t v f d = Inr d'"
  shows "d' = updateAttempt t (ev_attempt v) (\<lambda>_. True) (recorded v f) d"
  using assms by (simp add: recordResult_def recorded_def [abs_def] split: if_splits)

lemma attemptFacts_Inr:
  assumes "attemptFacts d t aid = Inr (a, r, cs)"
  shows "a \<in> set (issue_attempts (taxes d))" "att_is t aid a" "r \<in> set (invoice_requests (taxes d))" "requestOf r a" "ir_tenant r = t"
  using assms by (auto simp: attemptFacts_def andThen_eq_Inr query_row_Inr requestOf_def att_is_def dest!: find_SomeD)

text \<open>The attempt of the result is the one its request waits for.\<close>

lemma recorded_settles:
  assumes "\<And>a. attemptFactsOf (f a) = attemptFactsOf a" "\<And>a. waiting (f a) \<Longrightarrow> waiting a"
  shows "list_all2 settles as (update_rows P (recorded v f) as)"
  by (rule settles_update) (use assms in \<open>simp add: settles_def recorded_def attemptFactsOf_def waiting_def\<close>)

lemma recorded_final:
  assumes "keyed at_id as" "a \<in> set as" "att_is t aid a" "b \<in> set (update_rows (\<lambda>a. att_is t aid a \<and> True) (recorded v f) as)"
    and "at_id b = at_id a" "\<And>a. at_id (f a) = at_id a" "\<And>a. \<not> waiting (f a)"
  shows "\<not> waiting b"
proof -
  have "b = recorded v f a"
    by (rule updated_attempt [where P = "\<lambda>a. att_is t aid a \<and> True", OF assms(1,2) _ assms(4,5)])
       (use assms(3,6) in \<open>simp_all add: recorded_def\<close>)
  with assms(7) [of a] show ?thesis by (simp add: recorded_def waiting_def)
qed

lemma waiting_open:
  assumes inv: "issue_inv d" and f: "attemptFacts d t aid = Inr (a, r, cs)" and l: "liveAttempt (at_status a)"
  shows "openRequest r" "waiting a"
proof -
  note a = attemptFacts_Inr [OF f]
  show w: "waiting a" using l by (simp add: waiting_def)
  from issue_okD(4) [OF inv [unfolded issue_inv_eq] a(1) w] obtain x where "x \<in> set (invoice_requests (taxes d))" "requestOf x a" "openRequest x"
    by (auto simp: newest_open_def)
  moreover from this a(4) have "ir_id x = ir_id r" by (simp add: requestOf_def)
  ultimately show "openRequest r"
    using request_t.row_unique [OF issue_okD(1) [OF inv [unfolded issue_inv_eq]] _ a(3), of x] by simp
qed

lemma issueInvoice_issue:
  assumes inv: "issue_inv d" and f: "attemptFacts d t (ev_attempt v) = Inr (a, r, cs)" and l: "liveAttempt (at_status a)"
    and ok: "issueInvoice e t r cs v x d = Inr d'"
  shows "issue_inv d'"
proof -
  let ?f = "\<lambda>a. a\<lparr>at_status := AT_ISSUED, at_external_invoice := xr_external x, at_invoice := Some (e_ids e 1),
      at_failure_code := '''', at_failure_message := '''', at_next_reconcile := None\<rparr>"
  from issueInvoice_Inr [OF ok] obtain ts d1 d2 d3 where
    ins: "insert_row tax_invoice_clash (adapterInvoice e (e_ids e 1) r (cs_currency cs) v x) (tax_invoices (taxes d)) = Inr ts"
    and it: "insertTaxItems (\<lambda>y. y) e 2 t (e_ids e 1) 1 (xr_items x) (set_tax_invoices ts d) = Inr d1"
    and rec: "recordResult t v ?f d1 = Inr d2"
    and fin: "finalizeInvoiceAllocations t (ir_id r) (updateRequest t (ir_id r) openRequest (\<lambda>q. q\<lparr>ir_status := IR_ISSUED\<rparr>) d2) = Inr d3"
    and ev: "eventFrame d3 d'" by blast
  note a = attemptFacts_Inr [OF f] and w = waiting_open [OF inv f l]
  note d1 = issueTables_sel [OF insertTaxItems_issue [OF it]]
  have s: "list_all2 settles (issue_attempts (taxes d))
      (update_rows (\<lambda>a. att_is t (ev_attempt v) a \<and> True) (recorded v ?f) (issue_attempts (taxes d)))"
    by (rule recorded_settles) (simp_all add: attemptFactsOf_def waiting_def liveAttempt_def)
  have fin1: "\<not> waiting b" if "b \<in> set (update_rows (\<lambda>a. att_is t (ev_attempt v) a \<and> True) (recorded v ?f) (issue_attempts (taxes d)))"
      "at_id b = at_id a" for b
    by (rule recorded_final [OF issue_okD(2) [OF inv [unfolded issue_inv_eq]] a(1,2) that]) (simp_all add: waiting_def liveAttempt_def)
  have "issue_ok (update_rows (\<lambda>q. req_is t (ir_id r) q \<and> openRequest q)
        (\<lambda>q. (q\<lparr>ir_status := IR_ISSUED\<rparr>)\<lparr>ir_version := ir_version q + 1\<rparr>) (invoice_requests (taxes d)))
      (update_rows (\<lambda>a. att_is t (ev_attempt v) a \<and> True) (recorded v ?f) (issue_attempts (taxes d))) ts (red_flush_relations (taxes d))"
    by (rule issue_request_ok [OF inv [unfolded issue_inv_eq] a(3) w(1) a(1) w(2) a(4) s fin1 _ _ _ _ _ ins])
       (use a(5) w(1) in \<open>simp_all add: req_is_def adapterInvoice_def\<close>)
  then have "issue_inv (updateRequest t (ir_id r) openRequest (\<lambda>q. q\<lparr>ir_status := IR_ISSUED\<rparr>) d2)"
    by (simp add: issue_inv_eq recordResult_eq [OF rec] updateRequest_def updateAttempt_def set_requests_def set_attempts_def
        d1 set_tax_invoices_def)
  then show ?thesis
    by (rule issue_inv_frame) (use issue_frames(3) [OF ev] invoiceReserved_issue [OF fin [unfolded finalizeInvoiceAllocations_def]] in simp)
qed

lemma missedResult_issue:
  assumes inv: "issue_inv d" and f: "attemptFacts d t (ev_attempt v) = Inr (a, r, cs)" and l: "liveAttempt (at_status a)"
    and rec: "recordResult t v g d = Inr d1" and g: "sameAttempt g st" and m: "missed st q"
  shows "issue_inv (updateRequest t (ir_id r) openRequest (\<lambda>x. x\<lparr>ir_status := q\<rparr>) d1)"
proof -
  note a = attemptFacts_Inr [OF f] and w = waiting_open [OF inv f l]
  let ?P = "\<lambda>a. att_is t (ev_attempt v) a \<and> True"
  let ?as = "update_rows ?P (recorded v g) (issue_attempts (taxes d))"
  let ?Q = "\<lambda>x. req_is t (ir_id r) x \<and> openRequest x"
  let ?h = "\<lambda>x. (x\<lparr>ir_status := q\<rparr>)\<lparr>ir_version := ir_version x + 1\<rparr>"
  have tab: "issue_inv (updateRequest t (ir_id r) openRequest (\<lambda>x. x\<lparr>ir_status := q\<rparr>) d1) =
      issue_ok (update_rows ?Q ?h (invoice_requests (taxes d))) ?as (tax_invoices (taxes d)) (red_flush_relations (taxes d))"
    by (simp add: issue_inv_eq recordResult_eq [OF rec] updateRequest_def updateAttempt_def set_requests_def set_attempts_def)
  have wf: "attemptFactsOf (g b) = attemptFactsOf b" "at_status (g b) = st" for b using g by (simp_all add: sameAttempt_def attemptFactsOf_def)
  have id: "at_id (g b) = at_id b" for b using wf(1) [of b] by (simp add: attemptFactsOf_def)
  from m show ?thesis unfolding missed_def
  proof (elim disjE conjE)
    assume u: "st = AT_UNKNOWN" "q = IR_ISSUE_UNKNOWN"
    have "list_all2 settles (issue_attempts (taxes d)) ?as"
    proof (rule settles_update)
      fix b assume b: "b \<in> set (issue_attempts (taxes d))" "?P b"
      have "b = a" by (rule attempt_t.row_unique [OF issue_okD(2) [OF inv [unfolded issue_inv_eq]] b(1) a(1)])
          (use a(2) b(2) in \<open>simp add: att_is_def\<close>)
      then show "settles b (recorded v g b)" using w(2) wf(1) [of b] by (simp add: settles_def recorded_def attemptFactsOf_def)
    qed
    from update_attempts_ok [OF inv [unfolded issue_inv_eq] this] show ?thesis unfolding tab
      by (rule update_requests_ok) (simp_all add: u openRequest_def)
  next
    assume u: "st = AT_ISSUE_FAILED" "q = IR_ISSUE_FAILED"
    have nw: "\<not> waiting (g b)" for b using wf(2) [of b] u by (simp add: waiting_def liveAttempt_def)
    have s: "list_all2 settles (issue_attempts (taxes d)) ?as" by (rule recorded_settles) (use wf(1) nw in simp_all)
    show ?thesis unfolding tab
      by (rule close_request_ok [OF inv [unfolded issue_inv_eq] a(3) w(1) a(1) w(2) a(4) s
            recorded_final [OF issue_okD(2) [OF inv [unfolded issue_inv_eq]] a(1,2) _ _ id nw]]) (simp_all add: req_is_def)
  qed
qed

lemma recordLate_issue:
  assumes inv: "issue_inv d" and ok: "recordLateIssueCallbackAfterCancel e t a r v d = Inr (w, d')"
  shows "issue_inv d'"
proof (cases "d' = d")
  case False
  with ok obtain d1 where rec: "recordResult t v (\<lambda>x. x\<lparr>at_failure_code := ''PROVIDER_CONFLICT_AFTER_CANCEL'',
      at_failure_message := lateCallbackMessage\<rparr>) d = Inr d1" and ev: "eventFrame d1 d'"
    by (auto simp: recordLateIssueCallbackAfterCancel_def andThen_eq_Inr split: if_splits dest!: outbox_frame)
  have "issue_inv d1" unfolding recordResult_eq [OF rec]
    by (rule updateAttempt_issue [OF inv]) (simp add: settles_def recorded_def attemptFactsOf_def waiting_def)
  then show ?thesis using issue_frames(3) [OF ev] by (rule issue_inv_frame)
qed (use inv in simp)

lemma applyInvoiceIssueCallback_issue:
  assumes inv: "issue_inv d" and ok: "applyInvoiceIssueCallback e t v d = Inr (w, d')"
  shows "issue_inv d'"
proof (rule applyInvoiceIssueCallback_Inr [OF ok], elim disjE conjE)
  fix a r cs assume f: "attemptFacts d t (ev_attempt v) = Inr (a, r, cs)" and l: "liveAttempt (at_status a)"
    and res: "applyIssueResult e t r cs v d = Inr (w, d')"
  from applyIssueResult_Inr [OF res] show ?thesis
  proof (elim conjE disjE exE)
    fix x assume "issueInvoice e t r cs v x d = Inr d'"
    then show ?thesis by (rule issueInvoice_issue [OF inv f l])
  next
    fix g st q d1 assume "recordResult t v g d = Inr d1" "sameAttempt g st" "missed st q"
      and d': "d' = updateRequest t (ir_id r) openRequest (\<lambda>x. x\<lparr>ir_status := q\<rparr>) d1"
    then show ?thesis unfolding d' by (intro missedResult_issue [OF inv f l])
  qed
qed (use inv recordLate_issue in blast)+

lemma redFacts_Inr:
  assumes "redFacts d t aid = Inr (a, f, ti)"
  shows "a \<in> set (red_flush_attempts (taxes d))" "ti \<in> set (tax_invoices (taxes d))" "ti_tenant ti = t" "ti_id ti = ra_invoice a"
    "rf_id f = ra_request a" "f \<in> set (red_flush_requests (taxes d))" "rf_tenant f = t" "ratt_is t aid a"
  using assms by (auto simp: redFacts_def andThen_eq_Inr query_row_Inr ratt_is_def dest!: find_SomeD)

lemma storeRedInvoice_issue:
  assumes inv: "issue_inv d" and ti: "ti \<in> set (tax_invoices (taxes d))" "ti_tenant ti = t"
    and ok: "storeRedInvoice e t fid f ti v x d = Inr d'"
  shows "issue_inv d'"
proof -
  let ?l = "newRelation (e_ids e (2 + length (xr_items x))) t fid f (ti_id ti) (e_ids e 1)"
  let ?P = "\<lambda>y. ti_id y = ti_id ti \<and> ti_tenant y = t \<and> ti_status y = ISSUED"
  from ok obtain ts d1 ls where ins: "insert_row tax_invoice_clash (redInvoice e (e_ids e 1) ti v x) (tax_invoices (taxes d)) = Inr ts"
    and it: "insertTaxItems negateItem e 2 t (e_ids e 1) 1 (xr_items x) (set_tax_invoices ts d) = Inr d1"
    and rel: "insert_row relation_clash ?l (red_flush_relations (taxes d1)) = Inr ls"
    and d': "d' = set_tax_invoices (update_rows ?P (\<lambda>y. y\<lparr>ti_status := RED_FLUSHED\<rparr>) (tax_invoices (taxes d1))) (set_relations ls d1)"
    by (auto simp: storeRedInvoice_def Let_def andThen_eq_Inr)
  note d1 = issueTables_sel [OF insertTaxItems_issue [OF it]]
  have ls: "ls = red_flush_relations (taxes d) @ [?l]" using rel by (simp add: insert_row_Inr d1 set_tax_invoices_def)
  have "issue_ok (invoice_requests (taxes d)) (issue_attempts (taxes d)) (tax_invoices (taxes d)) ls"
    by (rule add_relation_ok [OF inv [unfolded issue_inv_eq]]) (auto simp: ls)
  then have "issue_ok (invoice_requests (taxes d)) (issue_attempts (taxes d)) ts ls"
  proof (rule insert_invoice_ok [OF _ ins])
    show "issued_for (invoice_requests (taxes d)) (redInvoice e (e_ids e 1) ti v x)"
      using issue_okD(5) [OF inv [unfolded issue_inv_eq] ti(1)] by (simp add: issued_for_def redInvoice_def)
    show "\<not> blue ls (redInvoice e (e_ids e 1) ti v x) \<or> (\<forall>u \<in> set (tax_invoices (taxes d)). \<not> sameRequest (redInvoice e (e_ids e 1) ti v x) u)"
      by (simp add: blue_def ls newRelation_def redInvoice_def ti)
  qed
  from update_invoices_ok [OF this, of "\<lambda>y. y\<lparr>ti_status := RED_FLUSHED\<rparr>" ?P] show ?thesis
    by (simp add: issue_inv_eq d' set_tax_invoices_def set_relations_def d1)
qed

lemma recordRedResult_issue: "recordRedResult t v g d = Inr d' \<Longrightarrow> issueTables d' = issueTables d"
  by (auto simp: recordRedResult_def split: if_splits)

lemma flushInvoice_issue:
  assumes inv: "issue_inv d" and ti: "ti \<in> set (tax_invoices (taxes d))" "ti_tenant ti = t"
    and ok: "flushInvoice e t fid f ti v x d = Inr d'"
  shows "issue_inv d'"
proof -
  from ok obtain d1 g d2 n d3 where st: "storeRedInvoice e t fid f ti v x d = Inr d1"
    "recordRedResult t v g (updateRedRequest t fid (\<lambda>q. q\<lparr>rf_status := RF_RED_FLUSHED\<rparr>) d1) = Inr d2"
    and rev: "reverseInvoiceAllocations e (3 + length (xr_items x)) t fid (ti_request ti) d2 = Inr (n, d3)"
    and fr: "eventFrame d3 d'"
    by (auto simp: flushInvoice_def andThen_eq_Inr split: if_splits dest!: outbox_frame)
  have "issueTables d' = issueTables d1"
    using recordRedResult_issue [OF st(2)] reverseRows_issue [OF rev [unfolded reverseInvoiceAllocations_def]] issue_frames(3) [OF fr] by simp
  with storeRedInvoice_issue [OF inv ti st(1)] show ?thesis by (rule issue_inv_frame)
qed

lemma applyRedFlushCallback_issue:
  assumes inv: "issue_inv d" and ok: "applyRedFlushCallback e t v d = Inr (w, d')"
  shows "issue_inv d'"
proof (rule applyRedFlushCallback_Inr [OF ok], elim disjE conjE)
  fix a f ti assume r: "redFacts d t (ev_red_attempt v) = Inr (a, f, ti)" and "applyRedResult e t (redRequestOf v a) f ti v d = Inr (w, d')"
  from applyRedResult_Inr [OF this(2)] show ?thesis
  proof (elim conjE disjE exE)
    fix x assume "flushInvoice e t (redRequestOf v a) f ti v x d = Inr d'"
    then show ?thesis by (rule flushInvoice_issue [OF inv redFacts_Inr(2,3) [OF r]])
  next
    fix g q d1 assume "recordRedResult t v g d = Inr d1" "d' = updateRedRequest t (redRequestOf v a) q d1"
    then have "issueTables d' = issueTables d" using recordRedResult_issue by simp
    with inv show ?thesis by (rule issue_inv_frame)
  qed
qed (use inv in simp)

lemma ApplyTaxCallback_issue:
  assumes inv: "issue_inv d" and ok: "ApplyTaxCallback e trusted v d = Inr (w, d')"
  shows "issue_inv d'"
proof -
  have r: "issue_inv (set_results ts d)" for ts by (rule issue_inv_frame [OF inv]) simp
  have s: "issue_inv d1 \<Longrightarrow> issue_inv (set_results ts d1)" for d1 ts by (erule issue_inv_frame) simp
  from ApplyTaxCallback_Inr [OF ok refl refl] show ?thesis
    using inv applyInvoiceIssueCallback_issue [OF r] applyRedFlushCallback_issue [OF r] by (auto split: if_splits intro: s)
qed

end
