(* ===== verification/TaxReconcile.thy ===== *)
theory TaxReconcile
  imports OutboxWorker
begin

text \<open>
  The worker that asks the tax provider for results that were not pushed (internal/taxreconcile/worker.go). A pass takes the attempts
  that are due, claims each of them by moving its next inquiry into the future, and hands what the status endpoint answers to the
  same state machine as a pushed result. What the access token, the URL parser and the endpoint answer are arguments, the body of an
  answer as the event that Go's decoder makes of it.
\<close>

section \<open>Delays\<close>

definition reconcileDelays :: "int list" where
  "reconcileDelays = [30000, 60000, 300000, 900000, 1800000, 3600000]"

definition NextDelay :: "int \<Rightarrow> int" where
  "NextDelay attempt =
     (let n = (if attempt < 0 then 0 else attempt) in
      if n \<ge> int (length reconcileDelays) then reconcileDelays ! (length reconcileDelays - 1) else reconcileDelays ! nat n)"

section \<open>Candidates\<close>

datatype reconcile_err =
    ReconcileLicence | ReconcileNotConfigured | ReconcileToken | ReconcileRequest | ReconcileStatus int | ReconcileDecode | ReconcileIdentity
  | ReconcileApply go_err

record reconcile_reply =
  rq_status :: int
  rq_event :: "TaxCallbackEvent option"

record ReconcileWorker =
  tw_licence :: "(nat \<Rightarrow> bool) option"
  tw_url :: string
  tw_token :: "nat \<Rightarrow> string option"
  tw_parses :: "string \<Rightarrow> bool"
  tw_http :: "nat \<Rightarrow> string \<Rightarrow> string \<Rightarrow> reconcile_reply option"
  tw_batch :: int

record reconcile_item =
  qi_red :: bool
  qi_id :: string
  qi_tenant :: string
  qi_external :: string
  qi_attempts :: nat

definition polledStatus :: "attempt_status \<Rightarrow> bool" where
  "polledStatus st \<longleftrightarrow> st = AT_ACCEPTED \<or> st = AT_UNKNOWN"

definition reached :: "int \<Rightarrow> int option \<Rightarrow> bool" where
  "reached now next = (case next of None \<Rightarrow> False | Some x \<Rightarrow> x \<le> now)"

definition issueDue :: "int \<Rightarrow> issue_attempt \<Rightarrow> bool" where
  "issueDue now a \<longleftrightarrow> at_channel a = TAX_ADAPTER \<and> polledStatus (at_status a) \<and> reached now (at_next_reconcile a)"

definition redDue :: "int \<Rightarrow> red_flush_attempt \<Rightarrow> bool" where
  "redDue now a \<longleftrightarrow> polledStatus (ra_status a) \<and> reached now (ra_next_reconcile a)"

definition issueItem :: "issue_attempt \<Rightarrow> reconcile_item" where
  "issueItem a = \<lparr>qi_red = False, qi_id = at_id a, qi_tenant = at_tenant a, qi_external = at_external_request a, qi_attempts = at_reconciles a\<rparr>"

definition redItem :: "red_flush_attempt \<Rightarrow> reconcile_item" where
  "redItem a = \<lparr>qi_red = True, qi_id = ra_id a, qi_tenant = ra_tenant a, qi_external = ra_external_request a, qi_attempts = ra_reconciles a\<rparr>"

definition itemBefore :: "reconcile_item \<Rightarrow> reconcile_item \<Rightarrow> bool" where
  "itemBefore a b \<longleftrightarrow> qi_attempts a < qi_attempts b \<or> qi_attempts a = qi_attempts b \<and> strLess (qi_id a) (qi_id b)"

definition reconcileItems :: "int \<Rightarrow> nat \<Rightarrow> db \<Rightarrow> reconcile_item list" where
  "reconcileItems now limit d = take limit (orderBy itemBefore
     (map issueItem (filter (issueDue now) (issue_attempts (taxes d))) @ map redItem (filter (redDue now) (red_flush_attempts (taxes d)))))"

section \<open>One attempt\<close>

text \<open>\<open>url.QueryEscape\<close> on bytes.\<close>

definition hexDigit :: "nat \<Rightarrow> char" where
  "hexDigit n = ''0123456789ABCDEF'' ! n"

definition unreserved :: "char \<Rightarrow> bool" where
  "unreserved c \<longleftrightarrow> (let n = of_char c :: nat in 48 \<le> n \<and> n \<le> 57 \<or> 65 \<le> n \<and> n \<le> 90 \<or> 97 \<le> n \<and> n \<le> 122 \<or> c \<in> set ''-_.~'')"

definition queryEscape :: "string \<Rightarrow> string" where
  "queryEscape s = concat (map (\<lambda>c. if unreserved c then [c] else if c = CHR '' '' then ''+''
     else [CHR ''%'', hexDigit (of_char c div 16), hexDigit (of_char c mod 16)]) s)"

definition statusEndpoint :: "ReconcileWorker \<Rightarrow> reconcile_item \<Rightarrow> string" where
  "statusEndpoint w item = trimSlashes (tw_url w) @ ''?external_request_id='' @ queryEscape (qi_external item)"

text \<open>The claim: an update that only takes effect while the attempt is still due. None when it took no row.\<close>

definition claimIssue :: "env \<Rightarrow> reconcile_item \<Rightarrow> issue_attempt \<Rightarrow> bool" where
  "claimIssue e item a \<longleftrightarrow> at_id a = qi_id item \<and> at_tenant a = qi_tenant item \<and> polledStatus (at_status a) \<and> reached (e_now e) (at_next_reconcile a)"

definition claimRed :: "env \<Rightarrow> reconcile_item \<Rightarrow> red_flush_attempt \<Rightarrow> bool" where
  "claimRed e item a \<longleftrightarrow> ra_id a = qi_id item \<and> ra_tenant a = qi_tenant item \<and> polledStatus (ra_status a) \<and> reached (e_now e) (ra_next_reconcile a)"

definition claimAttempt :: "env \<Rightarrow> reconcile_item \<Rightarrow> db \<Rightarrow> db option" where
  "claimAttempt e item d =
     (let next = e_now e + NextDelay (int (qi_attempts item)) in
      if qi_red item
      then (if affected (claimRed e item) (red_flush_attempts (taxes d)) = 0 then None
            else Some (set_red_attempts (update_rows (claimRed e item)
              (\<lambda>a. a\<lparr>ra_next_reconcile := Some next, ra_reconciles := ra_reconciles a + 1\<rparr>) (red_flush_attempts (taxes d))) d))
      else (if affected (claimIssue e item) (issue_attempts (taxes d)) = 0 then None
            else Some (set_attempts (update_rows (claimIssue e item)
              (\<lambda>a. a\<lparr>at_next_reconcile := Some next, at_reconciles := at_reconciles a + 1\<rparr>) (issue_attempts (taxes d))) d)))"

definition mayGoOn :: "ReconcileWorker \<Rightarrow> nat \<Rightarrow> bool" where
  "mayGoOn w l = (case tw_licence w of None \<Rightarrow> True | Some f \<Rightarrow> f l)"

text \<open>The answer of the endpoint; a transport failure or a result that is not there yet leaves the attempt for its next inquiry.\<close>

definition readStatus :: "reconcile_item \<Rightarrow> reconcile_reply option \<Rightarrow> reconcile_err + TaxCallbackEvent option" where
  "readStatus item reply =
     (case reply of None \<Rightarrow> Inr None
      | Some q \<Rightarrow>
          if rq_status q = 204 \<or> rq_status q = 404 \<or> rq_status q \<ge> 500 then Inr None
          else if rq_status q div 100 \<noteq> 2 then Inl (ReconcileStatus (rq_status q))
          else case rq_event q of None \<Rightarrow> Inl ReconcileDecode
          | Some v \<Rightarrow> if ev_external_request v \<noteq> qi_external item \<or> ev_tenant v \<noteq> qi_tenant item then Inl ReconcileIdentity
                      else Inr (Some v))"

definition reconcile :: "ReconcileWorker \<Rightarrow> env \<Rightarrow> nat \<Rightarrow> reconcile_item \<Rightarrow> db \<Rightarrow> reconcile_err option \<times> db" where
  "reconcile w e k item d =
     (if \<not> mayGoOn w (3 * k + 1) then (Some ReconcileLicence, d)
      else case claimAttempt e item d of
        None \<Rightarrow> (None, d)
      | Some d1 \<Rightarrow>
         (case tw_token w k of
            None \<Rightarrow> (Some ReconcileToken, d1)
          | Some token \<Rightarrow>
              if \<not> tw_parses w (statusEndpoint w item) then (Some ReconcileRequest, d1)
              else if \<not> mayGoOn w (3 * k + 2) then (Some ReconcileLicence, d1)
              else case readStatus item (tw_http w k (statusEndpoint w item) token) of
                Inl err \<Rightarrow> (Some err, d1)
              | Inr None \<Rightarrow> (None, d1)
              | Inr (Some v) \<Rightarrow>
                  if \<not> mayGoOn w (3 * k + 3) then (Some ReconcileLicence, d1)
                  else case ApplyTaxCallback e (qi_tenant item) v d1 of
                    Inl err \<Rightarrow> (Some (ReconcileApply err), d1)
                  | Inr (_, d2) \<Rightarrow> (None, d2)))"

text \<open>The type of the event that the endpoint answers with, empty when there is none.\<close>

definition answerType :: "ReconcileWorker \<Rightarrow> nat \<Rightarrow> reconcile_item \<Rightarrow> string" where
  "answerType w k item =
     (case tw_token w k of None \<Rightarrow> ''''
      | Some token \<Rightarrow> (case readStatus item (tw_http w k (statusEndpoint w item) token) of Inr (Some v) \<Rightarrow> ev_type v | _ \<Rightarrow> ''''))"

section \<open>One pass\<close>

text \<open>The attempts are taken one after the other, with fresh identifiers for each; an error ends the pass.\<close>

fun reconcileAll :: "ReconcileWorker \<Rightarrow> (nat \<Rightarrow> env) \<Rightarrow> nat \<Rightarrow> reconcile_item list \<Rightarrow> db \<Rightarrow> reconcile_err option \<times> db" where
  "reconcileAll w es k [] d = (None, d)"
| "reconcileAll w es k (item # items) d =
     (case reconcile w (es k) k item d of
        (Some err, d1) \<Rightarrow> (Some err, d1)
      | (None, d1) \<Rightarrow> reconcileAll w es (k + 1) items d1)"

definition reconcileBatch :: "ReconcileWorker \<Rightarrow> nat" where
  "reconcileBatch w = (if tw_batch w < 1 \<or> tw_batch w > 200 then 50 else nat (tw_batch w))"

definition ReconcileOnce :: "ReconcileWorker \<Rightarrow> (nat \<Rightarrow> env) \<Rightarrow> db \<Rightarrow> reconcile_err option \<times> db" where
  "ReconcileOnce w es d =
     (if \<not> mayGoOn w 0 then (Some ReconcileLicence, d)
      else if trimSpace (tw_url w) = '''' then (Some ReconcileNotConfigured, d)
      else reconcileAll w es 0 (reconcileItems (e_now (es 0)) (reconcileBatch w) d) d)"

end
