(* ===== verification/SystemRuns.thy ===== *)
theory SystemRuns
  imports IssueOnce TaxReconcile
begin

text \<open>
  The whole service at work: passes of the outbox worker, inquiries at the tax provider and retries of dead letters interleaved
  with the commands and the tax results, and the invariants every such run keeps.
\<close>

section \<open>The outbox\<close>

text \<open>What a pass of the worker may change: the events, and attempts that become accepted.\<close>

definition workFrame :: "db \<Rightarrow> db \<Rightarrow> bool" where
  "workFrame d d' \<longleftrightarrow> bookTables d' = bookTables d \<and> list_all2 settles (issue_attempts (taxes d)) (issue_attempts (taxes d')) \<and>
     invoice_requests (taxes d') = invoice_requests (taxes d) \<and> tax_invoices (taxes d') = tax_invoices (taxes d) \<and>
     red_flush_relations (taxes d') = red_flush_relations (taxes d)"

lemma workFrame_refl [simp]: "workFrame d d"
  by (simp add: workFrame_def)

lemma workFrame_trans: "workFrame d d1 \<Longrightarrow> workFrame d1 d2 \<Longrightarrow> workFrame d d2"
  by (auto simp: workFrame_def intro: settles_list_trans)

lemma workFrame_issue: "workFrame d d' \<Longrightarrow> issue_inv d \<Longrightarrow> issue_inv d'"
  by (auto simp: workFrame_def issue_inv_eq intro: update_attempts_ok)

lemma workFrame_updateEvents [simp]: "workFrame d (updateEvents P f d)"
  by (simp add: workFrame_def updateEvents_def bookTables_def ledgerTables_def)

lemma workFrame_accept [simp]: "workFrame d (acceptIssue now t aid d)" "workFrame d (acceptRedFlush now t aid d)"
proof -
  have "list_all2 settles as (update_rows (\<lambda>a. att_is t aid a \<and> at_status a = AT_PENDING)
      (\<lambda>a. a\<lparr>at_status := AT_ACCEPTED, at_accepted_at := coalesce (at_accepted_at a) (Some now), at_next_reconcile := Some (now + 60000)\<rparr>) as)" for as
    by (rule settles_update) (simp add: settles_def attemptFactsOf_def waiting_def liveAttempt_def)
  then show "workFrame d (acceptIssue now t aid d)" unfolding workFrame_def acceptIssue_def
    by (simp add: updateAttempt_def set_attempts_def)
       (simp add: bookTables_def ledgerTables_def)
  show "workFrame d (acceptRedFlush now t aid d)" unfolding workFrame_def acceptRedFlush_def
    by (simp add: set_red_attempts_def) (simp add: bookTables_def ledgerTables_def)
qed

lemma lockEvents_frame: "lockEvents st now es d = Inr d' \<Longrightarrow> workFrame d d'"
proof (induction es arbitrary: d)
  case (Cons e es)
  then show ?case by (auto split: if_splits intro: workFrame_trans [OF workFrame_updateEvents])
qed simp

lemma deliveredOne_frame: "deliveredOne st now e d = Inr d' \<Longrightarrow> workFrame d d'"
  by (auto simp: deliveredOne_def Let_def split: if_splits option.splits
      intro: workFrame_trans [OF workFrame_updateEvents workFrame_accept(1)]
        workFrame_trans [OF workFrame_updateEvents workFrame_accept(2)])

lemma Delivered_frame: "workFrame d (snd (Delivered st now es d))"
proof (induction es arbitrary: d)
  case (Cons e es)
  then show ?case by (auto split: sum.splits intro: workFrame_trans [OF deliveredOne_frame])
qed simp

lemma Failed_frame: "workFrame d (snd (Failed st now es code summary permanent d))"
proof (induction es arbitrary: d)
  case (Cons e es)
  have "failedOne st now code summary permanent e d = Inr d1 \<Longrightarrow> workFrame d d1" for d1
    by (auto simp: failedOne_def Let_def split: if_splits)
  with Cons show ?case by (auto split: sum.splits intro: workFrame_trans)
qed simp

lemma filter_frame: "workFrame d (snd (filterImportNotifications st es d))"
proof (induction es arbitrary: d)
  case (Cons e es)
  have "workFrame d (cancelStale st e d)" by (simp add: cancelStale_def)
  then show ?case using Cons.IH by (auto split: sum.splits bool.splits prod.splits intro: workFrame_trans) (metis snd_conv)+
qed simp

lemma deliverBatch_frame: "workFrame d (snd (snd (deliverBatch w st i dst events tk d)))"
proof -
  obtain r d1 where f: "filterImportNotifications st events d = (r, d1)" by (cases "filterImportNotifications st events d")
  have d1: "workFrame d d1" using filter_frame [of d st events] f by simp
  show ?thesis
  proof (cases r)
    case (Inl err)
    with f d1 show ?thesis by (simp add: deliverBatch_def)
  next
    case (Inr l)
    show ?thesis
    proof (cases l)
      case Nil
      with f Inr d1 show ?thesis by (simp add: deliverBatch_def)
    next
      case (Cons x xs)
      obtain o1 tk1 where o: "deliver w i dst (x # xs) tk = (o1, tk1)" by (cases "deliver w i dst (x # xs) tk")
      note fr = workFrame_trans [OF d1 Delivered_frame [of d1 st "de_now w" "x # xs"]]
        workFrame_trans [OF d1 Failed_frame [of d1 st "de_now w" "x # xs"]]
      show ?thesis
      proof (cases o1)
        case None
        obtain r2 d2 where "Delivered st (de_now w) (x # xs) d1 = (r2, d2)" by (cases "Delivered st (de_now w) (x # xs) d1")
        with f Inr Cons o None fr(1) show ?thesis by (simp add: deliverBatch_def del: Delivered.simps)
      next
        case (Some err)
        with f Inr Cons o fr(2) d1 show ?thesis by (simp add: deliverBatch_def del: Failed.simps)
      qed
    qed
  qed
qed

lemma Acquire_frame: "Acquire st now name l d = Inr (es, d1) \<Longrightarrow> workFrame d d1"
  by (auto simp: Acquire_def andThen_eq_Inr dest: lockEvents_frame)

lemma runFrom_frame: "workFrame d (snd (snd (runFrom w st limit i dsts tk d)))"
proof (induction dsts arbitrary: i tk d)
  case (Cons dst rest)
  have ih: "workFrame d1 d2 \<Longrightarrow> workFrame d1 (snd (snd (runFrom w st limit j rest tk2 d2)))" for j tk2 d1 d2
    by (rule workFrame_trans [OF _ Cons.IH])
  show ?case
  proof (cases "de_stop w i \<or> business dst \<and> \<not> de_license w i 0")
    case True
    with ih [of d d] show ?thesis by auto
  next
    case False
    show ?thesis
    proof (cases "Acquire st (de_now w) (ds_name dst) limit d")
      case (Inl err)
      with False show ?thesis by auto
    next
      case (Inr x)
      obtain es d1 where x: "x = (es, d1)" by (cases x)
      note a = Acquire_frame [OF Inr [unfolded x]]
      obtain r tk1 d2 where b: "deliverBatch w st i dst es tk d1 = (r, tk1, d2)" by (cases "deliverBatch w st i dst es tk d1")
      have "workFrame d d2" using workFrame_trans [OF a deliverBatch_frame [of d1 w st i dst es tk]] b by simp
      with False Inr x b ih [OF a] ih [of d d2] show ?thesis
        by (cases es; cases r) auto
    qed
  qed
qed simp

section \<open>Inquiries\<close>

lemma claimAttempt_frame:
  assumes "claimAttempt e item d = Some d1"
  shows "workFrame d d1"
proof -
  have "list_all2 settles as (update_rows (claimIssue e item)
      (\<lambda>a. a\<lparr>at_next_reconcile := Some n, at_reconciles := at_reconciles a + 1\<rparr>) as)" for as n
    by (rule settles_update) (simp add: settles_def attemptFactsOf_def waiting_def liveAttempt_def)
  moreover have "bookTables (set_attempts as d) = bookTables d" "bookTables (set_red_attempts rs d) = bookTables d" for as rs by simp_all
  ultimately show ?thesis using assms
    by (auto simp: claimAttempt_def Let_def workFrame_def split: if_splits) (simp_all add: set_attempts_def set_red_attempts_def)
qed

lemma reconcile_effect:
  assumes "reconcile w e k item d = (r, d')"
  obtains "d' = d" "\<not> mayGoOn w (3 * k + 1) \<or> claimAttempt e item d = None"
  | d1 where "claimAttempt e item d = Some d1" "d' = d1 \<or> (\<exists>v st. ApplyTaxCallback e (qi_tenant item) v d1 = Inr (st, d') \<and> answerType w k item = ev_type v)"
proof -
  consider "\<not> mayGoOn w (3 * k + 1)" | "mayGoOn w (3 * k + 1)" "claimAttempt e item d = None"
    | d1 where "mayGoOn w (3 * k + 1)" "claimAttempt e item d = Some d1" by (cases "claimAttempt e item d") blast+
  then show thesis
  proof cases
    case 1
    with assms that(1) show thesis by (simp add: reconcile_def)
  next
    case 2
    with assms that(1) show thesis by (simp add: reconcile_def)
  next
    case (3 d1)
    then have "d' = d1 \<or> (\<exists>v st. ApplyTaxCallback e (qi_tenant item) v d1 = Inr (st, d') \<and> answerType w k item = ev_type v)"
      using assms by (auto simp: reconcile_def answerType_def split: option.split_asm if_split_asm sum.split_asm)
    with 3(2) that(2) show thesis by blast
  qed
qed

section \<open>Runs of the system\<close>

text \<open>
  Handlers, tax results, passes of the outbox worker, inquiries and retries of dead letters in any order. A
  pass or an inquiry is not one transaction: what it has written stays, whatever it returns. A pass of inquiries is
  one inquiry after the other.
\<close>

datatype system_command =
    SettleCommand settle_command
  | RetryEvent string
  | RetryTaxCommand string string string
  | DeliveryPass delivery_env OutboxStore int "Destination list" tokens
  | Inquiry ReconcileWorker nat reconcile_item

fun systemExec :: "system_command request \<Rightarrow> db \<Rightarrow> (unit \<times> db) res" where
  "systemExec (s, e, p, SettleCommand c) d = settleExec (s, e, p, c) d"
| "systemExec (s, e, p, RetryEvent eid) d = RetryOutboxEvent e p eid d"
| "systemExec (s, e, p, RetryTaxCommand key eid reason) d = RetryTaxCommandDeadLetter s e p key eid reason d"
| "systemExec (s, e, p, DeliveryPass w st n dsts tk) d = Inr ((), snd (snd (RunOnce w st n dsts tk d)))"
| "systemExec (s, e, p, Inquiry w k item) d = Inr ((), snd (reconcile w e k item d))"

text \<open>Every identifier a request draws is not empty.\<close>

definition freshIds :: "'c request \<Rightarrow> bool" where
  "freshIds c \<longleftrightarrow> (case c of (s, e, p, _) \<Rightarrow> \<forall>k. e_ids e k \<noteq> '''')"

lemma updateEvents_books [simp]: "bookTables (updateEvents P f d) = bookTables d"
  by (simp add: updateEvents_def bookTables_def ledgerTables_def)

definition quiet :: "db \<Rightarrow> db \<Rightarrow> bool" where
  "quiet d d' \<longleftrightarrow> bookTables d' = bookTables d \<and> issueTables d' = issueTables d"

lemma quiet_trans [trans]: "quiet d d1 \<Longrightarrow> quiet d1 d2 \<Longrightarrow> quiet d d2"
  by (simp add: quiet_def)

lemma quiet_updateEvents [simp]: "quiet d (updateEvents P f d)"
  by (simp add: quiet_def)

lemma quiet_steps:
  "outbox e i t ds et aty aid b d = Inr d' \<Longrightarrow> quiet d d'"
  "requireInvoiceRequestScopeTx s p perm rid d = Inr d' \<Longrightarrow> quiet d d'"
  "requireTaxInvoiceScopeTx s p perm iid d = Inr d' \<Longrightarrow> quiet d d'"
  "claimIdempotency e t c k v q d = Inr (w, r, d') \<Longrightarrow> quiet d d'"
  by (auto simp: quiet_def dest: outbox_books outbox_issue scope_books scope_issue idem_books idem_issue)

lemma quiet_inv: "quiet d d' \<Longrightarrow> settle_inv d \<and> issue_inv d \<Longrightarrow> settle_inv d' \<and> issue_inv d'"
  by (auto simp: quiet_def intro: settle_books issue_inv_frame)

lemma RetryOutboxEvent_quiet: "RetryOutboxEvent e p eid d = Inr (w, d') \<Longrightarrow> quiet d d'"
  by (auto simp: RetryOutboxEvent_def andThen_eq_Inr split: if_splits
      dest!: quiet_steps(1) intro: quiet_trans [OF quiet_updateEvents])

lemma checkTaxCommand_quiet: "checkTaxCommand s p x d = Inr (k, a, d') \<Longrightarrow> quiet d d'"
  by (auto simp: checkTaxCommand_def requireRetryableIssueCommandTx_def requireRetryableRedFlushCommandTx_def andThen_eq_Inr
      split: option.splits tax_command.splits if_splits sum.splits prod.splits dest: quiet_steps)

lemma RetryTaxCommandDeadLetter_quiet:
  assumes "RetryTaxCommandDeadLetter s e p key eid reason d = Inr (w, d')"
  shows "quiet d d'"
proof -
  have done1: "quiet d1 d2 \<Longrightarrow> outbox e 0 t ds et aty aid b (updateEvents P f d2) = Inr d3 \<Longrightarrow> quiet d1 d3"
    for t ds et aty aid b P f d1 d2 d3
    by (rule quiet_trans [OF _ quiet_trans [OF quiet_updateEvents quiet_steps(1)]])
  show ?thesis using assms
    by (auto simp: RetryTaxCommandDeadLetter_def Let_def andThen_eq_Inr split: if_splits
        dest!: quiet_steps(4) checkTaxCommand_quiet intro: done1 quiet_trans)
qed

lemma workFrame_inv: "workFrame d d' \<Longrightarrow> settle_inv d \<and> issue_inv d \<Longrightarrow> settle_inv d' \<and> issue_inv d'"
  by (auto intro: workFrame_issue settle_books simp: workFrame_def)

lemmas invoice_command_issue = CreateInvoiceRequest_issue RejectInvoiceRequest_issue RecoverFailedInvoice_issue
  RegisterManualInvoice_issue CancelInvoiceRequest_issue ApplyTaxCallback_issue

lemma settleExec_issue:
  assumes inv: "issue_inv d" and wf: "freshIds c" and ok: "settleExec c d = Inr (u, d')"
  shows "issue_inv d'"
proof -
  have book: "bookExec b d = Inr (v, d') \<Longrightarrow> issue_inv d'" for b v
    by (rule issue_inv_frame [OF inv issueTables_taxes [OF bookExec_taxes]])
  from inv wf ok show ?thesis
    by (cases "(c, d)" rule: settleExec.cases)
       (auto simp: unitOf_Inr freshIds_def dest: book invoice_command_issue ApproveInvoiceRequest_issue
          ReviewSpecialInvoice_issue red_commands_issue(1,3) ReviewInvoiceRedFlush_issue issue_inv_frame [OF inv])
qed

definition service_inv :: "db \<Rightarrow> bool" where
  "service_inv d \<longleftrightarrow> settle_inv d \<and> issue_inv d"

interpretation system: tx_commands systemExec freshIds service_inv
proof
  fix d c u d'
  assume inv: "service_inv d" and wf: "freshIds c" and ok: "systemExec c d = Inr (u, d')"
  show "service_inv d'"
  proof (cases "(c, d)" rule: systemExec.cases)
    case (1 s e p b d0)
    with wf have f: "freshIds (s, e, p, b)" "issuesIds (s, e, p, b)" by (simp_all add: freshIds_def issuesIds_def)
    from 1 ok have x: "settleExec (s, e, p, b) d = Inr (u, d')" by simp
    from inv settleExec_issue [OF _ f(1) x] settle.exec_inv [OF _ f(2) x] show ?thesis by (simp add: service_inv_def)
  next
    case (2 s e p eid d0)
    with ok inv show ?thesis unfolding service_inv_def by (auto dest: RetryOutboxEvent_quiet quiet_inv)
  next
    case (3 s e p key eid reason d0)
    with ok inv show ?thesis unfolding service_inv_def by (auto dest: RetryTaxCommandDeadLetter_quiet quiet_inv)
  next
    case (4 s e p w st n dsts tk d0)
    from inv have "service_inv (snd (snd (RunOnce w st n dsts tk d)))" unfolding service_inv_def RunOnce_def
      by (rule workFrame_inv [OF runFrom_frame])
    with 4 ok show ?thesis by simp
  next
    case (5 s e p w k item d0)
    then obtain r where r: "reconcile w e k item d = (r, d')" using ok by (cases "reconcile w e k item d") simp
    show ?thesis
    proof (rule reconcile_effect [OF r])
      fix d1 assume c: "claimAttempt e item d = Some d1"
        and a: "d' = d1 \<or> (\<exists>v st. ApplyTaxCallback e (qi_tenant item) v d1 = Inr (st, d') \<and> answerType w k item = ev_type v)"
      have "settle_inv d1 \<and> issue_inv d1" using workFrame_inv [OF claimAttempt_frame [OF c]] inv by (simp add: service_inv_def)
      with a show ?thesis unfolding service_inv_def using ApplyTaxCallback_settle ApplyTaxCallback_issue by blast
    qed (use inv in simp)
  qed
qed

end
