(* ===== verification/InvoiceSamples.thy ===== *)
theory InvoiceSamples
  imports SystemRuns
begin

text \<open>
  Concrete stores and requests for the properties of invoicing: the sample contract with a request
  of 53.00 that waits for its invoice, reserved on the sample receivable.
\<close>

declare toUpper.simps [simp del]

definition freshEnv :: "string list \<Rightarrow> env" where
  "freshEnv ids = (sampleEnv ids)\<lparr>e_ids := (\<lambda>k. if k < length ids then ids ! k else ''z'')\<rparr>"

definition sampleRequest :: "request_status \<Rightarrow> invoice_request" where
  "sampleRequest st = \<lparr>ir_id = ''Q'', ir_tenant = ''T'', ir_no = ''IR-1'', ir_snapshot = ''S'', ir_buyer = JNull,
     ir_type = ''VAT_SPECIAL'', ir_excl = 5000, ir_tax = 300, ir_incl = 5300, ir_status = st, ir_idem = ''q-1'',
     ir_submitted_by = ''amy'', ir_approved_by = ''joe'', ir_rejection = '''', ir_version = 2\<rparr>"

definition sampleReservation :: invoice_allocation where
  "sampleReservation = newReservation ''J'' ''T'' ''Q'' ''V'' 5300"

definition sampleAttempt :: "issue_channel \<Rightarrow> attempt_status \<Rightarrow> issue_attempt" where
  "sampleAttempt channel st = (newAttempt (sampleEnv []) ''B'' ''T'' ''Q'' 1 channel
     (if channel = MANUAL then '''' else ''tax1''))\<lparr>at_status := st\<rparr>"

definition samplePending :: "issue_channel \<Rightarrow> db" where
  "samplePending channel = sampleStore\<lparr>invoice_allocations := [sampleReservation],
     taxes := (taxes empty_db)\<lparr>invoice_requests := [sampleRequest IR_ISSUE_PENDING],
       issue_attempts := [sampleAttempt channel AT_PENDING]\<rparr>\<rparr>"

lemma samplePending_rows [simp]:
  "snapshots (samplePending c) = [sampleSnapshot]" "receivables (samplePending c) = [sampleReceivable]"
  "plans (samplePending c) = [samplePlan]" "invoice_allocations (samplePending c) = [sampleReservation]"
  "invoice_requests (taxes (samplePending c)) = [sampleRequest IR_ISSUE_PENDING]"
  "issue_attempts (taxes (samplePending c)) = [sampleAttempt c AT_PENDING]" "tax_invoices (taxes (samplePending c)) = []"
  "red_flush_relations (taxes (samplePending c)) = []" "invoice_reversals (taxes (samplePending c)) = []"
  "invoice_items (taxes (samplePending c)) = []" "tax_results (taxes (samplePending c)) = []"
  "idempotency (samplePending c) = []" "outbox_events (samplePending c) = []" "audits (samplePending c) = []"
  by (simp_all add: samplePending_def sampleStore_def empty_db_def)

lemma samplePending_inv: "service_inv (samplePending c)"
proof -
  have "ledger_inv (samplePending c)"
    using sampleStore_inv ledger_inv_cong [of "samplePending c" sampleStore] by (simp add: samplePending_def ledgerTables_def)
  moreover have "plan_inv (samplePending c)"
    by (simp add: plan_inv_def keyed_def within_contract_def planned_def planTotal_def sum_rows_def planOf_def
        sampleSnapshot_def samplePlan_def sampleReceivable_def)
  moreover have "invoice_inv (samplePending c)"
    by (simp add: invoice_inv_def keyed_def allocation_shape_def allocated_to_def invoice_ok_def netInvoiced_def sum_rows_def
        reservedOf_def liveInvoiced_def sampleReservation_def newReservation_def sampleReceivable_def)
  moreover have "issue_inv (samplePending c)"
    by (simp add: issue_inv_eq issue_ok_def keyed_def newest_open_def requestOf_def openRequest_def siblings_def
        sampleRequest_def sampleAttempt_def newAttempt_def)
  ultimately show ?thesis by (simp add: service_inv_def settle_inv_def book_inv_def)
qed

lemma freshEnv_facts [simp]: "e_now (freshEnv ids) = 1710460800000" "e_today (freshEnv ids) = (2024, 3, 15)"
  "e_ids (freshEnv (x # xs)) 0 = x" "e_sha256 (freshEnv ids) = jsonText"
  by (simp_all add: freshEnv_def sampleEnv_def)

lemma freshEnv_fresh: "(\<And>x. x \<in> set ids \<Longrightarrow> x \<noteq> '''') \<Longrightarrow> freshIds (s, freshEnv ids, p, c)"
  by (auto simp: freshIds_def freshEnv_def)

lemma freshEnv_ids: "k < length ids \<Longrightarrow> e_ids (freshEnv ids) k = ids ! k"
  by (simp add: freshEnv_def)

lemma sample_unscoped [simp]: "\<not> scopedAuthorization (sampleUser u)"
  by (simp add: scopedAuthorization_def sampleUser_def)

lemma sample_invoice_texts [simp]: "trimSpace ''T'' = ''T''" "trimSpace ''Q'' = ''Q''" "trimSpace ''C-1'' = ''C-1''"
  "trimSpace ''N-1'' = ''N-1''" "trimSpace ''bob'' = ''bob''" "trimSpace ''wrong'' = ''wrong''" "trimSpace ''2024-03-01'' = ''2024-03-01''"
  "runeCount ''wrong'' = 5" "runeCount ''C-1'' = 3" "runeCount ''N-1'' = 3"
  by (simp_all add: plain_def byte_def asciiSpace_def runeCount.simps runeLen_def inRange_def)

definition sampleManual :: ManualInvoiceInput where
  "sampleManual = \<lparr>mi_code = ''C-1'', mi_no = ''N-1'', mi_date = ''2024-03-01'', mi_seller = []\<rparr>"

lemma sample_checkManual: "checkManualInvoice (freshEnv ids) sampleManual = Inr (''C-1'', ''N-1'', ''2024-03-01'', [])"
proof -
  have "parseDate ''2024-03-01'' = Some (2024, 3, 1)" by (simp add: parseDate_def text_eval showDate.simps daysIn_def)
  then have "validateInvoiceIssueDateOn ''2024-03-01'' (2024, 3, 15) = Inr ''2024-03-01''"
    by (simp add: validateInvoiceIssueDateOn_def dateLess.simps)
  moreover have "validateInvoiceDocumentNumber ''C-1'' = Inr ()" "validateInvoiceDocumentNumber ''N-1'' = Inr ()"
    by (simp_all add: validateInvoiceDocumentNumber_def documentChar_def isUpper_def isDigit_def byte_def)
  ultimately show ?thesis by (simp add: checkManualInvoice_def sampleManual_def required_def)
qed

text \<open>The manual registration and the cancellation of the sample request.\<close>

lemma sample_manual:
  "\<exists>d. RegisterManualInvoice sampleService (freshEnv [''I'', ''o1'', ''o2'']) (sampleUser ''bob'') ''Q'' sampleManual
      (samplePending MANUAL) = Inr (''I'', d) \<and>
    receivables d = [sampleReceivable\<lparr>rv_invoiced := 5300, rv_invoice := PARTIALLY_INVOICED, rv_version := 2\<rparr>] \<and>
    map (\<lambda>t. (ti_id t, ti_tenant t, ti_request t)) (tax_invoices (taxes d)) = [(''I'', ''T'', ''Q'')] \<and> red_flush_relations (taxes d) = []"
proof -
  let ?t = "[manualInvoice ''I'' (sampleRequest IR_ISSUE_PENDING) ''CNY'' (''C-1'', ''N-1'', ''2024-03-01'', [])]"
  have cur: "cs_currency sampleSnapshot = ''CNY''" by (simp add: sampleSnapshot_def)
  have pm: "pendingManual (samplePending MANUAL) ''T'' ''Q'' = Inr (sampleRequest IR_ISSUE_PENDING, sampleSnapshot)"
    by (simp add: pendingManual_def query_row_def req_is_def sampleRequest_def sampleAttempt_def newAttempt_def sampleSnapshot_def)
  have "\<exists>d2. closeManual ''T'' ''Q'' ''I'' ?t (samplePending MANUAL) = Inr d2 \<and> eventIds d2 = {} \<and>
      receivables d2 = [sampleReceivable\<lparr>rv_invoiced := 5300, rv_invoice := PARTIALLY_INVOICED, rv_version := 2\<rparr>] \<and>
      tax_invoices (taxes d2) = ?t \<and> red_flush_relations (taxes d2) = []"
    by (simp add: closeManual_def updateRequest_def set_requests_def set_tax_invoices_def set_attempts_def reservedRows_def
        sampleReservation_def newReservation_def incrementInvoiced_def markInvoiced_def setInvoiced_def eventIds_def
        query_row_def rcv_is_def sampleReceivable_def Let_def invoicedStatus_def update_rows_def)
  then obtain d2 where d2: "closeManual ''T'' ''Q'' ''I'' ?t (samplePending MANUAL) = Inr d2" "eventIds d2 = {}"
      "receivables d2 = [sampleReceivable\<lparr>rv_invoiced := 5300, rv_invoice := PARTIALLY_INVOICED, rv_version := 2\<rparr>]"
      "tax_invoices (taxes d2) = ?t" "red_flush_relations (taxes d2) = []" by blast
  moreover obtain d3 where "outbox (freshEnv [''I'', ''o1'', ''o2'']) 1 ''T'' ''PLATFORM_AUDIT'' ''SETTLEMENT_INVOICE_ISSUED'' ''tax_invoice'' ''I''
        [(''actor_id'', JStr ''bob''), (''invoice_request_id'', JStr ''Q''), (''result'', JStr ''SUCCESS''), (''risk_level'', JStr ''HIGH'')] d2 = Inr d3" "eventFrame d2 d3"
    using outbox_total [of "freshEnv [''I'', ''o1'', ''o2'']" 1 d2] d2(2) by simp blast
  moreover have "receivables d3 = receivables d2" "taxes d3 = taxes d2"
    using eventFrame_tables [OF calculation(7)] frame_taxes(3) [OF calculation(7)] by simp_all
  moreover have "(ti_id t, ti_tenant t, ti_request t) = (''I'', ''T'', ''Q'')" if "t \<in> set ?t" for t
    using that by (simp add: manualInvoice_def sampleRequest_def)
  ultimately show ?thesis
    by (simp add: RegisterManualInvoice_def sample_checkManual pm requireInvoiceRequestScopeTx_def insert_row_def cur Let_def)
qed

lemma sample_cancel:
  "\<exists>d. CancelInvoiceRequest sampleService (freshEnv [''o1'', ''o2'']) (sampleUser ''bob'') ''k-1'' ''Q'' 2 ''wrong''
      (samplePending MANUAL) = Inr ((), d)"
proof -
  let ?d1 = "(samplePending MANUAL)\<lparr>idempotency := [\<lparr>im_tenant = ''T'', im_command = ''CANCEL_INVOICE_REQUEST'', im_key = ''k-1'',
    im_hash = jsonText (reviewDigest (sampleUser ''bob'') ''Q'' 2 ''wrong''), im_resource = ''Q''\<rparr>]\<rparr>"
  have cl: "claimIdempotency (freshEnv [''o1'', ''o2'']) ''T'' ''CANCEL_INVOICE_REQUEST'' ''k-1'' ''Q''
      (reviewDigest (sampleUser ''bob'') ''Q'' 2 ''wrong'') (samplePending MANUAL) = Inr (''Q'', False, ?d1)"
    by (subst claimIdempotency_fresh) (simp_all add: boundTo_def)
  have la: "latestAttempt ?d1 ''T'' ''Q'' = Some (sampleAttempt MANUAL AT_PENDING)"
    by (simp add: latestAttempt_def attemptOf_def sampleAttempt_def newAttempt_def)
  have at: "at_id (sampleAttempt MANUAL AT_PENDING) = ''B''" "commandOf (sampleAttempt MANUAL AT_PENDING) = ''''"
    "at_accepted_at (sampleAttempt MANUAL AT_PENDING) = None" "at_status (sampleAttempt MANUAL AT_PENDING) = AT_PENDING"
    "att_is ''T'' ''B'' (sampleAttempt MANUAL AT_PENDING)"
    by (simp_all add: sampleAttempt_def newAttempt_def commandOf_def att_is_def)
  have rq: "requestForWithdrawal (sampleUser ''bob'') ''Q'' 2 cancellableRequestStatus ?d1 = Inr (sampleRequest IR_ISSUE_PENDING)"
    by (simp add: requestForWithdrawal_def query_row_def req_is_def sampleRequest_def cancellableRequestStatus_def)
  have "\<exists>d3. abandonAttempt ''T'' ''B'' ?d1 = Inr d3 \<and> (\<exists>d4. cancelRequest ''T'' ''Q'' 2 ''wrong'' d3 = Inr d4 \<and> eventIds d4 = {})"
    by (simp add: abandonAttempt_def affected_def at cancellableAttemptStatus_def updateAttempt_def set_attempts_def
        cancelRequest_def req_is_def cancellableRequestStatus_def updateRequest_def set_requests_def eventIds_def)
       (simp add: sampleRequest_def)
  then obtain d3 d4 where d4: "abandonAttempt ''T'' ''B'' ?d1 = Inr d3" "cancelRequest ''T'' ''Q'' 2 ''wrong'' d3 = Inr d4" "eventIds d4 = {}"
    by blast
  have "eventIds (releaseReservations g ''T'' ''Q'' d4) = {}" for g
    using d4(3) by (simp add: eventIds_def releaseReservations_def)
  then have ob: "\<exists>d5. outbox (freshEnv [''o1'', ''o2'']) 0 t a b c x m (releaseReservations g ''T'' ''Q'' d4) = Inr d5" for g t a b c x m
    using outbox_total [of "freshEnv [''o1'', ''o2'']" 0 "releaseReservations g ''T'' ''Q'' d4" t a b c x m] by blast
  show ?thesis
    by (simp add: CancelInvoiceRequest_def Let_def cl la at commandIsDead_def attemptNeverAccepted_def query_row_def
        cancellableAttemptStatus_def rq requireInvoiceRequestScopeTx_def invoicesOf_def affected_def resultsOf_def d4)
       (simp add: andThen_eq_Inr ob)
qed

text \<open>The same request after a cancellation, and a result of the provider that arrives too late.\<close>

definition sampleCancelled :: db where
  "sampleCancelled = (samplePending TAX_ADAPTER)\<lparr>invoice_allocations :=
       [sampleReservation\<lparr>ia_released := 5300, ia_status := RELEASED_RESERVATION\<rparr>],
     taxes := (taxes empty_db)\<lparr>invoice_requests := [sampleRequest IR_CANCELLED],
       issue_attempts := [sampleAttempt TAX_ADAPTER AT_ABANDONED]\<rparr>\<rparr>"

lemma sampleCancelled_rows [simp]:
  "snapshots sampleCancelled = [sampleSnapshot]" "invoice_requests (taxes sampleCancelled) = [sampleRequest IR_CANCELLED]"
  "issue_attempts (taxes sampleCancelled) = [sampleAttempt TAX_ADAPTER AT_ABANDONED]" "tax_invoices (taxes sampleCancelled) = []"
  "red_flush_relations (taxes sampleCancelled) = []" "tax_results (taxes sampleCancelled) = []"
  "outbox_events sampleCancelled = []" "audits sampleCancelled = []"
  by (simp_all add: sampleCancelled_def samplePending_def sampleStore_def empty_db_def)

lemma sampleCancelled_inv: "issue_inv sampleCancelled"
  by (simp add: issue_inv_eq issue_ok_def keyed_def waiting_def liveAttempt_def sampleAttempt_def newAttempt_def)

definition sampleResult :: TaxInvoiceResult where
  "sampleResult = \<lparr>xr_external = ''X-1'', xr_code = ''C-1'', xr_no = ''N-1'', xr_type = ''VAT_SPECIAL'', xr_currency = ''CNY'',
     xr_excl = ''50.00'', xr_tax = ''3.00'', xr_incl = ''53.00'', xr_date = ''2024-03-01'', xr_seller = None,
     xr_items = [\<lparr>it_name = ''a'', it_class = ''b'', it_spec = '''', it_unit = ''u'', it_quantity = ''1'', it_price = ''50'',
       it_excl = ''50.00'', it_rate = ''0.06'', it_tax = ''3.00'', it_incl = ''53.00''\<rparr>]\<rparr>"

definition sampleIssued :: TaxCallbackEvent where
  "sampleIssued = \<lparr>ev_id = ''E-1'', ev_type = TaxInvoiceIssuedEvent, ev_tenant = ''T'', ev_provider = ''tax1'', ev_occurred = Some 1710460800000,
     ev_sequence = 1, ev_attempt = ''B'', ev_red_attempt = '''', ev_red_request = '''', ev_external_request = ''B'', ev_operation = '''',
     ev_failure_code = '''', ev_failure_message = '''', ev_invoice = Some sampleResult\<rparr>"

lemma sample_tax_texts [simp]: "trimSpace ''B'' = ''B''" "trimSpace ''tax1'' = ''tax1''" "trimSpace ''X-1'' = ''X-1''"
  "trimSpace ''VAT_SPECIAL'' = ''VAT_SPECIAL''" "trimSpace ''50.00'' = ''50.00''" "trimSpace ''3.00'' = ''3.00''" "trimSpace ''53.00'' = ''53.00''"
  by (simp_all add: plain_def byte_def asciiSpace_def)

lemma sample_march: "parseDate ''2024-03-01'' = Some (2024, 3, 1)"
  by (simp add: parseDate_def text_eval showDate.simps daysIn_def)

lemma sample_checkTax: "checkTaxCallback (freshEnv ids) ''T'' sampleIssued = Inr ()"
  by (simp add: checkTaxCallback_def sampleIssued_def issueEvent_def aggregateOf_def redFlushEvent_def tax_event_defs
      validateTaxInvoiceResult_def sampleResult_def sample_march)

lemma sample_late:
  "\<exists>d. ApplyTaxCallback (freshEnv [''z1'', ''o1'', ''o2'']) ''T'' sampleIssued sampleCancelled = Inr (TP_PROVIDER_CONFLICT, d)"
proof -
  let ?e = "freshEnv [''z1'', ''o1'', ''o2'']"
  let ?d = "set_results [newResult ?e ''T'' sampleIssued] sampleCancelled"
  have tx: "issue_attempts (taxes ?d) = [sampleAttempt TAX_ADAPTER AT_ABANDONED]" "invoice_requests (taxes ?d) = [sampleRequest IR_CANCELLED]"
    "snapshots ?d = [sampleSnapshot]" "outbox_events ?d = []" "audits ?d = []"
    by (simp_all add: set_results_def)
  have f: "attemptFacts ?d ''T'' ''B'' = Inr (sampleAttempt TAX_ADAPTER AT_ABANDONED, sampleRequest IR_CANCELLED, sampleSnapshot)"
    by (simp add: attemptFacts_def tx query_row_def att_is_def sampleAttempt_def newAttempt_def sampleRequest_def sampleSnapshot_def)
  have at: "at_external_request (sampleAttempt TAX_ADAPTER AT_ABANDONED) = ''B''" "at_provider (sampleAttempt TAX_ADAPTER AT_ABANDONED) = ''tax1''"
    "at_sequence (sampleAttempt TAX_ADAPTER AT_ABANDONED) = 0" "at_status (sampleAttempt TAX_ADAPTER AT_ABANDONED) = AT_ABANDONED"
    "ir_status (sampleRequest IR_CANCELLED) = IR_CANCELLED"
    by (simp_all add: sampleAttempt_def newAttempt_def sampleRequest_def)
  have v: "ev_provider sampleIssued = ''tax1''" "ev_external_request sampleIssued = ''B''" "ev_sequence sampleIssued = 1"
    "ev_type sampleIssued = TaxInvoiceIssuedEvent" "ev_attempt sampleIssued = ''B''" "issueEvent sampleIssued"
    "sampleIssued\<lparr>ev_provider := ''tax1''\<rparr> = sampleIssued"
    by (simp_all add: sampleIssued_def issueEvent_def)
  have "\<exists>d1. recordResult ''T'' sampleIssued g ?d = Inr d1 \<and> eventIds d1 = {}" for g
    by (simp add: recordResult_def v tx operationTaken_def updateAttempt_def set_attempts_def eventIds_def)
  then have "\<exists>d2. recordLateIssueCallbackAfterCancel ?e ''T'' (sampleAttempt TAX_ADAPTER AT_ABANDONED) (sampleRequest IR_CANCELLED)
      sampleIssued ?d = Inr (TP_PROVIDER_CONFLICT, d2)"
    unfolding recordLateIssueCallbackAfterCancel_def v
    using outbox_total [of ?e 1] by (simp add: andThen_eq_Inr) (metis empty_iff)
  then have "\<exists>d2. applyInvoiceIssueCallback ?e ''T'' sampleIssued ?d = Inr (TP_PROVIDER_CONFLICT, d2)"
    by (simp add: applyInvoiceIssueCallback_def v f at)
  then show ?thesis by (auto simp: ApplyTaxCallback_def Let_def v sample_checkTax insert_row_def)
qed

end
