(* ===== verification/InvoiceSpec.thy ===== *)
theory InvoiceSpec
  imports InvoiceSamples
begin

text \<open>
  What invoicing does to the balances, abstractly: for every tenant and receivable an amount that
  is reserved and an amount that is invoiced, and four moves on them. Every command, tax result
  and worker pass refines one move.
\<close>

section \<open>Positions and moves\<close>

type_synonym position = "string \<times> string \<Rightarrow> int \<times> int"

datatype move =
    Stay
  | Reserve string "(string \<times> int) list"
  | Release string "(string \<times> int) list"
  | Issue string "(string \<times> int) list"
  | Flush string "(string \<times> int) list"

text \<open>The amount a move concerns for one receivable, and its effect on reserved and invoiced.\<close>

fun applyMove :: "move \<Rightarrow> position \<Rightarrow> position" where
  "applyMove Stay P = P"
| "applyMove (Reserve t l) P = (\<lambda>(t', vid). case P (t', vid) of (r, i) \<Rightarrow> if t' = t then (r + movedTo l vid, i) else (r, i))"
| "applyMove (Release t l) P = (\<lambda>(t', vid). case P (t', vid) of (r, i) \<Rightarrow> if t' = t then (r - movedTo l vid, i) else (r, i))"
| "applyMove (Issue t l) P = (\<lambda>(t', vid). case P (t', vid) of (r, i) \<Rightarrow> if t' = t then (r - movedTo l vid, i + movedTo l vid) else (r, i))"
| "applyMove (Flush t l) P = (\<lambda>(t', vid). case P (t', vid) of (r, i) \<Rightarrow> if t' = t then (r, i - movedTo l vid) else (r, i))"

fun moveRows :: "move \<Rightarrow> (string \<times> int) list" where
  "moveRows Stay = []"
| "moveRows (Reserve t l) = l"
| "moveRows (Release t l) = l"
| "moveRows (Issue t l) = l"
| "moveRows (Flush t l) = l"

definition positionOf :: "db \<Rightarrow> position" where
  "positionOf d = (\<lambda>(t, vid). (reservedOf d t vid, netInvoiced d t vid))"

lemma positionOf_cong:
  assumes "invoice_allocations d' = invoice_allocations d" "invoice_reversals (taxes d') = invoice_reversals (taxes d)"
  shows "positionOf d' = positionOf d"
  using assms by (simp add: positionOf_def fun_eq_iff reservedOf_def netInvoiced_def liveInvoiced_def [abs_def] reversedAllocation_def)

lemma positionOf_books: "bookTables d' = bookTables d \<Longrightarrow> positionOf d' = positionOf d"
  by (rule positionOf_cong) (simp_all add: bookTables_def)

text \<open>The position of a tenant reads only the tenant's rows.\<close>

definition tenantRows :: "db \<Rightarrow> string \<Rightarrow> invoice_allocation list \<times> invoice_reversal list" where
  "tenantRows d t = (filter (\<lambda>a. ia_tenant a = t) (invoice_allocations d), filter (\<lambda>r. vr_tenant r = t) (invoice_reversals (taxes d)))"

lemma sum_rows_filter: "(\<And>a. P a \<Longrightarrow> Q a) \<Longrightarrow> sum_rows P g (filter Q l) = sum_rows P g l"
  by (induction l) auto

lemma position_tenant:
  assumes "tenantRows d' t = tenantRows d t"
  shows "positionOf d' (t, vid) = positionOf d (t, vid)"
proof -
  let ?f = "\<lambda>d. filter (\<lambda>a. ia_tenant a = t) (invoice_allocations d)"
  have f: "?f d' = ?f d" using assms by (simp add: tenantRows_def)
  have "{r \<in> set (invoice_reversals (taxes d')). vr_tenant r = t} = {r \<in> set (invoice_reversals (taxes d)). vr_tenant r = t}"
    using arg_cong [OF assms, of "\<lambda>x. set (snd x)"] by (simp add: tenantRows_def)
  then have rev: "ia_tenant a = t \<Longrightarrow> reversedAllocation d' a = reversedAllocation d a" for a
    unfolding reversedAllocation_def by blast
  have "reservedOf d' t vid = reservedOf d t vid"
    unfolding reservedOf_def by (subst (1 2) sum_rows_filter [where Q = "\<lambda>a. ia_tenant a = t", symmetric]) (simp_all add: f)
  moreover have "netInvoiced d' t vid = netInvoiced d t vid"
  proof -
    have "liveInvoiced d' t vid = liveInvoiced d t vid" using rev by (auto simp: fun_eq_iff liveInvoiced_def)
    then show ?thesis unfolding netInvoiced_def
      by (subst (1 2) sum_rows_filter [where Q = "\<lambda>a. ia_tenant a = t", symmetric]) (simp_all add: f liveInvoiced_def)
  qed
  ultimately show ?thesis by (simp add: positionOf_def)
qed

lemma filter_update_rows: "(\<And>a. P a \<Longrightarrow> \<not> Q a \<and> \<not> Q (f a)) \<Longrightarrow> filter Q (update_rows P f l) = filter Q l"
  by (induction l) (auto simp: update_rows_def)

text \<open>A move, checked per tenant.\<close>

lemma move_position:
  assumes "\<And>vid. positionOf d' (t, vid) = applyMove m (positionOf d) (t, vid)"
    and "\<And>t'. t' \<noteq> t \<Longrightarrow> tenantRows d' t' = tenantRows d t'"
    and "\<And>t' vid P. t' \<noteq> t \<Longrightarrow> applyMove m P (t', vid) = P (t', vid)"
  shows "positionOf d' = applyMove m (positionOf d)"
proof (rule ext)
  fix x :: "string \<times> string"
  obtain t' vid where x: "x = (t', vid)" by (cases x)
  show "positionOf d' x = applyMove m (positionOf d) x"
    using assms(1) [of vid] position_tenant [OF assms(2)] assms(3) unfolding x by (cases "t' = t") auto
qed

section \<open>The moves of the statements\<close>

lemma release_move:
  assumes inv: "settle_inv d" and g: "g = ia_reserved \<or> g = (\<lambda>a. ia_reserved a - ia_invoiced a)"
  shows "positionOf (releaseReservations g t rid d) = applyMove (Release t (reservedRows d t rid)) (positionOf d)"
proof (rule move_position [where t = t])
  have "g a = ia_reserved a" if "a \<in> set (invoice_allocations d)" "ia_status a = RESERVED" for a
    using g reserved_shape [OF _ that] inv by (auto simp: settle_inv_def)
  from release_inv(2,3) [OF inv this refl]
  show "positionOf (releaseReservations g t rid d) (t, vid) = applyMove (Release t (reservedRows d t rid)) (positionOf d) (t, vid)" for vid
    by (simp add: positionOf_def)
  show "tenantRows (releaseReservations g t rid d) t' = tenantRows d t'" if "t' \<noteq> t" for t'
    using that by (simp add: tenantRows_def releaseReservations_def) (subst filter_update_rows, auto)
qed auto

lemma invoiceReserved_tenant:
  assumes "invoiceReserved P t rid l d = Inr d'" "t' \<noteq> t"
  shows "tenantRows d' t' = tenantRows d t'"
  using assms(1)
proof (induction l arbitrary: d)
  case (Cons x l)
  obtain vid n where x: "x = (vid, n)" by (cases x)
  from Cons.prems x obtain d1 where inc: "incrementInvoiced t vid n (markInvoiced P t rid vid d) = Inr d1"
    and "invoiceReserved P t rid l d1 = Inr d'" by (auto simp: andThen_eq_Inr)
  then have "tenantRows d' t' = tenantRows d1 t'" using Cons.IH by blast
  also have "\<dots> = tenantRows (markInvoiced P t rid vid d) t'"
    using inc by (auto simp: incrementInvoiced_def andThen_eq_Inr setInvoiced_def tenantRows_def Let_def)
  also have "\<dots> = tenantRows d t'"
    using assms(2) by (simp add: tenantRows_def markInvoiced_def) (subst filter_update_rows, auto)
  finally show ?case .
qed simp

lemma issue_move:
  assumes "settle_inv d" "\<And>a. ia_status a = RESERVED \<Longrightarrow> P a" "invoiceReserved P t rid (reservedRows d t rid) d = Inr d'"
  shows "positionOf d' = applyMove (Issue t (reservedRows d t rid)) (positionOf d)"
  by (rule move_position [where t = t])
     (use finalize_settle [OF assms] invoiceReserved_tenant [OF assms(3)] in \<open>auto simp: positionOf_def\<close>)

lemma reserve_move:
  assumes "insertReservations e n t rid l d = Inr d'"
  shows "positionOf d' = applyMove (Reserve t l) (positionOf d)"
  using assms
proof (induction l arbitrary: n d)
  case Nil
  then show ?case by (simp add: fun_eq_iff movedTo_def split: prod.splits)
next
  case (Cons x l)
  obtain vid m where x: "x = (vid, m)" by (cases x)
  let ?a = "newReservation (e_ids e n) t rid vid m"
  from Cons.prems x have r: "insertReservations e (Suc n) t rid l (d\<lparr>invoice_allocations := invoice_allocations d @ [?a]\<rparr>) = Inr d'"
    by (auto simp: andThen_eq_Inr insert_row_Inr)
  have "positionOf (d\<lparr>invoice_allocations := invoice_allocations d @ [?a]\<rparr>) = applyMove (Reserve t [x]) (positionOf d)"
    by (auto simp: fun_eq_iff positionOf_def reservedOf_def netInvoiced_def liveInvoiced_def [abs_def] reversedAllocation_def x
        newReservation_def movedTo_def)
  with Cons.IH [OF r] show ?case by (auto simp: fun_eq_iff movedTo_def split: prod.splits)
qed

text \<open>The rows a red flush takes back: the invoiced allocations of the request that none has reversed.\<close>

definition liveRows :: "db \<Rightarrow> string \<Rightarrow> string \<Rightarrow> (string \<times> int) list" where
  "liveRows d t rid = map (\<lambda>a. (ia_receivable a, ia_invoiced a))
     (filter (\<lambda>a. ia_tenant a = t \<and> ia_request a = rid \<and> ia_status a = INVOICED \<and> \<not> reversedAllocation d a) (invoice_allocations d))"

lemma decrement_reversals:
  assumes "decrementInvoiced t vid n d = Inr d'"
  shows "invoice_allocations d' = invoice_allocations d" "taxes d' = taxes d"
  using assms by (auto simp: decrementInvoiced_def andThen_eq_Inr setInvoiced_def Let_def)

definition reversalOf :: "string \<Rightarrow> string \<Rightarrow> invoice_reversal \<Rightarrow> bool" where
  "reversalOf t aid r \<longleftrightarrow> vr_tenant r = t \<and> vr_allocation r = aid"

lemma reverseRows_reversals:
  assumes "reverseRows e n t fid l d = Inr (k, d')"
  shows "invoice_allocations d' = invoice_allocations d \<and>
    (\<exists>rs. invoice_reversals (taxes d') = invoice_reversals (taxes d) @ rs \<and> (\<forall>r \<in> set rs. vr_tenant r = t \<and> vr_allocation r \<in> fst ` set l)) \<and>
    (\<forall>x \<in> set l. \<exists>r \<in> set (invoice_reversals (taxes d')). reversalOf t (fst x) r)"
  using assms
proof (induction l arbitrary: n d)
  case (Cons x l)
  obtain aid vid m where x: "x = (aid, vid, m)" by (cases x)
  show ?case
  proof (cases "\<exists>r \<in> set (invoice_reversals (taxes d)). vr_tenant r = t \<and> vr_allocation r = aid \<and> vr_request r \<noteq> fid")
    case True
    with Cons.prems x have "reverseRows e n t fid l d = Inr (k, d')" by simp
    from Cons.IH [OF this] True x show ?thesis by (fastforce simp: reversalOf_def)
  next
    case False
    let ?r = "\<lparr>vr_id = e_ids e n, vr_tenant = t, vr_request = fid, vr_allocation = aid, vr_amount = m\<rparr>"
    from False Cons.prems x obtain d1 where
      dec: "decrementInvoiced t vid m (d\<lparr>taxes := (taxes d)\<lparr>invoice_reversals := invoice_reversals (taxes d) @ [?r]\<rparr>\<rparr>) = Inr d1"
      and r: "reverseRows e (Suc n) t fid l d1 = Inr (k, d')" by (auto simp: andThen_eq_Inr insert_row_Inr split: if_split_asm)
    have d1: "invoice_allocations d1 = invoice_allocations d" "invoice_reversals (taxes d1) = invoice_reversals (taxes d) @ [?r]"
      using decrement_reversals [OF dec] by simp_all
    from Cons.IH [OF r] d1 x show ?thesis by (auto simp: reversalOf_def)
  qed
qed simp

lemma movedTo_rows:
  "movedTo (map (\<lambda>a. (ia_receivable a, g a)) (filter Q l)) vid = sum_rows (\<lambda>a. Q a \<and> ia_receivable a = vid) g l"
  by (induction l) (auto simp: movedTo_def)

lemma sum_rows_split: "sum_rows P (g :: _ \<Rightarrow> int) l = sum_rows (\<lambda>a. P a \<and> Q a) g l + sum_rows (\<lambda>a. P a \<and> \<not> Q a) g l"
  by (induction l) auto

lemma flush_move:
  assumes inv: "invoice_inv d" and ok: "reverseInvoiceAllocations e n t fid rid d = Inr (k, d')"
  shows "positionOf d' = applyMove (Flush t (liveRows d t rid)) (positionOf d)"
proof -
  let ?l = "invoicedRows d t rid" and ?as = "invoice_allocations d"
  note rr = reverseRows_reversals [OF ok [unfolded reverseInvoiceAllocations_def]]
  have al: "invoice_allocations d' = ?as" using rr by blast
  obtain rs where rs: "invoice_reversals (taxes d') = invoice_reversals (taxes d) @ rs" "\<forall>r \<in> set rs. vr_tenant r = t \<and> vr_allocation r \<in> fst ` set ?l"
    using rr by blast
  have mem: "ia_id a \<in> fst ` set ?l \<longleftrightarrow> ia_tenant a = t \<and> ia_request a = rid \<and> ia_status a = INVOICED" if "a \<in> set ?as" for a
  proof
    assume "ia_id a \<in> fst ` set ?l"
    then obtain b where b: "b \<in> set ?as" "ia_id b = ia_id a" "ia_tenant b = t \<and> ia_request b = rid \<and> ia_status b = INVOICED"
      by (auto simp: invoicedRows_def)
    have "b = a" using invoice_invD(1) [OF inv] b(1,2) that by (auto simp: keyed_def distinct_map dest: inj_onD)
    with b(3) show "ia_tenant a = t \<and> ia_request a = rid \<and> ia_status a = INVOICED" by simp
  qed (use that in \<open>force simp: invoicedRows_def\<close>)
  have rev: "reversedAllocation d' a \<longleftrightarrow> reversedAllocation d a \<or> ia_tenant a = t \<and> ia_request a = rid \<and> ia_status a = INVOICED"
    if "a \<in> set ?as" for a
  proof
    assume "reversedAllocation d' a"
    then obtain r where r: "r \<in> set (invoice_reversals (taxes d)) \<or> r \<in> set rs" "vr_tenant r = ia_tenant a" "vr_allocation r = ia_id a"
      by (auto simp: reversedAllocation_def rs(1))
    show "reversedAllocation d a \<or> ia_tenant a = t \<and> ia_request a = rid \<and> ia_status a = INVOICED"
    proof (cases "r \<in> set rs")
      case True
      with rs(2) r(3) have "ia_id a \<in> fst ` set ?l" by metis
      with mem [OF that] show ?thesis by simp
    next
      case False
      with r show ?thesis by (auto simp: reversedAllocation_def)
    qed
  next
    assume "reversedAllocation d a \<or> ia_tenant a = t \<and> ia_request a = rid \<and> ia_status a = INVOICED"
    then show "reversedAllocation d' a"
    proof
      assume "reversedAllocation d a"
      then show ?thesis by (auto simp: reversedAllocation_def rs(1))
    next
      assume a: "ia_tenant a = t \<and> ia_request a = rid \<and> ia_status a = INVOICED"
      with mem [OF that] obtain x where "x \<in> set ?l" "fst x = ia_id a" by auto
      with rr obtain r where "r \<in> set (invoice_reversals (taxes d'))" "reversalOf t (ia_id a) r" by metis
      with a show ?thesis by (auto simp: reversedAllocation_def reversalOf_def)
    qed
  qed
  have res: "reservedOf d' = reservedOf d" by (simp add: fun_eq_iff reservedOf_def al)
  have net: "netInvoiced d' t vid = netInvoiced d t vid - movedTo (liveRows d t rid) vid" for vid
  proof -
    have "movedTo (liveRows d t rid) vid = sum_rows (\<lambda>a. liveInvoiced d t vid a \<and> ia_request a = rid) ia_invoiced ?as"
      unfolding liveRows_def movedTo_rows by (rule sum_rows_cong) (auto simp: liveInvoiced_def)
    moreover have "netInvoiced d' t vid = sum_rows (\<lambda>a. liveInvoiced d t vid a \<and> ia_request a \<noteq> rid) ia_invoiced ?as"
      unfolding netInvoiced_def al by (rule sum_rows_cong) (use rev in \<open>auto simp: liveInvoiced_def\<close>)
    moreover note sum_rows_split [of "liveInvoiced d t vid" ia_invoiced ?as "\<lambda>a. ia_request a = rid"]
    ultimately show ?thesis unfolding netInvoiced_def by simp
  qed
  show ?thesis
  proof (rule move_position [where t = t])
    show "positionOf d' (t, vid) = applyMove (Flush t (liveRows d t rid)) (positionOf d) (t, vid)" for vid
      by (simp add: positionOf_def res net)
    show "tenantRows d' t' = tenantRows d t'" if "t' \<noteq> t" for t'
      using that rs(2) by (auto simp: tenantRows_def al rs(1) filter_empty_conv)
  qed auto
qed

section \<open>The moves of the commands\<close>

fun tenantOf :: "move \<Rightarrow> string \<Rightarrow> bool" where
  "tenantOf Stay t = True"
| "tenantOf (Reserve u l) t = (u = t)"
| "tenantOf (Release u l) t = (u = t)"
| "tenantOf (Issue u l) t = (u = t)"
| "tenantOf (Flush u l) t = (u = t)"

text \<open>
  The move a command may make: a submission reserves, a rejection or cancellation releases, a
  registration issues, a tax result issues or flushes, anything else leaves the positions alone.
\<close>

fun allowedMove :: "system_command \<Rightarrow> move \<Rightarrow> bool" where
  "allowedMove c Stay = True"
| "allowedMove c (Reserve t l) = (case c of SettleCommand (RequestInvoice key i) \<Rightarrow> True | _ \<Rightarrow> False)"
| "allowedMove c (Release t l) = (case c of SettleCommand (RejectInvoice rid v r) \<Rightarrow> True
     | SettleCommand (ReviewSpecial rid v approve r) \<Rightarrow> \<not> approve | SettleCommand (CancelInvoice key rid v r) \<Rightarrow> True | _ \<Rightarrow> False)"
| "allowedMove c (Issue t l) = (case c of SettleCommand (ManualInvoice rid i) \<Rightarrow> True
     | SettleCommand (TaxResult trusted v) \<Rightarrow> ev_type v = TaxInvoiceIssuedEvent
     | Inquiry w k item \<Rightarrow> answerType w k item = TaxInvoiceIssuedEvent | _ \<Rightarrow> False)"
| "allowedMove c (Flush t l) = (case c of SettleCommand (TaxResult trusted v) \<Rightarrow> ev_type v = TaxInvoiceRedFlushedEvent
     | Inquiry w k item \<Rightarrow> answerType w k item = TaxInvoiceRedFlushedEvent | _ \<Rightarrow> False)"

definition actingTenant :: "Principal \<Rightarrow> system_command \<Rightarrow> string" where
  "actingTenant p c = (case c of SettleCommand (TaxResult trusted v) \<Rightarrow> trimSpace trusted
     | Inquiry w k item \<Rightarrow> trimSpace (qi_tenant item) | _ \<Rightarrow> p_tenant p)"

text \<open>A step of the positions by a move of positive amounts.\<close>

definition refines :: "db \<Rightarrow> move \<Rightarrow> db \<Rightarrow> bool" where
  "refines d m d' \<longleftrightarrow> positionOf d' = applyMove m (positionOf d) \<and> (\<forall>x \<in> set (moveRows m). 0 < snd x)"

lemma refines_stay: "bookTables d' = bookTables d \<Longrightarrow> refines d Stay d'"
  using positionOf_books [of d' d] by (simp add: refines_def)

lemma refines_books: "bookTables d1 = bookTables d \<Longrightarrow> bookTables d' = bookTables d2 \<Longrightarrow> refines d1 m d2 \<Longrightarrow> refines d m d'"
  using positionOf_books [of d1 d] positionOf_books [of d' d2] by (simp add: refines_def)

lemma reservedRows_pos: "settle_inv d \<Longrightarrow> x \<in> set (reservedRows d t rid) \<Longrightarrow> 0 < snd x"
  by (auto simp: reservedRows_def settle_inv_def dest: reserved_shape)

lemma liveRows_pos: "invoice_inv d \<Longrightarrow> x \<in> set (liveRows d t rid) \<Longrightarrow> 0 < snd x"
  by (auto simp: liveRows_def allocation_shape_def dest!: invoice_invD(3))

lemma refines_release:
  assumes "settle_inv d" "g = ia_reserved \<or> g = (\<lambda>a. ia_reserved a - ia_invoiced a)"
  shows "refines d (Release t (reservedRows d t rid)) (releaseReservations g t rid d)"
  using release_move [OF assms] reservedRows_pos [OF assms(1)] by (simp add: refines_def)

lemma refines_issue:
  assumes "settle_inv d" "\<And>a. ia_status a = RESERVED \<Longrightarrow> P a" "invoiceReserved P t rid (reservedRows d t rid) d = Inr d'"
  shows "refines d (Issue t (reservedRows d t rid)) d'"
  using issue_move [OF assms] reservedRows_pos [OF assms(1)] by (simp add: refines_def)

lemma CreateInvoiceRequest_refines:
  assumes "CreateInvoiceRequest s e p key i d = Inr (w, d')"
  shows "refines d Stay d' \<or> (\<exists>l. refines d (Reserve (p_tenant p) l) d')"
  using CreateInvoiceRequest_Inr [OF assms]
proof (elim disjE exE conjE)
  fix k d1 d2 t d3 d4
  assume k: "checkInvoiceRequest key i = Inr k" and fr: "scopeFrame d d1" "idemFrame d1 d2"
    and it: "insertItems e 1 (p_tenant p) (e_ids e 0) 1 (kr_items k) (set_requests t d2) = Inr d3"
    and ins: "insertReservations e (1 + length (kr_items k)) (p_tenant p) (e_ids e 0) (kr_reservations k) d3 = Inr d4"
    and bt: "bookTables d' = bookTables d4"
  have "bookTables d3 = bookTables d"
    using insertItems_frame [OF it] bookTables_frames(1) [OF fr(1)] bookTables_frames(2) [OF fr(2)] by simp
  moreover have "refines d3 (Reserve (p_tenant p) (kr_reservations k)) d4"
    using reserve_move [OF ins] normalizeReservations_pos [OF checkInvoiceRequest_Inr(1) [OF k]] by (auto simp: refines_def)
  ultimately show ?thesis using refines_books bt by blast
qed (simp add: refines_stay)

lemma RejectInvoiceRequest_refines:
  assumes inv: "settle_inv d" and ok: "RejectInvoiceRequest s e p rid version reason d = Inr (w, d')"
  shows "\<exists>l. refines d (Release (p_tenant p) l) d'"
proof -
  from RejectInvoiceRequest_Inr [OF ok] obtain d1 f where fr: "scopeFrame d d1"
    "eventFrame (releaseReservations ia_reserved (p_tenant p) rid (updateRequest (p_tenant p) rid (\<lambda>x. ir_version x = version) f d1)) d'"
    by blast
  let ?d1 = "updateRequest (p_tenant p) rid (\<lambda>x. ir_version x = version) f d1"
  have b: "bookTables ?d1 = bookTables d" using bookTables_frames(1) [OF fr(1)] by simp
  from refines_release [OF settle_books [OF inv b], of ia_reserved] have
    "refines ?d1 (Release (p_tenant p) (reservedRows ?d1 (p_tenant p) rid)) (releaseReservations ia_reserved (p_tenant p) rid ?d1)" by simp
  from refines_books [OF b bookTables_frames(3) [OF fr(2)] this] show ?thesis by blast
qed

lemma ReviewSpecialInvoice_refines:
  assumes inv: "settle_inv d" and ok: "ReviewSpecialInvoice s e p rid version approve reason d = Inr (w, d')"
  shows "refines d Stay d' \<or> \<not> approve \<and> (\<exists>l. refines d (Release (p_tenant p) l) d')"
proof -
  from ReviewSpecialInvoice_Inr [OF ok] obtain d1 rv d2 where fr: "scopeFrame d d1" "eventFrame (set_reviews rv d1) d2"
    and rest: "if approve then createApprovedInvoiceAttempt s e 2 p rid version d2 = Inr (w, d')
     else d' = releaseReservations ia_reserved (p_tenant p) rid (updateRequest (p_tenant p) rid (\<lambda>_. True)
                (\<lambda>x. x\<lparr>ir_status := IR_REJECTED, ir_rejection := reason\<rparr>) d2)" by blast
  have b: "bookTables d2 = bookTables d" using bookTables_frames(1) [OF fr(1)] bookTables_frames(3) [OF fr(2)] by simp
  show ?thesis
  proof (cases approve)
    case True
    with rest createApprovedInvoiceAttempt_books b have "bookTables d' = bookTables d" by metis
    then show ?thesis by (simp add: refines_stay)
  next
    case False
    let ?d1 = "updateRequest (p_tenant p) rid (\<lambda>_. True) (\<lambda>x. x\<lparr>ir_status := IR_REJECTED, ir_rejection := reason\<rparr>) d2"
    have b1: "bookTables ?d1 = bookTables d" using b by simp
    from refines_release [OF settle_books [OF inv b1], of ia_reserved] have
      "refines ?d1 (Release (p_tenant p) (reservedRows ?d1 (p_tenant p) rid)) (releaseReservations ia_reserved (p_tenant p) rid ?d1)" by simp
    from refines_books [OF b1 refl this] False rest show ?thesis by auto
  qed
qed

lemma CancelInvoiceRequest_refines:
  assumes inv: "settle_inv d" and ok: "CancelInvoiceRequest s e p key rid version reason d = Inr (w, d')"
  shows "refines d Stay d' \<or> (\<exists>l. refines d (Release (p_tenant p) l) d')"
  using CancelInvoiceRequest_Inr [OF ok refl]
proof (elim disjE exE conjE)
  fix d1 assume fr: "idemFrame d d1" and "withdrawn p (trimSpace rid) version (trimSpace reason) d1 d'"
  from withdrawn_books [OF this(2)] obtain d4 where b: "bookTables d4 = bookTables d1"
    "bookTables d' = bookTables (releaseReservations (\<lambda>a. ia_reserved a - ia_invoiced a) (p_tenant p) (trimSpace rid) d4)" .
  have b4: "bookTables d4 = bookTables d" using b(1) bookTables_frames(2) [OF fr] by simp
  from refines_books [OF b4 b(2) refines_release [OF settle_books [OF inv b4]]] show ?thesis by blast
qed (simp add: refines_stay)

lemma RegisterManualInvoice_refines:
  assumes inv: "settle_inv d" and ok: "RegisterManualInvoice s e p rid i d = Inr (w, d')"
  shows "\<exists>l. refines d (Issue (p_tenant p) l) d'"
proof -
  from RegisterManualInvoice_Inr [OF ok] obtain d1 t d2 where fr: "scopeFrame d d1" "eventFrame d2 d'"
    and cl: "closeManual (p_tenant p) rid (e_ids e 0) t d1 = Inr d2" by blast
  let ?d1 = "manualClosed (p_tenant p) rid (e_ids e 0) t d1"
  have b: "bookTables ?d1 = bookTables d" using bookTables_frames(1) [OF fr(1)] by simp
  from refines_issue [OF settle_books [OF inv b] _ cl [unfolded closeManual_eq]]
  have "refines ?d1 (Issue (p_tenant p) (reservedRows ?d1 (p_tenant p) rid)) d2" by blast
  from refines_books [OF b bookTables_frames(3) [OF fr(2)] this] show ?thesis by blast
qed

lemma issueInvoice_refines:
  assumes inv: "settle_inv d" and ok: "issueInvoice e t r cs v x d = Inr d'"
  shows "\<exists>l. refines d (Issue t l) d'"
proof -
  from issueInvoice_Inr [OF ok] obtain ts d1 f d2 d3 where
    st: "insertTaxItems (\<lambda>y. y) e 2 t (e_ids e 1) 1 (xr_items x) (set_tax_invoices ts d) = Inr d1" "recordResult t v f d1 = Inr d2"
    and fin: "finalizeInvoiceAllocations t (ir_id r) (updateRequest t (ir_id r) openRequest (\<lambda>q. q\<lparr>ir_status := IR_ISSUED\<rparr>) d2) = Inr d3"
    and fr: "eventFrame d3 d'" by blast
  let ?d2 = "updateRequest t (ir_id r) openRequest (\<lambda>q. q\<lparr>ir_status := IR_ISSUED\<rparr>) d2"
  have b: "bookTables ?d2 = bookTables d" using insertTaxItems_frame [OF st(1)] recordResult_books [OF st(2)] by simp
  from refines_issue [OF settle_books [OF inv b] _ fin [unfolded finalizeInvoiceAllocations_def]]
  have "refines ?d2 (Issue t (reservedRows ?d2 t (ir_id r))) d3" by blast
  from refines_books [OF b bookTables_frames(3) [OF fr] this] show ?thesis by blast
qed

lemma flushInvoice_refines:
  assumes inv: "settle_inv d" and ok: "flushInvoice e t fid f ti v x d = Inr d'"
  shows "\<exists>l. refines d (Flush t l) d'"
proof -
  from ok obtain d1 g d2 n d3 where st: "storeRedInvoice e t fid f ti v x d = Inr d1"
    "recordRedResult t v g (updateRedRequest t fid (\<lambda>q. q\<lparr>rf_status := RF_RED_FLUSHED\<rparr>) d1) = Inr d2"
    and rev: "reverseInvoiceAllocations e (3 + length (xr_items x)) t fid (ti_request ti) d2 = Inr (n, d3)"
    and fr: "eventFrame d3 d'"
    by (auto simp: flushInvoice_def andThen_eq_Inr split: if_splits dest!: outbox_frame)
  have b: "bookTables d2 = bookTables d" using storeRedInvoice_books [OF st(1)] recordRedResult_books [OF st(2)] by simp
  then have "invoice_inv d2" using settle_books [OF inv] by (simp add: settle_inv_def)
  from flush_move [OF this rev] liveRows_pos [OF this]
  have "refines d2 (Flush t (liveRows d2 t (ti_request ti))) d3" by (simp add: refines_def)
  from refines_books [OF b bookTables_frames(3) [OF fr] this] show ?thesis by blast
qed

text \<open>A success is the only result that carries an invoice into the books.\<close>

lemma applyIssueResult_refines:
  assumes inv: "settle_inv d" and ok: "applyIssueResult e t r cs v d = Inr (w, d')" and ev: "issueEvent v"
  shows "refines d Stay d' \<or> ev_type v = TaxInvoiceIssuedEvent \<and> (\<exists>l. refines d (Issue t l) d')"
proof (cases "ev_type v = TaxInvoiceIssuedEvent")
  case True
  from applyIssueResult_Inr [OF ok] show ?thesis
  proof (elim conjE disjE exE)
    fix f st q d1
    assume "recordResult t v f d = Inr d1" "d' = updateRequest t (ir_id r) openRequest (\<lambda>x. x\<lparr>ir_status := q\<rparr>) d1"
    then have "bookTables d' = bookTables d" using recordResult_books by simp
    then show ?thesis by (simp add: refines_stay)
  qed (use True issueInvoice_refines [OF inv] in blast)
next
  case False
  with ev have "ev_type v = TaxInvoiceIssueUnknownEvent \<or> ev_type v = TaxInvoiceIssueFailedEvent" by (auto simp: issueEvent_def)
  then have "bookTables d' = bookTables d"
    using ok recordResult_books by (auto simp: applyIssueResult_def andThen_eq_Inr split: if_split_asm)
  then show ?thesis by (simp add: refines_stay)
qed

lemma applyRedResult_refines:
  assumes inv: "settle_inv d" and ok: "applyRedResult e t fid f ti v d = Inr (w, d')" and ev: "redFlushEvent v"
  shows "refines d Stay d' \<or> ev_type v = TaxInvoiceRedFlushedEvent \<and> (\<exists>l. refines d (Flush t l) d')"
proof (cases "ev_type v = TaxInvoiceRedFlushedEvent")
  case True
  from applyRedResult_Inr [OF ok] show ?thesis
  proof (elim conjE disjE exE)
    fix g q d1 assume "recordRedResult t v g d = Inr d1" "d' = updateRedRequest t fid q d1"
    then have "bookTables d' = bookTables d" using recordRedResult_books by simp
    then show ?thesis by (simp add: refines_stay)
  qed (use True flushInvoice_refines [OF inv] in blast)
next
  case False
  with ev have "ev_type v = TaxInvoiceRedFlushUnknownEvent \<or> ev_type v = TaxInvoiceRedFlushFailedEvent" by (auto simp: redFlushEvent_def)
  then have "bookTables d' = bookTables d"
    using ok recordRedResult_books by (auto simp: applyRedResult_def andThen_eq_Inr split: if_split_asm)
  then show ?thesis by (simp add: refines_stay)
qed

lemma applyInvoiceIssueCallback_refines:
  assumes inv: "settle_inv d" and ok: "applyInvoiceIssueCallback e t v d = Inr (w, d')" and ev: "issueEvent v"
  shows "refines d Stay d' \<or> ev_type v = TaxInvoiceIssuedEvent \<and> (\<exists>l. refines d (Issue t l) d')"
proof (rule applyInvoiceIssueCallback_Inr [OF ok], elim disjE conjE)
  fix a r assume "recordLateIssueCallbackAfterCancel e t a r v d = Inr (w, d')"
  from recordLate_books [OF this] show ?thesis by (simp add: refines_stay)
qed (use refines_stay applyIssueResult_refines [OF inv _ ev] in blast)+

lemma applyRedFlushCallback_refines:
  assumes inv: "settle_inv d" and ok: "applyRedFlushCallback e t v d = Inr (w, d')" and ev: "redFlushEvent v"
  shows "refines d Stay d' \<or> ev_type v = TaxInvoiceRedFlushedEvent \<and> (\<exists>l. refines d (Flush t l) d')"
proof (rule applyRedFlushCallback_Inr [OF ok], elim disjE conjE)
qed (use refines_stay applyRedResult_refines [OF inv _ ev] in blast)+

lemma ApplyTaxCallback_refines:
  assumes inv: "settle_inv d" and ok: "ApplyTaxCallback e trusted v0 d = Inr (w, d')"
  shows "refines d Stay d' \<or> ev_type v0 = TaxInvoiceIssuedEvent \<and> (\<exists>l. refines d (Issue (trimSpace trusted) l) d') \<or>
    ev_type v0 = TaxInvoiceRedFlushedEvent \<and> (\<exists>l. refines d (Flush (trimSpace trusted) l) d')"
proof -
  let ?v = "v0\<lparr>ev_provider := trimSpace (ev_provider v0)\<rparr>" and ?t = "trimSpace trusted"
  have b: "bookTables (set_results ts d) = bookTables d" for ts by simp
  note inv' = settle_books [OF inv b]
  from ApplyTaxCallback_Inr [OF ok refl refl] have chk: "checkTaxCallback e ?t ?v = Inr ()"
    and rest: "d' = d \<or> (\<exists>ts d1 ts'. (if issueEvent ?v then applyInvoiceIssueCallback e ?t ?v (set_results ts d)
         else applyRedFlushCallback e ?t ?v (set_results ts d)) = Inr (w, d1) \<and> d' = set_results ts' d1)" by blast+
  from chk have ev: "issueEvent ?v \<or> redFlushEvent ?v" by (auto simp: checkTaxCallback_def split: if_split_asm)
  from rest show ?thesis
  proof (elim disjE exE conjE)
    fix ts d1 ts'
    assume ap: "(if issueEvent ?v then applyInvoiceIssueCallback e ?t ?v (set_results ts d)
         else applyRedFlushCallback e ?t ?v (set_results ts d)) = Inr (w, d1)" and d': "d' = set_results ts' d1"
    have lift: "refines (set_results ts d) m d1 \<Longrightarrow> refines d m d'" for m
      by (rule refines_books [OF b]) (simp_all add: d')
    show ?thesis
    proof (cases "issueEvent ?v")
      case True
      with applyInvoiceIssueCallback_refines [OF inv' _ True] ap lift show ?thesis by (simp, blast)
    next
      case False
      with ev have "redFlushEvent ?v" by blast
      with applyRedFlushCallback_refines [OF inv' _ this] ap False lift show ?thesis by (simp, blast)
    qed
  qed (simp add: refines_stay)
qed

lemma frame_reservations:
  "scopeFrame d d' \<Longrightarrow> invoice_allocations d' = invoice_allocations d" "idemFrame d d' \<Longrightarrow> invoice_allocations d' = invoice_allocations d"
  "eventFrame d d' \<Longrightarrow> invoice_allocations d' = invoice_allocations d"
  using contractTables_frames(1-3) [of d d'] by (simp_all add: contractTables_def)

lemma bookExec_reservations:
  assumes "bookExec c d = Inr (u, d')"
  shows "invoice_allocations d' = invoice_allocations d"
  using assms
proof (cases "(c, d)" rule: bookExec.cases)
  case (1 s e p c d)
  with assms show ?thesis
    using ledgerExec_plans [of "(s, e, p, c)" d u d'] by (simp add: planTables_def contractTables_def)
next
  case (2 s e p key i d)
  with assms obtain w where "CreateManualPlan s e p key i d = Inr (w, d')" by (auto simp: resMap_drop_Inr)
  moreover have ins: "insertPlan rp d2 = Inr d3 \<Longrightarrow> invoice_allocations d3 = invoice_allocations d2" for rp d2 d3
    by (auto simp: insertPlan_def split: if_splits sum.splits)
  ultimately show ?thesis using CreateManualPlan_Inr [of s e p key i d w d'] 2 by (auto dest!: frame_reservations ins)
next
  case (3 s e p pid i d)
  with assms have "ConfirmPlan s e p pid i d = Inr (u, d')" by simp
  from ConfirmPlan_Inr [OF this] 3 show ?thesis
    by (auto simp: postReceivable_def andThen_eq_Inr dest!: frame_reservations)
next
  case (4 s e p pid i d)
  with assms have "AdjustPlan s e p pid i d = Inr (u, d')" by simp
  from AdjustPlan_Inr [OF this] 4 show ?thesis
    by (auto simp: postAdjustment_def dest!: frame_reservations)
next
  case (5 s e p project version txt1 d)
  with assms show ?thesis
    by (auto simp: UpdateProjectMappingNote_def andThen_eq_Inr dest!: outbox_frame frame_reservations split: if_splits)
qed

lemma bookExec_stay: "bookExec c d = Inr (u, d') \<Longrightarrow> refines d Stay d'"
  using positionOf_cong [OF bookExec_reservations, of c d u d'] bookExec_taxes [of c d u d'] by (simp add: refines_def)

section \<open>The refinement\<close>

lemma settleExec_refines:
  assumes inv: "settle_inv d" and ok: "settleExec (s, e, p, c) d = Inr (u, d')"
  shows "\<exists>m. refines d m d' \<and> allowedMove (SettleCommand c) m \<and> tenantOf m (actingTenant p (SettleCommand c))"
proof -
  have stay: "refines d Stay d' \<Longrightarrow> ?thesis" by (intro exI [of _ Stay]) simp
  have res: "refines d m d' \<Longrightarrow> allowedMove (SettleCommand c) m \<Longrightarrow> tenantOf m (actingTenant p (SettleCommand c)) \<Longrightarrow> ?thesis" for m
    by blast
  note defs = actingTenant_def
  show ?thesis
  proof (cases c)
    case (BookCommand b)
    with ok have "refines d Stay d'" by (auto dest: bookExec_stay)
    then show ?thesis by (rule stay)
  next
    case (RequestInvoice key i)
    with ok obtain w where "CreateInvoiceRequest s e p key i d = Inr (w, d')" by (auto simp: unitOf_Inr)
    from CreateInvoiceRequest_refines [OF this] RequestInvoice show ?thesis by (auto intro: stay res simp: defs)
  next
    case (RejectInvoice rid version reason)
    with ok have "RejectInvoiceRequest s e p rid version reason d = Inr (u, d')" by simp
    from RejectInvoiceRequest_refines [OF inv this] RejectInvoice show ?thesis by (auto intro: res simp: defs)
  next
    case (ReviewSpecial rid version approve reason)
    with ok obtain w where "ReviewSpecialInvoice s e p rid version approve reason d = Inr (w, d')" by (auto simp: unitOf_Inr)
    from ReviewSpecialInvoice_refines [OF inv this] ReviewSpecial show ?thesis by (auto intro: stay res simp: defs)
  next
    case (ManualInvoice rid i)
    with ok obtain w where "RegisterManualInvoice s e p rid i d = Inr (w, d')" by (auto simp: unitOf_Inr)
    from RegisterManualInvoice_refines [OF inv this] ManualInvoice show ?thesis by (auto intro: res simp: defs)
  next
    case (CancelInvoice key rid version reason)
    with ok have "CancelInvoiceRequest s e p key rid version reason d = Inr (u, d')" by simp
    from CancelInvoiceRequest_refines [OF inv this] CancelInvoice show ?thesis by (auto intro: stay res simp: defs)
  next
    case (TaxResult trusted v)
    with ok obtain w where "ApplyTaxCallback e trusted v d = Inr (w, d')" by (auto simp: unitOf_Inr)
    from ApplyTaxCallback_refines [OF inv this] TaxResult show ?thesis by (auto intro: stay res simp: defs)
  qed (rule stay, rule refines_stay, (use ok in \<open>auto simp: unitOf_Inr dest: invoice_command_books\<close>)[1])+
qed

lemma workFrame_stay: "workFrame d d' \<Longrightarrow> refines d Stay d'"
  by (rule refines_stay) (simp add: workFrame_def)

lemma quiet_stay: "quiet d d' \<Longrightarrow> refines d Stay d'"
  by (rule refines_stay) (simp add: quiet_def)

lemma reconcile_refines:
  assumes inv: "service_inv d" and r: "reconcile w e k item d = (r, d')"
  shows "\<exists>m. refines d m d' \<and> allowedMove (Inquiry w k item) m \<and> tenantOf m (actingTenant p (Inquiry w k item))"
proof -
  have move: "refines d m d' \<Longrightarrow> allowedMove (Inquiry w k item) m \<Longrightarrow> tenantOf m (trimSpace (qi_tenant item)) \<Longrightarrow> ?thesis" for m
    by (auto simp: actingTenant_def)
  show ?thesis
  proof (rule reconcile_effect [OF r])
    assume "d' = d"
    then show ?thesis by (intro move [of Stay] workFrame_stay) simp_all
  next
    fix d1 assume cl: "claimAttempt e item d = Some d1"
      and a: "d' = d1 \<or> (\<exists>v st. ApplyTaxCallback e (qi_tenant item) v d1 = Inr (st, d') \<and> answerType w k item = ev_type v)"
    note f = claimAttempt_frame [OF cl]
    have b: "refines d1 m d' \<Longrightarrow> refines d m d'" for m by (rule refines_books [OF _ refl]) (use f in \<open>simp_all add: workFrame_def\<close>)
    have s: "settle_inv d1" using workFrame_inv [OF f] inv by (simp add: service_inv_def)
    from a show ?thesis
    proof (elim disjE exE conjE)
      assume "d' = d1"
      with f show ?thesis by (intro move [of Stay] workFrame_stay) simp_all
    next
      fix v st assume v: "ApplyTaxCallback e (qi_tenant item) v d1 = Inr (st, d')" "answerType w k item = ev_type v"
      from ApplyTaxCallback_refines [OF s v(1)] show ?thesis
      proof (elim disjE exE conjE)
        assume "refines d1 Stay d'"
        then show ?thesis by (intro move [of Stay] b) simp_all
      next
        fix l assume "ev_type v = TaxInvoiceIssuedEvent" "refines d1 (Issue (trimSpace (qi_tenant item)) l) d'"
        then show ?thesis by (intro move [of "Issue (trimSpace (qi_tenant item)) l"] b) (simp_all add: v(2))
      next
        fix l assume "ev_type v = TaxInvoiceRedFlushedEvent" "refines d1 (Flush (trimSpace (qi_tenant item)) l) d'"
        then show ?thesis by (intro move [of "Flush (trimSpace (qi_tenant item)) l"] b) (simp_all add: v(2))
      qed
    qed
  qed
qed

text \<open>C3: every command, tax result, inquiry at the provider, dead-letter retry and worker pass refines one abstract move
  of the positions, by positive amounts, and only of the kind its command allows: a submission
  reserves, a rejection or cancellation releases, a manual registration or a successful tax result
  turns reserved into invoiced amounts one for one, a successful red flush takes invoiced amounts
  back, and everything else leaves all positions alone. The move touches the acting tenant only; a command may also leave
  all positions alone.\<close>

theorem invoicing_refines_moves:
  assumes inv: "service_inv d" and ok: "systemExec (s, e, p, c) d = Inr (u, d')"
  shows "\<exists>m. positionOf d' = applyMove m (positionOf d) \<and> (\<forall>x \<in> set (moveRows m). 0 < snd x) \<and>
    allowedMove c m \<and> tenantOf m (actingTenant p c)"
proof -
  have stay: "refines d Stay d' \<Longrightarrow> \<exists>m. refines d m d' \<and> allowedMove c m \<and> tenantOf m (actingTenant p c)"
    by (intro exI [of _ Stay]) simp
  have "\<exists>m. refines d m d' \<and> allowedMove c m \<and> tenantOf m (actingTenant p c)"
  proof (cases c)
    case (SettleCommand b)
    with ok inv settleExec_refines [of d s e p b u d'] show ?thesis by (simp add: service_inv_def)
  next
    case (RetryEvent eid)
    with ok have "quiet d d'" by (auto dest: RetryOutboxEvent_quiet)
    then show ?thesis by (intro stay quiet_stay)
  next
    case (RetryTaxCommand key eid reason)
    with ok have "quiet d d'" by (auto dest: RetryTaxCommandDeadLetter_quiet)
    then show ?thesis by (intro stay quiet_stay)
  next
    case (DeliveryPass w st n dsts tk)
    with ok have "d' = snd (snd (runFrom w st (batchSize n) 0 dsts tk d))" by (simp add: RunOnce_def)
    then have "workFrame d d'" using runFrom_frame by simp
    then show ?thesis by (intro stay workFrame_stay)
  next
    case (Inquiry w k item)
    with ok obtain r where r: "reconcile w e k item d = (r, d')" by (cases "reconcile w e k item d") simp
    from reconcile_refines [OF inv r] Inquiry show ?thesis by simp
  qed
  then show ?thesis by (auto simp: refines_def)
qed

theorem invoicing_refines_moves_witness:
  "\<exists>d m. systemExec (sampleService, freshEnv [''I'', ''o1'', ''o2''], sampleUser ''bob'',
       SettleCommand (ManualInvoice ''Q'' sampleManual)) (samplePending MANUAL) = Inr ((), d) \<and>
     positionOf (samplePending MANUAL) (''T'', ''V'') = (5300, 0) \<and>
     positionOf d = applyMove m (positionOf (samplePending MANUAL)) \<and> tenantOf m ''T''"
proof -
  from sample_manual obtain d where "RegisterManualInvoice sampleService (freshEnv [''I'', ''o1'', ''o2'']) (sampleUser ''bob'') ''Q''
      sampleManual (samplePending MANUAL) = Inr (''I'', d)" by (elim exE conjE) (rule that)
  then have ok: "systemExec (sampleService, freshEnv [''I'', ''o1'', ''o2''], sampleUser ''bob'',
       SettleCommand (ManualInvoice ''Q'' sampleManual)) (samplePending MANUAL) = Inr ((), d)"
    by (simp add: unitOf_def resMap_def)
  have "actingTenant (sampleUser ''bob'') (SettleCommand (ManualInvoice ''Q'' sampleManual)) = ''T''" by (simp add: actingTenant_def)
  with invoicing_refines_moves [OF samplePending_inv ok] obtain m where
    "positionOf d = applyMove m (positionOf (samplePending MANUAL))" "tenantOf m ''T''" by auto
  moreover have "positionOf (samplePending MANUAL) (''T'', ''V'') = (5300, 0)"
    by (simp add: positionOf_def reservedOf_def netInvoiced_def liveInvoiced_def sampleReservation_def newReservation_def)
  ultimately show ?thesis using ok by blast
qed

end
