(* ===== verification/InvoiceProps.thy ===== *)
theory InvoiceProps
  imports InvoiceSpec
begin

text \<open>
  Properties of invoicing: what every run of the service keeps, and what the single commands and
  tax results do.
\<close>

section \<open>Runs\<close>

lemma system_run_inv:
  assumes "service_inv d" "\<forall>c \<in> set cmds. freshIds c"
  shows "service_inv (run_commands systemExec cmds d)"
  using system.run_inv [OF assms(1)] assms(2) by blast

definition sampleSystemRun :: "system_command request list" where
  "sampleSystemRun = [(sampleService, freshEnv [''I'', ''o1'', ''o2''], sampleUser ''bob'', SettleCommand (ManualInvoice ''Q'' sampleManual))]"

lemma sampleSystemRun_fresh: "\<forall>c \<in> set sampleSystemRun. freshIds c"
  by (auto simp: sampleSystemRun_def intro!: freshEnv_fresh)

lemma sampleSystemRun_result:
  assumes "RegisterManualInvoice sampleService (freshEnv [''I'', ''o1'', ''o2'']) (sampleUser ''bob'') ''Q'' sampleManual
      (samplePending MANUAL) = Inr (w, d)"
  shows "run_commands systemExec sampleSystemRun (samplePending MANUAL) = d"
  using assms by (simp add: sampleSystemRun_def commit_def unitOf_def resMap_def)

text \<open>C1: whatever sequence of receipts, plans, invoice requests, approvals, cancellations, tax
  results, red flushes, inquiries at the tax provider, dead-letter retries and worker passes runs, the invoiced amount of every
  receivable is the sum of its invoice allocations that no red flush has reversed, it is not
  negative, and together with the amounts reserved for open requests it never exceeds what is
  receivable.\<close>

theorem never_overinvoiced:
  assumes "service_inv d" "\<forall>c \<in> set cmds. freshIds c" and d': "d' = run_commands systemExec cmds d"
    and v: "v \<in> set (receivables d')"
  shows "0 \<le> rv_invoiced v \<and> rv_invoiced v = netInvoiced d' (rv_tenant v) (rv_id v) \<and>
    0 \<le> reservedOf d' (rv_tenant v) (rv_id v) \<and>
    rv_invoiced v + reservedOf d' (rv_tenant v) (rv_id v) \<le> rv_original v"
proof -
  have inv: "invoice_inv d'" using system_run_inv [OF assms(1,2)] by (simp add: d' service_inv_def settle_inv_def)
  have "0 \<le> reservedOf d' (rv_tenant v) (rv_id v)" unfolding reservedOf_def
    by (intro sum_rows_nonneg) (auto dest: invoice_invD(3) [OF inv] simp: allocation_shape_def)
  with invoice_invD(6) [OF inv v] netInvoiced_nonneg [OF inv] show ?thesis by (simp add: invoice_ok_def)
qed

theorem never_overinvoiced_witness:
  "\<exists>v \<in> set (receivables (run_commands systemExec sampleSystemRun (samplePending MANUAL))). rv_invoiced v = 5300 \<and>
     rv_invoiced v + reservedOf (run_commands systemExec sampleSystemRun (samplePending MANUAL)) (rv_tenant v) (rv_id v) \<le> rv_original v"
proof -
  from sample_manual obtain d where ok: "RegisterManualInvoice sampleService (freshEnv [''I'', ''o1'', ''o2'']) (sampleUser ''bob'') ''Q''
      sampleManual (samplePending MANUAL) = Inr (''I'', d)"
    and v: "receivables d = [sampleReceivable\<lparr>rv_invoiced := 5300, rv_invoice := PARTIALLY_INVOICED, rv_version := 2\<rparr>]" by blast
  note run = sampleSystemRun_result [OF ok]
  show ?thesis unfolding run
    using never_overinvoiced [OF samplePending_inv sampleSystemRun_fresh run [symmetric]] v by simp
qed

text \<open>C2: whatever runs, an invoice belongs to a request that is issued, and a request has at most
  one invoice that is not the red counterpart of another, so no retry, late result, manual
  registration or repeated approval ever issues a second one.\<close>

theorem one_invoice_per_request:
  assumes "service_inv d" "\<forall>c \<in> set cmds. freshIds c" and d': "d' = run_commands systemExec cmds d"
    and t: "t \<in> set (tax_invoices (taxes d'))"
  shows "issued_for (invoice_requests (taxes d')) t \<and>
    (\<forall>u \<in> set (tax_invoices (taxes d')). blue (red_flush_relations (taxes d')) t \<longrightarrow> blue (red_flush_relations (taxes d')) u \<longrightarrow>
       sameRequest t u \<longrightarrow> u = t)"
proof -
  have "issue_inv d'" using system_run_inv [OF assms(1,2)] by (simp add: d' service_inv_def)
  note ok = this [unfolded issue_inv_eq]
  show ?thesis
  proof (intro conjI ballI impI)
    show "issued_for (invoice_requests (taxes d')) t" by (rule issue_okD(5) [OF ok t])
  next
    fix u assume u: "u \<in> set (tax_invoices (taxes d'))" and b: "blue (red_flush_relations (taxes d')) t"
      "blue (red_flush_relations (taxes d')) u" "sameRequest t u"
    from issue_okD(6) [OF ok t u b] show "u = t" by (rule sym)
  qed
qed

theorem one_invoice_per_request_witness:
  "\<exists>t \<in> set (tax_invoices (taxes (run_commands systemExec sampleSystemRun (samplePending MANUAL)))).
     issued_for (invoice_requests (taxes (run_commands systemExec sampleSystemRun (samplePending MANUAL)))) t"
proof -
  from sample_manual obtain d where ok: "RegisterManualInvoice sampleService (freshEnv [''I'', ''o1'', ''o2'']) (sampleUser ''bob'') ''Q''
      sampleManual (samplePending MANUAL) = Inr (''I'', d)"
    and t: "map (\<lambda>t. (ti_id t, ti_tenant t, ti_request t)) (tax_invoices (taxes d)) = [(''I'', ''T'', ''Q'')]" by (elim exE conjE) (rule that)
  note run = sampleSystemRun_result [OF ok]
  from t obtain x where "x \<in> set (tax_invoices (taxes d))" by (cases "tax_invoices (taxes d)") auto
  with one_invoice_per_request [OF samplePending_inv sampleSystemRun_fresh run [symmetric]]
  show ?thesis unfolding run by blast
qed

section \<open>Tax results\<close>

definition resultRows :: "db \<Rightarrow> tax_result list" where
  "resultRows d = tax_results (taxes d)"

lemma resultRows_writes [simp]:
  "resultRows (set_requests t1 d) = resultRows d" "resultRows (set_attempts t2 d) = resultRows d"
  "resultRows (set_tax_invoices t3 d) = resultRows d" "resultRows (set_red_requests t5 d) = resultRows d"
  "resultRows (set_red_attempts t6 d) = resultRows d" "resultRows (set_relations t8 d) = resultRows d"
  "resultRows (updateRequest t r P f d) = resultRows d" "resultRows (updateAttempt t a Q g d) = resultRows d"
  "resultRows (updateRedRequest t r h d) = resultRows d" "resultRows (set_results ts d) = ts"
  "resultRows (d\<lparr>taxes := (taxes d)\<lparr>tax_invoice_items := tx\<rparr>\<rparr>) = resultRows d"
  by (simp_all add: resultRows_def set_requests_def set_attempts_def set_tax_invoices_def set_red_requests_def set_red_attempts_def
      set_relations_def updateRequest_def updateAttempt_def updateRedRequest_def set_results_def)

lemma taxes_results: "taxes d' = taxes d \<Longrightarrow> resultRows d' = resultRows d"
  by (simp add: resultRows_def)

lemmas frame_results = frame_taxes [THEN taxes_results]

lemma insertTaxItems_results: "insertTaxItems f e n t tid line xs d = Inr d' \<Longrightarrow> resultRows d' = resultRows d"
proof (induction xs arbitrary: n line d)
  case (Cons x xs)
  then show ?case by (auto simp: andThen_eq_Inr)
qed simp

lemma recordResult_results: "recordResult t v f d = Inr d' \<Longrightarrow> resultRows d' = resultRows d"
  by (auto simp: recordResult_def split: if_splits)

lemma recordRedResult_results: "recordRedResult t v f d = Inr d' \<Longrightarrow> resultRows d' = resultRows d"
  by (auto simp: recordRedResult_def split: if_splits)

lemma invoiceReserved_results: "invoiceReserved P t rid l d = Inr d' \<Longrightarrow> resultRows d' = resultRows d"
proof (induction l arbitrary: d)
  case (Cons x l)
  obtain vid n where x: "x = (vid, n)" by (cases x)
  from Cons.prems x obtain d1 where inc: "incrementInvoiced t vid n (markInvoiced P t rid vid d) = Inr d1"
    and r: "invoiceReserved P t rid l d1 = Inr d'" by (auto simp: andThen_eq_Inr)
  from inc have "resultRows d1 = resultRows d"
    by (auto simp: incrementInvoiced_def andThen_eq_Inr setInvoiced_def markInvoiced_def resultRows_def Let_def)
  with Cons.IH [OF r] show ?case by simp
qed simp

lemma reverseRows_results: "reverseRows e n t fid l d = Inr (k, d') \<Longrightarrow> resultRows d' = resultRows d"
proof (induction l arbitrary: n d)
  case (Cons x l)
  obtain aid vid m where x: "x = (aid, vid, m)" by (cases x)
  have dec: "decrementInvoiced t vid m d1 = Inr d2 \<Longrightarrow> resultRows d2 = resultRows d1" for d1 d2
    by (auto simp: decrementInvoiced_def andThen_eq_Inr setInvoiced_def resultRows_def Let_def)
  have "resultRows (d\<lparr>taxes := (taxes d)\<lparr>invoice_reversals := vr\<rparr>\<rparr>) = resultRows d" for vr by (simp add: resultRows_def)
  with Cons x show ?case by (auto simp: andThen_eq_Inr split: if_split_asm dest!: dec)
qed simp

lemmas result_steps = insertTaxItems_results recordResult_results recordRedResult_results invoiceReserved_results
  reverseRows_results outbox_frame [THEN frame_results(3)]

lemma issueInvoice_results: "issueInvoice e t r cs v x d = Inr d' \<Longrightarrow> resultRows d' = resultRows d"
  by (auto simp: issueInvoice_def andThen_eq_Inr Let_def finalizeInvoiceAllocations_def split: if_splits dest!: result_steps)

lemma flushInvoice_results: "flushInvoice e t fid f ti v x d = Inr d' \<Longrightarrow> resultRows d' = resultRows d"
  by (auto simp: flushInvoice_def storeRedInvoice_def reverseInvoiceAllocations_def andThen_eq_Inr Let_def split: if_splits dest!: result_steps)

lemma applyInvoiceIssueCallback_results:
  assumes "applyInvoiceIssueCallback e t v d = Inr (w, d')"
  shows "resultRows d' = resultRows d"
proof (rule applyInvoiceIssueCallback_Inr [OF assms], elim disjE conjE)
  fix a r assume "recordLateIssueCallbackAfterCancel e t a r v d = Inr (w, d')"
  then show ?thesis
    by (auto simp: recordLateIssueCallbackAfterCancel_def andThen_eq_Inr split: if_splits dest!: result_steps)
next
  fix r cs assume "applyIssueResult e t r cs v d = Inr (w, d')"
  from applyIssueResult_Inr [OF this] show ?thesis by (auto dest!: result_steps issueInvoice_results)
qed simp

lemma applyRedFlushCallback_results:
  assumes "applyRedFlushCallback e t v d = Inr (w, d')"
  shows "resultRows d' = resultRows d"
proof (rule applyRedFlushCallback_Inr [OF assms], elim disjE conjE)
  fix a f ti assume "applyRedResult e t (redRequestOf v a) f ti v d = Inr (w, d')"
  from applyRedResult_Inr [OF this] show ?thesis by (auto dest!: result_steps flushInvoice_results)
qed simp

text \<open>The inbox after a result: one row per event of a provider, with the digest and the status.\<close>

definition resultKey :: "tax_result \<Rightarrow> string \<times> string \<times> string" where
  "resultKey r = (tr_tenant r, tr_provider r, tr_event r)"

lemma ApplyTaxCallback_recorded:
  assumes ok: "ApplyTaxCallback e trusted v0 d = Inr (st, d')" and k: "keyed resultKey (resultRows d)"
    and v: "v = v0\<lparr>ev_provider := trimSpace (ev_provider v0)\<rparr>" and t: "t = trimSpace trusted"
  shows "checkTaxCallback e t v = Inr () \<and> keyed resultKey (resultRows d') \<and>
    (\<exists>r \<in> set (resultRows d'). resultKey r = (t, ev_provider v, ev_id v) \<and> tr_hash r = e_sha256 e (jsonEvent v) \<and> tr_status r = st)"
proof -
  note r = ApplyTaxCallback_Inr [OF ok v t]
  from r have "(\<exists>r \<in> set (resultRows d'). resultKey r = (t, ev_provider v, ev_id v) \<and> tr_hash r = e_sha256 e (jsonEvent v) \<and> tr_status r = st) \<and>
    keyed resultKey (resultRows d')"
  proof (elim conjE disjE exE)
    fix ts d1
    assume ins: "insert_row tax_result_clash (newResult e t v) (tax_results (taxes d)) = Inr ts"
      and ap: "(if issueEvent v then applyInvoiceIssueCallback e t v (set_results ts d)
         else applyRedFlushCallback e t v (set_results ts d)) = Inr (st, d1)"
      and d': "d' = set_results (update_rows (\<lambda>r. tr_id r = e_ids e 0) (\<lambda>r. r\<lparr>tr_status := st\<rparr>) (tax_results (taxes d1))) d1"
    have ts: "ts = resultRows d @ [newResult e t v]" using ins by (simp add: insert_row_Inr resultRows_def)
    have "resultRows d1 = ts"
      using ap applyInvoiceIssueCallback_results [of e t v "set_results ts d" st d1]
        applyRedFlushCallback_results [of e t v "set_results ts d" st d1] by (auto split: if_splits)
    then have rows: "resultRows d' = update_rows (\<lambda>r. tr_id r = e_ids e 0) (\<lambda>r. r\<lparr>tr_status := st\<rparr>) ts"
      by (simp add: d' resultRows_def [symmetric])
    have "keyed resultKey ts"
      using tax_result_t.insert_keyed [of "resultRows d" "newResult e t v" ts] k ins by (simp add: resultRows_def resultKey_def [abs_def])
    then have "keyed resultKey (resultRows d')"
      unfolding rows by (simp add: keyed_def map_update_rows_key resultKey_def)
    moreover have "(newResult e t v)\<lparr>tr_status := st\<rparr> \<in> set (resultRows d')"
      unfolding rows ts by (simp add: update_rows_def newResult_def)
    ultimately show ?thesis
      by (intro conjI bexI [of _ "(newResult e t v)\<lparr>tr_status := st\<rparr>"]) (simp_all add: resultKey_def newResult_def)
  qed (use k in \<open>auto simp: resultRows_def resultKey_def\<close>)
  with r show ?thesis by blast
qed

lemma ApplyTaxCallback_known:
  assumes k: "keyed resultKey (resultRows d)" and r: "r \<in> set (resultRows d)" "resultKey r = (t, ev_provider v, ev_id v)"
    and chk: "checkTaxCallback e t v = Inr ()" and v: "v = v0\<lparr>ev_provider := trimSpace (ev_provider v0)\<rparr>" and t: "t = trimSpace trusted"
  shows "ApplyTaxCallback e trusted v0 d = (if tr_hash r \<noteq> e_sha256 e (jsonEvent v) then Inl ErrConflict else Inr (tr_status r, d))"
proof -
  let ?Q = "\<lambda>x. tr_tenant x = t \<and> tr_provider x = ev_provider v \<and> tr_event x = ev_id v"
  have f: "find ?Q (tax_results (taxes d)) = Some r"
    using k r by (intro tax_result_t.find_by_key) (auto simp: resultRows_def resultKey_def [abs_def])
  have "list_ex (tax_result_clash (newResult e t v)) (tax_results (taxes d))"
    using r by (auto simp: list_ex_iff tax_result_clash_def newResult_def resultRows_def resultKey_def)
  then have "insert_row tax_result_clash (newResult e t v) (tax_results (taxes d)) = Inl SqlDuplicate" by (simp add: insert_row_def)
  with f chk show ?thesis by (simp add: ApplyTaxCallback_def Let_def v [symmetric] t [symmetric] query_row_def)
qed

lemma checkTaxCallback_cases: "checkTaxCallback e t v = Inr () \<or> checkTaxCallback e t v = Inl ErrInvalid"
  by (auto simp: checkTaxCallback_def validateTaxInvoiceResult_def split: option.splits)

lemma checkTaxCallback_later: "checkTaxCallback e t v = Inr () \<Longrightarrow> e_now e \<le> e_now e' \<Longrightarrow> checkTaxCallback e' t v = Inr ()"
  by (auto simp: checkTaxCallback_def split: option.splits if_splits)

text \<open>C15: a tax result takes effect once. Delivering the same event again to the store it left, at any later time,
  returns the status of the first delivery and changes nothing; another payload under the same provider
  and event identifier is refused, as a conflict or as invalid.\<close>

theorem tax_result_once:
  assumes ok: "ApplyTaxCallback e trusted v d = Inr (st, d')" and k: "keyed resultKey (resultRows d)"
    and e': "e_now e \<le> e_now e'" "e_sha256 e' = e_sha256 e"
  shows "ApplyTaxCallback e' trusted v d' = Inr (st, d') \<and>
    (\<forall>v'. ev_provider v' = ev_provider v \<longrightarrow> ev_id v' = ev_id v \<longrightarrow>
       e_sha256 e (jsonEvent (v'\<lparr>ev_provider := trimSpace (ev_provider v)\<rparr>)) \<noteq> e_sha256 e (jsonEvent (v\<lparr>ev_provider := trimSpace (ev_provider v)\<rparr>)) \<longrightarrow>
       ApplyTaxCallback e' trusted v' d' = Inl ErrConflict \<or> ApplyTaxCallback e' trusted v' d' = Inl ErrInvalid)"
proof -
  let ?v = "v\<lparr>ev_provider := trimSpace (ev_provider v)\<rparr>" and ?t = "trimSpace trusted"
  from ApplyTaxCallback_recorded [OF ok k refl refl] obtain r where chk: "checkTaxCallback e ?t ?v = Inr ()"
    and k': "keyed resultKey (resultRows d')" and r: "r \<in> set (resultRows d')" "resultKey r = (?t, ev_provider ?v, ev_id ?v)"
      "tr_hash r = e_sha256 e (jsonEvent ?v)" "tr_status r = st" by blast
  note known = ApplyTaxCallback_known [OF k' r(1) _ _ refl refl]
  show ?thesis
  proof (intro conjI allI impI)
    show "ApplyTaxCallback e' trusted v d' = Inr (st, d')"
      using known [of trusted v e'] r(2-4) checkTaxCallback_later [OF chk e'(1)] e'(2) by simp
  next
    fix v' :: TaxCallbackEvent
    let ?v' = "v'\<lparr>ev_provider := trimSpace (ev_provider v')\<rparr>"
    assume p: "ev_provider v' = ev_provider v" and i: "ev_id v' = ev_id v"
      and h: "e_sha256 e (jsonEvent (v'\<lparr>ev_provider := trimSpace (ev_provider v)\<rparr>)) \<noteq> e_sha256 e (jsonEvent ?v)"
    from checkTaxCallback_cases [of e' ?t ?v'] show "ApplyTaxCallback e' trusted v' d' = Inl ErrConflict \<or> ApplyTaxCallback e' trusted v' d' = Inl ErrInvalid"
    proof
      assume "checkTaxCallback e' ?t ?v' = Inr ()"
      with known [of trusted v' e'] r(2,3) p i h e'(2) show ?thesis by simp
    next
      assume "checkTaxCallback e' ?t ?v' = Inl ErrInvalid"
      then show ?thesis by (simp add: ApplyTaxCallback_def Let_def)
    qed
  qed
qed

theorem tax_result_once_witness:
  "\<exists>d. ApplyTaxCallback (freshEnv [''z1'', ''o1'', ''o2'']) ''T'' sampleIssued sampleCancelled = Inr (TP_PROVIDER_CONFLICT, d) \<and>
     ApplyTaxCallback (freshEnv [''z2'']) ''T'' sampleIssued d = Inr (TP_PROVIDER_CONFLICT, d)"
proof -
  from sample_late obtain d where ok: "ApplyTaxCallback (freshEnv [''z1'', ''o1'', ''o2'']) ''T'' sampleIssued sampleCancelled =
    Inr (TP_PROVIDER_CONFLICT, d)" by blast
  from tax_result_once [OF ok, of "freshEnv [''z2'']"] ok show ?thesis by (simp add: keyed_def resultRows_def)
qed

lemma attemptFacts_row:
  assumes inv: "issue_inv d" and a: "a \<in> set (issue_attempts (taxes d))" "att_is t aid a"
    and r: "r \<in> set (invoice_requests (taxes d))" "requestOf r a" and f: "attemptFacts d t aid = Inr (a', r', cs)"
  shows "a' = a" "r' = r"
proof -
  from f have f1: "find (\<lambda>x. att_is t aid x \<and> at_channel x = TAX_ADAPTER) (issue_attempts (taxes d)) = Some a'"
    and f2: "find (\<lambda>x. ir_id x = at_request a' \<and> ir_tenant x = at_tenant a') (invoice_requests (taxes d)) = Some r'"
    by (auto simp: attemptFacts_def andThen_eq_Inr query_row_Inr)
  have k: "keyed at_id (issue_attempts (taxes d))" "keyed ir_id (invoice_requests (taxes d))"
    using issue_okD(1,2) [OF inv [unfolded issue_inv_eq]] by simp_all
  from find_SomeD [OF f1] have m: "a' \<in> set (issue_attempts (taxes d))" "at_id a' = at_id a" using a(2) by (auto simp: att_is_def)
  show a': "a' = a" using inj_onD [of at_id "set (issue_attempts (taxes d))" a' a] k(1) m a(1) by (simp add: keyed_def distinct_map)
  from find_SomeD [OF f2] have n: "r' \<in> set (invoice_requests (taxes d))" "ir_id r' = ir_id r" using r(2) a' by (auto simp: requestOf_def)
  show "r' = r" using inj_onD [of ir_id "set (invoice_requests (taxes d))" r' r] k(2) n r(1) by (simp add: keyed_def distinct_map)
qed

text \<open>C16: a result that arrives after the request was cancelled changes no invoice, no request and no
  amount. A success that is newer than what the attempt has recorded is kept as a conflict of the
  provider, for people to reconcile.\<close>

theorem late_result_after_cancel:
  assumes inv: "issue_inv d" and ev: "issueEvent v" and ok: "ApplyTaxCallback e trusted v d = Inr (st, d')"
    and a: "a \<in> set (issue_attempts (taxes d))" "att_is (trimSpace trusted) (ev_attempt v) a"
    and r: "r \<in> set (invoice_requests (taxes d))" "requestOf r a" "ir_status r = IR_CANCELLED"
  shows "bookTables d' = bookTables d \<and> tax_invoices (taxes d') = tax_invoices (taxes d) \<and>
    invoice_requests (taxes d') = invoice_requests (taxes d) \<and>
    (ev_type v = TaxInvoiceIssuedEvent \<and> at_sequence a < ev_sequence v \<and> at_status a \<noteq> AT_ISSUED \<and>
       (\<forall>x \<in> set (resultRows d). resultKey x \<noteq> (trimSpace trusted, trimSpace (ev_provider v), ev_id v)) \<longrightarrow> st = TP_PROVIDER_CONFLICT)"
proof -
  let ?v = "v\<lparr>ev_provider := trimSpace (ev_provider v)\<rparr>" and ?t = "trimSpace trusted"
  have iv: "issueEvent ?v" using ev by (simp add: issueEvent_def)
  from ApplyTaxCallback_Inr [OF ok refl refl] iv
  show ?thesis
  proof (elim conjE disjE exE)
    assume "d' = d" "\<exists>r \<in> set (tax_results (taxes d)). (tr_tenant r, tr_provider r, tr_event r) = (?t, ev_provider ?v, ev_id ?v) \<and>
        tr_hash r = e_sha256 e (jsonEvent ?v) \<and> tr_status r = st"
    then show ?thesis by (auto simp: resultRows_def resultKey_def)
  next
    fix ts d1
    let ?d = "set_results ts d"
    assume ap: "(if issueEvent ?v then applyInvoiceIssueCallback e ?t ?v ?d else applyRedFlushCallback e ?t ?v ?d) = Inr (st, d1)"
      and d': "d' = set_results (update_rows (\<lambda>r. tr_id r = e_ids e 0) (\<lambda>r. r\<lparr>tr_status := st\<rparr>) (tax_results (taxes d1))) d1"
    have tx: "issue_attempts (taxes ?d) = issue_attempts (taxes d)" "invoice_requests (taxes ?d) = invoice_requests (taxes d)"
      by (simp_all add: set_results_def)
    have inv': "issue_inv ?d" by (rule issue_inv_frame [OF inv]) simp
    from ap iv obtain a' r' cs where f: "attemptFacts ?d ?t (ev_attempt ?v) = Inr (a', r', cs)"
      by (auto simp: applyInvoiceIssueCallback_def andThen_eq_Inr)
    have eq: "a' = a" "r' = r" using attemptFacts_row [OF inv' _ _ _ _ f] a r by (simp_all add: tx)
    have late: "d1 = ?d \<or> recordLateIssueCallbackAfterCancel e ?t a r ?v ?d = Inr (st, d1)"
      and conf: "ev_type v = TaxInvoiceIssuedEvent \<and> at_sequence a < ev_sequence v \<and> at_status a \<noteq> AT_ISSUED \<longrightarrow> st = TP_PROVIDER_CONFLICT"
      using ap iv f r(3) unfolding eq
      by (auto simp: applyInvoiceIssueCallback_def recordLateIssueCallbackAfterCancel_def andThen_eq_Inr split: if_split_asm)
    have "bookTables d1 = bookTables d \<and> tax_invoices (taxes d1) = tax_invoices (taxes d) \<and> invoice_requests (taxes d1) = invoice_requests (taxes d)"
      using late
    proof
      assume rec: "recordLateIssueCallbackAfterCancel e ?t a r ?v ?d = Inr (st, d1)"
      have "tax_invoices (taxes d1) = tax_invoices (taxes ?d) \<and> invoice_requests (taxes d1) = invoice_requests (taxes ?d)"
        using rec by (auto simp: recordLateIssueCallbackAfterCancel_def recordResult_def updateAttempt_def set_attempts_def andThen_eq_Inr
            split: if_split_asm dest!: outbox_frame frame_taxes)
      then show ?thesis using recordLate_books [OF rec] by (simp add: set_results_def) (simp add: bookTables_writes [unfolded set_results_def])
    qed (simp add: set_results_def, simp add: bookTables_writes [unfolded set_results_def])
    then show ?thesis using conf by (simp add: d') (simp add: set_results_def)
  qed
qed

theorem late_result_after_cancel_witness:
  "\<exists>d. ApplyTaxCallback (freshEnv [''z1'', ''o1'', ''o2'']) ''T'' sampleIssued sampleCancelled = Inr (TP_PROVIDER_CONFLICT, d) \<and>
     bookTables d = bookTables sampleCancelled \<and> tax_invoices (taxes d) = []"
proof -
  from sample_late obtain d where ok: "ApplyTaxCallback (freshEnv [''z1'', ''o1'', ''o2'']) ''T'' sampleIssued sampleCancelled =
    Inr (TP_PROVIDER_CONFLICT, d)" by blast
  have "bookTables d = bookTables sampleCancelled \<and> tax_invoices (taxes d) = tax_invoices (taxes sampleCancelled)"
    using late_result_after_cancel [OF sampleCancelled_inv _ ok, of "sampleAttempt TAX_ADAPTER AT_ABANDONED" "sampleRequest IR_CANCELLED"]
    by (simp add: sampleIssued_def issueEvent_def requestOf_def att_is_def sampleAttempt_def newAttempt_def sampleRequest_def)
  with ok show ?thesis by simp
qed

section \<open>Cancelling a request\<close>

text \<open>What a cancellation may rest on: an attempt the provider never accepted and whose command is dead.\<close>

definition neverAccepted :: "db \<Rightarrow> string \<Rightarrow> issue_attempt \<Rightarrow> bool" where
  "neverAccepted d t a \<longleftrightarrow> at_accepted_at a = None \<and> cancellableAttemptStatus (at_status a) \<and>
     (commandOf a = '''' \<or> (\<exists>x \<in> set (outbox_events d). ob_tenant x = t \<and> ob_event x = commandOf a \<and>
        ob_destination x = ''TAX_INVOICE_COMMAND'' \<and> ob_status x = OB_DEAD_LETTER))"

lemma commandIsDead_Inr:
  "commandIsDead d t c = Inr () \<Longrightarrow> c \<noteq> '''' \<Longrightarrow>
   \<exists>x \<in> set (outbox_events d). ob_tenant x = t \<and> ob_event x = c \<and> ob_destination x = ''TAX_INVOICE_COMMAND'' \<and> ob_status x = OB_DEAD_LETTER"
  by (auto simp: commandIsDead_def split: option.splits if_split_asm dest!: best_in)

lemma withdrawn_attempt:
  assumes inv: "issue_inv d" and w: "withdrawn p rid version reason d d'" and l: "latestAttempt d (p_tenant p) rid = Some a"
  shows "neverAccepted d (p_tenant p) a"
proof -
  let ?t = "p_tenant p"
  from w l have dead: "commandIsDead d ?t (commandOf a) = Inr ()" and never: "attemptNeverAccepted d ?t (at_id a) (commandOf a) = Inr ()"
    unfolding withdrawn_def by auto
  from best_in [OF l [unfolded latestAttempt_def]] have a: "a \<in> set (issue_attempts (taxes d))" "at_tenant a = ?t" by (auto simp: attemptOf_def)
  note ok = inv [unfolded issue_inv_eq]
  have "at_id a \<noteq> ''''" by (rule issue_okD(7) [OF ok a(1)])
  with never obtain b where b: "find (att_is ?t (at_id a)) (issue_attempts (taxes d)) = Some b" "at_accepted_at b = None"
    "cancellableAttemptStatus (at_status b)"
    by (auto simp: attemptNeverAccepted_def andThen_eq_Inr query_row_Inr split: if_split_asm)
  from find_SomeD [OF b(1)] have "b \<in> set (issue_attempts (taxes d))" "at_id b = at_id a" by (auto simp: att_is_def)
  with a(1) issue_okD(2) [OF ok] have "b = a" by (auto simp: keyed_def distinct_map dest: inj_onD)
  with b dead commandIsDead_Inr show ?thesis by (auto simp: neverAccepted_def)
qed

lemma filter_updated_none: "(\<And>a. \<not> Q (f a)) \<Longrightarrow> filter Q (update_rows Q f l) = []"
  by (induction l) (simp_all add: update_rows_def)

lemma released_none: "reservedRows (releaseReservations g t rid d) t rid = []"
  by (simp add: reservedRows_def releaseReservations_def filter_updated_none)

lemma withdrawn_effect:
  assumes inv: "service_inv d" and w: "withdrawn p rid version reason d d'"
  shows "\<exists>r \<in> set (invoice_requests (taxes d)). req_is (p_tenant p) rid r \<and> cancellableRequestStatus (ir_status r) \<and>
      ir_version r = version \<and> ir_submitted_by r \<noteq> p_user p"
    and "invoicesOf d (p_tenant p) rid = 0"
    and "\<And>x. x \<in> set (invoice_requests (taxes d')) \<Longrightarrow> req_is (p_tenant p) rid x \<Longrightarrow> ir_status x = IR_CANCELLED \<and> ir_rejection x = reason"
    and "\<And>a. a \<in> set (issue_attempts (taxes d')) \<Longrightarrow> attemptOf (p_tenant p) rid a \<Longrightarrow> \<not> waiting a"
    and "positionOf d' = applyMove (Release (p_tenant p) (reservedRows d (p_tenant p) rid)) (positionOf d)"
    and "reservedRows d' (p_tenant p) rid = []"
proof -
  let ?t = "p_tenant p" and ?P = "\<lambda>r. ir_version r = version \<and> cancellableRequestStatus (ir_status r)"
  let ?g = "\<lambda>a. ia_reserved a - ia_invoiced a"
  from w obtain attempt command r d2 d3 d4 where
    ac: "(attempt, command) = (case latestAttempt d ?t rid of None \<Rightarrow> ('''', '''') | Some a \<Rightarrow> (at_id a, commandOf a))"
    and never: "attemptNeverAccepted d ?t attempt command = Inr ()" and rq: "requestForWithdrawal p rid version cancellableRequestStatus d = Inr r"
    and sc: "scopeFrame d d2" and none: "invoicesOf d2 ?t rid = 0"
    and ab: "abandonAttempt ?t attempt d2 = Inr d3" and ca: "cancelRequest ?t rid version reason d3 = Inr d4"
    and fr: "eventFrame (releaseReservations ?g ?t rid d4) d'"
    unfolding withdrawn_def by blast
  have t2: "taxes d2 = taxes d" by (rule frame_taxes(1) [OF sc])
  have t': "taxes d' = taxes d4" using frame_taxes(3) [OF fr] by (simp add: releaseReservations_def)
  from rq have r: "r \<in> set (invoice_requests (taxes d))" "req_is ?t rid r" "cancellableRequestStatus (ir_status r)" "ir_version r = version"
    "ir_submitted_by r \<noteq> p_user p"
    by (auto simp: requestForWithdrawal_def andThen_eq_Inr query_row_Inr split: if_split_asm dest!: find_SomeD)
  then show "\<exists>r \<in> set (invoice_requests (taxes d)). req_is ?t rid r \<and> cancellableRequestStatus (ir_status r) \<and>
      ir_version r = version \<and> ir_submitted_by r \<noteq> p_user p" by blast
  show "invoicesOf d ?t rid = 0" using none by (simp add: invoicesOf_def t2)
  have "issue_inv d" using inv by (simp add: service_inv_def)
  then have i2: "issue_inv d2" using issueTables_taxes [OF t2] by (rule issue_inv_frame)
  have "latestAttempt d2 ?t rid = latestAttempt d ?t rid" "attemptNeverAccepted d2 ?t attempt command = attemptNeverAccepted d ?t attempt command"
    by (simp_all add: latestAttempt_def attemptNeverAccepted_def t2)
  then have d3: "invoice_requests (taxes d3) = invoice_requests (taxes d)" "\<forall>a \<in> set (issue_attempts (taxes d3)). attemptOf ?t rid a \<longrightarrow> \<not> waiting a"
    using abandoned_none_waiting [OF i2, of attempt command ?t rid d3] ac never ab by (simp_all add: t2)
  have d4: "d4 = updateRequest ?t rid ?P (\<lambda>r. r\<lparr>ir_status := IR_CANCELLED, ir_rejection := reason\<rparr>) d3"
    using ca by (simp add: cancelRequest_def split: if_splits)
  show "\<not> waiting a" if "a \<in> set (issue_attempts (taxes d'))" "attemptOf ?t rid a" for a
    using that d3(2) unfolding t' d4 by (simp add: updateRequest_def set_requests_def)
  show "ir_status x = IR_CANCELLED \<and> ir_rejection x = reason" if x: "x \<in> set (invoice_requests (taxes d'))" "req_is ?t rid x" for x
  proof -
    from x(1) obtain y where y: "y \<in> set (invoice_requests (taxes d))"
      "x = (if req_is ?t rid y \<and> ?P y then (y\<lparr>ir_status := IR_CANCELLED, ir_rejection := reason, ir_version := ir_version y + 1\<rparr>) else y)"
      unfolding t' d4 by (auto simp: updateRequest_def set_requests_def d3(1) update_rows_def)
    then have "ir_id y = ir_id r" using x(2) r(2) by (auto simp: req_is_def split: if_splits)
    moreover have "keyed ir_id (invoice_requests (taxes d))" using inv issue_okD(1) by (auto simp: service_inv_def issue_inv_eq)
    ultimately have "y = r" using y(1) r(1) by (auto simp: keyed_def distinct_map dest: inj_onD)
    with y(2) r show ?thesis by simp
  qed
  have b4: "bookTables d4 = bookTables d"
    using bookTables_frames(1) [OF sc] abandon_books [OF ab] cancelRequest_books [OF ca] by simp
  have rows: "invoice_allocations d4 = invoice_allocations d" using b4 by (simp add: bookTables_def)
  have "settle_inv d" using inv by (simp add: service_inv_def)
  then have s4: "settle_inv d4" using b4 by (rule settle_books)
  have "positionOf (releaseReservations ?g ?t rid d4) = applyMove (Release ?t (reservedRows d4 ?t rid)) (positionOf d4)"
    by (rule release_move [OF s4]) simp
  then show "positionOf d' = applyMove (Release ?t (reservedRows d ?t rid)) (positionOf d)"
    using positionOf_books [OF bookTables_frames(3) [OF fr]] positionOf_books [OF b4] by (simp add: reservedRows_def rows)
  have "invoice_allocations d' = invoice_allocations (releaseReservations ?g ?t rid d4)" by (rule frame_reservations(3) [OF fr])
  then show "reservedRows d' ?t rid = []" using released_none [of ?g ?t rid d4] by (simp add: reservedRows_def)
qed

text \<open>C14: cancelling an invoice request. Unless it replays an earlier cancellation, success means that
  the request waited for issue or had failed, at the stated version, that somebody else submitted
  it, that it has no invoice, and that its newest attempt was never accepted and its command is a
  dead letter or was never sent. Afterwards the request is cancelled with the stated reason, none
  of its attempts waits for a result, exactly its reservations are released and no invoiced amount
  changes.\<close>

theorem cancel_releases_reservations:
  assumes inv: "service_inv d" and ok: "CancelInvoiceRequest s e p key rid version reason d = Inr (w, d')"
    and new: "boundTo d (p_tenant p, ''CANCEL_INVOICE_REQUEST'', trimSpace key) = None"
  shows "(\<exists>r \<in> set (invoice_requests (taxes d)). req_is (p_tenant p) (trimSpace rid) r \<and> cancellableRequestStatus (ir_status r) \<and>
      ir_version r = version \<and> ir_submitted_by r \<noteq> p_user p) \<and>
    invoicesOf d (p_tenant p) (trimSpace rid) = 0 \<and>
    (\<forall>a. latestAttempt d (p_tenant p) (trimSpace rid) = Some a \<longrightarrow> neverAccepted d (p_tenant p) a) \<and>
    (\<forall>x \<in> set (invoice_requests (taxes d')). req_is (p_tenant p) (trimSpace rid) x \<longrightarrow>
       ir_status x = IR_CANCELLED \<and> ir_rejection x = trimSpace reason) \<and>
    (\<forall>a \<in> set (issue_attempts (taxes d')). attemptOf (p_tenant p) (trimSpace rid) a \<longrightarrow> \<not> waiting a) \<and>
    reservedRows d' (p_tenant p) (trimSpace rid) = [] \<and>
    positionOf d' = applyMove (Release (p_tenant p) (reservedRows d (p_tenant p) (trimSpace rid))) (positionOf d)"
proof -
  from CancelInvoiceRequest_Inr [OF ok refl] new obtain d1 where fr: "idemFrame d d1"
    and w: "withdrawn p (trimSpace rid) version (trimSpace reason) d1 d'" by blast
  have t: "taxes d1 = taxes d" "outbox_events d1 = outbox_events d" "invoice_allocations d1 = invoice_allocations d"
    using frame_taxes(2) [OF fr] idemFrame_tables [OF fr] by simp_all
  have b: "bookTables d1 = bookTables d" by (rule bookTables_frames(2) [OF fr])
  have inv1: "service_inv d1" using inv quiet_inv [of d d1] issueTables_taxes [OF t(1)] b by (simp add: service_inv_def quiet_def)
  have i1: "issue_inv d1" using inv1 by (simp add: service_inv_def)
  note eff = withdrawn_effect [OF inv1 w]
  have att: "\<forall>a. latestAttempt d (p_tenant p) (trimSpace rid) = Some a \<longrightarrow> neverAccepted d (p_tenant p) a"
    using withdrawn_attempt [OF i1 w] by (simp add: latestAttempt_def neverAccepted_def t)
  have pos: "positionOf d1 = positionOf d" by (rule positionOf_books [OF b])
  show ?thesis using eff(1,2,5,6) eff(3) eff(4) att by (simp add: t invoicesOf_def reservedRows_def pos)
qed

theorem cancel_releases_reservations_witness:
  "\<exists>d. CancelInvoiceRequest sampleService (freshEnv [''o1'', ''o2'']) (sampleUser ''bob'') ''k-1'' ''Q'' 2 ''wrong'' (samplePending MANUAL) = Inr ((), d) \<and>
     positionOf (samplePending MANUAL) (''T'', ''V'') = (5300, 0) \<and> positionOf d (''T'', ''V'') = (0, 0)"
proof -
  from sample_cancel obtain d where ok: "CancelInvoiceRequest sampleService (freshEnv [''o1'', ''o2'']) (sampleUser ''bob'') ''k-1'' ''Q'' 2 ''wrong''
    (samplePending MANUAL) = Inr ((), d)" by blast
  have p0: "positionOf (samplePending MANUAL) (''T'', ''V'') = (5300, 0)"
    by (simp add: positionOf_def reservedOf_def netInvoiced_def liveInvoiced_def sampleReservation_def newReservation_def)
  moreover have rows: "reservedRows (samplePending MANUAL) ''T'' ''Q'' = [(''V'', 5300)]"
    by (simp add: reservedRows_def sampleReservation_def newReservation_def)
  have "positionOf d = applyMove (Release ''T'' [(''V'', 5300)]) (positionOf (samplePending MANUAL))"
    using cancel_releases_reservations [OF samplePending_inv ok] by (simp add: boundTo_def rows)
  then have "positionOf d (''T'', ''V'') = (0, 0)" using p0 by (simp add: movedTo_def)
  ultimately show ?thesis using ok by blast
qed

end
