(* ===== verification/OutboxProps.thy ===== *)
theory OutboxProps
  imports InvoiceSamples
begin

text \<open>
  Properties of the outbox: leases exclude each other, a worker that has lost its lease writes
  nothing, a batch is the oldest work, and only receipts make an event delivered.
\<close>

section \<open>Leases\<close>

definition locked :: "OutboxStore \<Rightarrow> int \<Rightarrow> outbox_event \<Rightarrow> outbox_event" where
  "locked st now x = x\<lparr>ob_status := OB_PROCESSING, ob_locked_by := Some (WorkerID st), ob_locked_until := Some (now + Lease st)\<rparr>"

lemma locked_simps [simp]: "ob_id (locked st now x) = ob_id x" "locked st now (locked st now x) = locked st now x"
  "ob_destination (locked st now x) = ob_destination x" "ob_status (locked st now x) = OB_PROCESSING"
  "ob_attempts (locked st now x) = ob_attempts x" "ob_locked_by (locked st now x) = Some (WorkerID st)"
  "eventOf (locked st now x) = eventOf x"
  by (simp_all add: locked_def eventOf_def)

definition lockIds :: "OutboxStore \<Rightarrow> int \<Rightarrow> string set \<Rightarrow> outbox_event list \<Rightarrow> outbox_event list" where
  "lockIds st now ids l = map (\<lambda>x. if ob_id x \<in> ids then locked st now x else x) l"

text \<open>On a keyed table an update of the one row that satisfies the condition is an update by key.\<close>

lemma affected_key:
  assumes "keyed ob_id l" "affected P l = 1" "\<And>x. P x \<Longrightarrow> ob_id x = eid"
  shows "\<exists>x \<in> set l. P x \<and> ob_id x = eid" "update_rows P f l = update_rows (\<lambda>x. ob_id x = eid) f l"
proof -
  from assms(2) obtain x where x: "filter P l = [x]" by (auto simp: affected_def length_Suc_conv)
  then have m: "x \<in> set l" "P x" using filter_set [of P l] by auto
  then show "\<exists>x \<in> set l. P x \<and> ob_id x = eid" using assms(3) by blast
  have "P y" if "y \<in> set l" "ob_id y = eid" for y
    using that m assms(1,3) by (auto simp: keyed_def distinct_map dest: inj_onD)
  then show "update_rows P f l = update_rows (\<lambda>x. ob_id x = eid) f l"
    using assms(3) by (auto simp: update_rows_def)
qed

lemma lockEvents_rows:
  assumes "keyed ob_id (outbox_events d)" "lockEvents st now es d = Inr d'"
  shows "outbox_events d' = lockIds st now (oe_id ` set es) (outbox_events d)"
  using assms
proof (induction es arbitrary: d)
  case Nil
  then show ?case by (simp add: lockIds_def)
next
  case (Cons e es)
  let ?d = "updateEvents (lockable now (oe_id e)) (locked st now) d"
  from Cons.prems(2) have one: "affected (lockable now (oe_id e)) (outbox_events d) = 1" and rest: "lockEvents st now es ?d = Inr d'"
    by (auto simp: locked_def [abs_def] split: if_splits)
  have rows: "outbox_events ?d = lockIds st now {oe_id e} (outbox_events d)"
    using affected_key(2) [OF Cons.prems(1) one, of "oe_id e"]
    by (simp add: updateEvents_def lockable_def lockIds_def update_rows_def)
  then have "keyed ob_id (outbox_events ?d)" using Cons.prems(1) by (simp add: keyed_def lockIds_def comp_def if_distrib cong: if_cong)
  from Cons.IH [OF this rest] show ?case by (simp add: rows lockIds_def)
qed

lemma Acquire_rows:
  assumes "keyed ob_id (outbox_events d)" "Acquire st now dst n d = Inr (es, d')"
  shows "es = batchOf now dst n d" "outbox_events d' = lockIds st now (oe_id ` set es) (outbox_events d)"
  using assms lockEvents_rows [OF assms(1)] by (auto simp: Acquire_def andThen_eq_Inr)

lemma lockIds_keyed [simp]: "keyed ob_id (lockIds st now ids l) = keyed ob_id l"
  by (simp add: keyed_def lockIds_def comp_def if_distrib cong: if_cong)

lemma batch_rows:
  assumes "e \<in> set (batchOf now dst n d)"
  shows "\<exists>x \<in> set (outbox_events d). eventOf x = e \<and> oe_id e = ob_id x \<and> acquirable now dst x"
  using assms set_take_subset [of n "orderBy olderEvent (filter (acquirable now dst) (outbox_events d))"]
  by (auto simp: batchOf_def eventOf_def)

text \<open>C18: leases exclude each other. What one worker has acquired, another worker cannot acquire from
  any destination before the lease has run out, whatever its own name, and until then every
  acquired row is in processing in the name of the first.\<close>

theorem lease_exclusive:
  assumes k: "keyed ob_id (outbox_events d)" and a1: "Acquire st now dst n d = Inr (es, d1)"
    and a2: "Acquire st' now' dst' n' d1 = Inr (es', d2)" and lease: "now' \<le> now + Lease st"
  shows "oe_id ` set es \<inter> oe_id ` set es' = {} \<and>
    (\<forall>e \<in> set es. \<exists>x \<in> set (outbox_events d2). held st (oe_id e) x \<and> ob_locked_until x = Some (now + Lease st))"
proof -
  note r1 = Acquire_rows [OF k a1]
  have k1: "keyed ob_id (outbox_events d1)" using k by (simp add: r1(2))
  note r2 = Acquire_rows [OF k1 a2]
  have new: "ob_id x \<notin> oe_id ` set es" if x: "x \<in> set (outbox_events d1)" "acquirable now' dst' x" for x
  proof
    assume i: "ob_id x \<in> oe_id ` set es"
    from x(1) have "x \<in> (\<lambda>y. if ob_id y \<in> oe_id ` set es then locked st now y else y) ` set (outbox_events d)"
      by (simp add: r1(2) lockIds_def)
    then obtain y where y: "x = (if ob_id y \<in> oe_id ` set es then locked st now y else y)" by (rule imageE)
    with i have "x = locked st now y" by (cases "ob_id y \<in> oe_id ` set es") auto
    with x(2) lease show False by (simp add: acquirable_def lockExpired_def) (simp add: locked_def)
  qed
  have disj: "oe_id ` set es \<inter> oe_id ` set es' = {}"
  proof (rule ccontr)
    assume "oe_id ` set es \<inter> oe_id ` set es' \<noteq> {}"
    then obtain i where i: "i \<in> oe_id ` set es" and "i \<in> oe_id ` set es'" by blast
    from this(2) obtain e' where i': "i = oe_id e'" and e': "e' \<in> set es'" by (rule imageE)
    from e' have "e' \<in> set (batchOf now' dst' n' d1)" by (simp add: r2(1))
    from batch_rows [OF this] obtain x where "x \<in> set (outbox_events d1)" "oe_id e' = ob_id x" "acquirable now' dst' x" by blast
    with new [of x] i i' show False by simp
  qed
  moreover have "\<exists>x \<in> set (outbox_events d2). held st (oe_id e) x \<and> ob_locked_until x = Some (now + Lease st)" if e: "e \<in> set es" for e
  proof -
    from e batch_rows obtain x where x: "x \<in> set (outbox_events d)" "ob_id x = oe_id e" unfolding r1(1) by metis
    have "locked st now x \<in> set (outbox_events d1)" using x e by (force simp: r1(2) lockIds_def)
    moreover have "ob_id (locked st now x) \<notin> oe_id ` set es'" using disj x(2) e by auto
    ultimately have "locked st now x \<in> set (outbox_events d2)" by (force simp: r2(2) lockIds_def)
    then show ?thesis using x(2) by (intro bexI [of _ "locked st now x"]) (simp_all add: held_def, simp add: locked_def)
  qed
  ultimately show ?thesis by blast
qed

text \<open>A pending event of the sample tenant.\<close>

definition sampleEvent :: outbox_event where
  "sampleEvent = \<lparr>ob_id = ''o9'', ob_tenant = ''T'', ob_event = ''e9'', ob_destination = ''PLATFORM_AUDIT'', ob_type = ''X'',
     ob_aggregate_type = ''a'', ob_aggregate = ''b'', ob_payload = [], ob_status = OB_PENDING, ob_attempts = 0, ob_available_at = 0,
     ob_locked_by = None, ob_locked_until = None, ob_created_at = 0, ob_delivered_at = None, ob_dead_at = None, ob_error_code = '''',
     ob_error_summary = ''''\<rparr>"

definition sampleOutbox :: "outbox_event list \<Rightarrow> db" where
  "sampleOutbox l = empty_db\<lparr>outbox_events := l\<rparr>"

definition sampleWorker :: "string \<Rightarrow> OutboxStore" where
  "sampleWorker w = \<lparr>WorkerID = w, Lease = 30000\<rparr>"

lemma sample_outbox_rows [simp]: "outbox_events (sampleOutbox l) = l" "WorkerID (sampleWorker w) = w" "Lease (sampleWorker w) = 30000"
  by (simp_all add: sampleOutbox_def sampleWorker_def)

lemma sample_acquire:
  "\<exists>d. Acquire (sampleWorker ''w1'') 1000 ''PLATFORM_AUDIT'' 10 (sampleOutbox [sampleEvent]) = Inr ([eventOf sampleEvent], d) \<and>
     outbox_events d = [locked (sampleWorker ''w1'') 1000 sampleEvent]"
proof -
  have b: "batchOf 1000 ''PLATFORM_AUDIT'' 10 (sampleOutbox [sampleEvent]) = [eventOf sampleEvent]"
    by (simp add: batchOf_def acquirable_def sampleEvent_def orderBy_def)
  moreover have "lockable 1000 (oe_id (eventOf sampleEvent)) sampleEvent"
    by (simp add: lockable_def eventOf_def sampleEvent_def)
  ultimately show ?thesis by (simp add: Acquire_def affected_def updateEvents_def update_rows_def) (simp add: locked_def)
qed

theorem lease_exclusive_witness:
  "\<exists>d. Acquire (sampleWorker ''w1'') 1000 ''PLATFORM_AUDIT'' 10 (sampleOutbox [sampleEvent]) = Inr ([eventOf sampleEvent], d) \<and>
     Acquire (sampleWorker ''w2'') 31000 ''PLATFORM_AUDIT'' 10 d = Inr ([], d) \<and>
     (\<exists>x \<in> set (outbox_events d). held (sampleWorker ''w1'') ''o9'' x)"
proof -
  from sample_acquire obtain d where a: "Acquire (sampleWorker ''w1'') 1000 ''PLATFORM_AUDIT'' 10 (sampleOutbox [sampleEvent]) = Inr ([eventOf sampleEvent], d)"
    and rows: "outbox_events d = [locked (sampleWorker ''w1'') 1000 sampleEvent]" by blast
  have "batchOf 31000 ''PLATFORM_AUDIT'' 10 d = []"
    by (simp add: batchOf_def rows acquirable_def lockExpired_def) (simp add: locked_def orderBy_def)
  then have a2: "Acquire (sampleWorker ''w2'') 31000 ''PLATFORM_AUDIT'' 10 d = Inr ([], d)" by (simp add: Acquire_def)
  have "\<exists>x \<in> set (outbox_events d). held (sampleWorker ''w1'') (oe_id (eventOf sampleEvent)) x"
    using lease_exclusive [OF _ a a2] by (simp add: keyed_def) blast
  with a a2 show ?thesis by (simp add: eventOf_def sampleEvent_def)
qed

section \<open>Lost leases\<close>

text \<open>The row is in processing in the worker's name.\<close>

definition leasedTo :: "string \<Rightarrow> outbox_event \<Rightarrow> bool" where
  "leasedTo worker x \<longleftrightarrow> ob_status x = OB_PROCESSING \<and> ob_locked_by x = Some worker"

lemma deliveredOne_ok:
  assumes "deliveredOne st now e d = Inr d'"
  shows "\<exists>f. outbox_events d' = update_rows (held st (oe_id e)) f (outbox_events d) \<and> (\<forall>x. ob_id (f x) = ob_id x \<and> ob_locked_by (f x) = None)"
    "\<exists>x \<in> set (outbox_events d). held st (oe_id e) x"
proof -
  have "affected (held st (oe_id e)) (outbox_events d) = 1" using assms by (auto simp: deliveredOne_def split: if_splits)
  then have "filter (held st (oe_id e)) (outbox_events d) \<noteq> []" by (auto simp: affected_def)
  then show "\<exists>x \<in> set (outbox_events d). held st (oe_id e) x" by (simp add: filter_empty_conv)
  show "\<exists>f. outbox_events d' = update_rows (held st (oe_id e)) f (outbox_events d) \<and> (\<forall>x. ob_id (f x) = ob_id x \<and> ob_locked_by (f x) = None)"
    using assms by (intro exI [of _ "\<lambda>x. x\<lparr>ob_status := OB_DELIVERED, ob_delivered_at := Some now, ob_locked_by := None,
                   ob_locked_until := None, ob_error_code := '''', ob_error_summary := ''''\<rparr>"])
      (auto simp: deliveredOne_def Let_def updateEvents_def acceptIssue_def acceptRedFlush_def updateAttempt_def set_red_attempts_def
        set_attempts_def split: if_splits option.splits)
qed

lemma failedOne_ok:
  assumes "failedOne st now code summary perm e d = Inr d'"
  shows "\<exists>f. outbox_events d' = update_rows (held st (oe_id e)) f (outbox_events d) \<and> (\<forall>x. ob_id (f x) = ob_id x \<and> ob_locked_by (f x) = None)"
    "\<exists>x \<in> set (outbox_events d). held st (oe_id e) x"
proof -
  have "affected (held st (oe_id e)) (outbox_events d) = 1" using assms by (auto simp: failedOne_def Let_def split: if_splits)
  then have "filter (held st (oe_id e)) (outbox_events d) \<noteq> []" by (auto simp: affected_def)
  then show "\<exists>x \<in> set (outbox_events d). held st (oe_id e) x" by (simp add: filter_empty_conv)
  show "\<exists>f. outbox_events d' = update_rows (held st (oe_id e)) f (outbox_events d) \<and> (\<forall>x. ob_id (f x) = ob_id x \<and> ob_locked_by (f x) = None)"
    using assms by (auto simp: failedOne_def Let_def updateEvents_def split: if_splits)
qed

text \<open>
  Writing back a batch, event by event: what both write-backs have in common. A step finds the row in the worker's name, gives it
  back and touches no other row.
\<close>

locale write_back =
  fixes one :: "OutboxStore \<Rightarrow> Event \<Rightarrow> db \<Rightarrow> delivery_error + db" and every :: "OutboxStore \<Rightarrow> Event list \<Rightarrow> db \<Rightarrow> delivery_error option \<times> db"
  assumes nil: "every st [] d = (None, d)"
    and cons: "every st (e # es) d = (case one st e d of Inl err \<Rightarrow> (Some err, d) | Inr d1 \<Rightarrow> every st es d1)"
    and frees: "one st e d = Inr d' \<Longrightarrow>
      \<exists>f. outbox_events d' = update_rows (held st (oe_id e)) f (outbox_events d) \<and> (\<forall>x. ob_id (f x) = ob_id x \<and> ob_locked_by (f x) = None)"
    and needs: "one st e d = Inr d' \<Longrightarrow> \<exists>x \<in> set (outbox_events d). held st (oe_id e) x"
begin

lemma others_stay: "x \<in> set (outbox_events d) \<Longrightarrow> \<not> leasedTo (WorkerID st) x \<Longrightarrow> x \<in> set (outbox_events (snd (every st es d)))"
proof (induction es arbitrary: d)
  case (Cons e es)
  show ?case
  proof (cases "one st e d")
    case (Inr d1)
    from frees [OF Inr] Cons.prems have "x \<in> set (outbox_events d1)"
      by (force simp: update_rows_def held_def leasedTo_def)
    from Cons.IH [OF this Cons.prems(2)] Inr show ?thesis by (simp add: cons)
  qed (simp add: cons Cons.prems)
qed (simp add: nil)

lemma stops_at_lost:
  assumes "\<forall>x \<in> set (outbox_events d). ob_id x = oe_id e \<longrightarrow> \<not> leasedTo (WorkerID st) x"
  shows "\<exists>err. every st (pre @ e # post) d = (Some err, snd (every st pre d))"
  using assms
proof (induction pre arbitrary: d)
  case Nil
  then have "\<not> (\<exists>x \<in> set (outbox_events d). held st (oe_id e) x)" by (auto simp: held_def leasedTo_def)
  then show ?case using needs [of st e d] by (cases "one st e d") (simp_all add: nil cons)
next
  case (Cons a pre)
  show ?case
  proof (cases "one st a d")
    case (Inr d1)
    from frees [OF Inr] Cons.prems have "\<forall>x \<in> set (outbox_events d1). ob_id x = oe_id e \<longrightarrow> \<not> leasedTo (WorkerID st) x"
      by (auto simp: update_rows_def leasedTo_def)
    from Cons.IH [OF this] Inr show ?thesis by (simp add: cons)
  qed (simp add: cons)
qed

end

interpretation delivered: write_back "\<lambda>st. deliveredOne st now" "\<lambda>st. Delivered st now" for now
  by unfold_locales (simp_all add: deliveredOne_ok)

interpretation failed: write_back "\<lambda>st. failedOne st now code summary perm" "\<lambda>st es. Failed st now es code summary perm"
  for now code summary perm
  by unfold_locales (simp_all add: failedOne_ok)

lemma Acquire_leased:
  assumes "keyed ob_id (outbox_events d)" "Acquire st now dst n d = Inr (es, d')" "x \<in> set (outbox_events d')" "ob_id x \<in> oe_id ` set es"
  shows "leasedTo (WorkerID st) x"
  using assms(3,4) unfolding Acquire_rows(2) [OF assms(1,2)] by (auto simp: lockIds_def leasedTo_def split: if_splits)

text \<open>C19: a worker that has lost its lease writes nothing. When another worker has acquired events, the first one gets an error
  as soon as it reports one of them, as delivered or as failed, and nothing of that event or of later events of its batch is written: what
  is left is what the events before it did. Whatever batch it reports, the rows the other worker holds stay as they are.\<close>

theorem lost_lease_writes_nothing:
  assumes "keyed ob_id (outbox_events d)" "Acquire st now dst n d = Inr (es, d1)" "WorkerID st' \<noteq> WorkerID st" "oe_id e \<in> oe_id ` set es"
  shows "(\<exists>err. Delivered st' now' (pre @ e # post) d1 = (Some err, snd (Delivered st' now' pre d1))) \<and>
    (\<exists>err. Failed st' now' (pre @ e # post) code summary perm d1 = (Some err, snd (Failed st' now' pre code summary perm d1))) \<and>
    {x \<in> set (outbox_events d1). ob_id x \<in> oe_id ` set es} \<subseteq> set (outbox_events (snd (Delivered st' now' batch d1))) \<and>
    {x \<in> set (outbox_events d1). ob_id x \<in> oe_id ` set es} \<subseteq> set (outbox_events (snd (Failed st' now' batch code summary perm d1)))"
proof -
  have other: "\<not> leasedTo (WorkerID st') x" if "x \<in> set (outbox_events d1)" "ob_id x \<in> oe_id ` set es" for x
    using Acquire_leased [OF assms(1,2) that] assms(3) by (simp add: leasedTo_def)
  with assms(4) have lost: "\<forall>x \<in> set (outbox_events d1). ob_id x = oe_id e \<longrightarrow> \<not> leasedTo (WorkerID st') x" by simp
  show ?thesis
    by (intro conjI subsetI delivered.stops_at_lost [OF lost] failed.stops_at_lost [OF lost] delivered.others_stay failed.others_stay)
      (use other in auto)
qed

theorem lost_lease_writes_nothing_witness:
  "\<exists>d. Acquire (sampleWorker ''w1'') 1000 ''PLATFORM_AUDIT'' 10 (sampleOutbox [sampleEvent]) = Inr ([eventOf sampleEvent], d) \<and>
     (\<exists>err. Delivered (sampleWorker ''w2'') 2000 [eventOf sampleEvent] d = (Some err, d))"
proof -
  from sample_acquire obtain d where a: "Acquire (sampleWorker ''w1'') 1000 ''PLATFORM_AUDIT'' 10 (sampleOutbox [sampleEvent]) = Inr ([eventOf sampleEvent], d)"
    by blast
  have "keyed ob_id (outbox_events (sampleOutbox [sampleEvent]))" "WorkerID (sampleWorker ''w2'') \<noteq> WorkerID (sampleWorker ''w1'')"
    "oe_id (eventOf sampleEvent) \<in> oe_id ` set [eventOf sampleEvent]" by (simp_all add: keyed_def)
  from conjunct1 [OF lost_lease_writes_nothing [OF this(1) a this(2,3)], of 2000 "[]" "[]"]
  a show ?thesis by auto
qed

section \<open>The order of a batch\<close>

text \<open>
  What \<open>ORDER BY\<close> gives for a comparison that is asymmetric and whose complement is
  transitive: no row comes after one that is before it.
\<close>

locale row_order =
  fixes before :: "'r \<Rightarrow> 'r \<Rightarrow> bool"
  assumes asym: "before a b \<Longrightarrow> \<not> before b a"
    and not_before_trans: "\<not> before b a \<Longrightarrow> \<not> before c b \<Longrightarrow> \<not> before c a"
begin

lemma insertBy_sorted: "sorted_wrt (\<lambda>a b. \<not> before b a) rs \<Longrightarrow> sorted_wrt (\<lambda>a b. \<not> before b a) (insertBy before r rs)"
  by (induction rs) (auto dest: asym not_before_trans)

lemma orderBy_sorted: "sorted_wrt (\<lambda>a b. \<not> before b a) (orderBy before rs)"
  by (induction rs) (auto simp: orderBy_def insertBy_sorted)

text \<open>\<open>LIMIT\<close>: what is left out is not before what is taken.\<close>

lemma limit_first:
  assumes "a \<in> set (take n (orderBy before rs))" "b \<in> set rs" "b \<notin> set (take n (orderBy before rs))"
  shows "\<not> before b a"
proof -
  have "set (take n (orderBy before rs)) \<union> set (drop n (orderBy before rs)) = set rs"
    unfolding set_append [symmetric] append_take_drop_id by (rule set_orderBy)
  then have "b \<in> set (drop n (orderBy before rs))" using assms(2,3) by blast
  moreover have "sorted_wrt (\<lambda>a b. \<not> before b a) (take n (orderBy before rs) @ drop n (orderBy before rs))"
    by (simp add: orderBy_sorted)
  ultimately show ?thesis using assms(1) unfolding sorted_wrt_append by blast
qed

end

lemma strLess_asym: "strLess s t \<Longrightarrow> \<not> strLess t s"
  by (induction s t rule: strLess.induct) auto

lemma strLess_not_trans: "\<not> strLess t s \<Longrightarrow> \<not> strLess u t \<Longrightarrow> \<not> strLess u s"
proof (induction s t arbitrary: u rule: strLess.induct)
  case (4 a s b t)
  then show ?case by (cases u) (auto simp: byte_def)
qed (auto elim: strLess.elims)

text \<open>A time and then an identifier, as both queues are ordered.\<close>

lemma time_then_id:
  fixes time :: "'r \<Rightarrow> int"
  assumes "\<And>a b. before a b \<longleftrightarrow> time a < time b \<or> (time a = time b \<and> strLess (key a) (key b))"
  shows "row_order before"
proof unfold_locales
  show "\<not> before b a" if "before a b" for a b
    using that by (auto simp: assms dest: strLess_asym)
  show "\<not> before c a" if "\<not> before b a" "\<not> before c b" for a b c
    using that by (auto simp: assms dest: strLess_not_trans)
qed

interpretation oldest: row_order olderEvent
  by (rule time_then_id [of _ ob_created_at ob_id]) (simp add: olderEvent_def)

interpretation oldest_credit: row_order olderFirst
  by (rule time_then_id [of _ cy_updated_at cy_id]) (simp add: olderFirst_def)

text \<open>A batch is the oldest work of its destination, in order. It holds as many events as the limit and the
  store allow, its events are sorted by creation time and identifier, and no event that waits is
  older than one that was taken; the same holds of the claims of the credit synchronisation.\<close>

theorem batch_oldest_first:
  "length (batchOf now dst n d) = min n (affected (acquirable now dst) (outbox_events d)) \<and>
   (\<exists>rows. batchOf now dst n d = map eventOf rows \<and> sorted_wrt (\<lambda>a b. \<not> olderEvent b a) rows \<and>
     set rows \<subseteq> {x \<in> set (outbox_events d). acquirable now dst x} \<and>
     {(x, y). x \<in> set (outbox_events d) \<and> acquirable now dst x \<and> x \<notin> set rows \<and> y \<in> set rows \<and> olderEvent x y} = {}) \<and>
   {(x, y). x \<in> set (credit_syncs d) \<and> credit_claimable d now lease x \<and> x \<notin> set (credit_claim_batch now lease n d) \<and>
     y \<in> set (credit_claim_batch now lease n d) \<and> olderFirst x y} = {}"
proof -
  let ?l = "filter (acquirable now dst) (outbox_events d)"
  let ?rows = "take n (orderBy olderEvent ?l)"
  have "length (batchOf now dst n d) = min n (affected (acquirable now dst) (outbox_events d))"
    by (simp add: batchOf_def affected_def min.commute)
  moreover have "batchOf now dst n d = map eventOf ?rows" by (simp add: batchOf_def)
  moreover have "sorted_wrt (\<lambda>a b. \<not> olderEvent b a) ?rows"
    by (rule sorted_wrt_take [OF oldest.orderBy_sorted])
  moreover have "set ?rows \<subseteq> {x \<in> set (outbox_events d). acquirable now dst x}"
    using set_take_subset [of n "orderBy olderEvent ?l"] by auto
  moreover have "{(x, y). x \<in> set (outbox_events d) \<and> acquirable now dst x \<and> x \<notin> set ?rows \<and> y \<in> set ?rows \<and> olderEvent x y} = {}"
    using oldest.limit_first [of _ n ?l] by fastforce
  moreover have "{(x, y). x \<in> set (credit_syncs d) \<and> credit_claimable d now lease x \<and> x \<notin> set (credit_claim_batch now lease n d) \<and>
     y \<in> set (credit_claim_batch now lease n d) \<and> olderFirst x y} = {}"
    using oldest_credit.limit_first [of _ n "filter (credit_claimable d now lease) (credit_syncs d)"]
    by (fastforce simp: credit_claim_batch_def orderOlder_def)
  ultimately show ?thesis by blast
qed

section \<open>Only receipts make an event delivered\<close>

definition deliveredIds :: "db \<Rightarrow> string set" where
  "deliveredIds d = ob_id ` {x \<in> set (outbox_events d). ob_status x = OB_DELIVERED}"

lemma updated_not_delivered:
  assumes "\<And>x. ob_status (f x) \<noteq> OB_DELIVERED"
  shows "deliveredIds (updateEvents P f d) \<subseteq> deliveredIds d"
  using assms by (auto simp: deliveredIds_def updateEvents_def update_rows_def split: if_splits)

lemma deliveredIds_lock: "lockEvents st now es d = Inr d' \<Longrightarrow> deliveredIds d' \<subseteq> deliveredIds d"
proof (induction es arbitrary: d)
  case (Cons e es)
  then show ?case using updated_not_delivered [of "locked st now" "lockable now (oe_id e)" d]
    by (auto simp: locked_def [abs_def] split: if_splits)
qed simp

lemma deliveredIds_failed: "deliveredIds (snd (Failed st now es code summary perm d)) \<subseteq> deliveredIds d"
proof (induction es arbitrary: d)
  case (Cons e es)
  have "deliveredIds d1 \<subseteq> deliveredIds d" if "failedOne st now code summary perm e d = Inr d1" for d1
    using that by (auto simp: failedOne_def Let_def split: if_splits intro: updated_not_delivered [THEN subsetD, rotated])
  then show ?case using Cons.IH by (force split: sum.splits)
qed simp

lemma outbox_accept [simp]: "outbox_events (acceptIssue now t a d) = outbox_events d" "outbox_events (acceptRedFlush now t a d) = outbox_events d"
  by (simp_all add: acceptIssue_def acceptRedFlush_def updateAttempt_def set_attempts_def set_red_attempts_def)

lemma deliveredIds_one:
  assumes "deliveredOne st now e d = Inr d'"
  shows "deliveredIds d' \<subseteq> insert (oe_id e) (deliveredIds d)"
  using assms
  by (auto simp: deliveredOne_def Let_def deliveredIds_def updateEvents_def update_rows_def held_def
      split: if_splits option.splits)

lemma deliveredIds_all: "deliveredIds (snd (Delivered st now es d)) \<subseteq> oe_id ` set es \<union> deliveredIds d"
proof (induction es arbitrary: d)
  case (Cons e es)
  then show ?case using deliveredIds_one [of st now e d] by (fastforce split: sum.splits)
qed simp

lemma filter_events:
  "filterImportNotifications st es d = (r, d') \<Longrightarrow> deliveredIds d' \<subseteq> deliveredIds d"
proof (induction es arbitrary: d r)
  case (Cons e es)
  have "deliveredIds (cancelStale st e d) \<subseteq> deliveredIds d" unfolding cancelStale_def by (rule updated_not_delivered) simp
  then show ?case using Cons by (fastforce split: if_splits sum.splits bool.splits prod.splits)
qed simp

text \<open>What identifies an event in its row, which no step of the worker changes.\<close>

definition names :: "db \<Rightarrow> (string \<times> string) list" where
  "names d = map (\<lambda>x. (ob_id x, ob_event x)) (outbox_events d)"

lemma names_update:
  assumes "\<And>x. ob_id (f x) = ob_id x" "\<And>x. ob_event (f x) = ob_event x"
  shows "names (updateEvents P f d) = names d"
  using assms by (simp add: names_def updateEvents_def update_rows_def comp_def)

lemma names_lock: "lockEvents st now es d = Inr d' \<Longrightarrow> names d' = names d"
  by (induction es arbitrary: d) (auto simp: names_update split: if_splits)

lemma names_failed: "names (snd (Failed st now es code summary perm d)) = names d"
  by (induction es arbitrary: d) (auto simp: failedOne_def Let_def names_update split: sum.splits if_splits)

lemma names_accept [simp]: "names (acceptIssue now t a d) = names d" "names (acceptRedFlush now t a d) = names d"
  by (simp_all add: names_def)

lemma names_one: "deliveredOne st now e d = Inr d' \<Longrightarrow> names d' = names d"
  by (auto simp: deliveredOne_def Let_def names_update split: if_splits option.splits)

lemma names_delivered: "names (snd (Delivered st now es d)) = names d"
  by (induction es arbitrary: d) (auto dest: names_one split: sum.splits)

lemma names_filter: "filterImportNotifications st es d = (r, d') \<Longrightarrow> names d' = names d"
proof (induction es arbitrary: d r)
  case (Cons e es)
  have "names (cancelStale st e d) = names d" unfolding cancelStale_def by (rule names_update) simp_all
  then show ?case using Cons by (fastforce split: if_splits sum.splits bool.splits prod.splits)
qed simp

lemma filter_subset: "filterImportNotifications st es d = (Inr l, d') \<Longrightarrow> set l \<subseteq> set es"
  by (induction es arbitrary: d l) (fastforce simp: andThen_eq_Inr split: if_splits sum.splits bool.splits prod.splits)+

text \<open>The receipts of a reply name an event with a terminal status.\<close>

definition receipted :: "json option \<Rightarrow> string \<Rightarrow> string \<Rightarrow> bool" where
  "receipted body destination event \<longleftrightarrow> (\<exists>m raw j status dup. body = Some (JObj m) \<and> stringField m ''code'' = Some ''OK'' \<and>
     receiptsIn destination (jget m ''data'') = Some raw \<and> j \<in> set raw \<and> receiptOf j = Some (event, status, dup) \<and>
     terminalReceipt status dup)"

lemma acceptedIds_in:
  "acceptedIds raw = Inr seen \<Longrightarrow> event \<in> set seen \<Longrightarrow>
     \<exists>j status dup. j \<in> set raw \<and> receiptOf j = Some (event, status, dup) \<and> terminalReceipt status dup"
proof (induction raw arbitrary: seen)
  case (Cons j js)
  then show ?case by (fastforce simp: andThen_eq_Inr split: option.splits if_splits)
qed simp

lemma validateReceipts_None:
  assumes "validateReceipts body destination events = None" "e \<in> set events"
  shows "receipted body destination (oe_event e)"
proof -
  from assms(1) obtain m raw seen where "body = Some (JObj m)" "stringField m ''code'' = Some ''OK''"
    "receiptsIn destination (jget m ''data'') = Some raw" "acceptedIds raw = Inr seen" "list_all (\<lambda>e. oe_event e \<in> set seen) events"
    by (auto simp: validateReceipts_def split: option.splits json.splits if_splits sum.splits)
  with assms(2) acceptedIds_in [of raw seen "oe_event e"] show ?thesis by (auto simp: receipted_def list_all_iff)
qed

text \<open>The service that receives for a destination confirmed an event in this pass.\<close>

definition confirmedBy :: "delivery_env \<Rightarrow> Destination list \<Rightarrow> (string \<times> string) \<Rightarrow> bool" where
  "confirmedBy w dsts n \<longleftrightarrow> (\<exists>dst events code body e. dst \<in> set dsts \<and> e \<in> set events \<and> (oe_id e, oe_event e) = n \<and>
     de_http w dst (map (payloadFor dst) events) = Reply code body \<and> 200 \<le> code \<and> code < 300 \<and>
     receipted body (ds_name dst) (oe_event e))"

lemma deliver_None:
  assumes "deliver w i dst events tk = (None, tk')" "e \<in> set events" "dst \<in> set dsts"
  shows "confirmedBy w dsts (oe_id e, oe_event e)"
proof -
  from assms(1) obtain code body where "de_http w dst (map (payloadFor dst) events) = Reply code body" "200 \<le> code" "code < 300"
    "validateReceipts body (ds_name dst) events = None"
    by (auto simp: deliver_def split: if_splits sum.splits prod.splits http_reply.splits)
  with validateReceipts_None [of body "ds_name dst" events e] assms(2,3) show ?thesis
    unfolding confirmedBy_def by blast
qed

lemma deliverBatch_effect:
  assumes "deliverBatch w st i dst events tk d = (r, tk', d')" "dst \<in> set dsts"
  shows "names d' = names d" "deliveredIds d' \<subseteq> deliveredIds d \<union> {oe_id e |e. e \<in> set events \<and> confirmedBy w dsts (oe_id e, oe_event e)}"
proof -
  obtain f d1 where f: "filterImportNotifications st events d = (f, d1)" by (cases "filterImportNotifications st events d")
  note same = names_filter [OF f] filter_events [OF f]
  have "names d' = names d \<and> deliveredIds d' \<subseteq> deliveredIds d \<union> {oe_id e |e. e \<in> set events \<and> confirmedBy w dsts (oe_id e, oe_event e)}"
  proof (cases "\<exists>err. f = Inl err \<or> f = Inr []")
    case True
    then have "d' = d1" using assms(1) f by (auto simp: deliverBatch_def)
    with same show ?thesis by auto
  next
    case False
    then obtain l where l: "f = Inr l" "l \<noteq> []" by (cases f) auto
    obtain o1 tk1 where o1: "deliver w i dst l tk = (o1, tk1)" by (cases "deliver w i dst l tk")
    show ?thesis
    proof (cases o1)
      case None
      have "d' = snd (Delivered st (de_now w) l d1)"
        using assms(1) f l o1 None by (auto simp: deliverBatch_def neq_Nil_conv split: prod.splits)
      moreover have "confirmedBy w dsts (oe_id e, oe_event e)" if "e \<in> set l" for e
        using deliver_None o1 None that assms(2) by blast
      ultimately show ?thesis using same deliveredIds_all [of st "de_now w" l d1] filter_subset [of st events d l d1] f l(1)
        by (auto simp: names_delivered) blast
    next
      case (Some err)
      have "d' = d1 \<or> d' = snd (Failed st (de_now w) l ''DELIVERY_FAILED'' (errorText err) (permanentFailure err) d1)"
        using assms(1) f l o1 Some by (auto simp: deliverBatch_def neq_Nil_conv split: if_splits)
      then show ?thesis
        using same deliveredIds_failed [of st "de_now w" l "''DELIVERY_FAILED''" "errorText err" "permanentFailure err" d1]
        by (auto simp: names_failed)
    qed
  qed
  then show "names d' = names d" "deliveredIds d' \<subseteq> deliveredIds d \<union> {oe_id e |e. e \<in> set events \<and> confirmedBy w dsts (oe_id e, oe_event e)}"
    by blast+
qed

lemma Acquire_effect:
  assumes "Acquire st now dst n d = Inr (es, d')"
  shows "names d' = names d" "deliveredIds d' \<subseteq> deliveredIds d" "\<And>e. e \<in> set es \<Longrightarrow> (oe_id e, oe_event e) \<in> set (names d)"
proof -
  from assms have "lockEvents st now es d = Inr d'" "es = batchOf now dst n d" by (auto simp: Acquire_def andThen_eq_Inr)
  then show "names d' = names d" "deliveredIds d' \<subseteq> deliveredIds d" by (auto dest: names_lock deliveredIds_lock)
  show "(oe_id e, oe_event e) \<in> set (names d)" if "e \<in> set es" for e
    using batch_rows [of e now dst n d] that \<open>es = _\<close> by (force simp: names_def eventOf_def)
qed

lemma runFrom_effect:
  assumes "set dsts \<subseteq> set all"
  shows "names (snd (snd (runFrom w st n i dsts tk d))) = names d \<and>
     deliveredIds (snd (snd (runFrom w st n i dsts tk d))) \<subseteq> deliveredIds d \<union> fst ` {x \<in> set (names d). confirmedBy w all x}"
  using assms
proof (induction dsts arbitrary: i tk d)
  case (Cons dst dsts)
  show ?case
  proof (cases "de_stop w i \<or> (business dst \<and> \<not> de_license w i 0) \<or> (\<exists>err. Acquire st (de_now w) (ds_name dst) n d = Inl err)")
    case True
    then show ?thesis using Cons by (auto split: sum.splits)
  next
    case False
    then obtain es d1 where a: "Acquire st (de_now w) (ds_name dst) n d = Inr (es, d1)" by (cases "Acquire st (de_now w) (ds_name dst) n d") auto
    note e = Acquire_effect [OF a]
    show ?thesis
    proof (cases es)
      case Nil
      then show ?thesis using Cons.IH [of "Suc i" tk d1] Cons.prems False a e(1,2) by auto
    next
      case (Cons x xs)
      obtain r tk2 d2 where b: "deliverBatch w st i dst es tk d1 = (r, tk2, d2)" by (cases "deliverBatch w st i dst es tk d1")
      have "dst \<in> set all" using Cons.prems by simp
      note h = deliverBatch_effect [OF b this]
      have "{oe_id e |e. e \<in> set es \<and> confirmedBy w all (oe_id e, oe_event e)} \<subseteq> fst ` {x \<in> set (names d). confirmedBy w all x}"
        using e(3) by force
      then have s: "deliveredIds d2 \<subseteq> deliveredIds d \<union> fst ` {x \<in> set (names d). confirmedBy w all x}" "names d2 = names d"
        using h(2) e(2) h(1) [unfolded e(1)] by blast+
      show ?thesis
      proof (cases r)
        case None
        then show ?thesis using Cons.IH [of "Suc i" tk2 d2] Cons.prems False a b s \<open>es = _\<close> by auto
      next
        case (Some err)
        then show ?thesis using False a b s \<open>es = _\<close> by auto
      qed
    qed
  qed
qed simp

text \<open>C17: only a receipt makes an event delivered. Whatever the licence, the token endpoint and the receiving services
  answer, a row that is delivered after a pass was delivered before it, or a service of the pass's
  destinations replied with a success status and a terminal receipt that names the row's event.\<close>

theorem delivered_only_with_receipt:
  "ob_id ` {x \<in> set (outbox_events (snd (snd (RunOnce w st n dsts tk d)))). ob_status x = OB_DELIVERED} \<subseteq>
     ob_id ` {x \<in> set (outbox_events d). ob_status x = OB_DELIVERED} \<union>
     ob_id ` {x \<in> set (outbox_events d). confirmedBy w dsts (ob_id x, ob_event x)}"
proof -
  have "fst ` {x \<in> set (names d). confirmedBy w dsts x} = ob_id ` {x \<in> set (outbox_events d). confirmedBy w dsts (ob_id x, ob_event x)}"
    by (force simp: names_def)
  then show ?thesis
    using runFrom_effect [of dsts dsts w st "batchSize n" 0 tk d] unfolding RunOnce_def deliveredIds_def by simp
qed

end
