(* ===== verification/Refusals.thy ===== *)
theory Refusals
  imports OutboxProps
begin

text \<open>
  What becomes of events whose destination refuses them: what a pass of the worker touches, what a refused batch does to its rows, the
  attempts that are left as a measure, and that an event ends as a dead letter.
\<close>

section \<open>The rows of failed events\<close>

definition failedRow :: "int \<Rightarrow> string \<Rightarrow> string \<Rightarrow> bool \<Rightarrow> int \<Rightarrow> outbox_event \<Rightarrow> outbox_event" where
  "failedRow now code summary permanent attempt x =
     (let dead = (permanent \<or> attempt \<ge> 7) in
      x\<lparr>ob_status := (if dead then OB_DEAD_LETTER else OB_RETRY_WAIT), ob_attempts := attempt,
        ob_available_at := (if dead then now else now + backoff attempt), ob_locked_by := None,
        ob_locked_until := None, ob_error_code := safeText code 128, ob_error_summary := safeText summary 500,
        ob_dead_at := (if dead then Some now else None)\<rparr>)"

lemma failedRow_simps [simp]: "ob_id (failedRow now code summary perm n x) = ob_id x" "ob_locked_by (failedRow now code summary perm n x) = None"
  "ob_attempts (failedRow now code summary perm n x) = n" "ob_destination (failedRow now code summary perm n x) = ob_destination x"
  "ob_status (failedRow now code summary perm n x) = (if perm \<or> n \<ge> 7 then OB_DEAD_LETTER else OB_RETRY_WAIT)"
  "ob_available_at (failedRow now code summary perm n x) = (if perm \<or> n \<ge> 7 then now else now + backoff n)"
  by (simp_all add: failedRow_def Let_def)

lemma affected_one:
  assumes "keyed ob_id l" "x \<in> set l" "P x" "\<And>y. P y \<Longrightarrow> ob_id y = ob_id x"
  shows "affected P l = 1"
proof -
  have "set (filter P l) = {x}"
    using assms by (auto simp: keyed_def distinct_map dest: inj_onD)
  moreover have "distinct (filter P l)" using assms(1) by (simp add: keyed_def distinct_map)
  ultimately show ?thesis using distinct_card [of "filter P l"] by (simp add: affected_def)
qed

lemma update_held:
  assumes "keyed ob_id l" "x \<in> set l" "held st eid x"
  shows "update_rows (held st eid) f l = map (\<lambda>y. if ob_id y = eid then f y else y) l"
  using assms by (auto simp: update_rows_def keyed_def held_def distinct_map dest!: inj_onD)

lemma failedOne_rows:
  assumes "keyed ob_id (outbox_events d)" "x \<in> set (outbox_events d)" "held st (oe_id e) x"
  shows "\<exists>d'. failedOne st now code summary perm e d = Inr d' \<and> outbox_events d' =
     map (\<lambda>y. if ob_id y = oe_id e then failedRow now code summary perm (oe_attempt e + 1) y else y) (outbox_events d)"
proof -
  have "affected (held st (oe_id e)) (outbox_events d) = 1"
    by (rule affected_one [where x = x]) (use assms in \<open>simp_all add: held_def\<close>)
  moreover have "failedRow now code summary perm (oe_attempt e + 1) = (\<lambda>x. x\<lparr>
      ob_status := (if perm \<or> oe_attempt e + 1 \<ge> 7 then OB_DEAD_LETTER else OB_RETRY_WAIT), ob_attempts := oe_attempt e + 1,
      ob_available_at := (if perm \<or> oe_attempt e + 1 \<ge> 7 then now else now + backoff (oe_attempt e + 1)), ob_locked_by := None,
      ob_locked_until := None, ob_error_code := safeText code 128, ob_error_summary := safeText summary 500,
      ob_dead_at := (if perm \<or> oe_attempt e + 1 \<ge> 7 then Some now else None)\<rparr>)"
    by (simp add: failedRow_def Let_def fun_eq_iff)
  ultimately show ?thesis using update_held [OF assms, of "failedRow now code summary perm (oe_attempt e + 1)"]
    by (simp add: failedOne_def Let_def updateEvents_def)
qed

text \<open>All events of a batch whose rows the worker holds.\<close>

definition failedIn :: "int \<Rightarrow> string \<Rightarrow> string \<Rightarrow> bool \<Rightarrow> Event list \<Rightarrow> outbox_event \<Rightarrow> outbox_event" where
  "failedIn now code summary perm es x =
     (case find (\<lambda>e. oe_id e = ob_id x) es of None \<Rightarrow> x | Some e \<Rightarrow> failedRow now code summary perm (oe_attempt e + 1) x)"

lemma Failed_rows:
  assumes "keyed ob_id (outbox_events d)" "distinct (map oe_id es)" "\<And>e. e \<in> set es \<Longrightarrow> \<exists>x \<in> set (outbox_events d). held st (oe_id e) x"
  shows "outbox_events (snd (Failed st now es code summary perm d)) = map (failedIn now code summary perm es) (outbox_events d)"
  using assms
proof (induction es arbitrary: d)
  case Nil
  then show ?case by (simp add: failedIn_def)
next
  case (Cons e es)
  let ?f = "\<lambda>y. if ob_id y = oe_id e then failedRow now code summary perm (oe_attempt e + 1) y else y"
  from Cons.prems(3) [of e] obtain x where x: "x \<in> set (outbox_events d)" "held st (oe_id e) x" by auto
  from failedOne_rows [OF Cons.prems(1) x] obtain d' where d': "failedOne st now code summary perm e d = Inr d'" "outbox_events d' = map ?f (outbox_events d)"
    by blast
  have "\<exists>x \<in> set (outbox_events d'). held st (oe_id b) x" if "b \<in> set es" for b
  proof -
    from Cons.prems(3) [of b] that obtain y where y: "y \<in> set (outbox_events d)" "held st (oe_id b) y" by auto
    moreover have "oe_id b \<noteq> oe_id e" using Cons.prems(2) imageI [OF that, of oe_id] by auto
    ultimately have "?f y = y" by (simp add: held_def)
    moreover have "?f y \<in> set (outbox_events d')" unfolding d'(2) set_map using y(1) by (rule imageI)
    ultimately show ?thesis using y(2) by auto
  qed
  moreover have "keyed ob_id (outbox_events d')" using Cons.prems(1) by (simp add: d'(2) keyed_def comp_def if_distrib cong: if_cong)
  ultimately have "outbox_events (snd (Failed st now es code summary perm d')) = map (failedIn now code summary perm es) (outbox_events d')"
    using Cons.IH [of d'] Cons.prems(2) by simp
  moreover have "failedIn now code summary perm es (?f y) = failedIn now code summary perm (e # es) y" for y
    using Cons.prems(2) by (auto simp: failedIn_def image_iff split: option.splits dest!: find_SomeD)
  ultimately show ?case using d' by simp
qed

definition waiting :: "outbox_event \<Rightarrow> bool" where
  "waiting x \<longleftrightarrow> ob_status x = OB_PENDING \<or> ob_status x = OB_RETRY_WAIT"

lemma batch_distinct:
  assumes "keyed ob_id (outbox_events d)"
  shows "distinct (map oe_id (batchOf now dst n d))"
proof -
  have ins: "distinct (map ob_id (insertBy olderEvent r l)) = (ob_id r \<notin> ob_id ` set l \<and> distinct (map ob_id l))" for r l
    by (induction l) auto
  have sort: "distinct (map ob_id (orderBy olderEvent l)) = distinct (map ob_id l)" for l
    unfolding orderBy_def using set_orderBy [of olderEvent] by (induction l) (simp_all add: ins orderBy_def)
  have "map oe_id (batchOf now dst n d) = take n (map ob_id (orderBy olderEvent (filter (acquirable now dst) (outbox_events d))))"
    by (simp add: batchOf_def take_map comp_def eventOf_def)
  moreover have "distinct (map ob_id (filter (acquirable now dst) (outbox_events d)))"
    using assms by (simp add: keyed_def distinct_map_filter)
  ultimately show ?thesis by (simp add: sort)
qed

lemma lockEvents_succeeds:
  assumes "keyed ob_id (outbox_events d)" "distinct (map oe_id es)"
    "\<And>e. e \<in> set es \<Longrightarrow> \<exists>x \<in> set (outbox_events d). lockable now (oe_id e) x"
  shows "\<exists>d'. lockEvents st now es d = Inr d'"
  using assms
proof (induction es arbitrary: d)
  case (Cons e es)
  let ?d = "updateEvents (lockable now (oe_id e)) (locked st now) d"
  from Cons.prems(3) [of e] obtain x where x: "x \<in> set (outbox_events d)" "lockable now (oe_id e) x" by auto
  have one: "affected (lockable now (oe_id e)) (outbox_events d) = 1"
    by (rule affected_one [where x = x]) (use Cons.prems(1) x in \<open>simp_all add: lockable_def\<close>)
  have "\<exists>x \<in> set (outbox_events ?d). lockable now (oe_id b) x" if "b \<in> set es" for b
  proof -
    from Cons.prems(3) [of b] that obtain y where y: "y \<in> set (outbox_events d)" "lockable now (oe_id b) y" by auto
    have "oe_id b \<noteq> oe_id e" using Cons.prems(2) imageI [OF that, of oe_id] by auto
    with y(2) have "\<not> lockable now (oe_id e) y" by (simp add: lockable_def)
    with y show ?thesis by (auto simp: updateEvents_def update_rows_def intro!: bexI [of _ y] image_eqI [of _ _ y])
  qed
  moreover have "keyed ob_id (outbox_events ?d)" using Cons.prems(1) by (simp add: updateEvents_def update_rows_def keyed_def comp_def if_distrib cong: if_cong)
  ultimately have "\<exists>d'. lockEvents st now es ?d = Inr d'" using Cons.IH [of ?d] Cons.prems(2) by simp
  with one show ?case by (simp add: locked_def [abs_def])
qed simp

lemma nothing_gated:
  "(\<And>e. e \<in> set es \<Longrightarrow> \<not> gated e) \<Longrightarrow> filterImportNotifications st es d = (Inr es, d)"
  by (induction es) auto

lemma find_key: "distinct (map key l) \<Longrightarrow> e \<in> set l \<Longrightarrow> find (\<lambda>x. key x = key e) l = Some e"
  by (induction l) (auto simp: image_iff)

lemma backoff_bounds: "60000 \<le> backoff n \<and> backoff n \<le> 21600000"
proof -
  have "\<forall>i < 6. 60000 \<le> backoffValues ! i \<and> backoffValues ! i \<le> 21600000"
    by (simp add: backoffValues_def minutes_def All_less_Suc numeral_eq_Suc)
  moreover have "length backoffValues = 6" by (simp add: backoffValues_def)
  ultimately show ?thesis by (auto simp: backoff_def not_le dest!: spec [of _ "nat (n - 1)"])
qed

section \<open>What a pass touches\<close>

text \<open>Rows keep what identifies and describes the event, and only rows with the given identifiers change.\<close>

definition content :: "outbox_event \<Rightarrow> string \<times> int \<times> string \<times> string \<times> string \<times> payload" where
  "content x = (ob_id x, ob_created_at x, ob_destination x, ob_tenant x, ob_type x, ob_payload x)"

definition sameRow :: "string set \<Rightarrow> outbox_event \<Rightarrow> outbox_event \<Rightarrow> bool" where
  "sameRow ids x y \<longleftrightarrow> content y = content x \<and> (ob_id x \<notin> ids \<longrightarrow> y = x)"

definition touches :: "string set \<Rightarrow> db \<Rightarrow> db \<Rightarrow> bool" where
  "touches ids d d' \<longleftrightarrow> list_all2 (sameRow ids) (outbox_events d) (outbox_events d')"

lemma touches_refl [simp]: "touches ids d d"
  by (simp add: touches_def list_all2_same sameRow_def)

lemma touches_trans:
  assumes "touches ids d d1" "touches ids' d1 d2" "ids \<subseteq> all" "ids' \<subseteq> all"
  shows "touches all d d2"
proof -
  have "sameRow ids x y \<Longrightarrow> sameRow ids' y z \<Longrightarrow> sameRow all x z" for x y z
    using assms(3,4) by (auto simp: sameRow_def content_def)
  from list_all2_trans [OF this] assms(1,2) show ?thesis by (simp add: touches_def)
qed

lemma touches_mono: "touches ids d d' \<Longrightarrow> ids \<subseteq> ids' \<Longrightarrow> touches ids' d d'"
  by (rule touches_trans [OF _ touches_refl]) auto

lemma touches_update:
  assumes "outbox_events d' = update_rows P f (outbox_events d)" "\<And>x. P x \<Longrightarrow> ob_id x \<in> ids"
    "\<And>x. content (f x) = content x"
  shows "touches ids d d'"
  using assms by (auto simp: touches_def sameRow_def update_rows_def list_all2_map2 intro!: list_all2_same [THEN iffD2])

lemma touches_keyed:
  assumes "touches ids d d'"
  shows "keyed ob_id (outbox_events d') = keyed ob_id (outbox_events d)"
proof -
  have "map ob_id (outbox_events d') = map ob_id (outbox_events d)"
    using assms unfolding touches_def by (induction rule: list_all2_induct) (auto simp: sameRow_def content_def)
  then show ?thesis by (simp add: keyed_def)
qed

lemma lockEvents_touches: "lockEvents st now es d = Inr d' \<Longrightarrow> touches (oe_id ` set es) d d'"
proof (induction es arbitrary: d)
  case (Cons e es)
  let ?d = "updateEvents (lockable now (oe_id e)) (locked st now) d"
  from Cons.prems have "lockEvents st now es ?d = Inr d'" by (auto simp: locked_def [abs_def] split: if_splits)
  note rest = Cons.IH [OF this]
  have "touches {oe_id e} d ?d"
    by (rule touches_update [where P = "lockable now (oe_id e)" and f = "locked st now"])
      (auto simp: updateEvents_def lockable_def, simp add: locked_def content_def)
  from touches_trans [OF this rest] show ?case by auto
qed simp

lemma deliveredOne_touches:
  assumes "deliveredOne st now e d = Inr d'"
  shows "touches {oe_id e} d d'"
  by (rule touches_update [where P = "held st (oe_id e)" and f = "\<lambda>x. x\<lparr>ob_status := OB_DELIVERED, ob_delivered_at := Some now, ob_locked_by := None,
        ob_locked_until := None, ob_error_code := '''', ob_error_summary := ''''\<rparr>"])
    (use assms in \<open>auto simp: content_def held_def deliveredOne_def Let_def updateEvents_def acceptIssue_def acceptRedFlush_def updateAttempt_def
      set_red_attempts_def set_attempts_def split: if_splits option.splits\<close>)

lemma Delivered_touches: "touches (oe_id ` set es) d (snd (Delivered st now es d))"
proof (induction es arbitrary: d)
  case (Cons e es)
  show ?case
  proof (cases "deliveredOne st now e d")
    case (Inr d1)
    from touches_trans [OF deliveredOne_touches [OF Inr] Cons.IH [of d1], of "oe_id ` set (e # es)"] Inr show ?thesis by auto
  qed simp
qed simp

lemma failedOne_touches:
  assumes "failedOne st now code summary perm e d = Inr d'"
  shows "touches {oe_id e} d d'"
  using assms by (auto simp: failedOne_def Let_def updateEvents_def held_def content_def split: if_splits intro!: touches_update)

lemma Failed_touches: "touches (oe_id ` set es) d (snd (Failed st now es code summary perm d))"
proof (induction es arbitrary: d)
  case (Cons e es)
  show ?case
  proof (cases "failedOne st now code summary perm e d")
    case (Inr d1)
    from touches_trans [OF failedOne_touches [OF Inr] Cons.IH [of d1], of "oe_id ` set (e # es)"] Inr show ?thesis by auto
  qed simp
qed simp

lemma cancelStale_touches: "touches {oe_id e} d (cancelStale st e d)"
  unfolding cancelStale_def updateEvents_def
  by (rule touches_update [where P = "held st (oe_id e)" and f = "\<lambda>x. x\<lparr>ob_status := OB_CANCELLED, ob_error_code := ''IMPORT_HOLD_OR_STALE_RELEASE'',
             ob_error_summary := staleSummary, ob_locked_by := None, ob_locked_until := None\<rparr>"]) (auto simp: held_def content_def)

lemma filter_touches: "filterImportNotifications st es d = (r, d') \<Longrightarrow> touches (oe_id ` set es) d d'"
proof (induction es arbitrary: d r)
  case (Cons e es)
  consider r' where "filterImportNotifications st es d = (r', d')" | "d' = d"
    | "filterImportNotifications st es (cancelStale st e d) = (r, d')"
    using Cons.prems by (auto split: if_splits sum.splits bool.splits prod.splits)
  then show ?case
  proof cases
    case 1
    from touches_mono [OF Cons.IH [OF 1]] show ?thesis by auto
  next
    case 3
    from touches_trans [OF cancelStale_touches Cons.IH [OF 3]] show ?thesis by auto
  qed simp
qed simp

lemma deliverBatch_cases:
  assumes "deliverBatch w st i dst es tk d = (r, tk', d')" "filterImportNotifications st es d = (f, d1)"
  obtains "d' = d1" | l where "f = Inr l" "d' = snd (Delivered st (de_now w) l d1)"
    | l err where "f = Inr l" "d' = snd (Failed st (de_now w) l ''DELIVERY_FAILED'' (errorText err) (permanentFailure err) d1)"
proof (cases "\<exists>err. f = Inl err \<or> f = Inr []")
  case True
  then have "d' = d1" using assms by (auto simp: deliverBatch_def)
  then show ?thesis by (rule that(1))
next
  case False
  then obtain l where l: "f = Inr l" "l \<noteq> []" by (cases f) auto
  obtain o1 tk1 where o1: "deliver w i dst l tk = (o1, tk1)" by (cases "deliver w i dst l tk")
  show ?thesis
  proof (cases o1)
    case None
    then have "d' = snd (Delivered st (de_now w) l d1)"
      using assms l o1 by (auto simp: deliverBatch_def neq_Nil_conv split: prod.splits)
    then show ?thesis by (rule that(2) [OF l(1)])
  next
    case (Some err)
    then have "d' = d1 \<or> d' = snd (Failed st (de_now w) l ''DELIVERY_FAILED'' (errorText err) (permanentFailure err) d1)"
      using assms l o1 by (auto simp: deliverBatch_def neq_Nil_conv split: if_splits)
    then show ?thesis using that(1) that(3) [OF l(1)] by blast
  qed
qed

lemma deliverBatch_touches:
  assumes "deliverBatch w st i dst es tk d = (r, tk', d')"
  shows "touches (oe_id ` set es) d d'"
proof -
  obtain f d1 where f: "filterImportNotifications st es d = (f, d1)" by (cases "filterImportNotifications st es d")
  note t1 = filter_touches [OF f]
  have sub: "oe_id ` set l \<subseteq> oe_id ` set es" if "f = Inr l" for l
    using filter_subset [of st es d l d1] f that by blast
  show ?thesis
    using assms f
  proof (cases rule: deliverBatch_cases)
    case (2 l)
    from touches_trans [OF t1 Delivered_touches subset_refl sub [OF 2(1)]] 2(2) show ?thesis by simp
  next
    case (3 l err)
    from touches_trans [OF t1 Failed_touches subset_refl sub [OF 3(1)]] 3(2) show ?thesis by simp
  qed (use t1 in simp)
qed

section \<open>Other destinations\<close>

definition rowsFor :: "string \<Rightarrow> db \<Rightarrow> outbox_event list" where
  "rowsFor name d = filter (\<lambda>x. ob_destination x = name) (outbox_events d)"

lemma touches_rowsFor:
  assumes "touches ids d d'" "\<And>x. x \<in> set (outbox_events d) \<Longrightarrow> ob_destination x = name \<Longrightarrow> ob_id x \<notin> ids"
  shows "rowsFor name d' = rowsFor name d"
  using assms unfolding touches_def rowsFor_def by (induction rule: list_all2_induct) (auto simp: sameRow_def content_def)

lemma batch_elsewhere:
  assumes "keyed ob_id (outbox_events d)" "x \<in> set (outbox_events d)" "ob_destination x \<noteq> name"
  shows "ob_id x \<notin> oe_id ` set (batchOf now name n d)"
proof
  assume "ob_id x \<in> oe_id ` set (batchOf now name n d)"
  then obtain e where e: "ob_id x = oe_id e" "e \<in> set (batchOf now name n d)" by (rule imageE)
  from batch_rows [OF e(2)] obtain y where y: "y \<in> set (outbox_events d)" "oe_id e = ob_id y" "acquirable now name y" by blast
  with e(1) assms(1,2) have "y = x" by (auto simp: keyed_def distinct_map dest: inj_onD)
  with y(3) assms(3) show False by (simp add: acquirable_def)
qed

lemma Acquire_touches: "Acquire st now name n d = Inr (es, d') \<Longrightarrow> es = batchOf now name n d \<and> touches (oe_id ` set es) d d'"
  by (auto simp: Acquire_def andThen_eq_Inr dest: lockEvents_touches)

lemma runFrom_elsewhere:
  assumes "keyed ob_id (outbox_events d)" "name \<notin> ds_name ` set dsts"
  shows "keyed ob_id (outbox_events (snd (snd (runFrom w st n i dsts tk d)))) \<and> rowsFor name (snd (snd (runFrom w st n i dsts tk d))) = rowsFor name d"
  using assms
proof (induction dsts arbitrary: i tk d)
  case (Cons dst dsts)
  show ?case
  proof (cases "de_stop w i \<or> (business dst \<and> \<not> de_license w i 0) \<or> (\<exists>err. Acquire st (de_now w) (ds_name dst) n d = Inl err)")
    case True
    then show ?thesis using Cons by (auto split: sum.splits)
  next
    case False
    then obtain es d1 where a: "Acquire st (de_now w) (ds_name dst) n d = Inr (es, d1)" by (cases "Acquire st (de_now w) (ds_name dst) n d") auto
    note ta = Acquire_touches [OF a]
    have far: "ob_id x \<notin> oe_id ` set es" if "x \<in> set (outbox_events d)" "ob_destination x = name" for x
      using batch_elsewhere [OF Cons.prems(1) that(1), of "ds_name dst"] that(2) Cons.prems(2) ta by auto
    have d1: "keyed ob_id (outbox_events d1)" "rowsFor name d1 = rowsFor name d"
      using touches_keyed ta Cons.prems(1) touches_rowsFor [of "oe_id ` set es" d d1 name] far by blast+
    show ?thesis
    proof (cases es)
      case Nil
      then show ?thesis using Cons.IH [OF d1(1)] Cons.prems False a d1 by auto
    next
      case es: (Cons e0 es0)
      obtain r tk2 d2 where b: "deliverBatch w st i dst es tk d1 = (r, tk2, d2)" by (cases "deliverBatch w st i dst es tk d1")
      from touches_trans [OF conjunct2 [OF ta] deliverBatch_touches [OF b]] have t: "touches (oe_id ` set es) d d2" by simp
      have d2: "keyed ob_id (outbox_events d2)" "rowsFor name d2 = rowsFor name d"
        using touches_keyed [OF t] Cons.prems(1) touches_rowsFor [OF t far] by blast+
      show ?thesis using Cons.IH [OF d2(1)] Cons.prems(2) False a b d2 es by (cases r) auto
    qed
  qed
qed simp


section \<open>A refused batch\<close>

text \<open>A batch depends on the rows of its destination only.\<close>

lemma batchOf_rowsFor: "batchOf now name n d = map eventOf (take n (orderBy olderEvent (filter (acquirable now name) (rowsFor name d))))"
proof -
  have "filter (acquirable now name) (rowsFor name d) = filter (acquirable now name) (outbox_events d)"
    unfolding rowsFor_def filter_filter by (rule filter_cong) (auto simp: acquirable_def)
  then show ?thesis by (simp add: batchOf_def)
qed

text \<open>The pass reaches a destination at the given place, the licence holds, and the receiving service never answers with success.\<close>

definition refusesAt :: "delivery_env \<Rightarrow> nat \<Rightarrow> Destination \<Rightarrow> bool" where
  "refusesAt w i dst \<longleftrightarrow> \<not> de_stop w i \<and> (\<not> business dst \<or> (de_license w i 0 \<and> de_license w i 1 \<and> de_license w i 2)) \<and>
     (\<forall>body n reply. de_http w dst body = Reply n reply \<longrightarrow> n < 200 \<or> n \<ge> 300)"

text \<open>Rows have their key, and a row of the destination that waits has no lock.\<close>

definition unlocked :: "string \<Rightarrow> db \<Rightarrow> bool" where
  "unlocked name d \<longleftrightarrow> keyed ob_id (outbox_events d) \<and> (\<forall>x \<in> set (rowsFor name d). waiting x \<longrightarrow> ob_locked_by x = None)"

lemma refused_at:
  assumes "refusesAt w i dst"
  shows "\<exists>err tk'. deliver w i dst events tk = (Some err, tk') \<and> err \<noteq> ErrLicensePaused"
proof -
  have no_pause: "v \<noteq> ErrLicensePaused" if "accessToken w dst tk = (Inl v, t)" for v t
    using that by (auto simp: accessToken_def tokenIn_def split: option.splits if_splits sum.splits prod.splits http_reply.splits json.splits)
  show ?thesis
  proof (cases "accessToken w dst tk")
    case (Pair r tk')
    then show ?thesis using assms no_pause
      by (cases r; cases "de_http w dst (map (payloadFor dst) events)") (auto simp: deliver_def refusesAt_def)
  qed
qed

lemma rowsFor_map:
  assumes "outbox_events d' = map g (outbox_events d)" "\<And>x. ob_destination (g x) = ob_destination x"
  shows "rowsFor name d' = map g (rowsFor name d)"
  using assms by (simp add: rowsFor_def filter_map comp_def)

lemma batch_lockable:
  assumes "unlocked name d" "e \<in> set (batchOf now name n d)"
  shows "\<exists>x \<in> set (outbox_events d). lockable now (oe_id e) x"
proof -
  from batch_rows [OF assms(2)] obtain x where x: "x \<in> set (outbox_events d)" "oe_id e = ob_id x" "acquirable now name x" by blast
  with assms(1) have "lockable now (oe_id e) x" by (auto simp: unlocked_def rowsFor_def lockable_def acquirable_def waiting_def)
  with x(1) show ?thesis ..
qed

lemma Acquire_unlocked:
  assumes "unlocked name d"
  obtains d' where "Acquire st now name n d = Inr (batchOf now name n d, d')"
    "outbox_events d' = lockIds st now (oe_id ` set (batchOf now name n d)) (outbox_events d)"
proof -
  from assms have k: "keyed ob_id (outbox_events d)" by (simp add: unlocked_def)
  have "\<exists>x \<in> set (outbox_events d). lockable now (oe_id e) x" if "e \<in> set (batchOf now name n d)" for e
    by (rule batch_lockable [OF assms that])
  from lockEvents_succeeds [OF k batch_distinct [OF k] this] obtain d'
    where l: "lockEvents st now (batchOf now name n d) d = Inr d'" by blast
  show ?thesis by (rule that [of d']) (use l lockEvents_rows [OF k l] in \<open>simp_all add: Acquire_def\<close>)
qed

definition refusedRow :: "OutboxStore \<Rightarrow> int \<Rightarrow> string \<Rightarrow> string \<Rightarrow> bool \<Rightarrow> string set \<Rightarrow> outbox_event \<Rightarrow> outbox_event" where
  "refusedRow st now code summary perm ids x =
     (if ob_id x \<in> ids then failedRow now code summary perm (ob_attempts x + 1) (locked st now x) else x)"

lemma refusedRow_keys [simp]: "ob_id (refusedRow st now code summary perm ids x) = ob_id x"
  "ob_destination (refusedRow st now code summary perm ids x) = ob_destination x"
  "ob_created_at (refusedRow st now code summary perm ids x) = ob_created_at x"
  by (simp_all add: refusedRow_def) (simp add: failedRow_def locked_def Let_def)

lemma refusedRow_none [simp]: "refusedRow st now code summary perm {} = id"
  by (simp add: refusedRow_def fun_eq_iff)

lemma Failed_locked:
  fixes st now code summary perm name n d
  defines "es \<equiv> batchOf now name n d"
  assumes k: "keyed ob_id (outbox_events d)" and d1: "outbox_events d1 = lockIds st now (oe_id ` set es) (outbox_events d)"
  shows "outbox_events (snd (Failed st now es code summary perm d1)) = map (refusedRow st now code summary perm (oe_id ` set es)) (outbox_events d)"
proof -
  have uniq: "distinct (map oe_id es)" unfolding es_def by (rule batch_distinct [OF k])
  have row: "\<exists>x \<in> set (outbox_events d). e = eventOf x \<and> oe_id e = ob_id x" if "e \<in> set es" for e
    using batch_rows [OF that [unfolded es_def]] by blast
  have "outbox_events (snd (Failed st now es code summary perm d1)) = map (failedIn now code summary perm es) (outbox_events d1)"
  proof (rule Failed_rows [OF _ uniq])
    show "keyed ob_id (outbox_events d1)" using k by (simp add: d1)
    show "\<exists>x \<in> set (outbox_events d1). held st (oe_id e) x" if e: "e \<in> set es" for e
    proof -
      from row [OF e] obtain x where x: "x \<in> set (outbox_events d)" "oe_id e = ob_id x" by blast
      then have "locked st now x \<in> set (outbox_events d1)" using e by (force simp: d1 lockIds_def)
      then show ?thesis by (rule rev_bexI) (simp add: held_def x(2))
    qed
  qed
  also have "\<dots> = map (refusedRow st now code summary perm (oe_id ` set es)) (outbox_events d)"
    unfolding d1 lockIds_def map_map
  proof (rule map_cong [OF refl])
    fix x assume x: "x \<in> set (outbox_events d)"
    show "(failedIn now code summary perm es \<circ> (\<lambda>x. if ob_id x \<in> oe_id ` set es then locked st now x else x)) x =
      refusedRow st now code summary perm (oe_id ` set es) x"
    proof (cases "ob_id x \<in> oe_id ` set es")
      case True
      then obtain e where e: "ob_id x = oe_id e" "e \<in> set es" by (rule imageE)
      from row [OF e(2)] obtain y where y: "y \<in> set (outbox_events d)" "e = eventOf y" "oe_id e = ob_id y" by blast
      with e(1) x k have "y = x" by (auto simp: keyed_def distinct_map dest: inj_onD)
      with find_key [OF uniq e(2)] e(1) y(2) have "find (\<lambda>e. oe_id e = ob_id x) es = Some (eventOf x)" by simp
      then show ?thesis using True by (simp add: failedIn_def refusedRow_def eventOf_def)
    next
      case False
      then have "find (\<lambda>e. oe_id e = ob_id x) es = None" by (auto simp: find_None_iff image_iff)
      then show ?thesis using False by (simp add: failedIn_def refusedRow_def)
    qed
  qed
  finally show ?thesis .
qed

lemma refused_batch:
  fixes w name n d
  defines "ids \<equiv> oe_id ` set (batchOf (de_now w) name n d)"
  assumes r: "refusesAt w i dst" and u: "unlocked name d" and name: "name = ds_name dst" "name \<noteq> ''PLATFORM_NOTIFICATION''"
    and post: "name \<notin> ds_name ` set post"
  shows "\<exists>code summary perm. rowsFor name (snd (snd (runFrom w st n i (dst # post) tk d))) =
       map (refusedRow st (de_now w) code summary perm ids) (rowsFor name d) \<and>
     keyed ob_id (outbox_events (snd (snd (runFrom w st n i (dst # post) tk d))))"
proof -
  let ?es = "batchOf (de_now w) name n d"
  have k: "keyed ob_id (outbox_events d)" using u by (simp add: unlocked_def)
  from Acquire_unlocked [OF u] obtain d1 where a: "Acquire st (de_now w) name n d = Inr (?es, d1)"
    and rows: "outbox_events d1 = lockIds st (de_now w) ids (outbox_events d)" unfolding ids_def by blast
  from rows k have k1: "keyed ob_id (outbox_events d1)" by simp
  show ?thesis
  proof (cases ?es)
    case Nil
    then have "outbox_events d1 = outbox_events d" by (simp add: rows ids_def lockIds_def)
    moreover have "runFrom w st n i (dst # post) tk d = runFrom w st n (Suc i) post tk d1"
      using r a Nil name by (auto simp: refusesAt_def)
    ultimately show ?thesis using runFrom_elsewhere [OF k1 post, of w st n "Suc i" tk] Nil
      by (simp add: refusedRow_def ids_def rowsFor_def)
  next
    case (Cons e0 es0)
    from refused_at [OF r] obtain err tk' where err: "deliver w i dst ?es tk = (Some err, tk')" "err \<noteq> ErrLicensePaused" by blast
    let ?F = "snd (Failed st (de_now w) ?es ''DELIVERY_FAILED'' (errorText err) (permanentFailure err) d1)"
    have "filterImportNotifications st ?es d1 = (Inr ?es, d1)"
      by (rule nothing_gated) (use name(2) batch_rows in \<open>force simp: gated_def acquirable_def eventOf_def\<close>)
    then have "deliverBatch w st i dst ?es tk d1 = (None, tk', ?F)" using err Cons by (simp add: deliverBatch_def)
    then have run: "runFrom w st n i (dst # post) tk d = runFrom w st n (Suc i) post tk' ?F"
      using r a Cons name by (auto simp: refusesAt_def)
    have F: "outbox_events ?F = map (refusedRow st (de_now w) ''DELIVERY_FAILED'' (errorText err) (permanentFailure err) ids) (outbox_events d)"
      unfolding ids_def by (rule Failed_locked [OF k rows [unfolded ids_def]])
    then have "keyed ob_id (outbox_events ?F)" using k by (simp add: keyed_def comp_def)
    from runFrom_elsewhere [OF this post, of w st n "Suc i" tk'] rowsFor_map [OF F, of name] run show ?thesis by auto
  qed
qed

lemma runFrom_append:
  assumes "runFrom w st n i pre tk d = (None, tk1, d1)" "\<forall>j < i + length pre. \<not> de_stop w j"
  shows "runFrom w st n i (pre @ rest) tk d = runFrom w st n (i + length pre) rest tk1 d1"
  using assms
proof (induction pre arbitrary: i tk d)
  case (Cons p pre)
  from Cons.prems(2) have "\<not> de_stop w i" by simp
  with Cons.prems(1) Cons.IH [of "Suc i"] Cons.prems(2) show ?case
    by (auto split: if_splits sum.splits prod.splits list.splits option.splits)
qed simp


section \<open>The effort left\<close>

definition live :: "outbox_event \<Rightarrow> bool" where
  "live x \<longleftrightarrow> waiting x \<or> ob_status x = OB_PROCESSING"

text \<open>How often an event can still be tried: up to the seventh attempt, and once more where a row is past it.\<close>

definition credit :: "outbox_event \<Rightarrow> nat" where
  "credit x = (if live x then nat (max 1 (7 - ob_attempts x)) else 0)"

text \<open>The rows of a destination that a batch takes before or with the given one, and the attempts they have left.\<close>

definition upTo :: "string \<Rightarrow> outbox_event \<Rightarrow> db \<Rightarrow> outbox_event list" where
  "upTo name x d = filter (\<lambda>y. \<not> olderEvent x y) (rowsFor name d)"

definition effort :: "string \<Rightarrow> outbox_event \<Rightarrow> db \<Rightarrow> nat" where
  "effort name x d = sum_list (map credit (upTo name x d))"

lemma upTo_map:
  assumes "rowsFor name d' = map g (rowsFor name d)" "\<And>x. ob_id (g x) = ob_id x" "\<And>x. ob_created_at (g x) = ob_created_at x"
  shows "upTo name x d' = map g (upTo name x d)"
proof -
  have "olderEvent x (g y) = olderEvent x y" for y by (simp add: olderEvent_def assms(2,3))
  then show ?thesis by (simp add: upTo_def assms(1) filter_map comp_def)
qed

lemma credit_refused:
  assumes "acquirable now name y"
  shows "credit (failedRow t code summary perm (ob_attempts y + 1) z) < credit y"
  using assms by (auto simp: credit_def live_def waiting_def acquirable_def)

lemma sum_list_less:
  fixes f :: "'a \<Rightarrow> nat"
  assumes "\<And>y. y \<in> set l \<Longrightarrow> f y \<le> g y" "z \<in> set l" "f z < g z"
  shows "sum_list (map f l) < sum_list (map g l)"
proof -
  from assms(2) obtain a b where l: "l = a @ z # b" by (auto dest: split_list)
  have "sum_list (map f a) \<le> sum_list (map g a)" "sum_list (map f b) \<le> sum_list (map g b)"
    using assms(1) by (auto simp: l intro!: sum_list_mono)
  with assms(3) show ?thesis by (simp add: l)
qed

lemma in_batch:
  assumes "keyed ob_id (outbox_events d)" "y \<in> set (rowsFor name d)" "ob_id y \<in> oe_id ` set (batchOf now name n d)"
  shows "acquirable now name y"
proof -
  from assms(3) obtain e where e: "ob_id y = oe_id e" "e \<in> set (batchOf now name n d)" by (rule imageE)
  from batch_rows [OF e(2)] obtain z where z: "z \<in> set (outbox_events d)" "oe_id e = ob_id z" "acquirable now name z" by blast
  with e(1) assms(1,2) have "z = y" by (auto simp: keyed_def rowsFor_def distinct_map dest: inj_onD)
  with z(3) show ?thesis by simp
qed

lemma first_in_batch:
  assumes "y \<in> set (rowsFor name d)" "acquirable now name y" "0 < n"
  shows "\<exists>z \<in> set (rowsFor name d). \<not> olderEvent y z \<and> ob_id z \<in> oe_id ` set (batchOf now name n d)"
proof -
  let ?L = "orderBy olderEvent (filter (acquirable now name) (outbox_events d))"
  have y: "y \<in> set ?L" using assms(1,2) by (simp add: rowsFor_def)
  then obtain z zs where L: "?L = z # zs" by (cases ?L) auto
  have "z \<in> set ?L" by (simp add: L)
  then have z: "z \<in> set (rowsFor name d)" by (auto simp: rowsFor_def acquirable_def)
  have "sorted_wrt (\<lambda>a b. \<not> olderEvent b a) (z # zs)" using oldest.orderBy_sorted [of "filter (acquirable now name) (outbox_events d)"] by (simp add: L)
  with y have "\<not> olderEvent y z" using oldest.asym [of y y] by (auto simp: L)
  moreover have "ob_id z \<in> oe_id ` set (batchOf now name n d)" using assms(3) by (cases n) (auto simp: batchOf_def L eventOf_def)
  ultimately show ?thesis using z by blast
qed

lemma effort_refused:
  fixes now name n d
  defines "ids \<equiv> oe_id ` set (batchOf now name n d)"
  assumes k: "keyed ob_id (outbox_events d)" and rows: "rowsFor name d' = map (refusedRow st now code summary perm ids) (rowsFor name d)"
  shows "effort name x d' \<le> effort name x d"
    "y \<in> set (rowsFor name d) \<Longrightarrow> ob_id y = ob_id x \<Longrightarrow> ob_created_at y = ob_created_at x \<Longrightarrow> acquirable now name y \<Longrightarrow> 0 < n \<Longrightarrow>
       effort name x d' < effort name x d"
proof -
  let ?g = "refusedRow st now code summary perm ids"
  have upTo: "upTo name x d' = map ?g (upTo name x d)" by (rule upTo_map [OF rows]) simp_all
  have less: "credit (?g y) < credit y" if "y \<in> set (rowsFor name d)" "ob_id y \<in> ids" for y
    using credit_refused [OF in_batch [OF k that [unfolded ids_def]]] that(2) by (simp add: refusedRow_def)
  have le: "credit (?g y) \<le> credit y" if "y \<in> set (upTo name x d)" for y
    using less [of y] that by (cases "ob_id y \<in> ids") (auto simp: upTo_def refusedRow_def)
  show "effort name x d' \<le> effort name x d" unfolding effort_def upTo using le by (auto simp: comp_def intro: sum_list_mono)
  assume y: "y \<in> set (rowsFor name d)" "ob_id y = ob_id x" "ob_created_at y = ob_created_at x" "acquirable now name y" "0 < n"
  from first_in_batch [OF y(1,4,5)] obtain z where z: "z \<in> set (rowsFor name d)" "\<not> olderEvent y z" "ob_id z \<in> ids" unfolding ids_def by blast
  then have "z \<in> set (upTo name x d)" using y(2,3) by (simp add: upTo_def olderEvent_def)
  from sum_list_less [where f = "\<lambda>y. credit (?g y)" and g = credit, OF le this less [OF z(1,3)]] show "effort name x d' < effort name x d" unfolding effort_def upTo by (simp add: comp_def)
qed

section \<open>Failures end in a dead letter\<close>

text \<open>What the rest of the service may do to the outbox meanwhile: the rows up to the given one stay, and waiting rows have no lock.\<close>

definition outboxKeeps :: "string \<Rightarrow> outbox_event \<Rightarrow> db \<Rightarrow> db \<Rightarrow> bool" where
  "outboxKeeps name x d d' \<longleftrightarrow> unlocked name d' \<and> upTo name x d' = upTo name x d"

text \<open>The event is due in a pass.\<close>

definition dueIn :: "int \<Rightarrow> string \<Rightarrow> outbox_event \<Rightarrow> db \<Rightarrow> bool" where
  "dueIn now name x d \<longleftrightarrow> list_ex (\<lambda>y. ob_id y = ob_id x \<and> acquirable now name y) (outbox_events d)"

text \<open>
  Passes up to a time over a destination that always refuses, and how many of them found the event due. Each pass has its worker, its
  batch size and its destinations; the destinations before the refusing one end without an error and without the stop signal. Between
  passes, events are acquired and never written back (a worker that died, or that the licence stopped after it had acquired), and the rest of the service runs.
\<close>

inductive refused_run :: "Destination \<Rightarrow> outbox_event \<Rightarrow> int \<Rightarrow> nat \<Rightarrow> db \<Rightarrow> db \<Rightarrow> bool" for dst x t where
  start: "refused_run dst x t 0 d d"
| pass: "\<lbrakk>refused_run dst x t k d d1; de_now w \<le> t; ds_name dst \<notin> ds_name ` set (pre @ post);
    RunOnce w st n pre tk d1 = (None, tk1, d2); \<forall>j < length pre. \<not> de_stop w j; refusesAt w (length pre) dst\<rbrakk> \<Longrightarrow>
    refused_run dst x t (if dueIn (de_now w) (ds_name dst) x d1 then Suc k else k) d (snd (snd (RunOnce w st n (pre @ dst # post) tk d1)))"
| abandoned: "\<lbrakk>refused_run dst x t k d d1; now \<le> t; Lease st \<le> 21600000; Acquire st now (ds_name dst) n d1 = Inr (es, d2)\<rbrakk> \<Longrightarrow>
    refused_run dst x t k d d2"
| rest: "\<lbrakk>refused_run dst x t k d d1; outboxKeeps (ds_name dst) x d1 d2\<rbrakk> \<Longrightarrow> refused_run dst x t k d d2"

text \<open>The event is a dead letter, or it will be due.\<close>

definition dueBy :: "int \<Rightarrow> outbox_event \<Rightarrow> bool" where
  "dueBy t y \<longleftrightarrow> (waiting y \<and> ob_available_at y \<le> t) \<or> (ob_status y = OB_PROCESSING \<and> (\<exists>u. ob_locked_until y = Some u \<and> u \<le> t))"

definition onItsWay :: "int \<Rightarrow> string \<Rightarrow> outbox_event \<Rightarrow> db \<Rightarrow> outbox_event \<Rightarrow> bool" where
  "onItsWay t name x d y \<longleftrightarrow> y \<in> set (rowsFor name d) \<and> ob_id y = ob_id x \<and> ob_created_at y = ob_created_at x \<and>
     (if ob_status y = OB_DEAD_LETTER then ob_attempts y \<le> 7 else ob_attempts y < 7 \<and> dueBy (t + 21600000) y)"

lemma onItsWay_refused:
  assumes "onItsWay t name x d y" "now \<le> t" "keyed ob_id (outbox_events d)"
    "rowsFor name d' = map (refusedRow st now code summary perm (oe_id ` set (batchOf now name n d))) (rowsFor name d)"
  shows "onItsWay t name x d' (refusedRow st now code summary perm (oe_id ` set (batchOf now name n d)) y)"
proof -
  let ?ids = "oe_id ` set (batchOf now name n d)"
  have y: "y \<in> set (rowsFor name d)" using assms(1) by (simp add: onItsWay_def)
  then have m: "refusedRow st now code summary perm ?ids y \<in> set (rowsFor name d')" by (simp add: assms(4))
  show ?thesis
  proof (cases "ob_id y \<in> ?ids")
    case True
    from in_batch [OF assms(3) y True] have "ob_status y \<noteq> OB_DEAD_LETTER" by (auto simp: acquirable_def)
    with assms(1) have "ob_attempts y < 7" by (simp add: onItsWay_def)
    moreover have "ob_created_at (failedRow now code summary perm (ob_attempts y + 1) (locked st now y)) = ob_created_at y"
      by (simp add: failedRow_def locked_def Let_def)
    ultimately show ?thesis using True assms(1,2) m backoff_bounds [of "ob_attempts y + 1"]
      by (auto simp: onItsWay_def dueBy_def waiting_def refusedRow_def)
  next
    case False
    then have "refusedRow st now code summary perm ?ids y = y" by (simp add: refusedRow_def)
    with m assms(1) show ?thesis by (simp add: onItsWay_def)
  qed
qed

lemma dueIn_iff:
  assumes "keyed ob_id (outbox_events d)" "onItsWay t name x d y"
  shows "dueIn now name x d \<longleftrightarrow> acquirable now name y"
proof -
  have "z = y" if "z \<in> set (outbox_events d)" "ob_id z = ob_id x" for z
    using assms that by (intro inj_onD [of ob_id "set (outbox_events d)"]) (auto simp: onItsWay_def keyed_def rowsFor_def distinct_map)
  with assms(2) show ?thesis by (auto simp: dueIn_def list_ex_iff onItsWay_def rowsFor_def)
qed

lemma unlocked_refused:
  assumes "unlocked name d" "keyed ob_id (outbox_events d')" "rowsFor name d' = map (refusedRow st now code summary perm ids) (rowsFor name d)"
  shows "unlocked name d'"
  using assms by (auto simp: unlocked_def refusedRow_def)

lemma refused_pass:
  assumes u: "unlocked name d" and name: "name = ds_name dst" "name \<noteq> ''PLATFORM_NOTIFICATION''" "name \<notin> ds_name ` set (pre @ post)"
    and pre: "RunOnce w st n pre tk d = (None, tk1, d1)" "\<forall>j < length pre. \<not> de_stop w j" and r: "refusesAt w (length pre) dst"
  shows "\<exists>code summary perm. rowsFor name (snd (snd (RunOnce w st n (pre @ dst # post) tk d))) =
       map (refusedRow st (de_now w) code summary perm (oe_id ` set (batchOf (de_now w) name (batchSize n) d))) (rowsFor name d) \<and>
     unlocked name (snd (snd (RunOnce w st n (pre @ dst # post) tk d)))"
proof -
  from name(3) have parts: "name \<notin> ds_name ` set pre" "name \<notin> ds_name ` set post" by auto
  have run: "RunOnce w st n (pre @ dst # post) tk d = runFrom w st (batchSize n) (length pre) (dst # post) tk1 d1"
    using runFrom_append [of w st "batchSize n" 0 pre tk d tk1 d1] pre unfolding RunOnce_def by simp
  have "keyed ob_id (outbox_events d1) \<and> rowsFor name d1 = rowsFor name d"
    using runFrom_elsewhere [of d name pre w st "batchSize n" 0 tk] u parts(1) pre(1) by (simp add: RunOnce_def unlocked_def)
  with u have u1: "unlocked name d1" and same: "rowsFor name d1 = rowsFor name d" by (simp_all add: unlocked_def)
  from refused_batch [OF r u1 name(1,2) parts(2), of st "batchSize n" tk1] unlocked_refused [OF u] show ?thesis
    unfolding run batchOf_rowsFor same by blast
qed

lemma onItsWay_locked:
  assumes "onItsWay t name x d y" "now \<le> t" "Lease st \<le> 21600000" "keyed ob_id (outbox_events d)"
    "Acquire st now name n d = Inr (es, d')"
  shows "\<exists>y'. onItsWay t name x d' y' \<and> (ob_status y = OB_DEAD_LETTER \<longrightarrow> ob_status y' = OB_DEAD_LETTER)" "effort name x d' = effort name x d"
    "unlocked name d \<Longrightarrow> unlocked name d'"
proof -
  let ?g = "\<lambda>z. if ob_id z \<in> oe_id ` set es then locked st now z else z"
  note rows = Acquire_rows [OF assms(4,5), unfolded lockIds_def]
  have R: "rowsFor name d' = map ?g (rowsFor name d)" by (rule rowsFor_map [OF rows(2)]) simp
  have c: "ob_created_at (locked st now z) = ob_created_at z" "ob_locked_until (locked st now z) = Some (now + Lease st)" for z by (simp_all add: locked_def)
  have acq: "acquirable now name z" if "z \<in> set (rowsFor name d)" "ob_id z \<in> oe_id ` set es" for z
    using in_batch [OF assms(4) that(1), of now n] that(2) rows(1) by simp
  have y: "y \<in> set (rowsFor name d)" using assms(1) by (simp add: onItsWay_def)
  then have m: "?g y \<in> set (rowsFor name d')" unfolding R set_map by (rule imageI)
  show "\<exists>y'. onItsWay t name x d' y' \<and> (ob_status y = OB_DEAD_LETTER \<longrightarrow> ob_status y' = OB_DEAD_LETTER)"
  proof (intro exI conjI)
    show "onItsWay t name x d' (?g y)"
      using m assms(1-3) acq [OF y] by (auto simp: onItsWay_def c dueBy_def acquirable_def)
    show "ob_status y = OB_DEAD_LETTER \<longrightarrow> ob_status (?g y) = OB_DEAD_LETTER"
      using acq [OF y] by (auto simp: acquirable_def)
  qed
  have "upTo name x d' = map ?g (upTo name x d)" by (rule upTo_map [OF R]) (simp_all add: c)
  moreover have "credit (?g z) = credit z" if "z \<in> set (upTo name x d)" for z
    using acq [of z] that by (auto simp: upTo_def credit_def live_def waiting_def acquirable_def)
  ultimately show "effort name x d' = effort name x d" by (simp add: effort_def comp_def cong: map_cong)
  show "unlocked name d'" if "unlocked name d"
  proof -
    have "keyed ob_id (outbox_events d')" using assms(4) Acquire_rows(2) [OF assms(4,5)] by simp
    with that show ?thesis by (auto simp: unlocked_def R waiting_def)
  qed
qed

text \<open>What holds along a run: the event is a dead letter, or the passes that found it due have used up that much of the effort.\<close>

definition pursued :: "int \<Rightarrow> string \<Rightarrow> outbox_event \<Rightarrow> nat \<Rightarrow> nat \<Rightarrow> db \<Rightarrow> bool" where
  "pursued t name x m k d \<longleftrightarrow> unlocked name d \<and>
     (\<exists>y. onItsWay t name x d y \<and> (ob_status y = OB_DEAD_LETTER \<or> effort name x d + k \<le> m))"

lemma pursuedE:
  assumes "pursued t name x m k d"
  obtains y where "unlocked name d" "keyed ob_id (outbox_events d)" "onItsWay t name x d y"
    "ob_status y = OB_DEAD_LETTER \<or> effort name x d + k \<le> m"
  using assms by (auto simp: pursued_def unlocked_def)

lemma pursued_pass:
  assumes p: "pursued t (ds_name dst) x m k d" and now: "de_now w \<le> t" and other: "ds_name dst \<noteq> ''PLATFORM_NOTIFICATION''"
    and pass: "ds_name dst \<notin> ds_name ` set (pre @ post)" "RunOnce w st n pre tk d = (None, tk1, d1)" "\<forall>j < length pre. \<not> de_stop w j"
      "refusesAt w (length pre) dst"
  shows "pursued t (ds_name dst) x m (if dueIn (de_now w) (ds_name dst) x d then Suc k else k)
     (snd (snd (RunOnce w st n (pre @ dst # post) tk d)))" (is "pursued t ?name x m ?k ?d'")
proof -
  from p obtain y where u: "unlocked ?name d" and k: "keyed ob_id (outbox_events d)" and y: "onItsWay t ?name x d y"
    "ob_status y = OB_DEAD_LETTER \<or> effort ?name x d + k \<le> m" by (rule pursuedE)
  let ?ids = "oe_id ` set (batchOf (de_now w) ?name (batchSize n) d)"
  from refused_pass [OF u refl other pass] obtain code summary perm where
    rows: "rowsFor ?name ?d' = map (refusedRow st (de_now w) code summary perm ?ids) (rowsFor ?name d)" and u': "unlocked ?name ?d'" by blast
  let ?y = "refusedRow st (de_now w) code summary perm ?ids y"
  have size: "0 < batchSize n" by (auto simp: batchSize_def)
  have in_y: "y \<in> set (rowsFor ?name d)" "ob_id y = ob_id x" "ob_created_at y = ob_created_at x" using y(1) by (simp_all add: onItsWay_def)
  note less = effort_refused [OF k rows]
  have "ob_status ?y = OB_DEAD_LETTER \<or> effort ?name x ?d' + ?k \<le> m"
  proof (cases "ob_status y = OB_DEAD_LETTER")
    case True
    then have "ob_id y \<notin> ?ids" using in_batch [OF k in_y(1)] by (auto simp: acquirable_def)
    with True show ?thesis by (simp add: refusedRow_def)
  next
    case False
    then show ?thesis using y(2) less(1) [of x] less(2) [OF in_y _ size] dueIn_iff [OF k y(1), of "de_now w"]
      by (cases "dueIn (de_now w) ?name x d") fastforce+
  qed
  with u' onItsWay_refused [OF y(1) now k rows] show ?thesis unfolding pursued_def by blast
qed

lemma pursued_abandoned:
  assumes p: "pursued t name x m k d" and a: "now \<le> t" "Lease st \<le> 21600000" "Acquire st now name n d = Inr (es, d')"
  shows "pursued t name x m k d'"
proof -
  from p obtain y where u: "unlocked name d" and k: "keyed ob_id (outbox_events d)" and y: "onItsWay t name x d y"
    "ob_status y = OB_DEAD_LETTER \<or> effort name x d + k \<le> m" by (rule pursuedE)
  note l = onItsWay_locked [OF y(1) a(1,2) k a(3)]
  from l(1) obtain y' where "onItsWay t name x d' y'" "ob_status y = OB_DEAD_LETTER \<longrightarrow> ob_status y' = OB_DEAD_LETTER" by blast
  with l(2) l(3) [OF u] y(2) show ?thesis by (auto simp: pursued_def)
qed

lemma pursued_rest:
  assumes p: "pursued t name x m k d" and keeps: "outboxKeeps name x d d'"
  shows "pursued t name x m k d'"
proof -
  from p obtain y where y: "onItsWay t name x d y" "ob_status y = OB_DEAD_LETTER \<or> effort name x d + k \<le> m" by (rule pursuedE)
  from y(1) have "y \<in> set (upTo name x d)" using oldest.asym [of x x] by (auto simp: onItsWay_def upTo_def olderEvent_def)
  then have "y \<in> set (upTo name x d')" using keeps by (simp add: outboxKeeps_def)
  then have "onItsWay t name x d' y" using y(1) by (simp add: onItsWay_def upTo_def)
  moreover have "effort name x d' = effort name x d" "unlocked name d'" using keeps by (simp_all add: outboxKeeps_def effort_def)
  ultimately show ?thesis using y(2) by (auto simp: pursued_def)
qed

lemma refused_run_invariant:
  assumes "refused_run dst x t k d d'" "unlocked (ds_name dst) d" "onItsWay t (ds_name dst) x d x" "ds_name dst \<noteq> ''PLATFORM_NOTIFICATION''"
  shows "pursued t (ds_name dst) x (effort (ds_name dst) x d) k d'"
  using assms
proof (induction rule: refused_run.induct)
  case (start d)
  then show ?case by (auto simp: pursued_def)
next
  case (pass k d d1 w pre post st n tk tk1 d2)
  show ?case by (rule pursued_pass [OF pass.IH [OF pass.prems] pass.hyps(2) pass.prems(3) pass.hyps(3-6)])
next
  case (abandoned k d d1 now st n es d2)
  show ?case by (rule pursued_abandoned [OF abandoned.IH [OF abandoned.prems] abandoned.hyps(2-4)])
next
  case (rest k d d1 d2)
  show ?case by (rule pursued_rest [OF rest.IH [OF rest.prems] rest.hyps(2)])
qed

text \<open>C20: an event that cannot be delivered ends as a dead letter. Workers make passes over any destinations with batches of any size,
  and the receiving service of one destination never answers with success. Then an event of that destination that waits is tried at most seven
  times, and it is a dead letter as soon as the number of passes that found it due reaches the attempts left to it and to the older live
  events of its destination. Until then it does not get stuck: it is due again at every time more than six hours after the last pass, also
  when workers died with their leases (of at most six hours). Events for the notification service are left out, since the gate for stale reminders may end them earlier or stop the pass.\<close>

theorem dead_letter_reached:
  assumes "refused_run dst x t k d d'" "unlocked (ds_name dst) d" "ds_name dst \<noteq> ''PLATFORM_NOTIFICATION''"
    "x \<in> set (outbox_events d)" "ob_destination x = ds_name dst" "waiting x" "ob_attempts x < 7" "ob_available_at x \<le> t + 21600000"
  shows "\<exists>y \<in> set (outbox_events d'). ob_id y = ob_id x \<and> ob_attempts y \<le> 7 \<and>
    (ob_status y = OB_DEAD_LETTER \<or> (k < effort (ds_name dst) x d \<and> (\<forall>now > t + 21600000. acquirable now (ds_name dst) y)))"
proof -
  have "onItsWay t (ds_name dst) x d x" using assms(4-8) by (auto simp: onItsWay_def rowsFor_def dueBy_def waiting_def)
  from refused_run_invariant [OF assms(1,2) this assms(3)] obtain y where y: "onItsWay t (ds_name dst) x d' y"
    "ob_status y = OB_DEAD_LETTER \<or> effort (ds_name dst) x d' + k \<le> effort (ds_name dst) x d" by (rule pursuedE)
  show ?thesis
  proof (intro bexI [of _ y] conjI)
    show "y \<in> set (outbox_events d')" "ob_id y = ob_id x" "ob_attempts y \<le> 7" using y(1) by (auto simp: onItsWay_def rowsFor_def split: if_splits)
    show "ob_status y = OB_DEAD_LETTER \<or> (k < effort (ds_name dst) x d \<and> (\<forall>now > t + 21600000. acquirable now (ds_name dst) y))"
    proof (cases "ob_status y = OB_DEAD_LETTER")
      case False
      then have soon: "dueBy (t + 21600000) y" "ob_destination y = ds_name dst" using y(1) by (auto simp: onItsWay_def rowsFor_def)
      have m: "y \<in> set (upTo (ds_name dst) x d')" using y(1) oldest.asym [of x x] by (auto simp: onItsWay_def upTo_def olderEvent_def)
      have "0 < credit y" using soon(1) by (auto simp: credit_def live_def dueBy_def)
      with m have "0 < effort (ds_name dst) x d'" using member_le_sum_list [of "credit y" "map credit (upTo (ds_name dst) x d')"] by (simp add: effort_def)
      moreover have "acquirable now (ds_name dst) y" if "t + 21600000 < now" for now
        using that soon by (auto simp: acquirable_def dueBy_def waiting_def lockExpired_def)
      ultimately show ?thesis using y(2) False by auto
    qed simp
  qed
qed

lemma refused_run_later: "refused_run dst x t k d d' \<Longrightarrow> t \<le> t' \<Longrightarrow> refused_run dst x t' k d d'"
proof (induction rule: refused_run.induct)
  case (start d)
  show ?case by (rule refused_run.start)
next
  case (pass k d d1 w pre post st n tk tk1 d2)
  from pass.hyps(2) pass.prems have "de_now w \<le> t'" by (rule order_trans)
  then show ?case by (rule refused_run.pass [OF pass.IH [OF pass.prems] _ pass.hyps(3-6)])
next
  case (abandoned k d d1 now st n es d2)
  from abandoned.hyps(2) abandoned.prems have "now \<le> t'" by (rule order_trans)
  then show ?case by (rule refused_run.abandoned [OF abandoned.IH [OF abandoned.prems] _ abandoned.hyps(3,4)])
next
  case (rest k d d1 d2)
  show ?case by (rule refused_run.rest [OF rest.IH [OF rest.prems] rest.hyps(2)])
qed

text \<open>A service that is down.\<close>

definition sampleDestination :: Destination where
  "sampleDestination = \<lparr>ds_name = ''PLATFORM_AUDIT'', ds_endpoint = ''u'', ds_scope = ''audit.ingest'', ds_client = ''c'',
     ds_secret = ''s'', ds_token_endpoint = ''v'', ds_application = ''a'', ds_environment = ''e''\<rparr>"

definition sampleDown :: "int \<Rightarrow> delivery_env" where
  "sampleDown now = \<lparr>de_now = now, de_stop = (\<lambda>_. False), de_license = (\<lambda>_ _. True),
     de_token = (\<lambda>_. Reply 200 (Some (JObj [(''access_token'', JStr ''t''), (''token_type'', JStr ''Bearer''),
       (''expires_in'', JInt 300), (''scope'', JStr ''audit.ingest'')]))), de_http = (\<lambda>_ _. Reply 503 None)\<rparr>"

lemma sample_pass:
  assumes "refused_run sampleDestination x t k d d'" "t \<le> now" "dueIn now ''PLATFORM_AUDIT'' x d'"
  shows "\<exists>d2. refused_run sampleDestination x now (Suc k) d d2"
proof -
  have name: "ds_name sampleDestination = ''PLATFORM_AUDIT''" by (simp add: sampleDestination_def)
  have "refusesAt (sampleDown now) (length []) sampleDestination" by (simp add: refusesAt_def sampleDown_def)
  moreover have "RunOnce (sampleDown now) (sampleWorker ''w1'') 1 [] [] d' = (None, [], d')" by (simp add: RunOnce_def)
  ultimately have "\<exists>d2. refused_run sampleDestination x now (if dueIn (de_now (sampleDown now)) (ds_name sampleDestination) x d' then Suc k else k) d d2"
    using refused_run_later [OF assms(1,2)] by (intro exI) (rule refused_run.pass [where pre = "[]" and post = "[]"], simp_all add: sampleDown_def)
  then show ?thesis using assms(3) name by (simp add: sampleDown_def)
qed

text \<open>Two events wait and a batch takes one of them: the younger one is a dead letter after at most fourteen passes that found it due.\<close>

definition sampleSecond :: outbox_event where
  "sampleSecond = sampleEvent\<lparr>ob_id := ''p1'', ob_event := ''e10'', ob_created_at := 5\<rparr>"

theorem dead_letter_reached_witness:
  "\<exists>k d'. 0 < k \<and> refused_run sampleDestination sampleSecond (14 * 21600001) k (sampleOutbox [sampleEvent, sampleSecond]) d' \<and>
     (\<exists>y \<in> set (outbox_events d'). ob_id y = ''p1'' \<and> ob_status y = OB_DEAD_LETTER)"
proof -
  let ?d = "sampleOutbox [sampleEvent, sampleSecond]" and ?name = "''PLATFORM_AUDIT''"
  let ?run = "\<lambda>j. refused_run sampleDestination sampleSecond (int j * 21600001)"
  have name: "ds_name sampleDestination = ?name" by (simp add: sampleDestination_def)
  have effort: "effort ?name sampleSecond ?d = 14"
    by (simp add: effort_def upTo_def rowsFor_def olderEvent_def sampleSecond_def sampleEvent_def credit_def live_def waiting_def)
  have reached: "\<exists>y \<in> set (outbox_events d'). ob_id y = ob_id sampleSecond \<and> ob_attempts y \<le> 7 \<and>
    (ob_status y = OB_DEAD_LETTER \<or> (k < 14 \<and> (\<forall>now > int j * 21600001 + 21600000. acquirable now ?name y)))" if "?run j k ?d d'" for j k d'
    unfolding effort [symmetric] name [symmetric]
    by (rule dead_letter_reached [OF that])
      (simp_all add: name, simp_all add: unlocked_def keyed_def rowsFor_def waiting_def sampleSecond_def sampleEvent_def)
  define dead where "dead d' \<longleftrightarrow> (\<exists>y \<in> set (outbox_events d'). ob_id y = ''p1'' \<and> ob_status y = OB_DEAD_LETTER)" for d' :: db
  have id: "ob_id sampleSecond = ''p1''" by (simp add: sampleSecond_def)
  have first: "\<exists>d'. ?run 1 1 ?d d'"
    using sample_pass [OF refused_run.start [of sampleDestination sampleSecond 0 ?d], of 21600001]
    by (simp add: dueIn_def acquirable_def sampleSecond_def sampleEvent_def)
  have "\<exists>k d'. 0 < k \<and> ?run (Suc j) k ?d d' \<and> (k = Suc j \<or> dead d')" for j
  proof (induction j)
    case 0
    from first show ?case by auto
  next
    case (Suc j)
    then obtain k d' where r: "0 < k" "?run (Suc j) k ?d d'" "k = Suc j \<or> dead d'" by blast
    show ?case
    proof (cases "dead d'")
      case True
      with r(1) refused_run_later [OF r(2), of "int (Suc (Suc j)) * 21600001"] show ?thesis by auto
    next
      case False
      with reached [OF r(2)] id have "dueIn (int (Suc (Suc j)) * 21600001) ?name sampleSecond d'"
        by (auto simp: dead_def dueIn_def list_ex_iff algebra_simps)
      from sample_pass [OF r(2) _ this] False r(3) show ?thesis by auto
    qed
  qed
  from this [of 13] obtain k d' where r: "0 < k" "?run 14 k ?d d'" "k = 14 \<or> dead d'" by auto
  with reached [OF r(2)] id have "dead d'" by (auto simp: dead_def)
  with r show ?thesis by (auto simp: dead_def)
qed

end
