(* ===== verification/DeadLetterProps.thy ===== *)
theory DeadLetterProps
  imports Refusals
begin

text \<open>
  Properties of the two gates on outbox events: reminders that an import has overtaken, and tax
  commands that are brought back from the dead letters.
\<close>

section \<open>Stale reminders\<close>

lemma stillReleased_cancel [simp]: "stillReleased (cancelStale st e d) = stillReleased d"
proof -
  have "referenceState (cancelStale st e d) = referenceState d"
    by (simp add: fun_eq_iff referenceState_def releaseOf_def cancelStale_def updateEvents_def split: option.splits)
  then show ?thesis unfolding stillReleased_def [abs_def] by (rule arg_cong)
qed

text \<open>
  What a reminder rests on, read off the tables: its contract is released, and the number of its release is the one in the payload (zero
  for a contract that no import brought).
\<close>

definition releasedAs :: "db \<Rightarrow> string \<Rightarrow> string \<Rightarrow> nat \<Rightarrow> bool" where
  "releasedAs d tenant sn version \<longleftrightarrow>
     (\<exists>cs \<in> set (snapshots d). cs_id cs = sn \<and> cs_tenant cs = tenant \<and> cs_migration cs = RELEASED) \<and>
     (let imports = {ci \<in> set (contract_imports d). ci_tenant ci = tenant \<and> ci_snapshot ci = sn} in
      if imports = {} then version = 0 else version \<in> ci_release ` imports)"

definition remindable :: "db \<Rightarrow> Event \<Rightarrow> bool" where
  "remindable d e \<longleftrightarrow> (\<exists>ref version. stringField (oe_payload e) ''reference_id'' = Some ref \<and> versionField (oe_payload e) = Some version \<and>
     (stringField (oe_payload e) ''reference_type'' = Some ''RECEIVABLE'' \<and>
        (\<exists>v \<in> set (receivables d). rv_tenant v = oe_tenant e \<and> rv_id v = ref \<and> releasedAs d (oe_tenant e) (rv_snapshot v) version) \<or>
      stringField (oe_payload e) ''reference_type'' = Some ''RECEIVABLE_PLAN'' \<and>
        (\<exists>r \<in> set (plans d). rp_tenant r = oe_tenant e \<and> rp_id r = ref \<and> releasedAs d (oe_tenant e) (rp_snapshot r) version)))"

text \<open>The keys of the tables that are read.\<close>

definition keyedBooks :: "db \<Rightarrow> bool" where
  "keyedBooks d \<longleftrightarrow> keyed rv_id (receivables d) \<and> keyed rp_id (plans d) \<and> keyed cs_id (snapshots d) \<and>
     keyed (\<lambda>ci. (ci_tenant ci, ci_snapshot ci)) (contract_imports d)"

lemma keyed_unique: "keyed key t \<Longrightarrow> r \<in> set t \<Longrightarrow> r' \<in> set t \<Longrightarrow> key r = key r' \<Longrightarrow> r = r'"
  by (auto simp: keyed_def distinct_map inj_on_def)

lemma find_in: "find P l = Some r \<Longrightarrow> r \<in> set l \<and> P r"
  by (auto simp: find_Some_iff)

lemma releaseOf_iff:
  assumes "keyedBooks d" "releaseOf d tenant sn = Some (state, release)"
  shows "releasedAs d tenant sn version \<longleftrightarrow> state = RELEASED \<and> release = version"
proof -
  from assms(2) obtain cs where cs: "find (\<lambda>cs. cs_id cs = sn \<and> cs_tenant cs = tenant) (snapshots d) = Some cs" "state = cs_migration cs"
    "release = (case find (\<lambda>ci. ci_snapshot ci = cs_id cs \<and> ci_tenant ci = cs_tenant cs) (contract_imports d) of None \<Rightarrow> 0 | Some ci \<Rightarrow> ci_release ci)"
    by (auto simp: releaseOf_def split: option.splits)
  note row = find_in [OF cs(1)]
  have only: "cs' = cs" if "cs' \<in> set (snapshots d)" "cs_id cs' = sn" for cs'
    using keyed_unique [of cs_id "snapshots d" cs' cs] assms(1) row that by (simp add: keyedBooks_def)
  have snap: "(\<exists>cs \<in> set (snapshots d). cs_id cs = sn \<and> cs_tenant cs = tenant \<and> cs_migration cs = RELEASED) \<longleftrightarrow> state = RELEASED"
    using row by (auto simp: cs(2) dest: only)
  let ?own = "{ci \<in> set (contract_imports d). ci_tenant ci = tenant \<and> ci_snapshot ci = sn}"
  show ?thesis
  proof (cases "find (\<lambda>ci. ci_snapshot ci = cs_id cs \<and> ci_tenant ci = cs_tenant cs) (contract_imports d)")
    case None
    then have "?own = {}" using row by (auto simp: find_None_iff)
    then show ?thesis using snap cs(3) None by (auto simp: releasedAs_def)
  next
    case (Some ci)
    note c = find_in [OF Some]
    have "ci' = ci" if "ci' \<in> ?own" for ci'
      using keyed_unique [of "\<lambda>ci. (ci_tenant ci, ci_snapshot ci)" "contract_imports d" ci' ci] assms(1) row c that by (simp add: keyedBooks_def)
    then have "?own = {ci}" using c row by blast
    then show ?thesis using snap cs(3) Some by (auto simp: releasedAs_def)
  qed
qed

lemma stillReleased_iff:
  assumes k: "keyedBooks d" and s: "stillReleased d e = Inr b"
  shows "b \<longleftrightarrow> remindable d e"
proof -
  from s obtain kind ref version where f: "stringField (oe_payload e) ''reference_type'' = Some kind"
    "stringField (oe_payload e) ''reference_id'' = Some ref" "versionField (oe_payload e) = Some version"
    "kind = ''RECEIVABLE_PLAN'' \<or> kind = ''RECEIVABLE''"
    by (auto simp: stillReleased_def split: option.splits if_splits)
  then obtain state release where st: "referenceState d (oe_tenant e) (kind = ''RECEIVABLE_PLAN'') ref = Some (state, release)"
    using s by (cases "referenceState d (oe_tenant e) (kind = ''RECEIVABLE_PLAN'') ref") (auto simp: stillReleased_def split: if_splits)
  with s f have b: "b \<longleftrightarrow> state = RELEASED \<and> release = version" by (auto simp: stillReleased_def split: if_splits)
  show ?thesis
  proof (cases "kind = ''RECEIVABLE_PLAN''")
    case True
    with st obtain r where r: "find (\<lambda>r. rp_tenant r = oe_tenant e \<and> rp_id r = ref) (plans d) = Some r"
      "releaseOf d (rp_tenant r) (rp_snapshot r) = Some (state, release)" by (auto simp: referenceState_def split: option.splits)
    note row = find_in [OF r(1)]
    have "r' = r" if "r' \<in> set (plans d)" "rp_id r' = ref" for r'
      using keyed_unique [of rp_id "plans d" r' r] k row that by (simp add: keyedBooks_def)
    then show ?thesis using releaseOf_iff [OF k r(2), of version] row f True by (auto simp: remindable_def b)
  next
    case False
    with st obtain r where r: "find (\<lambda>r. rv_tenant r = oe_tenant e \<and> rv_id r = ref) (receivables d) = Some r"
      "releaseOf d (rv_tenant r) (rv_snapshot r) = Some (state, release)" by (auto simp: referenceState_def split: option.splits)
    note row = find_in [OF r(1)]
    have "r' = r" if "r' \<in> set (receivables d)" "rv_id r' = ref" for r'
      using keyed_unique [of rv_id "receivables d" r' r] k row that by (simp add: keyedBooks_def)
    then show ?thesis using releaseOf_iff [OF k r(2), of version] row f False by (auto simp: remindable_def b)
  qed
qed

lemma filter_exact:
  assumes "filterImportNotifications st es d = (Inr l, d')"
  shows "l = filter (\<lambda>e. gated e \<longrightarrow> stillReleased d e = Inr True) es \<and> (\<forall>e \<in> set es. gated e \<longrightarrow> (\<exists>b. stillReleased d e = Inr b))"
  using assms
proof (induction es arbitrary: d l)
  case (Cons e es)
  consider "gated e \<longrightarrow> stillReleased d e = Inr True" | "gated e" "stillReleased d e = Inr False"
    using Cons.prems by (auto split: sum.splits bool.splits if_splits)
  then show ?case
  proof cases
    case 1
    then obtain l' where l': "filterImportNotifications st es d = (Inr l', d')" "l = e # l'"
      using Cons.prems by (auto simp: andThen_eq_Inr split: if_splits prod.splits sum.splits)
    from Cons.IH [OF l'(1)] 1 l'(2) show ?thesis by auto
  next
    case 2
    then have "filterImportNotifications st es (cancelStale st e d) = (Inr l, d')" using Cons.prems by simp
    from Cons.IH [OF this] 2 show ?thesis by auto
  qed
qed simp

lemma filter_remindable:
  assumes "keyedBooks d" "filterImportNotifications st es d = (Inr l, d')"
  shows "l = filter (\<lambda>e. gated e \<longrightarrow> remindable d e) es"
proof -
  from filter_exact [OF assms(2)] have l: "l = filter (\<lambda>e. gated e \<longrightarrow> stillReleased d e = Inr True) es"
    and b: "\<And>e. e \<in> set es \<Longrightarrow> gated e \<Longrightarrow> \<exists>b. stillReleased d e = Inr b" by auto
  have "(gated e \<longrightarrow> stillReleased d e = Inr True) = (gated e \<longrightarrow> remindable d e)" if "e \<in> set es" for e
    using b [OF that] stillReleased_iff [OF assms(1), of e] by (cases "gated e") auto
  then show ?thesis unfolding l by (rule filter_cong [OF refl])
qed

text \<open>A row of the gate's batch is given up: the worker holds it, or it is cancelled already.\<close>

definition givenUp :: "OutboxStore \<Rightarrow> string \<Rightarrow> outbox_event \<Rightarrow> bool" where
  "givenUp st i x \<longleftrightarrow> held st i x \<or> (ob_id x = i \<and> ob_status x = OB_CANCELLED \<and> ob_locked_by x = None)"

lemma cancelStale_row:
  assumes "givenUp st i x" "x \<in> set (outbox_events d)"
  shows "\<exists>y \<in> set (outbox_events (cancelStale st e d)). givenUp st i y \<and> (i = oe_id e \<or> ob_status x = OB_CANCELLED \<longrightarrow> ob_status y = OB_CANCELLED)"
proof -
  let ?f = "\<lambda>x. x\<lparr>ob_status := OB_CANCELLED, ob_error_code := ''IMPORT_HOLD_OR_STALE_RELEASE'',
    ob_error_summary := staleSummary, ob_locked_by := None, ob_locked_until := None\<rparr>"
  let ?y = "if held st (oe_id e) x then ?f x else x"
  have "outbox_events (cancelStale st e d) = map (\<lambda>x. if held st (oe_id e) x then ?f x else x) (outbox_events d)"
    by (simp add: cancelStale_def updateEvents_def update_rows_def)
  then have "?y \<in> set (outbox_events (cancelStale st e d))"
    by (simp only: set_map) (rule image_eqI [where x = x], simp_all only: assms(2))
  then show ?thesis by (rule rev_bexI) (use assms(1) in \<open>auto simp: givenUp_def held_def\<close>)
qed

lemma filter_cancels:
  assumes "filterImportNotifications st es d = (Inr l, d')" "x \<in> set (outbox_events d)" "givenUp st i x"
  shows "\<exists>y \<in> set (outbox_events d'). givenUp st i y \<and>
    (ob_status x = OB_CANCELLED \<or> (\<exists>e \<in> set es. oe_id e = i \<and> gated e \<and> stillReleased d e = Inr False) \<longrightarrow> ob_status y = OB_CANCELLED)"
  using assms
proof (induction es arbitrary: d l x)
  case (Cons e es)
  consider "gated e \<longrightarrow> stillReleased d e = Inr True" | "gated e" "stillReleased d e = Inr False"
    using Cons.prems by (auto split: sum.splits bool.splits if_splits)
  then show ?case
  proof cases
    case 1
    then obtain l' where l': "filterImportNotifications st es d = (Inr l', d')"
      using Cons.prems by (auto simp: andThen_eq_Inr split: if_splits prod.splits sum.splits)
    from Cons.IH [OF l' Cons.prems(2,3)] 1 show ?thesis by auto
  next
    case 2
    then have s: "filterImportNotifications st es (cancelStale st e d) = (Inr l, d')" using Cons.prems by simp
    from cancelStale_row [OF Cons.prems(3,2)] obtain y where y: "y \<in> set (outbox_events (cancelStale st e d))" "givenUp st i y"
      "i = oe_id e \<or> ob_status x = OB_CANCELLED \<longrightarrow> ob_status y = OB_CANCELLED" by blast
    from Cons.IH [OF s y(1,2)] y(3) show ?thesis by auto
  qed
qed auto

text \<open>A pass changes none of the tables a reminder rests on.\<close>

definition sameBooks :: "db \<Rightarrow> db \<Rightarrow> bool" where
  "sameBooks d d' \<longleftrightarrow> receivables d' = receivables d \<and> plans d' = plans d \<and> snapshots d' = snapshots d \<and> contract_imports d' = contract_imports d"

lemma sameBooks_remindable: "sameBooks d d' \<Longrightarrow> remindable d' e = remindable d e" "sameBooks d d' \<Longrightarrow> keyedBooks d' = keyedBooks d"
  by (simp_all add: sameBooks_def remindable_def releasedAs_def keyedBooks_def)

lemma sameBooks_steps [simp]: "sameBooks d d" "sameBooks d (updateEvents P f d)" "sameBooks d (acceptIssue now t a d)" "sameBooks d (acceptRedFlush now t a d)"
  by (simp_all add: sameBooks_def updateEvents_def acceptIssue_def acceptRedFlush_def updateAttempt_def set_attempts_def set_red_attempts_def)

lemma sameBooks_trans: "sameBooks d d1 \<Longrightarrow> sameBooks d1 d2 \<Longrightarrow> sameBooks d d2"
  by (simp add: sameBooks_def)

lemma sameBooks_lock: "lockEvents st now es d = Inr d' \<Longrightarrow> sameBooks d d'"
  by (induction es arbitrary: d) (auto split: if_splits intro: sameBooks_trans [OF sameBooks_steps(2)])

lemma sameBooks_failed: "failedOne st now code summary perm e d = Inr d' \<Longrightarrow> sameBooks d d'"
  by (auto simp: failedOne_def Let_def split: if_splits)

lemma sameBooks_Failed: "sameBooks d (snd (Failed st now es code summary perm d))"
  by (induction es arbitrary: d) (auto split: sum.splits dest: sameBooks_failed intro: sameBooks_trans)

lemma sameBooks_one: "deliveredOne st now e d = Inr d' \<Longrightarrow> sameBooks d d'"
  by (auto simp: deliveredOne_def Let_def split: if_splits option.splits intro: sameBooks_trans [OF _ sameBooks_steps(3)] sameBooks_trans [OF _ sameBooks_steps(4)])

lemma sameBooks_Delivered: "sameBooks d (snd (Delivered st now es d))"
  by (induction es arbitrary: d) (auto split: sum.splits dest: sameBooks_one intro: sameBooks_trans)

lemma sameBooks_filter: "filterImportNotifications st es d = (r, d') \<Longrightarrow> sameBooks d d'"
proof (induction es arbitrary: d r)
  case (Cons e es)
  have "sameBooks d (cancelStale st e d)" by (simp add: cancelStale_def)
  from sameBooks_trans [OF this] Cons show ?case by (auto split: if_splits sum.splits bool.splits prod.splits)
qed simp

lemma sameBooks_batch:
  assumes "deliverBatch w st i dst es tk d = (r, tk', d')"
  shows "sameBooks d d'"
proof -
  obtain f d1 where f: "filterImportNotifications st es d = (f, d1)" by (cases "filterImportNotifications st es d")
  note s = sameBooks_filter [OF f]
  from assms f show ?thesis
    by (cases rule: deliverBatch_cases) (use s sameBooks_trans [OF s] sameBooks_Delivered sameBooks_Failed in auto)
qed

text \<open>The identifiers of the rows that may be delivered.\<close>

definition sendable :: "db \<Rightarrow> db \<Rightarrow> string set" where
  "sendable b d = ob_id ` {x \<in> set (outbox_events d). gated (eventOf x) \<longrightarrow> remindable b (eventOf x)}"

lemma sendable_content:
  assumes "content y = content x"
  shows "gated (eventOf y) = gated (eventOf x)" "remindable b (eventOf y) = remindable b (eventOf x)" "ob_id y = ob_id x"
  using assms by (simp_all add: content_def gated_def remindable_def eventOf_def)

lemma sendable_touches:
  assumes "touches ids d d'"
  shows "sendable b d' = sendable b d"
proof -
  let ?F = "\<lambda>x. (ob_id x, gated (eventOf x) \<longrightarrow> remindable b (eventOf x))"
  have same: "?F y = ?F x" if "sameRow ids x y" for x y
    using sendable_content(1,3) [of y x] sendable_content(2) [of y x b] that by (simp add: sameRow_def)
  have maps: "map ?F (outbox_events d') = map ?F (outbox_events d)"
    using assms unfolding touches_def
  proof (induction rule: list_all2_induct)
    case (Cons x xs y ys)
    from same [OF Cons.hyps(1)] Cons.IH show ?case by (simp only: list.map)
  qed simp
  have "?F ` set (outbox_events d') = ?F ` set (outbox_events d)" unfolding set_map [symmetric] maps ..
  moreover have "sendable b a = {i. (i, True) \<in> ?F ` set (outbox_events a)}" for a by (auto simp: sendable_def)
  ultimately show ?thesis by simp
qed

lemma deliverBatch_sends:
  assumes "deliverBatch w st i dst es tk d = (r, tk', d')" "sameBooks b d" "keyedBooks b"
    "oe_id ` {e \<in> set es. gated e \<longrightarrow> remindable b e} \<subseteq> sendable b d"
  shows "deliveredIds d' \<subseteq> deliveredIds d \<union> sendable b d"
proof -
  obtain f d1 where f: "filterImportNotifications st es d = (f, d1)" by (cases "filterImportNotifications st es d")
  note s = filter_events [OF f]
  from assms(1) f show ?thesis
  proof (cases rule: deliverBatch_cases)
    case (2 l)
    have "set l \<subseteq> {e \<in> set es. gated e \<longrightarrow> remindable b e}"
      using filter_remindable [of d st es l d1] f 2(1) sameBooks_remindable [OF assms(2)] assms(3) by auto
    then have "oe_id ` set l \<subseteq> sendable b d" using assms(4) by blast
    then show ?thesis using 2(2) deliveredIds_all [of st "de_now w" l d1] s by blast
  next
    case (3 l err)
    then show ?thesis using s deliveredIds_failed by fastforce
  qed (use s in auto)
qed

lemma runFrom_sends:
  assumes "sameBooks b d" "keyedBooks b"
  shows "deliveredIds (snd (snd (runFrom w st n i dsts tk d))) \<subseteq> deliveredIds d \<union> sendable b d"
  using assms
proof (induction dsts arbitrary: i tk d)
  case (Cons dst dsts)
  show ?case
  proof (cases "de_stop w i \<or> (business dst \<and> \<not> de_license w i 0) \<or> (\<exists>err. Acquire st (de_now w) (ds_name dst) n d = Inl err)")
    case True
    then show ?thesis using Cons by (auto split: sum.splits)
  next
    case False
    then obtain es d1 where a: "Acquire st (de_now w) (ds_name dst) n d = Inr (es, d1)" by (cases "Acquire st (de_now w) (ds_name dst) n d") auto
    then have lock: "lockEvents st (de_now w) es d = Inr d1" by (auto simp: Acquire_def andThen_eq_Inr)
    note ta = Acquire_touches [OF a]
    have s1: "sameBooks b d1" using sameBooks_trans [OF Cons.prems(1) sameBooks_lock [OF lock]] .
    have d1: "deliveredIds d1 \<subseteq> deliveredIds d" "sendable b d1 = sendable b d" using Acquire_effect(2) [OF a] sendable_touches ta by blast+
    show ?thesis
    proof (cases es)
      case Nil
      then show ?thesis using Cons.IH [OF s1 assms(2), of "Suc i" tk] False a d1 by auto
    next
      case es: (Cons e0 es0)
      obtain r tk2 d2 where b: "deliverBatch w st i dst es tk d1 = (r, tk2, d2)" by (cases "deliverBatch w st i dst es tk d1")
      have s2: "sameBooks b d2" using sameBooks_trans [OF s1 sameBooks_batch [OF b]] .
      have rows: "oe_id ` {e \<in> set es. gated e \<longrightarrow> remindable b e} \<subseteq> sendable b d1"
      proof
        fix j assume "j \<in> oe_id ` {e \<in> set es. gated e \<longrightarrow> remindable b e}"
        then obtain e where e: "j = oe_id e" "e \<in> set es" "gated e \<longrightarrow> remindable b e" by blast
        with batch_rows [of e "de_now w" "ds_name dst" n d] ta obtain x where "x \<in> set (outbox_events d)" "eventOf x = e" "oe_id e = ob_id x" by blast
        with e(1,3) have "j \<in> sendable b d" unfolding sendable_def by blast
        then show "j \<in> sendable b d1" by (simp add: d1(2))
      qed
      have d2: "deliveredIds d2 \<subseteq> deliveredIds d \<union> sendable b d" "sendable b d2 = sendable b d"
        using deliverBatch_sends [OF b s1 assms(2) rows] d1 sendable_touches [OF deliverBatch_touches [OF b]] by blast+
      show ?thesis
      proof (cases r)
        case None
        then show ?thesis using Cons.IH [OF s2 assms(2), of "Suc i" tk2] False a b d2 es by auto
      next
        case (Some err)
        then show ?thesis using False a b d2 es by auto
      qed
    qed
  qed
qed simp

text \<open>C27: no stale reminder is delivered. Whatever the services answer, an event delivered by a pass that was not delivered before is no reminder, or
  a reminder of a receivable or plan whose contract is released, with the very release number in its payload: not one of a contract that
  is on hold, nor one written before the contract's release was renewed. Where the gate succeeds it passes on exactly these events, in order,
  and a row the worker holds for any other reminder is cancelled and free.\<close>

theorem stale_reminders_filtered:
  assumes "keyedBooks d"
  shows "ob_id ` {x \<in> set (outbox_events (snd (snd (RunOnce w st n dsts tk d)))). ob_status x = OB_DELIVERED} \<subseteq>
      ob_id ` {x \<in> set (outbox_events d). ob_status x = OB_DELIVERED} \<union>
      ob_id ` {x \<in> set (outbox_events d). gated (eventOf x) \<longrightarrow> remindable d (eventOf x)} \<and>
    (filterImportNotifications st es d = (Inr l, d') \<longrightarrow>
      l = filter (\<lambda>e. gated e \<longrightarrow> remindable d e) es \<and>
      (\<forall>e \<in> set es. \<forall>x \<in> set (outbox_events d). gated e \<and> \<not> remindable d e \<and> held st (oe_id e) x \<longrightarrow>
        (\<exists>y \<in> set (outbox_events d'). ob_id y = oe_id e \<and> ob_status y = OB_CANCELLED \<and> ob_locked_by y = None)))"
proof (intro conjI impI ballI)
  show "ob_id ` {x \<in> set (outbox_events (snd (snd (RunOnce w st n dsts tk d)))). ob_status x = OB_DELIVERED} \<subseteq>
      ob_id ` {x \<in> set (outbox_events d). ob_status x = OB_DELIVERED} \<union>
      ob_id ` {x \<in> set (outbox_events d). gated (eventOf x) \<longrightarrow> remindable d (eventOf x)}"
    using runFrom_sends [OF sameBooks_steps(1) assms] unfolding RunOnce_def deliveredIds_def sendable_def .
  assume f: "filterImportNotifications st es d = (Inr l, d')"
  show "l = filter (\<lambda>e. gated e \<longrightarrow> remindable d e) es" by (rule filter_remindable [OF assms f])
  fix e x assume e: "e \<in> set es" and x: "x \<in> set (outbox_events d)" "gated e \<and> \<not> remindable d e \<and> held st (oe_id e) x"
  from filter_exact [OF f] e x(2) obtain b where "stillReleased d e = Inr b" by blast
  with stillReleased_iff [OF assms this] x(2) have "stillReleased d e = Inr False" by simp
  with e x(2) filter_cancels [OF f x(1), of "oe_id e"] obtain y where "y \<in> set (outbox_events d')" "givenUp st (oe_id e) y" "ob_status y = OB_CANCELLED"
    by (auto simp: givenUp_def)
  then show "\<exists>y \<in> set (outbox_events d'). ob_id y = oe_id e \<and> ob_status y = OB_CANCELLED \<and> ob_locked_by y = None"
    by (auto simp: givenUp_def held_def)
qed

text \<open>A reminder whose contract has been put on hold.\<close>

definition sampleReminder :: outbox_event where
  "sampleReminder = sampleEvent\<lparr>ob_destination := ''PLATFORM_NOTIFICATION'', ob_type := ''SETTLEMENT_OWNER_REMINDER'',
     ob_status := OB_PROCESSING, ob_locked_by := Some ''w1'',
     ob_payload := [(''reference_type'', JStr ''RECEIVABLE''), (''reference_id'', JStr ''V''), (''import_release_version'', JInt 3)]\<rparr>"

definition sampleHeld :: db where
  "sampleHeld = sampleStore\<lparr>outbox_events := [sampleReminder], snapshots := [sampleSnapshot\<lparr>cs_migration := HOLD\<rparr>]\<rparr>"

theorem stale_reminders_filtered_witness:
  "keyedBooks sampleHeld \<and> \<not> remindable sampleHeld (eventOf sampleReminder) \<and>
   (\<exists>d. filterImportNotifications (sampleWorker ''w1'') [eventOf sampleReminder] sampleHeld = (Inr [], d) \<and>
     (\<exists>y \<in> set (outbox_events d). ob_id y = ''o9'' \<and> ob_status y = OB_CANCELLED \<and> ob_locked_by y = None))"
proof -
  let ?e = "eventOf sampleReminder" and ?st = "sampleWorker ''w1''"
  have k: "keyedBooks sampleHeld" by (simp add: keyedBooks_def keyed_def sampleHeld_def sampleStore_def empty_db_def)
  have g: "gated ?e" by (simp add: gated_def eventOf_def sampleReminder_def)
  have s: "stillReleased sampleHeld ?e = Inr False"
    by (simp add: stillReleased_def eventOf_def sampleReminder_def sampleEvent_def stringField_def versionField_def jget_def
        referenceState_def releaseOf_def sampleHeld_def sampleStore_def sampleReceivable_def sampleSnapshot_def)
  have r: "\<not> remindable sampleHeld ?e" using stillReleased_iff [OF k s] by simp
  from g s have f: "filterImportNotifications ?st [?e] sampleHeld = (Inr [], cancelStale ?st ?e sampleHeld)" by simp
  have i: "oe_id ?e = ''o9''" "held ?st ''o9'' sampleReminder" "sampleReminder \<in> set (outbox_events sampleHeld)"
    by (simp_all add: eventOf_def sampleReminder_def sampleEvent_def held_def sampleHeld_def)
  from i(2,3) have h: "\<exists>x \<in> set (outbox_events sampleHeld). held ?st ''o9'' x" by blast
  note gate = stale_reminders_filtered [OF k, THEN conjunct2, THEN mp, OF f, THEN conjunct2]
  from gate h g r i(1) have "\<exists>y \<in> set (outbox_events (cancelStale ?st ?e sampleHeld)). ob_id y = ''o9'' \<and> ob_status y = OB_CANCELLED \<and> ob_locked_by y = None"
    by simp
  with k r f show ?thesis by blast
qed

section \<open>Bringing tax commands back\<close>

text \<open>The attempt that a command belongs to still waits for it: it is pending, was never accepted, is the last of
  its request, and the request is open.\<close>

definition openIssue :: "db \<Rightarrow> string \<Rightarrow> outbox_event \<Rightarrow> bool" where
  "openIssue d tenant x \<longleftrightarrow> (\<exists>a \<in> set (issue_attempts (taxes d)). \<exists>r \<in> set (invoice_requests (taxes d)).
     stringField (ob_payload x) ''attempt_id'' = Some (at_id a) \<and> at_tenant a = tenant \<and> at_status a = AT_PENDING \<and>
     at_accepted_at a = None \<and> at_command a = Some (ob_event x) \<and> ir_id r = at_request a \<and> ir_tenant r = tenant \<and>
     ir_status r = IR_ISSUE_PENDING \<and>
     (\<forall>b \<in> set (issue_attempts (taxes d)). attemptOf tenant (at_request a) b \<longrightarrow> at_no b \<le> at_no a))"

definition openRedFlushCommand :: "db \<Rightarrow> string \<Rightarrow> outbox_event \<Rightarrow> bool" where
  "openRedFlushCommand d tenant x \<longleftrightarrow> (\<exists>a \<in> set (red_flush_attempts (taxes d)). \<exists>f \<in> set (red_flush_requests (taxes d)).
     \<exists>t \<in> set (tax_invoices (taxes d)).
     stringField (ob_payload x) ''red_flush_attempt_id'' = Some (ra_id a) \<and> ra_tenant a = tenant \<and> ra_status a = AT_PENDING \<and>
     ra_accepted_at a = None \<and> ra_command a = Some (ob_event x) \<and> rf_id f = ra_request a \<and> rf_tenant f = tenant \<and>
     rf_status f = RF_ISSUE_PENDING \<and> ti_id t = ra_invoice a \<and> ti_status t = ISSUED \<and>
     (\<forall>b \<in> set (red_flush_attempts (taxes d)). ra_tenant b = tenant \<and> ra_request b = ra_request a \<longrightarrow> ra_no b \<le> ra_no a))"

lemma retryable_issue:
  assumes "requireRetryableIssueCommandTx s p (ob_event x) aid d = Inr d'" "ob_event x \<noteq> ''''"
    "stringField (ob_payload x) ''attempt_id'' = Some aid"
  shows "openIssue d (p_tenant p) x \<and> scopeFrame d d'"
proof -
  from assms(1) obtain a r where a: "find (att_is (p_tenant p) aid) (issue_attempts (taxes d)) = Some a"
    and r: "find (\<lambda>r. ir_id r = at_request a \<and> ir_tenant r = at_tenant a) (invoice_requests (taxes d)) = Some r"
    and g: "at_status a = AT_PENDING" "at_accepted_at a = None" "ir_status r = IR_ISSUE_PENDING" "commandOf a = ob_event x"
    and n: "\<not> exists_row (\<lambda>b. attemptOf (p_tenant p) (at_request a) b \<and> at_no b > at_no a) (issue_attempts (taxes d))"
    and f: "requireInvoiceRequestScopeTx s p ''settlement.invoice.issue'' (at_request a) d = Inr d'"
    by (auto simp: requireRetryableIssueCommandTx_def andThen_eq_Inr query_row_Inr split: if_splits)
  have "at_command a = Some (ob_event x)" using g(4) assms(2) by (auto simp: commandOf_def split: option.splits)
  with find_SomeD [OF a] find_SomeD [OF r] g n assms(3) have "openIssue d (p_tenant p) x"
    unfolding openIssue_def by (intro bexI [of _ a] bexI [of _ r]) (auto simp: att_is_def exists_row_def list_ex_iff not_less)
  with f show ?thesis by (auto intro: requireInvoiceRequestScopeTx_frame)
qed

lemma retryable_red:
  assumes "requireRetryableRedFlushCommandTx s p (ob_event x) aid d = Inr d'" "ob_event x \<noteq> ''''"
    "stringField (ob_payload x) ''red_flush_attempt_id'' = Some aid"
  shows "openRedFlushCommand d (p_tenant p) x \<and> scopeFrame d d'"
proof -
  from assms(1) obtain a f t where w: "redFacts d (p_tenant p) aid = Inr (a, f, t)"
    and g: "ra_status a = AT_PENDING" "ra_accepted_at a = None" "rf_status f = RF_ISSUE_PENDING" "ti_status t = ISSUED" "redCommandOf a = ob_event x"
    and n: "\<not> exists_row (\<lambda>b. ra_tenant b = p_tenant p \<and> ra_request b = ra_request a \<and> ra_no b > ra_no a) (red_flush_attempts (taxes d))"
    and sc: "requireTaxInvoiceScopeTx s p ''settlement.invoice.issue'' (ra_invoice a) d = Inr d'"
    by (auto simp: requireRetryableRedFlushCommandTx_def split: sum.splits if_splits)
  from w have a: "find (ratt_is (p_tenant p) aid) (red_flush_attempts (taxes d)) = Some a"
    and f: "find (\<lambda>f. rf_id f = ra_request a \<and> rf_tenant f = ra_tenant a) (red_flush_requests (taxes d)) = Some f"
    and t: "find (\<lambda>t. ti_id t = ra_invoice a \<and> ti_tenant t = ra_tenant a) (tax_invoices (taxes d)) = Some t"
    by (auto simp: redFacts_def andThen_eq_Inr query_row_Inr)
  have "ra_command a = Some (ob_event x)" using g(5) assms(2) by (auto simp: redCommandOf_def split: option.splits)
  with find_SomeD [OF a] find_SomeD [OF f] find_SomeD [OF t] g n assms(3) have "openRedFlushCommand d (p_tenant p) x"
    unfolding openRedFlushCommand_def
    by (intro bexI [of _ a] bexI [of _ f] bexI [of _ t]) (auto simp: ratt_is_def exists_row_def list_ex_iff not_less)
  with sc show ?thesis by (auto intro: requireTaxInvoiceScopeTx_frame)
qed

lemma checkTaxCommand_open:
  assumes "checkTaxCommand s p x d = Inr (k, aid, d')" "ob_event x \<noteq> ''''"
  shows "(openIssue d (p_tenant p) x \<or> openRedFlushCommand d (p_tenant p) x) \<and> scopeFrame d d'"
  using assms retryable_issue [of s p x _ d d'] retryable_red [of s p x _ d d']
  by (auto simp: checkTaxCommand_def andThen_eq_Inr split: option.splits tax_command.splits if_splits)

lemma outbox_keeps: "outbox e i t ds et aty aid b d = Inr d' \<Longrightarrow> set (outbox_events d) \<subseteq> set (outbox_events d')"
  by (auto simp: outbox_def Let_def andThen_eq_Inr insert_row_Inr split: if_splits)

lemma requeued_ids: "eventIds (updateEvents P (requeued n) d) = eventIds d"
proof -
  have "map ob_id (update_rows P (requeued n) l) = map ob_id l" "map ob_event (update_rows P (requeued n) l) = map ob_event l" for l
    by (simp_all add: update_rows_def requeued_def)
  then show ?thesis unfolding eventIds_def by (simp add: updateEvents_def set_map [symmetric] del: set_map)
qed

lemma open_frames:
  "taxes d' = taxes d \<Longrightarrow> openIssue d' t x = openIssue d t x" "taxes d' = taxes d \<Longrightarrow> openRedFlushCommand d' t x = openRedFlushCommand d t x"
  by (simp_all add: openIssue_def openRedFlushCommand_def)

lemma outbox_frames: "idemFrame d d' \<Longrightarrow> outbox_events d' = outbox_events d" "scopeFrame d d' \<Longrightarrow> outbox_events d' = outbox_events d"
  by (simp_all add: idemFrame_tables scopeFrame_tables)

lemma retry_brings_open_back:
  assumes "RetryTaxCommandDeadLetter s e p key eid reason d = Inr ((), d')"
    "boundTo d (p_tenant p, ''RETRY_TAX_COMMAND_DEAD_LETTER'', trimSpace key) = None" "\<forall>x \<in> set (outbox_events d). ob_event x \<noteq> ''''"
  shows "\<exists>x \<in> set (outbox_events d). deadCommand (p_tenant p) (trimSpace eid) x \<and>
    (openIssue d (p_tenant p) x \<or> openRedFlushCommand d (p_tenant p) x) \<and> requeued (e_now e) x \<in> set (outbox_events d')"
proof -
  let ?t = "p_tenant p" and ?eid = "trimSpace eid"
  from assms(1) obtain ex replay d1 where
    cl: "claimIdempotency e ?t ''RETRY_TAX_COMMAND_DEAD_LETTER'' (trimSpace key) ?eid
         (JObj [(''actor_id'', JStr (p_user p)), (''id'', JStr ?eid), (''reason'', JStr (trimSpace reason))]) d = Inr (ex, replay, d1)"
    by (auto simp: RetryTaxCommandDeadLetter_def Let_def andThen_eq_Inr split: if_splits)
  have new: "\<not> replay" using cl assms(2) by (auto simp: claimIdempotency_fresh)
  note fr = claimIdempotency_frame [OF cl]
  have d1: "outbox_events d1 = outbox_events d" "taxes d1 = taxes d" using outbox_frames(1) [OF fr] frame_taxes(2) [OF fr] by simp_all
  from assms(1) cl new obtain x k aid d2 et b where
    x: "find (event_is ?t ?eid) (outbox_events d1) = Some x" "ob_destination x = ''TAX_INVOICE_COMMAND''" "ob_status x = OB_DEAD_LETTER"
    and ck: "checkTaxCommand s p x d1 = Inr (k, aid, d2)"
    and ob: "outbox e 0 ?t ''PLATFORM_AUDIT'' et ''outbox_event'' ?eid b (updateEvents (deadCommand ?t ?eid) (requeued (e_now e)) d2) = Inr d'"
    by (auto simp: RetryTaxCommandDeadLetter_def Let_def andThen_eq_Inr query_row_Inr split: if_splits prod.splits)
  note x' = find_SomeD [OF x(1)]
  have ne: "ob_event x \<noteq> ''''" using assms(3) x' d1(1) by auto
  note c = checkTaxCommand_open [OF ck ne]
  have "outbox_events d2 = outbox_events d1" using c outbox_frames(2) by blast
  then have "requeued (e_now e) x \<in> set (outbox_events (updateEvents (deadCommand ?t ?eid) (requeued (e_now e)) d2))"
    using x x' by (auto simp: updateEvents_def update_rows_def deadCommand_def intro!: image_eqI [of _ _ x])
  with outbox_keeps [OF ob] have "requeued (e_now e) x \<in> set (outbox_events d')" by (rule subsetD)
  moreover have "deadCommand ?t ?eid x" using x x' by (simp add: deadCommand_def)
  moreover have "openIssue d ?t x \<or> openRedFlushCommand d ?t x" using c unfolding open_frames [OF d1(2)] by blast
  moreover have "x \<in> set (outbox_events d)" using x' by (simp add: d1)
  ultimately show ?thesis by blast
qed

text \<open>C25: the guarded retry only brings back a command that is still wanted. When it succeeds under a new key, the command
  was a dead letter for the tax provider, its attempt or red-flush attempt was pending and never
  accepted, the newest of an open request, and its row is queued again as if it were new.\<close>

theorem guarded_retry_open:
  assumes "RetryTaxCommandDeadLetter s e p key eid reason d = Inr ((), d')"
    "boundTo d (p_tenant p, ''RETRY_TAX_COMMAND_DEAD_LETTER'', trimSpace key) = None" "\<forall>x \<in> set (outbox_events d). ob_event x \<noteq> ''''"
  shows "\<exists>x \<in> set (outbox_events d). deadCommand (p_tenant p) (trimSpace eid) x \<and>
    (openIssue d (p_tenant p) x \<or> openRedFlushCommand d (p_tenant p) x) \<and> requeued (e_now e) x \<in> set (outbox_events d')"
  by (rule retry_brings_open_back [OF assms])

text \<open>The sample request with its command among the dead letters: still open, and cancelled.\<close>

definition sampleCommand :: outbox_event where
  "sampleCommand = sampleEvent\<lparr>ob_destination := ''TAX_INVOICE_COMMAND'', ob_type := ''SETTLEMENT_INVOICE_ISSUE_REQUESTED'',
     ob_aggregate_type := ''invoice_request'', ob_aggregate := ''Q'', ob_event := ''c9'', ob_status := OB_DEAD_LETTER, ob_attempts := 7,
     ob_payload := [(''attempt_id'', JStr ''B'')]\<rparr>"

lemma sampleCommand_fields: "event_is ''T'' ''o9'' sampleCommand" "ob_destination sampleCommand = ''TAX_INVOICE_COMMAND''" "ob_id sampleCommand = ''o9''"
  "ob_status sampleCommand = OB_DEAD_LETTER" "ob_event sampleCommand = ''c9''" "deadCommand ''T'' ''o9'' sampleCommand"
  "ob_aggregate_type sampleCommand = ''invoice_request''" "taxCommandOperation (ob_type sampleCommand) = Some IssueCommand"
  "stringField (ob_payload sampleCommand) ''attempt_id'' = Some ''B''" "stringField (ob_payload sampleCommand) ''red_flush_attempt_id'' = Some ''''"
  by (simp_all add: sampleCommand_def sampleEvent_def event_is_def deadCommand_def taxCommandOperation_def stringField_def jget_def
      plain_def byte_def asciiSpace_def)

definition sampleAwaiting :: "attempt_status \<Rightarrow> request_status \<Rightarrow> db" where
  "sampleAwaiting st rst = (samplePending TAX_ADAPTER)\<lparr>outbox_events := [sampleCommand],
     taxes := (taxes empty_db)\<lparr>invoice_requests := [sampleRequest rst],
       issue_attempts := [(sampleAttempt TAX_ADAPTER st)\<lparr>at_command := Some ''c9''\<rparr>]\<rparr>\<rparr>"

lemma sampleAwaiting_rows [simp]:
  "outbox_events (sampleAwaiting st rst) = [sampleCommand]" "audits (sampleAwaiting st rst) = []" "idempotency (sampleAwaiting st rst) = []"
  "issue_attempts (taxes (sampleAwaiting st rst)) = [(sampleAttempt TAX_ADAPTER st)\<lparr>at_command := Some ''c9''\<rparr>]"
  "invoice_requests (taxes (sampleAwaiting st rst)) = [sampleRequest rst]"
  by (simp_all add: sampleAwaiting_def samplePending_def sampleStore_def empty_db_def)

theorem guarded_retry_open_witness:
  "\<exists>d. RetryTaxCommandDeadLetter sampleService (freshEnv [''o1'', ''o2'']) (sampleUser ''bob'') ''k-1'' ''o9'' ''wrong''
      (sampleAwaiting AT_PENDING IR_ISSUE_PENDING) = Inr ((), d) \<and> requeued (e_now (freshEnv [''o1'', ''o2''])) sampleCommand \<in> set (outbox_events d)"
proof -
  let ?e = "freshEnv [''o1'', ''o2'']" and ?d = "sampleAwaiting AT_PENDING IR_ISSUE_PENDING" and ?p = "sampleUser ''bob''"
  have b: "boundTo ?d (''T'', ''RETRY_TAX_COMMAND_DEAD_LETTER'', ''k-1'') = None" by (simp add: boundTo_def)
  have tr: "trimSpace ''o9'' = ''o9''" "trimSpace ''k-1'' = ''k-1''" by (simp_all add: plain_def byte_def asciiSpace_def)
  have ck: "checkTaxCommand sampleService ?p sampleCommand (?d\<lparr>idempotency := l\<rparr>) = Inr (IssueCommand, ''B'', ?d\<lparr>idempotency := l\<rparr>)" for l
    by (simp add: checkTaxCommand_def sampleCommand_fields requireRetryableIssueCommandTx_def query_row_def att_is_def sampleAttempt_def
        newAttempt_def sampleRequest_def commandOf_def exists_row_def attemptOf_def requireInvoiceRequestScopeTx_def)
  have "eventIds (updateEvents (deadCommand ''T'' ''o9'') (requeued n) (?d\<lparr>idempotency := l\<rparr>)) = {''o9'', ''c9''}" for n l
    unfolding requeued_ids by (auto simp: eventIds_def sampleCommand_fields)
  then have ob: "\<exists>d. outbox ?e 0 t a b c x m (updateEvents (deadCommand ''T'' ''o9'') (requeued n) (?d\<lparr>idempotency := l\<rparr>)) = Inr d" for l n t a b c x m
    using outbox_total [of ?e 0 "updateEvents (deadCommand ''T'' ''o9'') (requeued n) (?d\<lparr>idempotency := l\<rparr>)" t a b c x m] by (auto simp: freshEnv_ids)
  have "affected (deadCommand ''T'' ''o9'') [sampleCommand] = 1" by (simp add: affected_def sampleCommand_fields)
  then have "\<exists>d. RetryTaxCommandDeadLetter sampleService ?e ?p ''k-1'' ''o9'' ''wrong'' ?d = Inr ((), d)"
    by (simp add: RetryTaxCommandDeadLetter_def tr Let_def claimIdempotency_fresh [OF b] query_row_def sampleCommand_fields ck)
      (simp add: andThen_eq_Inr ob)
  then obtain d where d: "RetryTaxCommandDeadLetter sampleService ?e ?p ''k-1'' ''o9'' ''wrong'' ?d = Inr ((), d)" by blast
  have "\<exists>x \<in> set (outbox_events ?d). deadCommand (p_tenant ?p) (trimSpace ''o9'') x \<and>
      (openIssue ?d (p_tenant ?p) x \<or> openRedFlushCommand ?d (p_tenant ?p) x) \<and> requeued (e_now ?e) x \<in> set (outbox_events d)"
    by (rule guarded_retry_open [OF d]) (simp_all add: boundTo_def sampleCommand_fields)
  then have "requeued (e_now ?e) sampleCommand \<in> set (outbox_events d)" by simp
  with d show ?thesis by blast
qed

text \<open>C26: the administrator's retry has none of these guards. It queues any dead letter again, so the command of an attempt that
  is no longer pending, such as one that a cancellation abandoned, goes out to the tax provider
  although the guarded retry refuses it, and the request and its attempt stay as they are.\<close>

theorem admin_retry_unguarded:
  assumes "Allows p ''settlement.admin''" "trimSpace eid \<noteq> ''''" "find (event_is (p_tenant p) eid) (outbox_events d) = Some x"
    "deadCommand (p_tenant p) (trimSpace eid) x" "e_ids e 0 \<notin> eventIds d" "e_ids e 1 \<notin> eventIds d" "\<forall>y \<in> set (outbox_events d). ob_event y \<noteq> ''''"
    "\<forall>y \<in> set (outbox_events d). deadCommand (p_tenant p) (trimSpace eid) y \<longrightarrow>
       \<not> openIssue d (p_tenant p) y \<and> \<not> openRedFlushCommand d (p_tenant p) y"
    "boundTo d (p_tenant p, ''RETRY_TAX_COMMAND_DEAD_LETTER'', trimSpace key) = None"
  shows "(\<exists>d'. RetryOutboxEvent e p eid d = Inr ((), d') \<and> requeued (e_now e) x \<in> set (outbox_events d') \<and> taxes d' = taxes d) \<and>
    (\<nexists>d'. RetryTaxCommandDeadLetter s e p key eid reason d = Inr ((), d'))"
proof -
  let ?d = "updateEvents (\<lambda>y. event_is (p_tenant p) eid y \<and> ob_status y = OB_DEAD_LETTER) (requeued (e_now e)) d"
  note x = find_SomeD [OF assms(3)]
  obtain d' where d': "outbox e 0 (p_tenant p) ''PLATFORM_AUDIT'' ''SETTLEMENT_OUTBOX_MANUAL_RETRY'' ''outbox_event'' eid
         [(''actor_id'', JStr (p_user p)), (''result'', JStr ''SUCCESS''), (''risk_level'', JStr ''MEDIUM'')] ?d = Inr d'" "eventFrame ?d d'"
    using outbox_total [of e 0 ?d] assms(5,6) by (simp add: requeued_ids) blast
  have "requeued (e_now e) x \<in> set (outbox_events ?d)"
    using x assms(4) by (auto simp: updateEvents_def update_rows_def deadCommand_def intro!: image_eqI [of _ _ x])
  then have "requeued (e_now e) x \<in> set (outbox_events d')" using outbox_keeps [OF d'(1)] by blast
  moreover have "taxes d' = taxes d" using frame_taxes(3) [OF d'(2)] by (simp add: updateEvents_def)
  moreover have "RetryOutboxEvent e p eid d = Inr ((), d')"
    using assms(1-4) d'(1) by (simp add: RetryOutboxEvent_def query_row_def deadCommand_def)
  moreover have "RetryTaxCommandDeadLetter s e p key eid reason d \<noteq> Inr ((), d2)" for d2
    using retry_brings_open_back [of s e p key eid reason d d2] assms(7-9) by blast
  ultimately show ?thesis by blast
qed

theorem admin_retry_unguarded_witness:
  "\<exists>d. RetryOutboxEvent (freshEnv [''o1'', ''o2'']) (sampleUser ''bob'') ''o9'' (sampleAwaiting AT_ABANDONED IR_CANCELLED) = Inr ((), d) \<and>
     requeued (e_now (freshEnv [''o1'', ''o2''])) sampleCommand \<in> set (outbox_events d) \<and> invoice_requests (taxes d) = [sampleRequest IR_CANCELLED]"
proof -
  let ?e = "freshEnv [''o1'', ''o2'']" and ?d = "sampleAwaiting AT_ABANDONED IR_CANCELLED" and ?p = "sampleUser ''bob''"
  have tr: "trimSpace ''o9'' = ''o9''" by (simp add: plain_def byte_def asciiSpace_def)
  have red: "red_flush_attempts (taxes ?d) = []" by (simp add: sampleAwaiting_def empty_db_def)
  have closed: "\<not> openIssue ?d t y \<and> \<not> openRedFlushCommand ?d t y" for t y
    by (simp add: openIssue_def openRedFlushCommand_def red) (simp add: sampleAttempt_def newAttempt_def)
  have ids: "eventIds ?d = {''o9'', ''c9''}" by (auto simp: eventIds_def sampleCommand_fields)
  have "(\<exists>d'. RetryOutboxEvent ?e ?p ''o9'' ?d = Inr ((), d') \<and> requeued (e_now ?e) sampleCommand \<in> set (outbox_events d') \<and> taxes d' = taxes ?d) \<and>
    (\<nexists>d'. RetryTaxCommandDeadLetter sampleService ?e ?p ''k-1'' ''o9'' ''wrong'' ?d = Inr ((), d'))"
    by (rule admin_retry_unguarded) (simp_all add: tr closed ids freshEnv_ids boundTo_def sampleCommand_fields)
  then show ?thesis by auto
qed

end
