(* ===== verification/Contracts.thy ===== *)
theory Contracts
  imports Plans
begin

text \<open>
  Contracts as they arrive from the contract system: the first financial version and its plans
  (\<open>ingestContract\<close> of service.go), held imports (\<open>PrepareContractImport\<close> of contract\_import.go),
  revisions of a known contract and the work items they leave (contract\_revision.go), and the
  stream of responsibilities (contract\_responsibility\_ingest.go).
\<close>

section \<open>The event\<close>

record ContractEvent =
  ce_id :: string
  ce_type :: string
  ce_tenant :: string
  ce_occurred :: string
  ce_aggregate :: string
  ce_aggregate_version :: int
  ce_contract :: ContractBody

record ContractIngestResult =
  Created :: bool
  RevisionHeld :: bool
  HoldID :: string

definition noIngest :: ContractIngestResult where
  "noIngest = \<lparr>Created = False, RevisionHeld = False, HoldID = ''''\<rparr>"

definition jsonTerm :: "PaymentTerm \<Rightarrow> json" where
  "jsonTerm t = JObj [(''installment_no'', JInt (pt_no t)), (''due_date'', JStr (pt_due t)), (''amount'', JStr (pt_amount t))]"

definition jsonContract :: "ContractEvent \<Rightarrow> json" where
  "jsonContract ev =
     (let c = ce_contract ev in
      JObj [(''event_id'', JStr (ce_id ev)), (''event_type'', JStr (ce_type ev)), (''tenant_id'', JStr (ce_tenant ev)),
        (''occurred_at'', JStr (ce_occurred ev)),
        (''aggregate'', JObj [(''id'', JStr (ce_aggregate ev)), (''version'', JInt (ce_aggregate_version ev))]),
        (''contract'', JObj [(''owner_user_id'', JStr (ct_owner c)), (''id'', JStr (ct_id c)), (''no'', JStr (ct_no c)),
          (''version'', JInt (ct_version c)), (''customer_id'', JStr (ct_customer c)),
          (''customer_name'', JStr (ct_customer_name c)), (''project_id'', JStr (ct_project c)),
          (''project_name'', JStr (ct_project_name c)), (''currency'', JStr (ct_currency c)), (''amount'', JStr (ct_amount c)),
          (''payment_terms'', JArr (map jsonTerm (ct_terms c)))])])"

text \<open>The checks before the transaction, and the amount of the contract.\<close>

definition checkContractEvent :: "string \<Rightarrow> string \<Rightarrow> ContractEvent \<Rightarrow> int res" where
  "checkContractEvent source trustedTenant ev =
     (let c = ce_contract ev; tenant = trimSpace trustedTenant in
      andThen (required (ce_id ev)) (\<lambda>_.
      if tenant = '''' \<or> ce_tenant ev \<noteq> tenant then Inl ErrInvalid
      else if ce_type ev \<noteq> ''contract.financial_effective.v1'' then Inl ErrInvalid
      else if ct_version c < 1 \<or> ct_terms c = [] then Inl ErrInvalid
      else if list_ex (\<lambda>v. trimSpace v = '''') [source, ct_id c, ct_no c, ct_customer c, ct_customer_name c] then Inl ErrInvalid
      else if ce_aggregate ev \<noteq> '''' \<and> ce_aggregate ev \<noteq> ct_id c then Inl ErrInvalid
      else if ce_aggregate_version ev \<noteq> 0 \<and> ce_aggregate_version ev \<noteq> ct_version c then Inl ErrInvalid
      else if length (ct_currency c) \<noteq> 3 then Inl ErrInvalid
      else amountCents (ct_amount c)))"

section \<open>The stream and the inbox\<close>

definition stream_is :: "string \<Rightarrow> string \<Rightarrow> string \<Rightarrow> contract_stream \<Rightarrow> bool" where
  "stream_is tenant source contract r \<longleftrightarrow> st_tenant r = tenant \<and> st_source r = source \<and> st_contract r = contract"

text \<open>\<open>INSERT ... ON DUPLICATE KEY UPDATE\<close> with no change: the stream exists afterwards.\<close>

definition ensureStream :: "string \<Rightarrow> string \<Rightarrow> string \<Rightarrow> db \<Rightarrow> db" where
  "ensureStream tenant source contract d =
     (if exists_row (stream_is tenant source contract) (streams d) then d
      else d\<lparr>streams := streams d @ [\<lparr>st_tenant = tenant, st_source = source, st_contract = contract, st_version = 0\<rparr>]\<rparr>)"

definition advanceStream :: "string \<Rightarrow> string \<Rightarrow> string \<Rightarrow> int \<Rightarrow> db \<Rightarrow> db" where
  "advanceStream tenant source contract version d =
     d\<lparr>streams := update_rows (stream_is tenant source contract) (\<lambda>r. r\<lparr>st_version := version\<rparr>) (streams d)\<rparr>"

definition inbox_is :: "string \<Rightarrow> string \<Rightarrow> string \<Rightarrow> inbox_event \<Rightarrow> bool" where
  "inbox_is tenant source event r \<longleftrightarrow> ix_tenant r = tenant \<and> ix_source r = source \<and> ix_event r = event"

definition newInbox :: "string \<Rightarrow> string \<Rightarrow> ContractEvent \<Rightarrow> inbox_event" where
  "newInbox xid source ev =
     \<lparr>ix_id = xid, ix_tenant = ce_tenant ev, ix_source = source, ix_event = ce_id ev, ix_type = ce_type ev,
      ix_aggregate = ct_id (ce_contract ev), ix_version = ct_version (ce_contract ev), ix_payload = jsonContract ev,
      ix_status = ACCEPTED\<rparr>"

definition finishInbox :: "string \<Rightarrow> inbox_status \<Rightarrow> db \<Rightarrow> db" where
  "finishInbox xid st d = d\<lparr>inbox := update_rows (\<lambda>r. ix_id r = xid) (\<lambda>r. r\<lparr>ix_status := st\<rparr>) (inbox d)\<rparr>"

definition newSnapshot :: "string \<Rightarrow> string \<Rightarrow> ContractEvent \<Rightarrow> int \<Rightarrow> contract_snapshot" where
  "newSnapshot sid source ev amt =
     (let c = ce_contract ev in
      \<lparr>cs_id = sid, cs_tenant = ce_tenant ev, cs_source = source, cs_event = ce_id ev, cs_contract = Some (ct_id c),
       cs_contract_no = ct_no c, cs_version = ct_version c, cs_customer = ct_customer c, cs_customer_name = ct_customer_name c,
       cs_project = ct_project c, cs_project_name = ct_project_name c, cs_currency = toUpper (ct_currency c), cs_amount = amt,
       cs_status = EFFECTIVE, cs_effective_at = ce_occurred ev, cs_migration = RELEASED, cs_import_version = 0,
       cs_basis = CONTRACT, cs_namespace = ''legacy'', cs_local = None\<rparr>)"

definition insertSnapshot :: "contract_snapshot \<Rightarrow> db \<Rightarrow> db res" where
  "insertSnapshot cs d =
     (case insert_row snapshot_clash cs (snapshots d) of
        Inl err \<Rightarrow> if err = SqlDuplicate then Inl ErrConflict else Inl err
      | Inr t \<Rightarrow> Inr (d\<lparr>snapshots := t\<rparr>))"

section \<open>The first version\<close>

definition eventPlan :: "string \<Rightarrow> string \<Rightarrow> string \<Rightarrow> int \<Rightarrow> string \<Rightarrow> int \<Rightarrow> receivable_plan" where
  "eventPlan pid tenant snapshot no due amt =
     \<lparr>rp_id = pid, rp_tenant = tenant, rp_snapshot = snapshot, rp_installment = no, rp_due = due, rp_amount = amt,
      rp_source = CONTRACT_EVENT, rp_status = PENDING_CONFIRMATION, rp_reason = '''', rp_version = 1\<rparr>"

text \<open>The loop over the payment terms with the total so far; \<open>k\<close> counts the identifiers used.\<close>

fun insertTerms :: "env \<Rightarrow> nat \<Rightarrow> string \<Rightarrow> string \<Rightarrow> int \<Rightarrow> PaymentTerm list \<Rightarrow> db \<Rightarrow> (int \<times> db) res" where
  "insertTerms e k tenant snapshot tot [] d = Inr (tot, d)"
| "insertTerms e k tenant snapshot tot (t # ts) d =
     andThen (amountCents (pt_amount t)) (\<lambda>a.
     if pt_no t < 1 then Inl ErrInvalid
     else if parseDate (pt_due t) = None then Inl ErrInvalid
     else andThen (insert_row plan_clash (eventPlan (e_ids e k) tenant snapshot (pt_no t) (pt_due t) a) (plans d)) (\<lambda>l.
     insertTerms e (Suc k) tenant snapshot (tot + a) ts (d\<lparr>plans := l\<rparr>)))"

definition newImport :: "string \<Rightarrow> string \<Rightarrow> string \<Rightarrow> ContractImportCommand \<Rightarrow> contract_import" where
  "newImport tenant snapshot owner c =
     \<lparr>ci_tenant = tenant, ci_snapshot = snapshot, ci_item = cc_item c,
      ci_expected = (case cc_expected c of None \<Rightarrow> [] | Some fs \<Rightarrow> fs), ci_owner = owner, ci_event = cc_event c,
      ci_state = PREPARED, ci_reconciliation = '''', ci_release = cc_release c, ci_revision = cc_revision c,
      ci_digest = cc_digest c, ci_mode = cc_mode c, ci_decision = '''', ci_reason = '''', ci_approver = ''''\<rparr>"

text \<open>An import is held, and its declaration is stored beside the snapshot.\<close>

definition holdImport :: "string \<Rightarrow> string \<Rightarrow> string \<Rightarrow> ContractImportCommand option \<Rightarrow> db \<Rightarrow> db res" where
  "holdImport tenant snapshot owner imported d =
     (case imported of None \<Rightarrow> Inr d
      | Some c \<Rightarrow>
         (case insert_row import_clash (newImport tenant snapshot owner c) (contract_imports d) of
            Inl err \<Rightarrow> if err = SqlDuplicate then Inl ErrConflict else Inl err
          | Inr t \<Rightarrow> Inr (d\<lparr>snapshots := update_rows (\<lambda>cs. cs_id cs = snapshot \<and> cs_tenant cs = tenant)
                            (\<lambda>cs. cs\<lparr>cs_migration := HOLD, cs_import_version := 1\<rparr>) (snapshots d),
                          contract_imports := t\<rparr>)))"

definition baselineContract ::
  "env \<Rightarrow> string \<Rightarrow> ContractEvent \<Rightarrow> int \<Rightarrow> ContractImportCommand option \<Rightarrow> db \<Rightarrow> db res" where
  "baselineContract e source ev amt imported d =
     andThen (insertSnapshot (newSnapshot (e_ids e 1) source ev amt) d) (\<lambda>d1.
     andThen (holdImport (ce_tenant ev) (e_ids e 1) (ct_owner (ce_contract ev)) imported d1) (\<lambda>d2.
     andThen (insertTerms e 2 (ce_tenant ev) (e_ids e 1) 0 (ct_terms (ce_contract ev)) d2) (\<lambda>(tot, d3).
     if tot \<noteq> amt then Inl ErrInvalid
     else Inr (advanceStream (ce_tenant ev) source (ct_id (ce_contract ev)) (ct_version (ce_contract ev))
                 (finishInbox (e_ids e 0) COMPLETED d3)))))"

section \<open>What a revision finds\<close>

text \<open>A payment term after the checks, its amount in cents.\<close>

record revisionTerm =
  rt_no :: int
  rt_due :: string
  rt_amount :: int

fun normalizeTermsFrom :: "int list \<Rightarrow> PaymentTerm list \<Rightarrow> revisionTerm list res" where
  "normalizeTermsFrom seen [] = Inr []"
| "normalizeTermsFrom seen (t # ts) =
     andThen (amountCents (pt_amount t)) (\<lambda>a.
     if pt_no t < 1 then Inl ErrInvalid
     else if pt_no t \<in> set seen then Inl ErrInvalid
     else if parseDate (trimSpace (pt_due t)) = None then Inl ErrInvalid
     else andThen (normalizeTermsFrom (pt_no t # seen) ts) (\<lambda>l.
     Inr (\<lparr>rt_no = pt_no t, rt_due = trimSpace (pt_due t), rt_amount = a\<rparr> # l)))"

definition normalizeContractTerms :: "PaymentTerm list \<Rightarrow> (revisionTerm list \<times> int) res" where
  "normalizeContractTerms ts = andThen (normalizeTermsFrom [] ts) (\<lambda>l. Inr (l, sum_list (map rt_amount l)))"

record revisionImplementedFacts =
  fa_received :: int
  fa_writeoff :: int
  fa_invoiced :: int
  fa_reserved :: int

definition anyFact :: "revisionImplementedFacts \<Rightarrow> bool" where
  "anyFact f \<longleftrightarrow> fa_received f \<noteq> 0 \<or> fa_writeoff f \<noteq> 0 \<or> fa_invoiced f \<noteq> 0 \<or> fa_reserved f \<noteq> 0"

record contractRevisionPlan =
  cp_id :: string
  cp_no :: int
  cp_due :: string
  cp_amount :: int
  cp_status :: confirmation_status
  cp_receivable :: string
  cp_references :: nat
  cp_facts :: revisionImplementedFacts

definition receivableOf :: "db \<Rightarrow> receivable_plan \<Rightarrow> receivable option" where
  "receivableOf d rp = find (\<lambda>v. rv_tenant v = rp_tenant rp \<and> rv_plan v = rp_id rp) (receivables d)"

text \<open>Dunning cases of the plan or its receivable, and invoice reservations of the receivable.\<close>

definition referencesOf :: "db \<Rightarrow> receivable_plan \<Rightarrow> nat" where
  "referencesOf d rp =
     affected (\<lambda>c. dc_tenant c = rp_tenant rp \<and> (dc_plan c = Some (rp_id rp) \<or>
         sameValue (dc_receivable c) (map_option rv_id (receivableOf d rp)))) (dunning_cases d) +
     (case receivableOf d rp of None \<Rightarrow> 0
      | Some v \<Rightarrow> affected (\<lambda>a. ia_tenant a = rp_tenant rp \<and> ia_receivable a = rv_id v) (invoice_allocations d))"

definition factsOf :: "db \<Rightarrow> receivable_plan \<Rightarrow> revisionImplementedFacts" where
  "factsOf d rp =
     (case receivableOf d rp of
        None \<Rightarrow> \<lparr>fa_received = 0, fa_writeoff = 0, fa_invoiced = 0, fa_reserved = 0\<rparr>
      | Some v \<Rightarrow> \<lparr>fa_received = rv_received v, fa_writeoff = rv_writeoff v, fa_invoiced = rv_invoiced v,
                   fa_reserved = reservedOf d (rp_tenant rp) (rv_id v)\<rparr>)"

definition revisionPlan :: "db \<Rightarrow> receivable_plan \<Rightarrow> contractRevisionPlan" where
  "revisionPlan d rp =
     \<lparr>cp_id = rp_id rp, cp_no = rp_installment rp, cp_due = rp_due rp, cp_amount = rp_amount rp, cp_status = rp_status rp,
      cp_receivable = (case receivableOf d rp of None \<Rightarrow> '''' | Some v \<Rightarrow> rv_id v),
      cp_references = referencesOf d rp, cp_facts = factsOf d rp\<rparr>"

definition loadContractRevisionPlans :: "db \<Rightarrow> string \<Rightarrow> string \<Rightarrow> contractRevisionPlan list" where
  "loadContractRevisionPlans d tenant snapshot =
     map (revisionPlan d) (orderBy (\<lambda>a b. rp_installment a < rp_installment b) (filter (planOf tenant snapshot) (plans d)))"

section \<open>What a revision decides\<close>

record contractRevisionDiff =
  rd_no :: int
  rd_kind :: string
  rd_old_due :: string
  rd_new_due :: string
  rd_old_amount :: string
  rd_new_amount :: string
  rd_facts :: revisionImplementedFacts
  rd_references :: nat

definition amountChanged :: "contractRevisionPlan \<Rightarrow> revisionTerm \<Rightarrow> bool" where
  "amountChanged pl t \<longleftrightarrow> cp_amount pl \<noteq> rt_amount t"

definition dueChanged :: "contractRevisionPlan \<Rightarrow> revisionTerm \<Rightarrow> bool" where
  "dueChanged pl t \<longleftrightarrow> cp_due pl \<noteq> rt_due t"

text \<open>The difference of one instalment; None is an instalment that the new terms have no more.\<close>

definition revisionDiff :: "contractRevisionPlan \<Rightarrow> revisionTerm option \<Rightarrow> contractRevisionDiff" where
  "revisionDiff pl term =
     (case term of
        None \<Rightarrow> \<lparr>rd_no = cp_no pl, rd_kind = ''REMOVED'', rd_old_due = cp_due pl, rd_new_due = '''',
          rd_old_amount = money (cp_amount pl), rd_new_amount = '''', rd_facts = cp_facts pl, rd_references = cp_references pl\<rparr>
      | Some t \<Rightarrow> \<lparr>rd_no = cp_no pl,
          rd_kind = (if amountChanged pl t \<and> dueChanged pl t then ''AMOUNT_AND_DUE_DATE_CHANGED''
            else if amountChanged pl t then ''AMOUNT_CHANGED'' else ''DUE_DATE_CHANGED''),
          rd_old_due = cp_due pl, rd_new_due = rt_due t, rd_old_amount = money (cp_amount pl),
          rd_new_amount = money (rt_amount t), rd_facts = cp_facts pl, rd_references = cp_references pl\<rparr>)"

datatype revision_decision = RemovePlan | HoldPlan contractRevisionDiff | KeepPlan | AdjustTo revisionTerm

definition termFor :: "revisionTerm list \<Rightarrow> contractRevisionPlan \<Rightarrow> revisionTerm option" where
  "termFor terms pl = find (\<lambda>t. rt_no t = cp_no pl) terms"

definition decidePlan :: "revisionTerm list \<Rightarrow> contractRevisionPlan \<Rightarrow> revision_decision" where
  "decidePlan terms pl =
     (case termFor terms pl of
        None \<Rightarrow> if anyFact (cp_facts pl) \<or> cp_references pl > 0 then HoldPlan (revisionDiff pl None) else RemovePlan
      | Some t \<Rightarrow>
          if anyFact (cp_facts pl)
          then (if amountChanged pl t \<or> dueChanged pl t then HoldPlan (revisionDiff pl (Some t)) else KeepPlan)
          else if amountChanged pl t \<or> dueChanged pl t then AdjustTo t
          else KeepPlan)"

definition heldDiffs :: "revisionTerm list \<Rightarrow> contractRevisionPlan list \<Rightarrow> contractRevisionDiff list" where
  "heldDiffs terms pls = concat (map (\<lambda>pl. case decidePlan terms pl of HoldPlan x \<Rightarrow> [x] | _ \<Rightarrow> []) pls)"

definition createdTerms :: "revisionTerm list \<Rightarrow> contractRevisionPlan list \<Rightarrow> revisionTerm list" where
  "createdTerms terms pls = filter (\<lambda>t. \<not> list_ex (\<lambda>pl. cp_no pl = rt_no t) pls) terms"

definition adjusts :: "revision_decision \<Rightarrow> bool" where
  "adjusts x = (case x of AdjustTo _ \<Rightarrow> True | _ \<Rightarrow> False)"

record contractRevisionDetail =
  de_from :: int
  de_to :: int
  de_old_amount :: string
  de_new_amount :: string
  de_old_total :: string
  de_new_total :: string
  de_terms :: "revisionTerm list"
  de_diffs :: "contractRevisionDiff list"

definition jsonFacts :: "revisionImplementedFacts \<Rightarrow> json" where
  "jsonFacts f = JObj [(''received_allocated'', JStr (money (fa_received f))), (''write_off'', JStr (money (fa_writeoff f))),
     (''invoiced'', JStr (money (fa_invoiced f))), (''reserved'', JStr (money (fa_reserved f)))]"

definition jsonDiff :: "contractRevisionDiff \<Rightarrow> json" where
  "jsonDiff x = JObj ([(''installment_no'', JInt (rd_no x)), (''kind'', JStr (rd_kind x))] @
     (if rd_old_due x = '''' then [] else [(''old_due_date'', JStr (rd_old_due x))]) @
     (if rd_new_due x = '''' then [] else [(''new_due_date'', JStr (rd_new_due x))]) @
     (if rd_old_amount x = '''' then [] else [(''old_amount'', JStr (rd_old_amount x))]) @
     (if rd_new_amount x = '''' then [] else [(''new_amount'', JStr (rd_new_amount x))]) @
     [(''implemented_facts'', jsonFacts (rd_facts x))] @
     (if rd_references x = 0 then [] else [(''references'', JInt (int (rd_references x)))]))"

definition jsonDetail :: "contractRevisionDetail \<Rightarrow> json" where
  "jsonDetail x = JObj ([(''from_version'', JInt (de_from x)), (''to_version'', JInt (de_to x)),
     (''old_contract_amount'', JStr (de_old_amount x)), (''new_contract_amount'', JStr (de_new_amount x))] @
     (if de_old_total x = '''' then [] else [(''old_term_total'', JStr (de_old_total x))]) @
     (if de_new_total x = '''' then [] else [(''new_term_total'', JStr (de_new_total x))]) @
     [(''new_terms'', JArr (map (\<lambda>t. jsonTerm \<lparr>pt_no = rt_no t, pt_due = rt_due t, pt_amount = money (rt_amount t)\<rparr>) (de_terms x))),
      (''diffs'', JArr (map jsonDiff (de_diffs x)))])"

section \<open>What a revision writes\<close>

text \<open>
  The foreign keys on a receivable: an allocation, an invoice reservation or a dunning case that
  refers to it keeps it from being deleted; a dunning case keeps its plan.
\<close>

definition receivableReferenced :: "db \<Rightarrow> receivable \<Rightarrow> bool" where
  "receivableReferenced d v \<longleftrightarrow>
     exists_row (\<lambda>a. al_receivable a = rv_id v) (allocations d) \<or>
     exists_row (\<lambda>a. ia_receivable a = rv_id v) (invoice_allocations d) \<or>
     exists_row (\<lambda>c. dc_receivable c = Some (rv_id v)) (dunning_cases d)"

definition deletePlan :: "string \<Rightarrow> string \<Rightarrow> db \<Rightarrow> db res" where
  "deletePlan tenant pid d =
     (let gone = (\<lambda>v. rv_tenant v = tenant \<and> rv_plan v = pid) in
      if exists_row (\<lambda>v. gone v \<and> receivableReferenced d v) (receivables d) then Inl SqlForeignKey
      else if exists_row (\<lambda>c. dc_plan c = Some pid) (dunning_cases d) then Inl SqlForeignKey
      else Inr (d\<lparr>receivables := delete_rows gone (receivables d),
                  plans := delete_rows (\<lambda>rp. rp_tenant rp = tenant \<and> rp_id rp = pid) (plans d)\<rparr>))"

definition movePlan :: "string \<Rightarrow> string \<Rightarrow> contractRevisionPlan \<Rightarrow> db \<Rightarrow> db" where
  "movePlan tenant snapshot pl d =
     d\<lparr>plans := update_rows (\<lambda>rp. rp_tenant rp = tenant \<and> rp_id rp = cp_id pl) (\<lambda>rp. rp\<lparr>rp_snapshot := snapshot\<rparr>) (plans d),
       receivables := (if cp_receivable pl = '''' then receivables d
         else update_rows (\<lambda>v. rv_tenant v = tenant \<and> rv_id v = cp_receivable pl) (\<lambda>v. v\<lparr>rv_snapshot := snapshot\<rparr>) (receivables d))\<rparr>"

definition revisePlan :: "string \<Rightarrow> string \<Rightarrow> contractRevisionPlan \<Rightarrow> revisionTerm \<Rightarrow> db \<Rightarrow> db" where
  "revisePlan tenant snapshot pl t d =
     d\<lparr>plans := update_rows (\<lambda>rp. rp_tenant rp = tenant \<and> rp_id rp = cp_id pl)
         (\<lambda>rp. rp\<lparr>rp_snapshot := snapshot, rp_due := rt_due t, rp_amount := rt_amount t, rp_version := rp_version rp + 1\<rparr>) (plans d),
       receivables := (if cp_status pl \<noteq> CONFIRMED then receivables d
         else update_rows (\<lambda>v. rv_tenant v = tenant \<and> rv_plan v = cp_id pl)
           (\<lambda>v. (receivableAdjusted (rt_due t) (rt_amount t) v)\<lparr>rv_snapshot := snapshot\<rparr>) (receivables d))\<rparr>"

definition auditContractRevisionPlan ::
  "env \<Rightarrow> nat \<Rightarrow> ContractEvent \<Rightarrow> int \<Rightarrow> contractRevisionPlan \<Rightarrow> string \<Rightarrow> revisionTerm option \<Rightarrow> db \<Rightarrow> db res" where
  "auditContractRevisionPlan e k ev from pl action term d =
     outbox e k (ce_tenant ev) ''PLATFORM_AUDIT'' ''SETTLEMENT_PLAN_ADJUSTED'' ''receivable_plan'' (cp_id pl)
       ([(''actor_id'', JStr ''SYSTEM''), (''action'', JStr action), (''revision_event_id'', JStr (ce_id ev)),
         (''source_contract_id'', JStr (ct_id (ce_contract ev))), (''from_contract_version'', JInt from),
         (''to_contract_version'', JInt (ct_version (ce_contract ev))), (''installment_no'', JInt (cp_no pl)),
         (''old_due_date'', JStr (cp_due pl)), (''old_amount'', JStr (money (cp_amount pl))),
         (''reason'', JStr ''contract financial revision''), (''result'', JStr ''SUCCESS''), (''risk_level'', JStr ''HIGH'')] @
        (case term of None \<Rightarrow> [] | Some t \<Rightarrow> [(''due_date'', JStr (rt_due t)), (''amount'', JStr (money (rt_amount t)))])) d"

text \<open>One plan of the old version; the count of identifiers goes along.\<close>

definition applyDecision ::
  "env \<Rightarrow> ContractEvent \<Rightarrow> int \<Rightarrow> string \<Rightarrow> contractRevisionPlan \<Rightarrow> revision_decision \<Rightarrow> nat \<Rightarrow> db \<Rightarrow> (nat \<times> db) res" where
  "applyDecision e ev from snapshot pl x k d =
     (case x of
        RemovePlan \<Rightarrow>
          andThen (deletePlan (ce_tenant ev) (cp_id pl) d) (\<lambda>d1.
          andThen (auditContractRevisionPlan e k ev from pl ''REMOVED'' None d1) (\<lambda>d2. Inr (k + 2, d2)))
      | AdjustTo t \<Rightarrow>
          (let d1 = revisePlan (ce_tenant ev) snapshot pl t d in
           if cp_status pl = CONFIRMED
           then andThen (auditContractRevisionPlan e k ev from pl ''ADJUSTED'' (Some t) d1) (\<lambda>d2. Inr (k + 2, d2))
           else Inr (k, d1))
      | _ \<Rightarrow> Inr (k, movePlan (ce_tenant ev) snapshot pl d))"

fun applyDecisions ::
  "env \<Rightarrow> ContractEvent \<Rightarrow> int \<Rightarrow> string \<Rightarrow> revisionTerm list \<Rightarrow> contractRevisionPlan list \<Rightarrow> nat \<Rightarrow> db \<Rightarrow> (nat \<times> db) res" where
  "applyDecisions e ev from snapshot terms [] k d = Inr (k, d)"
| "applyDecisions e ev from snapshot terms (pl # pls) k d =
     andThen (applyDecision e ev from snapshot pl (decidePlan terms pl) k d) (\<lambda>(k1, d1).
     applyDecisions e ev from snapshot terms pls k1 d1)"

fun insertCreated :: "env \<Rightarrow> string \<Rightarrow> string \<Rightarrow> revisionTerm list \<Rightarrow> nat \<Rightarrow> db \<Rightarrow> (nat \<times> db) res" where
  "insertCreated e tenant snapshot [] k d = Inr (k, d)"
| "insertCreated e tenant snapshot (t # ts) k d =
     andThen (insert_row plan_clash (eventPlan (e_ids e k) tenant snapshot (rt_no t) (rt_due t) (rt_amount t)) (plans d)) (\<lambda>l.
     insertCreated e tenant snapshot ts (Suc k) (d\<lparr>plans := l\<rparr>))"

definition showHoldReason :: "hold_reason \<Rightarrow> string" where
  "showHoldReason r = (case r of PLAN_DIFF_IMPLEMENTED_FACTS \<Rightarrow> ''PLAN_DIFF_IMPLEMENTED_FACTS'' | TERM_TOTAL_MISMATCH \<Rightarrow> ''TERM_TOTAL_MISMATCH'')"

definition hold_is :: "string \<Rightarrow> string \<Rightarrow> string \<Rightarrow> hold_reason \<Rightarrow> revision_hold \<Rightarrow> bool" where
  "hold_is tenant source event reason h \<longleftrightarrow> rh_tenant h = tenant \<and> rh_source h = source \<and> rh_event h = event \<and> rh_reason h = reason"

definition newHold ::
  "int \<Rightarrow> string \<Rightarrow> string \<Rightarrow> ContractEvent \<Rightarrow> int \<Rightarrow> hold_reason \<Rightarrow> string \<Rightarrow> contractRevisionDetail \<Rightarrow> revision_hold" where
  "newHold now hid source ev from reason snapshot detail =
     \<lparr>rh_id = hid, rh_tenant = ce_tenant ev, rh_source = source, rh_contract = ct_id (ce_contract ev),
      rh_contract_no = ct_no (ce_contract ev), rh_snapshot = snapshot, rh_event = ce_id ev, rh_from = from,
      rh_to = ct_version (ce_contract ev), rh_reason = reason, rh_diff = jsonDetail detail, rh_status = PENDING_REVIEW,
      rh_resolution = '''', rh_resolved_by = '''', rh_created = now\<rparr>"

definition registerContractRevisionHold ::
  "env \<Rightarrow> nat \<Rightarrow> string \<Rightarrow> ContractEvent \<Rightarrow> int \<Rightarrow> hold_reason \<Rightarrow> string \<Rightarrow> contractRevisionDetail \<Rightarrow> db \<Rightarrow> (string \<times> db) res" where
  "registerContractRevisionHold e k source ev from reason snapshot detail d =
     (case insert_row hold_clash (newHold (e_now e) (e_ids e k) source ev from reason snapshot detail) (revision_holds d) of
        Inl err \<Rightarrow>
          if err = SqlDuplicate
          then andThen (query_row SqlNoRows (hold_is (ce_tenant ev) source (ce_id ev) reason) (revision_holds d)) (\<lambda>h. Inr (rh_id h, d))
          else Inl err
      | Inr t \<Rightarrow>
          andThen (outbox e (k + 1) (ce_tenant ev) ''PLATFORM_AUDIT'' ''SETTLEMENT_CONTRACT_REVISION_HELD'' ''contract_revision_hold'' (e_ids e k)
            [(''actor_id'', JStr ''SYSTEM''), (''source_application'', JStr source), (''source_contract_id'', JStr (ct_id (ce_contract ev))),
             (''source_contract_no'', JStr (ct_no (ce_contract ev))), (''revision_event_id'', JStr (ce_id ev)),
             (''from_contract_version'', JInt from), (''to_contract_version'', JInt (ct_version (ce_contract ev))),
             (''hold_reason'', JStr (showHoldReason reason)), (''held_diffs'', JInt (int (length (de_diffs detail)))),
             (''result'', JStr ''SUCCESS''), (''risk_level'', JStr ''HIGH'')] (d\<lparr>revision_holds := t\<rparr>)) (\<lambda>d1.
          Inr (e_ids e k, d1)))"

definition currentSnapshot :: "string \<Rightarrow> string \<Rightarrow> string \<Rightarrow> int \<Rightarrow> contract_snapshot \<Rightarrow> bool" where
  "currentSnapshot tenant source contract version cs \<longleftrightarrow>
     cs_tenant cs = tenant \<and> cs_source cs = source \<and> cs_contract cs = Some contract \<and> cs_version cs = version \<and> cs_status cs = EFFECTIVE"

definition supersede :: "string \<Rightarrow> string \<Rightarrow> string \<Rightarrow> int \<Rightarrow> db \<Rightarrow> db" where
  "supersede tenant source contract version d =
     d\<lparr>snapshots := update_rows (currentSnapshot tenant source contract version) (\<lambda>cs. cs\<lparr>cs_status := SUPERSEDED\<rparr>) (snapshots d)\<rparr>"

text \<open>The plans are rewritten on the new snapshot: decisions, then new instalments, then a work item for what is held.\<close>

definition reviseOntoSnapshot ::
  "env \<Rightarrow> string \<Rightarrow> ContractEvent \<Rightarrow> int \<Rightarrow> int \<Rightarrow> contract_snapshot \<Rightarrow> revisionTerm list \<Rightarrow> contractRevisionDetail \<Rightarrow> db \<Rightarrow>
   (bool \<times> string \<times> db) res" where
  "reviseOntoSnapshot e source ev amt from old terms detail0 d =
     (let tenant = ce_tenant ev; contract = ct_id (ce_contract ev); sid = e_ids e 1;
          pls = loadContractRevisionPlans d tenant (cs_id old);
          diffs = heldDiffs terms pls;
          detail = detail0\<lparr>de_old_total := money (sum_list (map cp_amount pls)), de_diffs := diffs\<rparr>
      in
      andThen (insertSnapshot (newSnapshot sid source ev amt) d) (\<lambda>d1.
      andThen (applyDecisions e ev from sid terms pls 2 (supersede tenant source contract from d1)) (\<lambda>(k, d2).
      andThen (insertCreated e tenant sid (createdTerms terms pls) k d2) (\<lambda>(k1, d3).
      andThen (if diffs \<noteq> [] then
                 andThen (registerContractRevisionHold e k1 source ev from PLAN_DIFF_IMPLEMENTED_FACTS sid detail d3) (\<lambda>(hid, d4).
                 Inr (hid, k1 + 3, d4))
               else Inr ('''', k1, d3)) (\<lambda>(hid, k2, d4).
      andThen (outbox e k2 tenant ''PLATFORM_AUDIT'' ''SETTLEMENT_CONTRACT_REVISION_APPLIED'' ''contract_snapshot'' sid
        [(''actor_id'', JStr ''SYSTEM''), (''source_application'', JStr source), (''source_contract_id'', JStr contract),
         (''source_contract_no'', JStr (ct_no (ce_contract ev))), (''revision_event_id'', JStr (ce_id ev)),
         (''from_contract_version'', JInt from), (''to_contract_version'', JInt (ct_version (ce_contract ev))),
         (''old_contract_amount'', JStr (money (cs_amount old))), (''new_contract_amount'', JStr (money amt)),
         (''adjusted_plans'', JInt (int (length (filter (\<lambda>pl. adjusts (decidePlan terms pl)) pls)))),
         (''removed_plans'', JInt (int (length (filter (\<lambda>pl. decidePlan terms pl = RemovePlan) pls)))),
         (''created_plans'', JInt (int (length (createdTerms terms pls)))), (''held_diffs'', JInt (int (length diffs))),
         (''hold_id'', JStr hid), (''result'', JStr ''SUCCESS''), (''risk_level'', JStr ''MEDIUM'')] d4) (\<lambda>d5.
      Inr (diffs \<noteq> [], hid,
        advanceStream tenant source contract (ct_version (ce_contract ev))
          (finishInbox (e_ids e 0) (if diffs \<noteq> [] then INBOX_HELD else COMPLETED) d5))))))))"

definition applyContractRevision ::
  "env \<Rightarrow> string \<Rightarrow> ContractEvent \<Rightarrow> int \<Rightarrow> int \<Rightarrow> db \<Rightarrow> (bool \<times> string \<times> db) res" where
  "applyContractRevision e source ev amt from d =
     andThen (normalizeContractTerms (ct_terms (ce_contract ev))) (\<lambda>(terms, tot).
     andThen (query_row ErrConflict (currentSnapshot (ce_tenant ev) source (ct_id (ce_contract ev)) from) (snapshots d)) (\<lambda>old.
     if cs_migration old \<noteq> RELEASED then Inl ErrImportBlocked
     else let detail = \<lparr>de_from = from, de_to = ct_version (ce_contract ev), de_old_amount = money (cs_amount old),
                        de_new_amount = money amt, de_old_total = '''', de_new_total = money tot, de_terms = terms, de_diffs = []\<rparr>
     in if tot \<noteq> amt
        then andThen (registerContractRevisionHold e 1 source ev from TERM_TOTAL_MISMATCH '''' detail d) (\<lambda>(hid, d1).
             Inr (True, hid, finishInbox (e_ids e 0) INBOX_HELD d1))
        else reviseOntoSnapshot e source ev amt from old terms detail d))"

section \<open>Receiving an event\<close>

definition jsonImport :: "ContractImportCommand \<Rightarrow> json" where
  "jsonImport c =
     JObj [(''expected_facts'', case cc_expected c of None \<Rightarrow> JNull | Some fs \<Rightarrow>
         JArr (map (\<lambda>f. JArr [JStr (xf_system f), JStr (xf_type f), JStr (xf_external f)]) fs)),
       (''event_id'', JStr (cc_event c)), (''event_type'', JStr (cc_type c)), (''schema_version'', JInt (cc_schema c)),
       (''phase'', JStr (cc_phase c)), (''tenant_id'', JStr (cc_tenant c)), (''origin_import_item_id'', JStr (cc_item c)),
       (''source_revision'', JInt (int (cc_revision c))), (''policy_digest'', JStr (cc_digest c)),
       (''release_version'', JInt (int (cc_release c))), (''import_mode'', JStr (cc_mode c)),
       (''occurred_at'', case cc_occurred c of None \<Rightarrow> JNull | Some t \<Rightarrow> JStr t),
       (''contract'', case cc_contract c of None \<Rightarrow> JNull | Some b \<Rightarrow> JArr [JStr (ct_owner b), JStr (ct_id b), JStr (ct_no b),
          JInt (ct_version b), JStr (ct_customer b), JStr (ct_customer_name b), JStr (ct_project b), JStr (ct_project_name b),
          JStr (ct_currency b), JStr (ct_amount b), JArr (map jsonTerm (ct_terms b))]),
       (''reconciliation_id'', JStr (cc_reconciliation c)), (''expected_snapshot_version'', JInt (int (cc_snapshot_version c))),
       (''expected_owner_version'', JInt (int (cc_owner_version c)))]"

text \<open>The event of an inbox row that repeats a stored one is a duplicate, which is a success without effect.\<close>

definition acceptEvent ::
  "env \<Rightarrow> string \<Rightarrow> ContractEvent \<Rightarrow> (db \<Rightarrow> (ContractIngestResult \<times> db) res) \<Rightarrow> db \<Rightarrow> db \<Rightarrow> (ContractIngestResult \<times> db) res" where
  "acceptEvent e source ev apply d0 d =
     (case insert_row inbox_clash (newInbox (e_ids e 0) source ev) (inbox d) of
        Inl err \<Rightarrow> if err = SqlDuplicate then Inr (noIngest, d0) else Inl err
      | Inr t \<Rightarrow> apply (d\<lparr>inbox := t\<rparr>))"

definition ingestContract ::
  "env \<Rightarrow> string \<Rightarrow> string \<Rightarrow> ContractEvent \<Rightarrow> ContractImportCommand option \<Rightarrow> db \<Rightarrow> (ContractIngestResult \<times> db) res" where
  "ingestContract e source trustedTenant ev imported d =
     andThen (checkContractEvent source trustedTenant ev) (\<lambda>amt.
     let tenant = ce_tenant ev; contract = ct_id (ce_contract ev) in
     andThen (case imported of None \<Rightarrow> Inr (False, d)
              | Some c \<Rightarrow> andThen (claimIdempotency e tenant ''IMPORT_PREPARE'' (cc_event c) contract (jsonImport c) d)
                  (\<lambda>(_, replay, d1). Inr (replay, d1))) (\<lambda>(replay, d1).
     if replay then Inr (noIngest, d)
     else if exists_row (inbox_is tenant source (ce_id ev)) (inbox d1)
       then (if imported \<noteq> None then Inl ErrConflict else Inr (noIngest, d))
     else let d2 = ensureStream tenant source contract d1 in
     andThen (query_row SqlNoRows (stream_is tenant source contract) (streams d2)) (\<lambda>stream.
     if st_version stream \<noteq> 0
     then (if imported \<noteq> None \<or> ct_version (ce_contract ev) \<le> st_version stream then Inl ErrConflict
           else acceptEvent e source ev (\<lambda>d3.
             andThen (applyContractRevision e source ev amt (st_version stream) d3) (\<lambda>(held, hid, d4).
             Inr (\<lparr>Created = True, RevisionHeld = held, HoldID = hid\<rparr>, d4))) d d2)
     else acceptEvent e source ev (\<lambda>d3.
            andThen (baselineContract e source ev amt imported d3) (\<lambda>d4.
            Inr (\<lparr>Created = True, RevisionHeld = False, HoldID = ''''\<rparr>, d4))) d d2)))"

definition IngestContract :: "env \<Rightarrow> string \<Rightarrow> string \<Rightarrow> ContractEvent \<Rightarrow> db \<Rightarrow> (ContractIngestResult \<times> db) res" where
  "IngestContract e source trustedTenant ev d = ingestContract e source trustedTenant ev None d"

record ImportReceipt =
  ip_event :: string
  ip_snapshot :: string
  ip_status :: string
  ip_migration :: migration_state
  ip_duplicate :: bool

text \<open>A disabled import still answers the repetition of a command it has accepted.\<close>

definition importReplayOnly :: "Service \<Rightarrow> env \<Rightarrow> string \<Rightarrow> ContractImportCommand \<Rightarrow> db \<Rightarrow> unit res" where
  "importReplayOnly s e tenant c d =
     (if ContractImportEnabled s then Inr ()
      else case find (\<lambda>r. im_tenant r = tenant \<and> im_command r = ''IMPORT_PREPARE'' \<and> im_key r = cc_event c) (idempotency d) of
        None \<Rightarrow> Inl ErrForbidden
      | Some r \<Rightarrow> if im_hash r \<noteq> e_sha256 e (jsonImport c) then Inl ErrConflict else Inr ())"

definition PrepareContractImport ::
  "Service \<Rightarrow> env \<Rightarrow> string \<Rightarrow> ContractImportCommand \<Rightarrow> db \<Rightarrow> (ImportReceipt \<times> db) res" where
  "PrepareContractImport s e tenant c d =
     andThen (validateImportCommand tenant ''PREPARE'' c) (\<lambda>_.
     andThen (importReplayOnly s e tenant c d) (\<lambda>_.
     case cc_contract c of
       None \<Rightarrow> Inl ErrInvalid
     | Some body \<Rightarrow>
         if ct_owner body = '''' \<or> length (cc_event c) > 32 then Inl ErrInvalid
         else andThen (ingestContract e ''contract_management'' tenant
                \<lparr>ce_id = cc_event c, ce_type = ''contract.financial_effective.v1'', ce_tenant = tenant,
                 ce_occurred = (case cc_occurred c of None \<Rightarrow> '''' | Some t \<Rightarrow> t), ce_aggregate = '''', ce_aggregate_version = 0,
                 ce_contract = body\<rparr> (Some c) d) (\<lambda>(created, d1).
              andThen (query_row SqlNoRows (\<lambda>cs. cs_tenant cs = tenant \<and> cs_source cs = ''contract_management'' \<and>
                  cs_event cs = cc_event c) (snapshots d1)) (\<lambda>cs.
              Inr (\<lparr>ip_event = cc_event c, ip_snapshot = cs_id cs, ip_status = ''FINANCE_PREPARED'',
                    ip_migration = cs_migration cs, ip_duplicate = (\<not> Created created)\<rparr>, d1)))))"

section \<open>Work items\<close>

record ContractRevisionHoldQuery =
  hq_limit :: int
  hq_offset :: int
  hq_status :: string
  hq_contract :: string

definition contractRevisionHoldQuery :: "ContractRevisionHoldQuery list \<Rightarrow> ContractRevisionHoldQuery res" where
  "contractRevisionHoldQuery inputs =
     (if length inputs > 1 then Inl ErrInvalid
      else let q0 = (case inputs of [] \<Rightarrow> \<lparr>hq_limit = 100, hq_offset = 0, hq_status = '''', hq_contract = ''''\<rparr> | q # _ \<Rightarrow> q);
               q = q0\<lparr>hq_status := trimSpace (hq_status q0), hq_contract := trimSpace (hq_contract q0),
                      hq_limit := (if hq_limit q0 = 0 then 100 else hq_limit q0)\<rparr>
      in if hq_limit q < 1 \<or> hq_limit q > 200 \<or> hq_offset q < 0 \<or> hq_offset q > 100000 \<or> textTooLong (hq_contract q) 128
         then Inl ErrInvalid
         else if hq_status q \<noteq> '''' \<and> hq_status q \<noteq> ''PENDING_REVIEW'' \<and> hq_status q \<noteq> ''RESOLVED'' then Inl ErrInvalid
         else Inr q)"

definition showHoldStatus :: "hold_status \<Rightarrow> string" where
  "showHoldStatus st = (case st of PENDING_REVIEW \<Rightarrow> ''PENDING_REVIEW'' | RESOLVED \<Rightarrow> ''RESOLVED'')"

text \<open>The access predicate on a work item: the clauses read its tenant and its contract.\<close>

definition holdVisible :: "Service \<Rightarrow> Principal \<Rightarrow> db \<Rightarrow> revision_hold \<Rightarrow> bool" where
  "holdVisible s p d h =
     (let permission = ''settlement.revision.read'';
          owns = list_ex (\<lambda>cr. rs_tenant cr = rh_tenant h \<and> rs_contract cr = rh_contract h \<and> rs_active cr \<and>
                   rs_owner cr = p_user p) (responsibilities d);
          assists = list_ex (\<lambda>pa. list_ex (\<lambda>pr. pr_tenant pr = pa_tenant pa \<and> pr_project pr = pa_project pa \<and> pr_active pr \<and>
                     pr_contract pr = rh_contract h) (project_references d) \<and>
                   pa_tenant pa = rh_tenant h \<and> pa_user pa = p_user p \<and> pa_active pa) (project_assignments d)
      in if \<not> Allows p permission then False
         else if Unrestricted s p permission then True
         else if p_user p = '''' then False
         else list_ex (\<lambda>role. grants s role permission \<and>
                (role = ''settlement_sales'' \<and> owns \<or> role = ''settlement_project_assistant'' \<and> assists)) (p_roles p))"

definition laterHold :: "revision_hold \<Rightarrow> revision_hold \<Rightarrow> bool" where
  "laterHold a b \<longleftrightarrow> rh_created b < rh_created a \<or> (rh_created a = rh_created b \<and> strLess (rh_id b) (rh_id a))"

definition ListContractRevisionHoldsPage ::
  "Service \<Rightarrow> Principal \<Rightarrow> ContractRevisionHoldQuery \<Rightarrow> db \<Rightarrow> revision_hold list res" where
  "ListContractRevisionHoldsPage s p query d =
     (if \<not> Allows p ''settlement.revision.read'' then Inl ErrForbidden
      else andThen (contractRevisionHoldQuery [query]) (\<lambda>q.
        Inr (take (nat (hq_limit q)) (drop (nat (hq_offset q)) (orderBy laterHold
          (filter (\<lambda>h. rh_tenant h = p_tenant p \<and> holdVisible s p d h \<and>
             (hq_status q = '''' \<or> showHoldStatus (rh_status h) = hq_status q) \<and>
             (hq_contract q = '''' \<or> rh_contract h = hq_contract q \<or> rh_contract_no h = hq_contract q)) (revision_holds d)))))))"

definition ResolveContractRevisionHold ::
  "Service \<Rightarrow> env \<Rightarrow> Principal \<Rightarrow> string \<Rightarrow> string \<Rightarrow> db \<Rightarrow> (unit \<times> db) res" where
  "ResolveContractRevisionHold s e p hid reason0 d =
     (if \<not> Allows p ''settlement.revision.resolve'' then Inl ErrForbidden
      else let reason = trimSpace reason0 in
      if trimSpace hid = '''' \<or> runeCount reason < 5 \<or> textTooLong reason 500 then Inl ErrInvalid
      else andThen (query_row ErrNotFound (\<lambda>h. rh_tenant h = p_tenant p \<and> rh_id h = hid) (revision_holds d)) (\<lambda>h.
      if rh_status h = RESOLVED then (if trimSpace (rh_resolution h) = reason then Inr ((), d) else Inl ErrConflict)
      else andThen (if rh_snapshot h = '''' then Inr d
                    else RequireContractAccessTx s p ''settlement.revision.resolve'' (rh_snapshot h) d) (\<lambda>d1.
      andThen (outbox e 0 (p_tenant p) ''PLATFORM_AUDIT'' ''SETTLEMENT_CONTRACT_REVISION_HOLD_RESOLVED'' ''contract_revision_hold'' hid
        [(''actor_id'', JStr (p_user p)), (''resolution'', JStr reason), (''contract_snapshot'', JStr (rh_snapshot h)),
         (''result'', JStr ''SUCCESS''), (''risk_level'', JStr ''HIGH'')]
        (d1\<lparr>revision_holds := update_rows (\<lambda>x. rh_tenant x = p_tenant p \<and> rh_id x = hid \<and> rh_status x = PENDING_REVIEW)
            (\<lambda>x. x\<lparr>rh_status := RESOLVED, rh_resolution := reason, rh_resolved_by := p_user p\<rparr>) (revision_holds d1)\<rparr>)) (\<lambda>d2.
      Inr ((), d2)))))"

section \<open>The stream of responsibilities\<close>

record ContractResponsibilityEvent =
  re_id :: string
  re_type :: string
  re_tenant :: string
  re_occurred :: "string option"
  re_contract :: string
  re_version :: nat
  re_owner :: string
  re_active :: bool

definition stableText :: "string \<Rightarrow> nat \<Rightarrow> bool" where
  "stableText v n \<longleftrightarrow> trimSpace v \<noteq> '''' \<and> v = trimSpace v \<and> \<not> textTooLong v n"

definition validateContractResponsibility :: "string \<Rightarrow> ContractResponsibilityEvent \<Rightarrow> unit res" where
  "validateContractResponsibility trustedTenant ev =
     (if trimSpace trustedTenant = '''' \<or> re_tenant ev \<noteq> trustedTenant then Inl ErrInvalid
      else if re_type ev \<noteq> ''contract.responsibility_changed.v1'' \<or> re_version ev = 0 \<or> re_occurred ev = None then Inl ErrInvalid
      else if \<not> stableText (re_id ev) 128 \<or> \<not> stableText (re_contract ev) 128 \<or> \<not> stableText (re_tenant ev) 64 then Inl ErrInvalid
      else if textTooLong (re_owner ev) 128 \<or> re_owner ev \<noteq> trimSpace (re_owner ev) \<or> re_active ev \<and> re_owner ev = '''' then Inl ErrInvalid
      else Inr ())"

definition jsonResponsibility :: "ContractResponsibilityEvent \<Rightarrow> json" where
  "jsonResponsibility ev = JObj [(''event_id'', JStr (re_id ev)), (''event_type'', JStr (re_type ev)), (''tenant_id'', JStr (re_tenant ev)),
     (''occurred_at'', case re_occurred ev of None \<Rightarrow> JNull | Some t \<Rightarrow> JStr t), (''source_contract_id'', JStr (re_contract ev)),
     (''source_version'', JInt (int (re_version ev))), (''owner_user_id'', JStr (re_owner ev)), (''active'', JBool (re_active ev))]"

definition resp_is :: "string \<Rightarrow> string \<Rightarrow> responsibility \<Rightarrow> bool" where
  "resp_is tenant contract r \<longleftrightarrow> rs_tenant r = tenant \<and> rs_contract r = contract"

definition ensureResponsibility :: "string \<Rightarrow> string \<Rightarrow> db \<Rightarrow> db" where
  "ensureResponsibility tenant contract d =
     (if exists_row (resp_is tenant contract) (responsibilities d) then d
      else d\<lparr>responsibilities := responsibilities d @
        [\<lparr>rs_tenant = tenant, rs_contract = contract, rs_owner = '''', rs_active = False, rs_version = 0\<rparr>]\<rparr>)"

definition IngestContractResponsibility ::
  "env \<Rightarrow> string \<Rightarrow> ContractResponsibilityEvent \<Rightarrow> db \<Rightarrow> (bool \<times> db) res" where
  "IngestContractResponsibility e trustedTenant ev d =
     andThen (validateContractResponsibility trustedTenant ev) (\<lambda>_.
     let tenant = re_tenant ev; hash = e_sha256 e (jsonResponsibility ev); d1 = ensureResponsibility tenant (re_contract ev) d in
     andThen (query_row SqlNoRows (resp_is tenant (re_contract ev)) (responsibilities d1)) (\<lambda>r.
     case find (\<lambda>x. ri_tenant x = tenant \<and> ri_event x = re_id ev) (responsibility_inbox (sides d1)) of
       Some x \<Rightarrow> if ri_hash x \<noteq> hash then Inl ErrConflict else Inr (False, d)
     | None \<Rightarrow>
         if re_version ev = rs_version r \<and> (rs_owner r \<noteq> re_owner ev \<or> rs_active r \<noteq> re_active ev) then Inl ErrConflict
         else andThen (insert_row responsibility_inbox_clash \<lparr>ri_tenant = tenant, ri_event = re_id ev, ri_hash = hash\<rparr>
                (responsibility_inbox (sides d1))) (\<lambda>t.
         let d2 = d1\<lparr>sides := (sides d1)\<lparr>responsibility_inbox := t\<rparr>\<rparr> in
         if re_version ev > rs_version r
         then Inr (True, d2\<lparr>responsibilities := update_rows (resp_is tenant (re_contract ev))
                (\<lambda>x. x\<lparr>rs_owner := re_owner ev, rs_version := re_version ev, rs_active := re_active ev\<rparr>) (responsibilities d2)\<rparr>)
         else Inr (False, d2))))"

end
