(* ===== verification/ContractProps.thy ===== *)
theory ContractProps
  imports Contracts InvoiceSamples
begin

text \<open>
  Properties of received contracts: what the plans of a contract add up to after any version, that
  a revision leaves the facts that have happened alone, that events are received once, and that
  the responsibility for a contract does not depend on the order in which events arrive.
\<close>

section \<open>Sums over plans\<close>

lemma sum_delete_none:
  assumes "\<And>r. r \<in> set t \<Longrightarrow> Q r \<Longrightarrow> \<not> P r"
  shows "sum_rows P g (delete_rows Q t) = sum_rows P g t"
proof -
  have "filter P (filter (\<lambda>r. \<not> Q r) t) = filter P t" using assms by (induction t) auto
  then show ?thesis by (simp add: sum_rows_def delete_rows_def)
qed

lemma sum_insert: "insert_row c r t = Inr t' \<Longrightarrow> sum_rows P g t' = sum_rows P g t + (if P r then g r else 0)"
  by (auto simp: insert_row_Inr sum_rows_def)

text \<open>The rows of plans are keyed by their identifier and by contract and instalment.\<close>

definition plan_keys :: "receivable_plan list \<Rightarrow> bool" where
  "plan_keys l \<longleftrightarrow> keyed rp_id l \<and> keyed (\<lambda>rp. (rp_tenant rp, rp_snapshot rp, rp_installment rp)) l"

text \<open>What one plan contributes to the new version.\<close>

definition carried :: "revisionTerm list \<Rightarrow> contractRevisionPlan \<Rightarrow> int" where
  "carried terms pl = (case decidePlan terms pl of RemovePlan \<Rightarrow> 0 | AdjustTo t \<Rightarrow> rt_amount t | _ \<Rightarrow> cp_amount pl)"

definition newAmount :: "revisionTerm list \<Rightarrow> int \<Rightarrow> int" where
  "newAmount terms n = (case find (\<lambda>t. rt_no t = n) terms of None \<Rightarrow> 0 | Some t \<Rightarrow> rt_amount t)"

text \<open>What held plans have more than the new terms give them.\<close>

definition heldGap :: "revisionTerm list \<Rightarrow> contractRevisionPlan list \<Rightarrow> int" where
  "heldGap terms pls = (\<Sum>pl\<leftarrow>pls. case decidePlan terms pl of HoldPlan _ \<Rightarrow> cp_amount pl - newAmount terms (cp_no pl) | _ \<Rightarrow> 0)"

lemma carried_new:
  "carried terms pl = newAmount terms (cp_no pl) +
     (case decidePlan terms pl of HoldPlan _ \<Rightarrow> cp_amount pl - newAmount terms (cp_no pl) | _ \<Rightarrow> 0)"
  by (auto simp: carried_def decidePlan_def newAmount_def termFor_def amountChanged_def split: option.splits)

lemma carried_total: "(\<Sum>pl\<leftarrow>pls. carried terms pl) = (\<Sum>pl\<leftarrow>pls. newAmount terms (cp_no pl)) + heldGap terms pls"
  by (simp add: heldGap_def sum_list_addf [symmetric] carried_new)

lemma matched_total:
  assumes "distinct (map rt_no terms)" "distinct (map cp_no pls)"
  shows "(\<Sum>pl\<leftarrow>pls. newAmount terms (cp_no pl)) + (\<Sum>t\<leftarrow>createdTerms terms pls. rt_amount t) = (\<Sum>t\<leftarrow>terms. rt_amount t)"
proof -
  let ?f = "newAmount terms" and ?T = "set (map rt_no terms)" and ?P = "set (map cp_no pls)"
  have amt: "rt_amount t = ?f (rt_no t)" if "t \<in> set terms" for t
  proof -
    have "find (\<lambda>x. rt_no x = rt_no t) terms = Some t" using assms(1) that
      by (induction terms) (auto simp: image_iff)
    then show ?thesis by (simp add: newAmount_def)
  qed
  have "(\<Sum>pl\<leftarrow>pls. ?f (cp_no pl)) = sum_list (map ?f (map cp_no pls))" by (simp add: comp_def)
  also have "\<dots> = sum ?f ?P" by (rule sum_list_distinct_conv_sum_set [OF assms(2)])
  also have "\<dots> = sum ?f (?P \<inter> ?T)"
    by (rule sum.mono_neutral_right) (auto simp: newAmount_def image_iff split: option.splits dest!: find_SomeD, metis)
  finally have l: "(\<Sum>pl\<leftarrow>pls. ?f (cp_no pl)) = sum ?f (?P \<inter> ?T)" .
  have "(\<Sum>t\<leftarrow>createdTerms terms pls. rt_amount t) = sum_list (map ?f (map rt_no (createdTerms terms pls)))"
    unfolding map_map comp_def by (rule arg_cong [where f = sum_list], rule map_cong) (auto simp: createdTerms_def amt)
  also have "\<dots> = sum ?f (set (map rt_no (createdTerms terms pls)))"
    by (rule sum_list_distinct_conv_sum_set) (use assms(1) in \<open>simp add: createdTerms_def distinct_map_filter\<close>)
  also have "set (map rt_no (createdTerms terms pls)) = ?T - ?P" by (auto simp: createdTerms_def list_ex_iff image_iff) metis
  finally have c: "(\<Sum>t\<leftarrow>createdTerms terms pls. rt_amount t) = sum ?f (?T - ?P)" .
  have "(\<Sum>t\<leftarrow>terms. rt_amount t) = sum_list (map ?f (map rt_no terms))"
    unfolding map_map comp_def by (rule arg_cong [where f = sum_list], rule map_cong) (auto simp: amt)
  also have "\<dots> = sum ?f ?T" by (rule sum_list_distinct_conv_sum_set [OF assms(1)])
  also have "\<dots> = sum ?f (?P \<inter> ?T) + sum ?f (?T - ?P)"
    using sum.Int_Diff [of ?T ?f ?P] by (simp add: Int_commute)
  finally show ?thesis using l c by simp
qed

lemma normalizeTermsFrom_nos:
  "normalizeTermsFrom seen ts = Inr l \<Longrightarrow> distinct (map rt_no l) \<and> set (map rt_no l) \<inter> set seen = {}"
proof (induction ts arbitrary: seen l)
  case (Cons t ts)
  then obtain l' where "normalizeTermsFrom (pt_no t # seen) ts = Inr l'" "pt_no t \<notin> set seen" "map rt_no l = pt_no t # map rt_no l'"
    by (auto simp: andThen_eq_Inr split: if_splits)
  with Cons.IH [of "pt_no t # seen" l'] show ?case by auto
qed simp

section \<open>The plans of a revised contract\<close>

lemma plans_frames [simp]:
  "plans (finishInbox x st d) = plans d" "plans (advanceStream t s c v d) = plans d" "plans (supersede t s c v d) = plans d"
  "plans (ensureStream t s c d) = plans d"
  by (simp_all add: finishInbox_def advanceStream_def supersede_def ensureStream_def)

lemma insertSnapshot_Inr: "insertSnapshot cs d = Inr d' \<longleftrightarrow> \<not> list_ex (snapshot_clash cs) (snapshots d) \<and> d' = d\<lparr>snapshots := snapshots d @ [cs]\<rparr>"
  by (auto simp: insertSnapshot_def insert_row_def split: sum.splits if_splits)

lemma outbox_plans: "outbox e k t a b c i m d = Inr d' \<Longrightarrow> plans d' = plans d \<and> receivables d' = receivables d"
  by (drule outbox_frame) (simp add: eventFrame_tables)

lemma registerHold_plans:
  "registerContractRevisionHold e k source ev v reason sn detail d = Inr (hid, d') \<Longrightarrow> plans d' = plans d \<and> receivables d' = receivables d"
  by (auto simp: registerContractRevisionHold_def andThen_eq_Inr split: sum.splits if_splits dest!: outbox_plans)

lemmas audit_plans = outbox_plans [of _ _ _ "''PLATFORM_AUDIT''" "''SETTLEMENT_PLAN_ADJUSTED''", folded auditContractRevisionPlan_def]

text \<open>One plan: its row is the row with its identifier, and it changes only there.\<close>

definition rowAfter :: "string \<Rightarrow> contractRevisionPlan \<Rightarrow> revision_decision \<Rightarrow> receivable_plan \<Rightarrow> receivable_plan" where
  "rowAfter snapshot pl x rp = (case x of AdjustTo t \<Rightarrow>
     rp\<lparr>rp_snapshot := snapshot, rp_due := rt_due t, rp_amount := rt_amount t, rp_version := rp_version rp + 1\<rparr>
     | _ \<Rightarrow> rp\<lparr>rp_snapshot := snapshot\<rparr>)"

lemma applyDecision_plans:
  assumes "applyDecision e ev v sn pl x k d = Inr (k', d')"
  shows "plans d' = (if x = RemovePlan then delete_rows (\<lambda>rp. rp_tenant rp = ce_tenant ev \<and> rp_id rp = cp_id pl) (plans d)
     else update_rows (\<lambda>rp. rp_tenant rp = ce_tenant ev \<and> rp_id rp = cp_id pl) (rowAfter sn pl x) (plans d))"
  using assms
  by (cases x) (auto simp: applyDecision_def rowAfter_def [abs_def] auditContractRevisionPlan_def deletePlan_def movePlan_def revisePlan_def Let_def andThen_eq_Inr
      split: if_splits dest!: outbox_plans)

lemma rowAfter_simps [simp]: "rp_id (rowAfter sn pl x rp) = rp_id rp" "rp_tenant (rowAfter sn pl x rp) = rp_tenant rp"
  "rp_snapshot (rowAfter sn pl x rp) = sn" "rp_installment (rowAfter sn pl x rp) = rp_installment rp"
  "rp_amount (rowAfter sn pl x rp) = (case x of AdjustTo t \<Rightarrow> rt_amount t | _ \<Rightarrow> rp_amount rp)"
  by (simp_all add: rowAfter_def split: revision_decision.splits)

text \<open>The rows that the rest of the loop still has to rewrite.\<close>

definition awaiting :: "string \<Rightarrow> string \<Rightarrow> receivable_plan list \<Rightarrow> contractRevisionPlan list \<Rightarrow> bool" where
  "awaiting tenant old l pls \<longleftrightarrow> distinct (map cp_id pls) \<and>
     (\<forall>pl \<in> set pls. \<exists>rp \<in> set l. rp_id rp = cp_id pl \<and> rp_tenant rp = tenant \<and> rp_snapshot rp = old \<and> rp_amount rp = cp_amount pl)"

lemma awaiting_step:
  assumes "awaiting tenant old l (pl # pls)"
    "l' = (if x = RemovePlan then delete_rows (\<lambda>rp. rp_tenant rp = tenant \<and> rp_id rp = cp_id pl) l
       else update_rows (\<lambda>rp. rp_tenant rp = tenant \<and> rp_id rp = cp_id pl) (rowAfter sn pl x) l)"
  shows "awaiting tenant old l' pls"
proof -
  have "\<exists>rp \<in> set l'. rp_id rp = cp_id q \<and> rp_tenant rp = tenant \<and> rp_snapshot rp = old \<and> rp_amount rp = cp_amount q" if q: "q \<in> set pls" for q
  proof -
    from assms(1) q obtain rp where rp: "rp \<in> set l" "rp_id rp = cp_id q" "rp_tenant rp = tenant" "rp_snapshot rp = old" "rp_amount rp = cp_amount q"
      by (auto simp: awaiting_def)
    have "cp_id q \<noteq> cp_id pl" using assms(1) imageI [OF q, of cp_id] by (simp add: awaiting_def) metis
    with rp have "rp \<in> set l'" by (auto simp: assms(2) delete_rows_def update_rows_def intro!: image_eqI [of _ _ rp])
    with rp show ?thesis by blast
  qed
  then show ?thesis using assms(1) by (simp add: awaiting_def)
qed

lemma applyDecision_sum:
  assumes "applyDecision e ev v sn pl (decidePlan terms pl) k d = Inr (k', d')" "keyed rp_id (plans d)"
    "awaiting (ce_tenant ev) old (plans d) (pl # pls)" "old \<noteq> sn"
  shows "sum_rows (planOf (ce_tenant ev) sn) rp_amount (plans d') = sum_rows (planOf (ce_tenant ev) sn) rp_amount (plans d) + carried terms pl"
    "keyed rp_id (plans d')" "awaiting (ce_tenant ev) old (plans d') pls"
proof -
  let ?sel = "\<lambda>rp. rp_tenant rp = ce_tenant ev \<and> rp_id rp = cp_id pl" and ?x = "decidePlan terms pl"
  note rows = applyDecision_plans [OF assms(1)]
  from assms(3) obtain rp where rp: "rp \<in> set (plans d)" "rp_id rp = cp_id pl" "rp_tenant rp = ce_tenant ev" "rp_snapshot rp = old" "rp_amount rp = cp_amount pl"
    by (auto simp: awaiting_def)
  have only: "y = rp" if "y \<in> set (plans d)" "?sel y" for y using plan_t.row_unique [OF assms(2) that(1) rp(1)] that(2) rp(2) by simp
  show "sum_rows (planOf (ce_tenant ev) sn) rp_amount (plans d') = sum_rows (planOf (ce_tenant ev) sn) rp_amount (plans d) + carried terms pl"
  proof (cases "?x = RemovePlan")
    case True
    have "sum_rows (planOf (ce_tenant ev) sn) rp_amount (delete_rows ?sel (plans d)) = sum_rows (planOf (ce_tenant ev) sn) rp_amount (plans d)"
      by (rule sum_delete_none) (use only rp(4) assms(4) in \<open>auto simp: planOf_def\<close>)
    with True rows show ?thesis by (simp add: carried_def)
  next
    case False
    have "sum_rows (planOf (ce_tenant ev) sn) rp_amount (update_rows ?sel (rowAfter sn pl ?x) (plans d)) = sum_rows (planOf (ce_tenant ev) sn) rp_amount (plans d)
        - (if planOf (ce_tenant ev) sn rp then rp_amount rp else 0)
        + (if planOf (ce_tenant ev) sn (rowAfter sn pl ?x rp) then rp_amount (rowAfter sn pl ?x rp) else 0)"
      by (rule plan_t.sum_update_by_key [OF assms(2) rp(1)]) (use rp in auto)
    moreover have "\<not> planOf (ce_tenant ev) sn rp" using rp(4) assms(4) by (simp add: planOf_def)
    moreover have "planOf (ce_tenant ev) sn (rowAfter sn pl ?x rp)" using rp(3) by (simp add: planOf_def)
    ultimately show ?thesis using False rows rp(5) by (cases ?x) (simp_all add: carried_def)
  qed
  show "keyed rp_id (plans d')" unfolding rows
    using plan_t.delete_keyed [OF assms(2)] plan_t.update_keyed [OF assms(2), of ?sel "rowAfter sn pl ?x"] by simp
  show "awaiting (ce_tenant ev) old (plans d') pls" by (rule awaiting_step [OF assms(3) rows])
qed

lemma applyDecisions_sum:
  assumes "applyDecisions e ev v sn terms pls k d = Inr (k', d')" "keyed rp_id (plans d)"
    "awaiting (ce_tenant ev) old (plans d) pls" "old \<noteq> sn"
  shows "sum_rows (planOf (ce_tenant ev) sn) rp_amount (plans d') =
     sum_rows (planOf (ce_tenant ev) sn) rp_amount (plans d) + (\<Sum>pl\<leftarrow>pls. carried terms pl)"
  using assms
proof (induction pls arbitrary: k d)
  case (Cons pl pls)
  from Cons.prems(1) obtain k1 d1 where s: "applyDecision e ev v sn pl (decidePlan terms pl) k d = Inr (k1, d1)"
    "applyDecisions e ev v sn terms pls k1 d1 = Inr (k', d')" by (auto simp: andThen_eq_Inr)
  note one = applyDecision_sum [OF s(1) Cons.prems(2-4)]
  from Cons.IH [OF s(2) one(2,3) Cons.prems(4)] one(1) show ?case by simp
qed simp

lemma planOf_event [simp]: "planOf tenant sn (eventPlan pid tenant sn no day a)" "rp_amount (eventPlan pid tenant sn no day a) = a"
  by (simp_all add: planOf_def eventPlan_def)

lemma insertCreated_sum:
  "insertCreated e tenant sn ts k d = Inr (k', d') \<Longrightarrow>
     sum_rows (planOf tenant sn) rp_amount (plans d') = sum_rows (planOf tenant sn) rp_amount (plans d) + (\<Sum>t\<leftarrow>ts. rt_amount t)"
proof (induction ts arbitrary: k d)
  case (Cons t ts)
  then obtain l where l: "insert_row plan_clash (eventPlan (e_ids e k) tenant sn (rt_no t) (rt_due t) (rt_amount t)) (plans d) = Inr l"
    "insertCreated e tenant sn ts (Suc k) (d\<lparr>plans := l\<rparr>) = Inr (k', d')" by (auto simp: andThen_eq_Inr)
  from Cons.IH [OF l(2)] sum_insert [OF l(1), of "planOf tenant sn" rp_amount] show ?case by (simp add: planOf_event)
qed simp

lemma insertTerms_sum:
  "insertTerms e k tenant sn tot ts d = Inr (tot', d') \<Longrightarrow>
     sum_rows (planOf tenant sn) rp_amount (plans d') - tot' = sum_rows (planOf tenant sn) rp_amount (plans d) - tot"
proof (induction ts arbitrary: k tot d)
  case (Cons t ts)
  then obtain a l where l: "insert_row plan_clash (eventPlan (e_ids e k) tenant sn (pt_no t) (pt_due t) a) (plans d) = Inr l"
    "insertTerms e (Suc k) tenant sn (tot + a) ts (d\<lparr>plans := l\<rparr>) = Inr (tot', d')" by (auto simp: andThen_eq_Inr split: if_splits)
  from Cons.IH [OF l(2)] sum_insert [OF l(1), of "planOf tenant sn" rp_amount] show ?case by (simp add: planOf_event)
qed simp
lemma distinct_insertBy: "distinct (map key (insertBy before r l)) = (key r \<notin> key ` set l \<and> distinct (map key l))"
  by (induction l) auto

lemma distinct_orderBy: "distinct (map key (orderBy before l)) = distinct (map key l)"
proof (induction l)
  case (Cons r l)
  have "orderBy before (r # l) = insertBy before r (orderBy before l)" by (simp add: orderBy_def)
  with Cons show ?case by (simp add: distinct_insertBy)
qed (simp add: orderBy_def)

lemma loaded_plans:
  assumes "plan_keys (plans d)"
  shows "awaiting tenant old (plans d) (loadContractRevisionPlans d tenant old)"
    "distinct (map cp_no (loadContractRevisionPlans d tenant old))"
proof -
  let ?l = "filter (planOf tenant old) (plans d)" and ?before = "\<lambda>a b. rp_installment a < rp_installment b"
  have id: "map cp_id (loadContractRevisionPlans d tenant old) = map rp_id (orderBy ?before ?l)"
    and no: "map cp_no (loadContractRevisionPlans d tenant old) = map rp_installment (orderBy ?before ?l)"
    by (simp_all add: loadContractRevisionPlans_def revisionPlan_def comp_def)
  have "inj_on rp_installment (set ?l)" "distinct (plans d)"
    using assms by (auto simp: plan_keys_def keyed_def distinct_map inj_on_def planOf_def)
  then have "distinct (map rp_installment ?l)" by (simp add: distinct_map)
  then show "distinct (map cp_no (loadContractRevisionPlans d tenant old))" by (simp add: no distinct_orderBy)
  have "distinct (map rp_id ?l)" using assms by (simp add: plan_keys_def keyed_def distinct_map_filter)
  then have "distinct (map cp_id (loadContractRevisionPlans d tenant old))" by (simp add: id distinct_orderBy)
  moreover have "\<exists>rp \<in> set (plans d). rp_id rp = cp_id pl \<and> rp_tenant rp = tenant \<and> rp_snapshot rp = old \<and> rp_amount rp = cp_amount pl"
    if "pl \<in> set (loadContractRevisionPlans d tenant old)" for pl
    using that by (auto simp: loadContractRevisionPlans_def revisionPlan_def planOf_def)
  ultimately show "awaiting tenant old (plans d) (loadContractRevisionPlans d tenant old)" by (simp add: awaiting_def)
qed

lemma no_diffs_no_gap: "heldDiffs terms pls = [] \<Longrightarrow> heldGap terms pls = 0"
  by (induction pls) (auto simp: heldDiffs_def heldGap_def split: revision_decision.splits)

text \<open>The steps of a revision that changes plans.\<close>

lemma reviseOntoSnapshot_Inr:
  assumes "reviseOntoSnapshot e source ev amt from old terms detail d = Inr (onHold, hid, d')"
  obtains k d2 k1 d3 where
    "\<not> list_ex (snapshot_clash (newSnapshot (e_ids e 1) source ev amt)) (snapshots d)"
    "applyDecisions e ev from (e_ids e 1) terms (loadContractRevisionPlans d (ce_tenant ev) (cs_id old)) 2
       (supersede (ce_tenant ev) source (ct_id (ce_contract ev)) from (d\<lparr>snapshots := snapshots d @ [newSnapshot (e_ids e 1) source ev amt]\<rparr>)) = Inr (k, d2)"
    "insertCreated e (ce_tenant ev) (e_ids e 1) (createdTerms terms (loadContractRevisionPlans d (ce_tenant ev) (cs_id old))) k d2 = Inr (k1, d3)"
    "plans d' = plans d3" "receivables d' = receivables d3"
    "onHold = (heldDiffs terms (loadContractRevisionPlans d (ce_tenant ev) (cs_id old)) \<noteq> [])"
  using assms unfolding reviseOntoSnapshot_def Let_def
  by (auto simp: andThen_eq_Inr insertSnapshot_Inr split: if_splits
      dest!: registerHold_plans outbox_plans intro: that simp: finishInbox_def advanceStream_def)

lemma revision_sum:
  assumes r: "reviseOntoSnapshot e source ev amt from old terms detail d = Inr (onHold, hid, d')"
    and keys: "plan_keys (plans d)" and fresh: "\<And>rp. rp \<in> set (plans d) \<Longrightarrow> rp_snapshot rp \<noteq> e_ids e 1"
    and old: "old \<in> set (snapshots d)" and terms: "distinct (map rt_no terms)"
  shows "sum_rows (planOf (ce_tenant ev) (e_ids e 1)) rp_amount (plans d') =
    (\<Sum>t\<leftarrow>terms. rt_amount t) + heldGap terms (loadContractRevisionPlans d (ce_tenant ev) (cs_id old))"
    "onHold = (heldDiffs terms (loadContractRevisionPlans d (ce_tenant ev) (cs_id old)) \<noteq> [])"
proof -
  let ?pls = "loadContractRevisionPlans d (ce_tenant ev) (cs_id old)" and ?P = "planOf (ce_tenant ev) (e_ids e 1)"
  from r obtain k d2 k1 d3 where s: "\<not> list_ex (snapshot_clash (newSnapshot (e_ids e 1) source ev amt)) (snapshots d)"
    "applyDecisions e ev from (e_ids e 1) terms ?pls 2
       (supersede (ce_tenant ev) source (ct_id (ce_contract ev)) from (d\<lparr>snapshots := snapshots d @ [newSnapshot (e_ids e 1) source ev amt]\<rparr>)) = Inr (k, d2)"
    "insertCreated e (ce_tenant ev) (e_ids e 1) (createdTerms terms ?pls) k d2 = Inr (k1, d3)" "plans d' = plans d3"
    "onHold = (heldDiffs terms ?pls \<noteq> [])" by (rule reviseOntoSnapshot_Inr)
  note l = loaded_plans [OF keys, of "ce_tenant ev" "cs_id old"]
  have new: "cs_id old \<noteq> e_ids e 1" using s(1) old by (auto simp: list_ex_iff snapshot_clash_def newSnapshot_def Let_def)
  have "sum_rows ?P rp_amount (plans d) = 0"
    using fresh by (simp add: sum_rows_def planOf_def filter_empty_conv [THEN iffD2])
  with applyDecisions_sum [OF s(2) _ _ new] keys l(1)
  have "sum_rows ?P rp_amount (plans d2) = (\<Sum>pl\<leftarrow>?pls. carried terms pl)" by (simp add: plan_keys_def)
  with insertCreated_sum [OF s(3)] carried_total [of terms ?pls] matched_total [OF terms l(2)]
  show "sum_rows ?P rp_amount (plans d') = (\<Sum>t\<leftarrow>terms. rt_amount t) + heldGap terms ?pls" by (simp add: s(4))
  show "onHold = (heldDiffs terms ?pls \<noteq> [])" by (rule s(5))
qed

section \<open>Receiving an event\<close>

definition received :: "env \<Rightarrow> string \<Rightarrow> ContractEvent \<Rightarrow> db \<Rightarrow> db" where
  "received e source ev d = (ensureStream (ce_tenant ev) source (ct_id (ce_contract ev)) d)\<lparr>inbox := inbox d @ [newInbox (e_ids e 0) source ev]\<rparr>"

lemma received_tables [simp]: "plans (received e source ev d) = plans d" "snapshots (received e source ev d) = snapshots d"
  "receivables (received e source ev d) = receivables d" "allocations (received e source ev d) = allocations d"
  "inbox (received e source ev d) = inbox d @ [newInbox (e_ids e 0) source ev]"
  "invoice_allocations (received e source ev d) = invoice_allocations d" "dunning_cases (received e source ev d) = dunning_cases d"
  by (simp_all add: received_def ensureStream_def)

lemma IngestContract_Created:
  assumes "IngestContract e source tenant ev d = Inr (r, d')" "Created r"
  obtains (baseline) amt where "checkContractEvent source tenant ev = Inr amt" "\<not> RevisionHeld r"
      "baselineContract e source ev amt None (received e source ev d) = Inr d'"
    | (revision) amt stream where "checkContractEvent source tenant ev = Inr amt" "stream \<in> set (streams d)"
      "stream_is (ce_tenant ev) source (ct_id (ce_contract ev)) stream" "st_version stream < ct_version (ce_contract ev)"
      "applyContractRevision e source ev amt (st_version stream) (received e source ev d) = Inr (RevisionHeld r, HoldID r, d')"
proof -
  let ?t = "ce_tenant ev" and ?c = "ct_id (ce_contract ev)" and ?d2 = "ensureStream (ce_tenant ev) source (ct_id (ce_contract ev)) d"
  have ib: "inbox ?d2 = inbox d" by (simp add: ensureStream_def)
  have acc: "t = inbox d @ [newInbox (e_ids e 0) source ev]" if "insert_row inbox_clash (newInbox (e_ids e 0) source ev) (inbox ?d2) = Inr t" for t
    using that by (simp add: insert_row_Inr ib)
  from assms obtain amt stream where amt: "checkContractEvent source tenant ev = Inr amt"
    and st: "find (stream_is ?t source ?c) (streams ?d2) = Some stream"
    and rest: "(if st_version stream \<noteq> 0
     then (if ct_version (ce_contract ev) \<le> st_version stream then Inl ErrConflict
           else acceptEvent e source ev (\<lambda>d3.
             andThen (applyContractRevision e source ev amt (st_version stream) d3) (\<lambda>(held, hid, d4).
             Inr (\<lparr>Created = True, RevisionHeld = held, HoldID = hid\<rparr>, d4))) d ?d2)
     else acceptEvent e source ev (\<lambda>d3.
            andThen (baselineContract e source ev amt None d3) (\<lambda>d4.
            Inr (\<lparr>Created = True, RevisionHeld = False, HoldID = ''''\<rparr>, d4))) d ?d2) = Inr (r, d')"
    unfolding IngestContract_def ingestContract_def Let_def
    by (auto simp: andThen_eq_Inr query_row_Inr noIngest_def split: if_splits)
  show thesis
  proof (cases "st_version stream = 0")
    case True
    with rest assms(2) have "baselineContract e source ev amt None (received e source ev d) = Inr d' \<and> \<not> RevisionHeld r"
      by (auto simp: acceptEvent_def andThen_eq_Inr received_def noIngest_def split: sum.splits if_splits dest!: acc)
    then show ?thesis using baseline amt by blast
  next
    case False
    with rest assms(2) have app: "applyContractRevision e source ev amt (st_version stream) (received e source ev d) = Inr (RevisionHeld r, HoldID r, d')"
      and v: "st_version stream < ct_version (ce_contract ev)"
      by (auto simp: acceptEvent_def andThen_eq_Inr received_def noIngest_def split: sum.splits if_splits dest!: acc)
    have "stream \<in> set (streams d)" using find_SomeD [OF st] False by (auto simp: ensureStream_def split: if_splits)
    then show ?thesis using revision amt app v find_SomeD [OF st] by blast
  qed
qed

lemma baseline_sum:
  assumes "baselineContract e source ev amt None d = Inr d'" "\<And>rp. rp \<in> set (plans d) \<Longrightarrow> rp_snapshot rp \<noteq> e_ids e 1"
  shows "sum_rows (planOf (ce_tenant ev) (e_ids e 1)) rp_amount (plans d') = amt"
proof -
  from assms(1) obtain d3 where t: "insertTerms e 2 (ce_tenant ev) (e_ids e 1) 0 (ct_terms (ce_contract ev))
      (d\<lparr>snapshots := snapshots d @ [newSnapshot (e_ids e 1) source ev amt]\<rparr>) = Inr (amt, d3)" "plans d' = plans d3"
    by (auto simp: baselineContract_def andThen_eq_Inr insertSnapshot_Inr holdImport_def split: if_splits)
  have "sum_rows (planOf (ce_tenant ev) (e_ids e 1)) rp_amount (plans d) = 0"
    using assms(2) by (simp add: sum_rows_def planOf_def filter_empty_conv [THEN iffD2])
  with insertTerms_sum [OF t(1)] t(2) show ?thesis by simp
qed

text \<open>C6: an accepted version of a contract is planned to the cent. When an event is received without a work item, be it
  the first version or a revision of plans that were confirmed, changed, added or dropped, the plans
  of the new snapshot add up to the contract amount that the event states.\<close>

theorem contract_plans_total:
  assumes "IngestContract e source tenant ev d = Inr (r, d')" "Created r" "\<not> RevisionHeld r" "plan_keys (plans d)"
    "\<forall>rp \<in> set (plans d). rp_snapshot rp \<noteq> e_ids e 1"
  shows "amountCents (ct_amount (ce_contract ev)) = Inr (sum_rows (planOf (ce_tenant ev) (e_ids e 1)) rp_amount (plans d'))"
proof -
  have fresh: "rp_snapshot rp \<noteq> e_ids e 1" if "rp \<in> set (plans (received e source ev d))" for rp using assms(5) that by simp
  have amount: "amountCents (ct_amount (ce_contract ev)) = Inr amt" if "checkContractEvent source tenant ev = Inr amt" for amt
    using that by (auto simp: checkContractEvent_def Let_def andThen_eq_Inr split: if_splits)
  from assms(1,2) show ?thesis
  proof (cases rule: IngestContract_Created)
    case (baseline amt)
    show ?thesis using amount [OF baseline(1)] baseline_sum [OF baseline(3) fresh] by simp
  next
    case (revision amt stream)
    from revision(5) assms(3) obtain terms old detail hid where n: "normalizeContractTerms (ct_terms (ce_contract ev)) = Inr (terms, amt)"
      and old: "old \<in> set (snapshots d)"
      and rv: "reviseOntoSnapshot e source ev amt (st_version stream) old terms detail (received e source ev d) = Inr (False, hid, d')"
      unfolding applyContractRevision_def Let_def
      by (auto simp: andThen_eq_Inr query_row_Inr split: if_splits dest!: find_SomeD)
    from n have terms: "distinct (map rt_no terms)" "amt = (\<Sum>t\<leftarrow>terms. rt_amount t)"
      by (auto simp: normalizeContractTerms_def andThen_eq_Inr dest: normalizeTermsFrom_nos)
    have keys: "plan_keys (plans (received e source ev d))" "old \<in> set (snapshots (received e source ev d))" using assms(4) old by simp_all
    note sum = revision_sum [OF rv keys(1) fresh keys(2) terms(1)]
    show ?thesis using amount [OF revision(1)] sum terms(2) no_diffs_no_gap by simp
  qed
qed

text \<open>The second version of the sample contract: its instalment is smaller and there is a new one.\<close>

definition sampleBody :: "string \<Rightarrow> PaymentTerm list \<Rightarrow> ContractBody" where
  "sampleBody amt terms = \<lparr>ct_owner = ''amy'', ct_id = ''C'', ct_no = ''CN-1'', ct_version = 2, ct_customer = ''42'', ct_customer_name = ''Acme'',
     ct_project = '''', ct_project_name = '''', ct_currency = ''CNY'', ct_amount = amt, ct_terms = terms\<rparr>"

definition sampleVersion :: "string \<Rightarrow> PaymentTerm list \<Rightarrow> ContractEvent" where
  "sampleVersion amt terms = \<lparr>ce_id = ''E2'', ce_type = ''contract.financial_effective.v1'', ce_tenant = ''T'', ce_occurred = '''',
     ce_aggregate = '''', ce_aggregate_version = 0, ce_contract = sampleBody amt terms\<rparr>"

definition sampleTerms :: "PaymentTerm list" where
  "sampleTerms = [\<lparr>pt_no = 1, pt_due = ''2024-06-30'', pt_amount = money 7000\<rparr>, \<lparr>pt_no = 2, pt_due = ''2024-09-30'', pt_amount = money 5000\<rparr>]"

definition sampleContract :: db where
  "sampleContract = sampleStore\<lparr>streams := [\<lparr>st_tenant = ''T'', st_source = ''contract_management'', st_contract = ''C'', st_version = 1\<rparr>]\<rparr>"

lemma sampleContract_rows [simp]: "snapshots sampleContract = [sampleSnapshot]" "plans sampleContract = [samplePlan]"
  "receivables sampleContract = [sampleReceivable]" "inbox sampleContract = []" "outbox_events sampleContract = []" "audits sampleContract = []"
  "allocations sampleContract = []" "invoice_allocations sampleContract = []" "dunning_cases sampleContract = []" "revision_holds sampleContract = []"
  "streams sampleContract = [\<lparr>st_tenant = ''T'', st_source = ''contract_management'', st_contract = ''C'', st_version = 1\<rparr>]"
  by (simp_all add: sampleContract_def sampleStore_def empty_db_def)

lemma sample_contract_texts [simp]: "trimSpace ''contract_management'' = ''contract_management''" "trimSpace ''CN-1'' = ''CN-1''" "trimSpace ''C'' = ''C''"
  "trimSpace ''42'' = ''42''" "trimSpace ''Acme'' = ''Acme''" "trimSpace ''E2'' = ''E2''" "trimSpace ''2024-06-30'' = ''2024-06-30''"
  "trimSpace ''2024-09-30'' = ''2024-09-30''"
  by (simp_all add: plain_def byte_def asciiSpace_def)

lemma sample_dates [simp]: "parseDate ''2024-06-30'' = Some (2024, 6, 30)" "parseDate ''2024-09-30'' = Some (2024, 9, 30)"
  by (simp_all add: parseDate_def text_eval showDate.simps daysIn_def)

lemma sample_version_check [simp]:
  "0 < a \<Longrightarrow> terms \<noteq> [] \<Longrightarrow> checkContractEvent ''contract_management'' ''T'' (sampleVersion (money a) terms) = Inr a"
  by (simp add: checkContractEvent_def sampleVersion_def sampleBody_def required_def Let_def)

definition sampleLoaded :: contractRevisionPlan where
  "sampleLoaded = \<lparr>cp_id = ''P'', cp_no = 1, cp_due = ''2024-06-30'', cp_amount = 10000, cp_status = CONFIRMED, cp_receivable = ''V'',
     cp_references = 0, cp_facts = \<lparr>fa_received = 0, fa_writeoff = 0, fa_invoiced = 0, fa_reserved = 0\<rparr>\<rparr>"

lemma sample_loaded:
  assumes "plans d = [samplePlan]" "receivables d = [sampleReceivable]" "invoice_allocations d = []" "dunning_cases d = []"
  shows "loadContractRevisionPlans d ''T'' ''S'' = [sampleLoaded]"
  using assms by (simp add: loadContractRevisionPlans_def planOf_def samplePlan_def orderBy_def revisionPlan_def receivableOf_def sampleReceivable_def
      referencesOf_def affected_def factsOf_def reservedOf_def sum_rows_def sampleLoaded_def)

lemma revise_unheld:
  assumes "loadContractRevisionPlans d (ce_tenant ev) (cs_id old) = pls" "heldDiffs terms pls = []"
    "insertSnapshot (newSnapshot (e_ids e 1) source ev amt) d = Inr da"
    "applyDecisions e ev v (e_ids e 1) terms pls 2 (supersede (ce_tenant ev) source (ct_id (ce_contract ev)) v da) = Inr (k, db)"
    "insertCreated e (ce_tenant ev) (e_ids e 1) (createdTerms terms pls) k db = Inr (kk, dc)"
    "\<And>a b c g h m. \<exists>d. outbox e kk a b c g h m dc = Inr d"
  shows "\<exists>d'. reviseOntoSnapshot e source ev amt v old terms detail d = Inr (False, '''', d')"
  unfolding reviseOntoSnapshot_def Let_def using assms by (simp add: andThen_eq_Inr)

lemma sample_revision:
  "\<exists>d. IngestContract (freshEnv [''X1'', ''S2'', ''o1'', ''o2'', ''P2'', ''o3'', ''o4'']) ''contract_management'' ''T''
     (sampleVersion (money 12000) sampleTerms) sampleContract = Inr (\<lparr>Created = True, RevisionHeld = False, HoldID = ''''\<rparr>, d)"
proof -
  let ?e = "freshEnv [''X1'', ''S2'', ''o1'', ''o2'', ''P2'', ''o3'', ''o4'']" and ?ev = "sampleVersion (money 12000) sampleTerms"
  let ?t1 = "\<lparr>rt_no = 1, rt_due = ''2024-06-30'', rt_amount = 7000\<rparr>" and ?t2 = "\<lparr>rt_no = 2, rt_due = ''2024-09-30'', rt_amount = 5000\<rparr>"
  let ?r = "received ?e ''contract_management'' ?ev sampleContract"
  have ids: "e_ids ?e 1 = ''S2''" "e_ids ?e 2 = ''o1''" "e_ids ?e 3 = ''o2''" "e_ids ?e 4 = ''P2''" "e_ids ?e 5 = ''o3''" "e_ids ?e 6 = ''o4''"
    by (simp_all add: freshEnv_def)
  have ev: "ce_tenant ?ev = ''T''" "ct_id (ce_contract ?ev) = ''C''" "ct_version (ce_contract ?ev) = 2" "ce_id ?ev = ''E2''"
    by (simp_all add: sampleVersion_def sampleBody_def)
  have norm: "normalizeContractTerms (ct_terms (ce_contract ?ev)) = Inr ([?t1, ?t2], 12000)"
    by (simp add: normalizeContractTerms_def sampleVersion_def sampleBody_def sampleTerms_def)
  have cur: "currentSnapshot ''T'' ''contract_management'' ''C'' 1 sampleSnapshot" "cs_id sampleSnapshot = ''S''" "cs_migration sampleSnapshot = RELEASED"
    by (simp_all add: currentSnapshot_def sampleSnapshot_def)
  have ld: "loadContractRevisionPlans ?r ''T'' ''S'' = [sampleLoaded]" by (rule sample_loaded) simp_all
  have dec: "decidePlan [?t1, ?t2] sampleLoaded = AdjustTo ?t1" "heldDiffs [?t1, ?t2] [sampleLoaded] = []" "createdTerms [?t1, ?t2] [sampleLoaded] = [?t2]"
    by (simp_all add: decidePlan_def termFor_def sampleLoaded_def anyFact_def amountChanged_def heldDiffs_def createdTerms_def)
  let ?s = "?r\<lparr>snapshots := [sampleSnapshot, newSnapshot ''S2'' ''contract_management'' ?ev 12000]\<rparr>"
  have ins: "insertSnapshot (newSnapshot ''S2'' ''contract_management'' ?ev 12000) ?r = Inr ?s"
    by (simp add: insertSnapshot_Inr snapshot_clash_def newSnapshot_def Let_def sampleSnapshot_def sameValue_def ev)
  let ?d1 = "revisePlan ''T'' ''S2'' sampleLoaded ?t1 (supersede ''T'' ''contract_management'' ''C'' 1 ?s)"
  have rp: "plans ?d1 = [samplePlan\<lparr>rp_snapshot := ''S2'', rp_due := ''2024-06-30'', rp_amount := 7000, rp_version := 2\<rparr>]"
    by (simp add: revisePlan_def update_rows_def samplePlan_def sampleLoaded_def supersede_def)
  have oe: "outbox_events ?d1 = []" "audits ?d1 = []"
    by (simp_all add: revisePlan_def supersede_def received_def ensureStream_def)
  have eid: "eventIds ?d1 = {}" by (simp add: eventIds_def oe)
  have "\<exists>d'. auditContractRevisionPlan ?e 2 ?ev 1 sampleLoaded ''ADJUSTED'' (Some ?t1) ?d1 = Inr d' \<and>
      eventIds d' \<subseteq> eventIds ?d1 \<union> {e_ids ?e 2, e_ids ?e (Suc 2)} \<and> eventFrame ?d1 d'"
    unfolding auditContractRevisionPlan_def by (rule outbox_total) (simp_all add: eid)
  then obtain d2 where d2: "auditContractRevisionPlan ?e 2 ?ev 1 sampleLoaded ''ADJUSTED'' (Some ?t1) ?d1 = Inr d2"
      "eventIds d2 \<subseteq> eventIds ?d1 \<union> {e_ids ?e 2, e_ids ?e (Suc 2)}" "eventFrame ?d1 d2" by (elim exE conjE) (rule that)
  have i2: "eventIds d2 \<subseteq> {''o1'', ''o2''}" using d2(2) ids(2,3) by (simp add: eid eval_nat_numeral)
  have app: "applyDecisions ?e ?ev 1 ''S2'' [?t1, ?t2] [sampleLoaded] 2 (supersede ''T'' ''contract_management'' ''C'' 1 ?s) = Inr (4, d2)"
    using d2(1) by (simp add: applyDecision_def dec ev Let_def) (simp add: sampleLoaded_def)
  have p2: "plans d2 = plans ?d1" using eventFrame_tables(3) [OF d2(3)] .
  let ?d3 = "d2\<lparr>plans := plans d2 @ [eventPlan ''P2'' ''T'' ''S2'' 2 ''2024-09-30'' 5000]\<rparr>"
  have crt: "insertCreated ?e ''T'' ''S2'' [?t2] 4 d2 = Inr (5, ?d3)"
    by (simp add: ids p2 rp insert_row_def plan_clash_def eventPlan_def samplePlan_def)
  have "eventIds ?d3 \<subseteq> {''o1'', ''o2''}" using i2 by (simp add: eventIds_def)
  then have "''o3'' \<notin> eventIds ?d3" "''o4'' \<notin> eventIds ?d3" by auto
  then have ob: "\<exists>d. outbox ?e 5 a b c g h m ?d3 = Inr d" for a b c g h m
    using outbox_total [of ?e 5 ?d3 a b c g h m] by (simp add: ids) blast
  have rev: "\<exists>d. reviseOntoSnapshot ?e ''contract_management'' ?ev 12000 1 sampleSnapshot [?t1, ?t2] detail ?r = Inr (False, '''', d)" for detail
    by (rule revise_unheld [where pls = "[sampleLoaded]" and k = 4 and db = d2 and kk = 5 and dc = ?d3])
      (simp_all only: ev cur(2) ld ids(1) ins dec(2,3) crt ob, rule app)
  have "\<exists>d. applyContractRevision ?e ''contract_management'' ?ev 12000 1 ?r = Inr (False, '''', d)"
    unfolding applyContractRevision_def norm ev by (simp add: query_row_def cur Let_def rev)
  then obtain d where d: "applyContractRevision ?e ''contract_management'' ?ev 12000 1 ?r = Inr (False, '''', d)" by blast
  have es: "ensureStream ''T'' ''contract_management'' ''C'' sampleContract = sampleContract"
    by (simp add: ensureStream_def exists_row_def stream_is_def)
  show ?thesis
    using d by (simp add: IngestContract_def ingestContract_def Let_def ev exists_row_def es query_row_def stream_is_def acceptEvent_def insert_row_def
        received_def) (simp add: sampleTerms_def)
qed

theorem contract_plans_total_witness:
  "\<exists>d. IngestContract (freshEnv [''X1'', ''S2'', ''o1'', ''o2'', ''P2'', ''o3'', ''o4'']) ''contract_management'' ''T''
      (sampleVersion (money 12000) sampleTerms) sampleContract = Inr (\<lparr>Created = True, RevisionHeld = False, HoldID = ''''\<rparr>, d) \<and>
     sum_rows (planOf ''T'' ''S2'') rp_amount (plans d) = 12000"
proof -
  from sample_revision obtain d where d: "IngestContract (freshEnv [''X1'', ''S2'', ''o1'', ''o2'', ''P2'', ''o3'', ''o4'']) ''contract_management'' ''T''
     (sampleVersion (money 12000) sampleTerms) sampleContract = Inr (\<lparr>Created = True, RevisionHeld = False, HoldID = ''''\<rparr>, d)" by blast
  have "plan_keys (plans sampleContract)" by (simp add: plan_keys_def keyed_def)
  from contract_plans_total [OF d _ _ this] have "sum_rows (planOf ''T'' ''S2'') rp_amount (plans d) = 12000"
    by (simp add: samplePlan_def sampleVersion_def sampleBody_def freshEnv_ids)
  with d show ?thesis by blast
qed

section \<open>What has happened stays\<close>

text \<open>The row of a receivable or a plan, possibly moved to another snapshot of its contract.\<close>

definition stays :: "string \<Rightarrow> receivable \<Rightarrow> receivable_plan \<Rightarrow> db \<Rightarrow> bool" where
  "stays sn v rp d \<longleftrightarrow> (\<exists>v' \<in> set (receivables d). v' = v \<or> v' = v\<lparr>rv_snapshot := sn\<rparr>) \<and>
     (\<exists>rp' \<in> set (plans d). rp' = rp \<or> rp' = rp\<lparr>rp_snapshot := sn\<rparr>)"

lemma stays_cong: "plans d' = plans d \<Longrightarrow> receivables d' = receivables d \<Longrightarrow> stays sn v rp d' = stays sn v rp d"
  by (simp add: stays_def)

lemma stays_append: "stays sn v rp d \<Longrightarrow> set (plans d) \<subseteq> set (plans d') \<Longrightarrow> receivables d' = receivables d \<Longrightarrow> stays sn v rp d'"
  unfolding stays_def by (metis subsetD)

lemma movePlan_stays:
  assumes "stays sn v rp d"
  shows "stays sn v rp (movePlan tenant sn pl d)"
proof -
  from assms obtain v' rp' where o: "v' \<in> set (receivables d)" "v' = v \<or> v' = v\<lparr>rv_snapshot := sn\<rparr>"
    "rp' \<in> set (plans d)" "rp' = rp \<or> rp' = rp\<lparr>rp_snapshot := sn\<rparr>" by (auto simp: stays_def)
  let ?g = "\<lambda>x. if rp_tenant x = tenant \<and> rp_id x = cp_id pl then x\<lparr>rp_snapshot := sn\<rparr> else x"
  have "?g rp' \<in> set (plans (movePlan tenant sn pl d))" using o(3) by (simp add: movePlan_def update_rows_def)
  moreover have "?g rp' = rp \<or> ?g rp' = rp\<lparr>rp_snapshot := sn\<rparr>" using o(4) by auto
  moreover let ?f = "\<lambda>x. if cp_receivable pl \<noteq> '''' \<and> rv_tenant x = tenant \<and> rv_id x = cp_receivable pl then x\<lparr>rv_snapshot := sn\<rparr> else x"
  have "?f v' \<in> set (receivables (movePlan tenant sn pl d))" using o(1) by (auto simp: movePlan_def update_rows_def)
  moreover have "?f v' = v \<or> ?f v' = v\<lparr>rv_snapshot := sn\<rparr>" using o(2) by auto
  ultimately show ?thesis unfolding stays_def by blast
qed

lemma staysE:
  assumes "stays sn v rp d"
  obtains v' rp' where "v' \<in> set (receivables d)" "v' = v \<or> v' = v\<lparr>rv_snapshot := sn\<rparr>" "rv_tenant v' = rv_tenant v" "rv_plan v' = rv_plan v"
    "rp' \<in> set (plans d)" "rp' = rp \<or> rp' = rp\<lparr>rp_snapshot := sn\<rparr>" "rp_tenant rp' = rp_tenant rp" "rp_id rp' = rp_id rp"
proof -
  from assms obtain v' rp' where o: "v' \<in> set (receivables d)" "v' = v \<or> v' = v\<lparr>rv_snapshot := sn\<rparr>"
    "rp' \<in> set (plans d)" "rp' = rp \<or> rp' = rp\<lparr>rp_snapshot := sn\<rparr>" unfolding stays_def by blast
  have "rv_tenant v' = rv_tenant v" "rv_plan v' = rv_plan v" using o(2) by auto
  moreover have "rp_tenant rp' = rp_tenant rp" "rp_id rp' = rp_id rp" using o(4) by auto
  ultimately show thesis by (rule that [OF o(1,2) _ _ o(3,4)])
qed

lemma in_update_other: "r \<in> set t \<Longrightarrow> \<not> P r \<Longrightarrow> r \<in> set (update_rows P f t)"
  using in_update_rowsI [of r t P f] by simp

lemma revise_stays:
  assumes "stays sn v rp d" "\<not> (rv_tenant v = tenant \<and> rv_plan v = cp_id pl)" "\<not> (rp_tenant rp = tenant \<and> rp_id rp = cp_id pl)"
  shows "stays sn v rp (revisePlan tenant sn pl t d)"
proof (rule staysE [OF assms(1)])
  fix v' rp' assume o: "v' \<in> set (receivables d)" "v' = v \<or> v' = v\<lparr>rv_snapshot := sn\<rparr>" "rv_tenant v' = rv_tenant v" "rv_plan v' = rv_plan v"
    "rp' \<in> set (plans d)" "rp' = rp \<or> rp' = rp\<lparr>rp_snapshot := sn\<rparr>" "rp_tenant rp' = rp_tenant rp" "rp_id rp' = rp_id rp"
  have "rp' \<in> set (plans (revisePlan tenant sn pl t d))" unfolding revisePlan_def
    by simp (rule in_update_other, use o(5,7,8) assms(3) in auto)
  moreover have "v' \<in> set (receivables (revisePlan tenant sn pl t d))" unfolding revisePlan_def
    by (simp add: o(1)) (rule impI, rule in_update_other, use o(1,3,4) assms(2) in auto)
  ultimately show ?thesis using o(2,6) unfolding stays_def by blast
qed

lemma delete_stays:
  assumes "stays sn v rp d" "\<not> (rv_tenant v = tenant \<and> rv_plan v = pid)" "\<not> (rp_tenant rp = tenant \<and> rp_id rp = pid)"
    "deletePlan tenant pid d = Inr d'"
  shows "stays sn v rp d'"
proof (rule staysE [OF assms(1)])
  fix v' rp' assume o: "v' \<in> set (receivables d)" "v' = v \<or> v' = v\<lparr>rv_snapshot := sn\<rparr>" "rv_tenant v' = rv_tenant v" "rv_plan v' = rv_plan v"
    "rp' \<in> set (plans d)" "rp' = rp \<or> rp' = rp\<lparr>rp_snapshot := sn\<rparr>" "rp_tenant rp' = rp_tenant rp" "rp_id rp' = rp_id rp"
  from assms(4) have "d' = d\<lparr>receivables := delete_rows (\<lambda>v. rv_tenant v = tenant \<and> rv_plan v = pid) (receivables d),
     plans := delete_rows (\<lambda>rp. rp_tenant rp = tenant \<and> rp_id rp = pid) (plans d)\<rparr>"
    unfolding deletePlan_def Let_def by (simp split: if_splits)
  with o assms(2,3) have "rp' \<in> set (plans d')" "v' \<in> set (receivables d')" by (simp_all add: delete_rows_def)
  with o(2,6) show ?thesis unfolding stays_def by blast
qed

lemma applyDecision_stays:
  assumes "applyDecision e ev from sn pl (decidePlan terms pl) k d = Inr (k', d')" "stays sn v rp d"
    "rv_tenant v = rp_tenant rp" "rv_plan v = rp_id rp" "rp_tenant rp = ce_tenant ev \<and> rp_id rp = cp_id pl \<longrightarrow> anyFact (cp_facts pl)"
  shows "stays sn v rp d'"
proof (cases "rp_tenant rp = ce_tenant ev \<and> rp_id rp = cp_id pl")
  case True
  then have "decidePlan terms pl \<noteq> RemovePlan" "\<And>t. decidePlan terms pl \<noteq> AdjustTo t"
    using assms(5) by (auto simp: decidePlan_def split: option.splits)
  then have "d' = movePlan (ce_tenant ev) sn pl d" using assms(1) by (auto simp: applyDecision_def split: revision_decision.splits)
  with movePlan_stays [OF assms(2)] show ?thesis by simp
next
  case False
  show ?thesis
  proof (cases "decidePlan terms pl")
    case RemovePlan
    with assms(1) obtain d1 where "deletePlan (ce_tenant ev) (cp_id pl) d = Inr d1" "plans d' = plans d1 \<and> receivables d' = receivables d1"
      by (auto simp: applyDecision_def auditContractRevisionPlan_def andThen_eq_Inr dest!: outbox_plans)
    with delete_stays [OF assms(2), of "ce_tenant ev" "cp_id pl" d1] False assms(3,4) stays_cong [of d' d1 sn v rp] show ?thesis by simp
  next
    case (AdjustTo t)
    with assms(1) have "plans d' = plans (revisePlan (ce_tenant ev) sn pl t d) \<and> receivables d' = receivables (revisePlan (ce_tenant ev) sn pl t d)"
      by (auto simp: applyDecision_def auditContractRevisionPlan_def Let_def andThen_eq_Inr split: if_splits dest!: outbox_plans)
    with revise_stays [OF assms(2), of "ce_tenant ev" pl t] False assms(3,4)
      stays_cong [of d' "revisePlan (ce_tenant ev) sn pl t d" sn v rp] show ?thesis by simp
  qed (use assms(1) movePlan_stays [OF assms(2), of "ce_tenant ev" pl] in \<open>auto simp: applyDecision_def\<close>)
qed

lemma applyDecisions_stays:
  assumes "applyDecisions e ev from sn terms pls k d = Inr (k', d')" "stays sn v rp d"
    "rv_tenant v = rp_tenant rp" "rv_plan v = rp_id rp" "\<forall>pl \<in> set pls. rp_tenant rp = ce_tenant ev \<and> rp_id rp = cp_id pl \<longrightarrow> anyFact (cp_facts pl)"
  shows "stays sn v rp d'"
  using assms
proof (induction pls arbitrary: k d)
  case (Cons pl pls)
  from Cons.prems(1) obtain k1 d1 where s: "applyDecision e ev from sn pl (decidePlan terms pl) k d = Inr (k1, d1)"
    "applyDecisions e ev from sn terms pls k1 d1 = Inr (k', d')" by (auto simp: andThen_eq_Inr)
  have "stays sn v rp d1" by (rule applyDecision_stays [OF s(1) Cons.prems(2-4)]) (use Cons.prems(5) in simp)
  from Cons.IH [OF s(2) this Cons.prems(3,4)] Cons.prems(5) show ?case by simp
qed simp

lemma insertCreated_keeps:
  "insertCreated e tenant sn ts k d = Inr (k', d') \<Longrightarrow> set (plans d) \<subseteq> set (plans d') \<and> receivables d' = receivables d"
proof (induction ts arbitrary: k d)
  case (Cons t ts)
  then show ?case by (fastforce simp: andThen_eq_Inr insert_row_Inr)
qed simp

lemma insertTerms_keeps:
  "insertTerms e k tenant sn tot ts d = Inr (tot', d') \<Longrightarrow> set (plans d) \<subseteq> set (plans d') \<and> receivables d' = receivables d"
proof (induction ts arbitrary: k tot d)
  case (Cons t ts)
  then show ?case by (fastforce simp: andThen_eq_Inr insert_row_Inr split: if_splits)
qed simp

text \<open>Money that was received, written off, invoiced or reserved for an invoice.\<close>

definition happened :: "db \<Rightarrow> receivable \<Rightarrow> bool" where
  "happened d v \<longleftrightarrow> rv_received v \<noteq> 0 \<or> rv_writeoff v \<noteq> 0 \<or> rv_invoiced v \<noteq> 0 \<or> reservedOf d (rv_tenant v) (rv_id v) \<noteq> 0"

interpretation plan_receivable: keyed_table "\<lambda>v. (rv_tenant v, rv_plan v)" receivable_clash
  by unfold_locales (simp add: receivable_clash_def)

lemma happened_facts:
  assumes "happened d v" "keyed (\<lambda>v. (rv_tenant v, rv_plan v)) (receivables d)" "v \<in> set (receivables d)"
    "rv_tenant v = rp_tenant rp" "rv_plan v = rp_id rp" "pl \<in> set (loadContractRevisionPlans d (rp_tenant rp) old)" "rp_id rp = cp_id pl"
  shows "anyFact (cp_facts pl)"
proof -
  from assms(6) obtain q where q: "pl = revisionPlan d q" "rp_tenant q = rp_tenant rp" "rp_id q = rp_id rp"
    using assms(7) by (auto simp: loadContractRevisionPlans_def planOf_def revisionPlan_def)
  let ?P = "\<lambda>v. rv_tenant v = rp_tenant q \<and> rv_plan v = rp_id q"
  have "find ?P (receivables d) \<noteq> None" using assms(3-5) q(2,3) by (auto simp: find_None_iff)
  then obtain w where w: "find ?P (receivables d) = Some w" by blast
  have "w = v" by (rule plan_receivable.row_unique [OF assms(2)]) (use find_SomeD [OF w] assms(3-5) q(2,3) in auto)
  with w have "find ?P (receivables d) = Some v" by simp
  then show ?thesis using assms(1,4) q by (auto simp: revisionPlan_def factsOf_def receivableOf_def anyFact_def happened_def)
qed

lemma applyContractRevision_cases:
  assumes "applyContractRevision e source ev amt from d = Inr (onHold, hid, d')"
  obtains (mismatch) detail d1 where "registerContractRevisionHold e 1 source ev from TERM_TOTAL_MISMATCH '''' detail d = Inr (hid, d1)"
      "d' = finishInbox (e_ids e 0) INBOX_HELD d1"
    | (revise) terms old detail where "reviseOntoSnapshot e source ev amt from old terms detail d = Inr (onHold, hid, d')"
proof -
  from assms obtain terms tot where "normalizeContractTerms (ct_terms (ce_contract ev)) = Inr (terms, tot)"
    unfolding applyContractRevision_def andThen_eq_Inr by auto
  moreover from assms obtain old where "query_row ErrConflict (currentSnapshot (ce_tenant ev) source (ct_id (ce_contract ev)) from) (snapshots d) = Inr old"
    "cs_migration old = RELEASED" unfolding applyContractRevision_def by (auto simp: andThen_eq_Inr split: if_split_asm)
  ultimately show thesis
    using assms revise mismatch unfolding applyContractRevision_def by (cases "tot = amt") (auto simp: andThen_eq_Inr Let_def)
qed

lemma revision_stays:
  assumes "applyContractRevision e source ev amt from d = Inr (onHold, hid, d')" "stays (e_ids e 1) v rp d"
    "rp_tenant rp = rv_tenant v" "rp_id rp = rv_plan v" "v \<in> set (receivables d)" "happened d v"
    "keyed (\<lambda>v. (rv_tenant v, rv_plan v)) (receivables d)"
  shows "stays (e_ids e 1) v rp d'"
  using assms(1)
proof (cases rule: applyContractRevision_cases)
  case (mismatch detail d1)
  from registerHold_plans [OF this(1)] this(2) have "plans d' = plans d" "receivables d' = receivables d" by (simp_all add: finishInbox_def)
  with assms(2) stays_cong [of d' d] show ?thesis by simp
next
  case (revise terms old detail)
  let ?pls = "loadContractRevisionPlans d (ce_tenant ev) (cs_id old)"
  from revise obtain k d2 k1 d3 where s: "applyDecisions e ev from (e_ids e 1) terms ?pls 2
        (supersede (ce_tenant ev) source (ct_id (ce_contract ev)) from (d\<lparr>snapshots := snapshots d @ [newSnapshot (e_ids e 1) source ev amt]\<rparr>)) = Inr (k, d2)"
      "insertCreated e (ce_tenant ev) (e_ids e 1) (createdTerms terms ?pls) k d2 = Inr (k1, d3)"
      "plans d' = plans d3" "receivables d' = receivables d3" by (rule reviseOntoSnapshot_Inr)
  have "stays (e_ids e 1) v rp d2"
  proof (rule applyDecisions_stays [OF s(1)])
    show "\<forall>pl \<in> set ?pls. rp_tenant rp = ce_tenant ev \<and> rp_id rp = cp_id pl \<longrightarrow> anyFact (cp_facts pl)"
      using happened_facts [OF assms(6,7,5), of rp] assms(3,4) by metis
  qed (use assms(2-4) in \<open>simp_all add: stays_def supersede_def\<close>)
  then show ?thesis by (rule stays_append) (use insertCreated_keeps [OF s(2)] s(3,4) in simp_all)
qed

text \<open>C7: a revision leaves alone what has happened. Whatever a new version of any contract says, a receivable on which
  money was received, written off, invoiced or reserved keeps its amounts, its day and its status,
  and so does its plan; at most both move to the new snapshot.\<close>

theorem revision_keeps_facts:
  assumes "IngestContract e source tenant ev d = Inr (r, d')" "v \<in> set (receivables d)" "rp \<in> set (plans d)"
    "rp_id rp = rv_plan v" "rp_tenant rp = rv_tenant v" "happened d v" "keyed (\<lambda>v. (rv_tenant v, rv_plan v)) (receivables d)"
  shows "(\<exists>v' \<in> set (receivables d'). v' = v \<or> v' = v\<lparr>rv_snapshot := e_ids e 1\<rparr>) \<and>
    (\<exists>rp' \<in> set (plans d'). rp' = rp \<or> rp' = rp\<lparr>rp_snapshot := e_ids e 1\<rparr>)"
proof -
  let ?sn = "e_ids e 1" and ?d = "received e source ev d"
  have s0: "stays ?sn v rp d" "stays ?sn v rp ?d" using assms(2,3) by (auto simp: stays_def)
  have "stays ?sn v rp d'"
  proof (cases "Created r")
    case False
    then have "d' = d" using assms(1) unfolding IngestContract_def ingestContract_def Let_def
      by (auto simp: andThen_eq_Inr acceptEvent_def split: if_splits sum.splits)
    with s0 show ?thesis by simp
  next
    case True
    from assms(1) True show ?thesis
    proof (cases rule: IngestContract_Created)
      case (baseline amt)
      let ?d1 = "?d\<lparr>snapshots := snapshots ?d @ [newSnapshot ?sn source ev amt]\<rparr>"
      from baseline(3) obtain d2 where d2: "insertTerms e 2 (ce_tenant ev) ?sn 0 (ct_terms (ce_contract ev)) ?d1 = Inr (amt, d2)"
        "plans d' = plans d2" "receivables d' = receivables d2"
        unfolding baselineContract_def andThen_eq_Inr insertSnapshot_Inr holdImport_def
        by (auto simp: andThen_eq_Inr finishInbox_def advanceStream_def split: if_splits)
      show ?thesis by (rule stays_append [OF s0(2)]) (use insertTerms_keeps [OF d2(1)] d2(2,3) in simp_all)
    next
      case (revision amt stream)
      show ?thesis
        by (rule revision_stays [OF revision(5) s0(2) assms(5) assms(4)]) (use assms(2,6,7) in \<open>simp_all add: happened_def reservedOf_def\<close>)
    qed
  qed
  then show ?thesis by (simp add: stays_def)
qed

text \<open>The sample contract when some money has arrived: the new version would change the instalment, so it waits for a person.\<close>

definition paidReceivable :: receivable where
  "paidReceivable = sampleReceivable\<lparr>rv_received := 4000, rv_open := 6000, rv_collection := PARTIALLY_SETTLED\<rparr>"

definition paidContract :: db where
  "paidContract = sampleContract\<lparr>receivables := [paidReceivable]\<rparr>"

definition paidLoaded :: contractRevisionPlan where
  "paidLoaded = sampleLoaded\<lparr>cp_facts := \<lparr>fa_received = 4000, fa_writeoff = 0, fa_invoiced = 0, fa_reserved = 0\<rparr>\<rparr>"

lemma paidContract_rows [simp]: "snapshots paidContract = [sampleSnapshot]" "plans paidContract = [samplePlan]"
  "receivables paidContract = [paidReceivable]" "inbox paidContract = []" "outbox_events paidContract = []" "audits paidContract = []"
  "invoice_allocations paidContract = []" "dunning_cases paidContract = []" "revision_holds paidContract = []"
  "streams paidContract = [\<lparr>st_tenant = ''T'', st_source = ''contract_management'', st_contract = ''C'', st_version = 1\<rparr>]"
  by (simp_all add: paidContract_def)

lemma paid_loaded:
  assumes "plans d = [samplePlan]" "receivables d = [paidReceivable]" "invoice_allocations d = []" "dunning_cases d = []"
  shows "loadContractRevisionPlans d ''T'' ''S'' = [paidLoaded]"
  using assms by (simp add: loadContractRevisionPlans_def planOf_def samplePlan_def orderBy_def revisionPlan_def receivableOf_def paidReceivable_def sampleReceivable_def
      referencesOf_def affected_def factsOf_def reservedOf_def sum_rows_def sampleLoaded_def paidLoaded_def)

lemma revise_held:
  assumes "loadContractRevisionPlans d (ce_tenant ev) (cs_id old) = pls" "heldDiffs terms pls = x # xs"
    "insertSnapshot (newSnapshot (e_ids e 1) source ev amt) d = Inr da"
    "applyDecisions e ev v (e_ids e 1) terms pls 2 (supersede (ce_tenant ev) source (ct_id (ce_contract ev)) v da) = Inr (k, db)"
    "insertCreated e (ce_tenant ev) (e_ids e 1) (createdTerms terms pls) k db = Inr (kk, dc)"
    "\<And>m. \<exists>d1 d2. registerContractRevisionHold e kk source ev v PLAN_DIFF_IMPLEMENTED_FACTS (e_ids e 1) m dc = Inr (hid, d1) \<and>
       (\<forall>m. \<exists>d2. outbox e (kk + 3) (ce_tenant ev) ''PLATFORM_AUDIT'' ''SETTLEMENT_CONTRACT_REVISION_APPLIED'' ''contract_snapshot'' (e_ids e 1) m d1 = Inr d2)"
  shows "\<exists>d'. reviseOntoSnapshot e source ev amt v old terms detail d = Inr (True, hid, d')"
proof -
  from assms(6) [of "detail\<lparr>de_old_total := money (sum_list (map cp_amount pls)), de_diffs := x # xs\<rparr>"] obtain d1 where
    "registerContractRevisionHold e kk source ev v PLAN_DIFF_IMPLEMENTED_FACTS (e_ids e 1)
      (detail\<lparr>de_old_total := money (sum_list (map cp_amount pls)), de_diffs := x # xs\<rparr>) dc = Inr (hid, d1)"
    and ob: "\<And>m. \<exists>d2. outbox e (kk + 3) (ce_tenant ev) ''PLATFORM_AUDIT'' ''SETTLEMENT_CONTRACT_REVISION_APPLIED'' ''contract_snapshot'' (e_ids e 1) m d1 = Inr d2"
    by blast
  then show ?thesis unfolding reviseOntoSnapshot_def Let_def using assms(1-5) ob by (simp add: andThen_eq_Inr)
qed

lemma registerHold_new:
  assumes "revision_holds d = []" "\<And>a b c g h m. \<exists>d'. outbox e (k + 1) a b c g h m (d\<lparr>revision_holds := [newHold (e_now e) (e_ids e k) source ev v reason sn detail]\<rparr>) = Inr d' \<and> Q d'"
  shows "\<exists>d'. registerContractRevisionHold e k source ev v reason sn detail d = Inr (e_ids e k, d') \<and> Q d'"
proof -
  let ?d = "d\<lparr>revision_holds := [newHold (e_now e) (e_ids e k) source ev v reason sn detail]\<rparr>"
  from assms(2) obtain d' where "outbox e (k + 1) (ce_tenant ev) ''PLATFORM_AUDIT'' ''SETTLEMENT_CONTRACT_REVISION_HELD'' ''contract_revision_hold'' (e_ids e k)
            [(''actor_id'', JStr ''SYSTEM''), (''source_application'', JStr source), (''source_contract_id'', JStr (ct_id (ce_contract ev))),
             (''source_contract_no'', JStr (ct_no (ce_contract ev))), (''revision_event_id'', JStr (ce_id ev)),
             (''from_contract_version'', JInt v), (''to_contract_version'', JInt (ct_version (ce_contract ev))),
             (''hold_reason'', JStr (showHoldReason reason)), (''held_diffs'', JInt (int (length (de_diffs detail)))),
             (''result'', JStr ''SUCCESS''), (''risk_level'', JStr ''HIGH'')] ?d = Inr d'" "Q d'" by blast
  then show ?thesis unfolding registerContractRevisionHold_def insert_row_def assms(1) by simp
qed

lemma paid_revision:
  "\<exists>d. IngestContract (freshEnv [''X1'', ''S2'', ''H1'', ''o1'', ''o2'', ''o3'', ''o4'']) ''contract_management'' ''T''
     (sampleVersion (money 12000) [\<lparr>pt_no = 1, pt_due = ''2024-06-30'', pt_amount = money 12000\<rparr>]) paidContract =
       Inr (\<lparr>Created = True, RevisionHeld = True, HoldID = ''H1''\<rparr>, d)"
proof -
  let ?e = "freshEnv [''X1'', ''S2'', ''H1'', ''o1'', ''o2'', ''o3'', ''o4'']"
    and ?ev = "sampleVersion (money 12000) [\<lparr>pt_no = 1, pt_due = ''2024-06-30'', pt_amount = money 12000\<rparr>]"
  let ?t = "\<lparr>rt_no = 1, rt_due = ''2024-06-30'', rt_amount = 12000\<rparr>" and ?r = "received ?e ''contract_management'' ?ev paidContract"
  have ids: "e_ids ?e 1 = ''S2''" "e_ids ?e 2 = ''H1''" "e_ids ?e 3 = ''o1''" "e_ids ?e 4 = ''o2''" "e_ids ?e 5 = ''o3''" "e_ids ?e 6 = ''o4''"
    by (simp_all add: freshEnv_def)
  have ev: "ce_tenant ?ev = ''T''" "ct_id (ce_contract ?ev) = ''C''" "ct_version (ce_contract ?ev) = 2" "ce_id ?ev = ''E2''"
    by (simp_all add: sampleVersion_def sampleBody_def)
  have norm: "normalizeContractTerms (ct_terms (ce_contract ?ev)) = Inr ([?t], 12000)"
    by (simp add: normalizeContractTerms_def sampleVersion_def sampleBody_def)
  have cur: "currentSnapshot ''T'' ''contract_management'' ''C'' 1 sampleSnapshot" "cs_id sampleSnapshot = ''S''" "cs_migration sampleSnapshot = RELEASED"
    by (simp_all add: currentSnapshot_def sampleSnapshot_def)
  have ld: "loadContractRevisionPlans ?r ''T'' ''S'' = [paidLoaded]" by (rule paid_loaded) simp_all
  have dec: "decidePlan [?t] paidLoaded = HoldPlan (revisionDiff paidLoaded (Some ?t))" "heldDiffs [?t] [paidLoaded] = [revisionDiff paidLoaded (Some ?t)]"
    "createdTerms [?t] [paidLoaded] = []"
    by (simp_all add: decidePlan_def termFor_def paidLoaded_def sampleLoaded_def anyFact_def amountChanged_def heldDiffs_def createdTerms_def)
  let ?s = "?r\<lparr>snapshots := [sampleSnapshot, newSnapshot ''S2'' ''contract_management'' ?ev 12000]\<rparr>"
  have ins: "insertSnapshot (newSnapshot ''S2'' ''contract_management'' ?ev 12000) ?r = Inr ?s"
    by (simp add: insertSnapshot_Inr snapshot_clash_def newSnapshot_def Let_def sampleSnapshot_def sameValue_def ev)
  let ?d = "movePlan ''T'' ''S2'' paidLoaded (supersede ''T'' ''contract_management'' ''C'' 1 ?s)"
  have app: "applyDecisions ?e ?ev 1 ''S2'' [?t] [paidLoaded] 2 (supersede ''T'' ''contract_management'' ''C'' 1 ?s) = Inr (2, ?d)"
    by (simp add: applyDecision_def dec ev)
  have rows: "outbox_events ?d = []" "audits ?d = []" "revision_holds ?d = []"
    by (simp_all add: movePlan_def supersede_def received_def ensureStream_def)
  have hold: "\<exists>d1 d2. registerContractRevisionHold ?e 2 ''contract_management'' ?ev 1 PLAN_DIFF_IMPLEMENTED_FACTS ''S2'' m ?d = Inr (''H1'', d1) \<and>
     (\<forall>m. \<exists>d2. outbox ?e (2 + 3) ''T'' ''PLATFORM_AUDIT'' ''SETTLEMENT_CONTRACT_REVISION_APPLIED'' ''contract_snapshot'' ''S2'' m d1 = Inr d2)" for m
  proof -
    let ?h = "?d\<lparr>revision_holds := [newHold (e_now ?e) ''H1'' ''contract_management'' ?ev 1 PLAN_DIFF_IMPLEMENTED_FACTS ''S2'' m]\<rparr>"
    have s3: "(2::nat) + 1 = 3" "Suc 3 = 4" by simp_all
    have eid: "eventIds ?h = {}" using rows by (simp add: eventIds_def)
    have "\<exists>d'. outbox ?e (2 + 1) a b c g h p ?h = Inr d' \<and> eventIds d' \<subseteq> eventIds ?h \<union> {e_ids ?e 3, e_ids ?e 4} \<and> eventFrame ?h d'" for a b c g h p
      unfolding s3(1) by (rule outbox_total [of ?e 3 ?h, unfolded s3(2)]) (unfold eid, simp_all)
    then have "\<exists>d'. registerContractRevisionHold ?e 2 ''contract_management'' ?ev 1 PLAN_DIFF_IMPLEMENTED_FACTS ''S2'' m ?d = Inr (e_ids ?e 2, d') \<and>
        eventIds d' \<subseteq> eventIds ?h \<union> {e_ids ?e 3, e_ids ?e 4} \<and> eventFrame ?h d'"
      unfolding ids(2) by (rule registerHold_new [OF rows(3), of ?e 2, unfolded ids(2)])
    then obtain d1 where d1: "registerContractRevisionHold ?e 2 ''contract_management'' ?ev 1 PLAN_DIFF_IMPLEMENTED_FACTS ''S2'' m ?d = Inr (''H1'', d1)"
      "eventIds d1 \<subseteq> eventIds ?h \<union> {e_ids ?e 3, e_ids ?e 4}" unfolding ids(2) by blast
    have "eventIds d1 \<subseteq> {''o1'', ''o2''}" using d1(2) unfolding eid ids by simp
    then have "''o3'' \<notin> eventIds d1" "''o4'' \<notin> eventIds d1" by auto
    then have "\<exists>d2. outbox ?e 5 a b c g h p d1 = Inr d2" for a b c g h p
      using outbox_total [of ?e 5 d1 a b c g h p] by (simp add: ids) blast
    with d1(1) show ?thesis by auto
  qed
  have rev: "\<exists>d. reviseOntoSnapshot ?e ''contract_management'' ?ev 12000 1 sampleSnapshot [?t] detail ?r = Inr (True, ''H1'', d)" for detail
    by (rule revise_held [where pls = "[paidLoaded]" and k = 2 and db = ?d and kk = 2 and dc = ?d and xs = "[]"])
      (simp_all only: ev cur(2) ld ids(1) ins dec insertCreated.simps hold, rule app)
  have "\<exists>d. applyContractRevision ?e ''contract_management'' ?ev 12000 1 ?r = Inr (True, ''H1'', d)"
    unfolding applyContractRevision_def norm ev by (simp add: query_row_def cur Let_def rev)
  then obtain d where d: "applyContractRevision ?e ''contract_management'' ?ev 12000 1 ?r = Inr (True, ''H1'', d)" by blast
  have es: "ensureStream ''T'' ''contract_management'' ''C'' paidContract = paidContract"
    by (simp add: ensureStream_def exists_row_def stream_is_def)
  show ?thesis
    using d by (simp add: IngestContract_def ingestContract_def Let_def ev exists_row_def es query_row_def stream_is_def acceptEvent_def insert_row_def
        received_def)
qed

theorem revision_keeps_facts_witness:
  "\<exists>d. IngestContract (freshEnv [''X1'', ''S2'', ''H1'', ''o1'', ''o2'', ''o3'', ''o4'']) ''contract_management'' ''T''
     (sampleVersion (money 12000) [\<lparr>pt_no = 1, pt_due = ''2024-06-30'', pt_amount = money 12000\<rparr>]) paidContract =
       Inr (\<lparr>Created = True, RevisionHeld = True, HoldID = ''H1''\<rparr>, d) \<and>
     (paidReceivable \<in> set (receivables d) \<or> paidReceivable\<lparr>rv_snapshot := ''S2''\<rparr> \<in> set (receivables d))"
proof -
  from paid_revision obtain d where d: "IngestContract (freshEnv [''X1'', ''S2'', ''H1'', ''o1'', ''o2'', ''o3'', ''o4'']) ''contract_management'' ''T''
     (sampleVersion (money 12000) [\<lparr>pt_no = 1, pt_due = ''2024-06-30'', pt_amount = money 12000\<rparr>]) paidContract =
       Inr (\<lparr>Created = True, RevisionHeld = True, HoldID = ''H1''\<rparr>, d)" by blast
  have "(\<exists>v' \<in> set (receivables d). v' = paidReceivable \<or> v' = paidReceivable\<lparr>rv_snapshot := ''S2''\<rparr>)"
    using revision_keeps_facts [OF d, of paidReceivable samplePlan]
    by (simp add: happened_def keyed_def paidReceivable_def sampleReceivable_def samplePlan_def freshEnv_ids)
  with d show ?thesis by blast
qed

end
