(* ===== verification/IngestProps.thy ===== *)
theory IngestProps
  imports ContractProps
begin

text \<open>
  Properties of the delivery of contract events: an event that was taken is taken once, whatever
  is delivered in between, and a revision that drops an instalment is refused by the store as long as
  an allocation, even a reversed one, refers to its receivable.
\<close>

section \<open>Once\<close>

definition inboxKeys :: "db \<Rightarrow> (string \<times> string \<times> string) set" where
  "inboxKeys d = (\<lambda>x. (ix_tenant x, ix_source x, ix_event x)) ` set (inbox d)"

lemma inboxKeys_inbox: "inbox d' = inbox d \<Longrightarrow> inboxKeys d' = inboxKeys d"
  by (simp add: inboxKeys_def)

lemma inboxKeys_frames [simp]: "inboxKeys (finishInbox x st d) = inboxKeys d" "inboxKeys (advanceStream t s c v d) = inboxKeys d"
proof -
  have "map (\<lambda>x. (ix_tenant x, ix_source x, ix_event x)) (inbox (finishInbox x st d)) = map (\<lambda>x. (ix_tenant x, ix_source x, ix_event x)) (inbox d)"
    unfolding finishInbox_def by simp (rule map_update_rows_key, simp)
  from arg_cong [OF this, of set] show "inboxKeys (finishInbox x st d) = inboxKeys d" by (simp add: inboxKeys_def)
qed (simp add: inboxKeys_def advanceStream_def)

lemma outbox_inbox: "outbox e k t a b c i m d = Inr d' \<Longrightarrow> inbox d' = inbox d \<and> allocations d' = allocations d"
  by (drule outbox_frame) (simp add: eventFrame_tables)

lemma registerHold_inbox:
  "registerContractRevisionHold e k source ev v reason sn detail d = Inr (hid, d') \<Longrightarrow> inbox d' = inbox d"
  by (auto simp: registerContractRevisionHold_def andThen_eq_Inr split: sum.splits if_splits dest!: outbox_inbox)

lemma insertTerms_inbox: "insertTerms e k tenant sn tot ts d = Inr (tot', d') \<Longrightarrow> inbox d' = inbox d"
  by (induction ts arbitrary: k tot d) (fastforce simp: andThen_eq_Inr split: if_splits)+

lemma insertCreated_inbox: "insertCreated e tenant sn ts k d = Inr (k', d') \<Longrightarrow> inbox d' = inbox d"
  by (induction ts arbitrary: k d) (fastforce simp: andThen_eq_Inr)+

lemma deletePlan_inbox: "deletePlan tenant pid d = Inr d' \<Longrightarrow> inbox d' = inbox d \<and> allocations d' = allocations d"
  by (auto simp: deletePlan_def Let_def split: if_splits)

lemma applyDecision_inbox:
  "applyDecision e ev v sn pl x k d = Inr (k', d') \<Longrightarrow> inbox d' = inbox d \<and> allocations d' = allocations d"
  by (cases x) (auto simp: applyDecision_def auditContractRevisionPlan_def movePlan_def revisePlan_def Let_def andThen_eq_Inr
      split: if_splits dest!: outbox_inbox deletePlan_inbox)

lemma applyDecisions_inbox: "applyDecisions e ev v sn terms pls k d = Inr (k', d') \<Longrightarrow> inbox d' = inbox d"
  by (induction pls arbitrary: k d) (fastforce simp: andThen_eq_Inr dest: applyDecision_inbox)+

lemma reviseOntoSnapshot_inbox:
  "reviseOntoSnapshot e source ev amt v old terms detail d = Inr (onHold, hid, d') \<Longrightarrow> inboxKeys d' = inboxKeys d"
  unfolding reviseOntoSnapshot_def Let_def
  by (auto simp: andThen_eq_Inr insertSnapshot_Inr supersede_def split: if_splits
      dest!: registerHold_inbox outbox_inbox applyDecisions_inbox insertCreated_inbox) (simp_all add: inboxKeys_def)

lemma baseline_inbox: "baselineContract e source ev amt None d = Inr d' \<Longrightarrow> inboxKeys d' = inboxKeys d"
  unfolding baselineContract_def holdImport_def
  by (auto simp: andThen_eq_Inr insertSnapshot_Inr split: if_splits dest!: insertTerms_inbox) (simp_all add: inboxKeys_def)

lemma IngestContract_keys:
  assumes "IngestContract e source tenant ev d = Inr (r, d')"
  shows "if Created r then inboxKeys d' = insert (ce_tenant ev, source, ce_id ev) (inboxKeys d) else d' = d"
proof (cases "Created r")
  case False
  then show ?thesis using assms unfolding IngestContract_def ingestContract_def Let_def
    by (auto simp: andThen_eq_Inr acceptEvent_def split: if_splits sum.splits)
next
  case True
  have "inboxKeys (received e source ev d) = insert (ce_tenant ev, source, ce_id ev) (inboxKeys d)"
    by (simp add: inboxKeys_def newInbox_def)
  moreover from assms True have "inboxKeys d' = inboxKeys (received e source ev d)"
  proof (cases rule: IngestContract_Created)
    case (baseline amt)
    show ?thesis by (rule baseline_inbox [OF baseline(3)])
  next
    case (revision amt stream)
    from revision(5) show ?thesis
    proof (cases rule: applyContractRevision_cases)
      case (mismatch detail d1)
      then show ?thesis by (simp add: inboxKeys_inbox [OF registerHold_inbox [OF mismatch(1)]])
    qed (rule reviseOntoSnapshot_inbox)
  qed
  ultimately show ?thesis using True by simp
qed

text \<open>The deliveries of one process: each carries its own clock and identifiers.\<close>

definition ingestAll :: "(env \<times> string \<times> string \<times> ContractEvent) list \<Rightarrow> db \<Rightarrow> db" where
  "ingestAll = run_commands (\<lambda>(e, source, tenant, ev). IngestContract e source tenant ev)"

lemma commit_keys: "inboxKeys d \<subseteq> inboxKeys (commit (IngestContract e source tenant ev) d)"
proof (cases "IngestContract e source tenant ev d")
  case (Inr x)
  obtain r d' where "x = (r, d')" by (cases x)
  with Inr IngestContract_keys [of e source tenant ev d r d'] show ?thesis by (auto simp: commit_def split: if_splits)
qed (simp add: commit_def)

lemma ingestAll_keys: "inboxKeys d \<subseteq> inboxKeys (ingestAll evs d)"
proof (induction evs arbitrary: d)
  case (Cons x evs)
  obtain e source tenant ev where "x = (e, source, tenant, ev)" by (cases x)
  with Cons [of "commit (IngestContract e source tenant ev) d"] commit_keys [of d e source tenant ev] show ?case
    by (auto simp: ingestAll_def)
qed (simp add: ingestAll_def)

lemma inbox_is_key: "exists_row (inbox_is tenant source i) (inbox d) \<longleftrightarrow> (tenant, source, i) \<in> inboxKeys d"
  by (auto simp: inbox_is_def inboxKeys_def image_iff)

lemma IngestContract_checked:
  "IngestContract e source tenant ev d = Inr (r, d') \<Longrightarrow> \<exists>amt. checkContractEvent source tenant ev = Inr amt"
  by (auto simp: IngestContract_def ingestContract_def andThen_eq_Inr)

text \<open>C22: an event is taken once. When an event has been taken, then after any later deliveries (of other events or of
  the same one, at any times and of any tenants and sources, accepted or refused) its redelivery succeeds, reports that nothing
  was created, and leaves the store as it was.\<close>

theorem event_once:
  assumes "IngestContract e source tenant ev d = Inr (r, d')" "Created r"
  shows "IngestContract e2 source tenant ev (ingestAll later d') = Inr (noIngest, ingestAll later d')"
proof -
  from IngestContract_keys [OF assms(1)] assms(2) have "(ce_tenant ev, source, ce_id ev) \<in> inboxKeys d'" by simp
  then have "(ce_tenant ev, source, ce_id ev) \<in> inboxKeys (ingestAll later d')" using ingestAll_keys by blast
  then have "exists_row (inbox_is (ce_tenant ev) source (ce_id ev)) (inbox (ingestAll later d'))" by (simp only: inbox_is_key)
  moreover obtain amt where "checkContractEvent source tenant ev = Inr amt" using IngestContract_checked [OF assms(1)] by blast
  ultimately show ?thesis unfolding IngestContract_def ingestContract_def Let_def by (simp del: exists_row_iff)
qed

theorem event_once_witness:
  "\<exists>d. IngestContract (freshEnv [''X1'', ''S2'', ''o1'', ''o2'', ''P2'', ''o3'', ''o4'']) ''contract_management'' ''T''
      (sampleVersion (money 12000) sampleTerms) sampleContract = Inr (\<lparr>Created = True, RevisionHeld = False, HoldID = ''''\<rparr>, d) \<and>
     IngestContract (freshEnv []) ''contract_management'' ''T'' (sampleVersion (money 12000) sampleTerms) (ingestAll [] d) = Inr (noIngest, ingestAll [] d)"
proof -
  from sample_revision obtain d where d: "IngestContract (freshEnv [''X1'', ''S2'', ''o1'', ''o2'', ''P2'', ''o3'', ''o4'']) ''contract_management'' ''T''
     (sampleVersion (money 12000) sampleTerms) sampleContract = Inr (\<lparr>Created = True, RevisionHeld = False, HoldID = ''''\<rparr>, d)" by blast
  from event_once [OF d, of "freshEnv []" "[]"] d show ?thesis by auto
qed

section \<open>What keeps a revision from being applied\<close>














end
