(* ===== verification/ResponsibilityProps.thy ===== *)
theory ResponsibilityProps
  imports Contracts InvoiceSamples
begin

text \<open>
  The stream of responsibilities (contract_responsibility_ingest.go) is delivered at least once and
  in any order. Each delivery is reduced to its effect on two lookups, the responsibility row of a contract
  and the inbox row of an event; the final row of every contract is then a function of the
  set of events alone.
\<close>

section \<open>Who is responsible\<close>

text \<open>The stream of responsibilities is delivered at least once and in any order; a failed delivery changes nothing.\<close>

definition deliver :: "env \<Rightarrow> string \<Rightarrow> ContractResponsibilityEvent list \<Rightarrow> db \<Rightarrow> db" where
  "deliver e tenant = run_commands (IngestContractResponsibility e tenant)"

definition ownerRow :: "string \<Rightarrow> string \<Rightarrow> db \<Rightarrow> responsibility option" where
  "ownerRow tenant c d = find (resp_is tenant c) (responsibilities d)"

definition seenRow :: "string \<Rightarrow> string \<Rightarrow> db \<Rightarrow> responsibility_inbox_row option" where
  "seenRow tenant i d = find (\<lambda>x. ri_tenant x = tenant \<and> ri_event x = i) (responsibility_inbox (sides d))"

definition rowOfEvent :: "ContractResponsibilityEvent \<Rightarrow> responsibility" where
  "rowOfEvent ev = \<lparr>rs_tenant = re_tenant ev, rs_contract = re_contract ev, rs_owner = re_owner ev, rs_active = re_active ev, rs_version = re_version ev\<rparr>"

lemma find_update_kept: "(\<And>x. Q (f x) = Q x) \<Longrightarrow> find Q (update_rows P f l) = map_option (\<lambda>x. if P x then f x else x) (find Q l)"
  by (induction l) (auto simp: update_rows_def)

lemma ownerRow_is: "ownerRow tenant c d = Some r \<Longrightarrow> rs_tenant r = tenant \<and> rs_contract r = c"
  by (auto simp: ownerRow_def resp_is_def dest: find_SomeD)

text \<open>One delivery, as an effect on the two lookups.\<close>

lemma ingest_seen:
  assumes "validateContractResponsibility tenant ev = Inr ()" "seenRow tenant (re_id ev) d = Some x"
  shows "commit (IngestContractResponsibility e tenant ev) d = d"
proof -
  have t: "re_tenant ev = tenant" using assms(1) by (auto simp: validateContractResponsibility_def split: if_splits)
  have "sides (ensureResponsibility tenant (re_contract ev) d) = sides d" by (simp add: ensureResponsibility_def)
  then show ?thesis using assms t
    by (auto simp: commit_def IngestContractResponsibility_def Let_def andThen_def seenRow_def split: sum.splits)
qed

lemma ownerRow_ensure: "ownerRow tenant c' (ensureResponsibility tenant c d) = (if c' = c \<and> ownerRow tenant c d = None
    then Some \<lparr>rs_tenant = tenant, rs_contract = c, rs_owner = '''', rs_active = False, rs_version = 0\<rparr> else ownerRow tenant c' d)"
proof -
  have "exists_row (resp_is tenant c) (responsibilities d) \<longleftrightarrow> ownerRow tenant c d \<noteq> None" by (auto simp: ownerRow_def find_None_iff)
  then show ?thesis
    by (cases "ownerRow tenant c' d") (auto simp: ownerRow_def ensureResponsibility_def find_snoc, auto simp: resp_is_def)
qed

lemma ingest_new:
  assumes "validateContractResponsibility tenant ev = Inr ()" "seenRow tenant (re_id ev) d = None"
    "\<And>r. ownerRow tenant (re_contract ev) d = Some r \<Longrightarrow> rs_version r = re_version ev \<Longrightarrow> r = rowOfEvent ev"
    and dd: "d' = commit (IngestContractResponsibility e tenant ev) d"
  shows "ownerRow tenant c d' = (if c = re_contract ev
      then Some (case ownerRow tenant c d of None \<Rightarrow> rowOfEvent ev | Some r \<Rightarrow> if re_version ev > rs_version r then rowOfEvent ev else r)
      else ownerRow tenant c d)"
    "seenRow tenant i d' = (if i = re_id ev then Some \<lparr>ri_tenant = tenant, ri_event = re_id ev, ri_hash = e_sha256 e (jsonResponsibility ev)\<rparr> else seenRow tenant i d)"
proof -
  let ?c = "re_contract ev" and ?d1 = "ensureResponsibility tenant (re_contract ev) d"
  have t: "re_tenant ev = tenant" "0 < re_version ev" using assms(1) by (auto simp: validateContractResponsibility_def split: if_splits)
  have sd: "sides ?d1 = sides d" by (simp add: ensureResponsibility_def)
  obtain r where r: "find (resp_is tenant ?c) (responsibilities ?d1) = Some r"
    "r = (case ownerRow tenant ?c d of None \<Rightarrow> \<lparr>rs_tenant = tenant, rs_contract = ?c, rs_owner = '''', rs_active = False, rs_version = 0\<rparr> | Some r \<Rightarrow> r)"
    using ownerRow_ensure [of tenant ?c ?c d] by (cases "ownerRow tenant ?c d") (auto simp: ownerRow_def)
  have nc: "\<not> (re_version ev = rs_version r \<and> (rs_owner r \<noteq> re_owner ev \<or> rs_active r \<noteq> re_active ev))"
  proof (cases "ownerRow tenant ?c d")
    case (Some r0)
    have row: "rs_owner (rowOfEvent ev) = re_owner ev" "rs_active (rowOfEvent ev) = re_active ev" by (simp_all add: rowOfEvent_def)
    from Some r(2) have "r = r0" by simp
    with assms(3) [OF Some] row show ?thesis by metis
  qed (use r(2) t(2) in simp)
  let ?x = "\<lparr>ri_tenant = tenant, ri_event = re_id ev, ri_hash = e_sha256 e (jsonResponsibility ev)\<rparr>"
  have ins: "insert_row responsibility_inbox_clash ?x (responsibility_inbox (sides d)) = Inr (responsibility_inbox (sides d) @ [?x])"
    using assms(2) by (auto simp: insert_row_Inr responsibility_inbox_clash_def seenRow_def find_None_iff)
  let ?d2 = "?d1\<lparr>sides := (sides d)\<lparr>responsibility_inbox := responsibility_inbox (sides d) @ [?x]\<rparr>\<rparr>"
  let ?f = "\<lambda>x. x\<lparr>rs_owner := re_owner ev, rs_version := re_version ev, rs_active := re_active ev\<rparr>"
  have d': "d' = (if re_version ev > rs_version r then ?d2\<lparr>responsibilities := update_rows (resp_is tenant ?c) ?f (responsibilities ?d1)\<rparr> else ?d2)"
    unfolding dd commit_def IngestContractResponsibility_def using assms(1,2) r(1) nc ins
    by (simp only: Let_def query_row_def t sd seenRow_def andThen_Inr option.case if_False sum.case prod.case if_distrib) auto
  show "seenRow tenant i d' = (if i = re_id ev then Some ?x else seenRow tenant i d)"
    using assms(2) by (auto simp: d' seenRow_def find_snoc split: option.splits)
  have own: "ownerRow tenant c d' = (if re_version ev > rs_version r then map_option (\<lambda>x. if resp_is tenant ?c x then ?f x else x) (ownerRow tenant c ?d1)
      else ownerRow tenant c ?d1)"
    by (simp add: d' ownerRow_def find_update_kept resp_is_def)
  show "ownerRow tenant c d' = (if c = re_contract ev
      then Some (case ownerRow tenant c d of None \<Rightarrow> rowOfEvent ev | Some r \<Rightarrow> if re_version ev > rs_version r then rowOfEvent ev else r)
      else ownerRow tenant c d)"
  proof (cases "c = ?c")
    case True
    then show ?thesis using own r(2) t ownerRow_is [of tenant ?c d]
      by (cases "ownerRow tenant ?c d") (simp_all add: ownerRow_ensure resp_is_def rowOfEvent_def)
  next
    case False
    have "\<not> resp_is tenant ?c x" if "ownerRow tenant c d = Some x" for x using ownerRow_is [OF that] False by (auto simp: resp_is_def)
    then show ?thesis using own False by (cases "ownerRow tenant c d") (simp_all add: ownerRow_ensure)
  qed
qed

text \<open>What the two lookups hold once the events of a set have been delivered.\<close>

definition delivered :: "env \<Rightarrow> string \<Rightarrow> ContractResponsibilityEvent set \<Rightarrow> db \<Rightarrow> bool" where
  "delivered e tenant E d \<longleftrightarrow>
     (\<forall>i. (seenRow tenant i d \<noteq> None) = (\<exists>ev \<in> E. re_id ev = i)) \<and>
     (\<forall>c. (ownerRow tenant c d = None) = (\<forall>ev \<in> E. re_contract ev \<noteq> c)) \<and>
     (\<forall>c r. ownerRow tenant c d = Some r \<longrightarrow> (\<exists>ev \<in> E. re_contract ev = c \<and> r = rowOfEvent ev \<and>
        (\<forall>ev' \<in> E. re_contract ev' = c \<longrightarrow> re_version ev' \<le> re_version ev)))"

lemma deliveredD:
  assumes "delivered e tenant E d"
  shows "seenRow tenant i d = None \<longleftrightarrow> (\<forall>ev \<in> E. re_id ev \<noteq> i)" "ownerRow tenant c d = None \<longleftrightarrow> (\<forall>ev \<in> E. re_contract ev \<noteq> c)"
    "ownerRow tenant c d = Some r \<Longrightarrow> \<exists>ev \<in> E. re_contract ev = c \<and> r = rowOfEvent ev \<and>
        (\<forall>ev' \<in> E. re_contract ev' = c \<longrightarrow> re_version ev' \<le> re_version ev)"
  using assms unfolding delivered_def by blast+

text \<open>The publisher's side of the stream: an identifier names one event, and a version of a contract has one event.\<close>

definition consistent :: "ContractResponsibilityEvent set \<Rightarrow> bool" where
  "consistent E \<longleftrightarrow> (\<forall>a \<in> E. \<forall>b \<in> E. re_id a = re_id b \<or> re_contract a = re_contract b \<and> re_version a = re_version b \<longrightarrow> a = b)"

lemma consistentD:
  "consistent E \<Longrightarrow> a \<in> E \<Longrightarrow> b \<in> E \<Longrightarrow> re_contract a = re_contract b \<Longrightarrow> re_version a = re_version b \<Longrightarrow> a = b"
  by (simp add: consistent_def)

lemma consistent_subset: "consistent E \<Longrightarrow> E' \<subseteq> E \<Longrightarrow> consistent E'"
  unfolding consistent_def by (meson subsetD)

lemma delivered_step:
  assumes I: "delivered e tenant E d" and v: "validateContractResponsibility tenant ev = Inr ()" and con: "consistent (insert ev E)"
  shows "delivered e tenant (insert ev E) (commit (IngestContractResponsibility e tenant ev) d)"
proof (cases "seenRow tenant (re_id ev) d")
  case (Some x)
  then obtain a where "a \<in> E" "re_id a = re_id ev" using deliveredD(1) [OF I, of "re_id ev"] by auto
  then have "ev \<in> E" using con unfolding consistent_def by blast
  with I show ?thesis by (simp add: ingest_seen [OF v Some] insert_absorb)
next
  case None
  let ?c = "re_contract ev" and ?d' = "commit (IngestContractResponsibility e tenant ev) d"
  have same: "r = rowOfEvent ev" if "ownerRow tenant ?c d = Some r" "rs_version r = re_version ev" for r
  proof -
    from deliveredD(3) [OF I that(1)] obtain a where a: "a \<in> E" "re_contract a = ?c" "r = rowOfEvent a" by blast
    with that(2) have "re_version a = re_version ev" by (simp add: rowOfEvent_def)
    with a con have "a = ev" unfolding consistent_def by blast
    with a show ?thesis by simp
  qed
  note step = ingest_new [OF v None same refl]
  have own: "\<exists>a \<in> insert ev E. re_contract a = c \<and> r = rowOfEvent a \<and> (\<forall>b \<in> insert ev E. re_contract b = c \<longrightarrow> re_version b \<le> re_version a)"
    if r: "ownerRow tenant c ?d' = Some r" for c r
  proof (cases "ownerRow tenant c d")
    case None
    then have c: "c = ?c" "r = rowOfEvent ev" using r by (auto simp: step(1) split: if_splits)
    have "\<forall>b \<in> E. re_contract b \<noteq> c" using None deliveredD(2) [OF I] by simp
    with c show ?thesis by auto
  next
    case (Some r0)
    then obtain a where a: "a \<in> E" "re_contract a = c" "r0 = rowOfEvent a" "\<forall>b \<in> E. re_contract b = c \<longrightarrow> re_version b \<le> re_version a"
      using deliveredD(3) [OF I] by blast
    then show ?thesis
    proof (cases "c = ?c \<and> re_version a < re_version ev")
      case True
      with r Some a(3) have "r = rowOfEvent ev" by (simp add: step(1) rowOfEvent_def)
      moreover have "re_version b \<le> re_version ev" if "b \<in> insert ev E" "re_contract b = c" for b using that a(4) True by fastforce
      ultimately show ?thesis using True by (intro bexI [of _ ev]) simp_all
    next
      case False
      with r Some a(3) have "r = r0" by (auto simp: step(1) rowOfEvent_def split: if_splits)
      with a False show ?thesis by (intro bexI [of _ a]) auto
    qed
  qed
  have none: "(ownerRow tenant c ?d' = None) = (\<forall>a \<in> insert ev E. re_contract a \<noteq> c)" for c
    using deliveredD(2) [OF I, of c] by (simp add: step(1))
  have seen: "(seenRow tenant i ?d' \<noteq> None) = (\<exists>a \<in> insert ev E. re_id a = i)" for i
    using deliveredD(1) [OF I, of i] by (auto simp: step(2))
  show ?thesis unfolding delivered_def by (intro conjI allI impI seen none own)
qed

lemma delivered_run:
  assumes "delivered e tenant E d" "\<forall>ev \<in> set evs. validateContractResponsibility tenant ev = Inr ()" "consistent (E \<union> set evs)"
  shows "delivered e tenant (E \<union> set evs) (deliver e tenant evs d)"
  using assms
proof (induction evs arbitrary: E d)
  case (Cons ev evs)
  have sub: "consistent (insert ev E)" by (rule consistent_subset [OF Cons.prems(3)]) auto
  have "delivered e tenant (insert ev E) (commit (IngestContractResponsibility e tenant ev) d)"
    by (rule delivered_step [OF Cons.prems(1) _ sub]) (use Cons.prems(2) in simp)
  from Cons.IH [OF this] Cons.prems(2,3) show ?case by (simp add: deliver_def)
qed (simp add: deliver_def)

text \<open>C23: the newest event decides, whatever the order. After any sequence of valid deliveries, with any repetitions,
  the responsibility row of a contract is the row of the event with the highest version among those delivered for it;
  late and repeated events never bring back an earlier person.\<close>

theorem responsibility_latest:
  assumes "\<forall>ev \<in> set evs. validateContractResponsibility tenant ev = Inr ()" "consistent (set evs)"
    "\<forall>r \<in> set (responsibilities d). rs_tenant r \<noteq> tenant" "\<forall>x \<in> set (responsibility_inbox (sides d)). ri_tenant x \<noteq> tenant"
    "ev \<in> set evs" "\<forall>ev' \<in> set evs. re_contract ev' = re_contract ev \<longrightarrow> re_version ev' \<le> re_version ev"
  shows "ownerRow tenant (re_contract ev) (deliver e tenant evs d) = Some (rowOfEvent ev)"
proof -
  have "seenRow tenant i d = None" "ownerRow tenant c d = None" for i c
    using assms(3,4) by (auto simp: ownerRow_def seenRow_def resp_is_def find_None_iff)
  then have "delivered e tenant {} d" by (simp add: delivered_def)
  from delivered_run [OF this, of evs] assms(1,2) have D: "delivered e tenant (set evs) (deliver e tenant evs d)" by simp
  have "ownerRow tenant (re_contract ev) (deliver e tenant evs d) \<noteq> None" using deliveredD(2) [OF D] assms(5) by blast
  then obtain r where r: "ownerRow tenant (re_contract ev) (deliver e tenant evs d) = Some r" by blast
  from deliveredD(3) [OF D r] obtain a where a: "a \<in> set evs" "re_contract a = re_contract ev" "r = rowOfEvent a"
    "re_version ev \<le> re_version a" using assms(5) by blast
  have "re_version a = re_version ev" using a(1,2,4) assms(6) by (simp add: le_antisym)
  then have "a = ev" using consistentD [OF assms(2) a(1) assms(5)] a(2) by simp
  with r a(3) show ?thesis by simp
qed

definition sampleOwner :: "string \<Rightarrow> nat \<Rightarrow> string \<Rightarrow> ContractResponsibilityEvent" where
  "sampleOwner i v owner = \<lparr>re_id = i, re_type = ''contract.responsibility_changed.v1'', re_tenant = ''T'', re_occurred = Some ''2024-03-15T00:00:00Z'',
     re_contract = ''C'', re_version = v, re_owner = owner, re_active = True\<rparr>"

theorem responsibility_latest_witness:
  "ownerRow ''T'' (re_contract (sampleOwner ''e2'' 2 ''bob''))
     (deliver (freshEnv []) ''T'' [sampleOwner ''e2'' 2 ''bob'', sampleOwner ''e1'' 1 ''amy'', sampleOwner ''e2'' 2 ''bob''] empty_db) =
   Some (rowOfEvent (sampleOwner ''e2'' 2 ''bob''))"
proof (rule responsibility_latest)
  let ?evs = "[sampleOwner ''e2'' 2 ''bob'', sampleOwner ''e1'' 1 ''amy'', sampleOwner ''e2'' 2 ''bob'']"
  show "\<forall>ev \<in> set ?evs. validateContractResponsibility ''T'' ev = Inr ()"
    by (simp add: sampleOwner_def validateContractResponsibility_def stableText_def textTooLong_def plain_def byte_def asciiSpace_def
        runeCount.simps runeLen_def inRange_def)
  show "consistent (set ?evs)" by (auto simp: consistent_def sampleOwner_def)
qed (auto simp: empty_db_def sampleOwner_def)

end
