(* ===== verification/ImportRelease.thy ===== *)
theory ImportRelease
  imports Contracts
begin

text \<open>
  The opening balances of an imported contract (import\_reconciliation.go): the statement that is
  computed from the books, its reconciliation with the amounts the source approved, and the
  release of the contract, which checks the statement again.
\<close>

section \<open>The statement\<close>

record ImportReconcileInput =
  rn_currency :: string
  rn_open :: string
  rn_receipt :: string
  rn_invoiced :: string
  rn_decision :: string
  rn_reason :: string

record ImportReconciliation =
  ib_id :: string
  ib_snapshot :: string
  ib_version :: nat
  ib_state :: string
  ib_currency :: string
  ib_contract :: string
  ib_planned :: string
  ib_confirmed :: string
  ib_allocated :: string
  ib_open :: string
  ib_receipt :: string
  ib_invoiced :: string
  ib_count :: nat

definition jsonBalances :: "ImportReconciliation \<Rightarrow> json" where
  "jsonBalances b =
     JObj [(''reconciliation_id'', JStr (ib_id b)), (''contract_snapshot_id'', JStr (ib_snapshot b)),
       (''snapshot_version'', JInt (int (ib_version b))), (''state'', JStr (ib_state b)),
       (''currency'', JStr (ib_currency b)), (''contract_amount'', JStr (ib_contract b)),
       (''planned_amount'', JStr (ib_planned b)), (''confirmed_amount'', JStr (ib_confirmed b)),
       (''allocated_amount'', JStr (ib_allocated b)), (''open_amount'', JStr (ib_open b)),
       (''receipt_amount'', JStr (ib_receipt b)), (''invoiced_amount'', JStr (ib_invoiced b)),
       (''fact_count'', JInt (int (ib_count b)))]"

text \<open>
  \<open>add(xs...).Cmp(add(ys...)) != 0\<close>. A text that is no number makes \<open>SetString\<close> return nil,
  which the addition dereferences.
\<close>

definition differs :: "string list \<Rightarrow> string list \<Rightarrow> bool res" where
  "differs xs ys =
     (case (add xs, add ys) of (Some a, Some b) \<Rightarrow> Inr (a \<noteq> b) | _ \<Rightarrow> Inl NilDereference)"

text \<open>A comparison that ends the function with an error where the sums differ.\<close>

definition mustAgree :: "go_err \<Rightarrow> string list \<Rightarrow> string list \<Rightarrow> unit res" where
  "mustAgree err xs ys = andThen (differs xs ys) (\<lambda>b. if b then Inl err else Inr ())"

subsection \<open>The sums\<close>

definition planIn :: "string \<Rightarrow> string \<Rightarrow> receivable_plan \<Rightarrow> bool" where
  "planIn tenant sid r \<longleftrightarrow> rp_tenant r = tenant \<and> rp_snapshot r = sid"

text \<open>The sum of the plans and the number that is not confirmed; the second is NULL without plans.\<close>

definition planTotals :: "string \<Rightarrow> string \<Rightarrow> db \<Rightarrow> (int \<times> nat) res" where
  "planTotals tenant sid d =
     (if \<not> exists_row (planIn tenant sid) (plans d) then Inl SqlNullScan
      else Inr (sum_rows (planIn tenant sid) rp_amount (plans d),
                length (filter (\<lambda>r. planIn tenant sid r \<and> rp_status r \<noteq> CONFIRMED) (plans d))))"

definition receivableIn :: "string \<Rightarrow> string \<Rightarrow> string \<Rightarrow> receivable \<Rightarrow> bool" where
  "receivableIn tenant sid currency v \<longleftrightarrow>
     rv_tenant v = tenant \<and> rv_snapshot v = sid \<and> rv_currency v = currency"

definition netAllocated :: "db \<Rightarrow> allocation \<Rightarrow> int" where
  "netAllocated d a = al_amount a -
     sum_rows (\<lambda>r. rr_tenant r = al_tenant a \<and> rr_allocation r = al_id a) rr_amount (reversals d)"

definition allocatedIn :: "string \<Rightarrow> string \<Rightarrow> db \<Rightarrow> int" where
  "allocatedIn tenant sid d =
     sum_rows (\<lambda>a. exists_row (\<lambda>v. rv_id v = al_receivable a \<and> rv_tenant v = al_tenant a \<and>
                               rv_tenant v = tenant \<and> rv_snapshot v = sid) (receivables d))
       (netAllocated d) (allocations d)"

definition factIn :: "string \<Rightarrow> string \<Rightarrow> import_fact_row \<Rightarrow> bool" where
  "factIn tenant sid f \<longleftrightarrow> fr_tenant f = tenant \<and> fr_snapshot f = sid"

definition receivedIn :: "string \<Rightarrow> string \<Rightarrow> db \<Rightarrow> int" where
  "receivedIn tenant sid d =
     sum_rows (\<lambda>f. factIn tenant sid f \<and> fr_type f = ''RECEIPT'')
       (\<lambda>f. sum_rows (\<lambda>r. rc_id r = fr_target f \<and> rc_tenant r = fr_tenant f) rc_amount (receipts d))
       (import_facts d)"

text \<open>The facts that are restored, as the keys of the map the code builds.\<close>

definition restoredIn :: "string \<Rightarrow> string \<Rightarrow> db \<Rightarrow> expected_fact list" where
  "restoredIn tenant sid d =
     remdups (map (\<lambda>f. \<lparr>xf_system = fr_system f, xf_type = fr_type f, xf_external = fr_external f\<rparr>)
       (filter (factIn tenant sid) (import_facts d)))"

definition importOf :: "string \<Rightarrow> string \<Rightarrow> contract_import \<Rightarrow> bool" where
  "importOf tenant sid ci \<longleftrightarrow> ci_tenant ci = tenant \<and> ci_snapshot ci = sid"

text \<open>The snapshot joined with its import.\<close>

definition importedSnapshot ::
  "(contract_snapshot \<Rightarrow> bool) \<Rightarrow> string \<Rightarrow> string \<Rightarrow> db \<Rightarrow> (contract_snapshot \<times> contract_import) res" where
  "importedSnapshot extra tenant sid d =
     andThen (query_row SqlNoRows (\<lambda>cs. cs_tenant cs = tenant \<and> cs_id cs = sid \<and> extra cs) (snapshots d)) (\<lambda>cs.
     andThen (query_row SqlNoRows (importOf tenant sid) (contract_imports d)) (\<lambda>ci. Inr (cs, ci)))"

subsection \<open>The checks\<close>

definition checkFacts :: "expected_fact list \<Rightarrow> expected_fact list \<Rightarrow> unit res" where
  "checkFacts restored facts =
     (if length restored \<noteq> length facts then Inl ErrImportBlocked
      else if list_ex (\<lambda>f. f \<notin> set restored) facts then Inl ErrImportBlocked else Inr ())"

definition importBalances :: "string \<Rightarrow> string \<Rightarrow> db \<Rightarrow> (ImportReconciliation \<times> string) res" where
  "importBalances tenant sid d =
     andThen (importedSnapshot (\<lambda>cs. cs_migration cs = HOLD) tenant sid d) (\<lambda>(cs, ci).
     andThen (planTotals tenant sid d) (\<lambda>(planned, pending).
     let contract = money (cs_amount cs);
         total = (\<lambda>g. sum_rows (receivableIn tenant sid (cs_currency cs)) g (receivables d));
         confirmed = money (total rv_original); allocated = money (total rv_received);
         opened = money (total rv_open); invoiced = money (total rv_invoiced);
         writeoff = money (total rv_writeoff);
         restored = restoredIn tenant sid d
     in if pending \<noteq> 0 then Inl ErrConflict
        else andThen (mustAgree ErrConflict [money planned] [contract]) (\<lambda>_.
        andThen (mustAgree ErrConflict [confirmed] [contract]) (\<lambda>_.
        andThen (mustAgree ErrConflict [opened, allocated, writeoff] [confirmed]) (\<lambda>_.
        andThen (mustAgree ErrConflict [money (allocatedIn tenant sid d)] [allocated]) (\<lambda>_.
        andThen (checkFacts restored (ci_expected ci)) (\<lambda>_.
        andThen (if ci_mode ci = ''HISTORICAL_CLOSED'' then mustAgree ErrConflict [opened] [] else Inr ()) (\<lambda>_.
        andThen (mustAgree ErrImportBlocked [invoiced] []) (\<lambda>_.
        Inr (\<lparr>ib_id = '''', ib_snapshot = sid, ib_version = cs_import_version cs, ib_state = ''READY'',
              ib_currency = cs_currency cs, ib_contract = contract, ib_planned = money planned,
              ib_confirmed = confirmed, ib_allocated = allocated, ib_open = opened,
              ib_receipt = money (receivedIn tenant sid d), ib_invoiced = invoiced,
              ib_count = length restored\<rparr>, ci_mode ci))))))))))"

section \<open>Reconciliation\<close>

fun checkAmounts :: "string list \<Rightarrow> unit res" where
  "checkAmounts [] = Inr ()"
| "checkAmounts (v # vs) = andThen (nonNegativeAmount v) (\<lambda>_. checkAmounts vs)"

definition approveImport ::
  "Principal \<Rightarrow> string \<Rightarrow> string \<Rightarrow> ImportReconcileInput \<Rightarrow> db \<Rightarrow> db" where
  "approveImport p sid rid i d =
     d\<lparr>contract_imports := update_rows (importOf (p_tenant p) sid)
         (\<lambda>ci. ci\<lparr>ci_state := READY, ci_decision := rn_decision i, ci_reason := rn_reason i,
                  ci_approver := p_user p, ci_reconciliation := rid\<rparr>) (contract_imports d)\<rparr>"

definition ReconcileContractImport ::
  "Service \<Rightarrow> env \<Rightarrow> Principal \<Rightarrow> string \<Rightarrow> ImportReconcileInput \<Rightarrow> db \<Rightarrow> (ImportReconciliation \<times> db) res" where
  "ReconcileContractImport s e p sid i d =
     andThen (financeAccess s p ''settlement.import.reconcile'') (\<lambda>_.
     andThen (financeAccess s p ''settlement.import.release'') (\<lambda>_.
     if rn_decision i \<noteq> ''PUBLISH'' \<and> rn_decision i \<noteq> ''SUPPRESSED'' \<or> rn_reason i = '''' \<or>
        textTooLong (rn_reason i) 500 then Inl ErrInvalid
     else andThen (checkAmounts [rn_open i, rn_receipt i, rn_invoiced i]) (\<lambda>_.
     andThen (importBalances (p_tenant p) sid d) (\<lambda>(b, _).
     if rn_currency i \<noteq> ib_currency b then Inl ErrConflict
     else andThen (mustAgree ErrConflict [rn_open i] [ib_open b]) (\<lambda>_.
     andThen (mustAgree ErrConflict [rn_receipt i] [ib_receipt b]) (\<lambda>_.
     andThen (mustAgree ErrConflict [rn_invoiced i] [ib_invoiced b]) (\<lambda>_.
     let statement = jsonBalances b; rid = e_ids e 0
     in andThen (insert_row reconciliation_clash
            \<lparr>ic_id = rid, ic_tenant = p_tenant p, ic_snapshot = sid, ic_version = ib_version b,
             ic_hash = e_sha256 e statement, ic_statement = statement, ic_by = p_user p\<rparr>
            (import_reconciliations (sides d))) (\<lambda>t.
        andThen (outbox e 1 (p_tenant p) ''PLATFORM_AUDIT'' ''SETTLEMENT_IMPORT_RECONCILED'' ''contract_snapshot'' sid
            [(''actor_id'', JStr (p_user p)), (''reconciliation_id'', JStr rid),
             (''snapshot_version'', JInt (int (ib_version b))), (''credit_decision'', JStr (rn_decision i)),
             (''reason'', JStr (rn_reason i))]
            (approveImport p sid rid i (d\<lparr>sides := (sides d)\<lparr>import_reconciliations := t\<rparr>\<rparr>))) (\<lambda>d1.
        Inr (b\<lparr>ib_id := rid\<rparr>, d1))))))))))"

section \<open>Release\<close>

text \<open>A reconciliation with a decision, a reason and an approver that is the one the command quotes.\<close>

definition releasable :: "ContractImportCommand \<Rightarrow> contract_snapshot \<Rightarrow> contract_import \<Rightarrow> bool" where
  "releasable c cs ci \<longleftrightarrow>
     \<not> (ci_reconciliation ci \<noteq> cc_reconciliation c \<or> cs_migration cs \<noteq> HOLD \<or> ci_reason ci = '''' \<or>
        ci_approver ci = '''' \<or> ci_decision ci \<noteq> ''PUBLISH'' \<and> ci_decision ci \<noteq> ''SUPPRESSED'')"

definition sameItem :: "ContractImportCommand \<Rightarrow> contract_import \<Rightarrow> bool" where
  "sameItem c ci \<longleftrightarrow>
     \<not> (ci_item ci \<noteq> cc_item c \<or> ci_revision ci \<noteq> cc_revision c \<or> ci_digest ci \<noteq> cc_digest c \<or>
        ci_release ci \<noteq> cc_release c \<or> ci_mode ci \<noteq> cc_mode c)"

definition checkOwner :: "string \<Rightarrow> string \<Rightarrow> ContractImportCommand \<Rightarrow> contract_import \<Rightarrow> db \<Rightarrow> unit res" where
  "checkOwner tenant source c ci d =
     (if ci_mode ci \<noteq> ''CONTINUE_LIVE'' then Inr ()
      else case find (resp_is tenant source) (responsibilities d) of
        None \<Rightarrow> Inl ErrConflict
      | Some r \<Rightarrow> if \<not> rs_active r \<or> rs_owner r \<noteq> ci_owner ci \<or> rs_version r \<noteq> cc_owner_version c
                  then Inl ErrConflict else Inr ())"

definition checkReconciled :: "env \<Rightarrow> string \<Rightarrow> string \<Rightarrow> ContractImportCommand \<Rightarrow> db \<Rightarrow> nat res" where
  "checkReconciled e tenant sid c d =
     andThen (query_row ErrConflict (\<lambda>r. ic_tenant r = tenant \<and> ic_snapshot r = sid \<and> ic_id r = cc_reconciliation c)
         (import_reconciliations (sides d))) (\<lambda>r.
     andThen (importBalances tenant sid d) (\<lambda>(b, _).
     if ic_version r \<noteq> ib_version b \<or> ic_version r \<noteq> cc_snapshot_version c \<or>
        ic_hash r \<noteq> e_sha256 e (jsonBalances b) then Inl ErrConflict
     else Inr (ic_version r)))"

definition creditOpen :: "credit_status \<Rightarrow> bool" where
  "creditOpen st \<longleftrightarrow> st = CS_HOLD \<or> st = CS_PENDING \<or> st = CS_RETRY_WAIT \<or> st = CS_PROCESSING"

definition creditOf :: "db \<Rightarrow> string \<Rightarrow> string \<Rightarrow> credit_sync \<Rightarrow> bool" where
  "creditOf d tenant sid c \<longleftrightarrow>
     exists_row (\<lambda>v. rv_id v = cy_receivable c \<and> rv_tenant v = cy_tenant c \<and> rv_tenant v = tenant \<and>
                     rv_snapshot v = sid) (receivables d)"

definition releaseStatus :: "string \<Rightarrow> credit_status" where
  "releaseStatus decision = (if decision = ''SUPPRESSED'' then CS_SUPPRESSED else CS_PENDING)"

definition releaseImport :: "env \<Rightarrow> string \<Rightarrow> string \<Rightarrow> string \<Rightarrow> db \<Rightarrow> db" where
  "releaseImport e tenant sid decision d =
     d\<lparr>snapshots := update_rows (\<lambda>cs. cs_tenant cs = tenant \<and> cs_id cs = sid)
         (\<lambda>cs. cs\<lparr>cs_migration := RELEASED\<rparr>) (snapshots d),
       contract_imports := update_rows (importOf tenant sid)
         (\<lambda>ci. ci\<lparr>ci_state := IMPORT_RELEASED\<rparr>) (contract_imports d),
       credit_syncs := update_rows (\<lambda>c. creditOf d tenant sid c \<and> creditOpen (cy_status c))
         (\<lambda>c. c\<lparr>cy_status := releaseStatus decision, cy_updated_at := e_now e\<rparr>) (credit_syncs d)\<rparr>"

definition releaseReceipt :: "string \<Rightarrow> ContractImportCommand \<Rightarrow> bool \<Rightarrow> ImportReceipt" where
  "releaseReceipt sid c dup =
     \<lparr>ip_event = cc_event c, ip_snapshot = sid, ip_status = ''FINANCE_RELEASED'', ip_migration = RELEASED,
      ip_duplicate = dup\<rparr>"

definition ReleaseContractImport ::
  "env \<Rightarrow> string \<Rightarrow> string \<Rightarrow> ContractImportCommand \<Rightarrow> db \<Rightarrow> (ImportReceipt \<times> db) res" where
  "ReleaseContractImport e tenant sid c d =
     andThen (validateImportCommand tenant ''RELEASE'' c) (\<lambda>_.
     if cc_reconciliation c = '''' \<or> cc_snapshot_version c = 0 then Inl ErrInvalid
     else andThen (importedSnapshot (\<lambda>_. True) tenant sid d) (\<lambda>(cs, ci).
     case cs_contract cs of
       None \<Rightarrow> Inl SqlNullScan
     | Some source \<Rightarrow>
         if \<not> sameItem c ci then Inl ErrConflict
         else andThen (claimIdempotency e tenant ''IMPORT_RELEASE'' (cc_event c) sid (jsonImport c) d)
           (\<lambda>(_, replay, d1).
           if replay
           then (if cs_migration cs \<noteq> RELEASED then Inl ErrConflict else Inr (releaseReceipt sid c True, d))
           else if \<not> releasable c cs ci then Inl ErrConflict
           else andThen (checkReconciled e tenant sid c d1) (\<lambda>version.
             andThen (checkOwner tenant source c ci d1) (\<lambda>_.
             andThen (outbox e 0 tenant ''PLATFORM_AUDIT'' ''SETTLEMENT_IMPORT_RELEASED'' ''contract_snapshot'' sid
                [(''actor_id'', JStr (ci_approver ci)), (''credit_decision'', JStr (ci_decision ci)),
                 (''reason'', JStr (ci_reason ci)), (''reconciliation_id'', JStr (cc_reconciliation c)),
                 (''snapshot_version'', JInt (int version))]
                (releaseImport e tenant sid (ci_decision ci) d1)) (\<lambda>d2.
             Inr (releaseReceipt sid c False, d2)))))))"

end
