(* ===== verification/ImportProps.thy ===== *)
theory ImportProps
  imports ImportRelease PlanProps Replay
begin

text \<open>
  What the release of an imported contract rests on: the statement is stated a second time in
  cents and sets of facts, and the checks of the code are shown to be that statement. A release then
  follows a reconciliation of exactly these books, a reconciliation can be released, and every
  write in between makes it void.
\<close>

section \<open>Comparing sums\<close>

lemma differs_money: "differs (map money xs) (map money ys) = Inr (sum_list xs \<noteq> sum_list ys)"
  unfolding differs_def add_money by simp

lemma mustAgree_money:
  "mustAgree err (map money xs) (map money ys) = (if sum_list xs = sum_list ys then Inr () else Inl err)"
  unfolding mustAgree_def differs_money by simp

lemmas mustAgree_cents [simp] =
  mustAgree_money [of _ "[x]" "[y]" for x y, simplified]
  mustAgree_money [of _ "[x, y, z]" "[w]" for x y z w, simplified]
  mustAgree_money [of _ "[x]" "[]" for x, simplified]

section \<open>The books of an import\<close>

definition totalOf :: "string \<Rightarrow> string \<Rightarrow> string \<Rightarrow> (receivable \<Rightarrow> int) \<Rightarrow> db \<Rightarrow> int" where
  "totalOf tenant sid cur g d = sum_rows (receivableIn tenant sid cur) g (receivables d)"

text \<open>
  The books are complete: every instalment is confirmed and they add up to the contract; so do
  the receivables, whose open, received and written off parts are the whole, the received part being what
  allocations carry; the declared facts are the restored ones; nothing is invoiced.
\<close>

definition booksComplete :: "string \<Rightarrow> string \<Rightarrow> contract_snapshot \<Rightarrow> contract_import \<Rightarrow> db \<Rightarrow> bool" where
  "booksComplete tenant sid cs ci d \<longleftrightarrow>
     (\<exists>r \<in> set (plans d). planIn tenant sid r) \<and>
     (\<forall>r \<in> set (plans d). planIn tenant sid r \<longrightarrow> rp_status r = CONFIRMED) \<and>
     sum_rows (planIn tenant sid) rp_amount (plans d) = cs_amount cs \<and>
     (let total = (\<lambda>g. totalOf tenant sid (cs_currency cs) g d) in
       total rv_original = cs_amount cs \<and>
       total rv_open + total rv_received + total rv_writeoff = cs_amount cs \<and>
       total rv_received = allocatedIn tenant sid d \<and> total rv_invoiced = 0 \<and>
       (ci_mode ci = ''HISTORICAL_CLOSED'' \<longrightarrow> total rv_open = 0)) \<and>
     set (ci_expected ci) \<subseteq> set (restoredIn tenant sid d) \<and>
     length (restoredIn tenant sid d) = length (ci_expected ci)"

definition statementOf :: "string \<Rightarrow> string \<Rightarrow> contract_snapshot \<Rightarrow> db \<Rightarrow> ImportReconciliation" where
  "statementOf tenant sid cs d =
     (let total = (\<lambda>g. money (totalOf tenant sid (cs_currency cs) g d)) in
      \<lparr>ib_id = '''', ib_snapshot = sid, ib_version = cs_import_version cs, ib_state = ''READY'',
       ib_currency = cs_currency cs, ib_contract = money (cs_amount cs),
       ib_planned = money (sum_rows (planIn tenant sid) rp_amount (plans d)),
       ib_confirmed = total rv_original, ib_allocated = total rv_received, ib_open = total rv_open,
       ib_receipt = money (receivedIn tenant sid d), ib_invoiced = total rv_invoiced,
       ib_count = length (restoredIn tenant sid d)\<rparr>)"

lemma checkFacts_Inr:
  "checkFacts restored facts = Inr u \<longleftrightarrow> length restored = length facts \<and> set facts \<subseteq> set restored"
  by (auto simp: checkFacts_def list_ex_iff)

lemma planTotals_Inr:
  "planTotals tenant sid d = Inr (x, n) \<longleftrightarrow>
     (\<exists>r \<in> set (plans d). planIn tenant sid r) \<and> x = sum_rows (planIn tenant sid) rp_amount (plans d) \<and>
     n = length (filter (\<lambda>r. planIn tenant sid r \<and> rp_status r \<noteq> CONFIRMED) (plans d))"
  by (auto simp: planTotals_def)

text \<open>The checks of \<open>importBalances\<close> pass exactly on complete books, and then state them.\<close>

lemma importBalances_iff:
  "importBalances tenant sid d = Inr (b, m) \<longleftrightarrow>
     (\<exists>cs ci. importedSnapshot (\<lambda>cs. cs_migration cs = HOLD) tenant sid d = Inr (cs, ci) \<and>
        booksComplete tenant sid cs ci d \<and> b = statementOf tenant sid cs d \<and> m = ci_mode ci)"
proof (cases "importedSnapshot (\<lambda>cs. cs_migration cs = HOLD) tenant sid d")
  case (Inr x)
  obtain cs ci where x: "x = (cs, ci)" by (cases x)
  have guard: "(if c then Inr () else Inl er) = Inr u \<longleftrightarrow> c" for c u and er :: go_err by simp
  have bool: "planTotals tenant sid d = Inl er \<Longrightarrow> \<not> booksComplete tenant sid cs ci d" for er
    by (auto simp: planTotals_def booksComplete_def split: if_splits)
  show ?thesis
  proof (cases "planTotals tenant sid d")
    case (Inl er)
    with bool show ?thesis by (simp add: importBalances_def Inr x)
  next
    case (Inr t)
    then obtain n where t: "t = (sum_rows (planIn tenant sid) rp_amount (plans d), n)"
        and n: "n = 0 \<longleftrightarrow> (\<forall>r \<in> set (plans d). planIn tenant sid r \<longrightarrow> rp_status r = CONFIRMED)"
        and ex: "\<exists>r \<in> set (plans d). planIn tenant sid r"
      by (cases t) (auto simp: planTotals_Inr filter_empty_conv)
    have mode: "(if ci_mode ci = ''HISTORICAL_CLOSED'' then (if c then Inr () else Inl er) else Inr ()) = Inr u \<longleftrightarrow>
        (ci_mode ci = ''HISTORICAL_CLOSED'' \<longrightarrow> c)" for c u and er :: go_err by simp
    show ?thesis
      using ex
      unfolding importBalances_def \<open>importedSnapshot _ tenant sid d = Inr x\<close> x Inr t andThen_Inr prod.case Let_def
        guard_eq_Inr not_not n andThen_eq_Inr mustAgree_cents guard mode checkFacts_Inr booksComplete_def
        statementOf_def totalOf_def
      by (simp only: sum.inject prod.inject ex_simps simp_thms conj_assoc add.assoc) (intro iffI; elim conjE exE; simp)
  qed
qed (simp add: importBalances_def)

section \<open>Which tables matter\<close>

lemma find_and: "find P t = Some x \<Longrightarrow> Q x \<Longrightarrow> find (\<lambda>x. P x \<and> Q x) t = Some x"
  by (induction t) (auto split: if_splits)

lemma importedSnapshot_Inr:
  "importedSnapshot extra tenant sid d = Inr (cs, ci) \<longleftrightarrow>
     find (\<lambda>cs. cs_tenant cs = tenant \<and> cs_id cs = sid \<and> extra cs) (snapshots d) = Some cs \<and>
     find (importOf tenant sid) (contract_imports d) = Some ci"
  by (auto simp: importedSnapshot_def andThen_eq_Inr query_row_Inr)

lemma importedSnapshot_held:
  assumes "importedSnapshot (\<lambda>_. True) tenant sid d = Inr (cs, ci)" "cs_migration cs = HOLD"
  shows "importedSnapshot (\<lambda>cs. cs_migration cs = HOLD) tenant sid d = Inr (cs, ci)"
  using assms find_and [of "\<lambda>cs. cs_tenant cs = tenant \<and> cs_id cs = sid" "snapshots d" cs "\<lambda>cs. cs_migration cs = HOLD"]
  by (simp add: importedSnapshot_Inr)

text \<open>The tables from which the statement is computed.\<close>

definition sameBooks :: "db \<Rightarrow> db \<Rightarrow> bool" where
  "sameBooks d d' \<longleftrightarrow>
     plans d' = plans d \<and> receivables d' = receivables d \<and> allocations d' = allocations d \<and>
     reversals d' = reversals d \<and> receipts d' = receipts d \<and> import_facts d' = import_facts d"

lemma sameBooks_refl [simp]: "sameBooks d d"
  by (simp add: sameBooks_def)

lemma sameBooks_sums:
  assumes "sameBooks d d'"
  shows "allocatedIn tenant sid d' = allocatedIn tenant sid d" "receivedIn tenant sid d' = receivedIn tenant sid d"
    "restoredIn tenant sid d' = restoredIn tenant sid d" "totalOf tenant sid cur g d' = totalOf tenant sid cur g d"
proof -
  have "netAllocated d' = netAllocated d" using assms by (simp add: sameBooks_def netAllocated_def fun_eq_iff)
  then show "allocatedIn tenant sid d' = allocatedIn tenant sid d"
    using assms by (simp add: sameBooks_def allocatedIn_def)
qed (use assms in \<open>simp_all add: sameBooks_def receivedIn_def restoredIn_def totalOf_def\<close>)

lemma booksComplete_cong:
  assumes "sameBooks d d'" "ci_expected ci' = ci_expected ci" "ci_mode ci' = ci_mode ci"
  shows "booksComplete tenant sid cs ci' d' = booksComplete tenant sid cs ci d"
  unfolding booksComplete_def sameBooks_sums [OF assms(1)] assms(2,3)
  using assms(1) by (simp add: sameBooks_def)

lemma statementOf_cong: "sameBooks d d' \<Longrightarrow> statementOf tenant sid cs d' = statementOf tenant sid cs d"
  unfolding statementOf_def by (simp add: sameBooks_sums) (simp add: sameBooks_def)

section \<open>A release follows a reconciliation of these books\<close>

lemma claim_tables:
  assumes "claimIdempotency e t cmd k v q d = Inr (w, rp, d1)"
  shows "sameBooks d d1 \<and> snapshots d1 = snapshots d \<and> contract_imports d1 = contract_imports d \<and>
    credit_syncs d1 = credit_syncs d \<and> responsibilities d1 = responsibilities d \<and> sides d1 = sides d"
  using claimIdempotency_frame [OF assms] by (cases d; cases d1) (simp add: idemFrame_def sameBooks_def)

lemma releaseImport_tables:
  assumes "outbox e i t ds ty aty aid body (releaseImport e tenant sid decision d) = Inr d'"
  shows "sameBooks d d'"
    "snapshots d' = update_rows (\<lambda>cs. cs_tenant cs = tenant \<and> cs_id cs = sid) (\<lambda>cs. cs\<lparr>cs_migration := RELEASED\<rparr>) (snapshots d)"
    "credit_syncs d' = update_rows (\<lambda>c. creditOf d tenant sid c \<and> creditOpen (cy_status c))
         (\<lambda>c. c\<lparr>cy_status := releaseStatus decision, cy_updated_at := e_now e\<rparr>) (credit_syncs d)"
  using outbox_frame [OF assms] by (cases d; cases d'; simp add: eventFrame_def releaseImport_def sameBooks_def)+

lemma checkOwner_cong: "responsibilities d' = responsibilities d \<Longrightarrow> checkOwner t source c ci d' = checkOwner t source c ci d"
  by (simp add: checkOwner_def)

lemma checkOwner_Inr:
  assumes "checkOwner tenant source c ci d = Inr u" "ci_mode ci = ''CONTINUE_LIVE''"
  shows "\<exists>r \<in> set (responsibilities d). resp_is tenant source r \<and> rs_active r \<and> rs_owner r = ci_owner ci \<and>
    rs_version r = cc_owner_version c"
  using assms by (auto simp: checkOwner_def split: option.splits if_splits dest!: find_SomeD)

lemma import_release_inv:
  assumes "ReleaseContractImport e tenant sid c d = Inr (r, d')" "\<not> ip_duplicate r"
  obtains cs ci source rc d1 version where
    "importedSnapshot (\<lambda>cs. cs_migration cs = HOLD) tenant sid d = Inr (cs, ci)" "cs_contract cs = Some source"
    "releasable c cs ci" "booksComplete tenant sid cs ci d"
    "rc \<in> set (import_reconciliations (sides d))" "ic_id rc = cc_reconciliation c" "ic_snapshot rc = sid"
    "ic_version rc = cs_import_version cs" "cc_snapshot_version c = cs_import_version cs"
    "ic_hash rc = e_sha256 e (jsonBalances (statementOf tenant sid cs d))"
    "checkOwner tenant source c ci d = Inr ()" "sameBooks d d1" "snapshots d1 = snapshots d"
    "credit_syncs d1 = credit_syncs d" "r = releaseReceipt sid c False"
    "outbox e 0 tenant ''PLATFORM_AUDIT'' ''SETTLEMENT_IMPORT_RELEASED'' ''contract_snapshot'' sid
       [(''actor_id'', JStr (ci_approver ci)), (''credit_decision'', JStr (ci_decision ci)),
        (''reason'', JStr (ci_reason ci)), (''reconciliation_id'', JStr (cc_reconciliation c)),
        (''snapshot_version'', JInt (int version))] (releaseImport e tenant sid (ci_decision ci) d1) = Inr d'"
proof -
  from assms obtain cs ci source w d1 version where imp: "importedSnapshot (\<lambda>_. True) tenant sid d = Inr (cs, ci)"
      and src: "cs_contract cs = Some source"
      and claim: "claimIdempotency e tenant ''IMPORT_RELEASE'' (cc_event c) sid (jsonImport c) d = Inr (w, False, d1)"
      and rel: "releasable c cs ci" and chk: "checkReconciled e tenant sid c d1 = Inr version"
      and own: "checkOwner tenant source c ci d1 = Inr ()" and r: "r = releaseReceipt sid c False"
      and out: "outbox e 0 tenant ''PLATFORM_AUDIT'' ''SETTLEMENT_IMPORT_RELEASED'' ''contract_snapshot'' sid
       [(''actor_id'', JStr (ci_approver ci)), (''credit_decision'', JStr (ci_decision ci)),
        (''reason'', JStr (ci_reason ci)), (''reconciliation_id'', JStr (cc_reconciliation c)),
        (''snapshot_version'', JInt (int version))] (releaseImport e tenant sid (ci_decision ci) d1) = Inr d'"
    by (auto simp: ReleaseContractImport_def andThen_eq_Inr releaseReceipt_def split: if_splits option.splits)
  note t = claim_tables [OF claim]
  have held: "importedSnapshot (\<lambda>cs. cs_migration cs = HOLD) tenant sid d = Inr (cs, ci)"
    using importedSnapshot_held [OF imp] rel by (simp add: releasable_def)
  then have held1: "importedSnapshot (\<lambda>cs. cs_migration cs = HOLD) tenant sid d1 = Inr (cs, ci)"
    using t by (simp add: importedSnapshot_Inr)
  from chk obtain rc b m where rc: "rc \<in> set (import_reconciliations (sides d1))" "ic_snapshot rc = sid" "ic_id rc = cc_reconciliation c"
      and b: "importBalances tenant sid d1 = Inr (b, m)" "ic_version rc = ib_version b" "ic_version rc = cc_snapshot_version c"
        "ic_hash rc = e_sha256 e (jsonBalances b)"
    by (auto simp: checkReconciled_def andThen_eq_Inr query_row_Inr split: if_splits dest: find_SomeD)
  from b(1) held1 have bs: "booksComplete tenant sid cs ci d1" "b = statementOf tenant sid cs d1"
    by (auto simp: importBalances_iff)
  show ?thesis
  proof (rule that [OF held src rel _ _ rc(3,2) _ _ _ _ _ _ _ r out])
    show "booksComplete tenant sid cs ci d" using bs(1) booksComplete_cong [of d d1 ci ci] t by simp
    show "ic_hash rc = e_sha256 e (jsonBalances (statementOf tenant sid cs d))" using b(4) bs(2) statementOf_cong t by metis
    show "ic_version rc = cs_import_version cs" using b(2) bs(2) by (simp add: statementOf_def Let_def)
    then show "cc_snapshot_version c = cs_import_version cs" using b(3) by simp
    show "checkOwner tenant source c ci d = Inr ()" using own checkOwner_cong t by metis
  qed (use t rc in simp_all)
qed

lemma migrationOf_find:
  "migrationOf d tenant sid = Inr st \<longleftrightarrow>
     (\<exists>cs. find (\<lambda>cs. cs_tenant cs = tenant \<and> cs_id cs = sid) (snapshots d) = Some cs \<and> cs_migration cs = st)"
  by (auto simp: migrationOf_def resMap_def query_row_def split: option.splits)

lemma find_update_rows:
  "(\<And>x. P x \<Longrightarrow> Q (f x) = Q x) \<Longrightarrow> find Q (update_rows P f l) = map_option (\<lambda>x. if P x then f x else x) (find Q l)"
  by (induction l) (auto simp: update_rows_def)

lemma releaseImport_released:
  assumes "outbox e i t ds ty aty aid body (releaseImport e tenant sid decision d1) = Inr d'"
    and "importedSnapshot extra tenant sid d = Inr (cs, ci)" "snapshots d1 = snapshots d"
  shows "migrationOf d' tenant sid = Inr RELEASED"
proof -
  from assms(2) have "\<exists>x \<in> set (snapshots d). cs_tenant x = tenant \<and> cs_id x = sid"
    by (auto simp: importedSnapshot_Inr dest: find_SomeD)
  then obtain x where x: "find (\<lambda>cs. cs_tenant cs = tenant \<and> cs_id cs = sid) (snapshots d) = Some x"
    by (cases "find (\<lambda>cs. cs_tenant cs = tenant \<and> cs_id cs = sid) (snapshots d)") (auto simp: find_None_iff)
  then have "cs_tenant x = tenant \<and> cs_id x = sid" by (auto dest: find_SomeD)
  with x show ?thesis
    unfolding migrationOf_find releaseImport_tables(2) [OF assms(1)] assms(3) by (simp add: find_update_rows)
qed

lemma releaseImport_credits:
  assumes "outbox e i t ds ty aty aid body (releaseImport e tenant sid decision d1) = Inr d'"
    and "x \<in> set (credit_syncs d')" "creditOf d' tenant sid x"
  shows "cy_status x \<in> {releaseStatus decision, CS_DELIVERED, CS_CANCELLED, CS_SUPPRESSED}"
proof -
  note tb = releaseImport_tables [OF assms(1)]
  from assms(2) obtain y where y: "x = (if creditOf d1 tenant sid y \<and> creditOpen (cy_status y)
      then y\<lparr>cy_status := releaseStatus decision, cy_updated_at := e_now e\<rparr> else y)"
    unfolding tb(3) by (rule in_update_rowsE)
  have "creditOf d' tenant sid = creditOf d1 tenant sid"
    using tb(1) by (simp add: creditOf_def sameBooks_def fun_eq_iff)
  then show ?thesis
    using y assms(3) by (cases "cy_status y") (auto simp: creditOpen_def split: if_splits)
qed

text \<open>C9: a contract under import is released only while its books are complete and are the books that were
  reconciled: the quoted reconciliation is the current one, made at the current version over the digest of the
  statement as it is now; a contract that goes on has its declared owner. The release changes the state of the contract and
  decides its waiting credit events, nothing in the books.\<close>

theorem release_only_reconciled:
  assumes "ReleaseContractImport e tenant sid c d = Inr (r, d')" "\<not> ip_duplicate r"
  shows "\<exists>cs ci rc. importedSnapshot (\<lambda>cs. cs_migration cs = HOLD) tenant sid d = Inr (cs, ci) \<and>
    booksComplete tenant sid cs ci d \<and>
    rc \<in> set (import_reconciliations (sides d)) \<and> ic_id rc = cc_reconciliation c \<and> ci_reconciliation ci = ic_id rc \<and>
    ic_version rc = cs_import_version cs \<and>
    ic_hash rc = e_sha256 e (jsonBalances (statementOf tenant sid cs d)) \<and>
    (ci_mode ci = ''CONTINUE_LIVE'' \<longrightarrow>
       (\<exists>w \<in> set (responsibilities d). rs_active w \<and> rs_owner w = ci_owner ci \<and> rs_version w = cc_owner_version c)) \<and>
    migrationOf d' tenant sid = Inr RELEASED \<and> sameBooks d d' \<and>
    (\<forall>x \<in> set (credit_syncs d'). creditOf d' tenant sid x \<longrightarrow>
       cy_status x \<in> {releaseStatus (ci_decision ci), CS_DELIVERED, CS_CANCELLED, CS_SUPPRESSED})"
proof -
  from assms obtain cs ci source rc d1 version where
    h: "importedSnapshot (\<lambda>cs. cs_migration cs = HOLD) tenant sid d = Inr (cs, ci)" "cs_contract cs = Some source"
    "releasable c cs ci" "booksComplete tenant sid cs ci d"
    "rc \<in> set (import_reconciliations (sides d))" "ic_id rc = cc_reconciliation c" "ic_snapshot rc = sid"
    "ic_version rc = cs_import_version cs" "cc_snapshot_version c = cs_import_version cs"
    "ic_hash rc = e_sha256 e (jsonBalances (statementOf tenant sid cs d))"
    "checkOwner tenant source c ci d = Inr ()" "sameBooks d d1" "snapshots d1 = snapshots d"
    and out: "outbox e 0 tenant ''PLATFORM_AUDIT'' ''SETTLEMENT_IMPORT_RELEASED'' ''contract_snapshot'' sid
       [(''actor_id'', JStr (ci_approver ci)), (''credit_decision'', JStr (ci_decision ci)),
        (''reason'', JStr (ci_reason ci)), (''reconciliation_id'', JStr (cc_reconciliation c)),
        (''snapshot_version'', JInt (int version))] (releaseImport e tenant sid (ci_decision ci) d1) = Inr d'"
    by (rule import_release_inv)
  have "sameBooks d d'" using h(12) releaseImport_tables(1) [OF out] by (simp add: sameBooks_def)
  moreover have "ci_reconciliation ci = ic_id rc" using h(3,6) by (simp add: releasable_def)
  ultimately show ?thesis
    using h releaseImport_released [OF out h(1,13)] releaseImport_credits [OF out] checkOwner_Inr [OF h(11)] by blast
qed

section \<open>Every write makes the reconciliation void\<close>

definition voided :: "string \<Rightarrow> string \<Rightarrow> db \<Rightarrow> bool" where
  "voided tenant sid d \<longleftrightarrow> migrationOf d tenant sid = Inr HOLD \<and>
     (\<forall>ci. find (importOf tenant sid) (contract_imports d) = Some ci \<longrightarrow> ci_reconciliation ci = '''')"

lemma voided_cong:
  "snapshots d' = snapshots d \<Longrightarrow> contract_imports d' = contract_imports d \<Longrightarrow> voided t sid d' = voided t sid d"
  by (simp add: voided_def migrationOf_def)

lemma voided_refused:
  assumes "voided tenant sid d"
  shows "\<exists>err. ReleaseContractImport e tenant sid c d = Inl err"
proof (rule ccontr)
  assume "\<nexists>err. ReleaseContractImport e tenant sid c d = Inl err"
  then obtain r d' where "ReleaseContractImport e tenant sid c d = Inr (r, d')"
    by (cases "ReleaseContractImport e tenant sid c d") auto
  then obtain cs ci where imp: "importedSnapshot (\<lambda>_. True) tenant sid d = Inr (cs, ci)"
      and "cc_reconciliation c \<noteq> ''''" "cs_migration cs = RELEASED \<or> releasable c cs ci"
    by (auto simp: ReleaseContractImport_def andThen_eq_Inr split: if_splits option.splits)
  with assms show False
    by (auto simp: voided_def migrationOf_find importedSnapshot_Inr releasable_def)
qed

lemma bumpImport_voids:
  assumes "migrationOf d tenant sid = Inr HOLD"
  shows "voided tenant sid (bumpImport tenant sid d)"
  unfolding voided_def
proof (intro conjI allI impI)
  show "migrationOf (bumpImport tenant sid d) tenant sid = Inr HOLD"
    using assms unfolding migrationOf_find bumpImport_def by (fastforce simp: find_update_rows)
  fix ci assume "find (importOf tenant sid) (contract_imports (bumpImport tenant sid d)) = Some ci"
  then have "ci \<in> set (contract_imports (bumpImport tenant sid d))" "importOf tenant sid ci" by (auto dest: find_SomeD)
  then show "ci_reconciliation ci = ''''"
    by (auto simp: bumpImport_def importOf_def elim!: in_update_rowsE split: if_splits)
qed

lemma lockImportWrite_voids:
  assumes "lockImportWrite s p sid d = Inr d1" "migrationOf d (p_tenant p) sid = Inr HOLD"
  shows "voided (p_tenant p) sid d1"
  using assms bumpImport_voids [OF assms(2)] by (auto simp: lockImportWrite_def andThen_eq_Inr split: if_splits)

lemma claimImportFact_voids:
  assumes "claimImportFact s e p (Some f) k rid b d = Inr (w, False, d')"
  shows "voided (p_tenant p) (if_snapshot f) d'"
proof -
  from assms obtain d1 where l: "lockImportWrite s p (if_snapshot f) d = Inr d1"
      and m: "migrationOf d1 (p_tenant p) (if_snapshot f) = Inr HOLD" and "\<exists>t. d' = d1\<lparr>import_facts := t\<rparr>"
    by (auto simp: claimImportFact_def Let_def andThen_eq_Inr split: if_splits sum.splits option.splits)
  moreover from l m have "migrationOf d (p_tenant p) (if_snapshot f) = Inr HOLD"
    by (auto simp: lockImportWrite_def andThen_eq_Inr split: if_splits)
  ultimately show ?thesis
    using lockImportWrite_voids [OF l] voided_cong [of d' d1] by auto
qed

text \<open>The three commands that change the books of a contract under import.\<close>

lemma storeReceipt_guard:
  "storeReceipt e p key rid a i d = Inr (w, d') \<Longrightarrow> snapshots d' = snapshots d \<and> contract_imports d' = contract_imports d"
  by (auto simp: storeReceipt_def andThen_eq_Inr eventFrame_tables dest!: outbox_frame split: sum.splits if_splits option.splits)

lemma CreateReceipt_voids:
  assumes ok: "CreateReceipt s e p key i d = Inr (w, d')" and f: "ri_fact i = Some f" and ch: "d' \<noteq> d"
  shows "voided (p_tenant p) (if_snapshot f) d'"
proof -
  from CreateReceipt_Inr [OF ok] obtain a i1 i2 ex b d1 where
    ck: "checkReceiptInput e (importFactKey e (ri_fact i) key) i = Inr (a, i1)" "validateNativeReceiptCustomer s p i1 d = Inr i2"
    and cl: "claimReceipt s e p (importFactKey e (ri_fact i) key) (e_ids e 0) a i2 d = Inr (ex, b, d1)"
    and st: "if b then (ex, d1) = (w, d') else storeReceipt e p (importFactKey e (ri_fact i) key) (e_ids e 0) a i2 d1 = Inr (w, d')"
    by blast
  have f2: "ri_fact i2 = Some f" using checkReceiptInput_fact [OF ck(1)] validateNative_keeps [OF ck(2)] f by simp
  from cl f2 have "b \<and> d1 = d \<or> \<not> b \<and> (\<exists>x. claimImportFact s e p (Some f) ''RECEIPT'' (e_ids e 0) (jsonReceipt i2) d = Inr (x, False, d1))"
    by (auto simp: claimReceipt_def andThen_eq_Inr split: if_splits)
  with st ch have v: "voided (p_tenant p) (if_snapshot f) d1" "\<not> b" by (auto dest: claimImportFact_voids)
  with st storeReceipt_guard [of e p "importFactKey e (ri_fact i) key" "e_ids e 0" a i2 d1 w d'] voided_cong [of d' d1] show ?thesis by simp
qed

lemma allocateLocked_guard:
  assumes "allocateLocked s e p key aid sn a i d = Inr (w, d')"
  shows "snapshots d' = snapshots d \<and> contract_imports d' = contract_imports d"
proof -
  from assms obtain al r v cs rp d1 ev d2 where
    post: "postAllocation al r v d = Inr d1"
    and cr: "settlementCredit s e 1 (p_tenant p) sn al r v cs rp d1 = Inr (ev, d2)"
    and ob: "eventFrame d2 d'"
    unfolding allocateLocked_def Let_def
    by (auto simp only: andThen_eq_Inr guard_eq_Inr prod.case split_paired_Ex sum.inject prod.inject dest!: outbox_frame)
  from cr have "d2 = d1 \<or> creditFrame d1 d2"
    by (auto simp: settlementCredit_def andThen_eq_Inr dest: insertCreditSync_frame split: if_splits option.splits)
  then have "snapshots d2 = snapshots d1 \<and> contract_imports d2 = contract_imports d1" by (auto simp: creditFrame_tables)
  moreover have "snapshots d1 = snapshots d \<and> contract_imports d1 = contract_imports d"
    using postAllocation_Inr(1) [OF post] by simp
  ultimately show ?thesis using eventFrame_tables(1,13) [OF ob] by simp
qed

lemma ConfirmAllocationTx_voids:
  assumes ok: "ConfirmAllocationTx s e p key i d = Inr (w, d')" and f: "ai_fact i = Some f"
  shows "d' = d \<and> snd w = '''' \<or> voided (p_tenant p) (if_snapshot f) d'"
proof -
  let ?key = "importFactKey e (ai_fact i) key"
  from ok obtain a i1 where c: "checkAllocationInput ?key i = Inr (a, i1)"
    by (auto simp: ConfirmAllocationTx_def Let_def andThen_eq_Inr)
  have f1: "ai_fact i1 = Some f" using checkAllocationInput_Inr [OF c] f by simp
  from ok c f1 have "d' = d \<and> snd w = '''' \<or>
     (\<exists>x d1. claimImportFact s e p (Some f) ''ALLOCATION'' (e_ids e 0) (jsonAllocation i1) d = Inr (x, False, d1) \<and>
        allocateClaimed s e p ?key (e_ids e 0) (if_snapshot f) a i1 d1 = Inr (w, d'))"
    by (auto simp: ConfirmAllocationTx_def Let_def andThen_eq_Inr split: if_splits)
  then show ?thesis
  proof (elim disjE exE conjE)
    fix x d1
    assume cl: "claimImportFact s e p (Some f) ''ALLOCATION'' (e_ids e 0) (jsonAllocation i1) d = Inr (x, False, d1)"
      and al: "allocateClaimed s e p ?key (e_ids e 0) (if_snapshot f) a i1 d1 = Inr (w, d')"
    from al obtain d2 where d2: "lockImportWrite s p (if_snapshot f) d1 = Inr d2"
        "allocateLocked s e p ?key (e_ids e 0) (if_snapshot f) a i1 d2 = Inr (w, d')"
      by (auto simp: allocateClaimed_def andThen_eq_Inr guard_eq_Inr)
    have "voided (p_tenant p) (if_snapshot f) d2"
      using lockImportWrite_voids [OF d2(1)] claimImportFact_voids [OF cl] by (simp add: voided_def)
    then show ?thesis using voided_cong allocateLocked_guard [OF d2(2)] by metis
  qed simp
qed

lemma ConfirmAllocation_voids:
  assumes ok: "ConfirmAllocation s e out p key i d = Inr (w, d')" and f: "ai_fact i = Some f" and ch: "d' \<noteq> d"
  shows "voided (p_tenant p) (if_snapshot f) d'"
proof -
  from ok obtain aid ev d1 where tx: "ConfirmAllocationTx s e p key i d = Inr ((aid, ev), d1)"
    and d': "d' = d1 \<or> ev \<noteq> '''' \<and> d' = snd (RetryCreditSync s e out (p_tenant p) ev d1)"
    by (auto simp: ConfirmAllocation_def andThen_eq_Inr split: if_splits)
  from ConfirmAllocationTx_voids [OF tx f] d' ch have "voided (p_tenant p) (if_snapshot f) d1" by auto
  with d' voided_cong creditFrame_tables(1,14) [OF RetryCreditSync_frame] show ?thesis by metis
qed

lemma ConfirmPlan_voids:
  assumes ok: "ConfirmPlan s e p pid i d = Inr (w, d')"
    and lk: "lockPendingPlan (p_tenant p) pid (pi_version i) d = Inr (rp, cs)" and held: "migrationOf d (p_tenant p) (rp_snapshot rp) = Inr HOLD"
  shows "voided (p_tenant p) (rp_snapshot rp) d'"
proof -
  from ok lk obtain d1 v reason d2 d3 where
    r: "RequireContractAccessTx s p ''settlement.receivable.confirm'' (rp_snapshot rp) d = Inr d1"
      "postReceivable p rp reason v d1 = Inr d2" "eventFrame d2 d3" "eventFrame d3 d'"
    unfolding ConfirmPlan_def
    by (auto simp: andThen_eq_Inr split: if_splits dest!: outbox_frame auditDeviation_frame)
  from r(1) have "lockImportWrite s p (rp_snapshot rp) d = Inr d1"
    by (auto simp: RequireContractAccessTx_def andThen_eq_Inr split: if_splits)
  then have "voided (p_tenant p) (rp_snapshot rp) d1" using held by (rule lockImportWrite_voids)
  moreover from r(2) have "snapshots d2 = snapshots d1 \<and> contract_imports d2 = contract_imports d1"
    by (auto simp: postReceivable_def andThen_eq_Inr)
  ultimately show ?thesis
    using voided_cong eventFrame_tables(1,13) [OF r(3)] eventFrame_tables(1,13) [OF r(4)] by metis
qed

text \<open>A write to the books of a contract under import: a restored receipt or allocation, or a confirmed instalment.\<close>

inductive import_write :: "string \<Rightarrow> string \<Rightarrow> db \<Rightarrow> db \<Rightarrow> bool" where
  restore_receipt: "CreateReceipt s e p key i d = Inr (w, d') \<Longrightarrow> ri_fact i = Some f \<Longrightarrow> d' \<noteq> d \<Longrightarrow>
    import_write (p_tenant p) (if_snapshot f) d d'"
| restore_allocation: "ConfirmAllocation s e out p key i d = Inr (w, d') \<Longrightarrow> ai_fact i = Some f \<Longrightarrow> d' \<noteq> d \<Longrightarrow>
    import_write (p_tenant p) (if_snapshot f) d d'"
| confirm_instalment: "ConfirmPlan s e p pid i d = Inr ((), d') \<Longrightarrow>
    lockPendingPlan (p_tenant p) pid (pi_version i) d = Inr (rp, cs) \<Longrightarrow>
    migrationOf d (p_tenant p) (rp_snapshot rp) = Inr HOLD \<Longrightarrow> import_write (p_tenant p) (rp_snapshot rp) d d'"

lemma import_write_voids: "import_write tenant sid d d' \<Longrightarrow> voided tenant sid d'"
  by (induction rule: import_write.induct) (erule CreateReceipt_voids ConfirmAllocation_voids ConfirmPlan_voids; assumption)+

text \<open>C10: after a source receipt or allocation was restored, or an instalment confirmed, on a contract under import,
  every release of the store the write leaves is refused, whatever reconciliation it quotes: the contract has to be reconciled again.\<close>

theorem write_voids_reconciliation:
  assumes "import_write tenant sid d d'"
  shows "\<exists>err. ReleaseContractImport e tenant sid c d' = Inl err"
  by (rule voided_refused [OF import_write_voids [OF assms]])

section \<open>A reconciliation can be released\<close>

definition reconciliationRow :: "env \<Rightarrow> Principal \<Rightarrow> string \<Rightarrow> ImportReconciliation \<Rightarrow> import_reconciliation" where
  "reconciliationRow e p sid b =
     \<lparr>ic_id = e_ids e 0, ic_tenant = p_tenant p, ic_snapshot = sid, ic_version = ib_version b,
      ic_hash = e_sha256 e (jsonBalances b), ic_statement = jsonBalances b, ic_by = p_user p\<rparr>"

lemma reconcile_inv:
  assumes "ReconcileContractImport s e p sid i d = Inr (b, d1)"
  obtains b0 m where "importBalances (p_tenant p) sid d = Inr (b0, m)" "b = b0\<lparr>ib_id := e_ids e 0\<rparr>"
    "rn_reason i \<noteq> ''''" "rn_decision i = ''PUBLISH'' \<or> rn_decision i = ''SUPPRESSED''"
    "\<forall>x \<in> set (import_reconciliations (sides d)). ic_id x \<noteq> e_ids e 0"
    "import_reconciliations (sides d1) = import_reconciliations (sides d) @ [reconciliationRow e p sid b0]"
    "sameBooks d d1" "snapshots d1 = snapshots d" "responsibilities d1 = responsibilities d" "idempotency d1 = idempotency d"
    "contract_imports d1 = contract_imports (approveImport p sid (e_ids e 0) i d)"
proof -
  from assms obtain b0 m t body where "importBalances (p_tenant p) sid d = Inr (b0, m)" "b = b0\<lparr>ib_id := e_ids e 0\<rparr>"
    "rn_reason i \<noteq> ''''" "rn_decision i = ''PUBLISH'' \<or> rn_decision i = ''SUPPRESSED''"
    and ins: "insert_row reconciliation_clash (reconciliationRow e p sid b0) (import_reconciliations (sides d)) = Inr t"
    and out: "outbox e 1 (p_tenant p) ''PLATFORM_AUDIT'' ''SETTLEMENT_IMPORT_RECONCILED'' ''contract_snapshot'' sid body
       (approveImport p sid (e_ids e 0) i (d\<lparr>sides := (sides d)\<lparr>import_reconciliations := t\<rparr>\<rparr>)) = Inr d1"
    unfolding ReconcileContractImport_def Let_def
    by (auto simp: andThen_eq_Inr guard_eq_Inr reconciliationRow_def)
  moreover note insert_row_Inr [THEN iffD1, OF ins]
  moreover have "sides d1 = (sides d)\<lparr>import_reconciliations := t\<rparr>" "sameBooks d d1" "snapshots d1 = snapshots d"
    "responsibilities d1 = responsibilities d" "idempotency d1 = idempotency d"
    "contract_imports d1 = contract_imports (approveImport p sid (e_ids e 0) i d)"
    using outbox_frame [OF out] by (cases d; cases d1; simp add: eventFrame_def approveImport_def sameBooks_def)+
  ultimately show ?thesis by (intro that) (auto simp: reconciliation_clash_def reconciliationRow_def)
qed

lemma approved_import:
  assumes "find (importOf (p_tenant p) sid) (contract_imports d) = Some ci"
  shows "find (importOf (p_tenant p) sid) (contract_imports (approveImport p sid rid i d)) =
    Some (ci\<lparr>ci_state := READY, ci_decision := rn_decision i, ci_reason := rn_reason i, ci_approver := p_user p,
            ci_reconciliation := rid\<rparr>)"
  using assms find_SomeD [OF assms]
  by (simp add: approveImport_def find_update_rows importOf_def)

lemma outbox_ok:
  "e_ids e 0 \<notin> eventIds d \<Longrightarrow> e_ids e 1 \<notin> eventIds d \<Longrightarrow> \<exists>d'. outbox e 0 t ds ty aty aid body d = Inr d'"
  using outbox_total [of e 0 d t ds ty aty aid body] by auto

lemma reconciled_releasable:
  assumes rec: "ReconcileContractImport s e p sid i d = Inr (b, d1)"
    and imp: "importedSnapshot (\<lambda>_. True) (p_tenant p) sid d = Inr (cs, ci)" "cs_migration cs = HOLD" "cs_contract cs = Some source"
    and key: "p_user p \<noteq> ''''" "e_ids e 0 \<noteq> ''''" "cs_import_version cs \<noteq> 0"
    and cmd: "validateImportCommand (p_tenant p) ''RELEASE'' c = Inr ()" "sameItem c ci"
      "cc_reconciliation c = ib_id b" "cc_snapshot_version c = ib_version b"
    and fresh: "boundTo d (p_tenant p, ''IMPORT_RELEASE'', cc_event c) = None"
      "e_ids e' 0 \<notin> eventIds d1" "e_ids e' 1 \<notin> eventIds d1" "e_sha256 e' = e_sha256 e"
    and owner: "checkOwner (p_tenant p) source c ci d = Inr ()"
  shows "\<exists>d2. ReleaseContractImport e' (p_tenant p) sid c d1 = Inr (releaseReceipt sid c False, d2)"
proof -
  obtain b0 m where r: "importBalances (p_tenant p) sid d = Inr (b0, m)" "b = b0\<lparr>ib_id := e_ids e 0\<rparr>"
    "rn_reason i \<noteq> ''''" "rn_decision i = ''PUBLISH'' \<or> rn_decision i = ''SUPPRESSED''"
    "\<forall>x \<in> set (import_reconciliations (sides d)). ic_id x \<noteq> e_ids e 0"
    "import_reconciliations (sides d1) = import_reconciliations (sides d) @ [reconciliationRow e p sid b0]"
    "sameBooks d d1" "snapshots d1 = snapshots d" "responsibilities d1 = responsibilities d" "idempotency d1 = idempotency d"
    "contract_imports d1 = contract_imports (approveImport p sid (e_ids e 0) i d)"
    by (rule reconcile_inv [OF rec])
  let ?ci = "ci\<lparr>ci_state := READY, ci_decision := rn_decision i, ci_reason := rn_reason i, ci_approver := p_user p,
            ci_reconciliation := e_ids e 0\<rparr>"
  note held = importedSnapshot_held [OF imp(1,2)]
  from imp(1) have ci: "find (importOf (p_tenant p) sid) (contract_imports d) = Some ci" by (simp add: importedSnapshot_Inr)
  have imp1: "importedSnapshot (\<lambda>_. True) (p_tenant p) sid d1 = Inr (cs, ?ci)"
    using imp(1) approved_import [OF ci] by (simp add: importedSnapshot_Inr r(8,11))
  obtain w d2 where cl: "claimIdempotency e' (p_tenant p) ''IMPORT_RELEASE'' (cc_event c) sid (jsonImport c) d1 = Inr (w, False, d2)"
    and same: "d2 = d1\<lparr>idempotency := idempotency d2\<rparr>"
    using claimIdempotency_fresh [of d1 "p_tenant p" "''IMPORT_RELEASE''" "cc_event c" e' sid "jsonImport c"] fresh(1)
    by (auto simp: boundTo_def r(10))
  note t = claim_tables [OF cl]
  have "importedSnapshot (\<lambda>cs. cs_migration cs = HOLD) (p_tenant p) sid d2 = Inr (cs, ?ci)"
    using importedSnapshot_held [OF imp1 imp(2)] t by (simp add: importedSnapshot_Inr)
  moreover have bk: "sameBooks d d2" using r(7) t by (simp add: sameBooks_def)
  moreover from r(1) held have b0: "booksComplete (p_tenant p) sid cs ci d" "b0 = statementOf (p_tenant p) sid cs d"
    by (auto simp: importBalances_iff)
  ultimately have bal: "importBalances (p_tenant p) sid d2 = Inr (b0, ci_mode ci)"
    using booksComplete_cong [OF bk, of ?ci ci] statementOf_cong [OF bk] by (auto simp: importBalances_iff)
  have ver: "ib_version b0 = cs_import_version cs" using b0(2) by (simp add: statementOf_def Let_def)
  have rid: "cc_reconciliation c = e_ids e 0" "cc_snapshot_version c = ib_version b0" using cmd(3,4) r(2) by simp_all
  have "find (\<lambda>x. ic_tenant x = p_tenant p \<and> ic_snapshot x = sid \<and> ic_id x = e_ids e 0) (import_reconciliations (sides d2)) =
      Some (reconciliationRow e p sid b0)"
    using t r(5,6) by (auto simp: find_snoc reconciliationRow_def find_None_iff split: option.splits dest!: find_SomeD)
  then have chk: "checkReconciled e' (p_tenant p) sid c d2 = Inr (ib_version b0)"
    using bal fresh(4) rid by (simp add: checkReconciled_def query_row_def) (simp add: reconciliationRow_def)
  have own: "checkOwner (p_tenant p) source c ?ci d2 = Inr ()"
    using owner t by (auto simp: checkOwner_def r(9) split: option.splits if_splits)
  have rel: "releasable c cs ?ci" "sameItem c ?ci"
    using imp(2) r(3,4) key(1) rid(1) cmd(2) by (auto simp: releasable_def sameItem_def)
  have "eventIds (releaseImport e' (p_tenant p) sid (rn_decision i) d2) = eventIds d1"
    by (subst same) (simp add: releaseImport_def eventIds_def)
  with fresh(2,3) have "\<forall>body. \<exists>d3. outbox e' 0 (p_tenant p) ''PLATFORM_AUDIT'' ''SETTLEMENT_IMPORT_RELEASED'' ''contract_snapshot'' sid body
      (releaseImport e' (p_tenant p) sid (rn_decision i) d2) = Inr d3"
    by (intro allI outbox_ok) simp_all
  with cmd(1) key(2,3) rid ver imp1 imp(3) cl rel chk own show ?thesis
    by (simp add: ReleaseContractImport_def) (simp add: andThen_eq_Inr)
qed

text \<open>C11: a reconciliation can be released: the next command that quotes it, with the declaration of the import, a key that
  was not used and the current owner, succeeds and leaves the contract released.\<close>

theorem reconcile_then_release:
  assumes "ReconcileContractImport s e p sid i d = Inr (b, d1)"
    and "importedSnapshot (\<lambda>_. True) (p_tenant p) sid d = Inr (cs, ci)" "cs_migration cs = HOLD" "cs_contract cs = Some source"
    and "p_user p \<noteq> ''''" "e_ids e 0 \<noteq> ''''" "cs_import_version cs \<noteq> 0"
    and "validateImportCommand (p_tenant p) ''RELEASE'' c = Inr ()" "sameItem c ci"
      "cc_reconciliation c = ib_id b" "cc_snapshot_version c = ib_version b"
    and "boundTo d (p_tenant p, ''IMPORT_RELEASE'', cc_event c) = None"
      "e_ids e' 0 \<notin> eventIds d1" "e_ids e' 1 \<notin> eventIds d1" "e_sha256 e' = e_sha256 e"
    and "checkOwner (p_tenant p) source c ci d = Inr ()"
  shows "\<exists>d2. ReleaseContractImport e' (p_tenant p) sid c d1 = Inr (releaseReceipt sid c False, d2) \<and>
    migrationOf d2 (p_tenant p) sid = Inr RELEASED"
proof -
  from reconciled_releasable [OF assms] obtain d2 where
    ok: "ReleaseContractImport e' (p_tenant p) sid c d1 = Inr (releaseReceipt sid c False, d2)" by blast
  moreover have "migrationOf d2 (p_tenant p) sid = Inr RELEASED"
    by (rule import_release_inv [OF ok]) (simp add: releaseReceipt_def, rule releaseImport_released)
  ultimately show ?thesis by blast
qed

section \<open>Sample\<close>

text \<open>The contract of the samples under import, with one source receipt restored.\<close>

definition sampleImport :: contract_import where
  "sampleImport = \<lparr>ci_tenant = ''T'', ci_snapshot = ''S'', ci_item = ''item-1'',
     ci_expected = [\<lparr>xf_system = ''old'', xf_type = ''RECEIPT'', xf_external = ''r-1''\<rparr>], ci_owner = ''ann'',
     ci_event = ''prep-1'', ci_state = PREPARED, ci_reconciliation = '''', ci_release = 1, ci_revision = 1,
     ci_digest = replicate 64 (CHR ''a''), ci_mode = ''CONTINUE_LIVE'', ci_decision = '''', ci_reason = '''', ci_approver = ''''\<rparr>"

definition heldStore :: db where
  "heldStore = sampleStore\<lparr>snapshots := [sampleSnapshot\<lparr>cs_migration := HOLD, cs_import_version := 2\<rparr>],
     contract_imports := [sampleImport],
     import_facts := [\<lparr>fr_tenant = ''T'', fr_snapshot = ''S'', fr_system = ''old'', fr_type = ''RECEIPT'', fr_external = ''r-1'',
                       fr_hash = ''h'', fr_target = ''R''\<rparr>],
     responsibilities := [\<lparr>rs_tenant = ''T'', rs_contract = ''C'', rs_owner = ''ann'', rs_active = True, rs_version = 3\<rparr>]\<rparr>"

definition sampleReconcile :: ImportReconcileInput where
  "sampleReconcile = \<lparr>rn_currency = ''CNY'', rn_open = money 10000, rn_receipt = money 15000, rn_invoiced = money 0,
     rn_decision = ''PUBLISH'', rn_reason = ''ERR''\<rparr>"

definition sampleRelease :: ContractImportCommand where
  "sampleRelease = \<lparr>cc_expected = None, cc_event = ''rel-1'', cc_type = ''contract.import_financial.v1'', cc_schema = 1,
     cc_phase = ''RELEASE'', cc_tenant = ''T'', cc_item = ''item-1'', cc_revision = 1, cc_digest = replicate 64 (CHR ''a''),
     cc_release = 1, cc_mode = ''CONTINUE_LIVE'', cc_occurred = Some ''2024-03-15T00:00:00Z'', cc_contract = None,
     cc_reconciliation = ''N'', cc_snapshot_version = 2, cc_owner_version = 3\<rparr>"

lemmas held_defs = heldStore_def sampleImport_def sampleReconcile_def sampleRelease_def

lemma sampleRelease_valid: "validateImportCommand ''T'' ''RELEASE'' sampleRelease = Inr ()"
  by code_simp

lemma held_imported:
  "importedSnapshot (\<lambda>_. True) ''T'' ''S'' heldStore = Inr (sampleSnapshot\<lparr>cs_migration := HOLD, cs_import_version := 2\<rparr>, sampleImport)"
  by (simp add: importedSnapshot_Inr held_defs sample_defs importOf_def)

lemma held_complete:
  "booksComplete ''T'' ''S'' (sampleSnapshot\<lparr>cs_migration := HOLD, cs_import_version := 2\<rparr>) sampleImport heldStore"
  by (simp add: booksComplete_def held_defs sample_defs planIn_def totalOf_def receivableIn_def allocatedIn_def restoredIn_def factIn_def)

lemma nonNegativeAmount_money: "0 \<le> c \<Longrightarrow> nonNegativeAmount (money c) = Inr (money c)"
  by (auto simp: nonNegativeAmount_Inr matchDecimal_money)

lemma sample_reconcile:
  "\<exists>b d1. ReconcileContractImport sampleService (sampleEnv [''N'', ''x1'', ''x2'']) (sampleUser ''bob'') ''S'' sampleReconcile heldStore =
     Inr (b, d1) \<and> ib_id b = ''N'' \<and> ib_version b = 2 \<and> eventIds d1 \<subseteq> {''x1'', ''x2''}"
proof -
  let ?e = "sampleEnv [''N'', ''x1'', ''x2'']"
  let ?cs = "sampleSnapshot\<lparr>cs_migration := HOLD, cs_import_version := 2\<rparr>"
  have bal: "importBalances ''T'' ''S'' heldStore = Inr (statementOf ''T'' ''S'' ?cs heldStore, ''CONTINUE_LIVE'')"
    using importedSnapshot_held [OF held_imported] held_complete
    by (auto simp: importBalances_iff) (simp_all add: sampleImport_def)
  have st: "statementOf ''T'' ''S'' ?cs heldStore =
      \<lparr>ib_id = '''', ib_snapshot = ''S'', ib_version = 2, ib_state = ''READY'', ib_currency = ''CNY'', ib_contract = money 10000,
       ib_planned = money 10000, ib_confirmed = money 10000, ib_allocated = money 0, ib_open = money 10000,
       ib_receipt = money 15000, ib_invoiced = money 0, ib_count = 1\<rparr>"
    by (simp add: statementOf_def held_defs sample_defs planIn_def totalOf_def receivableIn_def receivedIn_def restoredIn_def
        factIn_def)
  have fin: "\<exists>b d1. andThen (outbox ?e (Suc 0) t ds ty aty aid body d) (\<lambda>d1. Inr (b0, d1)) = Inr (b, d1) \<and>
      ib_id b = ''N'' \<and> ib_version b = 2 \<and> eventIds d1 \<subseteq> {''x1'', ''x2''}"
    if "eventIds d = {}" "ib_id b0 = ''N''" "ib_version b0 = 2" for t ds ty aty aid body d and b0 :: ImportReconciliation
    using outbox_total [of ?e "Suc 0" d t ds ty aty aid body] that by (auto simp: sampleEnv_def)
  have adm: "financeAccess sampleService (sampleUser ''bob'') perm = Inr ()" for perm
    by (simp add: financeAccess_def Unrestricted_def Allows_def permitted_def sampleUser_def)
  have ids: "eventIds (approveImport p sid rid i (heldStore\<lparr>sides := x\<rparr>)) = {}" for p sid rid i x
    by (simp add: approveImport_def eventIds_def heldStore_def sampleStore_def empty_db_def)
  have inp: "checkAmounts [rn_open sampleReconcile, rn_receipt sampleReconcile, rn_invoiced sampleReconcile] = Inr ()"
    "rn_decision sampleReconcile = ''PUBLISH''" "rn_reason sampleReconcile = ''ERR''" "\<not> textTooLong ''ERR'' 500"
    "rn_currency sampleReconcile = ''CNY''" "rn_open sampleReconcile = money 10000" "rn_receipt sampleReconcile = money 15000"
    "rn_invoiced sampleReconcile = money 0"
    by (simp_all add: sampleReconcile_def nonNegativeAmount_money textTooLong_def runeCount.simps runeLen_def inRange_def byte_def)
  have env: "e_ids ?e 0 = ''N''" "p_tenant (sampleUser ''bob'') = ''T''" "import_reconciliations (sides heldStore) = []"
    by (simp_all add: sampleEnv_def sampleUser_def heldStore_def sampleStore_def empty_db_def)
  show ?thesis
    unfolding ReconcileContractImport_def adm andThen_Inr inp(1) env(2) bal prod.case
    by (simp add: inp env st insert_row_def Let_def del: checkAmounts.simps) (rule fin [OF ids]; simp)
qed

lemma sample_release_checks:
  "sameItem sampleRelease sampleImport" "checkOwner ''T'' ''C'' sampleRelease sampleImport heldStore = Inr ()"
  "boundTo heldStore (''T'', ''IMPORT_RELEASE'', cc_event sampleRelease) = None"
  "p_user (sampleUser ''bob'') = ''bob''" "p_tenant (sampleUser ''bob'') = ''T''"
  "cc_reconciliation sampleRelease = ''N''" "cc_snapshot_version sampleRelease = 2"
  "cs_contract (sampleSnapshot\<lparr>cs_migration := HOLD, cs_import_version := 2\<rparr>) = Some ''C''"
  "e_ids (sampleEnv [''N'', ''x1'', ''x2'']) 0 = ''N''" "e_ids (sampleEnv [''y1'', ''y2'']) 0 = ''y1''" "e_ids (sampleEnv [''y1'', ''y2'']) (Suc 0) = ''y2''"
  "e_sha256 (sampleEnv ids) = jsonText"
  by (simp_all add: sameItem_def checkOwner_def resp_is_def boundTo_def held_defs sample_defs)

theorem reconcile_then_release_witness:
  "\<exists>b d1 d2. ReconcileContractImport sampleService (sampleEnv [''N'', ''x1'', ''x2'']) (sampleUser ''bob'') ''S'' sampleReconcile heldStore =
     Inr (b, d1) \<and>
     ReleaseContractImport (sampleEnv [''y1'', ''y2'']) ''T'' ''S'' sampleRelease d1 = Inr (releaseReceipt ''S'' sampleRelease False, d2) \<and>
     migrationOf d2 ''T'' ''S'' = Inr RELEASED"
proof -
  from sample_reconcile obtain b d1 where r: "ReconcileContractImport sampleService (sampleEnv [''N'', ''x1'', ''x2'']) (sampleUser ''bob'') ''S''
     sampleReconcile heldStore = Inr (b, d1)" "ib_id b = ''N''" "ib_version b = 2" "eventIds d1 \<subseteq> {''x1'', ''x2''}" by blast
  then have ev: "''y1'' \<notin> eventIds d1" "''y2'' \<notin> eventIds d1" by auto
  show ?thesis
    using r(1) reconcile_then_release [OF r(1), unfolded sample_release_checks(5), OF held_imported, of "''C''" sampleRelease "sampleEnv [''y1'', ''y2'']"]
      sampleRelease_valid ev r(2,3) by (auto simp: sample_release_checks)
qed

theorem release_only_reconciled_witness:
  "\<exists>d d'. ReleaseContractImport (sampleEnv [''y1'', ''y2'']) ''T'' ''S'' sampleRelease d = Inr (releaseReceipt ''S'' sampleRelease False, d') \<and>
     sameBooks d d' \<and> migrationOf d' ''T'' ''S'' = Inr RELEASED"
proof -
  from sample_reconcile obtain b d1 where r: "ReconcileContractImport sampleService (sampleEnv [''N'', ''x1'', ''x2'']) (sampleUser ''bob'') ''S''
     sampleReconcile heldStore = Inr (b, d1)" "ib_id b = ''N''" "ib_version b = 2" "eventIds d1 \<subseteq> {''x1'', ''x2''}" by blast
  then have ev: "''y1'' \<notin> eventIds d1" "''y2'' \<notin> eventIds d1" by auto
  obtain d2 where d2: "ReleaseContractImport (sampleEnv [''y1'', ''y2'']) ''T'' ''S'' sampleRelease d1 = Inr (releaseReceipt ''S'' sampleRelease False, d2)"
    using reconciled_releasable [OF r(1), unfolded sample_release_checks(5), OF held_imported, of "''C''" sampleRelease "sampleEnv [''y1'', ''y2'']"]
      sampleRelease_valid ev r(2,3) by (auto simp: sample_release_checks)
  have "\<not> ip_duplicate (releaseReceipt ''S'' sampleRelease False)" by (simp add: releaseReceipt_def)
  from release_only_reconciled [OF d2 this] d2 show ?thesis by blast
qed

definition heldDraft :: db where
  "heldDraft = empty_db\<lparr>snapshots := [sampleSnapshot\<lparr>cs_migration := HOLD\<rparr>],
     plans := [samplePlan\<lparr>rp_status := PENDING_CONFIRMATION\<rparr>], contract_imports := [sampleImport\<lparr>ci_reconciliation := ''N''\<rparr>]\<rparr>"

definition plainConfirm :: PlanConfirmationInput where
  "plainConfirm = \<lparr>pi_version = 1, pi_due = '''', pi_amount = '''', pi_reason = ''''\<rparr>"

lemma held_lock:
  "lockPendingPlan ''T'' ''P'' 1 heldDraft = Inr (samplePlan\<lparr>rp_status := PENDING_CONFIRMATION\<rparr>, sampleSnapshot\<lparr>cs_migration := HOLD\<rparr>)"
  "migrationOf heldDraft ''T'' ''S'' = Inr HOLD" "migrationOf (bumpImport ''T'' ''S'' heldDraft) ''T'' ''S'' = Inr HOLD"
  by (simp_all add: lockPendingPlan_def migrationOf_def resMap_def query_row_def pendingPlan_def heldDraft_def samplePlan_def sampleSnapshot_def
      empty_db_def bumpImport_def update_rows_def)

lemma held_access:
  "RequireContractAccessTx sampleService (sampleUser ''bob'') ''settlement.receivable.confirm'' ''S'' heldDraft = Inr (bumpImport ''T'' ''S'' heldDraft)"
  using held_lock(2)
  by (simp add: RequireContractAccessTx_def lockImportWrite_def financeAccess_def Unrestricted_def Allows_def permitted_def sampleUser_def
      blockedOnHold_def hasPrefix_def)

lemma held_values:
  "confirmedValues plainConfirm (samplePlan\<lparr>rp_status := PENDING_CONFIRMATION\<rparr>) = Inr (''2024-06-30'', 10000, '''')"
  by (simp add: confirmedValues_def plainConfirm_def samplePlan_def sample_date_june Let_def)

lemma held_coverage:
  "\<exists>cov. requirePlanCoverage sampleService (sampleUser ''bob'') ''S'' ''P'' (money 10000) (money 10000) (bumpImport ''T'' ''S'' heldDraft) = Inr cov"
proof -
  have g: "floatString 2 (0::rat) = money 0" "floatString 2 (100::rat) = money 10000" by (simp_all add: money_def)
  show ?thesis
    by (simp add: requirePlanCoverage_def inspectPlanCoverage_def query_row_def effectiveSnapshot_def sum_rows_def heldDraft_def empty_db_def
        evaluatePlanCoverage_def Let_def planCoverageThresholds_def planCoveragePercentLimit_def sampleService_def sampleUser_def
        samplePlan_def sampleSnapshot_def dropOf_def g bumpImport_def update_rows_def)
qed

lemma held_confirm:
  "\<exists>d. ConfirmPlan sampleService (sampleEnv [''V'', ''N'', ''o2'', ''o3'', ''o4'', ''o5'']) (sampleUser ''bob'') ''P'' plainConfirm heldDraft = Inr ((), d)"
proof -
  let ?e = "sampleEnv [''V'', ''N'', ''o2'', ''o3'', ''o4'', ''o5'']"
  let ?rp = "samplePlan\<lparr>rp_status := PENDING_CONFIRMATION\<rparr>"
  let ?d1 = "bumpImport ''T'' ''S'' heldDraft"
  from held_coverage obtain cov where cov:
    "requirePlanCoverage sampleService (sampleUser ''bob'') ''S'' ''P'' (money 10000) (money 10000) ?d1 = Inr cov" by blast
  obtain d2 where post: "postReceivable (sampleUser ''bob'') ?rp '''' (newReceivable ?e (sampleUser ''bob'') ?rp
        ''2024-06-30'' 10000 ''CNY'') ?d1 = Inr d2" and ev: "eventIds d2 = {}"
    by (simp add: postReceivable_def insert_row_def bumpImport_def heldDraft_def) (simp add: eventIds_def empty_db_def)
  have v: "pi_version plainConfirm = 1" "rp_snapshot samplePlan = ''S''" "rp_amount samplePlan = 10000" "rp_due samplePlan = ''2024-06-30''"
    "cs_currency sampleSnapshot = ''CNY''" "p_tenant (sampleUser ''bob'') = ''T''" "Allows (sampleUser ''bob'') ''settlement.receivable.confirm''"
    by (simp_all add: plainConfirm_def samplePlan_def sampleSnapshot_def sampleUser_def Allows_def permitted_def)
  show ?thesis
    by (rule ConfirmPlan_total [of _ _ _ _ ?rp "sampleSnapshot\<lparr>cs_migration := HOLD\<rparr>", where ?d1.0 = ?d1 and m = HOLD and cov = cov and ?d2.0 = d2,
          OF _ _ _ _ held_values])
       (simp_all add: v held_lock held_access cov post ev, simp add: sampleEnv_def)
qed

theorem write_voids_reconciliation_witness:
  "\<exists>d' err. import_write ''T'' ''S'' heldDraft d' \<and> ReleaseContractImport (sampleEnv []) ''T'' ''S'' sampleRelease d' = Inl err"
proof -
  from held_confirm obtain d' where c: "ConfirmPlan sampleService (sampleEnv [''V'', ''N'', ''o2'', ''o3'', ''o4'', ''o5'']) (sampleUser ''bob'') ''P''
    plainConfirm heldDraft = Inr ((), d')" by blast
  have v: "p_tenant (sampleUser ''bob'') = ''T''" "pi_version plainConfirm = 1" "rp_snapshot (samplePlan\<lparr>rp_status := PENDING_CONFIRMATION\<rparr>) = ''S''"
    by (simp_all add: sampleUser_def plainConfirm_def samplePlan_def)
  have "import_write ''T'' ''S'' heldDraft d'"
    using confirm_instalment [OF c, unfolded v, OF held_lock(1), unfolded v, OF held_lock(2)] .
  from this write_voids_reconciliation [OF this, of "sampleEnv []" sampleRelease] show ?thesis by blast
qed

section \<open>Padded amounts\<close>

text \<open>The amounts are validated after trimming, and then compared as they came: a padded amount is accepted and panics.\<close>

lemma padded_amount_panics:
  assumes "Unrestricted s p ''settlement.import.reconcile''" "Unrestricted s p ''settlement.import.release''"
    and "rn_decision i = ''PUBLISH''" "rn_reason i \<noteq> ''''" "\<not> textTooLong (rn_reason i) 500"
    and "checkAmounts [rn_open i, rn_receipt i, rn_invoiced i] = Inr ()"
    and "importBalances (p_tenant p) sid d = Inr (b, m)" "rn_currency i = ib_currency b" "rn_open i = CHR '' '' # money n"
  shows "ReconcileContractImport s e p sid i d = Inl NilDereference"
proof -
  have "ratSetString (CHR '' '' # money n) = None"
    by (simp add: ratSetString_def ratOfUnsigned_def isDigit_def byte_def)
  then have "mustAgree ErrConflict [rn_open i] ys = Inl NilDereference" for ys
    by (simp add: mustAgree_def differs_def assms(9))
  moreover have "financeAccess s p ''settlement.import.reconcile'' = Inr ()" "financeAccess s p ''settlement.import.release'' = Inr ()"
    using assms(1,2) by (simp_all add: financeAccess_Inr)
  ultimately show ?thesis
    using assms(3-8) by (simp add: ReconcileContractImport_def del: checkAmounts.simps)
qed

end
