(* ===== verification/ReconcileProps.thy ===== *)
theory ReconcileProps
  imports InvoiceProps
begin

text \<open>
  The inquiries at the tax provider come to an end: a claim puts an attempt off, nothing a result changes makes an attempt due
  again at the same instant, so each pass with work leaves less of it, whatever the provider answers. The books stay
  balanced, because a result takes the way of a pushed one.
\<close>

section \<open>Tables of attempts\<close>

definition pollTables :: "db \<Rightarrow> issue_attempt list \<times> red_flush_attempt list" where
  "pollTables d = (issue_attempts (taxes d), red_flush_attempts (taxes d))"

lemma pollTables_writes [simp]:
  "pollTables (set_requests t1 d) = pollTables d" "pollTables (set_tax_invoices t3 d) = pollTables d"
  "pollTables (set_red_requests t5 d) = pollTables d" "pollTables (set_relations t8 d) = pollTables d"
  "pollTables (updateRequest t r P f d) = pollTables d" "pollTables (updateRedRequest t r h d) = pollTables d"
  "pollTables (set_results ts d) = pollTables d" "pollTables (d\<lparr>taxes := (taxes d)\<lparr>tax_invoice_items := tx\<rparr>\<rparr>) = pollTables d"
  "pollTables (set_attempts t2 d) = (t2, snd (pollTables d))" "pollTables (set_red_attempts t6 d) = (fst (pollTables d), t6)"
  by (simp_all add: pollTables_def set_requests_def set_attempts_def set_tax_invoices_def set_red_requests_def set_red_attempts_def
      set_relations_def updateRequest_def updateRedRequest_def set_results_def)

lemma taxes_polls: "taxes d' = taxes d \<Longrightarrow> pollTables d' = pollTables d"
  by (simp add: pollTables_def)

lemma insertTaxItems_polls: "insertTaxItems f e n t tid line xs d = Inr d' \<Longrightarrow> pollTables d' = pollTables d"
proof (induction xs arbitrary: n line d)
  case (Cons x xs)
  then show ?case by (auto simp: andThen_eq_Inr)
qed simp

lemma invoiceReserved_polls: "invoiceReserved P t rid l d = Inr d' \<Longrightarrow> pollTables d' = pollTables d"
proof (induction l arbitrary: d)
  case (Cons x l)
  obtain vid n where x: "x = (vid, n)" by (cases x)
  from Cons.prems x obtain d1 where inc: "incrementInvoiced t vid n (markInvoiced P t rid vid d) = Inr d1"
    and r: "invoiceReserved P t rid l d1 = Inr d'" by (auto simp: andThen_eq_Inr)
  from inc have "taxes d1 = taxes d"
    by (auto simp: incrementInvoiced_def andThen_eq_Inr setInvoiced_def markInvoiced_def Let_def)
  with Cons.IH [OF r] taxes_polls [of d1 d] show ?case by simp
qed simp

lemma reverseRows_polls: "reverseRows e n t fid l d = Inr (k, d') \<Longrightarrow> pollTables d' = pollTables d"
proof (induction l arbitrary: n d)
  case (Cons x l)
  obtain aid vid m where x: "x = (aid, vid, m)" by (cases x)
  have dec: "decrementInvoiced t vid m d1 = Inr d2 \<Longrightarrow> pollTables d2 = pollTables d1" for d1 d2
    by (auto simp: decrementInvoiced_def andThen_eq_Inr setInvoiced_def pollTables_def Let_def)
  have "pollTables (d\<lparr>taxes := (taxes d)\<lparr>invoice_reversals := vr\<rparr>\<rparr>) = pollTables d" for vr by (simp add: pollTables_def)
  with Cons x show ?case by (auto simp: andThen_eq_Inr split: if_split_asm dest!: dec)
qed simp

lemmas poll_steps = insertTaxItems_polls invoiceReserved_polls reverseRows_polls outbox_frame [THEN frame_taxes(3), THEN taxes_polls]

section \<open>What is due\<close>

definition dueCount :: "int \<Rightarrow> db \<Rightarrow> nat" where
  "dueCount now d = length (filter (issueDue now) (fst (pollTables d))) + length (filter (redDue now) (snd (pollTables d)))"

lemma count_update:
  "(\<And>a. P a \<Longrightarrow> Q (f a) \<Longrightarrow> Q a) \<Longrightarrow> length (filter Q (update_rows P f t)) \<le> length (filter Q t)"
proof (induction t)
  case (Cons a t)
  then have "length (filter Q (update_rows P f t)) \<le> length (filter Q t)" by simp
  with Cons.prems [of a] show ?case by (auto simp: update_rows_def)
qed (simp add: update_rows_def)

lemma count_update_less:
  assumes "\<And>a. P a \<Longrightarrow> \<not> Q (f a)" "x \<in> set t" "P x" "Q x"
  shows "length (filter Q (update_rows P f t)) < length (filter Q t)"
  using assms(2)
proof (induction t)
  case (Cons a t)
  have le: "length (filter Q (update_rows P f t)) \<le> length (filter Q t)" by (rule count_update) (use assms(1) in blast)
  show ?case
  proof (cases "x = a")
    case True
    with assms le show ?thesis by (simp add: update_rows_def)
  next
    case False
    with Cons assms(1) [of a] show ?thesis by (auto simp: update_rows_def)
  qed
qed simp

lemma recordResult_due:
  assumes "recordResult t v f d = Inr d'" "\<And>a. issueDue now (f a) \<Longrightarrow> issueDue now a"
  shows "dueCount now d' \<le> dueCount now d"
proof -
  have "d' = updateAttempt t (ev_attempt v) (\<lambda>_. True) (recorded v f) d"
    using assms(1) by (auto simp: recordResult_def recorded_def [abs_def] split: if_splits)
  moreover have "issueDue now (recorded v f a) = issueDue now (f a)" for a by (simp add: recorded_def issueDue_def)
  ultimately show ?thesis using assms(2)
    by (simp add: dueCount_def updateAttempt_def) (simp add: pollTables_def, rule count_update, simp)
qed

lemma recordRedResult_due:
  assumes "recordRedResult t v f d = Inr d'" "\<And>a. redDue now (f a) \<Longrightarrow> redDue now a"
  shows "dueCount now d' \<le> dueCount now d"
proof -
  let ?g = "\<lambda>a. (f a)\<lparr>ra_sequence := ev_sequence v, ra_last_event := ev_id v, ra_operation := coalesce (ra_operation a) (nullable (ev_operation v))\<rparr>"
  have "d' = set_red_attempts (update_rows (ratt_is t (ev_red_attempt v)) ?g (red_flush_attempts (taxes d))) d"
    using assms(1) by (auto simp: recordRedResult_def split: if_splits)
  moreover have "redDue now (?g a) = redDue now (f a)" for a by (simp add: redDue_def)
  ultimately show ?thesis using assms(2)
    by (simp add: dueCount_def) (simp add: pollTables_def, rule count_update, simp)
qed

text \<open>The results of the provider.\<close>

lemma issueDue_ends [simp]:
  "\<not> issueDue now (a\<lparr>at_status := AT_UNKNOWN, at_failure_code := c, at_failure_message := g, at_next_reconcile := Some (now + 60000)\<rparr>)"
  "\<not> issueDue now (a\<lparr>at_status := AT_ISSUE_FAILED, at_failure_code := c, at_failure_message := g, at_next_reconcile := None\<rparr>)"
  "\<not> issueDue now (a\<lparr>at_status := AT_ISSUED, at_external_invoice := x, at_invoice := i, at_failure_code := c, at_failure_message := g,
     at_next_reconcile := None\<rparr>)"
  "issueDue now (a\<lparr>at_failure_code := c, at_failure_message := g\<rparr>) = issueDue now a"
  by (simp_all add: issueDue_def reached_def)

lemma redDue_ends [simp]:
  "\<not> redDue now (b\<lparr>ra_status := AT_UNKNOWN, ra_failure_code := c, ra_failure_message := g, ra_next_reconcile := Some (now + 60000)\<rparr>)"
  "\<not> redDue now (b\<lparr>ra_status := AT_ISSUE_FAILED, ra_failure_code := c, ra_failure_message := g, ra_next_reconcile := None\<rparr>)"
  "\<not> redDue now (b\<lparr>ra_status := AT_ISSUED, ra_red_invoice := i, ra_next_reconcile := None\<rparr>)"
  by (simp_all add: redDue_def reached_def)

lemma dueCount_cong: "pollTables d' = pollTables d \<Longrightarrow> dueCount now d' = dueCount now d"
  by (simp add: dueCount_def)

lemma issueInvoice_due:
  assumes "issueInvoice e t r cs v x d = Inr d'"
  shows "dueCount now d' \<le> dueCount now d"
proof -
  from assms obtain ts d1 d2 d3 tid kind aty body n where
      i: "insertTaxItems (\<lambda>y. y) e 2 t tid 1 (xr_items x) (set_tax_invoices ts d) = Inr d1"
    and r: "recordResult t v (\<lambda>a. a\<lparr>at_status := AT_ISSUED, at_external_invoice := xr_external x, at_invoice := Some tid, at_failure_code := '''',
         at_failure_message := '''', at_next_reconcile := None\<rparr>) d1 = Inr d2"
    and f: "invoiceReserved (\<lambda>a. ia_status a = RESERVED) t (ir_id r) (reservedRows (updateRequest t (ir_id r) openRequest (\<lambda>q. q\<lparr>ir_status := IR_ISSUED\<rparr>) d2)
         t (ir_id r)) (updateRequest t (ir_id r) openRequest (\<lambda>q. q\<lparr>ir_status := IR_ISSUED\<rparr>) d2) = Inr d3"
    and o: "outbox e n t ''PLATFORM_AUDIT'' kind aty tid body d3 = Inr d'"
    unfolding issueInvoice_def Let_def finalizeInvoiceAllocations_def by (auto simp: andThen_eq_Inr split: if_split_asm)
  have "dueCount now d2 \<le> dueCount now d1" by (rule recordResult_due [OF r]) simp
  moreover have "pollTables d1 = pollTables d" "pollTables d' = pollTables d2" using poll_steps(1) [OF i] poll_steps(2) [OF f] poll_steps(4) [OF o] by simp_all
  ultimately show ?thesis by (simp add: dueCount_def)
qed

lemma storeRedInvoice_polls: "storeRedInvoice e t fid f ti v x d = Inr d' \<Longrightarrow> pollTables d' = pollTables d"
  by (auto simp: storeRedInvoice_def andThen_eq_Inr Let_def dest!: poll_steps)

lemma flushInvoice_due:
  assumes "flushInvoice e t fid f ti v x d = Inr d'"
  shows "dueCount now d' \<le> dueCount now d"
proof -
  from assms obtain d1 d2 d3 n kind aty ag body q where
      s: "storeRedInvoice e t fid f ti v x d = Inr d1"
    and r: "recordRedResult t v (\<lambda>a. a\<lparr>ra_status := AT_ISSUED, ra_red_invoice := Some (e_ids e 1), ra_next_reconcile := None\<rparr>)
         (updateRedRequest t fid q d1) = Inr d2"
    and v: "reverseInvoiceAllocations e (3 + length (xr_items x)) t fid (ti_request ti) d2 = Inr (n, d3)"
    and o: "outbox e n t ''PLATFORM_AUDIT'' kind aty ag body d3 = Inr d'"
    unfolding flushInvoice_def by (auto simp: andThen_eq_Inr split: if_split_asm)
  have "dueCount now d2 \<le> dueCount now (updateRedRequest t fid q d1)" by (rule recordRedResult_due [OF r]) simp
  moreover have "pollTables d1 = pollTables d" by (rule storeRedInvoice_polls [OF s])
  moreover have "pollTables d3 = pollTables d2" using v by (auto simp: reverseInvoiceAllocations_def dest: poll_steps(3))
  moreover have "pollTables d' = pollTables d3" by (rule poll_steps(4) [OF o])
  ultimately show ?thesis by (simp add: dueCount_def)
qed

lemma applyInvoiceIssueCallback_due:
  assumes "applyInvoiceIssueCallback e t v d = Inr (w, d')" "e_now e = now"
  shows "dueCount now d' \<le> dueCount now d"
proof (rule applyInvoiceIssueCallback_Inr [OF assms(1)], elim disjE conjE)
  fix a r assume "recordLateIssueCallbackAfterCancel e t a r v d = Inr (w, d')"
  then show ?thesis
    by (auto simp: recordLateIssueCallbackAfterCancel_def andThen_eq_Inr split: if_splits
        dest!: recordResult_due [where now = now] outbox_frame [THEN frame_taxes(3), THEN taxes_polls, THEN dueCount_cong, where now = now])
next
  fix r cs assume a: "applyIssueResult e t r cs v d = Inr (w, d')"
  show ?thesis
  proof (cases "ev_type v = TaxInvoiceIssueUnknownEvent \<or> ev_type v = TaxInvoiceIssueFailedEvent")
    case True
    with a obtain f d1 q where "recordResult t v f d = Inr d1" "d' = updateRequest t (ir_id r) openRequest q d1" "\<And>a. \<not> issueDue now (f a)"
      unfolding applyIssueResult_def assms(2) by (auto simp: andThen_eq_Inr split: if_split_asm)
    with recordResult_due [of t v f d d1 now] show ?thesis by (simp add: dueCount_def)
  next
    case False
    with a show ?thesis by (auto simp: applyIssueResult_def andThen_eq_Inr split: option.split_asm dest: issueInvoice_due)
  qed
qed simp

lemma applyRedFlushCallback_due:
  assumes "applyRedFlushCallback e t v d = Inr (w, d')" "e_now e = now"
  shows "dueCount now d' \<le> dueCount now d"
proof (rule applyRedFlushCallback_Inr [OF assms(1)], elim disjE conjE)
  fix a f ti assume a: "applyRedResult e t (redRequestOf v a) f ti v d = Inr (w, d')"
  show ?thesis
  proof (cases "ev_type v = TaxInvoiceRedFlushUnknownEvent \<or> ev_type v = TaxInvoiceRedFlushFailedEvent")
    case True
    with a obtain g d1 q where "recordRedResult t v g d = Inr d1" "d' = updateRedRequest t (redRequestOf v a) q d1" "\<And>a. \<not> redDue now (g a)"
      unfolding applyRedResult_def assms(2) by (auto simp: andThen_eq_Inr split: if_split_asm)
    with recordRedResult_due [of t v g d d1 now] show ?thesis by (simp add: dueCount_def)
  next
    case False
    with a show ?thesis by (auto simp: applyRedResult_def andThen_eq_Inr split: option.split_asm dest: flushInvoice_due)
  qed
qed simp

lemma ApplyTaxCallback_due:
  assumes ok: "ApplyTaxCallback e trusted v d = Inr (w, d')" and now: "e_now e = now"
  shows "dueCount now d' \<le> dueCount now d"
proof -
  have r: "dueCount now (set_results ts d1) = dueCount now d1" for ts d1 by (simp add: dueCount_def)
  from ApplyTaxCallback_Inr [OF ok refl refl] show ?thesis
    using applyInvoiceIssueCallback_due [OF _ now] applyRedFlushCallback_due [OF _ now] by (fastforce simp: r split: if_splits)
qed

section \<open>Passes\<close>

lemma NextDelay_bounds: "30000 \<le> NextDelay n \<and> NextDelay n \<le> 3600000"
proof -
  have "n < 6 \<Longrightarrow> n \<ge> 0 \<Longrightarrow> n = 0 \<or> n = 1 \<or> n = 2 \<or> n = 3 \<or> n = 4 \<or> n = 5" by linarith
  then show ?thesis by (auto simp: NextDelay_def reconcileDelays_def Let_def)
qed

lemma claim_ends [simp]:
  "\<not> issueDue now (a\<lparr>at_next_reconcile := Some (now + NextDelay n), at_reconciles := m\<rparr>)"
  "\<not> redDue now (b\<lparr>ra_next_reconcile := Some (now + NextDelay n), ra_reconciles := m\<rparr>)"
  using NextDelay_bounds [of n] by (simp_all add: issueDue_def redDue_def reached_def)

text \<open>An item that is due at the moment: a row of the table it names.\<close>

definition itemDue :: "int \<Rightarrow> db \<Rightarrow> reconcile_item \<Rightarrow> bool" where
  "itemDue now d item \<longleftrightarrow>
     (if qi_red item then \<exists>a \<in> set (red_flush_attempts (taxes d)). redDue now a \<and> item = redItem a
      else \<exists>a \<in> set (issue_attempts (taxes d)). issueDue now a \<and> item = issueItem a)"

lemma reconcileItems_due: "item \<in> set (reconcileItems now n d) \<Longrightarrow> itemDue now d item"
  by (auto simp: reconcileItems_def itemDue_def issueItem_def redItem_def dest!: in_set_takeD)

lemma reconcileItems_empty: "0 < n \<Longrightarrow> reconcileItems now n d = [] \<longleftrightarrow> dueCount now d = 0"
proof -
  assume "0 < n"
  have "orderBy itemBefore l = [] \<longleftrightarrow> l = []" for l using length_orderBy [of itemBefore l] by (metis length_0_conv)
  with \<open>0 < n\<close> show ?thesis by (simp add: reconcileItems_def dueCount_def pollTables_def take_eq_Nil)
qed

lemma claimAttempt_due:
  assumes now: "e_now e = now"
  shows "claimAttempt e item d = Some d1 \<Longrightarrow> dueCount now d1 \<le> dueCount now d"
    "itemDue now d item \<Longrightarrow> \<exists>d1. claimAttempt e item d = Some d1 \<and> dueCount now d1 < dueCount now d"
proof -
  let ?f = "\<lambda>a. a\<lparr>at_next_reconcile := Some (now + NextDelay (int (qi_attempts item))), at_reconciles := at_reconciles a + 1\<rparr>"
    and ?g = "\<lambda>b. b\<lparr>ra_next_reconcile := Some (now + NextDelay (int (qi_attempts item))), ra_reconciles := ra_reconciles b + 1\<rparr>"
  have le: "length (filter (issueDue now) (update_rows P ?f t)) \<le> length (filter (issueDue now) t)"
    "length (filter (redDue now) (update_rows Q ?g u)) \<le> length (filter (redDue now) u)" for P Q t u by (rule count_update, simp)+
  show "dueCount now d1 \<le> dueCount now d" if c: "claimAttempt e item d = Some d1"
    using c le by (auto simp: claimAttempt_def Let_def now dueCount_def pollTables_def set_attempts_def set_red_attempts_def split: if_splits)
  show "\<exists>d1. claimAttempt e item d = Some d1 \<and> dueCount now d1 < dueCount now d" if item: "itemDue now d item"
  proof (cases "qi_red item")
    case True
    then obtain a where a: "a \<in> set (red_flush_attempts (taxes d))" "redDue now a" "item = redItem a" using item by (auto simp: itemDue_def)
    then have c: "claimRed e item a" by (simp add: claimRed_def redItem_def redDue_def now)
    with a(1) have "affected (claimRed e item) (red_flush_attempts (taxes d)) \<noteq> 0" by (auto simp: affected_def filter_empty_conv)
    with True count_update_less [of "claimRed e item" "redDue now" ?g a "red_flush_attempts (taxes d)"] a c show ?thesis
      by (simp add: claimAttempt_def Let_def now dueCount_def pollTables_def set_red_attempts_def)
  next
    case False
    then obtain a where a: "a \<in> set (issue_attempts (taxes d))" "issueDue now a" "item = issueItem a" using item by (auto simp: itemDue_def)
    then have c: "claimIssue e item a" by (simp add: claimIssue_def issueItem_def issueDue_def now)
    with a(1) have "affected (claimIssue e item) (issue_attempts (taxes d)) \<noteq> 0" by (auto simp: affected_def filter_empty_conv)
    with False count_update_less [of "claimIssue e item" "issueDue now" ?f a "issue_attempts (taxes d)"] a c show ?thesis
      by (simp add: claimAttempt_def Let_def now dueCount_def pollTables_def set_attempts_def)
  qed
qed

text \<open>After the claim an attempt, whatever becomes of it, leaves no more work behind than the claim did.\<close>

lemma reconcile_due:
  assumes r: "reconcile w e k item d = (r, d')" and now: "e_now e = now"
  shows "dueCount now d' \<le> dueCount now d" "itemDue now d item \<Longrightarrow> mayGoOn w (3 * k + 1) \<Longrightarrow> dueCount now d' < dueCount now d"
proof -
  have "dueCount now d' \<le> dueCount now d \<and> (itemDue now d item \<and> mayGoOn w (3 * k + 1) \<longrightarrow> dueCount now d' < dueCount now d)"
  proof (rule reconcile_effect [OF r])
    assume "d' = d" "\<not> mayGoOn w (3 * k + 1) \<or> claimAttempt e item d = None"
    then show ?thesis using claimAttempt_due(2) [OF now, of d item] by auto
  next
    fix d1 assume c: "claimAttempt e item d = Some d1" and a: "d' = d1 \<or> (\<exists>v st. ApplyTaxCallback e (qi_tenant item) v d1 = Inr (st, d') \<and> answerType w k item = ev_type v)"
    have "dueCount now d' \<le> dueCount now d1" using a ApplyTaxCallback_due [OF _ now] by blast
    then show ?thesis using claimAttempt_due [OF now, where item = item and d = d] c by fastforce
  qed
  then show "dueCount now d' \<le> dueCount now d" "itemDue now d item \<Longrightarrow> mayGoOn w (3 * k + 1) \<Longrightarrow> dueCount now d' < dueCount now d" by blast+
qed

lemma reconcileAll_due:
  assumes "\<forall>k. e_now (es k) = now"
  shows "dueCount now (snd (reconcileAll w es k items d)) \<le> dueCount now d"
proof (induction items arbitrary: k d)
  case (Cons item items)
  obtain r d1 where r: "reconcile w (es k) k item d = (r, d1)" by fastforce
  have "dueCount now d1 \<le> dueCount now d" by (rule reconcile_due(1) [OF r]) (use assms in simp)
  with r Cons.IH [of "k + 1" d1] show ?case by (auto split: option.split)
qed simp

text \<open>A worker that is configured and whose licence holds.\<close>

definition readyWorker :: "ReconcileWorker \<Rightarrow> bool" where
  "readyWorker w \<longleftrightarrow> trimSpace (tw_url w) \<noteq> '''' \<and> mayGoOn w 0 \<and> mayGoOn w 1"

lemma ReconcileOnce_less:
  assumes ready: "readyWorker w" and now: "\<forall>k. e_now (es k) = now" and work: "dueCount now d \<noteq> 0"
  shows "dueCount now (snd (ReconcileOnce w es d)) < dueCount now d"
proof -
  have b: "0 < reconcileBatch w" by (simp add: reconcileBatch_def)
  with work obtain item items where i: "reconcileItems now (reconcileBatch w) d = item # items"
    using reconcileItems_empty [OF b, of now d] by (cases "reconcileItems now (reconcileBatch w) d") auto
  then have due: "itemDue now d item" by (intro reconcileItems_due [where n = "reconcileBatch w"]) simp
  obtain r d1 where r: "reconcile w (es 0) 0 item d = (r, d1)" by fastforce
  have "dueCount now d1 < dueCount now d" by (rule reconcile_due(2) [OF r _ due]) (use now ready in \<open>simp_all add: readyWorker_def\<close>)
  moreover have "dueCount now (snd (reconcileAll w es 1 items d1)) \<le> dueCount now d1" by (rule reconcileAll_due [OF now])
  ultimately show ?thesis using ready now i r by (auto simp: ReconcileOnce_def readyWorker_def split: option.split)
qed

lemma drains:
  assumes "\<forall>x \<in> set passes. readyWorker (fst x) \<and> (\<forall>k. e_now (snd x k) = now)"
  shows "dueCount now (fold (\<lambda>x d. snd (ReconcileOnce (fst x) (snd x) d)) passes d) \<le> dueCount now d - length passes"
  using assms
proof (induction passes arbitrary: d)
  case (Cons x passes)
  let ?d = "snd (ReconcileOnce (fst x) (snd x) d)"
  have now: "\<forall>k. e_now (snd x k) = now" using Cons.prems by simp
  have "dueCount now ?d \<le> dueCount now d - 1"
  proof (cases "dueCount now d = 0")
    case True
    then show ?thesis using reconcileAll_due [OF now] by (simp add: ReconcileOnce_def now le_zero_eq) (metis le_zero_eq True)
  next
    case False
    with ReconcileOnce_less [of "fst x" "snd x" now d] Cons.prems show ?thesis by simp
  qed
  with Cons.IH [of ?d] Cons.prems show ?case by simp
qed simp

text \<open>C21: the inquiries at one instant terminate. Whatever the provider answers and wherever a pass stops with an error, each pass of a
  licensed worker leaves fewer attempts to ask for; after as many passes as there were due attempts a pass finds nothing to do.\<close>

theorem reconcile_terminates:
  assumes "\<forall>x \<in> set passes. readyWorker (fst x) \<and> (\<forall>k. e_now (snd x k) = now)" "dueCount now d \<le> length passes"
  shows "reconcileItems now (reconcileBatch w) (fold (\<lambda>x d. snd (ReconcileOnce (fst x) (snd x) d)) passes d) = []"
proof -
  have "0 < reconcileBatch w" by (simp add: reconcileBatch_def)
  with drains [OF assms(1), of d] assms(2) show ?thesis by (simp add: reconcileItems_empty)
qed

text \<open>Two attempts are due; the endpoint is out of order, so the first pass ends with its error and the second one asks for the other attempt.\<close>

definition askWorker :: ReconcileWorker where
  "askWorker = \<lparr>tw_licence = None, tw_url = ''https://tax'', tw_token = (\<lambda>_. Some ''k''), tw_parses = (\<lambda>_. True),
     tw_http = (\<lambda>_ _ _. Some \<lparr>rq_status = 400, rq_event = None\<rparr>), tw_batch = 10\<rparr>"

definition askEnvs :: "nat \<Rightarrow> env" where
  "askEnvs k = sampleEnv [''r'']"

definition askStore :: db where
  "askStore = set_attempts (map (\<lambda>i. (sampleAttempt TAX_ADAPTER AT_ACCEPTED)\<lparr>at_id := i, at_next_reconcile := Some 0\<rparr>) [''A1'', ''A2'']) empty_db"

lemma ask_due: "dueCount (e_now (askEnvs 0)) askStore = 2"
  by (simp add: dueCount_def askStore_def askEnvs_def sampleEnv_def issueDue_def polledStatus_def reached_def sampleAttempt_def newAttempt_def
      pollTables_def empty_db_def set_attempts_def)

theorem reconcile_terminates_witness:
  "reconcileItems (e_now (askEnvs 0)) (reconcileBatch askWorker) askStore \<noteq> [] \<and>
   reconcileItems (e_now (askEnvs 0)) (reconcileBatch askWorker)
     (fold (\<lambda>x d. snd (ReconcileOnce (fst x) (snd x) d)) [(askWorker, askEnvs), (askWorker, askEnvs)] askStore) = []"
proof (rule conjI)
  have "trimSpace ''https://tax'' \<noteq> ''''" by code_simp
  then have "readyWorker askWorker" by (simp add: readyWorker_def askWorker_def mayGoOn_def)
  moreover have "\<forall>k. e_now (askEnvs k) = e_now (askEnvs 0)" by (simp add: askEnvs_def)
  ultimately show "reconcileItems (e_now (askEnvs 0)) (reconcileBatch askWorker)
     (fold (\<lambda>x d. snd (ReconcileOnce (fst x) (snd x) d)) [(askWorker, askEnvs), (askWorker, askEnvs)] askStore) = []"
    by (intro reconcile_terminates) (use ask_due in auto)
  show "reconcileItems (e_now (askEnvs 0)) (reconcileBatch askWorker) askStore \<noteq> []"
    using ask_due reconcileItems_empty [of "reconcileBatch askWorker"] by (simp add: askWorker_def reconcileBatch_def)
qed

end
