(* ===== verification/Dunning.thy ===== *)
theory Dunning
  imports OutboxWorker
begin

text \<open>
  The scanner of overdue receivables (internal/dunning/scanner.go, overlap.go, active\_case\_guard.go) with the
  policies and the feedback that belong to it (dunning\_policy.go, dunning\_action.go, dunning\_coverage.go). A pass
  closes the cases of settled receivables, opens again what became overdue again, opens cases for
  overdue receivables without one and repeats the actions that are due. The directory of
  personnel and the licence are arguments; a licence may change between two checks of a pass, so
  the checks are numbered.
\<close>

section \<open>Policies\<close>

record DunningPolicyInput =
  pi_name :: string
  pi_from :: int
  pi_to :: int
  pi_action :: string
  pi_recipient :: string
  pi_channel :: string
  pi_repeat :: int
  pi_priority :: string

definition newPolicy :: "string \<Rightarrow> string \<Rightarrow> DunningPolicyInput \<Rightarrow> dunning_policy" where
  "newPolicy pid tenant i = \<lparr>dp_id = pid, dp_tenant = tenant, dp_name = pi_name i, dp_version = 1, dp_from = pi_from i, dp_to = pi_to i,
     dp_action = pi_action i, dp_recipient = pi_recipient i, dp_channel = pi_channel i, dp_repeat = pi_repeat i,
     dp_priority = pi_priority i, dp_enabled = True\<rparr>"

definition set_policies :: "dunning_policy list \<Rightarrow> db \<Rightarrow> db" where
  "set_policies t d = d\<lparr>sides := (sides d)\<lparr>dunning_policies := t\<rparr>\<rparr>"

definition set_actions :: "dunning_action list \<Rightarrow> db \<Rightarrow> db" where
  "set_actions t d = d\<lparr>sides := (sides d)\<lparr>dunning_actions := t\<rparr>\<rparr>"

definition set_notifications :: "local_notification list \<Rightarrow> db \<Rightarrow> db" where
  "set_notifications t d = d\<lparr>sides := (sides d)\<lparr>local_notifications := t\<rparr>\<rparr>"

definition CreateDunningPolicy :: "env \<Rightarrow> Principal \<Rightarrow> DunningPolicyInput \<Rightarrow> db \<Rightarrow> (string \<times> db) res" where
  "CreateDunningPolicy e p i d =
     (if textTooLong (pi_name i) 255 then Inl ErrInvalid
      else if pi_from i < 0 \<or> pi_to i < pi_from i \<or> pi_repeat i < 1 \<or> \<not> hasPrefix (pi_recipient i) ''USER:'' \<or>
              pi_priority i \<noteq> ''NORMAL'' \<and> pi_priority i \<noteq> ''HIGH'' \<and> pi_priority i \<noteq> ''CRITICAL'' then Inl ErrInvalid
      else if pi_channel i \<noteq> ''LOCAL'' \<and> pi_channel i \<noteq> ''PLATFORM'' then Inl ErrInvalid
      else andThen (insert_row policy_clash (newPolicy (e_ids e 0) (p_tenant p) i) (dunning_policies (sides d))) (\<lambda>t.
      andThen (outbox e 1 (p_tenant p) ''PLATFORM_AUDIT'' ''SETTLEMENT_DUNNING_POLICY_CREATED'' ''dunning_policy'' (e_ids e 0)
        [(''actor_id'', JStr (p_user p)), (''result'', JStr ''SUCCESS''), (''risk_level'', JStr ''MEDIUM'')] (set_policies t d)) (\<lambda>d1.
      Inr (e_ids e 0, d1))))"

text \<open>The days of age that no enabled policy covers; the last gap has no end.\<close>

record DunningCoveragePolicy =
  vp_id :: string
  vp_name :: string
  vp_version :: int
  vp_from :: int
  vp_to :: int

record DunningCoverageGap =
  vg_from :: int
  vg_to :: int
  vg_open :: bool

fun coverageGapsFrom :: "int \<Rightarrow> DunningCoveragePolicy list \<Rightarrow> DunningCoverageGap list" where
  "coverageGapsFrom cursor [] = [\<lparr>vg_from = cursor, vg_to = 0, vg_open = True\<rparr>]"
| "coverageGapsFrom cursor (p # ps) =
     (if vp_from p < 0 \<or> vp_to p < vp_from p then coverageGapsFrom cursor ps
      else (if vp_from p > cursor then [\<lparr>vg_from = cursor, vg_to = vp_from p - 1, vg_open = False\<rparr>] else []) @
           coverageGapsFrom (if vp_to p \<ge> cursor then vp_to p + 1 else cursor) ps)"

definition dunningCoverageGaps :: "DunningCoveragePolicy list \<Rightarrow> DunningCoverageGap list" where
  "dunningCoverageGaps ps = coverageGapsFrom 1 ps"

definition coverageOrder :: "dunning_policy \<Rightarrow> dunning_policy \<Rightarrow> bool" where
  "coverageOrder a b \<longleftrightarrow> dp_from a < dp_from b \<or> dp_from a = dp_from b \<and>
     (dp_to a < dp_to b \<or> dp_to a = dp_to b \<and>
       (dp_version a < dp_version b \<or> dp_version a = dp_version b \<and> strLess (dp_id a) (dp_id b)))"

definition coveragePolicy :: "dunning_policy \<Rightarrow> DunningCoveragePolicy" where
  "coveragePolicy x = \<lparr>vp_id = dp_id x, vp_name = dp_name x, vp_version = dp_version x, vp_from = dp_from x, vp_to = dp_to x\<rparr>"

definition DunningCoverage :: "Principal \<Rightarrow> db \<Rightarrow> DunningCoveragePolicy list \<times> DunningCoverageGap list" where
  "DunningCoverage p d =
     (let ps = map coveragePolicy
            (orderBy coverageOrder (filter (\<lambda>x. dp_tenant x = p_tenant p \<and> dp_enabled x) (dunning_policies (sides d))))
      in (ps, dunningCoverageGaps ps))"

section \<open>Feedback\<close>

definition action_is :: "string \<Rightarrow> string \<Rightarrow> dunning_action \<Rightarrow> bool" where
  "action_is tenant aid x \<longleftrightarrow> da_tenant x = tenant \<and> da_id x = aid"

text \<open>The snapshot of the receivable of the action's case, or of its plan.\<close>

definition caseSnapshot :: "db \<Rightarrow> dunning_case \<Rightarrow> string option" where
  "caseSnapshot d c =
     (case find (\<lambda>v. dc_receivable c = Some (rv_id v) \<and> rv_tenant v = dc_tenant c) (receivables d) of
        Some v \<Rightarrow> Some (rv_snapshot v)
      | None \<Rightarrow> map_option rp_snapshot (find (\<lambda>rp. dc_plan c = Some (rp_id rp) \<and> rp_tenant rp = dc_tenant c) (plans d)))"

definition actionSnapshot :: "db \<Rightarrow> dunning_action \<Rightarrow> string option" where
  "actionSnapshot d a =
     (case find (\<lambda>c. dc_id c = da_case a \<and> dc_tenant c = da_tenant a) (dunning_cases d) of None \<Rightarrow> None
      | Some c \<Rightarrow> (case caseSnapshot d c of None \<Rightarrow> None
          | Some sn \<Rightarrow> map_option cs_id (find (\<lambda>cs. cs_id cs = sn \<and> cs_tenant cs = dc_tenant c) (snapshots d))))"

definition CompleteDunningAction ::
  "Service \<Rightarrow> env \<Rightarrow> Principal \<Rightarrow> string \<Rightarrow> nat \<Rightarrow> string \<Rightarrow> db \<Rightarrow> (unit \<times> db) res" where
  "CompleteDunningAction s e p aid0 version note0 d =
     (let aid = trimSpace aid0; note = trimSpace note0 in
      if aid = '''' \<or> version = 0 \<or> runeCount note > 500 then Inl ErrInvalid
      else andThen (query_row ErrNotFound (action_is (p_tenant p) aid) (dunning_actions (sides d))) (\<lambda>a.
      if da_recipient a \<noteq> p_user p \<and> \<not> Allows p ''settlement.admin'' then Inl ErrForbidden
      else andThen (if Unrestricted s p ''settlement.dunning.feedback'' then Inr d
             else case actionSnapshot d a of None \<Rightarrow> Inl ErrNotFound
               | Some sn \<Rightarrow> RequireContractAccessTx s p ''settlement.dunning.feedback'' sn d) (\<lambda>d1.
      if da_status a = ACTION_COMPLETED then Inr ((), d1)
      else if da_status a \<noteq> ACTION_PENDING \<or> da_version a \<noteq> int version then Inl ErrConflict
      else andThen (outbox e 0 (p_tenant p) ''PLATFORM_AUDIT'' ''SETTLEMENT_DUNNING_ACTION_COMPLETED'' ''dunning_action'' aid
        [(''actor_id'', JStr (p_user p)), (''result'', JStr ''SUCCESS''), (''risk_level'', JStr ''LOW''), (''note'', JStr note)]
        (set_actions (update_rows (\<lambda>x. action_is (p_tenant p) aid x \<and> da_status x = ACTION_PENDING \<and> da_version x = int version)
            (\<lambda>x. x\<lparr>da_status := ACTION_COMPLETED, da_completed_by := p_user p, da_result := note, da_version := da_version x + 1\<rparr>)
            (dunning_actions (sides d1))) d1)) (\<lambda>d2.
      Inr ((), d2)))))"

section \<open>Recipients and time\<close>

datatype scan_err =
    LicenceRefused | NotConfigured | UnsupportedRecipient string | EmptyRecipient | StoreFailed go_err
  | DirectoryFailed | NoSalesRole | DirectoryTooLarge

definition recipientUser :: "string \<Rightarrow> scan_err + string" where
  "recipientUser rule =
     (let r = trimSpace rule; u = trimSpace (if hasPrefix r ''USER:'' then drop 5 r else r) in
      if u = '''' \<or> \<not> hasPrefix r ''USER:'' then Inl (UnsupportedRecipient rule) else Inr u)"

definition storedRecipient :: "string \<Rightarrow> scan_err + string" where
  "storedRecipient value0 =
     (let v = trimSpace value0 in
      if hasPrefix v ''USER:'' then recipientUser v
      else if v = '''' then Inl EmptyRecipient else Inr v)"

text \<open>Days between two dates of the store, and a date column against today.\<close>

definition dayOf :: "string \<Rightarrow> int" where
  "dayOf s = (case parseDate s of None \<Rightarrow> 0 | Some x \<Rightarrow> int (dayNumber x))"

definition agingOf :: "env \<Rightarrow> string \<Rightarrow> int" where
  "agingOf e day = int (dayNumber (e_today e)) - dayOf day"

definition overdue :: "env \<Rightarrow> receivable \<Rightarrow> bool" where
  "overdue e v \<longleftrightarrow> rv_open v > 0 \<and> agingOf e (rv_due v) > 0"

definition days :: "int \<Rightarrow> int" where
  "days n = n * 86400000"

definition showInt :: "int \<Rightarrow> string" where
  "showInt n = (if n < 0 then ''-'' @ showNat (nat (- n)) else showNat (nat n))"

section \<open>Settled receivables\<close>

record Scanner =
  sc_batch :: int
  sc_directory :: "(string \<Rightarrow> bool option) option"
  sc_licence :: "(nat \<Rightarrow> bool) option"

definition licensed :: "Scanner \<Rightarrow> nat \<Rightarrow> bool" where
  "licensed s l = (case sc_licence s of None \<Rightarrow> True | Some f \<Rightarrow> f l)"

definition receivableOfCase :: "db \<Rightarrow> dunning_case \<Rightarrow> receivable option" where
  "receivableOfCase d c = find (\<lambda>v. dc_receivable c = Some (rv_id v) \<and> rv_tenant v = dc_tenant c) (receivables d)"

definition settledCase :: "db \<Rightarrow> dunning_case \<Rightarrow> bool" where
  "settledCase d c = (case receivableOfCase d c of None \<Rightarrow> False | Some v \<Rightarrow> rv_open v = 0)"

definition cancelActions :: "db \<Rightarrow> db" where
  "cancelActions d = set_actions (update_rows
     (\<lambda>a. (da_status a = ACTION_PENDING \<or> da_status a = ACTION_SENT) \<and>
        exists_row (\<lambda>c. dc_id c = da_case a \<and> dc_tenant c = da_tenant a \<and> settledCase d c) (dunning_cases d))
     (\<lambda>a. a\<lparr>da_status := ACTION_CANCELLED, da_version := da_version a + 1, da_result := ''RECEIVABLE_SETTLED''\<rparr>)
     (dunning_actions (sides d))) d"

definition closeCases :: "env \<Rightarrow> db \<Rightarrow> db" where
  "closeCases e d = d\<lparr>dunning_cases := update_rows (\<lambda>c. dc_status c = CASE_ACTIVE \<and> settledCase d c)
     (\<lambda>c. c\<lparr>dc_status := CASE_CLOSED, dc_closed_reason := ''RECEIVABLE_SETTLED'', dc_next := e_now e, dc_updated := e_now e\<rparr>)
     (dunning_cases d)\<rparr>"

text \<open>Two statements, each with its own check of the licence and committed by itself.\<close>

definition closeSettled :: "Scanner \<Rightarrow> env \<Rightarrow> nat \<Rightarrow> db \<Rightarrow> (scan_err option \<times> db)" where
  "closeSettled s e l d =
     (if \<not> licensed s l then (Some LicenceRefused, d)
      else let d1 = cancelActions d in
      if \<not> licensed s (l + 1) then (Some LicenceRefused, d1) else (None, closeCases e d1))"

section \<open>Overdue again\<close>

definition policyOf :: "db \<Rightarrow> dunning_case \<Rightarrow> dunning_policy option" where
  "policyOf d c = find (\<lambda>p. dp_id p = dc_policy c \<and> dp_tenant p = dc_tenant c \<and> dp_version p = dc_policy_version c) (dunning_policies (sides d))"

definition scannedPolicy :: "dunning_policy \<Rightarrow> bool" where
  "scannedPolicy p \<longleftrightarrow> dp_enabled p \<and> dp_recipient p \<noteq> ''CONTRACT_OWNER''"

definition closedSettled :: "db \<Rightarrow> dunning_case \<Rightarrow> bool" where
  "closedSettled d c \<longleftrightarrow> dc_status c = CASE_CLOSED \<and> dc_closed_reason c = ''RECEIVABLE_SETTLED'' \<and> dc_receivable c \<noteq> None \<and>
     (case policyOf d c of None \<Rightarrow> False | Some p \<Rightarrow> scannedPolicy p)"

definition reopenBefore :: "db \<Rightarrow> dunning_case \<Rightarrow> dunning_case \<Rightarrow> bool" where
  "reopenBefore d a b =
     (case (policyOf d a, policyOf d b) of
        (Some p, Some q) \<Rightarrow> dp_from q < dp_from p \<or> dp_from p = dp_from q \<and>
          (strLess (dp_id p) (dp_id q) \<or> dp_id p = dp_id q \<and>
            (dc_updated b < dc_updated a \<or> dc_updated a = dc_updated b \<and> strLess (dc_id b) (dc_id a)))
      | _ \<Rightarrow> False)"

definition firstToReopen :: "db \<Rightarrow> dunning_case \<Rightarrow> bool" where
  "firstToReopen d c =
     (map_option dc_id (best (reopenBefore d) (filter (\<lambda>x. closedSettled d x \<and> dc_tenant x = dc_tenant c \<and> dc_receivable x = dc_receivable c)
        (dunning_cases d))) = Some (dc_id c))"

definition activeBeside :: "dunning_case \<Rightarrow> dunning_case \<Rightarrow> bool" where
  "activeBeside c x \<longleftrightarrow> dc_tenant x = dc_tenant c \<and> dc_status x = CASE_ACTIVE \<and>
     (sameValue (dc_receivable x) (dc_receivable c) \<or> sameValue (dc_plan x) (dc_plan c))"

definition reopenable :: "env \<Rightarrow> db \<Rightarrow> dunning_case \<Rightarrow> bool" where
  "reopenable e d c \<longleftrightarrow> closedSettled d c \<and> firstToReopen d c \<and>
     (case (receivableOfCase d c, policyOf d c) of
        (Some v, Some p) \<Rightarrow> overdue e v \<and> dp_from p \<le> agingOf e (rv_due v) \<and> agingOf e (rv_due v) \<le> dp_to p
      | _ \<Rightarrow> False) \<and>
     \<not> exists_row (activeBeside c) (dunning_cases d)"

definition reopened :: "env \<Rightarrow> dunning_case \<Rightarrow> dunning_case" where
  "reopened e c = c\<lparr>dc_status := CASE_ACTIVE, dc_closed_reason := '''', dc_level := 0, dc_last := None, dc_next := e_now e, dc_updated := e_now e\<rparr>"

text \<open>One statement over many rows: it is refused as a whole when two of the rows would break a unique key.\<close>

fun anyClash :: "('r \<Rightarrow> 'r \<Rightarrow> bool) \<Rightarrow> 'r list \<Rightarrow> bool" where
  "anyClash clash [] = False"
| "anyClash clash (r # rs) = (list_ex (clash r) rs \<or> anyClash clash rs)"

definition reopenSettled :: "Scanner \<Rightarrow> env \<Rightarrow> nat \<Rightarrow> db \<Rightarrow> (scan_err option \<times> db)" where
  "reopenSettled s e l d =
     (if \<not> licensed s l then (Some LicenceRefused, d)
      else let t = update_rows (reopenable e d) (reopened e) (dunning_cases d) in
      (None, if anyClash case_clash t then d else d\<lparr>dunning_cases := t\<rparr>))"

section \<open>Actions\<close>

text \<open>The texts of a reminder, as the bytes of their UTF-8 form.\<close>

definition overdueTitle :: string where
  "overdueTitle =
     [CHR 0xE5, CHR 0xBA, CHR 0x94, CHR 0xE6, CHR 0x94, CHR 0xB6, CHR 0xE9, CHR 0x80, CHR 0xBE, CHR 0xE6, CHR 0x9C, CHR 0x9F,
     CHR 0xE6, CHR 0x8F, CHR 0x90, CHR 0xE9, CHR 0x86, CHR 0x92]"

definition overdueOf :: string where
  "overdueOf =
     [CHR 0xE7, CHR 0x9A, CHR 0x84, CHR 0xE5, CHR 0xBA, CHR 0x94, CHR 0xE6, CHR 0x94, CHR 0xB6, CHR 0xE5, CHR 0x8D, CHR 0x95]"

definition overdueSince :: string where
  "overdueSince =
     [CHR 0xE5, CHR 0xB7, CHR 0xB2, CHR 0xE9, CHR 0x80, CHR 0xBE, CHR 0xE6, CHR 0x9C, CHR 0x9F]"

definition overdueTail :: string where
  "overdueTail =
     [CHR 0xE5, CHR 0xA4, CHR 0xA9, CHR 0xEF, CHR 0xBC, CHR 0x8C, CHR 0xE8, CHR 0xAF, CHR 0xB7, CHR 0xE5, CHR 0x8F, CHR 0x8A,
     CHR 0xE6, CHR 0x97, CHR 0xB6, CHR 0xE8, CHR 0xB7, CHR 0x9F, CHR 0xE8, CHR 0xBF, CHR 0x9B, CHR 0xE5, CHR 0xB9, CHR 0xB6,
     CHR 0xE5, CHR 0xAE, CHR 0x8C, CHR 0xE6, CHR 0x88, CHR 0x90, CHR 0xE5, CHR 0x82, CHR 0xAC, CHR 0xE6, CHR 0x94, CHR 0xB6,
     CHR 0xE5, CHR 0x8A, CHR 0xA8, CHR 0xE4, CHR 0xBD, CHR 0x9C, CHR 0xE3, CHR 0x80, CHR 0x82]"

definition overdueContent :: "string \<Rightarrow> string \<Rightarrow> int \<Rightarrow> string" where
  "overdueContent customer number aging = customer @ overdueOf @ number @ overdueSince @ showInt aging @ overdueTail"

text \<open>Identifiers of rows and events.\<close>

type_synonym ident = string

text \<open>Identifiers and checks of the licence used so far in a pass.\<close>

record ticks =
  tk_id :: nat
  tk_lic :: nat

definition tick :: "nat \<Rightarrow> nat \<Rightarrow> ticks \<Rightarrow> ticks" where
  "tick i l t = \<lparr>tk_id = tk_id t + i, tk_lic = tk_lic t + l\<rparr>"

definition stored :: "'a res \<Rightarrow> scan_err + 'a" where
  "stored r = (case r of Inl err \<Rightarrow> Inl (StoreFailed err) | Inr x \<Rightarrow> Inr x)"

definition newAction ::
  "env \<Rightarrow> ident \<Rightarrow> string \<Rightarrow> ident \<Rightarrow> string \<Rightarrow> string \<Rightarrow> string \<Rightarrow> string \<Rightarrow> ident \<Rightarrow> dunning_action" where
  "newAction e aid tenant cid action recipient channel priority event =
     \<lparr>da_id = aid, da_tenant = tenant, da_case = cid, da_action = action, da_recipient = recipient, da_channel = channel,
      da_priority = priority, da_event = event, da_status = ACTION_PENDING, da_version = 1, da_result = '''', da_completed_by = '''',
      da_created = e_now e\<rparr>"

definition newNotification ::
  "ident \<Rightarrow> string \<Rightarrow> string \<Rightarrow> ident \<Rightarrow> string \<Rightarrow> string \<Rightarrow> string \<Rightarrow> string \<Rightarrow> ident \<Rightarrow> local_notification" where
  "newNotification nid tenant recipient event priority title content kind ref =
     \<lparr>ln_id = nid, ln_tenant = tenant, ln_recipient = recipient, ln_event = event, ln_priority = priority, ln_title = title,
      ln_content = content, ln_reference_type = kind, ln_reference = ref\<rparr>"

definition pendingEvent ::
  "env \<Rightarrow> ident \<Rightarrow> string \<Rightarrow> ident \<Rightarrow> string \<Rightarrow> string \<Rightarrow> string \<Rightarrow> ident \<Rightarrow> payload \<Rightarrow> outbox_event" where
  "pendingEvent e oid tenant event destination kind aggregateType aggregate body =
     \<lparr>ob_id = oid, ob_tenant = tenant, ob_event = event, ob_destination = destination, ob_type = kind,
      ob_aggregate_type = aggregateType, ob_aggregate = aggregate, ob_payload = body, ob_status = OB_PENDING, ob_attempts = 0,
      ob_available_at = e_now e, ob_locked_by = None, ob_locked_until = None, ob_created_at = e_now e, ob_delivered_at = None,
      ob_dead_at = None, ob_error_code = '''', ob_error_summary = ''''\<rparr>"

definition reminderPayload ::
  "env \<Rightarrow> nat \<Rightarrow> ident \<Rightarrow> string \<Rightarrow> string \<Rightarrow> string \<Rightarrow> string \<Rightarrow> string \<Rightarrow> string \<Rightarrow> ident \<Rightarrow> string \<Rightarrow> payload" where
  "reminderPayload e release event kind priority title content target refType ref recipient =
     [(''import_release_version'', JInt (int release)), (''event_id'', JStr event), (''event_type'', JStr kind),
      (''notification_scope'', JStr ''CROSS_SYSTEM''), (''priority'', JStr priority), (''title'', JStr title),
      (''content'', JStr content), (''target_url'', JStr target), (''reference_type'', JStr refType), (''reference_id'', JStr ref),
      (''idempotency_key'', JStr event), (''recipient_user_ids'', JArr [JStr recipient]), (''occurred_at'', JInt (e_now e))]"

text \<open>
  What an action is about: the case, the receivable and the recipient. The licence is checked before
  every write; a refusal rolls the transaction of the caller back.
\<close>

record reminder =
  rm_tenant :: string
  rm_case :: string
  rm_receivable :: string
  rm_action :: string
  rm_recipient :: string
  rm_channel :: string
  rm_priority :: string
  rm_number :: string
  rm_customer :: string
  rm_aging :: int

definition toPlatform :: "reminder \<Rightarrow> bool" where
  "toPlatform r \<longleftrightarrow> rm_channel r = ''PLATFORM'' \<or> rm_priority r = ''HIGH'' \<or> rm_priority r = ''CRITICAL''"

definition insertAction :: "Scanner \<Rightarrow> env \<Rightarrow> ticks \<Rightarrow> string \<Rightarrow> reminder \<Rightarrow> db \<Rightarrow> scan_err + (ticks \<times> db)" where
  "insertAction s e t event r d =
     (let tenant = rm_tenant r; content = overdueContent (rm_customer r) (rm_number r) (rm_aging r) in
      if \<not> licensed s (tk_lic t) then Inl LicenceRefused
      else case referenceState d tenant False (rm_receivable r) of
        None \<Rightarrow> Inl (StoreFailed SqlNoRows)
      | Some (state, release) \<Rightarrow>
      if state \<noteq> RELEASED then Inr (tick 0 1 t, d)
      else andThen (stored (insert_row action_clash (newAction e (e_ids e (tk_id t)) tenant (rm_case r) (rm_action r) (rm_recipient r)
              (rm_channel r) (rm_priority r) event) (dunning_actions (sides d)))) (\<lambda>as.
      if \<not> licensed s (tk_lic t + 1) then Inl LicenceRefused
      else andThen (stored (insert_row notification_clash (newNotification (e_ids e (tk_id t + 1)) tenant (rm_recipient r) event
              (rm_priority r) overdueTitle content ''RECEIVABLE'' (rm_receivable r)) (local_notifications (sides d)))) (\<lambda>ns.
      let d1 = set_notifications ns (set_actions as d) in
      if \<not> toPlatform r then Inr (tick 2 2 t, d1)
      else if \<not> licensed s (tk_lic t + 2) then Inl LicenceRefused
      else andThen (stored (insert_row outbox_clash (pendingEvent e (e_ids e (tk_id t + 2)) tenant event ''PLATFORM_NOTIFICATION''
              ''SETTLEMENT_RECEIVABLE_OVERDUE'' ''receivable'' (rm_case r)
              (reminderPayload e release event ''SETTLEMENT_RECEIVABLE_OVERDUE'' (rm_priority r) overdueTitle content
                 ''/settlement/dunning'' ''RECEIVABLE'' (rm_receivable r) (rm_recipient r))) (outbox_events d1))) (\<lambda>os.
      Inr (tick 3 3 t, d1\<lparr>outbox_events := os\<rparr>)))))"

section \<open>Opening cases\<close>

text \<open>\<open>activeCaseConflict\<close>: an active case on the same receivable or the same plan that is not the case of the given policy.\<close>

definition planOfReceivable :: "db \<Rightarrow> string \<Rightarrow> string \<Rightarrow> string option" where
  "planOfReceivable d tenant rid = map_option rv_plan (find (\<lambda>v. rv_tenant v = tenant \<and> rv_id v = rid \<and> rv_plan v \<noteq> []) (receivables d))"

definition conflicting :: "db \<Rightarrow> string \<Rightarrow> string \<Rightarrow> string \<Rightarrow> string \<Rightarrow> int \<Rightarrow> dunning_case \<Rightarrow> bool" where
  "conflicting d tenant rid pid policy version c \<longleftrightarrow> dc_tenant c = tenant \<and> dc_status c = CASE_ACTIVE \<and>
     (pid \<noteq> '''' \<and> dc_plan c = Some pid \<or>
      rid \<noteq> '''' \<and> dc_receivable c = Some rid \<or>
      rid \<noteq> '''' \<and> pid = '''' \<and> sameValue (dc_plan c) (planOfReceivable d tenant rid)) \<and>
     \<not> (dc_policy c = policy \<and> dc_policy_version c = version \<and> (case dc_plan c of None \<Rightarrow> '''' | Some x \<Rightarrow> x) = pid)"

definition activeCaseConflict :: "db \<Rightarrow> string \<Rightarrow> string \<Rightarrow> string \<Rightarrow> string \<Rightarrow> int \<Rightarrow> string" where
  "activeCaseConflict d tenant rid0 pid0 policy version =
     (let rid = trimSpace rid0; pid = trimSpace pid0 in
      if rid = '''' \<and> pid = '''' then ''''
      else case find (conflicting d tenant rid pid policy version) (dunning_cases d) of None \<Rightarrow> '''' | Some c \<Rightarrow> dc_id c)"

record candidate =
  ca_tenant :: string
  ca_receivable :: string
  ca_plan :: string
  ca_number :: string
  ca_customer :: string
  ca_policy :: string
  ca_action :: string
  ca_rule :: string
  ca_channel :: string
  ca_priority :: string
  ca_version :: int
  ca_repeat :: int
  ca_aging :: int

definition policyBefore :: "dunning_policy \<Rightarrow> dunning_policy \<Rightarrow> bool" where
  "policyBefore p q \<longleftrightarrow> dp_from q < dp_from p \<or> dp_from p = dp_from q \<and> strLess (dp_id p) (dp_id q)"

definition policyFor :: "env \<Rightarrow> db \<Rightarrow> receivable \<Rightarrow> dunning_policy option" where
  "policyFor e d v = best policyBefore (filter (\<lambda>p. dp_tenant p = rv_tenant v \<and> scannedPolicy p \<and>
     dp_from p \<le> agingOf e (rv_due v) \<and> agingOf e (rv_due v) \<le> dp_to p) (dunning_policies (sides d)))"

definition candidateOf :: "env \<Rightarrow> contract_snapshot \<Rightarrow> dunning_policy \<Rightarrow> receivable \<Rightarrow> candidate" where
  "candidateOf e cs p v = \<lparr>ca_tenant = rv_tenant v, ca_receivable = rv_id v, ca_plan = rv_plan v, ca_number = rv_no v,
     ca_customer = cs_customer_name cs, ca_policy = dp_id p, ca_action = dp_action p, ca_rule = dp_recipient p, ca_channel = dp_channel p,
     ca_priority = dp_priority p, ca_version = dp_version p, ca_repeat = dp_repeat p, ca_aging = agingOf e (rv_due v)\<rparr>"

definition candidateFor :: "env \<Rightarrow> db \<Rightarrow> receivable \<Rightarrow> candidate option" where
  "candidateFor e d v =
     (case (find (\<lambda>cs. cs_id cs = rv_snapshot v \<and> cs_tenant cs = rv_tenant v) (snapshots d), policyFor e d v) of
        (Some cs, Some p) \<Rightarrow>
          if overdue e v \<and> cs_migration cs = RELEASED \<and>
             \<not> exists_row (\<lambda>c. dc_receivable c = Some (rv_id v) \<and> dc_tenant c = rv_tenant v \<and> dc_policy c = dp_id p \<and>
                 dc_policy_version c = dp_version p) (dunning_cases d)
          then Some (candidateOf e cs p v) else None
      | _ \<Rightarrow> None)"

definition earlierDue :: "receivable \<Rightarrow> receivable \<Rightarrow> bool" where
  "earlierDue a b \<longleftrightarrow> dayOf (rv_due a) < dayOf (rv_due b) \<or> dayOf (rv_due a) = dayOf (rv_due b) \<and> strLess (rv_id a) (rv_id b)"

definition initialCandidates :: "env \<Rightarrow> nat \<Rightarrow> db \<Rightarrow> candidate list" where
  "initialCandidates e limit d =
     take limit (map (\<lambda>v. the (candidateFor e d v)) (orderBy earlierDue (filter (\<lambda>v. candidateFor e d v \<noteq> None) (receivables d))))"

definition atLeastOne :: "int \<Rightarrow> int" where
  "atLeastOne n = (if n \<le> 0 then 1 else n)"

definition newCase :: "env \<Rightarrow> string \<Rightarrow> candidate \<Rightarrow> dunning_case" where
  "newCase e cid c = \<lparr>dc_id = cid, dc_tenant = ca_tenant c, dc_receivable = Some (ca_receivable c), dc_plan = None, dc_policy = ca_policy c,
     dc_policy_version = ca_version c, dc_level = 1, dc_status = CASE_ACTIVE, dc_next = e_now e + days (atLeastOne (ca_repeat c)),
     dc_last = Some (e_now e), dc_closed_reason = '''', dc_updated = e_now e\<rparr>"

definition firstReminder :: "string \<Rightarrow> string \<Rightarrow> candidate \<Rightarrow> reminder" where
  "firstReminder cid recipient c = \<lparr>rm_tenant = ca_tenant c, rm_case = cid, rm_receivable = ca_receivable c, rm_action = ca_action c,
     rm_recipient = recipient, rm_channel = ca_channel c, rm_priority = ca_priority c, rm_number = ca_number c,
     rm_customer = ca_customer c, rm_aging = ca_aging c\<rparr>"

text \<open>\<open>INSERT IGNORE ... SELECT\<close>: no row when the receivable is settled meanwhile or a unique key refuses it.\<close>

definition insertCase :: "env \<Rightarrow> string \<Rightarrow> candidate \<Rightarrow> db \<Rightarrow> dunning_case list option" where
  "insertCase e cid c d =
     (if \<not> exists_row (\<lambda>v. rv_id v = ca_receivable c \<and> rv_tenant v = ca_tenant c \<and> overdue e v) (receivables d) then None
      else case insert_row case_clash (newCase e cid c) (dunning_cases d) of Inl _ \<Rightarrow> None | Inr t \<Rightarrow> Some t)"

definition createInitial :: "Scanner \<Rightarrow> env \<Rightarrow> ticks \<Rightarrow> candidate \<Rightarrow> string \<Rightarrow> db \<Rightarrow> scan_err + (ticks \<times> db)" where
  "createInitial s e t c recipient d =
     (let cid = e_ids e (tk_id t); event = e_ids e (tk_id t + 1) in
      if \<not> licensed s (tk_lic t) \<or> \<not> licensed s (tk_lic t + 1) then Inl LicenceRefused
      else if activeCaseConflict d (ca_tenant c) (ca_receivable c) (ca_plan c) (ca_policy c) (ca_version c) \<noteq> '''' then Inr (tick 2 2 t, d)
      else case insertCase e cid c d of
        None \<Rightarrow> Inr (tick 2 2 t, d)
      | Some cases \<Rightarrow>
          andThen (insertAction s e (tick 2 2 t) event (firstReminder cid recipient c) (d\<lparr>dunning_cases := cases\<rparr>)) (\<lambda>(t1, d1).
          if \<not> licensed s (tk_lic t1) then Inl LicenceRefused else Inr (tick 0 1 t1, d1)))"

definition eligible :: "Scanner \<Rightarrow> string \<Rightarrow> bool option" where
  "eligible s user = (case sc_directory s of None \<Rightarrow> Some True | Some f \<Rightarrow> f user)"

definition frozen :: "db \<Rightarrow> string \<Rightarrow> string \<Rightarrow> bool" where
  "frozen d tenant user = exists_row (\<lambda>f. hf_tenant f = tenant \<and> hf_user f = user \<and> hf_frozen f) (handover_freezes (sides d))"

text \<open>Each candidate is its own transaction; an error ends the pass and keeps what was committed.\<close>

fun openCases :: "Scanner \<Rightarrow> env \<Rightarrow> ticks \<Rightarrow> candidate list \<Rightarrow> db \<Rightarrow> scan_err option \<times> ticks \<times> db" where
  "openCases s e t [] d = (None, t, d)"
| "openCases s e t (c # cs) d =
     (case recipientUser (ca_rule c) of
        Inl err \<Rightarrow> (Some err, t, d)
      | Inr recipient \<Rightarrow>
          if eligible s recipient \<noteq> Some True \<or> frozen d (ca_tenant c) recipient then openCases s e t cs d
          else case createInitial s e t c recipient d of
            Inl err \<Rightarrow> (Some err, t, d)
          | Inr (t1, d1) \<Rightarrow> openCases s e t1 cs d1)"

definition createInitialCases :: "Scanner \<Rightarrow> env \<Rightarrow> ticks \<Rightarrow> nat \<Rightarrow> db \<Rightarrow> scan_err option \<times> ticks \<times> db" where
  "createInitialCases s e t limit d = openCases s e t (initialCandidates e limit d) d"

section \<open>Repeated actions\<close>

record dueCase =
  du_tenant :: string
  du_case :: string
  du_receivable :: string
  du_number :: string
  du_customer :: string
  du_action :: string
  du_recipient :: string
  du_channel :: string
  du_priority :: string
  du_repeat :: int
  du_aging :: int

definition laterAction :: "dunning_action \<Rightarrow> dunning_action \<Rightarrow> bool" where
  "laterAction a b \<longleftrightarrow> da_created b < da_created a \<or> da_created a = da_created b \<and> strLess (da_id b) (da_id a)"

definition lastRecipient :: "db \<Rightarrow> dunning_case \<Rightarrow> dunning_policy \<Rightarrow> string" where
  "lastRecipient d c p =
     (case best laterAction (filter (\<lambda>a. da_tenant a = dc_tenant c \<and> da_case a = dc_id c \<and>
            (da_status a = ACTION_PENDING \<or> da_status a = ACTION_COMPLETED)) (dunning_actions (sides d))) of
        None \<Rightarrow> dp_recipient p | Some a \<Rightarrow> da_recipient a)"

definition dueOfCase :: "env \<Rightarrow> db \<Rightarrow> dunning_case \<Rightarrow> dueCase option" where
  "dueOfCase e d c =
     (case receivableOfCase d c of None \<Rightarrow> None
      | Some v \<Rightarrow>
         (case (find (\<lambda>cs. cs_id cs = rv_snapshot v \<and> cs_tenant cs = rv_tenant v) (snapshots d), policyOf d c) of
            (Some cs, Some p) \<Rightarrow>
              if scannedPolicy p \<and> cs_migration cs = RELEASED \<and> dc_status c = CASE_ACTIVE \<and> rv_open v > 0 \<and> dc_next c \<le> e_now e
              then Some \<lparr>du_tenant = dc_tenant c, du_case = dc_id c, du_receivable = rv_id v, du_number = rv_no v,
                du_customer = cs_customer_name cs, du_action = dp_action p, du_recipient = lastRecipient d c p,
                du_channel = dp_channel p, du_priority = dp_priority p, du_repeat = dp_repeat p, du_aging = agingOf e (rv_due v)\<rparr>
              else None
          | _ \<Rightarrow> None))"

definition earlierCase :: "dunning_case \<Rightarrow> dunning_case \<Rightarrow> bool" where
  "earlierCase a b \<longleftrightarrow> dc_next a < dc_next b \<or> dc_next a = dc_next b \<and> strLess (dc_id a) (dc_id b)"

definition dueCases :: "env \<Rightarrow> nat \<Rightarrow> db \<Rightarrow> dueCase list" where
  "dueCases e limit d =
     take limit (map (\<lambda>c. the (dueOfCase e d c)) (orderBy earlierCase (filter (\<lambda>c. dueOfCase e d c \<noteq> None) (dunning_cases d))))"

definition repeatReminder :: "string \<Rightarrow> dueCase \<Rightarrow> reminder" where
  "repeatReminder recipient x = \<lparr>rm_tenant = du_tenant x, rm_case = du_case x, rm_receivable = du_receivable x, rm_action = du_action x,
     rm_recipient = recipient, rm_channel = du_channel x, rm_priority = du_priority x, rm_number = du_number x,
     rm_customer = du_customer x, rm_aging = du_aging x\<rparr>"

definition advanceCase :: "env \<Rightarrow> dueCase \<Rightarrow> db \<Rightarrow> db" where
  "advanceCase e x d = d\<lparr>dunning_cases := update_rows (\<lambda>c. dc_tenant c = du_tenant x \<and> dc_id c = du_case x \<and> dc_status c = CASE_ACTIVE)
     (\<lambda>c. c\<lparr>dc_level := min (dc_level c + 1) 5, dc_next := e_now e + days (atLeastOne (du_repeat x)), dc_last := Some (e_now e),
           dc_updated := e_now e\<rparr>) (dunning_cases d)\<rparr>"

definition createRepeat :: "Scanner \<Rightarrow> env \<Rightarrow> ticks \<Rightarrow> dueCase \<Rightarrow> string \<Rightarrow> db \<Rightarrow> scan_err + (ticks \<times> db)" where
  "createRepeat s e t x recipient d =
     (if \<not> licensed s (tk_lic t) then Inl LicenceRefused
      else case find (\<lambda>c. dc_tenant c = du_tenant x \<and> dc_id c = du_case x) (dunning_cases d) of
        None \<Rightarrow> Inl (StoreFailed SqlNoRows)
      | Some c \<Rightarrow>
          if dc_status c \<noteq> CASE_ACTIVE \<or> dc_next c > e_now e then Inr (tick 0 1 t, d)
          else andThen (insertAction s e (tick 1 1 t) (e_ids e (tk_id t)) (repeatReminder recipient x) d) (\<lambda>(t1, d1).
          if \<not> licensed s (tk_lic t1) \<or> \<not> licensed s (tk_lic t1 + 1) then Inl LicenceRefused
          else Inr (tick 0 2 t1, advanceCase e x d1)))"

definition deferCase :: "env \<Rightarrow> dueCase \<Rightarrow> db \<Rightarrow> db" where
  "deferCase e x d = d\<lparr>dunning_cases := update_rows (\<lambda>c. dc_tenant c = du_tenant x \<and> dc_id c = du_case x \<and> dc_status c = CASE_ACTIVE)
     (\<lambda>c. c\<lparr>dc_next := e_now e + 3600000, dc_updated := e_now e\<rparr>) (dunning_cases d)\<rparr>"

fun repeatCases :: "Scanner \<Rightarrow> env \<Rightarrow> ticks \<Rightarrow> dueCase list \<Rightarrow> db \<Rightarrow> scan_err option \<times> ticks \<times> db" where
  "repeatCases s e t [] d = (None, t, d)"
| "repeatCases s e t (x # xs) d =
     (case storedRecipient (du_recipient x) of
        Inl err \<Rightarrow> (Some err, t, d)
      | Inr recipient \<Rightarrow>
          if eligible s recipient \<noteq> Some True \<or> frozen d (du_tenant x) recipient
          then (if \<not> licensed s (tk_lic t) then (Some LicenceRefused, t, d) else repeatCases s e (tick 0 1 t) xs (deferCase e x d))
          else case createRepeat s e t x recipient d of
            Inl err \<Rightarrow> (Some err, t, d)
          | Inr (t1, d1) \<Rightarrow> repeatCases s e t1 xs d1)"

definition runDueCases :: "Scanner \<Rightarrow> env \<Rightarrow> ticks \<Rightarrow> nat \<Rightarrow> db \<Rightarrow> scan_err option \<times> ticks \<times> db" where
  "runDueCases s e t limit d = repeatCases s e t (dueCases e limit d) d"

section \<open>One pass\<close>

definition scanBatch :: "Scanner \<Rightarrow> nat" where
  "scanBatch s = (if sc_batch s < 1 \<or> sc_batch s > 200 then 50 else nat (sc_batch s))"

definition ScanOnce :: "Scanner \<Rightarrow> env \<Rightarrow> db \<Rightarrow> scan_err option \<times> db" where
  "ScanOnce s e d =
     (if \<not> licensed s 0 then (Some LicenceRefused, d)
      else case closeSettled s e 1 d of
        (Some err, d1) \<Rightarrow> (Some err, d1)
      | (None, d1) \<Rightarrow>
     (case reopenSettled s e 3 d1 of
        (Some err, d2) \<Rightarrow> (Some err, d2)
      | (None, d2) \<Rightarrow>
     (case createInitialCases s e \<lparr>tk_id = 0, tk_lic = 4\<rparr> (scanBatch s) d2 of
        (Some err, _, d3) \<Rightarrow> (Some err, d3)
      | (None, t, d3) \<Rightarrow> (case runDueCases s e t (scanBatch s) d3 of (r, _, d4) \<Rightarrow> (r, d4)))))"

end
