(* ===== verification/RoleReminder.thy ===== *)
theory RoleReminder
  imports Dunning
begin

text \<open>
  Reminders to the person responsible for a contract (internal/dunning/role\_reminder.go, role\_reminder\_rules.go). A
  pass picks plans that are due soon, overdue or still to be confirmed, re-reads each of them in a transaction of its own,
  and writes the case, the action, the notification and the audit rows together with a cursor that says when the
  same plan is looked at again. What fails is put off and reported; the other candidates go on.
\<close>

section \<open>Rules and phases\<close>

record ReminderRules =
  ru_lead :: int
  ru_repeat :: int
  ru_escalation :: int

definition ReminderRulesOf :: "string \<Rightarrow> db \<Rightarrow> ReminderRules res" where
  "ReminderRulesOf tenant d = andThen (loadSettlementSettings tenant d) (\<lambda>i.
     Inr \<lparr>ru_lead = ReminderLeadDays i, ru_repeat = RepeatDays i, ru_escalation = EscalationDays i\<rparr>)"

definition reminderPhase :: "int \<Rightarrow> bool \<Rightarrow> ReminderRules \<Rightarrow> string" where
  "reminderPhase aging pending rules =
     (if aging < - ru_lead rules then ''''
      else if pending \<and> aging \<le> 0 then ''PLAN_CONFIRMATION''
      else if aging \<ge> ru_escalation rules then ''ESCALATED''
      else if aging \<ge> 1 then ''OVERDUE''
      else ''DUE_SOON'')"

text \<open>The phase that the query computes to find the cursor of a plan.\<close>

definition queryPhase :: "int \<Rightarrow> bool \<Rightarrow> ReminderRules \<Rightarrow> string" where
  "queryPhase aging pending rules =
     (if aging \<ge> ru_escalation rules then ''ESCALATED''
      else if aging > 0 then ''OVERDUE''
      else if pending then ''PLAN_CONFIRMATION''
      else ''DUE_SOON'')"

section \<open>Candidates\<close>

record RoleReminderWorker =
  rw_tenant :: string
  rw_contains :: "string \<Rightarrow> string \<Rightarrow> bool option"
  rw_list :: "string \<Rightarrow> (string list \<times> int) option"
  rw_licence :: "(nat \<Rightarrow> bool) option"
  rw_batch :: int

definition allowedBy :: "RoleReminderWorker \<Rightarrow> nat \<Rightarrow> bool" where
  "allowedBy w l = (case rw_licence w of None \<Rightarrow> True | Some f \<Rightarrow> f l)"

record roleReminderCandidate =
  rr_plan :: string
  rr_snapshot :: string
  rr_receivable :: string
  rr_owner :: string
  rr_number :: string
  rr_customer :: string
  rr_aging :: int
  rr_pending :: bool

definition snapshotOfPlan :: "db \<Rightarrow> receivable_plan \<Rightarrow> contract_snapshot option" where
  "snapshotOfPlan d rp = find (\<lambda>cs. cs_id cs = rp_snapshot rp \<and> cs_tenant cs = rp_tenant rp) (snapshots d)"

definition ownerOfSnapshot :: "db \<Rightarrow> contract_snapshot \<Rightarrow> string option" where
  "ownerOfSnapshot d cs =
     map_option rs_owner (find (\<lambda>r. rs_tenant r = cs_tenant cs \<and> cs_contract cs = Some (rs_contract r) \<and> rs_active r) (responsibilities d))"

definition receivableOfPlan :: "db \<Rightarrow> receivable_plan \<Rightarrow> receivable option" where
  "receivableOfPlan d rp = find (\<lambda>v. rv_plan v = rp_id rp \<and> rv_tenant v = rp_tenant rp) (receivables d)"

definition cursor_is :: "string \<Rightarrow> string \<Rightarrow> string \<Rightarrow> reminder_cursor \<Rightarrow> bool" where
  "cursor_is tenant plan phase k \<longleftrightarrow> rk_tenant k = tenant \<and> rk_plan k = plan \<and> rk_phase k = phase"

definition cursorOf :: "db \<Rightarrow> string \<Rightarrow> string \<Rightarrow> string \<Rightarrow> reminder_cursor option" where
  "cursorOf d tenant plan phase = find (cursor_is tenant plan phase) (reminder_cursors (sides d))"

definition planPending :: "receivable_plan \<Rightarrow> bool" where
  "planPending rp \<longleftrightarrow> rp_status rp \<noteq> CONFIRMED"

definition roleCandidate :: "RoleReminderWorker \<Rightarrow> env \<Rightarrow> ReminderRules \<Rightarrow> db \<Rightarrow> receivable_plan \<Rightarrow> roleReminderCandidate option" where
  "roleCandidate w e rules d rp =
     (case snapshotOfPlan d rp of None \<Rightarrow> None
      | Some cs \<Rightarrow>
     (case ownerOfSnapshot d cs of None \<Rightarrow> None
      | Some owner \<Rightarrow>
         let v = receivableOfPlan d rp; aging = agingOf e (rp_due rp);
             rc = cursorOf d (rp_tenant rp) (rp_id rp) (queryPhase aging (planPending rp) rules)
         in if rp_tenant rp = rw_tenant w \<and> cs_status cs = EFFECTIVE \<and> cs_migration cs = RELEASED \<and> aging \<ge> - ru_lead rules \<and>
               rp_amount rp > 0 \<and> (case v of None \<Rightarrow> True | Some x \<Rightarrow> rv_open x > 0) \<and>
               (case rc of None \<Rightarrow> True | Some k \<Rightarrow> rk_next k \<le> e_now e \<or> rk_owner k \<noteq> owner) \<and>
               \<not> frozen d (rp_tenant rp) owner
            then Some \<lparr>rr_plan = rp_id rp, rr_snapshot = cs_id cs, rr_receivable = (case v of None \<Rightarrow> '''' | Some x \<Rightarrow> rv_id x), rr_owner = owner,
                   rr_number = (case v of None \<Rightarrow> ''PLAN-'' @ showInt (rp_installment rp) | Some x \<Rightarrow> rv_no x),
                   rr_customer = cs_customer_name cs, rr_aging = aging, rr_pending = planPending rp\<rparr>
            else None))"

text \<open>A plan without a cursor comes first.\<close>

definition cursorNext :: "env \<Rightarrow> ReminderRules \<Rightarrow> db \<Rightarrow> receivable_plan \<Rightarrow> int option" where
  "cursorNext e rules d rp = map_option rk_next
     (cursorOf d (rp_tenant rp) (rp_id rp) (queryPhase (agingOf e (rp_due rp)) (planPending rp) rules))"

definition nextBefore :: "int option \<Rightarrow> int option \<Rightarrow> bool" where
  "nextBefore a b = (case (a, b) of (None, Some _) \<Rightarrow> True | (Some x, Some y) \<Rightarrow> x < y | _ \<Rightarrow> False)"

definition planBefore :: "env \<Rightarrow> ReminderRules \<Rightarrow> db \<Rightarrow> receivable_plan \<Rightarrow> receivable_plan \<Rightarrow> bool" where
  "planBefore e rules d a b \<longleftrightarrow> nextBefore (cursorNext e rules d a) (cursorNext e rules d b) \<or>
     cursorNext e rules d a = cursorNext e rules d b \<and>
       (dayOf (rp_due a) < dayOf (rp_due b) \<or> dayOf (rp_due a) = dayOf (rp_due b) \<and> strLess (rp_id a) (rp_id b))"

definition roleCandidates :: "RoleReminderWorker \<Rightarrow> env \<Rightarrow> ReminderRules \<Rightarrow> nat \<Rightarrow> db \<Rightarrow> roleReminderCandidate list" where
  "roleCandidates w e rules limit d =
     take limit (map (\<lambda>rp. the (roleCandidate w e rules d rp))
       (orderBy (planBefore e rules d) (filter (\<lambda>rp. roleCandidate w e rules d rp \<noteq> None) (plans d))))"

section \<open>What is over\<close>

definition ownerPolicyCase :: "db \<Rightarrow> dunning_case \<Rightarrow> bool" where
  "ownerPolicyCase d c = exists_row (\<lambda>p. dp_id p = dc_policy c \<and> dp_tenant p = dc_tenant c \<and> dp_recipient p = ''CONTRACT_OWNER'')
     (dunning_policies (sides d))"

definition planOfCase :: "db \<Rightarrow> dunning_case \<Rightarrow> receivable_plan option" where
  "planOfCase d c = find (\<lambda>rp. dc_plan c = Some (rp_id rp) \<and> rp_tenant rp = dc_tenant c) (plans d)"

definition planSettled :: "db \<Rightarrow> receivable_plan \<Rightarrow> bool" where
  "planSettled d rp = (case receivableOfPlan d rp of None \<Rightarrow> False | Some v \<Rightarrow> rv_open v = 0)"

definition sourceGone :: "db \<Rightarrow> receivable_plan \<Rightarrow> (string option \<Rightarrow> bool) \<Rightarrow> bool" where
  "sourceGone d rp beyond =
     (case snapshotOfPlan d rp of None \<Rightarrow> False
      | Some cs \<Rightarrow> planSettled d rp \<or> ownerOfSnapshot d cs = None \<or> beyond (ownerOfSnapshot d cs))"

definition actionOver :: "RoleReminderWorker \<Rightarrow> db \<Rightarrow> dunning_action \<Rightarrow> bool" where
  "actionOver w d a \<longleftrightarrow> da_tenant a = rw_tenant w \<and> da_status a = ACTION_PENDING \<and>
     exists_row (\<lambda>c. dc_id c = da_case a \<and> dc_tenant c = da_tenant a \<and> ownerPolicyCase d c \<and>
       (case planOfCase d c of None \<Rightarrow> False
        | Some rp \<Rightarrow> sourceGone d rp (\<lambda>o'.
            da_action a \<in> {''PLAN_CONFIRMATION'', ''DUE_SOON'', ''OVERDUE''} \<and> o' \<noteq> None \<and> o' \<noteq> Some (da_recipient a) \<or>
            da_action a = ''PLAN_CONFIRMATION'' \<and> rp_status rp = CONFIRMED))) (dunning_cases d)"

definition caseOver :: "RoleReminderWorker \<Rightarrow> db \<Rightarrow> dunning_case \<Rightarrow> bool" where
  "caseOver w d c \<longleftrightarrow> dc_tenant c = rw_tenant w \<and> dc_status c = CASE_ACTIVE \<and> ownerPolicyCase d c \<and>
     (case planOfCase d c of None \<Rightarrow> False | Some rp \<Rightarrow> sourceGone d rp (\<lambda>_. False))"

text \<open>At most a hundred rows per statement, taken here in the order of the table.\<close>

definition closeRoleActions :: "RoleReminderWorker \<Rightarrow> env \<Rightarrow> db \<Rightarrow> db" where
  "closeRoleActions w e d =
     (let gone = map da_id (take 100 (filter (actionOver w d) (dunning_actions (sides d))));
          d1 = set_actions (update_rows (\<lambda>a. da_id a \<in> set gone)
            (\<lambda>a. a\<lparr>da_status := ACTION_CANCELLED, da_result := ''SOURCE_STATE_CHANGED'', da_version := da_version a + 1\<rparr>)
            (dunning_actions (sides d))) d;
          closed = map dc_id (take 100 (filter (caseOver w d1) (dunning_cases d1)))
      in d1\<lparr>dunning_cases := update_rows (\<lambda>c. dc_id c \<in> set closed)
           (\<lambda>c. c\<lparr>dc_status := CASE_CLOSED, dc_closed_reason := ''SOURCE_STATE_CHANGED'', dc_updated := e_now e\<rparr>) (dunning_cases d1)\<rparr>)"

fun distinctUsers :: "string list \<Rightarrow> string list \<Rightarrow> string list" where
  "distinctUsers seen [] = []"
| "distinctUsers seen (u # us) =
     (if u \<noteq> '''' \<and> u \<notin> set seen then u # distinctUsers (u # seen) us else distinctUsers seen us)"

definition listRole :: "RoleReminderWorker \<Rightarrow> string \<Rightarrow> scan_err + string list" where
  "listRole w role = (case rw_list w role of None \<Rightarrow> Inl DirectoryFailed
     | Some (users, tot) \<Rightarrow> if tot > 100 \<or> int (length users) \<noteq> tot then Inl DirectoryTooLarge else Inr users)"

definition escalationRecipients :: "RoleReminderWorker \<Rightarrow> scan_err + string list" where
  "escalationRecipients w =
     andThen (listRole w ''settlement_finance_manager'') (\<lambda>a.
     andThen (listRole w ''settlement_management'') (\<lambda>b.
     Inr (distinctUsers [] (a @ b))))"

section \<open>Cursors\<close>

definition set_cursors :: "reminder_cursor list \<Rightarrow> db \<Rightarrow> db" where
  "set_cursors t d = d\<lparr>sides := (sides d)\<lparr>reminder_cursors := t\<rparr>\<rparr>"

text \<open>\<open>INSERT ... ON DUPLICATE KEY UPDATE\<close>: \<open>f\<close> is the next time that replaces that of a present cursor.\<close>

definition putCursor :: "string \<Rightarrow> string \<Rightarrow> string \<Rightarrow> string \<Rightarrow> int \<Rightarrow> (reminder_cursor \<Rightarrow> int) \<Rightarrow> db \<Rightarrow> db" where
  "putCursor tenant plan phase owner next f d =
     (if exists_row (cursor_is tenant plan phase) (reminder_cursors (sides d))
      then set_cursors (update_rows (cursor_is tenant plan phase) (\<lambda>k. k\<lparr>rk_next := f k, rk_owner := owner\<rparr>) (reminder_cursors (sides d))) d
      else set_cursors (reminder_cursors (sides d) @
        [\<lparr>rk_tenant = tenant, rk_plan = plan, rk_phase = phase, rk_owner = owner, rk_next = next\<rparr>]) d)"

text \<open>What the transaction of a candidate reads again: owner, age, whether the plan is pending and whether it is settled.\<close>

definition rereadPlan :: "RoleReminderWorker \<Rightarrow> env \<Rightarrow> (contract_snapshot \<Rightarrow> bool) \<Rightarrow> string \<Rightarrow> db \<Rightarrow> (string \<times> int \<times> bool \<times> bool) option" where
  "rereadPlan w e ok pid d =
     (case find (\<lambda>rp. rp_tenant rp = rw_tenant w \<and> rp_id rp = pid) (plans d) of None \<Rightarrow> None
      | Some rp \<Rightarrow> (case snapshotOfPlan d rp of None \<Rightarrow> None
      | Some cs \<Rightarrow> (case ownerOfSnapshot d cs of None \<Rightarrow> None
      | Some owner \<Rightarrow> if ok cs then Some (owner, agingOf e (rp_due rp), planPending rp, planSettled d rp) else None)))"

definition deferCandidate :: "RoleReminderWorker \<Rightarrow> env \<Rightarrow> nat \<Rightarrow> roleReminderCandidate \<Rightarrow> ReminderRules \<Rightarrow> db \<Rightarrow> scan_err + db" where
  "deferCandidate w e l c rules d =
     (if \<not> allowedBy w l then Inl LicenceRefused
      else case rereadPlan w e (\<lambda>_. True) (rr_plan c) d of
        None \<Rightarrow> Inr d
      | Some (owner, aging, pending, _) \<Rightarrow>
          let phase = reminderPhase aging pending rules; next = e_now e + 300000 in
          if owner \<noteq> rr_owner c \<or> phase = '''' \<or> phase \<noteq> reminderPhase (rr_aging c) (rr_pending c) rules then Inr d
          else if \<not> allowedBy w (l + 1) then Inl LicenceRefused
          else Inr (putCursor (rw_tenant w) (rr_plan c) phase owner next (\<lambda>k. if rk_owner k = owner then max (rk_next k) next else next) d))"

definition deferOverlap ::
  "RoleReminderWorker \<Rightarrow> env \<Rightarrow> nat \<Rightarrow> nat \<Rightarrow> roleReminderCandidate \<Rightarrow> string \<Rightarrow> string \<Rightarrow> db \<Rightarrow> scan_err + (nat \<times> db)" where
  "deferOverlap w e i l c phase owner d =
     (let next = e_now e + days 1 in
      if \<not> allowedBy w l then Inl LicenceRefused
      else Inr (i, putCursor (rw_tenant w) (rr_plan c) phase owner next (\<lambda>k. max (rk_next k) next) d))"

section \<open>Writing a reminder\<close>

text \<open>More texts as UTF-8 bytes.\<close>

definition ownerPolicyName :: string where
  "ownerPolicyName =
     [CHR 0xE7, CHR 0xB3, CHR 0xBB, CHR 0xE7, CHR 0xBB, CHR 0x9F, CHR 0xE5, CHR 0x90, CHR 0x88, CHR 0xE5, CHR 0x90, CHR 0x8C,
     CHR 0xE8, CHR 0xB4, CHR 0x9F, CHR 0xE8, CHR 0xB4, CHR 0xA3, CHR 0xE4, CHR 0xBA, CHR 0xBA, CHR 0xE6, CHR 0x8F, CHR 0x90,
     CHR 0xE9, CHR 0x86, CHR 0x92]"

definition reminderTitle :: string where
  "reminderTitle =
     [CHR 0xE5, CHR 0x90, CHR 0x88, CHR 0xE5, CHR 0x90, CHR 0x8C, CHR 0xE5, CHR 0x9B, CHR 0x9E, CHR 0xE6, CHR 0xAC, CHR 0xBE,
     CHR 0xE8, CHR 0xAE, CHR 0xA1, CHR 0xE5, CHR 0x88, CHR 0x92, CHR 0xE6, CHR 0x8F, CHR 0x90, CHR 0xE9, CHR 0x86, CHR 0x92]"

definition escalationTitle :: string where
  "escalationTitle =
     [CHR 0xE5, CHR 0x90, CHR 0x88, CHR 0xE5, CHR 0x90, CHR 0x8C, CHR 0xE5, CHR 0x9B, CHR 0x9E, CHR 0xE6, CHR 0xAC, CHR 0xBE,
     CHR 0xE9, CHR 0x80, CHR 0xBE, CHR 0xE6, CHR 0x9C, CHR 0x9F, CHR 0xE5, CHR 0x8D, CHR 0x87, CHR 0xE7, CHR 0xBA, CHR 0xA7]"

definition reminderComma :: string where
  "reminderComma =
     [CHR 0xEF, CHR 0xBC, CHR 0x8C]"

definition reminderPhaseText :: string where
  "reminderPhaseText =
     [CHR 0xEF, CHR 0xBC, CHR 0x9A, CHR 0xE9, CHR 0x98, CHR 0xB6, CHR 0xE6, CHR 0xAE, CHR 0xB5]"

definition reminderDays :: string where
  "reminderDays =
     [CHR 0xEF, CHR 0xBC, CHR 0x8C, CHR 0xE8, CHR 0xB7, CHR 0x9D, CHR 0xE5, CHR 0x88, CHR 0xB0, CHR 0xE6, CHR 0x9C, CHR 0x9F,
     CHR 0xE5, CHR 0xA4, CHR 0xA9, CHR 0xE6, CHR 0x95, CHR 0xB0]"

definition reminderTail :: string where
  "reminderTail =
     [CHR 0xE3, CHR 0x80, CHR 0x82, CHR 0xE8, CHR 0xAF, CHR 0xB7, CHR 0xE6, CHR 0x89, CHR 0x93, CHR 0xE5, CHR 0xBC, CHR 0x80,
     CHR 0xE7, CHR 0xBB, CHR 0x93, CHR 0xE7, CHR 0xAE, CHR 0x97, CHR 0xE8, CHR 0xB7, CHR 0x9F, CHR 0xE8, CHR 0xBF, CHR 0x9B,
     CHR 0xE5, CHR 0xB9, CHR 0xB6, CHR 0xE8, CHR 0xAE, CHR 0xB0, CHR 0xE5, CHR 0xBD, CHR 0x95, CHR 0xE5, CHR 0xA4, CHR 0x84,
     CHR 0xE7, CHR 0x90, CHR 0x86, CHR 0xE7, CHR 0xBB, CHR 0x93, CHR 0xE6, CHR 0x9E, CHR 0x9C, CHR 0xE3, CHR 0x80, CHR 0x82]"

definition ownerContent :: "roleReminderCandidate \<Rightarrow> string \<Rightarrow> string" where
  "ownerContent c phase = rr_customer c @ reminderComma @ rr_number c @ reminderPhaseText @ phase @ reminderDays @ showInt (- rr_aging c) @ reminderTail"

text \<open>
  The owner gets an action; the people a case is escalated to only get the message. Identifiers are
  counted from \<open>i\<close>; the result says how many were used.
\<close>

definition insertRoleAction ::
  "RoleReminderWorker \<Rightarrow> env \<Rightarrow> nat \<Rightarrow> roleReminderCandidate \<Rightarrow> string \<Rightarrow> string \<Rightarrow> string \<Rightarrow> db \<Rightarrow> scan_err + (nat \<times> db)" where
  "insertRoleAction w e i c cid recipient phase d =
     (case releaseOf d (rw_tenant w) (rr_snapshot c) of
        None \<Rightarrow> Inl (StoreFailed SqlNoRows)
      | Some (state, release) \<Rightarrow>
      if state \<noteq> RELEASED then Inl (StoreFailed SqlNoRows)
      else let tenant = rw_tenant w; event = e_ids e i; own = (recipient = rr_owner c); escalated = (phase = ''ESCALATED'');
               aid = (if own then e_ids e (i + 1) else cid);
               kind = (if own then ''dunning_action'' else ''dunning_case'');
               target = (if own then ''/settlement/dunning'' else ''/settlement'');
               priority = (if escalated then ''HIGH'' else ''NORMAL'');
               title = (if escalated then escalationTitle else reminderTitle);
               content = ownerContent c phase;
               k = (if escalated then i + 4 else i + 3);
               audit = [(''actor_id'', JStr ''system:role-reminder''), (''result'', JStr ''SUCCESS''), (''phase'', JStr phase),
                 (''action_id'', JStr aid), (''recipient_user_id'', JStr recipient)]
      in andThen (if own then stored (insert_row action_clash (newAction e aid tenant cid phase recipient ''LOCAL'' priority event)
                    (dunning_actions (sides d))) else Inr (dunning_actions (sides d))) (\<lambda>as.
         andThen (stored (insert_row notification_clash (newNotification (e_ids e (i + 2)) tenant recipient event priority title content
                    ''RECEIVABLE_PLAN'' (rr_plan c)) (local_notifications (sides d)))) (\<lambda>ns.
         andThen (if escalated then stored (insert_row outbox_clash (pendingEvent e (e_ids e (i + 3)) tenant event ''PLATFORM_NOTIFICATION''
                    ''SETTLEMENT_OWNER_REMINDER'' kind aid (reminderPayload e release event ''SETTLEMENT_OWNER_REMINDER'' priority title content
                       target ''RECEIVABLE_PLAN'' (rr_plan c) recipient)) (outbox_events d)) else Inr (outbox_events d)) (\<lambda>os.
         andThen (stored (insert_row outbox_clash (pendingEvent e (e_ids e k) tenant (e_ids e (k + 1)) ''PLATFORM_AUDIT''
                    ''SETTLEMENT_OWNER_REMINDER_CREATED'' kind aid audit) os)) (\<lambda>os1.
         andThen (stored (insert_row audit_clash \<lparr>au_id = e_ids e (k + 2), au_tenant = tenant, au_actor = ''system:role-reminder'',
                    au_action = ''SETTLEMENT_OWNER_REMINDER_CREATED'', au_resource_type = kind, au_resource = aid, au_result = ''SUCCESS'',
                    au_request = '''', au_detail = audit\<rparr> (audits d))) (\<lambda>aus.
         Inr (k + 3, (set_notifications ns (set_actions as d))\<lparr>outbox_events := os1, audits := aus\<rparr>)))))))"

fun remindAll ::
  "RoleReminderWorker \<Rightarrow> env \<Rightarrow> nat \<Rightarrow> roleReminderCandidate \<Rightarrow> string \<Rightarrow> string list \<Rightarrow> string \<Rightarrow> db \<Rightarrow> scan_err + (nat \<times> db)" where
  "remindAll w e i c cid [] phase d = Inr (i, d)"
| "remindAll w e i c cid (r # rs) phase d =
     (if frozen d (rw_tenant w) r then remindAll w e i c cid rs phase d
      else andThen (insertRoleAction w e i c cid r phase d) (\<lambda>(i1, d1). remindAll w e i1 c cid rs phase d1))"

text \<open>The policy of the owner reminders has an identifier made from the tenant.\<close>

definition ownerPolicyId :: "env \<Rightarrow> string \<Rightarrow> string" where
  "ownerPolicyId e tenant = take 32 (e_sha256 e (JStr (tenant @ '':CONTRACT_OWNER'')))"

definition ownerPolicy :: "env \<Rightarrow> string \<Rightarrow> ReminderRules \<Rightarrow> dunning_policy" where
  "ownerPolicy e tenant rules = \<lparr>dp_id = ownerPolicyId e tenant, dp_tenant = tenant, dp_name = ownerPolicyName, dp_version = 1,
     dp_from = - 36500, dp_to = 36500, dp_action = ''REMIND'', dp_recipient = ''CONTRACT_OWNER'', dp_channel = ''LOCAL'',
     dp_repeat = ru_repeat rules, dp_priority = ''NORMAL'', dp_enabled = True\<rparr>"

definition ensurePolicy :: "env \<Rightarrow> string \<Rightarrow> ReminderRules \<Rightarrow> db \<Rightarrow> db" where
  "ensurePolicy e tenant rules d =
     (case insert_row policy_clash (ownerPolicy e tenant rules) (dunning_policies (sides d)) of Inl _ \<Rightarrow> d | Inr t \<Rightarrow> set_policies t d)"

definition ownerCase :: "env \<Rightarrow> string \<Rightarrow> string \<Rightarrow> roleReminderCandidate \<Rightarrow> dunning_case" where
  "ownerCase e cid tenant c = \<lparr>dc_id = cid, dc_tenant = tenant,
     dc_receivable = (if rr_receivable c = '''' then None else Some (rr_receivable c)), dc_plan = Some (rr_plan c),
     dc_policy = ownerPolicyId e tenant, dc_policy_version = 1, dc_level = 0, dc_status = CASE_ACTIVE, dc_next = e_now e, dc_last = None,
     dc_closed_reason = '''', dc_updated = e_now e\<rparr>"

text \<open>
  The case of the plan under the owner policy: opened again when it is there, inserted otherwise. None is a unique key
  that refuses it; the policy is a foreign key of the case.
\<close>

definition claimOwnerCase :: "RoleReminderWorker \<Rightarrow> env \<Rightarrow> string \<Rightarrow> roleReminderCandidate \<Rightarrow> db \<Rightarrow> scan_err + (string \<times> db) option" where
  "claimOwnerCase w e cid c d =
     (let tenant = rw_tenant w in
      case find (\<lambda>x. dc_tenant x = tenant \<and> dc_plan x = Some (rr_plan c) \<and> dc_policy x = ownerPolicyId e tenant \<and> dc_policy_version x = 1)
           (dunning_cases d) of
        None \<Rightarrow> (case insert_row case_clash (ownerCase e cid tenant c) (dunning_cases d) of
             Inl _ \<Rightarrow> Inr None
           | Inr t \<Rightarrow> if \<not> exists_row (\<lambda>p. dp_id p = ownerPolicyId e tenant) (dunning_policies (sides d)) then Inl (StoreFailed SqlForeignKey)
                     else Inr (Some (cid, d\<lparr>dunning_cases := t\<rparr>)))
      | Some x \<Rightarrow>
          let t = update_rows (\<lambda>y. dc_tenant y = tenant \<and> dc_id y = dc_id x)
                (\<lambda>y. y\<lparr>dc_status := CASE_ACTIVE, dc_receivable := (if rr_receivable c = '''' then None else Some (rr_receivable c)),
                       dc_closed_reason := ''''\<rparr>) (dunning_cases d)
          in Inr (if anyClash case_clash t then None else Some (dc_id x, d\<lparr>dunning_cases := t\<rparr>)))"

definition finishOwnerCase :: "RoleReminderWorker \<Rightarrow> env \<Rightarrow> string \<Rightarrow> int \<Rightarrow> string \<Rightarrow> db \<Rightarrow> db" where
  "finishOwnerCase w e cid n phase d = d\<lparr>dunning_cases := update_rows (\<lambda>x. dc_tenant x = rw_tenant w \<and> dc_id x = cid)
     (\<lambda>x. x\<lparr>dc_next := e_now e + days n, dc_last := Some (e_now e), dc_level := (if phase = ''ESCALATED'' then 2 else 1),
           dc_updated := e_now e\<rparr>) (dunning_cases d)\<rparr>"

definition reminderRecipients :: "RoleReminderWorker \<Rightarrow> roleReminderCandidate \<Rightarrow> string \<Rightarrow> scan_err + string list" where
  "reminderRecipients w c phase =
     (if phase \<noteq> ''ESCALATED'' then Inr [rr_owner c]
      else andThen (escalationRecipients w) (\<lambda>extra. Inr (rr_owner c # filter (\<lambda>u. u \<noteq> rr_owner c) extra)))"

definition writeReminder ::
  "RoleReminderWorker \<Rightarrow> env \<Rightarrow> nat \<Rightarrow> nat \<Rightarrow> roleReminderCandidate \<Rightarrow> ReminderRules \<Rightarrow> string \<Rightarrow> string \<Rightarrow> string list \<Rightarrow> db \<Rightarrow> scan_err + (nat \<times> db)" where
  "writeReminder w e i l c rules phase owner recipients d =
     (let tenant = rw_tenant w in
      if activeCaseConflict d tenant (rr_receivable c) (rr_plan c) (ownerPolicyId e tenant) 1 \<noteq> '''' then deferOverlap w e i l c phase owner d
      else let d1 = ensurePolicy e tenant rules d in
      andThen (claimOwnerCase w e (e_ids e i) c d1) (\<lambda>claim. case claim of
        None \<Rightarrow> deferOverlap w e (i + 1) l c phase owner d1
      | Some (cid, d2) \<Rightarrow>
          andThen (remindAll w e (i + 1) c cid recipients phase d2) (\<lambda>(i1, d3).
          let n = (if phase = ''DUE_SOON'' then ru_lead rules + 1 else ru_repeat rules); next = e_now e + days n in
          if \<not> allowedBy w l then Inl LicenceRefused
          else Inr (i1, putCursor tenant (rr_plan c) phase owner next (\<lambda>_. next) (finishOwnerCase w e cid n phase d3)))))"

text \<open>One candidate: the directory is asked first, then everything is read again in the transaction.\<close>

definition dispatch ::
  "RoleReminderWorker \<Rightarrow> env \<Rightarrow> nat \<Rightarrow> nat \<Rightarrow> roleReminderCandidate \<Rightarrow> ReminderRules \<Rightarrow> db \<Rightarrow> scan_err + (nat \<times> db)" where
  "dispatch w e i l c rules d =
     (case rw_contains w (rr_owner c) ''settlement_sales'' of
        None \<Rightarrow> Inl DirectoryFailed
      | Some False \<Rightarrow> Inl NoSalesRole
      | Some True \<Rightarrow>
      let phase = reminderPhase (rr_aging c) (rr_pending c) rules in
      if phase = '''' then Inr (i, d)
      else andThen (reminderRecipients w c phase) (\<lambda>recipients.
      case rereadPlan w e (\<lambda>cs. cs_status cs = EFFECTIVE \<and> cs_migration cs = RELEASED) (rr_plan c) d of
        None \<Rightarrow> Inr (i, d)
      | Some (owner, aging, pending, settled) \<Rightarrow>
          if owner \<noteq> rr_owner c \<or> settled \<or> reminderPhase aging pending rules \<noteq> phase then Inr (i, d)
          else if frozen d (rw_tenant w) owner then Inr (i, d)
          else if (case cursorOf d (rw_tenant w) (rr_plan c) phase of None \<Rightarrow> False | Some k \<Rightarrow> rk_owner k = owner \<and> rk_next k > e_now e)
            then Inr (i, d)
          else if \<not> allowedBy w l then Inl LicenceRefused
          else writeReminder w e i (l + 1) c rules phase owner recipients d))"

text \<open>A candidate that fails is put off; the errors are collected and the next candidate is taken.\<close>

fun dispatchAll ::
  "RoleReminderWorker \<Rightarrow> env \<Rightarrow> nat \<Rightarrow> nat \<Rightarrow> ReminderRules \<Rightarrow> roleReminderCandidate list \<Rightarrow> db \<Rightarrow> scan_err list \<times> db" where
  "dispatchAll w e i l rules [] d = ([], d)"
| "dispatchAll w e i l rules (c # cs) d =
     (case dispatch w e i l c rules d of
        Inr (i1, d1) \<Rightarrow> dispatchAll w e i1 (l + 4) rules cs d1
      | Inl err \<Rightarrow>
         (case deferCandidate w e (l + 2) c rules d of
            Inr d1 \<Rightarrow> (case dispatchAll w e i (l + 4) rules cs d1 of (errs, d2) \<Rightarrow> (err # errs, d2))
          | Inl err2 \<Rightarrow> (case dispatchAll w e i (l + 4) rules cs d of (errs, d2) \<Rightarrow> (err # err2 # errs, d2))))"

definition remindBatch :: "RoleReminderWorker \<Rightarrow> nat" where
  "remindBatch w = (if rw_batch w < 1 \<or> rw_batch w > 100 then 20 else nat (rw_batch w))"

definition RemindOnce :: "RoleReminderWorker \<Rightarrow> env \<Rightarrow> db \<Rightarrow> scan_err list \<times> db" where
  "RemindOnce w e d =
     (if \<not> allowedBy w 0 then ([LicenceRefused], d)
      else if rw_tenant w = '''' then ([NotConfigured], d)
      else case ReminderRulesOf (rw_tenant w) d of
        Inl err \<Rightarrow> ([StoreFailed err], d)
      | Inr rules \<Rightarrow>
          let d1 = closeRoleActions w e d in dispatchAll w e 0 1 rules (roleCandidates w e rules (remindBatch w) d1) d1)"

end
