(* ===== verification/DunningPasses.thy ===== *)
theory DunningPasses
  imports RoleReminder
begin

text \<open>
  What the passes of the scanner and of the owner reminders are made of. The locale \<open>pass_invariant\<close> asks of an invariant that each
  statement on the cases keeps it; its lemmas carry it through whole passes and through runs that mix the passes with policies,
  feedback and the rest of the service.
\<close>

section \<open>Tables that a statement leaves alone\<close>

lemma sides_frames [simp]:
  "dunning_cases (set_actions t d) = dunning_cases d" "receivables (set_actions t d) = receivables d" "plans (set_actions t d) = plans d"
  "dunning_policies (sides (set_actions t d)) = dunning_policies (sides d)"
  "dunning_cases (set_notifications ns d) = dunning_cases d" "receivables (set_notifications ns d) = receivables d"
  "plans (set_notifications ns d) = plans d" "dunning_policies (sides (set_notifications ns d)) = dunning_policies (sides d)"
  "dunning_cases (set_cursors ks d) = dunning_cases d" "receivables (set_cursors ks d) = receivables d" "plans (set_cursors ks d) = plans d"
  "dunning_policies (sides (set_cursors ks d)) = dunning_policies (sides d)"
  "dunning_cases (set_policies ps d) = dunning_cases d" "receivables (set_policies ps d) = receivables d" "plans (set_policies ps d) = plans d"
  "dunning_policies (sides (set_policies ps d)) = ps"
  by (simp_all add: set_actions_def set_notifications_def set_cursors_def set_policies_def)

lemma insertAction_tables:
  "insertAction s e t event r d = Inr (t', d') \<Longrightarrow> dunning_cases d' = dunning_cases d \<and> receivables d' = receivables d \<and> plans d' = plans d \<and>
     dunning_policies (sides d') = dunning_policies (sides d)"
  by (auto simp: insertAction_def Let_def andThen_eq_Inr split: option.splits if_splits)

lemma insertRoleAction_tables:
  "insertRoleAction w e i c cid recipient phase d = Inr (i', d') \<Longrightarrow> dunning_cases d' = dunning_cases d \<and> receivables d' = receivables d \<and>
     plans d' = plans d \<and> dunning_policies (sides d') = dunning_policies (sides d)"
  by (auto simp: insertRoleAction_def Let_def andThen_eq_Inr split: option.splits if_split_asm)

lemma remindAll_tables:
  "remindAll w e i c cid rs phase d = Inr (i', d') \<Longrightarrow> dunning_cases d' = dunning_cases d \<and> receivables d' = receivables d \<and>
     plans d' = plans d \<and> dunning_policies (sides d') = dunning_policies (sides d)"
  by (induction rs arbitrary: i d) (fastforce simp: andThen_eq_Inr split: if_splits dest: insertRoleAction_tables)+

lemma ensurePolicy_receivables [simp]: "receivables (ensurePolicy e tenant rules d) = receivables d"
  by (simp add: ensurePolicy_def split: sum.split)

lemma claimOwnerCase_receivables: "claimOwnerCase w e cid c d = Inr (Some (k, d')) \<Longrightarrow> receivables d' = receivables d"
  by (auto simp: claimOwnerCase_def Let_def split: option.split_asm sum.split_asm if_split_asm)

lemma outbox_base:
  assumes "outbox e k tenant destination kind aggregateType aggregate body d = Inr d'"
  shows "dunning_cases d' = dunning_cases d" "receivables d' = receivables d" "plans d' = plans d"
    "sides d' = sides d"
  using assms by (auto simp: outbox_def andThen_eq_Inr Let_def split: if_splits)

lemma CreateDunningPolicy_effect:
  assumes "CreateDunningPolicy e p i d = Inr (pid, d')"
  obtains ps where "insert_row policy_clash (newPolicy pid (p_tenant p) i) (dunning_policies (sides d)) = Inr ps"
    "dunning_cases d' = dunning_cases d" "receivables d' = receivables d" "plans d' = plans d" "sides d' = sides (set_policies ps d)"
proof -
  obtain ps body where ps: "insert_row policy_clash (newPolicy pid (p_tenant p) i) (dunning_policies (sides d)) = Inr ps"
    and o: "outbox e 1 (p_tenant p) ''PLATFORM_AUDIT'' ''SETTLEMENT_DUNNING_POLICY_CREATED'' ''dunning_policy'' pid body (set_policies ps d) = Inr d'"
    using assms by (auto simp: CreateDunningPolicy_def andThen_eq_Inr split: if_splits)
  from that [OF ps] outbox_base [OF o] show thesis by simp
qed

section \<open>Candidates\<close>

text \<open>A candidate is a receivable of the store with a policy that does not address owners.\<close>

definition goodCandidate :: "receivable list \<Rightarrow> dunning_policy list \<Rightarrow> candidate \<Rightarrow> bool" where
  "goodCandidate rvs ps c \<longleftrightarrow>
     (\<exists>v \<in> set rvs. rv_id v = ca_receivable c \<and> rv_tenant v = ca_tenant c \<and> rv_plan v = ca_plan c) \<and>
     (\<exists>p \<in> set ps. dp_id p = ca_policy c \<and> dp_recipient p \<noteq> ''CONTRACT_OWNER'')"

lemma candidateFor_good:
  assumes "v \<in> set (receivables d)" "candidateFor e d v = Some c"
  shows "goodCandidate (receivables d) (dunning_policies (sides d)) c"
proof -
  from assms(2) obtain cs p where p: "policyFor e d v = Some p" "c = candidateOf e cs p v"
    by (auto simp: candidateFor_def split: option.splits if_splits)
  from p(1) have "p \<in> set (dunning_policies (sides d))" "scannedPolicy p" by (auto simp: policyFor_def dest: best_in)
  with p(2) assms(1) show ?thesis by (auto simp: goodCandidate_def candidateOf_def scannedPolicy_def)
qed

lemma initialCandidates_good:
  "c \<in> set (initialCandidates e limit d) \<Longrightarrow> goodCandidate (receivables d) (dunning_policies (sides d)) c"
  by (auto simp: initialCandidates_def dest!: in_set_takeD) (rule candidateFor_good)

text \<open>A candidate of the reminders is a plan of the tenant with its receivable, if there is one.\<close>

definition goodPlan :: "db \<Rightarrow> string \<Rightarrow> roleReminderCandidate \<Rightarrow> bool" where
  "goodPlan d tenant c \<longleftrightarrow> rr_plan c \<noteq> '''' \<and>
     (\<forall>v \<in> set (receivables d). rv_plan v = rr_plan c \<and> rv_tenant v = tenant \<longrightarrow> rr_receivable c = rv_id v \<and> rv_id v \<noteq> '''') \<and>
     (rr_receivable c \<noteq> '''' \<longrightarrow>
       (\<exists>v \<in> set (receivables d). rv_id v = rr_receivable c \<and> rv_tenant v = tenant \<and> rv_plan v = rr_plan c))"

lemma goodPlan_cong: "goodPlan d tenant c \<Longrightarrow> receivables d' = receivables d \<Longrightarrow> goodPlan d' tenant c"
  by (simp add: goodPlan_def)

section \<open>Runs\<close>

text \<open>A case whose receivable comes from the plan.\<close>

definition fromPlan :: "db \<Rightarrow> dunning_case \<Rightarrow> string \<Rightarrow> bool" where
  "fromPlan d c plan \<longleftrightarrow> (\<exists>v \<in> set (receivables d). dc_receivable c = Some (rv_id v) \<and> rv_tenant v = dc_tenant c \<and> rv_plan v = plan)"

text \<open>
  What the rest of the service may do between the passes: no other code writes cases or policies; receivables and plans
  come, change and go, but the receivable of a case keeps its tenant and its plan, and identifiers stay unique texts.
\<close>

definition restKeeps :: "db \<Rightarrow> db \<Rightarrow> bool" where
  "restKeeps d d' \<longleftrightarrow> dunning_cases d' = dunning_cases d \<and> dunning_policies (sides d') = dunning_policies (sides d) \<and>
     (\<forall>c \<in> set (dunning_cases d). \<forall>plan. fromPlan d' c plan \<longrightarrow> fromPlan d c plan) \<and>
     keyed rv_id (receivables d') \<and> keyed (\<lambda>v. (rv_tenant v, rv_plan v)) (receivables d') \<and>
     (\<forall>v \<in> set (receivables d'). trimSpace (rv_id v) = rv_id v \<and> rv_id v \<noteq> '''' \<and> trimSpace (rv_plan v) = rv_plan v) \<and>
     (\<forall>rp \<in> set (plans d'). trimSpace (rp_id rp) = rp_id rp \<and> rp_id rp \<noteq> '''')"

text \<open>The passes of both workers, policies and feedback of users and the rest of the service, in any order.\<close>

inductive dunning_run :: "(json \<Rightarrow> string) \<Rightarrow> db \<Rightarrow> db \<Rightarrow> bool" for h where
  start: "dunning_run h d d"
| scan: "dunning_run h d d1 \<Longrightarrow> \<forall>i. e_ids e i \<noteq> '''' \<Longrightarrow> dunning_run h d (snd (ScanOnce s e d1))"
| remind: "dunning_run h d d1 \<Longrightarrow> \<forall>i. e_ids e i \<noteq> '''' \<Longrightarrow> e_sha256 e = h \<Longrightarrow> dunning_run h d (snd (RemindOnce w e d1))"
| policy: "dunning_run h d d1 \<Longrightarrow> CreateDunningPolicy e p i d1 = Inr (pid, d2) \<Longrightarrow>
    \<forall>tenant. pid \<noteq> take 32 (h (JStr (tenant @ '':CONTRACT_OWNER''))) \<Longrightarrow> dunning_run h d d2"
| feedback: "dunning_run h d d1 \<Longrightarrow> CompleteDunningAction sv e p aid version note d1 = Inr (u, d2) \<Longrightarrow> dunning_run h d d2"
| rest: "dunning_run h d d1 \<Longrightarrow> restKeeps d1 d2 \<Longrightarrow> dunning_run h d d2"

section \<open>Invariants of the passes\<close>

locale pass_invariant =
  fixes inv :: "db \<Rightarrow> bool" and h :: "json \<Rightarrow> string"
  assumes tables: "inv d \<Longrightarrow> dunning_cases d' = dunning_cases d \<Longrightarrow> receivables d' = receivables d \<Longrightarrow> plans d' = plans d \<Longrightarrow>
      dunning_policies (sides d') = dunning_policies (sides d) \<Longrightarrow> inv d'"
    and closes: "inv d \<Longrightarrow> inv (closeCases e d)"
    and reopens: "inv d \<Longrightarrow> inv (snd (reopenSettled s e l d))"
    and opens: "inv d \<Longrightarrow> goodCandidate (receivables d) (dunning_policies (sides d)) c \<Longrightarrow> cid \<noteq> '''' \<Longrightarrow>
      activeCaseConflict d (ca_tenant c) (ca_receivable c) (ca_plan c) (ca_policy c) (ca_version c) = '''' \<Longrightarrow>
      insertCase e cid c d = Some t \<Longrightarrow> inv (d\<lparr>dunning_cases := t\<rparr>)"
    and advances: "inv d \<Longrightarrow> inv (advanceCase e x d)"
    and defers: "inv d \<Longrightarrow> inv (deferCase e x d)"
    and outdates: "inv d \<Longrightarrow> inv (closeRoleActions w e d)"
    and offers: "inv d \<Longrightarrow> k \<in> set (roleCandidates w e rules limit d) \<Longrightarrow> goodPlan d (rw_tenant w) k"
    and ensures: "inv d \<Longrightarrow> e_sha256 e = h \<Longrightarrow> inv (ensurePolicy e tenant rules d)"
    and claims: "inv d \<Longrightarrow> goodPlan d (rw_tenant w) k \<Longrightarrow> e_sha256 e = h \<Longrightarrow> cid \<noteq> '''' \<Longrightarrow>
      claimOwnerCase w e cid k d = Inr (Some (cid', d')) \<Longrightarrow> inv d'"
    and finishes: "inv d \<Longrightarrow> inv (finishOwnerCase w e cid n phase d)"
    and policies: "inv d \<Longrightarrow> CreateDunningPolicy e p i d = Inr (pid, d') \<Longrightarrow>
      \<forall>tenant. pid \<noteq> take 32 (h (JStr (tenant @ '':CONTRACT_OWNER''))) \<Longrightarrow> inv d'"
    and others: "inv d \<Longrightarrow> restKeeps d d' \<Longrightarrow> inv d'"
begin

lemma cancelActions_keeps: "inv d \<Longrightarrow> inv (cancelActions d)"
  by (erule tables) (simp_all add: cancelActions_def)

lemma putCursor_keeps: "inv d \<Longrightarrow> inv (putCursor tenant plan phase owner nx f d)"
  by (erule tables) (simp_all add: putCursor_def)

lemma createInitial_keeps:
  assumes inv: "inv d" and good: "goodCandidate (receivables d) (dunning_policies (sides d)) c" and ids: "\<forall>i. e_ids e i \<noteq> ''''"
    and r: "createInitial s e t c recipient d = Inr (t', d')"
  shows "inv d'" "receivables d' = receivables d" "dunning_policies (sides d') = dunning_policies (sides d)"
proof -
  let ?n = "activeCaseConflict d (ca_tenant c) (ca_receivable c) (ca_plan c) (ca_policy c) (ca_version c) = ''''"
  have "d' = d \<or> (\<exists>cs t1. ?n \<and> insertCase e (e_ids e (tk_id t)) c d = Some cs \<and>
      insertAction s e (tick 2 2 t) (e_ids e (tk_id t + 1)) (firstReminder (e_ids e (tk_id t)) recipient c) (d\<lparr>dunning_cases := cs\<rparr>) = Inr (t1, d'))"
    using r by (auto simp: createInitial_def Let_def andThen_eq_Inr split: if_splits option.splits)
  then have "inv d' \<and> receivables d' = receivables d \<and> dunning_policies (sides d') = dunning_policies (sides d)"
  proof (elim disjE exE conjE)
    fix cs t1
    assume a: ?n "insertCase e (e_ids e (tk_id t)) c d = Some cs"
      "insertAction s e (tick 2 2 t) (e_ids e (tk_id t + 1)) (firstReminder (e_ids e (tk_id t)) recipient c) (d\<lparr>dunning_cases := cs\<rparr>) = Inr (t1, d')"
    have "inv (d\<lparr>dunning_cases := cs\<rparr>)" by (rule opens [OF inv good _ a(1,2)]) (use ids in simp)
    from tables [OF this] insertAction_tables [OF a(3)] show ?thesis by simp
  qed (use inv in simp)
  then show "inv d'" "receivables d' = receivables d" "dunning_policies (sides d') = dunning_policies (sides d)" by blast+
qed

lemma openCases_keeps:
  assumes "inv d" "\<forall>c \<in> set cs. goodCandidate (receivables d) (dunning_policies (sides d)) c" "\<forall>i. e_ids e i \<noteq> ''''"
  shows "inv (snd (snd (openCases s e t cs d)))"
  using assms(1,2)
proof (induction cs arbitrary: t d)
  case (Cons c cs)
  show ?case
  proof (cases "recipientUser (ca_rule c)")
    case (Inr recipient)
    show ?thesis
    proof (cases "eligible s recipient \<noteq> Some True \<or> frozen d (ca_tenant c) recipient")
      case True
      with Cons Inr show ?thesis by simp
    next
      case False
      show ?thesis
      proof (cases "createInitial s e t c recipient d")
        case r: (Inr q)
        obtain t1 d1 where q: "q = (t1, d1)" by fastforce
        note keep = createInitial_keeps [OF Cons.prems(1) _ assms(3) r [unfolded q]]
        from Cons.prems(2) have "inv (snd (snd (openCases s e t1 cs d1)))" by (intro Cons.IH) (simp_all add: keep)
        with Inr False r q show ?thesis by simp
      qed (use Cons Inr False in simp)
    qed
  qed (use Cons in simp)
qed simp

lemma createRepeat_keeps:
  assumes inv: "inv d" and r: "createRepeat s e t x recipient d = Inr (t', d')"
  shows "inv d'"
proof -
  have "d' = d \<or> (\<exists>t0 event q t1 d1. insertAction s e t0 event q d = Inr (t1, d1) \<and> d' = advanceCase e x d1)"
    using r by (auto simp: createRepeat_def andThen_eq_Inr split: if_splits option.splits) blast
  then show ?thesis
  proof (elim disjE exE conjE)
    fix t0 event q t1 d1
    assume a: "insertAction s e t0 event q d = Inr (t1, d1)" "d' = advanceCase e x d1"
    have "inv d1" using tables [OF inv] insertAction_tables [OF a(1)] by simp
    then show ?thesis unfolding a(2) by (rule advances)
  qed (use inv in simp)
qed

lemma repeatCases_keeps: "inv d \<Longrightarrow> inv (snd (snd (repeatCases s e t xs d)))"
proof (induction xs arbitrary: t d)
  case (Cons x xs)
  show ?case
  proof (cases "storedRecipient (du_recipient x)")
    case (Inr recipient)
    show ?thesis
    proof (cases "eligible s recipient \<noteq> Some True \<or> frozen d (du_tenant x) recipient")
      case True
      with Cons Inr defers [OF Cons.prems] show ?thesis by simp
    next
      case False
      show ?thesis
      proof (cases "createRepeat s e t x recipient d")
        case r: (Inr q)
        obtain t1 d1 where q: "q = (t1, d1)" by fastforce
        from Cons.IH [OF createRepeat_keeps [OF Cons.prems r [unfolded q]]] Inr False r q show ?thesis by simp
      qed (use Cons Inr False in simp)
    qed
  qed (use Cons in simp)
qed simp

lemma closeSettled_keeps: "inv d \<Longrightarrow> inv (snd (closeSettled s e l d))"
  by (simp add: closeSettled_def Let_def cancelActions_keeps closes)

lemma ScanOnce_keeps:
  assumes inv: "inv d" and ids: "\<forall>i. e_ids e i \<noteq> ''''"
  shows "inv (snd (ScanOnce s e d))"
proof (cases "licensed s 0")
  case True
  obtain r1 d1 where d1: "closeSettled s e 1 d = (r1, d1)" by fastforce
  obtain r2 d2 where d2: "reopenSettled s e 3 d1 = (r2, d2)" by fastforce
  obtain r3 t3 d3 where d3: "createInitialCases s e \<lparr>tk_id = 0, tk_lic = 4\<rparr> (scanBatch s) d2 = (r3, t3, d3)" by (metis prod_cases3)
  obtain r4 t4 d4 where d4: "runDueCases s e t3 (scanBatch s) d3 = (r4, t4, d4)" by (metis prod_cases3)
  have i1: "inv d1" using closeSettled_keeps [OF inv, of s e 1] d1 by simp
  have i2: "inv d2" using reopens [OF i1, of s e 3] d2 by simp
  have i3: "inv d3"
    using openCases_keeps [OF i2 _ ids, of "initialCandidates e (scanBatch s) d2" s "\<lparr>tk_id = 0, tk_lic = 4\<rparr>"] initialCandidates_good d3
    unfolding createInitialCases_def by (metis snd_conv)
  have i4: "inv d4" using repeatCases_keeps [OF i3, of s e t3 "dueCases e (scanBatch s) d3"] d4 by (simp add: runDueCases_def)
  show ?thesis using True d1 d2 d3 d4 i1 i2 i3 i4 by (simp add: ScanOnce_def split: option.split)
qed (use inv in \<open>simp add: ScanOnce_def\<close>)

lemma deferOverlap_keeps: "inv d \<Longrightarrow> deferOverlap w e i l c phase owner d = Inr (i', d') \<Longrightarrow> inv d' \<and> receivables d' = receivables d"
  by (auto simp: deferOverlap_def Let_def putCursor_keeps split: if_splits) (simp add: putCursor_def)

lemma writeReminder_keeps:
  assumes inv: "inv d" and good: "goodPlan d (rw_tenant w) c" and h: "e_sha256 e = h" and ids: "\<forall>i. e_ids e i \<noteq> ''''"
    and r: "writeReminder w e i l c rules phase owner recipients d = Inr (i', d')"
  shows "inv d' \<and> receivables d' = receivables d"
proof -
  let ?d1 = "ensurePolicy e (rw_tenant w) rules d"
  note i1 = ensures [OF inv h, of "rw_tenant w" rules]
  have g1: "goodPlan ?d1 (rw_tenant w) c" by (rule goodPlan_cong [OF good]) simp
  consider "deferOverlap w e i l c phase owner d = Inr (i', d')"
    | "deferOverlap w e (i + 1) l c phase owner ?d1 = Inr (i', d')"
    | k d2 i3 d3 n nx where "claimOwnerCase w e (e_ids e i) c ?d1 = Inr (Some (k, d2))" "remindAll w e (i + 1) c k recipients phase d2 = Inr (i3, d3)"
      "d' = putCursor (rw_tenant w) (rr_plan c) phase owner nx (\<lambda>_. nx) (finishOwnerCase w e k n phase d3)"
    using r unfolding writeReminder_def Let_def by (auto simp: andThen_eq_Inr split: if_split_asm option.split_asm)
  then show ?thesis
  proof cases
    case 1
    with deferOverlap_keeps [OF inv] show ?thesis by blast
  next
    case 2
    with deferOverlap_keeps [OF i1] show ?thesis by simp
  next
    case (3 k d2 i3 d3 n nx)
    have c2: "inv d2 \<and> receivables d2 = receivables d" using claims [OF i1 g1 h _ 3(1)] claimOwnerCase_receivables [OF 3(1)] ids by simp
    note t3 = remindAll_tables [OF 3(2)]
    have "inv d3" using tables [of d2 d3] c2 t3 by blast
    then have "inv d'" unfolding 3(3) by (intro putCursor_keeps finishes)
    moreover have "receivables d' = receivables d" using c2 t3 unfolding 3(3) by (simp add: putCursor_def finishOwnerCase_def)
    ultimately show ?thesis by blast
  qed
qed

lemma dispatch_keeps:
  assumes inv: "inv d" and good: "goodPlan d (rw_tenant w) c" and h: "e_sha256 e = h" and ids: "\<forall>i. e_ids e i \<noteq> ''''"
    and r: "dispatch w e i l c rules d = Inr (i', d')"
  shows "inv d' \<and> receivables d' = receivables d"
proof -
  have "d' = d \<or> (\<exists>l' phase owner recipients. writeReminder w e i l' c rules phase owner recipients d = Inr (i', d'))"
    using r unfolding dispatch_def Let_def
    by (simp add: andThen_eq_Inr split: option.split_asm bool.split_asm if_split_asm prod.split_asm) blast+
  with writeReminder_keeps [OF inv good h ids] inv show ?thesis by blast
qed

lemma deferCandidate_keeps: "inv d \<Longrightarrow> deferCandidate w e l c rules d = Inr d' \<Longrightarrow> inv d' \<and> receivables d' = receivables d"
  unfolding deferCandidate_def Let_def
  by (simp split: option.split_asm prod.split_asm if_split_asm) (auto simp: putCursor_keeps, simp_all add: putCursor_def)

lemma dispatchAll_keeps:
  assumes h: "e_sha256 e = h" and ids: "\<forall>i. e_ids e i \<noteq> ''''"
  shows "inv d \<Longrightarrow> \<forall>c \<in> set cs. goodPlan d (rw_tenant w) c \<Longrightarrow> inv (snd (dispatchAll w e i l rules cs d))"
proof (induction cs arbitrary: i l d)
  case (Cons c cs)
  have IH: "inv (snd (dispatchAll w e i' l' rules cs d1))" if "inv d1" "receivables d1 = receivables d" for i' l' d1
  proof (rule Cons.IH [OF that(1)])
    show "\<forall>c \<in> set cs. goodPlan d1 (rw_tenant w) c" using Cons.prems(2) goodPlan_cong [OF _ that(2)] by simp
  qed
  show ?case
  proof (cases "dispatch w e i l c rules d")
    case (Inr q)
    obtain i1 d1 where q: "q = (i1, d1)" by fastforce
    have "inv d1 \<and> receivables d1 = receivables d"
      by (rule dispatch_keeps [OF Cons.prems(1) _ h ids Inr [unfolded q]]) (use Cons.prems(2) in simp)
    with IH Inr q show ?thesis by simp
  next
    case (Inl err)
    show ?thesis
    proof (cases "deferCandidate w e (l + 2) c rules d")
      case r: (Inr d1)
      with IH [of d1 i "l + 4"] deferCandidate_keeps [OF Cons.prems(1) r] Inl show ?thesis by (auto split: prod.split)
    next
      case r: (Inl err2)
      with IH [of d i "l + 4"] Cons.prems(1) Inl show ?thesis by (auto split: prod.split)
    qed
  qed
qed simp

lemma RemindOnce_keeps:
  assumes inv: "inv d" and "e_sha256 e = h" "\<forall>i. e_ids e i \<noteq> ''''"
  shows "inv (snd (RemindOnce w e d))"
proof -
  note inv1 = outdates [OF inv, of w e]
  from dispatchAll_keeps [OF assms(2,3) inv1] offers [OF inv1] inv show ?thesis
    by (simp add: RemindOnce_def Let_def split: sum.split)
qed

lemma CompleteDunningAction_keeps:
  assumes inv: "inv d" and r: "CompleteDunningAction sv e p aid version note d = Inr (u, d')"
  shows "inv d'"
proof -
  obtain d1 where f: "scopeFrame d d1"
    and d': "d' = d1 \<or> (\<exists>k destination kind aty ag body acts. outbox e k (p_tenant p) destination kind aty ag body (set_actions acts d1) = Inr d')"
    using r unfolding CompleteDunningAction_def Let_def
    by (auto simp: andThen_eq_Inr split: if_splits option.split_asm dest!: RequireContractAccessTx_frame) (blast intro: scopeFrame_refl)+
  have sides: "sides d1 = sides d" using f by (cases d; cases d1; simp add: scopeFrame_def)
  have "inv d1" by (rule tables [OF inv]) (simp_all add: scopeFrame_tables [OF f] sides)
  from d' show ?thesis
  proof (elim disjE exE)
    fix k destination kind aty ag body acts
    assume o: "outbox e k (p_tenant p) destination kind aty ag body (set_actions acts d1) = Inr d'"
    show ?thesis by (rule tables [OF \<open>inv d1\<close>]) (simp_all add: outbox_base [OF o])
  qed (use \<open>inv d1\<close> in simp)
qed

lemma run_keeps: "dunning_run h d d' \<Longrightarrow> inv d \<Longrightarrow> inv d'"
proof (induction rule: dunning_run.induct)
  case (scan d d1 e s)
  then show ?case by (simp add: ScanOnce_keeps)
next
  case (remind d d1 e w)
  then show ?case by (simp add: RemindOnce_keeps)
next
  case (policy d d1 e p i pid d2)
  then show ?case using policies by simp
next
  case (feedback d d1 sv e p aid version msg u d2)
  then show ?case using CompleteDunningAction_keeps by simp
next
  case (rest d d1 d2)
  then show ?case using others by simp
qed simp

end

end
