(* ===== verification/DunningSamples.thy ===== *)
theory DunningSamples
  imports RoleReminder InvoiceSamples "HOL-Library.Code_Target_Nat"
begin

text \<open>
  The stores of the witnesses of dunning: the sample receivable on its tenth day of age, its contract owner, a policy for such
  ages, a scanner and a reminder worker whose directories accept everybody.
\<close>

definition dunEnv :: "char \<Rightarrow> env" where
  "dunEnv c = \<lparr>e_now = 1720569600000, e_today = (2024, 7, 10), e_ids = (\<lambda>k. replicate (k + 1) c),
     e_sha256 = jsonText, e_meta = \<lparr>LoginIP = '''', ClientIP = '''', IPSource = ''''\<rparr>\<rparr>"

definition dunStore :: db where
  "dunStore = sampleStore\<lparr>responsibilities := [\<lparr>rs_tenant = ''T'', rs_contract = ''C'', rs_owner = ''olga'', rs_active = True, rs_version = 1\<rparr>]\<rparr>"

definition dunWorker :: RoleReminderWorker where
  "dunWorker = \<lparr>rw_tenant = ''T'', rw_contains = (\<lambda>_ _. Some True), rw_list = (\<lambda>_. Some ([], 0)), rw_licence = None, rw_batch = 0\<rparr>"

definition dunScanner :: "int \<Rightarrow> Scanner" where
  "dunScanner n = \<lparr>sc_batch = n, sc_directory = None, sc_licence = None\<rparr>"

definition dunPolicy :: "string \<Rightarrow> DunningPolicyInput" where
  "dunPolicy user = \<lparr>pi_name = ''late'', pi_from = 1, pi_to = 90, pi_action = ''REMIND'', pi_recipient = ''USER:'' @ user,
     pi_channel = ''LOCAL'', pi_repeat = 7, pi_priority = ''NORMAL''\<rparr>"

text \<open>The owner is reminded, a policy is created, the scanner runs: the case of the owner stays the only one.\<close>

definition ownedStore :: db where
  "ownedStore = snd (RemindOnce dunWorker (dunEnv CHR ''a'') dunStore)"

definition policyStore :: "string \<Rightarrow> db \<Rightarrow> db" where
  "policyStore user d = (case CreateDunningPolicy (dunEnv CHR ''b'') (sampleUser ''eve'') (dunPolicy user) d of Inl _ \<Rightarrow> d | Inr (_, d') \<Rightarrow> d')"

lemma owned_policy:
  "CreateDunningPolicy (dunEnv CHR ''b'') (sampleUser ''eve'') (dunPolicy ''carl'') ownedStore = Inr (''b'', policyStore ''carl'' ownedStore)"
proof -
  have "(case CreateDunningPolicy (dunEnv CHR ''b'') (sampleUser ''eve'') (dunPolicy ''carl'') ownedStore of Inl _ \<Rightarrow> False | Inr (i, _) \<Rightarrow> i = ''b'')"
    by code_simp
  then show ?thesis by (simp add: policyStore_def split: sum.splits prod.splits)
qed

definition scannedStore :: db where
  "scannedStore = snd (ScanOnce (dunScanner 0) (dunEnv CHR ''c'') (policyStore ''carl'' ownedStore))"

lemma owned_scanned: "map dc_id (filter (\<lambda>c. dc_status c = CASE_ACTIVE) (dunning_cases scannedStore)) = [''a'']"
  by code_simp

end
