(* ===== verification/OneCase.thy ===== *)
theory OneCase
  imports DunningPasses DunningSamples
begin

text \<open>
  The invariant behind the promise of overlap.go: an obligation, which is a receivable together with the plan it
  comes from, has at most one active case. The unique keys of the store see the receivable and the plan of a case
  separately; the invariant adds what the code guards by itself, that a case of a plan and a case of its receivable are not
  active at the same time.
\<close>

section \<open>Tables without clashes\<close>

lemma anyClash_sorted: "\<not> anyClash clash t \<longleftrightarrow> sorted_wrt (\<lambda>a b. \<not> clash a b) t"
  by (induction t) (auto simp: list_ex_iff)

lemma noClash_distinct:
  assumes "\<not> anyClash clash t" "a \<in> set t" "b \<in> set t" "a \<noteq> b" "\<And>x y. clash x y \<Longrightarrow> clash y x"
  shows "\<not> clash a b"
  using assms(1-4) by (induction t) (auto simp: list_ex_iff dest: assms(5))

lemma noClash_insert: "insert_row clash r t = Inr t' \<Longrightarrow> \<not> anyClash clash t \<Longrightarrow> (\<And>x y. clash x y \<Longrightarrow> clash y x) \<Longrightarrow> \<not> anyClash clash t'"
  by (auto simp: insert_row_Inr anyClash_sorted sorted_wrt_append list_ex_iff)

lemma sameValue_sym: "sameValue x y = sameValue y x"
  by (auto simp: sameValue_def)

lemma case_clash_sym: "case_clash a b \<Longrightarrow> case_clash b a"
  unfolding case_clash_def by (simp only: sameValue_sym [of "dc_receivable b"] sameValue_sym [of "dc_plan b"]
      sameValue_sym [of "activeOnly (dc_status b) x" for x] eq_commute [of "dc_id b"] eq_commute [of "dc_tenant b"] eq_commute [of "dc_policy b"]
      eq_commute [of "dc_policy_version b"])

text \<open>A row that keeps its keys and at most stops being active.\<close>

definition weaker :: "dunning_case \<Rightarrow> dunning_case \<Rightarrow> bool" where
  "weaker c c' \<longleftrightarrow> dc_id c' = dc_id c \<and> dc_tenant c' = dc_tenant c \<and> dc_receivable c' = dc_receivable c \<and> dc_plan c' = dc_plan c \<and>
     dc_policy c' = dc_policy c \<and> dc_policy_version c' = dc_policy_version c \<and> (dc_status c' = CASE_ACTIVE \<longrightarrow> dc_status c = CASE_ACTIVE)"

lemma weaker_clash: "weaker a a' \<Longrightarrow> weaker b b' \<Longrightarrow> case_clash a' b' \<Longrightarrow> case_clash a b"
  by (auto simp: weaker_def case_clash_def sameValue_def activeOnly_def split: if_splits)

lemma weaker_list_in: "list_all2 weaker t t' \<Longrightarrow> c' \<in> set t' \<Longrightarrow> \<exists>c \<in> set t. weaker c c'"
  by (induction rule: list_all2_induct) auto

lemma weaker_noClash:
  assumes "list_all2 weaker t t'" "\<not> anyClash case_clash t"
  shows "\<not> anyClash case_clash t'"
  using assms
proof (induction rule: list_all2_induct)
  case (Cons c t c' t')
  then have "\<not> case_clash c' x'" if "x' \<in> set t'" for x'
    using weaker_list_in [OF Cons.hyps(2) that] weaker_clash [OF Cons.hyps(1)] by (auto simp: list_ex_iff)
  with Cons show ?case by (auto simp: list_ex_iff)
qed simp

lemma weaker_update: "(\<And>c. P c \<Longrightarrow> weaker c (f c)) \<Longrightarrow> list_all2 weaker t (update_rows P f t)"
  by (induction t) (auto simp: update_rows_def weaker_def)

lemma weaker_refl: "list_all2 weaker t t"
  by (simp add: list_all2_same weaker_def)

section \<open>The invariant\<close>

text \<open>Cases of one obligation.\<close>

definition sameObligation :: "db \<Rightarrow> dunning_case \<Rightarrow> dunning_case \<Rightarrow> bool" where
  "sameObligation d a b \<longleftrightarrow> dc_tenant a = dc_tenant b \<and>
     (sameValue (dc_receivable a) (dc_receivable b) \<or> sameValue (dc_plan a) (dc_plan b) \<or>
      (\<exists>plan. dc_plan a = Some plan \<and> fromPlan d b plan) \<or> (\<exists>plan. dc_plan b = Some plan \<and> fromPlan d a plan))"

text \<open>An active case of a plan knows the receivable of every other case on that plan's receivable.\<close>

definition planKnows :: "db \<Rightarrow> bool" where
  "planKnows d \<longleftrightarrow> (\<forall>a \<in> set (dunning_cases d). \<forall>b \<in> set (dunning_cases d). \<forall>plan.
     dc_tenant a = dc_tenant b \<and> dc_status a = CASE_ACTIVE \<and> dc_plan a = Some plan \<and> fromPlan d b plan \<and> a \<noteq> b \<longrightarrow>
     dc_receivable a = dc_receivable b)"

text \<open>Cases of plans belong to policies of owner reminders.\<close>

definition ownerPolicies :: "db \<Rightarrow> bool" where
  "ownerPolicies d \<longleftrightarrow> (\<forall>c \<in> set (dunning_cases d). dc_plan c \<noteq> None \<longrightarrow>
     (\<exists>p \<in> set (dunning_policies (sides d)). dp_id p = dc_policy c \<and> dp_recipient p = ''CONTRACT_OWNER''))"

lemma ownerPoliciesD: "ownerPolicies d \<Longrightarrow> c \<in> set (dunning_cases d) \<Longrightarrow> dc_plan c \<noteq> None \<Longrightarrow>
   \<exists>p \<in> set (dunning_policies (sides d)). dp_id p = dc_policy c \<and> dp_recipient p = ''CONTRACT_OWNER''"
  unfolding ownerPolicies_def by blast

text \<open>Identifiers are texts without surrounding space; the digest of a tenant names only the policy of its owner reminders.\<close>

definition plainIds :: "(json \<Rightarrow> string) \<Rightarrow> db \<Rightarrow> bool" where
  "plainIds h d \<longleftrightarrow>
     (\<forall>v \<in> set (receivables d). trimSpace (rv_id v) = rv_id v \<and> rv_id v \<noteq> '''' \<and> trimSpace (rv_plan v) = rv_plan v) \<and>
     (\<forall>rp \<in> set (plans d). trimSpace (rp_id rp) = rp_id rp \<and> rp_id rp \<noteq> '''') \<and>
     (\<forall>c \<in> set (dunning_cases d). dc_plan c \<noteq> Some '''' \<and> dc_id c \<noteq> '''') \<and>
     (\<forall>p \<in> set (dunning_policies (sides d)). \<forall>t. dp_id p = take 32 (h (JStr (t @ '':CONTRACT_OWNER''))) \<longrightarrow> dp_recipient p = ''CONTRACT_OWNER'')"

lemma plainIds_cases:
  "plainIds h d \<Longrightarrow> receivables d' = receivables d \<Longrightarrow> plans d' = plans d \<Longrightarrow> dunning_policies (sides d') = dunning_policies (sides d) \<Longrightarrow>
   \<forall>c \<in> set (dunning_cases d'). dc_plan c \<noteq> Some '''' \<and> dc_id c \<noteq> '''' \<Longrightarrow> plainIds h d'"
  by (simp add: plainIds_def)

lemma plainIds_plan: "plainIds h d \<Longrightarrow> c \<in> set (dunning_cases d) \<Longrightarrow> dc_plan c \<noteq> Some '''' \<and> dc_id c \<noteq> ''''"
  by (simp add: plainIds_def)

lemma plainIds_policy:
  "plainIds h d \<Longrightarrow> receivables d' = receivables d \<Longrightarrow> plans d' = plans d \<Longrightarrow> dunning_cases d' = dunning_cases d \<Longrightarrow>
   dunning_policies (sides d') = dunning_policies (sides d) @ [p] \<Longrightarrow>
   (\<And>t. dp_id p = take 32 (h (JStr (t @ '':CONTRACT_OWNER''))) \<Longrightarrow> dp_recipient p = ''CONTRACT_OWNER'') \<Longrightarrow> plainIds h d'"
  unfolding plainIds_def by (simp only: set_append ball_Un) simp

definition case_inv :: "(json \<Rightarrow> string) \<Rightarrow> db \<Rightarrow> bool" where
  "case_inv h d \<longleftrightarrow> \<not> anyClash case_clash (dunning_cases d) \<and> planKnows d \<and> ownerPolicies d \<and> plainIds h d \<and>
     keyed dp_id (dunning_policies (sides d)) \<and> keyed (\<lambda>v. (rv_tenant v, rv_plan v)) (receivables d) \<and> keyed rv_id (receivables d)"

lemma case_invD:
  assumes "case_inv h d"
  shows "\<not> anyClash case_clash (dunning_cases d)" "planKnows d" "ownerPolicies d" "plainIds h d"
    "keyed dp_id (dunning_policies (sides d))" "keyed (\<lambda>v. (rv_tenant v, rv_plan v)) (receivables d)" "keyed rv_id (receivables d)"
  using assms by (simp_all add: case_inv_def)

lemma case_keys:
  assumes "case_inv h d" "a \<in> set (dunning_cases d)" "b \<in> set (dunning_cases d)" "case_clash a b"
  shows "a = b"
  using noClash_distinct [OF case_invD(1) [OF assms(1)] assms(2,3)] assms(4) case_clash_sym by blast

text \<open>The invariant keeps active cases of one obligation apart.\<close>

lemma planKnowsD:
  "planKnows d \<Longrightarrow> a \<in> set (dunning_cases d) \<Longrightarrow> b \<in> set (dunning_cases d) \<Longrightarrow> dc_tenant a = dc_tenant b \<Longrightarrow> dc_status a = CASE_ACTIVE \<Longrightarrow>
   dc_plan a = Some plan \<Longrightarrow> fromPlan d b plan \<Longrightarrow> a \<noteq> b \<Longrightarrow> dc_receivable a = dc_receivable b"
  unfolding planKnows_def by blast

lemma planKnows_cong: "planKnows d \<Longrightarrow> dunning_cases d' = dunning_cases d \<Longrightarrow> receivables d' = receivables d \<Longrightarrow> planKnows d'"
  by (simp only: planKnows_def fromPlan_def)

lemma active_apart:
  assumes inv: "case_inv h d" and ab: "a \<in> set (dunning_cases d)" "b \<in> set (dunning_cases d)" "a \<noteq> b"
    and act: "dc_status a = CASE_ACTIVE" "dc_status b = CASE_ACTIVE"
  shows "\<not> sameObligation d a b"
proof
  assume s: "sameObligation d a b"
  have nc: "\<not> case_clash a b" using case_keys [OF inv ab(1,2)] ab(3) by blast
  have t: "dc_tenant a = dc_tenant b" using s by (simp add: sameObligation_def)
  have r: "\<not> sameValue (dc_receivable a) (dc_receivable b)" "\<not> sameValue (dc_plan a) (dc_plan b)"
    using nc t act by (auto simp: case_clash_def activeOnly_def)
  have same: False if "dc_receivable x = dc_receivable y" "fromPlan d y plan" "{x, y} = {a, b}" for x y plan
    using that r(1) by (auto simp: fromPlan_def sameValue_def doubleton_eq_iff)
  from s r consider plan where "dc_plan a = Some plan" "fromPlan d b plan" | plan where "dc_plan b = Some plan" "fromPlan d a plan"
    by (auto simp: sameObligation_def)
  then show False
  proof cases
    case (1 plan)
    then have "dc_receivable a = dc_receivable b" by (intro planKnowsD [OF case_invD(2) [OF inv] ab(1,2) t act(1)]) (use ab(3) in auto)
    with same [of a b] 1 show False by blast
  next
    case (2 plan)
    then have "dc_receivable b = dc_receivable a" by (intro planKnowsD [OF case_invD(2) [OF inv] ab(2,1) t [symmetric] act(2)]) (use ab(3) in auto)
    with same [of b a] 2 show False by blast
  qed
qed

section \<open>Changes that keep it\<close>

lemma case_inv_weaker:
  assumes inv: "case_inv h d" and w: "list_all2 weaker (dunning_cases d) (dunning_cases d')"
    and keep: "receivables d' = receivables d" "plans d' = plans d" "dunning_policies (sides d') = dunning_policies (sides d)"
  shows "case_inv h d'"
proof -
  note I = case_invD [OF inv]
  have origin: "\<exists>c \<in> set (dunning_cases d). weaker c c'" if "c' \<in> set (dunning_cases d')" for c' by (rule weaker_list_in [OF w that])
  have "planKnows d'"
    unfolding planKnows_def
  proof (intro ballI allI impI)
    fix a' b' plan
    assume m: "a' \<in> set (dunning_cases d')" "b' \<in> set (dunning_cases d')"
      "dc_tenant a' = dc_tenant b' \<and> dc_status a' = CASE_ACTIVE \<and> dc_plan a' = Some plan \<and> fromPlan d' b' plan \<and> a' \<noteq> b'"
    from origin m(1,2) obtain a b where ab: "a \<in> set (dunning_cases d)" "weaker a a'" "b \<in> set (dunning_cases d)" "weaker b b'" by blast
    show "dc_receivable a' = dc_receivable b'"
    proof (cases "a = b")
      case True
      with ab show ?thesis by (simp add: weaker_def)
    next
      case False
      have wa: "dc_tenant a' = dc_tenant a" "dc_plan a' = dc_plan a" "dc_status a' = CASE_ACTIVE \<Longrightarrow> dc_status a = CASE_ACTIVE"
          "dc_receivable a' = dc_receivable a" using ab(2) unfolding weaker_def by blast+
      have wb: "dc_tenant b' = dc_tenant b" "dc_receivable b' = dc_receivable b" using ab(4) unfolding weaker_def by blast+
      have "fromPlan d b plan" using m(3) wb unfolding fromPlan_def keep by simp
      with planKnowsD [OF I(2) ab(1,3) _ _ _ _ False, of plan] wa wb m(3) show ?thesis by simp
    qed
  qed
  moreover have "ownerPolicies d'" unfolding ownerPolicies_def
  proof (intro ballI impI)
    fix c' assume c': "c' \<in> set (dunning_cases d')" "dc_plan c' \<noteq> None"
    from origin [OF c'(1)] obtain c where c: "c \<in> set (dunning_cases d)" "dc_plan c' = dc_plan c" "dc_policy c' = dc_policy c"
      unfolding weaker_def by blast
    show "\<exists>p \<in> set (dunning_policies (sides d')). dp_id p = dc_policy c' \<and> dp_recipient p = ''CONTRACT_OWNER''"
      unfolding keep c(3) by (rule ownerPoliciesD [OF I(3) c(1)]) (use c' c in simp)
  qed
  moreover have "plainIds h d'"
  proof (rule plainIds_cases [OF I(4) keep], rule ballI)
    fix c' assume "c' \<in> set (dunning_cases d')"
    from origin [OF this] obtain c where "c \<in> set (dunning_cases d)" "dc_plan c' = dc_plan c" "dc_id c' = dc_id c"
      unfolding weaker_def by blast
    with plainIds_plan [OF I(4)] show "dc_plan c' \<noteq> Some '''' \<and> dc_id c' \<noteq> ''''" by simp
  qed
  ultimately show ?thesis using I keep weaker_noClash [OF w I(1)] by (simp add: case_inv_def)
qed

lemma case_inv_cong:
  "case_inv h d \<Longrightarrow> dunning_cases d' = dunning_cases d \<Longrightarrow> receivables d' = receivables d \<Longrightarrow> plans d' = plans d \<Longrightarrow>
   dunning_policies (sides d') = dunning_policies (sides d) \<Longrightarrow> case_inv h d'"
  by (rule case_inv_weaker) (simp_all add: weaker_refl)

text \<open>The statements that only close cases or move their times.\<close>

lemma closeCases_inv: "case_inv h d \<Longrightarrow> case_inv h (closeCases e d)"
  by (erule case_inv_weaker) (simp_all add: closeCases_def weaker_update weaker_def)

lemma advanceCase_inv: "case_inv h d \<Longrightarrow> case_inv h (advanceCase e x d)"
  by (erule case_inv_weaker) (simp_all add: advanceCase_def weaker_update weaker_def)

lemma deferCase_inv: "case_inv h d \<Longrightarrow> case_inv h (deferCase e x d)"
  by (erule case_inv_weaker) (simp_all add: deferCase_def weaker_update weaker_def)

lemma finishOwnerCase_inv: "case_inv h d \<Longrightarrow> case_inv h (finishOwnerCase w e cid n phase d)"
  by (erule case_inv_weaker) (simp_all add: finishOwnerCase_def weaker_update weaker_def)

lemma closeRoleActions_inv: "case_inv h d \<Longrightarrow> case_inv h (closeRoleActions w e d)"
  by (erule case_inv_weaker) (simp_all add: closeRoleActions_def Let_def weaker_update weaker_def)

section \<open>Opening again\<close>

lemma policyOf_key:
  assumes "case_inv h d" "policyOf d c = Some p"
  shows "p \<in> set (dunning_policies (sides d))" "dp_id p = dc_policy c"
    "q \<in> set (dunning_policies (sides d)) \<Longrightarrow> dp_id q = dc_policy c \<Longrightarrow> q = p"
proof -
  from assms(2) show p: "p \<in> set (dunning_policies (sides d))" "dp_id p = dc_policy c" by (auto simp: policyOf_def dest: find_SomeD)
  show "q \<in> set (dunning_policies (sides d)) \<Longrightarrow> dp_id q = dc_policy c \<Longrightarrow> q = p"
    using case_invD(5) [OF assms(1)] p by (auto simp: keyed_def distinct_map inj_on_def)
qed

text \<open>A case that the scanner opens again is not the case of a plan.\<close>

lemma closedSettled_no_plan:
  assumes "case_inv h d" "c \<in> set (dunning_cases d)" "closedSettled d c"
  shows "dc_plan c = None"
proof (rule ccontr)
  assume "dc_plan c \<noteq> None"
  then obtain q where q: "q \<in> set (dunning_policies (sides d))" "dp_id q = dc_policy c" "dp_recipient q = ''CONTRACT_OWNER''"
    using case_invD(3) [OF assms(1)] assms(2) by (auto simp: ownerPolicies_def)
  from assms(3) obtain p where p: "policyOf d c = Some p" "scannedPolicy p" by (auto simp: closedSettled_def split: option.splits)
  from policyOf_key(3) [OF assms(1) p(1) q(1,2)] p(2) q(3) show False by (simp add: scannedPolicy_def)
qed

lemma reopenSettled_inv:
  assumes inv: "case_inv h d"
  shows "case_inv h (snd (reopenSettled s e l d))"
proof -
  let ?t = "update_rows (reopenable e d) (reopened e) (dunning_cases d)" and ?f = "\<lambda>c. if reopenable e d c then reopened e c else c"
  let ?d = "d\<lparr>dunning_cases := ?t\<rparr>"
  note I = case_invD [OF inv]
  have keeps: "dc_tenant (?f c) = dc_tenant c" "dc_receivable (?f c) = dc_receivable c" "dc_plan (?f c) = dc_plan c" "dc_policy (?f c) = dc_policy c"
    "fromPlan ?d (?f c) plan = fromPlan d c plan" "dc_id (?f c) = dc_id c" for c plan by (simp_all add: reopened_def fromPlan_def)
  have inT: "\<exists>c \<in> set (dunning_cases d). x = ?f c" if "x \<in> set ?t" for x using that by (auto simp: update_rows_def)
  have pk: "planKnows ?d" unfolding planKnows_def
  proof (intro ballI allI impI)
    fix a' b' plan
    assume m: "a' \<in> set (dunning_cases ?d)" "b' \<in> set (dunning_cases ?d)"
      "dc_tenant a' = dc_tenant b' \<and> dc_status a' = CASE_ACTIVE \<and> dc_plan a' = Some plan \<and> fromPlan ?d b' plan \<and> a' \<noteq> b'"
    from inT [of a'] inT [of b'] m(1,2) obtain a b where ab: "a \<in> set (dunning_cases d)" "a' = ?f a" "b \<in> set (dunning_cases d)" "b' = ?f b"
      by auto
    have na: "\<not> reopenable e d a"
    proof
      assume "reopenable e d a"
      then have "dc_plan a = None" by (intro closedSettled_no_plan [OF inv ab(1)]) (simp add: reopenable_def)
      with m(3) ab(2) keeps(3) [of a] show False by simp
    qed
    have "dc_receivable a = dc_receivable b"
      by (rule planKnowsD [OF I(2) ab(1,3), of plan]) (use m(3) ab na keeps in auto)
    then show "dc_receivable a' = dc_receivable b'" using ab keeps(2) by simp
  qed
  have op: "ownerPolicies ?d" using I(3) inT keeps unfolding ownerPolicies_def by fastforce
  have pi: "plainIds h ?d"
  proof (rule plainIds_cases [OF I(4)])
    show "\<forall>c \<in> set (dunning_cases ?d). dc_plan c \<noteq> Some '''' \<and> dc_id c \<noteq> ''''"
      using inT keeps(3,6) plainIds_plan [OF I(4)] by fastforce
  qed simp_all
  have "case_inv h ?d" if "\<not> anyClash case_clash ?t" using that pk op pi I by (simp add: case_inv_def)
  with inv show ?thesis by (simp add: reopenSettled_def Let_def)
qed

section \<open>A row that is added or changed\<close>

text \<open>
  A row \<open>n\<close> comes into the table, beside rows that were there. What remains to be shown is about \<open>n\<close>: that the active
  cases of its receivable's plan know that receivable, and that it knows the receivables of its own plan.
\<close>

lemma case_inv_put:
  assumes inv: "case_inv h d" and rows: "set t \<subseteq> insert n (set (dunning_cases d))" and clash: "\<not> anyClash case_clash t"
    and plain: "dc_plan n \<noteq> Some ''''" "dc_id n \<noteq> ''''"
    and owner: "dc_plan n \<noteq> None \<Longrightarrow> \<exists>p \<in> set (dunning_policies (sides d)). dp_id p = dc_policy n \<and> dp_recipient p = ''CONTRACT_OWNER''"
    and known: "\<And>a plan. a \<in> set t \<Longrightarrow> a \<noteq> n \<Longrightarrow> dc_tenant a = dc_tenant n \<Longrightarrow> dc_status a = CASE_ACTIVE \<Longrightarrow> dc_plan a = Some plan \<Longrightarrow>
      fromPlan d n plan \<Longrightarrow> dc_receivable a = dc_receivable n"
    and knows: "\<And>b plan. b \<in> set t \<Longrightarrow> dc_tenant b = dc_tenant n \<Longrightarrow> dc_plan n = Some plan \<Longrightarrow> fromPlan d b plan \<Longrightarrow>
      dc_receivable n = dc_receivable b"
  shows "case_inv h (d\<lparr>dunning_cases := t\<rparr>)"
proof -
  note I = case_invD [OF inv]
  let ?d = "d\<lparr>dunning_cases := t\<rparr>"
  have old: "a \<in> set (dunning_cases d)" if "a \<in> set t" "a \<noteq> n" for a using rows that by blast
  have from_eq: "fromPlan ?d b plan = fromPlan d b plan" for b plan by (simp add: fromPlan_def)
  have "planKnows ?d" unfolding planKnows_def from_eq
  proof (intro ballI allI impI)
    fix a b plan
    assume "a \<in> set (dunning_cases ?d)" "b \<in> set (dunning_cases ?d)"
    then have ab: "a \<in> set t" "b \<in> set t" by simp_all
    assume k: "dc_tenant a = dc_tenant b \<and> dc_status a = CASE_ACTIVE \<and> dc_plan a = Some plan \<and> fromPlan d b plan \<and> a \<noteq> b"
    consider "a = n" | "a \<noteq> n" "b = n" | "a \<noteq> n" "b \<noteq> n" by blast
    then show "dc_receivable a = dc_receivable b"
    proof cases
      case 1
      with k show ?thesis using knows [OF ab(2), of plan] by simp
    next
      case 2
      with k show ?thesis using known [OF ab(1), of plan] by simp
    next
      case 3
      with k show ?thesis using planKnowsD [OF I(2) old [OF ab(1)] old [OF ab(2)], of plan] by simp
    qed
  qed
  moreover have "ownerPolicies ?d" unfolding ownerPolicies_def
  proof (intro ballI impI)
    fix c assume c: "c \<in> set (dunning_cases ?d)" "dc_plan c \<noteq> None"
    show "\<exists>p \<in> set (dunning_policies (sides ?d)). dp_id p = dc_policy c \<and> dp_recipient p = ''CONTRACT_OWNER''"
    proof (cases "c = n")
      case True
      with owner c(2) show ?thesis by simp
    next
      case False
      with old [of c] c(1) have "c \<in> set (dunning_cases d)" by simp
      from ownerPoliciesD [OF I(3) this c(2)] show ?thesis by simp
    qed
  qed
  moreover have "plainIds h ?d"
  proof (rule plainIds_cases [OF I(4)], simp_all, rule ballI)
    fix c assume c: "c \<in> set t"
    show "dc_plan c \<noteq> Some [] \<and> dc_id c \<noteq> []"
    proof (cases "c = n")
      case True
      with plain show ?thesis by simp
    next
      case False
      from plainIds_plan [OF I(4) old [OF c False]] show ?thesis .
    qed
  qed
  ultimately show ?thesis using I clash by (simp add: case_inv_def)
qed

section \<open>The scanner\<close>

text \<open>No conflict: an active case of the plan belongs to the policy of the candidate.\<close>

lemma noConflict:
  assumes "activeCaseConflict d tenant rid pid policy version = ''''" "trimSpace rid = rid" "trimSpace pid = pid" "pid \<noteq> ''''"
    and "a \<in> set (dunning_cases d)" "dc_id a \<noteq> ''''" "dc_tenant a = tenant" "dc_status a = CASE_ACTIVE" "dc_plan a = Some pid"
    and ids: "\<forall>c \<in> set (dunning_cases d). dc_id c \<noteq> ''''"
  shows "dc_policy a = policy"
proof (rule ccontr)
  assume "dc_policy a \<noteq> policy"
  then have "conflicting d tenant rid pid policy version a" using assms by (simp add: conflicting_def)
  then obtain c where c: "find (conflicting d tenant rid pid policy version) (dunning_cases d) = Some c"
    using assms(5) by (cases "find (conflicting d tenant rid pid policy version) (dunning_cases d)") (auto simp: find_None_iff)
  then have "c \<in> set (dunning_cases d)" by (auto dest: find_SomeD)
  with c assms(1-4) ids show False by (auto simp: activeCaseConflict_def Let_def)
qed

lemma insertCase_Some:
  "insertCase e cid c d = Some t \<Longrightarrow> insert_row case_clash (newCase e cid c) (dunning_cases d) = Inr t"
  by (auto simp: insertCase_def split: if_splits sum.splits)

lemma newCase_inv:
  assumes inv: "case_inv h d" and good: "goodCandidate (receivables d) (dunning_policies (sides d)) c" and cid: "cid \<noteq> ''''"
    and none: "activeCaseConflict d (ca_tenant c) (ca_receivable c) (ca_plan c) (ca_policy c) (ca_version c) = ''''"
    and ins: "insertCase e cid c d = Some t"
  shows "case_inv h (d\<lparr>dunning_cases := t\<rparr>)"
proof (rule case_inv_put [OF inv, where n = "newCase e cid c"])
  note I = case_invD [OF inv]
  have t: "insert_row case_clash (newCase e cid c) (dunning_cases d) = Inr t" by (rule insertCase_Some [OF ins])
  then show "set t \<subseteq> insert (newCase e cid c) (set (dunning_cases d))" by (auto simp: insert_row_Inr)
  show "\<not> anyClash case_clash t" by (rule noClash_insert [OF t I(1) case_clash_sym])
  show "dc_plan (newCase e cid c) \<noteq> Some ''''" "dc_id (newCase e cid c) \<noteq> ''''" using cid by (simp_all add: newCase_def)
  show "\<exists>p \<in> set (dunning_policies (sides d)). dp_id p = dc_policy (newCase e cid c) \<and> dp_recipient p = ''CONTRACT_OWNER''"
    if "dc_plan (newCase e cid c) \<noteq> None" using that by (simp add: newCase_def)
  show "dc_receivable (newCase e cid c) = dc_receivable b" if "dc_plan (newCase e cid c) = Some plan" for b plan
    using that by (simp add: newCase_def)
  fix a plan
  assume a: "a \<in> set t" "a \<noteq> newCase e cid c" "dc_tenant a = dc_tenant (newCase e cid c)" "dc_status a = CASE_ACTIVE" "dc_plan a = Some plan"
    "fromPlan d (newCase e cid c) plan"
  from a(1,2) t have ad: "a \<in> set (dunning_cases d)" by (auto simp: insert_row_Inr)
  from good obtain v where v: "v \<in> set (receivables d)" "rv_id v = ca_receivable c" "rv_plan v = ca_plan c" by (auto simp: goodCandidate_def)
  from a(6) obtain v' where v': "v' \<in> set (receivables d)" "rv_id v' = ca_receivable c" "rv_plan v' = plan" by (auto simp: fromPlan_def newCase_def)
  have "v' = v" using I(7) v v' by (auto simp: keyed_def distinct_map inj_on_def)
  then have plan: "plan = ca_plan c" using v v' by simp
  have ids: "\<forall>c \<in> set (dunning_cases d). dc_id c \<noteq> ''''" using plainIds_plan [OF I(4)] by blast
  have trim: "trimSpace (ca_receivable c) = ca_receivable c" "trimSpace (ca_plan c) = ca_plan c"
    using I(4) v unfolding plainIds_def by auto
  have "dc_policy a = ca_policy c"
  proof (rule noConflict [OF none trim _ ad])
    show "ca_plan c \<noteq> ''''" using plainIds_plan [OF I(4) ad] a(5) plan by auto
  qed (use a plan ids ad in \<open>simp_all add: newCase_def\<close>)
  moreover obtain q where "q \<in> set (dunning_policies (sides d))" "dp_id q = dc_policy a" "dp_recipient q = ''CONTRACT_OWNER''"
    using ownerPoliciesD [OF I(3) ad] a(5) by auto
  moreover obtain p where "p \<in> set (dunning_policies (sides d))" "dp_id p = ca_policy c" "dp_recipient p \<noteq> ''CONTRACT_OWNER''"
    using good by (auto simp: goodCandidate_def)
  ultimately have False using I(5) by (auto simp: keyed_def distinct_map inj_on_def)
  then show "dc_receivable a = dc_receivable (newCase e cid c)" ..
qed

section \<open>Owner reminders\<close>

lemma ensurePolicy_inv:
  assumes inv: "case_inv h d" and h: "e_sha256 e = h"
  shows "case_inv h (ensurePolicy e tenant rules d)"
proof (cases "insert_row policy_clash (ownerPolicy e tenant rules) (dunning_policies (sides d))")
  case (Inr ps)
  note I = case_invD [OF inv]
  have ps: "ps = dunning_policies (sides d) @ [ownerPolicy e tenant rules]" using Inr by (simp add: insert_row_Inr)
  have "keyed dp_id ps" by (rule policy_t.insert_keyed [OF I(5) Inr])
  moreover have "planKnows (set_policies ps d)" by (rule planKnows_cong [OF I(2)]) simp_all
  moreover have "ownerPolicies (set_policies ps d)" using I(3) by (auto simp: ownerPolicies_def ps)
  moreover have "plainIds h (set_policies ps d)" by (rule plainIds_policy [OF I(4), where p = "ownerPolicy e tenant rules"]) (simp_all add: ps ownerPolicy_def)
  ultimately show ?thesis using I Inr by (simp add: ensurePolicy_def case_inv_def)
qed (use inv in \<open>simp add: ensurePolicy_def\<close>)

lemma plainIds_receivable: "plainIds h d \<Longrightarrow> v \<in> set (receivables d) \<Longrightarrow> rv_id v \<noteq> ''''"
  by (simp add: plainIds_def)

lemma receivableOfPlan_good:
  assumes inv: "case_inv h d" and rp: "rp_id rp \<noteq> ''''" "rp_tenant rp = tenant" "rr_plan c = rp_id rp"
    and r: "rr_receivable c = (case receivableOfPlan d rp of None \<Rightarrow> '''' | Some x \<Rightarrow> rv_id x)"
  shows "goodPlan d tenant c"
proof (cases "receivableOfPlan d rp")
  case None
  then have "\<forall>v \<in> set (receivables d). \<not> (rv_plan v = rp_id rp \<and> rv_tenant v = rp_tenant rp)"
    by (auto simp: receivableOfPlan_def find_None_iff)
  with None rp r show ?thesis by (auto simp: goodPlan_def)
next
  case (Some x)
  note I = case_invD [OF inv]
  from Some have x: "x \<in> set (receivables d)" "rv_plan x = rp_id rp" "rv_tenant x = rp_tenant rp"
    by (auto simp: receivableOfPlan_def dest: find_SomeD)
  have only: "v = x" if "v \<in> set (receivables d)" "rv_plan v = rp_id rp" "rv_tenant v = rp_tenant rp" for v
    using I(6) that x by (auto simp: keyed_def distinct_map inj_on_def)
  have c: "rr_receivable c = rv_id x" "rv_id x \<noteq> ''''" using Some r plainIds_receivable [OF I(4) x(1)] by simp_all
  show ?thesis unfolding goodPlan_def
  proof (intro conjI ballI impI)
    fix v assume v: "v \<in> set (receivables d)" "rv_plan v = rr_plan c \<and> rv_tenant v = tenant"
    then have "v = x" by (intro only) (use rp in simp_all)
    with c show "rr_receivable c = rv_id v" "rv_id v \<noteq> ''''" by simp_all
  next
    show "\<exists>v \<in> set (receivables d). rv_id v = rr_receivable c \<and> rv_tenant v = tenant \<and> rv_plan v = rr_plan c"
      using x c rp by (intro bexI [of _ x]) simp_all
  qed (use rp in simp)
qed

lemma roleCandidate_good:
  assumes inv: "case_inv h d" and rp: "rp \<in> set (plans d)" and c: "roleCandidate w e rules d rp = Some c"
  shows "goodPlan d (rw_tenant w) c"
proof (rule receivableOfPlan_good [OF inv])
  show "rp_id rp \<noteq> ''''" using case_invD(4) [OF inv] rp by (simp add: plainIds_def)
  show "rp_tenant rp = rw_tenant w" "rr_plan c = rp_id rp" "rr_receivable c = (case receivableOfPlan d rp of None \<Rightarrow> '''' | Some x \<Rightarrow> rv_id x)"
    using c unfolding roleCandidate_def by (simp_all add: Let_def split: option.split_asm if_split_asm) auto
qed

lemma roleCandidates_good: "case_inv h d \<Longrightarrow> c \<in> set (roleCandidates w e rules limit d) \<Longrightarrow> goodPlan d (rw_tenant w) c"
  by (auto simp: roleCandidates_def dest!: in_set_takeD) (rule roleCandidate_good)

text \<open>The row of the owner case, new or opened again, keeps the invariant.\<close>

lemma ownerRow_inv:
  assumes inv: "case_inv h d" and good: "goodPlan d (dc_tenant n) c"
    and rows: "set t \<subseteq> insert n (set (dunning_cases d))" "n \<in> set t" and clash: "\<not> anyClash case_clash t"
    and n: "dc_plan n = Some (rr_plan c)" "dc_receivable n = (if rr_receivable c = '''' then None else Some (rr_receivable c))"
      "dc_status n = CASE_ACTIVE" "dc_id n \<noteq> ''''"
    and owner: "\<exists>p \<in> set (dunning_policies (sides d)). dp_id p = dc_policy n \<and> dp_recipient p = ''CONTRACT_OWNER''"
  shows "case_inv h (d\<lparr>dunning_cases := t\<rparr>)"
proof (rule case_inv_put [OF inv rows(1) clash])
  note I = case_invD [OF inv]
  show "dc_plan n \<noteq> Some ''''" using n good by (simp add: goodPlan_def)
  show "dc_receivable n = dc_receivable b" if "dc_tenant b = dc_tenant n" "dc_plan n = Some plan" "fromPlan d b plan" for b plan
    using that good n unfolding goodPlan_def fromPlan_def by auto
  fix a plan
  assume a: "a \<in> set t" "a \<noteq> n" "dc_tenant a = dc_tenant n" "dc_status a = CASE_ACTIVE" "dc_plan a = Some plan" "fromPlan d n plan"
  from a(6) obtain v where v: "v \<in> set (receivables d)" "dc_receivable n = Some (rv_id v)" "rv_plan v = plan" by (auto simp: fromPlan_def)
  with n(2) have r: "rr_receivable c = rv_id v" "rr_receivable c \<noteq> ''''" by (auto split: if_splits)
  with good obtain v' where v': "v' \<in> set (receivables d)" "rv_id v' = rv_id v" "rv_plan v' = rr_plan c" unfolding goodPlan_def by auto
  have "v' = v" using I(7) v(1) v'(1,2) by (auto simp: keyed_def distinct_map inj_on_def)
  with v v' a n have "case_clash a n" by (simp add: case_clash_def activeOnly_def sameValue_def)
  then have False using noClash_distinct [OF clash a(1) rows(2) a(2)] case_clash_sym by blast
  then show "dc_receivable a = dc_receivable n" ..
qed (use n owner in simp_all)

lemma digest_owner:
  assumes "plainIds h d" "e_sha256 e = h" "exists_row (\<lambda>p. dp_id p = ownerPolicyId e tenant) (dunning_policies (sides d))"
  shows "\<exists>p \<in> set (dunning_policies (sides d)). dp_id p = ownerPolicyId e tenant \<and> dp_recipient p = ''CONTRACT_OWNER''"
proof -
  from assms(3) obtain p where "p \<in> set (dunning_policies (sides d))" "dp_id p = ownerPolicyId e tenant" by (auto simp: exists_row_iff)
  with assms(1,2) show ?thesis unfolding plainIds_def ownerPolicyId_def by blast
qed

lemma claimOwnerCase_inv:
  assumes inv: "case_inv h d" and good: "goodPlan d (rw_tenant w) c" and h: "e_sha256 e = h" and cid: "cid \<noteq> ''''"
    and r: "claimOwnerCase w e cid c d = Inr (Some (k, d'))"
  shows "case_inv h d' \<and> receivables d' = receivables d"
proof -
  note I = case_invD [OF inv]
  let ?own = "\<lambda>x. dc_tenant x = rw_tenant w \<and> dc_plan x = Some (rr_plan c) \<and> dc_policy x = ownerPolicyId e (rw_tenant w) \<and> dc_policy_version x = 1"
  show ?thesis
  proof (cases "find ?own (dunning_cases d)")
    case None
    let ?n = "ownerCase e cid (rw_tenant w) c"
    from r None obtain t where t: "insert_row case_clash ?n (dunning_cases d) = Inr t" "d' = d\<lparr>dunning_cases := t\<rparr>"
      "exists_row (\<lambda>p. dp_id p = ownerPolicyId e (rw_tenant w)) (dunning_policies (sides d))"
      by (auto simp: claimOwnerCase_def Let_def split: sum.splits if_splits)
    have "case_inv h (d\<lparr>dunning_cases := t\<rparr>)"
    proof (rule ownerRow_inv [OF inv, where n = ?n and c = c])
      show "\<not> anyClash case_clash t" by (rule noClash_insert [OF t(1) I(1) case_clash_sym])
      show "\<exists>p \<in> set (dunning_policies (sides d)). dp_id p = dc_policy ?n \<and> dp_recipient p = ''CONTRACT_OWNER''"
        using digest_owner [OF I(4) h t(3)] by (simp add: ownerCase_def)
      show "set t \<subseteq> insert ?n (set (dunning_cases d))" "?n \<in> set t" using t(1) by (auto simp: insert_row_Inr)
    qed (use good cid in \<open>simp_all add: ownerCase_def\<close>)
    with t(2) show ?thesis by simp
  next
    case (Some x)
    let ?f = "\<lambda>y. y\<lparr>dc_status := CASE_ACTIVE, dc_receivable := (if rr_receivable c = '''' then None else Some (rr_receivable c)), dc_closed_reason := ''''\<rparr>"
    let ?t = "update_rows (\<lambda>y. dc_tenant y = rw_tenant w \<and> dc_id y = dc_id x) ?f (dunning_cases d)"
    from Some have x: "x \<in> set (dunning_cases d)" "?own x" by (blast dest: find_SomeD)+
    have only: "y = x" if "y \<in> set (dunning_cases d)" "dc_id y = dc_id x" for y
      by (rule case_keys [OF inv that(1) x(1)]) (use that in \<open>simp add: case_clash_def\<close>)
    have t: "\<not> anyClash case_clash ?t" "d' = d\<lparr>dunning_cases := ?t\<rparr>"
      using r Some by (simp_all add: claimOwnerCase_def Let_def split: if_splits)
    have "case_inv h (d\<lparr>dunning_cases := ?t\<rparr>)"
    proof (rule ownerRow_inv [OF inv, where n = "?f x" and c = c])
      show "set ?t \<subseteq> insert (?f x) (set (dunning_cases d))" using only by (auto simp: update_rows_def)
      show "?f x \<in> set ?t" using x by (auto simp: update_rows_def intro!: image_eqI [of _ _ x])
      show "\<exists>p \<in> set (dunning_policies (sides d)). dp_id p = dc_policy (?f x) \<and> dp_recipient p = ''CONTRACT_OWNER''"
        using ownerPoliciesD [OF I(3) x(1)] x(2) by simp
      show "dc_id (?f x) \<noteq> ''''" using plainIds_plan [OF I(4) x(1)] by simp
    qed (use good x t(1) in simp_all)
    with t(2) show ?thesis by simp
  qed
qed

section \<open>Runs\<close>

lemma restKeeps_inv:
  assumes inv: "case_inv h d" and rest: "restKeeps d d'"
  shows "case_inv h d'"
proof -
  note I = case_invD [OF inv]
  have keep: "dunning_cases d' = dunning_cases d" "dunning_policies (sides d') = dunning_policies (sides d)"
    using rest by (simp_all add: restKeeps_def)
  have "planKnows d'" unfolding planKnows_def keep
  proof (intro ballI allI impI)
    fix a b plan
    assume a: "a \<in> set (dunning_cases d)" "b \<in> set (dunning_cases d)"
      "dc_tenant a = dc_tenant b \<and> dc_status a = CASE_ACTIVE \<and> dc_plan a = Some plan \<and> fromPlan d' b plan \<and> a \<noteq> b"
    have "fromPlan d b plan" using rest a(2,3) unfolding restKeeps_def by blast
    then show "dc_receivable a = dc_receivable b" using planKnowsD [OF I(2) a(1,2), of plan] a(3) by simp
  qed
  moreover have "ownerPolicies d'" using I(3) by (simp only: ownerPolicies_def keep)
  moreover have "plainIds h d'" using I(4) rest unfolding plainIds_def keep restKeeps_def by blast
  ultimately show ?thesis using I(1,5) rest keep by (simp add: case_inv_def restKeeps_def)
qed

lemma CreateDunningPolicy_inv:
  assumes inv: "case_inv h d" and r: "CreateDunningPolicy e p i d = Inr (pid, d')"
    and fresh: "\<forall>tenant. pid \<noteq> take 32 (h (JStr (tenant @ '':CONTRACT_OWNER'')))"
  shows "case_inv h d'"
proof -
  note I = case_invD [OF inv]
  let ?p = "newPolicy pid (p_tenant p) i"
  from r obtain ps where ps: "insert_row policy_clash ?p (dunning_policies (sides d)) = Inr ps"
    and o: "dunning_cases d' = dunning_cases d" "receivables d' = receivables d" "plans d' = plans d" "sides d' = sides (set_policies ps d)"
    by (rule CreateDunningPolicy_effect)
  have app: "ps = dunning_policies (sides d) @ [?p]" using ps by (simp add: insert_row_Inr)
  let ?d = "set_policies ps d"
  have "keyed dp_id ps" by (rule policy_t.insert_keyed [OF I(5) ps])
  moreover have "planKnows ?d" by (rule planKnows_cong [OF I(2)]) simp_all
  moreover have "ownerPolicies ?d" using I(3) by (auto simp: ownerPolicies_def app)
  moreover have "plainIds h ?d"
    by (rule plainIds_policy [OF I(4), where p = ?p]) (use fresh in \<open>simp_all add: app newPolicy_def\<close>)
  ultimately have "case_inv h ?d" using I by (simp add: case_inv_def)
  then show ?thesis by (rule case_inv_cong) (simp_all add: o)
qed

lemma empty_inv: "case_inv h empty_db"
  by (simp add: case_inv_def planKnows_def ownerPolicies_def plainIds_def empty_db_def keyed_def)

interpretation one: pass_invariant "case_inv h" h for h
proof unfold_locales
  show "case_inv h (d\<lparr>dunning_cases := t\<rparr>)"
    if "case_inv h d" "goodCandidate (receivables d) (dunning_policies (sides d)) c" "cid \<noteq> ''''"
      "activeCaseConflict d (ca_tenant c) (ca_receivable c) (ca_plan c) (ca_policy c) (ca_version c) = ''''" "insertCase e cid c d = Some t"
    for d c cid e t using that by (rule newCase_inv)
  show "case_inv h d'" if "case_inv h d" "goodPlan d (rw_tenant w) k" "e_sha256 e = h" "cid \<noteq> ''''"
      "claimOwnerCase w e cid k d = Inr (Some (cid', d'))" for d w k e cid cid' d'
    using claimOwnerCase_inv [OF that] by blast
  show "case_inv h d'" if "case_inv h d" "CreateDunningPolicy e p i d = Inr (pid, d')"
      "\<forall>tenant. pid \<noteq> take 32 (h (JStr (tenant @ '':CONTRACT_OWNER'')))" for d e p i pid d'
    using that by (rule CreateDunningPolicy_inv)
qed (fact case_inv_cong closeCases_inv reopenSettled_inv advanceCase_inv deferCase_inv closeRoleActions_inv roleCandidates_good ensurePolicy_inv
    finishOwnerCase_inv restKeeps_inv)+

lemma noClash_nth: "\<not> anyClash case_clash t \<Longrightarrow> i < j \<Longrightarrow> j < length t \<Longrightarrow> t ! i \<noteq> t ! j"
  by (simp add: anyClash_sorted sorted_wrt_iff_nth_less) (metis case_t.clash_key)

text \<open>C8: an obligation is pursued by one case at a time. Whatever passes of the scanner and of the owner reminders, new policies and feedback
  run in whatever order beside the rest of the service, from the empty store on: no two active cases of a tenant are about
  the same receivable, the same plan, or a plan and the receivable that comes from it.\<close>

theorem one_active_case:
  assumes "dunning_run h empty_db d"
  shows "sorted_wrt (\<lambda>a b. \<not> (dc_status a = CASE_ACTIVE \<and> dc_status b = CASE_ACTIVE \<and> sameObligation d a b)) (dunning_cases d)"
proof -
  have inv: "case_inv h d" by (rule one.run_keeps [OF assms empty_inv])
  show ?thesis unfolding sorted_wrt_iff_nth_less
    using active_apart [OF inv] noClash_nth [OF case_invD(1) [OF inv]] by (meson nth_mem order.strict_trans)
qed

lemma empty_to_dunStore: "restKeeps empty_db dunStore"
proof -
  have t: "trimSpace ''V'' = ''V''" "trimSpace ''P'' = ''P''" by code_simp+
  show ?thesis by (simp add: restKeeps_def dunStore_def sampleStore_def empty_db_def keyed_def sampleReceivable_def samplePlan_def t)
qed

lemma sample_run: "dunning_run jsonText empty_db scannedStore"
proof -
  have ids: "\<forall>i. e_ids (dunEnv x) i \<noteq> ''''" for x by (simp add: dunEnv_def)
  have "dunning_run jsonText empty_db dunStore" by (rule dunning_run.rest [OF dunning_run.start empty_to_dunStore])
  then have "dunning_run jsonText empty_db ownedStore"
    unfolding ownedStore_def by (rule dunning_run.remind [OF _ ids]) (simp add: dunEnv_def)
  then have "dunning_run jsonText empty_db (policyStore ''carl'' ownedStore)"
    by (rule dunning_run.policy [OF _ owned_policy]) simp
  then show ?thesis unfolding scannedStore_def by (rule dunning_run.scan [OF _ ids])
qed

theorem one_active_case_witness:
  "map dc_id (filter (\<lambda>c. dc_status c = CASE_ACTIVE) (dunning_cases scannedStore)) = [''a''] \<and>
   sorted_wrt (\<lambda>a b. \<not> (dc_status a = CASE_ACTIVE \<and> dc_status b = CASE_ACTIVE \<and> sameObligation scannedStore a b))
     (dunning_cases scannedStore)"
  by (rule conjI [OF owned_scanned one_active_case [OF sample_run]])

end
