(* ===== verification/ScanProps.thy ===== *)
theory ScanProps
  imports OneCase
begin

text \<open>
  More of the dunning passes: the rows they leave behind are well formed, and what stops the scanner from opening cases.
\<close>

section \<open>Well-formed cases\<close>

definition caseTyped :: "dunning_case \<Rightarrow> bool" where
  "caseTyped c \<longleftrightarrow> 0 \<le> dc_level c \<and> dc_level c \<le> 5 \<and> (dc_receivable c \<noteq> None \<or> dc_plan c \<noteq> None) \<and>
     (case dc_status c of CASE_ACTIVE \<Rightarrow> dc_closed_reason c = ''''
      | CASE_CLOSED \<Rightarrow> dc_closed_reason c = ''RECEIVABLE_SETTLED'' \<or> dc_closed_reason c = ''SOURCE_STATE_CHANGED'')"

definition rowsTyped :: "db \<Rightarrow> bool" where
  "rowsTyped d \<longleftrightarrow> (\<forall>c \<in> set (dunning_cases d). caseTyped c)"

lemma rowsTyped_update:
  "rowsTyped d \<Longrightarrow> (\<And>c. c \<in> set (dunning_cases d) \<Longrightarrow> P c \<Longrightarrow> caseTyped c \<Longrightarrow> caseTyped (f c)) \<Longrightarrow>
   rowsTyped (d\<lparr>dunning_cases := update_rows P f (dunning_cases d)\<rparr>)"
  by (auto simp: rowsTyped_def update_rows_def)

lemma rowsTyped_cong: "rowsTyped d \<Longrightarrow> dunning_cases d' = dunning_cases d \<Longrightarrow> rowsTyped d'"
  by (simp add: rowsTyped_def)

lemma rowsTyped_insert:
  "rowsTyped d \<Longrightarrow> insert_row case_clash n (dunning_cases d) = Inr t \<Longrightarrow> caseTyped n \<Longrightarrow> rowsTyped (d\<lparr>dunning_cases := t\<rparr>)"
  by (auto simp: rowsTyped_def insert_row_Inr)

lemma closeCases_typed: "rowsTyped d \<Longrightarrow> rowsTyped (closeCases e d)"
  unfolding closeCases_def by (rule rowsTyped_update) (auto simp: caseTyped_def split: case_status.splits)

lemma reopenSettled_typed: "rowsTyped d \<Longrightarrow> rowsTyped (snd (reopenSettled s e l d))"
  by (simp add: reopenSettled_def Let_def)
     (auto intro!: rowsTyped_update simp: reopened_def caseTyped_def split: case_status.splits)

lemma advanceCase_typed: "rowsTyped d \<Longrightarrow> rowsTyped (advanceCase e x d)"
  unfolding advanceCase_def by (rule rowsTyped_update) (auto simp: caseTyped_def split: case_status.splits)

lemma deferCase_typed: "rowsTyped d \<Longrightarrow> rowsTyped (deferCase e x d)"
  unfolding deferCase_def by (rule rowsTyped_update) (auto simp: caseTyped_def split: case_status.splits)

lemma finishOwnerCase_typed: "rowsTyped d \<Longrightarrow> rowsTyped (finishOwnerCase w e cid n phase d)"
  unfolding finishOwnerCase_def by (rule rowsTyped_update) (auto simp: caseTyped_def split: case_status.splits)

lemma closeRoleActions_typed: "rowsTyped d \<Longrightarrow> rowsTyped (closeRoleActions w e d)"
  unfolding closeRoleActions_def Let_def
  by (rule rowsTyped_update, erule rowsTyped_cong) (auto simp: caseTyped_def split: case_status.splits)

lemma insertCase_typed: "rowsTyped d \<Longrightarrow> insertCase e cid c d = Some t \<Longrightarrow> rowsTyped (d\<lparr>dunning_cases := t\<rparr>)"
  by (erule rowsTyped_insert [OF _ insertCase_Some]) (simp_all add: newCase_def caseTyped_def)

lemma claimOwnerCase_typed:
  assumes inv: "case_inv h d" and typed: "rowsTyped d" and r: "claimOwnerCase w e cid c d = Inr (Some (k, d'))"
  shows "rowsTyped d'"
proof (cases "find (\<lambda>x. dc_tenant x = rw_tenant w \<and> dc_plan x = Some (rr_plan c) \<and> dc_policy x = ownerPolicyId e (rw_tenant w) \<and> dc_policy_version x = 1)
    (dunning_cases d)")
  case None
  with r obtain t where t: "insert_row case_clash (ownerCase e cid (rw_tenant w) c) (dunning_cases d) = Inr t" "d' = d\<lparr>dunning_cases := t\<rparr>"
    by (auto simp: claimOwnerCase_def Let_def split: sum.splits if_splits)
  show ?thesis unfolding t(2) by (rule rowsTyped_insert [OF typed t(1)]) (simp add: ownerCase_def caseTyped_def)
next
  case (Some x)
  then have x: "dc_plan x = Some (rr_plan c)" "x \<in> set (dunning_cases d)" by (blast dest: find_SomeD)+
  let ?f = "\<lambda>y. y\<lparr>dc_status := CASE_ACTIVE, dc_receivable := (if rr_receivable c = '''' then None else Some (rr_receivable c)), dc_closed_reason := ''''\<rparr>"
  have d': "d' = d\<lparr>dunning_cases := update_rows (\<lambda>y. dc_tenant y = rw_tenant w \<and> dc_id y = dc_id x) ?f (dunning_cases d)\<rparr>"
    using r Some by (simp add: claimOwnerCase_def Let_def split: if_splits)
  show ?thesis unfolding d'
  proof (rule rowsTyped_update [OF typed])
    fix y assume y: "y \<in> set (dunning_cases d)" "dc_tenant y = rw_tenant w \<and> dc_id y = dc_id x" "caseTyped y"
    have "y = x" by (rule case_keys [OF inv y(1) x(2)]) (use y in \<open>simp add: case_clash_def\<close>)
    with x y show "caseTyped (?f y)" by (simp add: caseTyped_def)
  qed
qed

lemma CreateDunningPolicy_cases: "CreateDunningPolicy e p i d = Inr (pid, d') \<Longrightarrow> dunning_cases d' = dunning_cases d"
  by (erule CreateDunningPolicy_effect)

interpretation typed: pass_invariant "\<lambda>d. case_inv h d \<and> rowsTyped d" h for h
proof unfold_locales
  fix d d' e p i pid
  assume "case_inv h d \<and> rowsTyped d" "CreateDunningPolicy e p i d = Inr (pid, d')" "\<forall>tenant. pid \<noteq> take 32 (h (JStr (tenant @ '':CONTRACT_OWNER'')))"
  then show "case_inv h d' \<and> rowsTyped d'" using one.policies rowsTyped_cong CreateDunningPolicy_cases by blast
next
  fix d d' :: db
  assume "case_inv h d \<and> rowsTyped d" "restKeeps d d'"
  then show "case_inv h d' \<and> rowsTyped d'" using one.others rowsTyped_cong unfolding restKeeps_def by blast
next
  fix d and w :: RoleReminderWorker and k e cid cid' d'
  assume "case_inv h d \<and> rowsTyped d" "goodPlan d (rw_tenant w) k" "e_sha256 e = h" "cid \<noteq> ''''" "claimOwnerCase w e cid k d = Inr (Some (cid', d'))"
  then show "case_inv h d' \<and> rowsTyped d'" using one.claims claimOwnerCase_typed by blast
next
  fix d tenant rules and e :: env
  assume "case_inv h d \<and> rowsTyped d" "e_sha256 e = h"
  moreover have "dunning_cases (ensurePolicy e tenant rules d) = dunning_cases d" by (simp add: ensurePolicy_def split: sum.split)
  ultimately show "case_inv h (ensurePolicy e tenant rules d) \<and> rowsTyped (ensurePolicy e tenant rules d)"
    using one.ensures rowsTyped_cong by blast
next
  fix d d' :: db
  assume "case_inv h d \<and> rowsTyped d" "dunning_cases d' = dunning_cases d" "receivables d' = receivables d" "plans d' = plans d"
    "dunning_policies (sides d') = dunning_policies (sides d)"
  then show "case_inv h d' \<and> rowsTyped d'" using case_inv_cong rowsTyped_cong by blast
qed (blast intro: one.opens insertCase_typed one.closes closeCases_typed one.reopens reopenSettled_typed one.advances advanceCase_typed one.defers
    deferCase_typed one.outdates closeRoleActions_typed one.finishes finishOwnerCase_typed one.offers)+

text \<open>C31: the rows of dunning cases are well formed. Whatever passes, policies, feedback and other operations run from the empty store on,
  the escalation level of every case is between 0 and 5, the case is about a receivable or a plan, and it has a reason for being closed
  exactly when it is closed.\<close>

theorem cases_well_formed:
  assumes "dunning_run h empty_db d"
  shows "list_all caseTyped (dunning_cases d)"
proof -
  have "case_inv h d \<and> rowsTyped d" by (rule typed.run_keeps [OF assms], rule conjI [OF empty_inv]) (simp add: rowsTyped_def empty_db_def)
  then show ?thesis by (simp add: rowsTyped_def list_all_iff)
qed

theorem cases_well_formed_witness:
  "map dc_id (filter (\<lambda>c. dc_status c = CASE_ACTIVE) (dunning_cases scannedStore)) = [''a''] \<and> list_all caseTyped (dunning_cases scannedStore)"
  by (rule conjI [OF owned_scanned cases_well_formed [OF sample_run]])

section \<open>What stops the scanner\<close>

text \<open>The store after the first two statements of a pass.\<close>

definition afterReopen :: "Scanner \<Rightarrow> env \<Rightarrow> db \<Rightarrow> db" where
  "afterReopen s e d = snd (reopenSettled s e 3 (closeCases e (cancelActions d)))"

lemma afterReopen_tables [simp]:
  "dunning_policies (sides (afterReopen s e d)) = dunning_policies (sides d)" "receivables (afterReopen s e d) = receivables d"
  "map dc_id (dunning_cases (afterReopen s e d)) = map dc_id (dunning_cases d)"
  by (simp_all add: afterReopen_def reopenSettled_def closeCases_def cancelActions_def reopened_def Let_def map_update_rows_key)

lemma ScanOnce_licensed:
  assumes "\<forall>l. licensed s l"
  shows "ScanOnce s e d =
    (case createInitialCases s e \<lparr>tk_id = 0, tk_lic = 4\<rparr> (scanBatch s) (afterReopen s e d) of
        (Some err, _, d3) \<Rightarrow> (Some err, d3)
      | (None, t, d3) \<Rightarrow> (case runDueCases s e t (scanBatch s) d3 of (r, _, d4) \<Rightarrow> (r, d4)))"
  using assms by (simp add: ScanOnce_def closeSettled_def reopenSettled_def afterReopen_def Let_def)

lemma candidate_policy:
  assumes "c \<in> set (initialCandidates e n d)"
  obtains p where "p \<in> set (dunning_policies (sides d))" "dp_id p = ca_policy c" "dp_recipient p = ca_rule c"
proof -
  from assms obtain v where "candidateFor e d v = Some c" by (auto simp: initialCandidates_def dest!: in_set_takeD)
  then obtain cs p where p: "policyFor e d v = Some p" "c = candidateOf e cs p v"
    by (auto simp: candidateFor_def split: option.splits if_splits)
  from p(1) have "p \<in> set (dunning_policies (sides d))" by (auto simp: policyFor_def dest: best_in)
  then show thesis by (rule that) (simp_all add: p(2) candidateOf_def)
qed

lemma CreateDunningPolicy_policies:
  assumes "CreateDunningPolicy e p i d = Inr (pid, d')"
  shows "dunning_policies (sides d') = dunning_policies (sides d) @ [newPolicy pid (p_tenant p) i]"
    "\<forall>q \<in> set (dunning_policies (sides d)). dp_id q \<noteq> pid"
proof -
  from assms obtain ps where ps: "insert_row policy_clash (newPolicy pid (p_tenant p) i) (dunning_policies (sides d)) = Inr ps"
    "sides d' = sides (set_policies ps d)" by (rule CreateDunningPolicy_effect)
  then show "dunning_policies (sides d') = dunning_policies (sides d) @ [newPolicy pid (p_tenant p) i]" by (simp add: insert_row_Inr)
  from ps(1) show "\<forall>q \<in> set (dunning_policies (sides d)). dp_id q \<noteq> pid"
    unfolding insert_row_Inr policy_clash_def by (auto simp: newPolicy_def)
qed

text \<open>C30: one policy without a recipient stops the scanner for everybody. A policy is accepted as soon as its recipient rule begins with
  the prefix of a user, also with no user behind it; when the first candidate of a pass falls under such a policy the pass ends with
  an error, opens no case of any tenant and repeats no action.\<close>

theorem blank_recipient_stops_scan:
  assumes created: "CreateDunningPolicy e0 p i d0 = Inr (pid, d)" and refused: "recipientUser (pi_recipient i) = Inl err"
    and licence: "\<forall>l. licensed s l"
    and first: "initialCandidates e (scanBatch s) (afterReopen s e d) = c # cs" "ca_policy c = pid"
  shows "ScanOnce s e d = (Some err, afterReopen s e d)"
proof -
  obtain q where q: "q \<in> set (dunning_policies (sides d))" "dp_id q = pid" "dp_recipient q = ca_rule c"
    by (rule candidate_policy [of c e "scanBatch s" "afterReopen s e d"]) (use first in simp_all)
  with CreateDunningPolicy_policies [OF created] have "q = newPolicy pid (p_tenant p) i" by auto
  then have "ca_rule c = pi_recipient i" using q(3) by (simp add: newPolicy_def)
  then show ?thesis using refused first by (simp add: ScanOnce_licensed [OF licence] createInitialCases_def)
qed

section \<open>A blocked batch\<close>

text \<open>A candidate for which the pass does nothing: nobody to assign it to, or another active case on the obligation.\<close>

definition blocked :: "Scanner \<Rightarrow> db \<Rightarrow> candidate \<Rightarrow> bool" where
  "blocked s d c \<longleftrightarrow> (\<exists>r. recipientUser (ca_rule c) = Inr r \<and>
     (eligible s r \<noteq> Some True \<or> frozen d (ca_tenant c) r \<or>
      activeCaseConflict d (ca_tenant c) (ca_receivable c) (ca_plan c) (ca_policy c) (ca_version c) \<noteq> ''''))"

lemma openCases_blocked:
  assumes "\<forall>l. licensed s l"
  shows "\<forall>c \<in> set cs. blocked s d c \<Longrightarrow> \<exists>t'. openCases s e t cs d = (None, t', d)"
proof (induction cs arbitrary: t)
  case (Cons c cs)
  then obtain r where r: "recipientUser (ca_rule c) = Inr r"
    "eligible s r \<noteq> Some True \<or> frozen d (ca_tenant c) r \<or>
     activeCaseConflict d (ca_tenant c) (ca_receivable c) (ca_plan c) (ca_policy c) (ca_version c) \<noteq> ''''" by (auto simp: blocked_def)
  show ?case
  proof (cases "eligible s r \<noteq> Some True \<or> frozen d (ca_tenant c) r")
    case False
    with r(2) assms have "createInitial s e t c r d = Inr (tick 2 2 t, d)" by (simp add: createInitial_def Let_def)
    with False r(1) Cons show ?thesis by simp
  qed (use r(1) Cons in simp)
qed simp

lemma createRepeat_ids: "createRepeat s e t x r d = Inr (t', d') \<Longrightarrow> map dc_id (dunning_cases d') = map dc_id (dunning_cases d)"
  by (auto simp: createRepeat_def andThen_eq_Inr advanceCase_def map_update_rows_key split: if_splits option.splits dest!: insertAction_tables)

lemma repeatCases_ids: "map dc_id (dunning_cases (snd (snd (repeatCases s e t xs d)))) = map dc_id (dunning_cases d)"
proof (induction xs arbitrary: t d)
  case (Cons x xs)
  have "map dc_id (dunning_cases (deferCase e x d)) = map dc_id (dunning_cases d)" by (simp add: deferCase_def map_update_rows_key)
  with Cons show ?case by (auto split: sum.split dest: createRepeat_ids)
qed simp

text \<open>C29: candidates that can never be served starve the others. When every candidate of the batch is blocked, the pass opens no case at
  all; the same candidates come first again in the next pass, so an overdue receivable behind them is not reached.\<close>

theorem blocked_batch_starves:
  assumes licence: "\<forall>l. licensed s l" and batch: "\<forall>c \<in> set (initialCandidates e (scanBatch s) (afterReopen s e d)). blocked s (afterReopen s e d) c"
  shows "map dc_id (dunning_cases (snd (ScanOnce s e d))) = map dc_id (dunning_cases d)"
proof -
  obtain t where "createInitialCases s e \<lparr>tk_id = 0, tk_lic = 4\<rparr> (scanBatch s) (afterReopen s e d) = (None, t, afterReopen s e d)"
    using openCases_blocked [OF licence batch] unfolding createInitialCases_def by blast
  then show ?thesis using repeatCases_ids [of s e t "dueCases e (scanBatch s) (afterReopen s e d)" "afterReopen s e d"]
    by (auto simp: ScanOnce_licensed [OF licence] runDueCases_def split: prod.split)
qed

section \<open>Witnesses\<close>

lemma dunScanner_licensed: "\<forall>l. licensed (dunScanner n) l"
  by (simp add: licensed_def dunScanner_def)

definition blankStore :: db where
  "blankStore = policyStore '''' dunStore"

lemma blank_policy:
  "CreateDunningPolicy (dunEnv CHR ''b'') (sampleUser ''eve'') (dunPolicy '''') dunStore = Inr (''b'', blankStore)"
proof -
  have "(case CreateDunningPolicy (dunEnv CHR ''b'') (sampleUser ''eve'') (dunPolicy '''') dunStore of Inl _ \<Rightarrow> False | Inr (i, _) \<Rightarrow> i = ''b'')"
    by code_simp
  then show ?thesis by (simp add: blankStore_def policyStore_def split: sum.splits prod.splits)
qed

theorem blank_recipient_stops_scan_witness:
  "ScanOnce (dunScanner 0) (dunEnv CHR ''c'') blankStore = (Some (UnsupportedRecipient ''USER:''), afterReopen (dunScanner 0) (dunEnv CHR ''c'') blankStore)"
proof -
  let ?cs = "initialCandidates (dunEnv CHR ''c'') (scanBatch (dunScanner 0)) (afterReopen (dunScanner 0) (dunEnv CHR ''c'') blankStore)"
  have "map ca_policy ?cs = [''b'']" by code_simp
  then obtain c where c: "?cs = c # []" "ca_policy c = ''b''" by (auto simp: map_eq_Cons_conv)
  have r: "recipientUser (pi_recipient (dunPolicy '''')) = Inl (UnsupportedRecipient ''USER:'')" by code_simp
  show ?thesis by (rule blank_recipient_stops_scan [OF blank_policy r dunScanner_licensed c])
qed

text \<open>A second overdue receivable behind the one whose owner was reminded.\<close>

definition crowdedStore :: db where
  "crowdedStore = (policyStore ''carl'' ownedStore)\<lparr>receivables := [sampleReceivable,
     sampleReceivable\<lparr>rv_id := ''W'', rv_no := ''AR-2'', rv_plan := ''Q'', rv_due := ''2024-07-05''\<rparr>]\<rparr>"

lemma crowded_blocked:
  "\<forall>c \<in> set (initialCandidates (dunEnv CHR ''c'') (scanBatch (dunScanner 1)) (afterReopen (dunScanner 1) (dunEnv CHR ''c'') crowdedStore)).
     blocked (dunScanner 1) (afterReopen (dunScanner 1) (dunEnv CHR ''c'') crowdedStore) c"
proof -
  let ?d = "afterReopen (dunScanner 1) (dunEnv CHR ''c'') crowdedStore"
  have "list_all (\<lambda>c. recipientUser (ca_rule c) = Inr ''carl'' \<and>
      activeCaseConflict ?d (ca_tenant c) (ca_receivable c) (ca_plan c) (ca_policy c) (ca_version c) \<noteq> '''')
    (initialCandidates (dunEnv CHR ''c'') (scanBatch (dunScanner 1)) ?d)" by code_simp
  then show ?thesis by (auto simp: list_all_iff blocked_def)
qed

theorem blocked_batch_starves_witness:
  "map dc_id (dunning_cases (snd (ScanOnce (dunScanner 1) (dunEnv CHR ''c'') crowdedStore))) = map dc_id (dunning_cases crowdedStore) \<and>
   map dc_id (dunning_cases (snd (ScanOnce (dunScanner 2) (dunEnv CHR ''c'') crowdedStore))) = [''a'', ''ccc'']"
proof (rule conjI)
  show "map dc_id (dunning_cases (snd (ScanOnce (dunScanner 1) (dunEnv CHR ''c'') crowdedStore))) = map dc_id (dunning_cases crowdedStore)"
    by (rule blocked_batch_starves [OF dunScanner_licensed crowded_blocked])
  show "map dc_id (dunning_cases (snd (ScanOnce (dunScanner 2) (dunEnv CHR ''c'') crowdedStore))) = [''a'', ''ccc'']" by code_simp
qed

end
