(* ===== verification/DunningProps.thy ===== *)
theory DunningProps
  imports RoleReminder OutboxProps
begin

text \<open>
  The coverage of the days of age by dunning policies: the gaps are the days that no policy with a proper lower bound covers.
\<close>

section \<open>Coverage\<close>

definition inGap :: "int \<Rightarrow> DunningCoverageGap \<Rightarrow> bool" where
  "inGap day g \<longleftrightarrow> vg_from g \<le> day \<and> (vg_open g \<or> day \<le> vg_to g)"

definition coversDay :: "int \<Rightarrow> DunningCoveragePolicy \<Rightarrow> bool" where
  "coversDay day p \<longleftrightarrow> 0 \<le> vp_from p \<and> vp_from p \<le> day \<and> day \<le> vp_to p"

lemma gaps_exact:
  assumes "sorted_wrt (\<lambda>p q. vp_from p \<le> vp_from q) ps"
  shows "(\<exists>g \<in> set (coverageGapsFrom c ps). inGap day g) \<longleftrightarrow> c \<le> day \<and> \<not> (\<exists>p \<in> set ps. coversDay day p)"
  using assms
proof (induction ps arbitrary: c)
  case (Cons p ps)
  have IH: "(\<exists>g \<in> set (coverageGapsFrom k ps). inGap day g) \<longleftrightarrow> k \<le> day \<and> \<not> (\<exists>p \<in> set ps. coversDay day p)" for k
    using Cons.IH Cons.prems by simp
  have later: "vp_from p \<le> day" if "q \<in> set ps" "coversDay day q" for q
    using Cons.prems that by (fastforce simp: coversDay_def)
  show ?case
  proof (cases "vp_from p < 0 \<or> vp_to p < vp_from p")
    case True
    then have "\<not> coversDay day p" by (auto simp: coversDay_def)
    with True IH [of c] show ?thesis by simp
  next
    case False
    then have "(\<exists>g \<in> set (coverageGapsFrom c (p # ps)). inGap day g) \<longleftrightarrow>
        (c < vp_from p \<and> c \<le> day \<and> day < vp_from p) \<or> (max c (vp_to p + 1) \<le> day \<and> \<not> (\<exists>p \<in> set ps. coversDay day p))"
      using IH [of "vp_to p + 1"] IH [of c] by (auto simp: inGap_def)
    moreover have "coversDay day p \<longleftrightarrow> vp_from p \<le> day \<and> day \<le> vp_to p" using False by (auto simp: coversDay_def)
    moreover have "(c < vp_from p \<and> c \<le> day \<and> day < vp_from p) \<or> (max c (vp_to p + 1) \<le> day \<and> \<not> (\<exists>p \<in> set ps. coversDay day p)) \<longleftrightarrow>
        c \<le> day \<and> \<not> (vp_from p \<le> day \<and> day \<le> vp_to p) \<and> \<not> (\<exists>p \<in> set ps. coversDay day p)"
      using False later by (cases "\<exists>p \<in> set ps. coversDay day p") auto
    ultimately show ?thesis by simp
  qed
qed (simp add: inGap_def)

interpretation coverage: row_order coverageOrder
proof unfold_locales
  fix a b c :: dunning_policy
  show "coverageOrder a b \<Longrightarrow> \<not> coverageOrder b a" by (auto simp: coverageOrder_def dest: strLess_asym)
  show "\<not> coverageOrder b a \<Longrightarrow> \<not> coverageOrder c b \<Longrightarrow> \<not> coverageOrder c a"
    using strLess_not_trans [of "dp_id b" "dp_id a" "dp_id c"] by (auto simp: coverageOrder_def)
qed

text \<open>A day lies in one of the reported gaps exactly when it is a day of age from one on and no enabled policy of the tenant with a non-negative
  lower bound covers it.\<close>

lemma coverage_gaps:
  "(\<exists>g \<in> set (snd (DunningCoverage p d)). inGap day g) \<longleftrightarrow>
   1 \<le> day \<and> \<not> (\<exists>x \<in> set (dunning_policies (sides d)). dp_tenant x = p_tenant p \<and> dp_enabled x \<and>
     0 \<le> dp_from x \<and> dp_from x \<le> day \<and> day \<le> dp_to x)"
proof -
  let ?ps = "orderBy coverageOrder (filter (\<lambda>x. dp_tenant x = p_tenant p \<and> dp_enabled x) (dunning_policies (sides d)))"
  have "sorted_wrt (\<lambda>a b. \<not> coverageOrder b a) ?ps" by (rule coverage.orderBy_sorted)
  then have "sorted_wrt (\<lambda>a b. dp_from a \<le> dp_from b) ?ps" by (rule sorted_wrt_mono_rel [rotated]) (auto simp: coverageOrder_def)
  then have "sorted_wrt (\<lambda>a b. vp_from a \<le> vp_from b) (map coveragePolicy ?ps)" by (simp add: sorted_wrt_map coveragePolicy_def)
  from gaps_exact [OF this, of 1 day] show ?thesis
    by (simp add: DunningCoverage_def dunningCoverageGaps_def coversDay_def coveragePolicy_def Let_def) blast
qed

end
