(* ===== verification/Coverage.thy ===== *)
theory Coverage
  imports DunningProps ScanProps
begin

text \<open>
  What the gaps shown to operators mean for the scanner: the receivables of the days in a gap are the ones it has no policy for.
\<close>

section \<open>The policies of users and of the owner reminders\<close>

text \<open>Only the policy of the owner reminders begins before the due day, and only it has the contract owner as its recipient.\<close>

definition rangedPolicies :: "db \<Rightarrow> bool" where
  "rangedPolicies d \<longleftrightarrow> (\<forall>q \<in> set (dunning_policies (sides d)). dp_from q < 0 \<longleftrightarrow> dp_recipient q = ''CONTRACT_OWNER'')"

lemma rangedPolicies_cong: "rangedPolicies d \<Longrightarrow> dunning_policies (sides d') = dunning_policies (sides d) \<Longrightarrow> rangedPolicies d'"
  by (simp add: rangedPolicies_def)

lemma policies_frames [simp]:
  "dunning_policies (sides (closeCases e d)) = dunning_policies (sides d)"
  "dunning_policies (sides (snd (reopenSettled s e l d))) = dunning_policies (sides d)"
  "dunning_policies (sides (advanceCase e x d)) = dunning_policies (sides d)"
  "dunning_policies (sides (deferCase e x d)) = dunning_policies (sides d)"
  "dunning_policies (sides (closeRoleActions w e d)) = dunning_policies (sides d)"
  "dunning_policies (sides (finishOwnerCase w e cid n phase d)) = dunning_policies (sides d)"
  by (simp_all add: closeCases_def reopenSettled_def advanceCase_def deferCase_def closeRoleActions_def finishOwnerCase_def Let_def)

lemma claimOwnerCase_policies:
  "claimOwnerCase w e cid c d = Inr (Some (k, d')) \<Longrightarrow> dunning_policies (sides d') = dunning_policies (sides d)"
  by (auto simp: claimOwnerCase_def Let_def split: option.split_asm sum.split_asm if_split_asm)

lemma ensurePolicy_ranged: "rangedPolicies d \<Longrightarrow> rangedPolicies (ensurePolicy e tenant rules d)"
  by (auto simp: ensurePolicy_def rangedPolicies_def insert_row_Inr ownerPolicy_def split: sum.splits)

lemma CreateDunningPolicy_ranged:
  assumes "rangedPolicies d" "CreateDunningPolicy e p i d = Inr (pid, d')"
  shows "rangedPolicies d'"
proof -
  from assms(2) have "0 \<le> pi_from i" "hasPrefix (pi_recipient i) ''USER:''" by (auto simp: CreateDunningPolicy_def split: if_splits)
  then have "0 \<le> pi_from i" "pi_recipient i \<noteq> ''CONTRACT_OWNER''" by (auto simp: hasPrefix_def)
  with assms(1) CreateDunningPolicy_policies(1) [OF assms(2)] show ?thesis by (auto simp: rangedPolicies_def newPolicy_def)
qed

interpretation ranged: pass_invariant "\<lambda>d. case_inv h d \<and> rangedPolicies d" h for h
proof unfold_locales
  fix d d' e p i pid
  assume "case_inv h d \<and> rangedPolicies d" "CreateDunningPolicy e p i d = Inr (pid, d')"
    "\<forall>tenant. pid \<noteq> take 32 (h (JStr (tenant @ '':CONTRACT_OWNER'')))"
  then show "case_inv h d' \<and> rangedPolicies d'" using one.policies CreateDunningPolicy_ranged by blast
next
  fix d d' :: db
  assume "case_inv h d \<and> rangedPolicies d" "restKeeps d d'"
  then show "case_inv h d' \<and> rangedPolicies d'" using one.others rangedPolicies_cong unfolding restKeeps_def by blast
next
  fix d and w :: RoleReminderWorker and k e cid cid' d'
  assume "case_inv h d \<and> rangedPolicies d" "goodPlan d (rw_tenant w) k" "e_sha256 e = h" "cid \<noteq> ''''"
    "claimOwnerCase w e cid k d = Inr (Some (cid', d'))"
  then show "case_inv h d' \<and> rangedPolicies d'" using one.claims claimOwnerCase_policies rangedPolicies_cong by blast
next
  fix d d' :: db
  assume "case_inv h d \<and> rangedPolicies d" "dunning_cases d' = dunning_cases d" "receivables d' = receivables d" "plans d' = plans d"
    "dunning_policies (sides d') = dunning_policies (sides d)"
  then show "case_inv h d' \<and> rangedPolicies d'" using case_inv_cong rangedPolicies_cong by blast
next
  fix d c cid e t
  assume "case_inv h d \<and> rangedPolicies d" "goodCandidate (receivables d) (dunning_policies (sides d)) c" "cid \<noteq> ''''"
    "activeCaseConflict d (ca_tenant c) (ca_receivable c) (ca_plan c) (ca_policy c) (ca_version c) = ''''" "insertCase e cid c d = Some t"
  then show "case_inv h (d\<lparr>dunning_cases := t\<rparr>) \<and> rangedPolicies (d\<lparr>dunning_cases := t\<rparr>)"
    using one.opens rangedPolicies_cong [of d "d\<lparr>dunning_cases := t\<rparr>"] by simp
qed (use one.closes one.reopens one.advances one.defers one.outdates one.finishes one.offers one.ensures ensurePolicy_ranged
    in \<open>auto intro: rangedPolicies_cong\<close>)

section \<open>Gaps\<close>

text \<open>C28: the gaps that operators see are the ages the scanner leaves out. In every store that passes of the workers, new policies,
  feedback and the rest of the service lead to: the age of an overdue receivable lies in a gap reported for its tenant exactly when no policy
  applies to it, and then the scanner has no candidate for it. The policy of the owner reminders covers every age, but it counts
  on neither side.\<close>

theorem coverage_gaps_exact:
  assumes "dunning_run h empty_db d" "rv_tenant v = p_tenant p" "overdue e v"
  shows "((\<exists>g \<in> set (snd (DunningCoverage p d)). inGap (agingOf e (rv_due v)) g) \<longleftrightarrow> policyFor e d v = None) \<and>
    ((\<exists>g \<in> set (snd (DunningCoverage p d)). inGap (agingOf e (rv_due v)) g) \<longrightarrow> candidateFor e d v = None)"
proof -
  let ?day = "agingOf e (rv_due v)"
  have "case_inv h empty_db \<and> rangedPolicies empty_db" by (rule conjI [OF empty_inv]) (simp add: rangedPolicies_def empty_db_def)
  from ranged.run_keeps [OF assms(1) this] have r: "rangedPolicies d" ..
  have "(\<exists>g \<in> set (snd (DunningCoverage p d)). inGap ?day g) \<longleftrightarrow> policyFor e d v = None"
    using r assms(2,3) unfolding coverage_gaps
    by (auto simp: policyFor_def filter_empty_conv scannedPolicy_def rangedPolicies_def overdue_def not_less)
  then show ?thesis by (auto simp: candidateFor_def split: option.splits)
qed

text \<open>The owner's policy is there and a policy for the days 1 to 90: the sample receivable on its tenth day is in no gap, one of age 100 is.\<close>

definition agedReceivable :: receivable where
  "agedReceivable = sampleReceivable\<lparr>rv_due := ''2024-04-01''\<rparr>"

theorem coverage_gaps_exact_witness:
  "policyFor (dunEnv CHR ''d'') scannedStore agedReceivable = None \<and>
   (\<exists>g \<in> set (snd (DunningCoverage (sampleUser ''eve'') scannedStore)). inGap 100 g) \<and>
   \<not> (\<exists>g \<in> set (snd (DunningCoverage (sampleUser ''eve'') scannedStore)). inGap 10 g)"
proof -
  have t: "rv_tenant agedReceivable = p_tenant (sampleUser ''eve'')" "rv_tenant sampleReceivable = p_tenant (sampleUser ''eve'')" by code_simp+
  have o: "overdue (dunEnv CHR ''d'') agedReceivable" "overdue (dunEnv CHR ''d'') sampleReceivable" by code_simp+
  have a: "agingOf (dunEnv CHR ''d'') (rv_due agedReceivable) = 100" "agingOf (dunEnv CHR ''d'') (rv_due sampleReceivable) = 10" by code_simp+
  have f: "policyFor (dunEnv CHR ''d'') scannedStore agedReceivable = None" "policyFor (dunEnv CHR ''d'') scannedStore sampleReceivable \<noteq> None"
    by code_simp+
  from coverage_gaps_exact [OF sample_run t(1) o(1)] coverage_gaps_exact [OF sample_run t(2) o(2)] f show ?thesis by (simp add: a)
qed

end
