(* ===== verification/Spec2Isabelle.thy ===== *)
theory Spec2Isabelle
  imports FinanceProps Replay InvoiceProps OutboxProps Refusals DeadLetterProps IngestProps ResponsibilityProps ImportProps ReconcileProps ScanProps Coverage
begin

text \<open>
  A verification of the settlement service: contracts with their plans, the ledger of receipts,
  receivables and their allocation, invoices and the tax provider, the delivery of events, and dunning.

  The service keeps its state in a relational store and changes it in transactions, one per
  command. The model is a record of tables (Store.thy) with the columns the operations use; a
  command is a function from the store to an error or to its result and the next store, so an
  error leaves the store as it was. Identifiers, the clock and the digest of a request are
  arguments (\<open>env\<close>), as are the services the code calls (the ERP, the CRM publisher, the HTTP
  answers of the platform). Amounts are cents, days are texts in ISO order, instants are milliseconds.

  Foundations:
  \<^item> Settlement\_Prelude.thy: results as sums, JSON values, tables as lists of rows with the statements
    SELECT, INSERT, UPDATE and DELETE, keyed tables (locale \<open>keyed_table\<close>) and runs of commands that
    keep an invariant (locale \<open>tx_commands\<close>).
  \<^item> GoText.thy: the functions of the Go library on strings that the code uses.
  \<^item> Money.thy, BusinessDate.thy: amounts (service.go, decimal.go) and days (businessclock.go,
    business\_date.go).
  \<^item> RoleScope.thy: permissions and contract responsibility (role\_scope.go).
  \<^item> Events.thy: idempotency records, outbox and audit (idempotency.go, outbox\_helper.go).
  \<^item> ImportFacts.thy: historical facts and the import lock (contract\_import.go).

  Contracts and plans:
  \<^item> Contracts.thy: events of contracts (service.go), their later versions and the work items of a
    revision (contract\_revision.go), staging of imported contracts (contract\_import.go), the stream of
    responsible persons (contract\_responsibility\_ingest.go).
  \<^item> ContractProps.thy: the plans of a version add up to its amount, what has happened stays;
    IngestProps.thy: an event is taken once, and what blocks a revision; ResponsibilityProps.thy:
    the newest event decides in any order of delivery.
  \<^item> Plans.thy, PlanProps.thy: plan\_coverage.go, manual\_plan.go and the confirmation and adjustment of
    plans; a contract is never billed beyond its plans nor planned beyond its amount.
  \<^item> ImportRelease.thy, ImportProps.thy: import\_reconciliation.go, which reconciles the books of an imported
    contract with the approved amounts and releases it; only reconciled books are released, and every write
    in between asks for a new reconciliation.

  The ledger:
  \<^item> Ledger.thy, Finance.thy, CreditSync.thy: the commands of service.go, reversal.go, role\_finance.go,
    refund\_confirmation.go, credit\_sync.go and its worker.
  \<^item> LedgerInvariant.thy, LedgerSpec.thy, Replay.thy, FinanceProps.thy: the balance of the ledger over
    all runs of commands, its refinement to transfers between two columns, retries, differences,
    refunds and vouchers.

  Invoices:
  \<^item> InvoiceRules.thy, Invoicing.thy: settings and validation, then request, review, approval, manual
    registration, cancellation, recovery and red flush (invoice\_request.go, invoice\_action.go,
    invoice\_manual.go, invoice\_cancel.go, invoice\_recovery.go and their neighbours).
  \<^item> TaxCallback.thy: the results of the tax provider (tax\_callback.go). TaxReconcile.thy: the worker that asks for
    results that were not pushed (internal/taxreconcile); it claims an attempt before it asks and hands the answer to the same
    state machine.
  \<^item> InvoiceInvariant.thy, InvoiceRuns.thy, IssueOnce.thy, SystemRuns.thy: the invariants over runs that
    mix commands, results, inquiries, retries and worker passes; InvoiceSpec.thy refines each of them to a move
    of reserved and invoiced amounts; InvoiceProps.thy states what users rely on; ReconcileProps.thy shows
    that the inquiries come to an end.

  Delivery:
  \<^item> OutboxWorker.thy: leases, batches, requests, receipts, back-off and dead letters
    (internal/outbox). TaxDeadLetter.thy: both retries of a dead letter (outbox\_action.go,
    tax\_deadletter.go).
  \<^item> OutboxProps.thy: leases exclude each other, a worker that has lost its lease writes nothing (locale \<open>write_back\<close>,
    interpreted on both reports of a batch), only a receipt makes an event delivered. Refusals.thy: what a pass touches, and that an event that
    is always refused ends as a dead letter, for any batch size, any destinations beside its own and workers that die. DeadLetterProps.thy:
    no reminder of a contract that is on hold or was released again is delivered, and what the two retries check.

  Dunning:
  \<^item> Dunning.thy: policies, their coverage and the feedback on actions (dunning\_policy.go, dunning\_coverage.go,
    dunning\_action.go), and the scanner of overdue receivables (internal/dunning/scanner.go, overlap.go) with its four
    statements: close, open again, open, repeat. Each check of the licence is numbered, because it may expire in a pass.
  \<^item> RoleReminder.thy: the reminders to contract owners (internal/dunning/role\_reminder.go), which share the cases
    with the scanner.
  \<^item> DunningPasses.thy: runs that mix the passes of both workers with policies, feedback and a frame for the rest of the
    service; the locale \<open>pass_invariant\<close> carries an invariant from single statements to runs.
  \<^item> OneCase.thy interprets it for the invariant that one obligation has one active case, ScanProps.thy for the
    shape of the rows; ScanProps.thy also shows two ways in which the scanner stops serving receivables;
    DunningProps.thy and Coverage.thy: the gaps shown to operators are the ages for which the scanner has no policy.

  Samples.thy, InvoiceSamples.thy and DunningSamples.thy hold the stores of the witnesses.

  Bounds. No definition has fuel: loops of the code run over rows or over the text of a request
  and are structural recursion or come with a measure. The worker's attempts are bounded by the code's own
  limit of seven, and the measure of Refusals.thy adds up the attempts that are left; inquiries at the tax provider are bounded by the
  number of due attempts. Machine integers appear where the code converts text
  to them; amounts are exact rationals in the code and integers here.

  Not modelled: the HTTP layer, authentication, configuration and process wiring (network and
  environment), queries that only show data, reports and archives, project
  references, the handover of responsibilities, the baselines of native financial customers (of which the ledger uses the form of a
  customer number), the licence library, the widths of text columns beyond the
  checks in the code, and the isolation of concurrent transactions beyond the leases of the outbox: commands run one after the other.
\<close>

end
